(* ===== verification/Prelude.thy ===== *)
theory Prelude
  imports Main "HOL-Library.Word" "HOL-Library.AList" "HOL-Library.Multiset"
begin

text \<open>
  Shared vocabulary of the development: the Go notions every component uses
  (byte slices, maps, instants, errors, panics), and the generic lemmas about them.

  \<^item> \<open>[]byte\<close> is \<open>bytes\<close>, a list of 8-bit words.
  \<^item> \<open>map[K]V\<close> is \<open>gomap\<close>, an association list: \<open>map_of\<close> reads, \<open>AList.update\<close>
    assigns, \<open>length\<close> is \<open>len\<close>, and the list order is one iteration order.  Go leaves the
    iteration order unspecified; theorems quantify over every association list.  Where the
    program tests a map against \<open>nil\<close> the model has a \<open>gomap option\<close>.
  \<^item> \<open>time.Time\<close> is the integer number of nanoseconds since January 1, year 1, 00:00 UTC, the
    instant for which \<open>IsZero\<close> reports true.
  \<^item> \<open>error\<close> is the format string together with its arguments (\<open>Errorf\<close>), possibly
    wrapping another error (\<open>Wrapf\<close>, the \<open>%w\<close> verb).
  \<^item> A Go function that may panic returns \<open>panic + 'a\<close>.
\<close>

section \<open>Proof automation\<close>

named_theorems fsm_const \<open>the string constants naming states and events\<close>
named_theorems go_simps \<open>evaluation rules of the Go vocabulary\<close>

section \<open>Basic types\<close>

type_synonym bytes = "8 word list"
type_synonym ('k, 'v) gomap = "('k \<times> 'v) list"
type_synonym time = int
type_synonym State = string
type_synonym Event = string

datatype fmtarg = AStr string | AInt int

datatype error =
    Errorf string "fmtarg list"
  | Wrapf string "fmtarg list" error

abbreviation errorsNew :: "string \<Rightarrow> error" where
  "errorsNew msg \<equiv> Errorf msg []"

datatype panic =
    PanicMsg string "fmtarg list"
  | NilDeref
  | IndexOutOfRange

type_synonym 'a go = "panic + 'a"

section \<open>Sequencing of computations that may panic\<close>

definition bindR :: "'e + 'a \<Rightarrow> ('a \<Rightarrow> 'e + 'b) \<Rightarrow> 'e + 'b" where
  "bindR m k = (case m of Inl e \<Rightarrow> Inl e | Inr x \<Rightarrow> k x)"

lemma bindR_simps [simp, go_simps]:
  "bindR (Inl e) k = Inl e"
  "bindR (Inr x) k = k x"
  by (simp_all add: bindR_def)

lemma bindR_eq_Inr [simp]:
  "bindR m k = Inr y \<longleftrightarrow> (\<exists>x. m = Inr x \<and> k x = Inr y)"
  by (cases m) simp_all

definition deref :: "'a option \<Rightarrow> 'a go" where
  "deref x = (case x of None \<Rightarrow> Inl NilDeref | Some v \<Rightarrow> Inr v)"

lemma deref_simps [simp, go_simps]:
  "deref None = Inl NilDeref"
  "deref (Some v) = Inr v"
  by (simp_all add: deref_def)

lemma deref_eq_Inr [simp]: "deref x = Inr v \<longleftrightarrow> x = Some v"
  by (cases x) simp_all

fun foldR :: "('x \<Rightarrow> 's \<Rightarrow> 'e + 's) \<Rightarrow> 'x list \<Rightarrow> 's \<Rightarrow> 'e + 's" where
  "foldR f [] s = Inr s"
| "foldR f (x # xs) s = bindR (f x s) (foldR f xs)"

lemma foldR_append: "foldR f (xs @ ys) s = bindR (foldR f xs s) (foldR f ys)"
  by (induction xs arbitrary: s) (auto simp: bindR_def split: sum.splits)

lemma foldR_invariant:
  assumes "\<And>x s s'. x \<in> set xs \<Longrightarrow> I s \<Longrightarrow> f x s = Inr s' \<Longrightarrow> I s'"
    and "I s" and "foldR f xs s = Inr s'"
  shows "I s'"
  using assms
proof (induction xs arbitrary: s)
  case Nil
  then show ?case by simp
next
  case (Cons x xs)
  from Cons.prems(3) obtain t where t: "f x s = Inr t" "foldR f xs t = Inr s'"
    by auto
  have "I t" using Cons.prems(1)[of x s t] Cons.prems(2) t(1) by simp
  then show ?case using Cons.IH[of t] Cons.prems(1) t(2) by auto
qed

section \<open>Instants\<close>

definition IsZero :: "time \<Rightarrow> bool" where
  "IsZero t \<longleftrightarrow> t = 0"

definition Before :: "time \<Rightarrow> time \<Rightarrow> bool" where
  "Before t u \<longleftrightarrow> t < u"

definition Add :: "time \<Rightarrow> time \<Rightarrow> time" where
  "Add t d = t + d"

section \<open>Maps as association lists\<close>

abbreviation keys :: "('k, 'v) gomap \<Rightarrow> 'k list" where
  "keys m \<equiv> map fst m"

abbreviation vals :: "('k, 'v) gomap \<Rightarrow> 'v list" where
  "vals m \<equiv> map snd m"

abbreviation has_key :: "('k, 'v) gomap \<Rightarrow> 'k \<Rightarrow> bool" where
  "has_key m k \<equiv> map_of m k \<noteq> None"

text \<open>A map that may be \<open>nil\<close>: ranging over \<open>nil\<close> visits nothing.\<close>

definition entries :: "('k, 'v) gomap option \<Rightarrow> ('k, 'v) gomap" where
  "entries q = (case q of None \<Rightarrow> [] | Some m \<Rightarrow> m)"

lemma entries_simps [simp, go_simps]:
  "entries None = []"
  "entries (Some m) = m"
  by (simp_all add: entries_def)

definition map_vals :: "('k \<Rightarrow> 'v \<Rightarrow> 'w) \<Rightarrow> ('k, 'v) gomap \<Rightarrow> ('k, 'w) gomap" where
  "map_vals f m = map (\<lambda>(k, v). (k, f k v)) m"

lemma keys_map_vals [simp]: "keys (map_vals f m) = keys m"
  by (induction m) (auto simp: map_vals_def)

lemma length_map_vals [simp]: "length (map_vals f m) = length m"
  by (simp add: map_vals_def)

lemma map_of_map_vals [simp]: "map_of (map_vals f m) k = map_option (f k) (map_of m k)"
  by (induction m) (auto simp: map_vals_def)

lemma map_vals_simps [simp]:
  "map_vals f [] = []"
  "map_vals f ((k, v) # m) = (k, f k v) # map_vals f m"
  by (simp_all add: map_vals_def)

lemma set_map_vals: "set (map_vals f m) = (\<lambda>(k, v). (k, f k v)) ` set m"
  by (simp add: map_vals_def)

lemma map_vals_map_vals: "map_vals f (map_vals g m) = map_vals (\<lambda>k. f k \<circ> g k) m"
  by (induction m) auto

lemma fst_set_update [simp]: "fst ` set (AList.update k v m) = insert k (fst ` set m)"
  by (simp add: dom_update)

lemma has_key_keys: "has_key m k \<longleftrightarrow> k \<in> set (keys m)"
  by (metis map_of_eq_None_iff set_map)

lemma keys_update:
  "keys (AList.update k v m) = (if k \<in> set (keys m) then keys m else keys m @ [k])"
  by (simp add: update_keys)

lemma keys_update_has_key: "has_key m k \<Longrightarrow> keys (AList.update k v m) = keys m"
  using has_key_keys[of m k] keys_update[of k v m] by auto

lemma length_update_has_key: "has_key m k \<Longrightarrow> length (AList.update k v m) = length m"
  using keys_update_has_key[of m k v] by (metis length_map)

lemma map_of_update [simp]: "map_of (AList.update k v m) = (map_of m)(k \<mapsto> v)"
  by (simp add: update_conv')

lemma mem_update:
  assumes "distinct (keys m)"
  shows "(k', v') \<in> set (AList.update k v m) \<longleftrightarrow>
    (if k' = k then v' = v else (k', v') \<in> set m)"
proof -
  have "distinct (keys (AList.update k v m))" using assms by (rule distinct_update)
  then have "(k', v') \<in> set (AList.update k v m) \<longleftrightarrow>
      ((map_of m)(k \<mapsto> v)) k' = Some v'"
    using map_of_eq_Some_iff[of "AList.update k v m" k' v'] by (simp only: map_of_update)
  then show ?thesis using assms by (auto simp: map_of_eq_Some_iff)
qed

lemma update_fresh: "\<not> has_key m k \<Longrightarrow> AList.update k v m = m @ [(k, v)]"
  by (induction m) (auto split: if_splits)

lemma list_all_update: "list_all P m \<Longrightarrow> P (k, v) \<Longrightarrow> list_all P (AList.update k v m)"
  by (induction m) auto

section \<open>Counting map entries\<close>

definition count_vals :: "('v \<Rightarrow> bool) \<Rightarrow> ('k, 'v) gomap \<Rightarrow> nat" where
  "count_vals P m = length (filter (P \<circ> snd) m)"

lemma count_vals_simps [simp]:
  "count_vals P [] = 0"
  "count_vals P ((k, v) # m) = (if P v then Suc (count_vals P m) else count_vals P m)"
  by (simp_all add: count_vals_def)

lemma count_vals_le: "count_vals P m \<le> length m"
  by (simp add: count_vals_def)

lemma count_vals_all: "count_vals P m = length m \<longleftrightarrow> (\<forall>(k, v) \<in> set m. P v)"
proof (induction m)
  case Nil
  then show ?case by simp
next
  case (Cons kv m)
  then show ?case
    using count_vals_le[of P m] by (cases kv) auto
qed

lemma count_vals_update:
  assumes "map_of m k = Some v"
  shows "count_vals P (AList.update k w m) + (if P v then 1 else 0) =
    count_vals P m + (if P w then 1 else 0)"
  using assms
  by (induction m) (auto split: if_splits)

lemma count_vals_disjoint:
  assumes "\<And>v. \<not> (P v \<and> Q v)"
  shows "count_vals P m + count_vals Q m \<le> length m"
proof (induction m)
  case Nil
  then show ?case by simp
next
  case (Cons kv m)
  then show ?case using assms[of "snd kv"] by (cases kv) auto
qed

lemma count_vals_map_vals:
  "count_vals P (map_vals f m) = length (filter (\<lambda>(k, v). P (f k v)) m)"
  by (induction m) auto

section \<open>Decreasing a counter while ranging over a map\<close>

text \<open>
  Several callbacks start from the number of entries and decrement it for every confirmed
  participant while a second variable records whether some participant failed.
\<close>

lemma fold_decrement:
  "fold (\<lambda>(k, v) n. if P v then n - 1 else n) m (c::int) = c - int (count_vals P m)"
  by (induction m arbitrary: c) auto

lemma fold_flag: "fold (\<lambda>(k, v) b. if P v then True else b) m b0 \<longleftrightarrow> b0 \<or> (\<exists>(k, v) \<in> set m. P v)"
  by (induction m arbitrary: b0) auto

section \<open>Sorted traversal\<close>

lemma sorted_keys_unique:
  "distinct (keys m) \<Longrightarrow> set (sort (keys m)) = fst ` set m \<and> distinct (sort (keys m))"
  by simp

text \<open>
  The validations range over a quorum once, counting the confirmed entries down from the
  quorum's size and recording whether some entry failed.
\<close>

lemma fold_confirmed_first:
  assumes "a \<noteq> b"
  shows "fold (\<lambda>(k, v) (n, d). if st v = a then (n - 1, d) else if st v = b then (n, True)
      else (n, d)) m (c::int, d0) =
    (c - int (count_vals (\<lambda>v. st v = a) m), d0 \<or> list_ex (\<lambda>v. st v = b) (vals m))"
  using assms by (induction m arbitrary: c d0) auto

lemma fold_failed_first:
  assumes "a \<noteq> b"
  shows "fold (\<lambda>(k, v) (n, d). if st v = b then (n, True) else if st v = a then (n - 1, d)
      else (n, d)) m (c::int, d0) =
    (c - int (count_vals (\<lambda>v. st v = a) m), d0 \<or> list_ex (\<lambda>v. st v = b) (vals m))"
  using assms by (induction m arbitrary: c d0) auto

lemma none_unconfirmed:
  "int (length m) - int (count_vals P m) > 0 \<longleftrightarrow> \<not> list_all P (vals m)"
proof -
  have "count_vals P m = length m \<longleftrightarrow> list_all P (vals m)"
    by (auto simp: count_vals_all list_all_iff)
  then show ?thesis using count_vals_le[of P m] by linarith
qed

text \<open>Updates that leave a projection of the entries alone.\<close>

lemma map_update_same:
  "map_of m k = Some v \<Longrightarrow> f (k, w) = f (k, v) \<Longrightarrow> map f (AList.update k w m) = map f m"
  by (induction m) (auto split: if_splits)

lemma list_all_vals_update:
  "list_all P (vals m) \<Longrightarrow> P v \<Longrightarrow> list_all P (vals (AList.update k v m))"
  by (induction m) auto

lemma list_all_vals_map_vals: "list_all P (vals (map_vals f m)) = list_all (\<lambda>(k, v). P (f k v)) m"
  by (induction m) auto

lemma list_all_valsD: "list_all P (vals m) \<Longrightarrow> map_of m k = Some v \<Longrightarrow> P v"
  by (force simp: list_all_iff dest: map_of_SomeD)

lemma map_of_projections:
  "distinct (map g m) \<Longrightarrow> x \<in> set m \<Longrightarrow> map_of (map (\<lambda>x. (g x, h x)) m) (g x) = Some (h x)"
  by (induction m) (auto, metis imageI)

text \<open>Filling a map in a loop over another map.\<close>

lemma fold_update_fresh:
  assumes "distinct (keys m)" and "set (keys m) \<inter> set (keys acc) = {}"
  shows "fold (\<lambda>(k, v). AList.update k (g k v)) m acc = acc @ map_vals g m"
  using assms
proof (induction m arbitrary: acc)
  case (Cons kv m)
  obtain k v where kv: "kv = (k, v)" by fastforce
  have "\<not> has_key acc k" using Cons.prems(2) unfolding has_key_keys kv by auto
  then show ?case using Cons.IH[of "acc @ [(k, g k v)]"] Cons.prems by (auto simp: kv update_fresh)
qed simp

lemma foldR_append_map:
  "foldR (\<lambda>x acc. Inr (acc @ [h x])) xs acc = Inr (acc @ map h xs)"
  by (induction xs arbitrary: acc) simp_all

lemma lookup_keys: "distinct (keys m) \<Longrightarrow> map (\<lambda>k. the (map_of m k)) (keys m) = vals m"
  by (auto simp: map_of_eq_Some_iff intro!: map_cong)

end
