(* ===== verification/Fsm.thy ===== *)
theory Fsm
  imports Prelude
begin

text \<open>
  The generic finite state machine of \<open>src/fsm/fsm/fsm.go\<close>: construction with all its checks
  (\<open>MustNewFSM\<close>), the event dispatcher (\<open>Do\<close>, \<open>do\<close>, \<open>processAutoEvent\<close>, \<open>SetState\<close>) and the
  queries used by the machines pool.  A machine is a record of its tables and its current
  state.  The callbacks are methods of a struct that also holds the machine's payload; in the
  model a callback takes the payload and returns it updated.  The type parameters are the type
  of the callback arguments (\<open>'a\<close>), of the response data (\<open>'r\<close>) and of the payload (\<open>'p\<close>).
  The mutex \<open>stateMu\<close> is not modelled: the model is of one call at a time.
\<close>

section \<open>Data\<close>

definition StateGlobalIdle :: State where [fsm_const]:
  "StateGlobalIdle = ''__idle''"

definition StateGlobalDone :: State where [fsm_const]:
  "StateGlobalDone = ''__done''"

datatype EventRunMode = EventRunDefault | EventRunBefore | EventRunAfter

record 'r Response =
  resp_State :: State
  resp_Data :: "'r option"

record trEvent =
  tr_event :: Event
  tr_dstState :: State
  tr_isInternal :: bool
  tr_isAuto :: bool
  tr_runMode :: EventRunMode

record EventDesc =
  ed_Name :: Event
  ed_SrcState :: "State list"
  ed_DstState :: State
  ed_IsInternal :: bool
  ed_IsAuto :: bool
  ed_AutoRunMode :: EventRunMode

type_synonym 'r cb_out = "Event \<times> 'r option \<times> error option"
type_synonym ('a, 'r, 'p) Callback = "Event \<Rightarrow> 'a list \<Rightarrow> 'p \<Rightarrow> ('r cb_out \<times> 'p) go"

record ('a, 'r, 'p) FSM =
  fsm_name :: string
  fsm_initialState :: State
  fsm_currentState :: State
  fsm_transitions :: "(State \<times> Event, trEvent) gomap"
  fsm_autoTransitions :: "(State \<times> EventRunMode, trEvent) gomap"
  fsm_callbacks :: "(Event, ('a, 'r, 'p) Callback) gomap"
  fsm_initialEvent :: Event
  fsm_finStates :: "(State, bool) gomap"

definition Event_IsEmpty :: "Event \<Rightarrow> bool" where
  "Event_IsEmpty e \<longleftrightarrow> e = ''''"

section \<open>Construction\<close>

text \<open>
  The loop of \<open>MustNewFSM\<close> over the event descriptions keeps the machine under construction
  and the three sets \<open>allEvents\<close>, \<open>allSources\<close>, \<open>allStates\<close>; the inner loop over the source
  states also counts the non-empty ones and may set the run mode of an auto event.
\<close>

record ('a, 'r, 'p) builder =
  b_fsm :: "('a, 'r, 'p) FSM"
  b_allEvents :: "(Event, bool) gomap"
  b_allSources :: "(State, bool) gomap"
  b_allStates :: "(State, bool) gomap"

definition addSource ::
  "State \<Rightarrow> State \<Rightarrow> ('a, 'r, 'p) builder \<times> EventDesc \<times> nat \<Rightarrow>
   (('a, 'r, 'p) builder \<times> EventDesc \<times> nat) go"
where
  "addSource initialState sourceState s = (case s of (b, event, counter) \<Rightarrow>
    if sourceState = '''' then Inr (b, event, counter)
    else let tKey = (sourceState, ed_Name event); f = b_fsm b in
    if sourceState = StateGlobalDone
    then Inl (PanicMsg ''StateGlobalDone cannot set as source state'' [])
    else if has_key (fsm_transitions f) tKey
    then Inl (PanicMsg ''duplicate dst for pair `source + event`'' [])
    else
      let event = (if ed_IsAuto event \<and> ed_AutoRunMode event = EventRunDefault
                   then event\<lparr>ed_AutoRunMode := EventRunAfter\<rparr> else event);
          tr = \<lparr>tr_event = ed_Name event, tr_dstState = ed_DstState event,
                tr_isInternal = ed_IsInternal event, tr_isAuto = ed_IsAuto event,
                tr_runMode = ed_AutoRunMode event\<rparr>;
          f = f\<lparr>fsm_transitions := AList.update tKey tr (fsm_transitions f)\<rparr>;
          f = (if sourceState = initialState \<and> fsm_initialEvent f = ''''
               then f\<lparr>fsm_initialEvent := ed_Name event\<rparr> else f);
          trAutoKey = (sourceState, ed_AutoRunMode event);
          done = (\<lambda>f. Inr (b\<lparr>b_fsm := f,
                     b_allSources := AList.update sourceState True (b_allSources b)\<rparr>,
                   event, Suc counter))
      in
      if ed_IsAuto event then
        if ed_AutoRunMode event \<noteq> EventRunBefore \<and> ed_AutoRunMode event \<noteq> EventRunAfter
        then Inl (PanicMsg ''{AutoRunMode} not set for auto event'' [])
        else if has_key (fsm_autoTransitions f) trAutoKey
        then Inl (PanicMsg ''auto event \"%s\" already exists for state \"%s\"''
               [AStr (ed_Name event), AStr sourceState])
        else done (f\<lparr>fsm_autoTransitions := AList.update trAutoKey tr (fsm_autoTransitions f)\<rparr>)
      else done f)"

definition addEvent ::
  "State \<Rightarrow> EventDesc \<Rightarrow> ('a, 'r, 'p) builder \<Rightarrow> (('a, 'r, 'p) builder) go"
where
  "addEvent initialState event b =
    (if ed_Name event = '''' then Inl (PanicMsg ''cannot init empty event'' [])
     else if ed_DstState event = ''''
     then Inl (PanicMsg ''event dest cannot be empty, use StateGlobalDone for finish or external state'' [])
     else if has_key (b_allEvents b) (ed_Name event)
     then Inl (PanicMsg ''duplicate event \"%s\"'' [AStr (ed_Name event)])
     else
       let b = b\<lparr>b_allEvents := AList.update (ed_Name event) True (b_allEvents b),
                 b_allStates := AList.update (ed_DstState event) True (b_allStates b)\<rparr>
       in bindR (foldR (addSource initialState) (ed_SrcState event) (b, event, 0))
            (\<lambda>(b, event, trimmedSourcesCounter).
               if trimmedSourcesCounter = 0
               then Inl (PanicMsg ''event must have minimum one source available state'' [])
               else Inr b))"

definition addCallback ::
  "(Event, bool) gomap \<Rightarrow> Event \<times> ('a, 'r, 'p) Callback \<Rightarrow>
   ('a, 'r, 'p) FSM \<Rightarrow> (('a, 'r, 'p) FSM) go"
where
  "addCallback allEvents ec f = (case ec of (event, callback) \<Rightarrow>
     if event = '''' then Inl (PanicMsg ''callback machineName cannot be empty'' [])
     else if \<not> has_key allEvents event
     then Inl (PanicMsg ''callback has unused event \"%s\"'' [AStr event])
     else Inr (f\<lparr>fsm_callbacks := AList.update event callback (fsm_callbacks f)\<rparr>))"

definition addFinState ::
  "(State, bool) gomap \<Rightarrow> State \<Rightarrow> (State, bool) gomap \<Rightarrow> (State, bool) gomap"
where
  "addFinState allSources state fins =
    (if state = StateGlobalIdle then fins
     else if \<not> has_key allSources state \<or> state = StateGlobalDone
     then AList.update state True fins else fins)"

definition MustNewFSM ::
  "string \<Rightarrow> State \<Rightarrow> EventDesc list \<Rightarrow> (Event, ('a, 'r, 'p) Callback) gomap \<Rightarrow>
   (('a, 'r, 'p) FSM) go"
where
  "MustNewFSM machineName initialState events callbacks =
    (if machineName = '''' then Inl (PanicMsg ''machine name cannot be empty'' [])
     else if initialState = '''' then Inl (PanicMsg ''initial state state cannot be empty'' [])
     else if length events = 0 then Inl (PanicMsg ''cannot init fsm with empty events'' [])
     else
       let f = \<lparr>fsm_name = machineName, fsm_initialState = initialState,
                fsm_currentState = initialState, fsm_transitions = [],
                fsm_autoTransitions = [], fsm_callbacks = [], fsm_initialEvent = '''',
                fsm_finStates = []\<rparr>
       in bindR (foldR (addEvent initialState) events
                  \<lparr>b_fsm = f, b_allEvents = [], b_allSources = [], b_allStates = []\<rparr>)
            (\<lambda>b. if length (b_allStates b) < 2
                 then Inl (PanicMsg ''machine must contain at least two states'' [])
                 else bindR (foldR (addCallback (b_allEvents b)) callbacks (b_fsm b))
                   (\<lambda>f. Inr (f\<lparr>fsm_finStates :=
                      fold (addFinState (b_allSources b)) (keys (b_allStates b)) []\<rparr>))))"

section \<open>Queries\<close>

definition Name :: "('a, 'r, 'p) FSM \<Rightarrow> string" where
  "Name f = fsm_name f"

definition InitialState :: "('a, 'r, 'p) FSM \<Rightarrow> State" where
  "InitialState f = fsm_initialState f"

definition currentState :: "('a, 'r, 'p) FSM \<Rightarrow> State" where
  "currentState f = fsm_currentState f"

definition GlobalInitialEvent :: "('a, 'r, 'p) FSM \<Rightarrow> Event" where
  "GlobalInitialEvent f =
    (case map_of (fsm_transitions f) (StateGlobalIdle, fsm_initialEvent f) of
       None \<Rightarrow> ''''
     | Some tr \<Rightarrow> if \<not> tr_isInternal tr then fsm_initialEvent f else '''')"

definition EntryEvent :: "('a, 'r, 'p) FSM \<Rightarrow> Event" where
  "EntryEvent f =
    (case map_of (fsm_transitions f) (fsm_initialState f, fsm_initialEvent f) of
       None \<Rightarrow> ''''
     | Some tr \<Rightarrow> if \<not> tr_isInternal tr then fsm_initialEvent f else '''')"

text \<open>
  In \<open>EventsList\<close> the test inside the first loop looks a key up right after inserting it, so
  that branch never runs: the result lists the keys of the collected map.
\<close>

definition EventsList :: "('a, 'r, 'p) FSM \<Rightarrow> Event list" where
  "EventsList f = keys (fold (\<lambda>((source, event), tr) m.
     if \<not> tr_isInternal tr then AList.update event True m else m) (fsm_transitions f) [])"

definition StatesList :: "('a, 'r, 'p) FSM \<Rightarrow> State list" where
  "StatesList f = keys (fold (\<lambda>((source, event), tr) m. AList.update source True m)
     (fsm_transitions f) [])"

definition IsFinState :: "('a, 'r, 'p) FSM \<Rightarrow> State \<Rightarrow> bool" where
  "IsFinState f state \<longleftrightarrow> has_key (fsm_finStates f) state"

definition isCallbackExists :: "('a, 'r, 'p) FSM \<Rightarrow> Event \<Rightarrow> bool" where
  "isCallbackExists f event \<longleftrightarrow> has_key (fsm_callbacks f) event"

section \<open>Execution\<close>

definition MustCopyWithState :: "State \<Rightarrow> ('a, 'r, 'p) FSM \<Rightarrow> (('a, 'r, 'p) FSM) go" where
  "MustCopyWithState state f =
    (if state \<noteq> '''' then
       if state \<notin> set (StatesList f)
       then Inl (PanicMsg ''cannot set state, not exists  \"%s\" for \"%s\"''
              [AStr state, AStr (fsm_name f)])
       else Inr (f\<lparr>fsm_currentState := state\<rparr>)
     else Inr f)"

definition SetState ::
  "Event \<Rightarrow> ('a, 'r, 'p) FSM \<Rightarrow> error option \<times> ('a, 'r, 'p) FSM"
where
  "SetState event f =
    (case map_of (fsm_transitions f) (fsm_currentState f, event) of
       None \<Rightarrow> (Some (Errorf ''cannot set state by event \"%s\" for state \"%s\"''
                  [AStr event, AStr (fsm_currentState f)]), f)
     | Some tr \<Rightarrow> (None, f\<lparr>fsm_currentState := tr_dstState tr\<rparr>))"

definition execCallback ::
  "('a, 'r, 'p) FSM \<Rightarrow> Event \<Rightarrow> 'a list \<Rightarrow> 'p \<Rightarrow> ('r cb_out \<times> 'p) go"
where
  "execCallback f event args p =
    (case map_of (fsm_callbacks f) event of
       None \<Rightarrow> Inl NilDeref
     | Some callback \<Rightarrow> callback event args p)"

text \<open>
  The choice made twice by the dispatcher: follow the callback's out event, or the event
  itself when the callback returned none.
\<close>

definition nextState ::
  "Event \<Rightarrow> Event \<Rightarrow> ('a, 'r, 'p) FSM \<Rightarrow> error option \<times> ('a, 'r, 'p) FSM"
where
  "nextState event outEvent f =
    (if Event_IsEmpty outEvent \<or> event = outEvent then SetState event f else SetState outEvent f)"

text \<open>
  \<open>processAutoEvent\<close> returns \<open>(exists, outEvent, response, err)\<close>, the machine and the payload.
\<close>

definition processAutoEvent ::
  "EventRunMode \<Rightarrow> 'a list \<Rightarrow> ('a, 'r, 'p) FSM \<Rightarrow> 'p \<Rightarrow>
   ((bool \<times> Event \<times> 'r option \<times> error option) \<times> ('a, 'r, 'p) FSM \<times> 'p) go"
where
  "processAutoEvent mode args f p =
    (case map_of (fsm_autoTransitions f) (currentState f, mode) of
       None \<Rightarrow> Inr ((False, '''', None, None), f, p)
     | Some autoEvent \<Rightarrow>
         bindR (if isCallbackExists f (tr_event autoEvent)
                then execCallback f (tr_event autoEvent) args p
                else Inr (('''', None, None), p))
           (\<lambda>((outEvent, response, err), p).
              case err of
                Some e \<Rightarrow> Inr ((True, '''', response, Some e), f, p)
              | None \<Rightarrow>
                  (case nextState (tr_event autoEvent) outEvent f of (err, f) \<Rightarrow>
                     Inr ((True, outEvent, response, err), f, p))))"

definition afterAuto ::
  "bool \<Rightarrow> 'r option \<Rightarrow> ('a, 'r, 'p) FSM \<Rightarrow> 'r Response \<Rightarrow> 'r Response"
where
  "afterAuto executed data f resp =
    (if executed
     then (let resp = resp\<lparr>resp_State := currentState f\<rparr> in
           case data of None \<Rightarrow> resp | Some d \<Rightarrow> resp\<lparr>resp_Data := Some d\<rparr>)
     else resp)"

text \<open>
  \<open>do\<close> in three parts, in the source's order: the auto event that runs before, the event's
  callback, and from the comment "Set state when callback executed" to the end.
\<close>

definition do_finish ::
  "Event \<Rightarrow> 'a list \<Rightarrow> Event \<Rightarrow> 'r Response \<Rightarrow> ('a, 'r, 'p) FSM \<Rightarrow> 'p \<Rightarrow>
   (('r Response option \<times> error option) \<times> ('a, 'r, 'p) FSM \<times> 'p) go"
where
  "do_finish event args outEvent resp f p =
    (case nextState event outEvent f of
       (Some e, f) \<Rightarrow> Inr ((Some resp, Some e), f, p)
     | (None, f) \<Rightarrow>
         let resp = resp\<lparr>resp_State := currentState f\<rparr>
         in bindR (processAutoEvent EventRunAfter args f p)
              (\<lambda>((executed, _, data, err), f, p).
                 let resp = afterAuto executed data f resp
                 in if executed \<and> err \<noteq> None then Inr ((Some resp, err), f, p)
                    else Inr ((Some (resp\<lparr>resp_State := currentState f\<rparr>), err), f, p)))"

definition do_callback ::
  "Event \<Rightarrow> 'a list \<Rightarrow> Event \<Rightarrow> 'r Response \<Rightarrow> ('a, 'r, 'p) FSM \<Rightarrow> 'p \<Rightarrow>
   (('r Response option \<times> error option) \<times> ('a, 'r, 'p) FSM \<times> 'p) go"
where
  "do_callback event args outEvent resp f p =
    (if isCallbackExists f event
     then bindR (execCallback f event args p) (\<lambda>((outEvent, data, err), p).
            let resp = resp\<lparr>resp_Data := data\<rparr> in
            case err of
              Some e \<Rightarrow> Inr ((Some resp, Some e), f, p)
            | None \<Rightarrow> do_finish event args outEvent resp f p)
     else do_finish event args outEvent resp f p)"

definition FSM_do ::
  "trEvent \<Rightarrow> 'a list \<Rightarrow> ('a, 'r, 'p) FSM \<Rightarrow> 'p \<Rightarrow>
   (('r Response option \<times> error option) \<times> ('a, 'r, 'p) FSM \<times> 'p) go"
where
  "FSM_do tr args f p =
    bindR (processAutoEvent EventRunBefore args f p) (\<lambda>((executed, outEvent, data, err), f, p).
      let resp = afterAuto executed data f \<lparr>resp_State = '''', resp_Data = None\<rparr> in
      if executed \<and> err \<noteq> None then Inr ((Some resp, err), f, p)
      else do_callback (tr_event tr) args outEvent resp f p)"

definition FSM_Do ::
  "Event \<Rightarrow> 'a list \<Rightarrow> ('a, 'r, 'p) FSM \<Rightarrow> 'p \<Rightarrow>
   (('r Response option \<times> error option) \<times> ('a, 'r, 'p) FSM \<times> 'p) go"
where
  "FSM_Do event args f p =
    (case map_of (fsm_transitions f) (fsm_currentState f, event) of
       None \<Rightarrow> Inr ((None, Some (Errorf ''cannot execute event \"%s\" for state \"%s\"''
                 [AStr event, AStr (fsm_currentState f)])), f, p)
     | Some tr \<Rightarrow>
         if tr_isInternal tr then Inr ((None, Some (errorsNew ''event is internal'')), f, p)
         else FSM_do tr args f p)"

section \<open>What a successful construction guarantees\<close>

text \<open>
  The well-formedness of a machine: unique \<open>(source, event)\<close> keys, no empty and no final source,
  every auto transition is also an ordinary transition, and no final state is a source.
\<close>

definition tr_ok :: "(State \<times> Event) \<times> trEvent \<Rightarrow> bool" where
  "tr_ok x \<longleftrightarrow> (case x of ((source, event), tr) \<Rightarrow>
     source \<noteq> '''' \<and> source \<noteq> StateGlobalDone \<and> event \<noteq> '''' \<and>
     tr_event tr = event \<and> tr_dstState tr \<noteq> '''')"

definition auto_ok :: "('a, 'r, 'p) FSM \<Rightarrow> (State \<times> EventRunMode) \<times> trEvent \<Rightarrow> bool" where
  "auto_ok f x \<longleftrightarrow> (case x of ((source, mode), tr) \<Rightarrow>
     map_of (fsm_transitions f) (source, tr_event tr) = Some tr \<and> tr_isAuto tr \<and>
     tr_runMode tr = mode \<and> mode \<noteq> EventRunDefault)"

definition fsm_tables_ok :: "('a, 'r, 'p) FSM \<Rightarrow> bool" where
  "fsm_tables_ok f \<longleftrightarrow>
     distinct (keys (fsm_transitions f)) \<and> list_all tr_ok (fsm_transitions f) \<and>
     distinct (keys (fsm_autoTransitions f)) \<and> list_all (auto_ok f) (fsm_autoTransitions f)"

definition fins_ok :: "('a, 'r, 'p) FSM \<Rightarrow> bool" where
  "fins_ok f \<longleftrightarrow> list_all (\<lambda>s. s \<notin> set (StatesList f)) (keys (fsm_finStates f))"

definition fsm_wf :: "('a, 'r, 'p) FSM \<Rightarrow> bool" where
  "fsm_wf f \<longleftrightarrow> fsm_tables_ok f \<and> fins_ok f"

lemma auto_ok_mono:
  assumes "auto_ok f x" and "map_of (fsm_transitions f) \<subseteq>\<^sub>m map_of (fsm_transitions g)"
  shows "auto_ok g x"
proof -
  have "map_of (fsm_transitions g) k = Some tr" if "map_of (fsm_transitions f) k = Some tr" for k tr
    using assms(2) that by (metis domI map_le_def)
  then show ?thesis using assms(1) by (auto simp: auto_ok_def split: prod.splits)
qed

lemma set_StatesList: "set (StatesList f) = fst ` set (keys (fsm_transitions f))"
proof -
  have "fst ` set (fold (\<lambda>((source, event), tr) m. AList.update source True m) xs m) =
      fst ` set m \<union> fst ` fst ` set xs" for xs :: "(State \<times> Event, trEvent) gomap" and m
  proof (induction xs arbitrary: m)
    case (Cons x xs)
    obtain s e tr where x: "x = ((s, e), tr)" by (metis surj_pair)
    show ?case unfolding x fold.simps comp_def case_prod_conv Cons.IH by auto
  qed simp
  then show ?thesis by (simp add: StatesList_def)
qed

lemma set_EventsList:
  "set (EventsList f) = {e. \<exists>s tr. ((s, e), tr) \<in> set (fsm_transitions f) \<and> \<not> tr_isInternal tr}"
proof -
  have "fst ` set (fold (\<lambda>((source, event), tr) m.
          if \<not> tr_isInternal tr then AList.update event True m else m) xs m) =
      fst ` set m \<union> {e. \<exists>s tr. ((s, e), tr) \<in> set xs \<and> \<not> tr_isInternal tr}"
    for xs :: "(State \<times> Event, trEvent) gomap" and m
  proof (induction xs arbitrary: m)
    case (Cons x xs)
    obtain s e tr where x: "x = ((s, e), tr)" by (metis surj_pair)
    show ?case unfolding x fold.simps comp_def case_prod_conv Cons.IH by auto
  qed simp
  then show ?thesis by (simp add: EventsList_def)
qed

text \<open>One inner iteration: the tables stay well formed and \<open>allSources\<close> lists the sources.\<close>

definition builder_ok :: "('a, 'r, 'p) builder \<Rightarrow> bool" where
  "builder_ok b \<longleftrightarrow> fsm_tables_ok (b_fsm b) \<and>
     set (keys (b_allSources b)) = fst ` set (keys (fsm_transitions (b_fsm b)))"

lemma tables_ok_add_transition:
  assumes "fsm_tables_ok f" and "\<not> has_key (fsm_transitions f) (s, e)" and "tr_ok ((s, e), tr)"
  shows "fsm_tables_ok (f\<lparr>fsm_transitions := AList.update (s, e) tr (fsm_transitions f)\<rparr>)"
proof -
  let ?g = "f\<lparr>fsm_transitions := AList.update (s, e) tr (fsm_transitions f)\<rparr>"
  have mono: "map_of (fsm_transitions f) \<subseteq>\<^sub>m map_of (fsm_transitions ?g)"
    using assms(2) by (auto simp: map_le_def)
  have "list_all (auto_ok ?g) (fsm_autoTransitions f)"
    using assms(1) auto_ok_mono[OF _ mono] by (auto simp: fsm_tables_ok_def list_all_iff)
  then show ?thesis
    using assms by (auto simp: fsm_tables_ok_def update_fresh map_of_eq_None_iff)
qed

lemma tables_ok_add_auto:
  assumes "fsm_tables_ok f" and "auto_ok f ((s, m), tr)"
  shows "fsm_tables_ok (f\<lparr>fsm_autoTransitions := AList.update (s, m) tr (fsm_autoTransitions f)\<rparr>)"
proof -
  have "auto_ok (f\<lparr>fsm_autoTransitions := xs\<rparr>) = auto_ok f" for xs
    by (auto simp: auto_ok_def fun_eq_iff)
  then show ?thesis
    using assms by (simp add: fsm_tables_ok_def distinct_update list_all_update)
qed

lemma tables_ok_frame [simp]:
  "fsm_tables_ok (f\<lparr>fsm_initialEvent := e\<rparr>) = fsm_tables_ok f"
  "fsm_tables_ok (f\<lparr>fsm_callbacks := c\<rparr>) = fsm_tables_ok f"
  "fsm_tables_ok (f\<lparr>fsm_finStates := n\<rparr>) = fsm_tables_ok f"
  "fsm_tables_ok (f\<lparr>fsm_currentState := s\<rparr>) = fsm_tables_ok f"
  by (simp_all add: fsm_tables_ok_def auto_ok_def [abs_def])

lemma addSource_ok:
  assumes ok: "builder_ok b" and name: "ed_Name event \<noteq> ''''" "ed_DstState event \<noteq> ''''"
    and res: "addSource i s (b, event, c) = Inr (b', event', c')"
  shows "builder_ok b' \<and> ed_Name event' = ed_Name event \<and> ed_DstState event' = ed_DstState event \<and>
    b_allEvents b' = b_allEvents b \<and> b_allStates b' = b_allStates b"
proof (cases "s = ''''")
  case True
  with ok res show ?thesis by (simp add: addSource_def)
next
  case False
  define ev where "ev = (if ed_IsAuto event \<and> ed_AutoRunMode event = EventRunDefault
                   then event\<lparr>ed_AutoRunMode := EventRunAfter\<rparr> else event)"
  define tr where "tr = \<lparr>tr_event = ed_Name ev, tr_dstState = ed_DstState ev,
      tr_isInternal = ed_IsInternal ev, tr_isAuto = ed_IsAuto ev, tr_runMode = ed_AutoRunMode ev\<rparr>"
  define f1 where "f1 = (b_fsm b)\<lparr>fsm_transitions :=
      AList.update (s, ed_Name ev) tr (fsm_transitions (b_fsm b))\<rparr>"
  define f2 where "f2 = (if s = i \<and> fsm_initialEvent f1 = ''''
      then f1\<lparr>fsm_initialEvent := ed_Name ev\<rparr> else f1)"
  have ev: "ed_Name ev = ed_Name event" "ed_DstState ev = ed_DstState event"
    by (simp_all add: ev_def)
  note defs = ev_def[symmetric] tr_def[symmetric] f1_def[symmetric] f2_def[symmetric]
  from res False have guards: "s \<noteq> StateGlobalDone"
      "\<not> has_key (fsm_transitions (b_fsm b)) (s, ed_Name ev)"
    by (auto simp: addSource_def Let_def ev split: if_splits)
  have f1: "fsm_tables_ok f1"
    using ok guards False name ev unfolding f1_def builder_ok_def
    by (intro tables_ok_add_transition) (auto simp: tr_ok_def tr_def)
  have f2: "fsm_tables_ok f2" "fsm_transitions f2 = fsm_transitions f1"
    using f1 by (simp_all add: f2_def)
  have tr2: "map_of (fsm_transitions f2) (s, tr_event tr) = Some tr"
    by (simp add: f2 f1_def tr_def)
  have src: "set (keys (AList.update s True (b_allSources b))) =
      fst ` set (keys (fsm_transitions f2))"
    using ok by (simp add: builder_ok_def f2 f1_def image_image[symmetric])
  have "event' = ev \<and> (\<exists>g. b' = b\<lparr>b_fsm := g,
          b_allSources := AList.update s True (b_allSources b)\<rparr> \<and>
        (g = f2 \<or> ed_IsAuto ev \<and> ed_AutoRunMode ev \<noteq> EventRunDefault \<and>
         g = f2\<lparr>fsm_autoTransitions :=
           AList.update (s, ed_AutoRunMode ev) tr (fsm_autoTransitions f2)\<rparr>))"
    using res False guards unfolding addSource_def Let_def prod.case defs ev(1)[symmetric]
    by (auto simp: defs ev split: if_splits)
  then obtain g where g: "event' = ev" "b' = b\<lparr>b_fsm := g,
          b_allSources := AList.update s True (b_allSources b)\<rparr>"
    "g = f2 \<or> ed_IsAuto ev \<and> ed_AutoRunMode ev \<noteq> EventRunDefault \<and>
         g = f2\<lparr>fsm_autoTransitions :=
           AList.update (s, ed_AutoRunMode ev) tr (fsm_autoTransitions f2)\<rparr>" by blast
  have "auto_ok f2 ((s, ed_AutoRunMode ev), tr)"
    if "ed_IsAuto ev" "ed_AutoRunMode ev \<noteq> EventRunDefault"
    using that tr2 by (simp add: auto_ok_def tr_def)
  then have "fsm_tables_ok g \<and> fsm_transitions g = fsm_transitions f2"
    using g(3) f2(1) by (auto intro: tables_ok_add_auto)
  then show ?thesis using g(1,2) src ev by (simp add: builder_ok_def)
qed

lemma addSources_ok:
  assumes "foldR (addSource i) ss (b, event, c) = Inr (b', event', c')"
    and "builder_ok b" and "ed_Name event \<noteq> ''''" and "ed_DstState event \<noteq> ''''"
  shows "builder_ok b'"
proof -
  let ?I = "\<lambda>(b, ev, c). builder_ok b \<and> ed_Name ev \<noteq> '''' \<and> ed_DstState ev \<noteq> ''''"
  have "?I (b', event', c')"
  proof (rule foldR_invariant[where I = ?I, OF _ _ assms(1)])
    show "?I (b, event, c)" using assms by simp
  next
    fix x s s'
    assume "?I s" and "addSource i x s = Inr s'"
    then show "?I s'"
      using addSource_ok[of "fst s" "fst (snd s)" i x "snd (snd s)" "fst s'" "fst (snd s')" "snd (snd s')"]
      by (simp add: case_prod_beta)
  qed
  then show ?thesis by simp
qed

lemma addEvent_ok:
  assumes "addEvent i event b = Inr b'" and "builder_ok b"
  shows "builder_ok b'"
proof -
  have "builder_ok (b\<lparr>b_allEvents := x, b_allStates := y\<rparr>)" for x y
    using assms(2) by (simp add: builder_ok_def)
  with assms show ?thesis
    by (auto simp: addEvent_def Let_def split: if_splits dest!: addSources_ok)
qed

lemma addCallbacks_tables:
  assumes "foldR (addCallback evs) cbs f = Inr g"
  shows "\<exists>c. g = f\<lparr>fsm_callbacks := c\<rparr>"
proof (rule foldR_invariant[where I = "\<lambda>g. \<exists>c. g = f\<lparr>fsm_callbacks := c\<rparr>", OF _ _ assms])
  show "\<exists>c. f = f\<lparr>fsm_callbacks := c\<rparr>" by (rule exI[of _ "fsm_callbacks f"]) simp
next
  fix x s s'
  assume "\<exists>c. s = f\<lparr>fsm_callbacks := c\<rparr>" and "addCallback evs x s = Inr s'"
  then show "\<exists>c. s' = f\<lparr>fsm_callbacks := c\<rparr>"
    by (auto simp: addCallback_def split: if_splits prod.splits)
qed

lemma addFinStates_sound:
  assumes "s \<in> set (keys (fold (addFinState srcs) ss m))" and "\<not> has_key srcs StateGlobalDone"
  shows "s \<in> set (keys m) \<or> \<not> has_key srcs s"
  using assms(1)
proof (induction ss arbitrary: m)
  case (Cons x ss)
  from Cons.IH[of "addFinState srcs x m"] Cons.prems
  have "s \<in> set (keys (addFinState srcs x m)) \<or> \<not> has_key srcs s" by simp
  then show ?case using assms(2) by (auto simp: addFinState_def split: if_splits)
qed simp

lemma tables_ok_no_done:
  "fsm_tables_ok f \<Longrightarrow> StateGlobalDone \<notin> fst ` set (keys (fsm_transitions f))"
  by (force simp: fsm_tables_ok_def list_all_iff tr_ok_def)

lemma MustNewFSM_obtain:
  assumes "MustNewFSM n i evs cbs = Inr f"
  obtains b c where "builder_ok b"
    "f = (b_fsm b)\<lparr>fsm_callbacks := c,
       fsm_finStates := fold (addFinState (b_allSources b)) (keys (b_allStates b)) []\<rparr>"
proof -
  define f0 :: "('a, 'b, 'c) FSM" where "f0 = \<lparr>fsm_name = n, fsm_initialState = i,
    fsm_currentState = i, fsm_transitions = [], fsm_autoTransitions = [], fsm_callbacks = [],
    fsm_initialEvent = '''', fsm_finStates = []\<rparr>"
  from assms obtain b g where b: "foldR (addEvent i) evs
        \<lparr>b_fsm = f0, b_allEvents = [], b_allSources = [], b_allStates = []\<rparr> = Inr b"
      and g: "foldR (addCallback (b_allEvents b)) cbs (b_fsm b) = Inr g"
      and f: "f = g\<lparr>fsm_finStates := fold (addFinState (b_allSources b)) (keys (b_allStates b)) []\<rparr>"
    by (auto simp: MustNewFSM_def Let_def f0_def split: if_splits)
  have "builder_ok \<lparr>b_fsm = f0, b_allEvents = [], b_allSources = [], b_allStates = []\<rparr>"
    by (simp add: builder_ok_def fsm_tables_ok_def f0_def)
  then have "builder_ok b"
    using addEvent_ok by (rule foldR_invariant[where I = builder_ok, rotated, OF _ b]) blast
  moreover from addCallbacks_tables[OF g] obtain c where "g = (b_fsm b)\<lparr>fsm_callbacks := c\<rparr>" by blast
  ultimately show thesis using that f by simp
qed

lemma newFSM_wf:
  assumes "MustNewFSM n i evs cbs = Inr f"
  shows "fsm_wf f"
proof -
  from assms obtain b c where b: "builder_ok b" and
    f: "f = (b_fsm b)\<lparr>fsm_callbacks := c,
       fsm_finStates := fold (addFinState (b_allSources b)) (keys (b_allStates b)) []\<rparr>"
    by (rule MustNewFSM_obtain)
  have srcs: "has_key (b_allSources b) s \<longleftrightarrow> s \<in> set (StatesList f)" for s
    using b unfolding has_key_keys builder_ok_def set_StatesList f by simp
  have "\<not> has_key (b_allSources b) StateGlobalDone"
    using tables_ok_no_done[of "b_fsm b"] b unfolding builder_ok_def has_key_keys by simp
  then have "s \<notin> set (StatesList f)" if "s \<in> set (keys (fsm_finStates f))" for s
    using that addFinStates_sound[of s "b_allSources b" "keys (b_allStates b)" "[]"] srcs[of s]
    by (simp add: f)
  then have "fins_ok f" by (simp add: fins_ok_def list_all_iff)
  then show ?thesis using b by (simp add: fsm_wf_def builder_ok_def f)
qed

section \<open>Execution: frame and reachability\<close>

text \<open>The edges of the machine's transition graph.\<close>

definition fsm_edge :: "('a, 'r, 'p) FSM \<Rightarrow> State \<Rightarrow> State \<Rightarrow> bool" where
  "fsm_edge f s s' \<longleftrightarrow>
     list_ex (\<lambda>((source, event), tr). source = s \<and> tr_dstState tr = s') (fsm_transitions f)"

lemma fsm_edgeI: "map_of (fsm_transitions f) (s, e) = Some tr \<Longrightarrow> fsm_edge f s (tr_dstState tr)"
  by (force simp: fsm_edge_def list_ex_iff dest: map_of_SomeD)

lemma fsm_edge_frame [simp]: "fsm_edge (f\<lparr>fsm_currentState := s\<rparr>) = fsm_edge f"
  by (simp add: fsm_edge_def fun_eq_iff)

text \<open>\<open>moved f g\<close>: \<open>g\<close> is \<open>f\<close> after zero or more edges, with the tables untouched.\<close>

definition moved :: "('a, 'r, 'p) FSM \<Rightarrow> ('a, 'r, 'p) FSM \<Rightarrow> bool" where
  "moved f g \<longleftrightarrow> g = f\<lparr>fsm_currentState := fsm_currentState g\<rparr> \<and>
     (fsm_edge f)\<^sup>*\<^sup>* (fsm_currentState f) (fsm_currentState g)"

lemma moved_refl [simp, intro]: "moved f f"
  by (simp add: moved_def)

lemma moved_edge_eq: "moved f g \<Longrightarrow> fsm_edge g = fsm_edge f"
  by (metis fsm_edge_frame moved_def)

lemma moved_trans [trans]:
  assumes "moved f g" and "moved g h"
  shows "moved f h"
proof -
  have "h = f\<lparr>fsm_currentState := fsm_currentState h\<rparr>"
    using assms unfolding moved_def by (metis FSM.select_convs(3) FSM.surjective FSM.update_convs(3))
  moreover have "(fsm_edge f)\<^sup>*\<^sup>* (fsm_currentState f) (fsm_currentState h)"
    using assms moved_edge_eq[OF assms(1)] by (auto simp: moved_def)
  ultimately show ?thesis by (simp add: moved_def)
qed

lemma SetState_moved:
  assumes "SetState e f = (err, g)"
  shows "moved f g" and "err \<noteq> None \<Longrightarrow> g = f"
    and "err = None \<Longrightarrow> fsm_edge f (fsm_currentState f) (fsm_currentState g)"
proof -
  have "moved f (f\<lparr>fsm_currentState := tr_dstState tr\<rparr>)"
    if "map_of (fsm_transitions f) (fsm_currentState f, e) = Some tr" for tr
    using r_into_rtranclp[of "fsm_edge f", OF fsm_edgeI[OF that]] by (simp add: moved_def)
  with assms show "moved f g" "err \<noteq> None \<Longrightarrow> g = f"
    "err = None \<Longrightarrow> fsm_edge f (fsm_currentState f) (fsm_currentState g)"
    by (auto simp: SetState_def split: option.splits intro: fsm_edgeI)
qed

lemma nextState_moved:
  assumes "nextState ev out f = (err, g)"
  shows "moved f g"
  using assms by (auto simp: nextState_def split: if_splits dest: SetState_moved(1))

lemma processAutoEvent_moved:
  assumes "processAutoEvent mode args f p = Inr (r, g, p')"
  shows "moved f g"
  using assms
  by (auto simp: processAutoEvent_def split: option.splits if_splits prod.splits
      dest: nextState_moved)

lemma do_finish_moved:
  assumes "do_finish ev args out resp f p = Inr (r, g, p')"
  shows "moved f g"
proof -
  obtain err f1 where n: "nextState ev out f = (err, f1)" by fastforce
  show ?thesis
  proof (cases err)
    case None
    from assms n None obtain r' where "processAutoEvent EventRunAfter args f1 p = Inr (r', g, p')"
      by (auto simp: do_finish_def Let_def split: if_splits prod.splits)
    then show ?thesis
      using nextState_moved[OF n] moved_trans by (blast dest: processAutoEvent_moved)
  next
    case (Some e)
    with assms n show ?thesis by (auto simp: do_finish_def dest: nextState_moved)
  qed
qed

lemma do_callback_moved:
  assumes "do_callback ev args out resp f p = Inr (r, g, p')"
  shows "moved f g"
  using assms
  by (auto simp: do_callback_def Let_def split: if_splits prod.splits option.splits
      dest: do_finish_moved)

lemma FSM_do_moved:
  assumes "FSM_do tr args f p = Inr (r, g, p')"
  shows "moved f g"
proof -
  from assms obtain ex out dat err f1 p1 where
    a: "processAutoEvent EventRunBefore args f p = Inr ((ex, out, dat, err), f1, p1)"
    by (auto simp: FSM_do_def)
  have "moved f1 g"
    using assms unfolding FSM_do_def a
    by (auto simp: Let_def split: if_splits dest: do_callback_moved)
  with processAutoEvent_moved[OF a] show ?thesis by (rule moved_trans)
qed

lemma FSM_Do_moved:
  assumes "FSM_Do e args f p = Inr (r, g, p')"
  shows "moved f g"
  using assms by (auto simp: FSM_Do_def split: option.splits if_splits intro: FSM_do_moved)

text \<open>A successful event reports the state the machine is left in.\<close>

lemma do_finish_state:
  assumes "do_finish ev args out resp f p = Inr ((r, None), g, p')"
  shows "\<exists>x. r = Some x \<and> resp_State x = fsm_currentState g"
proof -
  obtain err f1 where n: "nextState ev out f = (err, f1)" by fastforce
  with assms have "err = None" by (auto simp: do_finish_def split: option.splits)
  with assms n show ?thesis
    by (auto simp: do_finish_def Let_def currentState_def afterAuto_def
        split: if_splits prod.splits option.splits)
qed

lemma FSM_Do_state:
  assumes "FSM_Do e args f p = Inr ((r, None), g, p')"
  shows "\<exists>x. r = Some x \<and> resp_State x = fsm_currentState g"
proof -
  from assms obtain tr where "FSM_do tr args f p = Inr ((r, None), g, p')"
    by (auto simp: FSM_Do_def split: option.splits if_splits)
  then show ?thesis
    by (auto simp: FSM_do_def do_callback_def Let_def split: if_splits prod.splits option.splits
        dest!: do_finish_state)
qed

section \<open>The tables of a constructed machine\<close>

text \<open>The rows that an event description stands for, one per non-empty source state.\<close>

definition desc_mode :: "EventDesc \<Rightarrow> EventRunMode" where
  "desc_mode d = (if ed_IsAuto d \<and> ed_AutoRunMode d = EventRunDefault then EventRunAfter
     else ed_AutoRunMode d)"

definition desc_tr :: "EventDesc \<Rightarrow> trEvent" where
  "desc_tr d = \<lparr>tr_event = ed_Name d, tr_dstState = ed_DstState d, tr_isInternal = ed_IsInternal d,
     tr_isAuto = ed_IsAuto d, tr_runMode = desc_mode d\<rparr>"

definition desc_rows :: "EventDesc \<Rightarrow> State list \<Rightarrow> ((State \<times> Event) \<times> trEvent) list" where
  "desc_rows d ss = map (\<lambda>s. ((s, ed_Name d), desc_tr d)) (filter (\<lambda>s. s \<noteq> '''') ss)"

definition desc_autos :: "EventDesc \<Rightarrow> State list \<Rightarrow> ((State \<times> EventRunMode) \<times> trEvent) list" where
  "desc_autos d ss = (if ed_IsAuto d
     then map (\<lambda>s. ((s, desc_mode d), desc_tr d)) (filter (\<lambda>s. s \<noteq> '''') ss) else [])"

definition rows_eq :: "EventDesc \<Rightarrow> EventDesc \<Rightarrow> bool" where
  "rows_eq d d' \<longleftrightarrow> desc_rows d = desc_rows d' \<and> desc_autos d = desc_autos d'"

lemma addSource_rows:
  assumes "addSource i s (b, event, c) = Inr (b', event', c')"
  shows "fsm_transitions (b_fsm b') = fsm_transitions (b_fsm b) @ desc_rows event [s] \<and>
    fsm_autoTransitions (b_fsm b') = fsm_autoTransitions (b_fsm b) @ desc_autos event [s] \<and>
    rows_eq event' event"
proof (cases "s = ''''")
  case True
  with assms show ?thesis by (simp add: addSource_def desc_rows_def desc_autos_def rows_eq_def)
next
  case False
  define ev where "ev = (if ed_IsAuto event \<and> ed_AutoRunMode event = EventRunDefault
                   then event\<lparr>ed_AutoRunMode := EventRunAfter\<rparr> else event)"
  have ev: "ed_Name ev = ed_Name event" "ed_DstState ev = ed_DstState event"
    "ed_IsInternal ev = ed_IsInternal event" "ed_IsAuto ev = ed_IsAuto event"
    "ed_AutoRunMode ev = desc_mode event"
    by (auto simp: ev_def desc_mode_def)
  then have "desc_mode ev = desc_mode event" "desc_tr ev = desc_tr event"
    by (auto simp: desc_mode_def desc_tr_def)
  then have same: "rows_eq ev event"
    by (simp add: rows_eq_def desc_rows_def desc_autos_def fun_eq_iff ev)
  have tr: "\<lparr>tr_event = ed_Name ev, tr_dstState = ed_DstState ev, tr_isInternal = ed_IsInternal ev,
      tr_isAuto = ed_IsAuto ev, tr_runMode = ed_AutoRunMode ev\<rparr> = desc_tr event"
    by (simp add: desc_tr_def ev)
  from assms False same show ?thesis
    unfolding addSource_def Let_def prod.case ev_def[symmetric] tr
    by (auto simp: ev desc_rows_def desc_autos_def update_fresh split: if_splits)
qed

lemma rows_append:
  "desc_rows d (xs @ ys) = desc_rows d xs @ desc_rows d ys"
  "desc_autos d (xs @ ys) = desc_autos d xs @ desc_autos d ys"
  "desc_rows d [] = []" "desc_autos d [] = []"
  by (simp_all add: desc_rows_def desc_autos_def)

lemma addSources_rows:
  assumes "foldR (addSource i) ss (b, event, c) = Inr (b', event', c')"
  shows "fsm_transitions (b_fsm b') = fsm_transitions (b_fsm b) @ desc_rows event ss \<and>
    fsm_autoTransitions (b_fsm b') = fsm_autoTransitions (b_fsm b) @ desc_autos event ss"
  using assms
proof (induction ss arbitrary: b event c)
  case (Cons s ss)
  from Cons.prems obtain b1 e1 c1 where a: "addSource i s (b, event, c) = Inr (b1, e1, c1)"
    and r: "foldR (addSource i) ss (b1, e1, c1) = Inr (b', event', c')" by auto
  from addSource_rows[OF a] Cons.IH[OF r] rows_append(1,2)[of event "[s]" ss] show ?case
    by (simp add: rows_eq_def)
qed (simp add: rows_append)

lemma addEvents_rows:
  assumes "foldR (addEvent i) evs b = Inr b'"
  shows "fsm_transitions (b_fsm b') =
      fsm_transitions (b_fsm b) @ concat (map (\<lambda>d. desc_rows d (ed_SrcState d)) evs) \<and>
    fsm_autoTransitions (b_fsm b') =
      fsm_autoTransitions (b_fsm b) @ concat (map (\<lambda>d. desc_autos d (ed_SrcState d)) evs)"
  using assms
proof (induction evs arbitrary: b)
  case (Cons d evs)
  from Cons.prems obtain b1 where "addEvent i d b = Inr b1"
    and r: "foldR (addEvent i) evs b1 = Inr b'" by auto
  then obtain e1 c1 b0 where "foldR (addSource i) (ed_SrcState d) (b0, d, 0) = Inr (b1, e1, c1)"
    "b_fsm b0 = b_fsm b"
    by (auto simp: addEvent_def Let_def split: if_splits)
  with addSources_rows[OF this(1)] Cons.IH[OF r] show ?case by simp
qed simp

lemma MustNewFSM_tables:
  assumes "MustNewFSM n i evs cbs = Inr f"
  shows "fsm_transitions f = concat (map (\<lambda>d. desc_rows d (ed_SrcState d)) evs)"
    and "fsm_autoTransitions f = concat (map (\<lambda>d. desc_autos d (ed_SrcState d)) evs)"
proof -
  from assms obtain b g where b: "foldR (addEvent i) evs
        \<lparr>b_fsm = \<lparr>fsm_name = n, fsm_initialState = i,
    fsm_currentState = i, fsm_transitions = [], fsm_autoTransitions = [], fsm_callbacks = [],
    fsm_initialEvent = '''', fsm_finStates = []\<rparr>, b_allEvents = [], b_allSources = [],
    b_allStates = []\<rparr> = Inr b"
      and g: "foldR (addCallback (b_allEvents b)) cbs (b_fsm b) = Inr g"
      and f: "fsm_transitions f = fsm_transitions g" "fsm_autoTransitions f = fsm_autoTransitions g"
    by (auto simp: MustNewFSM_def Let_def split: if_splits)
  from addCallbacks_tables[OF g] obtain c where "g = (b_fsm b)\<lparr>fsm_callbacks := c\<rparr>" by blast
  with addEvents_rows[OF b] f
  show "fsm_transitions f = concat (map (\<lambda>d. desc_rows d (ed_SrcState d)) evs)"
    "fsm_autoTransitions f = concat (map (\<lambda>d. desc_autos d (ed_SrcState d)) evs)" by simp_all
qed

end
