(* ===== verification/Requests.thy ===== *)
theory Requests
  imports Prelude
begin

text \<open>
  The requests and responses of the state machines (\<open>src/fsm/types/requests\<close>,
  \<open>src/fsm/types/responses\<close>, \<open>src/fsm/config\<close>): one record per struct, one \<open>Validate\<close> per
  method, returning \<open>None\<close> for \<open>nil\<close>.  A pointer inside a request may be \<open>nil\<close> after decoding
  (a JSON \<open>null\<close>), so the participants list of the initial request is a list of options and its
  validation can panic.  \<open>request\<close> is the \<open>interface{}\<close> argument of the machines, with one
  constructor per dynamic type, and the \<open>as_\<close> functions are the type assertions.
\<close>

section \<open>Configuration\<close>

definition UsernameMinLength :: nat where "UsernameMinLength = 3"
definition UsernameMaxLength :: nat where "UsernameMaxLength = 150"
definition ParticipantPubKeyMinLength :: nat where "ParticipantPubKeyMinLength = 10"
definition DkgPubKeyMinLength :: nat where "DkgPubKeyMinLength = 10"
definition SignatureProposalSigningThresholdMinCount :: int where
  "SignatureProposalSigningThresholdMinCount = 2"
definition ParticipantsMinCount :: nat where "ParticipantsMinCount = 2"

text \<open>Durations are nanoseconds, as in package \<open>time\<close>.\<close>

definition hour :: time where "hour = 3600 * 1000000000"
definition SignatureProposalConfirmationDeadline :: time where
  "SignatureProposalConfirmationDeadline = hour * 24 * 7"
definition DkgConfirmationDeadline :: time where
  "DkgConfirmationDeadline = hour * 24 * 7"
definition SigningConfirmationDeadline :: time where
  "SigningConfirmationDeadline = hour * 24 * 7"

lemmas config_defs = UsernameMinLength_def UsernameMaxLength_def ParticipantPubKeyMinLength_def
  DkgPubKeyMinLength_def SignatureProposalSigningThresholdMinCount_def ParticipantsMinCount_def
  hour_def SignatureProposalConfirmationDeadline_def DkgConfirmationDeadline_def
  SigningConfirmationDeadline_def

section \<open>Requests\<close>

record DefaultRequest =
  dr_CreatedAt :: time

record SignatureProposalParticipantsEntry =
  pe_Username :: string
  pe_PubKey :: bytes
  pe_DkgPubKey :: bytes

record SignatureProposalParticipantsListRequest =
  pl_Participants :: "SignatureProposalParticipantsEntry option list"
  pl_SigningThreshold :: int
  pl_CreatedAt :: time

record SignatureProposalParticipantRequest =
  pr_ParticipantId :: int
  pr_CreatedAt :: time

record FSMError =
  fe_ErrorMsg :: string

record SignatureProposalConfirmationErrorRequest =
  se_ParticipantId :: int
  se_Error :: "FSMError option"
  se_CreatedAt :: time

record DKGProposalCommitConfirmationRequest =
  cr_ParticipantId :: int
  cr_Commit :: bytes
  cr_CreatedAt :: time

record DKGProposalDealConfirmationRequest =
  dlr_ParticipantId :: int
  dlr_Deal :: bytes
  dlr_CreatedAt :: time

record DKGProposalResponseConfirmationRequest =
  rr_ParticipantId :: int
  rr_Response :: bytes
  rr_CreatedAt :: time

record DKGProposalMasterKeyConfirmationRequest =
  mk_ParticipantId :: int
  mk_MasterKey :: bytes
  mk_CreatedAt :: time
  mk_PubPolyBz :: bytes

record DKGProposalConfirmationErrorRequest =
  de_ParticipantId :: int
  de_Error :: "FSMError option"
  de_CreatedAt :: time

record MessageToSign =
  mts_MessageID :: string
  mts_File :: string
  mts_Payload :: bytes
  mts_BakedDataPayload :: bool

text \<open>\<open>Payload\<close> of a task is compared with \<open>nil\<close>, hence an option.\<close>

record SigningTask =
  st_MessageID :: string
  st_File :: string
  st_Payload :: "bytes option"
  st_RangeStart :: int
  st_RangeEnd :: int

record SigningBatchProposalStartRequest =
  bs_BatchID :: string
  bs_ParticipantId :: int
  bs_CreatedAt :: time
  bs_SigningTasks :: "SigningTask list"

record PartialSign =
  ps_MessageID :: string
  ps_Sign :: bytes

record SigningProposalBatchPartialSignRequests =
  bp_BatchID :: string
  bp_ParticipantId :: int
  bp_PartialSigns :: "PartialSign list"
  bp_CreatedAt :: time

definition NewFSMError :: "string \<Rightarrow> FSMError" where
  "NewFSMError msg = \<lparr>fe_ErrorMsg = msg\<rparr>"

section \<open>The dynamically typed argument\<close>

datatype request =
    ReqDefault DefaultRequest
  | ReqSigInit SignatureProposalParticipantsListRequest
  | ReqSigParticipant SignatureProposalParticipantRequest
  | ReqSigError SignatureProposalConfirmationErrorRequest
  | ReqDkgCommit DKGProposalCommitConfirmationRequest
  | ReqDkgDeal DKGProposalDealConfirmationRequest
  | ReqDkgResponse DKGProposalResponseConfirmationRequest
  | ReqDkgMasterKey DKGProposalMasterKeyConfirmationRequest
  | ReqDkgError DKGProposalConfirmationErrorRequest
  | ReqSigningStart SigningBatchProposalStartRequest
  | ReqPartialSigns SigningProposalBatchPartialSignRequests
  | ReqErrorValue error

fun as_Default where
  "as_Default (ReqDefault r) = Some r" | "as_Default _ = None"
fun as_SigInit where
  "as_SigInit (ReqSigInit r) = Some r" | "as_SigInit _ = None"
fun as_SigParticipant where
  "as_SigParticipant (ReqSigParticipant r) = Some r" | "as_SigParticipant _ = None"
fun as_SigError where
  "as_SigError (ReqSigError r) = Some r" | "as_SigError _ = None"
fun as_DkgCommit where
  "as_DkgCommit (ReqDkgCommit r) = Some r" | "as_DkgCommit _ = None"
fun as_DkgDeal where
  "as_DkgDeal (ReqDkgDeal r) = Some r" | "as_DkgDeal _ = None"
fun as_DkgResponse where
  "as_DkgResponse (ReqDkgResponse r) = Some r" | "as_DkgResponse _ = None"
fun as_DkgMasterKey where
  "as_DkgMasterKey (ReqDkgMasterKey r) = Some r" | "as_DkgMasterKey _ = None"
fun as_DkgError where
  "as_DkgError (ReqDkgError r) = Some r" | "as_DkgError _ = None"
fun as_SigningStart where
  "as_SigningStart (ReqSigningStart r) = Some r" | "as_SigningStart _ = None"
fun as_PartialSigns where
  "as_PartialSigns (ReqPartialSigns r) = Some r" | "as_PartialSigns _ = None"

lemma as_Some:
  "as_Default a = Some r \<longleftrightarrow> a = ReqDefault r"
  by (cases a) simp_all

lemma as_Some_sig:
  "as_SigInit a = Some r1 \<longleftrightarrow> a = ReqSigInit r1"
  "as_SigParticipant a = Some r2 \<longleftrightarrow> a = ReqSigParticipant r2"
  "as_SigError a = Some r3 \<longleftrightarrow> a = ReqSigError r3"
  by (cases a, simp_all)+

lemma as_Some_dkg:
  "as_DkgCommit a = Some r1 \<longleftrightarrow> a = ReqDkgCommit r1"
  "as_DkgDeal a = Some r2 \<longleftrightarrow> a = ReqDkgDeal r2"
  "as_DkgResponse a = Some r3 \<longleftrightarrow> a = ReqDkgResponse r3"
  "as_DkgMasterKey a = Some r4 \<longleftrightarrow> a = ReqDkgMasterKey r4"
  "as_DkgError a = Some r5 \<longleftrightarrow> a = ReqDkgError r5"
  by (cases a, simp_all)+

lemma as_Some_signing:
  "as_SigningStart a = Some r1 \<longleftrightarrow> a = ReqSigningStart r1"
  "as_PartialSigns a = Some r2 \<longleftrightarrow> a = ReqPartialSigns r2"
  by (cases a, simp_all)+

lemmas as_Some_iff = as_Some as_Some_sig as_Some_dkg as_Some_signing

section \<open>Validation\<close>

definition DefaultRequest_Validate :: "DefaultRequest \<Rightarrow> error option" where
  "DefaultRequest_Validate r =
    (if IsZero (dr_CreatedAt r) then Some (errorsNew ''{CreatedAt} is not set'') else None)"

fun uniqueUsernames ::
  "SignatureProposalParticipantsEntry option list \<Rightarrow> (string, bool) gomap \<Rightarrow> (error option) go"
where
  "uniqueUsernames [] seen = Inr None"
| "uniqueUsernames (x # xs) seen = bindR (deref x) (\<lambda>participant.
     if has_key seen (pe_Username participant)
     then Inr (Some (errorsNew ''{Username} must be unique''))
     else uniqueUsernames xs (AList.update (pe_Username participant) True seen))"

fun checkParticipants ::
  "SignatureProposalParticipantsEntry option list \<Rightarrow> (error option) go"
where
  "checkParticipants [] = Inr None"
| "checkParticipants (x # xs) = bindR (deref x) (\<lambda>participant.
     if length (pe_Username participant) < UsernameMinLength
     then Inr (Some (Errorf ''{Username} minimum length is {%d}'' [AInt (int UsernameMinLength)]))
     else if length (pe_Username participant) > UsernameMaxLength
     then Inr (Some (Errorf ''{Username} maximum length is {%d}'' [AInt (int UsernameMaxLength)]))
     else if length (pe_PubKey participant) < ParticipantPubKeyMinLength
     then Inr (Some (errorsNew ''{PubKey} too short''))
     else if length (pe_DkgPubKey participant) < DkgPubKeyMinLength
     then Inr (Some (errorsNew ''{DkgPubKey} too short''))
     else checkParticipants xs)"

definition SignatureProposalParticipantsListRequest_Validate ::
  "SignatureProposalParticipantsListRequest \<Rightarrow> (error option) go"
where
  "SignatureProposalParticipantsListRequest_Validate r =
    (if length (pl_Participants r) < ParticipantsMinCount
     then Inr (Some (Errorf ''too few participants, minimum is {%d}''
            [AInt (int ParticipantsMinCount)]))
     else if pl_SigningThreshold r < SignatureProposalSigningThresholdMinCount
     then Inr (Some (Errorf ''{SigningThreshold} minimum count is {%d}''
            [AInt SignatureProposalSigningThresholdMinCount]))
     else if pl_SigningThreshold r > int (length (pl_Participants r))
     then Inr (Some (errorsNew ''{SigningThreshold} cannot be higher than {ParticipantsCount}''))
     else bindR (uniqueUsernames (pl_Participants r) []) (\<lambda>err.
       case err of Some e \<Rightarrow> Inr (Some e)
       | None \<Rightarrow> bindR (checkParticipants (pl_Participants r)) (\<lambda>err.
           case err of Some e \<Rightarrow> Inr (Some e)
           | None \<Rightarrow>
               if IsZero (pl_CreatedAt r)
               then Inr (Some (errorsNew ''{CreatedAt} cannot be a nil''))
               else Inr None)))"

definition SignatureProposalParticipantRequest_Validate ::
  "SignatureProposalParticipantRequest \<Rightarrow> error option"
where
  "SignatureProposalParticipantRequest_Validate r =
    (if pr_ParticipantId r < 0
     then Some (errorsNew ''{ParticipantId} cannot be a negative number'')
     else if IsZero (pr_CreatedAt r) then Some (errorsNew ''{CreatedAt} cannot be a nil'')
     else None)"

definition SignatureProposalConfirmationErrorRequest_Validate ::
  "SignatureProposalConfirmationErrorRequest \<Rightarrow> error option"
where
  "SignatureProposalConfirmationErrorRequest_Validate r =
    (if se_ParticipantId r < 0
     then Some (errorsNew ''{ParticipantId} cannot be a negative number'')
     else if se_Error r = None then Some (errorsNew ''{Error} cannot be a nil'')
     else if IsZero (se_CreatedAt r) then Some (errorsNew ''{CreatedAt} is not set'')
     else None)"

definition DKGProposalCommitConfirmationRequest_Validate ::
  "DKGProposalCommitConfirmationRequest \<Rightarrow> error option"
where
  "DKGProposalCommitConfirmationRequest_Validate r =
    (if cr_ParticipantId r < 0
     then Some (errorsNew ''{ParticipantId} cannot be a negative number'')
     else if length (cr_Commit r) = 0 then Some (errorsNew ''{Commit} cannot zero length'')
     else if IsZero (cr_CreatedAt r) then Some (errorsNew ''{CreatedAt} is not set'')
     else None)"

definition DKGProposalDealConfirmationRequest_Validate ::
  "DKGProposalDealConfirmationRequest \<Rightarrow> error option"
where
  "DKGProposalDealConfirmationRequest_Validate r =
    (if dlr_ParticipantId r < 0
     then Some (errorsNew ''{ParticipantId} cannot be a negative number'')
     else if length (dlr_Deal r) = 0 then Some (errorsNew ''{Deal} cannot zero length'')
     else if IsZero (dlr_CreatedAt r) then Some (errorsNew ''{CreatedAt} is not set'')
     else None)"

definition DKGProposalResponseConfirmationRequest_Validate ::
  "DKGProposalResponseConfirmationRequest \<Rightarrow> error option"
where
  "DKGProposalResponseConfirmationRequest_Validate r =
    (if rr_ParticipantId r < 0
     then Some (errorsNew ''{ParticipantId} cannot be a negative number'')
     else if length (rr_Response r) = 0 then Some (errorsNew ''{Response} cannot zero length'')
     else if IsZero (rr_CreatedAt r) then Some (errorsNew ''{CreatedAt} is not set'')
     else None)"

definition DKGProposalMasterKeyConfirmationRequest_Validate ::
  "DKGProposalMasterKeyConfirmationRequest \<Rightarrow> error option"
where
  "DKGProposalMasterKeyConfirmationRequest_Validate r =
    (if mk_ParticipantId r < 0
     then Some (errorsNew ''{ParticipantId} cannot be a negative number'')
     else if length (mk_MasterKey r) = 0 then Some (errorsNew ''{MasterKey} cannot zero length'')
     else if IsZero (mk_CreatedAt r) then Some (errorsNew ''{CreatedAt} is not set'')
     else None)"

definition DKGProposalConfirmationErrorRequest_Validate ::
  "DKGProposalConfirmationErrorRequest \<Rightarrow> error option"
where
  "DKGProposalConfirmationErrorRequest_Validate r =
    (if de_ParticipantId r < 0
     then Some (errorsNew ''{ParticipantId} cannot be a negative number'')
     else if de_Error r = None then Some (errorsNew ''{Error} cannot be a nil'')
     else if IsZero (de_CreatedAt r) then Some (errorsNew ''{CreatedAt} is not set'')
     else None)"

definition MessageToSign_Validate :: "MessageToSign \<Rightarrow> error option" where
  "MessageToSign_Validate m =
    (if mts_MessageID m = '''' then Some (errorsNew ''{MessageID} cannot be empty'')
     else if length (mts_Payload m) = 0 then Some (errorsNew ''{Payload} cannot zero length'')
     else None)"

definition byte_len :: "bytes option \<Rightarrow> nat" where
  "byte_len b = (case b of None \<Rightarrow> 0 | Some bs \<Rightarrow> length bs)"

definition SigningTask_Validate :: "SigningTask \<Rightarrow> error option" where
  "SigningTask_Validate m =
    (if st_MessageID m = '''' then Some (errorsNew ''{MessageID} cannot be empty'')
     else if byte_len (st_Payload m) = 0 \<and> st_RangeStart m > st_RangeEnd m
     then Some (errorsNew
       ''{Payload} cannot zero length and RangeStart cannot be greater than RangeEnd'')
     else None)"

text \<open>A loop that validates every element and wraps the first failure.\<close>

fun validateEach :: "string \<Rightarrow> ('x \<Rightarrow> error option) \<Rightarrow> 'x list \<Rightarrow> error option" where
  "validateEach msg v [] = None"
| "validateEach msg v (x # xs) =
     (case v x of Some err \<Rightarrow> Some (Wrapf msg [] err) | None \<Rightarrow> validateEach msg v xs)"

definition SigningBatchProposalStartRequest_Validate ::
  "SigningBatchProposalStartRequest \<Rightarrow> error option"
where
  "SigningBatchProposalStartRequest_Validate r =
    (if length (bs_BatchID r) = 0 then Some (errorsNew ''{BatchID} can not be empty'')
     else if length (bs_SigningTasks r) = 0
     then Some (errorsNew ''{SigningTasks} can not be empty'')
     else if bs_ParticipantId r < 0
     then Some (errorsNew ''{ParticipantId} cannot be a negative number'')
     else if IsZero (bs_CreatedAt r) then Some (errorsNew ''{CreatedAt} is not set'')
     else validateEach ''failed to validate signing task %+v: %w'' SigningTask_Validate
            (bs_SigningTasks r))"

definition PartialSign_Validate :: "PartialSign \<Rightarrow> error option" where
  "PartialSign_Validate s =
    (if length (ps_MessageID s) = 0 then Some (errorsNew ''{MessageID} can not be empty'')
     else if length (ps_Sign s) = 0 then Some (errorsNew ''{Sign} can not be empty'')
     else None)"

definition SigningProposalBatchPartialSignRequests_Validate ::
  "SigningProposalBatchPartialSignRequests \<Rightarrow> error option"
where
  "SigningProposalBatchPartialSignRequests_Validate r =
    (if length (bp_BatchID r) = 0 then Some (errorsNew ''{BatchID} can not be empty'')
     else if IsZero (bp_CreatedAt r) then Some (errorsNew ''{CreatedAt} is not set'')
     else if bp_ParticipantId r < 0
     then Some (errorsNew ''{ParticipantId} cannot be a negative number'')
     else if length (bp_PartialSigns r) = 0
     then Some (errorsNew ''{MessagesToSign} can not be empty'')
     else validateEach ''failed to validate partial sign %+v: %w'' PartialSign_Validate
            (bp_PartialSigns r))"

section \<open>Responses\<close>

record SignatureProposalParticipantInvitationEntry =
  ie_ParticipantId :: int
  ie_Username :: string
  ie_Threshold :: int
  ie_DkgPubKey :: bytes
  ie_PubKey :: bytes

text \<open>The field \<open>DkgPubKey\<close> of a status entry is never set by the program.\<close>

record SignatureProposalParticipantStatusEntry =
  sse_ParticipantId :: int
  sse_Username :: string
  sse_Status :: "8 word"

record DKGProposalPubKeysParticipantEntry =
  ke_ParticipantId :: int
  ke_Username :: string
  ke_DkgPubKey :: bytes
  ke_Threshold :: int

record DKGProposalCommitParticipantEntry =
  ce_ParticipantId :: int
  ce_Username :: string
  ce_DkgCommit :: bytes

record DKGProposalDealParticipantEntry =
  dle_ParticipantId :: int
  dle_Username :: string
  dle_DkgDeal :: bytes

record DKGProposalResponseParticipantEntry =
  re_ParticipantId :: int
  re_Username :: string
  re_DkgResponse :: bytes

record SigningPartialSignsParticipantInvitationEntry =
  sie_ParticipantId :: int
  sie_Username :: string
  sie_Status :: "8 word"

text \<open>
  \<open>SrcPayload\<close> holds the JSON encoding of the signing tasks, written with \<open>json.Marshal\<close> and
  only ever read back with \<open>json.Unmarshal\<close>; the model keeps the encoded value.
\<close>

record SigningPartialSignsParticipantInvitationsResponse =
  pir_BatchID :: string
  pir_InitiatorId :: int
  pir_Participants :: "SigningPartialSignsParticipantInvitationEntry list"
  pir_SrcPayload :: "SigningTask list"

record SigningProcessParticipantEntry =
  pse_ParticipantId :: int
  pse_Username :: string
  pse_PartialSigns :: "(string, bytes) gomap"

record SigningProcessParticipantResponse =
  spr_BatchID :: string
  spr_SrcPayload :: "SigningTask list"
  spr_Participants :: "SigningProcessParticipantEntry list"

datatype response =
    RespInvitations "SignatureProposalParticipantInvitationEntry list"
  | RespStatuses "SignatureProposalParticipantStatusEntry list"
  | RespPubKeys "DKGProposalPubKeysParticipantEntry list"
  | RespCommits "DKGProposalCommitParticipantEntry list"
  | RespDeals "DKGProposalDealParticipantEntry list"
  | RespResponses "DKGProposalResponseParticipantEntry list"
  | RespSigningInvitations SigningPartialSignsParticipantInvitationsResponse
  | RespSigningProcess SigningProcessParticipantResponse

section \<open>What validation accepts\<close>

definition participant_ok :: "SignatureProposalParticipantsEntry \<Rightarrow> bool" where
  "participant_ok p \<longleftrightarrow>
     UsernameMinLength \<le> length (pe_Username p) \<and> length (pe_Username p) \<le> UsernameMaxLength \<and>
     ParticipantPubKeyMinLength \<le> length (pe_PubKey p) \<and>
     DkgPubKeyMinLength \<le> length (pe_DkgPubKey p)"

lemma uniqueUsernames_ok:
  "uniqueUsernames xs seen = Inr None \<longleftrightarrow>
    (\<exists>ps. xs = map Some ps \<and> distinct (map pe_Username ps) \<and>
          set (map pe_Username ps) \<inter> set (keys seen) = {})"
proof (induction xs arbitrary: seen)
  case (Cons x xs)
  show ?case
  proof (cases x)
    case (Some p)
    then show ?thesis
      using Cons.IH[of "AList.update (pe_Username p) True seen"] has_key_keys[of seen "pe_Username p"]
      by (auto simp: Cons_eq_map_conv)
  qed (auto simp: Cons_eq_map_conv)
qed simp

lemma uniqueUsernames_panics:
  "uniqueUsernames xs seen = Inl e \<longleftrightarrow> e = NilDeref \<and>
    (\<exists>ps ys. xs = map Some ps @ None # ys \<and> distinct (map pe_Username ps) \<and>
          set (map pe_Username ps) \<inter> set (keys seen) = {})"
proof (induction xs arbitrary: seen)
  case (Cons x xs)
  show ?case
  proof (cases x)
    case None
    then show ?thesis by (auto simp: Cons_eq_append_conv intro: exI[of _ "[]"])
  next
    case (Some p)
    have split: "(\<exists>ps ys. Some p # xs = map Some ps @ None # ys \<and> P ps) \<longleftrightarrow>
        (\<exists>ps ys. xs = map Some ps @ None # ys \<and> P (p # ps))" for P
      by (auto simp: Cons_eq_append_conv Cons_eq_map_conv)
    show ?thesis
      using Cons.IH[of "AList.update (pe_Username p) True seen"] has_key_keys[of seen "pe_Username p"]
      unfolding Some split by auto
  qed
qed simp

lemma checkParticipants_ok:
  "checkParticipants (map Some ps) = Inr None \<longleftrightarrow> list_all participant_ok ps"
  by (induction ps) (auto simp: participant_ok_def)

lemma checkParticipants_no_panic: "\<exists>e. checkParticipants (map Some ps) = Inr e"
  by (induction ps) auto

lemma sig_init_valid_iff:
  "SignatureProposalParticipantsListRequest_Validate r = Inr None \<longleftrightarrow>
    (\<exists>ps. pl_Participants r = map Some ps \<and> ParticipantsMinCount \<le> length ps \<and>
       SignatureProposalSigningThresholdMinCount \<le> pl_SigningThreshold r \<and>
       pl_SigningThreshold r \<le> int (length ps) \<and>
       distinct (map pe_Username ps) \<and> list_all participant_ok ps \<and> pl_CreatedAt r \<noteq> 0)"
  (is "?L \<longleftrightarrow> ?R")
proof
  assume ?L
  then have u: "uniqueUsernames (pl_Participants r) [] = Inr None"
    and c: "checkParticipants (pl_Participants r) = Inr None"
    and rest: "\<not> length (pl_Participants r) < ParticipantsMinCount"
      "\<not> pl_SigningThreshold r < SignatureProposalSigningThresholdMinCount"
      "\<not> pl_SigningThreshold r > int (length (pl_Participants r))" "pl_CreatedAt r \<noteq> 0"
    by (auto simp: SignatureProposalParticipantsListRequest_Validate_def IsZero_def
        split: if_splits option.splits)
  from u obtain ps where "pl_Participants r = map Some ps" "distinct (map pe_Username ps)"
    by (auto simp: uniqueUsernames_ok)
  with c rest show ?R by (auto simp: checkParticipants_ok)
next
  assume ?R
  then obtain ps where ps: "pl_Participants r = map Some ps" "list_all participant_ok ps"
      "distinct (map pe_Username ps)" by auto
  then have "uniqueUsernames (pl_Participants r) [] = Inr None"
    "checkParticipants (pl_Participants r) = Inr None"
    by (simp_all add: checkParticipants_ok uniqueUsernames_ok)
  with \<open>?R\<close> show ?L
    by (auto simp: SignatureProposalParticipantsListRequest_Validate_def IsZero_def)
qed

section \<open>The checks every callback starts with\<close>

text \<open>
  Every callback checks that there is exactly one argument, asserts its type and validates
  it; the two error messages are those of the callback.  The result of a callback is the out
  event, the response and the error, with the payload.
\<close>

type_synonym 'p cb_result = "((Event \<times> response option \<times> error option) \<times> 'p) go"

definition ret_err :: "error \<Rightarrow> 'p \<Rightarrow> 'p cb_result" where
  "ret_err e p = Inr (('''', None, Some e), p)"

definition ret_event :: "Event \<Rightarrow> 'p \<Rightarrow> 'p cb_result" where
  "ret_event ev p = Inr ((ev, None, None), p)"

definition ret_resp :: "Event \<Rightarrow> response \<Rightarrow> 'p \<Rightarrow> 'p cb_result" where
  "ret_resp ev r p = Inr ((ev, Some r, None), p)"

lemmas ret_defs = ret_err_def ret_event_def ret_resp_def

definition with_request ::
  "string \<Rightarrow> string \<Rightarrow> (request \<Rightarrow> 'b option) \<Rightarrow> ('b \<Rightarrow> (error option) go) \<Rightarrow>
   request list \<Rightarrow> 'p \<Rightarrow> ('b \<Rightarrow> 'p cb_result) \<Rightarrow> 'p cb_result"
where
  "with_request arg_msg cast_msg cast validate args p k =
    (if length args \<noteq> 1 then ret_err (errorsNew arg_msg) p
     else case cast (hd args) of
       None \<Rightarrow> ret_err (errorsNew cast_msg) p
     | Some request \<Rightarrow> bindR (validate request) (\<lambda>err.
         case err of Some e \<Rightarrow> ret_err e p | None \<Rightarrow> k request))"

abbreviation total :: "('b \<Rightarrow> error option) \<Rightarrow> 'b \<Rightarrow> (error option) go" where
  "total v r \<equiv> Inr (v r)"

lemma with_request_ok [simp]:
  "cast a = Some r \<Longrightarrow> v r = Inr None \<Longrightarrow> with_request m1 m2 cast v [a] p k = k r"
  by (simp add: with_request_def)

lemma with_request_cases:
  assumes "with_request m1 m2 cast v args p k = Inr ((out, resp, err), p')"
  obtains (rejected) e where "out = ''''" "resp = None" "err = Some e" "p' = p"
  | (accepted) a r where "args = [a]" "cast a = Some r" "v r = Inr None"
      "k r = Inr ((out, resp, err), p')"
proof (cases "\<exists>a r. args = [a] \<and> cast a = Some r \<and> v r = Inr None")
  case True
  then obtain a r where ar: "args = [a]" "cast a = Some r" "v r = Inr None" by blast
  with assms have "k r = Inr ((out, resp, err), p')" by simp
  with ar show thesis by (rule accepted)
next
  case False
  then have "\<exists>e. out = '''' \<and> resp = None \<and> err = Some e \<and> p' = p"
    using assms
    by (auto simp: with_request_def ret_err_def length_Suc_conv split: if_splits option.splits)
  with rejected show thesis by blast
qed

end
