(* ===== verification/Payload.thy ===== *)
theory Payload
  imports Requests
begin

text \<open>
  The state kept by the machines (\<open>src/fsm/state_machines/internal\<close>): the three confirmations
  with their quorums, the payload that holds them, and its accessors.  A pointer field that may
  be \<open>nil\<close> is an option and reading through it can panic.  The values of a quorum are pointers to
  participants that only the quorum holds; the model stores the participants themselves and an
  in-place update becomes an update of the map.  The status types are \<open>uint8\<close> enumerations of
  which the program uses exactly the declared constants.
\<close>

section \<open>Signature proposal\<close>

datatype ConfirmationParticipantStatus =
    SigConfirmationAwaitConfirmation
  | SigConfirmationConfirmed
  | SigConfirmationDeclined
  | SigConfirmationError

fun ConfirmationParticipantStatus_String :: "ConfirmationParticipantStatus \<Rightarrow> string" where
  "ConfirmationParticipantStatus_String SigConfirmationAwaitConfirmation =
     ''SigConfirmationAwaitConfirmation''"
| "ConfirmationParticipantStatus_String SigConfirmationConfirmed = ''SigConfirmationConfirmed''"
| "ConfirmationParticipantStatus_String SigConfirmationDeclined = ''SigConfirmationDeclined''"
| "ConfirmationParticipantStatus_String SigConfirmationError = ''SigConfirmationError''"

fun sig_status_uint8 :: "ConfirmationParticipantStatus \<Rightarrow> 8 word" where
  "sig_status_uint8 SigConfirmationAwaitConfirmation = 0"
| "sig_status_uint8 SigConfirmationConfirmed = 1"
| "sig_status_uint8 SigConfirmationDeclined = 2"
| "sig_status_uint8 SigConfirmationError = 3"

record SignatureProposalParticipant =
  sp_ParticipantID :: int
  sp_Username :: string
  sp_PubKey :: bytes
  sp_DkgPubKey :: bytes
  sp_InvitationSecret :: string
  sp_Status :: ConfirmationParticipantStatus
  sp_Threshold :: int
  sp_UpdatedAt :: time

type_synonym SignatureProposalQuorum = "(int, SignatureProposalParticipant) gomap"

record SignatureConfirmation =
  sc_Quorum :: "SignatureProposalQuorum option"
  sc_CreatedAt :: time
  sc_UpdatedAt :: time
  sc_ExpiresAt :: time

definition SignatureConfirmation_IsExpired :: "SignatureConfirmation \<Rightarrow> bool" where
  "SignatureConfirmation_IsExpired c \<longleftrightarrow> Before (sc_ExpiresAt c) (sc_UpdatedAt c)"

text \<open>
  \<open>GetOrderedParticipants\<close> sorts the ids, writes each id into its participant (through the
  pointer, so the quorum itself changes) and returns the participants in that order.
\<close>

definition SignatureProposalQuorum_GetOrderedParticipants ::
  "SignatureProposalQuorum option \<Rightarrow>
   SignatureProposalParticipant list \<times> SignatureProposalQuorum option"
where
  "SignatureProposalQuorum_GetOrderedParticipants q =
    (let sortedParticipantIDs = sort (keys (entries q));
         q = map_option (map_vals (\<lambda>participantID participant.
               participant\<lparr>sp_ParticipantID := participantID\<rparr>)) q
     in (map (\<lambda>participantID. the (map_of (entries q) participantID)) sortedParticipantIDs, q))"

section \<open>DKG proposal\<close>

datatype DKGParticipantStatus =
    CommitAwaitConfirmation
  | CommitConfirmed
  | CommitConfirmationError
  | DealAwaitConfirmation
  | DealConfirmed
  | DealConfirmationError
  | ResponseAwaitConfirmation
  | ResponseConfirmed
  | ResponseConfirmationError
  | MasterKeyAwaitConfirmation
  | MasterKeyConfirmed
  | MasterKeyConfirmationError

fun DKGParticipantStatus_String :: "DKGParticipantStatus \<Rightarrow> string" where
  "DKGParticipantStatus_String CommitAwaitConfirmation = ''CommitAwaitConfirmation''"
| "DKGParticipantStatus_String CommitConfirmed = ''CommitConfirmed''"
| "DKGParticipantStatus_String CommitConfirmationError = ''CommitConfirmationError''"
| "DKGParticipantStatus_String DealAwaitConfirmation = ''DealAwaitConfirmation''"
| "DKGParticipantStatus_String DealConfirmed = ''DealConfirmed''"
| "DKGParticipantStatus_String DealConfirmationError = ''DealConfirmationError''"
| "DKGParticipantStatus_String ResponseAwaitConfirmation = ''ResponseAwaitConfirmation''"
| "DKGParticipantStatus_String ResponseConfirmed = ''ResponseConfirmed''"
| "DKGParticipantStatus_String ResponseConfirmationError = ''ResponseConfirmationError''"
| "DKGParticipantStatus_String MasterKeyAwaitConfirmation = ''MasterKeyAwaitConfirmation''"
| "DKGParticipantStatus_String MasterKeyConfirmed = ''MasterKeyConfirmed''"
| "DKGParticipantStatus_String MasterKeyConfirmationError = ''MasterKeyConfirmationError''"

record DKGProposalParticipant =
  dp_ParticipantID :: int
  dp_Username :: string
  dp_DkgPubKey :: bytes
  dp_DkgCommit :: bytes
  dp_DkgDeal :: bytes
  dp_DkgResponse :: bytes
  dp_DkgMasterKey :: bytes
  dp_Status :: DKGParticipantStatus
  dp_Error :: "FSMError option"
  dp_UpdatedAt :: time

type_synonym DKGProposalQuorum = "(int, DKGProposalParticipant) gomap"

record DKGConfirmation =
  dc_Quorum :: "DKGProposalQuorum option"
  dc_CreatedAt :: time
  dc_UpdatedAt :: time
  dc_ExpiresAt :: time
  dc_PubPolyBz :: bytes

definition DKGConfirmation_IsExpired :: "DKGConfirmation \<Rightarrow> bool" where
  "DKGConfirmation_IsExpired c \<longleftrightarrow> Before (dc_ExpiresAt c) (dc_UpdatedAt c)"

definition DKGProposalQuorum_GetOrderedParticipants ::
  "DKGProposalQuorum option \<Rightarrow> DKGProposalParticipant list \<times> DKGProposalQuorum option"
where
  "DKGProposalQuorum_GetOrderedParticipants q =
    (let sortedParticipantIDs = sort (keys (entries q));
         q = map_option (map_vals (\<lambda>participantID participant.
               participant\<lparr>dp_ParticipantID := participantID\<rparr>)) q
     in (map (\<lambda>participantID. the (map_of (entries q) participantID)) sortedParticipantIDs, q))"

section \<open>Signing proposal\<close>

datatype SigningParticipantStatus =
    SigningAwaitPartialSigns
  | SigningPartialSignsConfirmed
  | SigningError
  | SigningProcess

fun SigningParticipantStatus_String :: "SigningParticipantStatus \<Rightarrow> string" where
  "SigningParticipantStatus_String SigningAwaitPartialSigns = ''SigningAwaitPartialSigns''"
| "SigningParticipantStatus_String SigningPartialSignsConfirmed = ''SigningPartialSignsConfirmed''"
| "SigningParticipantStatus_String SigningError = ''SigningError''"
| "SigningParticipantStatus_String SigningProcess = ''SigningProcess''"

fun signing_status_uint8 :: "SigningParticipantStatus \<Rightarrow> 8 word" where
  "signing_status_uint8 SigningAwaitPartialSigns = 0"
| "signing_status_uint8 SigningPartialSignsConfirmed = 1"
| "signing_status_uint8 SigningError = 2"
| "signing_status_uint8 SigningProcess = 3"

record SigningProposalParticipant =
  gp_ParticipantID :: int
  gp_Username :: string
  gp_Status :: SigningParticipantStatus
  gp_PartialSigns :: "((string, bytes) gomap) option"
  gp_Error :: "FSMError option"
  gp_UpdatedAt :: time

type_synonym SigningProposalQuorum = "(int, SigningProposalParticipant) gomap"

text \<open>\<open>SrcPayload\<close> is the JSON encoding of the tasks, kept as the encoded value.\<close>

record SigningConfirmation =
  gc_BatchID :: string
  gc_InitiatorId :: int
  gc_Quorum :: "SigningProposalQuorum option"
  gc_RecoveredKey :: bytes
  gc_SrcPayload :: "SigningTask list"
  gc_EncryptedPayload :: bytes
  gc_CreatedAt :: time
  gc_UpdatedAt :: time
  gc_ExpiresAt :: time

definition SigningConfirmation_IsExpired :: "SigningConfirmation \<Rightarrow> bool" where
  "SigningConfirmation_IsExpired c \<longleftrightarrow> Before (gc_ExpiresAt c) (gc_UpdatedAt c)"

definition SigningProposalQuorum_GetOrderedParticipants ::
  "SigningProposalQuorum option \<Rightarrow>
   SigningProposalParticipant list \<times> SigningProposalQuorum option"
where
  "SigningProposalQuorum_GetOrderedParticipants q =
    (let sortedParticipantIDs = sort (keys (entries q));
         q = map_option (map_vals (\<lambda>participantID participant.
               participant\<lparr>gp_ParticipantID := participantID\<rparr>)) q
     in (map (\<lambda>participantID. the (map_of (entries q) participantID)) sortedParticipantIDs, q))"

section \<open>The payload and its accessors\<close>

record DumpedMachineStatePayload =
  DkgId :: string
  Threshold :: int
  SignatureProposalPayload :: "SignatureConfirmation option"
  DKGProposalPayload :: "DKGConfirmation option"
  SigningProposalPayload :: "SigningConfirmation option"
  PubKeys :: "((string, bytes) gomap) option"
  IDs :: "((string, int) gomap) option"

subsection \<open>Signature quorum\<close>

definition SigQuorumCount :: "DumpedMachineStatePayload \<Rightarrow> int go" where
  "SigQuorumCount p = bindR (deref (SignatureProposalPayload p)) (\<lambda>c.
     Inr (case sc_Quorum c of None \<Rightarrow> 0 | Some q \<Rightarrow> int (length q)))"

definition SigQuorumExists :: "DumpedMachineStatePayload \<Rightarrow> int \<Rightarrow> bool go" where
  "SigQuorumExists p pid = bindR (deref (SignatureProposalPayload p)) (\<lambda>c.
     Inr (case sc_Quorum c of None \<Rightarrow> False | Some q \<Rightarrow> has_key q pid))"

definition SigQuorumGet ::
  "DumpedMachineStatePayload \<Rightarrow> int \<Rightarrow> (SignatureProposalParticipant option) go"
where
  "SigQuorumGet p pid = bindR (deref (SignatureProposalPayload p)) (\<lambda>c.
     Inr (case sc_Quorum c of None \<Rightarrow> None | Some q \<Rightarrow> map_of q pid))"

definition SigQuorumUpdate ::
  "int \<Rightarrow> SignatureProposalParticipant \<Rightarrow> DumpedMachineStatePayload \<Rightarrow>
   DumpedMachineStatePayload go"
where
  "SigQuorumUpdate pid participant p = bindR (deref (SignatureProposalPayload p)) (\<lambda>c.
     Inr (case sc_Quorum c of None \<Rightarrow> p
       | Some q \<Rightarrow> p\<lparr>SignatureProposalPayload :=
           Some (c\<lparr>sc_Quorum := Some (AList.update pid participant q)\<rparr>)\<rparr>))"

subsection \<open>DKG quorum\<close>

definition DKGQuorumCount :: "DumpedMachineStatePayload \<Rightarrow> int go" where
  "DKGQuorumCount p = bindR (deref (DKGProposalPayload p)) (\<lambda>c.
     Inr (case dc_Quorum c of None \<Rightarrow> 0 | Some q \<Rightarrow> int (length q)))"

definition DKGQuorumExists :: "DumpedMachineStatePayload \<Rightarrow> int \<Rightarrow> bool go" where
  "DKGQuorumExists p pid = bindR (deref (DKGProposalPayload p)) (\<lambda>c.
     Inr (case dc_Quorum c of None \<Rightarrow> False | Some q \<Rightarrow> has_key q pid))"

definition DKGQuorumGet ::
  "DumpedMachineStatePayload \<Rightarrow> int \<Rightarrow> (DKGProposalParticipant option) go"
where
  "DKGQuorumGet p pid = bindR (deref (DKGProposalPayload p)) (\<lambda>c.
     Inr (case dc_Quorum c of None \<Rightarrow> None | Some q \<Rightarrow> map_of q pid))"

definition DKGQuorumUpdate ::
  "int \<Rightarrow> DKGProposalParticipant \<Rightarrow> DumpedMachineStatePayload \<Rightarrow> DumpedMachineStatePayload go"
where
  "DKGQuorumUpdate pid participant p = bindR (deref (DKGProposalPayload p)) (\<lambda>c.
     Inr (case dc_Quorum c of None \<Rightarrow> p
       | Some q \<Rightarrow> p\<lparr>DKGProposalPayload :=
           Some (c\<lparr>dc_Quorum := Some (AList.update pid participant q)\<rparr>)\<rparr>))"

subsection \<open>Signing quorum\<close>

definition SigningQuorumCount :: "DumpedMachineStatePayload \<Rightarrow> int go" where
  "SigningQuorumCount p = bindR (deref (SigningProposalPayload p)) (\<lambda>c.
     Inr (case gc_Quorum c of None \<Rightarrow> 0 | Some q \<Rightarrow> int (length q)))"

definition GetThreshold :: "DumpedMachineStatePayload \<Rightarrow> int" where
  "GetThreshold p = Threshold p"

definition SigningQuorumExists :: "DumpedMachineStatePayload \<Rightarrow> int \<Rightarrow> bool go" where
  "SigningQuorumExists p pid = bindR (deref (SigningProposalPayload p)) (\<lambda>c.
     Inr (case gc_Quorum c of None \<Rightarrow> False | Some q \<Rightarrow> has_key q pid))"

text \<open>
  \<open>SigningQuorumGet\<close> allocates the participant's map of partial signs when it is \<open>nil\<close>; the
  participant is reached through a pointer, so the payload changes too.  For an id outside the
  quorum it dereferences a \<open>nil\<close> participant.
\<close>

definition alloc_PartialSigns :: "SigningProposalParticipant \<Rightarrow> SigningProposalParticipant" where
  "alloc_PartialSigns participant =
    (if gp_PartialSigns participant = None
     then participant\<lparr>gp_PartialSigns := Some []\<rparr> else participant)"

definition SigningQuorumGet ::
  "DumpedMachineStatePayload \<Rightarrow> int \<Rightarrow>
   (SigningProposalParticipant option \<times> DumpedMachineStatePayload) go"
where
  "SigningQuorumGet p pid = bindR (deref (SigningProposalPayload p)) (\<lambda>c.
     case gc_Quorum c of None \<Rightarrow> Inr (None, p)
     | Some q \<Rightarrow> bindR (deref (map_of q pid)) (\<lambda>participant.
         let participant = alloc_PartialSigns participant in
         Inr (Some participant, p\<lparr>SigningProposalPayload :=
           Some (c\<lparr>gc_Quorum := Some (AList.update pid participant q)\<rparr>)\<rparr>)))"

definition SigningQuorumUpdate ::
  "int \<Rightarrow> SigningProposalParticipant \<Rightarrow> DumpedMachineStatePayload \<Rightarrow>
   DumpedMachineStatePayload go"
where
  "SigningQuorumUpdate pid participant p = bindR (deref (SigningProposalPayload p)) (\<lambda>c.
     Inr (case gc_Quorum c of None \<Rightarrow> p
       | Some q \<Rightarrow> p\<lparr>SigningProposalPayload :=
           Some (c\<lparr>gc_Quorum := Some (AList.update pid participant q)\<rparr>)\<rparr>))"

subsection \<open>Keys and ids by username\<close>

definition SetPubKeyUsername ::
  "string \<Rightarrow> bytes \<Rightarrow> DumpedMachineStatePayload \<Rightarrow> DumpedMachineStatePayload"
where
  "SetPubKeyUsername username pubKey p =
     p\<lparr>PubKeys := Some (AList.update username pubKey (entries (PubKeys p)))\<rparr>"

definition SetIDUsername ::
  "string \<Rightarrow> int \<Rightarrow> DumpedMachineStatePayload \<Rightarrow> DumpedMachineStatePayload"
where
  "SetIDUsername username pid p =
     p\<lparr>IDs := Some (AList.update username pid (entries (IDs p)))\<rparr>"

definition GetPubKeyByUsername :: "DumpedMachineStatePayload \<Rightarrow> string \<Rightarrow> error + bytes" where
  "GetPubKeyByUsername p username =
    (case PubKeys p of
       None \<Rightarrow> Inl (errorsNew ''{PubKeys} not initialized'')
     | Some pubKeys \<Rightarrow>
         if username = '''' then Inl (errorsNew ''{username} cannot be empty'')
         else case map_of pubKeys username of
           None \<Rightarrow> Inl (errorsNew ''cannot find public key by {username}'')
         | Some pubKey \<Rightarrow> Inr pubKey)"

text \<open>The source returns the pair \<open>(-1, err)\<close> on an error.\<close>

definition GetIDByUsername :: "DumpedMachineStatePayload \<Rightarrow> string \<Rightarrow> error + int" where
  "GetIDByUsername p username =
    (case IDs p of
       None \<Rightarrow> Inl (errorsNew ''{IDs} not initialized'')
     | Some ids \<Rightarrow>
         if username = '''' then Inl (errorsNew ''{username} cannot be empty'')
         else case map_of ids username of
           None \<Rightarrow> Inl (errorsNew ''cannot find id by {username}'')
         | Some pid \<Rightarrow> Inr pid)"

section \<open>The quorum interface\<close>

text \<open>
  The three quorums offer the same operations; the machines rely only on the laws below.
  \<open>norm\<close> is what reading a participant does to it (allocation of the partial signs for the
  signing quorum, nothing for the others).
\<close>

locale quorum_store =
  fixes quorum :: "'s \<Rightarrow> (int, 'v) gomap option"
    and qcount :: "'s \<Rightarrow> int go"
    and qexists :: "'s \<Rightarrow> int \<Rightarrow> bool go"
    and qget :: "'s \<Rightarrow> int \<Rightarrow> ('v option \<times> 's) go"
    and qupdate :: "int \<Rightarrow> 'v \<Rightarrow> 's \<Rightarrow> 's go"
    and norm :: "'v \<Rightarrow> 'v"
  assumes count_law: "quorum s = Some q \<Longrightarrow> qcount s = Inr (int (length q))"
    and exists_law: "quorum s = Some q \<Longrightarrow> qexists s i = Inr (has_key q i)"
    and get_law: "quorum s = Some q \<Longrightarrow> map_of q i = Some v \<Longrightarrow>
      \<exists>s'. qget s i = Inr (Some (norm v), s') \<and> quorum s' = Some (AList.update i (norm v) q)"
    and update_law: "quorum s = Some q \<Longrightarrow>
      \<exists>s'. qupdate i v s = Inr s' \<and> quorum s' = Some (AList.update i v q)"
begin

lemma exists_then_get:
  assumes "quorum s = Some q" and "qexists s i = Inr True"
  shows "\<exists>v s'. map_of q i = Some v \<and> qget s i = Inr (Some (norm v), s')"
  using assms exists_law[OF assms(1)] get_law[OF assms(1)] by fastforce

lemma update_quorum:
  assumes "quorum s = Some q" and "qupdate i v s = Inr s'"
  shows "quorum s' = Some (AList.update i v q)"
  using update_law[OF assms(1), of i v] assms(2) by auto

lemma update_then_get:
  assumes "quorum s = Some q" and "qupdate i v s = Inr s'"
  shows "\<exists>s''. qget s' i = Inr (Some (norm v), s'')"
  using get_law[OF update_quorum[OF assms], of i v] by auto

lemma update_then_get_other:
  assumes "quorum s = Some q" and "qupdate i v s = Inr s'" and "j \<noteq> i" and "map_of q j = Some w"
  shows "\<exists>s''. qget s' j = Inr (Some (norm w), s'')"
  using get_law[OF update_quorum[OF assms(1,2)], of j w] assms(3,4) by auto

lemma update_then_exists:
  assumes "quorum s = Some q" and "qupdate i v s = Inr s'"
  shows "qexists s' j = Inr (j = i \<or> has_key q j)"
  using exists_law[OF update_quorum[OF assms], of j] by auto

lemma update_then_count:
  assumes "quorum s = Some q" and "qupdate i v s = Inr s'" and "qexists s i = Inr True"
  shows "qcount s' = qcount s"
  using assms count_law[OF update_quorum[OF assms(1,2)]] count_law[OF assms(1)]
    exists_law[OF assms(1), of i] length_update_has_key[of q i v] by auto

end

lemma update_same: "map_of m k = Some v \<Longrightarrow> AList.update k v m = m"
  by (induction m) (auto split: if_splits)

definition sig_quorum :: "DumpedMachineStatePayload \<Rightarrow> SignatureProposalQuorum option" where
  "sig_quorum p = Option.bind (SignatureProposalPayload p) sc_Quorum"

definition dkg_quorum :: "DumpedMachineStatePayload \<Rightarrow> DKGProposalQuorum option" where
  "dkg_quorum p = Option.bind (DKGProposalPayload p) dc_Quorum"

definition signing_quorum :: "DumpedMachineStatePayload \<Rightarrow> SigningProposalQuorum option" where
  "signing_quorum p = Option.bind (SigningProposalPayload p) gc_Quorum"

lemmas quorum_defs = sig_quorum_def dkg_quorum_def signing_quorum_def

lemmas quorum_op_defs = SigQuorumCount_def SigQuorumExists_def SigQuorumGet_def SigQuorumUpdate_def
  DKGQuorumCount_def DKGQuorumExists_def DKGQuorumGet_def DKGQuorumUpdate_def
  SigningQuorumCount_def SigningQuorumExists_def SigningQuorumGet_def SigningQuorumUpdate_def

interpretation sig_store: quorum_store sig_quorum SigQuorumCount SigQuorumExists
  "\<lambda>p i. bindR (SigQuorumGet p i) (\<lambda>v. Inr (v, p))" SigQuorumUpdate "\<lambda>v. v"
  by unfold_locales (auto simp: quorum_defs quorum_op_defs update_same bind_eq_Some_conv)

interpretation dkg_store: quorum_store dkg_quorum DKGQuorumCount DKGQuorumExists
  "\<lambda>p i. bindR (DKGQuorumGet p i) (\<lambda>v. Inr (v, p))" DKGQuorumUpdate "\<lambda>v. v"
  by unfold_locales (auto simp: quorum_defs quorum_op_defs update_same bind_eq_Some_conv)

interpretation signing_store: quorum_store signing_quorum SigningQuorumCount SigningQuorumExists
  SigningQuorumGet SigningQuorumUpdate alloc_PartialSigns
  by unfold_locales (auto simp: quorum_defs quorum_op_defs Let_def bind_eq_Some_conv)

section \<open>Ordered participants\<close>

lemma map_the_lookup_sorted:
  assumes "distinct (keys m)"
  shows "mset (map (\<lambda>i. the (map_of m i)) (sort (keys m))) = mset (vals m)"
  using lookup_keys[OF assms] by (metis mset_map mset_sort)

lemma map_id_of_ordered:
  assumes "\<And>i v. getid (setid i v) = i"
  shows "map getid (map (\<lambda>i. the (map_of (map_vals setid m) i)) (sort (keys m))) = sort (keys m)"
proof -
  have "getid (the (map_of (map_vals setid m) i)) = i" if "i \<in> set (sort (keys m))" for i
    using that assms has_key_keys[of m i] by auto
  then show ?thesis unfolding map_map by (intro map_idI) (simp only: comp_apply)
qed

lemma mset_of_ordered:
  assumes "distinct (keys m)" and "\<And>i v. forget (setid i v) = forget v"
  shows "mset (map forget (map (\<lambda>i. the (map_of (map_vals setid m) i)) (sort (keys m)))) =
    mset (map forget (vals m))"
proof -
  have "mset (map (\<lambda>i. the (map_of (map_vals setid m) i)) (sort (keys m))) = mset (vals (map_vals setid m))"
    using map_the_lookup_sorted[of "map_vals setid m"] assms(1) by simp
  moreover have "map forget (vals (map_vals setid m)) = map forget (vals m)"
    using assms(2) by (simp add: map_vals_def case_prod_unfold comp_def)
  ultimately show ?thesis by (metis mset_map)
qed

end
