(* ===== verification/Machine.thy ===== *)
theory Machine
  imports Fsm Payload
begin

text \<open>
  What the three machines share: the type of a machine over the round's payload, the shape of
  an event description (the fields a composite literal leaves out are zero), \<open>WithSetup\<close>, and
  the routes of the dispatcher that the machines take: an event with a callback and no auto
  event before it, followed or not by an auto event after it.
\<close>

section \<open>Tables\<close>

abbreviation evt :: "Event \<Rightarrow> State list \<Rightarrow> State \<Rightarrow> EventDesc" where
  "evt n src dst \<equiv> \<lparr>ed_Name = n, ed_SrcState = src, ed_DstState = dst, ed_IsInternal = False,
     ed_IsAuto = False, ed_AutoRunMode = EventRunDefault\<rparr>"

abbreviation evt_internal :: "Event \<Rightarrow> State list \<Rightarrow> State \<Rightarrow> EventDesc" where
  "evt_internal n src dst \<equiv> \<lparr>ed_Name = n, ed_SrcState = src, ed_DstState = dst,
     ed_IsInternal = True, ed_IsAuto = False, ed_AutoRunMode = EventRunDefault\<rparr>"

abbreviation evt_auto :: "Event \<Rightarrow> State list \<Rightarrow> State \<Rightarrow> EventDesc" where
  "evt_auto n src dst \<equiv> \<lparr>ed_Name = n, ed_SrcState = src, ed_DstState = dst,
     ed_IsInternal = True, ed_IsAuto = True, ed_AutoRunMode = EventRunDefault\<rparr>"

abbreviation tr_public :: "Event \<Rightarrow> State \<Rightarrow> trEvent" where
  "tr_public e dst \<equiv> \<lparr>tr_event = e, tr_dstState = dst, tr_isInternal = False,
     tr_isAuto = False, tr_runMode = EventRunDefault\<rparr>"

abbreviation tr_internal :: "Event \<Rightarrow> State \<Rightarrow> trEvent" where
  "tr_internal e dst \<equiv> \<lparr>tr_event = e, tr_dstState = dst, tr_isInternal = True,
     tr_isAuto = False, tr_runMode = EventRunDefault\<rparr>"

abbreviation tr_auto :: "Event \<Rightarrow> State \<Rightarrow> trEvent" where
  "tr_auto e dst \<equiv> \<lparr>tr_event = e, tr_dstState = dst, tr_isInternal = True,
     tr_isAuto = True, tr_runMode = EventRunAfter\<rparr>"

type_synonym machine = "(request, response, DumpedMachineStatePayload) FSM"
type_synonym action = "(request, response, DumpedMachineStatePayload) Callback"

text \<open>The machine holds the payload by pointer; in the model it travels with the calls.\<close>

definition WithSetup ::
  "State \<Rightarrow> DumpedMachineStatePayload \<Rightarrow> machine \<Rightarrow> (machine \<times> DumpedMachineStatePayload) go"
where
  "WithSetup state payload m = bindR (MustCopyWithState state m) (\<lambda>m. Inr (m, payload))"

section \<open>Routes through the dispatcher\<close>

text \<open>The machine \<open>f\<close> placed in state \<open>s\<close>.\<close>

abbreviation in_state :: "('a, 'r, 'p) FSM \<Rightarrow> State \<Rightarrow> ('a, 'r, 'p) FSM" where
  "in_state f s \<equiv> f\<lparr>fsm_currentState := s\<rparr>"

lemma FSM_Do_unrouted:
  assumes "map_of (fsm_transitions f) (s, e) = None"
  shows "FSM_Do e args (in_state f s) p =
    Inr ((None, Some (Errorf ''cannot execute event \"%s\" for state \"%s\"'' [AStr e, AStr s])),
      in_state f s, p)"
  using assms by (simp add: FSM_Do_def)

lemma FSM_Do_internal:
  assumes "map_of (fsm_transitions f) (s, e) = Some tr" and "tr_isInternal tr"
  shows "FSM_Do e args (in_state f s) p =
    Inr ((None, Some (errorsNew ''event is internal'')), in_state f s, p)"
  using assms by (simp add: FSM_Do_def)

lemma FSM_Do_callback:
  assumes "map_of (fsm_transitions f) (s, e) = Some (tr_public e d)"
    and "map_of (fsm_autoTransitions f) (s, EventRunBefore) = None"
    and "map_of (fsm_callbacks f) e = Some cb"
  shows "FSM_Do e args (in_state f s) p =
    bindR (cb e args p) (\<lambda>((out, data, err), p).
      let resp = \<lparr>resp_State = '''', resp_Data = data\<rparr> in
      case err of
        Some x \<Rightarrow> Inr ((Some resp, Some x), in_state f s, p)
      | None \<Rightarrow> do_finish e args out resp (in_state f s) p)"
  using assms
  by (simp add: FSM_Do_def FSM_do_def processAutoEvent_def currentState_def do_callback_def
      isCallbackExists_def execCallback_def afterAuto_def)

lemma nextState_in_state:
  assumes "map_of (fsm_transitions f) (s, if out = '''' then e else out) = Some tr"
  shows "nextState e out (in_state f s) = (None, in_state f (tr_dstState tr))"
  using assms by (cases "out = ''''") (auto simp: nextState_def Event_IsEmpty_def SetState_def)

lemma do_finish_plain:
  assumes "map_of (fsm_transitions f) (s, if out = '''' then e else out) = Some tr"
    and "tr_dstState tr = d"
    and "map_of (fsm_autoTransitions f) (d, EventRunAfter) = None"
  shows "do_finish e args out resp (in_state f s) p =
    Inr ((Some (resp\<lparr>resp_State := d\<rparr>), None), in_state f d, p)"
  using assms nextState_in_state[OF assms(1)]
  by (simp add: do_finish_def processAutoEvent_def currentState_def afterAuto_def)

lemma do_finish_auto:
  assumes "map_of (fsm_transitions f) (s, if out = '''' then e else out) = Some tr"
    and "tr_dstState tr = d"
    and "map_of (fsm_autoTransitions f) (d, EventRunAfter) = Some (tr_auto a d')"
    and "map_of (fsm_callbacks f) a = Some cb"
  shows "do_finish e args out resp (in_state f s) p =
    bindR (cb a args p) (\<lambda>((out', data, err), p).
      case err of
        Some x \<Rightarrow> Inr ((Some (afterAuto True data (in_state f d) (resp\<lparr>resp_State := d\<rparr>)), Some x),
            in_state f d, p)
      | None \<Rightarrow> (case nextState a out' (in_state f d) of (err, g) \<Rightarrow>
          Inr ((Some (afterAuto True data g (resp\<lparr>resp_State := d\<rparr>)), err), g, p)))"
proof -
  have n: "nextState e out (in_state f s) = (None, in_state f d)"
    using nextState_in_state[OF assms(1)] assms(2) by simp
  have st: "afterAuto True data g r\<lparr>resp_State := currentState g\<rparr> = afterAuto True data g r"
    for data and g :: "('a, 'b, 'c) FSM" and r
    by (auto simp: afterAuto_def Let_def split: option.splits)
  have cl: "currentState (in_state f d) = d" by (simp add: currentState_def)
  show ?thesis
    using assms(3,4)
    by (cases "cb a args p")
       (auto simp: do_finish_def n processAutoEvent_def cl isCallbackExists_def execCallback_def st Let_def
         split: option.splits prod.splits)
qed

text \<open>A callback that fails, one whose target has no auto event, one whose target has one.\<close>

lemma FSM_Do_rejected:
  assumes "map_of (fsm_transitions f) (s, e) = Some (tr_public e d)"
    and "map_of (fsm_autoTransitions f) (s, EventRunBefore) = None"
    and "map_of (fsm_callbacks f) e = Some cb"
    and "cb e args p = Inr ((out, data, Some x), p1)"
  shows "FSM_Do e args (in_state f s) p =
    Inr ((Some \<lparr>resp_State = '''', resp_Data = data\<rparr>, Some x), in_state f s, p1)"
  using FSM_Do_callback[OF assms(1-3)] assms(4) by simp

lemma FSM_Do_plain:
  assumes "map_of (fsm_transitions f) (s, e) = Some (tr_public e d)"
    and "map_of (fsm_autoTransitions f) (s, EventRunBefore) = None"
    and "map_of (fsm_callbacks f) e = Some cb"
    and "cb e args p = Inr ((out, data, None), p1)"
    and "map_of (fsm_transitions f) (s, if out = '''' then e else out) = Some tr"
    and "tr_dstState tr = w"
    and "map_of (fsm_autoTransitions f) (w, EventRunAfter) = None"
  shows "FSM_Do e args (in_state f s) p =
    Inr ((Some \<lparr>resp_State = w, resp_Data = data\<rparr>, None), in_state f w, p1)"
  using FSM_Do_callback[OF assms(1-3)] assms(4) do_finish_plain[OF assms(5-7)] by simp

lemma FSM_Do_collect:
  assumes "map_of (fsm_transitions f) (s, e) = Some (tr_public e d)"
    and "map_of (fsm_autoTransitions f) (s, EventRunBefore) = None"
    and "map_of (fsm_callbacks f) e = Some cb"
    and "cb e args p = Inr ((out, data, None), p1)"
    and "map_of (fsm_transitions f) (s, if out = '''' then e else out) = Some tr"
    and "tr_dstState tr = w"
    and "map_of (fsm_autoTransitions f) (w, EventRunAfter) = Some (tr_auto a d')"
    and "map_of (fsm_callbacks f) a = Some val"
    and "val a args p1 = Inr ((out2, data2, None), p2)"
    and "map_of (fsm_transitions f) (w, if out2 = '''' then a else out2) = Some tr2"
    and "tr_dstState tr2 = w2"
  shows "FSM_Do e args (in_state f s) p =
    Inr ((Some \<lparr>resp_State = w2, resp_Data = (if data2 = None then data else data2)\<rparr>,
      None), in_state f w2, p2)"
  using FSM_Do_callback[OF assms(1-3)] assms(4,9,11) do_finish_auto[OF assms(5-8)]
    nextState_in_state[OF assms(10)]
  by (auto simp: afterAuto_def currentState_def split: option.splits)

section \<open>Runs\<close>

text \<open>A sequence of events given to one machine, each of which has to succeed.\<close>

fun machine_run ::
  "machine \<Rightarrow> (Event \<times> request list) list \<Rightarrow> State \<Rightarrow> DumpedMachineStatePayload \<Rightarrow>
   (State \<times> DumpedMachineStatePayload) option"
where
  "machine_run m [] s p = Some (s, p)"
| "machine_run m ((e, args) # es) s p =
    (case FSM_Do e args (in_state m s) p of
       Inr ((Some r, None), g, p') \<Rightarrow> machine_run m es (fsm_currentState g) p'
     | _ \<Rightarrow> None)"

end
