(* ===== verification/Signature_Proposal.thy ===== *)
theory Signature_Proposal
  imports Machine
begin

text \<open>
  The signature proposal machine (\<open>src/fsm/state_machines/signature_proposal_fsm\<close>): it collects
  the agreement of every invited participant.  \<open>init.go\<close> gives the states, events and table,
  \<open>actions.go\<close> the callbacks.
\<close>

section \<open>States and events\<close>

definition signature_proposal_FsmName :: string where
  "signature_proposal_FsmName = ''signature_proposal_fsm''"

definition StateParticipantsConfirmationsInit :: State where [fsm_const]:
  "StateParticipantsConfirmationsInit = StateGlobalIdle"
definition StateAwaitParticipantsConfirmations :: State where [fsm_const]:
  "StateAwaitParticipantsConfirmations = ''state_sig_proposal_await_participants_confirmations''"
definition StateValidationCanceledByParticipant :: State where [fsm_const]:
  "StateValidationCanceledByParticipant = ''state_sig_proposal_canceled_by_participant''"
definition StateValidationCanceledByTimeout :: State where [fsm_const]:
  "StateValidationCanceledByTimeout = ''state_sig_proposal_canceled_by_timeout''"

definition EventInitProposal :: Event where [fsm_const]:
  "EventInitProposal = ''event_sig_proposal_init''"
definition EventConfirmSignatureProposal :: Event where [fsm_const]:
  "EventConfirmSignatureProposal = ''event_sig_proposal_confirm_by_participant''"
definition EventDeclineProposal :: Event where [fsm_const]:
  "EventDeclineProposal = ''event_sig_proposal_decline_by_participant''"
definition eventAutoValidateProposalInternal :: Event where [fsm_const]:
  "eventAutoValidateProposalInternal = ''event_sig_proposal_validate''"
definition eventSetProposalValidatedInternal :: Event where [fsm_const]:
  "eventSetProposalValidatedInternal = ''event_sig_proposal_set_validated''"
definition eventSetValidationCanceledByTimeout :: Event where [fsm_const]:
  "eventSetValidationCanceledByTimeout = ''event_sig_proposal_canceled_timeout''"
definition eventSetValidationCanceledByParticipant :: Event where [fsm_const]:
  "eventSetValidationCanceledByParticipant = ''event_sig_proposal_canceled_participant''"

definition StateSignatureProposalCollected :: State where [fsm_const]:
  "StateSignatureProposalCollected = ''state_sig_proposal_collected''"

section \<open>Actions\<close>

text \<open>One iteration of the loop that fills the quorum; the entries were validated, so a
  \<open>nil\<close> entry panics in \<open>Validate\<close> already.\<close>

fun addParticipants ::
  "int \<Rightarrow> time \<Rightarrow> int \<Rightarrow> SignatureProposalParticipantsEntry option list \<Rightarrow>
   DumpedMachineStatePayload \<Rightarrow> DumpedMachineStatePayload go"
where
  "addParticipants threshold createdAt index [] p = Inr p"
| "addParticipants threshold createdAt index (x # xs) p =
     bindR (deref x) (\<lambda>participant.
     bindR (SigQuorumUpdate index
              \<lparr>sp_ParticipantID = 0, sp_Username = pe_Username participant,
               sp_PubKey = pe_PubKey participant, sp_DkgPubKey = pe_DkgPubKey participant,
               sp_InvitationSecret = '''', sp_Status = SigConfirmationAwaitConfirmation,
               sp_Threshold = threshold, sp_UpdatedAt = createdAt\<rparr> p) (\<lambda>p.
     let p = SetPubKeyUsername (pe_Username participant) (pe_PubKey participant) p;
         p = SetIDUsername (pe_Username participant) index p
     in addParticipants threshold createdAt (index + 1) xs p))"

definition actionInitSignatureProposal :: action where
  "actionInitSignatureProposal inEvent args p =
    with_request ''{arg0} required {SignatureProposalParticipantsListRequest}''
      ''cannot cast {arg0} to type {SignatureProposalParticipantsListRequest}''
      as_SigInit SignatureProposalParticipantsListRequest_Validate args p (\<lambda>request.
    let p = p\<lparr>SignatureProposalPayload := Some
          \<lparr>sc_Quorum = Some [], sc_CreatedAt = pl_CreatedAt request, sc_UpdatedAt = 0,
           sc_ExpiresAt = Add (pl_CreatedAt request) SignatureProposalConfirmationDeadline\<rparr>\<rparr>
    in bindR (addParticipants (pl_SigningThreshold request) (pl_CreatedAt request) 0
                (pl_Participants request) p) (\<lambda>p.
    bindR (SigQuorumCount p) (\<lambda>count.
    if count \<noteq> int (length (pl_Participants request))
    then ret_err (errorsNew ''error with creating {SignatureProposalQuorum}'') p
    else
      let p = p\<lparr>Threshold := pl_SigningThreshold request\<rparr>
      in bindR (deref (SignatureProposalPayload p)) (\<lambda>c.
         let (participants, quorum) =
               SignatureProposalQuorum_GetOrderedParticipants (sc_Quorum c);
             p = p\<lparr>SignatureProposalPayload := Some (c\<lparr>sc_Quorum := quorum\<rparr>)\<rparr>;
             responseData = map (\<lambda>participant.
               \<lparr>ie_ParticipantId = sp_ParticipantID participant,
                ie_Username = sp_Username participant, ie_Threshold = sp_Threshold participant,
                ie_DkgPubKey = sp_DkgPubKey participant,
                ie_PubKey = sp_PubKey participant\<rparr>) participants
         in ret_resp inEvent (RespInvitations responseData) p))))"

definition actionProposalResponseByParticipant :: action where
  "actionProposalResponseByParticipant inEvent args p =
    with_request ''{arg0} required {SignatureProposalParticipantRequest}''
      ''cannot cast {arg0} to type {SignatureProposalParticipantRequest}''
      as_SigParticipant (total SignatureProposalParticipantRequest_Validate) args p (\<lambda>request.
    bindR (SigQuorumExists p (pr_ParticipantId request)) (\<lambda>exists.
    if \<not> exists then ret_err (errorsNew ''{ParticipantId} not exist in quorum'') p
    else bindR (bindR (SigQuorumGet p (pr_ParticipantId request)) deref) (\<lambda>participant.
      if Before (Add (sp_UpdatedAt participant) SignatureProposalConfirmationDeadline)
           (pr_CreatedAt request)
      then ret_event eventSetValidationCanceledByTimeout p
      else if sp_Status participant \<noteq> SigConfirmationAwaitConfirmation
      then ret_err (Errorf ''cannot apply reply participant with {Status} = {\"%s\"}''
             [AStr (ConfirmationParticipantStatus_String (sp_Status participant))]) p
      else
        let reply = (\<lambda>status.
              let participant = participant\<lparr>sp_Status := status, sp_UpdatedAt := pr_CreatedAt request\<rparr>
              in bindR (deref (SignatureProposalPayload p)) (\<lambda>c.
                 let p = p\<lparr>SignatureProposalPayload :=
                       Some (c\<lparr>sc_UpdatedAt := pr_CreatedAt request\<rparr>)\<rparr>
                 in bindR (SigQuorumUpdate (pr_ParticipantId request) participant p)
                      (ret_event '''')))
        in if inEvent = EventConfirmSignatureProposal then reply SigConfirmationConfirmed
           else if inEvent = EventDeclineProposal then reply SigConfirmationDeclined
           else ret_err (Errorf ''unsupported event for action {inEvent} = {\"%s\"}''
                  [AStr inEvent]) p)))"

definition actionValidateSignatureProposal :: action where
  "actionValidateSignatureProposal inEvent args p =
    bindR (deref (SignatureProposalPayload p)) (\<lambda>c.
    if SignatureConfirmation_IsExpired c then ret_event eventSetValidationCanceledByTimeout p
    else bindR (SigQuorumCount p) (\<lambda>count.
      let (unconfirmedParticipants, isContainsDecline) =
            fold (\<lambda>(_, participant) (n, d).
               if sp_Status participant = SigConfirmationConfirmed then (n - 1, d)
               else if sp_Status participant = SigConfirmationDeclined then (n, True)
               else (n, d)) (entries (sc_Quorum c)) (count, False)
      in if isContainsDecline then ret_event eventSetValidationCanceledByParticipant p
         else if unconfirmedParticipants > 0 then ret_event '''' p
         else
           let responseData = map (\<lambda>(participantId, participant).
                 \<lparr>sse_ParticipantId = participantId, sse_Username = sp_Username participant,
                  sse_Status = sig_status_uint8 (sp_Status participant)\<rparr>) (entries (sc_Quorum c))
           in ret_resp eventSetProposalValidatedInternal (RespStatuses responseData) p))"

section \<open>The machine\<close>

definition signature_proposal_events :: "EventDesc list" where
  "signature_proposal_events =
    [evt EventInitProposal [StateParticipantsConfirmationsInit] StateAwaitParticipantsConfirmations,
     evt EventConfirmSignatureProposal [StateAwaitParticipantsConfirmations]
       StateAwaitParticipantsConfirmations,
     evt EventDeclineProposal [StateAwaitParticipantsConfirmations]
       StateAwaitParticipantsConfirmations,
     evt_internal eventSetValidationCanceledByParticipant [StateAwaitParticipantsConfirmations]
       StateValidationCanceledByParticipant,
     evt_auto eventAutoValidateProposalInternal [StateAwaitParticipantsConfirmations]
       StateAwaitParticipantsConfirmations,
     evt_internal eventSetProposalValidatedInternal [StateAwaitParticipantsConfirmations]
       StateSignatureProposalCollected,
     evt_internal eventSetValidationCanceledByTimeout [StateAwaitParticipantsConfirmations]
       StateValidationCanceledByTimeout]"

definition signature_proposal_callbacks :: "(Event, action) gomap" where
  "signature_proposal_callbacks =
    [(EventInitProposal, actionInitSignatureProposal),
     (EventConfirmSignatureProposal, actionProposalResponseByParticipant),
     (EventDeclineProposal, actionProposalResponseByParticipant),
     (eventAutoValidateProposalInternal, actionValidateSignatureProposal)]"

definition signature_proposal_New :: "machine go" where
  "signature_proposal_New = MustNewFSM signature_proposal_FsmName StateGlobalIdle
     signature_proposal_events signature_proposal_callbacks"

text \<open>The names are pairwise distinct.\<close>

lemma sig_states_distinct:
  "distinct
    ['''', StateGlobalIdle, StateGlobalDone,
     StateAwaitParticipantsConfirmations,
     StateValidationCanceledByParticipant,
     StateValidationCanceledByTimeout,
     StateSignatureProposalCollected]"
  by code_simp

lemma sig_events_distinct:
  "distinct
    ['''', EventInitProposal,
     EventConfirmSignatureProposal,
     EventDeclineProposal,
     eventAutoValidateProposalInternal,
     eventSetProposalValidatedInternal,
     eventSetValidationCanceledByTimeout,
     eventSetValidationCanceledByParticipant]"
  by code_simp

lemmas sig_neq =
  sig_states_distinct [simplified]
  sig_states_distinct [THEN iffD2 [OF distinct_rev], unfolded rev.simps append.simps, simplified]
  sig_events_distinct [simplified]
  sig_events_distinct [THEN iffD2 [OF distinct_rev], unfolded rev.simps append.simps, simplified]

text \<open>The machine that the construction yields, table by table.\<close>

definition sig_fsm :: machine where
  "sig_fsm = \<lparr>fsm_name = signature_proposal_FsmName, fsm_initialState = StateGlobalIdle,
     fsm_currentState = StateGlobalIdle,
     fsm_transitions =
      [((StateParticipantsConfirmationsInit, EventInitProposal),
         tr_public EventInitProposal
           StateAwaitParticipantsConfirmations),
       ((StateAwaitParticipantsConfirmations, EventConfirmSignatureProposal),
         tr_public EventConfirmSignatureProposal
           StateAwaitParticipantsConfirmations),
       ((StateAwaitParticipantsConfirmations, EventDeclineProposal),
         tr_public EventDeclineProposal
           StateAwaitParticipantsConfirmations),
       ((StateAwaitParticipantsConfirmations, eventSetValidationCanceledByParticipant),
         tr_internal eventSetValidationCanceledByParticipant
           StateValidationCanceledByParticipant),
       ((StateAwaitParticipantsConfirmations, eventAutoValidateProposalInternal),
         tr_auto eventAutoValidateProposalInternal
           StateAwaitParticipantsConfirmations),
       ((StateAwaitParticipantsConfirmations, eventSetProposalValidatedInternal),
         tr_internal eventSetProposalValidatedInternal
           StateSignatureProposalCollected),
       ((StateAwaitParticipantsConfirmations, eventSetValidationCanceledByTimeout),
         tr_internal eventSetValidationCanceledByTimeout
           StateValidationCanceledByTimeout)],
     fsm_autoTransitions =
      [((StateAwaitParticipantsConfirmations, EventRunAfter),
         tr_auto eventAutoValidateProposalInternal
           StateAwaitParticipantsConfirmations)],
     fsm_callbacks = signature_proposal_callbacks,
     fsm_initialEvent = EventInitProposal,
     fsm_finStates =
      [(StateValidationCanceledByParticipant, True),
       (StateSignatureProposalCollected, True),
       (StateValidationCanceledByTimeout, True)]\<rparr>"

lemma signature_proposal_New_eq: "signature_proposal_New = Inr sig_fsm"
  by (simp add: signature_proposal_New_def sig_fsm_def MustNewFSM_def signature_proposal_events_def
      signature_proposal_callbacks_def signature_proposal_FsmName_def addEvent_def addSource_def
      addCallback_def addFinState_def Let_def sig_neq StateParticipantsConfirmationsInit_def)

text \<open>Lookups in the tables.\<close>

lemma sig_transitions:
  "map_of (fsm_transitions sig_fsm) (StateParticipantsConfirmationsInit, EventInitProposal) =
     Some (tr_public EventInitProposal
       StateAwaitParticipantsConfirmations)"
  "map_of (fsm_transitions sig_fsm) (StateAwaitParticipantsConfirmations, EventConfirmSignatureProposal) =
     Some (tr_public EventConfirmSignatureProposal
       StateAwaitParticipantsConfirmations)"
  "map_of (fsm_transitions sig_fsm) (StateAwaitParticipantsConfirmations, EventDeclineProposal) =
     Some (tr_public EventDeclineProposal
       StateAwaitParticipantsConfirmations)"
  "map_of (fsm_transitions sig_fsm) (StateAwaitParticipantsConfirmations, eventSetValidationCanceledByParticipant) =
     Some (tr_internal eventSetValidationCanceledByParticipant
       StateValidationCanceledByParticipant)"
  "map_of (fsm_transitions sig_fsm) (StateAwaitParticipantsConfirmations, eventAutoValidateProposalInternal) =
     Some (tr_auto eventAutoValidateProposalInternal
       StateAwaitParticipantsConfirmations)"
  "map_of (fsm_transitions sig_fsm) (StateAwaitParticipantsConfirmations, eventSetProposalValidatedInternal) =
     Some (tr_internal eventSetProposalValidatedInternal
       StateSignatureProposalCollected)"
  "map_of (fsm_transitions sig_fsm) (StateAwaitParticipantsConfirmations, eventSetValidationCanceledByTimeout) =
     Some (tr_internal eventSetValidationCanceledByTimeout
       StateValidationCanceledByTimeout)"
  by (simp_all add: sig_fsm_def sig_neq StateParticipantsConfirmationsInit_def)

lemma sig_callbacks:
  "map_of (fsm_callbacks sig_fsm) EventInitProposal = Some actionInitSignatureProposal"
  "map_of (fsm_callbacks sig_fsm) EventConfirmSignatureProposal = Some actionProposalResponseByParticipant"
  "map_of (fsm_callbacks sig_fsm) EventDeclineProposal = Some actionProposalResponseByParticipant"
  "map_of (fsm_callbacks sig_fsm) eventAutoValidateProposalInternal = Some actionValidateSignatureProposal"
  by (simp_all add: sig_fsm_def signature_proposal_callbacks_def sig_neq StateParticipantsConfirmationsInit_def)

lemma sig_autos:
  "map_of (fsm_autoTransitions sig_fsm) (StateParticipantsConfirmationsInit, EventRunAfter) = None"
  "map_of (fsm_autoTransitions sig_fsm) (StateAwaitParticipantsConfirmations, EventRunAfter) =
     Some (tr_auto eventAutoValidateProposalInternal
       StateAwaitParticipantsConfirmations)"
  "map_of (fsm_autoTransitions sig_fsm) (StateValidationCanceledByParticipant, EventRunAfter) = None"
  "map_of (fsm_autoTransitions sig_fsm) (StateSignatureProposalCollected, EventRunAfter) = None"
  "map_of (fsm_autoTransitions sig_fsm) (StateValidationCanceledByTimeout, EventRunAfter) = None"
  "map_of (fsm_autoTransitions sig_fsm) (s, EventRunBefore) = None"
  by (simp_all add: sig_fsm_def sig_neq StateParticipantsConfirmationsInit_def)

section \<open>Functional behaviour\<close>

text \<open>The state in which a validation leaves a confirmation.\<close>

definition sig_verdict :: "SignatureConfirmation \<Rightarrow> State" where
  "sig_verdict c =
    (let quorum = vals (entries (sc_Quorum c)) in
     if sc_ExpiresAt c < sc_UpdatedAt c then StateValidationCanceledByTimeout
     else if list_ex (\<lambda>v. sp_Status v = SigConfirmationDeclined) quorum
     then StateValidationCanceledByParticipant
     else if list_all (\<lambda>v. sp_Status v = SigConfirmationConfirmed) quorum
     then StateSignatureProposalCollected
     else StateAwaitParticipantsConfirmations)"

definition sig_statuses :: "SignatureConfirmation \<Rightarrow> response option" where
  "sig_statuses c =
    (if sig_verdict c = StateSignatureProposalCollected
     then Some (RespStatuses (map (\<lambda>(participantId, participant).
            \<lparr>sse_ParticipantId = participantId, sse_Username = sp_Username participant,
             sse_Status = sig_status_uint8 (sp_Status participant)\<rparr>) (entries (sc_Quorum c))))
     else None)"

lemma sig_validate:
  assumes "SignatureProposalPayload p = Some c" and "sc_Quorum c = Some q"
  shows "\<exists>out. actionValidateSignatureProposal ev args p = Inr ((out, sig_statuses c, None), p) \<and>
    map_of (fsm_transitions sig_fsm) (StateAwaitParticipantsConfirmations,
      if out = '''' then eventAutoValidateProposalInternal else out) \<noteq> None \<and>
    tr_dstState (the (map_of (fsm_transitions sig_fsm) (StateAwaitParticipantsConfirmations,
      if out = '''' then eventAutoValidateProposalInternal else out))) = sig_verdict c"
  using assms none_unconfirmed[of q "\<lambda>v. sp_Status v = SigConfirmationConfirmed"]
  by (simp add: actionValidateSignatureProposal_def sig_verdict_def sig_statuses_def Let_def
      SignatureConfirmation_IsExpired_def Before_def SigQuorumCount_def
      fold_confirmed_first ret_defs sig_transitions sig_neq)

text \<open>A reply changes one participant and the instant of the confirmation.\<close>

definition sig_replied ::
  "int \<Rightarrow> ConfirmationParticipantStatus \<Rightarrow> time \<Rightarrow> SignatureProposalParticipant \<Rightarrow>
   SignatureConfirmation \<Rightarrow> SignatureConfirmation"
where
  "sig_replied i status t v c = c\<lparr>sc_UpdatedAt := t,
     sc_Quorum := Some (AList.update i (v\<lparr>sp_Status := status, sp_UpdatedAt := t\<rparr>)
       (entries (sc_Quorum c)))\<rparr>"

lemma sig_replied_quorum [simp]:
  "sc_Quorum (sig_replied i st t v c) =
    Some (AList.update i (v\<lparr>sp_Status := st, sp_UpdatedAt := t\<rparr>) (entries (sc_Quorum c)))"
  "sc_ExpiresAt (sig_replied i st t v c) = sc_ExpiresAt c"
  "sc_UpdatedAt (sig_replied i st t v c) = t"
  by (simp_all add: sig_replied_def)

definition reply_status :: "Event \<Rightarrow> ConfirmationParticipantStatus" where
  "reply_status e = (if e = EventConfirmSignatureProposal then SigConfirmationConfirmed
     else SigConfirmationDeclined)"

abbreviation sig_reply :: "int \<Rightarrow> time \<Rightarrow> request" where
  "sig_reply i t \<equiv> ReqSigParticipant \<lparr>pr_ParticipantId = i, pr_CreatedAt = t\<rparr>"

abbreviation reply_event :: "Event \<Rightarrow> bool" where
  "reply_event e \<equiv> e = EventConfirmSignatureProposal \<or> e = EventDeclineProposal"

lemma sig_reply_action:
  assumes "SignatureProposalPayload p = Some c" and "sc_Quorum c = Some q" and "0 \<le> i" and "t \<noteq> 0"
    and "reply_event e"
  shows "actionProposalResponseByParticipant e [sig_reply i t] p =
    (case map_of q i of
       None \<Rightarrow> ret_err (errorsNew ''{ParticipantId} not exist in quorum'') p
     | Some v \<Rightarrow>
         if sp_UpdatedAt v + SignatureProposalConfirmationDeadline < t
         then ret_event eventSetValidationCanceledByTimeout p
         else if sp_Status v \<noteq> SigConfirmationAwaitConfirmation
         then ret_err (Errorf ''cannot apply reply participant with {Status} = {\"%s\"}''
                [AStr (ConfirmationParticipantStatus_String (sp_Status v))]) p
         else ret_event ''''
           (p\<lparr>SignatureProposalPayload := Some (sig_replied i (reply_status e) t v c)\<rparr>))"
  using assms
  by (auto simp: actionProposalResponseByParticipant_def quorum_op_defs Before_def Add_def
      SignatureProposalParticipantRequest_Validate_def IsZero_def reply_status_def sig_replied_def
      sig_neq split: option.splits)

lemma sig_reply_routes:
  assumes "reply_event e"
  shows "map_of (fsm_transitions sig_fsm) (StateAwaitParticipantsConfirmations, e) =
      Some (tr_public e StateAwaitParticipantsConfirmations)"
    and "map_of (fsm_callbacks sig_fsm) e = Some actionProposalResponseByParticipant"
    and "e \<noteq> ''''"
  using assms by (auto simp: sig_transitions sig_callbacks sig_neq)

text \<open>A reply that is accepted.\<close>

lemma sig_reply_Do:
  assumes "SignatureProposalPayload p = Some c" and "sc_Quorum c = Some q" and "0 \<le> i" and "t \<noteq> 0"
    and "reply_event e" and "map_of q i = Some v"
    and "t \<le> sp_UpdatedAt v + SignatureProposalConfirmationDeadline"
    and "sp_Status v = SigConfirmationAwaitConfirmation"
    and "c' = sig_replied i (reply_status e) t v c"
  shows "FSM_Do e [sig_reply i t] (in_state sig_fsm StateAwaitParticipantsConfirmations) p =
    Inr ((Some \<lparr>resp_State = sig_verdict c', resp_Data = sig_statuses c'\<rparr>, None),
      in_state sig_fsm (sig_verdict c'), p\<lparr>SignatureProposalPayload := Some c'\<rparr>)"
proof -
  let ?p = "p\<lparr>SignatureProposalPayload := Some c'\<rparr>"
  have cb: "actionProposalResponseByParticipant e [sig_reply i t] p = Inr (('''', None, None), ?p)"
    using sig_reply_action[OF assms(1-5)] assms(6-9) by (simp add: ret_event_def)
  obtain out tr where v: "actionValidateSignatureProposal eventAutoValidateProposalInternal
      [sig_reply i t] ?p = Inr ((out, sig_statuses c', None), ?p)"
    and tr: "map_of (fsm_transitions sig_fsm) (StateAwaitParticipantsConfirmations,
      if out = '''' then eventAutoValidateProposalInternal else out) = Some tr"
      "tr_dstState tr = sig_verdict c'"
    using sig_validate[of ?p c' _ eventAutoValidateProposalInternal "[sig_reply i t]"] assms(9)
    by force
  note routes = sig_reply_routes[OF assms(5)]
  have "map_of (fsm_transitions sig_fsm) (StateAwaitParticipantsConfirmations,
      if '''' = '''' then e else '''') = Some (tr_public e StateAwaitParticipantsConfirmations)"
    using routes(1) by simp
  from FSM_Do_collect[OF routes(1) sig_autos(6) routes(2) cb this _ sig_autos(2) sig_callbacks(4) v tr]
  show ?thesis by simp
qed

text \<open>Every outcome of a reply in the awaiting state.\<close>

lemma sig_late_Do:
  assumes "reply_event e"
    and "actionProposalResponseByParticipant e args p =
      ret_event eventSetValidationCanceledByTimeout p"
  shows "FSM_Do e args (in_state sig_fsm StateAwaitParticipantsConfirmations) p =
    Inr ((Some \<lparr>resp_State = StateValidationCanceledByTimeout, resp_Data = None\<rparr>, None),
      in_state sig_fsm StateValidationCanceledByTimeout, p)"
  using FSM_Do_plain[OF sig_reply_routes(1)[OF assms(1)] sig_autos(6) sig_reply_routes(2)[OF assms(1)]
      assms(2)[unfolded ret_event_def], of _ StateValidationCanceledByTimeout]
  by (simp add: sig_transitions sig_autos sig_neq)

lemma sig_reply_cases:
  assumes "SignatureProposalPayload p = Some c" and "sc_Quorum c = Some q" and "reply_event e"
    and res: "FSM_Do e args (in_state sig_fsm StateAwaitParticipantsConfirmations) p =
      Inr ((resp, err), g, p')"
  obtains (rejected) x data where "resp = Some \<lparr>resp_State = '''', resp_Data = data\<rparr>"
      "err = Some x" "p' = p" "g = in_state sig_fsm StateAwaitParticipantsConfirmations"
  | (late) "resp = Some \<lparr>resp_State = StateValidationCanceledByTimeout, resp_Data = None\<rparr>"
      "err = None" "p' = p" "g = in_state sig_fsm StateValidationCanceledByTimeout"
  | (accepted) i t v c' where "args = [sig_reply i t]" "0 \<le> i" "t \<noteq> 0" "map_of q i = Some v"
      "sp_Status v = SigConfirmationAwaitConfirmation"
      "t \<le> sp_UpdatedAt v + SignatureProposalConfirmationDeadline"
      "c' = sig_replied i (reply_status e) t v c"
      "resp = Some \<lparr>resp_State = sig_verdict c', resp_Data = sig_statuses c'\<rparr>" "err = None"
      "g = in_state sig_fsm (sig_verdict c')" "p' = p\<lparr>SignatureProposalPayload := Some c'\<rparr>"
proof -
  note routes = sig_reply_routes[OF assms(3)]
  note route = FSM_Do_callback[OF routes(1) sig_autos(6) routes(2), of args p]
  have rej: thesis if "actionProposalResponseByParticipant e args p = Inr ((o1, data, Some x), p)"
    for o1 data x
    using that res rejected unfolding route by auto
  obtain o1 data err1 p1 where a:
    "actionProposalResponseByParticipant e args p = Inr ((o1, data, err1), p1)"
    using res unfolding route by auto
  from a[unfolded actionProposalResponseByParticipant_def] show thesis
  proof (cases rule: with_request_cases)
    case (rejected x)
    with a show thesis by (intro rej) simp
  next
    case (accepted a1 r)
    define i t where "i = pr_ParticipantId r" and "t = pr_CreatedAt r"
    have args: "args = [sig_reply i t]" using accepted(1,2) by (cases r) (auto simp: i_def t_def as_Some_iff)
    have it: "0 \<le> i" "t \<noteq> 0"
      using accepted(3) by (auto simp: SignatureProposalParticipantRequest_Validate_def i_def t_def
          IsZero_def split: if_splits)
    note act = sig_reply_action[OF assms(1,2) it assms(3)]
    show thesis
    proof (cases "map_of q i")
      case None
      with act args show thesis by (intro rej) (auto simp: ret_err_def)
    next
      case (Some v)
      consider (late) "sp_UpdatedAt v + SignatureProposalConfirmationDeadline < t"
        | (double) "t \<le> sp_UpdatedAt v + SignatureProposalConfirmationDeadline"
          "sp_Status v \<noteq> SigConfirmationAwaitConfirmation"
        | (ok) "t \<le> sp_UpdatedAt v + SignatureProposalConfirmationDeadline"
          "sp_Status v = SigConfirmationAwaitConfirmation" by linarith
      then show thesis
      proof cases
        case late
        with act Some args sig_late_Do[OF assms(3), of args p] res that(2) show thesis by simp
      next
        case double
        with act Some args show thesis by (intro rej) (auto simp: ret_err_def)
      next
        case ok
        from that(3)[OF args it Some ok(2,1) refl]
          sig_reply_Do[OF assms(1,2) it assms(3) Some ok refl] res args
        show thesis by simp
      qed
    qed
  qed
qed

text \<open>The reply event on a well-formed request, as an equation.\<close>

definition reply_result ::
  "Event \<Rightarrow> int \<Rightarrow> time \<Rightarrow> SignatureProposalParticipant option \<Rightarrow> SignatureConfirmation \<Rightarrow>
   DumpedMachineStatePayload \<Rightarrow>
   ((response Response option \<times> error option) \<times> machine \<times> DumpedMachineStatePayload) go"
where
  "reply_result e i t x c p =
    (let refused = (\<lambda>err. Inr ((Some \<lparr>resp_State = '''', resp_Data = None\<rparr>, Some err),
           in_state sig_fsm StateAwaitParticipantsConfirmations, p)) in
     case x of
       None \<Rightarrow> refused (errorsNew ''{ParticipantId} not exist in quorum'')
     | Some v \<Rightarrow>
         if sp_UpdatedAt v + SignatureProposalConfirmationDeadline < t
         then Inr ((Some \<lparr>resp_State = StateValidationCanceledByTimeout, resp_Data = None\<rparr>, None),
             in_state sig_fsm StateValidationCanceledByTimeout, p)
         else if sp_Status v \<noteq> SigConfirmationAwaitConfirmation
         then refused (Errorf ''cannot apply reply participant with {Status} = {\"%s\"}''
                [AStr (ConfirmationParticipantStatus_String (sp_Status v))])
         else let c = sig_replied i (reply_status e) t v c in
           Inr ((Some \<lparr>resp_State = sig_verdict c, resp_Data = sig_statuses c\<rparr>, None),
             in_state sig_fsm (sig_verdict c), p\<lparr>SignatureProposalPayload := Some c\<rparr>))"

lemma sig_reply_eq:
  assumes "SignatureProposalPayload p = Some c" and "sc_Quorum c = Some q" and "0 \<le> i" and "t \<noteq> 0"
    and "reply_event e"
  shows "FSM_Do e [sig_reply i t] (in_state sig_fsm StateAwaitParticipantsConfirmations) p =
    reply_result e i t (map_of q i) c p"
proof -
  note routes = sig_reply_routes[OF assms(5)]
  note route = FSM_Do_callback[OF routes(1) sig_autos(6) routes(2), of "[sig_reply i t]" p]
  note act = sig_reply_action[OF assms]
  show ?thesis
  proof (cases "map_of q i")
    case None
    with act show ?thesis unfolding route by (simp add: reply_result_def ret_err_def)
  next
    case (Some v)
    consider (late) "sp_UpdatedAt v + SignatureProposalConfirmationDeadline < t"
      | (double) "t \<le> sp_UpdatedAt v + SignatureProposalConfirmationDeadline"
        "sp_Status v \<noteq> SigConfirmationAwaitConfirmation"
      | (ok) "t \<le> sp_UpdatedAt v + SignatureProposalConfirmationDeadline"
        "sp_Status v = SigConfirmationAwaitConfirmation" by linarith
    then show ?thesis
    proof cases
      case late
      with act Some sig_late_Do[OF assms(5), of "[sig_reply i t]" p] show ?thesis
        by (simp add: reply_result_def)
    next
      case double
      with act Some show ?thesis unfolding route by (simp add: reply_result_def ret_err_def)
    next
      case ok
      with sig_reply_Do[OF assms Some ok refl] Some show ?thesis
        by (simp add: reply_result_def Let_def)
    qed
  qed
qed

text \<open>
  The confirmations that are still due: one, in time, for each participant that is awaited, while
  all others have confirmed.
\<close>

definition sig_due ::
  "SignatureConfirmation \<Rightarrow> SignatureProposalQuorum \<Rightarrow> (int \<times> time) list \<Rightarrow> bool"
where
  "sig_due c q xs \<longleftrightarrow> distinct (keys q) \<and> distinct (map fst xs) \<and>
     list_all (\<lambda>(i, t). 0 \<le> i \<and> t \<noteq> 0 \<and> t \<le> sc_ExpiresAt c \<and>
       (case map_of q i of None \<Rightarrow> False
        | Some v \<Rightarrow> sp_Status v = SigConfirmationAwaitConfirmation \<and>
            t \<le> sp_UpdatedAt v + SignatureProposalConfirmationDeadline)) xs \<and>
     list_all (\<lambda>(i, v). sp_Status v = (if i \<in> set (map fst xs)
       then SigConfirmationAwaitConfirmation else SigConfirmationConfirmed)) q"

lemma sig_due_step:
  assumes "sig_due c q ((i, t) # xs)" and "sc_Quorum c = Some q" and "map_of q i = Some v"
    and c': "c' = sig_replied i SigConfirmationConfirmed t v c"
    and q': "sc_Quorum c' = Some q'"
  shows "sig_due c' q' xs"
    and "sig_verdict c' = (if xs = [] then StateSignatureProposalCollected
      else StateAwaitParticipantsConfirmations)"
proof -
  let ?w = "v\<lparr>sp_Status := SigConfirmationConfirmed, sp_UpdatedAt := t\<rparr>"
  have q'_eq: "q' = AList.update i ?w q" using q' assms(2) by (simp add: c')
  have dist: "distinct (keys q')" and fresh: "i \<notin> set (map fst xs)" and te: "t \<le> sc_ExpiresAt c"
    and st: "list_all (\<lambda>(j, v). sp_Status v = (if j \<in> set (map fst ((i, t) # xs))
      then SigConfirmationAwaitConfirmation else SigConfirmationConfirmed)) q"
    using assms(1) by (auto simp: sig_due_def q'_eq distinct_update)
  have lk: "map_of q' j = (if j = i then Some ?w else map_of q j)" for j by (simp add: q'_eq)
  have st': "sp_Status v = (if j \<in> set (map fst xs)
      then SigConfirmationAwaitConfirmation else SigConfirmationConfirmed)"
    if "(j, v) \<in> set q'" for j v
  proof -
    from that dist have "map_of q' j = Some v" by simp
    then consider "j = i" "v = ?w" | "j \<noteq> i" "(j, v) \<in> set q"
      by (auto simp: lk split: if_splits dest: map_of_SomeD)
    then show ?thesis
    proof cases
      case 2
      with bspec[OF st[unfolded list_all_iff] 2(2)] show ?thesis by simp
    qed (use fresh in simp)
  qed
  have keep: "map_of q' j = map_of q j" if "(j, y) \<in> set xs" for j y
    using that fresh by (force simp: lk)
  show due': "sig_due c' q' xs"
    using assms(1) dist st' by (auto simp: sig_due_def c' list_all_iff keep)
  have "list_all (\<lambda>v. sp_Status v = SigConfirmationConfirmed) (vals q') \<longleftrightarrow> xs = []"
  proof
    assume all: "list_all (\<lambda>v. sp_Status v = SigConfirmationConfirmed) (vals q')"
    show "xs = []"
    proof (cases xs)
      case (Cons y ys)
      then obtain w where "map_of q' (fst y) = Some w" "sp_Status w = SigConfirmationAwaitConfirmation"
        using due' by (auto simp: sig_due_def split: option.splits)
      with list_all_valsD[OF all] show ?thesis by auto
    qed
  next
    assume "xs = []"
    with st' show "list_all (\<lambda>v. sp_Status v = SigConfirmationConfirmed) (vals q')"
      by (auto simp: list_all_iff)
  qed
  moreover have "\<not> list_ex (\<lambda>v. sp_Status v = SigConfirmationDeclined) (vals q')"
    using st' by (auto simp: list_ex_iff split: if_splits)
  ultimately show "sig_verdict c' = (if xs = [] then StateSignatureProposalCollected
      else StateAwaitParticipantsConfirmations)"
    using te q' by (simp add: sig_verdict_def c')
qed

lemma sig_completes:
  assumes "SignatureProposalPayload p = Some c" and "sc_Quorum c = Some q" and "sig_due c q xs"
    and "xs \<noteq> []"
  shows "\<exists>c'. machine_run sig_fsm (map (\<lambda>(i, t). (EventConfirmSignatureProposal, [sig_reply i t])) xs)
      StateAwaitParticipantsConfirmations p =
    Some (StateSignatureProposalCollected, p\<lparr>SignatureProposalPayload := Some c'\<rparr>)"
  using assms
proof (induction xs arbitrary: p c q)
  case (Cons x xs)
  obtain i t where x: "x = (i, t)" by (cases x)
  from Cons.prems(3) obtain v where v: "map_of q i = Some v"
      "t \<le> sp_UpdatedAt v + SignatureProposalConfirmationDeadline"
      "sp_Status v = SigConfirmationAwaitConfirmation" and it: "0 \<le> i" "t \<noteq> 0"
    by (auto simp: sig_due_def x split: option.splits)
  have ev: "reply_event EventConfirmSignatureProposal"
    "reply_status EventConfirmSignatureProposal = SigConfirmationConfirmed"
    by (simp_all add: reply_status_def)
  define c' where "c' = sig_replied i SigConfirmationConfirmed t v c"
  obtain q' where q': "sc_Quorum c' = Some q'" by (simp add: c'_def)
  note step = sig_due_step[OF Cons.prems(3)[unfolded x] Cons.prems(2) v(1) c'_def q']
  note run = sig_reply_Do[OF Cons.prems(1,2) it ev(1) v c'_def[folded ev(2)]]
  show ?case
  proof (cases "xs = []")
    case True
    with step(2) run show ?thesis by (auto simp: x)
  next
    case False
    with Cons.IH[of "p\<lparr>SignatureProposalPayload := Some c'\<rparr>" c' q'] q' step run show ?thesis
      by (simp add: x)
  qed
qed simp

section \<open>Initialization\<close>

text \<open>What the initial request stores: one entry per participant, numbered in order.\<close>

fun sig_entries ::
  "int \<Rightarrow> time \<Rightarrow> int \<Rightarrow> SignatureProposalParticipantsEntry list \<Rightarrow> SignatureProposalQuorum"
where
  "sig_entries threshold createdAt i [] = []"
| "sig_entries threshold createdAt i (e # es) =
     (i, \<lparr>sp_ParticipantID = i, sp_Username = pe_Username e, sp_PubKey = pe_PubKey e,
          sp_DkgPubKey = pe_DkgPubKey e, sp_InvitationSecret = '''',
          sp_Status = SigConfirmationAwaitConfirmation, sp_Threshold = threshold,
          sp_UpdatedAt = createdAt\<rparr>) # sig_entries threshold createdAt (i + 1) es"

fun sig_ids :: "int \<Rightarrow> SignatureProposalParticipantsEntry list \<Rightarrow> (string, int) gomap" where
  "sig_ids i [] = []"
| "sig_ids i (e # es) = (pe_Username e, i) # sig_ids (i + 1) es"

definition sig_init_payload ::
  "SignatureProposalParticipantsListRequest \<Rightarrow> SignatureProposalParticipantsEntry list \<Rightarrow>
   DumpedMachineStatePayload \<Rightarrow> DumpedMachineStatePayload"
where
  "sig_init_payload r ps p = p\<lparr>
     SignatureProposalPayload := Some
       \<lparr>sc_Quorum = Some (sig_entries (pl_SigningThreshold r) (pl_CreatedAt r) 0 ps),
        sc_CreatedAt = pl_CreatedAt r, sc_UpdatedAt = 0,
        sc_ExpiresAt = pl_CreatedAt r + SignatureProposalConfirmationDeadline\<rparr>,
     PubKeys := Some (map (\<lambda>e. (pe_Username e, pe_PubKey e)) ps),
     IDs := Some (sig_ids 0 ps),
     Threshold := pl_SigningThreshold r\<rparr>"

definition raw_entry :: "int \<times> SignatureProposalParticipant \<Rightarrow> int \<times> SignatureProposalParticipant" where
  "raw_entry x = (case x of (i, v) \<Rightarrow> (i, v\<lparr>sp_ParticipantID := 0\<rparr>))"

lemma keys_sig_entries: "keys (sig_entries th t i ps) = map (\<lambda>k. i + int k) [0..<length ps]"
proof (induction ps arbitrary: i)
  case (Cons e ps)
  have "map (\<lambda>k. i + 1 + int k) [0..<length ps] = map (\<lambda>k. i + int k) [1..<Suc (length ps)]"
    by (simp add: map_Suc_upt[symmetric] del: upt_Suc)
  with Cons show ?case by (simp add: upt_conv_Cons del: upt_Suc)
qed simp

lemma length_sig_entries [simp]: "length (sig_entries th t i ps) = length ps"
  by (induction ps arbitrary: i) simp_all

lemma distinct_keys_sig_entries: "distinct (keys (sig_entries th t i ps))"
  by (simp add: keys_sig_entries distinct_map inj_on_def)

lemma raw_sig_entries:
  "map_vals (\<lambda>i v. v\<lparr>sp_ParticipantID := i\<rparr>) (map raw_entry (sig_entries th t i ps)) =
    sig_entries th t i ps"
  by (induction ps arbitrary: i) (simp_all add: raw_entry_def)

lemma keys_raw [simp]: "keys (map raw_entry m) = keys m"
  by (induction m) (auto simp: raw_entry_def)

lemma addParticipants_result:
  assumes "SignatureProposalPayload p = Some c" and "sc_Quorum c = Some q"
    and "PubKeys p = Some pks" and "IDs p = Some ids"
    and "\<forall>j \<in> set (keys q). j < i" and "distinct (map pe_Username ps)"
    and "set (map pe_Username ps) \<inter> set (keys pks) = {}"
    and "set (map pe_Username ps) \<inter> set (keys ids) = {}"
  shows "addParticipants th t i (map Some ps) p = Inr (p\<lparr>
      SignatureProposalPayload := Some
        (c\<lparr>sc_Quorum := Some (q @ map raw_entry (sig_entries th t i ps))\<rparr>),
      PubKeys := Some (pks @ map (\<lambda>e. (pe_Username e, pe_PubKey e)) ps),
      IDs := Some (ids @ sig_ids i ps)\<rparr>)"
  using assms
proof (induction ps arbitrary: p c q pks ids i)
  case (Cons e ps)
  let ?v = "\<lparr>sp_ParticipantID = 0, sp_Username = pe_Username e, sp_PubKey = pe_PubKey e,
     sp_DkgPubKey = pe_DkgPubKey e, sp_InvitationSecret = '''',
     sp_Status = SigConfirmationAwaitConfirmation, sp_Threshold = th, sp_UpdatedAt = t\<rparr>"
  let ?p = "p\<lparr>SignatureProposalPayload := Some (c\<lparr>sc_Quorum := Some (q @ [(i, ?v)])\<rparr>),
      PubKeys := Some (pks @ [(pe_Username e, pe_PubKey e)]),
      IDs := Some (ids @ [(pe_Username e, i)])\<rparr>"
  have fresh: "\<not> has_key q i" "\<not> has_key pks (pe_Username e)" "\<not> has_key ids (pe_Username e)"
    using Cons.prems(5,7,8) unfolding has_key_keys by auto
  have "addParticipants th t i (map Some (e # ps)) p = addParticipants th t (i + 1) (map Some ps) ?p"
    using Cons.prems(1-4) fresh
    by (simp add: SigQuorumUpdate_def SetPubKeyUsername_def SetIDUsername_def update_fresh)
  also have "\<dots> = Inr (?p\<lparr>
      SignatureProposalPayload := Some (c\<lparr>sc_Quorum := Some ((q @ [(i, ?v)]) @
        map raw_entry (sig_entries th t (i + 1) ps))\<rparr>),
      PubKeys := Some ((pks @ [(pe_Username e, pe_PubKey e)]) @
        map (\<lambda>e. (pe_Username e, pe_PubKey e)) ps),
      IDs := Some ((ids @ [(pe_Username e, i)]) @ sig_ids (i + 1) ps)\<rparr>)"
    by (subst Cons.IH[of ?p "c\<lparr>sc_Quorum := Some (q @ [(i, ?v)])\<rparr>"])
       (use Cons.prems(5-8) in force)+
  finally show ?case by (simp add: raw_entry_def del: addParticipants.simps)
qed simp

lemma addParticipants_alloc:
  "addParticipants th t i (Some e # xs) p =
   addParticipants th t i (Some e # xs)
     (p\<lparr>PubKeys := Some (entries (PubKeys p)), IDs := Some (entries (IDs p))\<rparr>)"
  by (simp add: SigQuorumUpdate_def SetPubKeyUsername_def SetIDUsername_def bindR_def
      split: sum.splits option.splits)

lemma sig_count_entries:
  "SigQuorumCount (sig_init_payload r ps p) = Inr (int (length ps))"
  by (simp add: SigQuorumCount_def sig_init_payload_def)

lemma ordered_sig_entries:
  "SignatureProposalQuorum_GetOrderedParticipants
     (Some (map raw_entry (sig_entries th t i ps))) =
   (vals (sig_entries th t i ps), Some (sig_entries th t i ps))"
proof -
  let ?m = "sig_entries th t i ps"
  have "sorted (keys ?m)"
    by (auto simp: keys_sig_entries sorted_iff_nth_mono)
  then have srt: "sort (keys ?m) = keys ?m" by (rule sorted_sort_id)
  have "map (\<lambda>i. the (map_of ?m i)) (keys ?m) = vals ?m"
    by (rule lookup_keys[OF distinct_keys_sig_entries])
  then show ?thesis
    by (simp only: SignatureProposalQuorum_GetOrderedParticipants_def Let_def entries_simps
        option.map raw_sig_entries keys_raw srt)
qed

definition sig_invitations ::
  "SignatureProposalParticipantsListRequest \<Rightarrow> SignatureProposalParticipantsEntry list \<Rightarrow> response"
where
  "sig_invitations r ps = RespInvitations (map (\<lambda>participant.
     \<lparr>ie_ParticipantId = sp_ParticipantID participant, ie_Username = sp_Username participant,
      ie_Threshold = sp_Threshold participant, ie_DkgPubKey = sp_DkgPubKey participant,
      ie_PubKey = sp_PubKey participant\<rparr>)
     (vals (sig_entries (pl_SigningThreshold r) (pl_CreatedAt r) 0 ps)))"

lemma sig_init_action:
  assumes valid: "SignatureProposalParticipantsListRequest_Validate r = Inr None"
    and ps: "pl_Participants r = map Some ps"
    and fresh: "PubKeys p = None" "IDs p = None"
  shows "actionInitSignatureProposal e [ReqSigInit r] p =
    Inr ((e, Some (sig_invitations r ps), None), sig_init_payload r ps p)"
proof -
  have dist: "distinct (map pe_Username ps)" and "ParticipantsMinCount \<le> length ps"
    using valid ps by (auto simp: sig_init_valid_iff)
  then obtain e1 xs where cons: "map Some ps = Some e1 # xs"
    by (cases ps) (auto simp: config_defs)
  define c0 where "c0 = \<lparr>sc_Quorum = Some [], sc_CreatedAt = pl_CreatedAt r, sc_UpdatedAt = 0,
           sc_ExpiresAt = Add (pl_CreatedAt r) SignatureProposalConfirmationDeadline\<rparr>"
  let ?p0 = "p\<lparr>SignatureProposalPayload := Some c0\<rparr>"
  let ?q = "map raw_entry (sig_entries (pl_SigningThreshold r) (pl_CreatedAt r) 0 ps)"
  let ?p1 = "?p0\<lparr>SignatureProposalPayload := Some (c0\<lparr>sc_Quorum := Some ?q\<rparr>),
      PubKeys := Some (map (\<lambda>e. (pe_Username e, pe_PubKey e)) ps), IDs := Some (sig_ids 0 ps)\<rparr>"
  have "addParticipants (pl_SigningThreshold r) (pl_CreatedAt r) 0 (map Some ps) ?p0 =
      addParticipants (pl_SigningThreshold r) (pl_CreatedAt r) 0 (map Some ps)
        (?p0\<lparr>PubKeys := Some [], IDs := Some []\<rparr>)"
    unfolding cons by (subst addParticipants_alloc) (simp add: fresh del: addParticipants.simps)
  also have "\<dots> = Inr ?p1"
    by (subst addParticipants_result[where c = c0 and q = "[]" and pks = "[]" and ids = "[]"])
       (auto simp: c0_def dist)
  finally have add: "addParticipants (pl_SigningThreshold r) (pl_CreatedAt r) 0
      (pl_Participants r) ?p0 = Inr ?p1" by (simp add: ps)
  have "sig_init_payload r ps p = ?p1\<lparr>Threshold := pl_SigningThreshold r, SignatureProposalPayload :=
      Some (c0\<lparr>sc_Quorum := Some (sig_entries (pl_SigningThreshold r) (pl_CreatedAt r) 0 ps)\<rparr>)\<rparr>"
    by (simp add: sig_init_payload_def c0_def Add_def)
  then show ?thesis
    by (simp add: actionInitSignatureProposal_def valid c0_def[symmetric] Let_def
        add[unfolded ps] SigQuorumCount_def ps ordered_sig_entries ret_resp_def sig_invitations_def)
qed

lemma sig_init_verdict:
  assumes "SignatureProposalParticipantsListRequest_Validate r = Inr None"
    and "pl_Participants r = map Some ps" and "SignatureProposalPayload (sig_init_payload r ps p) = Some c"
  shows "sig_verdict c = (if pl_CreatedAt r + SignatureProposalConfirmationDeadline < 0
      then StateValidationCanceledByTimeout else StateAwaitParticipantsConfirmations)"
    and "sig_statuses c = None"
proof -
  have len: "2 \<le> length ps" using assms(1,2) by (auto simp: sig_init_valid_iff config_defs)
  have aw: "list_all (\<lambda>v. sp_Status v = SigConfirmationAwaitConfirmation)
      (vals (sig_entries th t i ps))" for th t i by (induction ps arbitrary: i) simp_all
  then have no: "\<not> list_ex (\<lambda>v. sp_Status v = SigConfirmationDeclined) (vals (sig_entries th t i ps))"
    for th t i by (force simp: list_ex_iff list_all_iff)
  from len have "\<not> list_all (\<lambda>v. sp_Status v = SigConfirmationConfirmed) (vals (sig_entries th t i ps))"
    for th t i by (cases ps) auto
  with no assms(3) show v: "sig_verdict c =
      (if pl_CreatedAt r + SignatureProposalConfirmationDeadline < 0
       then StateValidationCanceledByTimeout else StateAwaitParticipantsConfirmations)"
    by (auto simp: sig_verdict_def sig_init_payload_def)
  then show "sig_statuses c = None" by (simp add: sig_statuses_def sig_neq)
qed

lemma sig_init_Do:
  assumes valid: "SignatureProposalParticipantsListRequest_Validate r = Inr None"
    and ps: "pl_Participants r = map Some ps"
    and fresh: "PubKeys p = None" "IDs p = None"
    and w: "w = (if pl_CreatedAt r + SignatureProposalConfirmationDeadline < 0
      then StateValidationCanceledByTimeout else StateAwaitParticipantsConfirmations)"
  shows "FSM_Do EventInitProposal [ReqSigInit r] (in_state sig_fsm StateGlobalIdle) p =
    Inr ((Some \<lparr>resp_State = w, resp_Data = Some (sig_invitations r ps)\<rparr>, None),
      in_state sig_fsm w, sig_init_payload r ps p)"
proof -
  let ?p = "sig_init_payload r ps p" and ?args = "[ReqSigInit r]"
  obtain c q where c: "SignatureProposalPayload ?p = Some c" "sc_Quorum c = Some q"
    by (simp add: sig_init_payload_def)
  note verdict = sig_init_verdict[OF valid ps c(1)]
  obtain out tr where v: "actionValidateSignatureProposal eventAutoValidateProposalInternal
      ?args ?p = Inr ((out, None, None), ?p)"
    and tr: "map_of (fsm_transitions sig_fsm) (StateAwaitParticipantsConfirmations,
      if out = '''' then eventAutoValidateProposalInternal else out) = Some tr" "tr_dstState tr = w"
    using sig_validate[OF c, of eventAutoValidateProposalInternal ?args] verdict w by force
  have st: "map_of (fsm_transitions sig_fsm) (StateGlobalIdle,
      if EventInitProposal = '''' then EventInitProposal else EventInitProposal) =
      Some (tr_public EventInitProposal StateAwaitParticipantsConfirmations)"
    using sig_transitions(1) by (simp add: StateParticipantsConfirmationsInit_def)
  from FSM_Do_collect[OF sig_transitions(1)[unfolded StateParticipantsConfirmationsInit_def]
      sig_autos(6) sig_callbacks(1) sig_init_action[OF valid ps fresh] st _ sig_autos(2)
      sig_callbacks(4) v tr]
  show ?thesis by simp
qed

lemma sig_init_cases:
  assumes fresh: "PubKeys p = None" "IDs p = None"
    and res: "FSM_Do EventInitProposal args (in_state sig_fsm StateGlobalIdle) p =
      Inr ((resp, err), g, p')"
  obtains (rejected) x data where "resp = Some \<lparr>resp_State = '''', resp_Data = data\<rparr>"
      "err = Some x" "p' = p" "g = in_state sig_fsm StateGlobalIdle"
  | (accepted) r ps w where "args = [ReqSigInit r]"
      "SignatureProposalParticipantsListRequest_Validate r = Inr None"
      "pl_Participants r = map Some ps"
      "w = (if pl_CreatedAt r + SignatureProposalConfirmationDeadline < 0
        then StateValidationCanceledByTimeout else StateAwaitParticipantsConfirmations)"
      "resp = Some \<lparr>resp_State = w, resp_Data = Some (sig_invitations r ps)\<rparr>" "err = None"
      "g = in_state sig_fsm w" "p' = sig_init_payload r ps p"
proof -
  note route = FSM_Do_callback[OF sig_transitions(1)[unfolded StateParticipantsConfirmationsInit_def]
      sig_autos(6) sig_callbacks(1), of args p]
  obtain o1 data err1 p1 where a:
    "actionInitSignatureProposal EventInitProposal args p = Inr ((o1, data, err1), p1)"
    using res unfolding route by auto
  from a[unfolded actionInitSignatureProposal_def] show thesis
  proof (cases rule: with_request_cases)
    case (rejected x)
    with a res that(1) show thesis unfolding route by auto
  next
    case (accepted a1 r)
    then obtain ps where "pl_Participants r = map Some ps" by (auto simp: sig_init_valid_iff)
    with accepted that(2)[OF _ accepted(3) this refl] sig_init_Do[OF accepted(3) this fresh refl] res
    show thesis by (auto simp: as_Some_iff)
  qed
qed

section \<open>The roster\<close>

text \<open>
  What the initial request fixes for the rest of the round: participants numbered from 0, a
  threshold between 2 and their number stored with each of them, unique usernames, and the two
  maps by username in agreement with the quorum.
\<close>

definition roster_ok :: "DumpedMachineStatePayload \<Rightarrow> bool" where
  "roster_ok p \<longleftrightarrow> (case sig_quorum p of None \<Rightarrow> False | Some q \<Rightarrow>
     keys q = map int [0..<length q] \<and> 2 \<le> length q \<and>
     2 \<le> Threshold p \<and> Threshold p \<le> int (length q) \<and>
     distinct (map (\<lambda>(i, v). sp_Username v) q) \<and>
     list_all (\<lambda>(i, v). sp_ParticipantID v = i \<and> sp_Threshold v = Threshold p \<and>
       UsernameMinLength \<le> length (sp_Username v)) q \<and>
     PubKeys p = Some (map (\<lambda>(i, v). (sp_Username v, sp_PubKey v)) q) \<and>
     IDs p = Some (map (\<lambda>(i, v). (sp_Username v, i)) q))"

lemma roster_ok_frame:
  assumes "sig_quorum p' = sig_quorum p" "Threshold p' = Threshold p" "PubKeys p' = PubKeys p"
    "IDs p' = IDs p"
  shows "roster_ok p' = roster_ok p"
  unfolding roster_ok_def assms ..

lemma roster_ok_quorum:
  assumes "roster_ok p"
  obtains c q where "SignatureProposalPayload p = Some c" "sc_Quorum c = Some q"
    "sig_quorum p = Some q" "distinct (keys q)" "q \<noteq> []"
proof -
  from assms obtain q where q: "sig_quorum p = Some q" "keys q = map int [0..<length q]"
    "2 \<le> length q" by (auto simp: roster_ok_def split: option.splits)
  have "distinct (map int [0..<length q])" by (simp add: distinct_map)
  then have d: "distinct (keys q)" using q(2) by metis
  from q(1) obtain c where "SignatureProposalPayload p = Some c" "sc_Quorum c = Some q"
    by (auto simp: sig_quorum_def bind_eq_Some_conv)
  moreover have "q \<noteq> []" using q(3) by auto
  ultimately show thesis using that q(1) d by blast
qed

lemma sig_entries_static:
  assumes "list_all participant_ok ps"
  shows "map (\<lambda>(i, v). sp_Username v) (sig_entries th t i ps) = map pe_Username ps"
    "list_all (\<lambda>(i, v). sp_ParticipantID v = i \<and> sp_Threshold v = th \<and>
       UsernameMinLength \<le> length (sp_Username v)) (sig_entries th t i ps)"
    "map (\<lambda>(i, v). (sp_Username v, sp_PubKey v)) (sig_entries th t i ps) =
       map (\<lambda>e. (pe_Username e, pe_PubKey e)) ps"
    "map (\<lambda>(i, v). (sp_Username v, i)) (sig_entries th t i ps) = sig_ids i ps"
  using assms by (induction ps arbitrary: i) (simp_all add: participant_ok_def)

lemma roster_ok_init:
  assumes "SignatureProposalParticipantsListRequest_Validate r = Inr None"
    and "pl_Participants r = map Some ps"
  shows "roster_ok (sig_init_payload r ps p)"
proof -
  from assms have ps: "list_all participant_ok ps" "distinct (map pe_Username ps)"
    "2 \<le> length ps" "2 \<le> pl_SigningThreshold r" "pl_SigningThreshold r \<le> int (length ps)"
    by (auto simp: sig_init_valid_iff config_defs)
  with sig_entries_static[OF ps(1)] show ?thesis
    by (simp add: roster_ok_def sig_quorum_def sig_init_payload_def keys_sig_entries)
qed

lemma roster_ok_update:
  assumes "roster_ok p" and "SignatureProposalPayload p = Some c" and "sc_Quorum c = Some q"
    and "map_of q i = Some v"
    and "sp_ParticipantID w = sp_ParticipantID v" "sp_Username w = sp_Username v"
      "sp_PubKey w = sp_PubKey v" "sp_Threshold w = sp_Threshold v"
    and "sc_Quorum c' = Some (AList.update i w q)"
  shows "roster_ok (p\<lparr>SignatureProposalPayload := Some c'\<rparr>)"
proof -
  have same: "map (\<lambda>(i, v). f i (sp_ParticipantID v) (sp_Username v) (sp_PubKey v) (sp_Threshold v))
      (AList.update i w q) =
    map (\<lambda>(i, v). f i (sp_ParticipantID v) (sp_Username v) (sp_PubKey v) (sp_Threshold v)) q" for f
    using assms(4-8) by (intro map_update_same) auto
  have k: "keys (AList.update i w q) = keys q" "length (AList.update i w q) = length q"
    using assms(4) keys_update_has_key[of q i w] length_update_has_key[of q i w] by simp_all
  have all: "list_all (\<lambda>(i, v). P i (sp_ParticipantID v) (sp_Username v) (sp_PubKey v) (sp_Threshold v)) m =
      list_all (\<lambda>b. b) (map (\<lambda>(i, v). P i (sp_ParticipantID v) (sp_Username v) (sp_PubKey v)
        (sp_Threshold v)) m)" for P and m :: SignatureProposalQuorum
    by (induction m) auto
  have "sig_quorum p = Some q" using assms(2,3) by (simp add: sig_quorum_def)
  then show ?thesis
    using assms(1) same[of "\<lambda>i d u k t. u"] same[of "\<lambda>i d u k t. (u, k)"]
      same[of "\<lambda>i d u k t. (u, i)"]
      all[of "\<lambda>i d u k t. d = i \<and> t = Threshold p \<and> UsernameMinLength \<le> length u" "AList.update i w q"]
      all[of "\<lambda>i d u k t. d = i \<and> t = Threshold p \<and> UsernameMinLength \<le> length u" q]
      same[of "\<lambda>i d u k t. d = i \<and> t = Threshold p \<and> UsernameMinLength \<le> length u"]
    by (simp add: roster_ok_def sig_quorum_def assms(9) k)
qed

lemma roster_ok_replied:
  assumes "roster_ok p" and "SignatureProposalPayload p = Some c" and "sc_Quorum c = Some q"
    and "map_of q i = Some v"
  shows "roster_ok (p\<lparr>SignatureProposalPayload := Some (sig_replied i st t v c)\<rparr>)"
  by (rule roster_ok_update[OF assms]) (simp_all add: assms(3))

text \<open>The two lookups by username find exactly the participant of the quorum.\<close>

lemma roster_lookup:
  assumes "roster_ok p" and "sig_quorum p = Some q" and "map_of q i = Some v"
  shows "GetPubKeyByUsername p (sp_Username v) = Inr (sp_PubKey v)"
    and "GetIDByUsername p (sp_Username v) = Inr i"
proof -
  have d: "distinct (map (\<lambda>(i, v). sp_Username v) q)" and mem: "(i, v) \<in> set q"
    using assms by (auto simp: roster_ok_def dest: map_of_SomeD)
  have len: "sp_Username v \<noteq> ''''"
    using assms(1,2) mem by (fastforce simp: roster_ok_def list_all_iff config_defs)
  have "map_of (map (\<lambda>(i, v). (sp_Username v, sp_PubKey v)) q) (sp_Username v) = Some (sp_PubKey v)"
    "map_of (map (\<lambda>(i, v). (sp_Username v, i)) q) (sp_Username v) = Some i"
    using map_of_projections[OF d mem, of "\<lambda>(i, v). sp_PubKey v"]
      map_of_projections[OF d mem, of fst] by (simp_all add: case_prod_unfold)
  with assms(1,2) len show "GetPubKeyByUsername p (sp_Username v) = Inr (sp_PubKey v)"
    "GetIDByUsername p (sp_Username v) = Inr i"
    by (auto simp: roster_ok_def GetPubKeyByUsername_def GetIDByUsername_def)
qed

end
