(* ===== verification/Dkg_Proposal.thy ===== *)
theory Dkg_Proposal
  imports Signature_Proposal
begin

text \<open>
  The DKG machine (\<open>src/fsm/state_machines/dkg_proposal_fsm\<close>): four stages (commits, deals,
  responses, master keys), each collecting one contribution per participant, and an error event
  per stage.  \<open>init.go\<close> gives the states, events and table, \<open>actions.go\<close> the callbacks.
\<close>

section \<open>States and events\<close>

definition dkg_proposal_FsmName :: string where
  "dkg_proposal_FsmName = ''dkg_proposal_fsm''"

definition StateDkgInitial :: State where [fsm_const]:
  "StateDkgInitial = StateSignatureProposalCollected"

definition StateDkgCommitsAwaitConfirmations :: State where [fsm_const]:
  "StateDkgCommitsAwaitConfirmations = ''state_dkg_commits_await_confirmations''"
definition StateDkgCommitsAwaitCanceledByError :: State where [fsm_const]:
  "StateDkgCommitsAwaitCanceledByError = ''state_dkg_commits_await_canceled_by_error''"
definition StateDkgCommitsAwaitCanceledByTimeout :: State where [fsm_const]:
  "StateDkgCommitsAwaitCanceledByTimeout = ''state_dkg_commits_await_canceled_by_timeout''"
definition StateDkgCommitsCollected :: State where [fsm_const]:
  "StateDkgCommitsCollected = ''state_dkg_commits_collected''"

definition StateDkgDealsAwaitConfirmations :: State where [fsm_const]:
  "StateDkgDealsAwaitConfirmations = ''state_dkg_deals_await_confirmations''"
definition StateDkgDealsAwaitCanceledByError :: State where [fsm_const]:
  "StateDkgDealsAwaitCanceledByError = ''state_dkg_deals_await_canceled_by_error''"
definition StateDkgDealsAwaitCanceledByTimeout :: State where [fsm_const]:
  "StateDkgDealsAwaitCanceledByTimeout = ''state_dkg_deals_await_canceled_by_timeout''"

definition StateDkgResponsesAwaitConfirmations :: State where [fsm_const]:
  "StateDkgResponsesAwaitConfirmations = ''state_dkg_responses_await_confirmations''"
definition StateDkgResponsesAwaitCanceledByError :: State where [fsm_const]:
  "StateDkgResponsesAwaitCanceledByError = ''state_dkg_responses_await_canceled_by_error''"
definition StateDkgResponsesAwaitCanceledByTimeout :: State where [fsm_const]:
  "StateDkgResponsesAwaitCanceledByTimeout = ''state_dkg_responses_sending_canceled_by_timeout''"
definition StateDkgResponsesCollected :: State where [fsm_const]:
  "StateDkgResponsesCollected = ''state_dkg_responses_collected''"

definition StateDkgMasterKeyAwaitConfirmations :: State where [fsm_const]:
  "StateDkgMasterKeyAwaitConfirmations = ''state_dkg_master_key_await_confirmations''"
definition StateDkgMasterKeyAwaitCanceledByError :: State where [fsm_const]:
  "StateDkgMasterKeyAwaitCanceledByError = ''state_dkg_master_key_await_canceled_by_error''"
definition StateDkgMasterKeyAwaitCanceledByTimeout :: State where [fsm_const]:
  "StateDkgMasterKeyAwaitCanceledByTimeout = ''state_dkg_master_key_await_canceled_by_timeout''"

definition StateDkgMasterKeyCollected :: State where [fsm_const]:
  "StateDkgMasterKeyCollected = ''state_dkg_master_key_collected''"

definition EventDKGInitProcess :: Event where [fsm_const]:
  "EventDKGInitProcess = ''event_dkg_init_process''"

definition EventDKGCommitConfirmationReceived :: Event where [fsm_const]:
  "EventDKGCommitConfirmationReceived = ''event_dkg_commit_confirm_received''"
definition EventDKGCommitConfirmationError :: Event where [fsm_const]:
  "EventDKGCommitConfirmationError = ''event_dkg_commit_confirm_canceled_by_error''"
definition eventDKGCommitsConfirmationCancelByTimeoutInternal :: Event where [fsm_const]:
  "eventDKGCommitsConfirmationCancelByTimeoutInternal =
     ''event_dkg_commits_confirm_canceled_by_timeout_internal''"
definition eventDKGCommitsConfirmationCancelByErrorInternal :: Event where [fsm_const]:
  "eventDKGCommitsConfirmationCancelByErrorInternal =
     ''event_dkg_commits_confirm_canceled_by_error_internal''"
definition eventDKGCommitsConfirmedInternal :: Event where [fsm_const]:
  "eventDKGCommitsConfirmedInternal = ''event_dkg_commits_confirmed_internal''"
definition eventAutoDKGValidateConfirmationCommitsInternal :: Event where [fsm_const]:
  "eventAutoDKGValidateConfirmationCommitsInternal = ''event_dkg_commits_validate_internal''"

definition EventDKGDealConfirmationReceived :: Event where [fsm_const]:
  "EventDKGDealConfirmationReceived = ''event_dkg_deal_confirm_received''"
definition EventDKGDealConfirmationError :: Event where [fsm_const]:
  "EventDKGDealConfirmationError = ''event_dkg_deal_confirm_canceled_by_error''"
definition eventDKGDealsConfirmationCancelByTimeoutInternal :: Event where [fsm_const]:
  "eventDKGDealsConfirmationCancelByTimeoutInternal =
     ''event_dkg_deals_confirm_canceled_by_timeout_internal''"
definition eventDKGDealsConfirmationCancelByErrorInternal :: Event where [fsm_const]:
  "eventDKGDealsConfirmationCancelByErrorInternal =
     ''event_dkg_deals_confirm_canceled_by_error_internal''"
definition eventDKGDealsConfirmedInternal :: Event where [fsm_const]:
  "eventDKGDealsConfirmedInternal = ''event_dkg_deals_confirmed_internal''"
definition eventAutoDKGValidateConfirmationDealsInternal :: Event where [fsm_const]:
  "eventAutoDKGValidateConfirmationDealsInternal = ''event_dkg_deals_validate_internal''"

definition EventDKGResponseConfirmationReceived :: Event where [fsm_const]:
  "EventDKGResponseConfirmationReceived = ''event_dkg_response_confirm_received''"
definition EventDKGResponseConfirmationError :: Event where [fsm_const]:
  "EventDKGResponseConfirmationError = ''event_dkg_response_confirm_canceled_by_error''"
definition eventDKGResponseConfirmationCancelByTimeoutInternal :: Event where [fsm_const]:
  "eventDKGResponseConfirmationCancelByTimeoutInternal =
     ''event_dkg_response_confirm_canceled_by_timeout_internal''"
definition eventDKGResponseConfirmationCancelByErrorInternal :: Event where [fsm_const]:
  "eventDKGResponseConfirmationCancelByErrorInternal =
     ''event_dkg_response_confirm_canceled_by_error_internal''"
definition eventDKGResponsesConfirmedInternal :: Event where [fsm_const]:
  "eventDKGResponsesConfirmedInternal = ''event_dkg_responses_confirmed_internal''"
definition eventAutoDKGValidateResponsesConfirmationInternal :: Event where [fsm_const]:
  "eventAutoDKGValidateResponsesConfirmationInternal = ''event_dkg_responses_validate_internal''"

definition EventDKGMasterKeyConfirmationReceived :: Event where [fsm_const]:
  "EventDKGMasterKeyConfirmationReceived = ''event_dkg_master_key_confirm_received''"
definition EventDKGMasterKeyConfirmationError :: Event where [fsm_const]:
  "EventDKGMasterKeyConfirmationError = ''event_dkg_master_key_confirm_canceled_by_error''"
definition eventDKGMasterKeyConfirmationCancelByTimeoutInternal :: Event where [fsm_const]:
  "eventDKGMasterKeyConfirmationCancelByTimeoutInternal =
     ''event_dkg_master_key_confirm_canceled_by_timeout_internal''"
definition eventDKGMasterKeyConfirmationCancelByErrorInternal :: Event where [fsm_const]:
  "eventDKGMasterKeyConfirmationCancelByErrorInternal =
     ''event_dkg_master_key_confirm_canceled_by_error_internal''"
definition eventDKGMasterKeyConfirmedInternal :: Event where [fsm_const]:
  "eventDKGMasterKeyConfirmedInternal = ''event_dkg_master_key_confirmed_internal''"
definition eventAutoDKGValidateMasterKeyConfirmationInternal :: Event where [fsm_const]:
  "eventAutoDKGValidateMasterKeyConfirmationInternal = ''event_dkg_master_key_validate_internal''"

definition EventDKGMasterKeyRequiredInternal :: Event where [fsm_const]:
  "EventDKGMasterKeyRequiredInternal = ''event_dkg_master_key_required_internal''"

section \<open>Actions\<close>

subsection \<open>Initialization\<close>

text \<open>The quorum of the DKG, filled from the signature quorum.\<close>

definition fillDKGQuorum :: "SignatureProposalQuorum \<Rightarrow> DKGProposalQuorum" where
  "fillDKGQuorum sq = fold (\<lambda>(participantId, participant) quorum.
     AList.update participantId
       \<lparr>dp_ParticipantID = 0, dp_Username = sp_Username participant,
        dp_DkgPubKey = sp_DkgPubKey participant, dp_DkgCommit = [], dp_DkgDeal = [],
        dp_DkgResponse = [], dp_DkgMasterKey = [], dp_Status = CommitAwaitConfirmation,
        dp_Error = None, dp_UpdatedAt = sp_UpdatedAt participant\<rparr> quorum) sq []"

text \<open>The request is not validated here; a second initialization changes nothing.\<close>

definition actionInitDKGProposal :: action where
  "actionInitDKGProposal inEvent args p =
    (if DKGProposalPayload p \<noteq> None then ret_event '''' p
     else if length args \<noteq> 1
     then ret_err (errorsNew ''{arg0} required {DefaultRequest}'') p
     else case as_Default (hd args) of
       None \<Rightarrow> ret_err (errorsNew ''cannot cast {arg0} to type {DefaultRequest}'') p
     | Some request \<Rightarrow>
         bindR (deref (SignatureProposalPayload p)) (\<lambda>sc.
         let (participants, quorum) = DKGProposalQuorum_GetOrderedParticipants
               (Some (fillDKGQuorum (entries (sc_Quorum sc))));
             p = p\<lparr>DKGProposalPayload := Some
               \<lparr>dc_Quorum = quorum, dc_CreatedAt = dr_CreatedAt request, dc_UpdatedAt = 0,
                dc_ExpiresAt = Add (dr_CreatedAt request) DkgConfirmationDeadline,
                dc_PubPolyBz = []\<rparr>\<rparr>
         in bindR (foldR (\<lambda>participant responseData.
              bindR (deref (map_of (entries (sc_Quorum sc)) 0)) (\<lambda>first.
                Inr (responseData @
                  [\<lparr>ke_ParticipantId = dp_ParticipantID participant,
                    ke_Username = dp_Username participant,
                    ke_DkgPubKey = dp_DkgPubKey participant,
                    ke_Threshold = sp_Threshold first\<rparr>]))) participants [])
            (\<lambda>responseData. ret_resp inEvent (RespPubKeys responseData) p)))"

subsection \<open>Commits\<close>

definition actionCommitConfirmationReceived :: action where
  "actionCommitConfirmationReceived inEvent args p =
    with_request ''{arg0} required {DKGProposalCommitConfirmationRequest}''
      ''cannot cast {arg0} to type {DKGProposalCommitConfirmationRequest}''
      as_DkgCommit (total DKGProposalCommitConfirmationRequest_Validate) args p (\<lambda>request.
    bindR (DKGQuorumExists p (cr_ParticipantId request)) (\<lambda>exists.
    if \<not> exists then ret_err (errorsNew ''{ParticipantId} not exist in quorum'') p
    else bindR (bindR (DKGQuorumGet p (cr_ParticipantId request)) deref) (\<lambda>dkgProposalParticipant.
      if dp_Status dkgProposalParticipant \<noteq> CommitAwaitConfirmation
      then ret_err (Errorf ''cannot confirm commit with {Status} = {\"%s\"}''
             [AStr (DKGParticipantStatus_String (dp_Status dkgProposalParticipant))]) p
      else
        let dkgProposalParticipant = dkgProposalParticipant
              \<lparr>dp_DkgCommit := cr_Commit request, dp_Status := CommitConfirmed,
               dp_UpdatedAt := cr_CreatedAt request\<rparr>
        in bindR (deref (DKGProposalPayload p)) (\<lambda>c.
           let p = p\<lparr>DKGProposalPayload := Some (c\<lparr>dc_UpdatedAt := cr_CreatedAt request\<rparr>)\<rparr>
           in bindR (DKGQuorumUpdate (cr_ParticipantId request) dkgProposalParticipant p)
                (ret_event '''')))))"

definition actionValidateDkgProposalAwaitCommits :: action where
  "actionValidateDkgProposalAwaitCommits inEvent args p =
    bindR (deref (DKGProposalPayload p)) (\<lambda>c.
    if DKGConfirmation_IsExpired c
    then ret_event eventDKGCommitsConfirmationCancelByTimeoutInternal p
    else bindR (DKGQuorumCount p) (\<lambda>count.
      let (unconfirmedParticipants, isContainsError) =
            fold (\<lambda>(_, participant) (n, b).
               if dp_Status participant = CommitConfirmationError then (n, True)
               else if dp_Status participant = CommitConfirmed then (n - 1, b)
               else (n, b)) (entries (dc_Quorum c)) (count, False)
      in if isContainsError then ret_event eventDKGCommitsConfirmationCancelByErrorInternal p
         else if unconfirmedParticipants > 0 then ret_event '''' p
         else
           let quorum = map_option (map_vals (\<lambda>_ participant.
                 participant\<lparr>dp_Status := DealAwaitConfirmation\<rparr>)) (dc_Quorum c);
               (participants, quorum) = DKGProposalQuorum_GetOrderedParticipants quorum;
               responseData = map (\<lambda>participant.
                 \<lparr>ce_ParticipantId = dp_ParticipantID participant,
                  ce_Username = dp_Username participant,
                  ce_DkgCommit = dp_DkgCommit participant\<rparr>) participants
           in ret_resp eventDKGCommitsConfirmedInternal (RespCommits responseData)
                (p\<lparr>DKGProposalPayload := Some (c\<lparr>dc_Quorum := quorum\<rparr>)\<rparr>)))"

subsection \<open>Deals\<close>

definition actionDealConfirmationReceived :: action where
  "actionDealConfirmationReceived inEvent args p =
    with_request ''{arg0} required {DKGProposalDealConfirmationRequest}''
      ''cannot cast {arg0} to type {DKGProposalDealConfirmationRequest}''
      as_DkgDeal (total DKGProposalDealConfirmationRequest_Validate) args p (\<lambda>request.
    bindR (DKGQuorumExists p (dlr_ParticipantId request)) (\<lambda>exists.
    if \<not> exists then ret_err (errorsNew ''{ParticipantId} not exist in quorum'') p
    else bindR (bindR (DKGQuorumGet p (dlr_ParticipantId request)) deref) (\<lambda>dkgProposalParticipant.
      if dp_Status dkgProposalParticipant \<noteq> DealAwaitConfirmation
      then ret_err (Errorf ''cannot confirm deal with {Status} = {\"%s\"}''
             [AStr (DKGParticipantStatus_String (dp_Status dkgProposalParticipant))]) p
      else
        let dkgProposalParticipant = dkgProposalParticipant
              \<lparr>dp_DkgDeal := dlr_Deal request, dp_Status := DealConfirmed,
               dp_UpdatedAt := dlr_CreatedAt request\<rparr>
        in bindR (deref (DKGProposalPayload p)) (\<lambda>c.
           let p = p\<lparr>DKGProposalPayload := Some (c\<lparr>dc_UpdatedAt := dlr_CreatedAt request\<rparr>)\<rparr>
           in bindR (DKGQuorumUpdate (dlr_ParticipantId request) dkgProposalParticipant p)
                (ret_event '''')))))"

text \<open>Participants without a deal are left out of the response.\<close>

definition actionValidateDkgProposalAwaitDeals :: action where
  "actionValidateDkgProposalAwaitDeals inEvent args p =
    bindR (deref (DKGProposalPayload p)) (\<lambda>c.
    if DKGConfirmation_IsExpired c
    then ret_event eventDKGDealsConfirmationCancelByTimeoutInternal p
    else bindR (DKGQuorumCount p) (\<lambda>count.
      let (unconfirmedDealsParticipants, isContainsError) =
            fold (\<lambda>(_, participant) (n, b).
               if dp_Status participant = DealConfirmationError then (n, True)
               else if dp_Status participant = DealConfirmed then (n - 1, b)
               else (n, b)) (entries (dc_Quorum c)) (count, False)
      in if isContainsError then ret_event eventDKGDealsConfirmationCancelByErrorInternal p
         else if unconfirmedDealsParticipants > 0 then ret_event '''' p
         else
           let quorum = map_option (map_vals (\<lambda>_ participant.
                 participant\<lparr>dp_Status := ResponseAwaitConfirmation\<rparr>)) (dc_Quorum c);
               (participants, quorum) = DKGProposalQuorum_GetOrderedParticipants quorum;
               responseData = map (\<lambda>participant.
                 \<lparr>dle_ParticipantId = dp_ParticipantID participant,
                  dle_Username = dp_Username participant,
                  dle_DkgDeal = dp_DkgDeal participant\<rparr>)
                 (filter (\<lambda>participant. length (dp_DkgDeal participant) \<noteq> 0) participants)
           in ret_resp eventDKGDealsConfirmedInternal (RespDeals responseData)
                (p\<lparr>DKGProposalPayload := Some (c\<lparr>dc_Quorum := quorum\<rparr>)\<rparr>)))"

subsection \<open>Responses\<close>

definition actionResponseConfirmationReceived :: action where
  "actionResponseConfirmationReceived inEvent args p =
    with_request ''{arg0} required {DKGProposalResponseConfirmationRequest}''
      ''cannot cast {arg0} to type {DKGProposalResponseConfirmationRequest}''
      as_DkgResponse (total DKGProposalResponseConfirmationRequest_Validate) args p (\<lambda>request.
    bindR (DKGQuorumExists p (rr_ParticipantId request)) (\<lambda>exists.
    if \<not> exists then ret_err (errorsNew ''{ParticipantId} not exist in quorum'') p
    else bindR (bindR (DKGQuorumGet p (rr_ParticipantId request)) deref) (\<lambda>dkgProposalParticipant.
      if dp_Status dkgProposalParticipant \<noteq> ResponseAwaitConfirmation
      then ret_err (Errorf ''cannot confirm response with {Status} = {\"%s\"}''
             [AStr (DKGParticipantStatus_String (dp_Status dkgProposalParticipant))]) p
      else
        let dkgProposalParticipant = dkgProposalParticipant
              \<lparr>dp_DkgResponse := rr_Response request, dp_Status := ResponseConfirmed,
               dp_UpdatedAt := rr_CreatedAt request\<rparr>
        in bindR (deref (DKGProposalPayload p)) (\<lambda>c.
           let p = p\<lparr>DKGProposalPayload := Some (c\<lparr>dc_UpdatedAt := rr_CreatedAt request\<rparr>)\<rparr>
           in bindR (DKGQuorumUpdate (rr_ParticipantId request) dkgProposalParticipant p)
                (ret_event '''')))))"

definition actionValidateDkgProposalAwaitResponses :: action where
  "actionValidateDkgProposalAwaitResponses inEvent args p =
    bindR (deref (DKGProposalPayload p)) (\<lambda>c.
    if DKGConfirmation_IsExpired c
    then ret_event eventDKGResponseConfirmationCancelByTimeoutInternal p
    else bindR (DKGQuorumCount p) (\<lambda>count.
      let (unconfirmedParticipants, isContainsError) =
            fold (\<lambda>(_, participant) (n, b).
               if dp_Status participant = ResponseConfirmationError then (n, True)
               else if dp_Status participant = ResponseConfirmed then (n - 1, b)
               else (n, b)) (entries (dc_Quorum c)) (count, False)
      in if isContainsError then ret_event eventDKGResponseConfirmationCancelByErrorInternal p
         else if unconfirmedParticipants > 0 then ret_event '''' p
         else
           let quorum = map_option (map_vals (\<lambda>_ participant.
                 participant\<lparr>dp_Status := MasterKeyAwaitConfirmation\<rparr>)) (dc_Quorum c);
               (participants, quorum) = DKGProposalQuorum_GetOrderedParticipants quorum;
               responseData = map (\<lambda>participant.
                 \<lparr>re_ParticipantId = dp_ParticipantID participant,
                  re_Username = dp_Username participant,
                  re_DkgResponse = dp_DkgResponse participant\<rparr>) participants
           in ret_resp eventDKGResponsesConfirmedInternal (RespResponses responseData)
                (p\<lparr>DKGProposalPayload := Some (c\<lparr>dc_Quorum := quorum\<rparr>)\<rparr>)))"

subsection \<open>Master key\<close>

definition actionMasterKeyConfirmationReceived :: action where
  "actionMasterKeyConfirmationReceived inEvent args p =
    with_request ''{arg0} required {DKGProposalMasterKeyConfirmationRequest}''
      ''cannot cast {arg0} to type {DKGProposalMasterKeyConfirmationRequest}''
      as_DkgMasterKey (total DKGProposalMasterKeyConfirmationRequest_Validate) args p (\<lambda>request.
    bindR (DKGQuorumExists p (mk_ParticipantId request)) (\<lambda>exists.
    if \<not> exists then ret_err (errorsNew ''{ParticipantId} not exist in quorum'') p
    else bindR (bindR (DKGQuorumGet p (mk_ParticipantId request)) deref) (\<lambda>dkgProposalParticipant.
      if dp_Status dkgProposalParticipant \<noteq> MasterKeyAwaitConfirmation
      then ret_err (Errorf ''cannot confirm response with {Status} = {\"%s\"}''
             [AStr (DKGParticipantStatus_String (dp_Status dkgProposalParticipant))]) p
      else
        let dkgProposalParticipant = dkgProposalParticipant
              \<lparr>dp_DkgMasterKey := mk_MasterKey request, dp_Status := MasterKeyConfirmed,
               dp_UpdatedAt := mk_CreatedAt request\<rparr>
        in bindR (deref (DKGProposalPayload p)) (\<lambda>c.
           let p = p\<lparr>DKGProposalPayload := Some (c\<lparr>dc_UpdatedAt := mk_CreatedAt request,
                 dc_PubPolyBz := mk_PubPolyBz request\<rparr>)\<rparr>
           in bindR (DKGQuorumUpdate (mk_ParticipantId request) dkgProposalParticipant p)
                (ret_event '''')))))"

definition actionValidateDkgProposalAwaitMasterKey :: action where
  "actionValidateDkgProposalAwaitMasterKey inEvent args p =
    bindR (deref (DKGProposalPayload p)) (\<lambda>c.
    if DKGConfirmation_IsExpired c
    then ret_event eventDKGMasterKeyConfirmationCancelByTimeoutInternal p
    else bindR (DKGQuorumCount p) (\<lambda>count.
      let (unconfirmedParticipants, isContainsError, masterKeys) =
            fold (\<lambda>(_, participant) (n, b, ks).
               if dp_Status participant = MasterKeyConfirmationError then (n, True, ks)
               else if dp_Status participant = MasterKeyConfirmed
               then (n - 1, b, ks @ [dp_DkgMasterKey participant])
               else (n, b, ks)) (entries (dc_Quorum c)) (count, False, [])
      in if isContainsError then ret_event eventDKGMasterKeyConfirmationCancelByErrorInternal p
         else if length masterKeys > 1 \<and> list_ex (\<lambda>masterKey. masterKey \<noteq> hd masterKeys) masterKeys
         then ret_event eventDKGMasterKeyConfirmationCancelByErrorInternal
                (p\<lparr>DKGProposalPayload := Some (c\<lparr>dc_Quorum :=
                   map_option (map_vals (\<lambda>_ participant. participant
                     \<lparr>dp_Status := MasterKeyConfirmationError,
                      dp_Error := Some (NewFSMError ''master key is mismatched'')\<rparr>))
                     (dc_Quorum c)\<rparr>)\<rparr>)
         else if unconfirmedParticipants > 0 then ret_event '''' p
         else ret_event eventDKGMasterKeyConfirmedInternal
                (p\<lparr>DKGProposalPayload := Some (c\<lparr>dc_Quorum :=
                   map_option (map_vals (\<lambda>_ participant. participant
                     \<lparr>dp_Status := MasterKeyConfirmed\<rparr>)) (dc_Quorum c)\<rparr>)\<rparr>)))"

subsection \<open>Errors\<close>

text \<open>The inner switch, the same for the four stages: \<open>Inr\<close> is the new status.\<close>

definition errorStatus ::
  "DKGParticipantStatus \<Rightarrow> DKGParticipantStatus \<Rightarrow> DKGParticipantStatus \<Rightarrow> DKGParticipantStatus \<Rightarrow>
   error + DKGParticipantStatus"
where
  "errorStatus await confirmed failed status =
    (if status = await then Inr failed
     else if status = confirmed then Inl (errorsNew ''{Status} already confirmed'')
     else if status = failed
     then Inl (Errorf ''{Status} already has {\"%s\"}'' [AStr (DKGParticipantStatus_String failed)])
     else Inl (Errorf ''{Status} now is \"%s\" and cannot set to {\"%s\"}''
            [AStr (DKGParticipantStatus_String status), AStr (DKGParticipantStatus_String failed)]))"

definition errorSwitch :: "Event \<Rightarrow> DKGParticipantStatus \<Rightarrow> error + DKGParticipantStatus" where
  "errorSwitch inEvent status =
    (if inEvent = EventDKGCommitConfirmationError
     then errorStatus CommitAwaitConfirmation CommitConfirmed CommitConfirmationError status
     else if inEvent = EventDKGDealConfirmationError
     then errorStatus DealAwaitConfirmation DealConfirmed DealConfirmationError status
     else if inEvent = EventDKGResponseConfirmationError
     then errorStatus ResponseAwaitConfirmation ResponseConfirmed ResponseConfirmationError status
     else if inEvent = EventDKGMasterKeyConfirmationError
     then errorStatus MasterKeyAwaitConfirmation MasterKeyConfirmed MasterKeyConfirmationError status
     else Inl (Errorf ''{%s} event cannot be used for action {actionConfirmationError}''
            [AStr inEvent]))"

definition dkg_actionConfirmationError :: action where
  "dkg_actionConfirmationError inEvent args p =
    with_request ''{arg0} required {DKGProposalConfirmationErrorRequest}''
      ''cannot cast {arg0} to type {DKGProposalConfirmationErrorRequest}''
      as_DkgError (total DKGProposalConfirmationErrorRequest_Validate) args p (\<lambda>request.
    bindR (DKGQuorumExists p (de_ParticipantId request)) (\<lambda>exists.
    if \<not> exists then ret_err (errorsNew ''{ParticipantId} not exist in quorum'') p
    else bindR (bindR (DKGQuorumGet p (de_ParticipantId request)) deref) (\<lambda>dkgProposalParticipant.
      case errorSwitch inEvent (dp_Status dkgProposalParticipant) of
           Inl e \<Rightarrow> ret_err e p
         | Inr failed \<Rightarrow>
             let dkgProposalParticipant = dkgProposalParticipant
                   \<lparr>dp_Status := failed, dp_Error := de_Error request,
                    dp_UpdatedAt := de_CreatedAt request\<rparr>
             in bindR (deref (DKGProposalPayload p)) (\<lambda>c.
                let p = p\<lparr>DKGProposalPayload := Some (c\<lparr>dc_UpdatedAt := de_CreatedAt request\<rparr>)\<rparr>
                in bindR (DKGQuorumUpdate (de_ParticipantId request) dkgProposalParticipant p)
                     (ret_event '''')))))"

section \<open>The machine\<close>

definition dkg_proposal_events :: "EventDesc list" where
  "dkg_proposal_events =
    [evt EventDKGInitProcess [StateDkgInitial] StateDkgCommitsAwaitConfirmations,
     evt EventDKGCommitConfirmationReceived [StateDkgCommitsAwaitConfirmations]
       StateDkgCommitsAwaitConfirmations,
     evt EventDKGCommitConfirmationError
       [StateDkgCommitsAwaitConfirmations, StateDkgCommitsAwaitCanceledByError]
       StateDkgCommitsAwaitCanceledByError,
     evt_internal eventDKGCommitsConfirmationCancelByTimeoutInternal
       [StateDkgCommitsAwaitConfirmations] StateDkgCommitsAwaitCanceledByTimeout,
     evt_auto eventAutoDKGValidateConfirmationCommitsInternal [StateDkgCommitsAwaitConfirmations]
       StateDkgCommitsAwaitConfirmations,
     evt_internal eventDKGCommitsConfirmedInternal [StateDkgCommitsAwaitConfirmations]
       StateDkgDealsAwaitConfirmations,
     evt EventDKGDealConfirmationReceived [StateDkgDealsAwaitConfirmations]
       StateDkgDealsAwaitConfirmations,
     evt EventDKGDealConfirmationError
       [StateDkgDealsAwaitConfirmations, StateDkgDealsAwaitCanceledByError]
       StateDkgDealsAwaitCanceledByError,
     evt_internal eventDKGDealsConfirmationCancelByTimeoutInternal
       [StateDkgDealsAwaitConfirmations] StateDkgDealsAwaitCanceledByTimeout,
     evt_auto eventAutoDKGValidateConfirmationDealsInternal [StateDkgDealsAwaitConfirmations]
       StateDkgDealsAwaitConfirmations,
     evt_internal eventDKGDealsConfirmedInternal [StateDkgDealsAwaitConfirmations]
       StateDkgResponsesAwaitConfirmations,
     evt EventDKGResponseConfirmationReceived [StateDkgResponsesAwaitConfirmations]
       StateDkgResponsesAwaitConfirmations,
     evt EventDKGResponseConfirmationError
       [StateDkgResponsesAwaitConfirmations, StateDkgResponsesAwaitCanceledByError]
       StateDkgResponsesAwaitCanceledByError,
     evt_internal eventDKGResponseConfirmationCancelByTimeoutInternal
       [StateDkgResponsesAwaitConfirmations] StateDkgResponsesAwaitCanceledByTimeout,
     evt_auto eventAutoDKGValidateResponsesConfirmationInternal
       [StateDkgResponsesAwaitConfirmations] StateDkgResponsesAwaitConfirmations,
     evt_internal eventDKGResponsesConfirmedInternal [StateDkgResponsesAwaitConfirmations]
       StateDkgMasterKeyAwaitConfirmations,
     evt EventDKGMasterKeyConfirmationReceived [StateDkgMasterKeyAwaitConfirmations]
       StateDkgMasterKeyAwaitConfirmations,
     evt EventDKGMasterKeyConfirmationError
       [StateDkgMasterKeyAwaitConfirmations, StateDkgMasterKeyAwaitCanceledByError]
       StateDkgMasterKeyAwaitCanceledByError,
     evt_internal eventDKGMasterKeyConfirmationCancelByErrorInternal
       [StateDkgMasterKeyAwaitConfirmations] StateDkgMasterKeyAwaitCanceledByError,
     evt_internal eventDKGMasterKeyConfirmationCancelByTimeoutInternal
       [StateDkgMasterKeyAwaitConfirmations] StateDkgMasterKeyAwaitCanceledByTimeout,
     evt_auto eventAutoDKGValidateMasterKeyConfirmationInternal
       [StateDkgMasterKeyAwaitConfirmations] StateDkgMasterKeyAwaitConfirmations,
     evt_internal eventDKGMasterKeyConfirmedInternal [StateDkgMasterKeyAwaitConfirmations]
       StateDkgMasterKeyCollected]"

definition dkg_proposal_callbacks :: "(Event, action) gomap" where
  "dkg_proposal_callbacks =
    [(EventDKGInitProcess, actionInitDKGProposal),
     (EventDKGCommitConfirmationReceived, actionCommitConfirmationReceived),
     (EventDKGCommitConfirmationError, dkg_actionConfirmationError),
     (eventAutoDKGValidateConfirmationCommitsInternal, actionValidateDkgProposalAwaitCommits),
     (EventDKGDealConfirmationReceived, actionDealConfirmationReceived),
     (EventDKGDealConfirmationError, dkg_actionConfirmationError),
     (eventAutoDKGValidateConfirmationDealsInternal, actionValidateDkgProposalAwaitDeals),
     (EventDKGResponseConfirmationReceived, actionResponseConfirmationReceived),
     (EventDKGResponseConfirmationError, dkg_actionConfirmationError),
     (eventAutoDKGValidateResponsesConfirmationInternal, actionValidateDkgProposalAwaitResponses),
     (EventDKGMasterKeyConfirmationReceived, actionMasterKeyConfirmationReceived),
     (EventDKGMasterKeyConfirmationError, dkg_actionConfirmationError),
     (eventAutoDKGValidateMasterKeyConfirmationInternal, actionValidateDkgProposalAwaitMasterKey)]"

definition dkg_proposal_New :: "machine go" where
  "dkg_proposal_New = MustNewFSM dkg_proposal_FsmName StateDkgInitial
     dkg_proposal_events dkg_proposal_callbacks"

text \<open>The names are pairwise distinct.\<close>

lemma dkg_states_distinct:
  "distinct
    ['''', StateGlobalIdle, StateGlobalDone,
     StateSignatureProposalCollected,
     StateDkgCommitsAwaitConfirmations,
     StateDkgCommitsAwaitCanceledByError,
     StateDkgCommitsAwaitCanceledByTimeout,
     StateDkgCommitsCollected,
     StateDkgDealsAwaitConfirmations,
     StateDkgDealsAwaitCanceledByError,
     StateDkgDealsAwaitCanceledByTimeout,
     StateDkgResponsesAwaitConfirmations,
     StateDkgResponsesAwaitCanceledByError,
     StateDkgResponsesAwaitCanceledByTimeout,
     StateDkgResponsesCollected,
     StateDkgMasterKeyAwaitConfirmations,
     StateDkgMasterKeyAwaitCanceledByError,
     StateDkgMasterKeyAwaitCanceledByTimeout,
     StateDkgMasterKeyCollected]"
  by code_simp

lemma dkg_events_distinct:
  "distinct
    ['''', EventDKGInitProcess,
     EventDKGCommitConfirmationReceived,
     EventDKGCommitConfirmationError,
     eventDKGCommitsConfirmationCancelByTimeoutInternal,
     eventDKGCommitsConfirmationCancelByErrorInternal,
     eventDKGCommitsConfirmedInternal,
     eventAutoDKGValidateConfirmationCommitsInternal,
     EventDKGDealConfirmationReceived,
     EventDKGDealConfirmationError,
     eventDKGDealsConfirmationCancelByTimeoutInternal,
     eventDKGDealsConfirmationCancelByErrorInternal,
     eventDKGDealsConfirmedInternal,
     eventAutoDKGValidateConfirmationDealsInternal,
     EventDKGResponseConfirmationReceived,
     EventDKGResponseConfirmationError,
     eventDKGResponseConfirmationCancelByTimeoutInternal,
     eventDKGResponseConfirmationCancelByErrorInternal,
     eventDKGResponsesConfirmedInternal,
     eventAutoDKGValidateResponsesConfirmationInternal,
     EventDKGMasterKeyConfirmationReceived,
     EventDKGMasterKeyConfirmationError,
     eventDKGMasterKeyConfirmationCancelByTimeoutInternal,
     eventDKGMasterKeyConfirmationCancelByErrorInternal,
     eventDKGMasterKeyConfirmedInternal,
     eventAutoDKGValidateMasterKeyConfirmationInternal,
     EventDKGMasterKeyRequiredInternal]"
  by code_simp

lemmas dkg_neq =
  dkg_states_distinct [simplified]
  dkg_states_distinct [THEN iffD2 [OF distinct_rev], unfolded rev.simps append.simps, simplified]
  dkg_events_distinct [simplified]
  dkg_events_distinct [THEN iffD2 [OF distinct_rev], unfolded rev.simps append.simps, simplified]

text \<open>The machine that the construction yields, table by table.\<close>

definition dkg_fsm :: machine where
  "dkg_fsm = \<lparr>fsm_name = dkg_proposal_FsmName, fsm_initialState = StateDkgInitial,
     fsm_currentState = StateDkgInitial,
     fsm_transitions =
      [((StateDkgInitial, EventDKGInitProcess),
         tr_public EventDKGInitProcess
           StateDkgCommitsAwaitConfirmations),
       ((StateDkgCommitsAwaitConfirmations, EventDKGCommitConfirmationReceived),
         tr_public EventDKGCommitConfirmationReceived
           StateDkgCommitsAwaitConfirmations),
       ((StateDkgCommitsAwaitConfirmations, EventDKGCommitConfirmationError),
         tr_public EventDKGCommitConfirmationError
           StateDkgCommitsAwaitCanceledByError),
       ((StateDkgCommitsAwaitCanceledByError, EventDKGCommitConfirmationError),
         tr_public EventDKGCommitConfirmationError
           StateDkgCommitsAwaitCanceledByError),
       ((StateDkgCommitsAwaitConfirmations, eventDKGCommitsConfirmationCancelByTimeoutInternal),
         tr_internal eventDKGCommitsConfirmationCancelByTimeoutInternal
           StateDkgCommitsAwaitCanceledByTimeout),
       ((StateDkgCommitsAwaitConfirmations, eventAutoDKGValidateConfirmationCommitsInternal),
         tr_auto eventAutoDKGValidateConfirmationCommitsInternal
           StateDkgCommitsAwaitConfirmations),
       ((StateDkgCommitsAwaitConfirmations, eventDKGCommitsConfirmedInternal),
         tr_internal eventDKGCommitsConfirmedInternal
           StateDkgDealsAwaitConfirmations),
       ((StateDkgDealsAwaitConfirmations, EventDKGDealConfirmationReceived),
         tr_public EventDKGDealConfirmationReceived
           StateDkgDealsAwaitConfirmations),
       ((StateDkgDealsAwaitConfirmations, EventDKGDealConfirmationError),
         tr_public EventDKGDealConfirmationError
           StateDkgDealsAwaitCanceledByError),
       ((StateDkgDealsAwaitCanceledByError, EventDKGDealConfirmationError),
         tr_public EventDKGDealConfirmationError
           StateDkgDealsAwaitCanceledByError),
       ((StateDkgDealsAwaitConfirmations, eventDKGDealsConfirmationCancelByTimeoutInternal),
         tr_internal eventDKGDealsConfirmationCancelByTimeoutInternal
           StateDkgDealsAwaitCanceledByTimeout),
       ((StateDkgDealsAwaitConfirmations, eventAutoDKGValidateConfirmationDealsInternal),
         tr_auto eventAutoDKGValidateConfirmationDealsInternal
           StateDkgDealsAwaitConfirmations),
       ((StateDkgDealsAwaitConfirmations, eventDKGDealsConfirmedInternal),
         tr_internal eventDKGDealsConfirmedInternal
           StateDkgResponsesAwaitConfirmations),
       ((StateDkgResponsesAwaitConfirmations, EventDKGResponseConfirmationReceived),
         tr_public EventDKGResponseConfirmationReceived
           StateDkgResponsesAwaitConfirmations),
       ((StateDkgResponsesAwaitConfirmations, EventDKGResponseConfirmationError),
         tr_public EventDKGResponseConfirmationError
           StateDkgResponsesAwaitCanceledByError),
       ((StateDkgResponsesAwaitCanceledByError, EventDKGResponseConfirmationError),
         tr_public EventDKGResponseConfirmationError
           StateDkgResponsesAwaitCanceledByError),
       ((StateDkgResponsesAwaitConfirmations, eventDKGResponseConfirmationCancelByTimeoutInternal),
         tr_internal eventDKGResponseConfirmationCancelByTimeoutInternal
           StateDkgResponsesAwaitCanceledByTimeout),
       ((StateDkgResponsesAwaitConfirmations, eventAutoDKGValidateResponsesConfirmationInternal),
         tr_auto eventAutoDKGValidateResponsesConfirmationInternal
           StateDkgResponsesAwaitConfirmations),
       ((StateDkgResponsesAwaitConfirmations, eventDKGResponsesConfirmedInternal),
         tr_internal eventDKGResponsesConfirmedInternal
           StateDkgMasterKeyAwaitConfirmations),
       ((StateDkgMasterKeyAwaitConfirmations, EventDKGMasterKeyConfirmationReceived),
         tr_public EventDKGMasterKeyConfirmationReceived
           StateDkgMasterKeyAwaitConfirmations),
       ((StateDkgMasterKeyAwaitConfirmations, EventDKGMasterKeyConfirmationError),
         tr_public EventDKGMasterKeyConfirmationError
           StateDkgMasterKeyAwaitCanceledByError),
       ((StateDkgMasterKeyAwaitCanceledByError, EventDKGMasterKeyConfirmationError),
         tr_public EventDKGMasterKeyConfirmationError
           StateDkgMasterKeyAwaitCanceledByError),
       ((StateDkgMasterKeyAwaitConfirmations, eventDKGMasterKeyConfirmationCancelByErrorInternal),
         tr_internal eventDKGMasterKeyConfirmationCancelByErrorInternal
           StateDkgMasterKeyAwaitCanceledByError),
       ((StateDkgMasterKeyAwaitConfirmations, eventDKGMasterKeyConfirmationCancelByTimeoutInternal),
         tr_internal eventDKGMasterKeyConfirmationCancelByTimeoutInternal
           StateDkgMasterKeyAwaitCanceledByTimeout),
       ((StateDkgMasterKeyAwaitConfirmations, eventAutoDKGValidateMasterKeyConfirmationInternal),
         tr_auto eventAutoDKGValidateMasterKeyConfirmationInternal
           StateDkgMasterKeyAwaitConfirmations),
       ((StateDkgMasterKeyAwaitConfirmations, eventDKGMasterKeyConfirmedInternal),
         tr_internal eventDKGMasterKeyConfirmedInternal
           StateDkgMasterKeyCollected)],
     fsm_autoTransitions =
      [((StateDkgCommitsAwaitConfirmations, EventRunAfter),
         tr_auto eventAutoDKGValidateConfirmationCommitsInternal
           StateDkgCommitsAwaitConfirmations),
       ((StateDkgDealsAwaitConfirmations, EventRunAfter),
         tr_auto eventAutoDKGValidateConfirmationDealsInternal
           StateDkgDealsAwaitConfirmations),
       ((StateDkgResponsesAwaitConfirmations, EventRunAfter),
         tr_auto eventAutoDKGValidateResponsesConfirmationInternal
           StateDkgResponsesAwaitConfirmations),
       ((StateDkgMasterKeyAwaitConfirmations, EventRunAfter),
         tr_auto eventAutoDKGValidateMasterKeyConfirmationInternal
           StateDkgMasterKeyAwaitConfirmations)],
     fsm_callbacks = dkg_proposal_callbacks,
     fsm_initialEvent = EventDKGInitProcess,
     fsm_finStates =
      [(StateDkgCommitsAwaitCanceledByTimeout, True),
       (StateDkgDealsAwaitCanceledByTimeout, True),
       (StateDkgResponsesAwaitCanceledByTimeout, True),
       (StateDkgMasterKeyAwaitCanceledByTimeout, True),
       (StateDkgMasterKeyCollected, True)]\<rparr>"

lemma dkg_proposal_New_eq: "dkg_proposal_New = Inr dkg_fsm"
  by (simp add: dkg_proposal_New_def dkg_fsm_def MustNewFSM_def dkg_proposal_events_def
      dkg_proposal_callbacks_def dkg_proposal_FsmName_def addEvent_def addSource_def
      addCallback_def addFinState_def Let_def dkg_neq StateDkgInitial_def)

text \<open>Lookups in the tables.\<close>

lemma dkg_transitions:
  "map_of (fsm_transitions dkg_fsm) (StateDkgInitial, EventDKGInitProcess) =
     Some (tr_public EventDKGInitProcess
       StateDkgCommitsAwaitConfirmations)"
  "map_of (fsm_transitions dkg_fsm) (StateDkgCommitsAwaitConfirmations, EventDKGCommitConfirmationReceived) =
     Some (tr_public EventDKGCommitConfirmationReceived
       StateDkgCommitsAwaitConfirmations)"
  "map_of (fsm_transitions dkg_fsm) (StateDkgCommitsAwaitConfirmations, EventDKGCommitConfirmationError) =
     Some (tr_public EventDKGCommitConfirmationError
       StateDkgCommitsAwaitCanceledByError)"
  "map_of (fsm_transitions dkg_fsm) (StateDkgCommitsAwaitCanceledByError, EventDKGCommitConfirmationError) =
     Some (tr_public EventDKGCommitConfirmationError
       StateDkgCommitsAwaitCanceledByError)"
  "map_of (fsm_transitions dkg_fsm) (StateDkgCommitsAwaitConfirmations, eventDKGCommitsConfirmationCancelByTimeoutInternal) =
     Some (tr_internal eventDKGCommitsConfirmationCancelByTimeoutInternal
       StateDkgCommitsAwaitCanceledByTimeout)"
  "map_of (fsm_transitions dkg_fsm) (StateDkgCommitsAwaitConfirmations, eventAutoDKGValidateConfirmationCommitsInternal) =
     Some (tr_auto eventAutoDKGValidateConfirmationCommitsInternal
       StateDkgCommitsAwaitConfirmations)"
  "map_of (fsm_transitions dkg_fsm) (StateDkgCommitsAwaitConfirmations, eventDKGCommitsConfirmedInternal) =
     Some (tr_internal eventDKGCommitsConfirmedInternal
       StateDkgDealsAwaitConfirmations)"
  "map_of (fsm_transitions dkg_fsm) (StateDkgDealsAwaitConfirmations, EventDKGDealConfirmationReceived) =
     Some (tr_public EventDKGDealConfirmationReceived
       StateDkgDealsAwaitConfirmations)"
  "map_of (fsm_transitions dkg_fsm) (StateDkgDealsAwaitConfirmations, EventDKGDealConfirmationError) =
     Some (tr_public EventDKGDealConfirmationError
       StateDkgDealsAwaitCanceledByError)"
  "map_of (fsm_transitions dkg_fsm) (StateDkgDealsAwaitCanceledByError, EventDKGDealConfirmationError) =
     Some (tr_public EventDKGDealConfirmationError
       StateDkgDealsAwaitCanceledByError)"
  "map_of (fsm_transitions dkg_fsm) (StateDkgDealsAwaitConfirmations, eventDKGDealsConfirmationCancelByTimeoutInternal) =
     Some (tr_internal eventDKGDealsConfirmationCancelByTimeoutInternal
       StateDkgDealsAwaitCanceledByTimeout)"
  "map_of (fsm_transitions dkg_fsm) (StateDkgDealsAwaitConfirmations, eventAutoDKGValidateConfirmationDealsInternal) =
     Some (tr_auto eventAutoDKGValidateConfirmationDealsInternal
       StateDkgDealsAwaitConfirmations)"
  "map_of (fsm_transitions dkg_fsm) (StateDkgDealsAwaitConfirmations, eventDKGDealsConfirmedInternal) =
     Some (tr_internal eventDKGDealsConfirmedInternal
       StateDkgResponsesAwaitConfirmations)"
  "map_of (fsm_transitions dkg_fsm) (StateDkgResponsesAwaitConfirmations, EventDKGResponseConfirmationReceived) =
     Some (tr_public EventDKGResponseConfirmationReceived
       StateDkgResponsesAwaitConfirmations)"
  "map_of (fsm_transitions dkg_fsm) (StateDkgResponsesAwaitConfirmations, EventDKGResponseConfirmationError) =
     Some (tr_public EventDKGResponseConfirmationError
       StateDkgResponsesAwaitCanceledByError)"
  "map_of (fsm_transitions dkg_fsm) (StateDkgResponsesAwaitCanceledByError, EventDKGResponseConfirmationError) =
     Some (tr_public EventDKGResponseConfirmationError
       StateDkgResponsesAwaitCanceledByError)"
  "map_of (fsm_transitions dkg_fsm) (StateDkgResponsesAwaitConfirmations, eventDKGResponseConfirmationCancelByTimeoutInternal) =
     Some (tr_internal eventDKGResponseConfirmationCancelByTimeoutInternal
       StateDkgResponsesAwaitCanceledByTimeout)"
  "map_of (fsm_transitions dkg_fsm) (StateDkgResponsesAwaitConfirmations, eventAutoDKGValidateResponsesConfirmationInternal) =
     Some (tr_auto eventAutoDKGValidateResponsesConfirmationInternal
       StateDkgResponsesAwaitConfirmations)"
  "map_of (fsm_transitions dkg_fsm) (StateDkgResponsesAwaitConfirmations, eventDKGResponsesConfirmedInternal) =
     Some (tr_internal eventDKGResponsesConfirmedInternal
       StateDkgMasterKeyAwaitConfirmations)"
  "map_of (fsm_transitions dkg_fsm) (StateDkgMasterKeyAwaitConfirmations, EventDKGMasterKeyConfirmationReceived) =
     Some (tr_public EventDKGMasterKeyConfirmationReceived
       StateDkgMasterKeyAwaitConfirmations)"
  "map_of (fsm_transitions dkg_fsm) (StateDkgMasterKeyAwaitConfirmations, EventDKGMasterKeyConfirmationError) =
     Some (tr_public EventDKGMasterKeyConfirmationError
       StateDkgMasterKeyAwaitCanceledByError)"
  "map_of (fsm_transitions dkg_fsm) (StateDkgMasterKeyAwaitCanceledByError, EventDKGMasterKeyConfirmationError) =
     Some (tr_public EventDKGMasterKeyConfirmationError
       StateDkgMasterKeyAwaitCanceledByError)"
  "map_of (fsm_transitions dkg_fsm) (StateDkgMasterKeyAwaitConfirmations, eventDKGMasterKeyConfirmationCancelByErrorInternal) =
     Some (tr_internal eventDKGMasterKeyConfirmationCancelByErrorInternal
       StateDkgMasterKeyAwaitCanceledByError)"
  "map_of (fsm_transitions dkg_fsm) (StateDkgMasterKeyAwaitConfirmations, eventDKGMasterKeyConfirmationCancelByTimeoutInternal) =
     Some (tr_internal eventDKGMasterKeyConfirmationCancelByTimeoutInternal
       StateDkgMasterKeyAwaitCanceledByTimeout)"
  "map_of (fsm_transitions dkg_fsm) (StateDkgMasterKeyAwaitConfirmations, eventAutoDKGValidateMasterKeyConfirmationInternal) =
     Some (tr_auto eventAutoDKGValidateMasterKeyConfirmationInternal
       StateDkgMasterKeyAwaitConfirmations)"
  "map_of (fsm_transitions dkg_fsm) (StateDkgMasterKeyAwaitConfirmations, eventDKGMasterKeyConfirmedInternal) =
     Some (tr_internal eventDKGMasterKeyConfirmedInternal
       StateDkgMasterKeyCollected)"
  by (simp_all add: dkg_fsm_def dkg_neq StateDkgInitial_def)

lemma dkg_callbacks:
  "map_of (fsm_callbacks dkg_fsm) EventDKGInitProcess = Some actionInitDKGProposal"
  "map_of (fsm_callbacks dkg_fsm) EventDKGCommitConfirmationReceived = Some actionCommitConfirmationReceived"
  "map_of (fsm_callbacks dkg_fsm) EventDKGCommitConfirmationError = Some dkg_actionConfirmationError"
  "map_of (fsm_callbacks dkg_fsm) eventAutoDKGValidateConfirmationCommitsInternal = Some actionValidateDkgProposalAwaitCommits"
  "map_of (fsm_callbacks dkg_fsm) EventDKGDealConfirmationReceived = Some actionDealConfirmationReceived"
  "map_of (fsm_callbacks dkg_fsm) EventDKGDealConfirmationError = Some dkg_actionConfirmationError"
  "map_of (fsm_callbacks dkg_fsm) eventAutoDKGValidateConfirmationDealsInternal = Some actionValidateDkgProposalAwaitDeals"
  "map_of (fsm_callbacks dkg_fsm) EventDKGResponseConfirmationReceived = Some actionResponseConfirmationReceived"
  "map_of (fsm_callbacks dkg_fsm) EventDKGResponseConfirmationError = Some dkg_actionConfirmationError"
  "map_of (fsm_callbacks dkg_fsm) eventAutoDKGValidateResponsesConfirmationInternal = Some actionValidateDkgProposalAwaitResponses"
  "map_of (fsm_callbacks dkg_fsm) EventDKGMasterKeyConfirmationReceived = Some actionMasterKeyConfirmationReceived"
  "map_of (fsm_callbacks dkg_fsm) EventDKGMasterKeyConfirmationError = Some dkg_actionConfirmationError"
  "map_of (fsm_callbacks dkg_fsm) eventAutoDKGValidateMasterKeyConfirmationInternal = Some actionValidateDkgProposalAwaitMasterKey"
  by (simp_all add: dkg_fsm_def dkg_proposal_callbacks_def dkg_neq StateDkgInitial_def)

lemma dkg_autos:
  "map_of (fsm_autoTransitions dkg_fsm) (StateDkgInitial, EventRunAfter) = None"
  "map_of (fsm_autoTransitions dkg_fsm) (StateDkgCommitsAwaitConfirmations, EventRunAfter) =
     Some (tr_auto eventAutoDKGValidateConfirmationCommitsInternal
       StateDkgCommitsAwaitConfirmations)"
  "map_of (fsm_autoTransitions dkg_fsm) (StateDkgCommitsAwaitCanceledByError, EventRunAfter) = None"
  "map_of (fsm_autoTransitions dkg_fsm) (StateDkgDealsAwaitConfirmations, EventRunAfter) =
     Some (tr_auto eventAutoDKGValidateConfirmationDealsInternal
       StateDkgDealsAwaitConfirmations)"
  "map_of (fsm_autoTransitions dkg_fsm) (StateDkgDealsAwaitCanceledByError, EventRunAfter) = None"
  "map_of (fsm_autoTransitions dkg_fsm) (StateDkgResponsesAwaitConfirmations, EventRunAfter) =
     Some (tr_auto eventAutoDKGValidateResponsesConfirmationInternal
       StateDkgResponsesAwaitConfirmations)"
  "map_of (fsm_autoTransitions dkg_fsm) (StateDkgResponsesAwaitCanceledByError, EventRunAfter) = None"
  "map_of (fsm_autoTransitions dkg_fsm) (StateDkgMasterKeyAwaitConfirmations, EventRunAfter) =
     Some (tr_auto eventAutoDKGValidateMasterKeyConfirmationInternal
       StateDkgMasterKeyAwaitConfirmations)"
  "map_of (fsm_autoTransitions dkg_fsm) (StateDkgMasterKeyAwaitCanceledByError, EventRunAfter) = None"
  "map_of (fsm_autoTransitions dkg_fsm) (StateDkgCommitsAwaitCanceledByTimeout, EventRunAfter) = None"
  "map_of (fsm_autoTransitions dkg_fsm) (StateDkgDealsAwaitCanceledByTimeout, EventRunAfter) = None"
  "map_of (fsm_autoTransitions dkg_fsm) (StateDkgResponsesAwaitCanceledByTimeout, EventRunAfter) = None"
  "map_of (fsm_autoTransitions dkg_fsm) (StateDkgMasterKeyAwaitCanceledByTimeout, EventRunAfter) = None"
  "map_of (fsm_autoTransitions dkg_fsm) (StateDkgMasterKeyCollected, EventRunAfter) = None"
  "map_of (fsm_autoTransitions dkg_fsm) (s, EventRunBefore) = None"
  by (simp_all add: dkg_fsm_def dkg_neq StateDkgInitial_def)

end
