(* ===== verification/Signing_Proposal.thy ===== *)
theory Signing_Proposal
  imports Dkg_Proposal
begin

text \<open>
  The signing machine (\<open>src/fsm/state_machines/signing_proposal_fsm\<close>): it starts from a finished
  DKG, opens a batch of messages, collects partial signatures until the threshold is met or can
  no longer be met, and can be restarted.  \<open>init.go\<close> gives the states, events and table,
  \<open>actions.go\<close> the callbacks.
\<close>

section \<open>States and events\<close>

definition signing_proposal_FsmName :: string where
  "signing_proposal_FsmName = ''signing_proposal_fsm''"

definition StateSigningInitial :: State where [fsm_const]:
  "StateSigningInitial = StateDkgMasterKeyCollected"
definition StateSigningIdle :: State where [fsm_const]:
  "StateSigningIdle = ''stage_signing_idle''"
definition StateSigningAwaitPartialSigns :: State where [fsm_const]:
  "StateSigningAwaitPartialSigns = ''state_signing_await_partial_signs''"
definition StateSigningPartialSignsAwaitCancelledByTimeout :: State where [fsm_const]:
  "StateSigningPartialSignsAwaitCancelledByTimeout =
     ''state_signing_partial_signs_await_cancelled_by_timeout''"
definition StateSigningPartialSignsAwaitCancelledByError :: State where [fsm_const]:
  "StateSigningPartialSignsAwaitCancelledByError =
     ''state_signing_partial_signs_await_cancelled_by_error''"
definition StateSigningPartialSignsCollected :: State where [fsm_const]:
  "StateSigningPartialSignsCollected = ''state_signing_partial_signs_collected''"

definition EventSigningInit :: Event where [fsm_const]:
  "EventSigningInit = ''event_signing_init''"
definition EventSigningStart :: Event where [fsm_const]:
  "EventSigningStart = ''event_signing_start''"
definition EventSigningPartialSignReceived :: Event where [fsm_const]:
  "EventSigningPartialSignReceived = ''event_signing_partial_sign_received''"
definition EventSigningPartialSignError :: Event where [fsm_const]:
  "EventSigningPartialSignError = ''event_signing_partial_sign_error_received''"
definition eventSigningPartialSignsAwaitCancelByTimeoutInternal :: Event where [fsm_const]:
  "eventSigningPartialSignsAwaitCancelByTimeoutInternal =
     ''event_signing_partial_signs_await_cancel_by_timeout_internal''"
definition eventSigningPartialSignsAwaitCancelByErrorInternal :: Event where [fsm_const]:
  "eventSigningPartialSignsAwaitCancelByErrorInternal =
     ''event_signing_partial_signs_await_sign_cancel_by_error_internal''"
definition eventAutoSigningValidatePartialSignInternal :: Event where [fsm_const]:
  "eventAutoSigningValidatePartialSignInternal = ''event_signing_partial_signs_await_validate''"
definition eventSigningPartialSignsConfirmedInternal :: Event where [fsm_const]:
  "eventSigningPartialSignsConfirmedInternal = ''event_signing_partial_signs_confirmed_internal''"
definition EventSigningRestart :: Event where [fsm_const]:
  "EventSigningRestart = ''event_signing_restart''"

section \<open>Actions\<close>

definition actionInitSigningProposal :: action where
  "actionInitSigningProposal inEvent args p =
    with_request ''{arg0} required {DefaultRequest}''
      ''cannot cast {arg0} to type {DefaultRequest}''
      as_Default (total DefaultRequest_Validate) args p (\<lambda>request.
    ret_event '''' (p\<lparr>SigningProposalPayload := Some
      \<lparr>gc_BatchID = '''', gc_InitiatorId = 0, gc_Quorum = Some [], gc_RecoveredKey = [],
       gc_SrcPayload = [], gc_EncryptedPayload = [], gc_CreatedAt = dr_CreatedAt request,
       gc_UpdatedAt = 0, gc_ExpiresAt = Add (dr_CreatedAt request) SigningConfirmationDeadline\<rparr>\<rparr>))"

text \<open>The new quorum of a batch, one entry per participant of the DKG.\<close>

definition fillSigningQuorum :: "time \<Rightarrow> DKGProposalParticipant list \<Rightarrow> SigningProposalQuorum" where
  "fillSigningQuorum createdAt dkgEntries = fold (\<lambda>dkgEntry quorum.
     AList.update (dp_ParticipantID dkgEntry)
       \<lparr>gp_ParticipantID = 0, gp_Username = dp_Username dkgEntry,
        gp_Status = SigningAwaitPartialSigns, gp_PartialSigns = None, gp_Error = None,
        gp_UpdatedAt = createdAt\<rparr> quorum) dkgEntries []"

definition actionStartSigningProposal :: action where
  "actionStartSigningProposal inEvent args p =
    with_request ''{arg0} required {SigningBatchProposalStartRequest}''
      ''cannot cast {arg0} to type {SigningBatchProposalStartRequest}''
      as_SigningStart (total SigningBatchProposalStartRequest_Validate) args p (\<lambda>request.
    bindR (deref (SigningProposalPayload p)) (\<lambda>c.
    let c = c\<lparr>gc_CreatedAt := bs_CreatedAt request, gc_BatchID := bs_BatchID request,
              gc_InitiatorId := bs_ParticipantId request,
              gc_SrcPayload := bs_SigningTasks request\<rparr>
    in bindR (deref (DKGProposalPayload p)) (\<lambda>dc.
    let (dkgEntries, dkgQuorum) = DKGProposalQuorum_GetOrderedParticipants (dc_Quorum dc);
        p = p\<lparr>DKGProposalPayload := Some (dc\<lparr>dc_Quorum := dkgQuorum\<rparr>)\<rparr>;
        (participants, quorum) = SigningProposalQuorum_GetOrderedParticipants
          (Some (fillSigningQuorum (bs_CreatedAt request) dkgEntries));
        c = c\<lparr>gc_Quorum := quorum\<rparr>;
        p = p\<lparr>SigningProposalPayload := Some c\<rparr>;
        responseData =
          \<lparr>pir_BatchID = gc_BatchID c, pir_InitiatorId = gc_InitiatorId c,
           pir_Participants = map (\<lambda>participant.
             \<lparr>sie_ParticipantId = gp_ParticipantID participant,
              sie_Username = gp_Username participant,
              sie_Status = signing_status_uint8 (gp_Status participant)\<rparr>) participants,
           pir_SrcPayload = gc_SrcPayload c\<rparr>
    in ret_resp inEvent (RespSigningInvitations responseData) p)))"

text \<open>
  Looking a participant up allocates its map of partial signs, also when the reply is then
  rejected.  The instant of the last update is written to the signature confirmation, not to
  the signing confirmation.
\<close>

definition touchSignatureProposal ::
  "time \<Rightarrow> DumpedMachineStatePayload \<Rightarrow> DumpedMachineStatePayload go"
where
  "touchSignatureProposal t p = bindR (deref (SignatureProposalPayload p)) (\<lambda>c.
     Inr (p\<lparr>SignatureProposalPayload := Some (c\<lparr>sc_UpdatedAt := t\<rparr>)\<rparr>))"

definition actionPartialSignConfirmationReceived :: action where
  "actionPartialSignConfirmationReceived inEvent args p =
    with_request ''{arg0} required {SigningProposalPartialSignRequest}''
      ''cannot cast {arg0} to type {SigningProposalBatchPartialSignRequests}''
      as_PartialSigns (total SigningProposalBatchPartialSignRequests_Validate) args p (\<lambda>request.
    bindR (SigningQuorumExists p (bp_ParticipantId request)) (\<lambda>exists.
    if \<not> exists then ret_err (errorsNew ''{ParticipantId} not exist in quorum'') p
    else bindR (SigningQuorumGet p (bp_ParticipantId request)) (\<lambda>(got, p).
      bindR (deref got) (\<lambda>signingProposalParticipant.
      if gp_Status signingProposalParticipant \<noteq> SigningAwaitPartialSigns
      then ret_err (Errorf ''cannot confirm response with {Status} = {\"%s\"}''
             [AStr (SigningParticipantStatus_String (gp_Status signingProposalParticipant))]) p
      else
        let partialSigns = fold (\<lambda>partialSign. AList.update (ps_MessageID partialSign)
              (ps_Sign partialSign)) (bp_PartialSigns request)
              (entries (gp_PartialSigns signingProposalParticipant));
            signingProposalParticipant = signingProposalParticipant
              \<lparr>gp_PartialSigns := Some partialSigns, gp_Status := SigningPartialSignsConfirmed,
               gp_UpdatedAt := bp_CreatedAt request\<rparr>
        in bindR (SigningQuorumUpdate (bp_ParticipantId request) signingProposalParticipant p)
             (\<lambda>p. bindR (touchSignatureProposal (bp_CreatedAt request) p) (ret_event ''''))))))"

definition actionValidateSigningPartialSignsAwaitConfirmations :: action where
  "actionValidateSigningPartialSignsAwaitConfirmations inEvent args p =
    bindR (deref (SigningProposalPayload p)) (\<lambda>c.
    if SigningConfirmation_IsExpired c
    then ret_event eventSigningPartialSignsAwaitCancelByTimeoutInternal p
    else bindR (SigningQuorumCount p) (\<lambda>count.
      let (failedParticipantsCount, unconfirmedParticipants) =
            fold (\<lambda>(_, participant) (f, n).
               if gp_Status participant = SigningError then (f + 1, n)
               else if gp_Status participant = SigningPartialSignsConfirmed then (f, n - 1)
               else (f, n)) (entries (gc_Quorum c)) (0, count)
      in if failedParticipantsCount > count - GetThreshold p
         then ret_event eventSigningPartialSignsAwaitCancelByErrorInternal p
         else if unconfirmedParticipants > count - GetThreshold p then ret_event '''' p
         else
           let quorum = map_option (map_vals (\<lambda>_ participant.
                 participant\<lparr>gp_Status := SigningProcess\<rparr>)) (gc_Quorum c);
               (participants, quorum) = SigningProposalQuorum_GetOrderedParticipants quorum;
               responseData =
                 \<lparr>spr_BatchID = gc_BatchID c, spr_SrcPayload = gc_SrcPayload c,
                  spr_Participants = map (\<lambda>participant.
                    \<lparr>pse_ParticipantId = gp_ParticipantID participant,
                     pse_Username = gp_Username participant,
                     pse_PartialSigns = entries (gp_PartialSigns participant)\<rparr>)
                    (filter (\<lambda>participant. length (entries (gp_PartialSigns participant)) \<noteq> 0)
                      participants)\<rparr>
           in ret_resp eventSigningPartialSignsConfirmedInternal (RespSigningProcess responseData)
                (p\<lparr>SigningProposalPayload := Some (c\<lparr>gc_Quorum := quorum\<rparr>)\<rparr>)))"

definition actionSigningRestart :: action where
  "actionSigningRestart inEvent args p = ret_event '''' p"

definition signing_actionConfirmationError :: action where
  "signing_actionConfirmationError inEvent args p =
    with_request ''{arg0} required {SignatureProposalConfirmationErrorRequest}''
      ''cannot cast {arg0} to type {SignatureProposalConfirmationErrorRequest}''
      as_SigError (total SignatureProposalConfirmationErrorRequest_Validate) args p (\<lambda>request.
    bindR (SigningQuorumExists p (se_ParticipantId request)) (\<lambda>exists.
    if \<not> exists then ret_err (errorsNew ''{ParticipantId} not exist in quorum'') p
    else bindR (SigningQuorumGet p (se_ParticipantId request)) (\<lambda>(got, p).
      bindR (deref got) (\<lambda>signingProposalParticipant.
      if inEvent = EventSigningPartialSignError then
        (case gp_Status signingProposalParticipant of
           SigningAwaitPartialSigns \<Rightarrow>
             let signingProposalParticipant = signingProposalParticipant
                   \<lparr>gp_Status := SigningError, gp_Error := se_Error request,
                    gp_UpdatedAt := se_CreatedAt request\<rparr>
             in bindR (SigningQuorumUpdate (se_ParticipantId request)
                         signingProposalParticipant p)
                  (\<lambda>p. bindR (touchSignatureProposal (se_CreatedAt request) p) (ret_event ''''))
         | SigningPartialSignsConfirmed \<Rightarrow> ret_err (errorsNew ''{Status} already confirmed'') p
         | SigningError \<Rightarrow> ret_err (Errorf ''{Status} already has {\"%s\"}''
               [AStr (SigningParticipantStatus_String SigningError)]) p
         | SigningProcess \<Rightarrow> ret_err (Errorf ''{Status} now is \"%s\" and cannot set to {\"%s\"}''
               [AStr (SigningParticipantStatus_String SigningProcess),
                AStr (SigningParticipantStatus_String SigningError)]) p)
      else ret_err (Errorf ''{%s} event cannot be used for action {actionConfirmationError}''
             [AStr inEvent]) p))))"

section \<open>The machine\<close>

definition signing_proposal_events :: "EventDesc list" where
  "signing_proposal_events =
    [evt EventSigningInit [StateSigningInitial] StateSigningIdle,
     evt EventSigningStart [StateSigningIdle] StateSigningAwaitPartialSigns,
     evt EventSigningPartialSignReceived [StateSigningAwaitPartialSigns]
       StateSigningAwaitPartialSigns,
     evt EventSigningPartialSignError [StateSigningAwaitPartialSigns]
       StateSigningAwaitPartialSigns,
     evt_internal eventSigningPartialSignsAwaitCancelByTimeoutInternal
       [StateSigningAwaitPartialSigns] StateSigningPartialSignsAwaitCancelledByTimeout,
     evt_internal eventSigningPartialSignsAwaitCancelByErrorInternal
       [StateSigningAwaitPartialSigns] StateSigningPartialSignsAwaitCancelledByError,
     evt_auto eventAutoSigningValidatePartialSignInternal [StateSigningAwaitPartialSigns]
       StateSigningAwaitPartialSigns,
     evt_internal eventSigningPartialSignsConfirmedInternal [StateSigningAwaitPartialSigns]
       StateSigningPartialSignsCollected,
     evt EventSigningRestart
       [StateSigningPartialSignsCollected, StateSigningPartialSignsAwaitCancelledByTimeout,
        StateSigningPartialSignsAwaitCancelledByError] StateSigningIdle]"

definition signing_proposal_callbacks :: "(Event, action) gomap" where
  "signing_proposal_callbacks =
    [(EventSigningInit, actionInitSigningProposal),
     (EventSigningStart, actionStartSigningProposal),
     (EventSigningPartialSignReceived, actionPartialSignConfirmationReceived),
     (eventAutoSigningValidatePartialSignInternal,
       actionValidateSigningPartialSignsAwaitConfirmations),
     (EventSigningPartialSignError, signing_actionConfirmationError),
     (EventSigningRestart, actionSigningRestart)]"

definition signing_proposal_New :: "machine go" where
  "signing_proposal_New = MustNewFSM signing_proposal_FsmName StateSigningInitial
     signing_proposal_events signing_proposal_callbacks"

text \<open>The names are pairwise distinct.\<close>

lemma signing_states_distinct:
  "distinct
    ['''', StateGlobalIdle, StateGlobalDone,
     StateDkgMasterKeyCollected,
     StateSigningIdle,
     StateSigningAwaitPartialSigns,
     StateSigningPartialSignsAwaitCancelledByTimeout,
     StateSigningPartialSignsAwaitCancelledByError,
     StateSigningPartialSignsCollected]"
  by code_simp

lemma signing_events_distinct:
  "distinct
    ['''', EventSigningInit,
     EventSigningStart,
     EventSigningPartialSignReceived,
     EventSigningPartialSignError,
     eventSigningPartialSignsAwaitCancelByTimeoutInternal,
     eventSigningPartialSignsAwaitCancelByErrorInternal,
     eventAutoSigningValidatePartialSignInternal,
     eventSigningPartialSignsConfirmedInternal,
     EventSigningRestart]"
  by code_simp

lemmas signing_neq =
  signing_states_distinct [simplified]
  signing_states_distinct [THEN iffD2 [OF distinct_rev], unfolded rev.simps append.simps, simplified]
  signing_events_distinct [simplified]
  signing_events_distinct [THEN iffD2 [OF distinct_rev], unfolded rev.simps append.simps, simplified]

text \<open>The machine that the construction yields, table by table.\<close>

definition signing_fsm :: machine where
  "signing_fsm = \<lparr>fsm_name = signing_proposal_FsmName, fsm_initialState = StateSigningInitial,
     fsm_currentState = StateSigningInitial,
     fsm_transitions =
      [((StateSigningInitial, EventSigningInit),
         tr_public EventSigningInit
           StateSigningIdle),
       ((StateSigningIdle, EventSigningStart),
         tr_public EventSigningStart
           StateSigningAwaitPartialSigns),
       ((StateSigningAwaitPartialSigns, EventSigningPartialSignReceived),
         tr_public EventSigningPartialSignReceived
           StateSigningAwaitPartialSigns),
       ((StateSigningAwaitPartialSigns, EventSigningPartialSignError),
         tr_public EventSigningPartialSignError
           StateSigningAwaitPartialSigns),
       ((StateSigningAwaitPartialSigns, eventSigningPartialSignsAwaitCancelByTimeoutInternal),
         tr_internal eventSigningPartialSignsAwaitCancelByTimeoutInternal
           StateSigningPartialSignsAwaitCancelledByTimeout),
       ((StateSigningAwaitPartialSigns, eventSigningPartialSignsAwaitCancelByErrorInternal),
         tr_internal eventSigningPartialSignsAwaitCancelByErrorInternal
           StateSigningPartialSignsAwaitCancelledByError),
       ((StateSigningAwaitPartialSigns, eventAutoSigningValidatePartialSignInternal),
         tr_auto eventAutoSigningValidatePartialSignInternal
           StateSigningAwaitPartialSigns),
       ((StateSigningAwaitPartialSigns, eventSigningPartialSignsConfirmedInternal),
         tr_internal eventSigningPartialSignsConfirmedInternal
           StateSigningPartialSignsCollected),
       ((StateSigningPartialSignsCollected, EventSigningRestart),
         tr_public EventSigningRestart
           StateSigningIdle),
       ((StateSigningPartialSignsAwaitCancelledByTimeout, EventSigningRestart),
         tr_public EventSigningRestart
           StateSigningIdle),
       ((StateSigningPartialSignsAwaitCancelledByError, EventSigningRestart),
         tr_public EventSigningRestart
           StateSigningIdle)],
     fsm_autoTransitions =
      [((StateSigningAwaitPartialSigns, EventRunAfter),
         tr_auto eventAutoSigningValidatePartialSignInternal
           StateSigningAwaitPartialSigns)],
     fsm_callbacks = signing_proposal_callbacks,
     fsm_initialEvent = EventSigningInit,
     fsm_finStates =
      []\<rparr>"

lemma signing_proposal_New_eq: "signing_proposal_New = Inr signing_fsm"
  by (simp add: signing_proposal_New_def signing_fsm_def MustNewFSM_def signing_proposal_events_def
      signing_proposal_callbacks_def signing_proposal_FsmName_def addEvent_def addSource_def
      addCallback_def addFinState_def Let_def signing_neq StateSigningInitial_def)

text \<open>Lookups in the tables.\<close>

lemma signing_transitions:
  "map_of (fsm_transitions signing_fsm) (StateSigningInitial, EventSigningInit) =
     Some (tr_public EventSigningInit
       StateSigningIdle)"
  "map_of (fsm_transitions signing_fsm) (StateSigningIdle, EventSigningStart) =
     Some (tr_public EventSigningStart
       StateSigningAwaitPartialSigns)"
  "map_of (fsm_transitions signing_fsm) (StateSigningAwaitPartialSigns, EventSigningPartialSignReceived) =
     Some (tr_public EventSigningPartialSignReceived
       StateSigningAwaitPartialSigns)"
  "map_of (fsm_transitions signing_fsm) (StateSigningAwaitPartialSigns, EventSigningPartialSignError) =
     Some (tr_public EventSigningPartialSignError
       StateSigningAwaitPartialSigns)"
  "map_of (fsm_transitions signing_fsm) (StateSigningAwaitPartialSigns, eventSigningPartialSignsAwaitCancelByTimeoutInternal) =
     Some (tr_internal eventSigningPartialSignsAwaitCancelByTimeoutInternal
       StateSigningPartialSignsAwaitCancelledByTimeout)"
  "map_of (fsm_transitions signing_fsm) (StateSigningAwaitPartialSigns, eventSigningPartialSignsAwaitCancelByErrorInternal) =
     Some (tr_internal eventSigningPartialSignsAwaitCancelByErrorInternal
       StateSigningPartialSignsAwaitCancelledByError)"
  "map_of (fsm_transitions signing_fsm) (StateSigningAwaitPartialSigns, eventAutoSigningValidatePartialSignInternal) =
     Some (tr_auto eventAutoSigningValidatePartialSignInternal
       StateSigningAwaitPartialSigns)"
  "map_of (fsm_transitions signing_fsm) (StateSigningAwaitPartialSigns, eventSigningPartialSignsConfirmedInternal) =
     Some (tr_internal eventSigningPartialSignsConfirmedInternal
       StateSigningPartialSignsCollected)"
  "map_of (fsm_transitions signing_fsm) (StateSigningPartialSignsCollected, EventSigningRestart) =
     Some (tr_public EventSigningRestart
       StateSigningIdle)"
  "map_of (fsm_transitions signing_fsm) (StateSigningPartialSignsAwaitCancelledByTimeout, EventSigningRestart) =
     Some (tr_public EventSigningRestart
       StateSigningIdle)"
  "map_of (fsm_transitions signing_fsm) (StateSigningPartialSignsAwaitCancelledByError, EventSigningRestart) =
     Some (tr_public EventSigningRestart
       StateSigningIdle)"
  by (simp_all add: signing_fsm_def signing_neq StateSigningInitial_def)

lemma signing_callbacks:
  "map_of (fsm_callbacks signing_fsm) EventSigningInit = Some actionInitSigningProposal"
  "map_of (fsm_callbacks signing_fsm) EventSigningStart = Some actionStartSigningProposal"
  "map_of (fsm_callbacks signing_fsm) EventSigningPartialSignReceived = Some actionPartialSignConfirmationReceived"
  "map_of (fsm_callbacks signing_fsm) eventAutoSigningValidatePartialSignInternal = Some actionValidateSigningPartialSignsAwaitConfirmations"
  "map_of (fsm_callbacks signing_fsm) EventSigningPartialSignError = Some signing_actionConfirmationError"
  "map_of (fsm_callbacks signing_fsm) EventSigningRestart = Some actionSigningRestart"
  by (simp_all add: signing_fsm_def signing_proposal_callbacks_def signing_neq StateSigningInitial_def)

lemma signing_autos:
  "map_of (fsm_autoTransitions signing_fsm) (StateSigningInitial, EventRunAfter) = None"
  "map_of (fsm_autoTransitions signing_fsm) (StateSigningIdle, EventRunAfter) = None"
  "map_of (fsm_autoTransitions signing_fsm) (StateSigningAwaitPartialSigns, EventRunAfter) =
     Some (tr_auto eventAutoSigningValidatePartialSignInternal
       StateSigningAwaitPartialSigns)"
  "map_of (fsm_autoTransitions signing_fsm) (StateSigningPartialSignsCollected, EventRunAfter) = None"
  "map_of (fsm_autoTransitions signing_fsm) (StateSigningPartialSignsAwaitCancelledByTimeout, EventRunAfter) = None"
  "map_of (fsm_autoTransitions signing_fsm) (StateSigningPartialSignsAwaitCancelledByError, EventRunAfter) = None"
  "map_of (fsm_autoTransitions signing_fsm) (s, EventRunBefore) = None"
  by (simp_all add: signing_fsm_def signing_neq StateSigningInitial_def)

end
