(* ===== verification/Fsm_Pool.thy ===== *)
theory Fsm_Pool
  imports Signing_Proposal
begin

text \<open>
  The pool of machines (\<open>src/fsm/fsm_pool/fsm_pool.go\<close>): \<open>Init\<close> with its checks, and the choice of
  a machine by entry point, event or state.  A \<open>nil\<close> machine is \<open>None\<close>.  The order in which
  \<open>EventsList\<close> and \<open>StatesList\<close> range over a map is that of the tables.
\<close>

section \<open>The pool\<close>

record ('a, 'r, 'p) FSMPool =
  pool_fsmInitialEvent :: Event
  pool_mapper :: "(string, ('a, 'r, 'p) FSM) gomap"
  pool_events :: "(Event, string) gomap"
  pool_states :: "(State, string) gomap"
  pool_entryEvents :: "(State, Event) gomap"

definition poolAddEvent ::
  "string \<Rightarrow> Event \<Rightarrow> (Event, string) gomap \<Rightarrow> (Event, string) gomap go"
where
  "poolAddEvent machineName event events =
    (if has_key events event
     then Inl (PanicMsg ''duplicate public event \"%s\"'' [AStr event])
     else Inr (AList.update event machineName events))"

text \<open>The first loop of \<open>Init\<close>; it also fills \<open>allInitStatesMap\<close>.\<close>

definition poolAddMachine ::
  "('a, 'r, 'p) FSM option \<Rightarrow> ('a, 'r, 'p) FSMPool \<times> (State, string) gomap \<Rightarrow>
   (('a, 'r, 'p) FSMPool \<times> (State, string) gomap) go"
where
  "poolAddMachine machine s = (case s of (p, allInitStatesMap) \<Rightarrow>
    (case machine of
       None \<Rightarrow> Inl (PanicMsg ''machine not initialized, got nil'' [])
     | Some machine \<Rightarrow>
         let machineName = Name machine in
         if machineName = '''' then Inl (PanicMsg ''machine name cannot be empty'' [])
         else if has_key (pool_mapper p) machineName
         then Inl (PanicMsg ''duplicate machine name'' [])
         else
           let allInitStatesMap =
                 AList.update (InitialState machine) machineName allInitStatesMap
           in bindR (foldR (poolAddEvent machineName) (EventsList machine) (pool_events p))
             (\<lambda>events.
              let initialEvent = GlobalInitialEvent machine in
              if \<not> Event_IsEmpty initialEvent \<and> pool_fsmInitialEvent p \<noteq> ''''
              then Inl (PanicMsg ''duplicate entry event initialization'' [])
              else
                let p = p\<lparr>pool_events := events\<rparr>;
                    p = (if \<not> Event_IsEmpty initialEvent
                         then p\<lparr>pool_fsmInitialEvent := initialEvent\<rparr> else p);
                    machineEntryEvent = EntryEvent machine;
                    p = (if \<not> Event_IsEmpty machineEntryEvent
                         then p\<lparr>pool_entryEvents := AList.update (InitialState machine)
                                machineEntryEvent (pool_entryEvents p)\<rparr> else p)
                in Inr (p\<lparr>pool_mapper := AList.update machineName machine (pool_mapper p)\<rparr>,
                        allInitStatesMap))))"

text \<open>The second loop.\<close>

definition poolAddState ::
  "(State, string) gomap \<Rightarrow> ('a, 'r, 'p) FSM \<Rightarrow> State \<Rightarrow> (State, string) gomap \<Rightarrow>
   (State, string) gomap go"
where
  "poolAddState allInitStatesMap machine state states =
    (if IsFinState machine state
     then (case map_of allInitStatesMap state of
             Some initMachineName \<Rightarrow> Inr (AList.update state initMachineName states)
           | None \<Rightarrow> Inr states)
     else (case map_of states state of
             Some name \<Rightarrow>
               if name \<noteq> Name machine
               then Inl (PanicMsg ''duplicate state for machines \"%s\"'' [AStr state])
               else Inr (AList.update state (Name machine) states)
           | None \<Rightarrow> Inr (AList.update state (Name machine) states)))"

definition poolAddStates ::
  "(State, string) gomap \<Rightarrow> ('a, 'r, 'p) FSM option \<Rightarrow> (State, string) gomap \<Rightarrow>
   (State, string) gomap go"
where
  "poolAddStates allInitStatesMap machine states =
    bindR (deref machine) (\<lambda>machine.
      foldR (poolAddState allInitStatesMap machine) (StatesList machine) states)"

definition pool_Init :: "('a, 'r, 'p) FSM option list \<Rightarrow> (('a, 'r, 'p) FSMPool) go" where
  "pool_Init machines =
    (if length machines = 0 then Inl (PanicMsg ''cannot initialize empty pool'' [])
     else bindR (foldR poolAddMachine machines
         (\<lparr>pool_fsmInitialEvent = '''', pool_mapper = [], pool_events = [], pool_states = [],
           pool_entryEvents = []\<rparr>, []))
       (\<lambda>(p, allInitStatesMap).
          bindR (foldR (poolAddStates allInitStatesMap) machines (pool_states p)) (\<lambda>states.
          let p = p\<lparr>pool_states := states\<rparr> in
          if pool_fsmInitialEvent p = ''''
          then Inl (PanicMsg ''machines pool entry event not set'' [])
          else Inr p)))"

text \<open>Reading a missing key of a string-valued map gives the empty string.\<close>

definition lookup_name :: "('k, string) gomap \<Rightarrow> 'k \<Rightarrow> string" where
  "lookup_name m k = (case map_of m k of None \<Rightarrow> '''' | Some n \<Rightarrow> n)"

definition EntryPointMachine :: "('a, 'r, 'p) FSMPool \<Rightarrow> error + ('a, 'r, 'p) FSM" where
  "EntryPointMachine p =
    (case map_of (pool_mapper p) (lookup_name (pool_events p) (pool_fsmInitialEvent p)) of
       None \<Rightarrow> Inl (errorsNew ''cannot init machine with entry point'')
     | Some machine \<Rightarrow> Inr machine)"

definition MachineByEvent :: "('a, 'r, 'p) FSMPool \<Rightarrow> Event \<Rightarrow> error + ('a, 'r, 'p) FSM" where
  "MachineByEvent p event =
    (case map_of (pool_mapper p) (lookup_name (pool_events p) event) of
       None \<Rightarrow> Inl (errorsNew ''cannot init machine for event'')
     | Some machine \<Rightarrow> Inr machine)"

definition MachineByState :: "('a, 'r, 'p) FSMPool \<Rightarrow> State \<Rightarrow> error + ('a, 'r, 'p) FSM" where
  "MachineByState p state =
    (case map_of (pool_mapper p) (lookup_name (pool_states p) state) of
       None \<Rightarrow> Inl (errorsNew ''cannot init machine for state'')
     | Some machine \<Rightarrow> Inr machine)"

section \<open>The pool of the three machines\<close>

text \<open>All names of the three machines are pairwise distinct.\<close>

lemma all_states_distinct:
  "distinct
    ['''', StateGlobalIdle, StateGlobalDone,
     StateAwaitParticipantsConfirmations,
     StateValidationCanceledByParticipant,
     StateValidationCanceledByTimeout,
     StateSignatureProposalCollected,
     StateDkgCommitsAwaitConfirmations,
     StateDkgCommitsAwaitCanceledByError,
     StateDkgCommitsAwaitCanceledByTimeout,
     StateDkgCommitsCollected,
     StateDkgDealsAwaitConfirmations,
     StateDkgDealsAwaitCanceledByError,
     StateDkgDealsAwaitCanceledByTimeout,
     StateDkgResponsesAwaitConfirmations,
     StateDkgResponsesAwaitCanceledByError,
     StateDkgResponsesAwaitCanceledByTimeout,
     StateDkgResponsesCollected,
     StateDkgMasterKeyAwaitConfirmations,
     StateDkgMasterKeyAwaitCanceledByError,
     StateDkgMasterKeyAwaitCanceledByTimeout,
     StateDkgMasterKeyCollected,
     StateSigningIdle,
     StateSigningAwaitPartialSigns,
     StateSigningPartialSignsAwaitCancelledByTimeout,
     StateSigningPartialSignsAwaitCancelledByError,
     StateSigningPartialSignsCollected]"
  by code_simp

lemma all_events_distinct:
  "distinct
    ['''', EventInitProposal,
     EventConfirmSignatureProposal,
     EventDeclineProposal,
     eventAutoValidateProposalInternal,
     eventSetProposalValidatedInternal,
     eventSetValidationCanceledByTimeout,
     eventSetValidationCanceledByParticipant,
     EventDKGInitProcess,
     EventDKGCommitConfirmationReceived,
     EventDKGCommitConfirmationError,
     eventDKGCommitsConfirmationCancelByTimeoutInternal,
     eventDKGCommitsConfirmationCancelByErrorInternal,
     eventDKGCommitsConfirmedInternal,
     eventAutoDKGValidateConfirmationCommitsInternal,
     EventDKGDealConfirmationReceived,
     EventDKGDealConfirmationError,
     eventDKGDealsConfirmationCancelByTimeoutInternal,
     eventDKGDealsConfirmationCancelByErrorInternal,
     eventDKGDealsConfirmedInternal,
     eventAutoDKGValidateConfirmationDealsInternal,
     EventDKGResponseConfirmationReceived,
     EventDKGResponseConfirmationError,
     eventDKGResponseConfirmationCancelByTimeoutInternal,
     eventDKGResponseConfirmationCancelByErrorInternal,
     eventDKGResponsesConfirmedInternal,
     eventAutoDKGValidateResponsesConfirmationInternal,
     EventDKGMasterKeyConfirmationReceived,
     EventDKGMasterKeyConfirmationError,
     eventDKGMasterKeyConfirmationCancelByTimeoutInternal,
     eventDKGMasterKeyConfirmationCancelByErrorInternal,
     eventDKGMasterKeyConfirmedInternal,
     eventAutoDKGValidateMasterKeyConfirmationInternal,
     EventDKGMasterKeyRequiredInternal,
     EventSigningInit,
     EventSigningStart,
     EventSigningPartialSignReceived,
     EventSigningPartialSignError,
     eventSigningPartialSignsAwaitCancelByTimeoutInternal,
     eventSigningPartialSignsAwaitCancelByErrorInternal,
     eventAutoSigningValidatePartialSignInternal,
     eventSigningPartialSignsConfirmedInternal,
     EventSigningRestart]"
  by code_simp

lemmas names_neq =
  all_states_distinct [simplified]
  all_states_distinct [THEN iffD2 [OF distinct_rev], unfolded rev.simps append.simps, simplified]
  all_events_distinct [simplified]
  all_events_distinct [THEN iffD2 [OF distinct_rev], unfolded rev.simps append.simps, simplified]

lemmas names_alias =
  StateParticipantsConfirmationsInit_def StateDkgInitial_def StateSigningInitial_def

lemma sig_lists:
  "EventsList sig_fsm =
    [EventInitProposal,
     EventConfirmSignatureProposal,
     EventDeclineProposal]"
  "StatesList sig_fsm =
    [StateGlobalIdle,
     StateAwaitParticipantsConfirmations]"
  by (simp_all add: EventsList_def StatesList_def sig_fsm_def names_neq names_alias)

lemma dkg_lists:
  "EventsList dkg_fsm =
    [EventDKGInitProcess,
     EventDKGCommitConfirmationReceived,
     EventDKGCommitConfirmationError,
     EventDKGDealConfirmationReceived,
     EventDKGDealConfirmationError,
     EventDKGResponseConfirmationReceived,
     EventDKGResponseConfirmationError,
     EventDKGMasterKeyConfirmationReceived,
     EventDKGMasterKeyConfirmationError]"
  "StatesList dkg_fsm =
    [StateSignatureProposalCollected,
     StateDkgCommitsAwaitConfirmations,
     StateDkgCommitsAwaitCanceledByError,
     StateDkgDealsAwaitConfirmations,
     StateDkgDealsAwaitCanceledByError,
     StateDkgResponsesAwaitConfirmations,
     StateDkgResponsesAwaitCanceledByError,
     StateDkgMasterKeyAwaitConfirmations,
     StateDkgMasterKeyAwaitCanceledByError]"
  by (simp_all add: EventsList_def StatesList_def dkg_fsm_def names_neq names_alias)

lemma signing_lists:
  "EventsList signing_fsm =
    [EventSigningInit,
     EventSigningStart,
     EventSigningPartialSignReceived,
     EventSigningPartialSignError,
     EventSigningRestart]"
  "StatesList signing_fsm =
    [StateDkgMasterKeyCollected,
     StateSigningIdle,
     StateSigningAwaitPartialSigns,
     StateSigningPartialSignsCollected,
     StateSigningPartialSignsAwaitCancelledByTimeout,
     StateSigningPartialSignsAwaitCancelledByError]"
  by (simp_all add: EventsList_def StatesList_def signing_fsm_def names_neq names_alias)

definition round_pool :: "(request, response, DumpedMachineStatePayload) FSMPool" where
  "round_pool = \<lparr>pool_fsmInitialEvent = EventInitProposal,
     pool_mapper = [(signature_proposal_FsmName, sig_fsm), (dkg_proposal_FsmName, dkg_fsm),
       (signing_proposal_FsmName, signing_fsm)],
     pool_events =
      [(EventInitProposal, signature_proposal_FsmName),
     (EventConfirmSignatureProposal, signature_proposal_FsmName),
     (EventDeclineProposal, signature_proposal_FsmName),
     (EventDKGInitProcess, dkg_proposal_FsmName),
     (EventDKGCommitConfirmationReceived, dkg_proposal_FsmName),
     (EventDKGCommitConfirmationError, dkg_proposal_FsmName),
     (EventDKGDealConfirmationReceived, dkg_proposal_FsmName),
     (EventDKGDealConfirmationError, dkg_proposal_FsmName),
     (EventDKGResponseConfirmationReceived, dkg_proposal_FsmName),
     (EventDKGResponseConfirmationError, dkg_proposal_FsmName),
     (EventDKGMasterKeyConfirmationReceived, dkg_proposal_FsmName),
     (EventDKGMasterKeyConfirmationError, dkg_proposal_FsmName),
     (EventSigningInit, signing_proposal_FsmName),
     (EventSigningStart, signing_proposal_FsmName),
     (EventSigningPartialSignReceived, signing_proposal_FsmName),
     (EventSigningPartialSignError, signing_proposal_FsmName),
     (EventSigningRestart, signing_proposal_FsmName)],
     pool_states =
      [(StateGlobalIdle, signature_proposal_FsmName),
     (StateAwaitParticipantsConfirmations, signature_proposal_FsmName),
     (StateSignatureProposalCollected, dkg_proposal_FsmName),
     (StateDkgCommitsAwaitConfirmations, dkg_proposal_FsmName),
     (StateDkgCommitsAwaitCanceledByError, dkg_proposal_FsmName),
     (StateDkgDealsAwaitConfirmations, dkg_proposal_FsmName),
     (StateDkgDealsAwaitCanceledByError, dkg_proposal_FsmName),
     (StateDkgResponsesAwaitConfirmations, dkg_proposal_FsmName),
     (StateDkgResponsesAwaitCanceledByError, dkg_proposal_FsmName),
     (StateDkgMasterKeyAwaitConfirmations, dkg_proposal_FsmName),
     (StateDkgMasterKeyAwaitCanceledByError, dkg_proposal_FsmName),
     (StateDkgMasterKeyCollected, signing_proposal_FsmName),
     (StateSigningIdle, signing_proposal_FsmName),
     (StateSigningAwaitPartialSigns, signing_proposal_FsmName),
     (StateSigningPartialSignsCollected, signing_proposal_FsmName),
     (StateSigningPartialSignsAwaitCancelledByTimeout, signing_proposal_FsmName),
     (StateSigningPartialSignsAwaitCancelledByError, signing_proposal_FsmName)],
     pool_entryEvents = [(StateGlobalIdle, EventInitProposal),
       (StateSignatureProposalCollected, EventDKGInitProcess),
       (StateDkgMasterKeyCollected, EventSigningInit)]\<rparr>"

lemma fsm_names_distinct:
  "distinct ['''', signature_proposal_FsmName, dkg_proposal_FsmName, signing_proposal_FsmName]"
  by code_simp

lemmas fsm_names_neq = fsm_names_distinct [simplified]
  fsm_names_distinct [THEN iffD2 [OF distinct_rev], unfolded rev.simps append.simps, simplified]

lemma sig_queries:
  "Name sig_fsm = signature_proposal_FsmName" "InitialState sig_fsm = StateGlobalIdle"
  "GlobalInitialEvent sig_fsm = EventInitProposal" "EntryEvent sig_fsm = EventInitProposal"
  by (simp_all add: Name_def InitialState_def GlobalInitialEvent_def EntryEvent_def sig_fsm_def
      names_neq names_alias)

lemma dkg_queries:
  "Name dkg_fsm = dkg_proposal_FsmName" "InitialState dkg_fsm = StateSignatureProposalCollected"
  "GlobalInitialEvent dkg_fsm = ''''" "EntryEvent dkg_fsm = EventDKGInitProcess"
  by (simp_all add: Name_def InitialState_def GlobalInitialEvent_def EntryEvent_def dkg_fsm_def
      names_neq names_alias)

lemma signing_queries:
  "Name signing_fsm = signing_proposal_FsmName"
  "InitialState signing_fsm = StateDkgMasterKeyCollected"
  "GlobalInitialEvent signing_fsm = ''''" "EntryEvent signing_fsm = EventSigningInit"
  by (simp_all add: Name_def InitialState_def GlobalInitialEvent_def EntryEvent_def signing_fsm_def
      names_neq names_alias)

lemma fin_states_not_listed:
  "fsm_wf f \<Longrightarrow> s \<in> set (StatesList f) \<Longrightarrow> \<not> IsFinState f s"
  by (force simp: fsm_wf_def fins_ok_def list_all_iff IsFinState_def dest: map_of_SomeD)

lemma round_machines_wf: "fsm_wf sig_fsm" "fsm_wf dkg_fsm" "fsm_wf signing_fsm"
  using newFSM_wf[OF signature_proposal_New_eq[unfolded signature_proposal_New_def]]
    newFSM_wf[OF dkg_proposal_New_eq[unfolded dkg_proposal_New_def]]
    newFSM_wf[OF signing_proposal_New_eq[unfolded signing_proposal_New_def]]
  by blast+

lemma IsFinState_machines:
  "s \<in> set (StatesList sig_fsm) \<Longrightarrow> \<not> IsFinState sig_fsm s"
  "s \<in> set (StatesList dkg_fsm) \<Longrightarrow> \<not> IsFinState dkg_fsm s"
  "s \<in> set (StatesList signing_fsm) \<Longrightarrow> \<not> IsFinState signing_fsm s"
  using fin_states_not_listed round_machines_wf by blast+

lemma poolAddState_listed:
  assumes "s \<in> set (StatesList f)" and "fsm_wf f"
  shows "poolAddState ini f s states = 
    (if map_of states s \<in> {None, Some (Name f)} then Inr (AList.update s (Name f) states)
     else Inl (PanicMsg ''duplicate state for machines \"%s\"'' [AStr s]))"
  using fin_states_not_listed[OF assms(2,1)]
  by (auto simp: poolAddState_def split: option.splits)

lemma pool_Init_round:
  "pool_Init [Some sig_fsm, Some dkg_fsm, Some signing_fsm] = Inr round_pool"
  by (simp add: pool_Init_def poolAddMachine_def poolAddEvent_def poolAddStates_def
      poolAddState_def round_pool_def Let_def sig_queries dkg_queries signing_queries
      sig_lists dkg_lists signing_lists Event_IsEmpty_def names_neq fsm_names_neq
      IsFinState_machines)

section \<open>What a successful initialization guarantees\<close>

lemma poolAddEvents_result:
  assumes "foldR (poolAddEvent n) es m = Inr m'"
  shows "m' = m @ map (\<lambda>e. (e, n)) es \<and> distinct es \<and> set es \<inter> set (keys m) = {}"
  using assms
proof (induction es arbitrary: m)
  case (Cons e es)
  from Cons.prems have fresh: "\<not> has_key m e"
    and rest: "foldR (poolAddEvent n) es (m @ [(e, n)]) = Inr m'"
    by (auto simp: poolAddEvent_def[of n e m] update_fresh split: if_splits)
  from Cons.IH[OF rest] fresh has_key_keys[of m e] show ?case by auto
qed simp

lemma poolAddMachine_result:
  assumes "poolAddMachine x (p, ini) = Inr (p', ini')"
  shows "\<exists>m. x = Some m \<and> pool_mapper p' = pool_mapper p @ [(Name m, m)] \<and>
    \<not> has_key (pool_mapper p) (Name m) \<and>
    pool_events p' = pool_events p @ map (\<lambda>e. (e, Name m)) (EventsList m) \<and>
    set (EventsList m) \<inter> set (keys (pool_events p)) = {} \<and> pool_states p' = pool_states p"
proof -
  from assms obtain m events where m: "x = Some m" "\<not> has_key (pool_mapper p) (Name m)"
    and ev: "foldR (poolAddEvent (Name m)) (EventsList m) (pool_events p) = Inr events"
    and p': "pool_mapper p' = AList.update (Name m) m (pool_mapper p)" "pool_events p' = events"
      "pool_states p' = pool_states p"
    by (auto simp: poolAddMachine_def Let_def split: option.splits if_splits)
  with poolAddEvents_result[OF ev] show ?thesis by (auto simp: update_fresh)
qed

definition pool_fill_ok ::
  "('a, 'r, 'p) FSM list \<Rightarrow> ('a, 'r, 'p) FSMPool \<Rightarrow> bool"
where
  "pool_fill_ok ms p \<longleftrightarrow> pool_mapper p = map (\<lambda>m. (Name m, m)) ms \<and> distinct (map Name ms) \<and>
     pool_events p = concat (map (\<lambda>m. map (\<lambda>e. (e, Name m)) (EventsList m)) ms) \<and>
     (\<forall>m \<in> set ms. \<forall>e \<in> set (EventsList m). map_of (pool_events p) e = Some (Name m))"

lemma pool_fill_ok_step:
  assumes "pool_fill_ok ms p" and "poolAddMachine x (p, ini) = Inr (p', ini')"
  shows "\<exists>m. x = Some m \<and> pool_fill_ok (ms @ [m]) p'"
proof -
  from poolAddMachine_result[OF assms(2)] obtain m where x: "x = Some m"
    and map: "pool_mapper p' = pool_mapper p @ [(Name m, m)]" "\<not> has_key (pool_mapper p) (Name m)"
    and ev: "pool_events p' = pool_events p @ map (\<lambda>e. (e, Name m)) (EventsList m)"
      "set (EventsList m) \<inter> set (keys (pool_events p)) = {}" by blast
  have new: "map_of (map (\<lambda>e. (e, n)) es) e = (if e \<in> set es then Some n else None)"
    for es n and e :: Event by (induction es) auto
  have "map_of (pool_events p) e = None" if "e \<in> set (EventsList m)" for e
    using that ev(2) has_key_keys[of "pool_events p" e] by auto
  then have "\<forall>k \<in> set (ms @ [m]). \<forall>e \<in> set (EventsList k). map_of (pool_events p') e = Some (Name k)"
    using assms(1) by (auto simp: ev new pool_fill_ok_def map_add_def)
  moreover have "Name m \<notin> set (map Name ms)"
    using map(2) assms(1) unfolding pool_fill_ok_def has_key_keys by (simp add: comp_def)
  ultimately show ?thesis using assms(1) x map(1) ev(1) by (simp add: pool_fill_ok_def)
qed

lemma poolAddMachines_result:
  assumes "foldR poolAddMachine xs (p, ini) = Inr (p', ini')" and "pool_fill_ok ms p"
  shows "\<exists>ks. xs = map Some ks \<and> pool_fill_ok (ms @ ks) p' \<and> pool_states p' = pool_states p"
  using assms
proof (induction xs arbitrary: p ini ms)
  case (Cons x xs)
  then obtain q qi where q: "poolAddMachine x (p, ini) = Inr (q, qi)"
    "foldR poolAddMachine xs (q, qi) = Inr (p', ini')" by auto
  from pool_fill_ok_step[OF Cons.prems(2) q(1)] obtain m where
    m: "x = Some m" "pool_fill_ok (ms @ [m]) q" by blast
  from Cons.IH[OF q(2) m(2)] m(1) poolAddMachine_result[OF q(1)] show ?case
    by (metis append.assoc append_Cons append_Nil list.simps(9))
qed simp

lemma poolAddState_keeps:
  assumes "foldR (poolAddState ini f) ss states = Inr states'" and "fsm_wf f"
    and "set ss \<subseteq> set (StatesList f)"
  shows "(\<forall>s \<in> set ss. map_of states' s = Some (Name f)) \<and> map_of states \<subseteq>\<^sub>m map_of states'"
  using assms(1,3)
proof (induction ss arbitrary: states)
  case (Cons s ss)
  then obtain t where t: "poolAddState ini f s states = Inr t"
    "foldR (poolAddState ini f) ss t = Inr states'" by auto
  have t': "t = AList.update s (Name f) states" "map_of states s \<in> {None, Some (Name f)}"
    using t(1) poolAddState_listed[of s f ini states] assms(2) Cons.prems(2)
    by (auto split: if_splits)
  have "set ss \<subseteq> set (StatesList f)" using Cons.prems(2) by simp
  from Cons.IH[OF t(2) this]
  have IH: "\<forall>s \<in> set ss. map_of states' s = Some (Name f)" "map_of t \<subseteq>\<^sub>m map_of states'" by blast+
  have "map_of states \<subseteq>\<^sub>m map_of t" "map_of t s = Some (Name f)"
    using t' by (auto simp: map_le_def)
  with IH show ?case by (metis (no_types, lifting) domI map_le_def map_le_trans set_ConsD)
qed simp

lemma poolAddStates_result:
  assumes "foldR (poolAddStates ini) (map Some ks) states = Inr states'" and "list_all fsm_wf ks"
  shows "(\<forall>k \<in> set ks. \<forall>s \<in> set (StatesList k). map_of states' s = Some (Name k)) \<and>
    map_of states \<subseteq>\<^sub>m map_of states'"
  using assms
proof (induction ks arbitrary: states)
  case (Cons k ks)
  then obtain t where t: "foldR (poolAddState ini k) (StatesList k) states = Inr t"
    "foldR (poolAddStates ini) (map Some ks) t = Inr states'" by (auto simp: poolAddStates_def[of ini "Some k" states])
  have a: "\<forall>s \<in> set (StatesList k). map_of t s = Some (Name k)" "map_of states \<subseteq>\<^sub>m map_of t"
    using poolAddState_keeps[OF t(1)] Cons.prems(2) by auto
  have b: "\<forall>k \<in> set ks. \<forall>s \<in> set (StatesList k). map_of states' s = Some (Name k)"
    "map_of t \<subseteq>\<^sub>m map_of states'"
    using Cons.IH[OF t(2)] Cons.prems(2) by auto
  from a b show ?case by (metis (no_types, lifting) domI map_le_def map_le_trans set_ConsD)
qed simp

lemma pool_Init_obtain:
  assumes "pool_Init xs = Inr p"
  obtains ks q ini where "xs = map Some ks" "pool_fill_ok ks q" "pool_states q = []"
    "foldR (poolAddStates ini) xs [] = Inr (pool_states p)" "p = q\<lparr>pool_states := pool_states p\<rparr>"
proof -
  let ?p0 = "\<lparr>pool_fsmInitialEvent = '''', pool_mapper = [], pool_events = [], pool_states = [],
           pool_entryEvents = []\<rparr> :: ('a, 'b, 'c) FSMPool"
  from assms obtain q ini states where
    q: "foldR poolAddMachine xs (?p0, []) = Inr (q, ini)"
      "foldR (poolAddStates ini) xs (pool_states q) = Inr states" "p = q\<lparr>pool_states := states\<rparr>"
    by (auto simp: pool_Init_def Let_def split: if_splits)
  have "pool_fill_ok [] ?p0" by (simp add: pool_fill_ok_def)
  from poolAddMachines_result[OF q(1) this] obtain ks where
    "xs = map Some ks" "pool_fill_ok ks q" "pool_states q = []" by auto
  with q(2,3) show thesis by (intro that) auto
qed

lemma pool_mapper_lookup:
  assumes "pool_fill_ok ks q" and "k \<in> set ks"
  shows "map_of (pool_mapper q) (Name k) = Some k"
  using assms by (auto simp: pool_fill_ok_def comp_def intro!: map_of_is_SomeI)

text \<open>
  Whenever \<open>Init\<close> does not panic on well-formed machines, every source state of every machine
  is routed by \<open>MachineByState\<close> to exactly that machine and every public event by
  \<open>MachineByEvent\<close>: no state and no event is ever sent to another machine of the pool.
\<close>

theorem pool_routes:
  assumes "pool_Init xs = Inr p" and "Some m \<in> set xs"
    and "\<And>k. Some k \<in> set xs \<Longrightarrow> fsm_wf k"
  shows "(\<forall>s \<in> set (StatesList m). MachineByState p s = Inr m) \<and>
    (\<forall>e \<in> set (EventsList m). MachineByEvent p e = Inr m)"
proof -
  from assms(1) obtain ks q ini where xs: "xs = map Some ks" and fill: "pool_fill_ok ks q"
    and st: "foldR (poolAddStates ini) xs [] = Inr (pool_states p)"
    and p: "p = q\<lparr>pool_states := pool_states p\<rparr>" by (rule pool_Init_obtain)
  have m: "m \<in> set ks" and wf: "list_all fsm_wf ks"
    using assms(2,3) by (auto simp: xs list_all_iff)
  have eq: "pool_mapper p = pool_mapper q" "pool_events p = pool_events q"
    using p by (metis FSMPool.ext_inject FSMPool.surjective FSMPool.update_convs(4))+
  have "map_of (pool_states p) s = Some (Name m)" if "s \<in> set (StatesList m)" for s
    using poolAddStates_result[OF st[unfolded xs] wf] m that by blast
  moreover have "map_of (pool_events p) e = Some (Name m)" if "e \<in> set (EventsList m)" for e
    using fill m that by (auto simp: eq pool_fill_ok_def)
  ultimately show ?thesis
    using pool_mapper_lookup[OF fill m]
    by (auto simp: MachineByState_def MachineByEvent_def lookup_name_def eq)
qed

theorem pool_routes_witness:
  "list_all (\<lambda>s. MachineByState round_pool s = Inr dkg_fsm) (StatesList dkg_fsm) \<and>
   list_all (\<lambda>e. MachineByEvent round_pool e = Inr dkg_fsm) (EventsList dkg_fsm)"
  unfolding list_all_iff
  by (rule pool_routes[OF pool_Init_round]) (auto simp: round_machines_wf)

lemma map_of_const_append:
  "map_of (map (\<lambda>x. (x, n)) xs @ ms) s = (if s \<in> set xs then Some n else map_of ms s)"
  by (induction xs) auto

lemma round_pool_states:
  "pool_states round_pool = map (\<lambda>s. (s, signature_proposal_FsmName)) (StatesList sig_fsm) @
     map (\<lambda>s. (s, dkg_proposal_FsmName)) (StatesList dkg_fsm) @
     map (\<lambda>s. (s, signing_proposal_FsmName)) (StatesList signing_fsm) @ []"
  by (simp add: round_pool_def sig_lists dkg_lists signing_lists)

text \<open>The machine that handles a state of a round; states that are no source have none.\<close>

lemma MachineByState_round:
  "MachineByState round_pool s =
    (if s \<in> set (StatesList sig_fsm) then Inr sig_fsm
     else if s \<in> set (StatesList dkg_fsm) then Inr dkg_fsm
     else if s \<in> set (StatesList signing_fsm) then Inr signing_fsm
     else Inl (errorsNew ''cannot init machine for state''))"
proof -
  have "pool_mapper round_pool = [(signature_proposal_FsmName, sig_fsm),
      (dkg_proposal_FsmName, dkg_fsm), (signing_proposal_FsmName, signing_fsm)]"
    by (simp add: round_pool_def)
  then show ?thesis
    unfolding MachineByState_def lookup_name_def round_pool_states map_of_const_append
    by (simp add: fsm_names_neq)
qed

lemma EntryPointMachine_round: "EntryPointMachine round_pool = Inr sig_fsm"
  by (simp add: EntryPointMachine_def lookup_name_def round_pool_def)

end
