(* ===== verification/Dkg_Stages.thy ===== *)
theory Dkg_Stages
  imports Dkg_Proposal
begin

text \<open>
  The behaviour of the DKG machine, stage by stage.  A locale states what one stage promises: how
  its receive action stores a contribution, what its validation decides, how its error event is
  handled, and where the machine's tables lead; the outcome of every call in the stage is proved
  once in the locale, which is interpreted for the four stages of \<open>actions.go\<close>.
\<close>

section \<open>Vocabulary of a stage\<close>

text \<open>The confirmation after a contribution was stored.\<close>

definition dkg_received ::
  "(bytes \<Rightarrow> DKGConfirmation \<Rightarrow> DKGConfirmation) \<Rightarrow>
   (bytes \<Rightarrow> DKGProposalParticipant \<Rightarrow> DKGProposalParticipant) \<Rightarrow> DKGParticipantStatus \<Rightarrow>
   int \<Rightarrow> bytes \<Rightarrow> bytes \<Rightarrow> time \<Rightarrow> DKGProposalParticipant \<Rightarrow> DKGConfirmation \<Rightarrow> DKGConfirmation"
where
  "dkg_received poly store confirmed i d b t v c = poly b (c\<lparr>dc_UpdatedAt := t,
     dc_Quorum := Some (AList.update i ((store d v)\<lparr>dp_Status := confirmed, dp_UpdatedAt := t\<rparr>)
       (entries (dc_Quorum c)))\<rparr>)"

text \<open>The confirmation after a participant reported an error.\<close>

definition dkg_failed ::
  "DKGParticipantStatus \<Rightarrow> int \<Rightarrow> FSMError option \<Rightarrow> time \<Rightarrow> DKGProposalParticipant \<Rightarrow>
   DKGConfirmation \<Rightarrow> DKGConfirmation"
where
  "dkg_failed failed i err t v c = c\<lparr>dc_UpdatedAt := t,
     dc_Quorum := Some (AList.update i
       (v\<lparr>dp_Status := failed, dp_Error := err, dp_UpdatedAt := t\<rparr>) (entries (dc_Quorum c)))\<rparr>"

text \<open>Where a validation leads when no participant failed.\<close>

definition stage_verdict ::
  "State \<Rightarrow> State \<Rightarrow> State \<Rightarrow> DKGParticipantStatus \<Rightarrow> DKGConfirmation \<Rightarrow> State"
where
  "stage_verdict timeout collected waiting confirmed c =
    (if dc_ExpiresAt c < dc_UpdatedAt c then timeout
     else if list_all (\<lambda>v. dp_Status v = confirmed) (vals (entries (dc_Quorum c))) then collected
     else waiting)"

definition all_status ::
  "(DKGProposalParticipant \<Rightarrow> DKGProposalParticipant) \<Rightarrow> DKGConfirmation \<Rightarrow> DKGConfirmation"
where
  "all_status g c = c\<lparr>dc_Quorum := map_option (map_vals (\<lambda>_. g)) (dc_Quorum c)\<rparr>"

text \<open>The next stage starts with every participant awaiting.\<close>

definition stage_advance :: "DKGParticipantStatus \<Rightarrow> DKGConfirmation \<Rightarrow> DKGConfirmation" where
  "stage_advance next c = c\<lparr>dc_Quorum := map_option (map_vals (\<lambda>i v.
     v\<lparr>dp_Status := next, dp_ParticipantID := i\<rparr>)) (dc_Quorum c)\<rparr>"

definition dkg_ordered :: "DKGConfirmation \<Rightarrow> DKGProposalParticipant list" where
  "dkg_ordered c = map (\<lambda>i. the (map_of (entries (dc_Quorum c)) i))
     (sort (keys (entries (dc_Quorum c))))"

abbreviation dkg_error :: "int \<Rightarrow> FSMError option \<Rightarrow> time \<Rightarrow> request" where
  "dkg_error i e t \<equiv> ReqDkgError \<lparr>de_ParticipantId = i, de_Error = e, de_CreatedAt = t\<rparr>"

definition no_failure :: "DKGParticipantStatus \<Rightarrow> DKGConfirmation \<Rightarrow> bool" where
  "no_failure failed c \<longleftrightarrow> list_all (\<lambda>v. dp_Status v \<noteq> failed) (vals (entries (dc_Quorum c)))"

text \<open>
  The contributions that are still due in a stage: one, well formed and in time, for each
  participant that is awaited, while all others have confirmed.
\<close>

definition due ::
  "DKGParticipantStatus \<Rightarrow> DKGParticipantStatus \<Rightarrow> DKGConfirmation \<Rightarrow> DKGProposalQuorum \<Rightarrow>
   (int \<times> bytes \<times> time) list \<Rightarrow> bool"
where
  "due await confirmed c q xs \<longleftrightarrow> distinct (keys q) \<and> distinct (map fst xs) \<and>
     list_all (\<lambda>(i, d, t). 0 \<le> i \<and> d \<noteq> [] \<and> t \<noteq> 0 \<and> t \<le> dc_ExpiresAt c \<and>
       (case map_of q i of None \<Rightarrow> False | Some v \<Rightarrow> dp_Status v = await)) xs \<and>
     list_all (\<lambda>(i, v). dp_Status v = (if i \<in> set (map fst xs) then await else confirmed)) q"

text \<open>
  The answer to a well-formed contribution, given the entry of the participant: unknown
  participants and participants that are not awaited are refused and nothing changes; otherwise
  the contribution is stored and the stage's validation decides.
\<close>

definition contribution_result ::
  "State \<Rightarrow> DKGParticipantStatus \<Rightarrow> string \<Rightarrow> (DKGProposalParticipant \<Rightarrow> DKGConfirmation) \<Rightarrow>
   (DKGConfirmation \<Rightarrow> State) \<Rightarrow> (DKGConfirmation \<Rightarrow> DKGConfirmation) \<Rightarrow>
   (DKGConfirmation \<Rightarrow> response option) \<Rightarrow> DKGProposalParticipant option \<Rightarrow>
   DumpedMachineStatePayload \<Rightarrow>
   ((response Response option \<times> error option) \<times> machine \<times> DumpedMachineStatePayload) go"
where
  "contribution_result S await msg received verdict after report x p =
    (let refused = (\<lambda>e. Inr ((Some \<lparr>resp_State = '''', resp_Data = None\<rparr>, Some e),
           in_state dkg_fsm S, p)) in
     case x of
       None \<Rightarrow> refused (errorsNew ''{ParticipantId} not exist in quorum'')
     | Some v \<Rightarrow>
         if dp_Status v \<noteq> await
         then refused (Errorf msg [AStr (DKGParticipantStatus_String (dp_Status v))])
         else let c = received v in
           Inr ((Some \<lparr>resp_State = verdict c, resp_Data = report c\<rparr>, None),
             in_state dkg_fsm (verdict c), p\<lparr>DKGProposalPayload := Some (after c)\<rparr>))"

lemma errorStatus_other:
  "status \<noteq> await \<Longrightarrow> \<exists>x. errorStatus await confirmed failed status = Inl x"
  by (simp add: errorStatus_def)

section \<open>The interface of a stage\<close>

locale dkg_stage =
  fixes recv :: action and val :: action
    and E :: Event and A :: Event and X :: Event and S :: State and F :: State
    and mk :: "int \<Rightarrow> bytes \<Rightarrow> bytes \<Rightarrow> time \<Rightarrow> request"
    and await :: DKGParticipantStatus and confirmed :: DKGParticipantStatus
    and failed :: DKGParticipantStatus and msg :: string
    and store :: "bytes \<Rightarrow> DKGProposalParticipant \<Rightarrow> DKGProposalParticipant"
    and poly :: "bytes \<Rightarrow> DKGConfirmation \<Rightarrow> DKGConfirmation"
    and verdict :: "DKGConfirmation \<Rightarrow> State"
    and after :: "DKGConfirmation \<Rightarrow> DKGConfirmation"
    and report :: "DKGConfirmation \<Rightarrow> response option"
  assumes recv_law: "DKGProposalPayload p = Some c \<Longrightarrow> dc_Quorum c = Some q \<Longrightarrow>
      0 \<le> i \<Longrightarrow> d \<noteq> [] \<Longrightarrow> t \<noteq> 0 \<Longrightarrow>
      recv E [mk i d b t] p = (case map_of q i of
          None \<Rightarrow> ret_err (errorsNew ''{ParticipantId} not exist in quorum'') p
        | Some v \<Rightarrow>
            if dp_Status v \<noteq> await
            then ret_err (Errorf msg [AStr (DKGParticipantStatus_String (dp_Status v))]) p
            else ret_event ''''
              (p\<lparr>DKGProposalPayload := Some (dkg_received poly store confirmed i d b t v c)\<rparr>))"
    and recv_reject: "(\<nexists>i d b t. args = [mk i d b t] \<and> 0 \<le> i \<and> d \<noteq> [] \<and> t \<noteq> 0) \<Longrightarrow>
      \<exists>x. recv E args p = ret_err x p"
    and val_law: "DKGProposalPayload p = Some c \<Longrightarrow> dc_Quorum c = Some q \<Longrightarrow> no_failure failed c \<Longrightarrow>
      \<exists>out tr. val A args p =
          Inr ((out, report c, None), p\<lparr>DKGProposalPayload := Some (after c)\<rparr>) \<and>
        map_of (fsm_transitions dkg_fsm) (S, if out = '''' then A else out) = Some tr \<and>
        tr_dstState tr = verdict c"
    and error_law: "DKGProposalPayload p = Some c \<Longrightarrow> dc_Quorum c = Some q \<Longrightarrow>
      0 \<le> i \<Longrightarrow> err \<noteq> None \<Longrightarrow> t \<noteq> 0 \<Longrightarrow>
      dkg_actionConfirmationError X [dkg_error i err t] p = (case map_of q i of
          None \<Rightarrow> ret_err (errorsNew ''{ParticipantId} not exist in quorum'') p
        | Some v \<Rightarrow>
            (case errorStatus await confirmed failed (dp_Status v) of
               Inl x \<Rightarrow> ret_err x p
             | Inr st \<Rightarrow> ret_event ''''
                 (p\<lparr>DKGProposalPayload := Some (dkg_failed st i err t v c)\<rparr>)))"
    and statuses: "confirmed \<noteq> failed" "await \<noteq> failed" "await \<noteq> confirmed"
    and poly_quorum: "dc_Quorum (poly b c) = dc_Quorum c"
    and tables: "map_of (fsm_transitions dkg_fsm) (S, E) = Some (tr_public E S)"
      "map_of (fsm_callbacks dkg_fsm) E = Some recv"
      "map_of (fsm_autoTransitions dkg_fsm) (S, EventRunAfter) = Some (tr_auto A S)"
      "map_of (fsm_callbacks dkg_fsm) A = Some val"
      "map_of (fsm_transitions dkg_fsm) (S, X) = Some (tr_public X F)"
      "map_of (fsm_transitions dkg_fsm) (F, X) = Some (tr_public X F)"
      "map_of (fsm_callbacks dkg_fsm) X = Some dkg_actionConfirmationError"
      "map_of (fsm_autoTransitions dkg_fsm) (F, EventRunAfter) = None"
      "X \<noteq> ''''" "E \<noteq> ''''"
begin

lemma no_failure_received:
  assumes "no_failure failed c"
  shows "no_failure failed (dkg_received poly store confirmed i d b t v c)"
  using assms statuses(1)
  by (simp add: no_failure_def dkg_received_def poly_quorum list_all_vals_update)

text \<open>An accepted contribution.\<close>

lemma contribution_Do:
  assumes "DKGProposalPayload p = Some c" and "dc_Quorum c = Some q" and "no_failure failed c"
    and "0 \<le> i" and "d \<noteq> []" and "t \<noteq> 0" and "map_of q i = Some v" and "dp_Status v = await"
    and c': "c' = dkg_received poly store confirmed i d b t v c"
  shows "FSM_Do E [mk i d b t] (in_state dkg_fsm S) p =
    Inr ((Some \<lparr>resp_State = verdict c', resp_Data = report c'\<rparr>, None),
      in_state dkg_fsm (verdict c'), p\<lparr>DKGProposalPayload := Some (after c')\<rparr>)"
proof -
  let ?p = "p\<lparr>DKGProposalPayload := Some c'\<rparr>"
  have cb: "recv E [mk i d b t] p = Inr (('''', None, None), ?p)"
    using recv_law[OF assms(1,2,4-6)] assms(7,8) c' by (simp add: ret_event_def)
  obtain q' where q': "dc_Quorum c' = Some q'"
    using c' by (simp add: dkg_received_def poly_quorum)
  obtain out tr where v: "val A [mk i d b t] ?p =
      Inr ((out, report c', None), ?p\<lparr>DKGProposalPayload := Some (after c')\<rparr>)"
    and tr: "map_of (fsm_transitions dkg_fsm) (S, if out = '''' then A else out) = Some tr"
      "tr_dstState tr = verdict c'"
    using val_law[of ?p c' q' "[mk i d b t]"] q' no_failure_received[OF assms(3)] c' by force
  have "map_of (fsm_transitions dkg_fsm) (S, if '''' = '''' then E else '''') = Some (tr_public E S)"
    using tables(1) by simp
  from FSM_Do_collect[OF tables(1) dkg_autos(15) tables(2) cb this _ tables(3,4) v tr]
  show ?thesis by simp
qed

text \<open>The receive event on a well-formed request, as an equation.\<close>

lemma contribution_eq:
  assumes "DKGProposalPayload p = Some c" and "dc_Quorum c = Some q" and "no_failure failed c"
    and "0 \<le> i" and "d \<noteq> []" and "t \<noteq> 0"
  shows "FSM_Do E [mk i d b t] (in_state dkg_fsm S) p =
    contribution_result S await msg (\<lambda>v. dkg_received poly store confirmed i d b t v c)
      verdict after report (map_of q i) p"
proof -
  note route = FSM_Do_callback[OF tables(1) dkg_autos(15) tables(2), of "[mk i d b t]" p]
  note law = recv_law[OF assms(1,2,4-6), of b]
  show ?thesis
  proof (cases "map_of q i")
    case None
    with law show ?thesis unfolding route by (simp add: contribution_result_def ret_err_def)
  next
    case (Some v)
    show ?thesis
    proof (cases "dp_Status v = await")
      case False
      with law Some show ?thesis unfolding route by (simp add: contribution_result_def ret_err_def)
    next
      case True
      with contribution_Do[OF assms Some True refl, of b] Some show ?thesis
        by (simp add: contribution_result_def Let_def)
    qed
  qed
qed

text \<open>Every outcome of the receive event.\<close>

lemma receive_cases:
  assumes "DKGProposalPayload p = Some c" and "dc_Quorum c = Some q" and "no_failure failed c"
    and res: "FSM_Do E args (in_state dkg_fsm S) p = Inr ((resp, err), g, p')"
  obtains (rejected) x data where "resp = Some \<lparr>resp_State = '''', resp_Data = data\<rparr>"
      "err = Some x" "p' = p" "g = in_state dkg_fsm S"
  | (accepted) i d b t v c' where "args = [mk i d b t]" "0 \<le> i" "d \<noteq> []" "t \<noteq> 0"
      "map_of q i = Some v" "dp_Status v = await"
      "c' = dkg_received poly store confirmed i d b t v c"
      "resp = Some \<lparr>resp_State = verdict c', resp_Data = report c'\<rparr>" "err = None"
      "g = in_state dkg_fsm (verdict c')" "p' = p\<lparr>DKGProposalPayload := Some (after c')\<rparr>"
proof -
  note route = FSM_Do_callback[OF tables(1) dkg_autos(15) tables(2), of args p]
  have rej: thesis if "recv E args p = ret_err x p" for x
    using that res rejected unfolding route by (auto simp: ret_err_def)
  show thesis
  proof (cases "\<exists>i d b t. args = [mk i d b t] \<and> 0 \<le> i \<and> d \<noteq> [] \<and> t \<noteq> 0")
    case False
    with recv_reject[of args p] rej show thesis by blast
  next
    case True
    then obtain i d b t where a: "args = [mk i d b t]" "0 \<le> i" "d \<noteq> []" "t \<noteq> 0" by blast
    note law = recv_law[OF assms(1,2) a(2-4), of b]
    show thesis
    proof (cases "map_of q i")
      case None
      with law a rej show thesis by simp
    next
      case (Some v)
      show thesis
      proof (cases "dp_Status v = await")
        case False
        with law a Some rej show thesis by simp
      next
        case True
        from contribution_Do[OF assms(1-3) a(2-4) Some True refl, of b] res a(1)
          accepted[OF a Some True refl]
        show thesis by simp
      qed
    qed
  qed
qed

text \<open>An error report of an awaited participant cancels the stage.\<close>

lemma error_Do:
  assumes "DKGProposalPayload p = Some c" and "dc_Quorum c = Some q" and "s = S \<or> s = F"
    and "0 \<le> i" and "e \<noteq> None" and "t \<noteq> 0" and "map_of q i = Some v" and "dp_Status v = await"
  shows "FSM_Do X [dkg_error i e t] (in_state dkg_fsm s) p =
    Inr ((Some \<lparr>resp_State = F, resp_Data = None\<rparr>, None), in_state dkg_fsm F,
      p\<lparr>DKGProposalPayload := Some (dkg_failed failed i e t v c)\<rparr>)"
proof -
  have t1: "map_of (fsm_transitions dkg_fsm) (s, X) = Some (tr_public X F)"
    using assms(3) tables(5,6) by auto
  have act: "dkg_actionConfirmationError X [dkg_error i e t] p = Inr (('''', None, None),
      p\<lparr>DKGProposalPayload := Some (dkg_failed failed i e t v c)\<rparr>)"
    using error_law[OF assms(1,2,4-6)] assms(7,8) by (simp add: errorStatus_def ret_event_def)
  have "map_of (fsm_transitions dkg_fsm) (s, if '''' = '''' then X else '''') =
      Some (tr_public X F)" using t1 by simp
  from FSM_Do_plain[OF t1 dkg_autos(15) tables(7) act this _ tables(8)] show ?thesis by simp
qed

text \<open>Every outcome of the error event, in the awaiting state and after an error.\<close>

lemma error_cases:
  assumes "DKGProposalPayload p = Some c" and "dc_Quorum c = Some q" and "s = S \<or> s = F"
    and res: "FSM_Do X args (in_state dkg_fsm s) p = Inr ((resp, err), g, p')"
  obtains (rejected) x data where "resp = Some \<lparr>resp_State = '''', resp_Data = data\<rparr>"
      "err = Some x" "p' = p" "g = in_state dkg_fsm s"
  | (accepted) i e t v where "args = [dkg_error i e t]" "0 \<le> i" "e \<noteq> None" "t \<noteq> 0"
      "map_of q i = Some v" "dp_Status v = await"
      "resp = Some \<lparr>resp_State = F, resp_Data = None\<rparr>" "err = None"
      "g = in_state dkg_fsm F" "p' = p\<lparr>DKGProposalPayload := Some (dkg_failed failed i e t v c)\<rparr>"
proof -
  have t1: "map_of (fsm_transitions dkg_fsm) (s, X) = Some (tr_public X F)"
    using assms(3) tables(5,6) by auto
  note route = FSM_Do_callback[OF t1 dkg_autos(15) tables(7), of args p]
  have rej: thesis if "dkg_actionConfirmationError X args p = ret_err x p" for x
    using that res rejected unfolding route by (auto simp: ret_err_def)
  obtain o1 data err1 p1 where a:
    "dkg_actionConfirmationError X args p = Inr ((o1, data, err1), p1)"
    using res unfolding route by auto
  from a[unfolded dkg_actionConfirmationError_def] show thesis
  proof (cases rule: with_request_cases)
    case (rejected x)
    with a rej show thesis by (simp add: ret_err_def)
  next
    case (accepted a1 r)
    define i e t where "i = de_ParticipantId r" and "e = de_Error r" and "t = de_CreatedAt r"
    have args: "args = [dkg_error i e t]"
      using accepted(1,2) by (cases r) (auto simp: i_def e_def t_def as_Some_iff)
    have it: "0 \<le> i" "e \<noteq> None" "t \<noteq> 0"
      using accepted(3) by (auto simp: DKGProposalConfirmationErrorRequest_Validate_def i_def e_def
          t_def IsZero_def split: if_splits)
    note law = error_law[OF assms(1,2) it]
    show thesis
    proof (cases "map_of q i")
      case None
      with law args rej show thesis by simp
    next
      case (Some v)
      show thesis
      proof (cases "dp_Status v = await")
        case False
        then obtain x where "errorStatus await confirmed failed (dp_Status v) = Inl x"
          using errorStatus_other by blast
        with law args Some rej show thesis by simp
      next
        case True
        with error_Do[OF assms(1-3) it Some True] args res that(2)[OF args it Some True]
        show thesis by simp
      qed
    qed
  qed
qed

end

text \<open>
  The stages without a comparison of contributions: each participant that is awaited contributes
  once, in any order, and the machine reaches the next stage.
\<close>

locale dkg_simple_stage = dkg_stage +
  fixes T :: State and C :: State and succ :: DKGParticipantStatus
  assumes verdict_law: "verdict c = stage_verdict T C S confirmed c"
    and after_law: "after c = (if verdict c = C then stage_advance succ c else c)"
    and poly_same: "poly b c = c" and C_S: "C \<noteq> S"
begin

lemma due_no_failure: "due await confirmed c q xs \<Longrightarrow> dc_Quorum c = Some q \<Longrightarrow> no_failure failed c"
  using statuses(1,2) by (auto simp: due_def no_failure_def list_all_iff split: if_splits)

lemma due_step:
  assumes "due await confirmed c q ((i, d, t) # xs)" and "dc_Quorum c = Some q" and "map_of q i = Some v"
    and c': "c' = dkg_received poly store confirmed i d b t v c"
    and q': "dc_Quorum c' = Some q'"
  shows "due await confirmed c' q' xs" and "verdict c' = (if xs = [] then C else S)"
proof -
  let ?w = "(store d v)\<lparr>dp_Status := confirmed, dp_UpdatedAt := t\<rparr>"
  have q'_eq: "q' = AList.update i ?w q" and ex: "dc_ExpiresAt c' = dc_ExpiresAt c"
    "dc_UpdatedAt c' = t"
    using q' assms(2) by (simp_all add: c' dkg_received_def poly_same)
  have dist: "distinct (keys q)" "distinct (keys q')" and fresh: "i \<notin> set (map fst xs)"
    and te: "t \<le> dc_ExpiresAt c"
    and st: "list_all (\<lambda>(j, v). dp_Status v =
      (if j \<in> set (map fst ((i, d, t) # xs)) then await else confirmed)) q"
    using assms(1) by (auto simp: due_def q'_eq distinct_update)
  have lk: "map_of q' j = (if j = i then Some ?w else map_of q j)" for j
    by (simp add: q'_eq)
  have st': "dp_Status v = (if j \<in> set (map fst xs) then await else confirmed)"
    if "(j, v) \<in> set q'" for j v
  proof -
    from that dist(2) have "map_of q' j = Some v" by simp
    then consider "j = i" "v = ?w" | "j \<noteq> i" "(j, v) \<in> set q"
      by (auto simp: lk split: if_splits dest: map_of_SomeD)
    then show ?thesis
    proof cases
      case 2
      with bspec[OF st[unfolded list_all_iff] 2(2)] show ?thesis by simp
    qed (use fresh in simp)
  qed
  show due': "due await confirmed c' q' xs"
  proof -
    have "case map_of q' j of None \<Rightarrow> False | Some v \<Rightarrow> dp_Status v = await"
      if "(j, y) \<in> set xs" for j y
    proof -
      have "j \<noteq> i" using that fresh by force
      with that assms(1) show ?thesis by (auto simp: due_def lk list_all_iff)
    qed
    with assms(1) dist(2) st' show ?thesis by (auto simp: due_def ex list_all_iff)
  qed
  have "list_all (\<lambda>v. dp_Status v = confirmed) (vals q') \<longleftrightarrow> xs = []"
  proof
    assume all: "list_all (\<lambda>v. dp_Status v = confirmed) (vals q')"
    show "xs = []"
    proof (cases xs)
      case (Cons y ys)
      then obtain w where "map_of q' (fst y) = Some w" "dp_Status w = await"
        using due' by (auto simp: due_def split: option.splits)
      with list_all_valsD[OF all] statuses(3) show ?thesis by auto
    qed
  next
    assume "xs = []"
    with st' show "list_all (\<lambda>v. dp_Status v = confirmed) (vals q')" by (auto simp: list_all_iff)
  qed
  with te show "verdict c' = (if xs = [] then C else S)"
    by (simp add: verdict_law stage_verdict_def ex q')
qed

lemma completes:
  assumes "DKGProposalPayload p = Some c" and "dc_Quorum c = Some q" and "due await confirmed c q xs" and "xs \<noteq> []"
  shows "\<exists>c'. machine_run dkg_fsm (map (\<lambda>(i, d, t). (E, [mk i d [] t])) xs) S p =
    Some (C, p\<lparr>DKGProposalPayload := Some (stage_advance succ c')\<rparr>)"
  using assms
proof (induction xs arbitrary: p c q)
  case (Cons x xs)
  obtain i d t where x: "x = (i, d, t)" by (cases x)
  from Cons.prems(3) obtain v where v: "map_of q i = Some v" "dp_Status v = await"
    and it: "0 \<le> i" "d \<noteq> []" "t \<noteq> 0"
    by (auto simp: due_def x split: option.splits)
  define c' where "c' = dkg_received poly store confirmed i d [] t v c"
  obtain q' where q': "dc_Quorum c' = Some q'" by (simp add: c'_def dkg_received_def poly_same)
  note step = due_step[OF Cons.prems(3)[unfolded x] Cons.prems(2) v(1) c'_def q']
  note run = contribution_Do[OF Cons.prems(1,2) due_no_failure[OF Cons.prems(3,2)] it v c'_def]
  show ?case
  proof (cases "xs = []")
    case True
    with step(2) run show ?thesis by (auto simp: x after_law)
  next
    case False
    with step(2) run C_S have "machine_run dkg_fsm (map (\<lambda>(i, d, t). (E, [mk i d [] t])) (x # xs)) S p =
        machine_run dkg_fsm (map (\<lambda>(i, d, t). (E, [mk i d [] t])) xs) S
          (p\<lparr>DKGProposalPayload := Some c'\<rparr>)"
      by (simp add: x after_law)
    with Cons.IH[of "p\<lparr>DKGProposalPayload := Some c'\<rparr>" c' q'] q' step(1) False show ?thesis
      by simp
  qed
qed simp

end

section \<open>The four stages\<close>

text \<open>Requests of the stages; only the master key stage carries a second byte string.\<close>

definition mk_commit :: "int \<Rightarrow> bytes \<Rightarrow> bytes \<Rightarrow> time \<Rightarrow> request" where
  "mk_commit i d b t = ReqDkgCommit \<lparr>cr_ParticipantId = i, cr_Commit = d, cr_CreatedAt = t\<rparr>"
definition mk_deal :: "int \<Rightarrow> bytes \<Rightarrow> bytes \<Rightarrow> time \<Rightarrow> request" where
  "mk_deal i d b t = ReqDkgDeal \<lparr>dlr_ParticipantId = i, dlr_Deal = d, dlr_CreatedAt = t\<rparr>"
definition mk_response :: "int \<Rightarrow> bytes \<Rightarrow> bytes \<Rightarrow> time \<Rightarrow> request" where
  "mk_response i d b t = ReqDkgResponse \<lparr>rr_ParticipantId = i, rr_Response = d, rr_CreatedAt = t\<rparr>"
definition mk_master_key :: "int \<Rightarrow> bytes \<Rightarrow> bytes \<Rightarrow> time \<Rightarrow> request" where
  "mk_master_key i d b t = ReqDkgMasterKey \<lparr>mk_ParticipantId = i, mk_MasterKey = d,
     mk_CreatedAt = t, mk_PubPolyBz = b\<rparr>"

lemmas mk_defs = mk_commit_def mk_deal_def mk_response_def mk_master_key_def

lemmas dkg_validate_defs = DKGProposalCommitConfirmationRequest_Validate_def
  DKGProposalDealConfirmationRequest_Validate_def
  DKGProposalResponseConfirmationRequest_Validate_def
  DKGProposalMasterKeyConfirmationRequest_Validate_def
  DKGProposalConfirmationErrorRequest_Validate_def

lemmas dkg_recv_defs = actionCommitConfirmationReceived_def actionDealConfirmationReceived_def
  actionResponseConfirmationReceived_def actionMasterKeyConfirmationReceived_def

lemma with_request_reject:
  assumes "\<And>a r. args = [a] \<Longrightarrow> cast a = Some r \<Longrightarrow> v r \<noteq> None"
  shows "\<exists>x. with_request m1 m2 cast (total v) args p k = ret_err x p"
proof (cases "\<exists>a. args = [a]")
  case False
  then show ?thesis by (auto simp: with_request_def length_Suc_conv)
next
  case True
  then obtain a where a: "args = [a]" by blast
  with assms[OF a] show ?thesis by (auto simp: with_request_def split: option.splits)
qed

lemma commits_recv:
  assumes "DKGProposalPayload p = Some c" "dc_Quorum c = Some q" "0 \<le> i" "d \<noteq> []" "t \<noteq> 0"
  shows "actionCommitConfirmationReceived e [mk_commit i d b t] p = (case map_of q i of
      None \<Rightarrow> ret_err (errorsNew ''{ParticipantId} not exist in quorum'') p
    | Some v \<Rightarrow>
        if dp_Status v \<noteq> CommitAwaitConfirmation
        then ret_err (Errorf ''cannot confirm commit with {Status} = {\"%s\"}''
               [AStr (DKGParticipantStatus_String (dp_Status v))]) p
        else ret_event '''' (p\<lparr>DKGProposalPayload := Some
          (dkg_received (\<lambda>b c. c) (\<lambda>d v. v\<lparr>dp_DkgCommit := d\<rparr>) CommitConfirmed i d b t v c)\<rparr>))"
  using assms
  by (auto simp: actionCommitConfirmationReceived_def mk_defs quorum_op_defs dkg_validate_defs
      IsZero_def dkg_received_def split: option.splits)

lemma deals_recv:
  assumes "DKGProposalPayload p = Some c" "dc_Quorum c = Some q" "0 \<le> i" "d \<noteq> []" "t \<noteq> 0"
  shows "actionDealConfirmationReceived e [mk_deal i d b t] p = (case map_of q i of
      None \<Rightarrow> ret_err (errorsNew ''{ParticipantId} not exist in quorum'') p
    | Some v \<Rightarrow>
        if dp_Status v \<noteq> DealAwaitConfirmation
        then ret_err (Errorf ''cannot confirm deal with {Status} = {\"%s\"}''
               [AStr (DKGParticipantStatus_String (dp_Status v))]) p
        else ret_event '''' (p\<lparr>DKGProposalPayload := Some
          (dkg_received (\<lambda>b c. c) (\<lambda>d v. v\<lparr>dp_DkgDeal := d\<rparr>) DealConfirmed i d b t v c)\<rparr>))"
  using assms
  by (auto simp: actionDealConfirmationReceived_def mk_defs quorum_op_defs dkg_validate_defs
      IsZero_def dkg_received_def split: option.splits)

lemma responses_recv:
  assumes "DKGProposalPayload p = Some c" "dc_Quorum c = Some q" "0 \<le> i" "d \<noteq> []" "t \<noteq> 0"
  shows "actionResponseConfirmationReceived e [mk_response i d b t] p = (case map_of q i of
      None \<Rightarrow> ret_err (errorsNew ''{ParticipantId} not exist in quorum'') p
    | Some v \<Rightarrow>
        if dp_Status v \<noteq> ResponseAwaitConfirmation
        then ret_err (Errorf ''cannot confirm response with {Status} = {\"%s\"}''
               [AStr (DKGParticipantStatus_String (dp_Status v))]) p
        else ret_event '''' (p\<lparr>DKGProposalPayload := Some
          (dkg_received (\<lambda>b c. c) (\<lambda>d v. v\<lparr>dp_DkgResponse := d\<rparr>) ResponseConfirmed i d b t v c)\<rparr>))"
  using assms
  by (auto simp: actionResponseConfirmationReceived_def mk_defs quorum_op_defs dkg_validate_defs
      IsZero_def dkg_received_def split: option.splits)

lemma master_key_recv:
  assumes "DKGProposalPayload p = Some c" "dc_Quorum c = Some q" "0 \<le> i" "d \<noteq> []" "t \<noteq> 0"
  shows "actionMasterKeyConfirmationReceived e [mk_master_key i d b t] p = (case map_of q i of
      None \<Rightarrow> ret_err (errorsNew ''{ParticipantId} not exist in quorum'') p
    | Some v \<Rightarrow>
        if dp_Status v \<noteq> MasterKeyAwaitConfirmation
        then ret_err (Errorf ''cannot confirm response with {Status} = {\"%s\"}''
               [AStr (DKGParticipantStatus_String (dp_Status v))]) p
        else ret_event '''' (p\<lparr>DKGProposalPayload := Some
          (dkg_received (\<lambda>b c. c\<lparr>dc_PubPolyBz := b\<rparr>) (\<lambda>d v. v\<lparr>dp_DkgMasterKey := d\<rparr>)
            MasterKeyConfirmed i d b t v c)\<rparr>))"
  using assms
  by (cases c) (auto simp: actionMasterKeyConfirmationReceived_def mk_defs quorum_op_defs dkg_validate_defs
      IsZero_def dkg_received_def split: option.splits)

lemma recv_rejects:
  "(\<nexists>i d b t. args = [mk_commit i d b t] \<and> 0 \<le> i \<and> d \<noteq> [] \<and> t \<noteq> 0) \<Longrightarrow>
     \<exists>x. actionCommitConfirmationReceived e args p = ret_err x p"
  "(\<nexists>i d b t. args = [mk_deal i d b t] \<and> 0 \<le> i \<and> d \<noteq> [] \<and> t \<noteq> 0) \<Longrightarrow>
     \<exists>x. actionDealConfirmationReceived e args p = ret_err x p"
  "(\<nexists>i d b t. args = [mk_response i d b t] \<and> 0 \<le> i \<and> d \<noteq> [] \<and> t \<noteq> 0) \<Longrightarrow>
     \<exists>x. actionResponseConfirmationReceived e args p = ret_err x p"
  "(\<nexists>i d b t. args = [mk_master_key i d b t] \<and> 0 \<le> i \<and> d \<noteq> [] \<and> t \<noteq> 0) \<Longrightarrow>
     \<exists>x. actionMasterKeyConfirmationReceived e args p = ret_err x p"
  unfolding dkg_recv_defs
  by (rule with_request_reject, auto simp: dkg_validate_defs mk_defs as_Some_iff IsZero_def
      split: if_splits, metis DKGProposalCommitConfirmationRequest.surjective unit.exhaust
      DKGProposalDealConfirmationRequest.surjective DKGProposalResponseConfirmationRequest.surjective
      DKGProposalMasterKeyConfirmationRequest.surjective not_less)+

subsection \<open>Validation\<close>

definition commits_verdict :: "DKGConfirmation \<Rightarrow> State" where
  "commits_verdict = stage_verdict StateDkgCommitsAwaitCanceledByTimeout
     StateDkgDealsAwaitConfirmations StateDkgCommitsAwaitConfirmations CommitConfirmed"
definition deals_verdict :: "DKGConfirmation \<Rightarrow> State" where
  "deals_verdict = stage_verdict StateDkgDealsAwaitCanceledByTimeout
     StateDkgResponsesAwaitConfirmations StateDkgDealsAwaitConfirmations DealConfirmed"
definition responses_verdict :: "DKGConfirmation \<Rightarrow> State" where
  "responses_verdict = stage_verdict StateDkgResponsesAwaitCanceledByTimeout
     StateDkgMasterKeyAwaitConfirmations StateDkgResponsesAwaitConfirmations ResponseConfirmed"

definition commits_after :: "DKGConfirmation \<Rightarrow> DKGConfirmation" where
  "commits_after c = (if commits_verdict c = StateDkgDealsAwaitConfirmations
     then stage_advance DealAwaitConfirmation c else c)"
definition deals_after :: "DKGConfirmation \<Rightarrow> DKGConfirmation" where
  "deals_after c = (if deals_verdict c = StateDkgResponsesAwaitConfirmations
     then stage_advance ResponseAwaitConfirmation c else c)"
definition responses_after :: "DKGConfirmation \<Rightarrow> DKGConfirmation" where
  "responses_after c = (if responses_verdict c = StateDkgMasterKeyAwaitConfirmations
     then stage_advance MasterKeyAwaitConfirmation c else c)"

definition commits_report :: "DKGConfirmation \<Rightarrow> response option" where
  "commits_report c = (if commits_verdict c = StateDkgDealsAwaitConfirmations
     then Some (RespCommits (map (\<lambda>v. \<lparr>ce_ParticipantId = dp_ParticipantID v,
       ce_Username = dp_Username v, ce_DkgCommit = dp_DkgCommit v\<rparr>) (dkg_ordered (commits_after c))))
     else None)"
definition deals_report :: "DKGConfirmation \<Rightarrow> response option" where
  "deals_report c = (if deals_verdict c = StateDkgResponsesAwaitConfirmations
     then Some (RespDeals (map (\<lambda>v. \<lparr>dle_ParticipantId = dp_ParticipantID v,
       dle_Username = dp_Username v, dle_DkgDeal = dp_DkgDeal v\<rparr>)
       (filter (\<lambda>v. length (dp_DkgDeal v) \<noteq> 0) (dkg_ordered (deals_after c)))))
     else None)"
definition responses_report :: "DKGConfirmation \<Rightarrow> response option" where
  "responses_report c = (if responses_verdict c = StateDkgMasterKeyAwaitConfirmations
     then Some (RespResponses (map (\<lambda>v. \<lparr>re_ParticipantId = dp_ParticipantID v,
       re_Username = dp_Username v, re_DkgResponse = dp_DkgResponse v\<rparr>)
       (dkg_ordered (responses_after c))))
     else None)"

lemma ordered_advance:
  assumes "dc_Quorum c = Some q"
  shows "DKGProposalQuorum_GetOrderedParticipants
      (Some (map_vals (\<lambda>_ v. v\<lparr>dp_Status := st\<rparr>) q)) =
    (dkg_ordered (stage_advance st c), dc_Quorum (stage_advance st c))"
proof -
  have "map_vals (\<lambda>i v. v\<lparr>dp_ParticipantID := i\<rparr>) (map_vals (\<lambda>_ v. v\<lparr>dp_Status := st\<rparr>) q) =
      map_vals (\<lambda>i v. v\<lparr>dp_Status := st, dp_ParticipantID := i\<rparr>) q"
    by (simp add: map_vals_map_vals comp_def)
  then show ?thesis
    by (simp add: DKGProposalQuorum_GetOrderedParticipants_def stage_advance_def dkg_ordered_def assms)
qed

lemma stage_advance_eq:
  "dc_Quorum c = Some q \<Longrightarrow> c\<lparr>dc_Quorum := dc_Quorum (stage_advance st c)\<rparr> = stage_advance st c"
  by (simp add: stage_advance_def)

lemma no_failure_ex: "no_failure failed c \<Longrightarrow> dc_Quorum c = Some q \<Longrightarrow>
    \<not> list_ex (\<lambda>v. dp_Status v = failed) (vals q)"
  by (auto simp: no_failure_def list_all_iff list_ex_iff)

lemmas stage_defs = commits_verdict_def deals_verdict_def responses_verdict_def
  stage_verdict_def commits_after_def deals_after_def responses_after_def
  commits_report_def deals_report_def responses_report_def

lemma commits_val:
  assumes "DKGProposalPayload p = Some c" "dc_Quorum c = Some q"
    and "no_failure CommitConfirmationError c"
  shows "\<exists>out tr. actionValidateDkgProposalAwaitCommits e args p =
      Inr ((out, commits_report c, None), p\<lparr>DKGProposalPayload := Some (commits_after c)\<rparr>) \<and>
    map_of (fsm_transitions dkg_fsm) (StateDkgCommitsAwaitConfirmations,
      if out = '''' then eventAutoDKGValidateConfirmationCommitsInternal else out) = Some tr \<and>
    tr_dstState tr = commits_verdict c"
  using assms none_unconfirmed[of q "\<lambda>v. dp_Status v = CommitConfirmed"] no_failure_ex[OF assms(3,2)]
  by (simp add: actionValidateDkgProposalAwaitCommits_def stage_defs Let_def DKGConfirmation_IsExpired_def
      Before_def DKGQuorumCount_def fold_failed_first ret_defs dkg_transitions dkg_neq
      ordered_advance stage_advance_eq)

lemma deals_val:
  assumes "DKGProposalPayload p = Some c" "dc_Quorum c = Some q"
    and "no_failure DealConfirmationError c"
  shows "\<exists>out tr. actionValidateDkgProposalAwaitDeals e args p =
      Inr ((out, deals_report c, None), p\<lparr>DKGProposalPayload := Some (deals_after c)\<rparr>) \<and>
    map_of (fsm_transitions dkg_fsm) (StateDkgDealsAwaitConfirmations,
      if out = '''' then eventAutoDKGValidateConfirmationDealsInternal else out) = Some tr \<and>
    tr_dstState tr = deals_verdict c"
  using assms none_unconfirmed[of q "\<lambda>v. dp_Status v = DealConfirmed"] no_failure_ex[OF assms(3,2)]
  by (simp add: actionValidateDkgProposalAwaitDeals_def stage_defs Let_def DKGConfirmation_IsExpired_def
      Before_def DKGQuorumCount_def fold_failed_first ret_defs dkg_transitions dkg_neq
      ordered_advance stage_advance_eq)

lemma responses_val:
  assumes "DKGProposalPayload p = Some c" "dc_Quorum c = Some q"
    and "no_failure ResponseConfirmationError c"
  shows "\<exists>out tr. actionValidateDkgProposalAwaitResponses e args p =
      Inr ((out, responses_report c, None), p\<lparr>DKGProposalPayload := Some (responses_after c)\<rparr>) \<and>
    map_of (fsm_transitions dkg_fsm) (StateDkgResponsesAwaitConfirmations,
      if out = '''' then eventAutoDKGValidateResponsesConfirmationInternal else out) = Some tr \<and>
    tr_dstState tr = responses_verdict c"
  using assms none_unconfirmed[of q "\<lambda>v. dp_Status v = ResponseConfirmed"]
    no_failure_ex[OF assms(3,2)]
  by (simp add: actionValidateDkgProposalAwaitResponses_def stage_defs Let_def
      DKGConfirmation_IsExpired_def Before_def DKGQuorumCount_def fold_failed_first ret_defs
      dkg_transitions dkg_neq ordered_advance stage_advance_eq)

text \<open>The master keys received so far, and whether two of them differ.\<close>

definition master_keys :: "DKGConfirmation \<Rightarrow> bytes list" where
  "master_keys c = map dp_DkgMasterKey
     (filter (\<lambda>v. dp_Status v = MasterKeyConfirmed) (vals (entries (dc_Quorum c))))"

definition mismatch :: "bytes list \<Rightarrow> bool" where
  "mismatch ks \<longleftrightarrow> list_ex (\<lambda>k. list_ex (\<lambda>k'. k \<noteq> k') ks) ks"

definition master_key_verdict :: "DKGConfirmation \<Rightarrow> State" where
  "master_key_verdict c =
    (if dc_ExpiresAt c < dc_UpdatedAt c then StateDkgMasterKeyAwaitCanceledByTimeout
     else if mismatch (master_keys c) then StateDkgMasterKeyAwaitCanceledByError
     else if list_all (\<lambda>v. dp_Status v = MasterKeyConfirmed) (vals (entries (dc_Quorum c)))
     then StateDkgMasterKeyCollected
     else StateDkgMasterKeyAwaitConfirmations)"

definition master_key_after :: "DKGConfirmation \<Rightarrow> DKGConfirmation" where
  "master_key_after c =
    (if master_key_verdict c = StateDkgMasterKeyAwaitCanceledByError
     then all_status (\<lambda>v. v\<lparr>dp_Status := MasterKeyConfirmationError,
            dp_Error := Some (NewFSMError ''master key is mismatched'')\<rparr>) c
     else if master_key_verdict c = StateDkgMasterKeyCollected
     then all_status (\<lambda>v. v\<lparr>dp_Status := MasterKeyConfirmed\<rparr>) c
     else c)"

lemma mismatch_hd:
  "length ks > 1 \<and> list_ex (\<lambda>k. k \<noteq> hd ks) ks \<longleftrightarrow> mismatch ks"
proof (cases ks)
  case (Cons k1 ks')
  then show ?thesis by (cases ks') (auto simp: mismatch_def list_ex_iff)
qed (simp add: mismatch_def)

lemma fold_master_keys:
  "fold (\<lambda>(k, v) (n, d, ks).
      if dp_Status v = MasterKeyConfirmationError then (n, True, ks)
      else if dp_Status v = MasterKeyConfirmed then (n - 1, d, ks @ [dp_DkgMasterKey v])
      else (n, d, ks)) m (n::int, d, ks) =
    (n - int (count_vals (\<lambda>v. dp_Status v = MasterKeyConfirmed) m),
     d \<or> list_ex (\<lambda>v. dp_Status v = MasterKeyConfirmationError) (vals m),
     ks @ map dp_DkgMasterKey (filter (\<lambda>v. dp_Status v = MasterKeyConfirmed) (vals m)))"
  by (induction m arbitrary: n d ks) auto

lemma master_key_val:
  assumes "DKGProposalPayload p = Some c" "dc_Quorum c = Some q"
    and "no_failure MasterKeyConfirmationError c"
  shows "\<exists>out tr. actionValidateDkgProposalAwaitMasterKey e args p =
      Inr ((out, None, None), p\<lparr>DKGProposalPayload := Some (master_key_after c)\<rparr>) \<and>
    map_of (fsm_transitions dkg_fsm) (StateDkgMasterKeyAwaitConfirmations,
      if out = '''' then eventAutoDKGValidateMasterKeyConfirmationInternal else out) = Some tr \<and>
    tr_dstState tr = master_key_verdict c"
  using assms none_unconfirmed[of q "\<lambda>v. dp_Status v = MasterKeyConfirmed"]
    no_failure_ex[OF assms(3,2)]
  by (simp add: actionValidateDkgProposalAwaitMasterKey_def master_key_verdict_def
      master_key_after_def all_status_def DKGConfirmation_IsExpired_def Before_def
      DKGQuorumCount_def fold_master_keys ret_defs dkg_transitions dkg_neq master_keys_def
      mismatch_hd[symmetric] del: One_nat_def)

subsection \<open>Interpretations\<close>

lemma dkg_error_law:
  assumes "DKGProposalPayload p = Some c" and "dc_Quorum c = Some q"
    and "0 \<le> i" and "err \<noteq> None" and "t \<noteq> 0"
  shows "dkg_actionConfirmationError e [dkg_error i err t] p = (case map_of q i of
      None \<Rightarrow> ret_err (errorsNew ''{ParticipantId} not exist in quorum'') p
    | Some v \<Rightarrow>
        (case errorSwitch e (dp_Status v) of
           Inl x \<Rightarrow> ret_err x p
         | Inr st \<Rightarrow> ret_event '''' (p\<lparr>DKGProposalPayload := Some (dkg_failed st i err t v c)\<rparr>)))"
  using assms
  by (cases c) (simp add: dkg_actionConfirmationError_def quorum_op_defs dkg_validate_defs
      IsZero_def dkg_failed_def Let_def split: option.splits sum.splits)

lemma errorSwitch_stage:
  "errorSwitch EventDKGCommitConfirmationError st =
     errorStatus CommitAwaitConfirmation CommitConfirmed CommitConfirmationError st"
  "errorSwitch EventDKGDealConfirmationError st =
     errorStatus DealAwaitConfirmation DealConfirmed DealConfirmationError st"
  "errorSwitch EventDKGResponseConfirmationError st =
     errorStatus ResponseAwaitConfirmation ResponseConfirmed ResponseConfirmationError st"
  "errorSwitch EventDKGMasterKeyConfirmationError st =
     errorStatus MasterKeyAwaitConfirmation MasterKeyConfirmed MasterKeyConfirmationError st"
  by (simp_all add: errorSwitch_def dkg_neq)

lemmas dkg_error_laws =
  dkg_error_law [where e = EventDKGCommitConfirmationError, unfolded errorSwitch_stage]
  dkg_error_law [where e = EventDKGDealConfirmationError, unfolded errorSwitch_stage]
  dkg_error_law [where e = EventDKGResponseConfirmationError, unfolded errorSwitch_stage]
  dkg_error_law [where e = EventDKGMasterKeyConfirmationError, unfolded errorSwitch_stage]

interpretation commits: dkg_stage actionCommitConfirmationReceived
  actionValidateDkgProposalAwaitCommits EventDKGCommitConfirmationReceived
  eventAutoDKGValidateConfirmationCommitsInternal EventDKGCommitConfirmationError
  StateDkgCommitsAwaitConfirmations StateDkgCommitsAwaitCanceledByError mk_commit
  CommitAwaitConfirmation CommitConfirmed CommitConfirmationError
  "''cannot confirm commit with {Status} = {\"%s\"}''" "\<lambda>d v. v\<lparr>dp_DkgCommit := d\<rparr>" "\<lambda>b c. c"
  commits_verdict commits_after commits_report
  by (unfold_locales, (rule commits_recv; assumption), (rule recv_rejects(1); assumption),
      (rule commits_val; assumption), (rule dkg_error_laws(1); assumption))
     (simp_all add: dkg_transitions dkg_callbacks dkg_autos dkg_neq)

interpretation deals: dkg_stage actionDealConfirmationReceived
  actionValidateDkgProposalAwaitDeals EventDKGDealConfirmationReceived
  eventAutoDKGValidateConfirmationDealsInternal EventDKGDealConfirmationError
  StateDkgDealsAwaitConfirmations StateDkgDealsAwaitCanceledByError mk_deal
  DealAwaitConfirmation DealConfirmed DealConfirmationError
  "''cannot confirm deal with {Status} = {\"%s\"}''" "\<lambda>d v. v\<lparr>dp_DkgDeal := d\<rparr>" "\<lambda>b c. c"
  deals_verdict deals_after deals_report
  by (unfold_locales, (rule deals_recv; assumption), (rule recv_rejects(2); assumption),
      (rule deals_val; assumption), (rule dkg_error_laws(2); assumption))
     (simp_all add: dkg_transitions dkg_callbacks dkg_autos dkg_neq)

interpretation responses: dkg_stage actionResponseConfirmationReceived
  actionValidateDkgProposalAwaitResponses EventDKGResponseConfirmationReceived
  eventAutoDKGValidateResponsesConfirmationInternal EventDKGResponseConfirmationError
  StateDkgResponsesAwaitConfirmations StateDkgResponsesAwaitCanceledByError mk_response
  ResponseAwaitConfirmation ResponseConfirmed ResponseConfirmationError
  "''cannot confirm response with {Status} = {\"%s\"}''" "\<lambda>d v. v\<lparr>dp_DkgResponse := d\<rparr>" "\<lambda>b c. c"
  responses_verdict responses_after responses_report
  by (unfold_locales, (rule responses_recv; assumption), (rule recv_rejects(3); assumption),
      (rule responses_val; assumption), (rule dkg_error_laws(3); assumption))
     (simp_all add: dkg_transitions dkg_callbacks dkg_autos dkg_neq)

interpretation master: dkg_stage actionMasterKeyConfirmationReceived
  actionValidateDkgProposalAwaitMasterKey EventDKGMasterKeyConfirmationReceived
  eventAutoDKGValidateMasterKeyConfirmationInternal EventDKGMasterKeyConfirmationError
  StateDkgMasterKeyAwaitConfirmations StateDkgMasterKeyAwaitCanceledByError mk_master_key
  MasterKeyAwaitConfirmation MasterKeyConfirmed MasterKeyConfirmationError
  "''cannot confirm response with {Status} = {\"%s\"}''" "\<lambda>d v. v\<lparr>dp_DkgMasterKey := d\<rparr>"
  "\<lambda>b c. c\<lparr>dc_PubPolyBz := b\<rparr>" master_key_verdict master_key_after "\<lambda>c. None"
  by (unfold_locales, (rule master_key_recv; assumption), (rule recv_rejects(4); assumption),
      (rule master_key_val; assumption), (rule dkg_error_laws(4); assumption))
     (simp_all add: dkg_transitions dkg_callbacks dkg_autos dkg_neq)

interpretation commits: dkg_simple_stage actionCommitConfirmationReceived
  actionValidateDkgProposalAwaitCommits EventDKGCommitConfirmationReceived
  eventAutoDKGValidateConfirmationCommitsInternal EventDKGCommitConfirmationError
  StateDkgCommitsAwaitConfirmations StateDkgCommitsAwaitCanceledByError mk_commit
  CommitAwaitConfirmation CommitConfirmed CommitConfirmationError
  "''cannot confirm commit with {Status} = {\"%s\"}''" "\<lambda>d v. v\<lparr>dp_DkgCommit := d\<rparr>" "\<lambda>b c. c"
  commits_verdict commits_after commits_report StateDkgCommitsAwaitCanceledByTimeout
  StateDkgDealsAwaitConfirmations DealAwaitConfirmation
  by unfold_locales (simp_all add: commits_verdict_def commits_after_def dkg_neq)

interpretation deals: dkg_simple_stage actionDealConfirmationReceived
  actionValidateDkgProposalAwaitDeals EventDKGDealConfirmationReceived
  eventAutoDKGValidateConfirmationDealsInternal EventDKGDealConfirmationError
  StateDkgDealsAwaitConfirmations StateDkgDealsAwaitCanceledByError mk_deal
  DealAwaitConfirmation DealConfirmed DealConfirmationError
  "''cannot confirm deal with {Status} = {\"%s\"}''" "\<lambda>d v. v\<lparr>dp_DkgDeal := d\<rparr>" "\<lambda>b c. c"
  deals_verdict deals_after deals_report StateDkgDealsAwaitCanceledByTimeout
  StateDkgResponsesAwaitConfirmations ResponseAwaitConfirmation
  by unfold_locales (simp_all add: deals_verdict_def deals_after_def dkg_neq)

interpretation responses: dkg_simple_stage actionResponseConfirmationReceived
  actionValidateDkgProposalAwaitResponses EventDKGResponseConfirmationReceived
  eventAutoDKGValidateResponsesConfirmationInternal EventDKGResponseConfirmationError
  StateDkgResponsesAwaitConfirmations StateDkgResponsesAwaitCanceledByError mk_response
  ResponseAwaitConfirmation ResponseConfirmed ResponseConfirmationError
  "''cannot confirm response with {Status} = {\"%s\"}''" "\<lambda>d v. v\<lparr>dp_DkgResponse := d\<rparr>" "\<lambda>b c. c"
  responses_verdict responses_after responses_report StateDkgResponsesAwaitCanceledByTimeout
  StateDkgMasterKeyAwaitConfirmations MasterKeyAwaitConfirmation
  by unfold_locales (simp_all add: responses_verdict_def responses_after_def dkg_neq)

section \<open>Initialization\<close>

definition dkg_fresh :: "int \<Rightarrow> SignatureProposalParticipant \<Rightarrow> DKGProposalParticipant" where
  "dkg_fresh i v = \<lparr>dp_ParticipantID = i, dp_Username = sp_Username v,
     dp_DkgPubKey = sp_DkgPubKey v, dp_DkgCommit = [], dp_DkgDeal = [], dp_DkgResponse = [],
     dp_DkgMasterKey = [], dp_Status = CommitAwaitConfirmation, dp_Error = None,
     dp_UpdatedAt = sp_UpdatedAt v\<rparr>"

definition dkg_init :: "time \<Rightarrow> SignatureProposalQuorum \<Rightarrow> DKGConfirmation" where
  "dkg_init t q = \<lparr>dc_Quorum = Some (map_vals dkg_fresh q), dc_CreatedAt = t, dc_UpdatedAt = 0,
     dc_ExpiresAt = t + DkgConfirmationDeadline, dc_PubPolyBz = []\<rparr>"

definition dkg_pubkeys :: "int \<Rightarrow> DKGConfirmation \<Rightarrow> response" where
  "dkg_pubkeys threshold c = RespPubKeys (map (\<lambda>participant.
     \<lparr>ke_ParticipantId = dp_ParticipantID participant, ke_Username = dp_Username participant,
      ke_DkgPubKey = dp_DkgPubKey participant, ke_Threshold = threshold\<rparr>) (dkg_ordered c))"

lemma fillDKGQuorum_eq:
  assumes "distinct (keys q)"
  shows "map_vals (\<lambda>i v. v\<lparr>dp_ParticipantID := i\<rparr>) (fillDKGQuorum q) = map_vals dkg_fresh q"
    and "keys (fillDKGQuorum q) = keys q"
proof -
  define g where "g = (\<lambda>(i::int) participant. (dkg_fresh i participant)\<lparr>dp_ParticipantID := 0\<rparr>)"
  have eq: "(\<lambda>(participantId, participant) quorum. AList.update participantId
       \<lparr>dp_ParticipantID = 0, dp_Username = sp_Username participant,
        dp_DkgPubKey = sp_DkgPubKey participant, dp_DkgCommit = [], dp_DkgDeal = [],
        dp_DkgResponse = [], dp_DkgMasterKey = [], dp_Status = CommitAwaitConfirmation,
        dp_Error = None, dp_UpdatedAt = sp_UpdatedAt participant\<rparr> quorum) =
      (\<lambda>(k, v). AList.update k (g k v))"
    by (simp add: g_def dkg_fresh_def fun_eq_iff)
  have "fillDKGQuorum q = map_vals g q"
    unfolding fillDKGQuorum_def eq using fold_update_fresh[OF assms, of "[]" g] by simp
  then show "map_vals (\<lambda>i v. v\<lparr>dp_ParticipantID := i\<rparr>) (fillDKGQuorum q) = map_vals dkg_fresh q"
    "keys (fillDKGQuorum q) = keys q"
    by (simp_all add: map_vals_map_vals comp_def g_def dkg_fresh_def [abs_def])
qed

lemma roster_first:
  assumes "roster_ok p" and "sig_quorum p = Some q"
  shows "\<exists>v. map_of q 0 = Some v \<and> sp_Threshold v = Threshold p"
proof -
  have "keys q = map int [0..<length q]" "2 \<le> length q"
    and all: "list_all (\<lambda>(i, v). sp_ParticipantID v = i \<and> sp_Threshold v = Threshold p \<and>
       UsernameMinLength \<le> length (sp_Username v)) q"
    using assms by (simp_all add: roster_ok_def)
  then have "0 \<in> set (keys q)" by (auto intro!: image_eqI[of _ _ 0])
  then obtain v where v: "map_of q 0 = Some v" unfolding has_key_keys[symmetric] by blast
  then have "(0, v) \<in> set q" by (rule map_of_SomeD)
  with all v show ?thesis by (auto simp: list_all_iff)
qed

lemma dkg_init_action:
  assumes "roster_ok p" and "DKGProposalPayload p = None" and q: "sig_quorum p = Some q"
  shows "actionInitDKGProposal e [ReqDefault r] p =
    Inr ((e, Some (dkg_pubkeys (Threshold p) (dkg_init (dr_CreatedAt r) q)), None),
      p\<lparr>DKGProposalPayload := Some (dkg_init (dr_CreatedAt r) q)\<rparr>)"
proof -
  from assms(1) q obtain c where c: "SignatureProposalPayload p = Some c" "sc_Quorum c = Some q"
    and d: "distinct (keys q)"
    by (auto elim!: roster_ok_quorum)
  from roster_first[OF assms(1) q] obtain v where v: "map_of q 0 = Some v" "sp_Threshold v = Threshold p"
    by blast
  have ord: "DKGProposalQuorum_GetOrderedParticipants (Some (fillDKGQuorum q)) =
      (dkg_ordered (dkg_init t q), Some (map_vals dkg_fresh q))" for t
    by (simp only: DKGProposalQuorum_GetOrderedParticipants_def dkg_ordered_def dkg_init_def
        fillDKGQuorum_eq[OF d] Let_def entries_simps option.map DKGConfirmation.select_convs
        keys_map_vals)
  show ?thesis
    by (simp add: actionInitDKGProposal_def assms(2) c v ord[of "dr_CreatedAt r"] foldR_append_map
        ret_resp_def dkg_pubkeys_def) (simp add: dkg_init_def Add_def)
qed

lemma dkg_init_verdict:
  assumes "q \<noteq> []"
  shows "commits_verdict (dkg_init t q) = (if t + DkgConfirmationDeadline < 0
      then StateDkgCommitsAwaitCanceledByTimeout else StateDkgCommitsAwaitConfirmations)"
    and "commits_after (dkg_init t q) = dkg_init t q"
    and "commits_report (dkg_init t q) = None"
proof -
  have "\<not> list_all (\<lambda>v. dp_Status v = CommitConfirmed) (vals (map_vals dkg_fresh q))"
    using assms by (cases q) (auto simp: dkg_fresh_def)
  then show "commits_verdict (dkg_init t q) = (if t + DkgConfirmationDeadline < 0
      then StateDkgCommitsAwaitCanceledByTimeout else StateDkgCommitsAwaitConfirmations)"
    "commits_after (dkg_init t q) = dkg_init t q" "commits_report (dkg_init t q) = None"
    by (simp_all add: stage_defs dkg_init_def dkg_neq)
qed

lemma no_failure_init: "no_failure st (dkg_init t q)" if "st \<noteq> CommitAwaitConfirmation"
  using that by (auto simp: no_failure_def dkg_init_def list_all_iff set_map_vals dkg_fresh_def)

lemma dkg_init_Do:
  assumes "roster_ok p" and "DKGProposalPayload p = None" and q: "sig_quorum p = Some q"
    and w: "w = (if dr_CreatedAt r + DkgConfirmationDeadline < 0
      then StateDkgCommitsAwaitCanceledByTimeout else StateDkgCommitsAwaitConfirmations)"
  shows "FSM_Do EventDKGInitProcess [ReqDefault r] (in_state dkg_fsm StateSignatureProposalCollected) p =
    Inr ((Some \<lparr>resp_State = w,
        resp_Data = Some (dkg_pubkeys (Threshold p) (dkg_init (dr_CreatedAt r) q))\<rparr>, None),
      in_state dkg_fsm w, p\<lparr>DKGProposalPayload := Some (dkg_init (dr_CreatedAt r) q)\<rparr>)"
proof -
  let ?c = "dkg_init (dr_CreatedAt r) q"
  let ?p = "p\<lparr>DKGProposalPayload := Some ?c\<rparr>"
  have ne: "q \<noteq> []" using assms(1) q by (auto simp: roster_ok_def)
  note verdict = dkg_init_verdict[OF ne, of "dr_CreatedAt r"]
  obtain out tr where v: "actionValidateDkgProposalAwaitCommits
      eventAutoDKGValidateConfirmationCommitsInternal [ReqDefault r] ?p =
      Inr ((out, None, None), ?p)"
    and tr: "map_of (fsm_transitions dkg_fsm) (StateDkgCommitsAwaitConfirmations,
      if out = '''' then eventAutoDKGValidateConfirmationCommitsInternal else out) = Some tr"
      "tr_dstState tr = w"
    using commits.val_law[of ?p ?c "map_vals dkg_fresh q" "[ReqDefault r]"] no_failure_init[of _ _ q]
      verdict w by (force simp: dkg_init_def)
  have st: "map_of (fsm_transitions dkg_fsm) (StateSignatureProposalCollected,
      if EventDKGInitProcess = '''' then EventDKGInitProcess else EventDKGInitProcess) =
      Some (tr_public EventDKGInitProcess StateDkgCommitsAwaitConfirmations)"
    using dkg_transitions(1) by (simp add: StateDkgInitial_def)
  from FSM_Do_collect[OF dkg_transitions(1)[unfolded StateDkgInitial_def] dkg_autos(15)
      dkg_callbacks(1) dkg_init_action[OF assms(1-3)] st _ dkg_autos(2) dkg_callbacks(4) v tr]
  show ?thesis by simp
qed

lemma dkg_init_reject:
  assumes "DKGProposalPayload p = None" and "\<nexists>r. args = [ReqDefault r]"
  shows "\<exists>x. actionInitDKGProposal e args p = ret_err x p"
proof -
  have "length args = 1 \<Longrightarrow> as_Default (hd args) = None"
    using assms(2) by (cases args) (auto simp: as_Some_iff not_Some_eq[symmetric])
  then show ?thesis using assms(1) by (auto simp: actionInitDKGProposal_def)
qed

lemma dkg_init_cases:
  assumes "roster_ok p" and "DKGProposalPayload p = None" and q: "sig_quorum p = Some q"
    and res: "FSM_Do EventDKGInitProcess args (in_state dkg_fsm StateSignatureProposalCollected) p =
      Inr ((resp, err), g, p')"
  obtains (rejected) x data where "resp = Some \<lparr>resp_State = '''', resp_Data = data\<rparr>"
      "err = Some x" "p' = p" "g = in_state dkg_fsm StateSignatureProposalCollected"
  | (accepted) r w where "args = [ReqDefault r]"
      "w = (if dr_CreatedAt r + DkgConfirmationDeadline < 0
        then StateDkgCommitsAwaitCanceledByTimeout else StateDkgCommitsAwaitConfirmations)"
      "resp = Some \<lparr>resp_State = w,
        resp_Data = Some (dkg_pubkeys (Threshold p) (dkg_init (dr_CreatedAt r) q))\<rparr>"
      "err = None" "g = in_state dkg_fsm w"
      "p' = p\<lparr>DKGProposalPayload := Some (dkg_init (dr_CreatedAt r) q)\<rparr>"
proof -
  note route = FSM_Do_callback[OF dkg_transitions(1)[unfolded StateDkgInitial_def]
      dkg_autos(15) dkg_callbacks(1), of args p]
  show thesis
  proof (cases "\<exists>r. args = [ReqDefault r]")
    case True
    then obtain r where "args = [ReqDefault r]" by blast
    with that(2)[OF this refl] dkg_init_Do[OF assms(1-3) refl, of r] res show thesis by simp
  next
    case False
    with dkg_init_reject[OF assms(2), of args EventDKGInitProcess] res that(1) show thesis unfolding route by (auto simp: ret_err_def)
  qed
qed

end
