(* ===== verification/Signing_Rounds.thy ===== *)
theory Signing_Rounds
  imports Signing_Proposal Dkg_Stages
begin

text \<open>
  The behaviour of the signing machine: what its validation decides in terms of the threshold,
  and every outcome of its five public events.
\<close>

section \<open>The threshold decision\<close>

definition signed_count :: "SigningConfirmation \<Rightarrow> nat" where
  "signed_count c = count_vals (\<lambda>v. gp_Status v = SigningPartialSignsConfirmed) (entries (gc_Quorum c))"

definition failed_count :: "SigningConfirmation \<Rightarrow> nat" where
  "failed_count c = count_vals (\<lambda>v. gp_Status v = SigningError) (entries (gc_Quorum c))"

definition signer_count :: "SigningConfirmation \<Rightarrow> nat" where
  "signer_count c = length (entries (gc_Quorum c))"

text \<open>
  With threshold \<open>t\<close>: too many failures for \<open>t\<close> signers to remain cancels the batch, \<open>t\<close> signatures
  complete it, otherwise it keeps waiting.
\<close>

definition signing_verdict :: "int \<Rightarrow> SigningConfirmation \<Rightarrow> State" where
  "signing_verdict t c =
    (if gc_ExpiresAt c < gc_UpdatedAt c then StateSigningPartialSignsAwaitCancelledByTimeout
     else if int (signer_count c) - int (failed_count c) < t
     then StateSigningPartialSignsAwaitCancelledByError
     else if t \<le> int (signed_count c) then StateSigningPartialSignsCollected
     else StateSigningAwaitPartialSigns)"

definition signing_after :: "int \<Rightarrow> SigningConfirmation \<Rightarrow> SigningConfirmation" where
  "signing_after t c =
    (if signing_verdict t c = StateSigningPartialSignsCollected
     then c\<lparr>gc_Quorum := map_option (map_vals (\<lambda>i v.
            v\<lparr>gp_Status := SigningProcess, gp_ParticipantID := i\<rparr>)) (gc_Quorum c)\<rparr>
     else c)"

definition signing_ordered :: "SigningConfirmation \<Rightarrow> SigningProposalParticipant list" where
  "signing_ordered c = map (\<lambda>i. the (map_of (entries (gc_Quorum c)) i))
     (sort (keys (entries (gc_Quorum c))))"

definition signing_report :: "int \<Rightarrow> SigningConfirmation \<Rightarrow> response option" where
  "signing_report t c =
    (if signing_verdict t c = StateSigningPartialSignsCollected
     then Some (RespSigningProcess
       \<lparr>spr_BatchID = gc_BatchID c, spr_SrcPayload = gc_SrcPayload c,
        spr_Participants = map (\<lambda>v. \<lparr>pse_ParticipantId = gp_ParticipantID v,
            pse_Username = gp_Username v, pse_PartialSigns = entries (gp_PartialSigns v)\<rparr>)
          (filter (\<lambda>v. length (entries (gp_PartialSigns v)) \<noteq> 0)
            (signing_ordered (signing_after t c)))\<rparr>)
     else None)"

lemma fold_signing_counts:
  "fold (\<lambda>(k, v) (f, n). if gp_Status v = SigningError then (f + 1, n)
      else if gp_Status v = SigningPartialSignsConfirmed then (f, n - 1) else (f, n)) m (f::int, n::int) =
    (f + int (count_vals (\<lambda>v. gp_Status v = SigningError) m),
     n - int (count_vals (\<lambda>v. gp_Status v = SigningPartialSignsConfirmed) m))"
  by (induction m arbitrary: f n) auto

lemma ordered_signing:
  "SigningProposalQuorum_GetOrderedParticipants
     (Some (map_vals (\<lambda>_ v. v\<lparr>gp_Status := SigningProcess\<rparr>) q)) =
   (signing_ordered (c\<lparr>gc_Quorum := Some (map_vals (\<lambda>i v.
            v\<lparr>gp_Status := SigningProcess, gp_ParticipantID := i\<rparr>) q)\<rparr>),
    Some (map_vals (\<lambda>i v. v\<lparr>gp_Status := SigningProcess, gp_ParticipantID := i\<rparr>) q))"
proof -
  have "map_vals (\<lambda>i v. v\<lparr>gp_ParticipantID := i\<rparr>)
      (map_vals (\<lambda>_ v. v\<lparr>gp_Status := SigningProcess\<rparr>) q) =
      map_vals (\<lambda>i v. v\<lparr>gp_Status := SigningProcess, gp_ParticipantID := i\<rparr>) q"
    by (simp add: map_vals_map_vals comp_def)
  then show ?thesis
    by (simp add: SigningProposalQuorum_GetOrderedParticipants_def signing_ordered_def)
qed

lemma signing_val:
  assumes "SigningProposalPayload p = Some c" and "gc_Quorum c = Some q"
  shows "\<exists>out tr. actionValidateSigningPartialSignsAwaitConfirmations e args p =
      Inr ((out, signing_report (Threshold p) c, None),
        p\<lparr>SigningProposalPayload := Some (signing_after (Threshold p) c)\<rparr>) \<and>
    map_of (fsm_transitions signing_fsm) (StateSigningAwaitPartialSigns,
      if out = '''' then eventAutoSigningValidatePartialSignInternal else out) = Some tr \<and>
    tr_dstState tr = signing_verdict (Threshold p) c"
  using assms ordered_signing[of q c]
  by (simp add: actionValidateSigningPartialSignsAwaitConfirmations_def signing_verdict_def
      signing_after_def signing_report_def SigningConfirmation_IsExpired_def Before_def
      SigningQuorumCount_def GetThreshold_def fold_signing_counts ret_defs signing_transitions
      signing_neq signed_count_def failed_count_def signer_count_def Let_def)

section \<open>Starting a batch\<close>

definition signing_fresh :: "time \<Rightarrow> int \<Rightarrow> DKGProposalParticipant \<Rightarrow> SigningProposalParticipant" where
  "signing_fresh t i v = \<lparr>gp_ParticipantID = i, gp_Username = dp_Username v,
     gp_Status = SigningAwaitPartialSigns, gp_PartialSigns = None, gp_Error = None,
     gp_UpdatedAt = t\<rparr>"

definition signing_quorum_of :: "time \<Rightarrow> DKGProposalQuorum \<Rightarrow> SigningProposalQuorum" where
  "signing_quorum_of t dq = map (\<lambda>i. (i, signing_fresh t i (the (map_of dq i)))) (sort (keys dq))"

definition signing_started ::
  "SigningBatchProposalStartRequest \<Rightarrow> DKGProposalQuorum \<Rightarrow> SigningConfirmation \<Rightarrow> SigningConfirmation"
where
  "signing_started r dq c = c\<lparr>gc_CreatedAt := bs_CreatedAt r, gc_BatchID := bs_BatchID r,
     gc_InitiatorId := bs_ParticipantId r, gc_SrcPayload := bs_SigningTasks r,
     gc_Quorum := Some (signing_quorum_of (bs_CreatedAt r) dq)\<rparr>"

definition dkg_renumbered :: "DKGConfirmation \<Rightarrow> DKGConfirmation" where
  "dkg_renumbered dc = dc\<lparr>dc_Quorum := map_option (map_vals (\<lambda>i v.
     v\<lparr>dp_ParticipantID := i\<rparr>)) (dc_Quorum dc)\<rparr>"

definition signing_invitations :: "SigningConfirmation \<Rightarrow> response" where
  "signing_invitations c = RespSigningInvitations
     \<lparr>pir_BatchID = gc_BatchID c, pir_InitiatorId = gc_InitiatorId c,
      pir_Participants = map (\<lambda>v. \<lparr>sie_ParticipantId = gp_ParticipantID v,
        sie_Username = gp_Username v, sie_Status = signing_status_uint8 (gp_Status v)\<rparr>)
        (signing_ordered c),
      pir_SrcPayload = gc_SrcPayload c\<rparr>"

lemma keys_signing_quorum_of [simp]: "keys (signing_quorum_of t dq) = sort (keys dq)"
  by (simp add: signing_quorum_of_def comp_def)

lemma fillSigningQuorum_eq:
  assumes "distinct (map dp_ParticipantID vs)"
  shows "fillSigningQuorum t vs = map (\<lambda>v. (dp_ParticipantID v,
    (signing_fresh t 0 v))) vs"
proof -
  have "fold (\<lambda>dkgEntry. AList.update (dp_ParticipantID dkgEntry) (signing_fresh t 0 dkgEntry)) vs [] =
      fold (\<lambda>(k, v). AList.update k (signing_fresh t 0 v)) (map (\<lambda>v. (dp_ParticipantID v, v)) vs) []"
    by (simp add: fold_map comp_def)
  also have "\<dots> = map_vals (\<lambda>_. signing_fresh t 0) (map (\<lambda>v. (dp_ParticipantID v, v)) vs)"
    using fold_update_fresh[of "map (\<lambda>v. (dp_ParticipantID v, v)) vs" "[]" "\<lambda>_. signing_fresh t 0"]
      assms by (simp add: comp_def)
  finally show ?thesis
    by (simp add: fillSigningQuorum_def signing_fresh_def [abs_def] map_vals_def comp_def)
qed

lemma start_ordered:
  assumes "distinct (keys dq)"
  shows "DKGProposalQuorum_GetOrderedParticipants (Some dq) =
      (map (\<lambda>i. (the (map_of dq i))\<lparr>dp_ParticipantID := i\<rparr>) (sort (keys dq)),
       Some (map_vals (\<lambda>i v. v\<lparr>dp_ParticipantID := i\<rparr>) dq))"
    and "SigningProposalQuorum_GetOrderedParticipants (Some (fillSigningQuorum t
        (map (\<lambda>i. (the (map_of dq i))\<lparr>dp_ParticipantID := i\<rparr>) (sort (keys dq))))) =
      (vals (signing_quorum_of t dq), Some (signing_quorum_of t dq))"
proof -
  have "the (map_of (map_vals (\<lambda>i v. v\<lparr>dp_ParticipantID := i\<rparr>) dq) i) =
      (the (map_of dq i))\<lparr>dp_ParticipantID := i\<rparr>" if "i \<in> set (sort (keys dq))" for i
    using that has_key_keys[of dq i] by auto
  then show "DKGProposalQuorum_GetOrderedParticipants (Some dq) =
      (map (\<lambda>i. (the (map_of dq i))\<lparr>dp_ParticipantID := i\<rparr>) (sort (keys dq)),
       Some (map_vals (\<lambda>i v. v\<lparr>dp_ParticipantID := i\<rparr>) dq))"
    by (auto simp: DKGProposalQuorum_GetOrderedParticipants_def)
  let ?vs = "map (\<lambda>i. (the (map_of dq i))\<lparr>dp_ParticipantID := i\<rparr>) (sort (keys dq))"
  have ids: "map dp_ParticipantID ?vs = sort (keys dq)" by (simp add: comp_def)
  have fill: "map_vals (\<lambda>i v. v\<lparr>gp_ParticipantID := i\<rparr>) (fillSigningQuorum t ?vs) =
      signing_quorum_of t dq"
    using fillSigningQuorum_eq[of ?vs t] assms
    by (simp add: ids signing_quorum_of_def map_vals_def comp_def signing_fresh_def)
  have keys: "keys (fillSigningQuorum t ?vs) = sort (keys dq)"
    using fillSigningQuorum_eq[of ?vs t] assms by (simp add: ids comp_def)
  have "map (\<lambda>i. the (map_of (signing_quorum_of t dq) i)) (sort (keys dq)) =
      vals (signing_quorum_of t dq)"
    using lookup_keys[of "signing_quorum_of t dq"] assms by simp
  then show "SigningProposalQuorum_GetOrderedParticipants (Some (fillSigningQuorum t ?vs)) =
      (vals (signing_quorum_of t dq), Some (signing_quorum_of t dq))"
    by (simp only: SigningProposalQuorum_GetOrderedParticipants_def Let_def entries_simps
        option.map fill keys sorted_sort_id[OF sorted_sort])
qed

lemma signing_start_action:
  assumes "SigningProposalPayload p = Some c" and "DKGProposalPayload p = Some dc"
    and "dc_Quorum dc = Some dq" and "distinct (keys dq)"
    and "SigningBatchProposalStartRequest_Validate r = None"
    and c': "c' = signing_started r dq c"
  shows "actionStartSigningProposal e [ReqSigningStart r] p =
    Inr ((e, Some (signing_invitations c'), None),
      p\<lparr>DKGProposalPayload := Some (dkg_renumbered dc), SigningProposalPayload := Some c'\<rparr>)"
proof -
  have "signing_ordered c' = vals (signing_quorum_of (bs_CreatedAt r) dq)"
    using lookup_keys[of "signing_quorum_of (bs_CreatedAt r) dq"] assms(4)
    by (simp add: signing_ordered_def c' signing_started_def sorted_sort_id[OF sorted_sort])
  then show ?thesis
    using assms(1-3,5) start_ordered[OF assms(4)]
    by (simp add: actionStartSigningProposal_def dkg_renumbered_def c' signing_started_def
        signing_invitations_def ret_resp_def Let_def)
qed

lemma signing_started_counts:
  assumes "dc_Quorum dc = Some dq"
  shows "signed_count (signing_started r dq c) = 0" "failed_count (signing_started r dq c) = 0"
    "signer_count (signing_started r dq c) = length dq"
  by (simp_all add: signed_count_def failed_count_def signer_count_def signing_started_def
      signing_quorum_of_def count_vals_def filter_map comp_def signing_fresh_def)

lemma signing_start_Do:
  assumes "SigningProposalPayload p = Some c" and "DKGProposalPayload p = Some dc"
    and "dc_Quorum dc = Some dq" and "distinct (keys dq)"
    and "SigningBatchProposalStartRequest_Validate r = None"
    and c': "c' = signing_started r dq c"
  shows "FSM_Do EventSigningStart [ReqSigningStart r] (in_state signing_fsm StateSigningIdle) p =
    Inr ((Some \<lparr>resp_State = signing_verdict (Threshold p) c',
        resp_Data = (if signing_report (Threshold p) c' = None
          then Some (signing_invitations c') else signing_report (Threshold p) c')\<rparr>, None),
      in_state signing_fsm (signing_verdict (Threshold p) c'),
      p\<lparr>DKGProposalPayload := Some (dkg_renumbered dc),
        SigningProposalPayload := Some (signing_after (Threshold p) c')\<rparr>)"
proof -
  let ?p = "p\<lparr>DKGProposalPayload := Some (dkg_renumbered dc), SigningProposalPayload := Some c'\<rparr>"
  let ?args = "[ReqSigningStart r]"
  obtain q where q: "gc_Quorum c' = Some q" by (simp add: c' signing_started_def)
  obtain out tr where v: "actionValidateSigningPartialSignsAwaitConfirmations
      eventAutoSigningValidatePartialSignInternal ?args ?p =
      Inr ((out, signing_report (Threshold p) c', None),
        p\<lparr>DKGProposalPayload := Some (dkg_renumbered dc),
          SigningProposalPayload := Some (signing_after (Threshold p) c')\<rparr>)"
    and tr: "map_of (fsm_transitions signing_fsm) (StateSigningAwaitPartialSigns,
      if out = '''' then eventAutoSigningValidatePartialSignInternal else out) = Some tr"
      "tr_dstState tr = signing_verdict (Threshold p) c'"
    using signing_val[of ?p c' q eventAutoSigningValidatePartialSignInternal ?args] q by force
  have st: "map_of (fsm_transitions signing_fsm) (StateSigningIdle,
      if EventSigningStart = '''' then EventSigningStart else EventSigningStart) =
      Some (tr_public EventSigningStart StateSigningAwaitPartialSigns)"
    using signing_transitions(2) by simp
  from FSM_Do_collect[OF signing_transitions(2) signing_autos(7) signing_callbacks(2)
      signing_start_action[OF assms] st _ signing_autos(3) signing_callbacks(4) v tr]
  show ?thesis by simp
qed

section \<open>Replies to a batch\<close>

abbreviation partial_signs :: "string \<Rightarrow> int \<Rightarrow> PartialSign list \<Rightarrow> time \<Rightarrow> request" where
  "partial_signs b i ss t \<equiv> ReqPartialSigns \<lparr>bp_BatchID = b, bp_ParticipantId = i,
     bp_PartialSigns = ss, bp_CreatedAt = t\<rparr>"

abbreviation sign_error :: "int \<Rightarrow> FSMError option \<Rightarrow> time \<Rightarrow> request" where
  "sign_error i e t \<equiv> ReqSigError \<lparr>se_ParticipantId = i, se_Error = e, se_CreatedAt = t\<rparr>"

definition store_signs :: "PartialSign list \<Rightarrow> SigningProposalParticipant \<Rightarrow> (string, bytes) gomap" where
  "store_signs ss v = fold (\<lambda>s. AList.update (ps_MessageID s) (ps_Sign s)) ss
     (entries (gp_PartialSigns v))"

definition signing_signed ::
  "int \<Rightarrow> PartialSign list \<Rightarrow> time \<Rightarrow> SigningProposalParticipant \<Rightarrow> SigningConfirmation \<Rightarrow>
   SigningConfirmation"
where
  "signing_signed i ss t v c = c\<lparr>gc_Quorum := Some (AList.update i
     (v\<lparr>gp_PartialSigns := Some (store_signs ss v), gp_Status := SigningPartialSignsConfirmed,
        gp_UpdatedAt := t\<rparr>) (entries (gc_Quorum c)))\<rparr>"

definition signing_failed ::
  "int \<Rightarrow> FSMError option \<Rightarrow> time \<Rightarrow> SigningProposalParticipant \<Rightarrow> SigningConfirmation \<Rightarrow>
   SigningConfirmation"
where
  "signing_failed i e t v c = c\<lparr>gc_Quorum := Some (AList.update i
     ((alloc_PartialSigns v)\<lparr>gp_Status := SigningError, gp_Error := e, gp_UpdatedAt := t\<rparr>)
     (entries (gc_Quorum c)))\<rparr>"

text \<open>A rejected reply may still have allocated the sender's map of partial signs.\<close>

definition signing_looked_up ::
  "int \<Rightarrow> SigningProposalParticipant \<Rightarrow> SigningConfirmation \<Rightarrow> SigningConfirmation"
where
  "signing_looked_up i v c = c\<lparr>gc_Quorum := Some (AList.update i (alloc_PartialSigns v)
     (entries (gc_Quorum c)))\<rparr>"

lemma update_update_same: "AList.update k v (AList.update k w m) = AList.update k v m"
  by (induction m) auto

lemma entries_alloc: "entries (gp_PartialSigns (alloc_PartialSigns v)) = entries (gp_PartialSigns v)"
  by (auto simp: alloc_PartialSigns_def split: option.splits)

lemma partial_sign_action:
  assumes "SigningProposalPayload p = Some c" and "gc_Quorum c = Some q"
    and "SignatureProposalPayload p = Some sc"
    and "SigningProposalBatchPartialSignRequests_Validate
      \<lparr>bp_BatchID = b, bp_ParticipantId = i, bp_PartialSigns = ss, bp_CreatedAt = t\<rparr> = None"
  shows "actionPartialSignConfirmationReceived e [partial_signs b i ss t] p =
    (case map_of q i of
       None \<Rightarrow> ret_err (errorsNew ''{ParticipantId} not exist in quorum'') p
     | Some v \<Rightarrow>
         if gp_Status v \<noteq> SigningAwaitPartialSigns
         then ret_err (Errorf ''cannot confirm response with {Status} = {\"%s\"}''
                [AStr (SigningParticipantStatus_String (gp_Status v))])
                (p\<lparr>SigningProposalPayload := Some (signing_looked_up i v c)\<rparr>)
         else ret_event '''' (p\<lparr>SigningProposalPayload := Some (signing_signed i ss t v c),
                SignatureProposalPayload := Some (sc\<lparr>sc_UpdatedAt := t\<rparr>)\<rparr>))"
  using assms
  by (auto simp: actionPartialSignConfirmationReceived_def quorum_op_defs touchSignatureProposal_def
      signing_signed_def signing_looked_up_def Let_def update_update_same store_signs_def entries_alloc
      alloc_PartialSigns_def split: option.splits)

lemma sign_error_action:
  assumes "SigningProposalPayload p = Some c" and "gc_Quorum c = Some q"
    and "SignatureProposalPayload p = Some sc" and "0 \<le> i" and "err \<noteq> None" and "t \<noteq> 0"
  shows "signing_actionConfirmationError EventSigningPartialSignError [sign_error i err t] p =
    (case map_of q i of
       None \<Rightarrow> ret_err (errorsNew ''{ParticipantId} not exist in quorum'') p
     | Some v \<Rightarrow>
         (case gp_Status v of
            SigningAwaitPartialSigns \<Rightarrow>
              ret_event '''' (p\<lparr>SigningProposalPayload := Some (signing_failed i err t v c),
                SignatureProposalPayload := Some (sc\<lparr>sc_UpdatedAt := t\<rparr>)\<rparr>)
          | SigningPartialSignsConfirmed \<Rightarrow> ret_err (errorsNew ''{Status} already confirmed'')
              (p\<lparr>SigningProposalPayload := Some (signing_looked_up i v c)\<rparr>)
          | SigningError \<Rightarrow> ret_err (Errorf ''{Status} already has {\"%s\"}''
              [AStr (SigningParticipantStatus_String SigningError)])
              (p\<lparr>SigningProposalPayload := Some (signing_looked_up i v c)\<rparr>)
          | SigningProcess \<Rightarrow> ret_err (Errorf ''{Status} now is \"%s\" and cannot set to {\"%s\"}''
              [AStr (SigningParticipantStatus_String SigningProcess),
               AStr (SigningParticipantStatus_String SigningError)])
              (p\<lparr>SigningProposalPayload := Some (signing_looked_up i v c)\<rparr>)))"
  using assms
  by (auto simp: signing_actionConfirmationError_def quorum_op_defs touchSignatureProposal_def
      SignatureProposalConfirmationErrorRequest_Validate_def IsZero_def signing_failed_def
      signing_looked_up_def Let_def update_update_same alloc_PartialSigns_def
      split: option.splits SigningParticipantStatus.splits)

abbreviation sign_event :: "Event \<Rightarrow> bool" where
  "sign_event e \<equiv> e = EventSigningPartialSignReceived \<or> e = EventSigningPartialSignError"

definition sign_action :: "Event \<Rightarrow> action" where
  "sign_action e = (if e = EventSigningPartialSignReceived then actionPartialSignConfirmationReceived
     else signing_actionConfirmationError)"

lemma sign_routes:
  assumes "sign_event e"
  shows "map_of (fsm_transitions signing_fsm) (StateSigningAwaitPartialSigns, e) =
      Some (tr_public e StateSigningAwaitPartialSigns)"
    and "map_of (fsm_callbacks signing_fsm) e = Some (sign_action e)" and "e \<noteq> ''''"
  using assms by (auto simp: signing_transitions signing_callbacks signing_neq sign_action_def)

lemma sign_accepted_Do:
  assumes "sign_event e" and act: "sign_action e e args p = ret_event '''' p1"
    and "SigningProposalPayload p1 = Some c'" and "gc_Quorum c' = Some q'"
    and th: "Threshold p1 = th"
  shows "FSM_Do e args (in_state signing_fsm StateSigningAwaitPartialSigns) p =
    Inr ((Some \<lparr>resp_State = signing_verdict th c', resp_Data = signing_report th c'\<rparr>, None),
      in_state signing_fsm (signing_verdict th c'),
      p1\<lparr>SigningProposalPayload := Some (signing_after th c')\<rparr>)"
proof -
  obtain out tr where v: "actionValidateSigningPartialSignsAwaitConfirmations
      eventAutoSigningValidatePartialSignInternal args p1 =
      Inr ((out, signing_report th c', None),
        p1\<lparr>SigningProposalPayload := Some (signing_after th c')\<rparr>)"
    and tr: "map_of (fsm_transitions signing_fsm) (StateSigningAwaitPartialSigns,
      if out = '''' then eventAutoSigningValidatePartialSignInternal else out) = Some tr"
      "tr_dstState tr = signing_verdict th c'"
    using signing_val[OF assms(3,4), of eventAutoSigningValidatePartialSignInternal args] th by force
  note routes = sign_routes[OF assms(1)]
  have "map_of (fsm_transitions signing_fsm) (StateSigningAwaitPartialSigns,
      if '''' = '''' then e else '''') = Some (tr_public e StateSigningAwaitPartialSigns)"
    using routes(1) by simp
  from FSM_Do_collect[OF routes(1) signing_autos(7) routes(2) act[unfolded ret_event_def] this _
      signing_autos(3) signing_callbacks(4) v tr]
  show ?thesis by simp
qed

text \<open>The partial signature event on a valid request, as an equation.\<close>

definition sign_result ::
  "int \<Rightarrow> PartialSign list \<Rightarrow> time \<Rightarrow> SigningProposalParticipant option \<Rightarrow> SigningConfirmation \<Rightarrow>
   SignatureConfirmation \<Rightarrow> DumpedMachineStatePayload \<Rightarrow>
   ((response Response option \<times> error option) \<times> machine \<times> DumpedMachineStatePayload) go"
where
  "sign_result i ss t x c sc p =
    (let refused = (\<lambda>err p. Inr ((Some \<lparr>resp_State = '''', resp_Data = None\<rparr>, Some err),
           in_state signing_fsm StateSigningAwaitPartialSigns, p)) in
     case x of
       None \<Rightarrow> refused (errorsNew ''{ParticipantId} not exist in quorum'') p
     | Some v \<Rightarrow>
         if gp_Status v \<noteq> SigningAwaitPartialSigns
         then refused (Errorf ''cannot confirm response with {Status} = {\"%s\"}''
                [AStr (SigningParticipantStatus_String (gp_Status v))])
              (p\<lparr>SigningProposalPayload := Some (signing_looked_up i v c)\<rparr>)
         else let c' = signing_signed i ss t v c; w = signing_verdict (Threshold p) c' in
           Inr ((Some \<lparr>resp_State = w, resp_Data = signing_report (Threshold p) c'\<rparr>, None),
             in_state signing_fsm w,
             p\<lparr>SigningProposalPayload := Some (signing_after (Threshold p) c'),
               SignatureProposalPayload := Some (sc\<lparr>sc_UpdatedAt := t\<rparr>)\<rparr>))"

lemma partial_sign_eq:
  assumes "SigningProposalPayload p = Some c" and "gc_Quorum c = Some q"
    and "SignatureProposalPayload p = Some sc"
    and "SigningProposalBatchPartialSignRequests_Validate
      \<lparr>bp_BatchID = b, bp_ParticipantId = i, bp_PartialSigns = ss, bp_CreatedAt = t\<rparr> = None"
  shows "FSM_Do EventSigningPartialSignReceived [partial_signs b i ss t]
      (in_state signing_fsm StateSigningAwaitPartialSigns) p =
    sign_result i ss t (map_of q i) c sc p"
proof -
  let ?e = EventSigningPartialSignReceived
  have ev: "sign_event ?e" by simp
  note routes = sign_routes[OF ev]
  have sa: "sign_action ?e = actionPartialSignConfirmationReceived" by (simp add: sign_action_def)
  note route = FSM_Do_callback[OF routes(1) signing_autos(7) routes(2)[unfolded sa],
      of "[partial_signs b i ss t]" p]
  note act = partial_sign_action[OF assms, of ?e]
  show ?thesis
  proof (cases "map_of q i")
    case None
    with act show ?thesis unfolding route by (simp add: sign_result_def ret_err_def)
  next
    case (Some v)
    show ?thesis
    proof (cases "gp_Status v = SigningAwaitPartialSigns")
      case False
      with act Some show ?thesis unfolding route by (simp add: sign_result_def ret_err_def)
    next
      case True
      let ?c = "signing_signed i ss t v c"
      have "sign_action ?e ?e [partial_signs b i ss t] p =
          ret_event '''' (p\<lparr>SigningProposalPayload := Some ?c,
            SignatureProposalPayload := Some (sc\<lparr>sc_UpdatedAt := t\<rparr>)\<rparr>)"
        using act Some True by (simp add: sa)
      from sign_accepted_Do[OF ev this _ _ refl, of ?c] Some True show ?thesis
        by (cases p) (simp add: signing_signed_def sign_result_def Let_def)
    qed
  qed
qed

text \<open>
  The partial signatures that complete a batch: enough of them to reach the threshold, from
  different participants that are awaited.
\<close>

definition sign_due ::
  "int \<Rightarrow> SigningConfirmation \<Rightarrow> SigningProposalQuorum \<Rightarrow> (int \<times> PartialSign list \<times> time) list \<Rightarrow> bool"
where
  "sign_due th c q xs \<longleftrightarrow> distinct (map fst xs) \<and>
     list_all (\<lambda>(i, ss, t). 0 \<le> i \<and> t \<noteq> 0 \<and> ss \<noteq> [] \<and> list_all (\<lambda>s. PartialSign_Validate s = None) ss \<and>
       (case map_of q i of None \<Rightarrow> False | Some v \<Rightarrow> gp_Status v = SigningAwaitPartialSigns)) xs \<and>
     gc_UpdatedAt c \<le> gc_ExpiresAt c \<and> th \<le> int (signer_count c) - int (failed_count c) \<and>
     int (signed_count c) + int (length xs) = th"

lemma validateEach_ok: "list_all (\<lambda>x. v x = None) xs \<Longrightarrow> validateEach m v xs = None"
  by (induction xs) auto

lemma signed_counts:
  assumes "gc_Quorum c = Some q" and "map_of q i = Some v"
    and "gp_Status v = SigningAwaitPartialSigns"
  shows "signed_count (signing_signed i ss t v c) = Suc (signed_count c)"
    "failed_count (signing_signed i ss t v c) = failed_count c"
    "signer_count (signing_signed i ss t v c) = signer_count c"
  using count_vals_update[OF assms(2), of "\<lambda>v. gp_Status v = SigningPartialSignsConfirmed"]
    count_vals_update[OF assms(2), of "\<lambda>v. gp_Status v = SigningError"]
    length_update_has_key[of q i] assms
  by (simp_all add: signed_count_def failed_count_def signer_count_def signing_signed_def)

lemma sign_completes:
  assumes "SigningProposalPayload p = Some c" and "gc_Quorum c = Some q"
    and "SignatureProposalPayload p = Some sc"
    and "sign_due (Threshold p) c q xs" and "xs \<noteq> []" and "b \<noteq> ''''"
  shows "\<exists>p'. machine_run signing_fsm
      (map (\<lambda>(i, ss, t). (EventSigningPartialSignReceived, [partial_signs b i ss t])) xs)
      StateSigningAwaitPartialSigns p = Some (StateSigningPartialSignsCollected, p')"
  using assms
proof (induction xs arbitrary: p c q sc)
  case (Cons x xs)
  obtain i ss t where x: "x = (i, ss, t)" by (cases x)
  from Cons.prems(4) obtain v where v: "map_of q i = Some v" "gp_Status v = SigningAwaitPartialSigns"
    and req: "0 \<le> i" "t \<noteq> 0" "ss \<noteq> []" "list_all (\<lambda>s. PartialSign_Validate s = None) ss"
    by (auto simp: sign_due_def x split: option.splits)
  define c' where "c' = signing_signed i ss t v c"
  let ?p = "p\<lparr>SigningProposalPayload := Some (signing_after (Threshold p) c'),
               SignatureProposalPayload := Some (sc\<lparr>sc_UpdatedAt := t\<rparr>)\<rparr>"
  obtain q' where q': "gc_Quorum c' = Some q'" by (simp add: c'_def signing_signed_def)
  have valid: "SigningProposalBatchPartialSignRequests_Validate
      \<lparr>bp_BatchID = b, bp_ParticipantId = i, bp_PartialSigns = ss, bp_CreatedAt = t\<rparr> = None"
    using req Cons.prems(6)
    by (auto simp: SigningProposalBatchPartialSignRequests_Validate_def IsZero_def validateEach_ok)
  note counts = signed_counts[OF Cons.prems(2) v, of ss t, folded c'_def]
  have upd: "gc_UpdatedAt c' = gc_UpdatedAt c" "gc_ExpiresAt c' = gc_ExpiresAt c"
    by (simp_all add: c'_def signing_signed_def)
  have verdict: "signing_verdict (Threshold p) c' =
      (if xs = [] then StateSigningPartialSignsCollected else StateSigningAwaitPartialSigns)"
    using Cons.prems(4) by (cases xs) (auto simp: signing_verdict_def sign_due_def counts upd)
  have run: "machine_run signing_fsm
      (map (\<lambda>(i, ss, t). (EventSigningPartialSignReceived, [partial_signs b i ss t])) (x # xs))
      StateSigningAwaitPartialSigns p = machine_run signing_fsm
      (map (\<lambda>(i, ss, t). (EventSigningPartialSignReceived, [partial_signs b i ss t])) xs)
      (signing_verdict (Threshold p) c') ?p"
    using partial_sign_eq[OF Cons.prems(1-3) valid] v
    by (simp add: x sign_result_def Let_def c'_def)
  show ?case
  proof (cases "xs = []")
    case True
    with run verdict show ?thesis by simp
  next
    case False
    with verdict have after: "signing_after (Threshold p) c' = c'"
      by (simp add: signing_after_def signing_neq)
    have "map_of q' j = map_of q j" if "(j, y) \<in> set xs" for j y
      using that Cons.prems(4) Cons.prems(2) q'
      by (force simp: x sign_due_def c'_def signing_signed_def)
    with Cons.prems(4) have "sign_due (Threshold p) c' q' xs"
      by (auto simp: sign_due_def x counts upd list_all_iff)
    with Cons.IH[of ?p c' q' "sc\<lparr>sc_UpdatedAt := t\<rparr>"] q' run verdict False after Cons.prems(6)
    show ?thesis by simp
  qed
qed simp

text \<open>Every outcome of a partial signature.\<close>

lemma partial_sign_cases:
  assumes "SigningProposalPayload p = Some c" and "gc_Quorum c = Some q"
    and "SignatureProposalPayload p = Some sc"
    and res: "FSM_Do EventSigningPartialSignReceived args
      (in_state signing_fsm StateSigningAwaitPartialSigns) p = Inr ((resp, err), g, p')"
  obtains (rejected) x data where "resp = Some \<lparr>resp_State = '''', resp_Data = data\<rparr>"
      "err = Some x" "g = in_state signing_fsm StateSigningAwaitPartialSigns"
  | (accepted) b i ss t v c' where "args = [partial_signs b i ss t]" "ss \<noteq> []"
      "map_of q i = Some v" "gp_Status v = SigningAwaitPartialSigns"
      "c' = signing_signed i ss t v c" "err = None"
      "resp = Some \<lparr>resp_State = signing_verdict (Threshold p) c',
        resp_Data = signing_report (Threshold p) c'\<rparr>"
      "g = in_state signing_fsm (signing_verdict (Threshold p) c')"
      "p' = p\<lparr>SigningProposalPayload := Some (signing_after (Threshold p) c'),
        SignatureProposalPayload := Some (sc\<lparr>sc_UpdatedAt := t\<rparr>)\<rparr>"
proof -
  let ?e = EventSigningPartialSignReceived
  have ev: "sign_event ?e" by simp
  note routes = sign_routes[OF ev]
  have sa: "sign_action ?e = actionPartialSignConfirmationReceived" by (simp add: sign_action_def)
  note route = FSM_Do_callback[OF routes(1) signing_autos(7) routes(2)[unfolded sa], of args p]
  have rej: thesis if "actionPartialSignConfirmationReceived ?e args p = ret_err x p2" for x p2
    using that res rejected unfolding route by (auto simp: ret_err_def)
  obtain o1 data err1 p1 where a:
    "actionPartialSignConfirmationReceived ?e args p = Inr ((o1, data, err1), p1)"
    using res unfolding route by auto
  from a[unfolded actionPartialSignConfirmationReceived_def] show thesis
  proof (cases rule: with_request_cases)
    case (rejected x)
    with a rej show thesis by (simp add: ret_err_def)
  next
    case (accepted a1 r)
    obtain b i ss t where r: "r = \<lparr>bp_BatchID = b, bp_ParticipantId = i, bp_PartialSigns = ss,
        bp_CreatedAt = t\<rparr>" by (cases r)
    have args: "args = [partial_signs b i ss t]" using accepted(1,2) r by (simp add: as_Some_iff)
    have valid: "SigningProposalBatchPartialSignRequests_Validate r = None"
      using accepted(3) by simp
    then have ss: "ss \<noteq> []"
      by (auto simp: SigningProposalBatchPartialSignRequests_Validate_def r split: if_splits)
    note act = partial_sign_action[OF assms(1-3) valid[unfolded r], of ?e]
    show thesis
    proof (cases "map_of q i")
      case None
      with act args rej show thesis by simp
    next
      case (Some v)
      show thesis
      proof (cases "gp_Status v = SigningAwaitPartialSigns")
        case False
        with act args Some rej show thesis by simp
      next
        case True
        let ?c = "signing_signed i ss t v c"
        have "sign_action ?e ?e args p = ret_event '''' (p\<lparr>SigningProposalPayload := Some ?c,
            SignatureProposalPayload := Some (sc\<lparr>sc_UpdatedAt := t\<rparr>)\<rparr>)"
          using act args Some True by (simp add: sa)
        from sign_accepted_Do[OF ev this _ _ refl, of ?c] res that(2)[OF args ss Some True refl]
        show thesis by (cases p) (auto simp: signing_signed_def)
      qed
    qed
  qed
qed

text \<open>Every outcome of an error report.\<close>

lemma sign_error_cases:
  assumes "SigningProposalPayload p = Some c" and "gc_Quorum c = Some q"
    and "SignatureProposalPayload p = Some sc"
    and res: "FSM_Do EventSigningPartialSignError args
      (in_state signing_fsm StateSigningAwaitPartialSigns) p = Inr ((resp, err), g, p')"
  obtains (rejected) x data where "resp = Some \<lparr>resp_State = '''', resp_Data = data\<rparr>"
      "err = Some x" "g = in_state signing_fsm StateSigningAwaitPartialSigns"
  | (accepted) i e t v c' where "args = [sign_error i e t]"
      "map_of q i = Some v" "gp_Status v = SigningAwaitPartialSigns"
      "c' = signing_failed i e t v c" "err = None"
      "resp = Some \<lparr>resp_State = signing_verdict (Threshold p) c',
        resp_Data = signing_report (Threshold p) c'\<rparr>"
      "g = in_state signing_fsm (signing_verdict (Threshold p) c')"
      "p' = p\<lparr>SigningProposalPayload := Some (signing_after (Threshold p) c'),
        SignatureProposalPayload := Some (sc\<lparr>sc_UpdatedAt := t\<rparr>)\<rparr>"
proof -
  let ?e = EventSigningPartialSignError
  have ev: "sign_event ?e" by simp
  note routes = sign_routes[OF ev]
  have sa: "sign_action ?e = signing_actionConfirmationError"
    by (simp add: sign_action_def signing_neq)
  note route = FSM_Do_callback[OF routes(1) signing_autos(7) routes(2)[unfolded sa], of args p]
  have rej: thesis if "signing_actionConfirmationError ?e args p = ret_err x p2" for x p2
    using that res rejected unfolding route by (auto simp: ret_err_def)
  obtain o1 data err1 p1 where a:
    "signing_actionConfirmationError ?e args p = Inr ((o1, data, err1), p1)"
    using res unfolding route by auto
  from a[unfolded signing_actionConfirmationError_def] show thesis
  proof (cases rule: with_request_cases)
    case (rejected x)
    with a rej show thesis by (simp add: ret_err_def)
  next
    case (accepted a1 r)
    obtain i e t where r: "r = \<lparr>se_ParticipantId = i, se_Error = e, se_CreatedAt = t\<rparr>" by (cases r)
    have args: "args = [sign_error i e t]" using accepted(1,2) r by (simp add: as_Some_iff)
    have it: "0 \<le> i" "e \<noteq> None" "t \<noteq> 0"
      using accepted(3) by (auto simp: SignatureProposalConfirmationErrorRequest_Validate_def r
          IsZero_def split: if_splits)
    note act = sign_error_action[OF assms(1-3) it]
    show thesis
    proof (cases "map_of q i")
      case None
      with act args rej show thesis by simp
    next
      case (Some v)
      show thesis
      proof (cases "gp_Status v = SigningAwaitPartialSigns")
        case False
        with act args Some rej show thesis by (cases "gp_Status v") simp_all
      next
        case True
        let ?c = "signing_failed i e t v c"
        have "sign_action ?e ?e args p = ret_event '''' (p\<lparr>SigningProposalPayload := Some ?c,
            SignatureProposalPayload := Some (sc\<lparr>sc_UpdatedAt := t\<rparr>)\<rparr>)"
          using act args Some True by (simp add: sa)
        from sign_accepted_Do[OF ev this _ _ refl, of ?c] res that(2)[OF args Some True refl]
        show thesis by (cases p) (auto simp: signing_failed_def)
      qed
    qed
  qed
qed

section \<open>Initialization and restart\<close>

definition signing_init :: "time \<Rightarrow> SigningConfirmation" where
  "signing_init t = \<lparr>gc_BatchID = '''', gc_InitiatorId = 0, gc_Quorum = Some [], gc_RecoveredKey = [],
     gc_SrcPayload = [], gc_EncryptedPayload = [], gc_CreatedAt = t, gc_UpdatedAt = 0,
     gc_ExpiresAt = t + SigningConfirmationDeadline\<rparr>"

lemma signing_init_cases:
  assumes res: "FSM_Do EventSigningInit args (in_state signing_fsm StateDkgMasterKeyCollected) p =
      Inr ((resp, err), g, p')"
  obtains (rejected) x data where "resp = Some \<lparr>resp_State = '''', resp_Data = data\<rparr>"
      "err = Some x" "p' = p"
  | (accepted) t where "args = [ReqDefault \<lparr>dr_CreatedAt = t\<rparr>]" "t \<noteq> 0"
      "resp = Some \<lparr>resp_State = StateSigningIdle, resp_Data = None\<rparr>" "err = None"
      "g = in_state signing_fsm StateSigningIdle"
      "p' = p\<lparr>SigningProposalPayload := Some (signing_init t)\<rparr>"
proof -
  note tr = signing_transitions(1)[unfolded StateSigningInitial_def]
  note route = FSM_Do_callback[OF tr signing_autos(7) signing_callbacks(1), of args p]
  obtain o1 data err1 p1 where a:
    "actionInitSigningProposal EventSigningInit args p = Inr ((o1, data, err1), p1)"
    using res unfolding route by auto
  from a[unfolded actionInitSigningProposal_def] show thesis
  proof (cases rule: with_request_cases)
    case (rejected x)
    with a res that(1) show thesis unfolding route by auto
  next
    case (accepted a1 r)
    obtain t where r: "r = \<lparr>dr_CreatedAt = t\<rparr>" by (cases r)
    have t: "t \<noteq> 0" using accepted(3)
      by (auto simp: DefaultRequest_Validate_def r IsZero_def split: if_splits)
    have args: "args = [ReqDefault \<lparr>dr_CreatedAt = t\<rparr>]" using accepted(1,2) r by (simp add: as_Some_iff)
    have act: "actionInitSigningProposal EventSigningInit args p =
        Inr (('''', None, None), p\<lparr>SigningProposalPayload := Some (signing_init t)\<rparr>)"
      using t by (simp add: actionInitSigningProposal_def args DefaultRequest_Validate_def IsZero_def
          ret_event_def signing_init_def Add_def)
    have "map_of (fsm_transitions signing_fsm) (StateDkgMasterKeyCollected,
        if '''' = '''' then EventSigningInit else '''') = Some (tr_public EventSigningInit StateSigningIdle)"
      using tr by simp
    from FSM_Do_plain[OF tr signing_autos(7) signing_callbacks(1) act this _ signing_autos(2)] res
      that(2)[OF args t]
    show thesis by simp
  qed
qed

lemma signing_restart_Do:
  assumes "s = StateSigningPartialSignsCollected \<or>
    s = StateSigningPartialSignsAwaitCancelledByTimeout \<or>
    s = StateSigningPartialSignsAwaitCancelledByError"
  shows "FSM_Do EventSigningRestart args (in_state signing_fsm s) p =
    Inr ((Some \<lparr>resp_State = StateSigningIdle, resp_Data = None\<rparr>, None),
      in_state signing_fsm StateSigningIdle, p)"
proof -
  have tr: "map_of (fsm_transitions signing_fsm) (s, EventSigningRestart) =
      Some (tr_public EventSigningRestart StateSigningIdle)"
    using assms by (auto simp: signing_transitions)
  have act: "actionSigningRestart EventSigningRestart args p = Inr (('''', None, None), p)"
    by (simp add: actionSigningRestart_def ret_event_def)
  from FSM_Do_plain[OF tr signing_autos(7) signing_callbacks(6) act _ _ signing_autos(2)] tr
  show ?thesis by simp
qed

lemma signing_start_cases:
  assumes "SigningProposalPayload p = Some c" and "DKGProposalPayload p = Some dc"
    and "dc_Quorum dc = Some dq" and "distinct (keys dq)"
    and res: "FSM_Do EventSigningStart args (in_state signing_fsm StateSigningIdle) p =
      Inr ((resp, err), g, p')"
  obtains (rejected) x data where "resp = Some \<lparr>resp_State = '''', resp_Data = data\<rparr>"
      "err = Some x" "p' = p"
  | (accepted) r c' data where "args = [ReqSigningStart r]"
      "SigningBatchProposalStartRequest_Validate r = None" "c' = signing_started r dq c"
      "resp = Some \<lparr>resp_State = signing_verdict (Threshold p) c', resp_Data = data\<rparr>" "err = None"
      "g = in_state signing_fsm (signing_verdict (Threshold p) c')"
      "p' = p\<lparr>DKGProposalPayload := Some (dkg_renumbered dc),
        SigningProposalPayload := Some (signing_after (Threshold p) c')\<rparr>"
proof -
  note route = FSM_Do_callback[OF signing_transitions(2) signing_autos(7) signing_callbacks(2),
      of args p]
  obtain o1 data err1 p1 where a:
    "actionStartSigningProposal EventSigningStart args p = Inr ((o1, data, err1), p1)"
    using res unfolding route by auto
  from a[unfolded actionStartSigningProposal_def] show thesis
  proof (cases rule: with_request_cases)
    case (rejected x)
    with a res that(1) show thesis unfolding route by auto
  next
    case (accepted a1 r)
    then have args: "args = [ReqSigningStart r]" and v: "SigningBatchProposalStartRequest_Validate r = None"
      by (simp_all add: as_Some_iff)
    from signing_start_Do[OF assms(1-4) v refl] res[unfolded args] show thesis
      by (intro that(2)[OF args v refl]) auto
  qed
qed

end
