(* ===== verification/Provider.thy ===== *)
theory Provider
  imports Fsm_Pool Signing_Rounds
begin

text \<open>
  The instance of a round (\<open>src/fsm/state_machines/provider.go\<close>): creation, reloading from a dump,
  execution of an event and dumping.

  The machine and the dump share the payload by pointer; in the model the payload lives in the
  dump.  \<open>InitDump\<close> always allocates the payload and a dump is only ever written by \<open>Marshal\<close>, so
  the payload pointer of a dump is not \<open>nil\<close>.  A dump's JSON text is modelled by the value it
  encodes: \<open>Marshal\<close> fails exactly when an instant has a year outside \<open>[0, 9999]\<close> (the rule of
  \<open>time.Time.MarshalJSON\<close>), and \<open>Unmarshal\<close> reads back what \<open>Marshal\<close> wrote.  The only other byte
  string handed around is the empty one.
\<close>

section \<open>Dumps\<close>

record FSMDump =
  TransactionId :: string
  dump_State :: State
  dump_Payload :: DumpedMachineStatePayload

datatype dump_data = DumpEmpty | DumpJSON FSMDump

text \<open>Instants that have a JSON form.\<close>

definition day :: time where "day = hour * 24"

definition time_json :: "time \<Rightarrow> bool" where
  "time_json t \<longleftrightarrow> - (366 * day) \<le> t \<and> t < 3652059 * day"

definition sig_times :: "SignatureConfirmation \<Rightarrow> time list" where
  "sig_times c = [sc_CreatedAt c, sc_UpdatedAt c, sc_ExpiresAt c] @
     map sp_UpdatedAt (vals (entries (sc_Quorum c)))"

definition dkg_times :: "DKGConfirmation \<Rightarrow> time list" where
  "dkg_times c = [dc_CreatedAt c, dc_UpdatedAt c, dc_ExpiresAt c] @
     map dp_UpdatedAt (vals (entries (dc_Quorum c)))"

definition signing_times :: "SigningConfirmation \<Rightarrow> time list" where
  "signing_times c = [gc_CreatedAt c, gc_UpdatedAt c, gc_ExpiresAt c] @
     map gp_UpdatedAt (vals (entries (gc_Quorum c)))"

definition payload_times :: "DumpedMachineStatePayload \<Rightarrow> time list" where
  "payload_times p =
    (case SignatureProposalPayload p of None \<Rightarrow> [] | Some c \<Rightarrow> sig_times c) @
    (case DKGProposalPayload p of None \<Rightarrow> [] | Some c \<Rightarrow> dkg_times c) @
    (case SigningProposalPayload p of None \<Rightarrow> [] | Some c \<Rightarrow> signing_times c)"

definition Marshal :: "FSMDump \<Rightarrow> error + dump_data" where
  "Marshal d =
    (if list_all time_json (payload_times (dump_Payload d)) then Inr (DumpJSON d)
     else Inl (errorsNew ''Time.MarshalJSON: year outside of range [0,9999]''))"

definition Unmarshal :: "dump_data \<Rightarrow> error + FSMDump" where
  "Unmarshal data = (case data of
       DumpEmpty \<Rightarrow> Inl (errorsNew ''unexpected end of JSON input'')
     | DumpJSON d \<Rightarrow> Inr d)"

section \<open>White space\<close>

text \<open>\<open>strings.TrimSpace\<close> removes the UTF-8 encoded white space characters at both ends.\<close>

definition space_runes :: "string list" where
  "space_runes = map (map (char_of :: nat \<Rightarrow> char))
     ([[9], [10], [11], [12], [13], [32], [194, 133], [194, 160], [225, 154, 128]] @
      map (\<lambda>k. [226, 128, k]) [128..<139] @
      [[226, 128, 168], [226, 128, 169], [226, 128, 175], [226, 129, 159], [227, 128, 128]])"

function trimRunes :: "string list \<Rightarrow> string \<Rightarrow> string" where
  "trimRunes rs s =
    (case find (\<lambda>r. r \<noteq> '''' \<and> take (length r) s = r) rs of
       None \<Rightarrow> s
     | Some r \<Rightarrow> trimRunes rs (drop (length r) s))"
  by pat_completeness auto
termination
proof (relation "measure (\<lambda>(rs, s). length s)")
  fix rs s r
  assume "find (\<lambda>r. r \<noteq> '''' \<and> take (length r) s = r) rs = Some r"
  then have "r \<noteq> ''''" "take (length r) s = r" by (auto simp: find_Some_iff)
  then show "((rs, drop (length r) s), rs, s) \<in> measure (\<lambda>(rs, s). length s)"
    by (cases s) auto
qed simp

declare trimRunes.simps [simp del]

definition TrimSpace :: "string \<Rightarrow> string" where
  "TrimSpace s = rev (trimRunes (map rev space_runes) (rev (trimRunes space_runes s)))"

section \<open>Instances\<close>

record FSMInstance =
  fi_machine :: "machine option"
  fi_dump :: "FSMDump option"

definition InitDump :: "string \<Rightarrow> FSMInstance \<Rightarrow> error + FSMInstance" where
  "InitDump dkgID i =
    (if fi_dump i \<noteq> None then Inl (errorsNew ''dump already initialized'')
     else let dkgID = TrimSpace dkgID in
       if dkgID = '''' then Inl (errorsNew ''empty {dkgID}'')
       else Inr (i\<lparr>fi_dump := Some
         \<lparr>TransactionId = dkgID, dump_State = StateGlobalIdle,
          dump_Payload = \<lparr>DkgId = dkgID, Threshold = 0, SignatureProposalPayload = None,
            DKGProposalPayload = None, SigningProposalPayload = None, PubKeys = None,
            IDs = None\<rparr>\<rparr>\<rparr>))"

text \<open>The pool built by \<open>Create\<close> and \<open>FromDump\<close>.\<close>

definition newPool :: "((request, response, DumpedMachineStatePayload) FSMPool) go" where
  "newPool = bindR signature_proposal_New (\<lambda>sig. bindR dkg_proposal_New (\<lambda>dkg.
     bindR signing_proposal_New (\<lambda>signing. pool_Init [Some sig, Some dkg, Some signing])))"

text \<open>An error leaves the machine interface \<open>nil\<close> and the type assertion on it panics.\<close>

definition Create :: "string \<Rightarrow> (error + FSMInstance) go" where
  "Create dkgID =
    (case InitDump dkgID \<lparr>fi_machine = None, fi_dump = None\<rparr> of
       Inl e \<Rightarrow> Inr (Inl e)
     | Inr i \<Rightarrow>
         bindR newPool (\<lambda>fsmPoolProvider.
         (case EntryPointMachine fsmPoolProvider of
            Inl e \<Rightarrow> Inl (PanicMsg ''interface conversion: interface is nil'' [])
          | Inr machine \<Rightarrow>
              bindR (deref (fi_dump i)) (\<lambda>dump.
              bindR (WithSetup (dump_State dump) (dump_Payload dump) machine)
                (\<lambda>(machine, payload). Inr (Inr (i\<lparr>fi_machine := Some machine\<rparr>)))))))"

definition FromDump :: "dump_data \<Rightarrow> (error + FSMInstance) go" where
  "FromDump data =
    (if data = DumpEmpty then Inr (Inl (errorsNew ''machine dump is empty''))
     else bindR newPool (\<lambda>fsmPoolProvider.
       (case Unmarshal data of
          Inl e \<Rightarrow> Inr (Inl (Wrapf ''cannot read machine dump: %w'' [] e))
        | Inr dump \<Rightarrow>
            (case MachineByState fsmPoolProvider (dump_State dump) of
               Inl e \<Rightarrow> Inr (Inl e)
             | Inr machine \<Rightarrow>
                 bindR (WithSetup (dump_State dump) (dump_Payload dump) machine)
                   (\<lambda>(machine, payload). Inr (Inr
                     \<lparr>fi_machine = Some machine, fi_dump = Some dump\<rparr>))))))"

text \<open>
  \<open>Do\<close> stores the response's state in the dump whenever there is a response, also when the
  event failed, and returns the event's error even when dumping fails.
\<close>

definition FSMInstance_Do ::
  "Event \<Rightarrow> request list \<Rightarrow> FSMInstance \<Rightarrow>
   ((response Response option \<times> dump_data \<times> error option) \<times> FSMInstance) go"
where
  "FSMInstance_Do event args i =
    (case fi_machine i of
       None \<Rightarrow> Inr ((None, DumpEmpty, Some (errorsNew ''machine is not initialized'')), i)
     | Some machine \<Rightarrow>
         bindR (deref (fi_dump i)) (\<lambda>dump.
         bindR (FSM_Do event args machine (dump_Payload dump)) (\<lambda>((result, err), machine, payload).
           let dump = dump\<lparr>dump_Payload := payload\<rparr>;
               i = i\<lparr>fi_machine := Some machine\<rparr>
           in case result of
                None \<Rightarrow> Inr ((None, DumpEmpty, err), i\<lparr>fi_dump := Some dump\<rparr>)
              | Some r \<Rightarrow>
                  let dump = dump\<lparr>dump_State := resp_State r\<rparr>;
                      i = i\<lparr>fi_dump := Some dump\<rparr>
                  in (case Marshal dump of
                        Inl dumpErr \<Rightarrow> Inr ((Some r, DumpEmpty, err), i)
                      | Inr data \<Rightarrow> Inr ((Some r, data, err), i)))))"

definition FSMInstance_State :: "FSMInstance \<Rightarrow> error + State" where
  "FSMInstance_State i = (case fi_machine i of
       None \<Rightarrow> Inl (errorsNew ''machine is not initialized'')
     | Some machine \<Rightarrow> Inr (currentState machine))"

definition FSMInstance_Id :: "FSMInstance \<Rightarrow> string" where
  "FSMInstance_Id i = (case fi_dump i of None \<Rightarrow> '''' | Some d \<Rightarrow> TransactionId d)"

definition FSMInstance_Dump :: "FSMInstance \<Rightarrow> error + dump_data" where
  "FSMInstance_Dump i = (case fi_dump i of
       None \<Rightarrow> Inl (errorsNew ''dump is not initialized'')
     | Some d \<Rightarrow> Marshal d)"

definition FSMInstance_GetPubKeyByUsername :: "FSMInstance \<Rightarrow> string \<Rightarrow> error + bytes" where
  "FSMInstance_GetPubKeyByUsername i username = (case fi_dump i of
       None \<Rightarrow> Inl (errorsNew ''dump not initialized'')
     | Some d \<Rightarrow> GetPubKeyByUsername (dump_Payload d) username)"

definition FSMInstance_GetIDByUsername :: "FSMInstance \<Rightarrow> string \<Rightarrow> error + int" where
  "FSMInstance_GetIDByUsername i username = (case fi_dump i of
       None \<Rightarrow> Inl (errorsNew ''dump not initialized'')
     | Some d \<Rightarrow> GetIDByUsername (dump_Payload d) username)"

section \<open>Creation and reloading\<close>

lemma newPool_eq: "newPool = Inr round_pool"
  by (simp add: newPool_def signature_proposal_New_eq dkg_proposal_New_eq signing_proposal_New_eq
      pool_Init_round)

definition fresh_payload :: "string \<Rightarrow> DumpedMachineStatePayload" where
  "fresh_payload dkgID = \<lparr>DkgId = dkgID, Threshold = 0, SignatureProposalPayload = None,
     DKGProposalPayload = None, SigningProposalPayload = None, PubKeys = None, IDs = None\<rparr>"

lemma source_nonempty: "fsm_wf f \<Longrightarrow> s \<in> set (StatesList f) \<Longrightarrow> s \<noteq> ''''"
  by (auto simp: fsm_wf_def fsm_tables_ok_def set_StatesList list_all_iff tr_ok_def)

lemma MustCopyWithState_source:
  "fsm_wf f \<Longrightarrow> s \<in> set (StatesList f) \<Longrightarrow> MustCopyWithState s f = Inr (in_state f s)"
  using source_nonempty[of f s] by (simp add: MustCopyWithState_def)

lemma Create_eq:
  "Create dkgID =
    (if TrimSpace dkgID = '''' then Inr (Inl (errorsNew ''empty {dkgID}''))
     else Inr (Inr \<lparr>fi_machine = Some (in_state sig_fsm StateGlobalIdle), fi_dump = Some
       \<lparr>TransactionId = TrimSpace dkgID, dump_State = StateGlobalIdle,
        dump_Payload = fresh_payload (TrimSpace dkgID)\<rparr>\<rparr>))"
  by (simp add: Create_def InitDump_def newPool_eq EntryPointMachine_round WithSetup_def
      MustCopyWithState_source round_machines_wf sig_lists fresh_payload_def Let_def)

text \<open>The machine that owns a state.\<close>

definition machine_of :: "State \<Rightarrow> machine option" where
  "machine_of s =
    (if s \<in> set (StatesList sig_fsm) then Some sig_fsm
     else if s \<in> set (StatesList dkg_fsm) then Some dkg_fsm
     else if s \<in> set (StatesList signing_fsm) then Some signing_fsm
     else None)"

lemma FromDump_eq:
  "FromDump (DumpJSON d) = (case machine_of (dump_State d) of
       None \<Rightarrow> Inr (Inl (errorsNew ''cannot init machine for state''))
     | Some m \<Rightarrow> Inr (Inr \<lparr>fi_machine = Some (in_state m (dump_State d)), fi_dump = Some d\<rparr>))"
  by (auto simp: FromDump_def newPool_eq Unmarshal_def MachineByState_round machine_of_def
      WithSetup_def MustCopyWithState_source round_machines_wf)

lemma machine_of_sig: "machine_of s = Some sig_fsm" if "s \<in> set (StatesList sig_fsm)"
  using that by (simp add: machine_of_def)

lemma machine_of_dkg: "machine_of s = Some dkg_fsm" if "s \<in> set (StatesList dkg_fsm)"
  using that by (auto simp: machine_of_def sig_lists dkg_lists names_neq)

lemma machine_of_signing: "machine_of s = Some signing_fsm" if "s \<in> set (StatesList signing_fsm)"
  using that by (auto simp: machine_of_def sig_lists dkg_lists signing_lists names_neq)

end
