(* ===== verification/Round.thy ===== *)
theory Round
  imports Provider
begin

text \<open>
  A DKG round as the node runs it: a dump is loaded, one event is executed and, when the event
  succeeded, the new dump is stored.  Reachable dumps, and the invariant that ties the state of
  a round to its payload.
\<close>

section \<open>Steps and reachable dumps\<close>

inductive round_step :: "FSMDump \<Rightarrow> Event \<Rightarrow> request list \<Rightarrow> FSMDump \<Rightarrow> bool" where
  "FromDump (DumpJSON d) = Inr (Inr i) \<Longrightarrow>
   FSMInstance_Do e args i = Inr ((Some r, DumpJSON d', None), i') \<Longrightarrow>
   round_step d e args d'"

inductive round_reachable :: "FSMDump \<Rightarrow> bool" where
  created: "Create dkgID = Inr (Inr i) \<Longrightarrow> fi_dump i = Some d \<Longrightarrow> round_reachable d"
| stepped: "round_reachable d \<Longrightarrow> round_step d e args d' \<Longrightarrow> round_reachable d'"

inductive_cases round_stepE: "round_step d e args d'"

text \<open>An invariant holds initially and is kept by every step.\<close>

locale round_invariant =
  fixes I :: "FSMDump \<Rightarrow> bool"
  assumes initially: "TrimSpace dkgID \<noteq> '''' \<Longrightarrow>
      I \<lparr>TransactionId = TrimSpace dkgID, dump_State = StateGlobalIdle,
         dump_Payload = fresh_payload (TrimSpace dkgID)\<rparr>"
    and kept: "I d \<Longrightarrow> machine_of (dump_State d) = Some m \<Longrightarrow>
      FSM_Do e args (in_state m (dump_State d)) (dump_Payload d) = Inr ((Some r, None), g, p') \<Longrightarrow>
      I (d\<lparr>dump_State := resp_State r, dump_Payload := p'\<rparr>)"
begin

lemma holds: "round_reachable d \<Longrightarrow> I d"
proof (induction rule: round_reachable.induct)
  case (created dkgID i d)
  then show ?case using initially[of dkgID] by (auto simp: Create_eq split: if_splits)
next
  case (stepped d e args d')
  from stepped.hyps(2) obtain i r i' where i: "FromDump (DumpJSON d) = Inr (Inr i)"
    and res: "FSMInstance_Do e args i = Inr ((Some r, DumpJSON d', None), i')"
    by (auto elim: round_stepE)
  from i obtain m where m: "machine_of (dump_State d) = Some m"
    and i': "i = \<lparr>fi_machine = Some (in_state m (dump_State d)), fi_dump = Some d\<rparr>"
    by (auto simp: FromDump_eq split: option.splits)
  from res obtain g p' where
    run: "FSM_Do e args (in_state m (dump_State d)) (dump_Payload d) = Inr ((Some r, None), g, p')"
    and d': "d' = d\<lparr>dump_Payload := p', dump_State := resp_State r\<rparr>"
    by (auto simp: FSMInstance_Do_def i' Let_def Marshal_def split: option.splits if_splits sum.splits)
  have "d' = d\<lparr>dump_State := resp_State r, dump_Payload := p'\<rparr>" by (simp add: d')
  with kept[OF stepped.IH m run] show ?case by simp
qed

end

section \<open>The events of a state\<close>

definition public_keys :: "machine \<Rightarrow> (State \<times> Event) list" where
  "public_keys f = map fst (filter (\<lambda>(_, tr). \<not> tr_isInternal tr) (fsm_transitions f))"

lemma FSM_Do_public:
  assumes "FSM_Do e args (in_state f s) p = Inr ((Some r, err), g, p')"
  shows "(s, e) \<in> set (public_keys f)"
  using assms
  by (force simp: FSM_Do_def public_keys_def split: option.splits if_splits dest: map_of_SomeD)

lemma sig_public:
  "public_keys sig_fsm = [(StateGlobalIdle, EventInitProposal),
     (StateAwaitParticipantsConfirmations, EventConfirmSignatureProposal),
     (StateAwaitParticipantsConfirmations, EventDeclineProposal)]"
  by (simp add: public_keys_def sig_fsm_def StateParticipantsConfirmationsInit_def)

lemma dkg_public:
  "public_keys dkg_fsm = [(StateSignatureProposalCollected, EventDKGInitProcess),
     (StateDkgCommitsAwaitConfirmations, EventDKGCommitConfirmationReceived),
     (StateDkgCommitsAwaitConfirmations, EventDKGCommitConfirmationError),
     (StateDkgCommitsAwaitCanceledByError, EventDKGCommitConfirmationError),
     (StateDkgDealsAwaitConfirmations, EventDKGDealConfirmationReceived),
     (StateDkgDealsAwaitConfirmations, EventDKGDealConfirmationError),
     (StateDkgDealsAwaitCanceledByError, EventDKGDealConfirmationError),
     (StateDkgResponsesAwaitConfirmations, EventDKGResponseConfirmationReceived),
     (StateDkgResponsesAwaitConfirmations, EventDKGResponseConfirmationError),
     (StateDkgResponsesAwaitCanceledByError, EventDKGResponseConfirmationError),
     (StateDkgMasterKeyAwaitConfirmations, EventDKGMasterKeyConfirmationReceived),
     (StateDkgMasterKeyAwaitConfirmations, EventDKGMasterKeyConfirmationError),
     (StateDkgMasterKeyAwaitCanceledByError, EventDKGMasterKeyConfirmationError)]"
  by (simp add: public_keys_def dkg_fsm_def StateDkgInitial_def)

lemma signing_public:
  "public_keys signing_fsm = [(StateDkgMasterKeyCollected, EventSigningInit),
     (StateSigningIdle, EventSigningStart),
     (StateSigningAwaitPartialSigns, EventSigningPartialSignReceived),
     (StateSigningAwaitPartialSigns, EventSigningPartialSignError),
     (StateSigningPartialSignsCollected, EventSigningRestart),
     (StateSigningPartialSignsAwaitCancelledByTimeout, EventSigningRestart),
     (StateSigningPartialSignsAwaitCancelledByError, EventSigningRestart)]"
  by (simp add: public_keys_def signing_fsm_def StateSigningInitial_def)

section \<open>The invariant\<close>

subsection \<open>Signature proposal\<close>

definition sig_all :: "(SignatureProposalParticipant \<Rightarrow> bool) \<Rightarrow> DumpedMachineStatePayload \<Rightarrow> bool" where
  "sig_all P p \<longleftrightarrow> (case sig_quorum p of None \<Rightarrow> False | Some q \<Rightarrow> list_all P (vals q))"

abbreviation sig_confirmed :: "SignatureProposalParticipant \<Rightarrow> bool" where
  "sig_confirmed v \<equiv> sp_Status v = SigConfirmationConfirmed"

definition sig_open :: "SignatureProposalParticipant \<Rightarrow> bool" where
  "sig_open v \<longleftrightarrow> sp_Status v = SigConfirmationAwaitConfirmation \<or> sig_confirmed v"

subsection \<open>DKG\<close>

text \<open>The participants of the DKG are those of the signature proposal.\<close>

definition dkg_matches :: "DumpedMachineStatePayload \<Rightarrow> bool" where
  "dkg_matches p \<longleftrightarrow> (case (sig_quorum p, dkg_quorum p) of
     (Some q, Some dq) \<Rightarrow>
       map (\<lambda>(i, v). (i, dp_Username v, dp_DkgPubKey v)) dq =
       map (\<lambda>(i, v). (i, sp_Username v, sp_DkgPubKey v)) q
   | _ \<Rightarrow> False)"

definition dkg_all :: "(DKGProposalParticipant \<Rightarrow> bool) \<Rightarrow> DumpedMachineStatePayload \<Rightarrow> bool" where
  "dkg_all P p \<longleftrightarrow> (case dkg_quorum p of None \<Rightarrow> False | Some q \<Rightarrow> list_all P (vals q))"

text \<open>A participant during each stage: what it has contributed so far.\<close>

definition commits_part :: "DKGProposalParticipant \<Rightarrow> bool" where
  "commits_part v \<longleftrightarrow> dp_Status v = CommitAwaitConfirmation \<or>
     dp_Status v = CommitConfirmed \<and> dp_DkgCommit v \<noteq> []"

definition deals_part :: "DKGProposalParticipant \<Rightarrow> bool" where
  "deals_part v \<longleftrightarrow> dp_DkgCommit v \<noteq> [] \<and> (dp_Status v = DealAwaitConfirmation \<or>
     dp_Status v = DealConfirmed \<and> dp_DkgDeal v \<noteq> [])"

definition responses_part :: "DKGProposalParticipant \<Rightarrow> bool" where
  "responses_part v \<longleftrightarrow> dp_DkgCommit v \<noteq> [] \<and> dp_DkgDeal v \<noteq> [] \<and>
     (dp_Status v = ResponseAwaitConfirmation \<or>
      dp_Status v = ResponseConfirmed \<and> dp_DkgResponse v \<noteq> [])"

definition master_part :: "DKGProposalParticipant \<Rightarrow> bool" where
  "master_part v \<longleftrightarrow> dp_DkgCommit v \<noteq> [] \<and> dp_DkgDeal v \<noteq> [] \<and> dp_DkgResponse v \<noteq> [] \<and>
     (dp_Status v = MasterKeyAwaitConfirmation \<or>
      dp_Status v = MasterKeyConfirmed \<and> dp_DkgMasterKey v \<noteq> [])"

text \<open>A finished participant: every contribution was made, and the master key is \<open>k\<close>.\<close>

definition done_part :: "bytes \<Rightarrow> DKGProposalParticipant \<Rightarrow> bool" where
  "done_part k v \<longleftrightarrow> dp_Status v = MasterKeyConfirmed \<and> dp_DkgMasterKey v = k \<and>
     dp_DkgCommit v \<noteq> [] \<and> dp_DkgDeal v \<noteq> [] \<and> dp_DkgResponse v \<noteq> []"

definition agreed_key :: "DumpedMachineStatePayload \<Rightarrow> bytes" where
  "agreed_key p = (case dkg_quorum p of Some ((i, v) # q) \<Rightarrow> dp_DkgMasterKey v | _ \<Rightarrow> [])"

definition dkg_done :: "DumpedMachineStatePayload \<Rightarrow> bool" where
  "dkg_done p \<longleftrightarrow> agreed_key p \<noteq> [] \<and> dkg_all (done_part (agreed_key p)) p"

subsection \<open>Signing\<close>

definition signing_part :: "SigningProposalParticipant \<Rightarrow> bool" where
  "signing_part v \<longleftrightarrow> (case gp_Status v of
       SigningPartialSignsConfirmed \<Rightarrow> entries (gp_PartialSigns v) \<noteq> []
     | SigningProcess \<Rightarrow> False
     | _ \<Rightarrow> entries (gp_PartialSigns v) = [])"

text \<open>The signers of a batch are the participants of the DKG.\<close>

definition signing_matches :: "DumpedMachineStatePayload \<Rightarrow> bool" where
  "signing_matches p \<longleftrightarrow> (case (dkg_quorum p, signing_quorum p) of
     (Some dq, Some gq) \<Rightarrow> map (\<lambda>(i, v). (i, gp_Username v)) gq =
       map (\<lambda>(i, v). (i, dp_Username v)) dq
   | _ \<Rightarrow> False)"

definition signed :: "SigningProposalParticipant \<Rightarrow> bool" where
  "signed v \<longleftrightarrow> entries (gp_PartialSigns v) \<noteq> []"

definition signing_some :: "(SigningConfirmation \<Rightarrow> bool) \<Rightarrow> DumpedMachineStatePayload \<Rightarrow> bool" where
  "signing_some P p \<longleftrightarrow> (case SigningProposalPayload p of None \<Rightarrow> False
     | Some c \<Rightarrow> gc_Quorum c \<noteq> None \<and> gc_UpdatedAt c = 0 \<and> P c)"

definition signing_waiting :: "DumpedMachineStatePayload \<Rightarrow> SigningConfirmation \<Rightarrow> bool" where
  "signing_waiting p c \<longleftrightarrow> list_all signing_part (vals (entries (gc_Quorum c))) \<and>
     signing_verdict (Threshold p) c = StateSigningAwaitPartialSigns"

definition signing_complete :: "DumpedMachineStatePayload \<Rightarrow> SigningConfirmation \<Rightarrow> bool" where
  "signing_complete p c \<longleftrightarrow>
     Threshold p \<le> int (count_vals signed (entries (gc_Quorum c)))"

definition signing_hopeless :: "DumpedMachineStatePayload \<Rightarrow> SigningConfirmation \<Rightarrow> bool" where
  "signing_hopeless p c \<longleftrightarrow> list_all signing_part (vals (entries (gc_Quorum c))) \<and>
     int (signer_count c) - int (failed_count c) < Threshold p"

subsection \<open>By state\<close>

definition dkg_open ::
  "(DKGProposalParticipant \<Rightarrow> bool) \<Rightarrow> DKGParticipantStatus \<Rightarrow> DumpedMachineStatePayload \<Rightarrow> bool"
where
  "dkg_open part confirmed p \<longleftrightarrow> dkg_all part p \<and> \<not> dkg_all (\<lambda>v. dp_Status v = confirmed) p"

definition dkg_inv :: "State \<Rightarrow> DumpedMachineStatePayload \<Rightarrow> bool" where
  "dkg_inv s p =
    (if s = StateDkgCommitsAwaitConfirmations then dkg_open commits_part CommitConfirmed p
     else if s = StateDkgDealsAwaitConfirmations then dkg_open deals_part DealConfirmed p
     else if s = StateDkgResponsesAwaitConfirmations
     then dkg_open responses_part ResponseConfirmed p
     else if s = StateDkgMasterKeyAwaitConfirmations
     then dkg_open master_part MasterKeyConfirmed p \<and>
       (case DKGProposalPayload p of None \<Rightarrow> False | Some c \<Rightarrow> \<not> mismatch (master_keys c))
     else if s = StateDkgMasterKeyCollected then dkg_done p
     else s \<in> {StateDkgCommitsAwaitCanceledByError, StateDkgCommitsAwaitCanceledByTimeout,
       StateDkgDealsAwaitCanceledByError, StateDkgDealsAwaitCanceledByTimeout,
       StateDkgResponsesAwaitCanceledByError, StateDkgResponsesAwaitCanceledByTimeout,
       StateDkgMasterKeyAwaitCanceledByError, StateDkgMasterKeyAwaitCanceledByTimeout})"

definition signing_inv :: "State \<Rightarrow> DumpedMachineStatePayload \<Rightarrow> bool" where
  "signing_inv s p =
    (if s = StateSigningIdle then signing_some (\<lambda>_. True) p
     else if s = StateSigningAwaitPartialSigns
     then signing_some (signing_waiting p) p \<and> signing_matches p
     else if s = StateSigningPartialSignsCollected
     then signing_some (signing_complete p) p \<and> signing_matches p
     else if s = StateSigningPartialSignsAwaitCancelledByError
     then signing_some (signing_hopeless p) p \<and> signing_matches p
     else s = StateSigningPartialSignsAwaitCancelledByTimeout \<and>
       signing_some (\<lambda>_. True) p \<and> signing_matches p)"

definition sig_state_inv :: "State \<Rightarrow> DumpedMachineStatePayload \<Rightarrow> bool" where
  "sig_state_inv s p =
    (if s = StateAwaitParticipantsConfirmations then sig_all sig_open p \<and> \<not> sig_all sig_confirmed p
     else if s = StateSignatureProposalCollected then sig_all sig_confirmed p
     else s = StateValidationCanceledByParticipant \<or> s = StateValidationCanceledByTimeout)"

definition sig_states :: "State list" where
  "sig_states = [StateAwaitParticipantsConfirmations, StateSignatureProposalCollected,
     StateValidationCanceledByParticipant, StateValidationCanceledByTimeout]"

definition dkg_states :: "State list" where
  "dkg_states = [StateDkgCommitsAwaitConfirmations, StateDkgDealsAwaitConfirmations,
     StateDkgResponsesAwaitConfirmations, StateDkgMasterKeyAwaitConfirmations,
     StateDkgMasterKeyCollected,
     StateDkgCommitsAwaitCanceledByError, StateDkgCommitsAwaitCanceledByTimeout,
     StateDkgDealsAwaitCanceledByError, StateDkgDealsAwaitCanceledByTimeout,
     StateDkgResponsesAwaitCanceledByError, StateDkgResponsesAwaitCanceledByTimeout,
     StateDkgMasterKeyAwaitCanceledByError, StateDkgMasterKeyAwaitCanceledByTimeout]"

definition signing_states :: "State list" where
  "signing_states = [StateSigningIdle, StateSigningAwaitPartialSigns,
     StateSigningPartialSignsCollected, StateSigningPartialSignsAwaitCancelledByError,
     StateSigningPartialSignsAwaitCancelledByTimeout]"

definition payload_inv :: "State \<Rightarrow> DumpedMachineStatePayload \<Rightarrow> bool" where
  "payload_inv s p \<longleftrightarrow>
    (if s = StateGlobalIdle then p = fresh_payload (DkgId p)
     else roster_ok p \<and>
       (if s \<in> set sig_states then sig_state_inv s p \<and> DKGProposalPayload p = None
        else sig_all sig_confirmed p \<and> dkg_matches p \<and>
          (if s \<in> set dkg_states then dkg_inv s p
           else s \<in> set signing_states \<and> dkg_done p \<and> signing_inv s p)))"

definition round_inv :: "FSMDump \<Rightarrow> bool" where
  "round_inv d \<longleftrightarrow> TransactionId d = DkgId (dump_Payload d) \<and> TransactionId d \<noteq> '''' \<and>
     payload_inv (dump_State d) (dump_Payload d)"

section \<open>Preservation: signature proposal\<close>

text \<open>What no event after the initial one changes.\<close>

abbreviation same_roster :: "DumpedMachineStatePayload \<Rightarrow> DumpedMachineStatePayload \<Rightarrow> bool" where
  "same_roster p p' \<equiv> DkgId p' = DkgId p \<and> Threshold p' = Threshold p \<and>
     PubKeys p' = PubKeys p \<and> IDs p' = IDs p"

lemmas states_defs = sig_states_def dkg_states_def signing_states_def

lemma payload_inv_sig:
  "s \<in> set sig_states \<Longrightarrow>
   payload_inv s p \<longleftrightarrow> roster_ok p \<and> sig_state_inv s p \<and> DKGProposalPayload p = None"
  by (auto simp: payload_inv_def sig_states_def names_neq)

lemma payload_inv_dkg:
  "s \<in> set dkg_states \<Longrightarrow>
   payload_inv s p \<longleftrightarrow> roster_ok p \<and> sig_all sig_confirmed p \<and> dkg_matches p \<and> dkg_inv s p"
  by (auto simp: payload_inv_def states_defs names_neq)

lemma payload_inv_signing:
  "s \<in> set signing_states \<Longrightarrow>
   payload_inv s p \<longleftrightarrow>
     roster_ok p \<and> sig_all sig_confirmed p \<and> dkg_matches p \<and> dkg_done p \<and> signing_inv s p"
  by (auto simp: payload_inv_def states_defs names_neq)

lemma sig_init_kept:
  assumes "SignatureProposalParticipantsListRequest_Validate r = Inr None"
    and "pl_Participants r = map Some ps" and "DKGProposalPayload p = None"
    and "w = StateValidationCanceledByTimeout \<or> w = StateAwaitParticipantsConfirmations"
  shows "payload_inv w (sig_init_payload r ps p)"
proof -
  let ?p = "sig_init_payload r ps p"
  have w: "w \<in> set sig_states" using assms(4) by (auto simp: sig_states_def)
  have ne: "ps \<noteq> []" using assms(1,2) by (auto simp: sig_init_valid_iff config_defs)
  have aw: "list_all (\<lambda>v. sp_Status v = SigConfirmationAwaitConfirmation)
      (vals (sig_entries th t i ps))" for th t i by (induction ps arbitrary: i) simp_all
  have q0: "sig_quorum ?p = Some (sig_entries (pl_SigningThreshold r) (pl_CreatedAt r) 0 ps)"
    by (simp add: sig_quorum_def sig_init_payload_def)
  have "sig_all sig_open ?p"
    using aw unfolding sig_all_def q0 by (simp add: list_all_iff sig_open_def)
  moreover have "\<not> sig_all sig_confirmed ?p"
    using ne unfolding sig_all_def q0 by (cases ps) simp_all
  moreover have "DKGProposalPayload ?p = None" using assms(3) by (simp add: sig_init_payload_def)
  ultimately show ?thesis
    unfolding payload_inv_sig[OF w] using roster_ok_init[OF assms(1,2)] assms(4)
    by (auto simp: sig_state_inv_def names_neq)
qed

lemma sig_reply_kept:
  assumes inv: "roster_ok p" "sig_all sig_open p" "DKGProposalPayload p = None"
    and c: "SignatureProposalPayload p = Some c" "sc_Quorum c = Some q" "map_of q i = Some v"
    and c': "c' = sig_replied i st t v c"
    and st: "st = SigConfirmationConfirmed \<or> st = SigConfirmationDeclined"
  shows "payload_inv (sig_verdict c') (p\<lparr>SignatureProposalPayload := Some c'\<rparr>)"
proof -
  let ?p = "p\<lparr>SignatureProposalPayload := Some c'\<rparr>"
  have w: "sig_verdict c' \<in> set sig_states" by (auto simp: sig_verdict_def sig_states_def Let_def)
  have ro: "roster_ok ?p" unfolding c' by (rule roster_ok_replied[OF inv(1) c])
  have q': "sig_quorum ?p = Some (AList.update i (v\<lparr>sp_Status := st, sp_UpdatedAt := t\<rparr>) q)"
    by (simp add: sig_quorum_def c' c(2))
  have cq: "sc_Quorum c' = Some (AList.update i (v\<lparr>sp_Status := st, sp_UpdatedAt := t\<rparr>) q)"
    by (simp add: c' c(2))
  have "list_all sig_open (vals q)" using inv(2) c by (simp add: sig_all_def sig_quorum_def)
  then have any: "list_all (\<lambda>v. sp_Status v \<noteq> SigConfirmationError)
      (vals (AList.update i (v\<lparr>sp_Status := st, sp_UpdatedAt := t\<rparr>) q))"
    using st by (intro list_all_vals_update) (auto simp: list_all_iff sig_open_def)
  have op: "sp_Status x \<noteq> SigConfirmationError \<Longrightarrow> sp_Status x \<noteq> SigConfirmationDeclined \<Longrightarrow> sig_open x"
    for x by (cases "sp_Status x") (auto simp: sig_open_def)
  have "sig_all sig_open ?p" if "\<not> list_ex (\<lambda>v. sp_Status v = SigConfirmationDeclined)
      (vals (AList.update i (v\<lparr>sp_Status := st, sp_UpdatedAt := t\<rparr>) q))"
    using any that op by (auto simp: sig_all_def q' list_all_iff list_ex_iff)
  then show ?thesis
    unfolding payload_inv_sig[OF w] using ro inv(3)
    by (auto simp: sig_state_inv_def sig_verdict_def sig_all_def q' cq names_neq Let_def)
qed

lemma sig_kept:
  assumes inv: "payload_inv s p"
    and res: "FSM_Do e args (in_state sig_fsm s) p = Inr ((Some r, None), g, p')"
  shows "payload_inv (resp_State r) p' \<and> DkgId p' = DkgId p \<and>
    (s \<noteq> StateGlobalIdle \<longrightarrow> same_roster p p')"
proof -
  from FSM_Do_public[OF res] consider
    (init) "s = StateGlobalIdle" "e = EventInitProposal"
    | (reply) "s = StateAwaitParticipantsConfirmations" "reply_event e"
    by (auto simp: sig_public)
  then show ?thesis
  proof cases
    case init
    then have p: "p = fresh_payload (DkgId p)" using inv by (simp add: payload_inv_def)
    then have fresh: "PubKeys p = None" "IDs p = None" "DKGProposalPayload p = None"
      by (simp_all add: fresh_payload_def) (metis DumpedMachineStatePayload.select_convs)+
    from fresh(1,2) res[unfolded init] show ?thesis
    proof (cases rule: sig_init_cases)
      case (accepted r' ps w)
      with sig_init_kept[OF accepted(2,3) fresh(3)] init(1) show ?thesis
        by (auto simp: sig_init_payload_def)
    qed simp
  next
    case reply
    have S: "s \<in> set sig_states" using reply by (simp add: sig_states_def)
    from inv reply(1) have i: "roster_ok p" "sig_all sig_open p" "DKGProposalPayload p = None"
      unfolding payload_inv_sig[OF S] by (simp_all add: sig_state_inv_def)
    from i(1) obtain c q where c: "SignatureProposalPayload p = Some c" "sc_Quorum c = Some q"
      by (rule roster_ok_quorum)
    from c reply(2) res[unfolded reply(1)] show ?thesis
    proof (cases rule: sig_reply_cases)
      case late
      have T: "StateValidationCanceledByTimeout \<in> set sig_states" by (simp add: sig_states_def)
      from late i show ?thesis
        by (simp add: payload_inv_sig[OF T] sig_state_inv_def names_neq)
    next
      case (accepted j t v c')
      with sig_reply_kept[OF i c accepted(4,7)] show ?thesis
        by (simp add: reply_status_def)
    qed simp
  qed
qed

section \<open>Preservation: DKG\<close>

lemma quorum_frame [simp]:
  "sig_quorum (p\<lparr>DKGProposalPayload := x\<rparr>) = sig_quorum p"
  "sig_quorum (p\<lparr>SigningProposalPayload := y\<rparr>) = sig_quorum p"
  "dkg_quorum (p\<lparr>SigningProposalPayload := y\<rparr>) = dkg_quorum p"
  "dkg_quorum (p\<lparr>SignatureProposalPayload := z\<rparr>) = dkg_quorum p"
  "signing_quorum (p\<lparr>SignatureProposalPayload := z\<rparr>) = signing_quorum p"
  "signing_quorum (p\<lparr>DKGProposalPayload := x\<rparr>) = signing_quorum p"
  "dkg_quorum (p\<lparr>DKGProposalPayload := Some c\<rparr>) = dc_Quorum c"
  "signing_quorum (p\<lparr>SigningProposalPayload := Some g\<rparr>) = gc_Quorum g"
  by (simp_all add: quorum_defs)

lemma roster_ok_dkg [simp]:
  "roster_ok (p\<lparr>DKGProposalPayload := x\<rparr>) = roster_ok p"
  "roster_ok (p\<lparr>SigningProposalPayload := y\<rparr>) = roster_ok p"
  by (rule roster_ok_frame; simp)+

lemma sig_all_dkg [simp]:
  "sig_all P (p\<lparr>DKGProposalPayload := x\<rparr>) = sig_all P p"
  "sig_all P (p\<lparr>SigningProposalPayload := y\<rparr>) = sig_all P p"
  by (simp_all add: sig_all_def)

lemma dkg_matches_quorum:
  assumes "dkg_matches p"
  obtains c q sq where "DKGProposalPayload p = Some c" "dc_Quorum c = Some q"
    "dkg_quorum p = Some q" "sig_quorum p = Some sq" "keys q = keys sq"
proof -
  from assms obtain q sq where q: "dkg_quorum p = Some q" "sig_quorum p = Some sq"
    and eq: "map (\<lambda>(i, v). (i, dp_Username v, dp_DkgPubKey v)) q =
       map (\<lambda>(i, v). (i, sp_Username v, sp_DkgPubKey v)) sq"
    by (auto simp: dkg_matches_def split: option.splits)
  have "keys q = keys sq" using arg_cong[OF eq, of "map fst"] by (simp add: case_prod_unfold comp_def)
  moreover from q(1) obtain c where "DKGProposalPayload p = Some c" "dc_Quorum c = Some q"
    by (auto simp: dkg_quorum_def bind_eq_Some_conv)
  ultimately show thesis using that q by blast
qed

text \<open>Changes that keep the participants' identities.\<close>

lemma dkg_matches_update:
  assumes "dkg_matches p" and "dkg_quorum p = Some q" and "map_of q i = Some v"
    and "dp_Username w = dp_Username v" "dp_DkgPubKey w = dp_DkgPubKey v"
    and "dc_Quorum c' = Some (AList.update i w q)"
  shows "dkg_matches (p\<lparr>DKGProposalPayload := Some c'\<rparr>)"
proof -
  have "map (\<lambda>(i, v). (i, dp_Username v, dp_DkgPubKey v)) (AList.update i w q) =
      map (\<lambda>(i, v). (i, dp_Username v, dp_DkgPubKey v)) q"
    using assms(3-5) by (intro map_update_same) auto
  then show ?thesis using assms(1,2,6) by (simp add: dkg_matches_def split: option.splits)
qed

lemma dkg_matches_map:
  assumes "dkg_matches (p\<lparr>DKGProposalPayload := Some c\<rparr>)" and "dc_Quorum c = Some q"
    and "\<And>i v. dp_Username (f i v) = dp_Username v" "\<And>i v. dp_DkgPubKey (f i v) = dp_DkgPubKey v"
    and "dc_Quorum c' = Some (map_vals f q)"
  shows "dkg_matches (p\<lparr>DKGProposalPayload := Some c'\<rparr>)"
proof -
  have "map (\<lambda>(i, v). (i, dp_Username v, dp_DkgPubKey v)) (map_vals f q) =
      map (\<lambda>(i, v). (i, dp_Username v, dp_DkgPubKey v)) q"
    using assms(3,4) by (induction q) auto
  then show ?thesis using assms(1,2,5) by (simp add: dkg_matches_def split: option.splits)
qed

lemma dkg_matches_all_status:
  assumes "dkg_matches (p\<lparr>DKGProposalPayload := Some c\<rparr>)" and "dc_Quorum c = Some q"
    and "\<And>v. dp_Username (f v) = dp_Username v" "\<And>v. dp_DkgPubKey (f v) = dp_DkgPubKey v"
  shows "dkg_matches (p\<lparr>DKGProposalPayload := Some (all_status f c)\<rparr>)"
  by (rule dkg_matches_map[OF assms(1,2)]) (simp_all add: all_status_def assms)

lemma roster_nonempty: "roster_ok p \<Longrightarrow> sig_quorum p = Some sq \<Longrightarrow> sq \<noteq> []"
  by (auto simp: roster_ok_def)

locale dkg_part = dkg_stage +
  fixes part :: "DKGProposalParticipant \<Rightarrow> bool"
  assumes part_store: "part v \<Longrightarrow> dp_Status v = await \<Longrightarrow> d \<noteq> [] \<Longrightarrow>
      part ((store d v)\<lparr>dp_Status := confirmed, dp_UpdatedAt := t\<rparr>)"
    and store_keeps: "dp_Username (store d v) = dp_Username v"
      "dp_DkgPubKey (store d v) = dp_DkgPubKey v"
    and part_not_failed: "part v \<Longrightarrow> dp_Status v \<noteq> failed"
    and error_state: "F \<in> set dkg_states" "dkg_inv F p"
begin

lemma received_quorum:
  "dc_Quorum (dkg_received poly store confirmed i d b t v c) =
    Some (AList.update i ((store d v)\<lparr>dp_Status := confirmed, dp_UpdatedAt := t\<rparr>)
      (entries (dc_Quorum c)))"
  by (simp add: dkg_received_def poly_quorum)

lemma received_parts:
  assumes "list_all part (vals q)" and "dc_Quorum c = Some q" and "map_of q i = Some v"
    and "dp_Status v = await" and "d \<noteq> []"
  shows "dkg_all part (p\<lparr>DKGProposalPayload := Some (dkg_received poly store confirmed i d b t v c)\<rparr>)"
  using assms part_store[of v d t] list_all_valsD[OF assms(1,3)]
  by (simp add: dkg_all_def received_quorum list_all_vals_update)

lemma received_matches:
  assumes "dkg_matches p" and "dkg_quorum p = Some q" and "dc_Quorum c = Some q"
    and "map_of q i = Some v"
  shows "dkg_matches (p\<lparr>DKGProposalPayload := Some (dkg_received poly store confirmed i d b t v c)\<rparr>)"
  by (rule dkg_matches_update[OF assms(1,2,4)]) (simp_all add: received_quorum assms(3) store_keeps)

lemma part_no_failure: "list_all part (vals q) \<Longrightarrow> dc_Quorum c = Some q \<Longrightarrow> no_failure failed c"
  using part_not_failed by (auto simp: no_failure_def list_all_iff)

lemma error_kept:
  assumes "roster_ok p" "sig_all sig_confirmed p" "dkg_matches p" and "s = S \<or> s = F"
    and res: "FSM_Do X args (in_state dkg_fsm s) p = Inr ((Some r, None), g, p')"
  shows "payload_inv (resp_State r) p' \<and> same_roster p p'"
proof -
  from assms(3) obtain c q where c: "DKGProposalPayload p = Some c" "dc_Quorum c = Some q"
    "dkg_quorum p = Some q" by (rule dkg_matches_quorum)
  from c(1,2) assms(4) res show ?thesis
  proof (cases rule: error_cases)
    case (accepted i e t v)
    have "dkg_matches (p\<lparr>DKGProposalPayload := Some (dkg_failed failed i e t v c)\<rparr>)"
      by (rule dkg_matches_update[OF assms(3) c(3) accepted(5)]) (simp_all add: dkg_failed_def c(2))
    with accepted assms error_state show ?thesis by (simp add: payload_inv_dkg)
  qed simp
qed

end

text \<open>The stages that lead to another stage.\<close>

locale dkg_progress = dkg_part +
  fixes T :: State and N :: State and nxt :: DKGParticipantStatus
    and part' :: "DKGProposalParticipant \<Rightarrow> bool" and confirmed' :: DKGParticipantStatus
  assumes verdict_is: "verdict c = stage_verdict T N S confirmed c"
    and after_is: "after c = (if verdict c = N then stage_advance nxt c else c)"
    and wait_inv: "dkg_inv S p = dkg_open part confirmed p"
    and timeout_inv: "dkg_inv T p"
    and next_inv: "DKGProposalPayload p = Some (stage_advance nxt c) \<Longrightarrow>
      dkg_open part' confirmed' p \<Longrightarrow> dkg_inv N p"
    and next_part: "part v \<Longrightarrow> dp_Status v = confirmed \<Longrightarrow>
      part' (v\<lparr>dp_Status := nxt, dp_ParticipantID := i\<rparr>)"
    and next_open: "nxt \<noteq> confirmed'"
    and progress_states: "S \<in> set dkg_states" "T \<in> set dkg_states" "N \<in> set dkg_states"
      "T \<noteq> N" "S \<noteq> N"
begin

lemma advance_kept:
  assumes "roster_ok p" "sig_all sig_confirmed p"
    and "dkg_matches (p\<lparr>DKGProposalPayload := Some c\<rparr>)" and q: "dc_Quorum c = Some q" "q \<noteq> []"
    and "list_all part (vals q)" "list_all (\<lambda>v. dp_Status v = confirmed) (vals q)"
  shows "payload_inv N (p\<lparr>DKGProposalPayload := Some (stage_advance nxt c)\<rparr>)"
proof -
  let ?p = "p\<lparr>DKGProposalPayload := Some (stage_advance nxt c)\<rparr>"
  have q': "dc_Quorum (stage_advance nxt c) =
      Some (map_vals (\<lambda>i v. v\<lparr>dp_Status := nxt, dp_ParticipantID := i\<rparr>) q)"
    by (simp add: stage_advance_def q)
  have "dkg_matches ?p" by (rule dkg_matches_map[OF assms(3) q(1) _ _ q']) simp_all
  moreover have "dkg_all part' ?p"
    using assms(6,7)
    by (fastforce simp: dkg_all_def q' list_all_iff set_map_vals intro: next_part)
  moreover have "\<not> dkg_all (\<lambda>v. dp_Status v = confirmed') ?p"
    using q(2) next_open by (cases q) (auto simp: dkg_all_def q')
  ultimately show ?thesis
    unfolding payload_inv_dkg[OF progress_states(3)] using assms(1,2) next_inv[of ?p c]
    by (simp add: dkg_open_def)
qed

lemma receive_kept:
  assumes "payload_inv S p"
    and res: "FSM_Do E args (in_state dkg_fsm S) p = Inr ((Some r, None), g, p')"
  shows "payload_inv (resp_State r) p' \<and> same_roster p p'"
proof -
  from assms(1) have inv: "roster_ok p" "sig_all sig_confirmed p" "dkg_matches p"
    and "dkg_open part confirmed p"
    unfolding payload_inv_dkg[OF progress_states(1)] by (simp_all add: wait_inv)
  from inv(3) obtain c q sq where c: "DKGProposalPayload p = Some c" "dc_Quorum c = Some q"
    "dkg_quorum p = Some q" "sig_quorum p = Some sq" "keys q = keys sq" by (rule dkg_matches_quorum)
  have pq: "list_all part (vals q)"
    using \<open>dkg_open part confirmed p\<close> by (simp add: dkg_open_def dkg_all_def c)
  have ne: "q \<noteq> []" using roster_nonempty[OF inv(1) c(4)] c(5) by auto
  from c(1,2) part_no_failure[OF pq c(2)] res show ?thesis
  proof (cases rule: receive_cases)
    case (accepted i d b t v c')
    let ?p = "p\<lparr>DKGProposalPayload := Some c'\<rparr>"
    let ?q = "AList.update i ((store d v)\<lparr>dp_Status := confirmed, dp_UpdatedAt := t\<rparr>) q"
    have q': "dc_Quorum c' = Some ?q" using accepted(7) by (simp add: received_quorum c(2))
    have "?q \<noteq> []" by (cases q) auto
    have m: "dkg_matches ?p" using received_matches[OF inv(3) c(3,2) accepted(5)] accepted(7) by simp
    have "dkg_all part ?p"
      using received_parts[OF pq c(2) accepted(5,6,3)] accepted(7) by simp
    then have pq': "list_all part (vals ?q)" by (simp add: dkg_all_def q')
    have "payload_inv (verdict c') (p\<lparr>DKGProposalPayload := Some (after c')\<rparr>)"
    proof (cases "verdict c' = N")
      case True
      then have "list_all (\<lambda>v. dp_Status v = confirmed) (vals ?q)"
        using progress_states(4,5) q' by (auto simp: verdict_is stage_verdict_def split: if_splits)
      from advance_kept[OF inv(1,2) m q' \<open>?q \<noteq> []\<close> pq' this] show ?thesis
        by (simp add: after_is True)
    next
      case False
      then consider "verdict c' = T" | "verdict c' = S"
        "\<not> list_all (\<lambda>v. dp_Status v = confirmed) (vals ?q)"
        using q' by (auto simp: verdict_is stage_verdict_def split: if_splits)
      then have "dkg_inv (verdict c') ?p \<and> verdict c' \<in> set dkg_states"
      proof cases
        case 1
        then show ?thesis using timeout_inv progress_states(2) by simp
      next
        case 2
        then show ?thesis using progress_states(1) \<open>dkg_all part ?p\<close>
          by (simp add: wait_inv dkg_open_def dkg_all_def q')
      qed
      with m inv False show ?thesis by (simp add: after_is payload_inv_dkg)
    qed
    with accepted show ?thesis by simp
  qed simp
qed

end

lemma dkg_inv_simps:
  "dkg_inv StateDkgCommitsAwaitConfirmations p = dkg_open commits_part CommitConfirmed p"
  "dkg_inv StateDkgDealsAwaitConfirmations p = dkg_open deals_part DealConfirmed p"
  "dkg_inv StateDkgResponsesAwaitConfirmations p = dkg_open responses_part ResponseConfirmed p"
  "dkg_inv StateDkgMasterKeyAwaitConfirmations p \<longleftrightarrow> dkg_open master_part MasterKeyConfirmed p \<and>
     (case DKGProposalPayload p of None \<Rightarrow> False | Some c \<Rightarrow> \<not> mismatch (master_keys c))"
  "dkg_inv StateDkgMasterKeyCollected p = dkg_done p"
  "dkg_inv StateDkgCommitsAwaitCanceledByError p" "dkg_inv StateDkgCommitsAwaitCanceledByTimeout p"
  "dkg_inv StateDkgDealsAwaitCanceledByError p" "dkg_inv StateDkgDealsAwaitCanceledByTimeout p"
  "dkg_inv StateDkgResponsesAwaitCanceledByError p"
  "dkg_inv StateDkgResponsesAwaitCanceledByTimeout p"
  "dkg_inv StateDkgMasterKeyAwaitCanceledByError p"
  "dkg_inv StateDkgMasterKeyAwaitCanceledByTimeout p"
  by (simp_all add: dkg_inv_def names_neq)

lemmas part_defs = commits_part_def deals_part_def responses_part_def master_part_def

interpretation commits: dkg_progress actionCommitConfirmationReceived
  actionValidateDkgProposalAwaitCommits EventDKGCommitConfirmationReceived
  eventAutoDKGValidateConfirmationCommitsInternal EventDKGCommitConfirmationError
  StateDkgCommitsAwaitConfirmations StateDkgCommitsAwaitCanceledByError mk_commit
  CommitAwaitConfirmation CommitConfirmed CommitConfirmationError
  "''cannot confirm commit with {Status} = {\"%s\"}''" "\<lambda>d v. v\<lparr>dp_DkgCommit := d\<rparr>" "\<lambda>b c. c"
  commits_verdict commits_after commits_report commits_part
  StateDkgCommitsAwaitCanceledByTimeout StateDkgDealsAwaitConfirmations DealAwaitConfirmation
  deals_part DealConfirmed
  by unfold_locales
    (auto simp: part_defs dkg_states_def dkg_inv_simps names_neq commits_verdict_def commits_after_def)

interpretation deals: dkg_progress actionDealConfirmationReceived
  actionValidateDkgProposalAwaitDeals EventDKGDealConfirmationReceived
  eventAutoDKGValidateConfirmationDealsInternal EventDKGDealConfirmationError
  StateDkgDealsAwaitConfirmations StateDkgDealsAwaitCanceledByError mk_deal
  DealAwaitConfirmation DealConfirmed DealConfirmationError
  "''cannot confirm deal with {Status} = {\"%s\"}''" "\<lambda>d v. v\<lparr>dp_DkgDeal := d\<rparr>" "\<lambda>b c. c"
  deals_verdict deals_after deals_report deals_part
  StateDkgDealsAwaitCanceledByTimeout StateDkgResponsesAwaitConfirmations ResponseAwaitConfirmation
  responses_part ResponseConfirmed
  by unfold_locales
    (auto simp: part_defs dkg_states_def dkg_inv_simps names_neq deals_verdict_def deals_after_def)

lemma mismatch_Nil [simp]: "\<not> mismatch []"
  by (simp add: mismatch_def)

lemma master_keys_advance: "master_keys (stage_advance MasterKeyAwaitConfirmation c) = []"
  by (cases "dc_Quorum c")
    (auto simp: master_keys_def stage_advance_def filter_empty_conv set_map_vals)

interpretation responses: dkg_progress actionResponseConfirmationReceived
  actionValidateDkgProposalAwaitResponses EventDKGResponseConfirmationReceived
  eventAutoDKGValidateResponsesConfirmationInternal EventDKGResponseConfirmationError
  StateDkgResponsesAwaitConfirmations StateDkgResponsesAwaitCanceledByError mk_response
  ResponseAwaitConfirmation ResponseConfirmed ResponseConfirmationError
  "''cannot confirm response with {Status} = {\"%s\"}''" "\<lambda>d v. v\<lparr>dp_DkgResponse := d\<rparr>" "\<lambda>b c. c"
  responses_verdict responses_after responses_report responses_part
  StateDkgResponsesAwaitCanceledByTimeout StateDkgMasterKeyAwaitConfirmations
  MasterKeyAwaitConfirmation master_part MasterKeyConfirmed
  by unfold_locales
    (auto simp: part_defs dkg_states_def dkg_inv_simps names_neq responses_verdict_def
      responses_after_def master_keys_advance)

interpretation master: dkg_part actionMasterKeyConfirmationReceived
  actionValidateDkgProposalAwaitMasterKey EventDKGMasterKeyConfirmationReceived
  eventAutoDKGValidateMasterKeyConfirmationInternal EventDKGMasterKeyConfirmationError
  StateDkgMasterKeyAwaitConfirmations StateDkgMasterKeyAwaitCanceledByError mk_master_key
  MasterKeyAwaitConfirmation MasterKeyConfirmed MasterKeyConfirmationError
  "''cannot confirm response with {Status} = {\"%s\"}''" "\<lambda>d v. v\<lparr>dp_DkgMasterKey := d\<rparr>"
  "\<lambda>b c. c\<lparr>dc_PubPolyBz := b\<rparr>" master_key_verdict master_key_after "\<lambda>c. None" master_part
  by unfold_locales (auto simp: part_defs dkg_states_def dkg_inv_simps names_neq)

lemma master_collected_done:
  assumes "dc_Quorum c = Some q" and "q \<noteq> []" and "list_all master_part (vals q)"
    and conf: "list_all (\<lambda>v. dp_Status v = MasterKeyConfirmed) (vals q)"
    and "\<not> mismatch (master_keys c)"
    and q': "dc_Quorum c' = Some (map_vals (\<lambda>_ v. v\<lparr>dp_Status := MasterKeyConfirmed\<rparr>) q)"
  shows "dkg_done (p\<lparr>DKGProposalPayload := Some c'\<rparr>)"
proof -
  let ?p = "p\<lparr>DKGProposalPayload := Some c'\<rparr>"
  obtain i v q1 where q: "q = (i, v) # q1" using assms(2) by (cases q) auto
  have k: "agreed_key ?p = dp_DkgMasterKey v" by (simp add: agreed_key_def q' q)
  have mk: "master_keys c = map dp_DkgMasterKey (vals q)"
    using conf by (simp add: master_keys_def assms(1) list_all_iff filter_id_conv)
  have eq: "dp_DkgMasterKey w = dp_DkgMasterKey v" if "w \<in> set (vals q)" for w
    using assms(5) that q unfolding mk mismatch_def by (auto simp: list_ex_iff)
  have "done_part (dp_DkgMasterKey v) (w\<lparr>dp_Status := MasterKeyConfirmed\<rparr>)"
    if "w \<in> set (vals q)" for w
    using that eq[OF that] assms(3) by (auto simp: done_part_def list_all_iff master_part_def)
  then have "dkg_all (done_part (agreed_key ?p)) ?p"
    by (force simp: k dkg_all_def q' list_all_iff set_map_vals)
  moreover have "dp_DkgMasterKey v \<noteq> []"
    using assms(3) conf by (auto simp: q master_part_def)
  ultimately show ?thesis by (simp add: dkg_done_def k)
qed

lemma master_verdict_cases:
  obtains "master_key_verdict c = StateDkgMasterKeyAwaitCanceledByTimeout"
  | "master_key_verdict c = StateDkgMasterKeyAwaitCanceledByError"
  | "master_key_verdict c = StateDkgMasterKeyCollected" "\<not> mismatch (master_keys c)"
    "list_all (\<lambda>v. dp_Status v = MasterKeyConfirmed) (vals (entries (dc_Quorum c)))"
  | "master_key_verdict c = StateDkgMasterKeyAwaitConfirmations" "\<not> mismatch (master_keys c)"
    "\<not> list_all (\<lambda>v. dp_Status v = MasterKeyConfirmed) (vals (entries (dc_Quorum c)))"
  by (cases "dc_ExpiresAt c < dc_UpdatedAt c"; cases "mismatch (master_keys c)";
      cases "list_all (\<lambda>v. dp_Status v = MasterKeyConfirmed) (vals (entries (dc_Quorum c)))")
     (auto simp: master_key_verdict_def)

lemma master_receive_kept:
  assumes "payload_inv StateDkgMasterKeyAwaitConfirmations p"
    and res: "FSM_Do EventDKGMasterKeyConfirmationReceived args
      (in_state dkg_fsm StateDkgMasterKeyAwaitConfirmations) p = Inr ((Some r, None), g, p')"
  shows "payload_inv (resp_State r) p' \<and> same_roster p p'"
proof -
  have S: "StateDkgMasterKeyAwaitConfirmations \<in> set dkg_states" by (simp add: dkg_states_def)
  from assms(1) have inv: "roster_ok p" "sig_all sig_confirmed p" "dkg_matches p"
    and op: "dkg_open master_part MasterKeyConfirmed p"
    unfolding payload_inv_dkg[OF S] by (simp_all add: dkg_inv_simps)
  from inv(3) obtain c q sq where c: "DKGProposalPayload p = Some c" "dc_Quorum c = Some q"
    "dkg_quorum p = Some q" "sig_quorum p = Some sq" "keys q = keys sq" by (rule dkg_matches_quorum)
  have pq: "list_all master_part (vals q)" using op by (simp add: dkg_open_def dkg_all_def c)
  from c(1,2) master.part_no_failure[OF pq c(2)] res show ?thesis
  proof (cases rule: master.receive_cases)
    case (accepted i d b t v c')
    let ?q = "AList.update i (v\<lparr>dp_DkgMasterKey := d, dp_Status := MasterKeyConfirmed,
        dp_UpdatedAt := t\<rparr>) q"
    let ?p = "p\<lparr>DKGProposalPayload := Some c'\<rparr>" and ?w = "master_key_verdict c'"
    let ?p' = "p\<lparr>DKGProposalPayload := Some (master_key_after c')\<rparr>"
    have q': "dc_Quorum c' = Some ?q" using accepted(7) by (simp add: master.received_quorum c(2))
    have ne: "?q \<noteq> []" by (cases q) auto
    have m: "dkg_matches ?p"
      using master.received_matches[OF inv(3) c(3,2) accepted(5)] accepted(7) by simp
    have pq': "dkg_all master_part ?p"
      using master.received_parts[OF pq c(2) accepted(5,6,3)] accepted(7) by simp
    have m': "dkg_matches ?p'"
      by (simp add: master_key_after_def m dkg_matches_all_status[OF m q'])
    have "dkg_inv ?w ?p' \<and> ?w \<in> set dkg_states"
    proof -
      show ?thesis
      proof (cases rule: master_verdict_cases[of c'])
        case 3
        have "dkg_done ?p'"
          using 3 pq' by (intro master_collected_done[OF q' ne])
            (simp_all add: dkg_all_def q' master_key_after_def all_status_def dkg_neq)
        then show ?thesis by (simp add: 3(1) dkg_inv_simps dkg_states_def)
      next
        case 4
        then have "?p' = ?p" by (simp add: master_key_after_def dkg_neq)
        with 4 pq' show ?thesis
          by (simp add: dkg_inv_simps dkg_states_def dkg_open_def dkg_all_def q')
      qed (simp_all add: dkg_inv_simps dkg_states_def)
    qed
    with m' inv accepted show ?thesis by (simp add: payload_inv_dkg)
  qed simp
qed

lemma dkg_init_kept:
  assumes "payload_inv StateSignatureProposalCollected p"
    and res: "FSM_Do EventDKGInitProcess args
      (in_state dkg_fsm StateSignatureProposalCollected) p = Inr ((Some r, None), g, p')"
  shows "payload_inv (resp_State r) p' \<and> same_roster p p'"
proof -
  have S: "StateSignatureProposalCollected \<in> set sig_states" by (simp add: sig_states_def)
  from assms(1) have inv: "roster_ok p" "sig_all sig_confirmed p" "DKGProposalPayload p = None"
    unfolding payload_inv_sig[OF S] by (simp_all add: sig_state_inv_def names_neq)
  from inv(1) obtain q where q: "sig_quorum p = Some q" "q \<noteq> []" by (auto elim: roster_ok_quorum)
  from inv(1,3) q(1) res show ?thesis
  proof (cases rule: dkg_init_cases)
    case (accepted r' w)
    let ?p = "p\<lparr>DKGProposalPayload := Some (dkg_init (dr_CreatedAt r') q)\<rparr>"
    have dq: "dkg_quorum ?p = Some (map_vals dkg_fresh q)" by (simp add: dkg_init_def)
    have "map (\<lambda>(i, v). (i, dp_Username v, dp_DkgPubKey v)) (map_vals dkg_fresh q) =
        map (\<lambda>(i, v). (i, sp_Username v, sp_DkgPubKey v)) q"
      by (induction q) (auto simp: dkg_fresh_def)
    then have "dkg_matches ?p" unfolding dkg_matches_def dq by (simp add: q(1))
    moreover have "dkg_open commits_part CommitConfirmed ?p"
      unfolding dkg_open_def dkg_all_def dq using q(2)
      by (cases q) (auto simp: list_all_iff set_map_vals commits_part_def dkg_fresh_def)
    ultimately have "payload_inv w ?p"
      using inv(1,2) accepted(2)
      by (auto simp: payload_inv_dkg dkg_states_def dkg_inv_simps)
    with accepted show ?thesis by simp
  qed simp
qed

lemma dkg_kept:
  assumes inv: "payload_inv s p"
    and res: "FSM_Do e args (in_state dkg_fsm s) p = Inr ((Some r, None), g, p')"
  shows "payload_inv (resp_State r) p' \<and> same_roster p p'"
proof -
  have base: "roster_ok p" "sig_all sig_confirmed p" "dkg_matches p" if "s \<in> set dkg_states"
    using inv payload_inv_dkg[OF that] by simp_all
  from FSM_Do_public[OF res] consider
    (init) "s = StateSignatureProposalCollected" "e = EventDKGInitProcess"
    | (c) "s = StateDkgCommitsAwaitConfirmations" "e = EventDKGCommitConfirmationReceived"
    | (ce) "s \<in> {StateDkgCommitsAwaitConfirmations, StateDkgCommitsAwaitCanceledByError}"
        "e = EventDKGCommitConfirmationError"
    | (d) "s = StateDkgDealsAwaitConfirmations" "e = EventDKGDealConfirmationReceived"
    | (de) "s \<in> {StateDkgDealsAwaitConfirmations, StateDkgDealsAwaitCanceledByError}"
        "e = EventDKGDealConfirmationError"
    | (r) "s = StateDkgResponsesAwaitConfirmations" "e = EventDKGResponseConfirmationReceived"
    | (re) "s \<in> {StateDkgResponsesAwaitConfirmations, StateDkgResponsesAwaitCanceledByError}"
        "e = EventDKGResponseConfirmationError"
    | (m) "s = StateDkgMasterKeyAwaitConfirmations" "e = EventDKGMasterKeyConfirmationReceived"
    | (me) "s \<in> {StateDkgMasterKeyAwaitConfirmations, StateDkgMasterKeyAwaitCanceledByError}"
        "e = EventDKGMasterKeyConfirmationError"
    by (simp only: dkg_public list.set insert_iff empty_iff prod.inject)
       (elim disjE conjE FalseE; simp)
  then show ?thesis
  proof cases
    case init
    with inv res show ?thesis by (intro dkg_init_kept) simp_all
  next
    case c
    with inv res show ?thesis by (intro commits.receive_kept) simp_all
  next
    case d
    with inv res show ?thesis by (intro deals.receive_kept) simp_all
  next
    case r
    with inv res show ?thesis by (intro responses.receive_kept) simp_all
  next
    case m
    with inv res show ?thesis by (intro master_receive_kept) simp_all
  next
    case ce
    with base res show ?thesis by (intro commits.error_kept[of p s]) (auto simp: dkg_states_def)
  next
    case de
    with base res show ?thesis by (intro deals.error_kept[of p s]) (auto simp: dkg_states_def)
  next
    case re
    with base res show ?thesis by (intro responses.error_kept[of p s]) (auto simp: dkg_states_def)
  next
    case me
    with base res show ?thesis by (intro master.error_kept[of p s]) (auto simp: dkg_states_def)
  qed
qed

end
