(* ===== verification/State_Db.thy ===== *)
theory State_Db
  imports Prelude
begin

unbundle bit_operations_syntax

text \<open>
  The node's key-value state (\<open>src/client/modules/state/state.go\<close>): a LevelDB database with the
  offset of the next message under a key of its own.

  The package \<open>goleveldb\<close> is a parameter: the record \<open>leveldb\<close> holds the four calls the program
  makes.  \<open>leveldb_ok\<close> states what its documentation promises of them: a value that was put is
  returned by the next \<open>Get\<close> of its key, a failed put is atomic (the key has its old or the new
  value), a deleted key is not found, and other keys are left alone.
  A nil byte slice is \<open>None\<close>.
\<close>

section \<open>LevelDB\<close>

datatype ldb_error = ErrNotFound | ErrOther error

record 'db leveldb =
  ldb_OpenFile :: "string \<Rightarrow> error + 'db"
  ldb_Get :: "'db \<Rightarrow> string \<Rightarrow> ldb_error + bytes"
  ldb_Put :: "'db \<Rightarrow> string \<Rightarrow> bytes \<Rightarrow> error option \<times> 'db"
  ldb_Delete :: "'db \<Rightarrow> string \<Rightarrow> ldb_error option \<times> 'db"

definition leveldb_ok :: "'db leveldb \<Rightarrow> bool" where
  "leveldb_ok L \<longleftrightarrow>
    (\<forall>db k v db'. ldb_Put L db k v = (None, db') \<longrightarrow>
       ldb_Get L db' k = Inr v \<and> (\<forall>k'. k' \<noteq> k \<longrightarrow> ldb_Get L db' k' = ldb_Get L db k')) \<and>
    (\<forall>db k v e db'. ldb_Put L db k v = (Some e, db') \<longrightarrow>
       (ldb_Get L db' k = ldb_Get L db k \<or> ldb_Get L db' k = Inr v) \<and>
       (\<forall>k'. k' \<noteq> k \<longrightarrow> ldb_Get L db' k' = ldb_Get L db k')) \<and>
    (\<forall>db k db'. ldb_Delete L db k = (None, db') \<longrightarrow>
       ldb_Get L db' k = Inl ErrNotFound \<and> (\<forall>k'. k' \<noteq> k \<longrightarrow> ldb_Get L db' k' = ldb_Get L db k'))"

lemma leveldb_put:
  assumes "leveldb_ok L" and "ldb_Put L db k v = (None, db')"
  shows "ldb_Get L db' k' = (if k' = k then Inr v else ldb_Get L db k')"
  using assms by (auto simp: leveldb_ok_def)

lemma leveldb_put_failed:
  assumes "leveldb_ok L" and "ldb_Put L db k v = (Some e, db')"
  shows "ldb_Get L db' k = ldb_Get L db k \<or> ldb_Get L db' k = Inr v"
    and "k' \<noteq> k \<Longrightarrow> ldb_Get L db' k' = ldb_Get L db k'"
  using assms by (auto simp: leveldb_ok_def)

lemma leveldb_delete:
  assumes "leveldb_ok L" and "ldb_Delete L db k = (None, db')"
  shows "ldb_Get L db' k' = (if k' = k then Inl ErrNotFound else ldb_Get L db k')"
  using assms by (auto simp: leveldb_ok_def)

section \<open>Little-endian integers\<close>

definition PutUint64 :: "64 word \<Rightarrow> bytes" where
  "PutUint64 w = map (\<lambda>i. ucast (drop_bit (8 * i) w)) [0..<8]"

text \<open>\<open>Uint64\<close> reads eight bytes and panics on a shorter slice.\<close>

definition Uint64 :: "bytes \<Rightarrow> (64 word) go" where
  "Uint64 b = (if length b < 8 then Inl IndexOutOfRange
     else Inr (foldr (\<lambda>i w. push_bit (8 * i) (ucast (b ! i)) OR w) [0..<8] 0))"

lemma bit_le_bytes:
  "bit (foldr (\<lambda>i v. push_bit (8 * i) (ucast (ucast (drop_bit (8 * i) w) :: 8 word)) OR v) xs
      (0 :: 64 word)) n \<longleftrightarrow>
    n < 64 \<and> (\<exists>i \<in> set xs. 8 * i \<le> n \<and> n - 8 * i < 8 \<and> bit w n)"
proof (induction xs)
  case (Cons i xs)
  have "bit (push_bit (8 * i) (ucast (ucast (drop_bit (8 * i) w) :: 8 word)) :: 64 word) n \<longleftrightarrow>
      n < 64 \<and> 8 * i \<le> n \<and> n - 8 * i < 8 \<and> bit w n"
    by (auto simp: bit_push_bit_iff bit_ucast_iff bit_drop_bit_eq)
  with Cons show ?case by (auto simp: bit_or_iff)
qed simp

lemma Uint64_PutUint64: "Uint64 (PutUint64 w) = Inr w"
proof -
  have nth: "PutUint64 w ! i = ucast (drop_bit (8 * i) w)" if "i \<in> set [0..<8]" for i
    using that by (simp add: PutUint64_def)
  have "foldr (\<lambda>i v. push_bit (8 * i) (ucast (PutUint64 w ! i)) OR v) [0..<8] (0 :: 64 word) =
      foldr (\<lambda>i v. push_bit (8 * i) (ucast (ucast (drop_bit (8 * i) w) :: 8 word)) OR v) [0..<8] 0"
    by (intro foldr_cong) (simp_all add: nth)
  also have "\<dots> = w"
  proof (rule bit_word_eqI)
    fix n assume "n < LENGTH(64)"
    then have "n < 64" by simp
    then have "\<exists>i \<in> set [0..<8]. 8 * i \<le> n \<and> n - 8 * i < 8"
      by (intro bexI[of _ "n div 8"]) auto
    with \<open>n < 64\<close> show "bit (foldr (\<lambda>i v. push_bit (8 * i)
        (ucast (ucast (drop_bit (8 * i) w) :: 8 word)) OR v) [0..<8] (0 :: 64 word)) n = bit w n"
      unfolding bit_le_bytes by blast
  qed
  finally show ?thesis by (simp add: Uint64_def) (simp add: PutUint64_def)
qed

section \<open>The state\<close>

definition OffsetKey :: string where "OffsetKey = ''offset''"

definition MakeCompositeKey :: "string \<Rightarrow> string \<Rightarrow> string" where
  "MakeCompositeKey prefix key = prefix @ ''_'' @ key"

definition MakeCompositeKeyString :: "string \<Rightarrow> string \<Rightarrow> string" where
  "MakeCompositeKeyString prefix key = prefix @ ''_'' @ key"

record 'db LevelDBState =
  stateDb :: 'db
  topic :: string
  stateDbPath :: string

definition NewLevelDBState ::
  "'db leveldb \<Rightarrow> string \<Rightarrow> string \<Rightarrow> error + 'db LevelDBState"
where
  "NewLevelDBState L path topic' =
    (case ldb_OpenFile L path of
       Inl e \<Rightarrow> Inl (Wrapf ''failed to open stateDB: %w'' [] e)
     | Inr db \<Rightarrow>
         let state = \<lparr>stateDb = db, topic = topic', stateDbPath = path\<rparr>;
             offsetCompositeKey = MakeCompositeKey topic' OffsetKey
         in case ldb_Get L db offsetCompositeKey of
              Inr _ \<Rightarrow> Inr state
            | Inl _ \<Rightarrow>
                (case ldb_Put L db offsetCompositeKey (PutUint64 0) of
                   (Some e, db) \<Rightarrow> Inl (Wrapf ''failed to init %s storage: %w'' [AStr offsetCompositeKey] e)
                 | (None, db) \<Rightarrow> Inr (state\<lparr>stateDb := db\<rparr>)))"

text \<open>The path of a fresh database when none is given; \<open>now\<close> is the printed \<open>time.Now().Unix()\<close>.\<close>

definition freshPath :: "string \<Rightarrow> string \<Rightarrow> 'db LevelDBState \<Rightarrow> string" where
  "freshPath now path s = (if length path < 1 then stateDbPath s @ ''_'' @ now else path)"

definition NewStateFromOld ::
  "'db leveldb \<Rightarrow> string \<Rightarrow> string \<Rightarrow> 'db LevelDBState \<Rightarrow> (error + 'db LevelDBState) \<times> string"
where
  "NewStateFromOld L now path s =
    (let path = freshPath now path s in (NewLevelDBState L path (topic s), path))"

definition LevelDBState_Reset ::
  "'db leveldb \<Rightarrow> string \<Rightarrow> string \<Rightarrow> 'db LevelDBState \<Rightarrow>
   (string \<times> error option) \<times> 'db LevelDBState"
where
  "LevelDBState_Reset L now path s =
    (let path = freshPath now path s in
     case NewLevelDBState L path (topic s) of
       Inl e \<Rightarrow> ((path, Some (Wrapf ''failed to open stateDB: %w'' [] e)), s)
     | Inr newstate \<Rightarrow>
         ((path, None), s\<lparr>stateDb := stateDb newstate, stateDbPath := path\<rparr>))"

definition LevelDBState_Get ::
  "'db leveldb \<Rightarrow> 'db LevelDBState \<Rightarrow> string \<Rightarrow> error + bytes option"
where
  "LevelDBState_Get L s key =
    (case ldb_Get L (stateDb s) key of
       Inr value \<Rightarrow> Inr (Some value)
     | Inl ErrNotFound \<Rightarrow> Inr None
     | Inl (ErrOther e) \<Rightarrow>
         Inl (Wrapf ''failed to get value with key {%s} from leveldb storage: %w'' [AStr key] e))"

definition LevelDBState_Set ::
  "'db leveldb \<Rightarrow> string \<Rightarrow> bytes \<Rightarrow> 'db LevelDBState \<Rightarrow> error option \<times> 'db LevelDBState"
where
  "LevelDBState_Set L key value s =
    (case ldb_Put L (stateDb s) key value of
       (Some e, db) \<Rightarrow> (Some (Wrapf ''failed to save value with key %s: %w'' [AStr key] e), s\<lparr>stateDb := db\<rparr>)
     | (None, db) \<Rightarrow> (None, s\<lparr>stateDb := db\<rparr>))"

definition LevelDBState_Delete ::
  "'db leveldb \<Rightarrow> string \<Rightarrow> 'db LevelDBState \<Rightarrow> error option \<times> 'db LevelDBState"
where
  "LevelDBState_Delete L key s =
    (case ldb_Delete L (stateDb s) key of
       (Some (ErrOther e), db) \<Rightarrow>
         (Some (Wrapf ''failed to delete value with key {%s}: %w'' [AStr key] e), s\<lparr>stateDb := db\<rparr>)
     | (_, db) \<Rightarrow> (None, s\<lparr>stateDb := db\<rparr>))"

definition LevelDBState_SaveOffset ::
  "'db leveldb \<Rightarrow> 64 word \<Rightarrow> 'db LevelDBState \<Rightarrow> error option \<times> 'db LevelDBState"
where
  "LevelDBState_SaveOffset L offset s =
    (case ldb_Put L (stateDb s) (MakeCompositeKey (topic s) OffsetKey) (PutUint64 offset) of
       (Some e, db) \<Rightarrow> (Some (Wrapf ''failed to set offset: %w'' [] e), s\<lparr>stateDb := db\<rparr>)
     | (None, db) \<Rightarrow> (None, s\<lparr>stateDb := db\<rparr>))"

definition ldb_error_value :: "ldb_error \<Rightarrow> error" where
  "ldb_error_value e = (case e of ErrNotFound \<Rightarrow> errorsNew ''leveldb: not found'' | ErrOther x \<Rightarrow> x)"

definition LevelDBState_LoadOffset ::
  "'db leveldb \<Rightarrow> 'db LevelDBState \<Rightarrow> (error + 64 word) go"
where
  "LevelDBState_LoadOffset L s =
    (case ldb_Get L (stateDb s) (MakeCompositeKey (topic s) OffsetKey) of
       Inl e \<Rightarrow> Inr (Inl (Wrapf ''failed to read offset: %w'' [] (ldb_error_value e)))
     | Inr bz \<Rightarrow> bindR (Uint64 bz) (\<lambda>offset. Inr (Inr offset)))"

definition LevelDBState_GetOrError ::
  "'db leveldb \<Rightarrow> 'db LevelDBState \<Rightarrow> string \<Rightarrow> ldb_error + bytes"
where
  "LevelDBState_GetOrError L s key = ldb_Get L (stateDb s) key"

section \<open>Reading back\<close>

lemma state_set_get:
  assumes "leveldb_ok L" and "LevelDBState_Set L k v s = (None, s')"
  shows "LevelDBState_Get L s' k' = (if k' = k then Inr (Some v) else LevelDBState_Get L s k')"
    and "topic s' = topic s"
  using assms
  by (auto simp: LevelDBState_Set_def LevelDBState_Get_def leveldb_put split: option.splits prod.splits)

lemma state_set_any:
  assumes "leveldb_ok L" and "LevelDBState_Set L k v s = (err, s')"
  shows "LevelDBState_Get L s' k = LevelDBState_Get L s k \<or> LevelDBState_Get L s' k = Inr (Some v)"
    and "k' \<noteq> k \<Longrightarrow> LevelDBState_Get L s' k' = LevelDBState_Get L s k'"
    and "topic s' = topic s"
proof -
  obtain err0 db where put: "ldb_Put L (stateDb s) k v = (err0, db)" by fastforce
  have get: "ldb_Get L db k = ldb_Get L (stateDb s) k \<or> ldb_Get L db k = Inr v"
    "\<And>k'. k' \<noteq> k \<Longrightarrow> ldb_Get L db k' = ldb_Get L (stateDb s) k'"
    using leveldb_put[OF assms(1)] leveldb_put_failed[OF assms(1)] put by (cases err0; auto)+
  have s': "s' = s\<lparr>stateDb := db\<rparr>"
    using assms(2) put by (auto simp: LevelDBState_Set_def split: option.splits)
  show "LevelDBState_Get L s' k = LevelDBState_Get L s k \<or> LevelDBState_Get L s' k = Inr (Some v)"
    "k' \<noteq> k \<Longrightarrow> LevelDBState_Get L s' k' = LevelDBState_Get L s k'" "topic s' = topic s"
    using get by (auto simp: s' LevelDBState_Get_def)
qed

lemma state_delete_get:
  assumes "leveldb_ok L" and "LevelDBState_Delete L k s = (None, s')"
    and "\<And>db'. ldb_Delete L (stateDb s) k \<noteq> (Some ErrNotFound, db')"
  shows "LevelDBState_Get L s' k' = (if k' = k then Inr None else LevelDBState_Get L s k')"
  using assms
  by (auto simp: LevelDBState_Delete_def LevelDBState_Get_def leveldb_delete
      split: option.splits prod.splits ldb_error.splits)

lemma offset_saved:
  assumes "leveldb_ok L" and "LevelDBState_SaveOffset L w s = (None, s')"
  shows "LevelDBState_LoadOffset L s' = Inr (Inr w)"
  using assms
  by (auto simp: LevelDBState_SaveOffset_def LevelDBState_LoadOffset_def leveldb_put Uint64_PutUint64
      split: option.splits prod.splits)

lemma offset_any:
  assumes "leveldb_ok L" and "LevelDBState_SaveOffset L w s = (err, s')"
  shows "k \<noteq> MakeCompositeKey (topic s) OffsetKey \<Longrightarrow> LevelDBState_Get L s' k = LevelDBState_Get L s k"
    and "topic s' = topic s"
proof -
  obtain err0 db where put: "ldb_Put L (stateDb s) (MakeCompositeKey (topic s) OffsetKey) (PutUint64 w) = (err0, db)"
    by fastforce
  have get: "k' \<noteq> MakeCompositeKey (topic s) OffsetKey \<Longrightarrow> ldb_Get L db k' = ldb_Get L (stateDb s) k'" for k'
    using leveldb_put[OF assms(1)] leveldb_put_failed[OF assms(1)] put by (cases err0) auto
  have s': "s' = s\<lparr>stateDb := db\<rparr>"
    using assms(2) put by (auto simp: LevelDBState_SaveOffset_def split: option.splits)
  show "k \<noteq> MakeCompositeKey (topic s) OffsetKey \<Longrightarrow> LevelDBState_Get L s' k = LevelDBState_Get L s k"
    "topic s' = topic s" using get by (auto simp: s' LevelDBState_Get_def)
qed

lemma offset_other_key:
  assumes "leveldb_ok L" and "LevelDBState_Set L k v s = (None, s')"
    and "k \<noteq> MakeCompositeKey (topic s) OffsetKey"
  shows "LevelDBState_LoadOffset L s' = LevelDBState_LoadOffset L s"
  using assms
  by (auto simp: LevelDBState_Set_def LevelDBState_LoadOffset_def leveldb_put
      split: option.splits prod.splits)

lemma composite_key_inj:
  "MakeCompositeKeyString p k = MakeCompositeKeyString p k' \<longleftrightarrow> k = k'"
  "MakeCompositeKeyString p k = MakeCompositeKey p k' \<longleftrightarrow> k = k'"
  by (simp_all add: MakeCompositeKeyString_def MakeCompositeKey_def)

section \<open>A database in memory\<close>

text \<open>A database that meets the contract, on which the theorems are instantiated.\<close>

definition memdb :: "(string, bytes) gomap leveldb" where
  "memdb = \<lparr>ldb_OpenFile = (\<lambda>path. Inr []),
     ldb_Get = (\<lambda>db k. case map_of db k of None \<Rightarrow> Inl ErrNotFound | Some v \<Rightarrow> Inr v),
     ldb_Put = (\<lambda>db k v. (None, AList.update k v db)),
     ldb_Delete = (\<lambda>db k. (None, AList.delete k db))\<rparr>"

lemma memdb_ok: "leveldb_ok memdb"
  by (auto simp: leveldb_ok_def memdb_def map_of_eq_None_iff AList.delete_conv')

end
