(* ===== verification/Storage.thy ===== *)
theory Storage
  imports Prelude
begin

text \<open>
  Messages of the append-only log (\<open>src/storage/types.go\<close>) and its file implementation
  (\<open>src/storage/file_storage/fileStorage.go\<close>).

  The data file is the list of its rows; a row is written with a line break and JSON text holds
  none, so rows and messages correspond.  The JSON encoding of a message is a pair of functions,
  arguments of the definitions; \<open>uuid.New\<close> and the file lock are arguments as well: the fresh
  identifier, and whether each call of the operating system fails.
\<close>

section \<open>Messages\<close>

record Message =
  ID :: string
  DkgRoundID :: string
  Offset :: "64 word"
  msg_Event :: string
  Data :: bytes
  Signature :: bytes
  SenderAddr :: string
  RecipientAddr :: string

definition Message_Bytes :: "Message \<Rightarrow> bytes" where
  "Message_Bytes m = [] @ Data m"

definition Message_Verify :: "(bytes \<Rightarrow> bytes \<Rightarrow> bytes \<Rightarrow> bool) \<Rightarrow> Message \<Rightarrow> bytes \<Rightarrow> bool" where
  "Message_Verify ed25519_Verify m pubKey = ed25519_Verify pubKey (Message_Bytes m) (Signature m)"

record msg_json =
  mj_Marshal :: "Message \<Rightarrow> error + bytes"
  mj_Unmarshal :: "bytes \<Rightarrow> Message \<Rightarrow> error + Message"

text \<open>
  \<open>Unmarshal\<close> fills a message that is already there and keeps the fields the row does not mention.
  What the code relies on: a marshalled message, which mentions every field, is read back whatever
  was there before.  The strings of a message stand for valid UTF-8 text.
\<close>

definition msg_json_ok :: "msg_json \<Rightarrow> bool" where
  "msg_json_ok J \<longleftrightarrow> (\<forall>m b prev. mj_Marshal J m = Inr b \<longrightarrow> mj_Unmarshal J b prev = Inr m)"

text \<open>The zero value of a message.\<close>

definition zero_Message :: Message where
  "zero_Message = \<lparr>ID = '''', DkgRoundID = '''', Offset = 0, msg_Event = '''', Data = [],
     Signature = [], SenderAddr = '''', RecipientAddr = ''''\<rparr>"

section \<open>The file\<close>

record FileStorage =
  dataFile :: "bytes list"
  idIgnoreList :: "(string, unit) gomap"
  offsetIgnoreList :: "(64 word, unit) gomap"

text \<open>
  A \<open>bufio.Scanner\<close> with buffer limit \<open>n\<close> delivers rows as long as each of them, with its line
  break, fits into \<open>n\<close> bytes; at the first longer one \<open>Scan\<close> stops with an error.
\<close>

definition scanned :: "nat \<Rightarrow> bytes list \<Rightarrow> bytes list" where
  "scanned n rows = takeWhile (\<lambda>r. length r < n) rows"

definition scan_fails :: "nat \<Rightarrow> bytes list \<Rightarrow> bool" where
  "scan_fails n rows \<longleftrightarrow> scanned n rows \<noteq> rows"

definition MaxScanTokenSize :: nat where "MaxScanTokenSize = 64 * 1024"

definition countLines :: "bytes list \<Rightarrow> 64 word" where
  "countLines rows = fold (\<lambda>r count. count + 1) (scanned MaxScanTokenSize rows) 0"

definition NewFileStorage :: "(string \<Rightarrow> error + bytes list) \<Rightarrow> string \<Rightarrow> error + FileStorage" where
  "NewFileStorage os_OpenFile filename =
    (case os_OpenFile filename of
       Inl e \<Rightarrow> Inl (Wrapf ''failed to open a data file:  %w'' [] e)
     | Inr rows \<Rightarrow> Inr \<lparr>dataFile = rows, idIgnoreList = [], offsetIgnoreList = []\<rparr>)"

text \<open>The calls of the operating system that \<open>send\<close> makes: lock, seek, write.\<close>

record send_env =
  se_uuid :: string
  se_lock :: "error option"
  se_seek :: "error option"
  se_write :: "error option"

definition send ::
  "msg_json \<Rightarrow> send_env \<Rightarrow> Message \<Rightarrow> FileStorage \<Rightarrow> (Message \<times> error option) \<times> FileStorage"
where
  "send J env m fs =
    (case se_lock env of
       Some e \<Rightarrow> ((m, Some (Wrapf ''failed to lock a file:  %w'' [] e)), fs)
     | None \<Rightarrow>
         let m = m\<lparr>ID := se_uuid env\<rparr> in
         (case se_seek env of
            Some e \<Rightarrow> ((m, Some (Wrapf ''failed to seek a offset to the start of a data file:  %w'' [] e)), fs)
          | None \<Rightarrow>
              let m = m\<lparr>Offset := countLines (dataFile fs)\<rparr> in
              (case mj_Marshal J m of
                 Inl e \<Rightarrow> ((m, Some (Wrapf ''failed to marshal a message %v: %w'' [] e)), fs)
               | Inr data \<Rightarrow>
                   (case se_write env of
                      Some e \<Rightarrow> ((m, Some (Wrapf ''failed to write a message to a data file:  %w'' [] e)), fs)
                    | None \<Rightarrow> ((m, None), fs\<lparr>dataFile := dataFile fs @ [data]\<rparr>)))))"

text \<open>\<open>Send\<close> stops at the first message that fails; the ones before it stay in the file.\<close>

fun Send ::
  "msg_json \<Rightarrow> (send_env \<times> Message) list \<Rightarrow> FileStorage \<Rightarrow> (Message list \<times> error option) \<times> FileStorage"
where
  "Send J [] fs = (([], None), fs)"
| "Send J ((env, m) # ms) fs =
    (case send J env m fs of
       ((m', Some e), fs) \<Rightarrow> ((m' # map snd ms, Some e), fs)
     | ((m', None), fs) \<Rightarrow>
         (case Send J ms fs of ((ms', err), fs) \<Rightarrow> ((m' # ms', err), fs)))"

text \<open>The loop of \<open>GetMessages\<close>; \<open>data\<close> is the one message variable that every row is read into.\<close>

fun getRows ::
  "msg_json \<Rightarrow> FileStorage \<Rightarrow> 64 word \<Rightarrow> Message \<Rightarrow> bytes list \<Rightarrow> Message list \<Rightarrow> error + Message list"
where
  "getRows J fs offset data [] msgs = Inr msgs"
| "getRows J fs offset data (row # rows) msgs =
    (if offset > 0 then getRows J fs (offset - 1) data rows msgs
     else case mj_Unmarshal J row data of
       Inl e \<Rightarrow> Inl (Wrapf ''failed to unmarshal a message %s: %w'' [] e)
     | Inr data \<Rightarrow>
         if \<not> has_key (idIgnoreList fs) (ID data) \<and> \<not> has_key (offsetIgnoreList fs) (Offset data)
         then getRows J fs offset data rows (msgs @ [data])
         else getRows J fs offset data rows msgs)"

definition GetMessages ::
  "msg_json \<Rightarrow> error option \<Rightarrow> FileStorage \<Rightarrow> 64 word \<Rightarrow> error + Message list"
where
  "GetMessages J seek fs offset =
    (case seek of
       Some e \<Rightarrow> Inl (Wrapf ''failed to seek a offset to the start of a data file:  %w'' [] e)
     | None \<Rightarrow>
         bindR (getRows J fs offset zero_Message (scanned (1024 * 1024) (dataFile fs)) []) (\<lambda>msgs.
           if scan_fails (1024 * 1024) (dataFile fs)
           then Inl (Wrapf ''failed to read a data file: %w'' []
                  (errorsNew ''bufio.Scanner: token too long''))
           else Inr msgs))"

text \<open>\<open>ParseUint\<close> is \<open>strconv.ParseUint(_, 10, 64)\<close>: decimal digits, no sign, at most 64 bits.\<close>

definition decimal :: "char \<Rightarrow> nat option" where
  "decimal c = (let n = of_char c :: nat in if 48 \<le> n \<and> n \<le> 57 then Some (n - 48) else None)"

definition ParseUint :: "string \<Rightarrow> error + 64 word" where
  "ParseUint s =
    (if s = '''' \<or> list_ex (\<lambda>c. decimal c = None) s
     then Inl (errorsNew ''strconv.ParseUint: invalid syntax'')
     else let n = fold (\<lambda>c n. 10 * n + the (decimal c)) s (0::nat) in
       if n < 2 ^ 64 then Inr (of_nat n)
       else Inl (errorsNew ''strconv.ParseUint: value out of range''))"

fun IgnoreMessages :: "string list \<Rightarrow> bool \<Rightarrow> FileStorage \<Rightarrow> error option \<times> FileStorage" where
  "IgnoreMessages [] useOffset fs = (None, fs)"
| "IgnoreMessages (msg # messages) useOffset fs =
    (if useOffset then
       case ParseUint msg of
         Inl e \<Rightarrow> (Some (Wrapf ''failed to parse message offset:  %w'' [] e), fs)
       | Inr offset \<Rightarrow> IgnoreMessages messages useOffset
           (fs\<lparr>offsetIgnoreList := AList.update offset () (offsetIgnoreList fs)\<rparr>)
     else IgnoreMessages messages useOffset
       (fs\<lparr>idIgnoreList := AList.update msg () (idIgnoreList fs)\<rparr>))"

definition UnignoreMessages :: "FileStorage \<Rightarrow> FileStorage" where
  "UnignoreMessages fs = fs\<lparr>idIgnoreList := [], offsetIgnoreList := []\<rparr>"

section \<open>The log as a list of messages\<close>

text \<open>A log whose rows are readable, short enough to be counted, and numbered by position.\<close>

definition decoded :: "msg_json \<Rightarrow> FileStorage \<Rightarrow> Message list" where
  "decoded J fs = map (\<lambda>r. case mj_Unmarshal J r zero_Message of Inr m \<Rightarrow> m | Inl e \<Rightarrow> undefined) (dataFile fs)"

definition row_is :: "msg_json \<Rightarrow> bytes \<Rightarrow> Message \<Rightarrow> bool" where
  "row_is J r m \<longleftrightarrow> (\<forall>prev. mj_Unmarshal J r prev = Inr m)"

lemma row_is_Unmarshal: "row_is J r m \<Longrightarrow> mj_Unmarshal J r prev = Inr m"
  by (simp add: row_is_def)

definition log_ok :: "msg_json \<Rightarrow> FileStorage \<Rightarrow> bool" where
  "log_ok J fs \<longleftrightarrow> length (dataFile fs) < 2 ^ 64 \<and>
     list_all (\<lambda>(i, r). length r < MaxScanTokenSize \<and>
       (\<exists>m. row_is J r m \<and> Offset m = of_nat i))
       (List.enumerate 0 (dataFile fs))"

definition visible :: "FileStorage \<Rightarrow> Message \<Rightarrow> bool" where
  "visible fs m \<longleftrightarrow> \<not> has_key (idIgnoreList fs) (ID m) \<and> \<not> has_key (offsetIgnoreList fs) (Offset m)"

lemma fold_count: "fold (\<lambda>r count. count + 1) rows w = w + of_nat (length rows)"
  for w :: "64 word"
  by (induction rows arbitrary: w) (simp_all add: algebra_simps)

lemma scanned_all: "list_all (\<lambda>r. length r < n) rows \<Longrightarrow> scanned n rows = rows"
  by (induction rows) (simp_all add: scanned_def)

lemma countLines_short:
  "list_all (\<lambda>r. length r < MaxScanTokenSize) rows \<Longrightarrow> countLines rows = of_nat (length rows)"
  by (simp add: countLines_def scanned_all fold_count)

lemma log_ok_rows:
  assumes "log_ok J fs"
  shows "list_all (\<lambda>r. length r < MaxScanTokenSize) (dataFile fs)"
    and "list_all (\<lambda>r. \<exists>m. row_is J r m) (dataFile fs)"
proof -
  have "length r < MaxScanTokenSize \<and> (\<exists>m. row_is J r m)" if "r \<in> set (dataFile fs)" for r
  proof -
    from that obtain i where "i < length (dataFile fs)" "dataFile fs ! i = r" by (auto simp: in_set_conv_nth)
    then have "(i, r) \<in> set (List.enumerate 0 (dataFile fs))" by (auto simp: in_set_enumerate_eq)
    with assms have "case (i, r) of (i, r) \<Rightarrow> length r < MaxScanTokenSize \<and>
        (\<exists>m. row_is J r m \<and> Offset m = of_nat i)"
      unfolding log_ok_def list_all_iff by blast
    then show ?thesis by (auto split: sum.splits)
  qed
  then show "list_all (\<lambda>r. length r < MaxScanTokenSize) (dataFile fs)"
    "list_all (\<lambda>r. \<exists>m. row_is J r m) (dataFile fs)" by (auto simp: list_all_iff)
qed

lemma send_appends:
  assumes "msg_json_ok J" and "log_ok J fs" and "Suc (length (dataFile fs)) < 2 ^ 64"
    and "send J env m fs = ((m', None), fs')"
    and "\<And>b. mj_Marshal J m' = Inr b \<Longrightarrow> length b < MaxScanTokenSize"
  shows "log_ok J fs'" and "decoded J fs' = decoded J fs @ [m']"
    and "m' = m\<lparr>ID := se_uuid env, Offset := of_nat (length (dataFile fs))\<rparr>"
    and "length (dataFile fs') = Suc (length (dataFile fs))"
    and "idIgnoreList fs' = idIgnoreList fs" "offsetIgnoreList fs' = offsetIgnoreList fs"
proof -
  have cnt: "countLines (dataFile fs) = of_nat (length (dataFile fs))"
    by (rule countLines_short[OF log_ok_rows(1)[OF assms(2)]])
  from assms(4) obtain b where b: "mj_Marshal J m' = Inr b"
    and m': "m' = m\<lparr>ID := se_uuid env, Offset := of_nat (length (dataFile fs))\<rparr>"
    and fs': "fs' = fs\<lparr>dataFile := dataFile fs @ [b]\<rparr>"
    by (auto simp: send_def Let_def cnt split: option.splits sum.splits)
  have u: "row_is J b m'" using assms(1) b by (auto simp: msg_json_ok_def row_is_def)
  show "m' = m\<lparr>ID := se_uuid env, Offset := of_nat (length (dataFile fs))\<rparr>" by (rule m')
  show "length (dataFile fs') = Suc (length (dataFile fs))" "idIgnoreList fs' = idIgnoreList fs"
    "offsetIgnoreList fs' = offsetIgnoreList fs" by (simp_all add: fs')
  show "decoded J fs' = decoded J fs @ [m']" by (simp add: decoded_def fs' row_is_Unmarshal[OF u])
  show "log_ok J fs'"
    using assms(2,3) assms(5)[OF b] u m'
    by (auto simp: log_ok_def fs' enumerate_append_eq)
qed

lemma getRows_take:
  assumes "list_all (\<lambda>r. \<exists>m. row_is J r m) rows"
  shows "getRows J fs w data rows msgs = Inr (msgs @ filter (visible fs)
    (drop (unat w) (map (\<lambda>r. case mj_Unmarshal J r zero_Message of Inr m \<Rightarrow> m | Inl e \<Rightarrow> undefined) rows)))"
  using assms
proof (induction rows arbitrary: w data msgs)
  case (Cons r rows)
  from Cons.prems obtain m where m: "\<And>prev. mj_Unmarshal J r prev = Inr m" by (auto simp: row_is_def)
  show ?case
  proof (cases "w = 0")
    case True
    with Cons m show ?thesis by (simp add: visible_def)
  next
    case False
    then have "w > 0" by (simp add: word_neq_0_conv)
    moreover have "unat w = Suc (unat (w - 1))" using False by (simp add: unat_minus_one unat_gt_0)
    ultimately show ?thesis using Cons by simp
  qed
qed simp

lemma GetMessages_log:
  assumes "log_ok J fs"
  shows "GetMessages J None fs w = Inr (filter (visible fs) (drop (unat w) (decoded J fs)))"
proof -
  have short: "list_all (\<lambda>r. length r < 1024 * 1024) (dataFile fs)"
    using log_ok_rows(1)[OF assms] by (auto simp: list_all_iff MaxScanTokenSize_def)
  then have "scanned (1024 * 1024) (dataFile fs) = dataFile fs" by (rule scanned_all)
  with getRows_take[OF log_ok_rows(2)[OF assms]] show ?thesis
    by (simp add: GetMessages_def scan_fails_def decoded_def)
qed

lemma Send_appends:
  assumes "msg_json_ok J" and "log_ok J fs" and "length (dataFile fs) + length ms < 2 ^ 64"
    and "Send J ms fs = ((sent, None), fs')"
    and "list_all (\<lambda>m. case mj_Marshal J m of Inl e \<Rightarrow> True | Inr b \<Rightarrow> length b < MaxScanTokenSize) sent"
  shows "log_ok J fs' \<and> decoded J fs' = decoded J fs @ sent \<and>
    sent = map (\<lambda>(i, env, m). m\<lparr>ID := se_uuid env, Offset := of_nat i\<rparr>)
      (List.enumerate (length (dataFile fs)) ms) \<and>
    idIgnoreList fs' = idIgnoreList fs \<and> offsetIgnoreList fs' = offsetIgnoreList fs"
  using assms
proof (induction ms arbitrary: fs sent)
  case (Cons x ms)
  obtain env m where x: "x = (env, m)" by (cases x)
  from Cons.prems(4) obtain m' fs1 sent' where s1: "send J env m fs = ((m', None), fs1)"
    and s2: "Send J ms fs1 = ((sent', None), fs')" and sent: "sent = m' # sent'"
    by (auto simp: x split: prod.splits option.splits)
  have "\<And>b. mj_Marshal J m' = Inr b \<Longrightarrow> length b < MaxScanTokenSize"
    using Cons.prems(5) by (simp add: sent)
  note step = send_appends[OF Cons.prems(1,2) _ s1 this]
  have len: "Suc (length (dataFile fs)) < 2 ^ 64" using Cons.prems(3) by simp
  from Cons.IH[OF Cons.prems(1) step(1)[OF len] _ s2] Cons.prems(3,5) step(2-6)[OF len] sent x
  show ?case by simp
qed simp

text \<open>From the first row that is too long to be counted on, every message gets the same offset.\<close>

lemma oversized_offset:
  assumes "dataFile fs = rows @ big # rest" and "list_all (\<lambda>r. length r < MaxScanTokenSize) rows"
    and "MaxScanTokenSize \<le> length big" and "send J env m fs = ((m', None), fs')"
  shows "Offset m' = of_nat (length rows)"
proof -
  have "scanned MaxScanTokenSize (dataFile fs) = rows"
    using assms(1-3) by (auto simp: scanned_def takeWhile_append list_all_iff)
  then have "countLines (dataFile fs) = of_nat (length rows)" by (simp add: countLines_def fold_count)
  with assms(4) show ?thesis
    by (auto simp: send_def Let_def split: option.splits sum.splits)
qed

section \<open>Properties\<close>

lemma length_decoded [simp]: "length (decoded J fs) = length (dataFile fs)"
  by (simp add: decoded_def)

text \<open>
  Messages that were sent are read back: reading from the old end of a log returns exactly the
  messages just sent that are not ignored, in order, each with its position in the log as its
  offset, and the log stays readable.
\<close>

theorem log_append_read:
  assumes "msg_json_ok J" and "log_ok J fs" and "length (dataFile fs) + length ms < 2 ^ 64"
    and "Send J ms fs = ((sent, None), fs')"
    and "list_all (\<lambda>m. case mj_Marshal J m of Inl e \<Rightarrow> True | Inr b \<Rightarrow> length b < 64 * 1024) sent"
  shows "GetMessages J None fs' (of_nat (length (dataFile fs))) =
      Inr (filter (\<lambda>m. \<not> has_key (idIgnoreList fs) (ID m) \<and> \<not> has_key (offsetIgnoreList fs) (Offset m)) sent) \<and>
    sent = map (\<lambda>(i, env, m). m\<lparr>ID := se_uuid env, Offset := of_nat i\<rparr>)
      (List.enumerate (length (dataFile fs)) ms) \<and> log_ok J fs'"
proof -
  from assms(5) have "list_all (\<lambda>m. case mj_Marshal J m of Inl e \<Rightarrow> True
      | Inr b \<Rightarrow> length b < MaxScanTokenSize) sent" unfolding MaxScanTokenSize_def .
  note app = Send_appends[OF assms(1-4) this]
  have "unat (of_nat (length (dataFile fs)) :: 64 word) = length (dataFile fs)"
    using assms(3) by (simp add: unat_of_nat take_bit_nat_eq_self)
  moreover have "visible fs' = (\<lambda>m. \<not> has_key (idIgnoreList fs) (ID m) \<and>
      \<not> has_key (offsetIgnoreList fs) (Offset m))"
    using app by (simp add: visible_def fun_eq_iff)
  ultimately show ?thesis using app GetMessages_log[of J fs'] by simp
qed

definition sample_msg :: "string \<Rightarrow> 64 word \<Rightarrow> Message" where
  "sample_msg i w = \<lparr>ID = i, DkgRoundID = ''round'', Offset = w, msg_Event = ''event'', Data = [1],
     Signature = [], SenderAddr = ''alice'', RecipientAddr = ''''\<rparr>"

definition sample_json :: msg_json where
  "sample_json = \<lparr>mj_Marshal = (\<lambda>m. if m = sample_msg ''u0'' 0 then Inr [0]
       else if m = sample_msg ''u1'' 1 then Inr [1] else Inl (errorsNew ''json'')),
     mj_Unmarshal = (\<lambda>b prev. if b = [0] then Inr (sample_msg ''u0'' 0)
       else if b = [1] then Inr (sample_msg ''u1'' 1) else Inl (errorsNew ''json''))\<rparr>"

definition send_ok :: "string \<Rightarrow> send_env" where
  "send_ok u = \<lparr>se_uuid = u, se_lock = None, se_seek = None, se_write = None\<rparr>"

lemma sample_json_ok: "msg_json_ok sample_json"
  by (auto simp: msg_json_ok_def sample_json_def split: if_splits)

theorem log_append_read_witness:
  "\<exists>sent fs'. Send sample_json [(send_ok ''u1'', sample_msg '''' 0)]
      \<lparr>dataFile = [[0]], idIgnoreList = [], offsetIgnoreList = []\<rparr> = ((sent, None), fs') \<and>
    GetMessages sample_json None fs' 1 = Inr sent \<and> sent = [sample_msg ''u1'' 1]"
proof -
  let ?fs = "\<lparr>dataFile = [[0]], idIgnoreList = [], offsetIgnoreList = []\<rparr> :: FileStorage"
  let ?fs' = "\<lparr>dataFile = [[0], [1]], idIgnoreList = [], offsetIgnoreList = []\<rparr> :: FileStorage"
  have s: "Send sample_json [(send_ok ''u1'', sample_msg '''' 0)] ?fs = (([sample_msg ''u1'' 1], None), ?fs')"
    by (simp add: send_def send_ok_def sample_json_def sample_msg_def countLines_def scanned_def
        MaxScanTokenSize_def)
  have "log_ok sample_json ?fs"
    by (simp add: log_ok_def row_is_def sample_json_def sample_msg_def MaxScanTokenSize_def)
  from log_append_read[OF sample_json_ok this _ s] s show ?thesis
    by (simp add: sample_json_def sample_msg_def)
qed

text \<open>
  A row of 64 KiB or more freezes the offsets: the line counter stops at the first such row, so
  every message sent afterwards gets the position of that row as its offset, however many rows
  follow it.
\<close>

theorem oversized_row_freezes_offsets:
  assumes "dataFile fs = rows @ big # rest" and "list_all (\<lambda>r. length r < 64 * 1024) rows"
    and "64 * 1024 \<le> length big" and "send J env m fs = ((m', None), fs')"
  shows "Offset m' = of_nat (length rows)"
  using oversized_offset[of fs rows big rest J env m m' fs'] assms
  by (simp add: MaxScanTokenSize_def)

theorem oversized_row_freezes_offsets_witness:
  "\<exists>m' fs'. send \<lparr>mj_Marshal = (\<lambda>m. Inr [1]), mj_Unmarshal = (\<lambda>b prev. Inr (sample_msg '''' 0))\<rparr>
      (send_ok ''u2'') (sample_msg '''' 0)
      \<lparr>dataFile = [0] # replicate 65536 7 # [[1], [1], [1]], idIgnoreList = [], offsetIgnoreList = []\<rparr> =
      ((m', None), fs') \<and> Offset m' = 1"
proof -
  let ?J = "\<lparr>mj_Marshal = (\<lambda>m. Inr [1]), mj_Unmarshal = (\<lambda>b prev. Inr (sample_msg '''' 0))\<rparr>"
  let ?fs = "\<lparr>dataFile = [0] # replicate 65536 7 # [[1], [1], [1]], idIgnoreList = [],
      offsetIgnoreList = []\<rparr> :: FileStorage"
  obtain m' fs' where s: "send ?J (send_ok ''u2'') (sample_msg '''' 0) ?fs = ((m', None), fs')"
    by (simp add: send_def send_ok_def)
  from oversized_row_freezes_offsets[of ?fs "[[0]]" "replicate 65536 7" "[[1], [1], [1]]", OF _ _ _ s] s
  show ?thesis by simp
qed

end
