(* ===== verification/Fsm_Service.thy ===== *)
theory Fsm_Service
  imports Round State_Db Storage
begin

text \<open>
  The store of the rounds of a node (\<open>src/client/services/fsmservice/fsmservice.go\<close>): the dumps of
  all rounds, by the identifier of the round, as one JSON map under one key of the node's state.

  The JSON encoding of that map is a pair of functions; \<open>fsms_json_ok\<close> states what the code relies
  on: an encoded map is not the empty string and is decoded to a map with the same entries.
\<close>

section \<open>The service\<close>

definition FSMStateKey :: string where "FSMStateKey = ''fsm_state''"

type_synonym dumps = "(string, dump_data) gomap"

record fsms_json =
  fj_Marshal :: "dumps \<Rightarrow> error + bytes"
  fj_Unmarshal :: "bytes \<Rightarrow> error + dumps option"

record 'db FSMService =
  fs_state :: "'db LevelDBState"
  fs_stateKey :: string

definition NewFSMService :: "'db LevelDBState \<Rightarrow> string \<Rightarrow> 'db FSMService" where
  "NewFSMService s stateNamespace =
    \<lparr>fs_state = s, fs_stateKey = stateNamespace @ ''_'' @ FSMStateKey\<rparr>"

definition getStateKey :: "'db FSMService \<Rightarrow> string" where
  "getStateKey f = fs_stateKey f"

definition getAllFSMData :: "'db leveldb \<Rightarrow> fsms_json \<Rightarrow> 'db FSMService \<Rightarrow> error + dumps option" where
  "getAllFSMData L J f =
    (case LevelDBState_Get L (fs_state f) (getStateKey f) of
       Inl e \<Rightarrow> Inl (Wrapf ''failed to get FSM instances: %w'' [] e)
     | Inr bz \<Rightarrow>
         if byte_len bz > 0
         then (case fj_Unmarshal J (the bz) of
                 Inl e \<Rightarrow> Inl (Wrapf ''failed to unmarshal FSM instances: %w'' [] e)
               | Inr fsmInstances \<Rightarrow> Inr fsmInstances)
         else Inr (Some []))"

text \<open>\<open>loadFSM\<close> returns the instance and whether the round is known; here \<open>None\<close> stands for unknown.\<close>

definition loadFSM ::
  "'db leveldb \<Rightarrow> fsms_json \<Rightarrow> string \<Rightarrow> 'db FSMService \<Rightarrow> (error + FSMInstance option) go"
where
  "loadFSM L J dkgRoundID f =
    (case getAllFSMData L J f of
       Inl e \<Rightarrow> Inr (Inl (Wrapf ''failed to get fsm instances: %w'' [] e))
     | Inr fsmInstances \<Rightarrow>
         (case map_of (entries fsmInstances) dkgRoundID of
            None \<Rightarrow> Inr (Inr None)
          | Some fsmInstanceBz \<Rightarrow>
              bindR (FromDump fsmInstanceBz) (\<lambda>r. case r of
                Inl e \<Rightarrow> Inr (Inl (Wrapf ''failed to restore FSM instance from dump: %w'' [] e))
              | Inr fsmInstance \<Rightarrow> Inr (Inr (Some fsmInstance)))))"

definition SaveFSM ::
  "'db leveldb \<Rightarrow> fsms_json \<Rightarrow> string \<Rightarrow> dump_data \<Rightarrow> 'db FSMService \<Rightarrow>
   (error option \<times> 'db FSMService) go"
where
  "SaveFSM L J dkgRoundID dump f =
    (case getAllFSMData L J f of
       Inl e \<Rightarrow> Inr (Some (Wrapf ''failed to get fsm instances: %w'' [] e), f)
     | Inr None \<Rightarrow> Inl (PanicMsg ''assignment to entry in nil map'' [])
     | Inr (Some fsmInstances) \<Rightarrow>
         (case fj_Marshal J (AList.update dkgRoundID dump fsmInstances) of
            Inl e \<Rightarrow> Inr (Some (Wrapf ''failed to marshal FSM instances: %w'' [] e), f)
          | Inr fsmInstancesBz \<Rightarrow>
              (case LevelDBState_Set L (getStateKey f) fsmInstancesBz (fs_state f) of
                 (Some e, s) \<Rightarrow> Inr (Some (Wrapf ''failed to save fsm state: %w'' [] e), f\<lparr>fs_state := s\<rparr>)
               | (None, s) \<Rightarrow> Inr (None, f\<lparr>fs_state := s\<rparr>))))"

definition GetFSMInstance ::
  "'db leveldb \<Rightarrow> fsms_json \<Rightarrow> string \<Rightarrow> bool \<Rightarrow> 'db FSMService \<Rightarrow>
   ((error + FSMInstance) \<times> 'db FSMService) go"
where
  "GetFSMInstance L J dkgRoundID createIfMissing f =
    bindR (loadFSM L J dkgRoundID f) (\<lambda>r. case r of
      Inl e \<Rightarrow> Inr (Inl (Wrapf ''failed to LoadFSM: %w'' [] e), f)
    | Inr (Some fsmInstance) \<Rightarrow> Inr (Inr fsmInstance, f)
    | Inr None \<Rightarrow>
        if \<not> createIfMissing
        then Inr (Inl (Errorf ''no FSM instance found for the given dkgID %s'' [AStr dkgRoundID]), f)
        else bindR (Create dkgRoundID) (\<lambda>r. case r of
          Inl e \<Rightarrow> Inr (Inl (Wrapf ''failed to create FSM instance: %w'' [] e), f)
        | Inr fsmInstance \<Rightarrow>
            (case FSMInstance_Dump fsmInstance of
               Inl e \<Rightarrow> Inr (Inl (Wrapf ''failed to Dump FSM instance: %w'' [] e), f)
             | Inr bz \<Rightarrow>
                 bindR (SaveFSM L J dkgRoundID bz f) (\<lambda>(err, f). case err of
                   Some e \<Rightarrow> Inr (Inl (Wrapf ''failed to SaveFSM: %w'' [] e), f)
                 | None \<Rightarrow> Inr (Inr fsmInstance, f)))))"

text \<open>\<open>FSMDump\<close> of an instance is a pointer to its dump, \<open>nil\<close> being impossible after a load.\<close>

definition GetFSMDump ::
  "'db leveldb \<Rightarrow> fsms_json \<Rightarrow> string \<Rightarrow> 'db FSMService \<Rightarrow>
   ((error + FSMDump option) \<times> 'db FSMService) go"
where
  "GetFSMDump L J dkgID f =
    bindR (GetFSMInstance L J dkgID False f) (\<lambda>(r, f). case r of
      Inl e \<Rightarrow> Inr (Inl (Wrapf ''failed to get FSM instance: %w'' [] e), f)
    | Inr fsmInstance \<Rightarrow> Inr (Inr (fi_dump fsmInstance), f))"

fun fromDumps :: "dumps \<Rightarrow> (string, FSMInstance) gomap \<Rightarrow> (error + (string, FSMInstance) gomap) go" where
  "fromDumps [] fsmInstances = Inr (Inr fsmInstances)"
| "fromDumps ((k, v) # rest) fsmInstances =
    bindR (FromDump v) (\<lambda>r. case r of
      Inl e \<Rightarrow> Inr (Inl (Wrapf ''failed to restore FSM instance from dump: %w'' [] e))
    | Inr i \<Rightarrow> fromDumps rest (AList.update k i fsmInstances))"

definition GetAllFSM ::
  "'db leveldb \<Rightarrow> fsms_json \<Rightarrow> 'db FSMService \<Rightarrow> (error + (string, FSMInstance) gomap) go"
where
  "GetAllFSM L J f =
    (case getAllFSMData L J f of
       Inl e \<Rightarrow> Inr (Inl (Wrapf ''failed to get fsm instances: %w'' [] e))
     | Inr fsmInstancesBz \<Rightarrow> fromDumps (entries fsmInstancesBz) [])"

fun fsmStates :: "(string, FSMInstance) gomap \<Rightarrow> (string, State) gomap \<Rightarrow> error + (string, State) gomap" where
  "fsmStates [] states = Inr states"
| "fsmStates ((k, v) # rest) states =
    (case FSMInstance_State v of
       Inl e \<Rightarrow> Inl (Wrapf ''failed to get FSM state: %w'' [] e)
     | Inr fsmState \<Rightarrow> fsmStates rest (AList.update k fsmState states))"

definition GetFSMList ::
  "'db leveldb \<Rightarrow> fsms_json \<Rightarrow> 'db FSMService \<Rightarrow> (error + (string, State) gomap) go"
where
  "GetFSMList L J f =
    bindR (GetAllFSM L J f) (\<lambda>r. case r of
      Inl e \<Rightarrow> Inr (Inl (Wrapf ''failed to get all FSM instances: %w'' [] e))
    | Inr fsmInstances \<Rightarrow> Inr (fsmStates fsmInstances []))"

text \<open>On the file storage the branch for a consumer group is not taken.\<close>

definition ResetFSMState ::
  "'db leveldb \<Rightarrow> string \<Rightarrow> string list \<Rightarrow> bool \<Rightarrow> string \<Rightarrow> FileStorage \<times> 'db FSMService \<Rightarrow>
   (error + string) \<times> FileStorage \<times> 'db FSMService"
where
  "ResetFSMState L now messages useOffset newStateDBDSN s = (case s of (stg, f) \<Rightarrow>
    (case IgnoreMessages messages useOffset stg of
       (Some e, stg) \<Rightarrow>
         (Inl (Wrapf ''failed to ignore messages while resetting state: %w'' [] e), stg, f)
     | (None, stg) \<Rightarrow>
         (case LevelDBState_Reset L now newStateDBDSN (fs_state f) of
            ((_, Some e), st) \<Rightarrow>
              (Inl (Wrapf ''failed to create new state from old: %w'' [] e), stg, f\<lparr>fs_state := st\<rparr>)
          | ((newstatepath, None), st) \<Rightarrow> (Inr newstatepath, stg, f\<lparr>fs_state := st\<rparr>))))"

definition IsExist ::
  "'db leveldb \<Rightarrow> fsms_json \<Rightarrow> string \<Rightarrow> 'db FSMService \<Rightarrow> error + bool"
where
  "IsExist L J dkgRoundID f =
    (case LevelDBState_GetOrError L (fs_state f) (getStateKey f) of
       Inl ErrNotFound \<Rightarrow> Inr False
     | Inl (ErrOther e) \<Rightarrow> Inl e
     | Inr bz \<Rightarrow>
         (case (if length bz > 0 then fj_Unmarshal J bz else Inr (Some [])) of
            Inl e \<Rightarrow> Inl (Wrapf ''failed to unmarshal FSM instances: %w'' [] e)
          | Inr fsmInstances \<Rightarrow> Inr (has_key (entries fsmInstances) dkgRoundID)))"

section \<open>What is stored\<close>

definition fsms_json_ok :: "fsms_json \<Rightarrow> bool" where
  "fsms_json_ok J \<longleftrightarrow> (\<forall>m bz. fj_Marshal J m = Inr bz \<longrightarrow> bz \<noteq> [] \<and>
     (\<exists>m'. fj_Unmarshal J bz = Inr (Some m') \<and> map_of m' = map_of m))"

text \<open>The rounds in the store, by identifier.\<close>

definition stores :: "'db leveldb \<Rightarrow> fsms_json \<Rightarrow> 'db FSMService \<Rightarrow> (string \<rightharpoonup> dump_data) \<Rightarrow> bool" where
  "stores L J f rounds \<longleftrightarrow> (\<exists>m. getAllFSMData L J f = Inr (Some m) \<and> map_of m = rounds)"

definition restored :: "dump_data \<Rightarrow> (error + FSMInstance option) go" where
  "restored dump = bindR (FromDump dump) (\<lambda>r. case r of
     Inl e \<Rightarrow> Inr (Inl (Wrapf ''failed to restore FSM instance from dump: %w'' [] e))
   | Inr fsmInstance \<Rightarrow> Inr (Inr (Some fsmInstance)))"

lemma loadFSM_stores:
  assumes "stores L J f rounds"
  shows "loadFSM L J d f = (case rounds d of None \<Rightarrow> Inr (Inr None) | Some dump \<Rightarrow> restored dump)"
  using assms by (auto simp: stores_def loadFSM_def restored_def split: option.split)

lemma SaveFSM_stores:
  assumes "leveldb_ok L" and "fsms_json_ok J" and "stores L J f rounds"
    and "SaveFSM L J d dump f = Inr (None, f')"
  shows "stores L J f' (rounds(d \<mapsto> dump))" and "fs_stateKey f' = fs_stateKey f"
    and "topic (fs_state f') = topic (fs_state f)"
    and "k \<noteq> fs_stateKey f \<Longrightarrow> LevelDBState_Get L (fs_state f') k = LevelDBState_Get L (fs_state f) k"
proof -
  from assms(3,4) obtain m bz s where m: "getAllFSMData L J f = Inr (Some m)" "map_of m = rounds"
    and bz: "fj_Marshal J (AList.update d dump m) = Inr bz"
    and s: "LevelDBState_Set L (fs_stateKey f) bz (fs_state f) = (None, s)" "f' = f\<lparr>fs_state := s\<rparr>"
    by (auto simp: SaveFSM_def stores_def getStateKey_def split: sum.splits option.splits prod.splits)
  from assms(2) bz obtain m' where "bz \<noteq> []" "fj_Unmarshal J bz = Inr (Some m')" "map_of m' = rounds(d \<mapsto> dump)"
    using m(2) by (auto simp: fsms_json_ok_def) (metis map_of_update)
  then show "stores L J f' (rounds(d \<mapsto> dump))"
    using state_set_get(1)[OF assms(1) s(1)]
    by (auto simp: stores_def getAllFSMData_def getStateKey_def s(2) byte_len_def)
  show "fs_stateKey f' = fs_stateKey f" by (simp add: s(2))
  show "topic (fs_state f') = topic (fs_state f)" using state_set_get(2)[OF assms(1) s(1)] by (simp add: s(2))
  show "k \<noteq> fs_stateKey f \<Longrightarrow> LevelDBState_Get L (fs_state f') k = LevelDBState_Get L (fs_state f) k"
    using state_set_get(1)[OF assms(1) s(1), of k] by (simp add: s(2))
qed

lemma SaveFSM_total:
  assumes "stores L J f rounds"
  shows "\<exists>err f'. SaveFSM L J d dump f = Inr (err, f')"
  using assms by (auto simp: SaveFSM_def stores_def split: sum.split option.split prod.split)

lemma IsExist_stores:
  assumes "stores L J f rounds"
  shows "IsExist L J d f = Inr (rounds d \<noteq> None)"
proof -
  from assms obtain m where m: "getAllFSMData L J f = Inr (Some m)" "map_of m = rounds"
    by (auto simp: stores_def)
  then show ?thesis
    by (auto simp: IsExist_def getAllFSMData_def LevelDBState_Get_def LevelDBState_GetOrError_def byte_len_def
        split: sum.splits ldb_error.splits if_splits)
qed

definition fresh_dump :: "string \<Rightarrow> FSMDump" where
  "fresh_dump d = \<lparr>TransactionId = TrimSpace d, dump_State = StateGlobalIdle,
     dump_Payload = fresh_payload (TrimSpace d)\<rparr>"

definition fresh_instance :: "string \<Rightarrow> FSMInstance" where
  "fresh_instance d = \<lparr>fi_machine = Some (in_state sig_fsm StateGlobalIdle), fi_dump = Some (fresh_dump d)\<rparr>"

lemma Create_fresh:
  "Create d = (if TrimSpace d = '''' then Inr (Inl (errorsNew ''empty {dkgID}''))
     else Inr (Inr (fresh_instance d)))"
  by (simp add: Create_eq fresh_instance_def fresh_dump_def)

lemma Marshal_fresh: "Marshal (fresh_dump d) = Inr (DumpJSON (fresh_dump d))"
  by (simp add: Marshal_def fresh_dump_def fresh_payload_def payload_times_def)

lemma fresh_instance_dump: "FSMInstance_Dump (fresh_instance d) = Inr (DumpJSON (fresh_dump d))"
  by (simp add: FSMInstance_Dump_def fresh_instance_def Marshal_fresh)

lemma restored_fresh: "restored (DumpJSON (fresh_dump d)) = Inr (Inr (Some (fresh_instance d)))"
  by (simp add: restored_def FromDump_eq machine_of_sig sig_lists fresh_dump_def fresh_instance_def)

text \<open>The outcome of loading a round, created when it is missing.\<close>

lemma GetFSMInstance_known:
  assumes "stores L J f rounds" and "rounds d = Some dump"
  shows "GetFSMInstance L J d c f = bindR (FromDump dump) (\<lambda>r. case r of
      Inl e \<Rightarrow> Inr (Inl (Wrapf ''failed to LoadFSM: %w'' []
        (Wrapf ''failed to restore FSM instance from dump: %w'' [] e)), f)
    | Inr i \<Rightarrow> Inr (Inr i, f))"
  using assms
  by (cases "FromDump dump") (auto simp: GetFSMInstance_def loadFSM_stores restored_def split: sum.splits)

lemma GetFSMInstance_missing:
  assumes "stores L J f rounds" and "rounds d = None" and "TrimSpace d \<noteq> ''''"
  shows "GetFSMInstance L J d True f =
    bindR (SaveFSM L J d (DumpJSON (fresh_dump d)) f) (\<lambda>(err, f). case err of
      Some e \<Rightarrow> Inr (Inl (Wrapf ''failed to SaveFSM: %w'' [] e), f)
    | None \<Rightarrow> Inr (Inr (fresh_instance d), f))"
  using assms by (simp add: GetFSMInstance_def loadFSM_stores Create_fresh fresh_instance_dump)

section \<open>Properties\<close>

text \<open>
  A saved round is what is loaded afterwards: once \<open>SaveFSM\<close> has succeeded, loading the round
  restores exactly the saved dump, the round is reported to exist, and loading any other round
  gives what it gave before.
\<close>

theorem saved_round_reloaded:
  assumes "leveldb_ok L" and "fsms_json_ok J" and "getAllFSMData L J f = Inr (Some m)"
    and "SaveFSM L J d dump f = Inr (None, f')"
  shows "loadFSM L J d f' = bindR (FromDump dump) (\<lambda>r. case r of
      Inl e \<Rightarrow> Inr (Inl (Wrapf ''failed to restore FSM instance from dump: %w'' [] e))
    | Inr i \<Rightarrow> Inr (Inr (Some i))) \<and>
    IsExist L J d f' = Inr True \<and>
    (\<forall>d'. d' \<noteq> d \<longrightarrow> loadFSM L J d' f' = loadFSM L J d' f \<and> IsExist L J d' f' = IsExist L J d' f)"
proof -
  have st: "stores L J f (map_of m)" using assms(3) by (simp add: stores_def)
  note st' = SaveFSM_stores(1)[OF assms(1,2) st assms(4)]
  show ?thesis
    by (simp add: loadFSM_stores[OF st] loadFSM_stores[OF st'] IsExist_stores[OF st] IsExist_stores[OF st']
        restored_def)
qed

text \<open>
  A round is created once: asking for an unknown round with a non-blank identifier, when the
  save succeeds, gives a fresh instance in the idle state, and every later request for the round,
  with or without permission to create, gives that instance again and changes nothing.
\<close>

theorem round_created_once:
  assumes "leveldb_ok L" and "fsms_json_ok J" and "getAllFSMData L J f = Inr (Some m)"
    and "map_of m d = None" and "TrimSpace d \<noteq> ''''"
    and "GetFSMInstance L J d True f = Inr (Inr i, f')"
  shows "FSMInstance_State i = Inr StateGlobalIdle \<and> FSMInstance_Id i = TrimSpace d \<and>
    GetFSMInstance L J d c f' = Inr (Inr i, f')"
proof -
  have st: "stores L J f (map_of m)" using assms(3) by (simp add: stores_def)
  from assms(6) GetFSMInstance_missing[OF st assms(4,5)] obtain
    s: "SaveFSM L J d (DumpJSON (fresh_dump d)) f = Inr (None, f')" and i: "i = fresh_instance d"
    by (auto split: option.splits)
  note st' = SaveFSM_stores(1)[OF assms(1,2) st s]
  have "GetFSMInstance L J d c f' = Inr (Inr i, f')"
    using GetFSMInstance_known[OF st', of d "DumpJSON (fresh_dump d)"] i
    by (simp add: FromDump_eq machine_of_sig sig_lists fresh_dump_def fresh_instance_def)
  then show ?thesis
    by (simp add: i fresh_instance_def fresh_dump_def FSMInstance_State_def FSMInstance_Id_def currentState_def)
qed

definition sample_fsms_json :: fsms_json where
  "sample_fsms_json = \<lparr>fj_Marshal = (\<lambda>m. if m = [(''d'', DumpJSON (fresh_dump ''d''))] then Inr [1]
       else if m = [(''e'', DumpEmpty)] then Inr [2] else Inl (errorsNew ''json'')),
     fj_Unmarshal = (\<lambda>b. if b = [1] then Inr (Some [(''d'', DumpJSON (fresh_dump ''d''))])
       else if b = [2] then Inr (Some [(''e'', DumpEmpty)]) else Inl (errorsNew ''json''))\<rparr>"

lemma sample_fsms_json_ok: "fsms_json_ok sample_fsms_json"
  by (auto simp: fsms_json_ok_def sample_fsms_json_def split: if_splits)

definition sample_fsms :: "(string, bytes) gomap \<Rightarrow> (string, bytes) gomap FSMService" where
  "sample_fsms db = NewFSMService \<lparr>stateDb = db, topic = ''t'', stateDbPath = ''p''\<rparr> ''t''"

lemmas sample_fsms_defs = sample_fsms_def NewFSMService_def FSMStateKey_def SaveFSM_def getAllFSMData_def
  LevelDBState_Get_def LevelDBState_Set_def memdb_def getStateKey_def byte_len_def sample_fsms_json_def

theorem saved_round_reloaded_witness:
  "\<exists>f'. SaveFSM memdb sample_fsms_json ''e'' DumpEmpty (sample_fsms []) = Inr (None, f') \<and>
    loadFSM memdb sample_fsms_json ''e'' f' = Inr (Inl (Wrapf ''failed to restore FSM instance from dump: %w'' []
      (errorsNew ''machine dump is empty''))) \<and>
    IsExist memdb sample_fsms_json ''d'' f' = Inr False"
proof -
  have g: "getAllFSMData memdb sample_fsms_json (sample_fsms []) = Inr (Some [])"
    by (simp add: sample_fsms_defs)
  have "\<exists>f'. SaveFSM memdb sample_fsms_json ''e'' DumpEmpty (sample_fsms []) = Inr (None, f')"
    by (simp add: sample_fsms_defs)
  then obtain f' where s: "SaveFSM memdb sample_fsms_json ''e'' DumpEmpty (sample_fsms []) = Inr (None, f')" ..
  have "IsExist memdb sample_fsms_json ''d'' (sample_fsms []) = Inr False"
    using IsExist_stores[of memdb sample_fsms_json "sample_fsms []" "map_of []" "''d''"] g
    by (simp add: stores_def)
  with saved_round_reloaded[OF memdb_ok sample_fsms_json_ok g s] s show ?thesis
    by (auto simp: FromDump_def)
qed

theorem round_created_once_witness:
  "\<exists>i f'. GetFSMInstance memdb sample_fsms_json ''d'' True (sample_fsms []) = Inr (Inr i, f') \<and>
    FSMInstance_State i = Inr StateGlobalIdle \<and>
    GetFSMInstance memdb sample_fsms_json ''d'' False f' = Inr (Inr i, f')"
proof -
  have g: "getAllFSMData memdb sample_fsms_json (sample_fsms []) = Inr (Some [])"
    by (simp add: sample_fsms_defs)
  have t: "TrimSpace ''d'' \<noteq> ''''" by code_simp
  have "\<exists>f'. SaveFSM memdb sample_fsms_json ''d'' (DumpJSON (fresh_dump ''d'')) (sample_fsms []) = Inr (None, f')"
    by (simp add: sample_fsms_defs)
  then obtain f' where s: "SaveFSM memdb sample_fsms_json ''d'' (DumpJSON (fresh_dump ''d'')) (sample_fsms []) =
      Inr (None, f')" ..
  have r: "GetFSMInstance memdb sample_fsms_json ''d'' True (sample_fsms []) = Inr (Inr (fresh_instance ''d''), f')"
    using GetFSMInstance_missing[of memdb sample_fsms_json "sample_fsms []" "map_of []" "''d''"] g t s
    by (simp add: stores_def)
  from round_created_once[OF memdb_ok sample_fsms_json_ok g _ t r, of False] r show ?thesis by auto
qed

end
