(* ===== verification/Signature_Repo.thy ===== *)
theory Signature_Repo
  imports State_Db
begin

text \<open>
  The reconstructed signatures a node collects from the log
  (\<open>src/client/repositories/signature/signature.go\<close>, the service on top of it in
  \<open>src/client/services/signature/signature.go\<close>, and the types of \<open>src/fsm/types/types.go\<close>): for
  every round a map from batches to messages to lists with at most one signature per user, stored
  as JSON under one key of the node's state.

  The JSON encoding of such a map is a pair of functions; \<open>sigs_json_ok\<close> states what the code
  relies on: what is encoded is decoded to a map with the same entries, and the keys of Go maps are
  distinct.
\<close>

section \<open>Types\<close>

record ReconstructedSignature =
  rs_File :: string
  rs_BatchID :: string
  rs_MessageID :: string
  rs_SrcPayload :: bytes
  rs_Signature :: bytes
  rs_Username :: string
  rs_DKGRoundID :: string
  rs_ValIdx :: int

type_synonym BatchPartialSignatures = "(string, bytes list) gomap"

definition AddPartialSignature ::
  "string \<Rightarrow> bytes \<Rightarrow> BatchPartialSignatures \<Rightarrow> BatchPartialSignatures"
where
  "AddPartialSignature messageID partialSignature b =
    AList.update messageID
      ((case map_of b messageID of None \<Rightarrow> [] | Some sigs \<Rightarrow> sigs) @ [partialSignature]) b"

text \<open>The inner maps may be \<open>nil\<close>, as JSON \<open>null\<close> makes them.\<close>

type_synonym BatchSignatures = "(string, ReconstructedSignature list) gomap"
type_synonym SignaturesStorage = "(string, BatchSignatures option) gomap"

text \<open>The loop over the signatures of a message: the first one of the user is replaced.\<close>

fun replaceUser ::
  "ReconstructedSignature \<Rightarrow> ReconstructedSignature list \<Rightarrow> ReconstructedSignature list \<times> bool"
where
  "replaceUser r [] = ([], False)"
| "replaceUser r (s # signs) =
    (if rs_Username s = rs_Username r then (r # signs, True)
     else (case replaceUser r signs of (signs, found) \<Rightarrow> (s # signs, found)))"

definition AddReconstructedSignature ::
  "ReconstructedSignature \<Rightarrow> SignaturesStorage \<Rightarrow> SignaturesStorage go"
where
  "AddReconstructedSignature r s =
    (let batchSignatures = (case map_of s (rs_BatchID r) of None \<Rightarrow> Some [] | Some b \<Rightarrow> b);
         signs = (case map_of s (rs_BatchID r) of
             None \<Rightarrow> []
           | Some b \<Rightarrow> (case map_of (entries b) (rs_MessageID r) of None \<Rightarrow> [] | Some x \<Rightarrow> x));
         (signs, usernameFound) = replaceUser r signs;
         signs = (if \<not> usernameFound then signs @ [r] else signs)
     in case batchSignatures of
          None \<Rightarrow> Inl (PanicMsg ''assignment to entry in nil map'' [])
        | Some b \<Rightarrow> Inr (AList.update (rs_BatchID r)
             (Some (AList.update (rs_MessageID r) signs b)) s))"

section \<open>The repository\<close>

definition SignaturesKeyPrefix :: string where "SignaturesKeyPrefix = ''signatures''"

record sigs_json =
  sj_Marshal :: "SignaturesStorage \<Rightarrow> error + bytes"
  sj_Unmarshal :: "bytes \<Rightarrow> error + SignaturesStorage option"

definition GetSignatures ::
  "'db leveldb \<Rightarrow> sigs_json \<Rightarrow> 'db LevelDBState \<Rightarrow> string \<Rightarrow> error + SignaturesStorage option"
where
  "GetSignatures L J s dkgID =
    (let key = MakeCompositeKeyString SignaturesKeyPrefix dkgID in
     case LevelDBState_Get L s key of
       Inl e \<Rightarrow> Inl (Wrapf ''failed to get signatures for dkgID %s: %w'' [AStr dkgID] e)
     | Inr None \<Rightarrow> Inr None
     | Inr (Some bz) \<Rightarrow>
         (case sj_Unmarshal J bz of
            Inl e \<Rightarrow> Inl (Wrapf ''failed to unmarshal signature: %w'' [] e)
          | Inr signatures \<Rightarrow> Inr signatures))"

definition GetSignaturesByBatchID ::
  "'db leveldb \<Rightarrow> sigs_json \<Rightarrow> 'db LevelDBState \<Rightarrow> string \<Rightarrow> string \<Rightarrow> error + BatchSignatures option"
where
  "GetSignaturesByBatchID L J s dkgID batchID =
    (case GetSignatures L J s dkgID of
       Inl e \<Rightarrow> Inl (Wrapf ''failed to getSignatures: %w'' [] e)
     | Inr signatures \<Rightarrow>
         Inr (case map_of (entries signatures) batchID of None \<Rightarrow> None | Some b \<Rightarrow> b))"

text \<open>The first batch, in the order of the iteration, that has the message.\<close>

definition GetSignatureByID ::
  "'db leveldb \<Rightarrow> sigs_json \<Rightarrow> 'db LevelDBState \<Rightarrow> string \<Rightarrow> string \<Rightarrow>
   error + ReconstructedSignature list"
where
  "GetSignatureByID L J s dkgID signatureID =
    (case GetSignatures L J s dkgID of
       Inl e \<Rightarrow> Inl (Wrapf ''failed to getSignatures: %w'' [] e)
     | Inr allSignatures \<Rightarrow>
         (case find (\<lambda>(_, b). has_key (entries b) signatureID) (entries allSignatures) of
            None \<Rightarrow> Inl (errorsNew ''signature not found'')
          | Some (_, b) \<Rightarrow> Inr (the (map_of (entries b) signatureID))))"

definition SaveSignatures ::
  "'db leveldb \<Rightarrow> sigs_json \<Rightarrow> ReconstructedSignature list \<Rightarrow> 'db LevelDBState \<Rightarrow>
   (error option \<times> 'db LevelDBState) go"
where
  "SaveSignatures L J signaturesToSave s =
    (case signaturesToSave of
       [] \<Rightarrow> Inr (Some (errorsNew ''nothing to save''), s)
     | first # _ \<Rightarrow>
         (case GetSignatures L J s (rs_DKGRoundID first) of
            Inl e \<Rightarrow> Inr (Some (Wrapf ''failed to getSignatures: %w'' [] e), s)
          | Inr stored \<Rightarrow>
              bindR (foldR AddReconstructedSignature signaturesToSave (entries stored))
                (\<lambda>storedSignatures.
                 case sj_Marshal J storedSignatures of
                   Inl e \<Rightarrow> Inr (Some (Wrapf ''failed to marshal signatures: %w'' [] e), s)
                 | Inr signaturesJSON \<Rightarrow>
                     let key = MakeCompositeKeyString SignaturesKeyPrefix (rs_DKGRoundID first) in
                     (case LevelDBState_Set L key signaturesJSON s of
                        (Some e, s) \<Rightarrow> Inr (Some (Wrapf ''failed to save signatures: %w'' [] e), s)
                      | (None, s) \<Rightarrow> Inr (None, s)))))"

definition GetBatches ::
  "'db leveldb \<Rightarrow> sigs_json \<Rightarrow> 'db LevelDBState \<Rightarrow> string \<Rightarrow> error + string list"
where
  "GetBatches L J s dkgID =
    (let key = MakeCompositeKeyString SignaturesKeyPrefix dkgID in
     case LevelDBState_Get L s key of
       Inl e \<Rightarrow> Inl (Wrapf ''failed to read batch state from storage: %w'' [] e)
     | Inr None \<Rightarrow> Inr []
     | Inr (Some bz) \<Rightarrow>
         (case sj_Unmarshal J bz of
            Inl e \<Rightarrow> Inl (Wrapf ''failed to unmarshal batch state: %w'' [] e)
          | Inr allSignatures \<Rightarrow> Inr (keys (entries allSignatures))))"

section \<open>Signatures as a map\<close>

text \<open>
  The storage seen as a map from batch, message and user to a signature, and the well-formedness
  of a storage: no batch is \<open>nil\<close>, and a user occurs at most once in the list of a message.
\<close>

definition signs_of :: "SignaturesStorage \<Rightarrow> string \<Rightarrow> string \<Rightarrow> ReconstructedSignature list" where
  "signs_of st b m = (case map_of st b of
     Some (Some batch) \<Rightarrow> (case map_of batch m of Some xs \<Rightarrow> xs | None \<Rightarrow> []) | _ \<Rightarrow> [])"

definition signature_of ::
  "SignaturesStorage \<Rightarrow> string \<times> string \<times> string \<Rightarrow> ReconstructedSignature option"
where
  "signature_of st k = (case k of (b, m, u) \<Rightarrow> find (\<lambda>s. rs_Username s = u) (signs_of st b m))"

definition signature_key :: "ReconstructedSignature \<Rightarrow> string \<times> string \<times> string" where
  "signature_key r = (rs_BatchID r, rs_MessageID r, rs_Username r)"

definition sigs_wf :: "SignaturesStorage \<Rightarrow> bool" where
  "sigs_wf st \<longleftrightarrow> (\<forall>b. map_of st b \<noteq> Some None) \<and>
     (\<forall>b m. distinct (map rs_Username (signs_of st b m)))"

definition sigs_json_ok :: "sigs_json \<Rightarrow> bool" where
  "sigs_json_ok J \<longleftrightarrow> (\<forall>st bz. sj_Marshal J st = Inr bz \<longrightarrow>
     (\<exists>st'. sj_Unmarshal J bz = Inr (Some st') \<and>
       (\<forall>b. map_option (map_option map_of) (map_of st' b) = map_option (map_option map_of) (map_of st b))))"

text \<open>One pass of the loop followed by the append: the user's entry is replaced or added last.\<close>

definition upsert ::
  "ReconstructedSignature \<Rightarrow> ReconstructedSignature list \<Rightarrow> ReconstructedSignature list"
where
  "upsert r signs = (case replaceUser r signs of (xs, found) \<Rightarrow> if \<not> found then xs @ [r] else xs)"

lemma upsert_simps [simp]:
  "upsert r [] = [r]"
  "upsert r (s # signs) =
    (if rs_Username s = rs_Username r then r # signs else s # upsert r signs)"
  by (simp_all add: upsert_def split: prod.splits)

lemma users_upsert: "set (map rs_Username (upsert r xs)) = insert (rs_Username r) (set (map rs_Username xs))"
  by (induction xs) auto

lemma distinct_upsert:
  "distinct (map rs_Username xs) \<Longrightarrow> distinct (map rs_Username (upsert r xs))"
  using users_upsert[of r] by (induction xs) auto

lemma find_upsert:
  "find (\<lambda>s. rs_Username s = u) (upsert r xs) =
    (if u = rs_Username r then Some r else find (\<lambda>s. rs_Username s = u) xs)"
  by (induction xs) auto

lemma add_signature:
  assumes "sigs_wf st"
  shows "\<exists>st'. AddReconstructedSignature r st = Inr st' \<and> sigs_wf st' \<and>
    signature_of st' = (signature_of st)(signature_key r := Some r)"
proof -
  let ?b = "rs_BatchID r" and ?m = "rs_MessageID r"
  define batch where "batch = (case map_of st ?b of Some (Some x) \<Rightarrow> x | _ \<Rightarrow> [])"
  define st' where "st' = AList.update ?b (Some (AList.update ?m (upsert r (signs_of st ?b ?m)) batch)) st"
  have "map_of st ?b \<noteq> Some None" using assms by (simp add: sigs_wf_def)
  then have "AddReconstructedSignature r st = Inr st'"
    by (auto simp: AddReconstructedSignature_def st'_def batch_def upsert_def signs_of_def Let_def
        split: option.splits prod.splits)
  moreover have signs: "signs_of st' b m =
      (if b = ?b \<and> m = ?m then upsert r (signs_of st b m) else signs_of st b m)" for b m
    by (auto simp: signs_of_def st'_def batch_def split: option.splits)
  have "sigs_wf st'"
    using assms distinct_upsert[of "signs_of st ?b ?m" r]
    by (auto simp: sigs_wf_def signs) (auto simp: st'_def split: if_splits)
  moreover have "signature_of st' = (signature_of st)(signature_key r := Some r)"
    by (auto simp: fun_eq_iff signature_of_def signature_key_def signs find_upsert)
  ultimately show ?thesis by blast
qed

lemma add_signatures:
  assumes "sigs_wf st"
  shows "\<exists>st'. foldR AddReconstructedSignature rs st = Inr st' \<and> sigs_wf st' \<and>
    signature_of st' = signature_of st ++ map_of (rev (map (\<lambda>r. (signature_key r, r)) rs))"
  using assms
proof (induction rs arbitrary: st)
  case (Cons r rs)
  from add_signature[OF Cons.prems, of r] obtain st1 where
    st1: "AddReconstructedSignature r st = Inr st1" "sigs_wf st1"
      "signature_of st1 = (signature_of st)(signature_key r := Some r)" by blast
  from Cons.IH[OF st1(2)] obtain st' where
    "foldR AddReconstructedSignature rs st1 = Inr st'" "sigs_wf st'"
    "signature_of st' = signature_of st1 ++ map_of (rev (map (\<lambda>r. (signature_key r, r)) rs))" by blast
  with st1 show ?case by (auto simp: map_add_def fun_eq_iff split: option.splits)
qed simp

lemma sigs_json_same:
  assumes "sigs_json_ok J" and "sj_Marshal J st = Inr bz" and "sigs_wf st"
  shows "\<exists>st'. sj_Unmarshal J bz = Inr (Some st') \<and> sigs_wf st' \<and> signature_of st' = signature_of st"
proof -
  from assms(1,2) obtain st' where u: "sj_Unmarshal J bz = Inr (Some st')"
    and eq: "\<And>b. map_option (map_option map_of) (map_of st' b) = map_option (map_option map_of) (map_of st b)"
    unfolding sigs_json_ok_def by blast
  have signs: "signs_of st' b m = signs_of st b m" for b m
    using eq[of b] by (auto simp: signs_of_def split: option.splits)
  have "map_of st' b \<noteq> Some None" for b
    using eq[of b] assms(3) by (cases "map_of st b") (auto simp: sigs_wf_def)
  then have "sigs_wf st'" using assms(3) by (simp add: sigs_wf_def signs)
  moreover have "signature_of st' = signature_of st"
    by (simp add: fun_eq_iff signature_of_def signs)
  ultimately show ?thesis using u by blast
qed

lemma map_of_find: "map_of (map (\<lambda>r. (f r, r)) rs) k = find (\<lambda>r. f r = k) rs"
  by (induction rs) auto

lemma signatures_key_inj:
  "MakeCompositeKeyString SignaturesKeyPrefix d = MakeCompositeKeyString SignaturesKeyPrefix d' \<longleftrightarrow> d = d'"
  by (simp add: MakeCompositeKeyString_def)

lemma GetSignatures_set:
  assumes "leveldb_ok L" and "LevelDBState_Set L (MakeCompositeKeyString SignaturesKeyPrefix d) bz s = (None, s')"
  shows "GetSignatures L J s' d = (case sj_Unmarshal J bz of
      Inl e \<Rightarrow> Inl (Wrapf ''failed to unmarshal signature: %w'' [] e) | Inr st \<Rightarrow> Inr st)"
    and "d' \<noteq> d \<Longrightarrow> GetSignatures L J s' d' = GetSignatures L J s d'"
  using state_set_get(1)[OF assms] by (simp_all add: GetSignatures_def signatures_key_inj)

section \<open>Properties\<close>

text \<open>
  Saving reconstructed signatures never panics on a well-formed storage and, when it succeeds,
  the last signature of a user for a message of a batch wins: afterwards the storage of the round
  holds, for every batch, message and user, the last saved signature with that key and otherwise
  what it held before; every user still occurs at most once per message, and the signatures of the
  other rounds are untouched.
\<close>

theorem signatures_latest_wins:
  assumes "leveldb_ok L" and "sigs_json_ok J" and "rs \<noteq> []"
    and "GetSignatures L J s (rs_DKGRoundID (hd rs)) = Inr stored" and "sigs_wf (entries stored)"
  shows "\<exists>err s'. SaveSignatures L J rs s = Inr (err, s') \<and> (err = None \<longrightarrow>
    (\<exists>st. GetSignatures L J s' (rs_DKGRoundID (hd rs)) = Inr (Some st) \<and> sigs_wf st \<and>
      (\<forall>k. signature_of st k = (case find (\<lambda>r. signature_key r = k) (rev rs) of
         Some r \<Rightarrow> Some r | None \<Rightarrow> signature_of (entries stored) k))) \<and>
    (\<forall>d. d \<noteq> rs_DKGRoundID (hd rs) \<longrightarrow> GetSignatures L J s' d = GetSignatures L J s d))"
proof -
  let ?d = "rs_DKGRoundID (hd rs)"
  from add_signatures[OF assms(5), of rs] obtain st where
    st: "foldR AddReconstructedSignature rs (entries stored) = Inr st" "sigs_wf st"
    and of: "signature_of st = signature_of (entries stored) ++ map_of (rev (map (\<lambda>r. (signature_key r, r)) rs))"
    by blast
  have at: "signature_of st k = (case find (\<lambda>r. signature_key r = k) (rev rs) of
      Some r \<Rightarrow> Some r | None \<Rightarrow> signature_of (entries stored) k)" for k
    by (simp add: of rev_map map_of_find map_add_def)
  have run: "SaveSignatures L J rs s = (case sj_Marshal J st of
      Inl e \<Rightarrow> Inr (Some (Wrapf ''failed to marshal signatures: %w'' [] e), s)
    | Inr bz \<Rightarrow> (case LevelDBState_Set L (MakeCompositeKeyString SignaturesKeyPrefix ?d) bz s of
        (Some e, s) \<Rightarrow> Inr (Some (Wrapf ''failed to save signatures: %w'' [] e), s)
      | (None, s) \<Rightarrow> Inr (None, s)))"
    using assms(3,4) st(1) by (cases rs) (auto simp: SaveSignatures_def Let_def split: sum.split)
  show ?thesis
  proof (cases "sj_Marshal J st")
    case (Inl e)
    with run show ?thesis by simp
  next
    case (Inr bz)
    obtain err s' where set: "LevelDBState_Set L (MakeCompositeKeyString SignaturesKeyPrefix ?d) bz s = (err, s')"
      by fastforce
    show ?thesis
    proof (cases err)
      case None
      note got = GetSignatures_set[OF assms(1) set[unfolded None], where J = J]
      from sigs_json_same[OF assms(2) Inr st(2)] obtain st' where
        "sj_Unmarshal J bz = Inr (Some st')" "sigs_wf st'" "signature_of st' = signature_of st" by blast
      with got at run Inr set None show ?thesis by (auto simp: fun_eq_iff)
    qed (use run Inr set in simp)
  qed
qed

definition sample_rsig :: "string \<Rightarrow> 8 word \<Rightarrow> ReconstructedSignature" where
  "sample_rsig u x = \<lparr>rs_File = ''f'', rs_BatchID = ''b'', rs_MessageID = ''m'', rs_SrcPayload = [1],
     rs_Signature = [x], rs_Username = u, rs_DKGRoundID = ''d'', rs_ValIdx = 0\<rparr>"

definition sample_sigs :: SignaturesStorage where
  "sample_sigs = [(''b'', Some [(''m'', [sample_rsig ''alice'' 9, sample_rsig ''bob'' 8])])]"

definition sample_sigs_json :: sigs_json where
  "sample_sigs_json = \<lparr>sj_Marshal = (\<lambda>st. if st = sample_sigs then Inr [1] else Inl (errorsNew ''json'')),
     sj_Unmarshal = (\<lambda>b. if b = [1] then Inr (Some sample_sigs) else Inl (errorsNew ''json''))\<rparr>"

lemma sample_sigs_json_ok: "sigs_json_ok sample_sigs_json"
  by (auto simp: sigs_json_ok_def sample_sigs_json_def split: if_splits)

definition sample_sigs_state :: "(string, bytes) gomap LevelDBState" where
  "sample_sigs_state = \<lparr>stateDb = [], topic = ''t'', stateDbPath = ''p''\<rparr>"

theorem signatures_latest_wins_witness:
  "\<exists>s' st. SaveSignatures memdb sample_sigs_json
      [sample_rsig ''alice'' 7, sample_rsig ''bob'' 8, sample_rsig ''alice'' 9] sample_sigs_state = Inr (None, s') \<and>
    GetSignatures memdb sample_sigs_json s' ''d'' = Inr (Some st) \<and>
    signature_of st (''b'', ''m'', ''alice'') = Some (sample_rsig ''alice'' 9)"
proof -
  let ?rs = "[sample_rsig ''alice'' 7, sample_rsig ''bob'' 8, sample_rsig ''alice'' 9]"
  have "GetSignatures memdb sample_sigs_json sample_sigs_state (rs_DKGRoundID (hd ?rs)) = Inr None"
    by code_simp
  moreover have "sigs_wf (entries None)" by (simp add: sigs_wf_def signs_of_def)
  moreover have "map_sum id fst (SaveSignatures memdb sample_sigs_json ?rs sample_sigs_state) = Inr None"
    by code_simp
  ultimately show ?thesis
    using signatures_latest_wins[OF memdb_ok sample_sigs_json_ok, of ?rs sample_sigs_state None]
    by (auto simp: signature_key_def sample_rsig_def)
qed

end
