(* ===== verification/Operation_Repo.thy ===== *)
theory Operation_Repo
  imports State_Db Storage
begin

text \<open>
  The pool of operations that wait for the airgapped machine
  (\<open>src/client/repositories/operation/operation.go\<close> and the service on top of it,
  \<open>src/client/services/operation/operation.go\<close>): two maps, the stored and the deleted operations,
  kept as JSON under two keys of the node's state.

  The JSON encoding of such a map is a pair of functions, an argument of the definitions;
  \<open>ops_json_ok\<close> states what the code relies on: a marshalled map is read back, the literal \<open>{}\<close> is
  the empty map, and the keys of a Go map are distinct.
\<close>

section \<open>Operations\<close>

record Operation =
  op_ID :: string
  op_Type :: string
  op_Payload :: bytes
  op_ResultMsgs :: "Message list"
  op_CreatedAt :: time
  op_DKGIdentifier :: string
  op_To :: string
  op_Event :: Event
  op_ExtraData :: bytes

type_synonym operations = "(string, Operation) gomap"

record ops_json =
  oj_Marshal :: "operations \<Rightarrow> error + bytes"
  oj_Unmarshal :: "bytes \<Rightarrow> error + operations"

definition empty_object :: bytes where
  "empty_object = [123, 125]"

definition ops_json_ok :: "ops_json \<Rightarrow> bool" where
  "ops_json_ok J \<longleftrightarrow> oj_Unmarshal J empty_object = Inr [] \<and>
     (\<forall>m b. oj_Marshal J m = Inr b \<longrightarrow>
       (\<exists>m'. oj_Unmarshal J b = Inr m' \<and> map_of m' = map_of m)) \<and>
     (\<forall>b m. oj_Unmarshal J b = Inr m \<longrightarrow> distinct (keys m))"

section \<open>The repository\<close>

definition OperationsKey :: string where "OperationsKey = ''operations''"
definition DeletedOperationsKey :: string where "DeletedOperationsKey = ''deleted_operations''"

record 'db BaseOperationRepo =
  repo_state :: "'db LevelDBState"
  operationsCompositeKey :: string
  deleteOperationsCompositeKey :: string

definition initJsonKey ::
  "'db leveldb \<Rightarrow> string \<Rightarrow> 'db BaseOperationRepo \<Rightarrow> error option \<times> 'db BaseOperationRepo"
where
  "initJsonKey L key r =
    (case LevelDBState_Set L key empty_object (repo_state r) of
       (Some e, s) \<Rightarrow> (Some (Wrapf ''failed to init state: %w'' [] e), r\<lparr>repo_state := s\<rparr>)
     | (None, s) \<Rightarrow> (None, r\<lparr>repo_state := s\<rparr>))"

definition NewOperationRepo ::
  "'db leveldb \<Rightarrow> 'db LevelDBState \<Rightarrow> string \<Rightarrow> error + 'db BaseOperationRepo"
where
  "NewOperationRepo L s name =
    (let operationsKey = MakeCompositeKeyString name OperationsKey;
         deleteKey = MakeCompositeKeyString name DeletedOperationsKey;
         repo = \<lparr>repo_state = s, operationsCompositeKey = operationsKey,
                 deleteOperationsCompositeKey = deleteKey\<rparr>
     in case initJsonKey L operationsKey repo of
          (Some e, repo) \<Rightarrow> Inl (Wrapf ''failed to init %s storage: %w'' [AStr operationsKey] e)
        | (None, repo) \<Rightarrow>
            (case initJsonKey L deleteKey repo of
               (Some e, repo) \<Rightarrow> Inl (Wrapf ''failed to init %s storage: %w'' [AStr deleteKey] e)
             | (None, repo) \<Rightarrow> Inr repo))"

definition getDeletedOperations ::
  "'db leveldb \<Rightarrow> ops_json \<Rightarrow> 'db BaseOperationRepo \<Rightarrow> error + operations"
where
  "getDeletedOperations L J r =
    (case LevelDBState_Get L (repo_state r) (deleteOperationsCompositeKey r) of
       Inl e \<Rightarrow> Inl (Wrapf ''failed to get deleted Operations (key: %s): %w''
                [AStr (deleteOperationsCompositeKey r)] e)
     | Inr None \<Rightarrow> Inr []
     | Inr (Some bz) \<Rightarrow>
         (case oj_Unmarshal J bz of
            Inl e \<Rightarrow> Inl (Wrapf ''failed to unmarshal deleted Operations: %w'' [] e)
          | Inr operations \<Rightarrow> Inr operations))"

definition GetOperations ::
  "'db leveldb \<Rightarrow> ops_json \<Rightarrow> 'db BaseOperationRepo \<Rightarrow> error + operations"
where
  "GetOperations L J r =
    (case getDeletedOperations L J r of
       Inl e \<Rightarrow> Inl (Wrapf ''failed to getDeletedOperations: %w'' [] e)
     | Inr deletedOperations \<Rightarrow>
         (case LevelDBState_Get L (repo_state r) (operationsCompositeKey r) of
            Inl e \<Rightarrow> Inl (Wrapf ''failed to get Operations (key: %s): %w''
                     [AStr (deleteOperationsCompositeKey r)] e)
          | Inr None \<Rightarrow> Inr []
          | Inr (Some bz) \<Rightarrow>
              (case oj_Unmarshal J bz of
                 Inl e \<Rightarrow> Inl (Wrapf ''failed to unmarshal Operations: %w'' [] e)
               | Inr operations \<Rightarrow> Inr (fold (\<lambda>(i, operation) result.
                   if \<not> has_key deletedOperations i then AList.update i operation result
                   else result) operations []))))"

definition GetOperationByID ::
  "'db leveldb \<Rightarrow> ops_json \<Rightarrow> 'db BaseOperationRepo \<Rightarrow> string \<Rightarrow> error + Operation"
where
  "GetOperationByID L J r operationID =
    (case GetOperations L J r of
       Inl e \<Rightarrow> Inl (Wrapf ''failed to getOperations: %w'' [] e)
     | Inr operations \<Rightarrow>
         (case map_of operations operationID of
            None \<Rightarrow> Inl (errorsNew ''operation not found'')
          | Some operation \<Rightarrow> Inr operation))"

text \<open>Marshalling a map and storing it under a key, the end of both mutating methods.\<close>

definition storeOperations ::
  "'db leveldb \<Rightarrow> ops_json \<Rightarrow> string \<Rightarrow> string \<Rightarrow> string \<Rightarrow> operations \<Rightarrow> 'db BaseOperationRepo \<Rightarrow>
   error option \<times> 'db BaseOperationRepo"
where
  "storeOperations L J marshal_msg put_msg key operations r =
    (case oj_Marshal J operations of
       Inl e \<Rightarrow> (Some (Wrapf marshal_msg [] e), r)
     | Inr json \<Rightarrow>
         (case LevelDBState_Set L key json (repo_state r) of
            (Some e, s) \<Rightarrow> (Some (Wrapf put_msg [] e), r\<lparr>repo_state := s\<rparr>)
          | (None, s) \<Rightarrow> (None, r\<lparr>repo_state := s\<rparr>)))"

definition PutOperation ::
  "'db leveldb \<Rightarrow> ops_json \<Rightarrow> Operation \<Rightarrow> 'db BaseOperationRepo \<Rightarrow>
   error option \<times> 'db BaseOperationRepo"
where
  "PutOperation L J operation r =
    (case GetOperations L J r of
       Inl e \<Rightarrow> (Some (Wrapf ''failed to getOperations: %w'' [] e), r)
     | Inr operations \<Rightarrow>
         if has_key operations (op_ID operation)
         then (Some (Errorf ''operation %s already exists'' [AStr (op_ID operation)]), r)
         else storeOperations L J ''failed to marshal operations: %w'' ''failed to put operations: %w''
                (operationsCompositeKey r) (AList.update (op_ID operation) operation operations) r)"

definition DeleteOperation ::
  "'db leveldb \<Rightarrow> ops_json \<Rightarrow> Operation \<Rightarrow> 'db BaseOperationRepo \<Rightarrow>
   error option \<times> 'db BaseOperationRepo"
where
  "DeleteOperation L J operation r =
    (case getDeletedOperations L J r of
       Inl e \<Rightarrow> (Some (Wrapf ''failed to getDeletedOperations: %w'' [] e), r)
     | Inr deletedOperations \<Rightarrow>
         if has_key deletedOperations (op_ID operation)
         then (Some (Errorf ''operation %s was already deleted'' [AStr (op_ID operation)]), r)
         else
           (case storeOperations L J ''failed to marshal deleted operations: %w''
                   ''failed to put deleted operations: %w'' (deleteOperationsCompositeKey r)
                   (AList.update (op_ID operation) operation deletedOperations) r of
              (Some e, r) \<Rightarrow> (Some e, r)
            | (None, r) \<Rightarrow>
                (case GetOperations L J r of
                   Inl e \<Rightarrow> (Some (Wrapf ''failed to getOperations: %w'' [] e), r)
                 | Inr operations \<Rightarrow>
                     storeOperations L J ''failed to marshal operations: %w''
                       ''failed to put operations: %w'' (operationsCompositeKey r)
                       (AList.delete (op_ID operation) operations) r)))"

section \<open>The service\<close>

definition Service_GetOperations ::
  "'db leveldb \<Rightarrow> ops_json \<Rightarrow> 'db BaseOperationRepo \<Rightarrow> error + operations"
where
  "Service_GetOperations L J r = GetOperations L J r"

definition Service_GetOperationByID ::
  "'db leveldb \<Rightarrow> ops_json \<Rightarrow> 'db BaseOperationRepo \<Rightarrow> string \<Rightarrow> error + Operation"
where
  "Service_GetOperationByID L J r operationID =
    (case GetOperationByID L J r operationID of
       Inl e \<Rightarrow> Inl (Wrapf ''failed to get operation: %w'' [] e)
     | Inr operation \<Rightarrow> Inr operation)"

definition Service_PutOperation ::
  "'db leveldb \<Rightarrow> ops_json \<Rightarrow> Operation \<Rightarrow> 'db BaseOperationRepo \<Rightarrow>
   error option \<times> 'db BaseOperationRepo"
where
  "Service_PutOperation L J operation r =
    (case PutOperation L J operation r of
       (Some e, r) \<Rightarrow> (Some (Wrapf ''failed to put operation: %w'' [] e), r)
     | (None, r) \<Rightarrow> (None, r))"

definition Service_DeleteOperation ::
  "'db leveldb \<Rightarrow> ops_json \<Rightarrow> Operation \<Rightarrow> 'db BaseOperationRepo \<Rightarrow>
   error option \<times> 'db BaseOperationRepo"
where
  "Service_DeleteOperation L J operation r =
    (case DeleteOperation L J operation r of
       (Some e, r) \<Rightarrow> (Some (Wrapf ''failed to delete operation: %w'' [] e), r)
     | (None, r) \<Rightarrow> (None, r))"

section \<open>The pool as a map and a set\<close>

text \<open>
  The abstract pool: the operations that can be fetched, and the identifiers of the deleted ones.
\<close>

definition pool_abs ::
  "'db leveldb \<Rightarrow> ops_json \<Rightarrow> 'db BaseOperationRepo \<Rightarrow> (string \<rightharpoonup> Operation) \<Rightarrow> string set \<Rightarrow> bool"
where
  "pool_abs L J r live dead \<longleftrightarrow>
    operationsCompositeKey r \<noteq> deleteOperationsCompositeKey r \<and>
    (\<exists>m. GetOperations L J r = Inr m \<and> map_of m = live) \<and>
    (\<exists>d. getDeletedOperations L J r = Inr d \<and> dom (map_of d) = dead)"

definition pool_put :: "Operation \<Rightarrow> (string \<rightharpoonup> Operation) \<times> string set \<Rightarrow> (string \<rightharpoonup> Operation) \<times> string set" where
  "pool_put operation p = (case p of (live, dead) \<Rightarrow>
     (if op_ID operation \<in> dead then live else live(op_ID operation \<mapsto> operation), dead))"

definition pool_delete :: "Operation \<Rightarrow> (string \<rightharpoonup> Operation) \<times> string set \<Rightarrow> (string \<rightharpoonup> Operation) \<times> string set" where
  "pool_delete operation p = (case p of (live, dead) \<Rightarrow>
     (live(op_ID operation := None), insert (op_ID operation) dead))"

lemma fold_filter:
  assumes "distinct (keys m)"
  shows "map_of (fold (\<lambda>(i, v) res. if map_of d i = None then AList.update i v res else res) m acc) i =
    (if map_of d i = None \<and> has_key m i then map_of m i else map_of acc i)"
  using assms
proof (induction m arbitrary: acc)
  case (Cons x m)
  obtain k v where x: "x = (k, v)" by (cases x)
  have "k \<notin> set (keys m)" "distinct (keys m)" using Cons.prems by (simp_all add: x)
  then have "map_of m k = None" using has_key_keys[of m k] by blast
  with Cons.IH[OF \<open>distinct (keys m)\<close>] show ?case by (simp add: x)
qed simp

lemma fold_filter_empty:
  assumes "distinct (keys m)"
  shows "map_of (fold (\<lambda>(i, v) res. if map_of d i = None then AList.update i v res else res) m []) =
    (\<lambda>i. if map_of d i = None then map_of m i else None)"
  by (rule ext) (simp add: fold_filter[OF assms])

lemma stored_map:
  assumes "ops_json_ok J" and "leveldb_ok L"
    and "storeOperations L J a b key m r = (None, r')"
  shows "operationsCompositeKey r' = operationsCompositeKey r"
    "deleteOperationsCompositeKey r' = deleteOperationsCompositeKey r"
    "k \<noteq> key \<Longrightarrow> LevelDBState_Get L (repo_state r') k = LevelDBState_Get L (repo_state r) k"
    "\<exists>bz m'. LevelDBState_Get L (repo_state r') key = Inr (Some bz) \<and> oj_Unmarshal J bz = Inr m' \<and>
      map_of m' = map_of m \<and> distinct (keys m')"
proof -
  from assms(3) obtain bz s' where bz: "oj_Marshal J m = Inr bz"
    and set: "LevelDBState_Set L key bz (repo_state r) = (None, s')"
    and r': "r' = r\<lparr>repo_state := s'\<rparr>"
    by (auto simp: storeOperations_def split: sum.splits option.splits prod.splits)
  note get = state_set_get(1)[OF assms(2) set]
  from assms(1) bz obtain m' where "oj_Unmarshal J bz = Inr m'" "map_of m' = map_of m" "distinct (keys m')"
    unfolding ops_json_ok_def by blast
  with get r' show "\<exists>bz m'. LevelDBState_Get L (repo_state r') key = Inr (Some bz) \<and>
      oj_Unmarshal J bz = Inr m' \<and> map_of m' = map_of m \<and> distinct (keys m')" by auto
  show "operationsCompositeKey r' = operationsCompositeKey r"
    "deleteOperationsCompositeKey r' = deleteOperationsCompositeKey r"
    "k \<noteq> key \<Longrightarrow> LevelDBState_Get L (repo_state r') k = LevelDBState_Get L (repo_state r) k"
    using get r' by simp_all
qed

lemma getDeleted_frame:
  assumes "LevelDBState_Get L (repo_state r') (deleteOperationsCompositeKey r) =
      LevelDBState_Get L (repo_state r) (deleteOperationsCompositeKey r)"
    and "deleteOperationsCompositeKey r' = deleteOperationsCompositeKey r"
  shows "getDeletedOperations L J r' = getDeletedOperations L J r"
  unfolding getDeletedOperations_def assms(2) using assms(1) by simp

lemma GetOperations_stored:
  assumes "getDeletedOperations L J r = Inr d"
    and "LevelDBState_Get L (repo_state r) (operationsCompositeKey r) = Inr (Some bz)"
    and "oj_Unmarshal J bz = Inr m" and "distinct (keys m)"
  shows "\<exists>m'. GetOperations L J r = Inr m' \<and>
    map_of m' = (\<lambda>i. if has_key d i then None else map_of m i)"
  using assms fold_filter_empty[OF assms(4), of d] by (auto simp: GetOperations_def)

lemma live_not_dead:
  assumes "ops_json_ok J" and "GetOperations L J r = Inr m" and "getDeletedOperations L J r = Inr d"
    and "has_key d i"
  shows "map_of m i = None"
proof (cases "map_of m i")
  case (Some v)
  with assms(2,3) obtain bz ops where u: "oj_Unmarshal J bz = Inr ops"
    and m: "m = fold (\<lambda>(i, v) res. if map_of d i = None then AList.update i v res else res) ops []"
    by (auto simp: GetOperations_def split: sum.splits option.splits)
  then have "distinct (keys ops)" using assms(1) by (auto simp: ops_json_ok_def)
  from fold_filter_empty[OF this, of d] m assms(4) show ?thesis by auto
qed

lemma put_refines:
  assumes ok: "leveldb_ok L" "ops_json_ok J" and abs: "pool_abs L J r live dead"
    and put: "PutOperation L J operation r = (None, r')"
  shows "op_ID operation \<notin> dom live"
    and "pool_abs L J r' (fst (pool_put operation (live, dead))) (snd (pool_put operation (live, dead)))"
proof -
  from abs obtain m d where keys: "operationsCompositeKey r \<noteq> deleteOperationsCompositeKey r"
    and m: "GetOperations L J r = Inr m" "map_of m = live"
    and d: "getDeletedOperations L J r = Inr d" "dom (map_of d) = dead"
    by (auto simp: pool_abs_def)
  from put m(1) have nk: "\<not> has_key m (op_ID operation)"
    and st: "storeOperations L J ''failed to marshal operations: %w'' ''failed to put operations: %w''
      (operationsCompositeKey r) (AList.update (op_ID operation) operation m) r = (None, r')"
    by (auto simp: PutOperation_def split: if_splits)
  show "op_ID operation \<notin> dom live" using nk m(2) by auto
  note s = stored_map[OF ok(2,1) st]
  have "getDeletedOperations L J r' = Inr d"
    using getDeleted_frame[of L r' r J] s(2) s(3)[of "deleteOperationsCompositeKey r"] keys d(1) by simp
  with s(1,4) obtain m' where m': "GetOperations L J r' = Inr m'"
      "map_of m' = (\<lambda>i. if has_key d i then None else (live(op_ID operation \<mapsto> operation)) i)"
    using GetOperations_stored[of L J r' d] m(2) by fastforce
  have live_dead: "live i = None" if "map_of d i = Some y" for i y
    using that live_not_dead[OF ok(2) m(1) d(1), of i] m(2) by simp
  have "map_of m' = fst (pool_put operation (live, dead))"
    using m'(2) live_dead d(2) by (auto simp: pool_put_def fun_eq_iff)
  with m'(1) \<open>getDeletedOperations L J r' = Inr d\<close> d(2) keys s(1,2)
  show "pool_abs L J r' (fst (pool_put operation (live, dead))) (snd (pool_put operation (live, dead)))"
    by (auto simp: pool_abs_def pool_put_def)
qed

lemma delete_refines:
  assumes ok: "leveldb_ok L" "ops_json_ok J" and abs: "pool_abs L J r live dead"
    and del: "DeleteOperation L J operation r = (None, r')"
  shows "op_ID operation \<notin> dead"
    and "pool_abs L J r' (fst (pool_delete operation (live, dead))) (snd (pool_delete operation (live, dead)))"
proof -
  let ?o = "op_ID operation"
  from abs obtain m d where keys: "operationsCompositeKey r \<noteq> deleteOperationsCompositeKey r"
    and m: "GetOperations L J r = Inr m" "map_of m = live"
    and d: "getDeletedOperations L J r = Inr d" "dom (map_of d) = dead"
    by (auto simp: pool_abs_def)
  from del d(1) obtain r1 ops where nk: "\<not> has_key d ?o"
    and st1: "storeOperations L J ''failed to marshal deleted operations: %w''
      ''failed to put deleted operations: %w'' (deleteOperationsCompositeKey r)
      (AList.update ?o operation d) r = (None, r1)"
    and ops: "GetOperations L J r1 = Inr ops"
    and st2: "storeOperations L J ''failed to marshal operations: %w'' ''failed to put operations: %w''
      (operationsCompositeKey r1) (AList.delete ?o ops) r1 = (None, r')"
    by (auto simp: DeleteOperation_def split: if_splits prod.splits option.splits sum.splits)
  show "?o \<notin> dead" using nk d(2) by auto
  note s1 = stored_map[OF ok(2,1) st1] and s2 = stored_map[OF ok(2,1) st2]
  from s1(2,4) obtain d1 where d1: "getDeletedOperations L J r1 = Inr d1" "map_of d1 = (map_of d)(?o \<mapsto> operation)"
    by (auto simp: getDeletedOperations_def)
  then have d2: "getDeletedOperations L J r' = Inr d1"
    using getDeleted_frame[of L r' r1 J] s2(2) s2(3)[of "deleteOperationsCompositeKey r1"] keys s1(1,2) by simp
  have live1: "map_of ops i = (if i = ?o then None else live i)" for i
  proof (cases "LevelDBState_Get L (repo_state r) (operationsCompositeKey r)")
    case (Inr x)
    have g: "LevelDBState_Get L (repo_state r1) (operationsCompositeKey r1) = Inr x"
      using s1(1) s1(3)[of "operationsCompositeKey r"] keys Inr by simp
    show ?thesis
    proof (cases x)
      case None
      with ops g d1(1) m Inr d(1) show ?thesis by (auto simp: GetOperations_def)
    next
      case (Some bz)
      with m(1) d(1) Inr obtain u where u: "oj_Unmarshal J bz = Inr u"
        by (auto simp: GetOperations_def split: sum.splits)
      then have dist: "distinct (keys u)" using ok(2) by (auto simp: ops_json_ok_def)
      from GetOperations_stored[OF d(1) Inr[unfolded Some] u dist] m
        GetOperations_stored[OF d1(1) g[unfolded Some] u dist] ops d1(2) nk
      show ?thesis by (auto simp: fun_eq_iff)
    qed
  qed (use m(1) d(1) in \<open>simp add: GetOperations_def\<close>)
  from s2(4) obtain bz m' where "LevelDBState_Get L (repo_state r') (operationsCompositeKey r') = Inr (Some bz)"
    "oj_Unmarshal J bz = Inr m'" "map_of m' = (map_of ops)(?o := None)" "distinct (keys m')"
    using s2(1) by (auto simp: AList.delete_conv')
  from GetOperations_stored[OF d2 this(1,2,4)] this(3) live1 d1(2) obtain m2 where
    m2: "GetOperations L J r' = Inr m2"
      "map_of m2 = (\<lambda>i. if i = ?o \<or> has_key d i then None else live i)" by (auto simp: fun_eq_iff)
  have "live i = None" if "has_key d i" for i
    using live_not_dead[OF ok(2) m(1) d(1) that] m(2) by simp
  then have "map_of m2 = live(?o := None)" using m2(2) by (auto simp: fun_eq_iff)
  with m2(1) d2 d1(2) d(2) keys s1(1,2) s2(1,2)
  show "pool_abs L J r' (fst (pool_delete operation (live, dead))) (snd (pool_delete operation (live, dead)))"
    by (auto simp: pool_abs_def pool_delete_def)
qed

text \<open>A sequence of calls, each of which has to succeed; \<open>True\<close> puts, \<open>False\<close> deletes.\<close>

fun pool_run ::
  "'db leveldb \<Rightarrow> ops_json \<Rightarrow> (bool \<times> Operation) list \<Rightarrow> 'db BaseOperationRepo \<Rightarrow>
   'db BaseOperationRepo option"
where
  "pool_run L J [] r = Some r"
| "pool_run L J ((put, operation) # xs) r =
    (case (if put then PutOperation L J operation r else DeleteOperation L J operation r) of
       (None, r') \<Rightarrow> pool_run L J xs r'
     | (Some e, r') \<Rightarrow> None)"

lemma pool_run_dead:
  assumes "leveldb_ok L" "ops_json_ok J" and "pool_abs L J r live dead" and "i \<in> dead"
    and "live i = None" and "pool_run L J xs r = Some r'"
  shows "\<exists>live' dead'. pool_abs L J r' live' dead' \<and> i \<in> dead' \<and> live' i = None"
  using assms(3-6)
proof (induction xs arbitrary: r live dead)
  case (Cons x xs)
  obtain put w where x: "x = (put, w)" by (cases x)
  show ?case
  proof (cases put)
    case True
    with Cons.prems(4) obtain r1 where r1: "PutOperation L J w r = (None, r1)" "pool_run L J xs r1 = Some r'"
      by (auto simp: x split: prod.splits option.splits)
    from Cons.IH[OF put_refines(2)[OF assms(1,2) Cons.prems(1) r1(1)] _ _ r1(2)] Cons.prems(2,3)
    show ?thesis by (cases "op_ID w = i") (auto simp: pool_put_def split: if_splits)
  next
    case False
    with Cons.prems(4) obtain r1 where r1: "DeleteOperation L J w r = (None, r1)" "pool_run L J xs r1 = Some r'"
      by (auto simp: x split: prod.splits option.splits)
    from Cons.IH[OF delete_refines(2)[OF assms(1,2) Cons.prems(1) r1(1)] _ _ r1(2)] Cons.prems(2,3)
    show ?thesis by (auto simp: pool_delete_def)
  qed
qed auto

lemma initJsonKey_stored:
  assumes "leveldb_ok L" and "initJsonKey L key r = (None, r')"
  shows "LevelDBState_Get L (repo_state r') k =
      (if k = key then Inr (Some empty_object) else LevelDBState_Get L (repo_state r) k)"
    and "operationsCompositeKey r' = operationsCompositeKey r"
    "deleteOperationsCompositeKey r' = deleteOperationsCompositeKey r"
  using assms
  by (auto simp: initJsonKey_def state_set_get(1)[OF assms(1)] split: option.splits prod.splits)

lemma new_repo_empty:
  assumes "leveldb_ok L" and "ops_json_ok J" and "NewOperationRepo L s name = Inr r"
  shows "GetOperations L J r = Inr []" "getDeletedOperations L J r = Inr []"
    "operationsCompositeKey r \<noteq> deleteOperationsCompositeKey r"
proof -
  let ?k = "MakeCompositeKeyString name OperationsKey"
  let ?d = "MakeCompositeKeyString name DeletedOperationsKey"
  let ?r = "\<lparr>repo_state = s, operationsCompositeKey = ?k, deleteOperationsCompositeKey = ?d\<rparr>"
  from assms(3) obtain r1 where r1: "initJsonKey L ?k ?r = (None, r1)" "initJsonKey L ?d r1 = (None, r)"
    by (auto simp: NewOperationRepo_def Let_def split: prod.splits option.splits)
  note i = initJsonKey_stored[OF assms(1) r1(1)] initJsonKey_stored[OF assms(1) r1(2)]
  have ne: "?k \<noteq> ?d" by (simp add: composite_key_inj OperationsKey_def DeletedOperationsKey_def)
  have keys: "operationsCompositeKey r = ?k" "deleteOperationsCompositeKey r = ?d"
    using i(2,3,5,6) by simp_all
  have get: "LevelDBState_Get L (repo_state r) ?d = Inr (Some empty_object)"
    "LevelDBState_Get L (repo_state r) ?k = Inr (Some empty_object)"
    using i(1,4) ne by simp_all
  have u: "oj_Unmarshal J empty_object = Inr []" using assms(2) by (simp add: ops_json_ok_def)
  show "getDeletedOperations L J r = Inr []"
    by (simp add: getDeletedOperations_def keys get u)
  then show "GetOperations L J r = Inr []" by (simp add: GetOperations_def keys get u)
  show "operationsCompositeKey r \<noteq> deleteOperationsCompositeKey r" using ne keys by simp
qed

section \<open>Properties\<close>

text \<open>
  C37: The pool refines a map of live operations with a set of deleted identifiers: a successful put
  adds an operation whose identifier was not live (and has no visible effect when the identifier
  was deleted before), a successful delete removes it and remembers the identifier, which was not
  deleted before; all other operations are untouched.
\<close>

theorem operation_pool_refines:
  assumes "leveldb_ok L" and "ops_json_ok J" and "pool_abs L J r live dead"
  shows "(PutOperation L J operation r = (None, r') \<longrightarrow> live (op_ID operation) = None \<and>
      pool_abs L J r' (if op_ID operation \<in> dead then live else live(op_ID operation \<mapsto> operation)) dead) \<and>
    (DeleteOperation L J operation r = (None, r') \<longrightarrow> op_ID operation \<notin> dead \<and>
      pool_abs L J r' (live(op_ID operation := None)) (insert (op_ID operation) dead))"
  using put_refines[OF assms, of operation r'] delete_refines[OF assms, of operation r']
  by (auto simp: pool_put_def pool_delete_def)

definition sample_op :: Operation where
  "sample_op = \<lparr>op_ID = ''o1'', op_Type = ''type'', op_Payload = [1], op_ResultMsgs = [],
     op_CreatedAt = 1, op_DKGIdentifier = ''round'', op_To = '''', op_Event = '''', op_ExtraData = []\<rparr>"

definition sample_ops_json :: ops_json where
  "sample_ops_json = \<lparr>oj_Marshal = (\<lambda>m. if m = [] then Inr empty_object
       else if m = [(''o1'', sample_op)] then Inr [1] else Inl (errorsNew ''json'')),
     oj_Unmarshal = (\<lambda>b. if b = empty_object then Inr []
       else if b = [1] then Inr [(''o1'', sample_op)] else Inl (errorsNew ''json''))\<rparr>"

lemma sample_ops_json_ok: "ops_json_ok sample_ops_json"
  by (auto simp: ops_json_ok_def sample_ops_json_def empty_object_def split: if_splits)

definition sample_repo :: "(string, bytes) gomap \<Rightarrow> (string, bytes) gomap BaseOperationRepo" where
  "sample_repo db = \<lparr>repo_state = \<lparr>stateDb = db, topic = ''t'', stateDbPath = ''p''\<rparr>,
     operationsCompositeKey = ''t_operations'', deleteOperationsCompositeKey = ''t_deleted_operations''\<rparr>"

definition sample_pool_empty :: "(string, bytes) gomap BaseOperationRepo" where
  "sample_pool_empty = sample_repo [(''t_operations'', empty_object), (''t_deleted_operations'', empty_object)]"

definition sample_pool_full :: "(string, bytes) gomap BaseOperationRepo" where
  "sample_pool_full = sample_repo [(''t_operations'', [1]), (''t_deleted_operations'', empty_object)]"

definition sample_pool_deleted :: "(string, bytes) gomap BaseOperationRepo" where
  "sample_pool_deleted = sample_repo [(''t_operations'', empty_object), (''t_deleted_operations'', [1])]"

lemmas sample_pool_defs = sample_pool_empty_def sample_pool_full_def sample_pool_deleted_def
  sample_repo_def sample_ops_json_def memdb_def

lemma sample_pool_calls:
  "PutOperation memdb sample_ops_json sample_op sample_pool_empty = (None, sample_pool_full)"
  "DeleteOperation memdb sample_ops_json sample_op sample_pool_full = (None, sample_pool_deleted)"
  by code_simp+

lemma sample_pool_abs:
  "pool_abs memdb sample_ops_json sample_pool_empty Map.empty {}"
  by (auto simp: pool_abs_def GetOperations_def getDeletedOperations_def LevelDBState_Get_def
      sample_pool_defs empty_object_def)

theorem operation_pool_refines_witness:
  "PutOperation memdb sample_ops_json sample_op sample_pool_empty = (None, sample_pool_full) \<and>
   pool_abs memdb sample_ops_json sample_pool_full [''o1'' \<mapsto> sample_op] {}"
  using operation_pool_refines[OF memdb_ok sample_ops_json_ok sample_pool_abs, of sample_op sample_pool_full]
    sample_pool_calls(1) by (simp add: sample_op_def)

text \<open>
  A deleted operation is gone for good: after a successful delete no sequence of successful
  puts and deletes, not even a put of the same identifier, makes it fetchable again.
\<close>

theorem deleted_operation_stays_deleted:
  assumes "leveldb_ok L" and "ops_json_ok J" and "pool_abs L J r live dead"
    and "DeleteOperation L J operation r = (None, r1)" and "pool_run L J xs r1 = Some r2"
  shows "GetOperationByID L J r2 (op_ID operation) = Inl (errorsNew ''operation not found'')"
proof -
  have "pool_abs L J r1 (live(op_ID operation := None)) (insert (op_ID operation) dead)"
    using delete_refines(2)[OF assms(1-4)] by (simp add: pool_delete_def)
  from pool_run_dead[OF assms(1,2) this _ _ assms(5), of "op_ID operation"] obtain live' dead' where
    "pool_abs L J r2 live' dead'" "live' (op_ID operation) = None" by auto
  then show ?thesis by (auto simp: pool_abs_def GetOperationByID_def)
qed

theorem deleted_operation_stays_deleted_witness:
  "\<exists>r2. pool_run memdb sample_ops_json [(True, sample_op)] sample_pool_deleted = Some r2 \<and>
    GetOperationByID memdb sample_ops_json r2 ''o1'' = Inl (errorsNew ''operation not found'')"
proof -
  have "\<not> Option.is_none (pool_run memdb sample_ops_json [(True, sample_op)] sample_pool_deleted)"
    by code_simp
  then obtain r2 where r2: "pool_run memdb sample_ops_json [(True, sample_op)] sample_pool_deleted = Some r2"
    by (auto simp: Option.is_none_def)
  have "pool_abs memdb sample_ops_json sample_pool_full [''o1'' \<mapsto> sample_op] {}"
    using put_refines(2)[OF memdb_ok sample_ops_json_ok sample_pool_abs sample_pool_calls(1)]
    by (simp add: pool_put_def sample_op_def)
  from deleted_operation_stays_deleted[OF memdb_ok sample_ops_json_ok this sample_pool_calls(2) r2] r2
  show ?thesis by (simp add: sample_op_def)
qed

text \<open>
  A restart of the node drops its pool: whatever the database held, the repository that
  \<open>NewOperationRepo\<close> opens on it has no operations and no deleted operations.
\<close>

theorem restart_drops_operations:
  assumes "leveldb_ok L" and "ops_json_ok J" and "NewOperationRepo L s name = Inr r"
  shows "GetOperations L J r = Inr [] \<and> getDeletedOperations L J r = Inr []"
  using new_repo_empty[OF assms] by simp

theorem restart_drops_operations_witness:
  "\<exists>r. GetOperations memdb sample_ops_json sample_pool_full = Inr [(''o1'', sample_op)] \<and>
    NewOperationRepo memdb (repo_state sample_pool_full) ''t'' = Inr r \<and>
    GetOperations memdb sample_ops_json r = Inr []"
proof -
  have g: "GetOperations memdb sample_ops_json sample_pool_full = Inr [(''o1'', sample_op)]" by code_simp
  obtain r where r: "NewOperationRepo memdb (repo_state sample_pool_full) ''t'' = Inr r"
    by (simp add: NewOperationRepo_def initJsonKey_def LevelDBState_Set_def memdb_def Let_def)
  from restart_drops_operations[OF memdb_ok sample_ops_json_ok r] g r show ?thesis by simp
qed

end
