(* ===== verification/Encoding.thy ===== *)
theory Encoding
  imports Prelude
begin

text \<open>
  The text encodings of the Go standard library that the node uses to build identifiers and hash
  inputs: hexadecimal (\<open>encoding/hex\<close>), base64 with the standard alphabet (\<open>encoding/base64\<close>), decimal
  numbers (\<open>fmt\<close> verb \<open>%d\<close>) and the prefix and suffix tests of \<open>strings\<close>.
\<close>

section \<open>Definitions\<close>

definition hex_digit :: "nat \<Rightarrow> char" where
  "hex_digit n = ''0123456789abcdef'' ! n"

definition hex_EncodeToString :: "bytes \<Rightarrow> string" where
  "hex_EncodeToString bs = concat (map (\<lambda>b. [hex_digit (unat b div 16), hex_digit (unat b mod 16)]) bs)"

definition base64_alphabet :: string where
  "base64_alphabet = ''ABCDEFGHIJKLMNOPQRSTUVWXYZabcdefghijklmnopqrstuvwxyz0123456789+/''"

definition base64_char :: "nat \<Rightarrow> char" where
  "base64_char n = base64_alphabet ! n"

fun base64_EncodeToString :: "bytes \<Rightarrow> string" where
  "base64_EncodeToString [] = ''''"
| "base64_EncodeToString [a] =
    [base64_char (unat a div 4), base64_char (16 * (unat a mod 4)), CHR ''='', CHR ''='']"
| "base64_EncodeToString [a, b] =
    [base64_char (unat a div 4), base64_char (16 * (unat a mod 4) + unat b div 16),
     base64_char (4 * (unat b mod 16)), CHR ''='']"
| "base64_EncodeToString (a # b # c # bs) =
    base64_char (unat a div 4) # base64_char (16 * (unat a mod 4) + unat b div 16) #
    base64_char (4 * (unat b mod 16) + unat c div 64) # base64_char (unat c mod 64) #
    base64_EncodeToString bs"

fun nat_digits :: "nat \<Rightarrow> string" where
  "nat_digits n = (if n < 10 then [char_of (48 + n)] else nat_digits (n div 10) @ [char_of (48 + n mod 10)])"

declare nat_digits.simps [simp del]

definition int_digits :: "int \<Rightarrow> string" where
  "int_digits i = (if i < 0 then ''-'' @ nat_digits (nat (- i)) else nat_digits (nat i))"

definition HasPrefix :: "string \<Rightarrow> string \<Rightarrow> bool" where
  "HasPrefix s pre \<longleftrightarrow> take (length pre) s = pre"

definition HasSuffix :: "string \<Rightarrow> string \<Rightarrow> bool" where
  "HasSuffix s suf \<longleftrightarrow> length suf \<le> length s \<and> drop (length s - length suf) s = suf"

text \<open>A Go string converted to its bytes.\<close>

definition string_bytes :: "string \<Rightarrow> bytes" where
  "string_bytes s = map of_char s"

section \<open>Base64 is injective and avoids the underscore\<close>

lemma base64_alphabet_distinct: "distinct base64_alphabet" "length base64_alphabet = 64"
  by code_simp+

lemma base64_char_inj: "m < 64 \<Longrightarrow> n < 64 \<Longrightarrow> base64_char m = base64_char n \<longleftrightarrow> m = n"
  using base64_alphabet_distinct by (simp add: base64_char_def nth_eq_iff_index_eq)

lemma base64_char_not: "n < 64 \<Longrightarrow> base64_char n \<noteq> CHR ''=''" "n < 64 \<Longrightarrow> base64_char n \<noteq> CHR ''_''"
proof -
  have "list_all (\<lambda>c. c \<noteq> CHR ''='' \<and> c \<noteq> CHR ''_'') base64_alphabet" by code_simp
  then show "n < 64 \<Longrightarrow> base64_char n \<noteq> CHR ''=''" "n < 64 \<Longrightarrow> base64_char n \<noteq> CHR ''_''"
    using base64_alphabet_distinct(2) by (auto simp: base64_char_def list_all_iff)
qed

lemma byte_bound: "unat (b :: 8 word) < 256"
  using unsigned_less[of b, where ?'a = nat] by simp

lemma byte_div:
  "unat (a :: 8 word) div 4 < 64" "unat a div 16 < 16" "unat a div 64 < 4"
  using byte_bound[of a] by (simp_all add: less_mult_imp_div_less)

lemma base64_bounds:
  "16 * (unat (a :: 8 word) mod 4) < 64" "16 * (unat a mod 4) + unat (b :: 8 word) div 16 < 64"
  "4 * (unat b mod 16) < 64" "4 * (unat b mod 16) + unat (c :: 8 word) div 64 < 64" "unat c mod 64 < 64"
  using mod_less_divisor[of 4 "unat a"] mod_less_divisor[of 16 "unat b"] byte_div(2)[of b] byte_div(3)[of c]
  by simp_all

lemma unat_parts_eq:
  assumes "unat a div n = unat b div n" and "unat a mod n = unat b mod n"
  shows "a = (b :: 8 word)"
  using assms by (metis div_mod_decomp word_unat_eq_iff)

lemma mixed_digits:
  assumes "k * x + y = k * x' + y'" and "y < k" and "y' < (k :: nat)"
  shows "x = x'" and "y = y'"
proof -
  have "(k * x + y) div k = x" "(k * x' + y') div k = x'" using assms(2,3) by simp_all
  then show "x = x'" using assms(1) by simp
  then show "y = y'" using assms(1) by simp
qed

lemmas base64_chars = base64_char_inj base64_char_not(1) base64_char_not(1)[symmetric] base64_bounds byte_div

lemma base64_group1:
  assumes "unat a div 4 = unat a' div 4" and "16 * (unat a mod 4) = 16 * (unat a' mod 4)"
  shows "a = (a' :: 8 word)"
  using assms unat_parts_eq[of a 4 a'] by simp

lemma base64_group2:
  fixes a a' b b' :: "8 word"
  assumes "unat a div 4 = unat a' div 4" and "16 * (unat a mod 4) + unat b div 16 = 16 * (unat a' mod 4) + unat b' div 16"
    and "4 * (unat b mod 16) = 4 * (unat b' mod 16)"
  shows "a = a' \<and> b = b'"
proof -
  note d = mixed_digits[OF assms(2) byte_div(2) byte_div(2)]
  show ?thesis using unat_parts_eq[OF assms(1) d(1)] unat_parts_eq[OF d(2)] assms(3) by simp
qed

lemma base64_group3:
  fixes a a' b b' c c' :: "8 word"
  assumes "unat a div 4 = unat a' div 4" and "16 * (unat a mod 4) + unat b div 16 = 16 * (unat a' mod 4) + unat b' div 16"
    and "4 * (unat b mod 16) + unat c div 64 = 4 * (unat b' mod 16) + unat c' div 64"
    and "unat c mod 64 = unat c' mod 64"
  shows "a = a' \<and> b = b' \<and> c = c'"
proof -
  note d = mixed_digits[OF assms(3) byte_div(3) byte_div(3)]
  have "4 * (unat b mod 16) = 4 * (unat b' mod 16)" using d(1) by simp
  with base64_group2[OF assms(1,2)] unat_parts_eq[OF d(2) assms(4)] show ?thesis by simp
qed

lemma base64_inj: "base64_EncodeToString xs = base64_EncodeToString ys \<longleftrightarrow> xs = ys"
proof (induction xs arbitrary: ys rule: base64_EncodeToString.induct)
  case 1
  show ?case by (cases ys rule: base64_EncodeToString.cases) simp_all
next
  case (2 a)
  show ?case
    by (cases ys rule: base64_EncodeToString.cases) (auto simp: base64_chars dest: base64_group1)
next
  case (3 a b)
  show ?case
    by (cases ys rule: base64_EncodeToString.cases)
       (auto simp: base64_chars dest: base64_group2)
next
  case (4 a b c bs)
  show ?case
    using 4 by (cases ys rule: base64_EncodeToString.cases)
      (auto simp: base64_chars dest: base64_group3)
qed

lemma base64_no_underscore: "CHR ''_'' \<notin> set (base64_EncodeToString xs)"
  by (induction xs rule: base64_EncodeToString.induct)
     (auto simp: base64_char_not(2)[symmetric] base64_bounds byte_div)

text \<open>A separator that the second part avoids makes joined pairs unambiguous.\<close>

lemma separator_unique:
  assumes "xs @ c # ys = xs' @ c # ys'" and "c \<notin> set ys" and "c \<notin> set ys'"
  shows "xs = xs' \<and> ys = ys'"
proof -
  have "rev ys @ c # rev xs = rev ys' @ c # rev xs'" using assms(1)
    by (metis append.assoc append_Cons append_Nil rev.simps(2) rev_append)
  moreover have "takeWhile (\<lambda>x. x \<noteq> c) (rev zs @ c # ws) = rev zs" if "c \<notin> set zs" for zs ws
    using that by (auto simp: takeWhile_tail)
  ultimately have "rev ys = rev ys'" using assms(2,3) by metis
  with assms(1) show ?thesis by simp
qed

end
