(* ===== verification/Signing_Tasks.thy ===== *)
theory Signing_Tasks
  imports Requests Encoding Storage
begin

text \<open>
  The messages a batch asks to sign (\<open>TasksToMessages\<close> and \<open>ReconstructBakedMessage\<close> in
  \<open>src/fsm/types/requests/signing_proposal.go\<close>): a task carries its payload, or names a range of the
  list of validators that is compiled into the program, for each of which the signing root of the
  withdrawal credentials change is computed.

  The compiled-in list (split at line breaks) and the computation of a signing root, which rests on
  a third-party hash tree, are arguments of the definitions.
\<close>

section \<open>Definitions\<close>

text \<open>\<open>ParseInt\<close> is \<open>strconv.ParseInt(_, 10, 64)\<close>: an optional sign and decimal digits, 64 bits signed.\<close>

definition ParseInt :: "string \<Rightarrow> error + int" where
  "ParseInt s =
    (let negative = HasPrefix s ''-'';
         digits = (if negative \<or> HasPrefix s ''+'' then tl s else s)
     in if digits = '''' \<or> list_ex (\<lambda>c. decimal c = None) digits
        then Inl (errorsNew ''strconv.ParseInt: invalid syntax'')
        else let n = int (fold (\<lambda>c n. 10 * n + the (decimal c)) digits (0::nat)) in
          if negative \<and> n > 2 ^ 63 \<or> \<not> negative \<and> n \<ge> 2 ^ 63
          then Inl (errorsNew ''strconv.ParseInt: value out of range'')
          else Inr (if negative then - n else n))"

record baked_data =
  bk_ValidatorsIndexes :: "string list"
  bk_GetSigningRoot :: "64 word \<Rightarrow> error + bytes"

definition ReconstructBakedMessage :: "baked_data \<Rightarrow> int \<Rightarrow> (error + MessageToSign) go" where
  "ReconstructBakedMessage B i =
    (if i \<ge> int (length (bk_ValidatorsIndexes B))
     then Inr (Inl (errorsNew ''index validator is out off the validator's list''))
     else if i < 0 then Inl IndexOutOfRange
     else let validator = bk_ValidatorsIndexes B ! nat i in
       (case ParseInt validator of
          Inl e \<Rightarrow> Inr (Inl (Wrapf ''failed to parse int from str(%s): %w'' [AStr validator] e))
        | Inr vID \<Rightarrow>
            (case bk_GetSigningRoot B (of_int vID) of
               Inl e \<Rightarrow> Inr (Inl (Wrapf ''failed to get signed root: %w'' [] e))
             | Inr root \<Rightarrow>
                 let messageID = ''bakedrange'' @ int_digits i in
                 Inr (Inr \<lparr>mts_MessageID = validator, mts_File = messageID, mts_Payload = root,
                           mts_BakedDataPayload = True\<rparr>))))"

fun bakedRange ::
  "baked_data \<Rightarrow> int list \<Rightarrow> MessageToSign list \<Rightarrow> (error + MessageToSign list) go"
where
  "bakedRange B [] signData = Inr (Inr signData)"
| "bakedRange B (i # is) signData =
    bindR (ReconstructBakedMessage B i) (\<lambda>r. case r of
      Inl e \<Rightarrow> Inr (Inl (Wrapf ''failed to ReconstructBakedMessage: %w'' [] e))
    | Inr data \<Rightarrow> bakedRange B is (signData @ [data]))"

fun tasksLoop ::
  "baked_data \<Rightarrow> SigningTask list \<Rightarrow> MessageToSign list \<Rightarrow> (error + MessageToSign list) go"
where
  "tasksLoop B [] signData = Inr (Inr signData)"
| "tasksLoop B (m # msgs) signData =
    (case st_Payload m of
       Some payload \<Rightarrow> tasksLoop B msgs (signData @
         [\<lparr>mts_MessageID = st_MessageID m, mts_File = st_File m, mts_Payload = payload,
           mts_BakedDataPayload = False\<rparr>])
     | None \<Rightarrow>
         bindR (bakedRange B [st_RangeStart m..st_RangeEnd m - 1] signData) (\<lambda>r. case r of
           Inl e \<Rightarrow> Inr (Inl e)
         | Inr signData \<Rightarrow> tasksLoop B msgs signData))"

definition TasksToMessages :: "baked_data \<Rightarrow> SigningTask list \<Rightarrow> (error + MessageToSign list) go" where
  "TasksToMessages B msgs = tasksLoop B msgs []"

section \<open>Which messages a batch has\<close>

text \<open>
  The number of messages of a task, and the tasks whose ranges lie in the list.  \<open>Validate\<close> does not
  check the latter.
\<close>

definition task_size :: "SigningTask \<Rightarrow> nat" where
  "task_size m = (case st_Payload m of Some _ \<Rightarrow> 1 | None \<Rightarrow> nat (st_RangeEnd m - st_RangeStart m))"

definition task_in_list :: "baked_data \<Rightarrow> SigningTask \<Rightarrow> bool" where
  "task_in_list B m \<longleftrightarrow> st_Payload m \<noteq> None \<or> st_RangeStart m \<ge> st_RangeEnd m \<or>
     0 \<le> st_RangeStart m \<and> st_RangeEnd m \<le> int (length (bk_ValidatorsIndexes B))"

definition baked_ok :: "baked_data \<Rightarrow> bool" where
  "baked_ok B \<longleftrightarrow> list_all (\<lambda>v. case ParseInt v of Inl e \<Rightarrow> False
     | Inr vID \<Rightarrow> (case bk_GetSigningRoot B (of_int vID) of Inl e \<Rightarrow> False | Inr root \<Rightarrow> True))
     (bk_ValidatorsIndexes B)"

lemma ReconstructBakedMessage_ok:
  assumes "baked_ok B" and "0 \<le> i" and "i < int (length (bk_ValidatorsIndexes B))"
  shows "\<exists>m. ReconstructBakedMessage B i = Inr (Inr m) \<and> mts_BakedDataPayload m \<and>
    mts_MessageID m = bk_ValidatorsIndexes B ! nat i \<and> mts_File m = ''bakedrange'' @ int_digits i"
proof -
  have "bk_ValidatorsIndexes B ! nat i \<in> set (bk_ValidatorsIndexes B)" using assms(2,3) by simp
  with assms show ?thesis
    by (fastforce simp: ReconstructBakedMessage_def baked_ok_def list_all_iff Let_def split: sum.splits)
qed

lemma bakedRange_ok:
  assumes "baked_ok B" and "list_all (\<lambda>i. 0 \<le> i \<and> i < int (length (bk_ValidatorsIndexes B))) is"
  shows "\<exists>ms. bakedRange B is acc = Inr (Inr (acc @ ms)) \<and> length ms = length is \<and>
    map mts_MessageID ms = map (\<lambda>i. bk_ValidatorsIndexes B ! nat i) is"
  using assms(2)
proof (induction "is" arbitrary: acc)
  case (Cons i "is")
  from ReconstructBakedMessage_ok[OF assms(1), of i] Cons.prems obtain m where
    m: "ReconstructBakedMessage B i = Inr (Inr m)" "mts_MessageID m = bk_ValidatorsIndexes B ! nat i" by auto
  from Cons.IH[of "acc @ [m]"] Cons.prems obtain ms where
    "bakedRange B is (acc @ [m]) = Inr (Inr (acc @ m # ms))" "length ms = length is"
    "map mts_MessageID ms = map (\<lambda>i. bk_ValidatorsIndexes B ! nat i) is" by auto
  with m show ?case by (intro exI[of _ "m # ms"]) simp
qed simp

lemma task_range_listed:
  assumes "task_in_list B m" and "st_Payload m = None"
  shows "list_all (\<lambda>i. 0 \<le> i \<and> i < int (length (bk_ValidatorsIndexes B)))
    [st_RangeStart m..st_RangeEnd m - 1]"
  using assms by (auto simp: task_in_list_def list_all_iff)

lemma tasksLoop_ok:
  assumes "baked_ok B" and "list_all (task_in_list B) ts"
  shows "\<exists>ms. tasksLoop B ts acc = Inr (Inr (acc @ ms)) \<and> length ms = sum_list (map task_size ts)"
  using assms(2)
proof (induction ts arbitrary: acc)
  case (Cons t ts)
  show ?case
  proof (cases "st_Payload t")
    case None
    have "task_in_list B t" using Cons.prems by simp
    from bakedRange_ok[OF assms(1) task_range_listed[OF this None], of acc] obtain ms where
      ms: "bakedRange B [st_RangeStart t..st_RangeEnd t - 1] acc = Inr (Inr (acc @ ms))"
        "length ms = task_size t" by (auto simp: task_size_def None)
    from Cons.IH[of "acc @ ms"] Cons.prems obtain ms' where
      "tasksLoop B ts (acc @ ms) = Inr (Inr ((acc @ ms) @ ms'))" "length ms' = sum_list (map task_size ts)"
      by auto
    with ms None show ?thesis by (intro exI[of _ "ms @ ms'"]) simp
  next
    case (Some payload)
    let ?m = "\<lparr>mts_MessageID = st_MessageID t, mts_File = st_File t, mts_Payload = payload,
      mts_BakedDataPayload = False\<rparr>"
    from Cons.IH[of "acc @ [?m]"] Cons.prems obtain ms' where
      "tasksLoop B ts (acc @ [?m]) = Inr (Inr ((acc @ [?m]) @ ms'))" "length ms' = sum_list (map task_size ts)"
      by auto
    with Some show ?thesis by (intro exI[of _ "?m # ms'"]) (simp add: task_size_def[of t])
  qed
qed simp

text \<open>A negative start of a range passes validation and panics when the messages are expanded.\<close>

lemma negative_range:
  assumes "st_Payload m = None" and "st_RangeStart m < 0" and "st_RangeStart m < st_RangeEnd m"
  shows "TasksToMessages B (m # ms) = Inl IndexOutOfRange"
proof -
  have "[st_RangeStart m..st_RangeEnd m - 1] = st_RangeStart m # [st_RangeStart m + 1..st_RangeEnd m - 1]"
    using assms(3) by (simp add: upto_rec1)
  with assms show ?thesis
    by (simp add: TasksToMessages_def ReconstructBakedMessage_def Let_def)
qed

end
