(* ===== verification/Node_Types.thy ===== *)
theory Node_Types
  imports Operation_Repo Signing_Tasks Signing_Proposal Encoding
begin

text \<open>
  The types of the hot node (\<open>src/client/types/types.go\<close>): construction, comparison and file names of
  operations, the conversion of a message to the request of a machine, and the message that
  reinitializes a DKG from an old log.

  The JSON decoders, one per request type, are the fields of \<open>req_json\<close>; the hash functions MD5 and
  SHA-1 are arguments.
\<close>

section \<open>Constants\<close>

definition DKGCommits :: string where "DKGCommits = ''dkg_commits''"
definition SignatureReconstructed :: Event where [fsm_const]:
  "SignatureReconstructed = ''signature_reconstructed''"
definition SignatureReconstructionFailed :: Event where [fsm_const]:
  "SignatureReconstructionFailed = ''signature_reconstruction_failed''"
definition ReinitDKG :: State where [fsm_const]: "ReinitDKG = ''reinit_dkg''"
definition OperationProcessed :: Event where [fsm_const]:
  "OperationProcessed = ''operation_processed_successfully''"

section \<open>Operations\<close>

definition operationIdText :: "string \<Rightarrow> bytes \<Rightarrow> string" where
  "operationIdText dkgRoundID payload = dkgRoundID @ ''_'' @ base64_EncodeToString payload"

definition NewOperation ::
  "(bytes \<Rightarrow> bytes) \<Rightarrow> time \<Rightarrow> string \<Rightarrow> bytes \<Rightarrow> State \<Rightarrow> Operation"
where
  "NewOperation md5_Sum now dkgRoundID payload state =
    (let operationID = operationIdText dkgRoundID payload;
         operationIDmd5 = md5_Sum (string_bytes operationID)
     in \<lparr>op_ID = hex_EncodeToString operationIDmd5, op_Type = state, op_Payload = payload,
         op_ResultMsgs = [], op_CreatedAt = now, op_DKGIdentifier = dkgRoundID, op_To = '''',
         op_Event = '''', op_ExtraData = []\<rparr>)"

text \<open>The payloads in the last message are left out of its arguments.\<close>

definition Operation_Equal :: "Operation \<Rightarrow> Operation \<Rightarrow> error option" where
  "Operation_Equal o1 o2 =
    (if op_ID o1 \<noteq> op_ID o2
     then Some (Errorf ''o1.ID (%s) != o2.ID (%s)'' [AStr (op_ID o1), AStr (op_ID o2)])
     else if op_Type o1 \<noteq> op_Type o2
     then Some (Errorf ''o1.Type (%s) != o2.Type (%s)'' [AStr (op_Type o1), AStr (op_Type o2)])
     else if op_Payload o1 \<noteq> op_Payload o2
     then Some (errorsNew ''o1.Payload (%s) != o2.Payload (%s)'')
     else None)"

definition IsSigningState :: "Operation option \<Rightarrow> bool" where
  "IsSigningState x = (case x of None \<Rightarrow> False | Some op \<Rightarrow> HasPrefix (op_Type op) ''state_signing_'')"

definition getShortOperationDescription :: "string \<Rightarrow> string" where
  "getShortOperationDescription operationType =
    (if operationType = StateAwaitParticipantsConfirmations then ''confirm_participation''
     else if operationType = StateDkgCommitsAwaitConfirmations then ''send_commits_for_the_DKG_round''
     else if operationType = StateDkgDealsAwaitConfirmations then ''send_deals_for_the_DKG_round''
     else if operationType = StateDkgResponsesAwaitConfirmations then ''send_responses_for_the_DKG_round''
     else if operationType = StateDkgMasterKeyAwaitConfirmations
     then ''reconstruct_the_public_key_and_broadcast_it''
     else if operationType = StateSigningAwaitPartialSigns then ''partial_sign''
     else if operationType = StateSigningPartialSignsCollected then ''recover_full_signature''
     else if operationType = ReinitDKG then ''reinit_DKG''
     else ''unknown_operation'')"

definition getStepNumber :: "string \<Rightarrow> int" where
  "getStepNumber operationType =
    (if operationType = StateDkgCommitsAwaitConfirmations then 1
     else if operationType = StateDkgDealsAwaitConfirmations then 2
     else if operationType = StateDkgResponsesAwaitConfirmations then 3
     else if operationType = StateDkgMasterKeyAwaitConfirmations then 4
     else if operationType = StateAwaitParticipantsConfirmations then 1
     else if operationType = StateSigningAwaitPartialSigns then 1
     else if operationType = StateSigningPartialSignsCollected then 2
     else if operationType = ReinitDKG then 0
     else -1)"

text \<open>The slice expression \<open>s[:5]\<close>.\<close>

definition slice5 :: "string \<Rightarrow> string go" where
  "slice5 s = (if length s < 5 then Inl IndexOutOfRange else Inr (take 5 s))"

definition Operation_Filename ::
  "(bytes \<Rightarrow> error + SigningPartialSignsParticipantInvitationsResponse) \<Rightarrow> Operation \<Rightarrow> string go"
where
  "Operation_Filename unmarshal op =
    bindR (slice5 (op_DKGIdentifier op)) (\<lambda>d.
    let filename = ''dkg_id_'' @ d;
        filename = (if IsSigningState (Some op)
                    then (case unmarshal (op_Payload op) of
                            Inl e \<Rightarrow> filename
                          | Inr payload \<Rightarrow> filename @ ''_signing_id_'' @ pir_BatchID payload)
                    else filename)
    in bindR (slice5 (op_ID op)) (\<lambda>i.
       Inr (filename @ ''_step_'' @ int_digits (getStepNumber (op_Type op)) @ ''_'' @
         getShortOperationDescription (op_Type op) @ ''_'' @ i)))"

section \<open>Requests from messages\<close>

record req_json =
  rq_SigParticipant :: "bytes \<Rightarrow> error + SignatureProposalParticipantRequest"
  rq_SigInit :: "bytes \<Rightarrow> error + SignatureProposalParticipantsListRequest"
  rq_DkgCommit :: "bytes \<Rightarrow> error + DKGProposalCommitConfirmationRequest"
  rq_DkgDeal :: "bytes \<Rightarrow> error + DKGProposalDealConfirmationRequest"
  rq_DkgResponse :: "bytes \<Rightarrow> error + DKGProposalResponseConfirmationRequest"
  rq_DkgMasterKey :: "bytes \<Rightarrow> error + DKGProposalMasterKeyConfirmationRequest"
  rq_PartialSigns :: "bytes \<Rightarrow> error + SigningProposalBatchPartialSignRequests"
  rq_SigningStart :: "bytes \<Rightarrow> error + SigningBatchProposalStartRequest"
  rq_DkgError :: "bytes \<Rightarrow> error + DKGProposalConfirmationErrorRequest"
  rq_SigError :: "bytes \<Rightarrow> error + SignatureProposalConfirmationErrorRequest"

text \<open>
  Each case ends alike.  On failure the source returns the error as the \<^emph>\<open>value\<close> with a \<open>nil\<close> error, so
  the request handed on is that error value.
\<close>

definition resolved :: "('r \<Rightarrow> request) \<Rightarrow> error + 'r \<Rightarrow> error + request" where
  "resolved C r = Inr (case r of
     Inl e \<Rightarrow> ReqErrorValue (Wrapf ''failed to unmarshal fsm req: %w'' [] e) | Inr req \<Rightarrow> C req)"

definition FSMRequestFromMessage :: "req_json \<Rightarrow> Message \<Rightarrow> error + request" where
  "FSMRequestFromMessage J message =
    (let event = msg_Event message; data = Data message in
     if event = EventConfirmSignatureProposal \<or> event = EventDeclineProposal
     then resolved ReqSigParticipant (rq_SigParticipant J data)
     else if event = EventInitProposal then resolved ReqSigInit (rq_SigInit J data)
     else if event = EventDKGCommitConfirmationReceived then resolved ReqDkgCommit (rq_DkgCommit J data)
     else if event = EventDKGDealConfirmationReceived then resolved ReqDkgDeal (rq_DkgDeal J data)
     else if event = EventDKGResponseConfirmationReceived
     then resolved ReqDkgResponse (rq_DkgResponse J data)
     else if event = EventDKGMasterKeyConfirmationReceived
     then resolved ReqDkgMasterKey (rq_DkgMasterKey J data)
     else if event = EventSigningPartialSignReceived
     then resolved ReqPartialSigns (rq_PartialSigns J data)
     else if event = EventSigningStart then resolved ReqSigningStart (rq_SigningStart J data)
     else if event = EventDKGCommitConfirmationError \<or> event = EventDKGDealConfirmationError \<or>
       event = EventDKGResponseConfirmationError \<or> event = EventDKGMasterKeyConfirmationError
     then resolved ReqDkgError (rq_DkgError J data)
     else if event = EventSigningPartialSignError \<or> event = SignatureReconstructionFailed
     then resolved ReqSigError (rq_SigError J data)
     else Inl (Errorf ''invalid event: %s'' [AStr event]))"

section \<open>Reinitialization\<close>

record Participant =
  pt_DKGPubKey :: bytes
  pt_OldCommPubKey :: bytes
  pt_NewCommPubKey :: bytes
  pt_Name :: string

record ReDKG =
  rd_DKGID :: string
  rd_Threshold :: int
  rd_Participants :: "Participant list"
  rd_Messages :: "Message list"

definition addReDKGParticipant ::
  "(string, bytes) gomap \<Rightarrow> SignatureProposalParticipantsEntry option \<Rightarrow> Participant list \<Rightarrow>
   (Participant list) go"
where
  "addReDKGParticipant newCommPubKeys p participants = bindR (deref p) (\<lambda>participant.
     Inr (participants @ [\<lparr>pt_DKGPubKey = pe_DkgPubKey participant,
       pt_OldCommPubKey = pe_PubKey participant,
       pt_NewCommPubKey = (case map_of newCommPubKeys (pe_Username participant) of
          None \<Rightarrow> [] | Some k \<Rightarrow> k),
       pt_Name = pe_Username participant\<rparr>]))"

text \<open>What an initial proposal in the log contributes.\<close>

definition reDKGInit ::
  "req_json \<Rightarrow> (string, bytes) gomap \<Rightarrow> Message \<Rightarrow> ReDKG \<Rightarrow> (error + ReDKG) go"
where
  "reDKGInit J newCommPubKeys msg reDKG =
    (case FSMRequestFromMessage J msg of
       Inl e \<Rightarrow> Inr (Inl (Wrapf ''failed to get FSM request from message: %w'' [] e))
     | Inr req \<Rightarrow>
         (case as_SigInit req of
            None \<Rightarrow> Inr (Inl (errorsNew ''invalid request''))
          | Some request \<Rightarrow>
              bindR (foldR (addReDKGParticipant newCommPubKeys) (pl_Participants request)
                       (rd_Participants reDKG)) (\<lambda>participants.
              Inr (Inr (reDKG\<lparr>rd_DKGID := DkgRoundID msg,
                rd_Threshold := pl_SigningThreshold request, rd_Participants := participants\<rparr>)))))"

fun reDKGLoop ::
  "req_json \<Rightarrow> (string, bytes) gomap \<Rightarrow> Message list \<Rightarrow> ReDKG \<Rightarrow> (error + ReDKG) go"
where
  "reDKGLoop J newCommPubKeys [] reDKG = Inr (Inr reDKG)"
| "reDKGLoop J newCommPubKeys (msg # messages) reDKG =
    bindR (if msg_Event msg = EventInitProposal then reDKGInit J newCommPubKeys msg reDKG
           else Inr (Inr reDKG)) (\<lambda>r. case r of
      Inl e \<Rightarrow> Inr (Inl e)
    | Inr reDKG \<Rightarrow>
        if msg_Event msg = EventSigningStart then Inr (Inr reDKG)
        else reDKGLoop J newCommPubKeys messages (reDKG\<lparr>rd_Messages := rd_Messages reDKG @ [msg]\<rparr>))"

definition GenerateReDKGMessage ::
  "req_json \<Rightarrow> Message list \<Rightarrow> (string, bytes) gomap \<Rightarrow> (error + ReDKG) go"
where
  "GenerateReDKGMessage J messages newCommPubKeys = reDKGLoop J newCommPubKeys messages
     \<lparr>rd_DKGID = '''', rd_Threshold = 0, rd_Participants = [], rd_Messages = []\<rparr>"

text \<open>The bytes that are hashed; writing to a buffer never fails.\<close>

definition reDKGHashPayload :: "ReDKG \<Rightarrow> bytes" where
  "reDKGHashPayload msg = string_bytes (rd_DKGID msg) @ string_bytes (int_digits (rd_Threshold msg)) @
     concat (map (\<lambda>p. pt_NewCommPubKey p @ pt_OldCommPubKey p @ pt_DKGPubKey p @
       string_bytes (pt_Name p)) (rd_Participants msg)) @
     concat (map (\<lambda>m. Data m @ Signature m @ string_bytes (RecipientAddr m) @
       string_bytes (msg_Event m) @ string_bytes (SenderAddr m) @ string_bytes (DkgRoundID m) @
       string_bytes (nat_digits (unat (Offset m)))) (rd_Messages msg))"

definition CalcStartReInitDKGMessageHash ::
  "(bytes \<Rightarrow> error + ReDKG) \<Rightarrow> (bytes \<Rightarrow> bytes) \<Rightarrow> bytes \<Rightarrow> error + bytes"
where
  "CalcStartReInitDKGMessageHash unmarshal sha1_Sum payload =
    (case unmarshal payload of
       Inl e \<Rightarrow> Inl (Wrapf ''failed to unmarshal payload: %w'' [] e)
     | Inr msg \<Rightarrow> Inr (sha1_Sum (reDKGHashPayload msg)))"

section \<open>Adapting an old log\<close>

text \<open>
  \<open>src/client/services/node/adapt_dkg.go\<close>: logs of an older version lack the deal a participant sends
  to itself, so one is inserted before the first deal of every sender and the messages are
  renumbered.  \<open>uuid\<close> is the identifier of the new message.
\<close>

definition self_confirm :: bytes where "self_confirm = string_bytes ''self-confirm''"

definition createMessage ::
  "req_json \<Rightarrow> (DKGProposalDealConfirmationRequest \<Rightarrow> error + bytes) \<Rightarrow> string \<Rightarrow> Message \<Rightarrow> error + Message"
where
  "createMessage J marshal uuid origMesage =
    (case FSMRequestFromMessage J origMesage of
       Inl e \<Rightarrow> Inl (Wrapf ''failed to get FSMRequestFromMessage:  %w'' [] e)
     | Inr fsmReq \<Rightarrow>
         (case as_DkgDeal fsmReq of
            None \<Rightarrow> Inl (errorsNew
              ''cannot cast message request  to type {DKGProposalDealConfirmationRequest}'')
          | Some request \<Rightarrow>
              let req = \<lparr>dlr_ParticipantId = dlr_ParticipantId request, dlr_Deal = self_confirm,
                         dlr_CreatedAt = dlr_CreatedAt request\<rparr> in
              (case marshal req of
                 Inl e \<Rightarrow> Inl (Wrapf ''failed to encode FSMRequest:  %w'' [] e)
               | Inr data \<Rightarrow> Inr \<lparr>ID = uuid, DkgRoundID = DkgRoundID origMesage, Offset = 0,
                   msg_Event = EventDKGDealConfirmationReceived, Data = data, Signature = [],
                   SenderAddr = SenderAddr origMesage, RecipientAddr = SenderAddr origMesage\<rparr>)))"

fun adaptLoop ::
  "req_json \<Rightarrow> (DKGProposalDealConfirmationRequest \<Rightarrow> error + bytes) \<Rightarrow> (nat \<Rightarrow> string) \<Rightarrow>
   (string, unit) gomap \<Rightarrow> 64 word \<Rightarrow> Message list \<Rightarrow> Message list \<Rightarrow> error + Message list"
where
  "adaptLoop J marshal uuids fixedSenders newOffset [] out = Inr out"
| "adaptLoop J marshal uuids fixedSenders newOffset (m # ms) out =
    (if \<not> has_key fixedSenders (SenderAddr m) \<and> msg_Event m = EventDKGDealConfirmationReceived
     then (case createMessage J marshal (uuids (length out)) m of
             Inl e \<Rightarrow> Inl (Wrapf ''failed to construct new message for adapted reinit DKG message:  %w'' [] e)
           | Inr workAroundMessage \<Rightarrow>
               adaptLoop J marshal uuids (AList.update (SenderAddr m) () fixedSenders) (newOffset + 2) ms
                 (out @ [workAroundMessage\<lparr>Offset := newOffset\<rparr>, m\<lparr>Offset := newOffset + 1\<rparr>]))
     else adaptLoop J marshal uuids fixedSenders (newOffset + 1) ms (out @ [m\<lparr>Offset := newOffset\<rparr>]))"

definition GetAdaptedReDKG ::
  "req_json \<Rightarrow> (DKGProposalDealConfirmationRequest \<Rightarrow> error + bytes) \<Rightarrow> (nat \<Rightarrow> string) \<Rightarrow> ReDKG \<Rightarrow>
   error + ReDKG"
where
  "GetAdaptedReDKG J marshal uuids originalDKG =
    (case adaptLoop J marshal uuids [] 0 (rd_Messages originalDKG) [] of
       Inl e \<Rightarrow> Inl e
     | Inr messages \<Rightarrow> Inr \<lparr>rd_DKGID = rd_DKGID originalDKG, rd_Threshold = rd_Threshold originalDKG,
         rd_Participants = rd_Participants originalDKG, rd_Messages = messages\<rparr>)"

end
