(* ===== verification/Computations.thy ===== *)
theory Computations
  imports Prelude
begin

text \<open>
  Methods that change a state, may fail with an error and may panic.  A method changes the state
  also when it fails, so it is a function from the state to \<open>((error + 'a) \<times> state) go\<close>.  The node
  and the airgapped machine are written with it.  A logic of partial correctness (\<open>keeps\<close>) carries
  the proofs of their invariants.
\<close>

section \<open>Computations on a state\<close>

type_synonym ('s, 'a) op = "'s \<Rightarrow> ((error + 'a) \<times> 's) go"

definition retM :: "'a \<Rightarrow> ('s, 'a) op" where
  "retM x s = Inr (Inr x, s)"

definition failM :: "error \<Rightarrow> ('s, 'a) op" where
  "failM e s = Inr (Inl e, s)"

definition bindM :: "('s, 'a) op \<Rightarrow> ('a \<Rightarrow> ('s, 'b) op) \<Rightarrow> ('s, 'b) op" where
  "bindM m k s = bindR (m s) (\<lambda>(r, s). case r of Inl e \<Rightarrow> Inr (Inl e, s) | Inr x \<Rightarrow> k x s)"

text \<open>\<open>attemptM\<close> hands the error on as a value, \<open>wrapM\<close> wraps it.\<close>

definition attemptM :: "('s, 'a) op \<Rightarrow> ('s, error + 'a) op" where
  "attemptM m s = bindR (m s) (\<lambda>(r, s). Inr (Inr r, s))"

definition wrapM :: "string \<Rightarrow> fmtarg list \<Rightarrow> ('s, 'a) op \<Rightarrow> ('s, 'a) op" where
  "wrapM msg args m s = bindR (m s) (\<lambda>(r, s). case r of
     Inl e \<Rightarrow> Inr (Inl (Wrapf msg args e), s) | Inr x \<Rightarrow> Inr (Inr x, s))"

definition liftE :: "error + 'a \<Rightarrow> ('s, 'a) op" where
  "liftE r s = Inr (r, s)"

definition liftG :: "'a go \<Rightarrow> ('s, 'a) op" where
  "liftG m s = bindR m (\<lambda>x. Inr (Inr x, s))"

definition liftGE :: "(error + 'a) go \<Rightarrow> ('s, 'a) op" where
  "liftGE m s = bindR m (\<lambda>r. Inr (r, s))"

definition readM :: "('s \<Rightarrow> 'a) \<Rightarrow> ('s, 'a) op" where
  "readM f s = Inr (Inr (f s), s)"

definition updateM :: "('s \<Rightarrow> 's) \<Rightarrow> ('s, unit) op" where
  "updateM f s = Inr (Inr (), f s)"

lemmas monad_defs = retM_def failM_def bindM_def attemptM_def wrapM_def liftE_def liftG_def liftGE_def
  readM_def updateM_def

lemma bindM_ok: "m s = Inr (Inr x, s') \<Longrightarrow> bindM m k s = k x s'"
  by (simp add: bindM_def)

lemma wrapM_ok: "m s = Inr (Inr x, s') \<Longrightarrow> wrapM msg args m s = Inr (Inr x, s')"
  by (simp add: wrapM_def)

section \<open>Keeping an invariant\<close>

text \<open>
  \<open>keeps I m A\<close>: unless it panics, \<open>m\<close> takes a state with \<open>I\<close> to a state with \<open>I\<close>, whether it fails or not,
  and a value that it returns has \<open>A\<close>.
\<close>

definition keeps :: "('s \<Rightarrow> bool) \<Rightarrow> ('s, 'a) op \<Rightarrow> ('a \<Rightarrow> bool) \<Rightarrow> bool" where
  "keeps I m A \<longleftrightarrow> (\<forall>s r s'. I s \<longrightarrow> m s = Inr (r, s') \<longrightarrow> I s' \<and> (\<forall>x. r = Inr x \<longrightarrow> A x))"

abbreviation stays :: "('s \<Rightarrow> bool) \<Rightarrow> ('s, 'a) op \<Rightarrow> bool" where
  "stays I m \<equiv> keeps I m (\<lambda>_. True)"

lemma keepsI:
  assumes "\<And>s r s'. I s \<Longrightarrow> m s = Inr (r, s') \<Longrightarrow> I s' \<and> (\<forall>x. r = Inr x \<longrightarrow> A x)"
  shows "keeps I m A"
  using assms by (simp add: keeps_def)

lemma keepsD: "keeps I m A \<Longrightarrow> I s \<Longrightarrow> m s = Inr (r, s') \<Longrightarrow> I s'"
  by (simp add: keeps_def)

lemma keepsD_value: "keeps I m A \<Longrightarrow> I s \<Longrightarrow> m s = Inr (Inr x, s') \<Longrightarrow> A x"
  by (simp add: keeps_def)

lemma keeps_stays: "keeps I m A \<Longrightarrow> stays I m"
  unfolding keeps_def by blast

lemma keeps_weaken: "keeps I m A \<Longrightarrow> (\<And>x. A x \<Longrightarrow> B x) \<Longrightarrow> keeps I m B"
  unfolding keeps_def by blast

lemma keeps_bind:
  assumes "keeps I m A" and "\<And>x. A x \<Longrightarrow> keeps I (k x) B"
  shows "keeps I (bindM m k) B"
proof (rule keepsI)
  fix s r s'
  assume s: "I s" "bindM m k s = Inr (r, s')"
  then obtain v t where m: "m s = Inr (v, t)"
    and k: "(case v of Inl e \<Rightarrow> Inr (Inl e, t) | Inr x \<Rightarrow> k x t) = Inr (r, s')"
    by (auto simp: bindM_def)
  from assms(1) s(1) m have t: "I t" "\<And>x. v = Inr x \<Longrightarrow> A x" by (simp_all add: keeps_def)
  show "I s' \<and> (\<forall>x. r = Inr x \<longrightarrow> B x)"
  proof (cases v)
    case (Inl e)
    with k t show ?thesis by auto
  next
    case (Inr x)
    with k have "k x t = Inr (r, s')" by simp
    with assms(2)[OF t(2)[OF Inr]] t(1) show ?thesis by (simp add: keeps_def)
  qed
qed

lemma stays_bind: "stays I m \<Longrightarrow> (\<And>x. keeps I (k x) B) \<Longrightarrow> keeps I (bindM m k) B"
  by (rule keeps_bind)

lemma keeps_ret: "A x \<Longrightarrow> keeps I (retM x) A"
  by (simp add: keeps_def retM_def)

lemma keeps_fail: "keeps I (failM e) A"
  by (simp add: keeps_def failM_def)

lemma keeps_wrap: "keeps I m A \<Longrightarrow> keeps I (wrapM msg args m) A"
proof (rule keepsI)
  fix s r s'
  assume k: "keeps I m A" and s: "I s" "wrapM msg args m s = Inr (r, s')"
  then obtain v t where m: "m s = Inr (v, t)" by (auto simp: wrapM_def)
  from k s(1) m have "I t" "\<And>x. v = Inr x \<Longrightarrow> A x" by (simp_all add: keeps_def)
  with s(2) m show "I s' \<and> (\<forall>x. r = Inr x \<longrightarrow> A x)" by (cases v) (auto simp: wrapM_def)
qed

lemma keeps_attempt: "keeps I m A \<Longrightarrow> keeps I (attemptM m) (\<lambda>r. \<forall>x. r = Inr x \<longrightarrow> A x)"
  unfolding keeps_def attemptM_def by auto

lemma stays_attempt: "stays I m \<Longrightarrow> stays I (attemptM m)"
  unfolding keeps_def attemptM_def by auto

lemma keeps_liftE: "(\<And>x. r = Inr x \<Longrightarrow> A x) \<Longrightarrow> keeps I (liftE r) A"
  by (simp add: keeps_def liftE_def)

lemma keeps_liftG: "(\<And>x. m = Inr x \<Longrightarrow> A x) \<Longrightarrow> keeps I (liftG m) A"
  by (auto simp: keeps_def liftG_def)

lemma keeps_liftGE: "(\<And>x. m = Inr (Inr x) \<Longrightarrow> A x) \<Longrightarrow> keeps I (liftGE m) A"
  by (auto simp: keeps_def liftGE_def)

lemma stays_read: "stays I (readM f)"
  by (simp add: keeps_def readM_def)

lemma stays_update: "(\<And>s. I s \<Longrightarrow> I (f s)) \<Longrightarrow> stays I (updateM f)"
  by (simp add: keeps_def updateM_def)

lemma keeps_cases:
  "(b \<Longrightarrow> keeps I m A) \<Longrightarrow> (\<not> b \<Longrightarrow> keeps I m' A) \<Longrightarrow> keeps I (if b then m else m') A"
  "(x = None \<Longrightarrow> keeps I m A) \<Longrightarrow> (\<And>y. x = Some y \<Longrightarrow> keeps I (k y) A) \<Longrightarrow>
     keeps I (case x of None \<Rightarrow> m | Some y \<Rightarrow> k y) A"
  "(\<And>e. r = Inl e \<Longrightarrow> keeps I (h e) A) \<Longrightarrow> (\<And>y. r = Inr y \<Longrightarrow> keeps I (k' y) A) \<Longrightarrow>
     keeps I (case r of Inl e \<Rightarrow> h e | Inr y \<Rightarrow> k' y) A"
  by (simp_all split: option.split sum.split)

lemmas stays_rules = stays_bind keeps_ret keeps_fail keeps_wrap stays_attempt keeps_liftE keeps_liftG
  keeps_liftGE stays_read keeps_cases

section \<open>Loops\<close>

definition wrapE :: "string \<Rightarrow> fmtarg list \<Rightarrow> error + 'a \<Rightarrow> error + 'a" where
  "wrapE msg args r = (case r of Inl e \<Rightarrow> Inl (Wrapf msg args e) | Inr x \<Rightarrow> Inr x)"

lemma wrapE_eq_Inr [simp]: "wrapE msg args r = Inr x \<longleftrightarrow> r = Inr x"
  by (cases r) (simp_all add: wrapE_def)

fun mapE :: "('a \<Rightarrow> 'e + 'b) \<Rightarrow> 'a list \<Rightarrow> 'e + 'b list" where
  "mapE f [] = Inr []"
| "mapE f (x # xs) = bindR (f x) (\<lambda>y. bindR (mapE f xs) (\<lambda>ys. Inr (y # ys)))"

lemma mapE_inverse:
  assumes "\<And>x y. x \<in> set xs \<Longrightarrow> f x = Inr y \<Longrightarrow> g y = Inr x" and "mapE f xs = Inr ys"
  shows "mapE g ys = Inr xs"
  using assms by (induction xs arbitrary: ys) auto

lemma mapE_list_all2: "mapE f xs = Inr ys \<longleftrightarrow> list_all2 (\<lambda>x y. f x = Inr y) xs ys"
  by (induction xs arbitrary: ys) (auto simp: list_all2_Cons1)

fun forM :: "('x \<Rightarrow> ('s, unit) op) \<Rightarrow> 'x list \<Rightarrow> ('s, unit) op" where
  "forM f [] = retM ()"
| "forM f (x # xs) = bindM (f x) (\<lambda>_. forM f xs)"

lemma stays_forM: "(\<And>x. x \<in> set xs \<Longrightarrow> stays I (f x)) \<Longrightarrow> stays I (forM f xs)"
  by (induction xs) (auto intro: keeps_ret stays_bind)

lemma bindM_assoc: "bindM (bindM m k) h = bindM m (\<lambda>x. bindM (k x) h)"
  by (rule ext) (auto simp: bindM_def bindR_def split: sum.splits)

text \<open>A successful computation, taken apart.\<close>

lemma bindM_eq_Inr:
  "bindM m k s = Inr (Inr y, s') \<longleftrightarrow> (\<exists>x t. m s = Inr (Inr x, t) \<and> k x t = Inr (Inr y, s'))"
  by (auto simp: bindM_def bindR_def split: sum.splits prod.splits)

lemma wrapM_eq_Inr: "wrapM msg args m s = Inr (Inr y, s') \<longleftrightarrow> m s = Inr (Inr y, s')"
  by (auto simp: wrapM_def bindR_def split: sum.splits prod.splits)

lemma lift_eq_Inr:
  "liftE r s = Inr (Inr y, s') \<longleftrightarrow> r = Inr y \<and> s' = s"
  "liftG g s = Inr (Inr z, s') \<longleftrightarrow> g = Inr z \<and> s' = s"
  "liftGE h s = Inr (Inr w, s') \<longleftrightarrow> h = Inr (Inr w) \<and> s' = s"
  "retM x s = Inr (Inr v, s') \<longleftrightarrow> v = x \<and> s' = s"
  "readM f s = Inr (Inr u, s') \<longleftrightarrow> u = f s \<and> s' = s"
  "updateM k s = Inr (Inr unit, s') \<longleftrightarrow> s' = k s"
  "failM e s \<noteq> Inr (Inr q, s')"
  by (auto simp: monad_defs)

lemmas success_simps = bindM_eq_Inr wrapM_eq_Inr lift_eq_Inr

end
