(* ===== verification/Node_State.thy ===== *)
theory Node_State
  imports Fsm_Service Signature_Repo Node_Types Computations
begin

text \<open>
  The state of the hot node (\<open>BaseNodeService\<close> in \<open>src/client/services/node/node_service.go\<close> with the
  services it holds, \<open>src/client/services/provider.go\<close>), and the vocabulary of its methods.

  All services of a node share one database, so the node's state has one \<open>LevelDBState\<close> and the keys
  under which the services keep their maps.  A method may fail, may panic and changes the state
  also when it fails: it is a function from the state to \<open>((error + 'a) \<times> state) go\<close>.

  What lies outside is collected in \<open>node_env\<close>: LevelDB, the message storage behind the interface
  \<open>storage.Storage\<close>, JSON, the key store, hash functions, the \<open>ed25519\<close> and threshold signature
  packages, the compiled-in validators, the clock and the source of identifiers.  The latter two are
  read at successive instants, counted in the state.
\<close>

section \<open>The environment\<close>

text \<open>
  The interface \<open>storage.Storage\<close>.  \<open>Send\<close> also returns the slice of messages as the storage leaves it:
  the file storage writes identifiers and offsets into it.
\<close>

record 'st storage =
  stg_Send :: "Message list \<Rightarrow> 'st \<Rightarrow> (Message list \<times> error option) \<times> 'st"
  stg_GetMessages :: "64 word \<Rightarrow> 'st \<Rightarrow> (error + Message list) \<times> 'st"

definition file_storage ::
  "msg_json \<Rightarrow> (Message \<Rightarrow> FileStorage \<Rightarrow> send_env) \<Rightarrow> FileStorage storage"
where
  "file_storage J env =
    \<lparr>stg_Send = (\<lambda>messages fs. Send J (map (\<lambda>m. (env m fs, m)) messages) fs),
     stg_GetMessages = (\<lambda>offset fs. (GetMessages J None fs offset, fs))\<rparr>"

record ('db, 'st) node_env =
  ne_leveldb :: "'db leveldb"
  ne_storage :: "'st storage"
  ne_fsms :: fsms_json
  ne_ops :: ops_json
  ne_sigs :: sigs_json
  ne_reqs :: req_json
  ne_ReDKG :: "bytes \<Rightarrow> error + ReDKG"
  ne_signatures :: "bytes \<Rightarrow> error + ReconstructedSignature list"
  ne_invitations :: "bytes \<Rightarrow> error + SignatureProposalParticipantInvitationEntry option list"
  ne_Marshal_response :: "response \<Rightarrow> error + bytes"
  ne_Marshal_signatures :: "ReconstructedSignature list \<Rightarrow> error + bytes"
  ne_Marshal_operations :: "Operation list \<Rightarrow> error + bytes"
  ne_Marshal_batch :: "SigningBatchProposalStartRequest \<Rightarrow> error + bytes"
  ne_Marshal_participant :: "SignatureProposalParticipantRequest \<Rightarrow> error + bytes"
  ne_LoadKeys :: "string \<Rightarrow> error + bytes \<times> bytes"
  ne_Sign :: "bytes \<Rightarrow> bytes \<Rightarrow> bytes"
  ne_Verify :: "bytes \<Rightarrow> bytes \<Rightarrow> bytes \<Rightarrow> bool"
  ne_LoadPubPoly :: "bytes \<Rightarrow> error option"
  ne_tblsRecover :: "bytes \<Rightarrow> bytes \<Rightarrow> bytes list \<Rightarrow> int \<Rightarrow> int \<Rightarrow> error + bytes"
  ne_md5 :: "bytes \<Rightarrow> bytes"
  ne_sha1 :: "bytes \<Rightarrow> bytes"
  ne_sha256 :: "bytes \<Rightarrow> bytes"
  ne_baked :: baked_data
  ne_now :: "nat \<Rightarrow> time"
  ne_uuid :: "nat \<Rightarrow> string"
  ne_letters :: "nat \<Rightarrow> error + string"

text \<open>\<open>ed25519.Verify\<close> and \<open>ed25519.Sign\<close> panic on keys that do not have 32 and 64 bytes.\<close>

definition ed25519_Verify :: "('db, 'st) node_env \<Rightarrow> bytes \<Rightarrow> bytes \<Rightarrow> bytes \<Rightarrow> bool go" where
  "ed25519_Verify env publicKey message sig =
    (if length publicKey \<noteq> 32
     then Inl (PanicMsg ''ed25519: bad public key length: %d'' [AInt (int (length publicKey))])
     else Inr (ne_Verify env publicKey message sig))"

definition ed25519_Sign :: "('db, 'st) node_env \<Rightarrow> bytes \<Rightarrow> bytes \<Rightarrow> bytes go" where
  "ed25519_Sign env privateKey message =
    (if length privateKey \<noteq> 64
     then Inl (PanicMsg ''ed25519: bad private key length: %d'' [AInt (int (length privateKey))])
     else Inr (ne_Sign env privateKey message))"

section \<open>The state of a node\<close>

record ('db, 'st) node =
  nd_userName :: string
  nd_pubKey :: bytes
  nd_state :: "'db LevelDBState"
  nd_storage :: 'st
  nd_stateKey :: string
  nd_operationsKey :: string
  nd_deletedKey :: string
  nd_skip :: bool
  nd_clock :: nat

type_synonym ('db, 'st, 'a) node_op = "(('db, 'st) node, 'a) op"

definition time_Now :: "('db, 'st) node_env \<Rightarrow> ('db, 'st, time) node_op" where
  "time_Now env n = Inr (Inr (ne_now env (nd_clock n)), n\<lparr>nd_clock := Suc (nd_clock n)\<rparr>)"

definition uuid_New :: "('db, 'st) node_env \<Rightarrow> ('db, 'st, string) node_op" where
  "uuid_New env n = Inr (Inr (ne_uuid env (nd_clock n)), n\<lparr>nd_clock := Suc (nd_clock n)\<rparr>)"

subsection \<open>The services of a node\<close>

definition fsmService :: "('db, 'st) node \<Rightarrow> 'db FSMService" where
  "fsmService n = \<lparr>fs_state = nd_state n, fs_stateKey = nd_stateKey n\<rparr>"

definition opRepo :: "('db, 'st) node \<Rightarrow> 'db BaseOperationRepo" where
  "opRepo n = \<lparr>repo_state = nd_state n, operationsCompositeKey = nd_operationsKey n,
     deleteOperationsCompositeKey = nd_deletedKey n\<rparr>"

definition node_GetFSMInstance ::
  "('db, 'st) node_env \<Rightarrow> string \<Rightarrow> bool \<Rightarrow> ('db, 'st, FSMInstance) node_op"
where
  "node_GetFSMInstance env d create n =
    bindR (GetFSMInstance (ne_leveldb env) (ne_fsms env) d create (fsmService n)) (\<lambda>(r, f).
      Inr (r, n\<lparr>nd_state := fs_state f\<rparr>))"

definition node_SaveFSM ::
  "('db, 'st) node_env \<Rightarrow> string \<Rightarrow> dump_data \<Rightarrow> ('db, 'st, unit) node_op"
where
  "node_SaveFSM env d dump n =
    bindR (SaveFSM (ne_leveldb env) (ne_fsms env) d dump (fsmService n)) (\<lambda>(err, f).
      Inr (case err of Some e \<Rightarrow> Inl e | None \<Rightarrow> Inr (), n\<lparr>nd_state := fs_state f\<rparr>))"

definition node_IsExist :: "('db, 'st) node_env \<Rightarrow> string \<Rightarrow> ('db, 'st, bool) node_op" where
  "node_IsExist env d n = Inr (IsExist (ne_leveldb env) (ne_fsms env) d (fsmService n), n)"

definition node_PutOperation :: "('db, 'st) node_env \<Rightarrow> Operation \<Rightarrow> ('db, 'st, unit) node_op" where
  "node_PutOperation env op n =
    (case Service_PutOperation (ne_leveldb env) (ne_ops env) op (opRepo n) of (err, r) \<Rightarrow>
      Inr (case err of Some e \<Rightarrow> Inl e | None \<Rightarrow> Inr (), n\<lparr>nd_state := repo_state r\<rparr>))"

definition node_DeleteOperation :: "('db, 'st) node_env \<Rightarrow> Operation \<Rightarrow> ('db, 'st, unit) node_op" where
  "node_DeleteOperation env op n =
    (case Service_DeleteOperation (ne_leveldb env) (ne_ops env) op (opRepo n) of (err, r) \<Rightarrow>
      Inr (case err of Some e \<Rightarrow> Inl e | None \<Rightarrow> Inr (), n\<lparr>nd_state := repo_state r\<rparr>))"

definition node_GetOperations :: "('db, 'st) node_env \<Rightarrow> ('db, 'st, operations) node_op" where
  "node_GetOperations env n = Inr (Service_GetOperations (ne_leveldb env) (ne_ops env) (opRepo n), n)"

definition node_GetOperationByID :: "('db, 'st) node_env \<Rightarrow> string \<Rightarrow> ('db, 'st, Operation) node_op" where
  "node_GetOperationByID env i n =
    Inr (Service_GetOperationByID (ne_leveldb env) (ne_ops env) (opRepo n) i, n)"

definition node_SaveSignatures ::
  "('db, 'st) node_env \<Rightarrow> ReconstructedSignature list \<Rightarrow> ('db, 'st, unit) node_op"
where
  "node_SaveSignatures env signatures n =
    bindR (SaveSignatures (ne_leveldb env) (ne_sigs env) signatures (nd_state n)) (\<lambda>(err, s).
      Inr (case err of Some e \<Rightarrow> Inl e | None \<Rightarrow> Inr (), n\<lparr>nd_state := s\<rparr>))"

definition node_Send :: "('db, 'st) node_env \<Rightarrow> Message list \<Rightarrow> ('db, 'st, Message list) node_op" where
  "node_Send env messages n =
    (case stg_Send (ne_storage env) messages (nd_storage n) of ((sent, err), st) \<Rightarrow>
      Inr (case err of Some e \<Rightarrow> Inl e | None \<Rightarrow> Inr sent, n\<lparr>nd_storage := st\<rparr>))"

end
