(* ===== verification/Node.thy ===== *)
theory Node
  imports Node_State
begin

text \<open>
  The methods of the hot node (\<open>src/client/services/node/node_service.go\<close>), in the order of the
  source: polling the log, executing operations that come back from the airgapped machine,
  proposing, reinitializing, and above all \<open>processMessage\<close>, which feeds a message to its round.
  Log output is left out.
\<close>

section \<open>Messages\<close>

definition signMessage :: "('db, 'st) node_env \<Rightarrow> bytes \<Rightarrow> ('db, 'st, bytes) node_op" where
  "signMessage env message =
    bindM (readM nd_userName) (\<lambda>userName.
    bindM (wrapM ''failed to LoadKeys: %w'' [] (liftE (ne_LoadKeys env userName))) (\<lambda>keyPair.
    liftG (ed25519_Sign env (snd keyPair) message)))"

definition verifyMessage ::
  "('db, 'st) node_env \<Rightarrow> FSMInstance \<Rightarrow> Message \<Rightarrow> ('db, 'st, unit) node_op"
where
  "verifyMessage env fsmInstance message =
    bindM (readM nd_skip) (\<lambda>skip.
    if skip then retM ()
    else bindM (wrapM ''failed to GetPubKeyByUsername: %w'' []
        (liftE (FSMInstance_GetPubKeyByUsername fsmInstance (SenderAddr message)))) (\<lambda>senderPubKey.
      bindM (liftG (ed25519_Verify env senderPubKey (Message_Bytes message) (Signature message))) (\<lambda>ok.
      if \<not> ok then failM (errorsNew ''signature is corrupt'') else retM ())))"

definition buildMessage ::
  "('db, 'st) node_env \<Rightarrow> string \<Rightarrow> Event \<Rightarrow> bytes \<Rightarrow> ('db, 'st, Message) node_op"
where
  "buildMessage env dkgRoundID event data =
    bindM (uuid_New env) (\<lambda>uuid.
    bindM (readM nd_userName) (\<lambda>userName.
    let message = \<lparr>ID = uuid, DkgRoundID = dkgRoundID, Offset = 0, msg_Event = event, Data = data,
                   Signature = [], SenderAddr = userName, RecipientAddr = ''''\<rparr>
    in bindM (wrapM ''failed to sign message: %w'' [] (signMessage env (Message_Bytes message))) (\<lambda>sig.
       retM (message\<lparr>Signature := sig\<rparr>))))"

definition SendMessage :: "('db, 'st) node_env \<Rightarrow> Message \<Rightarrow> ('db, 'st, unit) node_op" where
  "SendMessage env dto =
    bindM (wrapM ''failed to post message: %w'' [] (node_Send env
      [\<lparr>ID = ID dto, DkgRoundID = DkgRoundID dto, Offset = Offset dto, msg_Event = msg_Event dto,
        Data = Data dto, Signature = Signature dto, SenderAddr = SenderAddr dto,
        RecipientAddr = RecipientAddr dto\<rparr>])) (\<lambda>_. retM ())"

section \<open>Operations\<close>

definition getOperation :: "('db, 'st) node_env \<Rightarrow> string \<Rightarrow> ('db, 'st, Operation) node_op" where
  "getOperation env operationID =
    bindM (wrapM ''failed to get operations: %w'' [] (node_GetOperations env)) (\<lambda>operations.
    case map_of operations operationID of
      None \<Rightarrow> failM (errorsNew ''failed to get operation'')
    | Some operation \<Rightarrow> retM operation)"

text \<open>The loop that signs the result messages with the node's own key.\<close>

fun signResults :: "('db, 'st) node_env \<Rightarrow> Message list \<Rightarrow> ('db, 'st, Message list) node_op" where
  "signResults env [] = retM []"
| "signResults env (message # messages) =
    bindM (readM nd_userName) (\<lambda>userName.
    let message = message\<lparr>SenderAddr := userName\<rparr> in
    bindM (wrapM ''failed to sign a message: %w'' [] (signMessage env (Message_Bytes message))) (\<lambda>sig.
    bindM (signResults env messages) (\<lambda>rest.
    retM (message\<lparr>Signature := sig\<rparr> # rest))))"

text \<open>The branch for an operation without result messages: the public polynomial goes into the dump.\<close>

definition storePubPoly :: "('db, 'st) node_env \<Rightarrow> Operation \<Rightarrow> ('db, 'st, unit) node_op" where
  "storePubPoly env operation =
    bindM (wrapM ''failed to get fsm instance during operation processing: %w'' []
      (node_GetFSMInstance env (op_DKGIdentifier operation) False)) (\<lambda>fsm.
    bindM (liftG (deref (fi_dump fsm))) (\<lambda>dump.
    bindM (liftG (deref (DKGProposalPayload (dump_Payload dump)))) (\<lambda>c.
    let fsm = fsm\<lparr>fi_dump := Some (dump\<lparr>dump_Payload := (dump_Payload dump)
          \<lparr>DKGProposalPayload := Some (c\<lparr>dc_PubPolyBz := op_ExtraData operation\<rparr>)\<rparr>\<rparr>)\<rparr>
    in bindM (wrapM ''failed to dump fsm instance during operation processing: %w'' []
         (liftE (FSMInstance_Dump fsm))) (\<lambda>dump.
       wrapM ''failed to save fsm dump during operation processing: %w'' []
         (node_SaveFSM env (op_DKGIdentifier operation) dump)))))"

definition executeOperation :: "('db, 'st) node_env \<Rightarrow> Operation \<Rightarrow> ('db, 'st, unit) node_op" where
  "executeOperation env operation =
    (if Event_IsEmpty (op_Event operation)
     then failM (errorsNew ''operation is request operation, provide result operation instead'')
     else bindM (wrapM ''failed to find matching operation: %w'' []
         (node_GetOperationByID env (op_ID operation))) (\<lambda>storedOperation.
       bindM (wrapM ''processed operation does not match stored operation: %w'' []
         (liftE (case Operation_Equal storedOperation operation of Some e \<Rightarrow> Inl e | None \<Rightarrow> Inr ()))) (\<lambda>_.
       bindM (if op_Event operation \<noteq> OperationProcessed
              then bindM (signResults env (op_ResultMsgs operation)) (\<lambda>messages.
                bindM (wrapM ''failed to post messages: %w'' [] (node_Send env messages)) (\<lambda>sent.
                retM (operation\<lparr>op_ResultMsgs := sent\<rparr>)))
              else bindM (storePubPoly env operation) (\<lambda>_. retM operation)) (\<lambda>operation.
       wrapM ''failed to DeleteOperation: %w'' [] (node_DeleteOperation env operation)))))"

text \<open>The request carries the fields of an operation.\<close>

definition ProcessOperation :: "('db, 'st) node_env \<Rightarrow> Operation \<Rightarrow> ('db, 'st, unit) node_op" where
  "ProcessOperation env dto = executeOperation env
     \<lparr>op_ID = op_ID dto, op_Type = op_Type dto, op_Payload = op_Payload dto,
      op_ResultMsgs = op_ResultMsgs dto, op_CreatedAt = op_CreatedAt dto,
      op_DKGIdentifier = op_DKGIdentifier dto, op_To = op_To dto, op_Event = op_Event dto,
      op_ExtraData = op_ExtraData dto\<rparr>"

section \<open>Proposals\<close>

definition StartDKG :: "('db, 'st) node_env \<Rightarrow> bytes \<Rightarrow> ('db, 'st, unit) node_op" where
  "StartDKG env payload =
    bindM (buildMessage env (hex_EncodeToString (ne_sha256 env payload)) EventInitProposal payload) (\<lambda>message.
    bindM (node_Send env [message]) (\<lambda>_. retM ()))"

definition createSignID :: "('db, 'st) node_env \<Rightarrow> string \<Rightarrow> ('db, 'st, string) node_op" where
  "createSignID env rawID n =
    (case ne_letters env (nd_clock n) of
       Inl e \<Rightarrow> Inr (Inl (Wrapf ''failed to get rand int: %w'' [] e), n\<lparr>nd_clock := Suc (nd_clock n)\<rparr>)
     | Inr tail \<Rightarrow> Inr (Inr (map (\<lambda>c. if c = CHR '' '' then CHR ''-'' else c) rawID @ ''_'' @ tail),
         n\<lparr>nd_clock := Suc (nd_clock n)\<rparr>))"

fun dataTasks ::
  "('db, 'st) node_env \<Rightarrow> (string, bytes option) gomap \<Rightarrow> SigningTask list \<Rightarrow>
   ('db, 'st, SigningTask list) node_op"
where
  "dataTasks env [] messagesToSign = retM messagesToSign"
| "dataTasks env ((file, msg) # rest) messagesToSign =
    bindM (attemptM (createSignID env file)) (\<lambda>r. case r of
      Inl e \<Rightarrow> failM (Errorf ''failed to create SignID for file %s'' [AStr file])
    | Inr signID \<Rightarrow> dataTasks env rest (messagesToSign @
        [\<lparr>st_MessageID = signID, st_File = file, st_Payload = msg, st_RangeStart = 0,
          st_RangeEnd = 0\<rparr>]))"

text \<open>The request: the round, the files by name or \<open>nil\<close>, a range or \<open>nil\<close>.\<close>

record propose_dto =
  pd_DkgID :: bytes
  pd_Data :: "(string, bytes option) gomap option"
  pd_Range :: "(int \<times> int) option"

definition extractTasksFromDTO ::
  "('db, 'st) node_env \<Rightarrow> propose_dto \<Rightarrow> ('db, 'st, SigningTask list) node_op"
where
  "extractTasksFromDTO env dtoMsg =
    (case pd_Data dtoMsg of
       Some data \<Rightarrow> dataTasks env data []
     | None \<Rightarrow>
         (case pd_Range dtoMsg of
            Some (start, end_) \<Rightarrow> bindM (uuid_New env) (\<lambda>uuid.
              retM [\<lparr>st_MessageID = uuid, st_File = '''', st_Payload = None, st_RangeStart = start,
                     st_RangeEnd = end_\<rparr>])
          | None \<Rightarrow> failM (errorsNew ''neither data tosign nor range were provided'')))"

definition ProposeSignMessages ::
  "('db, 'st) node_env \<Rightarrow> propose_dto \<Rightarrow> ('db, 'st, unit) node_op"
where
  "ProposeSignMessages env dtoMsg =
    bindM (wrapM ''failed to extract messages from DTO: %w'' [] (extractTasksFromDTO env dtoMsg)) (\<lambda>signingTasks.
    let encodedDkgID = hex_EncodeToString (pd_DkgID dtoMsg) in
    bindM (wrapM ''failed to get FSM instance: %w'' [] (node_GetFSMInstance env encodedDkgID False)) (\<lambda>fsmInstance.
    bindM (wrapM ''failed to determine FSM instance state: %w'' [] (liftE (FSMInstance_State fsmInstance))) (\<lambda>fsmState.
    if fsmState \<noteq> StateSigningIdle
    then failM (Errorf ''required FSM state is %s, but have %s'' [AStr StateSigningIdle, AStr fsmState])
    else bindM (readM nd_userName) (\<lambda>userName.
      bindM (wrapM ''failed to get participantID: %w'' []
        (liftE (FSMInstance_GetIDByUsername fsmInstance userName))) (\<lambda>participantID.
      bindM (uuid_New env) (\<lambda>uuid.
      bindM (time_Now env) (\<lambda>now.
      bindM (wrapM ''failed to marshal SigningBatchProposalStartRequest: %w'' []
        (liftE (ne_Marshal_batch env \<lparr>bs_BatchID = uuid, bs_ParticipantId = participantID,
          bs_CreatedAt = now, bs_SigningTasks = signingTasks\<rparr>))) (\<lambda>batchBz.
      bindM (wrapM ''failed to build message: %w'' []
        (buildMessage env encodedDkgID EventSigningStart batchBz)) (\<lambda>message.
      bindM (wrapM ''failed to send message: %w'' [] (node_Send env [message])) (\<lambda>_. retM ())))))))))) "

definition emptyParticipantId :: int where "emptyParticipantId = -1"

text \<open>The number of the first invited participant that has the node's own key.\<close>

fun findOwnId ::
  "bytes \<Rightarrow> SignatureProposalParticipantInvitationEntry option list \<Rightarrow> int go"
where
  "findOwnId pubKey [] = Inr emptyParticipantId"
| "findOwnId pubKey (x # xs) = bindR (deref x) (\<lambda>p.
     if pubKey = ie_PubKey p then Inr (ie_ParticipantId p) else findOwnId pubKey xs)"

definition ApproveParticipation :: "('db, 'st) node_env \<Rightarrow> string \<Rightarrow> ('db, 'st, unit) node_op" where
  "ApproveParticipation env operationID =
    bindM (getOperation env operationID) (\<lambda>operation.
    if op_Type operation \<noteq> StateAwaitParticipantsConfirmations
    then failM (Errorf ''cannot approve participation with operationID %s'' [AStr operationID])
    else bindM (wrapM ''failed to unmarshal payload: %w'' []
        (liftE (ne_invitations env (op_Payload operation)))) (\<lambda>payload.
      bindM (readM nd_pubKey) (\<lambda>pubKey.
      bindM (liftG (findOwnId pubKey payload)) (\<lambda>pid.
      if pid = emptyParticipantId then failM (errorsNew ''failed to determine participant id'')
      else bindM (wrapM ''failed to generate FSM request: %w'' []
          (liftE (ne_Marshal_participant env
            \<lparr>pr_ParticipantId = pid, pr_CreatedAt = op_CreatedAt operation\<rparr>))) (\<lambda>reqBz.
        executeOperation env (operation
          \<lparr>op_Event := EventConfirmSignatureProposal,
           op_ResultMsgs := op_ResultMsgs operation @
             [\<lparr>ID = '''', DkgRoundID = op_DKGIdentifier operation, Offset = 0,
               msg_Event = EventConfirmSignatureProposal, Data = reqBz, Signature = [],
               SenderAddr = '''', RecipientAddr = op_To operation\<rparr>]\<rparr>))))))"

definition ReInitDKG :: "('db, 'st) node_env \<Rightarrow> string \<Rightarrow> bytes \<Rightarrow> ('db, 'st, unit) node_op" where
  "ReInitDKG env i payload =
    bindM (wrapM ''failed to build message:  %w'' [] (buildMessage env i ReinitDKG payload)) (\<lambda>message.
    bindM (wrapM ''failed to send message:  %w'' [] (node_Send env [message])) (\<lambda>_. retM ()))"

definition SaveOffset :: "('db, 'st) node_env \<Rightarrow> 64 word \<Rightarrow> ('db, 'st, unit) node_op" where
  "SaveOffset env offset n =
    (case LevelDBState_SaveOffset (ne_leveldb env) offset (nd_state n) of (err, s) \<Rightarrow>
       Inr (case err of Some e \<Rightarrow> Inl (Wrapf ''failed to save offset:  %w'' [] e) | None \<Rightarrow> Inr (),
         n\<lparr>nd_state := s\<rparr>))"

definition GetStateOffset :: "('db, 'st) node_env \<Rightarrow> ('db, 'st, 64 word) node_op" where
  "GetStateOffset env n =
    bindR (LevelDBState_LoadOffset (ne_leveldb env) (nd_state n)) (\<lambda>r. Inr (r, n))"

section \<open>Signatures\<close>

definition processSignature :: "('db, 'st) node_env \<Rightarrow> Message \<Rightarrow> ('db, 'st, unit) node_op" where
  "processSignature env message =
    bindM (wrapM ''failed to unmarshal reconstructed signature: %w'' []
      (liftE (ne_signatures env (Data message)))) (\<lambda>signatures.
    node_SaveSignatures env (map (\<lambda>s. s\<lparr>rs_Username := SenderAddr message,
      rs_DKGRoundID := DkgRoundID message\<rparr>) signatures))"

text \<open>The validator index of a baked message is its identifier read as a number.\<close>

definition withValIdx :: "MessageToSign \<Rightarrow> ReconstructedSignature \<Rightarrow> error + ReconstructedSignature" where
  "withValIdx m sig =
    (if mts_BakedDataPayload m
     then (case ParseInt (mts_MessageID m) of
             Inl e \<Rightarrow> Inl (Wrapf ''failed to parse int from str(%s): %w'' [AStr (mts_MessageID m)] e)
           | Inr valIdx \<Rightarrow> Inr (sig\<lparr>rs_ValIdx := valIdx\<rparr>))
     else Inr sig)"

fun proposalSignatures ::
  "Message \<Rightarrow> string \<Rightarrow> MessageToSign list \<Rightarrow> ReconstructedSignature list \<Rightarrow>
   error + ReconstructedSignature list"
where
  "proposalSignatures message batchID [] signatures = Inr signatures"
| "proposalSignatures message batchID (m # ms) signatures =
    (case withValIdx m \<lparr>rs_File = mts_File m, rs_BatchID = batchID, rs_MessageID = mts_MessageID m,
         rs_SrcPayload = mts_Payload m, rs_Signature = [], rs_Username = SenderAddr message,
         rs_DKGRoundID = DkgRoundID message, rs_ValIdx = 0\<rparr> of
       Inl e \<Rightarrow> Inl e
     | Inr sig \<Rightarrow> proposalSignatures message batchID ms (signatures @ [sig]))"

definition processSignatureProposal :: "('db, 'st) node_env \<Rightarrow> Message \<Rightarrow> ('db, 'st, unit) node_op" where
  "processSignatureProposal env message =
    bindM (wrapM ''failed to unmarshal reconstructed signature: %w'' []
      (liftE (rq_SigningStart (ne_reqs env) (Data message)))) (\<lambda>proposal.
    bindM (wrapM ''failed to extract messages from tasks: %w'' []
      (liftGE (TasksToMessages (ne_baked env) (bs_SigningTasks proposal)))) (\<lambda>messagesToSign.
    bindM (liftE (proposalSignatures message (bs_BatchID proposal) messagesToSign [])) (\<lambda>signatures.
    wrapM ''failed to save signature: %w'' [] (node_SaveSignatures env signatures))))"

definition broadcastReconstructedSignatures ::
  "('db, 'st) node_env \<Rightarrow> Message \<Rightarrow> ReconstructedSignature list \<Rightarrow> ('db, 'st, unit) node_op"
where
  "broadcastReconstructedSignatures env message sigs =
    bindM (wrapM ''failed to marshal reconstructed signatures: %w'' []
      (liftE (ne_Marshal_signatures env sigs))) (\<lambda>data.
    bindM (wrapM ''failed to build reconstructed signatures message: %w'' []
      (buildMessage env (DkgRoundID message) SignatureReconstructed data)) (\<lambda>m.
    bindM (wrapM ''failed to send reconstructed signatures message: %w'' [] (node_Send env [m])) (\<lambda>_.
    retM ())))"

definition recoverFullSign ::
  "('db, 'st) node_env \<Rightarrow> FSMInstance \<Rightarrow> bytes \<Rightarrow> bytes list \<Rightarrow> int \<Rightarrow> int \<Rightarrow> (error + bytes) go"
where
  "recoverFullSign env signingFSM msg sigShares t n =
    bindR (deref (fi_dump signingFSM)) (\<lambda>dump.
    bindR (deref (DKGProposalPayload (dump_Payload dump))) (\<lambda>c.
    Inr (case ne_LoadPubPoly env (dc_PubPolyBz c) of
           Some e \<Rightarrow> Inl (errorsNew ''failed to unmarshal BLSKeyring's PubPoly'')
         | None \<Rightarrow> ne_tblsRecover env (dc_PubPolyBz c) msg sigShares t n)))"

definition collectPartialSignatures :: "SigningProcessParticipantEntry list \<Rightarrow> BatchPartialSignatures" where
  "collectPartialSignatures participants = fold (\<lambda>participant b.
     fold (\<lambda>(messageID, sign). AddPartialSignature messageID sign) (pse_PartialSigns participant) b)
     participants []"

definition messagesById :: "MessageToSign list \<Rightarrow> (string, MessageToSign) gomap" where
  "messagesById ms = fold (\<lambda>m. AList.update (mts_MessageID m) m) ms []"

definition message_of :: "(string, MessageToSign) gomap \<Rightarrow> string \<Rightarrow> MessageToSign" where
  "message_of messages messageID = (case map_of messages messageID of Some m \<Rightarrow> m
     | None \<Rightarrow> \<lparr>mts_MessageID = '''', mts_File = '''', mts_Payload = [], mts_BakedDataPayload = False\<rparr>)"

fun reconstructLoop ::
  "('db, 'st) node_env \<Rightarrow> FSMInstance \<Rightarrow> FSMDump \<Rightarrow> string \<Rightarrow> (string, MessageToSign) gomap \<Rightarrow>
   BatchPartialSignatures \<Rightarrow> ReconstructedSignature list \<Rightarrow> (error + ReconstructedSignature list) go"
where
  "reconstructLoop env signingFSM dump batchID messages [] response = Inr (Inr response)"
| "reconstructLoop env signingFSM dump batchID messages ((messageID, shares) # rest) response =
    bindR (recoverFullSign env signingFSM (mts_Payload (message_of messages messageID)) shares
        (Threshold (dump_Payload dump)) (int (length (entries (PubKeys (dump_Payload dump)))))) (\<lambda>r. case r of
      Inl e \<Rightarrow> Inr (Inl (Wrapf ''failed to reconstruct full signature for msg %s: %w'' [AStr messageID] e))
    | Inr reconstructedSignature \<Rightarrow>
        (case withValIdx (message_of messages messageID)
            \<lparr>rs_File = mts_File (message_of messages messageID), rs_BatchID = batchID,
             rs_MessageID = messageID, rs_SrcPayload = mts_Payload (message_of messages messageID),
             rs_Signature = reconstructedSignature, rs_Username = '''',
             rs_DKGRoundID = DkgId (dump_Payload dump), rs_ValIdx = 0\<rparr> of
           Inl e \<Rightarrow> Inr (Inl e)
         | Inr sig \<Rightarrow> reconstructLoop env signingFSM dump batchID messages rest (response @ [sig])))"

text \<open>The tasks in \<open>SrcPayload\<close> are kept decoded, so the step that decodes them cannot fail.\<close>

definition reconstructThresholdSignature ::
  "('db, 'st) node_env \<Rightarrow> FSMInstance \<Rightarrow> SigningProcessParticipantResponse \<Rightarrow>
   (error + ReconstructedSignature list) go"
where
  "reconstructThresholdSignature env signingFSM payload =
    bindR (TasksToMessages (ne_baked env) (spr_SrcPayload payload)) (\<lambda>r. case r of
      Inl e \<Rightarrow> Inr (Inl (Wrapf ''failed to extract messages from signingTasks: %w'' [] e))
    | Inr messagesPayload \<Rightarrow>
        let batchPartialSignatures = collectPartialSignatures (spr_Participants payload) in
        if batchPartialSignatures = [] then Inr (Inr [])
        else bindR (deref (fi_dump signingFSM)) (\<lambda>dump.
          reconstructLoop env signingFSM dump (spr_BatchID payload) (messagesById messagesPayload)
            batchPartialSignatures []))"

section \<open>Processing a message\<close>

definition default_request :: "time \<Rightarrow> request" where
  "default_request t = ReqDefault \<lparr>dr_CreatedAt = t\<rparr>"

text \<open>\<open>Do\<close> on an instance: an error ends the method, otherwise response, dump and instance go on.\<close>

definition doM ::
  "Event \<Rightarrow> request \<Rightarrow> FSMInstance \<Rightarrow> ('s, response Response option \<times> dump_data \<times> FSMInstance) op"
where
  "doM event req i s =
    bindR (FSMInstance_Do event [req] i) (\<lambda>((resp, data, err), i). case err of
      Some e \<Rightarrow> Inr (Inl (Wrapf ''failed to Do operation in FSM: %w'' [] e), s)
    | None \<Rightarrow> Inr (Inr (resp, data, i), s))"

text \<open>Restarting the signing of a round and saving it, the end of two branches below.\<close>

definition restartSigning ::
  "('db, 'st) node_env \<Rightarrow> Message \<Rightarrow> FSMInstance \<Rightarrow> ('db, 'st, FSMInstance) node_op"
where
  "restartSigning env message fsmInstance =
    bindM (time_Now env) (\<lambda>now.
    bindM (doM EventSigningRestart (default_request now) fsmInstance) (\<lambda>(_, fsmDump, fsmInstance).
    bindM (wrapM ''failed to SaveFSM: %w'' [] (node_SaveFSM env (DkgRoundID message) fsmDump)) (\<lambda>_.
    retM fsmInstance)))"

text \<open>The instance to go on with, or \<open>None\<close> where the source returns without an operation.\<close>

definition handleErrorState ::
  "('db, 'st) node_env \<Rightarrow> Message \<Rightarrow> FSMInstance \<Rightarrow> ('db, 'st, FSMInstance option) node_op"
where
  "handleErrorState env message fsmInstance =
    bindM (liftG (deref (fi_dump fsmInstance))) (\<lambda>dump.
    if HasSuffix (dump_State dump) ''_error'' then
      if (case DKGProposalPayload (dump_Payload dump) of
            None \<Rightarrow> False
          | Some c \<Rightarrow> list_ex (\<lambda>participant. dp_Error participant \<noteq> None) (vals (entries (dc_Quorum c))))
      then retM None
      else if SigningProposalPayload (dump_Payload dump) \<noteq> None
      then bindM (restartSigning env message fsmInstance) (\<lambda>i. retM (Some i))
      else retM (Some fsmInstance)
    else retM (Some fsmInstance))"

definition handleTimeoutState ::
  "('db, 'st) node_env \<Rightarrow> Message \<Rightarrow> FSMInstance \<Rightarrow> ('db, 'st, FSMInstance option) node_op"
where
  "handleTimeoutState env message fsmInstance =
    bindM (liftG (deref (fi_dump fsmInstance))) (\<lambda>dump.
    if HasSuffix (dump_State dump) ''_timeout'' then
      if HasPrefix (dump_State dump) ''state_sig_'' \<or> HasPrefix (dump_State dump) ''state_dkg''
      then retM None
      else if HasPrefix (dump_State dump) ''state_signing_''
      then bindM (liftG (deref (SigningProposalPayload (dump_Payload dump)))) (\<lambda>_.
        bindM (restartSigning env message fsmInstance) (\<lambda>i. retM (Some i)))
      else retM (Some fsmInstance)
    else retM (Some fsmInstance))"

text \<open>Loading the dump of a response into a new instance and executing one more event on it.\<close>

definition followUp ::
  "('db, 'st) node_env \<Rightarrow> Event \<Rightarrow> dump_data \<Rightarrow>
   ('db, 'st, response Response option \<times> dump_data \<times> FSMInstance) node_op"
where
  "followUp env event fsmDump =
    bindM (wrapM ''failed get state_machines from dump: %w'' [] (liftGE (FromDump fsmDump))) (\<lambda>fsmInstance.
    bindM (time_Now env) (\<lambda>now. doM event (default_request now) fsmInstance))"

definition followUpIf ::
  "('db, 'st) node_env \<Rightarrow> State \<Rightarrow> Event \<Rightarrow> response Response \<times> dump_data \<times> FSMInstance \<Rightarrow>
   ('db, 'st, response Response \<times> dump_data \<times> FSMInstance) node_op"
where
  "followUpIf env state event x = (case x of (resp, fsmDump, fsmInstance) \<Rightarrow>
     if resp_State resp = state
     then bindM (followUp env event fsmDump) (\<lambda>(resp, fsmDump, fsmInstance).
       bindM (liftG (deref resp)) (\<lambda>resp. retM (resp, fsmDump, fsmInstance)))
     else retM (resp, fsmDump, fsmInstance))"

definition awaiting_states :: "State list" where
  "awaiting_states = [StateAwaitParticipantsConfirmations, StateDkgCommitsAwaitConfirmations,
     StateDkgDealsAwaitConfirmations, StateDkgResponsesAwaitConfirmations,
     StateDkgMasterKeyAwaitConfirmations, StateSigningAwaitPartialSigns]"

text \<open>The operation that a response asks for, and the broadcast of collected signatures.\<close>

definition makeOperation ::
  "('db, 'st) node_env \<Rightarrow> Message \<Rightarrow> response Response \<Rightarrow> FSMInstance \<Rightarrow> ('db, 'st, Operation option) node_op"
where
  "makeOperation env message resp fsmInstance =
    (if resp_State resp \<in> set awaiting_states
     then (case resp_Data resp of
             None \<Rightarrow> retM None
           | Some data \<Rightarrow>
               bindM (wrapM ''failed to marshal FSM response: %w'' [] (liftE (ne_Marshal_response env data))) (\<lambda>operationPayloadBz.
               bindM (time_Now env) (\<lambda>now.
               retM (Some (NewOperation (ne_md5 env) now (DkgRoundID message) operationPayloadBz
                 (resp_State resp))))))
     else if resp_State resp = StateSigningPartialSignsCollected
     then (case resp_Data resp of
             Some (RespSigningProcess signingProcessResponse) \<Rightarrow>
               bindM (wrapM ''failed to reconstruct signatures: %w'' []
                 (liftGE (reconstructThresholdSignature env fsmInstance signingProcessResponse))) (\<lambda>sigs.
               bindM (wrapM ''failed to broadcast reconstructed signature: %w'' []
                 (broadcastReconstructedSignatures env message sigs)) (\<lambda>_.
               retM None))
           | _ \<Rightarrow> failM (errorsNew
               ''failed to cast fsm response payload to responses.SigningProcessParticipantResponse: %w''))
     else retM None)"

text \<open>From the request of the message to the end.\<close>

definition runMessage ::
  "('db, 'st) node_env \<Rightarrow> Message \<Rightarrow> FSMInstance \<Rightarrow> ('db, 'st, Operation option) node_op"
where
  "runMessage env message fsmInstance =
    bindM (wrapM ''failed to get FSMRequestFromMessage:  %w'' []
      (liftE (FSMRequestFromMessage (ne_reqs env) message))) (\<lambda>fsmReq.
    bindM (doM (msg_Event message) fsmReq fsmInstance) (\<lambda>(resp, fsmDump, fsmInstance).
    bindM (liftG (deref resp)) (\<lambda>resp.
    bindM (followUpIf env StateSignatureProposalCollected EventDKGInitProcess
      (resp, fsmDump, fsmInstance)) (\<lambda>x.
    bindM (followUpIf env StateDkgMasterKeyCollected EventSigningInit x) (\<lambda>(resp, fsmDump, fsmInstance).
    bindM (makeOperation env message resp fsmInstance) (\<lambda>operation.
    bindM (if resp_State resp = StateSigningPartialSignsCollected
           then bindM (followUp env EventSigningRestart fsmDump) (\<lambda>(_, fsmDump, _). retM fsmDump)
           else retM fsmDump) (\<lambda>fsmDump.
    bindM (if msg_Event message = EventSigningStart
           then wrapM ''failed to process signature: %w'' [] (processSignatureProposal env message)
           else retM ()) (\<lambda>_.
    bindM (wrapM ''failed to SaveFSM: %w'' [] (node_SaveFSM env (DkgRoundID message) fsmDump)) (\<lambda>_.
    retM operation)))))))))"

definition processMessage ::
  "('db, 'st) node_env \<Rightarrow> Message \<Rightarrow> ('db, 'st, Operation option) node_op"
where
  "processMessage env message =
    bindM (wrapM ''failed to getFSMInstance: %w'' []
      (node_GetFSMInstance env (DkgRoundID message) True)) (\<lambda>fsmInstance.
    bindM (if msg_Event message \<noteq> EventInitProposal
           then wrapM ''failed to verifyMessage %+v: %w'' [] (verifyMessage env fsmInstance message)
           else retM ()) (\<lambda>_.
    if msg_Event message = SignatureReconstructed
    then bindM (wrapM ''failed to process signature: %w'' [] (processSignature env message)) (\<lambda>_. retM None)
    else if msg_Event message = SignatureReconstructionFailed
    then bindM (wrapM ''failed to get FSMRequestFromMessage:  %w'' []
        (liftE (FSMRequestFromMessage (ne_reqs env) message))) (\<lambda>errorRequest.
      (case as_SigError errorRequest of
         None \<Rightarrow> failM (errorsNew
           ''failed to convert request to SignatureProposalConfirmationErrorRequest:  %w'')
       | Some _ \<Rightarrow> retM None))
    else bindM (handleErrorState env message fsmInstance) (\<lambda>r. case r of
        None \<Rightarrow> retM None
      | Some fsmInstance \<Rightarrow>
          bindM (handleTimeoutState env message fsmInstance) (\<lambda>r. case r of
            None \<Rightarrow> retM None
          | Some fsmInstance \<Rightarrow> runMessage env message fsmInstance))))"

section \<open>Reinitialization\<close>

text \<open>The loop over the old messages: failures are only logged.\<close>

fun replayMessages ::
  "('db, 'st) node_env \<Rightarrow> Message list \<Rightarrow> Operation list \<Rightarrow> ('db, 'st, Operation list) node_op"
where
  "replayMessages env [] operations = retM operations"
| "replayMessages env (msg # messages) operations =
    (if msg_Event msg = EventSigningStart then retM operations
     else bindM (readM nd_userName) (\<lambda>userName.
       if RecipientAddr msg = '''' \<or> RecipientAddr msg = userName
       then bindM (attemptM (processMessage env msg)) (\<lambda>r.
         replayMessages env messages (case r of Inr (Some op) \<Rightarrow> operations @ [op] | _ \<Rightarrow> operations))
       else replayMessages env messages operations))"

text \<open>The body after the flag is set; the flag is restored when the method returns.\<close>

definition reinitBody :: "('db, 'st) node_env \<Rightarrow> Message \<Rightarrow> ReDKG \<Rightarrow> ('db, 'st, unit) node_op" where
  "reinitBody env message req =
    bindM (replayMessages env (rd_Messages req) []) (\<lambda>operations.
    bindM (attemptM (liftE (ne_Marshal_operations env operations))) (\<lambda>r. case r of
      Inl e \<Rightarrow> failM (errorsNew ''failed to marshall operations'')
    | Inr operationsBz \<Rightarrow>
        bindM (time_Now env) (\<lambda>now.
        let operation = NewOperation (ne_md5 env) now (rd_DKGID req) operationsBz ReinitDKG in
        bindM (wrapM ''failed to calculat reinitDKG message hash: %w'' []
          (liftE (CalcStartReInitDKGMessageHash (ne_ReDKG env) (ne_sha1 env) (Data message)))) (\<lambda>hash.
        bindM (wrapM ''failed to PutOperation: %w'' []
          (node_PutOperation env (operation\<lparr>op_ExtraData := hash\<rparr>))) (\<lambda>_.
        bindM (wrapM ''failed to get FSM instance: %w'' []
          (node_GetFSMInstance env (rd_DKGID req) True)) (\<lambda>fsmInstance.
        bindM (liftG (deref (fi_dump fsmInstance))) (\<lambda>dump.
        let payload = fold (\<lambda>p. SetPubKeyUsername (pt_Name p) (pt_NewCommPubKey p))
              (rd_Participants req) (dump_Payload dump);
            fsmInstance = fsmInstance\<lparr>fi_dump := Some (dump\<lparr>dump_Payload := payload\<rparr>)\<rparr> in
        bindM (attemptM (liftE (FSMInstance_Dump fsmInstance))) (\<lambda>r. case r of
          Inl e \<Rightarrow> failM (errorsNew ''failed to get FSM dump'')
        | Inr fsmDump \<Rightarrow>
            wrapM ''failed to SaveFSM: %w'' [] (node_SaveFSM env (DkgRoundID message) fsmDump)))))))))"

definition reinitDKG :: "('db, 'st) node_env \<Rightarrow> Message \<Rightarrow> ('db, 'st, unit) node_op" where
  "reinitDKG env message =
    bindM (wrapM ''failed to umarshal request:  %w'' [] (liftE (ne_ReDKG env (Data message)))) (\<lambda>req.
    bindM (node_IsExist env (rd_DKGID req)) (\<lambda>roundExist.
    if roundExist then retM ()
    else bindM (readM nd_skip) (\<lambda>skip.
      bindM (updateM (nd_skip_update (\<lambda>_. True))) (\<lambda>_.
      bindM (attemptM (reinitBody env message req)) (\<lambda>r.
      bindM (updateM (nd_skip_update (\<lambda>b. if skip then b else False))) (\<lambda>_.
      liftE r))))))"

section \<open>The main loop\<close>

definition ProcessMessage :: "('db, 'st) node_env \<Rightarrow> Message \<Rightarrow> ('db, 'st, unit) node_op" where
  "ProcessMessage env message =
    (if msg_Event message = ReinitDKG
     then bindM (attemptM (reinitDKG env message)) (\<lambda>r. case r of
       Inl e \<Rightarrow> failM (errorsNew ''failed to reinitDKG'') | Inr _ \<Rightarrow> retM ())
     else bindM (processMessage env message) (\<lambda>operation. case operation of
       Some operation \<Rightarrow> wrapM ''failed to PutOperation: %w'' [] (node_PutOperation env operation)
     | None \<Rightarrow> retM ()))"

text \<open>
  One tick of \<open>Poll\<close>: the messages from the stored offset on are processed in order; a failure, or a
  failure to store the new offset, is only logged.
\<close>

definition handleMessage :: "('db, 'st) node_env \<Rightarrow> Message \<Rightarrow> ('db, 'st, unit) node_op" where
  "handleMessage env message =
    bindM (readM nd_userName) (\<lambda>userName.
    bindM (if RecipientAddr message = '''' \<or> RecipientAddr message = userName
           then bindM (attemptM (ProcessMessage env message)) (\<lambda>_. retM ())
           else retM ()) (\<lambda>_.
    bindM (attemptM (SaveOffset env (Offset message + 1))) (\<lambda>_. retM ())))"

fun handleMessages :: "('db, 'st) node_env \<Rightarrow> Message list \<Rightarrow> ('db, 'st, unit) node_op" where
  "handleMessages env [] = retM ()"
| "handleMessages env (message # messages) =
    bindM (handleMessage env message) (\<lambda>_. handleMessages env messages)"

definition pollTick :: "('db, 'st) node_env \<Rightarrow> ('db, 'st, unit) node_op" where
  "pollTick env =
    bindM (wrapM ''failed to LoadOffset: %w'' [] (GetStateOffset env)) (\<lambda>offset.
    bindM (wrapM ''failed to GetMessages: %w'' [] (\<lambda>n.
      case stg_GetMessages (ne_storage env) offset (nd_storage n) of (r, st) \<Rightarrow>
        Inr (r, n\<lparr>nd_storage := st\<rparr>))) (\<lambda>messages.
    handleMessages env messages))"

text \<open>The loop until the context is closed, after \<open>k\<close> ticks.\<close>

fun Poll :: "('db, 'st) node_env \<Rightarrow> nat \<Rightarrow> ('db, 'st, unit) node_op" where
  "Poll env 0 = retM ()"
| "Poll env (Suc k) = bindM (pollTick env) (\<lambda>_. Poll env k)"

text \<open>Starting a node on the services of its configuration; the topic names the services' keys.\<close>

definition NewNode ::
  "('db, 'st) node_env \<Rightarrow> string \<Rightarrow> string \<Rightarrow> 'db LevelDBState \<Rightarrow> 'st \<Rightarrow> error + ('db, 'st) node"
where
  "NewNode env userName kafkaTopic s st =
    (case NewOperationRepo (ne_leveldb env) s kafkaTopic of
       Inl e \<Rightarrow> Inl (Wrapf ''failed to init operation repo: %w'' [] e)
     | Inr repo \<Rightarrow>
         (case ne_LoadKeys env userName of
            Inl e \<Rightarrow> Inl (Wrapf ''failed to LoadKeys: %w'' [] e)
          | Inr keyPair \<Rightarrow> Inr \<lparr>nd_userName = userName, nd_pubKey = fst keyPair,
              nd_state = repo_state repo, nd_storage = st,
              nd_stateKey = fs_stateKey (NewFSMService (repo_state repo) kafkaTopic),
              nd_operationsKey = operationsCompositeKey repo,
              nd_deletedKey = deleteOperationsCompositeKey repo, nd_skip = False, nd_clock = 0\<rparr>))"

end
