(* ===== verification/Node_Invariants.thy ===== *)
theory Node_Invariants
  imports Node
begin

text \<open>
  Invariants of a node: the locale \<open>node_invariant\<close>, which
  lists what a property of node states and of loaded rounds must satisfy to be kept by the
  processing of messages; and its extensions \<open>node_frame\<close> for properties that do not depend on the
  stored rounds and \<open>node_identity\<close> for those that are kept by a reinitialization as well.
\<close>

section \<open>What processing a message keeps\<close>

locale node_invariant =
  fixes env :: "('db, 'st) node_env" and I :: "('db, 'st) node \<Rightarrow> bool"
    and okDump :: "dump_data \<Rightarrow> bool" and okInst :: "FSMInstance \<Rightarrow> bool"
  assumes clock: "I n \<Longrightarrow> I (n\<lparr>nd_clock := c\<rparr>)"
    and stg: "I n \<Longrightarrow> I (n\<lparr>nd_storage := st\<rparr>)"
    and load: "keeps I (node_GetFSMInstance env d create) okInst"
    and save: "okDump dump \<Longrightarrow> stays I (node_SaveFSM env d dump)"
    and sigs: "stays I (node_SaveSignatures env ss)"
    and put: "stays I (node_PutOperation env oper)"
    and offset: "stays I (SaveOffset env w)"
    and step: "okInst i \<Longrightarrow> FSMInstance_Do e args i = Inr ((resp, data, None), i') \<Longrightarrow> okDump data"
    and restart: "okInst i \<Longrightarrow> FSMInstance_Do EventSigningRestart args i = Inr ((resp, data, None), i') \<Longrightarrow>
      okInst i'"
    and reload: "okDump data \<Longrightarrow> FromDump data = Inr (Inr i) \<Longrightarrow> okInst i"
begin

lemma primitives: "stays I (time_Now env)" "stays I (uuid_New env)" "stays I (node_Send env ms)"
  by (rule keepsI, auto simp: time_Now_def uuid_New_def node_Send_def intro: clock stg split: prod.splits)+

lemma signing_keeps:
  "stays I (signMessage env b)" "stays I (verifyMessage env i m)" "stays I (buildMessage env dk ev b)"
  unfolding signMessage_def verifyMessage_def buildMessage_def Let_def
  by (intro stays_rules primitives TrueI)+

lemma signature_keeps:
  "stays I (processSignature env m)" "stays I (processSignatureProposal env m)"
  "stays I (broadcastReconstructedSignatures env m ss)"
  unfolding processSignature_def processSignatureProposal_def broadcastReconstructedSignatures_def
  by (intro stays_rules primitives signing_keeps sigs TrueI)+

lemma do_keeps:
  "okInst i \<Longrightarrow> keeps I (doM e req i) (\<lambda>(resp, data, i'). okDump data \<and> (e = EventSigningRestart \<longrightarrow> okInst i'))"
  by (rule keepsI) (auto simp: doM_def split: option.splits dest: step restart)

lemma restart_keeps: "okInst i \<Longrightarrow> keeps I (restartSigning env m i) okInst"
  unfolding restartSigning_def
  by (rule stays_bind[OF primitives(1)], rule keeps_bind[OF do_keeps], assumption)
     (auto intro!: stays_bind[OF keeps_wrap[OF save]] keeps_ret)

lemma error_state_keeps: "okInst i \<Longrightarrow> keeps I (handleErrorState env m i) (\<lambda>r. \<forall>i'. r = Some i' \<longrightarrow> okInst i')"
  unfolding handleErrorState_def
  by (auto intro!: stays_bind[OF keeps_liftG] keeps_cases keeps_ret keeps_bind[OF restart_keeps])

lemma timeout_state_keeps: "okInst i \<Longrightarrow> keeps I (handleTimeoutState env m i) (\<lambda>r. \<forall>i'. r = Some i' \<longrightarrow> okInst i')"
  unfolding handleTimeoutState_def
  by (auto intro!: stays_bind[OF keeps_liftG] keeps_cases keeps_ret keeps_bind[OF restart_keeps])

lemma follow_up_keeps: "okDump data \<Longrightarrow> keeps I (followUp env e data) (\<lambda>(resp, data, i). okDump data)"
  unfolding followUp_def
  by (rule keeps_bind[OF keeps_wrap[OF keeps_liftGE[where A = okInst]]], erule (1) reload,
      rule stays_bind[OF primitives(1)], rule keeps_weaken[OF do_keeps])
     auto

lemma follow_up_if_keeps:
  "okDump data \<Longrightarrow> keeps I (followUpIf env st e (resp, data, i)) (\<lambda>(resp, data, i). okDump data)"
  unfolding followUpIf_def
  by (auto intro!: keeps_cases keeps_ret keeps_bind[OF follow_up_keeps] stays_bind[OF keeps_liftG])

lemma make_operation_keeps: "stays I (makeOperation env m resp i)"
  unfolding makeOperation_def
  by (auto intro!: stays_rules primitives signature_keeps split: option.split response.split)

lemma run_keeps: "okInst i \<Longrightarrow> stays I (runMessage env m i)"
  unfolding runMessage_def
  apply (rule stays_bind[OF keeps_wrap[OF keeps_liftE]], rule TrueI)
  apply (rule keeps_bind[OF do_keeps], assumption, clarify)
  apply (rule stays_bind[OF keeps_liftG], rule TrueI)
  apply (rule keeps_bind[OF follow_up_if_keeps], assumption)
  apply (clarify, rule keeps_bind[OF follow_up_if_keeps], assumption, clarify)
  apply (rule stays_bind[OF make_operation_keeps])
  apply (rule keeps_bind[where A = okDump])
   apply (auto intro!: keeps_cases keeps_ret keeps_bind[OF follow_up_keeps])[1]
  apply (rule stays_bind)
   apply (intro stays_rules signature_keeps TrueI)
  apply (rule stays_bind[OF keeps_wrap[OF save]], assumption, rule keeps_ret, rule TrueI)
  done

lemma process_keeps: "stays I (processMessage env m)"
  unfolding processMessage_def
proof (rule keeps_bind[OF keeps_wrap[OF load]], rule stays_bind)
  show "stays I (if msg_Event m \<noteq> EventInitProposal
      then wrapM ''failed to verifyMessage %+v: %w'' [] (verifyMessage env i m) else retM ())" for i
    by (intro stays_rules signing_keeps TrueI)
next
  fix i u
  assume i: "okInst i"
  have body: "stays I (bindM (handleErrorState env m i) (\<lambda>r. case r of
        None \<Rightarrow> retM None
      | Some i \<Rightarrow> bindM (handleTimeoutState env m i) (\<lambda>r. case r of
            None \<Rightarrow> retM None
          | Some i \<Rightarrow> runMessage env m i)))"
    by (auto intro!: keeps_bind[OF error_state_keeps[OF i]] keeps_bind[OF timeout_state_keeps]
        keeps_cases keeps_ret run_keeps)
  show "stays I (if msg_Event m = SignatureReconstructed
      then bindM (wrapM ''failed to process signature: %w'' [] (processSignature env m)) (\<lambda>_. retM None)
      else if msg_Event m = SignatureReconstructionFailed
      then bindM (wrapM ''failed to get FSMRequestFromMessage:  %w'' []
          (liftE (FSMRequestFromMessage (ne_reqs env) m))) (\<lambda>errorRequest.
        (case as_SigError errorRequest of
           None \<Rightarrow> failM (errorsNew
             ''failed to convert request to SignatureProposalConfirmationErrorRequest:  %w'')
         | Some _ \<Rightarrow> retM None))
      else bindM (handleErrorState env m i) (\<lambda>r. case r of
          None \<Rightarrow> retM None
        | Some i \<Rightarrow> bindM (handleTimeoutState env m i) (\<lambda>r. case r of
              None \<Rightarrow> retM None
            | Some i \<Rightarrow> runMessage env m i)))"
    by (intro keeps_cases(1) body) (intro stays_rules signature_keeps TrueI)+
qed

lemma ProcessMessage_keeps: "msg_Event m \<noteq> ReinitDKG \<Longrightarrow> stays I (ProcessMessage env m)"
  unfolding ProcessMessage_def
  by (auto intro!: stays_bind[OF process_keeps] stays_rules put split: option.split)

text \<open>
  The main loop keeps the invariant on a log whose messages the node may process: everything but
  a reinitialization, or everything when that keeps it too.
\<close>

lemma handle_keeps:
  "stays I (ProcessMessage env m) \<Longrightarrow> stays I (handleMessage env m)"
  unfolding handleMessage_def by (intro stays_rules offset TrueI)

lemma handle_all_keeps:
  "(\<And>m. m \<in> set ms \<Longrightarrow> stays I (ProcessMessage env m)) \<Longrightarrow> stays I (handleMessages env ms)"
  by (induction ms) (auto intro!: keeps_ret stays_bind handle_keeps)

lemma tick_keeps:
  assumes "\<And>w st ms st' m. stg_GetMessages (ne_storage env) w st = (Inr ms, st') \<Longrightarrow> m \<in> set ms \<Longrightarrow>
      stays I (ProcessMessage env m)"
  shows "stays I (pollTick env)"
  unfolding pollTick_def
proof (rule stays_bind[OF keeps_wrap], unfold GetStateOffset_def)
  show "stays I (\<lambda>n. bindR (LevelDBState_LoadOffset (ne_leveldb env) (nd_state n)) (\<lambda>r. Inr (r, n)))"
    by (auto simp: keeps_def)
next
  fix w
  let ?get = "\<lambda>n. case stg_GetMessages (ne_storage env) w (nd_storage n) of (r, st) \<Rightarrow> Inr (r, n\<lparr>nd_storage := st\<rparr>)"
  have "keeps I ?get (\<lambda>ms. \<exists>st st'. stg_GetMessages (ne_storage env) w st = (Inr ms, st'))"
    by (rule keepsI) (auto intro: stg split: prod.splits)
  from keeps_bind[OF keeps_wrap[OF this]] show
    "stays I (bindM (wrapM ''failed to GetMessages: %w'' [] ?get) (handleMessages env))"
    using assms by (blast intro: handle_all_keeps)
qed

lemma Poll_keeps:
  assumes "\<And>w st ms st' m. stg_GetMessages (ne_storage env) w st = (Inr ms, st') \<Longrightarrow> m \<in> set ms \<Longrightarrow>
      stays I (ProcessMessage env m)"
  shows "stays I (Poll env k)"
  by (induction k) (auto intro!: keeps_ret stays_bind tick_keeps[OF assms])

end

text \<open>
  Properties under which any dump may be saved: the body of a reinitialization keeps these, and if
  a change of the flag keeps them too, so does all processing.
\<close>

locale node_frame = node_invariant +
  assumes any_dump: "okDump data"
begin

lemma replay_keeps: "stays I (replayMessages env ms ops)"
  by (induction ms arbitrary: ops) (auto intro!: stays_rules process_keeps)

lemma reinit_body_keeps: "stays I (reinitBody env m req)"
  unfolding reinitBody_def Let_def
  by (intro stays_rules replay_keeps primitives put keeps_stays[OF load] save any_dump TrueI)

end

locale node_identity = node_frame +
  assumes skip: "I n \<Longrightarrow> I (nd_skip_update f n)"
begin

lemma reinit_keeps: "stays I (reinitDKG env m)"
  unfolding reinitDKG_def
  by (intro stays_rules reinit_body_keeps stays_update skip TrueI) (auto simp: keeps_def node_IsExist_def)

lemma ProcessMessage_frame: "stays I (ProcessMessage env m)"
  unfolding ProcessMessage_def
  by (auto intro!: stays_bind[OF stays_attempt[OF reinit_keeps]] stays_bind[OF process_keeps] stays_rules put
      split: option.split sum.split)

lemma Poll_frame: "stays I (Poll env k)"
  by (rule Poll_keeps) (rule ProcessMessage_frame)

end

end
