(* ===== verification/Round_Signing.thy ===== *)
theory Round_Signing
  imports Round
begin

text \<open>
  The signing events keep the invariant of a round; with the other two machines this makes the
  invariant hold of every reachable dump.
\<close>

section \<open>Preservation: signing\<close>

lemma signing_inv_simps:
  "signing_inv StateSigningIdle p = signing_some (\<lambda>_. True) p"
  "signing_inv StateSigningAwaitPartialSigns p \<longleftrightarrow>
     signing_some (signing_waiting p) p \<and> signing_matches p"
  "signing_inv StateSigningPartialSignsCollected p \<longleftrightarrow>
     signing_some (signing_complete p) p \<and> signing_matches p"
  "signing_inv StateSigningPartialSignsAwaitCancelledByError p \<longleftrightarrow>
     signing_some (signing_hopeless p) p \<and> signing_matches p"
  "signing_inv StateSigningPartialSignsAwaitCancelledByTimeout p \<longleftrightarrow>
     signing_some (\<lambda>_. True) p \<and> signing_matches p"
  by (simp_all add: signing_inv_def names_neq)

lemma sig_touch_frame:
  assumes "SignatureProposalPayload p = Some sc"
  shows "sig_quorum (p\<lparr>SignatureProposalPayload := Some (sc\<lparr>sc_UpdatedAt := t\<rparr>)\<rparr>) = sig_quorum p"
    and "roster_ok (p\<lparr>SignatureProposalPayload := Some (sc\<lparr>sc_UpdatedAt := t\<rparr>)\<rparr>) = roster_ok p"
proof -
  show q: "sig_quorum (p\<lparr>SignatureProposalPayload := Some (sc\<lparr>sc_UpdatedAt := t\<rparr>)\<rparr>) = sig_quorum p"
    by (simp add: sig_quorum_def assms)
  show "roster_ok (p\<lparr>SignatureProposalPayload := Some (sc\<lparr>sc_UpdatedAt := t\<rparr>)\<rparr>) = roster_ok p"
    by (rule roster_ok_frame) (simp_all add: q)
qed

lemma signing_verdict_cases:
  obtains "signing_verdict th c = StateSigningPartialSignsAwaitCancelledByTimeout"
  | "signing_verdict th c = StateSigningPartialSignsAwaitCancelledByError"
    "int (signer_count c) - int (failed_count c) < th"
  | "signing_verdict th c = StateSigningPartialSignsCollected" "th \<le> int (signed_count c)"
  | "signing_verdict th c = StateSigningAwaitPartialSigns"
  by (cases "gc_ExpiresAt c < gc_UpdatedAt c";
      cases "int (signer_count c) - int (failed_count c) < th"; cases "th \<le> int (signed_count c)")
     (auto simp: signing_verdict_def)

lemma count_vals_mono:
  "list_all (\<lambda>v. P v \<longrightarrow> Q v) (vals m) \<Longrightarrow> count_vals P m \<le> count_vals Q m"
  by (induction m) auto

lemma signing_matches_update:
  assumes "signing_matches p" and "signing_quorum p = Some q" and "map_of q i = Some v"
    and "gp_Username w = gp_Username v" and "gc_Quorum c' = Some (AList.update i w q)"
  shows "signing_matches (p\<lparr>SigningProposalPayload := Some c'\<rparr>)"
proof -
  have "map (\<lambda>(i, v). (i, gp_Username v)) (AList.update i w q) =
      map (\<lambda>(i, v). (i, gp_Username v)) q"
    using assms(3,4) by (intro map_update_same) auto
  then show ?thesis using assms(1,2,5) by (simp add: signing_matches_def split: option.splits)
qed

lemma signing_after_quorum:
  assumes "gc_Quorum c = Some q"
  shows "\<exists>f. gc_Quorum (signing_after th c) = Some (map_vals f q) \<and>
    (\<forall>i v. gp_Username (f i v) = gp_Username v \<and> gp_PartialSigns (f i v) = gp_PartialSigns v)"
proof (cases "signing_verdict th c = StateSigningPartialSignsCollected")
  case True
  then show ?thesis using assms
    by (intro exI[of _ "\<lambda>i v. v\<lparr>gp_Status := SigningProcess, gp_ParticipantID := i\<rparr>"])
       (simp add: signing_after_def)
next
  case False
  have "map_vals (\<lambda>i v. v) q = q" by (induction q) auto
  with False assms show ?thesis by (intro exI[of _ "\<lambda>i v. v"]) (simp add: signing_after_def)
qed

lemma signing_after_matches:
  assumes "signing_matches (p\<lparr>SigningProposalPayload := Some c\<rparr>)" and "gc_Quorum c = Some q"
  shows "signing_matches (p\<lparr>SigningProposalPayload := Some (signing_after th c)\<rparr>)"
proof -
  from signing_after_quorum[OF assms(2), of th] obtain f where
    f: "gc_Quorum (signing_after th c) = Some (map_vals f q)"
      "\<And>i v. gp_Username (f i v) = gp_Username v" by blast
  have "map (\<lambda>(i, v). (i, gp_Username v)) (map_vals f q) = map (\<lambda>(i, v). (i, gp_Username v)) q"
    using f(2) by (induction q) auto
  with assms f(1) show ?thesis by (simp add: signing_matches_def split: option.splits)
qed

lemma signing_after_complete:
  assumes "gc_Quorum c = Some q" and "list_all signing_part (vals q)" and "th \<le> int (signed_count c)"
  shows "th \<le> int (count_vals signed (entries (gc_Quorum (signing_after th c))))"
proof -
  from signing_after_quorum[OF assms(1), of th] obtain f where
    f: "gc_Quorum (signing_after th c) = Some (map_vals f q)"
      "\<And>i v. gp_PartialSigns (f i v) = gp_PartialSigns v" by blast
  have "count_vals signed (map_vals f q) = count_vals signed q"
    using f(2) by (induction q) (auto simp: signed_def)
  moreover have "signed_count c \<le> count_vals signed q"
    using assms(2) unfolding signed_count_def assms(1) entries_simps
    by (intro count_vals_mono) (auto simp: list_all_iff signing_part_def signed_def)
  ultimately show ?thesis using assms(3) f(1) by simp
qed

text \<open>
  One batch event that was accepted: the confirmation \<open>c\<close> before validation has the signers of
  the round, each in a proper state.
\<close>

lemma signing_validated:
  assumes "roster_ok p" "sig_all sig_confirmed p" "dkg_matches p" "dkg_done p"
    and "signing_matches (p\<lparr>SigningProposalPayload := Some c\<rparr>)" and q: "gc_Quorum c = Some q"
    and parts: "list_all signing_part (vals q)" and "gc_UpdatedAt c = 0"
    and th: "th = Threshold p"
  shows "payload_inv (signing_verdict th c)
    (p\<lparr>SigningProposalPayload := Some (signing_after th c)\<rparr>)"
proof -
  let ?c = "signing_after th c"
  let ?p = "p\<lparr>SigningProposalPayload := Some ?c\<rparr>" and ?w = "signing_verdict th c"
  have fin: "dkg_matches ?p" "dkg_done ?p"
    using assms(3,4) by (simp_all add: dkg_matches_def dkg_done_def dkg_all_def agreed_key_def)
  have m: "signing_matches ?p" by (rule signing_after_matches[OF assms(5) q])
  have up: "gc_UpdatedAt ?c = 0" "gc_Quorum ?c \<noteq> None"
    using assms(8) q by (simp_all add: signing_after_def)
  have same: "?c = c" if "?w \<noteq> StateSigningPartialSignsCollected"
    using that by (simp add: signing_after_def)
  have "signing_inv ?w ?p \<and> ?w \<in> set signing_states"
  proof (cases rule: signing_verdict_cases[of th c])
    case 1
    then show ?thesis using m up by (simp add: signing_inv_simps signing_some_def signing_states_def)
  next
    case 2
    then have "?c = c" using same by (simp add: signing_neq)
    with 2 m up parts q th show ?thesis
      by (simp add: signing_inv_simps signing_some_def signing_states_def signing_hopeless_def)
  next
    case 3
    with m up signing_after_complete[OF q parts] th show ?thesis
      by (simp add: signing_inv_simps signing_some_def signing_states_def signing_complete_def)
  next
    case 4
    then have "?c = c" using same by (simp add: signing_neq)
    with 4 m up parts q th show ?thesis
      by (simp add: signing_inv_simps signing_some_def signing_states_def signing_waiting_def)
  qed
  with fin assms(1,2) show ?thesis by (simp add: payload_inv_signing)
qed

lemma signing_base:
  assumes "payload_inv s p" and "s \<in> set signing_states"
  shows "roster_ok p" "sig_all sig_confirmed p" "dkg_matches p" "dkg_done p" "signing_inv s p"
  using assms payload_inv_signing[OF assms(2)] by simp_all

lemma dkg_done_map:
  assumes "dkg_done p" and "dkg_quorum p = Some q"
    and "\<And>k i v. done_part k (f i v) = done_part k v"
    and "dc_Quorum c' = Some (map_vals f q)"
  shows "dkg_done (p\<lparr>DKGProposalPayload := Some c'\<rparr>)"
proof -
  from assms(1,2) have "list_all (done_part (agreed_key p)) (vals q)" "agreed_key p \<noteq> []"
    by (simp_all add: dkg_done_def dkg_all_def)
  then have all: "list_all (done_part (agreed_key p)) (vals (map_vals f q))" and "agreed_key p \<noteq> []"
    using assms(3) by (auto simp: list_all_iff set_map_vals)
  moreover have "agreed_key (p\<lparr>DKGProposalPayload := Some c'\<rparr>) = agreed_key p"
    using all assms(2,4) by (cases q) (auto simp: agreed_key_def done_part_def)
  ultimately show ?thesis using assms(4) by (simp add: dkg_done_def dkg_all_def)
qed

lemma signing_quorum_of_sorted:
  assumes "sorted (keys dq)" and "distinct (keys dq)"
  shows "signing_quorum_of t dq = map_vals (signing_fresh t) dq"
proof -
  have "signing_quorum_of t dq =
      map (\<lambda>x. (fst x, signing_fresh t (fst x) (the (map_of dq (fst x))))) dq"
    using assms(1) by (simp add: signing_quorum_of_def sorted_sort_id comp_def)
  also have "\<dots> = map_vals (signing_fresh t) dq"
    using assms(2) by (auto simp: map_vals_def)
  finally show ?thesis .
qed

lemma roster_keys: "roster_ok p \<Longrightarrow> sig_quorum p = Some q \<Longrightarrow>
    sorted (keys q) \<and> distinct (keys q) \<and> 2 \<le> Threshold p \<and> Threshold p \<le> int (length q)"
  unfolding roster_ok_def by (auto simp: sorted_map distinct_map simp del: map_eq_conv)

lemma signing_init_kept:
  assumes "payload_inv StateDkgMasterKeyCollected p"
    and res: "FSM_Do EventSigningInit args (in_state signing_fsm StateDkgMasterKeyCollected) p =
      Inr ((Some r, None), g, p')"
  shows "payload_inv (resp_State r) p' \<and> same_roster p p'"
proof -
  have S: "StateDkgMasterKeyCollected \<in> set dkg_states" by (simp add: dkg_states_def)
  from assms(1) have inv: "roster_ok p" "sig_all sig_confirmed p" "dkg_matches p" "dkg_done p"
    unfolding payload_inv_dkg[OF S] by (simp_all add: dkg_inv_simps)
  from res show ?thesis
  proof (cases rule: signing_init_cases)
    case (accepted t)
    let ?p = "p\<lparr>SigningProposalPayload := Some (signing_init t)\<rparr>"
    have "dkg_matches ?p" "dkg_done ?p"
      using inv(3,4) by (simp_all add: dkg_matches_def dkg_done_def dkg_all_def agreed_key_def)
    with inv accepted show ?thesis
      by (simp add: payload_inv_signing signing_states_def signing_inv_simps signing_some_def
          signing_init_def)
  qed simp
qed

lemma signing_start_kept:
  assumes "payload_inv StateSigningIdle p"
    and res: "FSM_Do EventSigningStart args (in_state signing_fsm StateSigningIdle) p =
      Inr ((Some r, None), g, p')"
  shows "payload_inv (resp_State r) p' \<and> same_roster p p'"
proof -
  have S: "StateSigningIdle \<in> set signing_states" by (simp add: signing_states_def)
  note inv = signing_base[OF assms(1) S]
  from inv(5) obtain c where c: "SigningProposalPayload p = Some c" "gc_UpdatedAt c = 0"
    by (auto simp: signing_inv_simps signing_some_def split: option.splits)
  from inv(3) obtain dc dq sq where d: "DKGProposalPayload p = Some dc" "dc_Quorum dc = Some dq"
    "dkg_quorum p = Some dq" "sig_quorum p = Some sq" "keys dq = keys sq" by (rule dkg_matches_quorum)
  have k: "sorted (keys dq)" "distinct (keys dq)"
    using roster_keys[OF inv(1) d(4)] d(5) by simp_all
  from c(1) d(1,2) k(2) res show ?thesis
  proof (cases rule: signing_start_cases)
    case (accepted r' c' data)
    let ?p = "p\<lparr>DKGProposalPayload := Some (dkg_renumbered dc)\<rparr>"
    let ?q = "map_vals (signing_fresh (bs_CreatedAt r')) dq"
    have dq': "dc_Quorum (dkg_renumbered dc) = Some (map_vals (\<lambda>i v. v\<lparr>dp_ParticipantID := i\<rparr>) dq)"
      by (simp add: dkg_renumbered_def d(2))
    have q: "gc_Quorum c' = Some ?q"
      by (simp add: accepted(3) signing_started_def signing_quorum_of_sorted[OF k])
    have "p\<lparr>DKGProposalPayload := Some dc\<rparr> = p" by (simp add: d(1))
    then have m: "dkg_matches ?p"
      using inv(3) by (intro dkg_matches_map[OF _ d(2) _ _ dq']) simp_all
    have fin: "dkg_done ?p"
      by (rule dkg_done_map[OF inv(4) d(3) _ dq']) (simp add: done_part_def)
    have "map (\<lambda>(i, v). (i, gp_Username v)) ?q =
        map (\<lambda>(i, v). (i, dp_Username v)) (map_vals (\<lambda>i v. v\<lparr>dp_ParticipantID := i\<rparr>) dq)"
      by (induction dq) (auto simp: signing_fresh_def)
    then have sm: "signing_matches (?p\<lparr>SigningProposalPayload := Some c'\<rparr>)"
      by (simp add: signing_matches_def q dq')
    have parts: "list_all signing_part (vals ?q)"
      by (auto simp: list_all_iff set_map_vals signing_part_def signing_fresh_def)
    have "gc_UpdatedAt c' = 0" using c(2) by (simp add: accepted(3) signing_started_def)
    from signing_validated[OF _ _ m fin sm q parts this refl] inv(1,2) accepted
    show ?thesis by simp
  qed simp
qed

lemma signing_reply_kept:
  assumes inv: "roster_ok p" "sig_all sig_confirmed p" "dkg_matches p" "dkg_done p"
    and c: "SigningProposalPayload p = Some c" "gc_Quorum c = Some q" "gc_UpdatedAt c = 0"
    and sc: "SignatureProposalPayload p = Some sc" and "signing_matches p"
    and parts: "list_all signing_part (vals q)" and v: "map_of q i = Some v"
    and c': "gc_Quorum c' = Some (AList.update i w q)" "gc_UpdatedAt c' = gc_UpdatedAt c"
    and w: "gp_Username w = gp_Username v" "signing_part w"
    and p': "p' = p\<lparr>SigningProposalPayload := Some (signing_after (Threshold p) c'),
        SignatureProposalPayload := Some (sc\<lparr>sc_UpdatedAt := t\<rparr>)\<rparr>"
  shows "payload_inv (signing_verdict (Threshold p) c') p' \<and> same_roster p p'"
proof -
  let ?p = "p\<lparr>SignatureProposalPayload := Some (sc\<lparr>sc_UpdatedAt := t\<rparr>)\<rparr>"
  note frame = sig_touch_frame[OF sc, of t]
  have inv': "roster_ok ?p" "sig_all sig_confirmed ?p" "dkg_matches ?p" "dkg_done ?p"
    using inv frame by (simp_all add: sig_all_def dkg_matches_def dkg_done_def dkg_all_def agreed_key_def)
  have "signing_matches ?p" using assms(9) by (simp add: signing_matches_def)
  moreover have "signing_quorum ?p = Some q" by (simp add: signing_quorum_def c)
  ultimately have sm: "signing_matches (?p\<lparr>SigningProposalPayload := Some c'\<rparr>)"
    using signing_matches_update[OF _ _ v w(1) c'(1)] by blast
  have parts': "list_all signing_part (vals (AList.update i w q))"
    using parts w(2) by (rule list_all_vals_update)
  have "gc_UpdatedAt c' = 0" using c'(2) c(3) by simp
  moreover have "p' = ?p\<lparr>SigningProposalPayload := Some (signing_after (Threshold p) c')\<rparr>"
    by (simp add: p')
  ultimately show ?thesis using signing_validated[OF inv' sm c'(1) parts'] by simp
qed

lemma store_signs_nonempty: "ss \<noteq> [] \<Longrightarrow> store_signs ss v \<noteq> []"
proof -
  have keep: "m \<noteq> [] \<Longrightarrow> fold (\<lambda>s. AList.update (ps_MessageID s) (ps_Sign s)) xs m \<noteq> []" for xs m
  proof (induction xs arbitrary: m)
    case (Cons x xs)
    have "AList.update (ps_MessageID x) (ps_Sign x) m \<noteq> []" by (cases m) auto
    then show ?case using Cons.IH by simp
  qed simp
  assume "ss \<noteq> []"
  then obtain s ss' where ss: "ss = s # ss'" by (cases ss) auto
  have "AList.update (ps_MessageID s) (ps_Sign s) m \<noteq> []" for m :: "(string, bytes) gomap"
    by (cases m) auto
  then show ?thesis unfolding ss store_signs_def fold.simps comp_def by (intro keep)
qed

lemma signing_await_kept:
  assumes "payload_inv StateSigningAwaitPartialSigns p" and "sign_event e"
    and res: "FSM_Do e args (in_state signing_fsm StateSigningAwaitPartialSigns) p =
      Inr ((Some r, None), g, p')"
  shows "payload_inv (resp_State r) p' \<and> same_roster p p'"
proof -
  have S: "StateSigningAwaitPartialSigns \<in> set signing_states" by (simp add: signing_states_def)
  note inv = signing_base[OF assms(1) S]
  from inv(5) obtain c q where c: "SigningProposalPayload p = Some c" "gc_Quorum c = Some q"
    "gc_UpdatedAt c = 0" and parts: "list_all signing_part (vals q)" and m: "signing_matches p"
    by (auto simp: signing_inv_simps signing_some_def signing_waiting_def split: option.splits)
  from inv(1) obtain sc where sc: "SignatureProposalPayload p = Some sc" by (rule roster_ok_quorum)
  from assms(2) show ?thesis
  proof
    assume e: "e = EventSigningPartialSignReceived"
    from c(1,2) sc res[unfolded e] show ?thesis
    proof (cases rule: partial_sign_cases)
      case (accepted b i ss t v c')
      have "signing_part (v\<lparr>gp_PartialSigns := Some (store_signs ss v),
          gp_Status := SigningPartialSignsConfirmed, gp_UpdatedAt := t\<rparr>)"
        using store_signs_nonempty[OF accepted(2)] by (simp add: signing_part_def)
      from signing_reply_kept[OF inv(1-4) c sc m parts accepted(3) _ _ _ this accepted(9)] accepted
      show ?thesis by (simp add: signing_signed_def c(2))
    qed simp
  next
    assume e: "e = EventSigningPartialSignError"
    from c(1,2) sc res[unfolded e] show ?thesis
    proof (cases rule: sign_error_cases)
      case (accepted i er t v c')
      have "signing_part v" using list_all_valsD[OF parts accepted(2)] .
      then have "signing_part ((alloc_PartialSigns v)
          \<lparr>gp_Status := SigningError, gp_Error := er, gp_UpdatedAt := t\<rparr>)"
        using accepted(3) by (simp add: signing_part_def entries_alloc)
      from signing_reply_kept[OF inv(1-4) c sc m parts accepted(2) _ _ _ this accepted(8)] accepted
      show ?thesis by (simp add: signing_failed_def c(2) alloc_PartialSigns_def)
    qed simp
  qed
qed

lemma signing_kept:
  assumes inv: "payload_inv s p"
    and res: "FSM_Do e args (in_state signing_fsm s) p = Inr ((Some r, None), g, p')"
  shows "payload_inv (resp_State r) p' \<and> same_roster p p'"
proof -
  from FSM_Do_public[OF res] consider
    (init) "s = StateDkgMasterKeyCollected" "e = EventSigningInit"
    | (start) "s = StateSigningIdle" "e = EventSigningStart"
    | (reply) "s = StateSigningAwaitPartialSigns" "sign_event e"
    | (restart) "s = StateSigningPartialSignsCollected \<or>
        s = StateSigningPartialSignsAwaitCancelledByTimeout \<or>
        s = StateSigningPartialSignsAwaitCancelledByError" "e = EventSigningRestart"
    by (simp only: signing_public list.set insert_iff empty_iff prod.inject)
       (elim disjE conjE FalseE; simp)
  then show ?thesis
  proof cases
    case init
    with inv res show ?thesis by (intro signing_init_kept) simp_all
  next
    case start
    with inv res show ?thesis by (intro signing_start_kept) simp_all
  next
    case reply
    with inv res show ?thesis by (intro signing_await_kept[of p e]) simp_all
  next
    case restart
    have S: "s \<in> set signing_states" using restart(1) by (auto simp: signing_states_def)
    note b = signing_base[OF inv S]
    have "signing_some (\<lambda>_. True) p"
      using b(5) restart(1) by (auto simp: signing_inv_simps signing_some_def split: option.splits)
    with b restart res signing_restart_Do[OF restart(1), of args p] show ?thesis
      by (auto simp: payload_inv_signing signing_states_def signing_inv_simps)
  qed
qed

section \<open>Every reachable dump\<close>

interpretation round: round_invariant round_inv
proof (unfold_locales, goal_cases)
  case (1 dkgID)
  then show ?case by (simp add: round_inv_def payload_inv_def fresh_payload_def)
next
  case (2 d m e args r g p')
  from 2(1) have inv: "payload_inv (dump_State d) (dump_Payload d)" by (simp add: round_inv_def)
  have "m = sig_fsm \<or> m = dkg_fsm \<or> m = signing_fsm"
    using 2(2) by (auto simp: machine_of_def split: if_splits)
  with sig_kept[OF inv] dkg_kept[OF inv] signing_kept[OF inv] 2(3)
  have "payload_inv (resp_State r) p' \<and> DkgId p' = DkgId (dump_Payload d)" by metis
  with 2(1) show ?case by (auto simp: round_inv_def)
qed

lemma reachable_inv:
  assumes "round_reachable d"
  shows "payload_inv (dump_State d) (dump_Payload d)"
    and "TransactionId d = DkgId (dump_Payload d)" "TransactionId d \<noteq> ''''"
  using round.holds[OF assms] by (auto simp: round_inv_def)

section \<open>Executable runs\<close>

text \<open>One step as a function, and a run of several.\<close>

definition round_next :: "FSMDump \<Rightarrow> Event \<Rightarrow> request list \<Rightarrow> FSMDump option" where
  "round_next d e args = (case FromDump (DumpJSON d) of
      Inr (Inr i) \<Rightarrow> (case FSMInstance_Do e args i of
          Inr ((Some r, DumpJSON d', None), i') \<Rightarrow> Some d'
        | _ \<Rightarrow> None)
    | _ \<Rightarrow> None)"

fun round_exec :: "FSMDump \<Rightarrow> (Event \<times> request list) list \<Rightarrow> FSMDump option" where
  "round_exec d [] = Some d"
| "round_exec d ((e, args) # es) = (case round_next d e args of
      None \<Rightarrow> None | Some d' \<Rightarrow> round_exec d' es)"

definition new_dump :: "string \<Rightarrow> FSMDump" where
  "new_dump dkgID = \<lparr>TransactionId = dkgID, dump_State = StateGlobalIdle,
     dump_Payload = fresh_payload dkgID\<rparr>"

lemma round_next_step: "round_next d e args = Some d' \<longleftrightarrow> round_step d e args d'"
  by (auto simp: round_next_def round_step.simps split: sum.splits option.splits prod.splits
      dump_data.splits)

lemma round_exec_reachable:
  "round_reachable d \<Longrightarrow> round_exec d es = Some d' \<Longrightarrow> round_reachable d'"
proof (induction es arbitrary: d)
  case (Cons x es)
  then show ?case
    by (cases x) (auto simp: round_next_step split: option.splits intro: round_reachable.stepped)
qed simp

lemma new_dump_reachable: "TrimSpace dkgID = dkgID \<Longrightarrow> dkgID \<noteq> '''' \<Longrightarrow> round_reachable (new_dump dkgID)"
  by (rule round_reachable.created) (auto simp: Create_eq new_dump_def)

lemmas machine_of_code [code] = machine_of_def [unfolded sig_lists dkg_lists signing_lists]

lemma FromDump_code [code]:
  "FromDump DumpEmpty = Inr (Inl (errorsNew ''machine dump is empty''))"
  "FromDump (DumpJSON d) = (case machine_of (dump_State d) of
       None \<Rightarrow> Inr (Inl (errorsNew ''cannot init machine for state''))
     | Some m \<Rightarrow> Inr (Inr \<lparr>fi_machine = Some (in_state m (dump_State d)), fi_dump = Some d\<rparr>))"
  by (simp add: FromDump_def) (rule FromDump_eq)

end
