(* ===== verification/Round_Safety.thy ===== *)
theory Round_Safety
  imports Round_Signing
begin

text \<open>
  Consequences of the invariant: the outcome of a finished DKG is stable, no event makes a
  reachable round panic, and the states in which a round can no longer be loaded.
\<close>

section \<open>Steps of a loaded round\<close>

lemma round_step_obtain:
  assumes "round_step d e args d'"
  obtains m r g p' where "machine_of (dump_State d) = Some m"
    "FSM_Do e args (in_state m (dump_State d)) (dump_Payload d) = Inr ((Some r, None), g, p')"
    "dump_State d' = resp_State r" "dump_Payload d' = p'" "TransactionId d' = TransactionId d"
proof -
  from assms obtain i r i' where i: "FromDump (DumpJSON d) = Inr (Inr i)"
    and res: "FSMInstance_Do e args i = Inr ((Some r, DumpJSON d', None), i')"
    by (auto elim: round_stepE)
  from i obtain m where m: "machine_of (dump_State d) = Some m"
    and i': "i = \<lparr>fi_machine = Some (in_state m (dump_State d)), fi_dump = Some d\<rparr>"
    by (auto simp: FromDump_eq split: option.splits)
  from res obtain g p' where
    "FSM_Do e args (in_state m (dump_State d)) (dump_Payload d) = Inr ((Some r, None), g, p')"
    and "d' = d\<lparr>dump_Payload := p', dump_State := resp_State r\<rparr>"
    by (auto simp: FSMInstance_Do_def i' Let_def Marshal_def split: option.splits if_splits sum.splits)
  with m that show thesis by simp
qed

lemma machine_of_cases:
  assumes "machine_of s = Some m"
  obtains "m = sig_fsm" "s \<in> set (StatesList sig_fsm)"
  | "m = dkg_fsm" "s \<in> set (StatesList dkg_fsm)"
  | "m = signing_fsm" "s \<in> set (StatesList signing_fsm)"
  using assms by (auto simp: machine_of_def split: if_splits)

section \<open>Stability\<close>

text \<open>The states of a round whose DKG is finished.\<close>

definition finished :: "State \<Rightarrow> bool" where
  "finished s \<longleftrightarrow> s = StateDkgMasterKeyCollected \<or> s \<in> set signing_states"

lemma finished_machine: "finished s \<Longrightarrow> machine_of s = Some signing_fsm"
  by (rule machine_of_signing) (auto simp: finished_def signing_states_def signing_lists)

lemma finished_done:
  assumes "payload_inv s p" and "finished s"
  shows "roster_ok p" "sig_all sig_confirmed p" "dkg_matches p" "dkg_done p"
proof -
  have M: "StateDkgMasterKeyCollected \<in> set dkg_states" by (simp add: dkg_states_def)
  show "roster_ok p" "sig_all sig_confirmed p" "dkg_matches p" "dkg_done p"
    using assms payload_inv_dkg[OF M, of p] payload_inv_signing[of s p]
    by (auto simp: finished_def dkg_inv_simps)
qed

text \<open>What the invariant says of a finished DKG, and of any DKG.\<close>

lemma finished_agreement:
  assumes "payload_inv s p" and "finished s"
  shows "\<exists>q k. dkg_quorum p = Some q \<and> k \<noteq> [] \<and> 2 \<le> length q \<and> map fst q = map int [0..<length q] \<and>
    list_all (\<lambda>v. dp_Status v = MasterKeyConfirmed \<and> dp_DkgMasterKey v = k \<and>
      dp_DkgCommit v \<noteq> [] \<and> dp_DkgDeal v \<noteq> [] \<and> dp_DkgResponse v \<noteq> []) (map snd q)"
proof -
  note fin = finished_done[OF assms]
  from fin(3) obtain q sq where q: "dkg_quorum p = Some q" "sig_quorum p = Some sq" "keys q = keys sq"
    by (rule dkg_matches_quorum)
  have len: "length q = length sq" using arg_cong[OF q(3), of length] by simp
  have "keys sq = map int [0..<length sq]" "2 \<le> length sq"
    using fin(1) q(2) by (simp_all add: roster_ok_def)
  then have "map fst q = map int [0..<length q]" "2 \<le> length q" using q(3) len by simp_all
  with fin(4) q(1) show ?thesis
    by (auto simp: dkg_done_def dkg_all_def done_part_def [abs_def] intro!: exI[of _ "agreed_key p"])
qed

lemma dkg_consent:
  assumes "payload_inv s p" and "DKGProposalPayload p \<noteq> None"
  shows "\<exists>q dq. sig_quorum p = Some q \<and> dkg_quorum p = Some dq \<and>
    list_all (\<lambda>v. sp_Status v = SigConfirmationConfirmed) (map snd q) \<and>
    map (\<lambda>(i, v). (i, dp_Username v, dp_DkgPubKey v)) dq =
      map (\<lambda>(i, v). (i, sp_Username v, sp_DkgPubKey v)) q"
proof -
  have "DKGProposalPayload (fresh_payload x) = None" for x by (simp add: fresh_payload_def)
  with assms have "s \<noteq> StateGlobalIdle" by (metis payload_inv_def)
  with assms have "sig_all sig_confirmed p" "dkg_matches p"
    by (auto simp: payload_inv_def split: if_splits)
  then show ?thesis by (auto simp: sig_all_def dkg_matches_def split: option.splits)
qed

lemma agreed_key_frame [simp]:
  "agreed_key (p\<lparr>SigningProposalPayload := x\<rparr>) = agreed_key p"
  "agreed_key (p\<lparr>SignatureProposalPayload := y\<rparr>) = agreed_key p"
  by (simp_all add: agreed_key_def)

lemma agreed_key_renumbered:
  assumes "DKGProposalPayload p = Some dc"
  shows "agreed_key (p\<lparr>DKGProposalPayload := Some (dkg_renumbered dc)\<rparr>) = agreed_key p"
  using assms
  by (cases "dc_Quorum dc"; cases "the (dc_Quorum dc)")
     (auto simp: agreed_key_def dkg_renumbered_def dkg_quorum_def)

lemma signing_verdict_state: "signing_verdict th c \<in> set signing_states"
  by (cases rule: signing_verdict_cases[of th c]) (simp_all add: signing_states_def)

text \<open>An accepted signing event leaves the DKG's outcome alone.\<close>

lemma signing_key_kept:
  assumes inv: "payload_inv s p" and fin: "finished s"
    and res: "FSM_Do e args (in_state signing_fsm s) p = Inr ((Some r, None), g, p')"
  shows "agreed_key p' = agreed_key p \<and> resp_State r \<in> set signing_states"
proof -
  note base = finished_done[OF inv fin]
  from base(3) base(1) obtain dc dq sq where d: "DKGProposalPayload p = Some dc"
    "dc_Quorum dc = Some dq" "sig_quorum p = Some sq" "keys dq = keys sq"
    by (auto elim!: dkg_matches_quorum)
  have dist: "distinct (keys dq)" using roster_keys[OF base(1) d(3)] d(4) by simp
  from base(1) obtain sc where sc: "SignatureProposalPayload p = Some sc" by (rule roster_ok_quorum)
  from FSM_Do_public[OF res] consider
    (init) "s = StateDkgMasterKeyCollected" "e = EventSigningInit"
    | (start) "s = StateSigningIdle" "e = EventSigningStart"
    | (sign) "s = StateSigningAwaitPartialSigns" "e = EventSigningPartialSignReceived"
    | (error) "s = StateSigningAwaitPartialSigns" "e = EventSigningPartialSignError"
    | (restart) "s = StateSigningPartialSignsCollected \<or>
        s = StateSigningPartialSignsAwaitCancelledByTimeout \<or>
        s = StateSigningPartialSignsAwaitCancelledByError" "e = EventSigningRestart"
    by (simp only: signing_public list.set insert_iff empty_iff prod.inject)
       (elim disjE conjE FalseE; simp)
  then show ?thesis
  proof cases
    case init
    from res[unfolded init] show ?thesis
      by (cases rule: signing_init_cases) (simp_all add: signing_states_def)
  next
    case start
    then have "signing_inv StateSigningIdle p"
      using inv payload_inv_signing[of StateSigningIdle p] by (simp add: signing_states_def)
    then obtain c where c: "SigningProposalPayload p = Some c"
      by (auto simp: signing_inv_simps signing_some_def split: option.splits)
    from c d(1,2) dist res[unfolded start] show ?thesis
      by (cases rule: signing_start_cases)
         (simp_all add: signing_verdict_state agreed_key_renumbered[OF d(1)])
  next
    case sign
    then obtain c q where c: "SigningProposalPayload p = Some c" "gc_Quorum c = Some q"
      using inv payload_inv_signing[of s p]
      by (auto simp: signing_states_def signing_inv_simps signing_some_def split: option.splits)
    from c sc res[unfolded sign] show ?thesis
      by (cases rule: partial_sign_cases) (simp_all add: signing_verdict_state)
  next
    case error
    then obtain c q where c: "SigningProposalPayload p = Some c" "gc_Quorum c = Some q"
      using inv payload_inv_signing[of s p]
      by (auto simp: signing_states_def signing_inv_simps signing_some_def split: option.splits)
    from c sc res[unfolded error] show ?thesis
      by (cases rule: sign_error_cases) (simp_all add: signing_verdict_state)
  next
    case restart
    with signing_restart_Do[OF restart(1), of args p] res show ?thesis
      by (auto simp: signing_states_def)
  qed
qed

section \<open>No panics\<close>

text \<open>
  The callbacks dereference the confirmation of their machine; once it is allocated it stays
  allocated, and no callback panics.
\<close>

definition safe_res ::
  "(DumpedMachineStatePayload \<Rightarrow> bool) \<Rightarrow> DumpedMachineStatePayload cb_result \<Rightarrow> bool"
where
  "safe_res Q x \<longleftrightarrow> (case x of Inl _ \<Rightarrow> False | Inr (out, p) \<Rightarrow> Q p)"

lemma safe_res_simps [simp]:
  "safe_res Q (ret_err e p) = Q p" "safe_res Q (ret_event ev p) = Q p"
  "safe_res Q (ret_resp ev r p) = Q p" "safe_res Q (Inl x) = False"
  by (simp_all add: safe_res_def ret_defs)

lemma safe_res_obtain: "safe_res Q x \<Longrightarrow> \<exists>out p1. x = Inr (out, p1) \<and> Q p1"
  by (auto simp: safe_res_def split: sum.splits prod.splits)

lemma with_request_safe [intro!]:
  assumes "Q p" and "\<And>a r. args = [a] \<Longrightarrow> cast a = Some r \<Longrightarrow> v r = None \<Longrightarrow> safe_res Q (k r)"
  shows "safe_res Q (with_request m1 m2 cast (total v) args p k)"
proof (cases "length args = 1")
  case True
  then obtain a where "args = [a]" by (cases args) auto
  with assms show ?thesis by (auto simp: with_request_def split: option.splits)
qed (use assms(1) in \<open>simp add: with_request_def\<close>)

definition safe_call :: "action \<Rightarrow> (DumpedMachineStatePayload \<Rightarrow> bool) \<Rightarrow> bool" where
  "safe_call cb Q \<longleftrightarrow> (\<forall>e args p. Q p \<longrightarrow> safe_res Q (cb e args p))"

lemma safe_callD: "safe_call cb Q \<Longrightarrow> Q p \<Longrightarrow> safe_res Q (cb e args p)"
  by (simp add: safe_call_def)

lemma FSM_Do_safe:
  assumes "map_of (fsm_transitions f) (s, e) = Some (tr_public e d)"
    and "map_of (fsm_autoTransitions f) (s, EventRunBefore) = None"
    and "map_of (fsm_callbacks f) e = Some cb"
    and call: "safe_res Q (cb e args p)"
    and autos: "\<And>s' tr. map_of (fsm_autoTransitions f) (s', EventRunAfter) = Some tr \<Longrightarrow>
      \<exists>val. map_of (fsm_callbacks f) (tr_event tr) = Some val \<and> safe_call val Q"
  shows "\<exists>res. FSM_Do e args (in_state f s) p = Inr res"
proof -
  from safe_res_obtain[OF call] obtain out data err p1 where
    c: "cb e args p = Inr ((out, data, err), p1)" "Q p1" by auto
  show ?thesis
  proof (cases err)
    case (Some x)
    with FSM_Do_callback[OF assms(1-3), of args p] c show ?thesis by simp
  next
    case None
    define o' where "o' = (if out = '''' then e else out)"
    have fin: "\<exists>res. do_finish e args out resp (in_state f s) p1 = Inr res" for resp
    proof (cases "map_of (fsm_transitions f) (s, o')")
      case None
      then show ?thesis
        by (auto simp: do_finish_def nextState_def Event_IsEmpty_def SetState_def o'_def)
    next
      case (Some tr)
      have tr: "map_of (fsm_transitions f) (s, if out = '''' then e else out) = Some tr"
        using Some by (simp add: o'_def)
      show ?thesis
      proof (cases "map_of (fsm_autoTransitions f) (tr_dstState tr, EventRunAfter)")
        case None
        from do_finish_plain[OF tr refl None] show ?thesis by simp
      next
        case (Some a)
        from autos[OF Some] obtain val where
          val: "map_of (fsm_callbacks f) (tr_event a) = Some val" "safe_call val Q" by blast
        from safe_res_obtain[OF safe_callD[OF val(2) c(2), of "tr_event a" args]]
        obtain o2 d2 e2 p2 where
          v: "val (tr_event a) args p1 = Inr ((o2, d2, e2), p2)" by auto
        have n: "nextState e out (in_state f s) = (None, in_state f (tr_dstState tr))"
          by (rule nextState_in_state[OF tr])
        obtain e3 g where n2: "nextState (tr_event a) o2 (in_state f (tr_dstState tr)) = (e3, g)"
          by fastforce
        show ?thesis
          by (cases e2; cases e3) (simp_all add: do_finish_def n n2 processAutoEvent_def
              currentState_def Some val(1) isCallbackExists_def execCallback_def v Let_def)
      qed
    qed
    with FSM_Do_callback[OF assms(1-3), of args p] c None show ?thesis by simp
  qed
qed

abbreviation has_sig :: "DumpedMachineStatePayload \<Rightarrow> bool" where
  "has_sig p \<equiv> SignatureProposalPayload p \<noteq> None"
abbreviation has_dkg :: "DumpedMachineStatePayload \<Rightarrow> bool" where
  "has_dkg p \<equiv> DKGProposalPayload p \<noteq> None"
abbreviation has_signing :: "DumpedMachineStatePayload \<Rightarrow> bool" where
  "has_signing p \<equiv> SigningProposalPayload p \<noteq> None \<and> SignatureProposalPayload p \<noteq> None"

lemma sig_safe:
  "safe_call actionProposalResponseByParticipant has_sig"
  "safe_call actionValidateSignatureProposal has_sig"
  unfolding safe_call_def
  by (auto simp: actionProposalResponseByParticipant_def actionValidateSignatureProposal_def
      quorum_op_defs Let_def split: option.splits prod.splits)

lemma dkg_recv_safe:
  "safe_call actionCommitConfirmationReceived has_dkg"
  "safe_call actionDealConfirmationReceived has_dkg"
  "safe_call actionResponseConfirmationReceived has_dkg"
  "safe_call actionMasterKeyConfirmationReceived has_dkg"
  "safe_call dkg_actionConfirmationError has_dkg"
  unfolding safe_call_def dkg_recv_defs dkg_actionConfirmationError_def
  by (auto simp: quorum_op_defs Let_def split: option.splits sum.splits)

lemma dkg_val_safe:
  "safe_call actionValidateDkgProposalAwaitCommits has_dkg"
  "safe_call actionValidateDkgProposalAwaitDeals has_dkg"
  "safe_call actionValidateDkgProposalAwaitResponses has_dkg"
  "safe_call actionValidateDkgProposalAwaitMasterKey has_dkg"
  unfolding safe_call_def actionValidateDkgProposalAwaitCommits_def
    actionValidateDkgProposalAwaitDeals_def actionValidateDkgProposalAwaitResponses_def
    actionValidateDkgProposalAwaitMasterKey_def
  by (auto simp: quorum_op_defs Let_def split: prod.splits)

lemma signing_safe:
  "safe_call actionPartialSignConfirmationReceived has_signing"
  "safe_call signing_actionConfirmationError has_signing"
  "safe_call actionValidateSigningPartialSignsAwaitConfirmations has_signing"
  unfolding safe_call_def actionPartialSignConfirmationReceived_def
    signing_actionConfirmationError_def actionValidateSigningPartialSignsAwaitConfirmations_def
  by (auto simp: quorum_op_defs Let_def touchSignatureProposal_def
      split: option.splits prod.splits SigningParticipantStatus.splits)

lemma auto_callbacks_safe:
  "map_of (fsm_autoTransitions sig_fsm) (s, EventRunAfter) = Some tr \<Longrightarrow>
    \<exists>val. map_of (fsm_callbacks sig_fsm) (tr_event tr) = Some val \<and> safe_call val has_sig"
  "map_of (fsm_autoTransitions dkg_fsm) (s, EventRunAfter) = Some tr \<Longrightarrow>
    \<exists>val. map_of (fsm_callbacks dkg_fsm) (tr_event tr) = Some val \<and> safe_call val has_dkg"
  "map_of (fsm_autoTransitions signing_fsm) (s, EventRunAfter) = Some tr \<Longrightarrow>
    \<exists>val. map_of (fsm_callbacks signing_fsm) (tr_event tr) = Some val \<and> safe_call val has_signing"
proof (goal_cases)
  case 1
  then have "tr_event tr = eventAutoValidateProposalInternal"
    by (auto simp: sig_fsm_def split: if_splits)
  then show ?case using sig_safe by (simp add: sig_callbacks)
next
  case 2
  then have "tr_event tr = eventAutoDKGValidateConfirmationCommitsInternal \<or>
    tr_event tr = eventAutoDKGValidateConfirmationDealsInternal \<or>
    tr_event tr = eventAutoDKGValidateResponsesConfirmationInternal \<or>
    tr_event tr = eventAutoDKGValidateMasterKeyConfirmationInternal"
    by (auto simp: dkg_fsm_def split: if_splits)
  then show ?case using dkg_val_safe by (elim disjE) (simp_all add: dkg_callbacks)
next
  case 3
  then have "tr_event tr = eventAutoSigningValidatePartialSignInternal"
    by (auto simp: signing_fsm_def split: if_splits)
  then show ?case using signing_safe by (simp add: signing_callbacks)
qed

text \<open>An event without a public transition is answered with an error.\<close>

lemma FSM_Do_total:
  assumes "(s, e) \<in> set (public_keys f) \<Longrightarrow> \<exists>res. FSM_Do e args (in_state f s) p = Inr res"
  shows "\<exists>res. FSM_Do e args (in_state f s) p = Inr res"
proof (cases "map_of (fsm_transitions f) (s, e)")
  case None
  from FSM_Do_unrouted[OF this] show ?thesis by simp
next
  case (Some tr)
  show ?thesis
  proof (cases "tr_isInternal tr")
    case True
    from FSM_Do_internal[OF Some True] show ?thesis by simp
  next
    case False
    with map_of_SomeD[OF Some] have "(s, e) \<in> set (public_keys f)"
      by (force simp: public_keys_def)
    then show ?thesis by (rule assms)
  qed
qed

definition no_nil_participant :: "request list \<Rightarrow> bool" where
  "no_nil_participant args \<longleftrightarrow> list_all (\<lambda>a. case a of
     ReqSigInit r \<Rightarrow> list_all (\<lambda>x. x \<noteq> None) (pl_Participants r) | _ \<Rightarrow> True) args"

lemma sig_init_validate_total:
  assumes "pl_Participants r = map Some ps"
  shows "\<exists>e. SignatureProposalParticipantsListRequest_Validate r = Inr e"
proof -
  have "\<exists>e. uniqueUsernames (map Some ps) [] = Inr e"
  proof (cases "uniqueUsernames (map Some ps) []")
    case (Inl x)
    then obtain ps' ys where "map Some ps = map Some ps' @ None # ys"
      unfolding uniqueUsernames_panics by blast
    then have "None \<in> set (map Some ps)" by simp
    then show ?thesis by auto
  qed simp
  then obtain u c where "uniqueUsernames (map Some ps) [] = Inr u" "checkParticipants (map Some ps) = Inr c"
    using checkParticipants_no_panic[of ps] by blast
  then show ?thesis
    by (cases u; cases c) (simp_all add: SignatureProposalParticipantsListRequest_Validate_def assms)
qed

lemma sig_init_total:
  assumes "PubKeys p = None" "IDs p = None" and "no_nil_participant args"
  shows "\<exists>res. FSM_Do EventInitProposal args (in_state sig_fsm StateGlobalIdle) p = Inr res"
proof (cases "\<exists>r. args = [ReqSigInit r] \<and> SignatureProposalParticipantsListRequest_Validate r = Inr None")
  case True
  then obtain r ps where "args = [ReqSigInit r]" "pl_Participants r = map Some ps"
    "SignatureProposalParticipantsListRequest_Validate r = Inr None"
    by (auto simp: sig_init_valid_iff)
  with sig_init_Do[of r ps, OF _ _ assms(1,2) refl] show ?thesis by simp
next
  case False
  have val: "\<exists>x. SignatureProposalParticipantsListRequest_Validate r = Inr (Some x)"
    if "args = [ReqSigInit r]" for r
  proof -
    have "pl_Participants r = map Some (map the (pl_Participants r))"
      using assms(3) that by (induction "pl_Participants r")
        (auto simp: no_nil_participant_def list_all_iff intro!: map_idI[symmetric])
    from sig_init_validate_total[OF this] False that show ?thesis by auto
  qed
  have "\<exists>x. actionInitSignatureProposal EventInitProposal args p = ret_err x p"
    using val by (auto simp: actionInitSignatureProposal_def with_request_def length_Suc_conv
        as_Some_iff split: option.splits) blast
  with FSM_Do_callback[OF sig_transitions(1)[unfolded StateParticipantsConfirmationsInit_def]
      sig_autos(6) sig_callbacks(1), of args p]
  show ?thesis by (auto simp: ret_err_def)
qed

lemma sig_total:
  assumes inv: "payload_inv s p" and "no_nil_participant args"
  shows "\<exists>res. FSM_Do e args (in_state sig_fsm s) p = Inr res"
proof (rule FSM_Do_total)
  assume "(s, e) \<in> set (public_keys sig_fsm)"
  then consider (init) "s = StateGlobalIdle" "e = EventInitProposal"
    | (reply) "s = StateAwaitParticipantsConfirmations" "reply_event e"
    by (simp only: sig_public list.set insert_iff empty_iff prod.inject)
       (elim disjE conjE FalseE; simp)
  then show "\<exists>res. FSM_Do e args (in_state sig_fsm s) p = Inr res"
  proof cases
    case init
    with inv have "p = fresh_payload (DkgId p)" by (simp add: payload_inv_def)
    then have "PubKeys p = None" "IDs p = None"
      by (metis DumpedMachineStatePayload.select_convs(6,7) fresh_payload_def)+
    from sig_init_total[OF this assms(2)] init show ?thesis by simp
  next
    case reply
    then have "has_sig p"
      using inv by (auto simp: payload_inv_sig sig_states_def elim: roster_ok_quorum)
    with sig_safe(1) have "safe_res has_sig (actionProposalResponseByParticipant e args p)"
      by (rule safe_callD)
    from FSM_Do_safe[OF sig_reply_routes(1)[OF reply(2)] sig_autos(6) sig_reply_routes(2)[OF reply(2)]
        this auto_callbacks_safe(1)] reply(1)
    show ?thesis by simp
  qed
qed

lemma dkg_public_route:
  assumes "(s, e) \<in> set (public_keys dkg_fsm)" and "s \<noteq> StateSignatureProposalCollected"
  shows "\<exists>d cb. map_of (fsm_transitions dkg_fsm) (s, e) = Some (tr_public e d) \<and>
    map_of (fsm_callbacks dkg_fsm) e = Some cb \<and> safe_call cb has_dkg \<and> s \<in> set dkg_states"
proof -
  have "\<exists>d cb. map_of (fsm_transitions dkg_fsm) (s, e) = Some (tr_public e d) \<and>
      map_of (fsm_callbacks dkg_fsm) e = Some cb \<and> s \<in> set dkg_states \<and>
      cb \<in> {actionCommitConfirmationReceived, actionDealConfirmationReceived,
        actionResponseConfirmationReceived, actionMasterKeyConfirmationReceived,
        dkg_actionConfirmationError}"
    using assms unfolding dkg_public list.set insert_iff empty_iff prod.inject dkg_states_def
    by (elim disjE conjE FalseE) (simp_all add: dkg_transitions dkg_callbacks)
  then show ?thesis using dkg_recv_safe by blast
qed

lemma dkg_total:
  assumes inv: "payload_inv s p"
  shows "\<exists>res. FSM_Do e args (in_state dkg_fsm s) p = Inr res"
proof (rule FSM_Do_total)
  assume pub: "(s, e) \<in> set (public_keys dkg_fsm)"
  show "\<exists>res. FSM_Do e args (in_state dkg_fsm s) p = Inr res"
  proof (cases "s = StateSignatureProposalCollected")
    case True
    then have e: "e = EventDKGInitProcess"
      using pub by (auto simp: dkg_public names_neq)
    from inv True have r: "roster_ok p" "DKGProposalPayload p = None"
      by (simp_all add: payload_inv_sig sig_states_def)
    from r(1) obtain q where q: "sig_quorum p = Some q" by (rule roster_ok_quorum)
    show ?thesis
    proof (cases "\<exists>r. args = [ReqDefault r]")
      case True
      with dkg_init_Do[OF r q refl] e \<open>s = _\<close> show ?thesis by auto
    next
      case False
      with dkg_init_reject[OF r(2), of args EventDKGInitProcess]
        FSM_Do_callback[OF dkg_transitions(1)[unfolded StateDkgInitial_def] dkg_autos(15)
          dkg_callbacks(1), of args p] e \<open>s = _\<close>
      show ?thesis by (auto simp: ret_err_def)
    qed
  next
    case False
    from dkg_public_route[OF pub False] obtain d cb where
      r: "map_of (fsm_transitions dkg_fsm) (s, e) = Some (tr_public e d)"
        "map_of (fsm_callbacks dkg_fsm) e = Some cb" "safe_call cb has_dkg" "s \<in> set dkg_states"
      by blast
    from inv r(4) have "has_dkg p"
      by (auto simp: payload_inv_dkg elim!: dkg_matches_quorum)
    from FSM_Do_safe[OF r(1) dkg_autos(15) r(2) safe_callD[OF r(3), OF this] auto_callbacks_safe(2)]
    show ?thesis .
  qed
qed

lemma signing_total:
  assumes inv: "payload_inv s p"
  shows "\<exists>res. FSM_Do e args (in_state signing_fsm s) p = Inr res"
proof (rule FSM_Do_total)
  assume "(s, e) \<in> set (public_keys signing_fsm)"
  then consider (init) "s = StateDkgMasterKeyCollected" "e = EventSigningInit"
    | (start) "s = StateSigningIdle" "e = EventSigningStart"
    | (reply) "s = StateSigningAwaitPartialSigns" "sign_event e"
    | (restart) "s = StateSigningPartialSignsCollected \<or>
        s = StateSigningPartialSignsAwaitCancelledByTimeout \<or>
        s = StateSigningPartialSignsAwaitCancelledByError" "e = EventSigningRestart"
    by (simp only: signing_public list.set insert_iff empty_iff prod.inject)
       (elim disjE conjE FalseE; simp)
  then show "\<exists>res. FSM_Do e args (in_state signing_fsm s) p = Inr res"
  proof cases
    case init
    have "safe_res has_sig (actionInitSigningProposal e args p)" if "has_sig p"
      using that by (auto simp: actionInitSigningProposal_def)
    moreover have "has_sig p" using inv init
      by (auto simp: payload_inv_dkg dkg_states_def elim: roster_ok_quorum)
    ultimately obtain out data err p1 where
      c: "actionInitSigningProposal EventSigningInit args p = Inr ((out, data, err), p1)"
      using safe_res_obtain init(2) by (metis prod_cases3)
    have "out = ''''" using c
      by (auto simp: actionInitSigningProposal_def ret_defs elim!: with_request_cases)
    note tr = signing_transitions(1)[unfolded StateSigningInitial_def]
    with FSM_Do_callback[OF tr signing_autos(7) signing_callbacks(1), of args p] c init
      do_finish_plain[OF _ _ signing_autos(2), of StateDkgMasterKeyCollected "''''" EventSigningInit]
      \<open>out = ''''\<close>
    show ?thesis by (cases err) simp_all
  next
    case start
    then have "signing_inv StateSigningIdle p" "has_dkg p" and m: "dkg_matches p" "roster_ok p"
      using inv payload_inv_signing[of StateSigningIdle p]
      by (auto simp: signing_states_def elim!: dkg_matches_quorum)
    then obtain c dc dq sq where c: "SigningProposalPayload p = Some c"
        "DKGProposalPayload p = Some dc" "dc_Quorum dc = Some dq" "sig_quorum p = Some sq"
        "keys dq = keys sq"
      by (auto simp: signing_inv_simps signing_some_def split: option.splits elim!: dkg_matches_quorum)
    have "distinct (keys dq)" using roster_keys[OF m(2) c(4)] c(5) by simp
    note do = signing_start_Do[OF c(1-3) this _ refl]
    show ?thesis
    proof (cases "\<exists>r. args = [ReqSigningStart r] \<and> SigningBatchProposalStartRequest_Validate r = None")
      case True
      with do start show ?thesis by auto
    next
      case False
      then have "\<exists>x. actionStartSigningProposal EventSigningStart args p = ret_err x p"
        by (auto simp: actionStartSigningProposal_def with_request_def length_Suc_conv as_Some_iff
            split: option.splits)
      with FSM_Do_callback[OF signing_transitions(2) signing_autos(7) signing_callbacks(2), of args p]
        start show ?thesis by (auto simp: ret_err_def)
    qed
  next
    case reply
    then have "has_signing p"
      using inv payload_inv_signing[of s p]
      by (auto simp: signing_states_def signing_inv_simps signing_some_def split: option.splits
          elim!: roster_ok_quorum)
    moreover have "safe_call (sign_action e) has_signing"
      using signing_safe by (simp add: sign_action_def)
    ultimately have "safe_res has_signing (sign_action e e args p)" by (rule safe_callD[rotated])
    from FSM_Do_safe[OF sign_routes(1)[OF reply(2)] signing_autos(7) sign_routes(2)[OF reply(2)]
        this auto_callbacks_safe(3)] reply(1)
    show ?thesis by simp
  next
    case restart
    from signing_restart_Do[OF restart(1), of args p] restart(2) show ?thesis by simp
  qed
qed

lemma reachable_no_panic:
  assumes "round_reachable d" and "no_nil_participant args"
    and "FromDump (DumpJSON d) = Inr (Inr i)"
  shows "\<exists>res. FSMInstance_Do e args i = Inr res"
proof -
  note inv = reachable_inv(1)[OF assms(1)]
  from assms(3) obtain m where m: "machine_of (dump_State d) = Some m"
    and i: "i = \<lparr>fi_machine = Some (in_state m (dump_State d)), fi_dump = Some d\<rparr>"
    by (auto simp: FromDump_eq split: option.splits)
  have "\<exists>res. FSM_Do e args (in_state m (dump_State d)) (dump_Payload d) = Inr res"
    using m sig_total[OF inv assms(2)] dkg_total[OF inv] signing_total[OF inv]
    by (cases rule: machine_of_cases) simp_all
  then obtain result err g p' where
    "FSM_Do e args (in_state m (dump_State d)) (dump_Payload d) = Inr ((result, err), g, p')"
    by (metis surj_pair)
  then show ?thesis
    by (cases result) (simp_all add: FSMInstance_Do_def i Let_def Marshal_def)
qed

section \<open>Reloading\<close>

text \<open>The states of a round that no machine has as a source.\<close>

definition dead_states :: "State list" where
  "dead_states = [StateValidationCanceledByParticipant, StateValidationCanceledByTimeout,
     StateDkgCommitsAwaitCanceledByTimeout, StateDkgDealsAwaitCanceledByTimeout,
     StateDkgResponsesAwaitCanceledByTimeout, StateDkgMasterKeyAwaitCanceledByTimeout]"

lemma payload_inv_states:
  assumes "payload_inv s p"
  shows "s = StateGlobalIdle \<or> s \<in> set sig_states \<or> s \<in> set dkg_states \<or> s \<in> set signing_states"
  using assms by (auto simp: payload_inv_def split: if_splits)

lemma machine_of_live:
  assumes "payload_inv s p"
  shows "machine_of s = None \<longleftrightarrow> s \<in> set dead_states"
proof
  assume "s \<in> set dead_states"
  then show "machine_of s = None"
    by (auto simp: dead_states_def machine_of_def sig_lists dkg_lists signing_lists names_neq)
next
  assume none: "machine_of s = None"
  then have "s \<notin> set (StatesList sig_fsm)" "s \<notin> set (StatesList dkg_fsm)"
    "s \<notin> set (StatesList signing_fsm)"
    by (auto simp: machine_of_def split: if_splits)
  with payload_inv_states[OF assms] show "s \<in> set dead_states"
    by (auto simp: dead_states_def sig_lists dkg_lists signing_lists states_defs)
qed

lemma reachable_json:
  assumes "round_reachable d"
  shows "Marshal d = Inr (DumpJSON d)"
  using assms
proof (cases rule: round_reachable.cases)
  case (created dkgID i)
  then have "dump_Payload d = fresh_payload (TrimSpace dkgID)"
    by (auto simp: Create_eq split: if_splits)
  then show ?thesis by (simp add: Marshal_def payload_times_def fresh_payload_def)
next
  case (stepped d0 e args)
  then obtain i r i' where "FSMInstance_Do e args i = Inr ((Some r, DumpJSON d, None), i')"
    by (auto elim: round_stepE)
  then show ?thesis
    by (auto simp: FSMInstance_Do_def Let_def Marshal_def split: option.splits sum.splits if_splits)
qed

section \<open>The deadline of a batch\<close>

lemma signing_no_timeout:
  assumes inv: "payload_inv StateSigningAwaitPartialSigns p"
    and c0: "SigningProposalPayload p = Some c" and ex: "0 \<le> gc_ExpiresAt c"
    and res: "FSM_Do e args (in_state signing_fsm StateSigningAwaitPartialSigns) p =
      Inr ((Some r, None), g, p')"
  shows "resp_State r \<noteq> StateSigningPartialSignsAwaitCancelledByTimeout"
proof -
  have S: "StateSigningAwaitPartialSigns \<in> set signing_states" by (simp add: signing_states_def)
  note base = signing_base[OF inv S]
  from base(5) c0 obtain q where c: "gc_Quorum c = Some q" "gc_UpdatedAt c = 0"
    by (auto simp: signing_inv_simps signing_some_def split: option.splits)
  from base(1) obtain sc where sc: "SignatureProposalPayload p = Some sc" by (rule roster_ok_quorum)
  have v: "signing_verdict th c' \<noteq> StateSigningPartialSignsAwaitCancelledByTimeout"
    if "gc_UpdatedAt c' = 0" "gc_ExpiresAt c' = gc_ExpiresAt c" for th c'
    using that ex by (simp add: signing_verdict_def names_neq)
  from FSM_Do_public[OF res] have "sign_event e" by (auto simp: signing_public names_neq)
  then show ?thesis
  proof
    assume e: "e = EventSigningPartialSignReceived"
    from c0 c(1) sc res[unfolded e] show ?thesis
      by (cases rule: partial_sign_cases) (use c(2) v in \<open>simp_all add: signing_signed_def\<close>)
  next
    assume e: "e = EventSigningPartialSignError"
    from c0 c(1) sc res[unfolded e] show ?thesis
      by (cases rule: sign_error_cases) (use c(2) v in \<open>simp_all add: signing_failed_def\<close>)
  qed
qed

end
