(* ===== verification/Sample_Round.thy ===== *)
theory Sample_Round
  imports Round_Signing
begin

text \<open>
  A complete run of a round with two participants, evaluated in the kernel: reachable dumps at
  the interesting points, on which the theorems about reachable dumps are instantiated.
\<close>

section \<open>The participants\<close>

definition sample_key :: "8 word \<Rightarrow> bytes" where
  "sample_key w = replicate 32 w"

definition sample_entries :: "SignatureProposalParticipantsEntry list" where
  "sample_entries =
    [\<lparr>pe_Username = ''alice'', pe_PubKey = sample_key 1, pe_DkgPubKey = sample_key 2\<rparr>,
     \<lparr>pe_Username = ''bob'', pe_PubKey = sample_key 3, pe_DkgPubKey = sample_key 4\<rparr>]"

definition sample_init :: SignatureProposalParticipantsListRequest where
  "sample_init = \<lparr>pl_Participants = map Some sample_entries, pl_SigningThreshold = 2, pl_CreatedAt = 1\<rparr>"

definition sample_sig ::
  "ConfirmationParticipantStatus \<Rightarrow> time \<Rightarrow> ConfirmationParticipantStatus \<Rightarrow> time \<Rightarrow> time \<Rightarrow>
   SignatureConfirmation"
where
  "sample_sig st0 t0 st1 t1 t = \<lparr>sc_Quorum = Some
      [(0, \<lparr>sp_ParticipantID = 0, sp_Username = ''alice'', sp_PubKey = sample_key 1,
            sp_DkgPubKey = sample_key 2, sp_InvitationSecret = '''', sp_Status = st0,
            sp_Threshold = 2, sp_UpdatedAt = t0\<rparr>),
       (1, \<lparr>sp_ParticipantID = 1, sp_Username = ''bob'', sp_PubKey = sample_key 3,
            sp_DkgPubKey = sample_key 4, sp_InvitationSecret = '''', sp_Status = st1,
            sp_Threshold = 2, sp_UpdatedAt = t1\<rparr>)],
     sc_CreatedAt = 1, sc_UpdatedAt = t, sc_ExpiresAt = 604800000000001\<rparr>"

definition sample_payload ::
  "SignatureConfirmation \<Rightarrow> DKGConfirmation option \<Rightarrow> SigningConfirmation option \<Rightarrow>
   DumpedMachineStatePayload"
where
  "sample_payload sc dc gc = \<lparr>DkgId = ''round'', Threshold = 2, SignatureProposalPayload = Some sc,
     DKGProposalPayload = dc, SigningProposalPayload = gc,
     PubKeys = Some [(''alice'', sample_key 1), (''bob'', sample_key 3)],
     IDs = Some [(''alice'', 0), (''bob'', 1)]\<rparr>"

definition sample_dump :: "State \<Rightarrow> DumpedMachineStatePayload \<Rightarrow> FSMDump" where
  "sample_dump s p = \<lparr>TransactionId = ''round'', dump_State = s, dump_Payload = p\<rparr>"

section \<open>Signature proposal\<close>

definition sample_awaiting :: FSMDump where
  "sample_awaiting = sample_dump StateAwaitParticipantsConfirmations (sample_payload
     (sample_sig SigConfirmationConfirmed 2 SigConfirmationAwaitConfirmation 1 2) None None)"

definition sample_agreed :: FSMDump where
  "sample_agreed = sample_dump StateSignatureProposalCollected (sample_payload
     (sample_sig SigConfirmationConfirmed 2 SigConfirmationConfirmed 3 3) None None)"

lemma sample_awaiting_run:
  "round_exec (new_dump ''round'') [(EventInitProposal, [ReqSigInit sample_init]),
     (EventConfirmSignatureProposal, [sig_reply 0 2])] = Some sample_awaiting"
  by code_simp

lemma sample_agreed_run:
  "round_exec sample_awaiting [(EventConfirmSignatureProposal, [sig_reply 1 3])] =
     Some sample_agreed"
  by code_simp

lemma sample_trim: "TrimSpace ''round'' = ''round''"
  by code_simp

lemma sample_awaiting_reachable: "round_reachable sample_awaiting"
  using round_exec_reachable[OF new_dump_reachable[OF sample_trim] sample_awaiting_run] by simp

lemma sample_agreed_reachable: "round_reachable sample_agreed"
  by (rule round_exec_reachable[OF sample_awaiting_reachable sample_agreed_run])

section \<open>DKG\<close>

definition sample_part ::
  "int \<Rightarrow> string \<Rightarrow> 8 word \<Rightarrow> bytes \<Rightarrow> bytes \<Rightarrow> bytes \<Rightarrow> bytes \<Rightarrow> DKGParticipantStatus \<Rightarrow> time \<Rightarrow>
   int \<times> DKGProposalParticipant"
where
  "sample_part i name w c d r m st t = (i, \<lparr>dp_ParticipantID = i, dp_Username = name,
     dp_DkgPubKey = sample_key w, dp_DkgCommit = c, dp_DkgDeal = d, dp_DkgResponse = r,
     dp_DkgMasterKey = m, dp_Status = st, dp_Error = None, dp_UpdatedAt = t\<rparr>)"

definition sample_dkg :: "DKGProposalQuorum \<Rightarrow> time \<Rightarrow> bytes \<Rightarrow> DKGConfirmation" where
  "sample_dkg q t poly = \<lparr>dc_Quorum = Some q, dc_CreatedAt = 4, dc_UpdatedAt = t,
     dc_ExpiresAt = 604800000000004, dc_PubPolyBz = poly\<rparr>"

definition sample_dkg_dump :: "State \<Rightarrow> DKGConfirmation \<Rightarrow> FSMDump" where
  "sample_dkg_dump s c = sample_dump s (sample_payload
     (sample_sig SigConfirmationConfirmed 2 SigConfirmationConfirmed 3 3) (Some c) None)"

definition sample_commits :: FSMDump where
  "sample_commits = sample_dkg_dump StateDkgCommitsAwaitConfirmations (sample_dkg
     [sample_part 0 ''alice'' 2 [1] [] [] [] CommitConfirmed 5,
      sample_part 1 ''bob'' 4 [] [] [] [] CommitAwaitConfirmation 3] 5 [])"

definition sample_deals :: FSMDump where
  "sample_deals = sample_dkg_dump StateDkgDealsAwaitConfirmations (sample_dkg
     [sample_part 0 ''alice'' 2 [1] [] [] [] DealAwaitConfirmation 5,
      sample_part 1 ''bob'' 4 [2] [] [] [] DealAwaitConfirmation 6] 6 [])"

definition sample_responses :: FSMDump where
  "sample_responses = sample_dkg_dump StateDkgResponsesAwaitConfirmations (sample_dkg
     [sample_part 0 ''alice'' 2 [1] [1] [] [] ResponseAwaitConfirmation 7,
      sample_part 1 ''bob'' 4 [2] [2] [] [] ResponseAwaitConfirmation 8] 8 [])"

definition sample_keys :: FSMDump where
  "sample_keys = sample_dkg_dump StateDkgMasterKeyAwaitConfirmations (sample_dkg
     [sample_part 0 ''alice'' 2 [1] [1] [1] [7] MasterKeyConfirmed 11,
      sample_part 1 ''bob'' 4 [2] [2] [2] [] MasterKeyAwaitConfirmation 10] 11 [8])"

definition sample_final :: "DKGConfirmation" where
  "sample_final = sample_dkg
     [sample_part 0 ''alice'' 2 [1] [1] [1] [7] MasterKeyConfirmed 11,
      sample_part 1 ''bob'' 4 [2] [2] [2] [7] MasterKeyConfirmed 12] 12 [8]"

definition sample_master :: FSMDump where
  "sample_master = sample_dkg_dump StateDkgMasterKeyCollected sample_final"

lemma sample_commits_run:
  "round_exec sample_agreed [(EventDKGInitProcess, [ReqDefault \<lparr>dr_CreatedAt = 4\<rparr>]),
     (EventDKGCommitConfirmationReceived, [mk_commit 0 [1] [] 5])] = Some sample_commits"
  by code_simp

lemma sample_deals_run:
  "round_exec sample_commits [(EventDKGCommitConfirmationReceived, [mk_commit 1 [2] [] 6])] =
     Some sample_deals"
  by code_simp

lemma sample_responses_run:
  "round_exec sample_deals [(EventDKGDealConfirmationReceived, [mk_deal 0 [1] [] 7]),
     (EventDKGDealConfirmationReceived, [mk_deal 1 [2] [] 8])] = Some sample_responses"
  by code_simp

lemma sample_keys_run:
  "round_exec sample_responses [(EventDKGResponseConfirmationReceived, [mk_response 0 [1] [] 9]),
     (EventDKGResponseConfirmationReceived, [mk_response 1 [2] [] 10]),
     (EventDKGMasterKeyConfirmationReceived, [mk_master_key 0 [7] [8] 11])] = Some sample_keys"
  by code_simp

lemma sample_master_run:
  "round_exec sample_keys [(EventDKGMasterKeyConfirmationReceived, [mk_master_key 1 [7] [8] 12])] =
     Some sample_master"
  by code_simp

lemma sample_commits_reachable: "round_reachable sample_commits"
  by (rule round_exec_reachable[OF sample_agreed_reachable sample_commits_run])

lemma sample_deals_reachable: "round_reachable sample_deals"
  by (rule round_exec_reachable[OF sample_commits_reachable sample_deals_run])

lemma sample_responses_reachable: "round_reachable sample_responses"
  by (rule round_exec_reachable[OF sample_deals_reachable sample_responses_run])

lemma sample_keys_reachable: "round_reachable sample_keys"
  by (rule round_exec_reachable[OF sample_responses_reachable sample_keys_run])

lemma sample_master_reachable: "round_reachable sample_master"
  by (rule round_exec_reachable[OF sample_keys_reachable sample_master_run])

section \<open>Signing\<close>

definition sample_start :: SigningBatchProposalStartRequest where
  "sample_start = \<lparr>bs_BatchID = ''batch'', bs_ParticipantId = 0, bs_CreatedAt = 14,
     bs_SigningTasks = [\<lparr>st_MessageID = ''m'', st_File = '''', st_Payload = Some [1],
       st_RangeStart = 0, st_RangeEnd = 0\<rparr>]\<rparr>"

definition sample_signer ::
  "int \<Rightarrow> string \<Rightarrow> SigningParticipantStatus \<Rightarrow> ((string, bytes) gomap) option \<Rightarrow> time \<Rightarrow>
   int \<times> SigningProposalParticipant"
where
  "sample_signer i name st signs t = (i, \<lparr>gp_ParticipantID = i, gp_Username = name,
     gp_Status = st, gp_PartialSigns = signs, gp_Error = None, gp_UpdatedAt = t\<rparr>)"

definition sample_signing :: "SigningProposalQuorum \<Rightarrow> SigningConfirmation" where
  "sample_signing q = \<lparr>gc_BatchID = ''batch'', gc_InitiatorId = 0, gc_Quorum = Some q,
     gc_RecoveredKey = [], gc_SrcPayload = bs_SigningTasks sample_start, gc_EncryptedPayload = [],
     gc_CreatedAt = 14, gc_UpdatedAt = 0, gc_ExpiresAt = 604800000000013\<rparr>"

definition sample_signing_dump :: "State \<Rightarrow> time \<Rightarrow> SigningConfirmation \<Rightarrow> FSMDump" where
  "sample_signing_dump s t c = sample_dump s (sample_payload
     (sample_sig SigConfirmationConfirmed 2 SigConfirmationConfirmed 3 t) (Some sample_final) (Some c))"

definition sample_idle :: FSMDump where
  "sample_idle = sample_signing_dump StateSigningIdle 3 (signing_init 13)"

definition sample_batch :: FSMDump where
  "sample_batch = sample_signing_dump StateSigningAwaitPartialSigns 15 (sample_signing
     [sample_signer 0 ''alice'' SigningPartialSignsConfirmed (Some [(''m'', [5])]) 15,
      sample_signer 1 ''bob'' SigningAwaitPartialSigns None 14])"

definition sample_signed :: FSMDump where
  "sample_signed = sample_signing_dump StateSigningPartialSignsCollected 16 (sample_signing
     [sample_signer 0 ''alice'' SigningProcess (Some [(''m'', [5])]) 15,
      sample_signer 1 ''bob'' SigningProcess (Some [(''m'', [6])]) 16])"

abbreviation sample_sign :: "int \<Rightarrow> 8 word \<Rightarrow> time \<Rightarrow> request" where
  "sample_sign i w t \<equiv> partial_signs ''batch'' i [\<lparr>ps_MessageID = ''m'', ps_Sign = [w]\<rparr>] t"

lemma sample_idle_run:
  "round_exec sample_master [(EventSigningInit, [ReqDefault \<lparr>dr_CreatedAt = 13\<rparr>])] = Some sample_idle"
  by code_simp

lemma sample_batch_run:
  "round_exec sample_idle [(EventSigningStart, [ReqSigningStart sample_start]),
     (EventSigningPartialSignReceived, [sample_sign 0 5 15])] = Some sample_batch"
  by code_simp

lemma sample_signed_run:
  "round_exec sample_batch [(EventSigningPartialSignReceived, [sample_sign 1 6 16])] =
     Some sample_signed"
  by code_simp

lemma sample_idle_reachable: "round_reachable sample_idle"
  by (rule round_exec_reachable[OF sample_master_reachable sample_idle_run])

lemma sample_batch_reachable: "round_reachable sample_batch"
  by (rule round_exec_reachable[OF sample_idle_reachable sample_batch_run])

lemma sample_signed_reachable: "round_reachable sample_signed"
  by (rule round_exec_reachable[OF sample_batch_reachable sample_signed_run])

lemmas sample_defs = sample_awaiting_def sample_agreed_def sample_commits_def sample_deals_def
  sample_responses_def sample_keys_def sample_master_def sample_idle_def sample_batch_def
  sample_signed_def sample_dump_def sample_dkg_dump_def sample_signing_dump_def sample_payload_def
  sample_sig_def sample_dkg_def sample_part_def sample_final_def sample_signing_def sample_signer_def

end
