(* ===== verification/Node_Rounds.thy ===== *)
theory Node_Rounds
  imports Node_Invariants Round_Safety Sample_Round
begin

text \<open>
  The rounds a node stores.  Each service of the node writes under keys of its own, so the only
  writers of the rounds are \<open>SaveFSM\<close> and the creation of a round; what they store satisfies the
  invariant of a round, whatever messages arrive.
\<close>

section \<open>Which keys a service writes\<close>

definition same_but :: "'db leveldb \<Rightarrow> string set \<Rightarrow> 'db LevelDBState \<Rightarrow> 'db LevelDBState \<Rightarrow> bool" where
  "same_but L K s s' \<longleftrightarrow> topic s' = topic s \<and>
     (\<forall>k. k \<notin> K \<longrightarrow> LevelDBState_Get L s' k = LevelDBState_Get L s k)"

lemma same_but_refl [simp]: "same_but L K s s"
  by (simp add: same_but_def)

lemma same_but_trans: "same_but L K s s' \<Longrightarrow> same_but L K s' s'' \<Longrightarrow> same_but L K s s''"
  by (simp add: same_but_def)

lemma same_but_mono: "same_but L K s s' \<Longrightarrow> K \<subseteq> K' \<Longrightarrow> same_but L K' s s'"
  by (auto simp: same_but_def)

lemma same_but_set:
  "leveldb_ok L \<Longrightarrow> LevelDBState_Set L k v s = (err, s') \<Longrightarrow> same_but L {k} s s'"
  unfolding same_but_def using state_set_any(2,3) by blast

lemma same_but_offset:
  "leveldb_ok L \<Longrightarrow> LevelDBState_SaveOffset L w s = (err, s') \<Longrightarrow>
   same_but L {MakeCompositeKey (topic s) OffsetKey} s s'"
  unfolding same_but_def using offset_any by blast

lemma same_but_store:
  assumes "leveldb_ok L" and "storeOperations L J m1 m2 k ops r = (err, r')"
  shows "same_but L {k} (repo_state r) (repo_state r')"
    "operationsCompositeKey r' = operationsCompositeKey r"
    "deleteOperationsCompositeKey r' = deleteOperationsCompositeKey r"
  using assms(2)
  by (auto simp: storeOperations_def split: sum.splits option.splits prod.splits dest: same_but_set[OF assms(1)])

lemma same_but_put:
  assumes "leveldb_ok L" and "Service_PutOperation L J op r = (err, r')"
  shows "same_but L {operationsCompositeKey r} (repo_state r) (repo_state r')"
  using assms(2)
  by (auto simp: Service_PutOperation_def PutOperation_def split: sum.splits option.splits prod.splits if_splits
      dest: same_but_store(1)[OF assms(1)])

lemma same_but_delete:
  assumes "leveldb_ok L" and "Service_DeleteOperation L J op r = (err, r')"
  shows "same_but L {operationsCompositeKey r, deleteOperationsCompositeKey r} (repo_state r) (repo_state r')"
proof -
  let ?K = "{operationsCompositeKey r, deleteOperationsCompositeKey r}"
  have one: "same_but L ?K (repo_state q) (repo_state q')"
    if "storeOperations L J m1 m2 k ops q = (e, q')" "k \<in> ?K" for m1 m2 k ops q e q'
    using same_but_mono[OF same_but_store(1)[OF assms(1) that(1)]] that(2) by blast
  obtain err0 where "DeleteOperation L J op r = (err0, r')"
    using assms(2) by (auto simp: Service_DeleteOperation_def split: prod.splits option.splits)
  then consider "r' = r"
    | ops e1 r1 m1 m2 where "storeOperations L J m1 m2 (deleteOperationsCompositeKey r) ops r = (e1, r1)"
      "r' = r1 \<or> (\<exists>m3 m4 ops' e2. storeOperations L J m3 m4 (operationsCompositeKey r1) ops' r1 = (e2, r'))"
    by (simp add: DeleteOperation_def split: sum.split_asm option.split_asm prod.split_asm if_split_asm; blast)
  then show ?thesis
  proof cases
    case 2
    with same_but_store(2)[OF assms(1) 2(1)] one[OF 2(1)] show ?thesis
      by (auto dest!: one intro: same_but_trans)
  qed simp
qed

lemma same_but_signatures:
  assumes "leveldb_ok L" and "SaveSignatures L J ss s = Inr (err, s')"
  shows "same_but L (range (MakeCompositeKeyString SignaturesKeyPrefix)) s s'"
proof (cases "s' = s")
  case False
  with assms(2) obtain first rest stored where "ss = first # rest" "GetSignatures L J s (rs_DKGRoundID first) = Inr stored"
    by (auto simp: SaveSignatures_def split: list.split_asm sum.split_asm)
  with assms(2) obtain x where "(case sj_Marshal J x of
      Inl e \<Rightarrow> Inr (Some (Wrapf ''failed to marshal signatures: %w'' [] e), s)
    | Inr bz \<Rightarrow> (case LevelDBState_Set L (MakeCompositeKeyString SignaturesKeyPrefix (rs_DKGRoundID first)) bz s of
          (Some e, s) \<Rightarrow> Inr (Some (Wrapf ''failed to save signatures: %w'' [] e), s)
        | (None, s) \<Rightarrow> Inr (None, s))) = (Inr (err, s') :: (error option \<times> 'a LevelDBState) go)"
    by (simp add: SaveSignatures_def [unfolded Let_def] del: foldR.simps) blast
  with False obtain bz err0 where
    "LevelDBState_Set L (MakeCompositeKeyString SignaturesKeyPrefix (rs_DKGRoundID first)) bz s = (err0, s')"
    by (auto split: sum.split_asm option.split_asm prod.split_asm)
  from same_but_set[OF assms(1) this] show ?thesis by (rule same_but_mono) auto
qed simp

section \<open>The invariant of a node\<close>

definition dump_ok :: "dump_data \<Rightarrow> bool" where
  "dump_ok data = (case data of DumpEmpty \<Rightarrow> True | DumpJSON d \<Rightarrow> round_inv d)"

definition inst_ok :: "FSMInstance \<Rightarrow> bool" where
  "inst_ok i \<longleftrightarrow> (\<exists>d. round_inv d \<and> FromDump (DumpJSON d) = Inr (Inr i))"

definition rounds_ok :: "'db leveldb \<Rightarrow> fsms_json \<Rightarrow> 'db FSMService \<Rightarrow> bool" where
  "rounds_ok L J f \<longleftrightarrow> (\<forall>m d dump. getAllFSMData L J f = Inr m \<longrightarrow>
     map_of (entries m) d = Some dump \<longrightarrow> dump_ok dump)"

text \<open>The key of the rounds is made from the topic and differs from the keys of the other services.\<close>

definition keys_apart :: "('db, 'st) node \<Rightarrow> bool" where
  "keys_apart n \<longleftrightarrow> topic (nd_state n) @ ''_'' @ FSMStateKey = nd_stateKey n \<and>
     nd_stateKey n \<noteq> nd_operationsKey n \<and> nd_stateKey n \<noteq> nd_deletedKey n \<and>
     nd_stateKey n \<noteq> MakeCompositeKey (topic (nd_state n)) OffsetKey \<and>
     nd_stateKey n \<notin> range (MakeCompositeKeyString SignaturesKeyPrefix)"

definition node_ok :: "('db, 'st) node_env \<Rightarrow> ('db, 'st) node \<Rightarrow> bool" where
  "node_ok env n \<longleftrightarrow> leveldb_ok (ne_leveldb env) \<and> fsms_json_ok (ne_fsms env) \<and> keys_apart n \<and>
     rounds_ok (ne_leveldb env) (ne_fsms env) (fsmService n)"

lemma rounds_ok_frame:
  assumes "same_but L K (fs_state f) (fs_state f')" and "fs_stateKey f' = fs_stateKey f" and "fs_stateKey f \<notin> K"
  shows "rounds_ok L J f' \<longleftrightarrow> rounds_ok L J f"
  using assms by (simp add: rounds_ok_def getAllFSMData_def getStateKey_def same_but_def)

lemma node_ok_frame:
  assumes "node_ok env n" and "same_but (ne_leveldb env) K (nd_state n) s" and "nd_stateKey n \<notin> K"
  shows "node_ok env (n\<lparr>nd_state := s\<rparr>)"
proof -
  have "topic s = topic (nd_state n)" using assms(2) by (simp add: same_but_def)
  moreover have "rounds_ok (ne_leveldb env) (ne_fsms env) (fsmService (n\<lparr>nd_state := s\<rparr>)) \<longleftrightarrow>
      rounds_ok (ne_leveldb env) (ne_fsms env) (fsmService n)"
    by (rule rounds_ok_frame[where K = K]) (use assms(2,3) in \<open>simp_all add: fsmService_def\<close>)
  ultimately show ?thesis using assms(1) by (simp add: node_ok_def keys_apart_def)
qed

text \<open>Saving: whether the write succeeds or not, the store has the old rounds or the new one besides.\<close>

lemma SaveFSM_rounds:
  assumes "leveldb_ok L" and "fsms_json_ok J" and "rounds_ok L J f" and "dump_ok dump"
    and "SaveFSM L J d dump f = Inr (err, f')"
  shows "rounds_ok L J f' \<and> fs_stateKey f' = fs_stateKey f \<and> topic (fs_state f') = topic (fs_state f)"
proof (cases "f' = f")
  case False
  with assms(5) obtain m bz err0 s where m: "getAllFSMData L J f = Inr (Some m)"
    and bz: "fj_Marshal J (AList.update d dump m) = Inr bz"
    and s: "LevelDBState_Set L (fs_stateKey f) bz (fs_state f) = (err0, s)" "f' = f\<lparr>fs_state := s\<rparr>"
    by (auto simp: SaveFSM_def getStateKey_def split: sum.splits option.splits prod.splits)
  from assms(2) bz obtain m' where m': "bz \<noteq> []" "fj_Unmarshal J bz = Inr (Some m')"
    "map_of m' = (map_of m)(d \<mapsto> dump)"
    by (auto simp: fsms_json_ok_def) (metis map_of_update)
  have old: "dump_ok x" if "map_of m k = Some x" for k x
    using assms(3) m that by (auto simp: rounds_ok_def)
  have "getAllFSMData L J f' = Inr (Some m) \<or> getAllFSMData L J f' = Inr (Some m')"
    using state_set_any(1)[OF assms(1) s(1)] m m'(1,2)
    by (auto simp: getAllFSMData_def getStateKey_def s(2) byte_len_def)
  then have "rounds_ok L J f'"
    using old assms(4) m'(3) by (auto simp: rounds_ok_def split: if_splits)
  with state_set_any(3)[OF assms(1) s(1)] show ?thesis by (simp add: s(2))
qed (use assms(3) in simp)

lemma load_inst_ok:
  assumes "rounds_ok L J f" and "loadFSM L J d f = Inr (Inr (Some i))"
  shows "inst_ok i"
proof -
  from assms(2) obtain m dump where m: "getAllFSMData L J f = Inr m" "map_of (entries m) d = Some dump"
    "restored dump = Inr (Inr (Some i))"
    by (auto simp: loadFSM_def restored_def split: sum.split_asm option.split_asm)
  then have i: "FromDump dump = Inr (Inr i)"
    by (cases "FromDump dump") (auto simp: restored_def split: sum.split_asm)
  from assms(1) m(1,2) have "dump_ok dump" by (auto simp: rounds_ok_def)
  with i show ?thesis
    by (cases dump) (auto simp: dump_ok_def inst_ok_def FromDump_def)
qed

lemma fresh_dump_ok: "TrimSpace d \<noteq> '''' \<Longrightarrow> round_inv (fresh_dump d)"
  using round.initially[of d] by (simp add: fresh_dump_def)

lemma fresh_inst_ok: "TrimSpace d \<noteq> '''' \<Longrightarrow> inst_ok (fresh_instance d)"
  unfolding inst_ok_def
  by (rule exI[of _ "fresh_dump d"])
     (simp add: fresh_dump_ok, simp add: FromDump_eq machine_of_sig sig_lists fresh_dump_def fresh_instance_def)

lemma GetFSMInstance_rounds:
  assumes "leveldb_ok L" and "fsms_json_ok J" and "rounds_ok L J f"
    and "GetFSMInstance L J d c f = Inr (r, f')"
  shows "rounds_ok L J f' \<and> fs_stateKey f' = fs_stateKey f \<and> topic (fs_state f') = topic (fs_state f) \<and>
    (\<forall>i. r = Inr i \<longrightarrow> inst_ok i)"
proof -
  from assms(4) obtain v where v: "loadFSM L J d f = Inr v" by (auto simp: GetFSMInstance_def)
  show ?thesis
  proof (cases v)
    case (Inl e)
    with assms(3,4) v show ?thesis by (auto simp: GetFSMInstance_def)
  next
    case (Inr w)
    show ?thesis
    proof (cases w)
      case (Some i)
      with load_inst_ok[OF assms(3)] assms(3,4) v Inr show ?thesis by (auto simp: GetFSMInstance_def)
    next
      case None
      with v Inr have missing: "GetFSMInstance L J d c f =
        (if \<not> c then Inr (Inl (Errorf ''no FSM instance found for the given dkgID %s'' [AStr d]), f)
         else if TrimSpace d = '''' then Inr (Inl (Wrapf ''failed to create FSM instance: %w'' []
           (errorsNew ''empty {dkgID}'')), f)
         else bindR (SaveFSM L J d (DumpJSON (fresh_dump d)) f) (\<lambda>(err, f). case err of
             Some e \<Rightarrow> Inr (Inl (Wrapf ''failed to SaveFSM: %w'' [] e), f)
           | None \<Rightarrow> Inr (Inr (fresh_instance d), f)))"
        by (simp add: GetFSMInstance_def Create_fresh fresh_instance_dump)
      show ?thesis
      proof (cases "c \<and> TrimSpace d \<noteq> ''''")
        case True
        with assms(4)[unfolded missing] obtain err where s: "SaveFSM L J d (DumpJSON (fresh_dump d)) f = Inr (err, f')"
          and r: "\<And>i. r = Inr i \<Longrightarrow> i = fresh_instance d"
          by (auto split: option.split_asm)
        from SaveFSM_rounds[OF assms(1-3) _ s] fresh_dump_ok fresh_inst_ok r True
        show ?thesis by (auto simp: dump_ok_def)
      next
        case False
        with assms(3,4) missing show ?thesis by (auto split: if_splits)
      qed
    qed
  qed
qed

lemma load_node_ok: "keeps (node_ok env) (node_GetFSMInstance env d c) inst_ok"
proof (rule keepsI)
  fix n r n'
  assume n: "node_ok env n" "node_GetFSMInstance env d c n = Inr (r, n')"
  then obtain f' where f': "GetFSMInstance (ne_leveldb env) (ne_fsms env) d c (fsmService n) = Inr (r, f')"
    "n' = n\<lparr>nd_state := fs_state f'\<rparr>" by (auto simp: node_GetFSMInstance_def)
  with GetFSMInstance_rounds[OF _ _ _ f'(1)] n(1) show "node_ok env n' \<and> (\<forall>i. r = Inr i \<longrightarrow> inst_ok i)"
    by (cases f') (auto simp: node_ok_def keys_apart_def fsmService_def)
qed

lemma save_node_ok: "dump_ok dump \<Longrightarrow> stays (node_ok env) (node_SaveFSM env d dump)"
proof (rule keepsI)
  fix n r n'
  assume n: "dump_ok dump" "node_ok env n" "node_SaveFSM env d dump n = Inr (r, n')"
  then obtain err f' where f': "SaveFSM (ne_leveldb env) (ne_fsms env) d dump (fsmService n) = Inr (err, f')"
    "n' = n\<lparr>nd_state := fs_state f'\<rparr>" by (auto simp: node_SaveFSM_def)
  with SaveFSM_rounds[OF _ _ _ n(1) f'(1)] n(2) show "node_ok env n' \<and> (\<forall>x. r = Inr x \<longrightarrow> True)"
    by (cases f') (auto simp: node_ok_def keys_apart_def fsmService_def)
qed

lemma write_node_ok:
  "stays (node_ok env) (node_SaveSignatures env ss)"
  "stays (node_ok env) (node_PutOperation env oper)"
  "stays (node_ok env) (node_DeleteOperation env oper)"
  "stays (node_ok env) (SaveOffset env w)"
proof -
  have apart: "leveldb_ok (ne_leveldb env)" "nd_stateKey n \<notin> {nd_operationsKey n, nd_deletedKey n}"
    "nd_stateKey n \<notin> {nd_operationsKey n}" "nd_stateKey n \<notin> {MakeCompositeKey (topic (nd_state n)) OffsetKey}"
    "nd_stateKey n \<notin> range (MakeCompositeKeyString SignaturesKeyPrefix)"
    if "node_ok env n" for n using that by (simp_all add: node_ok_def keys_apart_def)
  show "stays (node_ok env) (node_SaveSignatures env ss)"
    by (rule keepsI) (auto simp: node_SaveSignatures_def
        intro!: node_ok_frame[OF _ same_but_signatures[OF apart(1)] apart(5)])
  show "stays (node_ok env) (node_PutOperation env oper)"
    by (rule keepsI) (auto simp: node_PutOperation_def opRepo_def split: prod.split_asm
        intro!: node_ok_frame[OF _ same_but_put[OF apart(1), of _ _ _ "opRepo _", unfolded opRepo_def, simplified] apart(3)])
  show "stays (node_ok env) (node_DeleteOperation env oper)"
    by (rule keepsI) (auto simp: node_DeleteOperation_def opRepo_def split: prod.split_asm
        intro!: node_ok_frame[OF _ same_but_delete[OF apart(1), of _ _ _ "opRepo _", unfolded opRepo_def, simplified] apart(2)])
  show "stays (node_ok env) (SaveOffset env w)"
    by (rule keepsI) (auto simp: SaveOffset_def split: prod.split_asm
        intro!: node_ok_frame[OF _ same_but_offset[OF apart(1)] apart(4)])
qed

section \<open>The steps of a round\<close>

lemma inst_ok_obtain:
  assumes "inst_ok i"
  obtains d m where "round_inv d" "machine_of (dump_State d) = Some m"
    "i = \<lparr>fi_machine = Some (in_state m (dump_State d)), fi_dump = Some d\<rparr>"
  using assms by (auto simp: inst_ok_def FromDump_eq split: option.splits)

lemma do_inv:
  assumes "inst_ok i" and "FSMInstance_Do e args i = Inr ((resp, data, None), i')"
  obtains d d' r m g where "round_inv d" "machine_of (dump_State d) = Some m" "resp = Some r"
    "FSM_Do e args (in_state m (dump_State d)) (dump_Payload d) = Inr ((Some r, None), g, dump_Payload d')"
    "i = \<lparr>fi_machine = Some (in_state m (dump_State d)), fi_dump = Some d\<rparr>"
    "i' = \<lparr>fi_machine = Some g, fi_dump = Some d'\<rparr>" "dump_State d' = resp_State r"
    "round_inv d'" "data = DumpEmpty \<or> data = DumpJSON d'"
proof -
  from assms(1) obtain d m where d: "round_inv d" "machine_of (dump_State d) = Some m"
    "i = \<lparr>fi_machine = Some (in_state m (dump_State d)), fi_dump = Some d\<rparr>" by (rule inst_ok_obtain)
  from assms(2) d(3) obtain r0 err g p' where
    run0: "FSM_Do e args (in_state m (dump_State d)) (dump_Payload d) = Inr ((r0, err), g, p')"
    by (auto simp: FSMInstance_Do_def)
  with assms(2) d(3) have run: "FSM_Do e args (in_state m (dump_State d)) (dump_Payload d) = Inr ((r0, None), g, p')"
    by (auto simp: FSMInstance_Do_def Let_def split: option.split_asm sum.split_asm)
  from FSM_Do_state[OF run] obtain r where r0: "r0 = Some r" by blast
  let ?d = "d\<lparr>dump_State := resp_State r, dump_Payload := p'\<rparr>"
  have eq: "resp = Some r" "i' = \<lparr>fi_machine = Some g, fi_dump = Some ?d\<rparr>" "data = DumpEmpty \<or> data = DumpJSON ?d"
    using assms(2) run
    by (auto simp: FSMInstance_Do_def Let_def d(3) r0 Marshal_def split: option.split_asm sum.split_asm if_splits)
  have "round_inv ?d" using round.kept[OF d(1,2)] run by (simp add: r0)
  with d eq run show thesis by (intro that[of d m r g ?d]) (simp_all add: r0)
qed

lemma do_dump_ok:
  "inst_ok i \<Longrightarrow> FSMInstance_Do e args i = Inr ((resp, data, None), i') \<Longrightarrow> dump_ok data"
  by (erule (1) do_inv) (auto simp: dump_ok_def)

lemma restart_inst_ok:
  assumes "inst_ok i" and "FSMInstance_Do EventSigningRestart args i = Inr ((resp, data, None), i')"
  shows "inst_ok i'"
proof -
  from assms obtain d d' r m g where "round_inv d" and d: "machine_of (dump_State d) = Some m"
    and "resp = Some r"
    and run: "FSM_Do EventSigningRestart args (in_state m (dump_State d)) (dump_Payload d) =
      Inr ((Some r, None), g, dump_Payload d')"
    and "i = \<lparr>fi_machine = Some (in_state m (dump_State d)), fi_dump = Some d\<rparr>"
    and i': "i' = \<lparr>fi_machine = Some g, fi_dump = Some d'\<rparr>" "dump_State d' = resp_State r" "round_inv d'"
    and "data = DumpEmpty \<or> data = DumpJSON d'"
    by (rule do_inv)
  from FSM_Do_public[OF run] have pub: "(dump_State d, EventSigningRestart) \<in> set (public_keys m)" by simp
  have "m = signing_fsm \<and> (dump_State d = StateSigningPartialSignsCollected \<or>
      dump_State d = StateSigningPartialSignsAwaitCancelledByTimeout \<or>
      dump_State d = StateSigningPartialSignsAwaitCancelledByError)"
    using d
  proof (cases rule: machine_of_cases)
    case 1 with pub show ?thesis by (auto simp: sig_public names_neq)
  next
    case 2 with pub show ?thesis by (auto simp: dkg_public names_neq)
  next
    case 3 with pub show ?thesis by (auto simp: signing_public names_neq)
  qed
  with signing_restart_Do[of "dump_State d" args "dump_Payload d"] run
  have "g = in_state signing_fsm StateSigningIdle" "resp_State r = StateSigningIdle" by auto
  with i' show ?thesis
    unfolding inst_ok_def
    by (intro exI[of _ d']) (simp add: FromDump_eq machine_of_signing signing_lists)
qed

interpretation rounds: node_invariant env "node_ok env" dump_ok inst_ok
  for env :: "('db, 'st) node_env"
proof (unfold_locales, goal_cases)
  case (10 data i)
  then show ?case by (cases data) (auto simp: dump_ok_def inst_ok_def FromDump_def)
qed (auto simp: node_ok_def keys_apart_def fsmService_def
    intro: load_node_ok save_node_ok write_node_ok do_dump_ok restart_inst_ok)

section \<open>Requests of the operator\<close>

lemma pub_poly_inv:
  assumes "round_inv d" and "DKGProposalPayload (dump_Payload d) = Some c"
  shows "round_inv (d\<lparr>dump_Payload := (dump_Payload d)\<lparr>DKGProposalPayload := Some (c\<lparr>dc_PubPolyBz := b\<rparr>)\<rparr>\<rparr>)"
proof -
  let ?p = "dump_Payload d" and ?c = "c\<lparr>dc_PubPolyBz := b\<rparr>"
  let ?p' = "?p\<lparr>DKGProposalPayload := Some ?c\<rparr>"
  have q: "dkg_quorum ?p = dc_Quorum c" using assms(2) by (simp add: dkg_quorum_def)
  have k: "master_keys ?c = master_keys c" by (simp add: master_keys_def)
  have a: "agreed_key ?p' = agreed_key ?p" "dkg_all Q ?p' = dkg_all Q ?p" "dkg_matches ?p' = dkg_matches ?p"
    "signing_matches ?p' = signing_matches ?p" for Q
    by (simp_all add: agreed_key_def dkg_all_def dkg_matches_def signing_matches_def q)
  have "payload_inv (dump_State d) ?p"
    using assms(1) by (simp add: round_inv_def)
  moreover have "DKGProposalPayload (fresh_payload x) = None" for x by (simp add: fresh_payload_def)
  with calculation assms(2) have "dump_State d \<noteq> StateGlobalIdle" "dump_State d \<notin> set sig_states"
    by (metis option.distinct(1) payload_inv_def)+
  moreover have "dkg_inv s ?p' = dkg_inv s ?p" for s
    by (simp add: dkg_inv_def dkg_open_def dkg_done_def a k assms(2))
  moreover have "signing_inv s ?p' = signing_inv s ?p" for s
    by (simp add: signing_inv_def signing_some_def signing_waiting_def [abs_def] signing_complete_def [abs_def]
        signing_hopeless_def [abs_def] a)
  moreover have "dkg_done ?p' = dkg_done ?p" by (simp add: dkg_done_def a)
  ultimately have "payload_inv (dump_State d) ?p'" by (simp add: payload_inv_def a)
  with assms(1) show ?thesis by (auto simp: round_inv_def)
qed

lemma store_pub_poly_ok: "stays (node_ok env) (storePubPoly env op)"
  unfolding storePubPoly_def Let_def
proof (rule keeps_bind[OF keeps_wrap[OF load_node_ok]])
  fix i
  assume "inst_ok i"
  then obtain d m where d: "round_inv d" "i = \<lparr>fi_machine = Some m, fi_dump = Some d\<rparr>"
    by (auto elim: inst_ok_obtain)
  show "stays (node_ok env) (bindM (liftG (deref (fi_dump i))) (\<lambda>dump.
      bindM (liftG (deref (DKGProposalPayload (dump_Payload dump)))) (\<lambda>c.
      bindM (wrapM ''failed to dump fsm instance during operation processing: %w'' []
        (liftE (FSMInstance_Dump (i\<lparr>fi_dump := Some (dump\<lparr>dump_Payload := (dump_Payload dump)
          \<lparr>DKGProposalPayload := Some (c\<lparr>dc_PubPolyBz := op_ExtraData op\<rparr>)\<rparr>\<rparr>)\<rparr>)))) (\<lambda>dump.
      wrapM ''failed to save fsm dump during operation processing: %w'' []
        (node_SaveFSM env (op_DKGIdentifier op) dump)))))"
    by (rule keeps_bind[OF keeps_liftG[where A = "\<lambda>x. x = d"]], use d in simp,
        rule keeps_bind[OF keeps_liftG[where A = "\<lambda>c. DKGProposalPayload (dump_Payload d) = Some c"]],
        simp, rule keeps_bind[OF keeps_wrap[OF keeps_liftE[where A = dump_ok]]])
       (auto simp: FSMInstance_Dump_def Marshal_def dump_ok_def pub_poly_inv[OF d(1)] split: if_splits
        intro: keeps_wrap save_node_ok[unfolded dump_ok_def])
qed

lemmas node_ok_rules = stays_rules rounds.primitives rounds.signing_keeps write_node_ok store_pub_poly_ok
  keeps_stays[OF load_node_ok] TrueI

lemma sign_results_ok: "stays (node_ok env) (signResults env ms)"
  by (induction ms) (simp_all add: Let_def, intro node_ok_rules, intro node_ok_rules)

lemma execute_ok: "stays (node_ok env) (executeOperation env op)"
  unfolding executeOperation_def node_GetOperationByID_def
  by (intro node_ok_rules sign_results_ok) (simp add: keeps_def)

lemma create_sign_id_ok: "stays (node_ok env) (createSignID env x)"
  by (rule keepsI) (auto simp: createSignID_def node_ok_def keys_apart_def fsmService_def split: sum.split_asm)

lemma data_tasks_ok: "stays (node_ok env) (dataTasks env xs ts)"
  by (induction xs arbitrary: ts) (auto intro!: node_ok_rules create_sign_id_ok)

lemma requests_ok:
  "stays (node_ok env) (ProcessOperation env op)" "stays (node_ok env) (StartDKG env b)"
  "stays (node_ok env) (ProposeSignMessages env dto)" "stays (node_ok env) (ApproveParticipation env x)"
  "stays (node_ok env) (ReInitDKG env x b)" "stays (node_ok env) (SendMessage env msg)"
proof -
  show "stays (node_ok env) (ProcessOperation env op)" by (simp add: ProcessOperation_def execute_ok)
  show "stays (node_ok env) (StartDKG env b)" "stays (node_ok env) (ReInitDKG env x b)"
    "stays (node_ok env) (SendMessage env msg)"
    unfolding StartDKG_def ReInitDKG_def SendMessage_def by (intro node_ok_rules)+
  have "stays (node_ok env) (extractTasksFromDTO env dto)"
    unfolding extractTasksFromDTO_def
    by (auto intro!: node_ok_rules data_tasks_ok split: option.split prod.split)
  then show "stays (node_ok env) (ProposeSignMessages env dto)"
    unfolding ProposeSignMessages_def Let_def by (intro node_ok_rules)
  have "stays (node_ok env) (getOperation env x)"
    unfolding getOperation_def node_GetOperations_def by (intro node_ok_rules) (simp add: keeps_def)
  then show "stays (node_ok env) (ApproveParticipation env x)"
    unfolding ApproveParticipation_def by (intro node_ok_rules execute_ok)
qed

section \<open>The life of a node\<close>

text \<open>A topic that does not make the key of the rounds look like a key of the signatures.\<close>

definition topic_ok :: "string \<Rightarrow> bool" where
  "topic_ok t \<longleftrightarrow> \<not> HasPrefix (t @ ''_'') ''signatures_''"

text \<open>
  What happens to a running node: a message of the log is processed, the offset is stored, the
  operator makes a request over the HTTP interface, or the node is started again on its database.
  A panic ends the process.  Reinitializations, which install messages and keys from outside the
  log, are left out here.
\<close>

inductive node_step :: "('db, 'st) node_env \<Rightarrow> ('db, 'st) node \<Rightarrow> ('db, 'st) node \<Rightarrow> bool" for env where
  message: "msg_Event m \<noteq> ReinitDKG \<Longrightarrow> ProcessMessage env m n = Inr (r, n') \<Longrightarrow> node_step env n n'"
| offset: "SaveOffset env w n = Inr (r, n') \<Longrightarrow> node_step env n n'"
| operation: "ProcessOperation env op n = Inr (r, n') \<Longrightarrow> node_step env n n'"
| start: "StartDKG env b n = Inr (r, n') \<Longrightarrow> node_step env n n'"
| propose: "ProposeSignMessages env dto n = Inr (r, n') \<Longrightarrow> node_step env n n'"
| approve: "ApproveParticipation env x n = Inr (r, n') \<Longrightarrow> node_step env n n'"
| reinit: "ReInitDKG env x b n = Inr (r, n') \<Longrightarrow> node_step env n n'"
| send: "SendMessage env m n = Inr (r, n') \<Longrightarrow> node_step env n n'"
| restarted: "NewNode env (nd_userName n) (topic (nd_state n)) (nd_state n) (nd_storage n) = Inr n' \<Longrightarrow>
    node_step env n n'"

inductive node_reachable :: "('db, 'st) node_env \<Rightarrow> ('db, 'st) node \<Rightarrow> bool" for env where
  started: "NewLevelDBState (ne_leveldb env) path t = Inr s \<Longrightarrow> topic_ok t \<Longrightarrow> NewNode env u t s st = Inr n \<Longrightarrow>
    LevelDBState_Get (ne_leveldb env) s (nd_stateKey n) = Inr None \<Longrightarrow> node_reachable env n"
| stepped: "node_reachable env n \<Longrightarrow> node_step env n n' \<Longrightarrow> node_reachable env n'"

lemma new_repo_state:
  assumes "leveldb_ok L" and "NewOperationRepo L s t = Inr repo"
  shows "same_but L {MakeCompositeKeyString t OperationsKey, MakeCompositeKeyString t DeletedOperationsKey}
      s (repo_state repo)"
    "operationsCompositeKey repo = MakeCompositeKeyString t OperationsKey"
    "deleteOperationsCompositeKey repo = MakeCompositeKeyString t DeletedOperationsKey"
proof -
  from assms(2) obtain s1 where "LevelDBState_Set L (MakeCompositeKeyString t OperationsKey) empty_object s = (None, s1)"
    and "LevelDBState_Set L (MakeCompositeKeyString t DeletedOperationsKey) empty_object s1 = (None, repo_state repo)"
    and keys: "operationsCompositeKey repo = MakeCompositeKeyString t OperationsKey"
    "deleteOperationsCompositeKey repo = MakeCompositeKeyString t DeletedOperationsKey"
    by (auto simp: NewOperationRepo_def initJsonKey_def Let_def split: prod.split_asm option.split_asm)
  from this(1,2)[THEN same_but_set[OF assms(1)]] show "same_but L {MakeCompositeKeyString t OperationsKey,
      MakeCompositeKeyString t DeletedOperationsKey} s (repo_state repo)"
    by (auto intro: same_but_trans same_but_mono)
  show "operationsCompositeKey repo = MakeCompositeKeyString t OperationsKey"
    "deleteOperationsCompositeKey repo = MakeCompositeKeyString t DeletedOperationsKey" by fact+
qed

lemma NewNode_ok:
  assumes "leveldb_ok (ne_leveldb env)" and "fsms_json_ok (ne_fsms env)" and "topic s = t"
    and "fs_stateKey (NewFSMService s t) \<notin> range (MakeCompositeKeyString SignaturesKeyPrefix)"
    and "rounds_ok (ne_leveldb env) (ne_fsms env) (NewFSMService s t)"
    and "NewNode env u t s st = Inr n"
  shows "node_ok env n"
proof -
  from assms(6) obtain repo where repo: "NewOperationRepo (ne_leveldb env) s t = Inr repo"
    and n: "nd_state n = repo_state repo" "nd_stateKey n = fs_stateKey (NewFSMService s t)"
      "nd_operationsKey n = operationsCompositeKey repo" "nd_deletedKey n = deleteOperationsCompositeKey repo"
    by (auto simp: NewNode_def NewFSMService_def split: sum.split_asm)
  note r = new_repo_state[OF assms(1) repo]
  have apart: "nd_stateKey n \<noteq> MakeCompositeKeyString t OperationsKey"
    "nd_stateKey n \<noteq> MakeCompositeKeyString t DeletedOperationsKey" "nd_stateKey n \<noteq> MakeCompositeKey t OffsetKey"
    by (simp_all add: n(2) NewFSMService_def FSMStateKey_def MakeCompositeKeyString_def MakeCompositeKey_def
        OperationsKey_def DeletedOperationsKey_def OffsetKey_def)
  have "rounds_ok (ne_leveldb env) (ne_fsms env) (fsmService n)"
    using rounds_ok_frame[of _ _ "NewFSMService s t" "fsmService n"] r(1) apart assms(5)
    by (simp add: fsmService_def NewFSMService_def n)
  with r apart assms(1-4) show ?thesis
    by (simp add: node_ok_def keys_apart_def n same_but_def NewFSMService_def)
qed

lemma topic_ok_key:
  assumes "topic_ok t"
  shows "fs_stateKey (NewFSMService s t) \<notin> range (MakeCompositeKeyString SignaturesKeyPrefix)"
proof
  assume "fs_stateKey (NewFSMService s t) \<in> range (MakeCompositeKeyString SignaturesKeyPrefix)"
  then obtain k where "t @ ''_fsm_state'' = ''signatures_'' @ k"
    by (auto simp: NewFSMService_def FSMStateKey_def MakeCompositeKeyString_def SignaturesKeyPrefix_def)
  then have "take (length ''signatures_'') (t @ ''_'' @ ''fsm_state'') = ''signatures_''" by simp
  with assms show False
    by (cases "length t < length ''signatures_''")
       (simp_all only: topic_ok_def HasPrefix_def take_append append_assoc[symmetric], auto simp: take_Cons' split: if_splits)
qed

lemma node_step_ok: "node_step env n n' \<Longrightarrow> node_ok env n \<Longrightarrow> node_ok env n'"
proof (erule node_step.cases)
  fix m n1 n2
  assume ok: "node_ok env n" and eq: "n = m" "n' = n2"
    and new: "NewNode env (nd_userName m) (topic (nd_state m)) (nd_state m) (nd_storage m) = Inr n2"
  have "fsmService m = NewFSMService (nd_state m) (topic (nd_state m))"
    "fs_stateKey (NewFSMService (nd_state m) (topic (nd_state m))) = nd_stateKey m"
    using ok by (simp_all add: eq node_ok_def keys_apart_def fsmService_def NewFSMService_def)
  with ok show "node_ok env n'"
    unfolding eq by (intro NewNode_ok[OF _ _ refl _ _ new]) (simp_all add: node_ok_def keys_apart_def)
qed (auto dest: keepsD[OF rounds.ProcessMessage_keeps] keepsD[OF write_node_ok(4)] requests_ok[THEN keepsD])

lemma node_reachable_ok:
  assumes "node_reachable env n" and "leveldb_ok (ne_leveldb env)" and "fsms_json_ok (ne_fsms env)"
  shows "node_ok env n"
  using assms(1)
proof (induction rule: node_reachable.induct)
  case (started path t s u st n)
  have t: "topic s = t"
    using started(1) by (auto simp: NewLevelDBState_def Let_def split: sum.split_asm prod.split_asm option.split_asm)
  have key: "nd_stateKey n = fs_stateKey (NewFSMService s t)"
    using started(3) by (auto simp: NewNode_def NewFSMService_def split: sum.split_asm)
  have "rounds_ok (ne_leveldb env) (ne_fsms env) (NewFSMService s t)"
    using started(4) key by (simp add: rounds_ok_def getAllFSMData_def getStateKey_def NewFSMService_def byte_len_def)
  then show ?case using NewNode_ok[OF assms(2,3) t topic_ok_key[OF started(2)]] started(3) t by simp
next
  case (stepped n n')
  then show ?case using node_step_ok by blast
qed

end
