(* ===== verification/Node_Progress.thy ===== *)
theory Node_Progress
  imports Node_Rounds
begin

text \<open>
  What processing a valid message does: the stored round makes the step that its machine makes on
  the request, followed by the event that the node executes on its own when a machine is finished.
\<close>

section \<open>Unfolding the processing of a message\<close>

lemma lift_ok [simp]:
  "liftE (Inr x) s = Inr (Inr x, s)" "liftG (Inr x) s = Inr (Inr x, s)" "liftGE (Inr (Inr x)) s = Inr (Inr x, s)"
  "retM x s = Inr (Inr x, s)" "readM f s = Inr (Inr (f s), s)"
  by (simp_all add: liftE_def liftG_def liftGE_def retM_def readM_def)

lemma doM_ok:
  "FSMInstance_Do e [req] i = Inr ((resp, data, None), i') \<Longrightarrow> doM e req i s = Inr (Inr (resp, data, i'), s)"
  by (simp add: doM_def)

text \<open>A message that the node accepts on a loaded round.\<close>

definition authentic :: "('db, 'st) node_env \<Rightarrow> bool \<Rightarrow> FSMDump \<Rightarrow> Message \<Rightarrow> bool" where
  "authentic env skip d m \<longleftrightarrow> msg_Event m = EventInitProposal \<or> skip \<or>
     (case GetPubKeyByUsername (dump_Payload d) (SenderAddr m) of
        Inl e \<Rightarrow> False
      | Inr key \<Rightarrow> length key = 32 \<and> ne_Verify env key (Message_Bytes m) (Signature m))"

lemma verify_authentic:
  assumes "authentic env (nd_skip n) d m" and "fi_dump i = Some d" and "msg_Event m \<noteq> EventInitProposal"
  shows "verifyMessage env i m n = Inr (Inr (), n)"
proof (cases "nd_skip n")
  case False
  with assms obtain key where key: "GetPubKeyByUsername (dump_Payload d) (SenderAddr m) = Inr key" "length key = 32"
    "ne_Verify env key (Message_Bytes m) (Signature m)" by (auto simp: authentic_def split: sum.split_asm)
  then show ?thesis
    using False assms(2)
    by (simp add: verifyMessage_def bindM_def wrapM_def FSMInstance_GetPubKeyByUsername_def ed25519_Verify_def)
qed (simp add: verifyMessage_def bindM_def)

definition plain_event :: "Event \<Rightarrow> bool" where
  "plain_event e \<longleftrightarrow> e \<noteq> SignatureReconstructed \<and> e \<noteq> SignatureReconstructionFailed \<and> e \<noteq> EventSigningStart \<and>
     e \<noteq> ReinitDKG"

definition live_state :: "State \<Rightarrow> bool" where
  "live_state s \<longleftrightarrow> \<not> HasSuffix s ''_error'' \<and> \<not> HasSuffix s ''_timeout''"

lemma processMessage_run:
  assumes "node_GetFSMInstance env (DkgRoundID m) True n = Inr (Inr i, n1)" and "fi_dump i = Some d"
    and "authentic env (nd_skip n1) d m"
    and "msg_Event m \<noteq> SignatureReconstructed" "msg_Event m \<noteq> SignatureReconstructionFailed"
    and "live_state (dump_State d)"
  shows "processMessage env m n = runMessage env m i n1"
proof -
  have v: "(if msg_Event m \<noteq> EventInitProposal
      then wrapM ''failed to verifyMessage %+v: %w'' [] (verifyMessage env i m) else retM ()) n1 = Inr (Inr (), n1)"
    using verify_authentic[OF assms(3,2)] by (simp add: wrapM_def)
  have states: "handleErrorState env m i n1 = Inr (Inr (Some i), n1)" "handleTimeoutState env m i n1 = Inr (Inr (Some i), n1)"
    using assms(2,6) by (simp_all add: handleErrorState_def handleTimeoutState_def live_state_def bindM_def)
  show ?thesis
    using assms(4,5) unfolding processMessage_def
    by (simp add: bindM_def assms(1) wrapM_def [of _ _ "node_GetFSMInstance env (DkgRoundID m) True"] v states)
qed

text \<open>The end of the processing: the operation is made and the dump saved.\<close>

definition finishMessage ::
  "('db, 'st) node_env \<Rightarrow> Message \<Rightarrow> response Response \<Rightarrow> FSMInstance \<Rightarrow> dump_data \<Rightarrow> ('db, 'st, Operation option) node_op"
where
  "finishMessage env m r i data = bindM (makeOperation env m r i) (\<lambda>oper.
     bindM (wrapM ''failed to SaveFSM: %w'' [] (node_SaveFSM env (DkgRoundID m) data)) (\<lambda>_. retM oper))"

definition follow_event :: "State \<Rightarrow> Event option" where
  "follow_event s = (if s = StateSignatureProposalCollected then Some EventDKGInitProcess
     else if s = StateDkgMasterKeyCollected then Some EventSigningInit else None)"

lemma followUpIf_none: "resp_State r \<noteq> s \<Longrightarrow> followUpIf env s e (r, data, i) n = Inr (Inr (r, data, i), n)"
  by (simp add: followUpIf_def)

lemma followUpIf_some:
  assumes "resp_State r = s" and "FromDump data = Inr (Inr i1)"
    and "FSMInstance_Do e [default_request (ne_now env (nd_clock n))] i1 = Inr ((Some r2, data2, None), i2)"
  shows "followUpIf env s e (r, data, i) n = Inr (Inr (r2, data2, i2), n\<lparr>nd_clock := Suc (nd_clock n)\<rparr>)"
  using assms by (simp add: followUpIf_def followUp_def bindM_def wrapM_def time_Now_def doM_ok)

lemma runMessage_start:
  assumes "FSMRequestFromMessage (ne_reqs env) m = Inr req"
    and "FSMInstance_Do (msg_Event m) [req] i = Inr ((Some r, data, None), i')"
    and "followUpIf env StateSignatureProposalCollected EventDKGInitProcess (r, data, i') n = Inr (Inr x, n1)"
    and "followUpIf env StateDkgMasterKeyCollected EventSigningInit x n1 = Inr (Inr (r2, data2, i2), n2)"
    and "resp_State r2 \<noteq> StateSigningPartialSignsCollected" and "plain_event (msg_Event m)"
  shows "runMessage env m i n = finishMessage env m r2 i2 data2 n2"
  using assms(5,6) unfolding runMessage_def finishMessage_def plain_event_def
  by (cases "makeOperation env m r2 i2 n2")
     (auto simp: bindM_def wrapM_def doM_ok[OF assms(2)] assms(1,3,4) split: sum.split)

section \<open>A message is a step of the round\<close>

text \<open>
  The effect of a message on a dump: the step of its request, and at the end of a machine the first
  event of the next one, at the node's time \<open>t\<close>.
\<close>

definition round_message :: "time \<Rightarrow> FSMDump \<Rightarrow> Event \<Rightarrow> request \<Rightarrow> FSMDump option" where
  "round_message t d e req = (case round_next d e [req] of
     None \<Rightarrow> None
   | Some d1 \<Rightarrow> (case follow_event (dump_State d1) of
       None \<Rightarrow> Some d1
     | Some e1 \<Rightarrow> round_next d1 e1 [default_request t]))"

lemma round_next_Do:
  assumes "round_next d e args = Some d'" and "FromDump (DumpJSON d) = Inr (Inr i)"
  obtains r i' where "FSMInstance_Do e args i = Inr ((Some r, DumpJSON d', None), i')" "resp_State r = dump_State d'"
    "fi_dump i' = Some d'"
proof -
  from assms obtain r i' where run: "FSMInstance_Do e args i = Inr ((Some r, DumpJSON d', None), i')"
    unfolding round_next_step by (auto elim!: round_stepE)
  moreover from this have "resp_State r = dump_State d'" "fi_dump i' = Some d'"
    by (auto simp: FSMInstance_Do_def Let_def Marshal_def split: option.split_asm sum.split_asm if_splits)
  ultimately show thesis by (rule that)
qed

lemma round_next_load: "round_next d e args = Some d' \<Longrightarrow> \<exists>i. FromDump (DumpJSON d) = Inr (Inr i) \<and> fi_dump i = Some d"
  by (auto simp: round_next_def FromDump_eq split: sum.split_asm option.split_asm)

lemma makeOperation_ok:
  assumes "resp_State r \<noteq> StateSigningPartialSignsCollected" and "\<And>x. \<exists>b. ne_Marshal_response env x = Inr b"
  shows "\<exists>oper c. makeOperation env m r i n = Inr (Inr oper, n\<lparr>nd_clock := c\<rparr>)"
proof -
  have "\<exists>c. n = n\<lparr>nd_clock := c\<rparr>" by (rule exI[of _ "nd_clock n"]) simp
  moreover have "\<exists>b. ne_Marshal_response env (the (resp_Data r)) = Inr b" by (rule assms(2))
  ultimately show ?thesis
    using assms(1) unfolding makeOperation_def
    by (auto simp: bindM_def wrapM_def time_Now_def split: option.split)
qed

lemma run_round_message:
  assumes "round_message (ne_now env (nd_clock n)) d (msg_Event m) req = Some d'"
    and "FromDump (DumpJSON d) = Inr (Inr i)"
    and "FSMRequestFromMessage (ne_reqs env) m = Inr req" and "plain_event (msg_Event m)"
    and "dump_State d' \<notin> {StateSignatureProposalCollected, StateDkgMasterKeyCollected, StateSigningPartialSignsCollected}"
  shows "\<exists>r i' c. runMessage env m i n = finishMessage env m r i' (DumpJSON d') (n\<lparr>nd_clock := c\<rparr>) \<and>
    resp_State r = dump_State d'"
proof -
  from assms(1) obtain d1 where d1: "round_next d (msg_Event m) [req] = Some d1"
    by (auto simp: round_message_def split: option.split_asm)
  from d1 assms(2) obtain r i' where r: "FSMInstance_Do (msg_Event m) [req] i = Inr ((Some r, DumpJSON d1, None), i')"
    "resp_State r = dump_State d1" "fi_dump i' = Some d1" by (rule round_next_Do)
  have n: "n = n\<lparr>nd_clock := nd_clock n\<rparr>" by simp
  show ?thesis
  proof (cases "follow_event (dump_State d1)")
    case None
    with assms(1) d1 have eq: "d1 = d'" by (simp add: round_message_def)
    with None r(2) assms(5) show ?thesis
      using runMessage_start[OF assms(3) r(1) followUpIf_none followUpIf_none _ assms(4)] n
      by (metis insertCI)
  next
    case (Some e1)
    with assms(1) d1 have d2: "round_next d1 e1 [default_request (ne_now env (nd_clock n))] = Some d'"
      by (simp add: round_message_def)
    then obtain i1 where i1: "FromDump (DumpJSON d1) = Inr (Inr i1)" using round_next_load by blast
    from d2 i1 obtain r2 i2 where r2: "FSMInstance_Do e1 [default_request (ne_now env (nd_clock n))] i1 =
        Inr ((Some r2, DumpJSON d', None), i2)" "resp_State r2 = dump_State d'" "fi_dump i2 = Some d'" by (rule round_next_Do)
    from Some consider "dump_State d1 = StateSignatureProposalCollected" "e1 = EventDKGInitProcess"
      | "dump_State d1 = StateDkgMasterKeyCollected" "e1 = EventSigningInit" "dump_State d1 \<noteq> StateSignatureProposalCollected"
      by (auto simp: follow_event_def split: if_splits)
    then show ?thesis
    proof cases
      case 1
      have "resp_State r2 \<noteq> StateDkgMasterKeyCollected" "resp_State r2 \<noteq> StateSigningPartialSignsCollected"
        using assms(5) r2(2) by auto
      with runMessage_start[OF assms(3) r(1) followUpIf_some[OF _ i1 r2(1)[unfolded 1]] followUpIf_none _ assms(4)]
        1 r(2) r2(2) show ?thesis by metis
    next
      case 2
      have "resp_State r2 \<noteq> StateSigningPartialSignsCollected" "resp_State r \<noteq> StateSignatureProposalCollected"
        using assms(5) r2(2) r(2) 2 by auto
      with runMessage_start[OF assms(3) r(1) followUpIf_none followUpIf_some[OF _ i1 r2(1)[unfolded 2(2)]] _ assms(4)]
        2 r(2) r2(2) show ?thesis by metis
    qed
  qed
qed

lemma ProcessMessage_saves:
  assumes ok: "leveldb_ok (ne_leveldb env)" "nd_stateKey n1 \<noteq> nd_operationsKey n1"
    and load: "node_GetFSMInstance env (DkgRoundID m) True n = Inr (Inr i, n1)" "FromDump (DumpJSON d) = Inr (Inr i)"
    and msg: "FSMRequestFromMessage (ne_reqs env) m = Inr req" "plain_event (msg_Event m)"
      "live_state (dump_State d)" "authentic env (nd_skip n1) d m"
    and step: "round_message (ne_now env (nd_clock n1)) d (msg_Event m) req = Some d'"
      "dump_State d' \<notin> {StateSignatureProposalCollected, StateDkgMasterKeyCollected, StateSigningPartialSignsCollected}"
    and marshal: "\<And>x. \<exists>b. ne_Marshal_response env x = Inr b"
    and save: "SaveFSM (ne_leveldb env) (ne_fsms env) (DkgRoundID m) (DumpJSON d') (fsmService n1) = Inr (None, f')"
  shows "\<exists>r n'. ProcessMessage env m n = Inr (r, n') \<and> nd_skip n' = nd_skip n1 \<and>
    getAllFSMData (ne_leveldb env) (ne_fsms env) (fsmService n') = getAllFSMData (ne_leveldb env) (ne_fsms env) f'"
proof -
  have dump: "fi_dump i = Some d" using load(2) by (auto simp: FromDump_eq split: option.split_asm)
  have key: "fs_stateKey f' = nd_stateKey n1"
    using save by (auto simp: SaveFSM_def fsmService_def split: sum.split_asm option.split_asm prod.split_asm)
  from run_round_message[OF step(1) load(2) msg(1,2) step(2)] obtain r i' c
    where run: "runMessage env m i n1 = finishMessage env m r i' (DumpJSON d') (n1\<lparr>nd_clock := c\<rparr>)"
      "resp_State r = dump_State d'" by blast
  from run(2) step(2) have "resp_State r \<noteq> StateSigningPartialSignsCollected" by simp
  from makeOperation_ok[OF this marshal, of m i' "n1\<lparr>nd_clock := c\<rparr>"] obtain oper c'
    where oper: "makeOperation env m r i' (n1\<lparr>nd_clock := c\<rparr>) = Inr (Inr oper, n1\<lparr>nd_clock := c'\<rparr>)" by auto
  let ?n2 = "n1\<lparr>nd_clock := c', nd_state := fs_state f'\<rparr>"
  have fs: "fsmService (n1\<lparr>nd_clock := c'\<rparr>) = fsmService n1" by (simp add: fsmService_def)
  from msg(2) have ev: "msg_Event m \<noteq> SignatureReconstructed" "msg_Event m \<noteq> SignatureReconstructionFailed"
    by (simp_all add: plain_event_def)
  have done2: "processMessage env m n = Inr (Inr oper, ?n2)"
    using save by (simp add: processMessage_run[OF load(1) dump msg(4) ev msg(3)] run(1) finishMessage_def bindM_def
        wrapM_def oper node_SaveFSM_def fs)
  have n2: "fsmService ?n2 = f'" by (cases f') (use key in \<open>simp add: fsmService_def\<close>)
  have e: "msg_Event m \<noteq> ReinitDKG" using msg(2) by (simp add: plain_event_def)
  show ?thesis
  proof (cases oper)
    case None
    then have "ProcessMessage env m n = Inr (Inr (), ?n2)"
      using done2 e by (simp add: ProcessMessage_def bindM_def)
    with n2 show ?thesis by auto
  next
    case (Some op)
    obtain err r' where put: "Service_PutOperation (ne_leveldb env) (ne_ops env) op (opRepo ?n2) = (err, r')"
      by fastforce
    then have "\<exists>x. ProcessMessage env m n = Inr (x, ?n2\<lparr>nd_state := repo_state r'\<rparr>)"
      using done2 e Some by (auto simp: ProcessMessage_def bindM_def wrapM_def node_PutOperation_def split: option.split)
    moreover have "getAllFSMData (ne_leveldb env) (ne_fsms env) (fsmService (?n2\<lparr>nd_state := repo_state r'\<rparr>)) =
        getAllFSMData (ne_leveldb env) (ne_fsms env) f'"
      using same_but_put[OF ok(1) put] ok(2) key
      by (simp add: getAllFSMData_def getStateKey_def same_but_def fsmService_def opRepo_def)
    ultimately show ?thesis by fastforce
  qed
qed

lemma node_load_known:
  assumes "stores (ne_leveldb env) (ne_fsms env) (fsmService n) rounds" and "rounds d = Some dump"
    and "FromDump dump = Inr (Inr i)"
  shows "node_GetFSMInstance env d c n = Inr (Inr i, n)"
  using GetFSMInstance_known[OF assms(1,2)] assms(3) by (simp add: node_GetFSMInstance_def fsmService_def)

end
