(* ===== verification/Sample_Node.thy ===== *)
theory Sample_Node
  imports Node_Progress
begin

text \<open>
  A node that takes part in the sample round, evaluated in the kernel: an environment with a
  database and a message log in memory, and the node as it processes the messages of the round one
  after the other.  The theorems about nodes are instantiated here.
\<close>

section \<open>The environment\<close>

text \<open>A JSON encoding of maps of rounds, given by a table of the texts it knows.\<close>

definition table_json :: "(bytes \<times> dumps) list \<Rightarrow> fsms_json" where
  "table_json T = \<lparr>fj_Marshal = (\<lambda>m. case find (\<lambda>(b, m'). m' = m) T of
       None \<Rightarrow> Inl (errorsNew ''json'') | Some (b, _) \<Rightarrow> Inr b),
     fj_Unmarshal = (\<lambda>b. case map_of T b of None \<Rightarrow> Inl (errorsNew ''json'') | Some m \<Rightarrow> Inr (Some m))\<rparr>"

lemma table_json_ok:
  assumes "distinct (map fst T)" and "[] \<notin> set (map fst T)"
  shows "fsms_json_ok (table_json T)"
proof -
  have known: "map_of T b = Some m" "b \<noteq> []" if "find (\<lambda>(b, m'). m' = m) T = Some (b, m')" for b m m'
  proof -
    from that have mem: "(b, m) \<in> set T" by (auto simp: find_Some_iff) (metis nth_mem)
    then show "map_of T b = Some m" using assms(1) by simp
    from mem have "b \<in> set (map fst T)" by force
    then show "b \<noteq> []" using assms(2) by metis
  qed
  show ?thesis
    unfolding fsms_json_ok_def
  proof (intro allI impI)
    fix m b
    assume "fj_Marshal (table_json T) m = Inr b"
    then obtain m' where "find (\<lambda>(b, m'). m' = m) T = Some (b, m')"
      by (auto simp: table_json_def split: option.split_asm)
    from known[OF this] show "b \<noteq> [] \<and> (\<exists>m'. fj_Unmarshal (table_json T) b = Inr (Some m') \<and> map_of m' = map_of m)"
      by (simp add: table_json_def)
  qed
qed

text \<open>The dumps of the sample round that a node stores.\<close>

definition sample_proposed :: FSMDump where
  "sample_proposed = sample_dump StateAwaitParticipantsConfirmations (sample_payload
     (sample_sig SigConfirmationAwaitConfirmation 1 SigConfirmationAwaitConfirmation 1 0) None None)"

definition sample_started :: FSMDump where
  "sample_started = sample_dkg_dump StateDkgCommitsAwaitConfirmations (sample_dkg
     [sample_part 0 ''alice'' 2 [] [] [] [] CommitAwaitConfirmation 2,
      sample_part 1 ''bob'' 4 [] [] [] [] CommitAwaitConfirmation 3] 0 [])"

definition sample_deal :: FSMDump where
  "sample_deal = sample_dkg_dump StateDkgDealsAwaitConfirmations (sample_dkg
     [sample_part 0 ''alice'' 2 [1] [1] [] [] DealConfirmed 7,
      sample_part 1 ''bob'' 4 [2] [] [] [] DealAwaitConfirmation 6] 7 [])"

definition sample_response :: FSMDump where
  "sample_response = sample_dkg_dump StateDkgResponsesAwaitConfirmations (sample_dkg
     [sample_part 0 ''alice'' 2 [1] [1] [1] [] ResponseConfirmed 9,
      sample_part 1 ''bob'' 4 [2] [2] [] [] ResponseAwaitConfirmation 8] 9 [])"

definition sample_responded :: FSMDump where
  "sample_responded = sample_dkg_dump StateDkgMasterKeyAwaitConfirmations (sample_dkg
     [sample_part 0 ''alice'' 2 [1] [1] [1] [] MasterKeyAwaitConfirmation 9,
      sample_part 1 ''bob'' 4 [2] [2] [2] [] MasterKeyAwaitConfirmation 10] 10 [])"

definition sample_opened :: FSMDump where
  "sample_opened = sample_signing_dump StateSigningIdle 3 (signing_init 4)"

definition sample_dumps :: "FSMDump list" where
  "sample_dumps = [fresh_dump ''round'', sample_proposed, sample_awaiting, sample_started, sample_commits,
     sample_deals, sample_deal, sample_responses, sample_response, sample_responded, sample_keys, sample_opened]"

definition sample_table :: "(bytes \<times> dumps) list" where
  "sample_table = zip (map (\<lambda>b. [b]) [1, 2, 3, 4, 5, 6, 7, 8, 9, 10, 11, 12])
     (map (\<lambda>d. [(''round'', DumpJSON d)]) sample_dumps)"

definition sample_Marshal :: "dumps \<Rightarrow> error + bytes" where
  "sample_Marshal m = fj_Marshal (table_json sample_table) m"

definition sample_Unmarshal :: "bytes \<Rightarrow> error + dumps option" where
  "sample_Unmarshal b = fj_Unmarshal (table_json sample_table) b"

text \<open>The requests behind the data of the messages.\<close>

definition no_json :: "bytes \<Rightarrow> error + 'a" where
  "no_json b = Inl (errorsNew ''json'')"

definition sample_reply :: "bytes \<Rightarrow> error + SignatureProposalParticipantRequest" where
  "sample_reply b = (if b = [1] then Inr \<lparr>pr_ParticipantId = 0, pr_CreatedAt = 2\<rparr>
     else if b = [2] then Inr \<lparr>pr_ParticipantId = 1, pr_CreatedAt = 3\<rparr> else no_json b)"

definition sample_proposal :: "bytes \<Rightarrow> error + SignatureProposalParticipantsListRequest" where
  "sample_proposal b = (if b = [0] then Inr sample_init else no_json b)"

definition sample_commit_req :: "bytes \<Rightarrow> error + DKGProposalCommitConfirmationRequest" where
  "sample_commit_req b = (if b = [3] then Inr \<lparr>cr_ParticipantId = 0, cr_Commit = [1], cr_CreatedAt = 5\<rparr>
     else if b = [4] then Inr \<lparr>cr_ParticipantId = 1, cr_Commit = [2], cr_CreatedAt = 6\<rparr> else no_json b)"

definition sample_deal_req :: "bytes \<Rightarrow> error + DKGProposalDealConfirmationRequest" where
  "sample_deal_req b = (if b = [5] then Inr \<lparr>dlr_ParticipantId = 0, dlr_Deal = [1], dlr_CreatedAt = 7\<rparr>
     else if b = [6] then Inr \<lparr>dlr_ParticipantId = 1, dlr_Deal = [2], dlr_CreatedAt = 8\<rparr> else no_json b)"

definition sample_response_req :: "bytes \<Rightarrow> error + DKGProposalResponseConfirmationRequest" where
  "sample_response_req b = (if b = [7] then Inr \<lparr>rr_ParticipantId = 0, rr_Response = [1], rr_CreatedAt = 9\<rparr>
     else if b = [8] then Inr \<lparr>rr_ParticipantId = 1, rr_Response = [2], rr_CreatedAt = 10\<rparr> else no_json b)"

definition sample_master_req :: "bytes \<Rightarrow> error + DKGProposalMasterKeyConfirmationRequest" where
  "sample_master_req b = (if b = [9]
     then Inr \<lparr>mk_ParticipantId = 0, mk_MasterKey = [7], mk_CreatedAt = 11, mk_PubPolyBz = [8]\<rparr>
     else if b = [10] then Inr \<lparr>mk_ParticipantId = 1, mk_MasterKey = [7], mk_CreatedAt = 12, mk_PubPolyBz = [8]\<rparr>
     else no_json b)"

definition sample_requests :: req_json where
  "sample_requests = \<lparr>rq_SigParticipant = sample_reply, rq_SigInit = sample_proposal,
     rq_DkgCommit = sample_commit_req, rq_DkgDeal = sample_deal_req, rq_DkgResponse = sample_response_req,
     rq_DkgMasterKey = sample_master_req, rq_PartialSigns = no_json, rq_SigningStart = no_json,
     rq_DkgError = no_json, rq_SigError = no_json\<rparr>"

text \<open>A log in memory, and signatures that consist of the key and the text.\<close>

definition memory_log :: "Message list storage" where
  "memory_log = \<lparr>stg_Send = (\<lambda>ms log. ((ms, None), log @ ms)),
     stg_GetMessages = (\<lambda>offset log. (Inr (drop (unat offset) log), log))\<rparr>"

definition sample_env :: "((string, bytes) gomap, Message list) node_env" where
  "sample_env =
    \<lparr>ne_leveldb = memdb, ne_storage = memory_log, ne_fsms = \<lparr>fj_Marshal = sample_Marshal, fj_Unmarshal = sample_Unmarshal\<rparr>,
     ne_ops = sample_ops_json, ne_sigs = sample_sigs_json, ne_reqs = sample_requests,
     ne_ReDKG = (\<lambda>_. Inl (errorsNew ''json'')), ne_signatures = (\<lambda>_. Inl (errorsNew ''json'')),
     ne_invitations = (\<lambda>_. Inl (errorsNew ''json'')), ne_Marshal_response = (\<lambda>_. Inr [1]),
     ne_Marshal_signatures = (\<lambda>_. Inl (errorsNew ''json'')),
     ne_Marshal_operations = (\<lambda>_. Inl (errorsNew ''json'')),
     ne_Marshal_batch = (\<lambda>_. Inl (errorsNew ''json'')),
     ne_Marshal_participant = (\<lambda>_. Inl (errorsNew ''json'')),
     ne_LoadKeys = (\<lambda>u. Inr (sample_key 1, sample_key 1 @ sample_key 1)),
     ne_Sign = (\<lambda>key text. take 32 key @ text), ne_Verify = (\<lambda>key text sig. sig = key @ text),
     ne_LoadPubPoly = (\<lambda>_. Some (errorsNew ''poly'')),
     ne_tblsRecover = (\<lambda>_ _ _ _ _. Inl (errorsNew ''tbls'')),
     ne_md5 = (\<lambda>b. b), ne_sha1 = (\<lambda>b. b), ne_sha256 = (\<lambda>b. b),
     ne_baked = \<lparr>bk_ValidatorsIndexes = [], bk_GetSigningRoot = (\<lambda>_. Inl (errorsNew ''root''))\<rparr>,
     ne_now = (\<lambda>k. 4), ne_uuid = (\<lambda>k. ''id''), ne_letters = (\<lambda>k. Inr ''abc'')\<rparr>"

section \<open>The run\<close>

definition sample_message :: "Event \<Rightarrow> 8 word \<Rightarrow> Message" where
  "sample_message e k = (let alice = (k mod 2 = 1) in
     \<lparr>ID = ''id'', DkgRoundID = ''round'', Offset = ucast k, msg_Event = e, Data = [k],
      Signature = sample_key (if alice then 1 else 3) @ [k],
      SenderAddr = (if alice then ''alice'' else ''bob''), RecipientAddr = ''''\<rparr>)"

text \<open>A reachable node that stores exactly the dump \<open>d\<close> of the sample round.\<close>

definition sample_at :: "((string, bytes) gomap, Message list) node \<Rightarrow> FSMDump \<Rightarrow> bool" where
  "sample_at n d \<longleftrightarrow> node_reachable sample_env n \<and> \<not> nd_skip n \<and>
     getAllFSMData memdb (ne_fsms sample_env) (fsmService n) = Inr (Some [(''round'', DumpJSON d)])"

lemma sample_env_simps [simp]:
  "ne_leveldb sample_env = memdb" "ne_fsms sample_env = \<lparr>fj_Marshal = sample_Marshal, fj_Unmarshal = sample_Unmarshal\<rparr>"
  "ne_reqs sample_env = sample_requests" "ne_now sample_env k = 4" "ne_Marshal_response sample_env x = Inr [1]"
  "ne_Verify sample_env key text sig \<longleftrightarrow> sig = key @ text"
  by (simp_all add: sample_env_def)

lemma sample_fsms_ok: "fsms_json_ok (ne_fsms sample_env)"
proof -
  have "ne_fsms sample_env = table_json sample_table"
    by (simp add: sample_Marshal_def [abs_def] sample_Unmarshal_def [abs_def])
  moreover have "fsms_json_ok (table_json sample_table)"
    by (rule table_json_ok) (simp_all add: sample_table_def sample_dumps_def)
  ultimately show ?thesis by simp
qed

lemma sample_saved:
  assumes "d \<in> set sample_dumps"
  obtains b where "sample_Marshal [(''round'', DumpJSON d)] = Inr b" "b \<noteq> []"
    "sample_Unmarshal b = Inr (Some [(''round'', DumpJSON d)])"
proof -
  have "[(''round'', DumpJSON d)] \<in> set (map snd sample_table)"
    using assms by (auto simp: sample_table_def sample_dumps_def)
  then have "find (\<lambda>(b, m'). m' = [(''round'', DumpJSON d)]) sample_table \<noteq> None"
    by (auto simp: find_None_iff)
  then obtain b m' where f: "find (\<lambda>(b, m'). m' = [(''round'', DumpJSON d)]) sample_table = Some (b, m')" by auto
  then have mem: "(b, [(''round'', DumpJSON d)]) \<in> set sample_table"
    by (auto simp: find_Some_iff) (metis nth_mem)
  have "distinct (map fst sample_table)" "[] \<notin> set (map fst sample_table)"
    by (simp_all add: sample_table_def sample_dumps_def)
  moreover from mem have "b \<in> set (map fst sample_table)" by force
  ultimately have "b \<noteq> []" "map_of sample_table b = Some [(''round'', DumpJSON d)]" using mem by (metis, simp)
  then show thesis
    by (intro that[of b]) (simp_all add: sample_Marshal_def sample_Unmarshal_def table_json_def f)
qed

lemma sample_save:
  assumes "getAllFSMData memdb (ne_fsms sample_env) f = Inr (Some m)"
    and "AList.update ''round'' (DumpJSON d') m = [(''round'', DumpJSON d')]"
    and "d' \<in> set sample_dumps"
  shows "\<exists>f'. SaveFSM memdb (ne_fsms sample_env) ''round'' (DumpJSON d') f = Inr (None, f') \<and>
    fs_stateKey f' = fs_stateKey f \<and>
    getAllFSMData memdb (ne_fsms sample_env) f' = Inr (Some [(''round'', DumpJSON d')])"
proof -
  from assms(3) obtain b where "sample_Marshal [(''round'', DumpJSON d')] = Inr b" "b \<noteq> []"
    "sample_Unmarshal b = Inr (Some [(''round'', DumpJSON d')])" by (rule sample_saved)
  with assms(1,2) show ?thesis
    by (auto simp: SaveFSM_def LevelDBState_Set_def memdb_def getAllFSMData_def getStateKey_def
        LevelDBState_Get_def byte_len_def)
qed

lemma sample_step:
  assumes "sample_at n d" and "round_message 4 d e req = Some d'"
    and "FSMRequestFromMessage sample_requests (sample_message e k) = Inr req"
    and "d' \<in> set sample_dumps"
    and "authentic sample_env False d (sample_message e k)"
    and "plain_event e" and "live_state (dump_State d)"
    and "dump_State d' \<notin> {StateSignatureProposalCollected, StateDkgMasterKeyCollected, StateSigningPartialSignsCollected}"
  shows "\<exists>n'. sample_at n' d'"
proof -
  let ?m = "sample_message e k"
  note at = assms(1)[unfolded sample_at_def]
  have m: "DkgRoundID ?m = ''round''" "msg_Event ?m = e" by (simp_all add: sample_message_def Let_def)
  have ok: "node_ok sample_env n"
    by (rule node_reachable_ok[OF _ _ sample_fsms_ok]) (use at memdb_ok in simp_all)
  from assms(2) obtain i where i: "FromDump (DumpJSON d) = Inr (Inr i)"
    by (auto simp: round_message_def split: option.split_asm dest!: round_next_load)
  have load: "node_GetFSMInstance sample_env (DkgRoundID ?m) True n = Inr (Inr i, n)"
    unfolding m by (rule node_load_known[where rounds = "[''round'' \<mapsto> DumpJSON d]"])
      (use at i in \<open>auto simp: stores_def\<close>)
  from sample_save[of "fsmService n" _ d', OF _ _ assms(4)] at obtain f'
    where f': "SaveFSM memdb (ne_fsms sample_env) ''round'' (DumpJSON d') (fsmService n) = Inr (None, f')"
      "getAllFSMData memdb (ne_fsms sample_env) f' = Inr (Some [(''round'', DumpJSON d')])" by auto
  have "\<exists>r n'. ProcessMessage sample_env ?m n = Inr (r, n') \<and> nd_skip n' = nd_skip n \<and>
      getAllFSMData memdb (ne_fsms sample_env) (fsmService n') = getAllFSMData memdb (ne_fsms sample_env) f'"
    using ProcessMessage_saves[of sample_env n ?m n i d req d' f'] load i assms m f'(1) at ok memdb_ok
    by (simp add: node_ok_def keys_apart_def)
  then obtain r n' where n': "ProcessMessage sample_env ?m n = Inr (r, n')" "nd_skip n' = nd_skip n"
    "getAllFSMData memdb (ne_fsms sample_env) (fsmService n') = Inr (Some [(''round'', DumpJSON d')])"
    using f'(2) by auto
  have "msg_Event ?m \<noteq> ReinitDKG" using assms(6) by (simp add: m plain_event_def)
  from node_step.message[OF this n'(1)] at have "node_reachable sample_env n'"
    by (blast intro: node_reachable.stepped)
  with n' at show ?thesis by (auto simp: sample_at_def)
qed

text \<open>The first message creates the round; the node is started on an empty database.\<close>

definition sample_state :: "(string, bytes) gomap LevelDBState" where
  "sample_state = \<lparr>stateDb = [(''t_offset'', PutUint64 0)], topic = ''t'', stateDbPath = ''db''\<rparr>"

definition sample_node :: "((string, bytes) gomap, Message list) node" where
  "sample_node = \<lparr>nd_userName = ''alice'', nd_pubKey = sample_key 1,
     nd_state = sample_state\<lparr>stateDb := [(''t_offset'', PutUint64 0), (''t_operations'', empty_object),
       (''t_deleted_operations'', empty_object)]\<rparr>,
     nd_storage = [], nd_stateKey = ''t_fsm_state'', nd_operationsKey = ''t_operations'',
     nd_deletedKey = ''t_deleted_operations'', nd_skip = False, nd_clock = 0\<rparr>"

lemma sample_node_reachable: "node_reachable sample_env sample_node"
proof (rule node_reachable.started[where path = "''db''" and t = "''t''" and s = sample_state])
  show "NewLevelDBState (ne_leveldb sample_env) ''db'' ''t'' = Inr sample_state"
    by (simp add: NewLevelDBState_def memdb_def sample_state_def MakeCompositeKey_def OffsetKey_def Let_def)
  show "topic_ok ''t''" by (simp add: topic_ok_def HasPrefix_def)
  show "NewNode sample_env ''alice'' ''t'' sample_state [] = Inr sample_node"
    by (simp add: NewNode_def NewOperationRepo_def initJsonKey_def LevelDBState_Set_def memdb_def Let_def
        sample_node_def sample_state_def MakeCompositeKeyString_def OperationsKey_def DeletedOperationsKey_def
        NewFSMService_def FSMStateKey_def)
       (simp add: sample_env_def NewFSMService_def FSMStateKey_def)
  show "LevelDBState_Get (ne_leveldb sample_env) sample_state (nd_stateKey sample_node) = Inr None"
    by (simp add: LevelDBState_Get_def memdb_def sample_state_def sample_node_def)
qed

lemma sample_fresh: "fresh_dump ''round'' = new_dump ''round''"
  by (simp add: fresh_dump_def new_dump_def sample_trim)

lemma sample_at_proposed: "\<exists>n. sample_at n sample_proposed"
proof -
  let ?m = "sample_message EventInitProposal 0" and ?d = "fresh_dump ''round''"
  have m: "DkgRoundID ?m = ''round''" "msg_Event ?m = EventInitProposal" by (simp_all add: sample_message_def Let_def)
  have none: "getAllFSMData memdb (ne_fsms sample_env) (fsmService sample_node) = Inr (Some [])"
    by (simp add: getAllFSMData_def getStateKey_def LevelDBState_Get_def memdb_def sample_node_def fsmService_def
        sample_state_def byte_len_def)
  have b1: "?d \<in> set sample_dumps" and b2: "sample_proposed \<in> set sample_dumps" by (simp_all add: sample_dumps_def)
  from sample_save[OF none _ b1] obtain f1
    where f1: "SaveFSM memdb (ne_fsms sample_env) ''round'' (DumpJSON ?d) (fsmService sample_node) = Inr (None, f1)"
      "fs_stateKey f1 = nd_stateKey sample_node"
      "getAllFSMData memdb (ne_fsms sample_env) f1 = Inr (Some [(''round'', DumpJSON ?d)])"
    by (auto simp: fsmService_def)
  let ?n1 = "sample_node\<lparr>nd_state := fs_state f1\<rparr>"
  have n1: "fsmService ?n1 = f1" by (cases f1) (use f1(2) in \<open>simp add: fsmService_def\<close>)
  have load: "node_GetFSMInstance sample_env (DkgRoundID ?m) True sample_node = Inr (Inr (fresh_instance ''round''), ?n1)"
    unfolding m node_GetFSMInstance_def
    using GetFSMInstance_missing[of memdb "ne_fsms sample_env" "fsmService sample_node" Map.empty "''round''"]
      none f1(1) sample_trim by (simp add: stores_def)
  from sample_save[OF f1(3) _ b2] obtain f2
    where f2: "SaveFSM memdb (ne_fsms sample_env) ''round'' (DumpJSON sample_proposed) f1 = Inr (None, f2)"
      "getAllFSMData memdb (ne_fsms sample_env) f2 = Inr (Some [(''round'', DumpJSON sample_proposed)])" by auto
  have step: "round_message 4 ?d EventInitProposal (ReqSigInit sample_init) = Some sample_proposed"
    unfolding sample_fresh by code_simp
  have "FSMRequestFromMessage sample_requests ?m = Inr (ReqSigInit sample_init)" by code_simp
  moreover have "live_state StateGlobalIdle" by code_simp
  then have "live_state (dump_State ?d)" by (simp add: fresh_dump_def)
  moreover have "FromDump (DumpJSON ?d) = Inr (Inr (fresh_instance ''round''))"
    by (simp add: FromDump_eq machine_of_sig sig_lists fresh_dump_def fresh_instance_def)
  moreover have "dump_State sample_proposed = StateAwaitParticipantsConfirmations"
    by (simp add: sample_proposed_def sample_dump_def)
  moreover have "plain_event EventInitProposal" by code_simp
  ultimately have "\<exists>r n'. ProcessMessage sample_env ?m sample_node = Inr (r, n') \<and> nd_skip n' = nd_skip ?n1 \<and>
      getAllFSMData memdb (ne_fsms sample_env) (fsmService n') = getAllFSMData memdb (ne_fsms sample_env) f2"
    using ProcessMessage_saves[of sample_env ?n1 ?m sample_node "fresh_instance ''round''" ?d
        "ReqSigInit sample_init" sample_proposed f2] load m f2(1) n1 memdb_ok step
    by (simp add: sample_node_def authentic_def names_neq)
  then obtain r n' where n': "ProcessMessage sample_env ?m sample_node = Inr (r, n')" "\<not> nd_skip n'"
    "getAllFSMData memdb (ne_fsms sample_env) (fsmService n') = Inr (Some [(''round'', DumpJSON sample_proposed)])"
    using f2(2) by (auto simp: sample_node_def)
  have "msg_Event ?m \<noteq> ReinitDKG" by code_simp
  from node_step.message[OF this n'(1)] sample_node_reachable have "node_reachable sample_env n'"
    by (blast intro: node_reachable.stepped)
  with n' show ?thesis by (auto simp: sample_at_def)
qed

text \<open>The remaining messages, in the order of the log.\<close>

definition sample_move :: "FSMDump \<Rightarrow> FSMDump \<Rightarrow> Event \<Rightarrow> 8 word \<Rightarrow> request \<Rightarrow> bool" where
  "sample_move d d' e k req \<longleftrightarrow> round_message 4 d e req = Some d' \<and>
     FSMRequestFromMessage sample_requests (sample_message e k) = Inr req \<and>
     authentic sample_env False d (sample_message e k) \<and> plain_event e \<and> live_state (dump_State d) \<and>
     dump_State d' \<notin> {StateSignatureProposalCollected, StateDkgMasterKeyCollected, StateSigningPartialSignsCollected}"

lemma sample_move:
  assumes "\<exists>n. sample_at n d" and "sample_move d d' e k req" and "d' \<in> set sample_dumps"
  shows "\<exists>n. sample_at n d'"
proof -
  from assms(1) obtain n where "sample_at n d" ..
  from sample_step[OF this] assms(2,3) show ?thesis unfolding sample_move_def by blast
qed

lemma sample_moves:
  "sample_move sample_proposed sample_awaiting EventConfirmSignatureProposal 1 (sig_reply 0 2)"
  "sample_move sample_awaiting sample_started EventConfirmSignatureProposal 2 (sig_reply 1 3)"
  "sample_move sample_started sample_commits EventDKGCommitConfirmationReceived 3 (mk_commit 0 [1] [] 5)"
  "sample_move sample_commits sample_deals EventDKGCommitConfirmationReceived 4 (mk_commit 1 [2] [] 6)"
  "sample_move sample_deals sample_deal EventDKGDealConfirmationReceived 5 (mk_deal 0 [1] [] 7)"
  "sample_move sample_deal sample_responses EventDKGDealConfirmationReceived 6 (mk_deal 1 [2] [] 8)"
  "sample_move sample_responses sample_response EventDKGResponseConfirmationReceived 7 (mk_response 0 [1] [] 9)"
  "sample_move sample_response sample_responded EventDKGResponseConfirmationReceived 8 (mk_response 1 [2] [] 10)"
  "sample_move sample_responded sample_keys EventDKGMasterKeyConfirmationReceived 9 (mk_master_key 0 [7] [8] 11)"
  "sample_move sample_keys sample_opened EventDKGMasterKeyConfirmationReceived 10 (mk_master_key 1 [7] [8] 12)"
  by code_simp+

lemma sample_run:
  "\<exists>n. sample_at n sample_started" "\<exists>n. sample_at n sample_opened"
proof -
  note at = sample_at_proposed
  have started: "\<exists>n. sample_at n sample_started"
    by (rule sample_move[OF sample_move[OF at sample_moves(1)] sample_moves(2)]) (simp_all add: sample_dumps_def)
  have "\<exists>n. sample_at n sample_responses"
    by (rule sample_move[OF sample_move[OF sample_move[OF sample_move[OF started sample_moves(3)] sample_moves(4)]
        sample_moves(5)] sample_moves(6)]) (simp_all add: sample_dumps_def)
  note sample_move[OF sample_move[OF sample_move[OF sample_move[OF this sample_moves(7)] sample_moves(8)]
        sample_moves(9)] sample_moves(10)]
  then show "\<exists>n. sample_at n sample_opened" by (simp add: sample_dumps_def)
  show "\<exists>n. sample_at n sample_started" by (rule started)
qed

end
