(* ===== verification/Node_Frame.thy ===== *)
theory Node_Frame
  imports Node_Invariants
begin

text \<open>
  What processing a message leaves alone: the identity of the node and the flag that switches the
  check of signatures off, which a reinitialization sets and restores.
\<close>

section \<open>The identity of a node and its flag\<close>

text \<open>Processing changes neither the name, the key and the database keys of a node nor its flag.\<close>

abbreviation node_id :: "('db, 'st) node \<Rightarrow> string \<times> bytes \<times> string \<times> string \<times> string" where
  "node_id n \<equiv> (nd_userName n, nd_pubKey n, nd_stateKey n, nd_operationsKey n, nd_deletedKey n)"

lemma services_frame:
  "node_GetFSMInstance env d c n = Inr (ri, n1) \<Longrightarrow> \<exists>s. n1 = n\<lparr>nd_state := s\<rparr>"
  "node_SaveFSM env d dump n = Inr (ru, n2) \<Longrightarrow> \<exists>s. n2 = n\<lparr>nd_state := s\<rparr>"
  "node_SaveSignatures env ss n = Inr (rs, n3) \<Longrightarrow> \<exists>s. n3 = n\<lparr>nd_state := s\<rparr>"
  "node_PutOperation env oper n = Inr (rp, n4) \<Longrightarrow> \<exists>s. n4 = n\<lparr>nd_state := s\<rparr>"
  "SaveOffset env w n = Inr (rw, n5) \<Longrightarrow> \<exists>s. n5 = n\<lparr>nd_state := s\<rparr>"
  by (auto simp: node_GetFSMInstance_def node_SaveFSM_def node_SaveSignatures_def node_PutOperation_def
      SaveOffset_def split: prod.split_asm)

interpretation flag: node_frame env "\<lambda>n. nd_skip n = b" "\<lambda>_. True" "\<lambda>_. True"
  for env :: "('db, 'st) node_env" and b :: bool
  by unfold_locales (auto simp: keeps_def dest!: services_frame)

interpretation ident: node_identity env "\<lambda>n. node_id n = x" "\<lambda>_. True" "\<lambda>_. True"
  for env :: "('db, 'st) node_env" and x :: "string \<times> bytes \<times> string \<times> string \<times> string"
  by unfold_locales (auto simp: keeps_def dest!: services_frame)

lemma bind_attempt: "bindM (attemptM m) k s = bindR (m s) (\<lambda>(r, s'). k r s')"
  by (cases "m s") (auto simp: bindM_def attemptM_def)

lemma reinit_flag:
  assumes "reinitDKG env m n = Inr (r, n')"
  shows "nd_skip n' = nd_skip n"
proof -
  have body: "nd_skip n2" if "reinitBody env m req (n\<lparr>nd_skip := True\<rparr>) = Inr (v, n2)" for req v n2
    using keepsD[OF flag.reinit_body_keeps[where b = True] _ that] by simp
  show ?thesis
    using assms
    by (auto simp: reinitDKG_def bindM_def bind_attempt [unfolded bindM_def] wrapM_def liftE_def node_IsExist_def
        readM_def updateM_def retM_def split: sum.split_asm if_split_asm dest!: body)
qed

lemma ProcessMessage_flag:
  assumes "ProcessMessage env m n = Inr (r, n')"
  shows "nd_skip n' = nd_skip n"
proof (cases "msg_Event m = ReinitDKG")
  case True
  with assms obtain v n1 where v: "reinitDKG env m n = Inr (v, n1)"
    by (auto simp: ProcessMessage_def bind_attempt)
  with True assms have "n' = n1"
    by (cases v) (auto simp: ProcessMessage_def bind_attempt failM_def retM_def)
  with reinit_flag[OF v] show ?thesis by simp
next
  case False
  from keepsD[OF flag.ProcessMessage_keeps[OF False] _ assms] show ?thesis by simp
qed

end
