(* ===== verification/Node_Properties.thy ===== *)
theory Node_Properties
  imports Sample_Node Node_Frame
begin

text \<open>
  Properties of the node: what its rounds satisfy whatever the log holds, which messages it
  refuses, what it signs and sends, and how it moves through the log.
\<close>

section \<open>Every round of a node is sound\<close>

lemma loaded_round_inv:
  assumes "node_ok env n"
    and "loadFSM (ne_leveldb env) (ne_fsms env) d (fsmService n) = Inr (Inr (Some i))" and "fi_dump i = Some dump"
  shows "payload_inv (dump_State dump) (dump_Payload dump)"
proof -
  have "inst_ok i" using load_inst_ok[OF _ assms(2)] assms(1) by (simp add: node_ok_def)
  with assms(3) show ?thesis by (auto elim!: inst_ok_obtain simp: round_inv_def)
qed

text \<open>
  C4: Whatever arrives in the log and whatever the operator requests, as long as nothing is
  reinitialized: every round that a node has stored, since it was first started, rests on
  unanimous consent once it has a DKG, and once its DKG is finished all participants have
  confirmed one non-empty master key, each after a commit, a deal and a response.  Failed writes
  and restarts of the node included.
\<close>

theorem node_rounds_sound:
  assumes "node_reachable env n" and "leveldb_ok (ne_leveldb env)" and "fsms_json_ok (ne_fsms env)"
    and "loadFSM (ne_leveldb env) (ne_fsms env) d (fsmService n) = Inr (Inr (Some i))"
    and "fi_dump i = Some dump" and "DKGProposalPayload (dump_Payload dump) \<noteq> None"
  shows "\<exists>q dq. sig_quorum (dump_Payload dump) = Some q \<and> dkg_quorum (dump_Payload dump) = Some dq \<and>
    list_all (\<lambda>v. sp_Status v = SigConfirmationConfirmed) (map snd q) \<and>
    map (\<lambda>(i, v). (i, dp_Username v, dp_DkgPubKey v)) dq =
      map (\<lambda>(i, v). (i, sp_Username v, sp_DkgPubKey v)) q \<and>
    (finished (dump_State dump) \<longrightarrow> (\<exists>k. k \<noteq> [] \<and> 2 \<le> length dq \<and> list_all (\<lambda>v.
       dp_Status v = MasterKeyConfirmed \<and> dp_DkgMasterKey v = k \<and>
       dp_DkgCommit v \<noteq> [] \<and> dp_DkgDeal v \<noteq> [] \<and> dp_DkgResponse v \<noteq> []) (map snd dq)))"
proof -
  note inv = loaded_round_inv[OF node_reachable_ok[OF assms(1-3)] assms(4,5)]
  from dkg_consent[OF inv assms(6)] obtain q dq where "sig_quorum (dump_Payload dump) = Some q"
    "dkg_quorum (dump_Payload dump) = Some dq"
    "list_all (\<lambda>v. sp_Status v = SigConfirmationConfirmed) (map snd q)"
    "map (\<lambda>(i, v). (i, dp_Username v, dp_DkgPubKey v)) dq =
      map (\<lambda>(i, v). (i, sp_Username v, sp_DkgPubKey v)) q" by blast
  moreover from finished_agreement[OF inv] calculation(2) have "finished (dump_State dump) \<longrightarrow>
      (\<exists>k. k \<noteq> [] \<and> 2 \<le> length dq \<and> list_all (\<lambda>v.
       dp_Status v = MasterKeyConfirmed \<and> dp_DkgMasterKey v = k \<and>
       dp_DkgCommit v \<noteq> [] \<and> dp_DkgDeal v \<noteq> [] \<and> dp_DkgResponse v \<noteq> []) (map snd dq))"
    by auto
  ultimately show ?thesis by blast
qed

theorem node_rounds_sound_witness:
  "\<exists>n i q dq k. node_reachable sample_env n \<and>
    loadFSM memdb (ne_fsms sample_env) ''round'' (fsmService n) = Inr (Inr (Some i)) \<and>
    fi_dump i = Some sample_opened \<and> sig_quorum (dump_Payload sample_opened) = Some q \<and>
    dkg_quorum (dump_Payload sample_opened) = Some dq \<and>
    list_all (\<lambda>v. sp_Status v = SigConfirmationConfirmed) (map snd q) \<and> k \<noteq> [] \<and> 2 \<le> length dq \<and>
    list_all (\<lambda>v. dp_Status v = MasterKeyConfirmed \<and> dp_DkgMasterKey v = k) (map snd dq)"
proof -
  from sample_run(2) obtain n where n: "node_reachable sample_env n"
    "getAllFSMData memdb (ne_fsms sample_env) (fsmService n) = Inr (Some [(''round'', DumpJSON sample_opened)])"
    by (auto simp: sample_at_def)
  have st: "dump_State sample_opened = StateSigningIdle" "DKGProposalPayload (dump_Payload sample_opened) \<noteq> None"
    by (simp_all add: sample_opened_def sample_defs)
  then have m: "machine_of (dump_State sample_opened) = Some signing_fsm"
    by (simp add: machine_of_signing signing_lists)
  let ?i = "\<lparr>fi_machine = Some (in_state signing_fsm StateSigningIdle), fi_dump = Some sample_opened\<rparr>"
  have i: "loadFSM memdb (ne_fsms sample_env) ''round'' (fsmService n) = Inr (Inr (Some ?i))"
    using n(2) m by (simp add: loadFSM_def FromDump_eq st)
  have "finished (dump_State sample_opened)" by (simp add: finished_def st signing_states_def)
  moreover note node_rounds_sound[OF n(1) _ sample_fsms_ok, of "''round''" ?i sample_opened] i st memdb_ok
  ultimately obtain q dq k where "sig_quorum (dump_Payload sample_opened) = Some q"
    "dkg_quorum (dump_Payload sample_opened) = Some dq"
    "list_all (\<lambda>v. sp_Status v = SigConfirmationConfirmed) (map snd q)" "k \<noteq> []" "2 \<le> length dq"
    "list_all (\<lambda>v. dp_Status v = MasterKeyConfirmed \<and> dp_DkgMasterKey v = k \<and>
       dp_DkgCommit v \<noteq> [] \<and> dp_DkgDeal v \<noteq> [] \<and> dp_DkgResponse v \<noteq> []) (map snd dq)"
    by auto
  then have "list_all (\<lambda>v. dp_Status v = MasterKeyConfirmed \<and> dp_DkgMasterKey v = k) (map snd dq)"
    by (auto simp: list_all_iff)
  with n(1) i \<open>sig_quorum _ = _\<close> \<open>dkg_quorum _ = _\<close> \<open>list_all _ (map snd q)\<close> \<open>k \<noteq> []\<close> \<open>2 \<le> length dq\<close>
  show ?thesis by (intro exI[of _ n] exI[of _ ?i] exI[of _ q] exI[of _ dq] exI[of _ k]) simp
qed

section \<open>Messages\<close>



lemma process_verify:
  assumes "node_GetFSMInstance env (DkgRoundID m) True n = Inr (Inr i, n)" and "msg_Event m \<noteq> EventInitProposal"
    and "msg_Event m \<noteq> ReinitDKG"
  shows "verifyMessage env i m n = Inl p \<Longrightarrow> ProcessMessage env m n = Inl p"
    and "verifyMessage env i m n = Inr (Inl e, n) \<Longrightarrow>
      ProcessMessage env m n = Inr (Inl (Wrapf ''failed to verifyMessage %+v: %w'' [] e), n)"
  using assms by (simp_all add: ProcessMessage_def processMessage_def bindM_def wrapM_def)



text \<open>
  A participant's key is accepted with any length from 10 bytes on, but a message of a
  participant whose key does not have 32 bytes makes the node panic: the check of its signature
  does.
\<close>

theorem short_key_panics:
  assumes "getAllFSMData (ne_leveldb env) (ne_fsms env) (fsmService n) = Inr (Some stored)"
    and "map_of stored (DkgRoundID m) = Some (DumpJSON d)" and "machine_of (dump_State d) \<noteq> None"
    and "msg_Event m \<noteq> EventInitProposal" and "msg_Event m \<noteq> ReinitDKG" and "\<not> nd_skip n"
    and "GetPubKeyByUsername (dump_Payload d) (SenderAddr m) = Inr key" and "length key \<noteq> 32"
  shows "\<exists>p. ProcessMessage env m n = Inl p"
proof -
  from assms(3) obtain i where i: "FromDump (DumpJSON d) = Inr (Inr i)" "fi_dump i = Some d"
    by (auto simp: FromDump_eq)
  have st: "stores (ne_leveldb env) (ne_fsms env) (fsmService n) (map_of stored)"
    using assms(1) by (simp add: stores_def)
  have "\<exists>p. verifyMessage env i m n = Inl p"
    using assms(6-8) i(2)
    by (simp add: verifyMessage_def bindM_def wrapM_def liftG_def FSMInstance_GetPubKeyByUsername_def
        ed25519_Verify_def)
  with process_verify(1)[OF node_load_known[OF st assms(2) i(1)] assms(4,5)] show ?thesis by blast
qed

definition sample_short :: FSMDump where
  "sample_short = sample_proposed\<lparr>dump_Payload := (dump_Payload sample_proposed)
     \<lparr>PubKeys := Some [(''alice'', replicate 10 1), (''bob'', sample_key 3)]\<rparr>\<rparr>"

definition sample_short_env :: "((string, bytes) gomap, Message list) node_env" where
  "sample_short_env = sample_env\<lparr>ne_fsms := table_json [([1], [(''round'', DumpJSON sample_short)])]\<rparr>"

theorem short_key_panics_witness:
  "\<exists>p. ProcessMessage sample_short_env (sample_message EventConfirmSignatureProposal 1)
     (sample_node\<lparr>nd_state := sample_state\<lparr>stateDb := [(''t_fsm_state'', [1])]\<rparr>\<rparr>) = Inl p"
proof (rule short_key_panics[where d = sample_short and key = "replicate 10 1"])
  let ?m = "sample_message EventConfirmSignatureProposal 1"
  show "getAllFSMData (ne_leveldb sample_short_env) (ne_fsms sample_short_env)
      (fsmService (sample_node\<lparr>nd_state := sample_state\<lparr>stateDb := [(''t_fsm_state'', [1])]\<rparr>\<rparr>)) =
      Inr (Some [(''round'', DumpJSON sample_short)])"
    by (simp add: sample_short_env_def getAllFSMData_def getStateKey_def fsmService_def sample_node_def
        LevelDBState_Get_def memdb_def byte_len_def table_json_def)
  show "map_of [(''round'', DumpJSON sample_short)] (DkgRoundID ?m) = Some (DumpJSON sample_short)"
    by (simp add: sample_message_def Let_def)
  show "machine_of (dump_State sample_short) \<noteq> None" "msg_Event ?m \<noteq> EventInitProposal" "msg_Event ?m \<noteq> ReinitDKG"
    "GetPubKeyByUsername (dump_Payload sample_short) (SenderAddr ?m) = Inr (replicate 10 1)" by code_simp+
qed (simp_all add: sample_node_def)

text \<open>
  A signature covers the data of a message only.  A message that a node accepts for one round is
  accepted, with the same signature, under any other identifier, event, offset and recipient in every
  round in which the sender has the same key: an approval for one round can be replayed as an
  approval, or as a refusal, of another.
\<close>

theorem signature_covers_data_only:
  assumes "verifyMessage env i m n = Inr (Inr (), n)" and "fi_dump i = Some d" and "fi_dump i' = Some d'"
    and "GetPubKeyByUsername (dump_Payload d') (SenderAddr m) = GetPubKeyByUsername (dump_Payload d) (SenderAddr m)"
  shows "verifyMessage env i' (m\<lparr>ID := x, DkgRoundID := round', msg_Event := e, Offset := w, RecipientAddr := rcpt\<rparr>) n =
    Inr (Inr (), n)"
proof -
  have "FSMInstance_GetPubKeyByUsername i' (SenderAddr m) = FSMInstance_GetPubKeyByUsername i (SenderAddr m)"
    using assms(2-4) by (simp add: FSMInstance_GetPubKeyByUsername_def)
  with assms(1) show ?thesis by (simp add: verifyMessage_def Message_Bytes_def cong: if_cong)
qed

theorem signature_covers_data_only_witness:
  "verifyMessage sample_env (fresh_instance ''x'')
      (sample_message EventConfirmSignatureProposal 1) sample_node \<noteq> Inr (Inr (), sample_node) \<and>
   verifyMessage sample_env \<lparr>fi_machine = None, fi_dump = Some sample_started\<rparr>
      ((sample_message EventConfirmSignatureProposal 1)\<lparr>ID := ''y'', DkgRoundID := ''other'', msg_Event := EventDeclineProposal,
        Offset := 5, RecipientAddr := ''''\<rparr>) sample_node = Inr (Inr (), sample_node)"
proof
  let ?m = "sample_message EventConfirmSignatureProposal 1"
  let ?i = "\<lparr>fi_machine = None, fi_dump = Some sample_proposed\<rparr>"
  have a: "authentic sample_env (nd_skip sample_node) sample_proposed ?m" by code_simp
  have "verifyMessage sample_env ?i ?m sample_node = Inr (Inr (), sample_node)"
    by (rule verify_authentic[OF a]) (simp, code_simp)
  from signature_covers_data_only[OF this, where d = sample_proposed and d' = sample_started
      and i' = "\<lparr>fi_machine = None, fi_dump = Some sample_started\<rparr>" and x = "''y''" and round' = "''other''"
      and e = EventDeclineProposal and w = 5 and rcpt = "''''"]
  show "verifyMessage sample_env \<lparr>fi_machine = None, fi_dump = Some sample_started\<rparr>
      (?m\<lparr>ID := ''y'', DkgRoundID := ''other'', msg_Event := EventDeclineProposal, Offset := 5, RecipientAddr := ''''\<rparr>) sample_node =
      Inr (Inr (), sample_node)" by (simp add: sample_proposed_def sample_started_def sample_defs GetPubKeyByUsername_def)
  show "verifyMessage sample_env (fresh_instance ''x'') ?m sample_node \<noteq> Inr (Inr (), sample_node)"
    by (simp add: verifyMessage_def bindM_def wrapM_def sample_node_def FSMInstance_GetPubKeyByUsername_def fresh_instance_def
        fresh_dump_def fresh_payload_def GetPubKeyByUsername_def liftE_def)
qed

end
