(* ===== verification/Node_Operations.thy ===== *)
theory Node_Operations
  imports Sample_Node Node_Frame
begin

text \<open>
  The node between the airgapped machine and the log: executing operations, and moving through the
  log message by message.
\<close>

section \<open>Executing an operation\<close>

definition signed_result :: "('db, 'st) node_env \<Rightarrow> string \<Rightarrow> bytes \<Rightarrow> Message \<Rightarrow> Message" where
  "signed_result env userName priv m =
    m\<lparr>SenderAddr := userName, Signature := ne_Sign env priv (Message_Bytes m)\<rparr>"

lemma signResults_signed:
  assumes "ne_LoadKeys env (nd_userName n) = Inr (pub, priv)" and "signResults env ms n = Inr (r, n')"
  shows "r = Inr (map (signed_result env (nd_userName n) priv) ms) \<and> n' = n"
  using assms(2)
proof (induction ms arbitrary: r n')
  case (Cons m ms)
  from Cons.prems assms(1) obtain r1 n1 where rest: "signResults env ms n = Inr (r1, n1)"
    by (auto simp: bindM_def readM_def wrapM_def signMessage_def liftE_def liftG_def ed25519_Sign_def Let_def
        split: if_split_asm)
  from Cons.IH[OF rest] Cons.prems assms(1) rest show ?case
    by (auto simp: bindM_def readM_def wrapM_def signMessage_def liftE_def liftG_def ed25519_Sign_def Let_def
        signed_result_def Message_Bytes_def retM_def split: if_split_asm)
qed (simp add: retM_def)

lemma delete_keys:
  assumes "DeleteOperation L J oper r = (err, r')"
  shows "operationsCompositeKey r' = operationsCompositeKey r \<and>
    deleteOperationsCompositeKey r' = deleteOperationsCompositeKey r"
  using assms
  by (auto simp: DeleteOperation_def storeOperations_def
      split: sum.split_asm option.split_asm prod.split_asm if_split_asm)


section \<open>Moving through the log\<close>

lemma handleMessage_eq:
  "handleMessage env m n =
    bindR (if RecipientAddr m = '''' \<or> RecipientAddr m = nd_userName n
           then bindR (ProcessMessage env m n) (\<lambda>(r, n1). Inr n1) else Inr n) (\<lambda>n1.
      case LevelDBState_SaveOffset (ne_leveldb env) (Offset m + 1) (nd_state n1) of
        (err, s) \<Rightarrow> Inr (Inr (), n1\<lparr>nd_state := s\<rparr>))"
proof -
  have save: "bindM (attemptM (SaveOffset env (Offset m + 1))) (\<lambda>_. retM ()) n1 =
      (case LevelDBState_SaveOffset (ne_leveldb env) (Offset m + 1) (nd_state n1) of
        (err, s) \<Rightarrow> Inr (Inr (), n1\<lparr>nd_state := s\<rparr>))" for n1 :: "('a, 'b) node"
    by (simp add: bind_attempt SaveOffset_def retM_def split: prod.split)
  have attempt: "bindM (attemptM (ProcessMessage env m)) (\<lambda>_. retM ()) n =
      bindR (ProcessMessage env m n) (\<lambda>(r, n1). Inr (Inr (), n1))"
    by (simp add: bind_attempt retM_def)
  show ?thesis
    by (cases "ProcessMessage env m n")
       (auto simp: handleMessage_def bindM_def [of "readM _"] readM_def bindM_def [of "if _ then _ else _"]
        bindM_def [of "retM _"] retM_def [of _ n] save attempt)
qed

lemma handleMessage_offset:
  assumes "\<And>db k v. \<exists>db'. ldb_Put (ne_leveldb env) db k v = (None, db')"
    and "leveldb_ok (ne_leveldb env)" and "handleMessage env m n = Inr (r, n')"
  shows "r = Inr () \<and> GetStateOffset env n' = Inr (Inr (Offset m + 1), n')"
proof -
  from assms(3) obtain n1 where n1: "(case LevelDBState_SaveOffset (ne_leveldb env) (Offset m + 1) (nd_state n1) of
      (err, s) \<Rightarrow> Inr (Inr (), n1\<lparr>nd_state := s\<rparr>)) = (Inr (r, n') :: ((error + unit) \<times> ('a, 'b) node) go)"
    by (auto simp: handleMessage_eq)
  from assms(1) obtain db' where
    "ldb_Put (ne_leveldb env) (stateDb (nd_state n1)) (MakeCompositeKey (topic (nd_state n1)) OffsetKey)
       (PutUint64 (Offset m + 1)) = (None, db')" by blast
  then have s: "LevelDBState_SaveOffset (ne_leveldb env) (Offset m + 1) (nd_state n1) =
      (None, (nd_state n1)\<lparr>stateDb := db'\<rparr>)" by (simp add: LevelDBState_SaveOffset_def)
  with n1 have "r = Inr ()" "n' = n1\<lparr>nd_state := (nd_state n1)\<lparr>stateDb := db'\<rparr>\<rparr>"
    by auto
  with offset_saved[OF assms(2) s] show ?thesis by (simp add: GetStateOffset_def)
qed

lemma handleMessages_offset:
  assumes "\<And>db k v. \<exists>db'. ldb_Put (ne_leveldb env) db k v = (None, db')"
    and "leveldb_ok (ne_leveldb env)" and "handleMessages env ms n = Inr (r, n')" and "ms \<noteq> []"
  shows "r = Inr () \<and> GetStateOffset env n' = Inr (Inr (Offset (last ms) + 1), n')"
  using assms(3,4)
proof (induction ms arbitrary: n)
  case (Cons m ms)
  from Cons.prems(1) obtain r1 n1 where one: "handleMessage env m n = Inr (r1, n1)"
    by (auto simp: bindM_def)
  note h = handleMessage_offset[OF assms(1,2) one]
  from Cons.prems(1) one h have rest: "handleMessages env ms n1 = Inr (r, n')" by (simp add: bindM_def)
  show ?case
  proof (cases "ms = []")
    case True
    with rest h one show ?thesis by (simp add: retM_def)
  next
    case False
    with Cons.IH[OF rest False] show ?thesis by simp
  qed
qed simp

text \<open>
  C35: A tick of \<open>Poll\<close> makes progress whatever the messages are.  With a database whose writes
  succeed, a tick that reads messages from the stored offset on, unless one of them makes the node
  panic, succeeds and leaves the offset one behind the last of them: a message that is refused or
  fails is not read again and does not stop the ones after it.
\<close>

theorem poll_tick_progress:
  assumes "leveldb_ok (ne_leveldb env)"
    and "\<And>db k v. \<exists>db'. ldb_Put (ne_leveldb env) db k v = (None, db')"
    and "GetStateOffset env n = Inr (Inr w, n)"
    and "stg_GetMessages (ne_storage env) w (nd_storage n) = (Inr ms, st)" and "ms \<noteq> []"
    and "pollTick env n = Inr (r, n')"
  shows "r = Inr () \<and> GetStateOffset env n' = Inr (Inr (Offset (last ms) + 1), n')"
proof -
  from assms(3,4,6) have "handleMessages env ms (n\<lparr>nd_storage := st\<rparr>) = Inr (r, n')"
    by (simp add: pollTick_def bindM_def wrapM_def)
  from handleMessages_offset[OF assms(2,1) this assms(5)] show ?thesis .
qed

section \<open>The flag\<close>

text \<open>
  Processing a message, a reinitialization included, whether it succeeds or fails, leaves the
  node's name, its key and the keys of its database as they were and the check of signatures
  switched on exactly when it was on before: the reinitialization that switches it off while it
  replays old messages restores it on every path.
\<close>

theorem verification_restored:
  assumes "ProcessMessage env m n = Inr (r, n')"
  shows "nd_skip n' = nd_skip n \<and> nd_userName n' = nd_userName n \<and> nd_pubKey n' = nd_pubKey n \<and>
    nd_stateKey n' = nd_stateKey n \<and> nd_operationsKey n' = nd_operationsKey n \<and> nd_deletedKey n' = nd_deletedKey n"
  using ProcessMessage_flag[OF assms] keepsD[OF ident.ProcessMessage_frame refl assms] by simp

section \<open>A batch that crashes the node\<close>

text \<open>
  A batch proposal with a range that starts below zero passes the validation of the request, and
  processing it panics before the round and the offset are saved: the node meets the message again
  at its next start.
\<close>

theorem negative_range_crashes:
  assumes "getAllFSMData (ne_leveldb env) (ne_fsms env) (fsmService n) = Inr (Some stored)"
    and "map_of stored (DkgRoundID m) = Some (DumpJSON d)" and "live_state (dump_State d)"
    and "msg_Event m = EventSigningStart" and "authentic env (nd_skip n) d m"
    and "rq_SigningStart (ne_reqs env) (Data m) = Inr req"
    and "round_next d EventSigningStart [ReqSigningStart req] = Some d'"
    and "dump_State d' = StateSigningAwaitPartialSigns"
    and "bs_SigningTasks req = t # ts" and "st_Payload t = None" and "st_RangeStart t < 0"
    and "st_RangeStart t < st_RangeEnd t" and "\<And>x. \<exists>b. ne_Marshal_response env x = Inr b"
    and "RecipientAddr m = ''''"
  shows "handleMessage env m n = Inl IndexOutOfRange"
proof -
  from round_next_load[OF assms(7)] obtain i where i: "FromDump (DumpJSON d) = Inr (Inr i)" "fi_dump i = Some d" by blast
  have st: "stores (ne_leveldb env) (ne_fsms env) (fsmService n) (map_of stored)"
    using assms(1) by (simp add: stores_def)
  have e: "msg_Event m \<noteq> SignatureReconstructed" "msg_Event m \<noteq> SignatureReconstructionFailed" "msg_Event m \<noteq> ReinitDKG"
    unfolding assms(4) by code_simp+
  have req: "FSMRequestFromMessage (ne_reqs env) m = Inr (ReqSigningStart req)"
    by (simp add: FSMRequestFromMessage_def assms(4,6) resolved_def names_neq)
  from assms(7) i(1) obtain r i' where r: "FSMInstance_Do EventSigningStart [ReqSigningStart req] i =
      Inr ((Some r, DumpJSON d', None), i')" "resp_State r = dump_State d'" "fi_dump i' = Some d'" by (rule round_next_Do)
  then have s: "resp_State r = StateSigningAwaitPartialSigns" by (simp add: assms(8))
  have "StateSigningAwaitPartialSigns \<noteq> StateSigningPartialSignsCollected" by code_simp
  with makeOperation_ok[of r env m i' n] s assms(13) obtain oper c where
    oper: "makeOperation env m r i' n = Inr (Inr oper, n\<lparr>nd_clock := c\<rparr>)" by auto
  have crash: "processSignatureProposal env m n1 = Inl IndexOutOfRange" for n1
    using negative_range[OF assms(10-12), of "ne_baked env" ts] assms(6,9)
    by (simp add: processSignatureProposal_def bindM_def wrapM_def liftGE_def)
  have "runMessage env m i n = Inl IndexOutOfRange"
    using s r(1) req oper crash assms(4)
    by (simp add: runMessage_def bindM_def wrapM_def doM_ok followUpIf_none names_neq)
  then have "processMessage env m n = Inl IndexOutOfRange"
    using processMessage_run[OF node_load_known[OF st assms(2) i(1)] i(2) assms(5) e(1,2) assms(3)] by simp
  then show ?thesis
    using e(3) assms(14) by (simp add: handleMessage_def bindM_def bind_attempt [unfolded bindM_def] ProcessMessage_def)
qed

definition sample_range :: SigningBatchProposalStartRequest where
  "sample_range = sample_start\<lparr>bs_SigningTasks := [\<lparr>st_MessageID = ''m'', st_File = '''', st_Payload = None,
     st_RangeStart = -1, st_RangeEnd = 1\<rparr>]\<rparr>"

definition sample_range_env :: "((string, bytes) gomap, Message list) node_env" where
  "sample_range_env = sample_env\<lparr>ne_fsms := table_json [([1], [(''round'', DumpJSON sample_idle)])],
     ne_reqs := sample_requests\<lparr>rq_SigningStart := (\<lambda>b. Inr sample_range)\<rparr>\<rparr>"

definition sample_stored_node :: "((string, bytes) gomap, Message list) node" where
  "sample_stored_node = sample_node\<lparr>nd_state := sample_state\<lparr>stateDb := [(''t_fsm_state'', [1])]\<rparr>\<rparr>"

theorem negative_range_crashes_witness:
  "handleMessage sample_range_env (sample_message EventSigningStart 1) sample_stored_node = Inl IndexOutOfRange"
proof (rule negative_range_crashes[where d = sample_idle and req = sample_range and ts = "[]"])
  let ?m = "sample_message EventSigningStart 1"
  show "getAllFSMData (ne_leveldb sample_range_env) (ne_fsms sample_range_env) (fsmService sample_stored_node) =
      Inr (Some [(''round'', DumpJSON sample_idle)])"
    by (simp add: sample_range_env_def getAllFSMData_def getStateKey_def fsmService_def sample_stored_node_def sample_node_def
        LevelDBState_Get_def memdb_def byte_len_def table_json_def)
  show "map_of [(''round'', DumpJSON sample_idle)] (DkgRoundID ?m) = Some (DumpJSON sample_idle)"
    "RecipientAddr ?m = ''''" "msg_Event ?m = EventSigningStart"
    by (simp_all add: sample_message_def Let_def)
  show "authentic sample_range_env (nd_skip sample_stored_node) sample_idle ?m" "live_state (dump_State sample_idle)"
    by code_simp+
  have "Option.is_none (round_next sample_idle EventSigningStart [ReqSigningStart sample_range]) = False \<and>
      map_option dump_State (round_next sample_idle EventSigningStart [ReqSigningStart sample_range]) =
        Some StateSigningAwaitPartialSigns" by code_simp
  then show "round_next sample_idle EventSigningStart [ReqSigningStart sample_range] =
      Some (the (round_next sample_idle EventSigningStart [ReqSigningStart sample_range]))"
    "dump_State (the (round_next sample_idle EventSigningStart [ReqSigningStart sample_range])) = StateSigningAwaitPartialSigns"
    by auto
  show "rq_SigningStart (ne_reqs sample_range_env) (Data ?m) = Inr sample_range"
    "bs_SigningTasks sample_range = [\<lparr>st_MessageID = ''m'', st_File = '''', st_Payload = None,
       st_RangeStart = -1, st_RangeEnd = 1\<rparr>]"
    by (simp_all add: sample_range_env_def sample_range_def)
  show "\<And>x. \<exists>b. ne_Marshal_response sample_range_env x = Inr b" by (simp add: sample_range_env_def)
qed simp_all

section \<open>Samples\<close>

text \<open>A message for a round without a name: it is refused, and the offset moves on.\<close>

definition sample_nameless :: Message where
  "sample_nameless = (sample_message EventConfirmSignatureProposal 1)\<lparr>DkgRoundID := ''''\<rparr>"

lemma sample_nameless_refused:
  "\<exists>e. ProcessMessage sample_env sample_nameless (sample_node\<lparr>nd_storage := st\<rparr>) = Inr (Inl e, sample_node\<lparr>nd_storage := st\<rparr>)"
proof -
  let ?n = "sample_node\<lparr>nd_storage := st\<rparr>"
  have none: "getAllFSMData memdb (ne_fsms sample_env) (fsmService ?n) = Inr (Some [])"
    by (simp add: getAllFSMData_def getStateKey_def LevelDBState_Get_def memdb_def sample_node_def fsmService_def
        sample_state_def byte_len_def)
  have "TrimSpace '''' = ''''" by code_simp
  then have "\<exists>e. GetFSMInstance memdb (ne_fsms sample_env) '''' True (fsmService ?n) = Inr (Inl e, fsmService ?n)"
    using none by (simp add: GetFSMInstance_def loadFSM_def Create_fresh)
  then have "\<exists>e. node_GetFSMInstance sample_env '''' True ?n = Inr (Inl e, ?n)"
    by (auto simp: node_GetFSMInstance_def fsmService_def)
  moreover have "DkgRoundID sample_nameless = ''''" "msg_Event sample_nameless \<noteq> ReinitDKG" by code_simp+
  ultimately show ?thesis by (auto simp: ProcessMessage_def processMessage_def bindM_def wrapM_def)
qed

theorem poll_tick_progress_witness:
  "\<exists>n'. pollTick sample_env (sample_node\<lparr>nd_storage := [sample_nameless]\<rparr>) = Inr (Inr (), n') \<and>
    GetStateOffset sample_env n' = Inr (Inr 2, n')"
proof -
  let ?n = "sample_node\<lparr>nd_storage := [sample_nameless]\<rparr>"
  have off: "GetStateOffset sample_env ?n = Inr (Inr 0, ?n)"
    by (simp add: GetStateOffset_def LevelDBState_LoadOffset_def memdb_def sample_node_def sample_state_def
        MakeCompositeKey_def OffsetKey_def Uint64_PutUint64)
  have get: "stg_GetMessages (ne_storage sample_env) 0 (nd_storage ?n) = (Inr [sample_nameless], [sample_nameless])"
    by (simp add: sample_env_def memory_log_def)
  have put: "\<exists>db'. ldb_Put (ne_leveldb sample_env) db k v = (None, db')" for db k v by (simp add: memdb_def)
  have rcpt: "RecipientAddr sample_nameless = ''''" by (simp add: sample_nameless_def sample_message_def Let_def)
  from sample_nameless_refused[of "[sample_nameless]"] obtain e where
    "ProcessMessage sample_env sample_nameless ?n = Inr (Inl e, ?n)" by blast
  then have "\<exists>n'. handleMessages sample_env [sample_nameless] ?n = Inr (Inr (), n')"
    by (simp add: bindM_def retM_def handleMessage_eq rcpt split: prod.split)
  then obtain n' where tick: "pollTick sample_env ?n = Inr (Inr (), n')"
    using off get by (auto simp: pollTick_def bindM_def wrapM_def simp del: handleMessages.simps)
  have "leveldb_ok (ne_leveldb sample_env)" by (simp add: memdb_ok)
  from poll_tick_progress[OF this put off get _ tick] tick show ?thesis
    by (auto simp: sample_nameless_def sample_message_def Let_def)
qed

text \<open>A reinitialization that fails after the flag was set.\<close>

definition sample_reinit_env :: "((string, bytes) gomap, Message list) node_env" where
  "sample_reinit_env = sample_env\<lparr>ne_ReDKG := (\<lambda>b. Inr \<lparr>rd_DKGID = ''round'', rd_Threshold = 2,
     rd_Participants = [], rd_Messages = []\<rparr>)\<rparr>"

theorem verification_restored_witness:
  "\<exists>e n'. ProcessMessage sample_reinit_env (sample_message ReinitDKG 1) sample_node = Inr (Inl e, n') \<and>
    \<not> nd_skip n' \<and> nd_userName n' = ''alice''"
proof -
  have exist: "node_IsExist sample_reinit_env ''round'' sample_node = Inr (Inr False, sample_node)"
    by (simp add: node_IsExist_def IsExist_def LevelDBState_GetOrError_def sample_reinit_env_def fsmService_def
        sample_node_def memdb_def getStateKey_def sample_state_def)
  have marshal: "ne_Marshal_operations sample_reinit_env ops = Inl (errorsNew ''json'')" for ops
    by (simp add: sample_reinit_env_def sample_env_def)
  have req: "ne_ReDKG sample_reinit_env b = Inr \<lparr>rd_DKGID = ''round'', rd_Threshold = 2,
     rd_Participants = [], rd_Messages = []\<rparr>" for b by (simp add: sample_reinit_env_def)
  have "\<exists>e n'. ProcessMessage sample_reinit_env (sample_message ReinitDKG 1) sample_node = Inr (Inl e, n')"
    by (simp add: ProcessMessage_def sample_message_def Let_def reinitDKG_def bindM_def attemptM_def wrapM_def liftE_def
        req exist readM_def updateM_def reinitBody_def marshal failM_def retM_def)
  then obtain e n' where p: "ProcessMessage sample_reinit_env (sample_message ReinitDKG 1) sample_node = Inr (Inl e, n')"
    by blast
  from verification_restored[OF p] p show ?thesis by (simp add: sample_node_def)
qed

text \<open>An operation that came back with one result.\<close>

definition sample_result :: Operation where
  "sample_result = sample_op\<lparr>op_Event := EventConfirmSignatureProposal, op_ResultMsgs := [sample_nameless]\<rparr>"

definition sample_executed :: Operation where
  "sample_executed = sample_result\<lparr>op_ResultMsgs := [signed_result sample_env ''alice'' (sample_key 1 @ sample_key 1) sample_nameless]\<rparr>"

definition sample_result_json :: ops_json where
  "sample_result_json = \<lparr>oj_Marshal = (\<lambda>m. if m = [] then Inr empty_object
       else if m = [(''o1'', sample_op)] then Inr [1] else if m = [(''o1'', sample_executed)] then Inr [2]
       else Inl (errorsNew ''json'')),
     oj_Unmarshal = (\<lambda>b. if b = empty_object then Inr [] else if b = [1] then Inr [(''o1'', sample_op)]
       else if b = [2] then Inr [(''o1'', sample_executed)] else Inl (errorsNew ''json''))\<rparr>"

lemma sample_result_json_ok: "ops_json_ok sample_result_json"
  by (auto simp: ops_json_ok_def sample_result_json_def empty_object_def split: if_splits)

definition sample_result_node :: "((string, bytes) gomap, Message list) node" where
  "sample_result_node = sample_node\<lparr>nd_state := sample_state\<lparr>stateDb := [(''t_operations'', [1]),
     (''t_deleted_operations'', empty_object)]\<rparr>\<rparr>"


end
