(* ===== verification/Dkg_Store.thy ===== *)
theory Dkg_Store
  imports Computations
begin

text \<open>
  The containers of a DKG instance (\<open>src/dkg/types.go\<close>): the public keys of the participants and the
  store of the messages received from them.

  Points are values of a type variable; \<open>Equal\<close> of two points is their equality.
\<close>

section \<open>Public keys of participants\<close>

record 'p PK2Participant =
  pk_ParticipantID :: int
  pk_Participant :: string
  pk_PK :: 'p

type_synonym 'p PKStore = "'p PK2Participant list"

text \<open>\<open>PKStore_Add\<close> returns whether the key was new.\<close>

definition PKStore_Add :: "'p PK2Participant \<Rightarrow> 'p PKStore \<Rightarrow> bool \<times> 'p PKStore" where
  "PKStore_Add newPk s =
    (if list_ex (\<lambda>pk. pk_Participant pk = pk_Participant newPk \<and> pk_PK pk = pk_PK newPk) s
     then (False, s) else (True, s @ [newPk]))"

text \<open>
  \<open>sort.Sort\<close> with \<open>Less\<close> comparing the identifiers.  Go leaves the order of equal identifiers open,
  the model keeps it.
\<close>

definition PKStore_Less :: "'p PKStore \<Rightarrow> nat \<Rightarrow> nat \<Rightarrow> bool" where
  "PKStore_Less s i j \<longleftrightarrow> pk_ParticipantID (s ! i) < pk_ParticipantID (s ! j)"

definition PKStore_Sort :: "'p PKStore \<Rightarrow> 'p PKStore" where
  "PKStore_Sort s = sort_key pk_ParticipantID s"

definition GetPKs :: "'p PKStore \<Rightarrow> 'p list" where
  "GetPKs s = map pk_PK s"

definition GetPKByParticipant :: "'p PKStore \<Rightarrow> string \<Rightarrow> error + 'p" where
  "GetPKByParticipant s p =
    (case find (\<lambda>val. pk_Participant val = p) s of
       Some val \<Rightarrow> Inr (pk_PK val)
     | None \<Rightarrow> Inl (Errorf ''participant %s does not exist'' [AStr p]))"

text \<open>The index expression \<open>s[i]\<close>.\<close>

definition slice_at :: "'a list \<Rightarrow> int \<Rightarrow> 'a go" where
  "slice_at s i = (if 0 \<le> i \<and> i < int (length s) then Inr (s ! nat i) else Inl IndexOutOfRange)"

definition GetPKByIndex :: "'p PKStore \<Rightarrow> int \<Rightarrow> 'p option go" where
  "GetPKByIndex s index =
    (if index < 0 \<or> index > int (length s) then Inr None
     else bindR (slice_at s index) (\<lambda>e. Inr (Some (pk_PK e))))"

definition PKStore_GetParticipantByIndex :: "'p PKStore \<Rightarrow> int \<Rightarrow> string go" where
  "PKStore_GetParticipantByIndex s index =
    (if index < 0 \<or> index > int (length s) then Inr ''''
     else bindR (slice_at s index) (\<lambda>e. Inr (pk_Participant e)))"

section \<open>Messages of the same type\<close>

record 'v messageStore =
  messagesCount :: int
  maxMessagesFromPeer :: int
  addrToData :: "(string, 'v list) gomap"
  indexToData :: "(int, 'v list) gomap"

definition newMessageStore :: "int \<Rightarrow> 'v messageStore" where
  "newMessageStore n = \<lparr>messagesCount = 0, maxMessagesFromPeer = n, addrToData = [], indexToData = []\<rparr>"

text \<open>Reading a missing key of a map of slices gives the nil slice.\<close>

definition get_list :: "('k, 'v list) gomap \<Rightarrow> 'k \<Rightarrow> 'v list" where
  "get_list m k = (case map_of m k of None \<Rightarrow> [] | Some l \<Rightarrow> l)"

definition messageStore_add :: "string \<Rightarrow> int \<Rightarrow> 'v \<Rightarrow> 'v messageStore \<Rightarrow> 'v messageStore" where
  "messageStore_add addr index val ms =
    (let data = get_list (addrToData ms) addr in
     if int (length data) = maxMessagesFromPeer ms then ms
     else let ms = ms\<lparr>addrToData := AList.update addr (data @ [val]) (addrToData ms)\<rparr>;
              data = get_list (indexToData ms) index
          in ms\<lparr>indexToData := AList.update index (data @ [val]) (indexToData ms),
                messagesCount := messagesCount ms + 1\<rparr>)"

section \<open>Lemmas on keys\<close>

lemma slice_at_eq [simp]: "slice_at s i = Inr x \<longleftrightarrow> 0 \<le> i \<and> i < int (length s) \<and> x = s ! nat i"
  by (auto simp: slice_at_def)

text \<open>The test for the upper bound is off by one: the index behind the last key panics.\<close>

lemma index_behind_last_panics:
  "GetPKByIndex s (int (length s)) = Inl IndexOutOfRange"
  "PKStore_GetParticipantByIndex s (int (length s)) = Inl IndexOutOfRange"
  by (simp_all add: GetPKByIndex_def PKStore_GetParticipantByIndex_def slice_at_def)

lemma participant_by_index:
  "i < length s \<Longrightarrow> PKStore_GetParticipantByIndex s (int i) = Inr (pk_Participant (s ! i))"
  by (simp add: PKStore_GetParticipantByIndex_def slice_at_def)

text \<open>Filling the store with keys of different participants keeps all of them.\<close>

lemma PKStore_Add_fresh:
  "pk_Participant e \<notin> set (map pk_Participant s) \<Longrightarrow> PKStore_Add e s = (True, s @ [e])"
  by (auto simp: PKStore_Add_def list_ex_iff) (metis image_eqI)

lemma fold_PKStore_Add:
  assumes "distinct (map pk_Participant (s @ es))"
  shows "fold (\<lambda>e s. snd (PKStore_Add e s)) es s = s @ es"
  using assms
proof (induction es arbitrary: s)
  case (Cons e es)
  then have "PKStore_Add e s = (True, s @ [e])" by (intro PKStore_Add_fresh) auto
  with Cons show ?case by simp
qed simp

text \<open>Identifiers that count from zero are the positions of the sorted store.\<close>

lemma sorted_ids_position:
  assumes "mset (map pk_ParticipantID s) = mset (map int [0..<length s])" and "i < length s"
  shows "pk_ParticipantID (PKStore_Sort s ! i) = int i"
proof -
  have "sort (map pk_ParticipantID s) = map pk_ParticipantID (PKStore_Sort s)"
    by (rule properties_for_sort) (simp_all add: PKStore_Sort_def)
  moreover have "sort (map pk_ParticipantID s) = map int [0..<length s]"
    using assms(1) by (intro properties_for_sort) (simp_all add: sorted_wrt_iff_nth_less)
  ultimately have "map pk_ParticipantID (PKStore_Sort s) ! i = map int [0..<length s] ! i" by simp
  with assms(2) show ?thesis by (simp add: PKStore_Sort_def)
qed

section \<open>What a message store holds\<close>

type_synonym 'v arrival = "string \<times> int \<times> 'v"

definition add_all :: "'v arrival list \<Rightarrow> 'v messageStore \<Rightarrow> 'v messageStore" where
  "add_all xs ms = fold (\<lambda>(a, i, v). messageStore_add a i v) xs ms"

definition from_peer :: "string \<Rightarrow> 'v arrival list \<Rightarrow> 'v list" where
  "from_peer a xs = map (\<lambda>(_, _, v). v) (filter (\<lambda>(a', _, _). a' = a) xs)"

definition with_index :: "int \<Rightarrow> 'v arrival list \<Rightarrow> 'v list" where
  "with_index i xs = map (\<lambda>(_, _, v). v) (filter (\<lambda>(_, i', _). i' = i) xs)"

text \<open>The arrivals that are kept: at most \<open>n\<close> of each peer.\<close>

fun kept_from :: "nat \<Rightarrow> (string \<Rightarrow> nat) \<Rightarrow> 'v arrival list \<Rightarrow> 'v arrival list" where
  "kept_from n c [] = []"
| "kept_from n c ((a, i, v) # xs) =
    (if c a < n then (a, i, v) # kept_from n (c(a := Suc (c a))) xs else kept_from n c xs)"

lemma get_list_update [simp]: "get_list (AList.update k l m) k' = (if k' = k then l else get_list m k')"
  by (simp add: get_list_def)

lemma get_list_Nil [simp]: "get_list [] k = []"
  by (simp add: get_list_def)

lemma kept_from_peer: "from_peer a (kept_from n c xs) = take (n - c a) (from_peer a xs)"
proof (induction n c xs rule: kept_from.induct)
  case (2 n c b i v xs)
  show ?case
  proof (cases "c b < n")
    case True
    then have "n - c b = Suc (n - Suc (c b))" by simp
    with True 2(1)[OF True] show ?thesis
      by (cases "a = b") (simp_all add: from_peer_def fun_upd_same fun_upd_other del: fun_upd_apply)
  next
    case False
    with 2(2)[OF False] show ?thesis by (auto simp: from_peer_def)
  qed
qed (simp add: from_peer_def)

lemma add_all_kept:
  fixes ms :: "'v messageStore"
  assumes "maxMessagesFromPeer ms = int n" and "\<And>a. length (get_list (addrToData ms) a) = c a" and "\<And>a. c a \<le> n"
  shows "(\<forall>a. get_list (addrToData (add_all xs ms)) a = get_list (addrToData ms) a @ from_peer a (kept_from n c xs)) \<and>
    (\<forall>i. get_list (indexToData (add_all xs ms)) i = get_list (indexToData ms) i @ with_index i (kept_from n c xs)) \<and>
    messagesCount (add_all xs ms) = messagesCount ms + int (length (kept_from n c xs))"
  using assms
proof (induction xs arbitrary: ms c)
  case (Cons x xs)
  obtain b j v where x: "x = (b, j, v)" by (cases x)
  let ?ms = "messageStore_add b j v ms"
  have step: "add_all (x # xs) ms = add_all xs ?ms" by (simp add: add_all_def x)
  show ?case
  proof (cases "c b < n")
    case True
    with Cons.prems have ms: "?ms = ms\<lparr>addrToData := AList.update b (get_list (addrToData ms) b @ [v]) (addrToData ms),
        indexToData := AList.update j (get_list (indexToData ms) j @ [v]) (indexToData ms),
        messagesCount := messagesCount ms + 1\<rparr>"
      by (simp add: messageStore_add_def Let_def)
    from True Cons.prems have "maxMessagesFromPeer ?ms = int n"
      "\<And>a. length (get_list (addrToData ?ms) a) = (c(b := Suc (c b))) a" "\<And>a. (c(b := Suc (c b))) a \<le> n"
      by (simp_all add: ms Suc_leI)
    from Cons.IH[OF this] True show ?thesis
      unfolding step by (auto simp: x ms from_peer_def with_index_def simp del: fun_upd_apply)
  next
    case False
    with Cons.prems(3)[of b] Cons.prems(1,2) have "?ms = ms" by (simp add: messageStore_add_def)
    with Cons.IH[OF Cons.prems] False show ?thesis unfolding step by (simp add: x)
  qed
qed (simp add: add_all_def from_peer_def with_index_def)

text \<open>
  A message store keeps the first messages of every peer, up to its limit, in the order in which
  they arrived, and drops the others; the messages found under the indices are the same ones, and
  the count is their number.
\<close>

theorem message_store_bounded:
  fixes xs :: "'v arrival list"
  shows "get_list (addrToData (add_all xs (newMessageStore (int n)))) a = take n (from_peer a xs) \<and>
   get_list (indexToData (add_all xs (newMessageStore (int n)))) i = with_index i (kept_from n (\<lambda>_. 0) xs) \<and>
   messagesCount (add_all xs (newMessageStore (int n))) = int (length (kept_from n (\<lambda>_. 0) xs))"
  using add_all_kept[of "newMessageStore (int n) :: 'v messageStore" n "\<lambda>_. 0"]
  by (simp add: newMessageStore_def kept_from_peer)

end
