(* ===== verification/Dkg_Keyring.thy ===== *)
theory Dkg_Keyring
  imports Dkg_Store
begin

text \<open>
  The key material that a DKG leaves behind (\<open>BLSKeyring\<close> in \<open>src/dkg/types.go\<close>) and the interface of
  the package \<open>kyber\<close>, on which the DKG, the threshold signatures and the encryption between
  participants rest.
\<close>

section \<open>The package kyber\<close>

text \<open>
  The values of the package are type variables: \<open>'p\<close> points, \<open>'s\<close> scalars, \<open>'g\<close> generators of a
  distributed key, \<open>'d\<close> deals, \<open>'r\<close> responses, \<open>'h\<close> private shares.  A generator is changed by the
  calls that receive deals and responses.  A suite is given by its seed, the source of randomness
  by the number of values drawn before.

  Of a deal and of a response the program reads \<open>Index\<close>, and \<open>Index\<close> and \<open>Status\<close> of the inner
  response, a pointer.  A polynomial of public commitments is the list of its commitments, which
  is what \<open>NewPubPoly\<close> takes and \<open>Info\<close> returns.  \<open>ky_DecryptDeal\<close> is \<open>Verifiers()[i].DecryptDeal\<close>,
  of which the commitments are used.  \<open>ky_BadPoint\<close> and \<open>ky_BadScalar\<close> are what a failed
  \<open>UnmarshalBinary\<close> leaves in its receiver.
\<close>

record blsKeyringJSON =
  bj_Commitments :: "bytes list"
  bj_Share :: bytes

record ('p, 's, 'g, 'd, 'r, 'h) kyber =
  ky_UnmarshalPoint :: "bytes \<Rightarrow> error + 'p"
  ky_BadPoint :: "bytes \<Rightarrow> 'p"
  ky_MarshalPoint :: "'p \<Rightarrow> error + bytes"
  ky_UnmarshalScalar :: "bytes \<Rightarrow> error + 's"
  ky_BadScalar :: "bytes \<Rightarrow> 's"
  ky_MarshalScalar :: "'s \<Rightarrow> error + bytes"
  ky_Pick :: "bytes \<Rightarrow> nat \<Rightarrow> 's"
  ky_Mul :: "'s \<Rightarrow> 'p"
  ky_NewDistKeyGenerator :: "bytes \<Rightarrow> 's option \<Rightarrow> 'p list \<Rightarrow> int \<Rightarrow> bytes \<Rightarrow> error + 'g"
  ky_Commits :: "'g \<Rightarrow> 'p list"
  ky_Deals :: "'g \<Rightarrow> (error + (int, 'd) gomap) \<times> 'g"
  ky_deal_Index :: "'d \<Rightarrow> 32 word"
  ky_deal_Equal :: "'d \<Rightarrow> 'd \<Rightarrow> bool"
  ky_ProcessDeal :: "'g \<Rightarrow> 'd \<Rightarrow> (error + 'r) \<times> 'g"
  ky_DecryptDeal :: "'g \<Rightarrow> 32 word \<Rightarrow> 'd \<Rightarrow> (error + 'p list) go"
  ky_resp_Response :: "'r \<Rightarrow> (32 word \<times> bool) option"
  ky_ProcessResponse :: "'g \<Rightarrow> 'r \<Rightarrow> error option \<times> 'g"
  ky_Certified :: "'g \<Rightarrow> bool"
  ky_DistKeyShare :: "'g \<Rightarrow> error + 'p \<times> 'p list \<times> 'h"
  ky_Sign :: "bytes \<Rightarrow> 'h \<Rightarrow> bytes \<Rightarrow> error + bytes"
  ky_Verify :: "bytes \<Rightarrow> 'p \<Rightarrow> bytes \<Rightarrow> bytes \<Rightarrow> error option"
  ky_Encrypt :: "bytes \<Rightarrow> nat \<Rightarrow> 'p \<Rightarrow> bytes \<Rightarrow> error + bytes"
  ky_Decrypt :: "bytes \<Rightarrow> 's option \<Rightarrow> bytes \<Rightarrow> error + bytes"
  ky_gobShare :: "'h \<Rightarrow> error + bytes"
  ky_ungobShare :: "bytes \<Rightarrow> error + 'h"
  ky_gobCommitments :: "bytes list \<Rightarrow> error option"
  ky_MarshalKeyring :: "blsKeyringJSON \<Rightarrow> error + bytes"
  ky_UnmarshalKeyring :: "bytes \<Rightarrow> error + blsKeyringJSON"
  ky_MarshalDeal :: "'d \<Rightarrow> error + bytes"
  ky_UnmarshalDeal :: "bytes \<Rightarrow> error + 'd"
  ky_MarshalResponses :: "'r list \<Rightarrow> error + bytes"
  ky_UnmarshalResponses :: "bytes \<Rightarrow> error + 'r option list"

text \<open>What is encoded is decoded again: points, shares and the JSON of a keyring.\<close>

definition keyring_codec_ok :: "('p, 's, 'g, 'd, 'r, 'h) kyber \<Rightarrow> bool" where
  "keyring_codec_ok K \<longleftrightarrow>
    (\<forall>p b. ky_MarshalPoint K p = Inr b \<longrightarrow> ky_UnmarshalPoint K b = Inr p) \<and>
    (\<forall>h b. ky_gobShare K h = Inr b \<longrightarrow> ky_ungobShare K b = Inr h) \<and>
    (\<forall>j b. ky_MarshalKeyring K j = Inr b \<longrightarrow> ky_UnmarshalKeyring K b = Inr j)"

section \<open>Keyrings\<close>

record ('p, 'h) BLSKeyring =
  kr_PubPoly :: "'p list"
  kr_Share :: "'h option"

text \<open>The part that \<open>Bytes\<close> and \<open>PubPolyBytes\<close> share: the commitments are encoded with \<open>gob\<close> only to be
  thrown away.\<close>

definition marshalCommitments :: "('p, 's, 'g, 'd, 'r, 'h) kyber \<Rightarrow> 'p list \<Rightarrow> error + bytes list" where
  "marshalCommitments K commitments =
    bindR (mapE (\<lambda>c. wrapE ''failed to marshal commitment: %w'' [] (ky_MarshalPoint K c)) commitments)
      (\<lambda>commitmentsBz. case ky_gobCommitments K commitmentsBz of
         Some e \<Rightarrow> Inl (Wrapf ''failed to encode commitmentBz: %w'' [] e)
       | None \<Rightarrow> Inr commitmentsBz)"

text \<open>Encoding a nil pointer with \<open>gob\<close> panics.\<close>

definition BLSKeyring_Bytes ::
  "('p, 's, 'g, 'd, 'r, 'h) kyber \<Rightarrow> ('p, 'h) BLSKeyring \<Rightarrow> (error + bytes) go"
where
  "BLSKeyring_Bytes K b =
    (case kr_Share b of
       None \<Rightarrow> Inl (PanicMsg ''gob: cannot encode nil pointer of type *share.PriShare'' [])
     | Some h \<Rightarrow> Inr (
         bindR (wrapE ''failed to encode private key: %w'' [] (ky_gobShare K h)) (\<lambda>shareBuf.
         bindR (marshalCommitments K (kr_PubPoly b)) (\<lambda>commitmentsBz.
         ky_MarshalKeyring K \<lparr>bj_Commitments = commitmentsBz, bj_Share = shareBuf\<rparr>))))"

definition PubPolyBytes ::
  "('p, 's, 'g, 'd, 'r, 'h) kyber \<Rightarrow> ('p, 'h) BLSKeyring \<Rightarrow> error + bytes"
where
  "PubPolyBytes K b =
    bindR (marshalCommitments K (kr_PubPoly b)) (\<lambda>commitmentsBz.
    ky_MarshalKeyring K \<lparr>bj_Commitments = commitmentsBz, bj_Share = []\<rparr>)"

definition unmarshalCommitments ::
  "('p, 's, 'g, 'd, 'r, 'h) kyber \<Rightarrow> bytes list \<Rightarrow> error + 'p list"
where
  "unmarshalCommitments K bz =
    mapE (\<lambda>b. wrapE ''failed to unmarshal commitment: %w'' [] (ky_UnmarshalPoint K b)) bz"

definition LoadBLSKeyringFromBytes ::
  "('p, 's, 'g, 'd, 'r, 'h) kyber \<Rightarrow> bytes \<Rightarrow> error + ('p, 'h) BLSKeyring"
where
  "LoadBLSKeyringFromBytes K data =
    bindR (wrapE ''failed to unmarshal blsKeyringJson: %w'' [] (ky_UnmarshalKeyring K data)) (\<lambda>j.
    bindR (unmarshalCommitments K (bj_Commitments j)) (\<lambda>commitments.
    bindR (wrapE ''failed to share: %w'' [] (ky_ungobShare K (bj_Share j))) (\<lambda>priShare.
    Inr \<lparr>kr_PubPoly = commitments, kr_Share = Some priShare\<rparr>)))"

definition LoadPubPolyBLSKeyringFromBytes ::
  "('p, 's, 'g, 'd, 'r, 'h) kyber \<Rightarrow> bytes \<Rightarrow> error + ('p, 'h) BLSKeyring"
where
  "LoadPubPolyBLSKeyringFromBytes K data =
    bindR (wrapE ''failed to unmarshal blsKeyringJson: %w'' [] (ky_UnmarshalKeyring K data)) (\<lambda>j.
    bindR (unmarshalCommitments K (bj_Commitments j)) (\<lambda>commitments.
    Inr \<lparr>kr_PubPoly = commitments, kr_Share = None\<rparr>))"

section \<open>Encoding and decoding\<close>

lemma commitments_inverse:
  assumes "keyring_codec_ok K" and "marshalCommitments K cs = Inr bz"
  shows "unmarshalCommitments K bz = Inr cs"
  unfolding unmarshalCommitments_def
proof (rule mapE_inverse)
  show "mapE (\<lambda>c. wrapE ''failed to marshal commitment: %w'' [] (ky_MarshalPoint K c)) cs = Inr bz"
    using assms(2) by (auto simp: marshalCommitments_def split: option.split_asm)
qed (use assms(1) in \<open>simp add: keyring_codec_ok_def\<close>)

lemma keyring_bytes_inverse:
  assumes "keyring_codec_ok K" and "BLSKeyring_Bytes K b = Inr (Inr bz)"
  shows "LoadBLSKeyringFromBytes K bz = Inr b"
proof -
  from assms(2) obtain h share cs where h: "kr_Share b = Some h" "ky_gobShare K h = Inr share"
    and cs: "marshalCommitments K (kr_PubPoly b) = Inr cs"
    and bz: "ky_MarshalKeyring K \<lparr>bj_Commitments = cs, bj_Share = share\<rparr> = Inr bz"
    by (auto simp: BLSKeyring_Bytes_def split: option.split_asm)
  from assms(1) h bz have "ky_UnmarshalKeyring K bz = Inr \<lparr>bj_Commitments = cs, bj_Share = share\<rparr>"
    "ky_ungobShare K share = Inr h" by (simp_all add: keyring_codec_ok_def)
  with h(1) commitments_inverse[OF assms(1) cs] show ?thesis
    by (simp add: LoadBLSKeyringFromBytes_def wrapE_def)
qed

lemma pub_poly_inverse:
  assumes "keyring_codec_ok K" and "PubPolyBytes K b = Inr bz"
  shows "LoadPubPolyBLSKeyringFromBytes K bz = Inr (b\<lparr>kr_Share := None\<rparr>)"
proof -
  from assms(2) obtain cs where cs: "marshalCommitments K (kr_PubPoly b) = Inr cs"
    and bz: "ky_MarshalKeyring K \<lparr>bj_Commitments = cs, bj_Share = []\<rparr> = Inr bz"
    by (auto simp: PubPolyBytes_def)
  from assms(1) bz have "ky_UnmarshalKeyring K bz = Inr \<lparr>bj_Commitments = cs, bj_Share = []\<rparr>"
    by (simp add: keyring_codec_ok_def)
  with commitments_inverse[OF assms(1) cs] show ?thesis
    by (simp add: LoadPubPolyBLSKeyringFromBytes_def wrapE_def)
qed

end
