(* ===== verification/Dkg_Instance.thy ===== *)
theory Dkg_Instance
  imports Dkg_Keyring
begin

text \<open>
  An instance of the distributed key generation on the airgapped machine (\<open>DKG\<close> in
  \<open>src/dkg/dkg.go\<close>): the keys of the participants, their commits, deals and responses, around a
  generator of the package \<open>kyber\<close>.  Methods that change the instance are computations on it.
  Locks are left out: an instance is used by one goroutine.
\<close>

section \<open>Definitions\<close>

record ('p, 's, 'g, 'd, 'r) DKG =
  dkg_instance :: "'g option"
  dkg_deals :: "(string, 'd) gomap"
  dkg_commits :: "(string, 'p list) gomap"
  dkg_responses :: "'r messageStore option"
  dkg_pubKeys :: "'p PKStore"
  dkg_pubKey :: "'p option"
  dkg_secKey :: "'s option"
  dkg_suite :: bytes
  dkg_ParticipantID :: int
  dkg_N :: int
  dkg_Threshold :: int

type_synonym ('p, 's, 'g, 'd, 'r, 'a) dkg_op = "(('p, 's, 'g, 'd, 'r) DKG, 'a) op"

definition dkg_Init :: "bytes \<Rightarrow> 'p option \<Rightarrow> 's option \<Rightarrow> ('p, 's, 'g, 'd, 'r) DKG" where
  "dkg_Init suite pubKey secKey =
    \<lparr>dkg_instance = None, dkg_deals = [], dkg_commits = [], dkg_responses = None, dkg_pubKeys = [],
     dkg_pubKey = pubKey, dkg_secKey = secKey, dkg_suite = suite, dkg_ParticipantID = 0, dkg_N = 0,
     dkg_Threshold = 0\<rparr>"

text \<open>The printed values are left out of the messages.\<close>

fun equalCommits :: "string \<Rightarrow> int \<Rightarrow> 'p list \<Rightarrow> 'p list \<Rightarrow> error option go" where
  "equalCommits addr idx [] otherCommits = Inr None"
| "equalCommits addr idx (c # commits) otherCommits =
    bindR (slice_at otherCommits idx) (\<lambda>c'.
      if c \<noteq> c' then Inr (Some (Errorf ''commits from %s are not equal (idx %d): %v != %v'' [AStr addr, AInt idx]))
      else equalCommits addr (idx + 1) commits otherCommits)"

fun equalAllCommits ::
  "(string, 'p list) gomap \<Rightarrow> (string, 'p list) gomap \<Rightarrow> error option go"
where
  "equalAllCommits [] other = Inr None"
| "equalAllCommits ((addr, commits) # rest) other =
    bindR (equalCommits addr 0 commits (get_list other addr)) (\<lambda>r. case r of
      Some e \<Rightarrow> Inr (Some e) | None \<Rightarrow> equalAllCommits rest other)"

fun equalDeals :: "('d \<Rightarrow> 'd \<Rightarrow> bool) \<Rightarrow> (string, 'd) gomap \<Rightarrow> (string, 'd) gomap \<Rightarrow> error option go" where
  "equalDeals eq [] other = Inr None"
| "equalDeals eq ((addr, deal) # rest) other =
    bindR (deref (map_of other addr)) (\<lambda>otherDeal.
      if \<not> eq deal otherDeal then Inr (Some (Errorf ''deals from %s are not equal: %+v != %+v'' [AStr addr]))
      else equalDeals eq rest other)"

definition DKG_Equals ::
  "('p, 's, 'g, 'd, 'r, 'h) kyber \<Rightarrow> ('p, 's, 'g, 'd, 'r) DKG \<Rightarrow> ('p, 's, 'g, 'd, 'r) DKG \<Rightarrow> error option go"
where
  "DKG_Equals K d other =
    bindR (equalAllCommits (dkg_commits d) (dkg_commits other)) (\<lambda>r. case r of
      Some e \<Rightarrow> Inr (Some e)
    | None \<Rightarrow> equalDeals (ky_deal_Equal K) (dkg_deals d) (dkg_deals other))"

definition GetPubKeyByParticipant :: "('p, 's, 'g, 'd, 'r) DKG \<Rightarrow> string \<Rightarrow> error + 'p" where
  "GetPubKeyByParticipant d participant =
    wrapE ''failed to get pk for participant %s: %w'' [AStr participant]
      (GetPKByParticipant (dkg_pubKeys d) participant)"

definition DKG_GetParticipantByIndex :: "('p, 's, 'g, 'd, 'r) DKG \<Rightarrow> int \<Rightarrow> string go" where
  "DKG_GetParticipantByIndex d index = PKStore_GetParticipantByIndex (dkg_pubKeys d) index"

definition StorePubKey ::
  "string \<Rightarrow> int \<Rightarrow> 'p \<Rightarrow> ('p, 's, 'g, 'd, 'r) DKG \<Rightarrow> bool \<times> ('p, 's, 'g, 'd, 'r) DKG"
where
  "StorePubKey participant pid pk d =
    (let (new, pubKeys) = PKStore_Add
       \<lparr>pk_ParticipantID = pid, pk_Participant = participant, pk_PK = pk\<rparr> (dkg_pubKeys d)
     in (new, d\<lparr>dkg_pubKeys := pubKeys\<rparr>))"

fun key_position :: "'p option \<Rightarrow> int \<Rightarrow> 'p PKStore \<Rightarrow> int" where
  "key_position pubKey idx [] = -1"
| "key_position pubKey idx (p # ps) =
    (if Some (pk_PK p) = pubKey then idx else key_position pubKey (idx + 1) ps)"

definition calcParticipantID :: "('p, 's, 'g, 'd, 'r) DKG \<Rightarrow> int" where
  "calcParticipantID d = key_position (dkg_pubKey d) 0 (dkg_pubKeys d)"

text \<open>
  The generator reads its randomness from \<open>frand.NewCustom(seed, 32, 20)\<close>, which panics on a seed
  that does not have 32 bytes.
\<close>

definition InitDKGInstance ::
  "('p, 's, 'g, 'd, 'r, 'h) kyber \<Rightarrow> bytes \<Rightarrow> ('p, 's, 'g, 'd, 'r, unit) dkg_op"
where
  "InitDKGInstance K seed =
    bindM (updateM (\<lambda>d. d\<lparr>dkg_pubKeys := PKStore_Sort (dkg_pubKeys d)\<rparr>)) (\<lambda>_.
    bindM (readM (GetPKs \<circ> dkg_pubKeys)) (\<lambda>publicKeys.
    bindM (readM calcParticipantID) (\<lambda>participantID.
    if participantID < 0 then failM (errorsNew ''failed to determine participant index'')
    else
    bindM (updateM (\<lambda>d. d\<lparr>dkg_ParticipantID := participantID,
      dkg_responses := Some (newMessageStore ((int (length publicKeys) - 1)\<^sup>2))\<rparr>)) (\<lambda>_.
    bindM (liftG (if length seed \<noteq> 32 then Inl (PanicMsg ''frand: invalid seed size'' []) else Inr ())) (\<lambda>_.
    bindM (readM (\<lambda>d. ky_NewDistKeyGenerator K (dkg_suite d) (dkg_secKey d) publicKeys (dkg_Threshold d) seed)) (\<lambda>r.
    bindM (liftE r) (\<lambda>g.
    updateM (\<lambda>d. d\<lparr>dkg_instance := Some g\<rparr>))))))))"

definition GetCommits ::
  "('p, 's, 'g, 'd, 'r, 'h) kyber \<Rightarrow> ('p, 's, 'g, 'd, 'r) DKG \<Rightarrow> 'p list go"
where
  "GetCommits K d = bindR (deref (dkg_instance d)) (\<lambda>g. Inr (ky_Commits K g))"

definition StoreCommits ::
  "string \<Rightarrow> 'p list \<Rightarrow> ('p, 's, 'g, 'd, 'r) DKG \<Rightarrow> ('p, 's, 'g, 'd, 'r) DKG"
where
  "StoreCommits participant commits d =
    d\<lparr>dkg_commits := AList.update participant commits (dkg_commits d)\<rparr>"

text \<open>A call of the generator, which is dereferenced and changed.\<close>

definition callGenerator :: "('g \<Rightarrow> 'a \<times> 'g) \<Rightarrow> ('p, 's, 'g, 'd, 'r, 'a) dkg_op" where
  "callGenerator f d = bindR (deref (dkg_instance d)) (\<lambda>g.
     case f g of (x, g) \<Rightarrow> Inr (Inr x, d\<lparr>dkg_instance := Some g\<rparr>))"

definition GetDeals ::
  "('p, 's, 'g, 'd, 'r, 'h) kyber \<Rightarrow> ('p, 's, 'g, 'd, 'r, (int, 'd) gomap) dkg_op"
where
  "GetDeals K = bindM (callGenerator (ky_Deals K)) liftE"

definition StoreDeal ::
  "string \<Rightarrow> 'd \<Rightarrow> ('p, 's, 'g, 'd, 'r) DKG \<Rightarrow> ('p, 's, 'g, 'd, 'r) DKG"
where
  "StoreDeal participant deal d = d\<lparr>dkg_deals := AList.update participant deal (dkg_deals d)\<rparr>"

text \<open>
  The two lists of commitments are compared at all positions.  When the participant has not sent
  commits, \<open>err\<close> is nil.
\<close>

definition processDealCommits ::
  "('p, 's, 'g, 'd, 'r, 'h) kyber \<Rightarrow> 'd \<Rightarrow> ('p, 's, 'g, 'd, 'r, bool) dkg_op"
where
  "processDealCommits K deal =
    bindM (callGenerator (\<lambda>g. (ky_DecryptDeal K g (ky_deal_Index K deal) deal, g))) (\<lambda>r.
    bindM (liftGE r) (\<lambda>commitments.
    bindM (readM dkg_pubKeys) (\<lambda>pubKeys.
    bindM (liftG (PKStore_GetParticipantByIndex pubKeys (uint (ky_deal_Index K deal)))) (\<lambda>participant.
    bindM (readM dkg_commits) (\<lambda>commits.
    case map_of commits participant of
      None \<Rightarrow> retM False
    | Some originalCommits \<Rightarrow>
        if length originalCommits \<noteq> length commitments
        then failM (errorsNew ''number of original commitments and number of commitments in the deal are not met'')
        else if originalCommits \<noteq> commitments then failM (errorsNew ''commits are different'')
        else retM True)))))"

fun processDeals ::
  "('p, 's, 'g, 'd, 'r, 'h) kyber \<Rightarrow> (string, 'd) gomap \<Rightarrow> 'r list \<Rightarrow> ('p, 's, 'g, 'd, 'r, 'r list) dkg_op"
where
  "processDeals K [] responses = retM responses"
| "processDeals K ((_, deal) # deals) responses =
    bindM (readM dkg_ParticipantID) (\<lambda>participantID.
    if ky_deal_Index K deal = word_of_int participantID then processDeals K deals responses
    else
    bindM (callGenerator (\<lambda>g. ky_ProcessDeal K g deal)) (\<lambda>r.
    bindM (liftE r) (\<lambda>resp.
    bindM (processDealCommits K deal) (\<lambda>commitsOK.
    bindM (liftG (deref (ky_resp_Response K resp))) (\<lambda>(_, status).
    if \<not> status \<or> \<not> commitsOK then failM (errorsNew ''failed to process deals'')
    else processDeals K deals (responses @ [resp]))))))"

definition ProcessDeals ::
  "('p, 's, 'g, 'd, 'r, 'h) kyber \<Rightarrow> ('p, 's, 'g, 'd, 'r, 'r list) dkg_op"
where
  "ProcessDeals K = bindM (readM dkg_deals) (\<lambda>deals. processDeals K deals [])"

text \<open>The responses of a message are pointers and so are their inner responses.\<close>

definition StoreResponses ::
  "('p, 's, 'g, 'd, 'r, 'h) kyber \<Rightarrow> string \<Rightarrow> 'r option list \<Rightarrow> ('p, 's, 'g, 'd, 'r, unit) dkg_op"
where
  "StoreResponses K participant responses = forM (\<lambda>resp.
    bindM (liftG (deref resp)) (\<lambda>resp.
    bindM (liftG (deref (ky_resp_Response K resp))) (\<lambda>(index, _).
    bindM (readM dkg_responses) (\<lambda>store.
    bindM (liftG (deref store)) (\<lambda>store.
    updateM (\<lambda>d. d\<lparr>dkg_responses := Some (messageStore_add participant (uint index) resp store)\<rparr>)))))) responses"

fun processResponses ::
  "('p, 's, 'g, 'd, 'r, 'h) kyber \<Rightarrow> 'r list \<Rightarrow> ('p, 's, 'g, 'd, 'r, unit) dkg_op"
where
  "processResponses K [] = retM ()"
| "processResponses K (resp # rest) =
    bindM (liftG (deref (ky_resp_Response K resp))) (\<lambda>(index, _).
    bindM (readM dkg_ParticipantID) (\<lambda>participantID.
    if uint index = participantID then processResponses K rest
    else
    bindM (callGenerator (\<lambda>g. ky_ProcessResponse K g resp)) (\<lambda>err.
    case err of
      Some e \<Rightarrow> failM (Wrapf ''failed to ProcessResponse: %w'' [] e)
    | None \<Rightarrow> processResponses K rest)))"

definition ProcessResponses ::
  "('p, 's, 'g, 'd, 'r, 'h) kyber \<Rightarrow> ('p, 's, 'g, 'd, 'r, unit) dkg_op"
where
  "ProcessResponses K =
    bindM (readM dkg_responses) (\<lambda>store.
    bindM (liftG (deref store)) (\<lambda>store.
    bindM (processResponses K (concat (vals (indexToData store)))) (\<lambda>_.
    bindM (callGenerator (\<lambda>g. (ky_Certified K g, g))) (\<lambda>certified.
    bindM (readM dkg_ParticipantID) (\<lambda>participantID.
    if \<not> certified then failM (Errorf ''praticipant %v is not certified'' [AInt participantID])
    else retM ())))))"

definition GetDistKeyShare ::
  "('p, 's, 'g, 'd, 'r, 'h) kyber \<Rightarrow> ('p, 's, 'g, 'd, 'r) DKG \<Rightarrow> (error + 'p \<times> 'p list \<times> 'h) go"
where
  "GetDistKeyShare K d = bindR (deref (dkg_instance d)) (\<lambda>g. Inr (ky_DistKeyShare K g))"

definition GetDistributedPublicKey ::
  "('p, 's, 'g, 'd, 'r, 'h) kyber \<Rightarrow> ('p, 's, 'g, 'd, 'r) DKG \<Rightarrow> (error + 'p) go"
where
  "GetDistributedPublicKey K d =
    bindR (deref (dkg_instance d)) (\<lambda>g. Inr (case ky_DistKeyShare K g of
      Inl e \<Rightarrow> Inl (errorsNew ''failed to get distKeyShare'') | Inr (public, _, _) \<Rightarrow> Inr public))"

definition GetBLSKeyring ::
  "('p, 's, 'g, 'd, 'r, 'h) kyber \<Rightarrow> ('p, 's, 'g, 'd, 'r) DKG \<Rightarrow> error + ('p, 'h) BLSKeyring"
where
  "GetBLSKeyring K d =
    (case dkg_instance d of
       None \<Rightarrow> Inl (errorsNew ''dkg instance is not ready'')
     | Some g \<Rightarrow>
         if \<not> ky_Certified K g then Inl (errorsNew ''dkg instance is not ready'')
         else bindR (wrapE ''failed to get DistKeyShare: %w'' [] (ky_DistKeyShare K g)) (\<lambda>(_, commitments, share).
           Inr \<lparr>kr_PubPoly = commitments, kr_Share = Some share\<rparr>))"

section \<open>Own position\<close>

lemma key_position_unique:
  assumes "i < length s" and "pk_PK (s ! i) = k" and "\<And>j. j < length s \<Longrightarrow> pk_PK (s ! j) = k \<Longrightarrow> j = i"
  shows "key_position (Some k) idx s = idx + int i"
  using assms
proof (induction s arbitrary: i idx)
  case (Cons e s)
  show ?case
  proof (cases i)
    case 0
    with Cons.prems(2) show ?thesis by simp
  next
    case (Suc n)
    with Cons.prems(3)[of 0] have "pk_PK e \<noteq> k" by auto
    moreover have "key_position (Some k) (idx + 1) s = (idx + 1) + int n"
      using Cons.prems Suc by (intro Cons.IH) (auto, metis Suc_inject Suc_mono nth_Cons_Suc)
    ultimately show ?thesis using Suc by auto
  qed
qed simp

lemma key_position_bounds:
  "key_position k idx s = -1 \<or> idx \<le> key_position k idx s \<and> key_position k idx s < idx + int (length s)"
proof (induction s arbitrary: idx)
  case (Cons e s)
  from Cons.IH[of "idx + 1"] show ?case by auto
qed simp

section \<open>Deals are checked against the commits\<close>

text \<open>What the machine has checked of a deal for which it answers with \<open>resp\<close>.\<close>

definition deal_checked ::
  "('p, 's, 'g, 'd, 'r, 'h) kyber \<Rightarrow> 'p PKStore \<Rightarrow> (string, 'p list) gomap \<Rightarrow> 'd \<Rightarrow> 'r \<Rightarrow> bool"
where
  "deal_checked K pubKeys commits deal resp \<longleftrightarrow> (\<exists>g g' index dealer cs.
     ky_ProcessDeal K g deal = (Inr resp, g') \<and> ky_resp_Response K resp = Some (index, True) \<and>
     ky_DecryptDeal K g' (ky_deal_Index K deal) deal = Inr (Inr cs) \<and>
     PKStore_GetParticipantByIndex pubKeys (uint (ky_deal_Index K deal)) = Inr dealer \<and>
     map_of commits dealer = Some cs)"

lemma callGenerator_eq_Inr:
  "callGenerator f d = Inr (Inr x, d') \<longleftrightarrow>
    (\<exists>g g'. dkg_instance d = Some g \<and> f g = (x, g') \<and> d' = d\<lparr>dkg_instance := Some g'\<rparr>)"
  by (cases "dkg_instance d") (auto simp: callGenerator_def split: prod.split)

lemma processDealCommits_True:
  assumes "processDealCommits K deal d = Inr (Inr True, d')"
  shows "\<exists>g dealer cs. d' = d \<and> dkg_instance d = Some g \<and>
    ky_DecryptDeal K g (ky_deal_Index K deal) deal = Inr (Inr cs) \<and>
    PKStore_GetParticipantByIndex (dkg_pubKeys d) (uint (ky_deal_Index K deal)) = Inr dealer \<and>
    map_of (dkg_commits d) dealer = Some cs"
  using assms
  by (auto simp: processDealCommits_def success_simps callGenerator_eq_Inr split: option.split_asm if_split_asm)

lemma processDeals_checked:
  assumes "processDeals K deals acc d = Inr (Inr rs, d')"
  shows "\<exists>new. rs = acc @ new \<and> dkg_commits d' = dkg_commits d \<and> dkg_pubKeys d' = dkg_pubKeys d \<and>
    dkg_ParticipantID d' = dkg_ParticipantID d \<and> dkg_deals d' = dkg_deals d \<and>
    list_all2 (deal_checked K (dkg_pubKeys d) (dkg_commits d))
      (filter (\<lambda>deal. ky_deal_Index K deal \<noteq> word_of_int (dkg_ParticipantID d)) (map snd deals)) new"
  using assms
proof (induction deals arbitrary: acc d)
  case (Cons entry deals)
  obtain addr deal where entry: "entry = (addr, deal)" by fastforce
  show ?case
  proof (cases "ky_deal_Index K deal = word_of_int (dkg_ParticipantID d)")
    case True
    with Cons.IH[of acc d] Cons.prems show ?thesis by (simp add: entry success_simps)
  next
    case False
    with Cons.prems obtain g g' resp index d1 where p: "dkg_instance d = Some g" "ky_ProcessDeal K g deal = (Inr resp, g')"
      "ky_resp_Response K resp = Some (index, True)"
      and c: "processDealCommits K deal (d\<lparr>dkg_instance := Some g'\<rparr>) = Inr (Inr True, d1)"
      and rest: "processDeals K deals (acc @ [resp]) d1 = Inr (Inr rs, d')"
      by (auto simp: entry success_simps callGenerator_eq_Inr split: prod.split_asm if_split_asm)
    from processDealCommits_True[OF c] p have checked: "deal_checked K (dkg_pubKeys d) (dkg_commits d) deal resp"
      and d1: "d1 = d\<lparr>dkg_instance := Some g'\<rparr>" by (auto simp: deal_checked_def)
    from Cons.IH[OF rest] checked False show ?thesis by (auto simp: d1 entry)
  qed
qed (simp add: success_simps)

end
