(* ===== verification/Airgapped_Db.thy ===== *)
theory Airgapped_Db
  imports Dkg_Instance Node_Types
begin

text \<open>
  The state of the airgapped machine and its database (\<open>src/airgapped/storage.go\<close>, \<open>types.go\<close>,
  \<open>encryption.go\<close>): the seed, the encrypted keys of the DKG, the encrypted keyrings of finished rounds
  and the log of operations, from which the instances of a round are rebuilt after a restart.

  LevelDB, the package \<open>kyber\<close>, \<open>scrypt\<close>, AES in Galois counter mode, BIP-39, JSON and the system's
  randomness are parameters, collected in \<open>air_env\<close>.
\<close>

section \<open>The environment\<close>

type_synonym RoundOperationLog = "(string, Operation list) gomap"

text \<open>
  A transaction works on a private copy of the database.  \<open>ae_Iterate\<close> lists the entries whose keys
  have a prefix, with the error that ended the iteration.  \<open>ae_random\<close> reads random bytes.
\<close>

record ('db, 'p, 's, 'g, 'd, 'r, 'h) air_env =
  ae_leveldb :: "'db leveldb"
  ae_OpenTransaction :: "'db \<Rightarrow> error + 'db"
  ae_Commit :: "'db \<Rightarrow> 'db \<Rightarrow> error option \<times> 'db"
  ae_Iterate :: "'db \<Rightarrow> string \<Rightarrow> (string, bytes) gomap \<times> error option"
  ae_kyber :: "('p, 's, 'g, 'd, 'r, 'h) kyber"
  ae_scrypt :: "bytes \<Rightarrow> bytes \<Rightarrow> error + bytes"
  ae_NewCipher :: "bytes \<Rightarrow> error option"
  ae_NewGCM :: "bytes \<Rightarrow> error option"
  ae_Seal :: "bytes \<Rightarrow> bytes \<Rightarrow> bytes \<Rightarrow> bytes"
  ae_Open :: "bytes \<Rightarrow> bytes \<Rightarrow> bytes \<Rightarrow> error + bytes"
  ae_random :: "nat \<Rightarrow> nat \<Rightarrow> error + bytes"
  ae_NewEntropy :: "nat \<Rightarrow> error + bytes"
  ae_NewMnemonic :: "bytes \<Rightarrow> error + string"
  ae_EntropyFromMnemonic :: "string \<Rightarrow> error option"
  ae_pbkdf2 :: "bytes \<Rightarrow> bytes \<Rightarrow> bytes"
  ae_sha256 :: "bytes \<Rightarrow> bytes"
  ae_Error :: "error \<Rightarrow> string"
  ae_baked :: baked_data
  ae_Marshal_log :: "RoundOperationLog \<Rightarrow> error + bytes"
  ae_Unmarshal_log :: "bytes \<Rightarrow> error + RoundOperationLog option"
  ae_Marshal_operation :: "Operation \<Rightarrow> error + bytes"
  ae_Marshal_request :: "request \<Rightarrow> error + bytes"
  ae_Marshal_commits :: "bytes list \<Rightarrow> error + bytes"
  ae_operations :: "bytes \<Rightarrow> error + Operation list"
  ae_pubkeys :: "bytes \<Rightarrow> error + DKGProposalPubKeysParticipantEntry option list"
  ae_commits :: "bytes \<Rightarrow> error + DKGProposalCommitParticipantEntry option list"
  ae_commit :: "bytes \<Rightarrow> error + bytes list"
  ae_deals :: "bytes \<Rightarrow> error + DKGProposalDealParticipantEntry option list"
  ae_responses :: "bytes \<Rightarrow> error + DKGProposalResponseParticipantEntry option list"
  ae_invitation :: "bytes \<Rightarrow> error + SigningPartialSignsParticipantInvitationsResponse"
  ae_tasks :: "SigningPartialSignsParticipantInvitationsResponse \<Rightarrow> error + SigningTask list"
  ae_OpenFile :: "string \<times> string \<Rightarrow> error option"
  ae_Write :: "string \<times> string \<Rightarrow> bytes \<Rightarrow> nat \<times> error option"

section \<open>The machine\<close>

definition seedSize :: nat where "seedSize = 32"

text \<open>
  The folder of results is a map from paths, pairs of the folder and the file name, to contents.
  \<open>am_rand\<close> counts the reads of randomness.
\<close>

record ('db, 'p, 's, 'g, 'd, 'r) air_machine =
  am_ResultFolder :: string
  am_dkgInstances :: "(string, ('p, 's, 'g, 'd, 'r) DKG) gomap"
  am_encryptionKey :: bytes
  am_pubKey :: "'p option"
  am_secKey :: "'s option"
  am_baseSuite :: bytes
  am_baseSeed :: bytes
  am_db :: 'db
  am_files :: "(string \<times> string, bytes) gomap"
  am_rand :: nat

type_synonym ('db, 'p, 's, 'g, 'd, 'r, 'a) air_op = "(('db, 'p, 's, 'g, 'd, 'r) air_machine, 'a) op"

definition nextRandom :: "('db, 'p, 's, 'g, 'd, 'r, nat) air_op" where
  "nextRandom am = Inr (Inr (am_rand am), am\<lparr>am_rand := Suc (am_rand am)\<rparr>)"

text \<open>\<open>errors.Is(err, leveldb.ErrNotFound)\<close>.\<close>

fun isNotFound :: "error \<Rightarrow> bool" where
  "isNotFound (Wrapf msg args e) = isNotFound e"
| "isNotFound e \<longleftrightarrow> e = ldb_error_value ErrNotFound"

definition dbGet ::
  "('db, 'p, 's, 'g, 'd, 'r, 'h) air_env \<Rightarrow> string \<Rightarrow> ('db, 'p, 's, 'g, 'd, 'r, bytes) air_op"
where
  "dbGet env key am = Inr (case ldb_Get (ae_leveldb env) (am_db am) key of
     Inl e \<Rightarrow> Inl (ldb_error_value e) | Inr v \<Rightarrow> Inr v, am)"

definition dbPut ::
  "('db, 'p, 's, 'g, 'd, 'r, 'h) air_env \<Rightarrow> string \<Rightarrow> bytes \<Rightarrow> ('db, 'p, 's, 'g, 'd, 'r, unit) air_op"
where
  "dbPut env key value am = (case ldb_Put (ae_leveldb env) (am_db am) key value of
     (err, db) \<Rightarrow> Inr (case err of Some e \<Rightarrow> Inl e | None \<Rightarrow> Inr (), am\<lparr>am_db := db\<rparr>))"

section \<open>Keys of the database\<close>

definition pubKeyDBKey :: string where [fsm_const]: "pubKeyDBKey = ''public_key''"
definition privateKeyDBKey :: string where [fsm_const]: "privateKeyDBKey = ''private_key''"
definition saltDBKey :: string where [fsm_const]: "saltDBKey = ''salt_key''"
definition baseSeedKey :: string where [fsm_const]: "baseSeedKey = ''base_seed_key''"
definition operationsLogDBKey :: string where [fsm_const]: "operationsLogDBKey = ''operations_log''"
definition mnemonicSalt :: string where "mnemonicSalt = ''mnemonic''"
definition blsKeyringPrefix :: string where [fsm_const]: "blsKeyringPrefix = ''bls_keyring''"

definition makeBLSKeyKeyringDBKey :: "string \<Rightarrow> string" where
  "makeBLSKeyKeyringDBKey key = blsKeyringPrefix @ ''_'' @ key"

section \<open>Encryption of sensitive data\<close>

text \<open>The standard size of a nonce in Galois counter mode.\<close>

definition NonceSize :: nat where "NonceSize = 12"

definition deriveCipher ::
  "('db, 'p, 's, 'g, 'd, 'r, 'h) air_env \<Rightarrow> bytes \<Rightarrow> bytes \<Rightarrow> error + bytes"
where
  "deriveCipher env key salt =
    bindR (ae_scrypt env key salt) (\<lambda>derivedKey.
    case ae_NewCipher env derivedKey of
      Some e \<Rightarrow> Inl e
    | None \<Rightarrow> (case ae_NewGCM env derivedKey of Some e \<Rightarrow> Inl e | None \<Rightarrow> Inr derivedKey))"

text \<open>\<open>Seal\<close> appends the sealed text to the nonce.\<close>

definition encrypt ::
  "('db, 'p, 's, 'g, 'd, 'r, 'h) air_env \<Rightarrow> bytes \<Rightarrow> bytes \<Rightarrow> bytes \<Rightarrow> ('db, 'p, 's, 'g, 'd, 'r, bytes) air_op"
where
  "encrypt env key salt data =
    bindM (liftE (deriveCipher env key salt)) (\<lambda>derivedKey.
    bindM nextRandom (\<lambda>n.
    bindM (liftE (ae_random env n NonceSize)) (\<lambda>nonce.
    retM (nonce @ ae_Seal env derivedKey nonce data))))"

definition decrypt ::
  "('db, 'p, 's, 'g, 'd, 'r, 'h) air_env \<Rightarrow> bytes \<Rightarrow> bytes \<Rightarrow> bytes \<Rightarrow> error + bytes"
where
  "decrypt env key salt data =
    bindR (deriveCipher env key salt) (\<lambda>derivedKey.
    if length data < NonceSize then Inl (errorsNew ''invalid data length'')
    else ae_Open env derivedKey (take NonceSize data) (drop NonceSize data))"

section \<open>The seed\<close>

definition storeBaseSeed ::
  "('db, 'p, 's, 'g, 'd, 'r, 'h) air_env \<Rightarrow> bytes \<Rightarrow> ('db, 'p, 's, 'g, 'd, 'r, unit) air_op"
where
  "storeBaseSeed env seed = wrapM ''failed to put baseSeed: %w'' [] (dbPut env baseSeedKey seed)"

definition getBaseSeed ::
  "('db, 'p, 's, 'g, 'd, 'r, 'h) air_env \<Rightarrow> ('db, 'p, 's, 'g, 'd, 'r, bytes) air_op"
where
  "getBaseSeed env = wrapM ''failed to get baseSeed: %w'' [] (dbGet env baseSeedKey)"

definition useSeed :: "bytes \<Rightarrow> ('db, 'p, 's, 'g, 'd, 'r, unit) air_op" where
  "useSeed seed = updateM (\<lambda>am. am\<lparr>am_baseSeed := seed, am_baseSuite := seed\<rparr>)"

definition loadBaseSeed ::
  "('db, 'p, 's, 'g, 'd, 'r, 'h) air_env \<Rightarrow> ('db, 'p, 's, 'g, 'd, 'r, unit) air_op"
where
  "loadBaseSeed env =
    bindM (attemptM (getBaseSeed env)) (\<lambda>r. case r of
      Inr seed \<Rightarrow> useSeed seed
    | Inl err \<Rightarrow>
        if isNotFound err then
          bindM nextRandom (\<lambda>n.
          bindM (wrapM ''failed to generate bip39 entropy: %w'' [] (liftE (ae_NewEntropy env n))) (\<lambda>entropy.
          bindM (wrapM ''failed to generate new mnemonic form entropy: %w'' []
            (liftE (ae_NewMnemonic env entropy))) (\<lambda>mnemonic.
          let seed = ae_pbkdf2 env (string_bytes mnemonic) (string_bytes mnemonicSalt) in
          bindM (wrapM ''failed to storeBaseSeed: %w'' [] (storeBaseSeed env seed)) (\<lambda>_.
          useSeed seed))))
        else failM (Wrapf ''failed to getBaseSeed: %w'' [] err))"

definition SetBaseSeed ::
  "('db, 'p, 's, 'g, 'd, 'r, 'h) air_env \<Rightarrow> string \<Rightarrow> ('db, 'p, 's, 'g, 'd, 'r, unit) air_op"
where
  "SetBaseSeed env mnemonic =
    (case ae_EntropyFromMnemonic env mnemonic of
       Some e \<Rightarrow> failM (Wrapf ''failed to validate mnemonic: %w'' [] e)
     | None \<Rightarrow>
         let seed = ae_pbkdf2 env (string_bytes mnemonic) (string_bytes mnemonicSalt) in
         bindM (wrapM ''failed to storeBaseSeed: %w'' [] (storeBaseSeed env seed)) (\<lambda>_. useSeed seed))"

section \<open>The log of operations\<close>

definition getRoundOperationLog ::
  "('db, 'p, 's, 'g, 'd, 'r, 'h) air_env \<Rightarrow> ('db, 'p, 's, 'g, 'd, 'r, RoundOperationLog option) air_op"
where
  "getRoundOperationLog env =
    bindM (dbGet env operationsLogDBKey) (\<lambda>operationsLogBz.
    wrapM ''failed to unmarshal stored operationsLog: %w'' [] (liftE (ae_Unmarshal_log env operationsLogBz)))"

text \<open>The error handling that the users of the log share.\<close>

definition readLog ::
  "('db, 'p, 's, 'g, 'd, 'r, 'h) air_env \<Rightarrow> ('db, 'p, 's, 'g, 'd, 'r, RoundOperationLog option) air_op"
where
  "readLog env =
    bindM (attemptM (getRoundOperationLog env)) (\<lambda>r. case r of
      Inr l \<Rightarrow> retM l
    | Inl err \<Rightarrow> failM (if isNotFound err then err
        else Wrapf ''failed to get operationsLogBz from db: %w'' [] err))"

text \<open>Setting the entry of a round, which panics on a nil map, and writing the log back.\<close>

definition writeLog ::
  "('db, 'p, 's, 'g, 'd, 'r, 'h) air_env \<Rightarrow> RoundOperationLog option \<Rightarrow> string \<Rightarrow> Operation list \<Rightarrow>
   ('db, 'p, 's, 'g, 'd, 'r, unit) air_op"
where
  "writeLog env roundLog dkgIdentifier operations =
    bindM (liftG (case roundLog of
       None \<Rightarrow> Inl (PanicMsg ''assignment to entry in nil map'' [])
     | Some l \<Rightarrow> Inr (AList.update dkgIdentifier operations l))) (\<lambda>l.
    bindM (wrapM ''failed to marshal operationsLog: %w'' [] (liftE (ae_Marshal_log env l))) (\<lambda>bz.
    wrapM ''failed to put updated operationsLog: %w'' [] (dbPut env operationsLogDBKey bz)))"

definition storeOperation ::
  "('db, 'p, 's, 'g, 'd, 'r, 'h) air_env \<Rightarrow> Operation \<Rightarrow> ('db, 'p, 's, 'g, 'd, 'r, unit) air_op"
where
  "storeOperation env oper =
    bindM (readLog env) (\<lambda>roundLog.
    writeLog env roundLog (op_DKGIdentifier oper)
      (get_list (entries roundLog) (op_DKGIdentifier oper) @ [oper]))"

definition getOperationsLog ::
  "('db, 'p, 's, 'g, 'd, 'r, 'h) air_env \<Rightarrow> string \<Rightarrow> ('db, 'p, 's, 'g, 'd, 'r, Operation list) air_op"
where
  "getOperationsLog env dkgIdentifier =
    bindM (readLog env) (\<lambda>roundLog.
    case map_of (entries roundLog) dkgIdentifier of
      None \<Rightarrow> failM (Errorf ''operation log not found for %s'' [AStr dkgIdentifier])
    | Some operationsLog \<Rightarrow> retM operationsLog)"

definition clearOperationsLog ::
  "('db, 'p, 's, 'g, 'd, 'r, 'h) air_env \<Rightarrow> string \<Rightarrow> (Operation \<Rightarrow> bool) \<Rightarrow> ('db, 'p, 's, 'g, 'd, 'r, unit) air_op"
where
  "clearOperationsLog env dkgIdentifier remove =
    bindM (readLog env) (\<lambda>roundLog.
    writeLog env roundLog dkgIdentifier
      (filter (\<lambda>oper. \<not> remove oper) (get_list (entries roundLog) dkgIdentifier)))"

definition dropRoundOperationLog ::
  "('db, 'p, 's, 'g, 'd, 'r, 'h) air_env \<Rightarrow> string \<Rightarrow> ('db, 'p, 's, 'g, 'd, 'r, unit) air_op"
where
  "dropRoundOperationLog env dkgIdentifier =
    bindM (readLog env) (\<lambda>roundLog. writeLog env roundLog dkgIdentifier [])"

section \<open>The keys\<close>

text \<open>A missing entry is reported as such, other failures are wrapped.\<close>

definition getKeyEntry ::
  "('db, 'p, 's, 'g, 'd, 'r, 'h) air_env \<Rightarrow> string \<Rightarrow> string \<Rightarrow> ('db, 'p, 's, 'g, 'd, 'r, bytes) air_op"
where
  "getKeyEntry env key msg =
    bindM (attemptM (dbGet env key)) (\<lambda>r. case r of
      Inr v \<Rightarrow> retM v
    | Inl err \<Rightarrow> failM (if isNotFound err then err else Wrapf msg [] err))"

definition LoadKeysFromDB ::
  "('db, 'p, 's, 'g, 'd, 'r, 'h) air_env \<Rightarrow> ('db, 'p, 's, 'g, 'd, 'r, unit) air_op"
where
  "LoadKeysFromDB env =
    bindM (getKeyEntry env pubKeyDBKey ''failed to get public key from db: %w'') (\<lambda>pubKeyBz.
    bindM (getKeyEntry env privateKeyDBKey ''failed to get private key from db: %w'') (\<lambda>privateKeyBz.
    bindM (getKeyEntry env saltDBKey ''failed to read salt from db: %w'') (\<lambda>salt.
    bindM (readM am_encryptionKey) (\<lambda>encryptionKey.
    bindM (liftE (decrypt env encryptionKey salt pubKeyBz)) (\<lambda>decryptedPubKey.
    bindM (liftE (decrypt env encryptionKey salt privateKeyBz)) (\<lambda>decryptedPrivateKey.
    case ky_UnmarshalPoint (ae_kyber env) decryptedPubKey of
      Inl e \<Rightarrow> bindM (updateM (\<lambda>am. am\<lparr>am_pubKey := Some (ky_BadPoint (ae_kyber env) decryptedPubKey)\<rparr>)) (\<lambda>_.
        failM (Wrapf ''failed to unmarshal public key: %w'' [] e))
    | Inr pubKey \<Rightarrow> bindM (updateM (\<lambda>am. am\<lparr>am_pubKey := Some pubKey\<rparr>)) (\<lambda>_.
        case ky_UnmarshalScalar (ae_kyber env) decryptedPrivateKey of
          Inl e \<Rightarrow> bindM (updateM (\<lambda>am. am\<lparr>am_secKey := Some (ky_BadScalar (ae_kyber env) decryptedPrivateKey)\<rparr>))
            (\<lambda>_. failM (Wrapf ''failed to unmarshal private key: %w'' [] e))
        | Inr secKey \<Rightarrow> updateM (\<lambda>am. am\<lparr>am_secKey := Some secKey\<rparr>)))))))) "

text \<open>The writes of a transaction, which touch the database only when it is committed.\<close>

fun txPut ::
  "('db, 'p, 's, 'g, 'd, 'r, 'h) air_env \<Rightarrow> (string \<times> bytes \<times> string) list \<Rightarrow> 'db \<Rightarrow> error + 'db"
where
  "txPut env [] tx = Inr tx"
| "txPut env ((key, value, msg) # puts) tx =
    (case ldb_Put (ae_leveldb env) tx key value of
       (Some e, tx) \<Rightarrow> Inl (Wrapf msg [] e)
     | (None, tx) \<Rightarrow> txPut env puts tx)"

definition SaveKeysToDB ::
  "('db, 'p, 's, 'g, 'd, 'r, 'h) air_env \<Rightarrow> ('db, 'p, 's, 'g, 'd, 'r, unit) air_op"
where
  "SaveKeysToDB env =
    bindM (readM am_pubKey) (\<lambda>pubKey.
    bindM (liftG (deref pubKey)) (\<lambda>pubKey.
    bindM (wrapM ''failed to marshal pub key: %w'' [] (liftE (ky_MarshalPoint (ae_kyber env) pubKey))) (\<lambda>pubKeyBz.
    bindM (readM am_secKey) (\<lambda>secKey.
    bindM (liftG (deref secKey)) (\<lambda>secKey.
    bindM (wrapM ''failed to marshal private key: %w'' [] (liftE (ky_MarshalScalar (ae_kyber env) secKey))) (\<lambda>privateKeyBz.
    bindM nextRandom (\<lambda>n.
    bindM (wrapM ''failed to generate salt: %w'' [] (liftE (ae_random env n 32))) (\<lambda>salt.
    bindM (readM am_encryptionKey) (\<lambda>encryptionKey.
    bindM (encrypt env encryptionKey salt pubKeyBz) (\<lambda>encryptedPubKey.
    bindM (encrypt env encryptionKey salt privateKeyBz) (\<lambda>encryptedPrivateKey.
    bindM (readM am_db) (\<lambda>db.
    bindM (wrapM ''failed to open transcation for db: %w'' [] (liftE (ae_OpenTransaction env db))) (\<lambda>tx.
    bindM (liftE (txPut env [(pubKeyDBKey, encryptedPubKey, ''failed to put pub key into db: %w''),
       (privateKeyDBKey, encryptedPrivateKey, ''failed to put private key into db: %w''),
       (saltDBKey, salt, ''failed to put salt into db: %w'')] tx)) (\<lambda>tx.
    case ae_Commit env db tx of (err, db) \<Rightarrow>
      bindM (updateM (\<lambda>am. am\<lparr>am_db := db\<rparr>)) (\<lambda>_.
      case err of
        Some e \<Rightarrow> failM (Wrapf ''failed to commit tx for saving keys into db: %w'' [] e)
      | None \<Rightarrow> retM ())))))))))))))))"

section \<open>Keyrings of finished rounds\<close>

definition readSalt ::
  "('db, 'p, 's, 'g, 'd, 'r, 'h) air_env \<Rightarrow> ('db, 'p, 's, 'g, 'd, 'r, bytes) air_op"
where
  "readSalt env = wrapM ''failed to read salt from db: %w'' [] (dbGet env saltDBKey)"

definition saveBLSKeyring ::
  "('db, 'p, 's, 'g, 'd, 'r, 'h) air_env \<Rightarrow> string \<Rightarrow> ('p, 'h) BLSKeyring \<Rightarrow>
   ('db, 'p, 's, 'g, 'd, 'r, unit) air_op"
where
  "saveBLSKeyring env dkgID blsKeyring =
    bindM (readSalt env) (\<lambda>salt.
    bindM (wrapM ''failed to encode bls keyring: %w'' [] (liftGE (BLSKeyring_Bytes (ae_kyber env) blsKeyring)))
      (\<lambda>blsKeyringBz.
    bindM (readM am_encryptionKey) (\<lambda>encryptionKey.
    bindM (wrapM ''failed to encrypt BLS keyring: %w'' [] (encrypt env encryptionKey salt blsKeyringBz))
      (\<lambda>encryptedKeyring.
    wrapM ''failed to save BLSKeyring into db: %w'' []
      (dbPut env (makeBLSKeyKeyringDBKey dkgID) encryptedKeyring)))))"

definition loadBLSKeyring ::
  "('db, 'p, 's, 'g, 'd, 'r, 'h) air_env \<Rightarrow> string \<Rightarrow> ('db, 'p, 's, 'g, 'd, 'r, ('p, 'h) BLSKeyring) air_op"
where
  "loadBLSKeyring env dkgID =
    bindM (readSalt env) (\<lambda>salt.
    bindM (wrapM ''failed to get bls keyring with dkg id %s: %w'' [AStr dkgID]
      (dbGet env (makeBLSKeyKeyringDBKey dkgID))) (\<lambda>blsKeyringBz.
    bindM (readM am_encryptionKey) (\<lambda>encryptionKey.
    bindM (wrapM ''failed to decrypt BLS keyring: %w'' []
      (liftE (decrypt env encryptionKey salt blsKeyringBz))) (\<lambda>decryptedKeyring.
    case LoadBLSKeyringFromBytes (ae_kyber env) decryptedKeyring of
      Inl e \<Rightarrow> failM (errorsNew ''failed to decode bls keyring'')
    | Inr blsKeyring \<Rightarrow> retM blsKeyring))))"

definition TrimPrefix :: "string \<Rightarrow> string \<Rightarrow> string" where
  "TrimPrefix s prefix = (if HasPrefix s prefix then drop (length prefix) s else s)"

fun decryptKeyrings ::
  "('db, 'p, 's, 'g, 'd, 'r, 'h) air_env \<Rightarrow> bytes \<Rightarrow> bytes \<Rightarrow> (string, bytes) gomap \<Rightarrow>
   (string, ('p, 'h) BLSKeyring) gomap \<Rightarrow> error + (string, ('p, 'h) BLSKeyring) gomap"
where
  "decryptKeyrings env encryptionKey salt [] keyrings = Inr keyrings"
| "decryptKeyrings env encryptionKey salt ((key, value) # rest) keyrings =
    bindR (wrapE ''failed to decrypt BLS keyring: %w'' [] (decrypt env encryptionKey salt value)) (\<lambda>decryptedKeyring.
    bindR (wrapE ''failed to decode bls keyring: %w'' [] (LoadBLSKeyringFromBytes (ae_kyber env) decryptedKeyring))
      (\<lambda>blsKeyring.
    decryptKeyrings env encryptionKey salt rest
      (AList.update (TrimPrefix key (blsKeyringPrefix @ ''_'')) blsKeyring keyrings)))"

definition GetBLSKeyrings ::
  "('db, 'p, 's, 'g, 'd, 'r, 'h) air_env \<Rightarrow>
   ('db, 'p, 's, 'g, 'd, 'r, (string, ('p, 'h) BLSKeyring) gomap) air_op"
where
  "GetBLSKeyrings env =
    bindM (readSalt env) (\<lambda>salt.
    bindM (readM am_encryptionKey) (\<lambda>encryptionKey.
    bindM (readM (\<lambda>am. ae_Iterate env (am_db am) blsKeyringPrefix)) (\<lambda>(found, err).
    bindM (liftE (decryptKeyrings env encryptionKey salt found [])) (\<lambda>keyrings.
    case err of Some e \<Rightarrow> failM e | None \<Rightarrow> retM keyrings))))"

end
