(* ===== verification/Airgapped.thy ===== *)
theory Airgapped
  imports Airgapped_Db
begin

text \<open>
  The airgapped machine (\<open>src/airgapped/airgapped.go\<close>, \<open>dkg.go\<close>, \<open>bls.go\<close>): it answers the operations
  that the hot node hands it, from files, with messages for the log.

  A handler gets a pointer to the operation and changes it also when it fails later, so it is a
  computation on the machine together with the operation.  A reinitialization replays the operations
  in its payload, among which there may be reinitializations again: \<open>GetOperationResult_at\<close> is bounded
  by a depth, beyond which the stack overflows.
\<close>

section \<open>Machine and operation\<close>

type_synonym ('db, 'p, 's, 'g, 'd, 'r, 'a) air_handler =
  "(('db, 'p, 's, 'g, 'd, 'r) air_machine \<times> Operation, 'a) op"

definition onMachine :: "('m, 'a) op \<Rightarrow> ('m \<times> 'o, 'a) op" where
  "onMachine m s = bindR (m (fst s)) (\<lambda>(r, am). Inr (r, (am, snd s)))"

text \<open>A computation on a value of its own, which is lost when it fails.\<close>

definition localM :: "('t, 'a) op \<Rightarrow> 't \<Rightarrow> ('s, 'a \<times> 't) op" where
  "localM m t s = bindR (m t) (\<lambda>(r, t'). Inr (case r of Inl e \<Rightarrow> Inl e | Inr x \<Rightarrow> Inr (x, t'), s))"

text \<open>A method of a stored instance, which the map holds as a pointer.\<close>

definition onInstance ::
  "string \<Rightarrow> ('p, 's, 'g, 'd, 'r, 'a) dkg_op \<Rightarrow> ('db, 'p, 's, 'g, 'd, 'r, 'a) air_op"
where
  "onInstance dkgID m am =
    bindR (deref (map_of (am_dkgInstances am) dkgID)) (\<lambda>d.
    bindR (m d) (\<lambda>(r, d). Inr (r, am\<lparr>am_dkgInstances := AList.update dkgID d (am_dkgInstances am)\<rparr>)))"

definition getInstance ::
  "string \<Rightarrow> string \<Rightarrow> ('db, 'p, 's, 'g, 'd, 'r, ('p, 's, 'g, 'd, 'r) DKG) air_op"
where
  "getInstance msg dkgID =
    bindM (readM am_dkgInstances) (\<lambda>dkgInstances. case map_of dkgInstances dkgID of
      None \<Rightarrow> failM (Errorf msg [AStr dkgID]) | Some dkgInstance \<Rightarrow> retM dkgInstance)"

section \<open>Set-up and keys\<close>

text \<open>The log of operations is created when the database has none.\<close>

definition initOperationsLog ::
  "('db, 'p, 's, 'g, 'd, 'r, 'h) air_env \<Rightarrow> ('db, 'p, 's, 'g, 'd, 'r, unit) air_op"
where
  "initOperationsLog env =
    bindM (attemptM (dbGet env operationsLogDBKey)) (\<lambda>r. case r of
      Inr _ \<Rightarrow> retM ()
    | Inl err \<Rightarrow>
        if isNotFound err
        then wrapM ''failed to init Operation log: %w'' [] (dbPut env operationsLogDBKey
          (case ae_Marshal_log env [] of Inl _ \<Rightarrow> [] | Inr bz \<Rightarrow> bz))
        else failM (Wrapf ''failed to init Operation log (fatal): %w'' [] err))"

definition NewMachine ::
  "('db, 'p, 's, 'g, 'd, 'r, 'h) air_env \<Rightarrow> string \<Rightarrow> nat \<Rightarrow> (string \<times> string, bytes) gomap \<Rightarrow>
   (error + ('db, 'p, 's, 'g, 'd, 'r) air_machine) go"
where
  "NewMachine env dbPath rand files =
    (case ldb_OpenFile (ae_leveldb env) dbPath of
       Inl e \<Rightarrow> Inr (Inl (Wrapf ''failed to open db file %s for keys: %w'' [AStr dbPath] e))
     | Inr db \<Rightarrow>
         let am = \<lparr>am_ResultFolder = '''', am_dkgInstances = [], am_encryptionKey = [], am_pubKey = None,
                   am_secKey = None, am_baseSuite = [], am_baseSeed = [], am_db = db, am_files = files,
                   am_rand = rand\<rparr>
         in bindR (bindM (wrapM ''failed to loadBaseSeed: %w'' [] (loadBaseSeed env)) (\<lambda>_. initOperationsLog env) am)
              (\<lambda>(r, am). Inr (case r of Inl e \<Rightarrow> Inl e | Inr () \<Rightarrow> Inr am)))"

definition SetResultFolder :: "string \<Rightarrow> ('db, 'p, 's, 'g, 'd, 'r) air_machine \<Rightarrow> ('db, 'p, 's, 'g, 'd, 'r) air_machine" where
  "SetResultFolder resultFolder am = am\<lparr>am_ResultFolder := resultFolder\<rparr>"

definition GenerateKeys ::
  "('db, 'p, 's, 'g, 'd, 'r, 'h) air_env \<Rightarrow> ('db, 'p, 's, 'g, 'd, 'r, unit) air_op"
where
  "GenerateKeys env =
    bindM nextRandom (\<lambda>n.
    bindM (updateM (\<lambda>am. let secKey = ky_Pick (ae_kyber env) (am_baseSuite am) n in
      am\<lparr>am_secKey := Some secKey, am_pubKey := Some (ky_Mul (ae_kyber env) secKey)\<rparr>)) (\<lambda>_.
    wrapM ''failed to SaveKeysToDB: %w'' [] (SaveKeysToDB env)))"

definition InitKeys ::
  "('db, 'p, 's, 'g, 'd, 'r, 'h) air_env \<Rightarrow> ('db, 'p, 's, 'g, 'd, 'r, unit) air_op"
where
  "InitKeys env =
    bindM (attemptM (LoadKeysFromDB env)) (\<lambda>r. case r of
      Inr _ \<Rightarrow> retM ()
    | Inl err \<Rightarrow> if isNotFound err then GenerateKeys env
        else failM (Wrapf ''failed to load keys from db: %w'' [] err))"

definition SetEncryptionKey :: "bytes \<Rightarrow> ('db, 'p, 's, 'g, 'd, 'r) air_machine \<Rightarrow> ('db, 'p, 's, 'g, 'd, 'r) air_machine" where
  "SetEncryptionKey key am = am\<lparr>am_encryptionKey := key\<rparr>"

definition SensitiveDataRemoved :: "('db, 'p, 's, 'g, 'd, 'r) air_machine \<Rightarrow> bool" where
  "SensitiveDataRemoved am \<longleftrightarrow> length (am_encryptionKey am) = 0"

definition DropSensitiveData :: "('db, 'p, 's, 'g, 'd, 'r) air_machine \<Rightarrow> ('db, 'p, 's, 'g, 'd, 'r) air_machine" where
  "DropSensitiveData am = am\<lparr>am_secKey := None, am_pubKey := None, am_encryptionKey := []\<rparr>"

section \<open>Encryption between participants\<close>

definition getParticipantID :: "string \<Rightarrow> ('db, 'p, 's, 'g, 'd, 'r, int) air_op" where
  "getParticipantID dkgIdentifier =
    bindM (getInstance ''invalid dkg identifier: %s'' dkgIdentifier) (\<lambda>dkgInstance. retM (dkg_ParticipantID dkgInstance))"

definition encryptDataForParticipant ::
  "('db, 'p, 's, 'g, 'd, 'r, 'h) air_env \<Rightarrow> string \<Rightarrow> string \<Rightarrow> bytes \<Rightarrow> ('db, 'p, 's, 'g, 'd, 'r, bytes) air_op"
where
  "encryptDataForParticipant env dkgIdentifier to data =
    bindM (getInstance ''invalid dkg identifier: %s'' dkgIdentifier) (\<lambda>dkgInstance.
    bindM (wrapM ''failed to get pk for participant %s: %w'' [AStr to]
      (liftE (GetPubKeyByParticipant dkgInstance to))) (\<lambda>pk.
    bindM nextRandom (\<lambda>n.
    bindM (readM am_baseSuite) (\<lambda>suite.
    wrapM ''failed to encrypt data: %w'' [] (liftE (ky_Encrypt (ae_kyber env) suite n pk data))))))"

definition decryptDataFromParticipant ::
  "('db, 'p, 's, 'g, 'd, 'r, 'h) air_env \<Rightarrow> bytes \<Rightarrow> ('db, 'p, 's, 'g, 'd, 'r, bytes) air_op"
where
  "decryptDataFromParticipant env data =
    bindM (readM (\<lambda>am. ky_Decrypt (ae_kyber env) (am_baseSuite am) (am_secKey am) data)) (\<lambda>r.
    wrapM ''failed to decrypt data: %w'' [] (liftE r))"

section \<open>Answers\<close>

definition air_createMessage :: "Operation \<Rightarrow> bytes \<Rightarrow> Message" where
  "air_createMessage oper data =
    \<lparr>ID = '''', DkgRoundID = op_DKGIdentifier oper, Offset = 0, msg_Event = op_Event oper, Data = data,
     Signature = [], SenderAddr = '''', RecipientAddr = op_To oper\<rparr>"

text \<open>How every handler ends: the request is encoded and becomes a message of the operation.\<close>

definition answer ::
  "('db, 'p, 's, 'g, 'd, 'r, 'h) air_env \<Rightarrow> Event \<Rightarrow> request \<Rightarrow> ('db, 'p, 's, 'g, 'd, 'r, unit) air_handler"
where
  "answer env event req =
    bindM (wrapM ''failed to generate fsm request: %w'' [] (liftE (ae_Marshal_request env req))) (\<lambda>reqBz.
    updateM (\<lambda>(am, oper). let oper = oper\<lparr>op_Event := event\<rparr> in
      (am, oper\<lparr>op_ResultMsgs := op_ResultMsgs oper @ [air_createMessage oper reqBz]\<rparr>)))"

definition readOperation :: "(Operation \<Rightarrow> 'a) \<Rightarrow> ('db, 'p, 's, 'g, 'd, 'r, 'a) air_handler" where
  "readOperation f = readM (f \<circ> snd)"

section \<open>Commits\<close>

text \<open>Own identifier among the participants, -1 when the own key is not there.\<close>

fun findParticipant ::
  "('p, 's, 'g, 'd, 'r, 'h) kyber \<Rightarrow> 'p option \<Rightarrow> DKGProposalPubKeysParticipantEntry option list \<Rightarrow> (error + int) go"
where
  "findParticipant K pubKey [] = Inr (Inr (-1))"
| "findParticipant K pubKey (r # rs) =
    bindR (deref r) (\<lambda>r.
    case ky_UnmarshalPoint K (ke_DkgPubKey r) of
      Inl e \<Rightarrow> Inr (Inl (Wrapf ''failed to unmarshal dkg pubkey: %w'' [] e))
    | Inr pk \<Rightarrow> bindR (deref pubKey) (\<lambda>own.
        if own = pk then Inr (Inr (ke_ParticipantId r)) else findParticipant K pubKey rs))"

definition storePubKeys ::
  "('p, 's, 'g, 'd, 'r, 'h) kyber \<Rightarrow> DKGProposalPubKeysParticipantEntry option list \<Rightarrow>
   ('p, 's, 'g, 'd, 'r, unit) dkg_op"
where
  "storePubKeys K payload = forM (\<lambda>entry.
    bindM (liftG (deref entry)) (\<lambda>entry.
    bindM (wrapM ''failed to unmarshal pubkey: %w'' [] (liftE (ky_UnmarshalPoint K (ke_DkgPubKey entry)))) (\<lambda>pubKey.
    updateM (\<lambda>d. snd (StorePubKey (ke_Username entry) (ke_ParticipantId entry) pubKey d))))) payload"

text \<open>A new instance: its suite is seeded with the round's identifier and the machine's seed.\<close>

definition newInstance ::
  "('db, 'p, 's, 'g, 'd, 'r, 'h) air_env \<Rightarrow> string \<Rightarrow> DKGProposalPubKeysParticipantEntry option list \<Rightarrow>
   ('db, 'p, 's, 'g, 'd, 'r, ('p, 's, 'g, 'd, 'r) DKG) air_op"
where
  "newInstance env dkgIdentifier payload =
    bindM (readM am_baseSeed) (\<lambda>baseSeed.
    bindM (readM am_pubKey) (\<lambda>pubKey.
    bindM (readM am_secKey) (\<lambda>secKey.
    let dkgSeed = ae_sha256 env (string_bytes dkgIdentifier @ baseSeed) in
    bindM (liftG (bindR (slice_at payload 0) deref)) (\<lambda>first.
    let dkgInstance = (dkg_Init dkgSeed pubKey secKey)
          \<lparr>dkg_Threshold := ke_Threshold first, dkg_N := int (length payload)\<rparr> in
    bindM (localM (storePubKeys (ae_kyber env) payload) dkgInstance) (\<lambda>(_, dkgInstance).
    bindM (wrapM ''failed to init dkg instance: %w'' []
      (localM (InitDKGInstance (ae_kyber env) baseSeed) dkgInstance)) (\<lambda>(_, dkgInstance).
    retM dkgInstance))))))"

definition handleStateDkgCommitsAwaitConfirmations ::
  "('db, 'p, 's, 'g, 'd, 'r, 'h) air_env \<Rightarrow> ('db, 'p, 's, 'g, 'd, 'r, unit) air_handler"
where
  "handleStateDkgCommitsAwaitConfirmations env =
    bindM (readOperation id) (\<lambda>oper.
    bindM (wrapM ''failed to unmarshal payload: %w'' [] (liftE (ae_pubkeys env (op_Payload oper)))) (\<lambda>payload.
    bindM (onMachine (readM am_pubKey)) (\<lambda>pubKey.
    bindM (liftGE (findParticipant (ae_kyber env) pubKey payload)) (\<lambda>pid.
    if pid < 0
    then failM (Errorf ''failed to determine participant id for DKG #%s'' [AStr (op_DKGIdentifier oper)])
    else
    bindM (onMachine (readM am_dkgInstances)) (\<lambda>dkgInstances.
    if has_key dkgInstances (op_DKGIdentifier oper)
    then failM (Errorf ''dkg instance %s already exists'' [AStr (op_DKGIdentifier oper)])
    else
    bindM (onMachine (newInstance env (op_DKGIdentifier oper) payload)) (\<lambda>dkgInstance.
    bindM (liftG (GetCommits (ae_kyber env) dkgInstance)) (\<lambda>dkgCommits.
    bindM (liftE (mapE (\<lambda>c. wrapE ''failed to marshal commits: %w'' [] (ky_MarshalPoint (ae_kyber env) c)) dkgCommits))
      (\<lambda>marshaledCommits.
    bindM (wrapM ''failed to marshal marshaledCommits: %w'' [] (liftE (ae_Marshal_commits env marshaledCommits)))
      (\<lambda>commitsBz.
    bindM (onMachine (updateM (\<lambda>am.
      am\<lparr>am_dkgInstances := AList.update (op_DKGIdentifier oper) dkgInstance (am_dkgInstances am)\<rparr>))) (\<lambda>_.
    answer env EventDKGCommitConfirmationReceived (ReqDkgCommit
      \<lparr>cr_ParticipantId = dkg_ParticipantID dkgInstance, cr_Commit = commitsBz,
       cr_CreatedAt = op_CreatedAt oper\<rparr>)))))))))))"

section \<open>Deals\<close>

definition dkgExists :: "string \<Rightarrow> ('db, 'p, 's, 'g, 'd, 'r, ('p, 's, 'g, 'd, 'r) DKG) air_handler" where
  "dkgExists dkgID = onMachine (getInstance ''dkg instance with identifier %s does not exist'' dkgID)"

definition storeAllCommits ::
  "('db, 'p, 's, 'g, 'd, 'r, 'h) air_env \<Rightarrow> string \<Rightarrow> DKGProposalCommitParticipantEntry option list \<Rightarrow>
   ('db, 'p, 's, 'g, 'd, 'r, unit) air_op"
where
  "storeAllCommits env dkgID payload = forM (\<lambda>entry.
    bindM (liftG (deref entry)) (\<lambda>entry.
    bindM (wrapM ''failed to unmarshal commits: %w'' [] (liftE (ae_commit env (ce_DkgCommit entry)))) (\<lambda>commitsBz.
    bindM (liftE (mapE (\<lambda>b. wrapE ''failed to unmarshal commit: %w'' [] (ky_UnmarshalPoint (ae_kyber env) b)) commitsBz))
      (\<lambda>dkgCommits.
    onInstance dkgID (updateM (StoreCommits (ce_Username entry) dkgCommits)))))) payload"

text \<open>The message that carries a deal to its recipient, encrypted with the recipient's key.\<close>

definition sendDeal ::
  "('db, 'p, 's, 'g, 'd, 'r, 'h) air_env \<Rightarrow> int \<times> 'd \<Rightarrow> ('db, 'p, 's, 'g, 'd, 'r, unit) air_handler"
where
  "sendDeal env entry =
    (case entry of (index, deal) \<Rightarrow>
    bindM (readOperation id) (\<lambda>oper.
    bindM (wrapM ''failed to marshal deal: %w'' [] (liftE (ky_MarshalDeal (ae_kyber env) deal))) (\<lambda>dealBz.
    bindM (dkgExists (op_DKGIdentifier oper)) (\<lambda>dkgInstance.
    bindM (liftG (DKG_GetParticipantByIndex dkgInstance index)) (\<lambda>toParticipant.
    bindM (wrapM ''failed to encrypt deal: %w'' []
      (onMachine (encryptDataForParticipant env (op_DKGIdentifier oper) toParticipant dealBz))) (\<lambda>encryptedDeal.
    bindM (updateM (\<lambda>(am, oper). (am, oper\<lparr>op_To := toParticipant\<rparr>))) (\<lambda>_.
    answer env EventDKGDealConfirmationReceived (ReqDkgDeal
      \<lparr>dlr_ParticipantId = dkg_ParticipantID dkgInstance, dlr_Deal = encryptedDeal,
       dlr_CreatedAt = op_CreatedAt oper\<rparr>))))))))"

text \<open>The message to oneself that ends the deals.\<close>

definition confirmDeals ::
  "('db, 'p, 's, 'g, 'd, 'r, 'h) air_env \<Rightarrow> ('db, 'p, 's, 'g, 'd, 'r, unit) air_handler"
where
  "confirmDeals env =
    bindM (readOperation id) (\<lambda>oper.
    bindM (dkgExists (op_DKGIdentifier oper)) (\<lambda>dkgInstance.
    bindM (liftG (DKG_GetParticipantByIndex dkgInstance (dkg_ParticipantID dkgInstance))) (\<lambda>toParticipant.
    bindM (updateM (\<lambda>(am, oper). (am, oper\<lparr>op_To := toParticipant\<rparr>))) (\<lambda>_.
    answer env EventDKGDealConfirmationReceived (ReqDkgDeal
      \<lparr>dlr_ParticipantId = dkg_ParticipantID dkgInstance, dlr_Deal = string_bytes ''self-confirm'',
       dlr_CreatedAt = op_CreatedAt oper\<rparr>)))))"

definition handleStateDkgDealsAwaitConfirmations ::
  "('db, 'p, 's, 'g, 'd, 'r, 'h) air_env \<Rightarrow> ('db, 'p, 's, 'g, 'd, 'r, unit) air_handler"
where
  "handleStateDkgDealsAwaitConfirmations env =
    bindM (readOperation id) (\<lambda>oper.
    bindM (dkgExists (op_DKGIdentifier oper)) (\<lambda>_.
    bindM (wrapM ''failed to unmarshal payload: %w'' [] (liftE (ae_commits env (op_Payload oper)))) (\<lambda>payload.
    bindM (onMachine (storeAllCommits env (op_DKGIdentifier oper) payload)) (\<lambda>_.
    bindM (wrapM ''failed to get deals: %w'' []
      (onMachine (onInstance (op_DKGIdentifier oper) (GetDeals (ae_kyber env))))) (\<lambda>deals.
    bindM (forM (sendDeal env) deals) (\<lambda>_.
    confirmDeals env))))))"

section \<open>Responses\<close>

definition storeDeals ::
  "('db, 'p, 's, 'g, 'd, 'r, 'h) air_env \<Rightarrow> string \<Rightarrow> int \<Rightarrow> DKGProposalDealParticipantEntry option list \<Rightarrow>
   ('db, 'p, 's, 'g, 'd, 'r, unit) air_op"
where
  "storeDeals env dkgID participantID payload = forM (\<lambda>entry.
    bindM (liftG (deref entry)) (\<lambda>entry.
    if dle_ParticipantId entry = participantID then retM ()
    else
    bindM (wrapM ''failed to decrypt deal: %w'' [] (decryptDataFromParticipant env (dle_DkgDeal entry)))
      (\<lambda>decryptedDealBz.
    case ky_UnmarshalDeal (ae_kyber env) decryptedDealBz of
      Inl e \<Rightarrow> failM (errorsNew ''failed to unmarshal deal'')
    | Inr deal \<Rightarrow> onInstance dkgID (updateM (StoreDeal (dle_Username entry) deal))))) payload"

definition handleStateDkgResponsesAwaitConfirmations ::
  "('db, 'p, 's, 'g, 'd, 'r, 'h) air_env \<Rightarrow> ('db, 'p, 's, 'g, 'd, 'r, unit) air_handler"
where
  "handleStateDkgResponsesAwaitConfirmations env =
    bindM (readOperation id) (\<lambda>oper.
    bindM (dkgExists (op_DKGIdentifier oper)) (\<lambda>dkgInstance.
    bindM (wrapM ''failed to unmarshal payload: %w'' [] (liftE (ae_deals env (op_Payload oper)))) (\<lambda>payload.
    bindM (onMachine (storeDeals env (op_DKGIdentifier oper) (dkg_ParticipantID dkgInstance) payload)) (\<lambda>_.
    bindM (wrapM ''failed to process deals: %w'' []
      (onMachine (onInstance (op_DKGIdentifier oper) (ProcessDeals (ae_kyber env))))) (\<lambda>processedResponses.
    case ky_MarshalResponses (ae_kyber env) processedResponses of
      Inl e \<Rightarrow> failM (errorsNew ''failed to marshal deals'')
    | Inr responsesBz \<Rightarrow>
        answer env EventDKGResponseConfirmationReceived (ReqDkgResponse
          \<lparr>rr_ParticipantId = dkg_ParticipantID dkgInstance, rr_Response = responsesBz,
           rr_CreatedAt = op_CreatedAt oper\<rparr>))))))"

section \<open>The master key\<close>

definition storeAllResponses ::
  "('db, 'p, 's, 'g, 'd, 'r, 'h) air_env \<Rightarrow> string \<Rightarrow> DKGProposalResponseParticipantEntry option list \<Rightarrow>
   ('db, 'p, 's, 'g, 'd, 'r, unit) air_op"
where
  "storeAllResponses env dkgID payload = forM (\<lambda>entry.
    bindM (liftG (deref entry)) (\<lambda>entry.
    bindM (wrapM ''failed to unmarshal responses: %w'' []
      (liftE (ky_UnmarshalResponses (ae_kyber env) (re_DkgResponse entry)))) (\<lambda>entryResponses.
    onInstance dkgID (StoreResponses (ae_kyber env) (re_Username entry) entryResponses)))) payload"

definition handleStateDkgMasterKeyAwaitConfirmations ::
  "('db, 'p, 's, 'g, 'd, 'r, 'h) air_env \<Rightarrow> ('db, 'p, 's, 'g, 'd, 'r, unit) air_handler"
where
  "handleStateDkgMasterKeyAwaitConfirmations env =
    bindM (readOperation id) (\<lambda>oper.
    bindM (dkgExists (op_DKGIdentifier oper)) (\<lambda>_.
    bindM (wrapM ''failed to unmarshal payload: %w'' [] (liftE (ae_responses env (op_Payload oper)))) (\<lambda>payload.
    bindM (onMachine (storeAllResponses env (op_DKGIdentifier oper) payload)) (\<lambda>_.
    bindM (wrapM ''failed to process responses: %w'' []
      (onMachine (onInstance (op_DKGIdentifier oper) (ProcessResponses (ae_kyber env))))) (\<lambda>_.
    bindM (dkgExists (op_DKGIdentifier oper)) (\<lambda>dkgInstance.
    bindM (wrapM ''failed to get master pub key: %w'' []
      (liftGE (GetDistributedPublicKey (ae_kyber env) dkgInstance))) (\<lambda>pubKey.
    bindM (wrapM ''failed to marshal master pub key: %w'' []
      (liftE (ky_MarshalPoint (ae_kyber env) pubKey))) (\<lambda>masterPubKeyBz.
    bindM (wrapM ''failed to get BLSKeyring: %w'' [] (liftE (GetBLSKeyring (ae_kyber env) dkgInstance))) (\<lambda>blsKeyring.
    bindM (wrapM ''failed to save BLSKeyring: %w'' []
      (onMachine (saveBLSKeyring env (op_DKGIdentifier oper) blsKeyring))) (\<lambda>_.
    bindM (wrapM ''failed to marshal BLSKeyring's PubPoly: %w'' []
      (liftE (PubPolyBytes (ae_kyber env) blsKeyring))) (\<lambda>pubPolyBz.
    answer env EventDKGMasterKeyConfirmationReceived (ReqDkgMasterKey
      \<lparr>mk_ParticipantId = dkg_ParticipantID dkgInstance, mk_MasterKey = masterPubKeyBz,
       mk_CreatedAt = op_CreatedAt oper, mk_PubPolyBz = pubPolyBz\<rparr>))))))))))))"

section \<open>Signing\<close>

definition createPartialSign ::
  "('db, 'p, 's, 'g, 'd, 'r, 'h) air_env \<Rightarrow> bytes \<Rightarrow> string \<Rightarrow> ('db, 'p, 's, 'g, 'd, 'r, bytes) air_op"
where
  "createPartialSign env msg dkgIdentifier =
    bindM (wrapM ''failed to load blsKeyring: %w'' [] (loadBLSKeyring env dkgIdentifier)) (\<lambda>blsKeyring.
    bindM (liftG (deref (kr_Share blsKeyring))) (\<lambda>share.
    bindM (readM am_baseSuite) (\<lambda>suite.
    liftE (ky_Sign (ae_kyber env) suite share msg))))"

text \<open>The commitment to the secret is the first one.\<close>

definition VerifySign ::
  "('db, 'p, 's, 'g, 'd, 'r, 'h) air_env \<Rightarrow> bytes \<Rightarrow> bytes \<Rightarrow> string \<Rightarrow> ('db, 'p, 's, 'g, 'd, 'r, unit) air_op"
where
  "VerifySign env msg fullSignature dkgIdentifier =
    bindM (wrapM ''failed to load blsKeyring: %w'' [] (loadBLSKeyring env dkgIdentifier)) (\<lambda>blsKeyring.
    bindM (liftG (slice_at (kr_PubPoly blsKeyring) 0)) (\<lambda>commit.
    bindM (readM am_baseSuite) (\<lambda>suite.
    case ky_Verify (ae_kyber env) suite commit msg fullSignature of Some e \<Rightarrow> failM e | None \<Rightarrow> retM ())))"

fun signMessages ::
  "('db, 'p, 's, 'g, 'd, 'r, 'h) air_env \<Rightarrow> string \<Rightarrow> MessageToSign list \<Rightarrow> PartialSign list \<Rightarrow>
   ('db, 'p, 's, 'g, 'd, 'r, PartialSign list) air_op"
where
  "signMessages env dkgID [] signs = retM signs"
| "signMessages env dkgID (s # messagesToSign) signs =
    bindM (wrapM ''failed to create partialSign for msg: %w'' [] (createPartialSign env (mts_Payload s) dkgID))
      (\<lambda>partialSign.
    signMessages env dkgID messagesToSign (signs @ [\<lparr>ps_MessageID = mts_MessageID s, ps_Sign = partialSign\<rparr>]))"

definition handleStateSigningAwaitPartialSigns ::
  "('db, 'p, 's, 'g, 'd, 'r, 'h) air_env \<Rightarrow> ('db, 'p, 's, 'g, 'd, 'r, unit) air_handler"
where
  "handleStateSigningAwaitPartialSigns env =
    bindM (readOperation id) (\<lambda>oper.
    bindM (wrapM ''failed to unmarshal payload: %w'' [] (liftE (ae_invitation env (op_Payload oper)))) (\<lambda>payload.
    bindM (wrapM ''failed to unmarshal messages to sign: %w'' [] (liftE (ae_tasks env payload))) (\<lambda>signingTasks.
    bindM (wrapM ''failed to get paricipant id: %w'' []
      (onMachine (getParticipantID (op_DKGIdentifier oper)))) (\<lambda>participantID.
    bindM (wrapM ''failed to extract messages from tasks: %w'' []
      (liftGE (TasksToMessages (ae_baked env) signingTasks))) (\<lambda>messagesToSign.
    bindM (onMachine (signMessages env (op_DKGIdentifier oper) messagesToSign [])) (\<lambda>signs.
    answer env EventSigningPartialSignReceived (ReqPartialSigns
      \<lparr>bp_BatchID = pir_BatchID payload, bp_ParticipantId = participantID, bp_PartialSigns = signs,
       bp_CreatedAt = op_CreatedAt oper\<rparr>)))))))"

section \<open>Reinitialization\<close>

definition skippedOnReinit :: "Operation \<Rightarrow> bool" where
  "skippedOnReinit oper \<longleftrightarrow> \<not> Event_IsEmpty (op_Event oper) \<or> op_Type oper = StateAwaitParticipantsConfirmations"

definition handleReinitDKG ::
  "('db, 'p, 's, 'g, 'd, 'r, 'h) air_env \<Rightarrow> (Operation \<Rightarrow> ('db, 'p, 's, 'g, 'd, 'r, Operation) air_op) \<Rightarrow>
   ('db, 'p, 's, 'g, 'd, 'r, unit) air_handler"
where
  "handleReinitDKG env getOperationResult =
    bindM (readOperation id) (\<lambda>operation.
    bindM (wrapM ''failed to unmarshal operation payload: %w'' [] (liftE (ae_operations env (op_Payload operation))))
      (\<lambda>operations.
    bindM (onMachine (forM (\<lambda>oper.
        if skippedOnReinit oper then retM ()
        else bindM (wrapM ''failed to process operation: %w'' [] (getOperationResult oper)) (\<lambda>_. retM ()))
      operations)) (\<lambda>_.
    bindM (wrapM ''failed to load bls keyring during ReinitDKG: %w'' []
      (onMachine (loadBLSKeyring env (op_DKGIdentifier operation)))) (\<lambda>blsKeyring.
    bindM (wrapM ''failed to marshal BLSKeyring's PubPoly during ReinitDKG: %w'' []
      (liftE (PubPolyBytes (ae_kyber env) blsKeyring))) (\<lambda>pubPolyBz.
    updateM (\<lambda>(am, oper). (am, oper\<lparr>op_Event := OperationProcessed, op_ExtraData := pubPolyBz\<rparr>)))))))"

section \<open>Results of operations\<close>

definition eventToErrorMap :: "(State, Event) gomap" where
  "eventToErrorMap =
    [(StateAwaitParticipantsConfirmations, EventDeclineProposal),
     (StateDkgCommitsAwaitConfirmations, EventDKGCommitConfirmationError),
     (StateDkgDealsAwaitConfirmations, EventDKGDealConfirmationError),
     (StateDkgResponsesAwaitConfirmations, EventDKGResponseConfirmationError),
     (StateDkgMasterKeyAwaitConfirmations, EventDKGMasterKeyConfirmationError),
     (StateSigningAwaitPartialSigns, EventSigningPartialSignError),
     (StateSigningPartialSignsCollected, SignatureReconstructionFailed)]"

text \<open>A state without an entry has the empty event.\<close>

definition errorEvent :: "State \<Rightarrow> Event" where
  "errorEvent state = (case map_of eventToErrorMap state of None \<Rightarrow> '''' | Some event \<Rightarrow> event)"

definition writeErrorRequestToOperation ::
  "('db, 'p, 's, 'g, 'd, 'r, 'h) air_env \<Rightarrow> error \<Rightarrow> ('db, 'p, 's, 'g, 'd, 'r, unit) air_handler"
where
  "writeErrorRequestToOperation env handlerError =
    bindM (readOperation id) (\<lambda>oper.
    bindM (wrapM ''failed to get participant id: %w'' []
      (onMachine (getParticipantID (op_DKGIdentifier oper)))) (\<lambda>pid.
    answer env (errorEvent (op_Type oper)) (ReqDkgError
      \<lparr>de_ParticipantId = pid, de_Error = Some (NewFSMError (ae_Error env handlerError)),
       de_CreatedAt = op_CreatedAt oper\<rparr>)))"

definition handleOperation ::
  "('db, 'p, 's, 'g, 'd, 'r, 'h) air_env \<Rightarrow> (Operation \<Rightarrow> ('db, 'p, 's, 'g, 'd, 'r, Operation) air_op) \<Rightarrow>
   ('db, 'p, 's, 'g, 'd, 'r, unit) air_handler"
where
  "handleOperation env getOperationResult =
    bindM (readOperation op_Type) (\<lambda>type.
    if type = ReinitDKG then handleReinitDKG env getOperationResult
    else if type = StateDkgCommitsAwaitConfirmations then handleStateDkgCommitsAwaitConfirmations env
    else if type = StateDkgDealsAwaitConfirmations then handleStateDkgDealsAwaitConfirmations env
    else if type = StateDkgResponsesAwaitConfirmations then handleStateDkgResponsesAwaitConfirmations env
    else if type = StateDkgMasterKeyAwaitConfirmations then handleStateDkgMasterKeyAwaitConfirmations env
    else if type = StateSigningAwaitPartialSigns then handleStateSigningAwaitPartialSigns env
    else failM (Errorf ''invalid operation type: %s'' [AStr type]))"

text \<open>The error of a handler is written into the operation.\<close>

definition resultOf ::
  "('db, 'p, 's, 'g, 'd, 'r, 'h) air_env \<Rightarrow> ('db, 'p, 's, 'g, 'd, 'r, unit) air_handler \<Rightarrow>
   Operation \<Rightarrow> ('db, 'p, 's, 'g, 'd, 'r, Operation) air_op"
where
  "resultOf env handler operation am =
    bindR (bindM (attemptM handler) (\<lambda>r. case r of
        Inl err \<Rightarrow> wrapM ''failed to write error request to an operation: %w'' []
          (writeErrorRequestToOperation env err)
      | Inr _ \<Rightarrow> retM ()) (am, operation))
      (\<lambda>(r, am, operation). Inr (case r of Inl e \<Rightarrow> Inl e | Inr _ \<Rightarrow> Inr operation, am))"

fun GetOperationResult_at ::
  "('db, 'p, 's, 'g, 'd, 'r, 'h) air_env \<Rightarrow> nat \<Rightarrow> Operation \<Rightarrow> ('db, 'p, 's, 'g, 'd, 'r, Operation) air_op"
where
  "GetOperationResult_at env 0 operation = liftG (Inl (PanicMsg ''stack overflow'' []))"
| "GetOperationResult_at env (Suc depth) operation =
    resultOf env (handleOperation env (GetOperationResult_at env depth)) operation"

text \<open>
  A payload is longer than the payloads of the operations in it, so the recursion is no deeper than
  the length of the payload.
\<close>

definition GetOperationResult ::
  "('db, 'p, 's, 'g, 'd, 'r, 'h) air_env \<Rightarrow> Operation \<Rightarrow> ('db, 'p, 's, 'g, 'd, 'r, Operation) air_op"
where
  "GetOperationResult env operation = GetOperationResult_at env (Suc (length (op_Payload operation))) operation"

section \<open>Operations from and to files\<close>

text \<open>
  The result file is opened for writing and created if need be, but not truncated: writing replaces
  a prefix of what was there.
\<close>

definition writeFile ::
  "('db, 'p, 's, 'g, 'd, 'r, 'h) air_env \<Rightarrow> string \<times> string \<Rightarrow> bytes \<Rightarrow> ('db, 'p, 's, 'g, 'd, 'r, unit) air_op"
where
  "writeFile env path bz =
    (case ae_OpenFile env path of
       Some e \<Rightarrow> failM (Wrapf ''failed to open file: %w'' [] e)
     | None \<Rightarrow>
         case ae_Write env path bz of (n, err) \<Rightarrow>
         bindM (updateM (\<lambda>am. am\<lparr>am_files := AList.update path
           (take n bz @ drop (length (take n bz)) (get_list (am_files am) path)) (am_files am)\<rparr>)) (\<lambda>_.
         case err of Some e \<Rightarrow> failM (Wrapf ''failed to write file: %w'' [] e) | None \<Rightarrow> retM ()))"

definition air_ProcessOperation ::
  "('db, 'p, 's, 'g, 'd, 'r, 'h) air_env \<Rightarrow> Operation \<Rightarrow> bool \<Rightarrow> ('db, 'p, 's, 'g, 'd, 'r, string \<times> string) air_op"
where
  "air_ProcessOperation env operation store =
    bindM (wrapM ''failed to HandleOperation %s (this error is fatal): %w'' [AStr (op_ID operation)]
      (GetOperationResult env operation)) (\<lambda>resultOperation.
    bindM (if store \<and> \<not> IsSigningState (Some operation)
           then wrapM ''failed to storeOperation: %w'' [] (storeOperation env operation)
           else retM ()) (\<lambda>_.
    bindM (wrapM ''failed to marshal operation: %w'' [] (liftE (ae_Marshal_operation env resultOperation))) (\<lambda>operationBz.
    bindM (readM am_ResultFolder) (\<lambda>resultFolder.
    bindM (liftG (Operation_Filename (ae_invitation env) operation)) (\<lambda>filename.
    let path = (resultFolder, filename @ ''_result.json'') in
    bindM (writeFile env path operationBz) (\<lambda>_. retM path))))))"

definition ReplayOperationsLog ::
  "('db, 'p, 's, 'g, 'd, 'r, 'h) air_env \<Rightarrow> string \<Rightarrow> ('db, 'p, 's, 'g, 'd, 'r, unit) air_op"
where
  "ReplayOperationsLog env dkgIdentifier =
    bindM (wrapM ''failed to getOperationsLog: %w'' [] (getOperationsLog env dkgIdentifier)) (\<lambda>operationsLog.
    forM (\<lambda>operation. bindM (wrapM ''failed to ProcessOperation: %w'' [] (air_ProcessOperation env operation False))
      (\<lambda>_. retM ())) operationsLog)"

definition DropOperationsLog ::
  "('db, 'p, 's, 'g, 'd, 'r, 'h) air_env \<Rightarrow> string \<Rightarrow> ('db, 'p, 's, 'g, 'd, 'r, unit) air_op"
where
  "DropOperationsLog env dkgIdentifier = dropRoundOperationLog env dkgIdentifier"

end
