(* ===== verification/Airgapped_Store.thy ===== *)
theory Airgapped_Store
  imports Airgapped
begin

text \<open>
  What the airgapped machine keeps on disk: keyrings are read back as they were saved, and the log of
  operations behaves as a map from rounds to lists of operations.  The contract of the log is the
  locale \<open>operations_log\<close>, interpreted for the machine's database.
\<close>

section \<open>Encrypted data\<close>

text \<open>Opening what was sealed gives the text back, and a random read fills its buffer.\<close>

definition cipher_ok :: "('db, 'p, 's, 'g, 'd, 'r, 'h) air_env \<Rightarrow> bool" where
  "cipher_ok env \<longleftrightarrow>
    (\<forall>k n t. length n = NonceSize \<longrightarrow> ae_Open env k n (ae_Seal env k n t) = Inr t) \<and>
    (\<forall>c n b. ae_random env c n = Inr b \<longrightarrow> length b = n)"

lemma decrypt_encrypt:
  assumes "cipher_ok env" and "encrypt env key salt data am = Inr (Inr bz, am')"
  shows "decrypt env key salt bz = Inr data" and "am' = am\<lparr>am_rand := Suc (am_rand am)\<rparr>"
proof -
  from assms(2) obtain k n where k: "deriveCipher env key salt = Inr k"
    and n: "ae_random env (am_rand am) NonceSize = Inr n" and bz: "bz = n @ ae_Seal env k n data"
    and am': "am' = am\<lparr>am_rand := Suc (am_rand am)\<rparr>"
    by (auto simp: encrypt_def success_simps nextRandom_def)
  from assms(1) n have "length n = NonceSize" by (simp add: cipher_ok_def)
  with assms(1) k bz show "decrypt env key salt bz = Inr data" by (simp add: decrypt_def cipher_ok_def)
  show "am' = am\<lparr>am_rand := Suc (am_rand am)\<rparr>" by (fact am')
qed

lemma dbGet_eq: "dbGet env k am = Inr (Inr v, am') \<longleftrightarrow> am' = am \<and> ldb_Get (ae_leveldb env) (am_db am) k = Inr v"
  by (auto simp: dbGet_def split: sum.splits)

lemma dbPut_eq:
  "dbPut env k v am = Inr (Inr u, am') \<longleftrightarrow>
    (\<exists>db. ldb_Put (ae_leveldb env) (am_db am) k v = (None, db) \<and> am' = am\<lparr>am_db := db\<rparr>)"
  by (auto simp: dbPut_def split: prod.splits option.splits)

lemmas db_simps = dbGet_eq dbPut_eq

section \<open>Keyrings\<close>

lemma keyring_keys [simp]:
  "makeBLSKeyKeyringDBKey d \<noteq> saltDBKey" "makeBLSKeyKeyringDBKey d \<noteq> operationsLogDBKey"
  "saltDBKey \<noteq> makeBLSKeyKeyringDBKey d"
  "makeBLSKeyKeyringDBKey d = makeBLSKeyKeyringDBKey d' \<longleftrightarrow> d = d'"
  by (simp_all add: makeBLSKeyKeyringDBKey_def fsm_const)

definition keyring_stored ::
  "('db, 'p, 's, 'g, 'd, 'r, 'h) air_env \<Rightarrow> 'db \<Rightarrow> bytes \<Rightarrow> string \<Rightarrow> ('p, 'h) BLSKeyring \<Rightarrow> bool"
where
  "keyring_stored env db key dkgID kr \<longleftrightarrow> (\<exists>salt bz text. ldb_Get (ae_leveldb env) db saltDBKey = Inr salt \<and>
     ldb_Get (ae_leveldb env) db (makeBLSKeyKeyringDBKey dkgID) = Inr bz \<and> decrypt env key salt bz = Inr text \<and>
     LoadBLSKeyringFromBytes (ae_kyber env) text = Inr kr)"

lemma loadBLSKeyring_iff:
  "loadBLSKeyring env dkgID am = Inr (Inr kr, am') \<longleftrightarrow>
    am' = am \<and> keyring_stored env (am_db am) (am_encryptionKey am) dkgID kr"
  by (auto simp: loadBLSKeyring_def readSalt_def success_simps db_simps keyring_stored_def split: sum.split_asm)

lemma saveBLSKeyring_stored:
  assumes "leveldb_ok (ae_leveldb env)" and "cipher_ok env" and "keyring_codec_ok (ae_kyber env)"
    and "saveBLSKeyring env dkgID kr am = Inr (Inr u, am')"
  shows "am' = am\<lparr>am_db := am_db am', am_rand := Suc (am_rand am)\<rparr>"
    and "keyring_stored env (am_db am') (am_encryptionKey am') dkgID' kr' \<longleftrightarrow>
      (if dkgID' = dkgID then kr' = kr else keyring_stored env (am_db am) (am_encryptionKey am) dkgID' kr')"
proof -
  from assms(4) obtain salt plain bz am1 db where s: "ldb_Get (ae_leveldb env) (am_db am) saltDBKey = Inr salt"
    and plain: "BLSKeyring_Bytes (ae_kyber env) kr = Inr (Inr plain)"
    and bz: "encrypt env (am_encryptionKey am) salt plain am = Inr (Inr bz, am1)"
    and db: "ldb_Put (ae_leveldb env) (am_db am1) (makeBLSKeyKeyringDBKey dkgID) bz = (None, db)"
    and am': "am' = am1\<lparr>am_db := db\<rparr>"
    by (auto simp: saveBLSKeyring_def readSalt_def success_simps db_simps)
  note e = decrypt_encrypt[OF assms(2) bz]
  show "am' = am\<lparr>am_db := am_db am', am_rand := Suc (am_rand am)\<rparr>" by (simp add: am' e(2))
  have get: "ldb_Get (ae_leveldb env) (am_db am') k =
      (if k = makeBLSKeyKeyringDBKey dkgID then Inr bz else ldb_Get (ae_leveldb env) (am_db am) k)" for k
    using leveldb_put[OF assms(1) db] by (simp add: am' e(2))
  show "keyring_stored env (am_db am') (am_encryptionKey am') dkgID' kr' \<longleftrightarrow>
      (if dkgID' = dkgID then kr' = kr else keyring_stored env (am_db am) (am_encryptionKey am) dkgID' kr')"
    using s e(1) keyring_bytes_inverse[OF assms(3) plain]
    by (auto simp: keyring_stored_def get) (auto simp: am' e(2))
qed

section \<open>The log of operations\<close>

text \<open>
  The contract: \<open>logs env m f\<close> says that the state \<open>m\<close> holds the log \<open>f\<close>; successful calls append to the
  log of the operation's round, read it and empty it.
\<close>

definition logged :: "(string \<Rightarrow> Operation list option) \<Rightarrow> string \<Rightarrow> Operation list" where
  "logged f d = (case f d of None \<Rightarrow> [] | Some ops \<Rightarrow> ops)"

definition log_append :: "Operation \<Rightarrow> (string \<Rightarrow> Operation list option) \<Rightarrow> string \<Rightarrow> Operation list option" where
  "log_append oper f = f(op_DKGIdentifier oper \<mapsto> logged f (op_DKGIdentifier oper) @ [oper])"

locale operations_log =
  fixes ok :: "'env \<Rightarrow> bool" and logs :: "'env \<Rightarrow> 'm \<Rightarrow> (string \<Rightarrow> Operation list option) \<Rightarrow> bool"
    and append :: "'env \<Rightarrow> Operation \<Rightarrow> ('m, unit) op"
    and readLogOf :: "'env \<Rightarrow> string \<Rightarrow> ('m, Operation list) op"
    and dropLogOf :: "'env \<Rightarrow> string \<Rightarrow> ('m, unit) op"
  assumes append_log: "ok env \<Longrightarrow> logs env m f \<Longrightarrow> append env oper m = Inr (Inr u, m') \<Longrightarrow>
      logs env m' (log_append oper f)"
    and read_log: "logs env m f \<Longrightarrow> f d = Some ops \<Longrightarrow> readLogOf env d m = Inr (Inr ops, m)"
    and read_missing: "logs env m f \<Longrightarrow> f d = None \<Longrightarrow> \<exists>e. readLogOf env d m = Inr (Inl e, m)"
    and drop_log: "ok env \<Longrightarrow> logs env m f \<Longrightarrow> dropLogOf env d m = Inr (Inr u, m') \<Longrightarrow> logs env m' (f(d \<mapsto> []))"
begin

lemma append_all:
  assumes "ok env" and "logs env m f" and "forM (append env) ops m = Inr (Inr u, m')"
  shows "logs env m' (fold log_append ops f)"
  using assms(2,3)
proof (induction ops arbitrary: m f)
  case (Cons oper ops)
  from Cons.prems(2) obtain v m1 where "append env oper m = Inr (Inr v, m1)" "forM (append env) ops m1 = Inr (Inr u, m')"
    by (auto simp: success_simps)
  from Cons.IH[OF append_log[OF assms(1) Cons.prems(1) this(1)] this(2)] show ?case by simp
qed (simp add: success_simps)

lemma append_read:
  assumes "ok env" and "logs env m f" and "append env oper m = Inr (Inr u, m')"
  shows "readLogOf env (op_DKGIdentifier oper) m' = Inr (Inr (logged f (op_DKGIdentifier oper) @ [oper]), m')"
  using read_log[OF append_log[OF assms]] by (simp add: log_append_def)

lemma drop_read:
  assumes "ok env" and "logs env m f" and "dropLogOf env d m = Inr (Inr u, m')"
  shows "readLogOf env d m' = Inr (Inr [], m')" and "d' \<noteq> d \<Longrightarrow> f d' = Some ops \<Longrightarrow> readLogOf env d' m' = Inr (Inr ops, m')"
  using read_log[OF drop_log[OF assms]] by simp_all

end

lemma fold_log_append:
  "list_all (\<lambda>oper. op_DKGIdentifier oper = d) ops \<Longrightarrow> ops \<noteq> [] \<or> f d \<noteq> None \<Longrightarrow>
    fold log_append ops f d = Some (logged f d @ ops)"
proof (induction ops arbitrary: f)
  case (Cons oper ops)
  then have "fold log_append ops (log_append oper f) d = Some (logged (log_append oper f) d @ ops)"
    by (intro Cons.IH) (simp_all add: log_append_def)
  with Cons.prems(1) show ?case by (simp add: logged_def[of "log_append oper f"]) (simp add: log_append_def)
qed (auto simp: logged_def)

text \<open>The log in the machine's database, and the law of its encoding.\<close>

definition holds_log ::
  "('db, 'p, 's, 'g, 'd, 'r, 'h) air_env \<Rightarrow> ('db, 'p, 's, 'g, 'd, 'r) air_machine \<Rightarrow>
   (string \<Rightarrow> Operation list option) \<Rightarrow> bool"
where
  "holds_log env am f \<longleftrightarrow> (\<exists>bz l. ldb_Get (ae_leveldb env) (am_db am) operationsLogDBKey = Inr bz \<and>
     ae_Unmarshal_log env bz = Inr (Some l) \<and> map_of l = f)"

definition log_ok :: "('db, 'p, 's, 'g, 'd, 'r, 'h) air_env \<Rightarrow> bool" where
  "log_ok env \<longleftrightarrow> leveldb_ok (ae_leveldb env) \<and>
    (\<forall>l bz. ae_Marshal_log env l = Inr bz \<longrightarrow> (\<exists>l'. ae_Unmarshal_log env bz = Inr (Some l') \<and> map_of l' = map_of l))"

lemma readLog_holds:
  assumes "holds_log env am f"
  shows "\<exists>l. readLog env am = Inr (Inr (Some l), am) \<and> map_of l = f"
proof -
  from assms obtain bz l where "ldb_Get (ae_leveldb env) (am_db am) operationsLogDBKey = Inr bz"
    "ae_Unmarshal_log env bz = Inr (Some l)" "map_of l = f" by (auto simp: holds_log_def)
  then show ?thesis
    by (intro exI[of _ l]) (simp add: readLog_def getRoundOperationLog_def dbGet_def monad_defs)
qed

lemma writeLog_holds:
  assumes "log_ok env" and "writeLog env (Some l) d ops am = Inr (Inr u, am')"
  shows "holds_log env am' ((map_of l)(d \<mapsto> ops)) \<and> am' = am\<lparr>am_db := am_db am'\<rparr>"
proof -
  from assms(2) obtain bz db where bz: "ae_Marshal_log env (AList.update d ops l) = Inr bz"
    and db: "ldb_Put (ae_leveldb env) (am_db am) operationsLogDBKey bz = (None, db)" and am': "am' = am\<lparr>am_db := db\<rparr>"
    by (auto simp: writeLog_def success_simps db_simps)
  from assms(1) bz obtain l' where "ae_Unmarshal_log env bz = Inr (Some l')" "map_of l' = (map_of l)(d \<mapsto> ops)"
    unfolding log_ok_def map_of_update[symmetric] by blast
  with leveldb_put[of "ae_leveldb env", OF _ db] assms(1) show ?thesis
    by (auto simp: holds_log_def am' log_ok_def)
qed

lemma get_list_logged: "get_list l d = logged (map_of l) d"
  by (simp add: get_list_def logged_def)

lemma storeOperation_holds:
  assumes "log_ok env" and "holds_log env am f" and "storeOperation env oper am = Inr (Inr u, am')"
  shows "holds_log env am' (log_append oper f) \<and> am' = am\<lparr>am_db := am_db am'\<rparr>"
proof -
  from readLog_holds[OF assms(2)] obtain l where l: "readLog env am = Inr (Inr (Some l), am)" "map_of l = f" by blast
  with assms(3) have "writeLog env (Some l) (op_DKGIdentifier oper)
      (get_list l (op_DKGIdentifier oper) @ [oper]) am = Inr (Inr u, am')"
    by (simp add: storeOperation_def success_simps)
  from writeLog_holds[OF assms(1) this] l(2) show ?thesis by (simp add: log_append_def get_list_logged)
qed

lemma dropLog_holds:
  assumes "log_ok env" and "holds_log env am f" and "dropRoundOperationLog env d am = Inr (Inr u, am')"
  shows "holds_log env am' (f(d \<mapsto> []))"
proof -
  from readLog_holds[OF assms(2)] obtain l where l: "readLog env am = Inr (Inr (Some l), am)" "map_of l = f" by blast
  with assms(3) have "writeLog env (Some l) d [] am = Inr (Inr u, am')"
    by (simp add: dropRoundOperationLog_def success_simps)
  from writeLog_holds[OF assms(1) this] l(2) show ?thesis by simp
qed

lemma getOperationsLog_holds:
  assumes "holds_log env am f"
  shows "f d = Some ops \<Longrightarrow> getOperationsLog env d am = Inr (Inr ops, am)"
    and "f d = None \<Longrightarrow> \<exists>e. getOperationsLog env d am = Inr (Inl e, am)"
  using readLog_holds[OF assms] by (auto simp: getOperationsLog_def monad_defs)

interpretation air_log: operations_log log_ok holds_log storeOperation getOperationsLog dropRoundOperationLog
  by unfold_locales (auto dest: storeOperation_holds dropLog_holds intro: getOperationsLog_holds)

end
