(* ===== verification/Airgapped_Frame.thy ===== *)
theory Airgapped_Frame
  imports Airgapped_Store
begin

text \<open>
  What the handlers of the airgapped machine keep.  The locale \<open>air_handlers\<close> lists the changes that
  a handler makes to the machine and to its operation; a property that survives them survives every
  handler.  It is interpreted for the log of operations, which only \<open>storeOperation\<close> writes, and for
  the messages an operation is answered with.
\<close>

section \<open>Events of answers\<close>

definition successEvents :: "(State, Event) gomap" where
  "successEvents =
    [(StateDkgCommitsAwaitConfirmations, EventDKGCommitConfirmationReceived),
     (StateDkgDealsAwaitConfirmations, EventDKGDealConfirmationReceived),
     (StateDkgResponsesAwaitConfirmations, EventDKGResponseConfirmationReceived),
     (StateDkgMasterKeyAwaitConfirmations, EventDKGMasterKeyConfirmationReceived),
     (StateSigningAwaitPartialSigns, EventSigningPartialSignReceived)]"

definition answerable :: "State \<Rightarrow> Event \<Rightarrow> bool" where
  "answerable state event \<longleftrightarrow> map_of successEvents state = Some event \<or> event = errorEvent state"

lemma success_events:
  "map_of successEvents StateDkgCommitsAwaitConfirmations = Some EventDKGCommitConfirmationReceived"
  "map_of successEvents StateDkgDealsAwaitConfirmations = Some EventDKGDealConfirmationReceived"
  "map_of successEvents StateDkgResponsesAwaitConfirmations = Some EventDKGResponseConfirmationReceived"
  "map_of successEvents StateDkgMasterKeyAwaitConfirmations = Some EventDKGMasterKeyConfirmationReceived"
  "map_of successEvents StateSigningAwaitPartialSigns = Some EventSigningPartialSignReceived"
  by code_simp+

section \<open>The changes a handler makes\<close>

text \<open>The handlers of the states of a round.\<close>

definition stateHandler ::
  "('db, 'p, 's, 'g, 'd, 'r, 'h) air_env \<Rightarrow> State \<Rightarrow> ('db, 'p, 's, 'g, 'd, 'r, unit) air_handler"
where
  "stateHandler env type =
    (if type = StateDkgCommitsAwaitConfirmations then handleStateDkgCommitsAwaitConfirmations env
     else if type = StateDkgDealsAwaitConfirmations then handleStateDkgDealsAwaitConfirmations env
     else if type = StateDkgResponsesAwaitConfirmations then handleStateDkgResponsesAwaitConfirmations env
     else if type = StateDkgMasterKeyAwaitConfirmations then handleStateDkgMasterKeyAwaitConfirmations env
     else if type = StateSigningAwaitPartialSigns then handleStateSigningAwaitPartialSigns env
     else failM (Errorf ''invalid operation type: %s'' [AStr type]))"

lemma handleOperation_eq:
  "handleOperation env rec s = (if op_Type (snd s) = ReinitDKG then handleReinitDKG env rec s
     else stateHandler env (op_Type (snd s)) s)"
  by (simp add: handleOperation_def stateHandler_def readOperation_def bindM_def readM_def)

definition withAnswer :: "Event \<Rightarrow> bytes \<Rightarrow> Operation \<Rightarrow> Operation" where
  "withAnswer event bz oper = (let oper = oper\<lparr>op_Event := event\<rparr> in
     oper\<lparr>op_ResultMsgs := op_ResultMsgs oper @ [air_createMessage oper bz]\<rparr>)"

lemma stays_onMachine:
  assumes "\<And>oper. stays (\<lambda>am. H (am, oper)) m"
  shows "stays H (onMachine m)"
proof (rule keepsI)
  fix s r s'
  assume s: "H s" "onMachine m s = Inr (r, s')"
  then obtain am' where "m (fst s) = Inr (r, am')" "s' = (am', snd s)" by (auto simp: onMachine_def)
  with keepsD[OF assms[of "snd s"], of "fst s"] s(1) show "H s' \<and> (\<forall>x. r = Inr x \<longrightarrow> True)" by simp
qed

lemma stays_local: "stays I (localM m t)"
  by (auto simp: keeps_def localM_def)

lemma stays_onInstance:
  assumes "\<And>am x. I am \<Longrightarrow> I (am\<lparr>am_dkgInstances := AList.update d x (am_dkgInstances am)\<rparr>)"
  shows "stays I (onInstance d m)"
  using assms by (auto simp: keeps_def onInstance_def)

lemma stays_getInstance: "stays I (getInstance msg d)"
  unfolding getInstance_def by (intro stays_rules TrueI)

lemma stays_dbGet: "stays I (dbGet env k)"
  by (auto simp: keeps_def dbGet_def)

locale air_handlers =
  fixes env :: "('db, 'p, 's, 'g, 'd, 'r, 'h) air_env"
    and H :: "('db, 'p, 's, 'g, 'd, 'r) air_machine \<times> Operation \<Rightarrow> bool" and type :: State
  assumes op_type: "H (am, oper) \<Longrightarrow> op_Type oper = type"
    and rand: "H (am, oper) \<Longrightarrow> H (am\<lparr>am_rand := n\<rparr>, oper)"
    and instances: "H (am, oper) \<Longrightarrow> H (am\<lparr>am_dkgInstances := AList.update d inst (am_dkgInstances am)\<rparr>, oper)"
    and keyring: "stays (\<lambda>am. H (am, oper)) (saveBLSKeyring env d kr)"
    and recipient: "H (am, oper) \<Longrightarrow> H (am, oper\<lparr>op_To := x\<rparr>)"
    and answered: "H (am, oper) \<Longrightarrow> answerable type event \<Longrightarrow> H (am, withAnswer event bz oper)"
    and reinit: "H (am, oper) \<Longrightarrow> type = ReinitDKG \<Longrightarrow>
      H (am, oper\<lparr>op_Event := OperationProcessed, op_ExtraData := bz\<rparr>)"
begin

lemma answer_stays: "answerable type event \<Longrightarrow> stays H (answer env event req)"
  unfolding answer_def
  by (intro stays_rules TrueI stays_update)
     (use answered in \<open>auto simp: withAnswer_def Let_def\<close>)

lemma random_stays: "stays (\<lambda>am. H (am, oper)) nextRandom"
  by (auto simp: keeps_def nextRandom_def rand)

lemma instance_stays: "stays (\<lambda>am. H (am, oper)) (onInstance d m)"
  by (rule stays_onInstance) (rule instances)

lemmas air_rules = stays_rules stays_onMachine stays_local stays_getInstance stays_dbGet random_stays
  instance_stays keyring stays_forM TrueI

lemma load_stays: "stays (\<lambda>am. H (am, oper)) (loadBLSKeyring env d)"
  unfolding loadBLSKeyring_def readSalt_def by (intro air_rules)

lemma crypt_stays:
  "stays (\<lambda>am. H (am, oper)) (encryptDataForParticipant env d to bz)"
  "stays (\<lambda>am. H (am, oper)) (decryptDataFromParticipant env bz)"
  unfolding encryptDataForParticipant_def decryptDataFromParticipant_def by (intro air_rules)+

lemma recipient_stays: "stays H (updateM (\<lambda>s. (fst s, snd s\<lparr>op_To := x\<rparr>)))"
  by (rule stays_update) (metis prod.collapse recipient)

lemma commits_stays:
  "type = StateDkgCommitsAwaitConfirmations \<Longrightarrow> stays H (handleStateDkgCommitsAwaitConfirmations env)"
  unfolding handleStateDkgCommitsAwaitConfirmations_def newInstance_def readOperation_def Let_def
  by (intro air_rules answer_stays stays_update instances)
     (auto simp: answerable_def success_events split: prod.split intro!: air_rules)

lemma deals_stays:
  "type = StateDkgDealsAwaitConfirmations \<Longrightarrow> stays H (handleStateDkgDealsAwaitConfirmations env)"
  unfolding handleStateDkgDealsAwaitConfirmations_def storeAllCommits_def sendDeal_def confirmDeals_def
    readOperation_def dkgExists_def case_prod_beta
  by (intro air_rules answer_stays crypt_stays recipient_stays) (simp_all add: answerable_def success_events)

lemma responses_stays:
  "type = StateDkgResponsesAwaitConfirmations \<Longrightarrow> stays H (handleStateDkgResponsesAwaitConfirmations env)"
  unfolding handleStateDkgResponsesAwaitConfirmations_def storeDeals_def readOperation_def dkgExists_def
  by (intro air_rules answer_stays crypt_stays) (simp_all add: answerable_def success_events)

lemma master_key_stays:
  "type = StateDkgMasterKeyAwaitConfirmations \<Longrightarrow> stays H (handleStateDkgMasterKeyAwaitConfirmations env)"
  unfolding handleStateDkgMasterKeyAwaitConfirmations_def storeAllResponses_def readOperation_def dkgExists_def
  by (intro air_rules answer_stays crypt_stays) (simp_all add: answerable_def success_events)

lemma sign_messages_stays: "stays (\<lambda>am. H (am, oper)) (signMessages env d msgs signs)"
  by (induction msgs arbitrary: signs) (auto simp: createPartialSign_def intro!: air_rules load_stays)

lemma signing_stays:
  "type = StateSigningAwaitPartialSigns \<Longrightarrow> stays H (handleStateSigningAwaitPartialSigns env)"
  unfolding handleStateSigningAwaitPartialSigns_def getParticipantID_def readOperation_def
  by (intro air_rules answer_stays sign_messages_stays) (simp_all add: answerable_def success_events)

lemma reinit_stays:
  assumes "type = ReinitDKG" and "\<And>oper oper'. stays (\<lambda>am. H (am, oper)) (rec oper')"
  shows "stays H (handleReinitDKG env rec)"
  unfolding handleReinitDKG_def readOperation_def
  by (intro air_rules load_stays assms(2) stays_update) (auto intro: reinit assms(1))

lemma handle_stays:
  assumes "\<And>oper oper'. stays (\<lambda>am. H (am, oper)) (rec oper')"
  shows "stays H (handleOperation env rec)"
proof (rule keepsI)
  fix s r s'
  assume s: "H s" "handleOperation env rec s = Inr (r, s')"
  have type: "op_Type (snd s) = type" using op_type[of "fst s" "snd s"] s(1) by simp
  have "stays H (if type = ReinitDKG then handleReinitDKG env rec else stateHandler env type)"
    unfolding stateHandler_def
    by (intro keeps_cases keeps_fail reinit_stays commits_stays deals_stays responses_stays master_key_stays
        signing_stays assms)
  moreover from s(2) have "(if type = ReinitDKG then handleReinitDKG env rec else stateHandler env type) s = Inr (r, s')"
    using type by (auto simp: handleOperation_eq split: if_split_asm)
  ultimately show "H s' \<and> (\<forall>x. r = Inr x \<longrightarrow> True)" using s(1) by (blast dest: keepsD)
qed

lemma write_error_stays: "stays H (writeErrorRequestToOperation env err)"
proof (rule keepsI)
  fix s r s'
  assume s: "H s" "writeErrorRequestToOperation env err s = Inr (r, s')"
  have type: "op_Type (snd s) = type" using op_type[of "fst s" "snd s"] s(1) by simp
  let ?m = "\<lambda>oper. bindM (wrapM ''failed to get participant id: %w'' [] (onMachine (getParticipantID (op_DKGIdentifier oper))))
    (\<lambda>pid. answer env (errorEvent type) (ReqDkgError \<lparr>de_ParticipantId = pid,
      de_Error = Some (NewFSMError (ae_Error env err)), de_CreatedAt = op_CreatedAt oper\<rparr>))"
  have "stays H (?m (snd s))"
    unfolding getParticipantID_def by (intro air_rules answer_stays) (simp add: answerable_def)
  moreover have "?m (snd s) s = Inr (r, s')"
    using s(2) by (simp add: writeErrorRequestToOperation_def readOperation_def bindM_def[of "readM _"] readM_def type)
  ultimately show "H s' \<and> (\<forall>x. r = Inr x \<longrightarrow> True)" using s(1) by (blast dest: keepsD)
qed

lemma result_stays:
  assumes "\<And>oper oper'. stays (\<lambda>am. H (am, oper)) (rec oper')" and "H (am, oper)"
    and "resultOf env (handleOperation env rec) oper am = Inr (r, am')"
  shows "\<exists>oper'. H (am', oper') \<and> (\<forall>x. r = Inr x \<longrightarrow> x = oper')"
proof -
  let ?m = "bindM (attemptM (handleOperation env rec)) (\<lambda>r. case r of
      Inl err \<Rightarrow> wrapM ''failed to write error request to an operation: %w'' [] (writeErrorRequestToOperation env err)
    | Inr _ \<Rightarrow> retM ())"
  from assms(3) obtain r' oper' where run: "?m (am, oper) = Inr (r', (am', oper'))"
    and r: "r = (case r' of Inl e \<Rightarrow> Inl e | Inr _ \<Rightarrow> Inr oper')"
    unfolding resultOf_def by (cases "?m (am, oper)") (auto simp del: unit_eq)
  have "stays H ?m"
    by (intro stays_rules write_error_stays handle_stays assms(1) TrueI)
  from keepsD[OF this assms(2) run] r show ?thesis by (auto split: sum.split_asm)
qed

end

section \<open>The machine alone\<close>

text \<open>A property of the machine that survives the changes survives whole operations, nested ones included.\<close>

locale air_frame =
  fixes env :: "('db, 'p, 's, 'g, 'd, 'r, 'h) air_env" and J :: "('db, 'p, 's, 'g, 'd, 'r) air_machine \<Rightarrow> bool"
  assumes keeps_rand: "J am \<Longrightarrow> J (am\<lparr>am_rand := n\<rparr>)"
    and keeps_instances: "J am \<Longrightarrow> J (am\<lparr>am_dkgInstances := AList.update d inst (am_dkgInstances am)\<rparr>)"
    and keeps_keyring: "stays J (saveBLSKeyring env d kr)"
begin

lemma stays_with_type: "stays J m \<Longrightarrow> stays (\<lambda>am. case (am, oper) of (am, oper) \<Rightarrow> J am \<and> op_Type oper = type) m"
  unfolding keeps_def by auto

lemma handlers: "air_handlers env (\<lambda>(am, oper). J am \<and> op_Type oper = type) type"
  by unfold_locales
     (use keeps_rand keeps_instances stays_with_type[OF keeps_keyring] in \<open>auto simp: withAnswer_def Let_def\<close>)

lemma result_keeps: "stays J (GetOperationResult_at env n oper)"
proof (induction n arbitrary: oper)
  case (Suc n)
  show ?case
  proof (rule keepsI)
    fix am r am'
    assume "J am" and run: "GetOperationResult_at env (Suc n) oper am = Inr (r, am')"
    with air_handlers.result_stays[OF handlers stays_with_type[OF Suc] _ run[unfolded GetOperationResult_at.simps]]
    show "J am' \<and> (\<forall>x. r = Inr x \<longrightarrow> True)" by auto
  qed
qed (simp add: keeps_def liftG_def)

end

end
