(* ===== verification/Airgapped_Answers.thy ===== *)
theory Airgapped_Answers
  imports Airgapped_Frame Provider
begin

text \<open>
  What the airgapped machine answers to an operation: the messages, the events they carry and the
  log of operations, for every operation and also when its handler fails.
\<close>

section \<open>The log is kept\<close>

lemma save_keeps_log:
  "stays (\<lambda>am. leveldb_ok (ae_leveldb env) \<and> holds_log env am f) (saveBLSKeyring env d kr)"
proof -
  let ?I = "\<lambda>am. leveldb_ok (ae_leveldb env) \<and> holds_log env am f"
  have "stays ?I (dbPut env (makeBLSKeyKeyringDBKey d) bz)" for bz
  proof (rule keepsI)
    fix am r am'
    assume I: "?I am" and run: "dbPut env (makeBLSKeyKeyringDBKey d) bz am = Inr (r, am')"
    then obtain err db where db: "ldb_Put (ae_leveldb env) (am_db am) (makeBLSKeyKeyringDBKey d) bz = (err, db)"
      "am' = am\<lparr>am_db := db\<rparr>" by (auto simp: dbPut_def split: prod.splits)
    have "ldb_Get (ae_leveldb env) db operationsLogDBKey = ldb_Get (ae_leveldb env) (am_db am) operationsLogDBKey"
      using I db(1) leveldb_put[of "ae_leveldb env"] leveldb_put_failed(2)[of "ae_leveldb env"] keyring_keys(2)[of d]
      by (cases err) metis+
    with I db(2) show "?I am' \<and> (\<forall>x. r = Inr x \<longrightarrow> True)" by (simp add: holds_log_def)
  qed
  moreover have "stays ?I nextRandom" by (auto simp: keeps_def nextRandom_def holds_log_def)
  ultimately show ?thesis
    unfolding saveBLSKeyring_def readSalt_def encrypt_def by (intro stays_rules stays_dbGet TrueI)
qed

interpretation log_kept: air_frame env "\<lambda>am. leveldb_ok (ae_leveldb env) \<and> holds_log env am f" for env f
proof unfold_locales
  fix d kr
  show "stays (\<lambda>am. leveldb_ok (ae_leveldb env) \<and> holds_log env am f) (saveBLSKeyring env d kr)" by (rule save_keeps_log)
qed (auto simp: holds_log_def)

lemmas result_keeps_log = log_kept.result_keeps

section \<open>The messages of an answer\<close>

text \<open>
  \<open>answers oper0 oper\<close>: \<open>oper\<close> is the operation \<open>oper0\<close> with messages added, all of them for its round and
  with events that fit its type.
\<close>

definition fitting :: "Operation \<Rightarrow> Message \<Rightarrow> bool" where
  "fitting oper m \<longleftrightarrow> DkgRoundID m = op_DKGIdentifier oper \<and> answerable (op_Type oper) (msg_Event m) \<and>
     ID m = '''' \<and> Signature m = [] \<and> SenderAddr m = ''''"

definition answers :: "Operation \<Rightarrow> Operation \<Rightarrow> bool" where
  "answers oper0 oper \<longleftrightarrow> op_ID oper = op_ID oper0 \<and> op_Type oper = op_Type oper0 \<and>
     op_DKGIdentifier oper = op_DKGIdentifier oper0 \<and> op_Payload oper = op_Payload oper0 \<and>
     op_CreatedAt oper = op_CreatedAt oper0 \<and>
     (\<exists>new. op_ResultMsgs oper = op_ResultMsgs oper0 @ new \<and> list_all (fitting oper0) new)"

lemma answers_refl: "answers oper oper"
  by (simp add: answers_def)

interpretation answer_shape: air_handlers env "\<lambda>(am, oper). answers oper0 oper" "op_Type oper0" for env oper0
  by unfold_locales (auto simp: answers_def withAnswer_def Let_def keeps_def fitting_def air_createMessage_def)

text \<open>A handler that succeeds has added a message at the end.\<close>

definition ends_answered :: "('db, 'p, 's, 'g, 'd, 'r, 'a) air_handler \<Rightarrow> bool" where
  "ends_answered m \<longleftrightarrow> (\<forall>s u s'. m s = Inr (Inr u, s') \<longrightarrow> op_ResultMsgs (snd s') \<noteq> [] \<and>
     op_Event (snd s') = msg_Event (last (op_ResultMsgs (snd s'))))"

lemma answer_run:
  "answer env event req s = (case ae_Marshal_request env req of
     Inl e \<Rightarrow> Inr (Inl (Wrapf ''failed to generate fsm request: %w'' [] e), s)
   | Inr bz \<Rightarrow> Inr (Inr (), (fst s, withAnswer event bz (snd s))))"
  by (cases s) (simp add: answer_def monad_defs withAnswer_def Let_def split: sum.split)

lemma answer_eq_Inr:
  "answer env event req s = Inr (Inr u, s') \<longleftrightarrow>
    (\<exists>bz. ae_Marshal_request env req = Inr bz \<and> s' = (fst s, withAnswer event bz (snd s)))"
  by (cases s) (auto simp: answer_def success_simps withAnswer_def Let_def)

lemma ends_rules:
  "(\<And>x. ends_answered (k x)) \<Longrightarrow> ends_answered (bindM m k)"
  "ends_answered (answer env event req)" "ends_answered (failM e)"
  "ends_answered m1 \<Longrightarrow> ends_answered m2 \<Longrightarrow> ends_answered (if b then m1 else m2)"
  "(\<And>e. ends_answered (h e)) \<Longrightarrow> (\<And>y. ends_answered (k' y)) \<Longrightarrow>
     ends_answered (case r of Inl e \<Rightarrow> h e | Inr y \<Rightarrow> k' y)"
  by (auto simp: ends_answered_def success_simps answer_eq_Inr withAnswer_def Let_def air_createMessage_def
      split: sum.split)

lemma handler_ends:
  assumes "map_of successEvents (op_Type (snd s)) \<noteq> None" and "handleOperation env rec s = Inr (Inr u, s')"
  shows "op_ResultMsgs (snd s') \<noteq> [] \<and> op_Event (snd s') = msg_Event (last (op_ResultMsgs (snd s')))"
proof -
  have "op_Type (snd s) \<noteq> ReinitDKG" using assms(1) by (auto simp: successEvents_def fsm_const)
  moreover have "ends_answered (stateHandler env (op_Type (snd s)))"
    unfolding stateHandler_def handleStateDkgCommitsAwaitConfirmations_def handleStateDkgDealsAwaitConfirmations_def confirmDeals_def
      handleStateDkgResponsesAwaitConfirmations_def handleStateDkgMasterKeyAwaitConfirmations_def
      handleStateSigningAwaitPartialSigns_def
    by (intro ends_rules)
  ultimately show ?thesis
    using assms(2) unfolding ends_answered_def handleOperation_eq by (metis (no_types, lifting))
qed

lemma result_answers:
  assumes "GetOperationResult_at env n oper am = Inr (r, am')"
  shows "\<exists>oper'. answers oper oper' \<and> (\<forall>x. r = Inr x \<longrightarrow> x = oper')"
proof (cases n)
  case (Suc k)
  have "stays (\<lambda>am. case (am, oper1) of (am, oper1) \<Rightarrow> answers oper oper1) (GetOperationResult_at env k oper2)"
    for oper1 oper2 by (simp add: keeps_def)
  from answer_shape.result_stays[OF this _ assms[unfolded Suc GetOperationResult_at.simps]] show ?thesis
    by (auto simp: answers_refl)
qed (use assms in \<open>simp add: liftG_def\<close>)

text \<open>The result of an operation, by the outcome of its handler.\<close>

lemma resultOf_panic: "handler (am, oper) = Inl p \<Longrightarrow> resultOf env handler oper am = Inl p"
  by (simp add: resultOf_def bindM_def attemptM_def)

lemma resultOf_run:
  "handler (am, oper) = Inr (r, s1) \<Longrightarrow> resultOf env handler oper am = (case r of
     Inl err \<Rightarrow> bindR (wrapM ''failed to write error request to an operation: %w'' []
       (writeErrorRequestToOperation env err) s1) (\<lambda>(r, am, oper). Inr (case r of Inl e \<Rightarrow> Inl e | Inr _ \<Rightarrow> Inr oper, am))
   | Inr _ \<Rightarrow> Inr (Inr (snd s1), fst s1))"
  by (auto simp: resultOf_def bindM_def attemptM_def retM_def split: sum.split prod.split)

lemma writeError_run:
  "writeErrorRequestToOperation env err (am, oper) = (case map_of (am_dkgInstances am) (op_DKGIdentifier oper) of
     None \<Rightarrow> Inr (Inl (Wrapf ''failed to get participant id: %w'' []
       (Errorf ''invalid dkg identifier: %s'' [AStr (op_DKGIdentifier oper)])), (am, oper))
   | Some d \<Rightarrow> answer env (errorEvent (op_Type oper)) (ReqDkgError \<lparr>de_ParticipantId = dkg_ParticipantID d,
         de_Error = Some (NewFSMError (ae_Error env err)), de_CreatedAt = op_CreatedAt oper\<rparr>) (am, oper))"
  by (simp add: writeErrorRequestToOperation_def readOperation_def getParticipantID_def getInstance_def onMachine_def
      bindM_def wrapM_def readM_def failM_def retM_def split: option.split)

lemma result_cases:
  assumes "GetOperationResult_at env (Suc n) oper am = Inr (Inr oper', am')"
  obtains (answered) u where "handleOperation env (GetOperationResult_at env n) (am, oper) = Inr (Inr u, (am', oper'))"
  | (failed) err oper1 d bz where
      "handleOperation env (GetOperationResult_at env n) (am, oper) = Inr (Inl err, (am', oper1))"
      "map_of (am_dkgInstances am') (op_DKGIdentifier oper1) = Some d"
      "ae_Marshal_request env (ReqDkgError \<lparr>de_ParticipantId = dkg_ParticipantID d,
         de_Error = Some (NewFSMError (ae_Error env err)), de_CreatedAt = op_CreatedAt oper1\<rparr>) = Inr bz"
      "oper' = withAnswer (errorEvent (op_Type oper1)) bz oper1"
proof -
  let ?h = "handleOperation env (GetOperationResult_at env n)"
  from assms have run: "resultOf env ?h oper am = Inr (Inr oper', am')" by simp
  then obtain r am1 oper1 where h: "?h (am, oper) = Inr (r, (am1, oper1))"
    by (cases "?h (am, oper)") (auto simp: resultOf_panic)
  show thesis
  proof (cases r)
    case (Inr u)
    with run h show ?thesis by (intro answered) (simp add: resultOf_run[of ?h, OF h])
  next
    case (Inl err)
    with run obtain d bz where "map_of (am_dkgInstances am1) (op_DKGIdentifier oper1) = Some d" "am1 = am'"
      "ae_Marshal_request env (ReqDkgError \<lparr>de_ParticipantId = dkg_ParticipantID d,
         de_Error = Some (NewFSMError (ae_Error env err)), de_CreatedAt = op_CreatedAt oper1\<rparr>) = Inr bz"
      "oper' = withAnswer (errorEvent (op_Type oper1)) bz oper1"
      by (auto simp: resultOf_run[of ?h, OF h] writeError_run answer_run wrapM_def split: option.split_asm sum.split_asm)
    with h Inl show ?thesis by (intro failed) auto
  qed
qed

lemma result_event:
  assumes "GetOperationResult_at env n oper am = Inr (Inr oper', am')" and "map_of successEvents (op_Type oper) \<noteq> None"
  shows "op_ResultMsgs oper' \<noteq> [] \<and> op_Event oper' = msg_Event (last (op_ResultMsgs oper'))"
proof (cases n)
  case (Suc k)
  from assms(1)[unfolded Suc] show ?thesis
  proof (cases rule: result_cases)
    case answered
    with handler_ends[of "(am, oper)"] assms(2) show ?thesis by fastforce
  qed (simp add: withAnswer_def Let_def air_createMessage_def)
qed (use assms(1) in \<open>simp add: liftG_def\<close>)

text \<open>Both events of a type are events of the machine of that state.\<close>

lemma error_events:
  "errorEvent StateDkgCommitsAwaitConfirmations = EventDKGCommitConfirmationError"
  "errorEvent StateDkgDealsAwaitConfirmations = EventDKGDealConfirmationError"
  "errorEvent StateDkgResponsesAwaitConfirmations = EventDKGResponseConfirmationError"
  "errorEvent StateDkgMasterKeyAwaitConfirmations = EventDKGMasterKeyConfirmationError"
  "errorEvent StateSigningAwaitPartialSigns = EventSigningPartialSignError"
  "errorEvent ReinitDKG = ''''"
  by code_simp+

lemma answerable_event:
  assumes "map_of successEvents state \<noteq> None" and "answerable state event"
  shows "\<exists>f tr. machine_of state = Some f \<and> map_of (fsm_transitions f) (state, event) = Some tr \<and> \<not> tr_isInternal tr"
proof -
  have states: "machine_of StateDkgCommitsAwaitConfirmations = Some dkg_fsm"
    "machine_of StateDkgDealsAwaitConfirmations = Some dkg_fsm"
    "machine_of StateDkgResponsesAwaitConfirmations = Some dkg_fsm"
    "machine_of StateDkgMasterKeyAwaitConfirmations = Some dkg_fsm"
    "machine_of StateSigningAwaitPartialSigns = Some signing_fsm"
    by (simp_all add: machine_of_dkg machine_of_signing dkg_lists signing_lists)
  from assms(1) consider "state = StateDkgCommitsAwaitConfirmations" | "state = StateDkgDealsAwaitConfirmations"
    | "state = StateDkgResponsesAwaitConfirmations" | "state = StateDkgMasterKeyAwaitConfirmations"
    | "state = StateSigningAwaitPartialSigns"
    by (auto simp: successEvents_def split: if_split_asm)
  then show ?thesis
    by cases (use assms(2) in \<open>auto simp: answerable_def success_events error_events states dkg_transitions signing_transitions\<close>)
qed

end
