(* ===== verification/Airgapped_Replay.thy ===== *)
theory Airgapped_Replay
  imports Airgapped_Answers
begin

text \<open>
  Replaying the log of operations rebuilds the instances of a round.  What a handler does to the
  \<open>core\<close> of the machine (its instances, keys and seed) depends on the core and the operation only,
  not on the database, the result folder or the randomness drawn; a small logic of two runs carries
  the proof.
\<close>

section \<open>Two runs\<close>

text \<open>
  \<open>same_runs c m\<close>: two runs from states with equal \<open>c\<close> that do not panic return the same and reach
  states with equal \<open>c\<close>.  \<open>same_end c d m\<close>: they reach states with equal \<open>d\<close>.
\<close>

definition same_runs :: "('s \<Rightarrow> 'c) \<Rightarrow> ('s, 'a) op \<Rightarrow> bool" where
  "same_runs c m \<longleftrightarrow> (\<forall>s t r r' s' t'. c s = c t \<longrightarrow> m s = Inr (r, s') \<longrightarrow> m t = Inr (r', t') \<longrightarrow> r = r' \<and> c s' = c t')"

definition same_end :: "('s \<Rightarrow> 'c) \<Rightarrow> ('s \<Rightarrow> 'd) \<Rightarrow> ('s, 'a) op \<Rightarrow> bool" where
  "same_end c d m \<longleftrightarrow> (\<forall>s t r r' s' t'. c s = c t \<longrightarrow> m s = Inr (r, s') \<longrightarrow> m t = Inr (r', t') \<longrightarrow> d s' = d t')"

definition quiet :: "('s \<Rightarrow> 'd) \<Rightarrow> ('s, 'a) op \<Rightarrow> bool" where
  "quiet d m \<longleftrightarrow> (\<forall>x. stays (\<lambda>s. d s = x) m)"

lemma same_runsD:
  "same_runs c m \<Longrightarrow> c s = c t \<Longrightarrow> m s = Inr (r, s') \<Longrightarrow> m t = Inr (r', t') \<Longrightarrow> r = r' \<and> c s' = c t'"
  unfolding same_runs_def by blast

lemma same_endD:
  "same_end c d m \<Longrightarrow> c s = c t \<Longrightarrow> m s = Inr (r, s') \<Longrightarrow> m t = Inr (r', t') \<Longrightarrow> d s' = d t'"
  unfolding same_end_def by blast

lemma quietD: "quiet d m \<Longrightarrow> m s = Inr (r, s') \<Longrightarrow> d s' = d s"
  unfolding quiet_def keeps_def by blast

lemma bindM_run:
  assumes "bindM m k s = Inr (r, s')"
  obtains v s1 where "m s = Inr (v, s1)" "(case v of Inl e \<Rightarrow> Inr (Inl e, s1) | Inr x \<Rightarrow> k x s1) = Inr (r, s')"
  using assms by (auto simp: bindM_def)

lemma same_runs_bind:
  assumes m: "same_runs c m" and k: "\<And>x. same_runs c (k x)"
  shows "same_runs c (bindM m k)"
  unfolding same_runs_def
proof (intro allI impI)
  fix s t r r' s' t'
  assume st: "c s = c t" and s: "bindM m k s = Inr (r, s')" and t: "bindM m k t = Inr (r', t')"
  from s obtain v s1 where s1: "m s = Inr (v, s1)"
    "(case v of Inl e \<Rightarrow> Inr (Inl e, s1) | Inr x \<Rightarrow> k x s1) = Inr (r, s')" by (rule bindM_run)
  from t obtain w t1 where t1: "m t = Inr (w, t1)"
    "(case w of Inl e \<Rightarrow> Inr (Inl e, t1) | Inr x \<Rightarrow> k x t1) = Inr (r', t')" by (rule bindM_run)
  from same_runsD[OF m st s1(1) t1(1)] have vw: "v = w" "c s1 = c t1" by simp_all
  show "r = r' \<and> c s' = c t'"
  proof (cases v)
    case (Inr x)
    then have "w = Inr x" using vw(1) by simp
    with Inr s1(2) t1(2) show ?thesis using same_runsD[OF k[of x] vw(2)] by simp
  qed (use s1(2) t1(2) vw in auto)
qed

lemma same_end_bind:
  assumes m: "same_runs c m" and k: "\<And>x. same_end c d (k x)" and cd: "\<And>s t. c s = c t \<Longrightarrow> d s = d t"
  shows "same_end c d (bindM m k)"
  unfolding same_end_def
proof (intro allI impI)
  fix s t r r' s' t'
  assume st: "c s = c t" and s: "bindM m k s = Inr (r, s')" and t: "bindM m k t = Inr (r', t')"
  from s obtain v s1 where s1: "m s = Inr (v, s1)"
    "(case v of Inl e \<Rightarrow> Inr (Inl e, s1) | Inr x \<Rightarrow> k x s1) = Inr (r, s')" by (rule bindM_run)
  from t obtain w t1 where t1: "m t = Inr (w, t1)"
    "(case w of Inl e \<Rightarrow> Inr (Inl e, t1) | Inr x \<Rightarrow> k x t1) = Inr (r', t')" by (rule bindM_run)
  from same_runsD[OF m st s1(1) t1(1)] have vw: "v = w" "c s1 = c t1" by simp_all
  show "d s' = d t'"
  proof (cases v)
    case (Inr x)
    then have "w = Inr x" using vw(1) by simp
    with Inr s1(2) t1(2) show ?thesis using same_endD[OF k[of x] vw(2)] by simp
  next
    case (Inl e)
    with s1(2) t1(2) vw have "s' = s1" "t' = t1" by auto
    with cd[OF vw(2)] show ?thesis by simp
  qed
qed

lemma quiet_bind_run:
  assumes "bindM m k s = Inr (r, s')" and "\<And>x. quiet d (k x)"
  obtains v s1 where "m s = Inr (v, s1)" "d s' = d s1"
proof -
  from assms(1) obtain v s1 where s1: "m s = Inr (v, s1)"
    "(case v of Inl e \<Rightarrow> Inr (Inl e, s1) | Inr x \<Rightarrow> k x s1) = Inr (r, s')" by (rule bindM_run)
  then have "d s' = d s1" using quietD[OF assms(2)] by (cases v) auto
  with s1(1) show thesis by (rule that)
qed

lemma same_end_quiet:
  assumes m: "same_end c d m" and k: "\<And>x. quiet d (k x)"
  shows "same_end c d (bindM m k)"
  unfolding same_end_def
proof (intro allI impI)
  fix s t r r' s' t'
  assume st: "c s = c t" and s: "bindM m k s = Inr (r, s')" and t: "bindM m k t = Inr (r', t')"
  from s k obtain v s1 where "m s = Inr (v, s1)" "d s' = d s1" by (rule quiet_bind_run)
  moreover from t k obtain w t1 where "m t = Inr (w, t1)" "d t' = d t1" by (rule quiet_bind_run)
  ultimately show "d s' = d t'" using same_endD[OF m st] by simp
qed

lemma same_end_of_quiet: "quiet d m \<Longrightarrow> (\<And>s t. c s = c t \<Longrightarrow> d s = d t) \<Longrightarrow> same_end c d m"
  unfolding same_end_def by (metis quietD)

lemma same_end_of_runs: "same_runs c m \<Longrightarrow> (\<And>s t. c s = c t \<Longrightarrow> d s = d t) \<Longrightarrow> same_end c d m"
  unfolding same_end_def same_runs_def by blast

lemma same_runs_basic:
  "same_runs c (retM x)" "same_runs c (failM e)" "same_runs c (liftE r)" "same_runs c (liftG g)"
  "same_runs c (liftGE h)" "same_runs c (localM l y)"
  by (auto simp: same_runs_def monad_defs localM_def)

lemma same_runs_read:
  assumes "\<And>s t. c s = c t \<Longrightarrow> f s = f t"
  shows "same_runs c (readM f)"
  unfolding same_runs_def
proof (intro allI impI)
  fix s t r r' s' t'
  assume "c s = c t" "readM f s = Inr (r, s')" "readM f t = Inr (r', t')"
  moreover from this(1) have "f s = f t" by (rule assms)
  ultimately show "r = r' \<and> c s' = c t'" by (auto simp: readM_def)
qed

lemma same_runs_update:
  assumes "\<And>s t. c s = c t \<Longrightarrow> c (f s) = c (f t)"
  shows "same_runs c (updateM f)"
  unfolding same_runs_def
proof (intro allI impI)
  fix s t r r' s' t'
  assume "c s = c t" "updateM f s = Inr (r, s')" "updateM f t = Inr (r', t')"
  moreover from this(1) have "c (f s) = c (f t)" by (rule assms)
  ultimately show "r = r' \<and> c s' = c t'" by (auto simp: updateM_def)
qed

lemma wrapM_run:
  assumes "wrapM msg args m s = Inr (r, s')"
  obtains v where "m s = Inr (v, s')" "r = (case v of Inl e \<Rightarrow> Inl (Wrapf msg args e) | Inr x \<Rightarrow> Inr x)"
proof -
  from assms obtain v b where "m s = Inr (v, b)" by (auto simp: wrapM_def)
  with assms show thesis by (cases v) (auto simp: wrapM_def intro: that)
qed

lemma same_runs_wrap:
  assumes "same_runs c m"
  shows "same_runs c (wrapM msg args m)"
  unfolding same_runs_def
proof (intro allI impI)
  fix s t r r' s' t'
  assume st: "c s = c t" and s: "wrapM msg args m s = Inr (r, s')" and t: "wrapM msg args m t = Inr (r', t')"
  from s obtain v where v: "m s = Inr (v, s')" "r = (case v of Inl e \<Rightarrow> Inl (Wrapf msg args e) | Inr x \<Rightarrow> Inr x)"
    by (rule wrapM_run)
  from t obtain w where w: "m t = Inr (w, t')" "r' = (case w of Inl e \<Rightarrow> Inl (Wrapf msg args e) | Inr x \<Rightarrow> Inr x)"
    by (rule wrapM_run)
  from same_runsD[OF assms st v(1) w(1)] v(2) w(2) show "r = r' \<and> c s' = c t'" by simp
qed

lemma same_runs_forM: "(\<And>x. same_runs c (f x)) \<Longrightarrow> same_runs c (forM f xs)"
  by (induction xs) (auto intro: same_runs_basic same_runs_bind)

lemma same_runs_cases:
  "same_runs c m \<Longrightarrow> same_runs c m' \<Longrightarrow> same_runs c (if b then m else m')"
  "same_runs c m \<Longrightarrow> (\<And>y. same_runs c (k y)) \<Longrightarrow> same_runs c (case x of None \<Rightarrow> m | Some y \<Rightarrow> k y)"
  "(\<And>e. same_runs c (h e)) \<Longrightarrow> (\<And>y. same_runs c (k' y)) \<Longrightarrow> same_runs c (case r of Inl e \<Rightarrow> h e | Inr y \<Rightarrow> k' y)"
  by (simp_all split: option.split sum.split)

lemmas same_rules = same_runs_bind same_runs_basic same_runs_wrap same_runs_forM same_runs_cases

section \<open>The core of the machine\<close>

definition core where
  "core am = (am_dkgInstances am, am_pubKey am, am_secKey am, am_baseSuite am, am_baseSeed am)"

definition hcore where "hcore s = (core (fst s), snd s)"

lemma same_onMachine:
  assumes "same_runs core m"
  shows "same_runs hcore (onMachine m)"
  unfolding same_runs_def
proof (intro allI impI)
  fix s t r r' s' t'
  assume eq: "hcore s = hcore t" and s: "onMachine m s = Inr (r, s')" and t: "onMachine m t = Inr (r', t')"
  from s obtain a where a: "m (fst s) = Inr (r, a)" "s' = (a, snd s)" by (auto simp: onMachine_def)
  from t obtain b where b: "m (fst t) = Inr (r', b)" "t' = (b, snd t)" by (auto simp: onMachine_def)
  from same_runsD[OF assms _ a(1) b(1)] eq a(2) b(2) show "r = r' \<and> hcore s' = hcore t'"
    by (simp add: hcore_def)
qed

lemma same_getInstance: "same_runs core (getInstance msg d)"
  unfolding getInstance_def by (intro same_rules same_runs_read) (simp add: core_def)

lemma same_onInstance: "same_runs core (onInstance d m)"
  by (auto simp: same_runs_def onInstance_def core_def)

lemma same_readOperation: "same_runs hcore (readOperation f)"
  unfolding readOperation_def by (rule same_runs_read) (simp add: hcore_def)

lemma same_dkgExists: "same_runs hcore (dkgExists d)"
  unfolding dkgExists_def by (intro same_onMachine same_getInstance)

lemma same_answer: "same_runs hcore (answer env ev req)"
  unfolding answer_def
  by (intro same_rules same_runs_update) (auto simp: hcore_def core_def Let_def split: prod.split)

lemmas core_rules = same_rules same_onMachine same_getInstance same_onInstance same_readOperation same_dkgExists
  same_answer same_runs_read

lemma core_commits: "same_runs hcore (handleStateDkgCommitsAwaitConfirmations env)"
  unfolding handleStateDkgCommitsAwaitConfirmations_def newInstance_def Let_def
  by (intro core_rules same_runs_update) (auto simp: core_def split: prod.split intro!: core_rules)

text \<open>From some point on the other handlers leave the core alone.\<close>

lemma quiet_onMachine: "quiet core m \<Longrightarrow> quiet (core \<circ> fst) (onMachine m)"
  unfolding quiet_def by (auto intro!: stays_onMachine)

lemma quiet_rules:
  "quiet d m \<Longrightarrow> (\<And>x. quiet d (k x)) \<Longrightarrow> quiet d (bindM m k)"
  "quiet d (retM x)" "quiet d (failM e)" "quiet d (liftE r)" "quiet d (liftG g)" "quiet d (liftGE h)"
  "quiet d (readM f)" "quiet d m \<Longrightarrow> quiet d (wrapM msg args m)" "quiet d (localM l y)" "quiet d m \<Longrightarrow> quiet d (attemptM m)"
  "(\<And>x. quiet d (f' x)) \<Longrightarrow> quiet d (forM f' xs)"
  "quiet d m \<Longrightarrow> quiet d m' \<Longrightarrow> quiet d (if b then m else m')"
  "quiet d m \<Longrightarrow> (\<And>y. quiet d (k2 y)) \<Longrightarrow> quiet d (case x2 of None \<Rightarrow> m | Some y \<Rightarrow> k2 y)"
  "(\<And>e. quiet d (h' e)) \<Longrightarrow> (\<And>y. quiet d (k' y)) \<Longrightarrow> quiet d (case r' of Inl e \<Rightarrow> h' e | Inr y \<Rightarrow> k' y)"
  unfolding quiet_def by (auto intro!: stays_rules stays_local stays_forM)

lemma quiet_update: "(\<And>s. d (f s) = d s) \<Longrightarrow> quiet d (updateM f)"
  by (simp add: quiet_def keeps_def updateM_def)

lemma quiet_primitives:
  "quiet core nextRandom" "quiet core (dbGet env k)" "quiet core (dbPut env k v)" "quiet core (getInstance msg e)"
  unfolding quiet_def
  by (auto simp: keeps_def nextRandom_def dbGet_def dbPut_def core_def getInstance_def bindM_def readM_def failM_def
      retM_def split: prod.splits option.splits)

lemma quiet_keyring:
  "quiet core (saveBLSKeyring env e kr)" "quiet core (loadBLSKeyring env e)" "quiet core (createPartialSign env bz e)"
  "quiet core (encryptDataForParticipant env e to bz)"
  unfolding saveBLSKeyring_def loadBLSKeyring_def createPartialSign_def readSalt_def encrypt_def
    encryptDataForParticipant_def
  by (intro quiet_rules quiet_primitives)+

lemma quiet_signMessages: "quiet core (signMessages env e msgs signs)"
  by (induction msgs arbitrary: signs) (auto intro!: quiet_rules quiet_keyring)

lemma quiet_answer: "quiet (core \<circ> fst) (answer env ev req)"
  unfolding answer_def by (intro quiet_rules quiet_update) (auto simp: core_def Let_def split: prod.split)

lemma quiet_recipient: "quiet (core \<circ> fst) (updateM (\<lambda>(am, oper). (am, oper\<lparr>op_To := x\<rparr>)))"
  by (intro quiet_update) (auto split: prod.split)

lemmas quiet_all = quiet_rules quiet_onMachine quiet_primitives quiet_keyring quiet_signMessages quiet_answer
  quiet_recipient

lemma quiet_sendDeal: "quiet (core \<circ> fst) (sendDeal env x)" "quiet (core \<circ> fst) (confirmDeals env)"
  unfolding sendDeal_def confirmDeals_def readOperation_def dkgExists_def
  by (auto intro!: quiet_all split: prod.split)

lemma quiet_writeError: "quiet (core \<circ> fst) (writeErrorRequestToOperation env err)"
  unfolding writeErrorRequestToOperation_def readOperation_def getParticipantID_def by (intro quiet_all)

lemma hcore_core: "hcore s = hcore t \<Longrightarrow> (core \<circ> fst) s = (core \<circ> fst) t"
  by (simp add: hcore_def)

lemma same_stores:
  "same_runs core (storeAllCommits env e cs)" "same_runs core (storeAllResponses env e rs)"
  "same_runs core (decryptDataFromParticipant env bz)"
  unfolding storeAllCommits_def storeAllResponses_def decryptDataFromParticipant_def
  by (intro core_rules | simp add: core_def)+

lemma same_storeDeals: "same_runs core (storeDeals env e i ds)"
  unfolding storeDeals_def by (intro core_rules same_stores(3))

lemma core_deals: "same_end hcore (core \<circ> fst) (handleStateDkgDealsAwaitConfirmations env)"
  unfolding handleStateDkgDealsAwaitConfirmations_def
  by (rule same_end_bind[OF same_readOperation _ hcore_core], rule same_end_bind[OF same_dkgExists _ hcore_core],
      rule same_end_bind[OF same_runs_wrap[OF same_runs_basic(3)] _ hcore_core],
      rule same_end_bind[OF same_onMachine[OF same_stores(1)] _ hcore_core],
      rule same_end_bind[OF same_runs_wrap[OF same_onMachine[OF same_onInstance]] _ hcore_core],
      rule same_end_of_quiet[OF _ hcore_core], intro quiet_all quiet_sendDeal)

lemma core_responses: "same_end hcore (core \<circ> fst) (handleStateDkgResponsesAwaitConfirmations env)"
  unfolding handleStateDkgResponsesAwaitConfirmations_def
  by (rule same_end_of_runs[OF _ hcore_core], intro core_rules same_storeDeals)

lemma core_master_key: "same_end hcore (core \<circ> fst) (handleStateDkgMasterKeyAwaitConfirmations env)"
  unfolding handleStateDkgMasterKeyAwaitConfirmations_def
  by (rule same_end_bind[OF same_readOperation _ hcore_core], rule same_end_bind[OF same_dkgExists _ hcore_core],
      rule same_end_bind[OF same_runs_wrap[OF same_runs_basic(3)] _ hcore_core],
      rule same_end_bind[OF same_onMachine[OF same_stores(2)] _ hcore_core],
      rule same_end_bind[OF same_runs_wrap[OF same_onMachine[OF same_onInstance]] _ hcore_core],
      rule same_end_bind[OF same_dkgExists _ hcore_core],
      rule same_end_of_quiet[OF _ hcore_core], intro quiet_all)

lemma core_signing: "same_end hcore (core \<circ> fst) (handleStateSigningAwaitPartialSigns env)"
  unfolding handleStateSigningAwaitPartialSigns_def readOperation_def getParticipantID_def
  by (rule same_end_of_quiet[OF _ hcore_core], intro quiet_all)

lemma core_stateHandler: "same_end hcore (core \<circ> fst) (stateHandler env type)"
  unfolding stateHandler_def
  by (auto intro: core_deals core_responses core_master_key core_signing same_end_of_runs[OF core_commits hcore_core]
      same_end_of_runs[OF same_runs_basic(2) hcore_core])

section \<open>Success needs an instance\<close>

interpretation instance_kept: air_handlers env
  "\<lambda>(am, oper). has_key (am_dkgInstances am) e \<and> op_Type oper = type" type for env e type
proof unfold_locales
  fix oper d kr
  show "stays (\<lambda>am. case (am, oper) of (am, oper) \<Rightarrow> has_key (am_dkgInstances am) e \<and> op_Type oper = type)
      (saveBLSKeyring env d kr)"
    using quietD[OF quiet_keyring(1)[of env d kr]] by (fastforce simp: keeps_def core_def)
qed (auto simp: withAnswer_def Let_def)

lemma known_at_start:
  assumes "type \<noteq> StateDkgCommitsAwaitConfirmations" and "stateHandler env type (am, oper) = Inr (Inr u, s')"
  shows "has_key (am_dkgInstances am) (op_DKGIdentifier oper)"
proof -
  have deals: "has_key (am_dkgInstances am) (op_DKGIdentifier oper)"
    if "handleStateDkgDealsAwaitConfirmations env (am, oper) = Inr (Inr u, s')"
    using that by (auto simp: handleStateDkgDealsAwaitConfirmations_def readOperation_def success_simps dkgExists_def
        onMachine_def getInstance_def split: option.split_asm)
  have responses: "has_key (am_dkgInstances am) (op_DKGIdentifier oper)"
    if "handleStateDkgResponsesAwaitConfirmations env (am, oper) = Inr (Inr u, s')"
    using that by (auto simp: handleStateDkgResponsesAwaitConfirmations_def readOperation_def success_simps dkgExists_def
        onMachine_def getInstance_def split: option.split_asm)
  have master: "has_key (am_dkgInstances am) (op_DKGIdentifier oper)"
    if "handleStateDkgMasterKeyAwaitConfirmations env (am, oper) = Inr (Inr u, s')"
    using that by (auto simp: handleStateDkgMasterKeyAwaitConfirmations_def readOperation_def success_simps dkgExists_def
        onMachine_def getInstance_def split: option.split_asm)
  have signing: "has_key (am_dkgInstances am) (op_DKGIdentifier oper)"
    if "handleStateSigningAwaitPartialSigns env (am, oper) = Inr (Inr u, s')"
    using that by (auto simp: handleStateSigningAwaitPartialSigns_def readOperation_def success_simps getParticipantID_def
        onMachine_def getInstance_def split: option.split_asm)
  from assms deals responses master signing show ?thesis
    by (auto simp: stateHandler_def lift_eq_Inr split: if_split_asm)
qed

lemma handler_instance:
  assumes "stateHandler env (op_Type oper) (am, oper) = Inr (Inr u, (am', oper'))"
  shows "has_key (am_dkgInstances am') (op_DKGIdentifier oper)"
proof (cases "op_Type oper = StateDkgCommitsAwaitConfirmations")
  case True
  with assms show ?thesis
    by (auto simp: stateHandler_def handleStateDkgCommitsAwaitConfirmations_def readOperation_def success_simps
        answer_eq_Inr onMachine_def split: if_split_asm)
next
  case False
  let ?H = "\<lambda>(am, oper'). has_key (am_dkgInstances am) (op_DKGIdentifier oper) \<and> op_Type oper' = op_Type oper"
  have "stays ?H (stateHandler env (op_Type oper))"
    unfolding stateHandler_def
    by (intro keeps_cases keeps_fail instance_kept.commits_stays instance_kept.deals_stays
        instance_kept.responses_stays instance_kept.master_key_stays instance_kept.signing_stays)
  from keepsD[OF this _ assms] known_at_start[OF False assms] show ?thesis by auto
qed

text \<open>
  Requests can be encoded: \<open>encoding/json\<close> refuses only instants outside the years 0 to 9999.  Then an
  operation on a round is answered, with a result or an error, exactly if the machine has an
  instance of the round afterwards.
\<close>

definition requests_encode :: "('db, 'p, 's, 'g, 'd, 'r, 'h) air_env \<Rightarrow> bool" where
  "requests_encode env \<longleftrightarrow> (\<forall>req. \<exists>bz. ae_Marshal_request env req = Inr bz)"

lemma handler_identity:
  assumes "stateHandler env (op_Type oper) (am, oper) = Inr (r, (am', oper'))"
  shows "op_DKGIdentifier oper' = op_DKGIdentifier oper" and "op_Type oper' = op_Type oper"
proof -
  have "stays (\<lambda>(am, oper'). answers oper oper') (stateHandler env (op_Type oper))"
    unfolding stateHandler_def
    by (intro keeps_cases keeps_fail answer_shape.commits_stays answer_shape.deals_stays
        answer_shape.responses_stays answer_shape.master_key_stays answer_shape.signing_stays)
  from keepsD[OF this _ assms] have "answers oper oper'" by (simp add: answers_refl)
  then show "op_DKGIdentifier oper' = op_DKGIdentifier oper" "op_Type oper' = op_Type oper"
    by (simp_all add: answers_def)
qed

lemma result_of_state:
  assumes "requests_encode env" and "op_Type oper \<noteq> ReinitDKG"
    and "GetOperationResult_at env (Suc n) oper am = Inr (r, am')"
  shows "\<exists>r' oper'. stateHandler env (op_Type oper) (am, oper) = Inr (r', (am', oper')) \<and>
    (isl r \<longleftrightarrow> \<not> has_key (am_dkgInstances am') (op_DKGIdentifier oper))"
proof -
  let ?h = "handleOperation env (GetOperationResult_at env n)"
  from assms(3) have run: "resultOf env ?h oper am = Inr (r, am')" by simp
  then obtain r' am1 oper1 where h: "?h (am, oper) = Inr (r', (am1, oper1))"
    by (cases "?h (am, oper)") (auto simp: resultOf_panic)
  with assms(2) have st: "stateHandler env (op_Type oper) (am, oper) = Inr (r', (am1, oper1))"
    by (simp add: handleOperation_eq)
  show ?thesis
  proof (cases r')
    case (Inr u)
    with run h have "am' = am1" "\<not> isl r" by (auto simp: resultOf_run[of ?h, OF h])
    with st Inr handler_instance[of env oper am u am1 oper1] show ?thesis by auto
  next
    case (Inl err)
    with run assms(1) have "am' = am1" "isl r \<longleftrightarrow> \<not> has_key (am_dkgInstances am1) (op_DKGIdentifier oper1)"
      by (auto simp: resultOf_run[of ?h, OF h] writeError_run answer_run wrapM_def requests_encode_def
          split: option.split_asm sum.split_asm) (metis Inr_Inl_False)+
    with st handler_identity[OF st] show ?thesis by auto
  qed
qed

section \<open>The core after an operation\<close>

text \<open>\<open>fated m\<close>: two runs from equal cores end with equal cores, and both fail or none.\<close>

definition fated :: "('db, 'p, 's, 'g, 'd, 'r, 'a) air_op \<Rightarrow> bool" where
  "fated m \<longleftrightarrow> (\<forall>s t r r' s' t'. core s = core t \<longrightarrow> m s = Inr (r, s') \<longrightarrow> m t = Inr (r', t') \<longrightarrow>
     (isl r \<longleftrightarrow> isl r') \<and> core s' = core t')"

lemma fatedD:
  "fated m \<Longrightarrow> core s = core t \<Longrightarrow> m s = Inr (r, s') \<Longrightarrow> m t = Inr (r', t') \<Longrightarrow> (isl r \<longleftrightarrow> isl r') \<and> core s' = core t'"
  unfolding fated_def by blast

lemma fated_result:
  assumes "requests_encode env" and "op_Type oper \<noteq> ReinitDKG"
  shows "fated (GetOperationResult_at env n oper)"
  unfolding fated_def
proof (intro allI impI)
  fix s t r r' s' t'
  assume st: "core s = core t" and s: "GetOperationResult_at env n oper s = Inr (r, s')"
    and t: "GetOperationResult_at env n oper t = Inr (r', t')"
  obtain k where n: "n = Suc k" using s by (cases n) (auto simp: liftG_def)
  from result_of_state[OF assms s[unfolded n]] obtain v o1 where
    v: "stateHandler env (op_Type oper) (s, oper) = Inr (v, (s', o1))"
    "isl r \<longleftrightarrow> \<not> has_key (am_dkgInstances s') (op_DKGIdentifier oper)" by blast
  from result_of_state[OF assms t[unfolded n]] obtain w o2 where
    w: "stateHandler env (op_Type oper) (t, oper) = Inr (w, (t', o2))"
    "isl r' \<longleftrightarrow> \<not> has_key (am_dkgInstances t') (op_DKGIdentifier oper)" by blast
  from same_endD[OF core_stateHandler _ v(1) w(1)] st have "core s' = core t'" by (simp add: hcore_def)
  with v(2) w(2) show "(isl r \<longleftrightarrow> isl r') \<and> core s' = core t'" by (simp add: core_def)
qed

lemma fated_bind:
  assumes m: "fated m" and k: "fated k"
  shows "fated (bindM m (\<lambda>_. k))"
  unfolding fated_def
proof (intro allI impI)
  fix s t r r' s' t'
  assume st: "core s = core t" and s: "bindM m (\<lambda>_. k) s = Inr (r, s')" and t: "bindM m (\<lambda>_. k) t = Inr (r', t')"
  from s obtain v s1 where s1: "m s = Inr (v, s1)"
    "(case v of Inl e \<Rightarrow> Inr (Inl e, s1) | Inr x \<Rightarrow> k s1) = Inr (r, s')" by (rule bindM_run)
  from t obtain w t1 where t1: "m t = Inr (w, t1)"
    "(case w of Inl e \<Rightarrow> Inr (Inl e, t1) | Inr x \<Rightarrow> k t1) = Inr (r', t')" by (rule bindM_run)
  from fatedD[OF m st s1(1) t1(1)] have vw: "isl v \<longleftrightarrow> isl w" "core s1 = core t1" by simp_all
  show "(isl r \<longleftrightarrow> isl r') \<and> core s' = core t'"
  proof (cases "isl v")
    case True
    with s1(2) t1(2) vw show ?thesis by (auto simp: isl_def)
  next
    case False
    then obtain x y where "v = Inr x" "w = Inr y" using vw(1) by (metis sum.collapse(2))
    with s1(2) t1(2) show ?thesis using fatedD[OF k vw(2)] by simp
  qed
qed

lemma fated_wrap: "fated m \<Longrightarrow> fated (wrapM msg args m)"
  unfolding fated_def
proof (intro allI impI)
  fix s t r r' s' t'
  assume m: "\<forall>s t r r' s' t'. core s = core t \<longrightarrow> m s = Inr (r, s') \<longrightarrow> m t = Inr (r', t') \<longrightarrow>
     (isl r \<longleftrightarrow> isl r') \<and> core s' = core t'"
    and st: "core s = core t" and s: "wrapM msg args m s = Inr (r, s')" and t: "wrapM msg args m t = Inr (r', t')"
  from s obtain v where "m s = Inr (v, s')" "isl r = isl v" by (rule wrapM_run) (simp split: sum.split)
  moreover from t obtain w where "m t = Inr (w, t')" "isl r' = isl w" by (rule wrapM_run) (simp split: sum.split)
  ultimately show "(isl r \<longleftrightarrow> isl r') \<and> core s' = core t'" using m st by metis
qed

lemma fated_ret: "fated (retM x)"
  by (simp add: fated_def retM_def)

lemma fated_forM: "(\<And>x. x \<in> set xs \<Longrightarrow> fated (f x)) \<Longrightarrow> fated (forM f xs)"
  by (induction xs) (auto intro: fated_ret fated_bind)

lemma fated_onMachine:
  assumes "fated m"
  shows "same_end hcore (core \<circ> fst) (onMachine m)"
  unfolding same_end_def
proof (intro allI impI)
  fix s t r r' s' t'
  assume st: "hcore s = hcore t" and s: "onMachine m s = Inr (r, s')" and t: "onMachine m t = Inr (r', t')"
  from s obtain a where "m (fst s) = Inr (r, a)" "s' = (a, snd s)" by (auto simp: onMachine_def)
  moreover from t obtain b where "m (fst t) = Inr (r', b)" "t' = (b, snd t)" by (auto simp: onMachine_def)
  ultimately show "(core \<circ> fst) s' = (core \<circ> fst) t'"
    using fatedD[OF assms, of "fst s" "fst t"] st by (simp add: hcore_def)
qed

text \<open>Reinitializations that are not nested, the only ones a node makes.\<close>

definition flat_reinit :: "('db, 'p, 's, 'g, 'd, 'r, 'h) air_env \<Rightarrow> Operation \<Rightarrow> bool" where
  "flat_reinit env oper \<longleftrightarrow> (op_Type oper = ReinitDKG \<longrightarrow> (case ae_operations env (op_Payload oper) of
     Inl e \<Rightarrow> True | Inr ops \<Rightarrow> list_all (\<lambda>oper. op_Type oper \<noteq> ReinitDKG) ops))"

lemma core_reinit:
  assumes "requests_encode env" and "op_Type oper = ReinitDKG" and "flat_reinit env oper"
    and "core s = core t" and "handleReinitDKG env (GetOperationResult_at env n) (s, oper) = Inr (r, s')"
    and "handleReinitDKG env (GetOperationResult_at env n) (t, oper) = Inr (r', t')"
  shows "core (fst s') = core (fst t')"
proof (cases "ae_operations env (op_Payload oper)")
  case (Inl e)
  with assms(4-6) show ?thesis by (auto simp: handleReinitDKG_def readOperation_def monad_defs)
next
  case (Inr ops)
  let ?loop = "forM (\<lambda>oper. if skippedOnReinit oper then retM ()
        else bindM (wrapM ''failed to process operation: %w'' [] (GetOperationResult_at env n oper)) (\<lambda>_. retM ())) ops"
  let ?k = "\<lambda>_. bindM (wrapM ''failed to load bls keyring during ReinitDKG: %w'' []
      (onMachine (loadBLSKeyring env (op_DKGIdentifier oper)))) (\<lambda>blsKeyring.
    bindM (wrapM ''failed to marshal BLSKeyring's PubPoly during ReinitDKG: %w'' []
      (liftE (PubPolyBytes (ae_kyber env) blsKeyring))) (\<lambda>pubPolyBz.
    updateM (\<lambda>(am, oper). (am, oper\<lparr>op_Event := OperationProcessed, op_ExtraData := pubPolyBz\<rparr>))))"
  have eq: "handleReinitDKG env (GetOperationResult_at env n) (am, oper) = bindM (onMachine ?loop) ?k (am, oper)" for am
    by (simp add: handleReinitDKG_def readOperation_def bindM_def[of "readM _"] bindM_def[of "wrapM _ _ (liftE _)"]
        readM_def wrapM_def[of _ _ "liftE _"] liftE_def Inr)
  have "fated ?loop"
    using assms(2,3) Inr
    by (intro fated_forM) (auto simp: flat_reinit_def list_all_iff intro!: fated_ret fated_bind fated_wrap fated_result assms(1))
  moreover have "quiet (core \<circ> fst) (?k x)" for x
    by (intro quiet_all quiet_update) (auto split: prod.split)
  ultimately have "same_end hcore (core \<circ> fst) (bindM (onMachine ?loop) ?k)"
    by (intro same_end_quiet fated_onMachine)
  from same_endD[OF this _ assms(5)[unfolded eq] assms(6)[unfolded eq]] assms(4) show ?thesis by (simp add: hcore_def)
qed

lemma result_core:
  assumes "requests_encode env" and "flat_reinit env oper" and "core s = core t"
    and "GetOperationResult env oper s = Inr (r, s')" and "GetOperationResult env oper t = Inr (r', t')"
  shows "core s' = core t'"
proof (cases "op_Type oper = ReinitDKG")
  case False
  from fatedD[OF fated_result[OF assms(1) False] assms(3)] assms(4,5) show ?thesis
    by (simp add: GetOperationResult_def del: GetOperationResult_at.simps)
next
  case True
  let ?h = "handleOperation env (GetOperationResult_at env (length (op_Payload oper)))"
  have fin: "\<exists>v s1. ?h (am, oper) = Inr (v, s1) \<and> core am' = core (fst s1)"
    if "GetOperationResult env oper am = Inr (q, am')" for am q am'
  proof -
    from that have run: "resultOf env ?h oper am = Inr (q, am')" by (simp add: GetOperationResult_def)
    then obtain v s1 where h: "?h (am, oper) = Inr (v, s1)"
      by (cases "?h (am, oper)") (auto simp: resultOf_panic)
    with run show ?thesis
      using quietD[OF quiet_rules(8)[OF quiet_writeError]]
      by (cases v) (fastforce simp: resultOf_run[of ?h, OF h])+
  qed
  from fin[OF assms(4)] obtain v s1 where s1: "?h (s, oper) = Inr (v, s1)" "core s' = core (fst s1)" by blast
  from fin[OF assms(5)] obtain w t1 where t1: "?h (t, oper) = Inr (w, t1)" "core t' = core (fst t1)" by blast
  from s1 t1 core_reinit[OF assms(1) True assms(2,3)] show ?thesis
    by (simp add: handleOperation_eq True)
qed

lemma signing_core:
  assumes "IsSigningState (Some oper)" and "GetOperationResult env oper am = Inr (r, am')"
  shows "core am' = core am"
proof -
  let ?h = "handleOperation env (GetOperationResult_at env (length (op_Payload oper)))"
  from assms(1) have type: "op_Type oper \<noteq> ReinitDKG" "op_Type oper \<noteq> StateDkgCommitsAwaitConfirmations"
    "op_Type oper \<noteq> StateDkgDealsAwaitConfirmations" "op_Type oper \<noteq> StateDkgResponsesAwaitConfirmations"
    "op_Type oper \<noteq> StateDkgMasterKeyAwaitConfirmations"
    by (auto simp: IsSigningState_def HasPrefix_def fsm_const)
  from assms(2) have run: "resultOf env ?h oper am = Inr (r, am')" by (simp add: GetOperationResult_def)
  then obtain v s1 where h: "?h (am, oper) = Inr (v, s1)"
    by (cases "?h (am, oper)") (auto simp: resultOf_panic)
  have "quiet (core \<circ> fst) (stateHandler env (op_Type oper))"
    using type unfolding stateHandler_def handleStateSigningAwaitPartialSigns_def readOperation_def getParticipantID_def
    by (auto intro!: quiet_all)
  with h type(1) have "core (fst s1) = core am" by (auto simp: handleOperation_eq dest: quietD)
  with run show ?thesis
    using quietD[OF quiet_rules(8)[OF quiet_writeError]]
    by (cases v) (fastforce simp: resultOf_run[of ?h, OF h])+
qed

section \<open>Processing and replaying\<close>

lemma quiet_files: "quiet core (writeFile env path bz)" "quiet core (storeOperation env oper)"
  unfolding writeFile_def storeOperation_def readLog_def writeLog_def getRoundOperationLog_def
  by (auto intro!: quiet_all quiet_update simp: core_def split: option.split prod.split)

lemma files_log: "stays (\<lambda>am. holds_log env am f) (writeFile env path bz)"
  unfolding writeFile_def
  by (auto intro!: stays_rules stays_update simp: holds_log_def split: option.split prod.split)

lemma process_run:
  assumes "air_ProcessOperation env oper store am = Inr (Inr path, am')"
  obtains res am1 am2 bz where "GetOperationResult env oper am = Inr (Inr res, am1)"
    "(if store \<and> \<not> IsSigningState (Some oper) then storeOperation env oper else retM ()) am1 = Inr (Inr (), am2)"
    "ae_Marshal_operation env res = Inr bz" "fst path = am_ResultFolder am2" "writeFile env path bz am2 = Inr (Inr (), am')"
  using assms
  by (auto simp: air_ProcessOperation_def success_simps Let_def split: if_split_asm)

lemma process_core:
  assumes "air_ProcessOperation env oper store am = Inr (Inr path, am')"
  shows "\<exists>r am1. GetOperationResult env oper am = Inr (r, am1) \<and> core am' = core am1"
proof -
  from assms obtain res am1 am2 bz where r: "GetOperationResult env oper am = Inr (Inr res, am1)"
    and st: "(if store \<and> \<not> IsSigningState (Some oper) then storeOperation env oper else retM ()) am1 = Inr (Inr (), am2)"
    and w: "writeFile env path bz am2 = Inr (Inr (), am')" by (rule process_run)
  have "core am' = core am2" by (rule quietD[OF quiet_files(1) w])
  moreover have "core am2 = core am1"
    using st quietD[OF quiet_files(2)] by (auto simp: retM_def split: if_split_asm)
  ultimately show ?thesis using r by auto
qed

lemma process_log:
  assumes "log_ok env" and "holds_log env am f" and "air_ProcessOperation env oper store am = Inr (Inr path, am')"
  shows "holds_log env am' (if store \<and> \<not> IsSigningState (Some oper) then log_append oper f else f)"
proof -
  from assms(3) obtain res am1 am2 bz where r: "GetOperationResult env oper am = Inr (Inr res, am1)"
    and st: "(if store \<and> \<not> IsSigningState (Some oper) then storeOperation env oper else retM ()) am1 = Inr (Inr (), am2)"
    and w: "writeFile env path bz am2 = Inr (Inr (), am')" by (rule process_run)
  from keepsD[OF result_keeps_log _ r[unfolded GetOperationResult_def]] assms(1,2) have "holds_log env am1 f"
    by (auto simp: log_ok_def)
  with st storeOperation_holds[OF assms(1)] have
    "holds_log env am2 (if store \<and> \<not> IsSigningState (Some oper) then log_append oper f else f)"
    by (auto simp: retM_def split: if_split_asm)
  from keepsD[OF files_log this w] show ?thesis .
qed

definition processAll ::
  "('db, 'p, 's, 'g, 'd, 'r, 'h) air_env \<Rightarrow> Operation list \<Rightarrow> ('db, 'p, 's, 'g, 'd, 'r, unit) air_op"
where
  "processAll env ops = forM (\<lambda>oper. bindM (air_ProcessOperation env oper True) (\<lambda>_. retM ())) ops"

lemma processAll_log:
  assumes "log_ok env" and "holds_log env am f" and "processAll env ops am = Inr (Inr u, am')"
  shows "holds_log env am' (fold log_append (filter (\<lambda>oper. \<not> IsSigningState (Some oper)) ops) f)"
  using assms(2,3)
proof (induction ops arbitrary: am f)
  case (Cons oper ops)
  from Cons.prems(2) obtain path am1 where p: "air_ProcessOperation env oper True am = Inr (Inr path, am1)"
    and rest: "processAll env ops am1 = Inr (Inr u, am')" by (auto simp: processAll_def success_simps)
  from Cons.IH[OF process_log[OF assms(1) Cons.prems(1) p] rest] show ?case by (simp split: if_split_asm)
qed (simp add: processAll_def success_simps)

lemma replay_core:
  assumes "requests_encode env" and "list_all (flat_reinit env) ops" and "core s = core t"
    and "processAll env ops s = Inr (Inr u, s')"
    and "forM (\<lambda>oper. bindM (wrapM msg args (air_ProcessOperation env oper False)) (\<lambda>_. retM ()))
      (filter (\<lambda>oper. \<not> IsSigningState (Some oper)) ops) t = Inr (Inr u', t')"
  shows "core s' = core t'"
  using assms(2-5)
proof (induction ops arbitrary: s t)
  case (Cons oper ops)
  from Cons.prems(3) obtain path s1 where p: "air_ProcessOperation env oper True s = Inr (Inr path, s1)"
    and rest: "processAll env ops s1 = Inr (Inr u, s')" by (auto simp: processAll_def success_simps)
  from process_core[OF p] obtain r s2 where r: "GetOperationResult env oper s = Inr (r, s2)" "core s1 = core s2" by blast
  show ?case
  proof (cases "IsSigningState (Some oper)")
    case True
    with signing_core[OF True r(1)] r(2) Cons.prems Cons.IH[OF _ _ rest] show ?thesis by simp
  next
    case False
    with Cons.prems(4) obtain path' t1 where q: "air_ProcessOperation env oper False t = Inr (Inr path', t1)"
      and more: "forM (\<lambda>oper. bindM (wrapM msg args (air_ProcessOperation env oper False)) (\<lambda>_. retM ()))
        (filter (\<lambda>oper. \<not> IsSigningState (Some oper)) ops) t1 = Inr (Inr u', t')"
      by (auto simp: success_simps)
    from process_core[OF q] obtain r' t2 where "GetOperationResult env oper t = Inr (r', t2)" "core t1 = core t2" by blast
    with result_core[OF assms(1) _ Cons.prems(2) r(1)] r(2) Cons.prems(1) have "core s1 = core t1" by simp
    from Cons.IH[OF _ this rest more] Cons.prems(1) show ?thesis by simp
  qed
qed (simp add: processAll_def success_simps)

end
