(* ===== verification/Airgapped_Dkg.thy ===== *)
theory Airgapped_Dkg
  imports Airgapped_Answers Dkg_Stages
begin

text \<open>
  The steps of the DKG on the airgapped machine: whom the numbers of a new instance stand for, and to
  whom the deals go.
\<close>

section \<open>A new instance\<close>

definition key_entry :: "DKGProposalPubKeysParticipantEntry \<Rightarrow> 'p \<Rightarrow> 'p PK2Participant" where
  "key_entry e pk = \<lparr>pk_ParticipantID = ke_ParticipantId e, pk_Participant = ke_Username e, pk_PK = pk\<rparr>"

lemma storePubKeys_run:
  assumes "storePubKeys K (map Some es) d = Inr (Inr u, d')"
  shows "\<exists>pks. list_all2 (\<lambda>e pk. ky_UnmarshalPoint K (ke_DkgPubKey e) = Inr pk) es pks \<and>
    d' = d\<lparr>dkg_pubKeys := fold (\<lambda>x s. snd (PKStore_Add x s)) (map2 key_entry es pks) (dkg_pubKeys d)\<rparr>"
  using assms
proof (induction es arbitrary: d)
  case (Cons e es)
  from Cons.prems obtain pk where pk: "ky_UnmarshalPoint K (ke_DkgPubKey e) = Inr pk"
    and rest: "storePubKeys K (map Some es) (snd (StorePubKey (ke_Username e) (ke_ParticipantId e) pk d)) = Inr (Inr u, d')"
    by (auto simp: storePubKeys_def success_simps)
  from Cons.IH[OF rest] obtain pks where "list_all2 (\<lambda>e pk. ky_UnmarshalPoint K (ke_DkgPubKey e) = Inr pk) es pks"
    "d' = (snd (StorePubKey (ke_Username e) (ke_ParticipantId e) pk d))
      \<lparr>dkg_pubKeys := fold (\<lambda>x s. snd (PKStore_Add x s)) (map2 key_entry es pks)
        (dkg_pubKeys (snd (StorePubKey (ke_Username e) (ke_ParticipantId e) pk d)))\<rparr>" by blast
  with pk show ?case
    by (intro exI[of _ "pk # pks"]) (simp add: StorePubKey_def key_entry_def split: prod.split)
qed (simp add: storePubKeys_def success_simps)

lemma key_entries:
  assumes "length es = length pks"
  shows "map pk_ParticipantID (map2 key_entry es pks) = map ke_ParticipantId es"
    and "map pk_Participant (map2 key_entry es pks) = map ke_Username es"
    and "map pk_PK (map2 key_entry es pks) = pks"
  using assms by (induction es pks rule: list_induct2) (simp_all add: key_entry_def)

lemma sort_key_sorted: "sorted (map f xs) \<Longrightarrow> sort_key f xs = xs"
  by (rule sort_key_id_if_sorted)

text \<open>
  When the entries are numbered from zero in order and have different names, the keys of the new
  instance are the entries' keys in their order.
\<close>

lemma localM_eq_Inr:
  "localM m t s = Inr (Inr (x, t'), s') \<longleftrightarrow> s' = s \<and> m t = Inr (Inr x, t')"
  by (cases "m t") (auto simp: localM_def split: sum.splits)

lemma newInstance_run:
  assumes "newInstance env dkgID (map Some es) am = Inr (Inr d, am')"
    and ids: "map ke_ParticipantId es = map int [0..<length es]" and names: "distinct (map ke_Username es)"
  obtains pks where "list_all2 (\<lambda>e pk. ky_UnmarshalPoint (ae_kyber env) (ke_DkgPubKey e) = Inr pk) es pks"
    "dkg_pubKeys d = map2 key_entry es pks" "dkg_ParticipantID d = key_position (am_pubKey am) 0 (map2 key_entry es pks)"
    "0 \<le> dkg_ParticipantID d" "am' = am" "dkg_Threshold d = ke_Threshold (es ! 0)" "es \<noteq> []"
proof -
  let ?K = "ae_kyber env"
  from assms(1) obtain d1 where
    st: "storePubKeys ?K (map Some es)
      ((dkg_Init (ae_sha256 env (string_bytes dkgID @ am_baseSeed am)) (am_pubKey am) (am_secKey am))
        \<lparr>dkg_Threshold := ke_Threshold (es ! 0), dkg_N := int (length es)\<rparr>) = Inr (Inr (), d1)"
    and init: "InitDKGInstance ?K (am_baseSeed am) d1 = Inr (Inr (), d)" and am: "am' = am" "es \<noteq> []"
    by (auto simp: newInstance_def success_simps localM_eq_Inr Let_def)
  from storePubKeys_run[OF st] obtain pks where
    pks: "list_all2 (\<lambda>e pk. ky_UnmarshalPoint ?K (ke_DkgPubKey e) = Inr pk) es pks"
    and d1: "dkg_pubKeys d1 = fold (\<lambda>x s. snd (PKStore_Add x s)) (map2 key_entry es pks) []" "dkg_pubKey d1 = am_pubKey am"
      "dkg_Threshold d1 = ke_Threshold (es ! 0)"
    by (auto simp: dkg_Init_def)
  note len = list_all2_lengthD[OF pks]
  have stored: "dkg_pubKeys d1 = map2 key_entry es pks"
    unfolding d1(1) using fold_PKStore_Add[of "[]" "map2 key_entry es pks"] names key_entries(2)[OF len] by simp
  have "sorted (map pk_ParticipantID (map2 key_entry es pks))"
    unfolding key_entries(1)[OF len] ids by (simp add: sorted_wrt_iff_nth_less)
  then have "PKStore_Sort (map2 key_entry es pks) = map2 key_entry es pks"
    by (simp add: PKStore_Sort_def sort_key_sorted)
  with init stored d1(2,3) have "dkg_pubKeys d = map2 key_entry es pks"
    "dkg_ParticipantID d = key_position (am_pubKey am) 0 (map2 key_entry es pks)" "0 \<le> dkg_ParticipantID d"
    "dkg_Threshold d = ke_Threshold (es ! 0)"
    by (auto simp: InitDKGInstance_def success_simps calcParticipantID_def split: if_split_asm)
  with pks am show thesis by (intro that)
qed

text \<open>The answer of the DKG machine lists the participants of the proposal under their numbers.\<close>

definition pubkey_entry :: "int \<Rightarrow> int \<times> SignatureProposalParticipant \<Rightarrow> DKGProposalPubKeysParticipantEntry" where
  "pubkey_entry threshold x = \<lparr>ke_ParticipantId = fst x, ke_Username = sp_Username (snd x),
     ke_DkgPubKey = sp_DkgPubKey (snd x), ke_Threshold = threshold\<rparr>"

lemma pubkeys_of_roster:
  assumes "roster_ok p" and "sig_quorum p = Some q"
  shows "dkg_pubkeys threshold (dkg_init t q) = RespPubKeys (map (pubkey_entry threshold) q)"
proof -
  from assms have keys: "keys q = map int [0..<length q]" by (simp add: roster_ok_def)
  then have dist: "distinct (keys q)" by (simp add: distinct_map inj_on_def)
  have "sort (keys q) = keys q" unfolding keys by (intro sort_key_id_if_sorted) (simp add: sorted_wrt_iff_nth_less)
  then have "dkg_ordered (dkg_init t q) = vals (map_vals dkg_fresh q)"
    using lookup_keys[of "map_vals dkg_fresh q"] dist by (simp add: dkg_ordered_def dkg_init_def)
  then show ?thesis
    by (simp add: dkg_pubkeys_def map_vals_def pubkey_entry_def dkg_fresh_def case_prod_unfold comp_def)
qed

lemma roster_entries:
  assumes "roster_ok p" and "sig_quorum p = Some q"
  shows "map ke_ParticipantId (map (pubkey_entry threshold) q) = map int [0..<length (map (pubkey_entry threshold) q)]"
    and "distinct (map ke_Username (map (pubkey_entry threshold) q))"
  using assms by (simp_all add: roster_ok_def pubkey_entry_def comp_def case_prod_unfold)

lemma roster_nth:
  assumes "roster_ok p" and "sig_quorum p = Some q" and "(i, v) \<in> set q"
  obtains k where "k < length q" "i = int k" "q ! k = (i, v)"
proof -
  from assms(3) obtain k where k: "k < length q" "q ! k = (i, v)" by (metis in_set_conv_nth)
  from assms(1,2) have "keys q ! k = int k" using k(1) by (simp add: roster_ok_def)
  with k show thesis by (intro that) simp_all
qed

section \<open>Deals\<close>

text \<open>The message in which a deal goes to its recipient.\<close>

definition deal_message ::
  "('db, 'p, 's, 'g, 'd, 'r, 'h) air_env \<Rightarrow> ('p, 's, 'g, 'd, 'r) DKG \<Rightarrow> bytes \<Rightarrow> Operation \<Rightarrow> int \<times> 'd \<Rightarrow> Message \<Rightarrow> bool"
where
  "deal_message env d suite oper entry m \<longleftrightarrow> (\<exists>recipient pk dealBz n ciphertext.
     DKG_GetParticipantByIndex d (fst entry) = Inr recipient \<and> GetPubKeyByParticipant d recipient = Inr pk \<and>
     ky_MarshalDeal (ae_kyber env) (snd entry) = Inr dealBz \<and>
     ky_Encrypt (ae_kyber env) suite n pk dealBz = Inr ciphertext \<and>
     RecipientAddr m = recipient \<and> msg_Event m = EventDKGDealConfirmationReceived \<and>
     DkgRoundID m = op_DKGIdentifier oper \<and>
     ae_Marshal_request env (ReqDkgDeal \<lparr>dlr_ParticipantId = dkg_ParticipantID d, dlr_Deal = ciphertext,
       dlr_CreatedAt = op_CreatedAt oper\<rparr>) = Inr (Data m))"

lemma deal_message_frame:
  "op_DKGIdentifier oper' = op_DKGIdentifier oper \<Longrightarrow> op_CreatedAt oper' = op_CreatedAt oper \<Longrightarrow>
    deal_message env d suite oper' = deal_message env d suite oper"
  by (intro ext) (simp add: deal_message_def)

lemma dkgExists_eq:
  "dkgExists e s = Inr (Inr d, s') \<longleftrightarrow> s' = s \<and> map_of (am_dkgInstances (fst s)) e = Some d"
  by (cases s) (auto simp: dkgExists_def onMachine_def getInstance_def success_simps bindM_def readM_def failM_def retM_def
      split: option.splits)

lemma sendDeal_run:
  assumes "map_of (am_dkgInstances am) (op_DKGIdentifier oper) = Some d"
    and "sendDeal env entry (am, oper) = Inr (Inr u, (am', oper'))"
  shows "am_dkgInstances am' = am_dkgInstances am \<and> am_baseSuite am' = am_baseSuite am \<and>
    op_DKGIdentifier oper' = op_DKGIdentifier oper \<and> op_CreatedAt oper' = op_CreatedAt oper \<and>
    (\<exists>m. op_ResultMsgs oper' = op_ResultMsgs oper @ [m] \<and> deal_message env d (am_baseSuite am) oper entry m)"
proof -
  obtain index deal where entry: "entry = (index, deal)" by fastforce
  let ?K = "ae_kyber env"
  from assms obtain dealBz recipient pk ct bz where
    "ky_MarshalDeal ?K deal = Inr dealBz" "DKG_GetParticipantByIndex d index = Inr recipient"
    "GetPubKeyByParticipant d recipient = Inr pk" "ky_Encrypt ?K (am_baseSuite am) (am_rand am) pk dealBz = Inr ct"
    "ae_Marshal_request env (ReqDkgDeal \<lparr>dlr_ParticipantId = dkg_ParticipantID d, dlr_Deal = ct,
       dlr_CreatedAt = op_CreatedAt oper\<rparr>) = Inr bz"
    and fin: "am' = am\<lparr>am_rand := Suc (am_rand am)\<rparr>"
    "oper' = withAnswer EventDKGDealConfirmationReceived bz (oper\<lparr>op_To := recipient\<rparr>)"
    by (auto simp: sendDeal_def entry readOperation_def success_simps dkgExists_eq answer_eq_Inr
        encryptDataForParticipant_def onMachine_def getInstance_def nextRandom_def split: option.split_asm)
  then show ?thesis
    by (auto simp: fin withAnswer_def Let_def air_createMessage_def deal_message_def entry)
qed

lemma sendDeals_run:
  assumes "map_of (am_dkgInstances am) (op_DKGIdentifier oper) = Some d"
    and "forM (sendDeal env) deals (am, oper) = Inr (Inr u, (am', oper'))"
  shows "am_dkgInstances am' = am_dkgInstances am \<and> am_baseSuite am' = am_baseSuite am \<and>
    op_DKGIdentifier oper' = op_DKGIdentifier oper \<and> op_CreatedAt oper' = op_CreatedAt oper \<and>
    (\<exists>ms. op_ResultMsgs oper' = op_ResultMsgs oper @ ms \<and> list_all2 (deal_message env d (am_baseSuite am) oper) deals ms)"
  using assms
proof (induction deals arbitrary: am oper)
  case (Cons entry deals)
  from Cons.prems(2) obtain am1 oper1 where s: "sendDeal env entry (am, oper) = Inr (Inr (), (am1, oper1))"
    and rest: "forM (sendDeal env) deals (am1, oper1) = Inr (Inr u, (am', oper'))" by (auto simp: success_simps)
  note s1 = sendDeal_run[OF Cons.prems(1) s]
  then obtain m where m: "op_ResultMsgs oper1 = op_ResultMsgs oper @ [m]"
    "deal_message env d (am_baseSuite am) oper entry m" by blast
  from s1 Cons.prems(1) have "map_of (am_dkgInstances am1) (op_DKGIdentifier oper1) = Some d" by simp
  note r = Cons.IH[OF this rest]
  then obtain ms where ms: "op_ResultMsgs oper' = op_ResultMsgs oper1 @ ms"
    "list_all2 (deal_message env d (am_baseSuite am1) oper1) deals ms" by blast
  from s1 have "deal_message env d (am_baseSuite am1) oper1 = deal_message env d (am_baseSuite am) oper"
    using deal_message_frame[of oper1 oper] by simp
  with m ms have "op_ResultMsgs oper' = op_ResultMsgs oper @ m # ms \<and>
    list_all2 (deal_message env d (am_baseSuite am) oper) (entry # deals) (m # ms)" by simp
  with s1 r show ?case by (intro conjI exI[of _ "m # ms"]) simp_all
qed (simp add: success_simps)

section \<open>Responses and keyrings\<close>

lemma onInstance_eq_Inr:
  "onInstance e m am = Inr (Inr x, am') \<longleftrightarrow> (\<exists>d d'. map_of (am_dkgInstances am) e = Some d \<and> m d = Inr (Inr x, d') \<and>
     am' = am\<lparr>am_dkgInstances := AList.update e d' (am_dkgInstances am)\<rparr>)"
  by (cases "map_of (am_dkgInstances am) e") (auto simp: onInstance_def)

lemma onMachine_eq_Inr:
  "onMachine m s = Inr (Inr x, s') \<longleftrightarrow> snd s' = snd s \<and> m (fst s) = Inr (Inr x, fst s')"
  by (cases s, cases s', cases "m (fst s)") (auto simp: onMachine_def)

lemma case_fail_eq_Inr:
  "(case r of Inl e \<Rightarrow> failM (f e) | Inr y \<Rightarrow> k y) s = Inr (Inr x, s') \<longleftrightarrow> (\<exists>y. r = Inr y \<and> k y s = Inr (Inr x, s'))"
  by (auto simp: failM_def split: sum.split)

lemmas air_success = success_simps onInstance_eq_Inr onMachine_eq_Inr dkgExists_eq answer_eq_Inr case_fail_eq_Inr

text \<open>Storing the deals of the others keeps the own number of the instance.\<close>

lemma storeDeals_number:
  "stays (\<lambda>am. \<exists>d. map_of (am_dkgInstances am) e = Some d \<and> dkg_ParticipantID d = i) (storeDeals env e j payload)"
proof -
  let ?I = "\<lambda>am. \<exists>d. map_of (am_dkgInstances am) e = Some d \<and> dkg_ParticipantID d = i"
  have "stays ?I (onInstance e (updateM (StoreDeal u deal)))" for u deal
    by (auto simp: keeps_def onInstance_def updateM_def StoreDeal_def map_of_update)
  moreover have "stays ?I (decryptDataFromParticipant env bz)" for bz
    unfolding decryptDataFromParticipant_def by (intro stays_rules TrueI)
  ultimately show ?thesis unfolding storeDeals_def by (intro stays_rules stays_forM TrueI)
qed

lemma responses_run:
  assumes "handleStateDkgResponsesAwaitConfirmations env (am, oper) = Inr (Inr u, (am', oper'))"
  obtains d' rs bz reqBz where "map_of (am_dkgInstances am') (op_DKGIdentifier oper) = Some d'"
    "list_all2 (deal_checked (ae_kyber env) (dkg_pubKeys d') (dkg_commits d'))
       (filter (\<lambda>deal. ky_deal_Index (ae_kyber env) deal \<noteq> word_of_int (dkg_ParticipantID d')) (map snd (dkg_deals d'))) rs"
    "ky_MarshalResponses (ae_kyber env) rs = Inr bz"
    "ae_Marshal_request env (ReqDkgResponse \<lparr>rr_ParticipantId = dkg_ParticipantID d', rr_Response = bz,
       rr_CreatedAt = op_CreatedAt oper\<rparr>) = Inr reqBz"
    "oper' = withAnswer EventDKGResponseConfirmationReceived reqBz oper"
proof -
  let ?K = "ae_kyber env" and ?e = "op_DKGIdentifier oper"
  from assms obtain d payload am1 d1 d2 rs bz reqBz where d: "map_of (am_dkgInstances am) ?e = Some d"
    and st: "storeDeals env ?e (dkg_ParticipantID d) payload am = Inr (Inr (), am1)"
    and d1: "map_of (am_dkgInstances am1) ?e = Some d1" and p: "ProcessDeals ?K d1 = Inr (Inr rs, d2)"
    and fin: "ky_MarshalResponses ?K rs = Inr bz"
      "ae_Marshal_request env (ReqDkgResponse \<lparr>rr_ParticipantId = dkg_ParticipantID d, rr_Response = bz,
         rr_CreatedAt = op_CreatedAt oper\<rparr>) = Inr reqBz"
      "am' = am1\<lparr>am_dkgInstances := AList.update ?e d2 (am_dkgInstances am1)\<rparr>"
      "oper' = withAnswer EventDKGResponseConfirmationReceived reqBz oper"
    by (auto simp: handleStateDkgResponsesAwaitConfirmations_def readOperation_def air_success)
  from keepsD[OF storeDeals_number _ st, of "dkg_ParticipantID d"] d d1 have "dkg_ParticipantID d1 = dkg_ParticipantID d" by auto
  moreover from p have "processDeals ?K (dkg_deals d1) [] d1 = Inr (Inr rs, d2)" by (simp add: ProcessDeals_def success_simps)
  note processDeals_checked[OF this]
  ultimately show thesis using fin by (intro that[of d2 rs bz reqBz]) (auto simp: map_of_update)
qed

lemma storeAllResponses_db:
  "stays (\<lambda>am. am_db am = db \<and> am_encryptionKey am = key) (storeAllResponses env e payload)"
  unfolding storeAllResponses_def
  by (intro stays_rules stays_forM stays_onInstance) auto

lemma master_key_run:
  assumes "handleStateDkgMasterKeyAwaitConfirmations env (am, oper) = Inr (Inr u, (am', oper'))"
  obtains am1 d kr pub pubBz polyBz reqBz where "map_of (am_dkgInstances am1) (op_DKGIdentifier oper) = Some d"
    "GetBLSKeyring (ae_kyber env) d = Inr kr" "GetDistributedPublicKey (ae_kyber env) d = Inr (Inr pub)"
    "ky_MarshalPoint (ae_kyber env) pub = Inr pubBz" "PubPolyBytes (ae_kyber env) kr = Inr polyBz"
    "saveBLSKeyring env (op_DKGIdentifier oper) kr am1 = Inr (Inr (), am')"
    "ae_Marshal_request env (ReqDkgMasterKey \<lparr>mk_ParticipantId = dkg_ParticipantID d, mk_MasterKey = pubBz,
       mk_CreatedAt = op_CreatedAt oper, mk_PubPolyBz = polyBz\<rparr>) = Inr reqBz"
    "oper' = withAnswer EventDKGMasterKeyConfirmationReceived reqBz oper"
    "am_db am1 = am_db am" "am_encryptionKey am1 = am_encryptionKey am"
proof -
  let ?K = "ae_kyber env" and ?e = "op_DKGIdentifier oper"
  from assms obtain payload am0 d0 d kr pub pubBz polyBz reqBz where
    st: "storeAllResponses env ?e payload am = Inr (Inr (), am0)"
    and d: "ProcessResponses ?K d0 = Inr (Inr (), d)"
    and fin: "GetBLSKeyring ?K d = Inr kr" "GetDistributedPublicKey ?K d = Inr (Inr pub)"
      "ky_MarshalPoint ?K pub = Inr pubBz" "PubPolyBytes ?K kr = Inr polyBz"
      "saveBLSKeyring env ?e kr (am0\<lparr>am_dkgInstances := AList.update ?e d (am_dkgInstances am0)\<rparr>) = Inr (Inr (), am')"
      "ae_Marshal_request env (ReqDkgMasterKey \<lparr>mk_ParticipantId = dkg_ParticipantID d, mk_MasterKey = pubBz,
         mk_CreatedAt = op_CreatedAt oper, mk_PubPolyBz = polyBz\<rparr>) = Inr reqBz"
      "oper' = withAnswer EventDKGMasterKeyConfirmationReceived reqBz oper"
    by (auto simp: handleStateDkgMasterKeyAwaitConfirmations_def readOperation_def air_success map_of_update)
  from keepsD[OF storeAllResponses_db _ st] have "am_db am0 = am_db am" "am_encryptionKey am0 = am_encryptionKey am" by auto
  with fin show thesis by (intro that[OF _ fin(1-4) fin(5) fin(6,7)]) (simp_all add: map_of_update)
qed

lemma storeAllCommits_suite: "stays (\<lambda>am. am_baseSuite am = suite) (storeAllCommits env e payload)"
  unfolding storeAllCommits_def
  by (intro stays_rules stays_forM stays_onInstance) auto

lemma deals_run:
  assumes "handleStateDkgDealsAwaitConfirmations env (am, oper) = Inr (Inr u, (am', oper'))"
  obtains d g g' deals ms m where "map_of (am_dkgInstances am') (op_DKGIdentifier oper) = Some d"
    "ky_Deals (ae_kyber env) g = (Inr deals, g')" "op_ResultMsgs oper' = op_ResultMsgs oper @ ms @ [m]"
    "list_all2 (deal_message env d (am_baseSuite am) oper) deals ms"
    "DKG_GetParticipantByIndex d (dkg_ParticipantID d) = Inr (RecipientAddr m)"
    "ae_Marshal_request env (ReqDkgDeal \<lparr>dlr_ParticipantId = dkg_ParticipantID d,
       dlr_Deal = string_bytes ''self-confirm'', dlr_CreatedAt = op_CreatedAt oper\<rparr>) = Inr (Data m)"
proof -
  let ?K = "ae_kyber env" and ?e = "op_DKGIdentifier oper"
  from assms obtain payload am0 am1 d0 d deals oper1 where
    st: "storeAllCommits env ?e payload am = Inr (Inr (), am0)"
    and d: "GetDeals ?K d0 = Inr (Inr deals, d)"
    and am1: "am1 = am0\<lparr>am_dkgInstances := AList.update ?e d (am_dkgInstances am0)\<rparr>"
    and send: "forM (sendDeal env) deals (am1, oper) = Inr (Inr (), (am', oper1))"
    and conf: "confirmDeals env (am', oper1) = Inr (Inr (), (am', oper'))"
    by (auto simp: handleStateDkgDealsAwaitConfirmations_def readOperation_def air_success confirmDeals_def)
  from keepsD[OF storeAllCommits_suite refl st] have suite: "am_baseSuite am1 = am_baseSuite am" by (simp add: am1)
  have inst: "map_of (am_dkgInstances am1) ?e = Some d" by (simp add: am1 map_of_update)
  from sendDeals_run[OF this send] obtain ms where s: "am_dkgInstances am' = am_dkgInstances am1"
    "op_DKGIdentifier oper1 = ?e" "op_CreatedAt oper1 = op_CreatedAt oper" "op_ResultMsgs oper1 = op_ResultMsgs oper @ ms"
    "list_all2 (deal_message env d (am_baseSuite am1) oper) deals ms" by blast
  from conf s(1-3) inst obtain self bz where c: "DKG_GetParticipantByIndex d (dkg_ParticipantID d) = Inr self"
    "ae_Marshal_request env (ReqDkgDeal \<lparr>dlr_ParticipantId = dkg_ParticipantID d,
       dlr_Deal = string_bytes ''self-confirm'', dlr_CreatedAt = op_CreatedAt oper\<rparr>) = Inr bz"
    "oper' = withAnswer EventDKGDealConfirmationReceived bz (oper1\<lparr>op_To := self\<rparr>)"
    by (auto simp: confirmDeals_def readOperation_def air_success)
  from d obtain g g' where "ky_Deals ?K g = (Inr deals, g')" by (auto simp: GetDeals_def success_simps callGenerator_eq_Inr)
  with s inst c suite show thesis
    by (intro that[of d g deals g' ms "last (op_ResultMsgs oper')"]) (simp_all add: withAnswer_def Let_def air_createMessage_def)
qed

section \<open>Signing\<close>

text \<open>The messages are signed in order, each with the share of the round's keyring.\<close>

lemma signMessages_run:
  assumes "signMessages env e msgs acc am = Inr (Inr signs, am')"
  shows "am' = am \<and> (\<exists>new. signs = acc @ new \<and> map ps_MessageID new = map mts_MessageID msgs \<and>
    list_all2 (\<lambda>m s. \<exists>kr share. loadBLSKeyring env e am = Inr (Inr kr, am) \<and> kr_Share kr = Some share \<and>
      ky_Sign (ae_kyber env) (am_baseSuite am) share (mts_Payload m) = Inr (ps_Sign s)) msgs new)"
  using assms
proof (induction msgs arbitrary: acc)
  case (Cons m msgs)
  from Cons.prems obtain kr share sig where s: "loadBLSKeyring env e am = Inr (Inr kr, am)" "kr_Share kr = Some share"
    "ky_Sign (ae_kyber env) (am_baseSuite am) share (mts_Payload m) = Inr sig"
    and rest: "signMessages env e msgs (acc @ [\<lparr>ps_MessageID = mts_MessageID m, ps_Sign = sig\<rparr>]) am = Inr (Inr signs, am')"
    by (auto simp: createPartialSign_def success_simps loadBLSKeyring_iff)
  from Cons.IH[OF rest] obtain new where "am' = am" "signs = acc @ [\<lparr>ps_MessageID = mts_MessageID m, ps_Sign = sig\<rparr>] @ new"
    "map ps_MessageID new = map mts_MessageID msgs"
    "list_all2 (\<lambda>m s. \<exists>kr share. loadBLSKeyring env e am = Inr (Inr kr, am) \<and> kr_Share kr = Some share \<and>
      ky_Sign (ae_kyber env) (am_baseSuite am) share (mts_Payload m) = Inr (ps_Sign s)) msgs new" by auto
  with s show ?case by (intro conjI exI[of _ "\<lparr>ps_MessageID = mts_MessageID m, ps_Sign = sig\<rparr> # new"]) auto
qed (simp add: success_simps)

lemma signing_run:
  assumes "handleStateSigningAwaitPartialSigns env (am, oper) = Inr (Inr u, (am', oper'))"
  obtains payload tasks msgs d signs bz where "ae_invitation env (op_Payload oper) = Inr payload"
    "ae_tasks env payload = Inr tasks" "TasksToMessages (ae_baked env) tasks = Inr (Inr msgs)"
    "map_of (am_dkgInstances am) (op_DKGIdentifier oper) = Some d"
    "signMessages env (op_DKGIdentifier oper) msgs [] am = Inr (Inr signs, am')"
    "ae_Marshal_request env (ReqPartialSigns \<lparr>bp_BatchID = pir_BatchID payload, bp_ParticipantId = dkg_ParticipantID d,
       bp_PartialSigns = signs, bp_CreatedAt = op_CreatedAt oper\<rparr>) = Inr bz"
    "oper' = withAnswer EventSigningPartialSignReceived bz oper"
  using assms
  by (auto simp: handleStateSigningAwaitPartialSigns_def readOperation_def air_success getParticipantID_def getInstance_def
      split: option.split_asm)

section \<open>Numbers of participants\<close>

lemma commits_run:
  assumes "handleStateDkgCommitsAwaitConfirmations env (am, oper) = Inr (Inr u, (am', oper'))"
    and "ae_pubkeys env (op_Payload oper) = Inr payload"
  obtains d am1 where "newInstance env (op_DKGIdentifier oper) payload am = Inr (Inr d, am1)"
    "map_of (am_dkgInstances am') (op_DKGIdentifier oper) = Some d"
  using assms
  by (auto simp: handleStateDkgCommitsAwaitConfirmations_def readOperation_def air_success map_of_update split: if_split_asm)

lemma numbers_agree:
  assumes roster: "roster_ok p" "sig_quorum p = Some q" and "newInstance env e (map Some (map (pubkey_entry t) q)) am = Inr (Inr d, am')"
  shows "(j, w) \<in> set q \<Longrightarrow> DKG_GetParticipantByIndex d j = Inr (sp_Username w)" and "dkg_Threshold d = t"
    and "\<lbrakk>(i, v) \<in> set q; am_pubKey am = Some k; ky_UnmarshalPoint (ae_kyber env) (sp_DkgPubKey v) = Inr k;
      \<And>j w. (j, w) \<in> set q \<Longrightarrow> ky_UnmarshalPoint (ae_kyber env) (sp_DkgPubKey w) = Inr k \<Longrightarrow> j = i\<rbrakk> \<Longrightarrow> dkg_ParticipantID d = i"
proof -
  let ?es = "map (pubkey_entry t) q"
  obtain pks where pks: "list_all2 (\<lambda>e pk. ky_UnmarshalPoint (ae_kyber env) (ke_DkgPubKey e) = Inr pk) ?es pks"
    and d: "dkg_pubKeys d = map2 key_entry ?es pks" "dkg_ParticipantID d = key_position (am_pubKey am) 0 (map2 key_entry ?es pks)"
      "dkg_Threshold d = ke_Threshold (?es ! 0)" "?es \<noteq> []"
    using newInstance_run[OF assms(3) roster_entries[OF roster]] by metis
  from list_all2_lengthD[OF pks] have len: "length pks = length q" by simp
  have nth: "map2 key_entry ?es pks ! k = key_entry (pubkey_entry t (q ! k)) (pks ! k)" if "k < length q" for k
    using that len by simp
  have pk: "ky_UnmarshalPoint (ae_kyber env) (sp_DkgPubKey (snd (q ! k))) = Inr (pks ! k)" if "k < length q" for k
    using list_all2_nthD[OF pks, of k] that by (simp add: pubkey_entry_def)
  show "dkg_Threshold d = t" using d(3,4) by (cases q) (simp_all add: pubkey_entry_def)
  {
    assume "(j, w) \<in> set q"
    then obtain k where "k < length q" "j = int k" "q ! k = (j, w)" by (rule roster_nth[OF roster])
    then show "DKG_GetParticipantByIndex d j = Inr (sp_Username w)"
      using len by (simp add: DKG_GetParticipantByIndex_def d(1) participant_by_index nth key_entry_def pubkey_entry_def)
  }
  assume v: "(i, v) \<in> set q" and own: "am_pubKey am = Some k" "ky_UnmarshalPoint (ae_kyber env) (sp_DkgPubKey v) = Inr k"
    and unique: "\<And>j w. (j, w) \<in> set q \<Longrightarrow> ky_UnmarshalPoint (ae_kyber env) (sp_DkgPubKey w) = Inr k \<Longrightarrow> j = i"
  from v obtain n where n: "n < length q" "i = int n" "q ! n = (i, v)" by (rule roster_nth[OF roster])
  have "key_position (Some k) 0 (map2 key_entry ?es pks) = 0 + int n"
  proof (rule key_position_unique)
    show "n < length (map2 key_entry ?es pks)" using n(1) len by simp
    show "pk_PK (map2 key_entry ?es pks ! n) = k" using pk[OF n(1)] n own(2) nth[OF n(1)] by (simp add: key_entry_def)
  next
    fix m
    assume "m < length (map2 key_entry ?es pks)" and m: "pk_PK (map2 key_entry ?es pks ! m) = k"
    then have "m < length q" using len by simp
    with m pk[OF this] nth[OF this] have "ky_UnmarshalPoint (ae_kyber env) (sp_DkgPubKey (snd (q ! m))) = Inr k"
      by (simp add: key_entry_def)
    with unique[of "fst (q ! m)" "snd (q ! m)"] \<open>m < length q\<close> have "fst (q ! m) = i" by simp
    moreover from roster have "keys q ! m = int m" using \<open>m < length q\<close> by (simp add: roster_ok_def)
    ultimately show "m = n" using n(2) \<open>m < length q\<close> by simp
  qed
  with d(2) own(1) n(2) show "dkg_ParticipantID d = i" by simp
qed

end
