(* ===== verification/Sample_Airgapped.thy ===== *)
theory Sample_Airgapped
  imports Airgapped_Replay Airgapped_Dkg Sample_Node
begin

text \<open>
  The airgapped machine of Alice in the sample round, evaluated in the kernel.  The environment has a
  database in memory, a cipher that does not hide anything and a distributed key with fixed values;
  the theorems about the machine are instantiated on it.
\<close>

section \<open>The environment\<close>

type_synonym sample_kyber = "(bytes, bytes, nat, 32 word, 32 word \<times> bool, bytes) kyber"
type_synonym sample_machine = "((string, bytes) gomap, bytes, bytes, nat, 32 word, 32 word \<times> bool) air_machine"
type_synonym sample_DKG = "(bytes, bytes, nat, 32 word, 32 word \<times> bool) DKG"

definition sample_keyring_json :: blsKeyringJSON where
  "sample_keyring_json = \<lparr>bj_Commitments = [[9], [8]], bj_Share = [7]\<rparr>"

definition air_kyber :: sample_kyber where
  "air_kyber =
    \<lparr>ky_UnmarshalPoint = Inr, ky_BadPoint = id, ky_MarshalPoint = Inr, ky_UnmarshalScalar = Inr, ky_BadScalar = id,
     ky_MarshalScalar = Inr, ky_Pick = (\<lambda>_ _. sample_key 2), ky_Mul = id,
     ky_NewDistKeyGenerator = (\<lambda>_ _ _ _ _. Inr 0), ky_Commits = (\<lambda>_. [[1], [2]]),
     ky_Deals = (\<lambda>g. (Inr [(1, 0)], g)), ky_deal_Index = id, ky_deal_Equal = (=),
     ky_ProcessDeal = (\<lambda>g d. (Inr (0, True), Suc g)), ky_DecryptDeal = (\<lambda>g i d. Inr (Inr [[1], [2]])),
     ky_resp_Response = Some, ky_ProcessResponse = (\<lambda>g r. (None, Suc g)), ky_Certified = (\<lambda>_. True),
     ky_DistKeyShare = (\<lambda>_. Inr ([9], [[9], [8]], [7])), ky_Sign = (\<lambda>_ h m. Inr (h @ m)),
     ky_Verify = (\<lambda>_ _ _ _. None), ky_Encrypt = (\<lambda>_ _ pk b. Inr (pk @ b)), ky_Decrypt = (\<lambda>_ _ b. Inr (drop 32 b)),
     ky_gobShare = Inr, ky_ungobShare = Inr, ky_gobCommitments = (\<lambda>_. None),
     ky_MarshalKeyring = (\<lambda>j. if j = sample_keyring_json then Inr [5]
       else if j = sample_keyring_json\<lparr>bj_Share := []\<rparr> then Inr [6] else Inl (errorsNew ''json'')),
     ky_UnmarshalKeyring = (\<lambda>b. if b = [5] then Inr sample_keyring_json
       else if b = [6] then Inr (sample_keyring_json\<lparr>bj_Share := []\<rparr>) else Inl (errorsNew ''json'')),
     ky_MarshalDeal = (\<lambda>d. Inr [ucast d]), ky_UnmarshalDeal = (\<lambda>b. Inr (ucast (hd b))),
     ky_MarshalResponses = (\<lambda>_. Inr [3]), ky_UnmarshalResponses = (\<lambda>_. Inr [Some (1, True)])\<rparr>"

text \<open>The operations that the machine gets: one for each step of the DKG, one to sign, one to replay the first.\<close>

definition air_oper :: "State \<Rightarrow> 8 word \<Rightarrow> Operation" where
  "air_oper type k = \<lparr>op_ID = ''00001'', op_Type = type, op_Payload = [k, 0], op_ResultMsgs = [], op_CreatedAt = 5,
     op_DKGIdentifier = ''round'', op_To = '''', op_Event = '''', op_ExtraData = []\<rparr>"

definition air_entries :: "DKGProposalPubKeysParticipantEntry list" where
  "air_entries = [\<lparr>ke_ParticipantId = 0, ke_Username = ''alice'', ke_DkgPubKey = sample_key 2, ke_Threshold = 2\<rparr>,
     \<lparr>ke_ParticipantId = 1, ke_Username = ''bob'', ke_DkgPubKey = sample_key 4, ke_Threshold = 2\<rparr>]"

definition air_commits_oper :: Operation where
  "air_commits_oper = air_oper StateDkgCommitsAwaitConfirmations 1"

definition air_log_json :: RoundOperationLog where
  "air_log_json = [(''round'', [air_commits_oper])]"

definition air_sample :: "((string, bytes) gomap, bytes, bytes, nat, 32 word, 32 word \<times> bool, bytes) air_env" where
  "air_sample =
    \<lparr>ae_leveldb = memdb, ae_OpenTransaction = Inr, ae_Commit = (\<lambda>db tx. (None, tx)),
     ae_Iterate = (\<lambda>db prefix. (filter (\<lambda>(k, v). HasPrefix k prefix) db, None)),
     ae_kyber = air_kyber, ae_scrypt = (\<lambda>k s. Inr (k @ s)), ae_NewCipher = (\<lambda>_. None), ae_NewGCM = (\<lambda>_. None),
     ae_Seal = (\<lambda>_ _ t. t), ae_Open = (\<lambda>_ _ t. Inr t), ae_random = (\<lambda>_ n. Inr (replicate n 0)),
     ae_NewEntropy = (\<lambda>_. Inr []), ae_NewMnemonic = (\<lambda>_. Inr ''word''), ae_EntropyFromMnemonic = (\<lambda>_. None),
     ae_pbkdf2 = (\<lambda>_ _. sample_key 0), ae_sha256 = id, ae_Error = (\<lambda>_. ''error''),
     ae_baked = \<lparr>bk_ValidatorsIndexes = [], bk_GetSigningRoot = (\<lambda>_. Inl (errorsNew ''root''))\<rparr>,
     ae_Marshal_log = (\<lambda>l. if l = [] then Inr [0] else if l = air_log_json then Inr [1] else Inl (errorsNew ''json'')),
     ae_Unmarshal_log = (\<lambda>b. if b = [0] then Inr (Some []) else if b = [1] then Inr (Some air_log_json)
       else Inl (errorsNew ''json'')),
     ae_Marshal_operation = (\<lambda>_. Inr [6]), ae_Marshal_request = (\<lambda>_. Inr [4]), ae_Marshal_commits = (\<lambda>_. Inr [2]),
     ae_operations = (\<lambda>b. if b = [6, 0] then Inr [air_oper StateDkgCommitsAwaitConfirmations 1\<lparr>op_Payload := [1]\<rparr>]
       else Inl (errorsNew ''json'')),
     ae_pubkeys = (\<lambda>_. Inr (map Some air_entries)),
     ae_commits = (\<lambda>_. Inr [Some \<lparr>ce_ParticipantId = 1, ce_Username = ''bob'', ce_DkgCommit = [2]\<rparr>]),
     ae_commit = (\<lambda>_. Inr [[1], [2]]),
     ae_deals = (\<lambda>_. Inr [Some \<lparr>dle_ParticipantId = 1, dle_Username = ''bob'', dle_DkgDeal = sample_key 2 @ [1]\<rparr>]),
     ae_responses = (\<lambda>_. Inr [Some \<lparr>re_ParticipantId = 1, re_Username = ''bob'', re_DkgResponse = [3]\<rparr>]),
     ae_invitation = (\<lambda>_. Inr \<lparr>pir_BatchID = ''batch'', pir_InitiatorId = 0, pir_Participants = [], pir_SrcPayload = []\<rparr>),
     ae_tasks = (\<lambda>_. Inr [\<lparr>st_MessageID = ''m1'', st_File = ''f1'', st_Payload = Some [1], st_RangeStart = 0, st_RangeEnd = 0\<rparr>,
       \<lparr>st_MessageID = ''m2'', st_File = ''f2'', st_Payload = Some [2], st_RangeStart = 0, st_RangeEnd = 0\<rparr>]),
     ae_OpenFile = (\<lambda>_. None), ae_Write = (\<lambda>_ b. (length b, None))\<rparr>"

lemma air_sample_simps [simp]:
  "ae_leveldb air_sample = memdb" "ae_kyber air_sample = air_kyber" "ae_sha256 air_sample = id"
  "ae_Error air_sample = (\<lambda>_. ''error'')" "ae_Marshal_operation air_sample = (\<lambda>_. Inr [6])"
  "ae_Marshal_request air_sample = (\<lambda>_. Inr [4])" "ae_Marshal_commits air_sample = (\<lambda>_. Inr [2])"
  "ae_pubkeys air_sample = (\<lambda>_. Inr (map Some air_entries))" "ae_OpenFile air_sample = (\<lambda>_. None)"
  "ae_Write air_sample = (\<lambda>_ b. (length b, None))"
  "ae_Marshal_log air_sample = (\<lambda>l. if l = [] then Inr [0] else if l = air_log_json then Inr [1] else Inl (errorsNew ''json''))"
  "ae_Unmarshal_log air_sample = (\<lambda>b. if b = [0] then Inr (Some []) else if b = [1] then Inr (Some air_log_json)
     else Inl (errorsNew ''json''))"
  by (simp_all add: air_sample_def)

lemma air_kyber_simps [simp]:
  "ky_UnmarshalPoint air_kyber = Inr" "ky_MarshalPoint air_kyber = Inr"
  "ky_NewDistKeyGenerator air_kyber = (\<lambda>_ _ _ _ _. Inr 0)" "ky_Commits air_kyber = (\<lambda>_. [[1], [2]])"
  by (simp_all add: air_kyber_def)

section \<open>The laws\<close>

lemma air_sample_ok: "requests_encode air_sample" "log_ok air_sample" "cipher_ok air_sample" "keyring_codec_ok air_kyber"
proof -
  show "requests_encode air_sample" by (simp add: requests_encode_def)
  show "log_ok air_sample" using memdb_ok by (auto simp: log_ok_def)
  show "cipher_ok air_sample" by (simp add: cipher_ok_def air_sample_def)
  show "keyring_codec_ok air_kyber" by (auto simp: keyring_codec_ok_def air_kyber_def)
qed

section \<open>The machine\<close>

definition air0 :: sample_machine where
  "air0 = \<lparr>am_ResultFolder = ''results'', am_dkgInstances = [], am_encryptionKey = [1], am_pubKey = Some (sample_key 2),
     am_secKey = Some (sample_key 2), am_baseSuite = sample_key 0, am_baseSeed = sample_key 0,
     am_db = [(saltDBKey, [3]), (operationsLogDBKey, [0])], am_files = [], am_rand = 0\<rparr>"

definition air_keys :: "bytes PKStore" where
  "air_keys = [\<lparr>pk_ParticipantID = 0, pk_Participant = ''alice'', pk_PK = sample_key 2\<rparr>,
     \<lparr>pk_ParticipantID = 1, pk_Participant = ''bob'', pk_PK = sample_key 4\<rparr>]"

definition air_dkg :: sample_DKG where
  "air_dkg = \<lparr>dkg_instance = Some 0, dkg_deals = [], dkg_commits = [], dkg_responses = Some (newMessageStore 1),
     dkg_pubKeys = air_keys, dkg_pubKey = Some (sample_key 2), dkg_secKey = Some (sample_key 2),
     dkg_suite = string_bytes ''round'' @ sample_key 0, dkg_ParticipantID = 0, dkg_N = 2, dkg_Threshold = 2\<rparr>"

lemma sample_keys_differ: "sample_key 2 \<noteq> sample_key 4"
  by (simp add: sample_key_def)

lemma air0_core: "core am = core air0 \<Longrightarrow> am_dkgInstances am = [] \<and> am_pubKey am = Some (sample_key 2) \<and>
    am_secKey am = Some (sample_key 2) \<and> am_baseSuite am = sample_key 0 \<and> am_baseSeed am = sample_key 0"
  by (simp add: core_def air0_def)

lemma air_newInstance:
  "core am = core air0 \<Longrightarrow> newInstance air_sample ''round'' (map Some air_entries) am = Inr (Inr air_dkg, am)"
  using sample_keys_differ air0_core[of am]
  by (simp add: newInstance_def air_entries_def monad_defs localM_def slice_at_def storePubKeys_def StorePubKey_def
      PKStore_Add_def dkg_Init_def InitDKGInstance_def PKStore_Sort_def calcParticipantID_def GetPKs_def air_dkg_def air_keys_def
      sample_key_def)

definition air_started :: "sample_machine \<Rightarrow> sample_machine" where
  "air_started am = am\<lparr>am_dkgInstances := [(''round'', air_dkg)]\<rparr>"

definition air_commits_result :: Operation where
  "air_commits_result = withAnswer EventDKGCommitConfirmationReceived [4] air_commits_oper"

lemma air_commits_run:
  assumes "core am = core air0"
  shows "handleStateDkgCommitsAwaitConfirmations air_sample (am, air_commits_oper) =
    Inr (Inr (), (air_started am, air_commits_result))"
proof -
  have f: "findParticipant air_kyber (am_pubKey am) (map Some air_entries) = Inr (Inr 0)"
    using air0_core[OF assms] by (simp add: air_entries_def)
  have d: "op_DKGIdentifier air_commits_oper = ''round''" by (simp add: air_commits_oper_def air_oper_def)
  have z: "am_dkgInstances am = []" using air0_core[OF assms] by simp
  have g: "GetCommits air_kyber air_dkg = Inr [[1], [2]]" by (simp add: GetCommits_def air_dkg_def)
  show ?thesis
    by (simp add: handleStateDkgCommitsAwaitConfirmations_def readOperation_def monad_defs wrapE_def answer_run air_commits_result_def
        air_started_def f d z g onMachine_def air_newInstance[OF assms])
qed

lemma air_commits_answered:
  assumes "core am = core air0"
  shows "GetOperationResult air_sample air_commits_oper am = Inr (Inr air_commits_result, air_started am)"
proof -
  have "op_Type air_commits_oper = StateDkgCommitsAwaitConfirmations" by (simp add: air_commits_oper_def air_oper_def)
  then have "handleOperation air_sample rec (am, air_commits_oper) = Inr (Inr (), (air_started am, air_commits_result))" for rec
    using air_commits_run[OF assms] by (simp add: handleOperation_eq stateHandler_def fsm_const)
  then show ?thesis by (simp add: GetOperationResult_def resultOf_run)
qed

text \<open>The name of the result file.\<close>

definition air_path :: "string \<times> string" where
  "air_path = (''results'', (case Operation_Filename (ae_invitation air_sample) air_commits_oper of
     Inl _ \<Rightarrow> '''' | Inr name \<Rightarrow> name) @ ''_result.json'')"

definition air2 :: sample_machine where
  "air2 = air0\<lparr>am_dkgInstances := [(''round'', air_dkg)], am_db := [(saltDBKey, [3]), (operationsLogDBKey, [1])], am_files := [(air_path, [6])]\<rparr>"

lemma air_process:
  assumes "GetOperationResult air_sample air_commits_oper am = Inr (Inr air_commits_result, am1)"
    and "(if store then storeOperation air_sample air_commits_oper else retM ()) am1 = Inr (Inr (), am2)"
    and "am_ResultFolder am2 = ''results''"
  shows "air_ProcessOperation air_sample air_commits_oper store am = Inr (Inr air_path, am2\<lparr>am_files :=
    AList.update air_path (6 # drop 1 (get_list (am_files am2) air_path)) (am_files am2)\<rparr>)"
proof -
  have "\<not> IsSigningState (Some air_commits_oper)"
    by (simp add: IsSigningState_def HasPrefix_def air_commits_oper_def air_oper_def fsm_const)
  moreover obtain name where "Operation_Filename (ae_invitation air_sample) air_commits_oper = Inr name"
    by (simp add: Operation_Filename_def slice5_def air_commits_oper_def air_oper_def Let_def)
  ultimately show ?thesis
    using assms by (cases store) (simp_all add: air_path_def air_ProcessOperation_def writeFile_def Let_def monad_defs)
qed

lemma air_processed: "processAll air_sample [air_commits_oper] air0 = Inr (Inr (), air2)"
proof -
  have "op_DKGIdentifier air_commits_oper = ''round''" by (simp add: air_commits_oper_def air_oper_def)
  then have "storeOperation air_sample air_commits_oper (air_started air0) =
      Inr (Inr (), (air_started air0)\<lparr>am_db := [(saltDBKey, [3]), (operationsLogDBKey, [1])]\<rparr>)"
    by (simp add: storeOperation_def readLog_def getRoundOperationLog_def writeLog_def dbGet_def dbPut_def monad_defs air_started_def
        air0_def memdb_def get_list_def entries_def air_log_json_def fsm_const)
  from air_process[of air0 _ True, simplified, OF air_commits_answered this] show ?thesis
    by (simp add: processAll_def monad_defs air2_def air_started_def air0_def get_list_def)
qed

text \<open>After a restart the machine has no instances, but the database.\<close>

definition air_restarted :: sample_machine where
  "air_restarted = air0\<lparr>am_db := am_db air2\<rparr>"

lemma air_replayed: "ReplayOperationsLog air_sample ''round'' air_restarted = Inr (Inr (), air2)"
proof -
  have core: "core air_restarted = core air0" by (simp add: air_restarted_def core_def)
  have "getOperationsLog air_sample ''round'' air_restarted = Inr (Inr [air_commits_oper], air_restarted)"
    by (simp add: getOperationsLog_def readLog_def getRoundOperationLog_def dbGet_def monad_defs air_restarted_def air2_def memdb_def
        entries_def air_log_json_def fsm_const)
  with air_process[of air_restarted _ False, OF air_commits_answered[OF core]] show ?thesis
    by (simp add: ReplayOperationsLog_def monad_defs air2_def air_started_def air_restarted_def air0_def get_list_def)
qed

section \<open>The later steps\<close>

lemma air_oper_simps [simp]:
  "op_Type (air_oper type k) = type" "op_DKGIdentifier (air_oper type k) = ''round''" "op_ResultMsgs (air_oper type k) = []"
  "op_Payload (air_oper type k) = [k, 0]" "op_CreatedAt (air_oper type k) = 5" "op_To (air_oper type k) = ''''"
  by (simp_all add: air_oper_def)

definition air_deals :: sample_machine where
  "air_deals = air0\<lparr>am_rand := 1, am_dkgInstances := [(''round'', air_dkg\<lparr>dkg_commits := [(''bob'', [[1], [2]])]\<rparr>)]\<rparr>"

lemma air_deals_run:
  "\<exists>oper'. handleStateDkgDealsAwaitConfirmations air_sample (air_started air0, air_oper StateDkgDealsAwaitConfirmations 2) =
    Inr (Inr (), (air_deals, oper'))"
  using sample_keys_differ
  by (simp add: handleStateDkgDealsAwaitConfirmations_def readOperation_def monad_defs onMachine_def dkgExists_def getInstance_def
      storeAllCommits_def onInstance_def StoreCommits_def GetDeals_def callGenerator_def sendDeal_def confirmDeals_def
      encryptDataForParticipant_def DKG_GetParticipantByIndex_def PKStore_GetParticipantByIndex_def slice_at_def
      GetPubKeyByParticipant_def GetPKByParticipant_def nextRandom_def answer_run wrapE_def
      air_sample_def air_kyber_def air_started_def air0_def air_dkg_def air_keys_def air_deals_def withAnswer_def Let_def)

definition air_responses :: sample_machine where
  "air_responses = air_deals\<lparr>am_dkgInstances := [(''round'', air_dkg\<lparr>dkg_commits := [(''bob'', [[1], [2]])],
     dkg_deals := [(''bob'', 1)], dkg_instance := Some 1\<rparr>)]\<rparr>"

lemma air_responses_run:
  "\<exists>oper'. handleStateDkgResponsesAwaitConfirmations air_sample (air_deals, air_oper StateDkgResponsesAwaitConfirmations 3) =
    Inr (Inr (), (air_responses, oper'))"
  by (simp add: handleStateDkgResponsesAwaitConfirmations_def readOperation_def monad_defs onMachine_def dkgExists_def getInstance_def
      storeDeals_def decryptDataFromParticipant_def onInstance_def StoreDeal_def ProcessDeals_def callGenerator_def
      processDealCommits_def PKStore_GetParticipantByIndex_def slice_at_def answer_run
      air_sample_def air_kyber_def air_started_def air0_def air_dkg_def air_keys_def air_deals_def air_responses_def sample_key_def)

definition air_finished :: sample_machine where
  "air_finished = air_responses\<lparr>am_rand := 2, am_db := [(saltDBKey, [3]), (operationsLogDBKey, [0]),
       (makeBLSKeyKeyringDBKey ''round'', replicate 12 0 @ [5])],
     am_dkgInstances := [(''round'', air_dkg\<lparr>dkg_commits := [(''bob'', [[1], [2]])], dkg_deals := [(''bob'', 1)],
       dkg_responses := Some (messageStore_add ''bob'' 1 (1, True) (newMessageStore 1)), dkg_instance := Some 2\<rparr>)]\<rparr>"

lemma air_master_key_run:
  "\<exists>oper'. handleStateDkgMasterKeyAwaitConfirmations air_sample (air_responses, air_oper StateDkgMasterKeyAwaitConfirmations 4) =
    Inr (Inr (), (air_finished, oper'))"
  by (simp add: handleStateDkgMasterKeyAwaitConfirmations_def readOperation_def monad_defs onMachine_def dkgExists_def getInstance_def
      storeAllResponses_def onInstance_def StoreResponses_def ProcessResponses_def callGenerator_def GetDistributedPublicKey_def
      GetBLSKeyring_def saveBLSKeyring_def readSalt_def dbGet_def dbPut_def encrypt_def deriveCipher_def nextRandom_def
      BLSKeyring_Bytes_def PubPolyBytes_def marshalCommitments_def wrapE_def answer_run memdb_def
      air_sample_def air_kyber_def air_started_def air0_def air_dkg_def air_keys_def air_deals_def air_responses_def air_finished_def
      sample_keyring_json_def messageStore_add_def newMessageStore_def get_list_def NonceSize_def fsm_const makeBLSKeyKeyringDBKey_def)

end
