(* ===== verification/Event_Properties.thy ===== *)
theory Event_Properties
  imports Sample_Round
begin

text \<open>
  What each part of the FSM promises on its own: the construction and the dispatcher of the
  generic machine, the validation of the initial request, and the outcome of every public event
  of the three machines, each with an instance on the sample round.
\<close>

section \<open>The generic machine\<close>

text \<open>
  A machine that \<open>MustNewFSM\<close> builds has exactly the transitions its event descriptions ask
  for, one per non-empty source state and in their order, with the default mode of an auto event
  replaced by \<open>EventRunAfter\<close>; its auto table has exactly the auto ones among them; its keys are
  unique, no source is \<open>StateGlobalDone\<close>, and no final state is the source of a transition.
\<close>

theorem construction_exact:
  assumes "MustNewFSM n i evs cbs = Inr f"
  shows "fsm_transitions f = concat (map (\<lambda>d. map (\<lambda>s. ((s, ed_Name d), desc_tr d))
        (filter (\<lambda>s. s \<noteq> '''') (ed_SrcState d))) evs) \<and>
    fsm_autoTransitions f = concat (map (\<lambda>d. map (\<lambda>s. ((s, desc_mode d), desc_tr d))
        (filter (\<lambda>s. s \<noteq> '''') (ed_SrcState d))) (filter ed_IsAuto evs)) \<and>
    distinct (map fst (fsm_transitions f)) \<and> distinct (map fst (fsm_autoTransitions f)) \<and>
    StateGlobalDone \<notin> set (StatesList f) \<and>
    list_all (\<lambda>s. \<not> s \<in> set (StatesList f)) (map fst (fsm_finStates f))"
proof -
  have auto: "concat (map (\<lambda>d. desc_autos d (ed_SrcState d)) evs) =
      concat (map (\<lambda>d. map (\<lambda>s. ((s, desc_mode d), desc_tr d))
        (filter (\<lambda>s. s \<noteq> '''') (ed_SrcState d))) (filter ed_IsAuto evs))"
    by (induction evs) (simp_all add: desc_autos_def)
  have wf: "fsm_tables_ok f" "fins_ok f" using newFSM_wf[OF assms] by (simp_all add: fsm_wf_def)
  then have "StateGlobalDone \<notin> set (StatesList f)"
    unfolding set_StatesList by (intro tables_ok_no_done)
  with wf MustNewFSM_tables[OF assms] show ?thesis
    by (simp add: auto desc_rows_def fsm_tables_ok_def fins_ok_def)
qed

theorem construction_exact_witness:
  "fsm_transitions sig_fsm = concat (map (\<lambda>d. map (\<lambda>s. ((s, ed_Name d), desc_tr d))
        (filter (\<lambda>s. s \<noteq> '''') (ed_SrcState d))) signature_proposal_events) \<and>
    fsm_autoTransitions sig_fsm = concat (map (\<lambda>d. map (\<lambda>s. ((s, desc_mode d), desc_tr d))
        (filter (\<lambda>s. s \<noteq> '''') (ed_SrcState d))) (filter ed_IsAuto signature_proposal_events)) \<and>
    distinct (map fst (fsm_transitions sig_fsm)) \<and> distinct (map fst (fsm_autoTransitions sig_fsm)) \<and>
    StateGlobalDone \<notin> set (StatesList sig_fsm) \<and>
    list_all (\<lambda>s. \<not> s \<in> set (StatesList sig_fsm)) (map fst (fsm_finStates sig_fsm))"
  by (rule construction_exact[OF signature_proposal_New_eq[unfolded signature_proposal_New_def]])

text \<open>
  The dispatcher only moves along the machine's own transitions and never touches its tables:
  whatever the callbacks return, the state after \<open>Do\<close> is reached from the state before it by edges
  of the transition table, and a call without an error reports that very state in its response.
\<close>

theorem dispatch_follows_table:
  assumes "FSM_Do e args f p = Inr ((resp, err), g, p')"
  shows "g = f\<lparr>fsm_currentState := fsm_currentState g\<rparr> \<and>
    (\<lambda>s s'. \<exists>ev tr. ((s, ev), tr) \<in> set (fsm_transitions f) \<and> tr_dstState tr = s')\<^sup>*\<^sup>*
      (fsm_currentState f) (fsm_currentState g) \<and>
    (err = None \<longrightarrow> (\<exists>r. resp = Some r \<and> resp_State r = fsm_currentState g))"
proof -
  have edge: "fsm_edge f = (\<lambda>s s'. \<exists>ev tr. ((s, ev), tr) \<in> set (fsm_transitions f) \<and> tr_dstState tr = s')"
    by (force simp: fsm_edge_def list_ex_iff fun_eq_iff)
  show ?thesis
    using FSM_Do_moved[OF assms] FSM_Do_state[of e args f p resp g p'] assms
    by (auto simp: moved_def edge)
qed

theorem dispatch_follows_table_witness:
  "\<exists>resp g p'. FSM_Do EventDKGInitProcess [ReqDefault \<lparr>dr_CreatedAt = 4\<rparr>]
      (in_state dkg_fsm StateSignatureProposalCollected) (dump_Payload sample_agreed) =
      Inr ((resp, None), g, p') \<and>
    (\<lambda>s s'. \<exists>ev tr. ((s, ev), tr) \<in> set (fsm_transitions dkg_fsm) \<and> tr_dstState tr = s')\<^sup>*\<^sup>*
      StateSignatureProposalCollected (fsm_currentState g)"
proof -
  have inv: "payload_inv StateSignatureProposalCollected (dump_Payload sample_agreed)"
    using reachable_inv(1)[OF sample_agreed_reachable] by (simp add: sample_agreed_def sample_dump_def)
  have S: "StateSignatureProposalCollected \<in> set sig_states" by (simp add: sig_states_def)
  from inv have r: "roster_ok (dump_Payload sample_agreed)"
    "DKGProposalPayload (dump_Payload sample_agreed) = None"
    unfolding payload_inv_sig[OF S] by simp_all
  from r(1) obtain q where "sig_quorum (dump_Payload sample_agreed) = Some q" by (rule roster_ok_quorum)
  note run = dkg_init_Do[OF r this refl, of "\<lparr>dr_CreatedAt = 4\<rparr>"]
  from dispatch_follows_table[OF run] run show ?thesis by auto
qed

text \<open>
  An event that has no transition in the current state, or only an internal one, is refused by
  \<open>Do\<close> with no response and leaves the machine and the payload as they were: internal events
  cannot be injected from outside.
\<close>

theorem dispatch_refuses:
  assumes "case map_of (fsm_transitions f) (fsm_currentState f, e) of
      None \<Rightarrow> True | Some tr \<Rightarrow> tr_isInternal tr"
  shows "\<exists>err. FSM_Do e args f p = Inr ((None, Some err), f, p)"
  using assms by (auto simp: FSM_Do_def split: option.splits)

theorem dispatch_refuses_witness:
  "\<exists>err. FSM_Do eventSetProposalValidatedInternal [] (in_state sig_fsm StateAwaitParticipantsConfirmations)
      (dump_Payload sample_awaiting) =
    Inr ((None, Some err), in_state sig_fsm StateAwaitParticipantsConfirmations,
      dump_Payload sample_awaiting)"
  by (rule dispatch_refuses) (simp add: sig_transitions)

section \<open>Requests\<close>

text \<open>
  The validation of an initial request accepts exactly the requests with at least two
  participants, a threshold between 2 and their number, no nil participant, pairwise distinct
  usernames of 3 to 150 bytes, keys of at least 10 bytes, and a creation time.
\<close>

theorem init_request_valid:
  "SignatureProposalParticipantsListRequest_Validate r = Inr None \<longleftrightarrow>
    (\<exists>ps. pl_Participants r = map Some ps \<and> 2 \<le> length ps \<and>
       2 \<le> pl_SigningThreshold r \<and> pl_SigningThreshold r \<le> int (length ps) \<and>
       distinct (map pe_Username ps) \<and>
       list_all (\<lambda>e. 3 \<le> length (pe_Username e) \<and> length (pe_Username e) \<le> 150 \<and>
         10 \<le> length (pe_PubKey e) \<and> 10 \<le> length (pe_DkgPubKey e)) ps \<and>
       pl_CreatedAt r \<noteq> 0)"
  unfolding sig_init_valid_iff
  by (simp add: config_defs participant_ok_def [abs_def])

text \<open>
  A nil participant in an initial request makes the callback panic instead of returning an
  error: validation dereferences the pointer when the participants before it have distinct
  usernames and the counts are in range.
\<close>

theorem nil_participant_panics:
  assumes "pl_Participants r = map Some ps @ None # ys" and "distinct (map pe_Username ps)"
    and "2 \<le> pl_SigningThreshold r"
    and "pl_SigningThreshold r \<le> int (length ps + 1 + length ys)"
  shows "actionInitSignatureProposal e [ReqSigInit r] p = Inl NilDeref"
proof -
  have "uniqueUsernames (pl_Participants r) [] = Inl NilDeref"
    unfolding uniqueUsernames_panics assms(1) using assms(2) by auto
  with assms have "SignatureProposalParticipantsListRequest_Validate r = Inl NilDeref"
    by (auto simp: SignatureProposalParticipantsListRequest_Validate_def config_defs)
  then show ?thesis by (simp add: actionInitSignatureProposal_def with_request_def)
qed

theorem nil_participant_panics_witness:
  "actionInitSignatureProposal EventInitProposal [ReqSigInit \<lparr>pl_Participants =
      [Some \<lparr>pe_Username = ''alice'', pe_PubKey = sample_key 1, pe_DkgPubKey = sample_key 2\<rparr>, None],
      pl_SigningThreshold = 2, pl_CreatedAt = 1\<rparr>] (fresh_payload ''round'') = Inl NilDeref"
  by (rule nil_participant_panics[where ps = "[\<lparr>pe_Username = ''alice'', pe_PubKey = sample_key 1,
      pe_DkgPubKey = sample_key 2\<rparr>]" and ys = "[]"]) simp_all

section \<open>Signature proposal\<close>

text \<open>
  A valid initial request creates the proposal: the participants are numbered from 0 in the
  order of the request and await confirmation, both lookups by username and the threshold are
  set, the deadline is one week after the creation time, every participant is invited, and the
  machine waits for the confirmations (or is timed out at once when the deadline already lies
  before the zero time).
\<close>

theorem proposal_init_outcome:
  assumes "SignatureProposalParticipantsListRequest_Validate r = Inr None"
    and "pl_Participants r = map Some ps"
    and "PubKeys p = None" and "IDs p = None"
  shows "\<exists>w p'. FSM_Do EventInitProposal [ReqSigInit r] (in_state sig_fsm StateGlobalIdle) p =
      Inr ((Some \<lparr>resp_State = w, resp_Data = Some (sig_invitations r ps)\<rparr>, None),
        in_state sig_fsm w, p') \<and>
    w = (if pl_CreatedAt r + SignatureProposalConfirmationDeadline < 0
      then StateValidationCanceledByTimeout else StateAwaitParticipantsConfirmations) \<and>
    p' = p\<lparr>SignatureProposalPayload := Some
       \<lparr>sc_Quorum = Some (sig_entries (pl_SigningThreshold r) (pl_CreatedAt r) 0 ps),
        sc_CreatedAt = pl_CreatedAt r, sc_UpdatedAt = 0,
        sc_ExpiresAt = pl_CreatedAt r + SignatureProposalConfirmationDeadline\<rparr>,
     PubKeys := Some (map (\<lambda>e. (pe_Username e, pe_PubKey e)) ps),
     IDs := Some (sig_ids 0 ps),
     Threshold := pl_SigningThreshold r\<rparr>"
  using sig_init_Do[OF assms refl] by (auto simp: sig_init_payload_def)

lemma sample_init_valid: "SignatureProposalParticipantsListRequest_Validate sample_init = Inr None"
  by code_simp

theorem proposal_init_outcome_witness:
  "\<exists>w p'. FSM_Do EventInitProposal [ReqSigInit sample_init] (in_state sig_fsm StateGlobalIdle)
      (fresh_payload ''round'') =
      Inr ((Some \<lparr>resp_State = w, resp_Data = Some (sig_invitations sample_init sample_entries)\<rparr>, None),
        in_state sig_fsm w, p') \<and> IDs p' = Some (sig_ids 0 sample_entries)"
proof -
  have "pl_Participants sample_init = map Some sample_entries" by (simp add: sample_init_def)
  from proposal_init_outcome[OF sample_init_valid this, of "fresh_payload ''round''"] show ?thesis
    by (auto simp: fresh_payload_def)
qed

text \<open>
  The answer to a reply (confirmation or decline) to the proposal: unknown participants and
  participants that have already replied are refused with nothing changed; a reply later than a
  week after the participant's last update times the proposal out; otherwise the reply is stored
  and the proposal is timed out when the reply is later than the deadline, cancelled when somebody
  declined, collected when all have confirmed, and keeps waiting otherwise.
\<close>

theorem reply_outcome:
  assumes "SignatureProposalPayload p = Some c" and "sc_Quorum c = Some q" and "0 \<le> i" and "t \<noteq> 0"
    and "e = EventConfirmSignatureProposal \<or> e = EventDeclineProposal"
  shows "FSM_Do e [sig_reply i t] (in_state sig_fsm StateAwaitParticipantsConfirmations) p =
    (case map_of q i of
       None \<Rightarrow> Inr ((Some \<lparr>resp_State = '''', resp_Data = None\<rparr>,
           Some (errorsNew ''{ParticipantId} not exist in quorum'')),
         in_state sig_fsm StateAwaitParticipantsConfirmations, p)
     | Some v \<Rightarrow>
         if sp_UpdatedAt v + SignatureProposalConfirmationDeadline < t
         then Inr ((Some \<lparr>resp_State = StateValidationCanceledByTimeout, resp_Data = None\<rparr>, None),
             in_state sig_fsm StateValidationCanceledByTimeout, p)
         else if sp_Status v \<noteq> SigConfirmationAwaitConfirmation
         then Inr ((Some \<lparr>resp_State = '''', resp_Data = None\<rparr>,
             Some (Errorf ''cannot apply reply participant with {Status} = {\"%s\"}''
                [AStr (ConfirmationParticipantStatus_String (sp_Status v))])),
           in_state sig_fsm StateAwaitParticipantsConfirmations, p)
         else let w = v\<lparr>sp_Status := (if e = EventConfirmSignatureProposal
                then SigConfirmationConfirmed else SigConfirmationDeclined), sp_UpdatedAt := t\<rparr>;
              c' = c\<lparr>sc_UpdatedAt := t, sc_Quorum := Some (AList.update i w q)\<rparr>
           in Inr ((Some \<lparr>resp_State = sig_verdict c', resp_Data = sig_statuses c'\<rparr>, None),
             in_state sig_fsm (sig_verdict c'), p\<lparr>SignatureProposalPayload := Some c'\<rparr>))"
  unfolding sig_reply_eq[OF assms] using assms(2)
  by (simp add: reply_result_def sig_replied_def reply_status_def Let_def split: option.split)

theorem reply_outcome_witness:
  "\<exists>resp g p'. FSM_Do EventDeclineProposal [sig_reply 1 3]
      (in_state sig_fsm StateAwaitParticipantsConfirmations) (dump_Payload sample_awaiting) =
    Inr ((Some resp, None), g, p') \<and> resp_State resp = StateValidationCanceledByParticipant"
proof -
  obtain c q where c: "SignatureProposalPayload (dump_Payload sample_awaiting) = Some c"
    "sc_Quorum c = Some q" by (simp add: sample_defs)
  show ?thesis
    using reply_outcome[OF c, of 1 3 EventDeclineProposal] c
    by (auto simp: sample_defs Let_def sig_verdict_def sig_neq config_defs hour_def)
qed

text \<open>
  Unanimous consent is enough: when the participants that have not replied yet confirm in any
  order and in time, every confirmation is accepted and the machine ends in
  \<open>StateSignatureProposalCollected\<close>, from which the DKG starts.
\<close>

theorem unanimous_consent_completes:
  assumes "SignatureProposalPayload p = Some c" and "sc_Quorum c = Some q" and "sig_due c q xs"
    and "xs \<noteq> []"
  shows "\<exists>p'. machine_run sig_fsm
      (map (\<lambda>(i, t). (EventConfirmSignatureProposal, [sig_reply i t])) xs)
      StateAwaitParticipantsConfirmations p = Some (StateSignatureProposalCollected, p')"
  using sig_completes[OF assms] by blast

theorem unanimous_consent_completes_witness:
  "\<exists>p'. machine_run sig_fsm
      (map (\<lambda>(i, t). (EventConfirmSignatureProposal, [sig_reply i t])) [(1, 5), (0, 9)])
      StateAwaitParticipantsConfirmations
      (sig_init_payload sample_init sample_entries (fresh_payload ''round'')) =
    Some (StateSignatureProposalCollected, p')"
proof -
  obtain c q where c: "SignatureProposalPayload
      (sig_init_payload sample_init sample_entries (fresh_payload ''round'')) = Some c"
    "sc_Quorum c = Some q" by (simp add: sig_init_payload_def)
  then have "sig_due c q [(1, 5), (0, 9)]"
    by (auto simp: sig_init_payload_def sample_entries_def sample_init_def sig_due_def config_defs
        hour_def)
  from unanimous_consent_completes[OF c this] show ?thesis by simp
qed

section \<open>DKG\<close>

text \<open>
  The DKG starts from the agreed proposal: with a default request the DKG payload holds one
  participant per participant of the proposal, under the same number, with its username and DKG
  key, awaiting its commit; the answer lists the keys in the order of the numbers together with
  the threshold.
\<close>

theorem dkg_init_outcome:
  assumes "roster_ok p" and "DKGProposalPayload p = None" and "sig_quorum p = Some q"
    and "0 \<le> dr_CreatedAt r + DkgConfirmationDeadline"
  shows "\<exists>c. FSM_Do EventDKGInitProcess [ReqDefault r]
      (in_state dkg_fsm StateSignatureProposalCollected) p =
      Inr ((Some \<lparr>resp_State = StateDkgCommitsAwaitConfirmations,
          resp_Data = Some (dkg_pubkeys (Threshold p) c)\<rparr>, None),
        in_state dkg_fsm StateDkgCommitsAwaitConfirmations, p\<lparr>DKGProposalPayload := Some c\<rparr>) \<and>
    c = \<lparr>dc_Quorum = Some (map (\<lambda>(i, v). (i, \<lparr>dp_ParticipantID = i, dp_Username = sp_Username v,
          dp_DkgPubKey = sp_DkgPubKey v, dp_DkgCommit = [], dp_DkgDeal = [], dp_DkgResponse = [],
          dp_DkgMasterKey = [], dp_Status = CommitAwaitConfirmation, dp_Error = None,
          dp_UpdatedAt = sp_UpdatedAt v\<rparr>)) q),
        dc_CreatedAt = dr_CreatedAt r, dc_UpdatedAt = 0,
        dc_ExpiresAt = dr_CreatedAt r + DkgConfirmationDeadline, dc_PubPolyBz = []\<rparr>"
  using dkg_init_Do[OF assms(1-3) refl, of r] assms(4)
  by (auto simp: dkg_init_def map_vals_def dkg_fresh_def)

lemma sample_agreed_roster:
  "roster_ok (dump_Payload sample_agreed)" "DKGProposalPayload (dump_Payload sample_agreed) = None"
proof -
  have S: "StateSignatureProposalCollected \<in> set sig_states" by (simp add: sig_states_def)
  have "payload_inv StateSignatureProposalCollected (dump_Payload sample_agreed)"
    using reachable_inv(1)[OF sample_agreed_reachable] by (simp add: sample_agreed_def sample_dump_def)
  then show "roster_ok (dump_Payload sample_agreed)"
    "DKGProposalPayload (dump_Payload sample_agreed) = None"
    unfolding payload_inv_sig[OF S] by simp_all
qed

theorem dkg_init_outcome_witness:
  "\<exists>c. FSM_Do EventDKGInitProcess [ReqDefault \<lparr>dr_CreatedAt = 4\<rparr>]
      (in_state dkg_fsm StateSignatureProposalCollected) (dump_Payload sample_agreed) =
      Inr ((Some \<lparr>resp_State = StateDkgCommitsAwaitConfirmations,
          resp_Data = Some (dkg_pubkeys 2 c)\<rparr>, None),
        in_state dkg_fsm StateDkgCommitsAwaitConfirmations,
        (dump_Payload sample_agreed)\<lparr>DKGProposalPayload := Some c\<rparr>) \<and> dc_CreatedAt c = 4"
proof -
  obtain q where q: "sig_quorum (dump_Payload sample_agreed) = Some q"
    using sample_agreed_roster(1) by (rule roster_ok_quorum)
  have th: "Threshold (dump_Payload sample_agreed) = 2" by (simp add: sample_defs)
  have "0 \<le> dr_CreatedAt \<lparr>dr_CreatedAt = 4\<rparr> + DkgConfirmationDeadline"
    by (simp add: config_defs hour_def)
  from dkg_init_outcome[OF sample_agreed_roster q this] show ?thesis
    unfolding th by (elim exE conjE) (rule exI, rule conjI, assumption, simp)
qed

text \<open>
  The answer to a contribution (commit, deal, response) in the stage that awaits it: unknown
  participants and participants that are not awaited are refused with nothing changed; otherwise
  the bytes are stored for that participant and the stage is timed out when the contribution is
  later than the deadline, handed to the next stage, with everybody awaiting and the ordered
  contributions as the answer, when all have confirmed, and left waiting otherwise.
\<close>

theorem contribution_outcome:
  assumes "DKGProposalPayload p = Some c" and "dc_Quorum c = Some q"
    and "0 \<le> i" and "d \<noteq> []" and "t \<noteq> 0"
  shows "(no_failure CommitConfirmationError c \<longrightarrow>
      FSM_Do EventDKGCommitConfirmationReceived [mk_commit i d [] t]
        (in_state dkg_fsm StateDkgCommitsAwaitConfirmations) p =
      contribution_result StateDkgCommitsAwaitConfirmations CommitAwaitConfirmation
        ''cannot confirm commit with {Status} = {\"%s\"}''
        (\<lambda>v. c\<lparr>dc_UpdatedAt := t, dc_Quorum := Some (AList.update i
          (v\<lparr>dp_DkgCommit := d, dp_Status := CommitConfirmed, dp_UpdatedAt := t\<rparr>) q)\<rparr>)
        commits_verdict commits_after commits_report (map_of q i) p) \<and>
    (no_failure DealConfirmationError c \<longrightarrow>
      FSM_Do EventDKGDealConfirmationReceived [mk_deal i d [] t]
        (in_state dkg_fsm StateDkgDealsAwaitConfirmations) p =
      contribution_result StateDkgDealsAwaitConfirmations DealAwaitConfirmation
        ''cannot confirm deal with {Status} = {\"%s\"}''
        (\<lambda>v. c\<lparr>dc_UpdatedAt := t, dc_Quorum := Some (AList.update i
          (v\<lparr>dp_DkgDeal := d, dp_Status := DealConfirmed, dp_UpdatedAt := t\<rparr>) q)\<rparr>)
        deals_verdict deals_after deals_report (map_of q i) p) \<and>
    (no_failure ResponseConfirmationError c \<longrightarrow>
      FSM_Do EventDKGResponseConfirmationReceived [mk_response i d [] t]
        (in_state dkg_fsm StateDkgResponsesAwaitConfirmations) p =
      contribution_result StateDkgResponsesAwaitConfirmations ResponseAwaitConfirmation
        ''cannot confirm response with {Status} = {\"%s\"}''
        (\<lambda>v. c\<lparr>dc_UpdatedAt := t, dc_Quorum := Some (AList.update i
          (v\<lparr>dp_DkgResponse := d, dp_Status := ResponseConfirmed, dp_UpdatedAt := t\<rparr>) q)\<rparr>)
        responses_verdict responses_after responses_report (map_of q i) p)"
  using commits.contribution_eq[OF assms(1,2) _ assms(3-5)]
    deals.contribution_eq[OF assms(1,2) _ assms(3-5)]
    responses.contribution_eq[OF assms(1,2) _ assms(3-5)] assms(2)
  by (simp add: dkg_received_def)

theorem contribution_outcome_witness:
  "\<exists>resp g p'. FSM_Do EventDKGCommitConfirmationReceived [mk_commit 1 [2] [] 6]
      (in_state dkg_fsm StateDkgCommitsAwaitConfirmations) (dump_Payload sample_commits) =
    Inr ((Some resp, None), g, p') \<and> resp_State resp = StateDkgDealsAwaitConfirmations"
proof -
  obtain c q where c: "DKGProposalPayload (dump_Payload sample_commits) = Some c"
    "dc_Quorum c = Some q" by (simp add: sample_defs)
  then have "no_failure CommitConfirmationError c"
    by (auto simp: sample_defs no_failure_def)
  with contribution_outcome[OF c, of 1 "[2]" 6] c show ?thesis
    by (auto simp: sample_defs contribution_result_def Let_def commits_verdict_def stage_verdict_def)
qed

text \<open>
  C34: Every stage completes when everybody contributes: if the awaited participants send their
  commits (deals, responses) in any order and in time, every contribution is accepted and the
  machine reaches the next stage.
\<close>

theorem dkg_stages_complete:
  assumes "DKGProposalPayload p = Some c" and "dc_Quorum c = Some q" and "xs \<noteq> []"
  shows "(due CommitAwaitConfirmation CommitConfirmed c q xs \<longrightarrow>
      (\<exists>p'. machine_run dkg_fsm
        (map (\<lambda>(i, d, t). (EventDKGCommitConfirmationReceived, [mk_commit i d [] t])) xs)
        StateDkgCommitsAwaitConfirmations p = Some (StateDkgDealsAwaitConfirmations, p'))) \<and>
    (due DealAwaitConfirmation DealConfirmed c q xs \<longrightarrow>
      (\<exists>p'. machine_run dkg_fsm
        (map (\<lambda>(i, d, t). (EventDKGDealConfirmationReceived, [mk_deal i d [] t])) xs)
        StateDkgDealsAwaitConfirmations p = Some (StateDkgResponsesAwaitConfirmations, p'))) \<and>
    (due ResponseAwaitConfirmation ResponseConfirmed c q xs \<longrightarrow>
      (\<exists>p'. machine_run dkg_fsm
        (map (\<lambda>(i, d, t). (EventDKGResponseConfirmationReceived, [mk_response i d [] t])) xs)
        StateDkgResponsesAwaitConfirmations p = Some (StateDkgMasterKeyAwaitConfirmations, p')))"
  using commits.completes[OF assms(1,2) _ assms(3)] deals.completes[OF assms(1,2) _ assms(3)]
    responses.completes[OF assms(1,2) _ assms(3)] by blast

theorem dkg_stages_complete_witness:
  "\<exists>p'. machine_run dkg_fsm
      (map (\<lambda>(i, d, t). (EventDKGDealConfirmationReceived, [mk_deal i d [] t])) [(1, [2], 7), (0, [1], 8)])
      StateDkgDealsAwaitConfirmations (dump_Payload sample_deals) =
    Some (StateDkgResponsesAwaitConfirmations, p')"
proof -
  obtain c q where c: "DKGProposalPayload (dump_Payload sample_deals) = Some c"
    "dc_Quorum c = Some q" by (simp add: sample_defs)
  then have "due DealAwaitConfirmation DealConfirmed c q [(1, [2], 7), (0, [1], 8)]"
    by (auto simp: sample_defs due_def)
  with dkg_stages_complete[OF c, of "[(1, [2], 7), (0, [1], 8)]"] show ?thesis by simp
qed

text \<open>
  The answer to a master key in the stage that awaits it: refused as in the other stages when
  the participant is unknown or not awaited; otherwise stored together with the public polynomial,
  and then the DKG is timed out after the deadline, cancelled when two stored keys differ,
  finished when all have confirmed, and left waiting otherwise.
\<close>

theorem master_key_outcome:
  assumes "DKGProposalPayload p = Some c" and "dc_Quorum c = Some q"
    and "no_failure MasterKeyConfirmationError c" and "0 \<le> i" and "d \<noteq> []" and "t \<noteq> 0"
  shows "FSM_Do EventDKGMasterKeyConfirmationReceived [mk_master_key i d b t]
      (in_state dkg_fsm StateDkgMasterKeyAwaitConfirmations) p =
    contribution_result StateDkgMasterKeyAwaitConfirmations MasterKeyAwaitConfirmation
      ''cannot confirm response with {Status} = {\"%s\"}''
      (\<lambda>v. c\<lparr>dc_UpdatedAt := t, dc_Quorum := Some (AList.update i
        (v\<lparr>dp_DkgMasterKey := d, dp_Status := MasterKeyConfirmed, dp_UpdatedAt := t\<rparr>) q),
        dc_PubPolyBz := b\<rparr>)
      master_key_verdict master_key_after (\<lambda>c. None) (map_of q i) p"
  using master.contribution_eq[OF assms] assms(2) by (simp add: dkg_received_def)

theorem master_key_outcome_witness:
  "\<exists>resp g p'. FSM_Do EventDKGMasterKeyConfirmationReceived [mk_master_key 1 [7] [8] 12]
      (in_state dkg_fsm StateDkgMasterKeyAwaitConfirmations) (dump_Payload sample_keys) =
    Inr ((Some resp, None), g, p') \<and> resp_State resp = StateDkgMasterKeyCollected"
proof -
  obtain c q where c: "DKGProposalPayload (dump_Payload sample_keys) = Some c"
    "dc_Quorum c = Some q" by (simp add: sample_defs)
  then have "no_failure MasterKeyConfirmationError c" by (auto simp: sample_defs no_failure_def)
  from master_key_outcome[OF c this, of 1 "[7]" 12 "[8]"] c show ?thesis
    by (auto simp: sample_defs contribution_result_def Let_def master_key_verdict_def mismatch_def
        master_keys_def)
qed

text \<open>
  A master key that differs from one already confirmed aborts the DKG: the machine moves to
  \<open>StateDkgMasterKeyAwaitCanceledByError\<close> and every participant is marked with the mismatch error.
\<close>

theorem master_key_mismatch_aborts:
  assumes "DKGProposalPayload p = Some c" and "dc_Quorum c = Some q"
    and "no_failure MasterKeyConfirmationError c" and "0 \<le> i" and "d \<noteq> []" and "t \<noteq> 0"
    and "t \<le> dc_ExpiresAt c" and "map_of q i = Some v" and "dp_Status v = MasterKeyAwaitConfirmation"
    and "map_of q j = Some w" and "dp_Status w = MasterKeyConfirmed" and "dp_DkgMasterKey w \<noteq> d"
  shows "\<exists>p' q'. FSM_Do EventDKGMasterKeyConfirmationReceived [mk_master_key i d b t]
      (in_state dkg_fsm StateDkgMasterKeyAwaitConfirmations) p =
      Inr ((Some \<lparr>resp_State = StateDkgMasterKeyAwaitCanceledByError, resp_Data = None\<rparr>, None),
        in_state dkg_fsm StateDkgMasterKeyAwaitCanceledByError, p') \<and>
    dkg_quorum p' = Some q' \<and> map fst q' = map fst q \<and>
    list_all (\<lambda>v. dp_Status v = MasterKeyConfirmationError \<and>
      dp_Error v = Some (NewFSMError ''master key is mismatched'')) (map snd q')"
proof -
  define c' where "c' = dkg_received (\<lambda>b c. c\<lparr>dc_PubPolyBz := b\<rparr>) (\<lambda>d v. v\<lparr>dp_DkgMasterKey := d\<rparr>)
    MasterKeyConfirmed i d b t v c"
  let ?u = "v\<lparr>dp_DkgMasterKey := d, dp_Status := MasterKeyConfirmed, dp_UpdatedAt := t\<rparr>"
  let ?q = "AList.update i ?u q"
  have q': "dc_Quorum c' = Some ?q" "dc_ExpiresAt c' = dc_ExpiresAt c" "dc_UpdatedAt c' = t"
    using assms(2) by (simp_all add: c'_def dkg_received_def)
  have "j \<noteq> i" using assms(8-11) by auto
  then have "(i, ?u) \<in> set ?q" "(j, w) \<in> set ?q"
    using assms(10) by (auto intro!: map_of_SomeD)
  then have "d \<in> set (master_keys c')" "dp_DkgMasterKey w \<in> set (master_keys c')"
    using assms(11) by (force simp: master_keys_def q')+
  then have "mismatch (master_keys c')" using assms(12) by (auto simp: mismatch_def list_ex_iff)
  then have verdict: "master_key_verdict c' = StateDkgMasterKeyAwaitCanceledByError"
    using assms(7) by (simp add: master_key_verdict_def q')
  have keys: "map fst ?q = map fst q" using assms(8) by (intro keys_update_has_key) simp
  from master.contribution_Do[OF assms(1-6,8,9) c'_def] verdict show ?thesis
    by (simp add: master_key_after_def all_status_def q' keys list_all_vals_map_vals)
       (simp add: list_all_iff case_prod_unfold)
qed

theorem master_key_mismatch_aborts_witness:
  "\<exists>p' q'. FSM_Do EventDKGMasterKeyConfirmationReceived [mk_master_key 1 [9] [8] 12]
      (in_state dkg_fsm StateDkgMasterKeyAwaitConfirmations) (dump_Payload sample_keys) =
      Inr ((Some \<lparr>resp_State = StateDkgMasterKeyAwaitCanceledByError, resp_Data = None\<rparr>, None),
        in_state dkg_fsm StateDkgMasterKeyAwaitCanceledByError, p') \<and>
    dkg_quorum p' = Some q' \<and> map fst q' = [0, 1] \<and>
    list_all (\<lambda>v. dp_Status v = MasterKeyConfirmationError \<and>
      dp_Error v = Some (NewFSMError ''master key is mismatched'')) (map snd q')"
proof -
  obtain c q where c: "DKGProposalPayload (dump_Payload sample_keys) = Some c"
    "dc_Quorum c = Some q" by (simp add: sample_defs)
  then have n: "no_failure MasterKeyConfirmationError c" and k: "map fst q = [0, 1]"
    and e: "12 \<le> dc_ExpiresAt c"
    by (auto simp: sample_defs no_failure_def)
  obtain v w where "map_of q 1 = Some v" "dp_Status v = MasterKeyAwaitConfirmation"
    "map_of q 0 = Some w" "dp_Status w = MasterKeyConfirmed" "dp_DkgMasterKey w \<noteq> [9]"
    using c by (auto simp: sample_defs)
  from master_key_mismatch_aborts[OF c n _ _ _ e this] show ?thesis by (simp add: k)
qed

text \<open>
  An error report of a participant that is awaited cancels its stage, in each of the four
  stages: the machine moves to the stage's error state and the report is stored with the
  participant.
\<close>

theorem dkg_error_cancels:
  assumes "DKGProposalPayload p = Some c" and "dc_Quorum c = Some q"
    and "0 \<le> i" and "err \<noteq> None" and "t \<noteq> 0" and "map_of q i = Some v"
    and "(await, failed, s, e, s') \<in> set
      [(CommitAwaitConfirmation, CommitConfirmationError, StateDkgCommitsAwaitConfirmations,
        EventDKGCommitConfirmationError, StateDkgCommitsAwaitCanceledByError),
       (DealAwaitConfirmation, DealConfirmationError, StateDkgDealsAwaitConfirmations,
        EventDKGDealConfirmationError, StateDkgDealsAwaitCanceledByError),
       (ResponseAwaitConfirmation, ResponseConfirmationError, StateDkgResponsesAwaitConfirmations,
        EventDKGResponseConfirmationError, StateDkgResponsesAwaitCanceledByError),
       (MasterKeyAwaitConfirmation, MasterKeyConfirmationError, StateDkgMasterKeyAwaitConfirmations,
        EventDKGMasterKeyConfirmationError, StateDkgMasterKeyAwaitCanceledByError)]"
    and "dp_Status v = await"
  shows "FSM_Do e [dkg_error i err t] (in_state dkg_fsm s) p =
    Inr ((Some \<lparr>resp_State = s', resp_Data = None\<rparr>, None), in_state dkg_fsm s',
      p\<lparr>DKGProposalPayload := Some (c\<lparr>dc_UpdatedAt := t, dc_Quorum := Some (AList.update i
        (v\<lparr>dp_Status := failed, dp_Error := err, dp_UpdatedAt := t\<rparr>) q)\<rparr>)\<rparr>)"
  using assms(7,8) commits.error_Do[OF assms(1,2) _ assms(3-6), of s]
    deals.error_Do[OF assms(1,2) _ assms(3-6), of s] responses.error_Do[OF assms(1,2) _ assms(3-6), of s]
    master.error_Do[OF assms(1,2) _ assms(3-6), of s] assms(2)
  by (auto simp: dkg_failed_def)

theorem dkg_error_cancels_witness:
  "\<exists>resp g p'. FSM_Do EventDKGDealConfirmationError [dkg_error 0 (Some (NewFSMError ''bad deal'')) 9]
      (in_state dkg_fsm StateDkgDealsAwaitConfirmations) (dump_Payload sample_deals) =
    Inr ((Some resp, None), g, p') \<and> resp_State resp = StateDkgDealsAwaitCanceledByError"
proof -
  obtain c q where c: "DKGProposalPayload (dump_Payload sample_deals) = Some c"
    "dc_Quorum c = Some q" by (simp add: sample_defs)
  then obtain v where "map_of q 0 = Some v" "dp_Status v = DealAwaitConfirmation"
    by (auto simp: sample_defs)
  from dkg_error_cancels[OF c _ _ _ this(1) _ this(2), of "Some (NewFSMError ''bad deal'')" 9
      DealConfirmationError StateDkgDealsAwaitConfirmations EventDKGDealConfirmationError
      StateDkgDealsAwaitCanceledByError]
  show ?thesis by simp
qed

section \<open>Signing\<close>

text \<open>
  Starting a batch on a finished DKG: a valid request makes the machine wait for partial
  signatures, stores the batch's identifier, initiator and tasks, and resets the quorum to the
  participants of the DKG in the order of their numbers, all awaiting and without signatures, so
  nothing of an earlier batch is left; the participants are invited.
\<close>

theorem batch_start_outcome:
  assumes "SigningProposalPayload p = Some c" and "DKGProposalPayload p = Some dc"
    and "dc_Quorum dc = Some dq" and "distinct (map fst dq)"
    and "SigningBatchProposalStartRequest_Validate r = None"
    and "0 < Threshold p" and "Threshold p \<le> int (length dq)" and "gc_UpdatedAt c \<le> gc_ExpiresAt c"
  shows "\<exists>c' p'. FSM_Do EventSigningStart [ReqSigningStart r] (in_state signing_fsm StateSigningIdle) p =
      Inr ((Some \<lparr>resp_State = StateSigningAwaitPartialSigns,
          resp_Data = Some (signing_invitations c')\<rparr>, None),
        in_state signing_fsm StateSigningAwaitPartialSigns, p') \<and>
    SigningProposalPayload p' = Some c' \<and>
    c' = c\<lparr>gc_CreatedAt := bs_CreatedAt r, gc_BatchID := bs_BatchID r,
      gc_InitiatorId := bs_ParticipantId r, gc_SrcPayload := bs_SigningTasks r,
      gc_Quorum := Some (map (\<lambda>i. (i, \<lparr>gp_ParticipantID = i,
          gp_Username = dp_Username (the (map_of dq i)), gp_Status = SigningAwaitPartialSigns,
          gp_PartialSigns = None, gp_Error = None, gp_UpdatedAt = bs_CreatedAt r\<rparr>))
        (sort (map fst dq)))\<rparr>"
proof -
  define c' where "c' = signing_started r dq c"
  have upd: "gc_UpdatedAt c' = gc_UpdatedAt c" "gc_ExpiresAt c' = gc_ExpiresAt c"
    by (simp_all add: c'_def signing_started_def)
  have verdict: "signing_verdict (Threshold p) c' = StateSigningAwaitPartialSigns"
    using assms(6-8) signing_started_counts[OF assms(3), of r c]
    by (simp add: signing_verdict_def c'_def[symmetric] upd)
  then have "signing_report (Threshold p) c' = None" "signing_after (Threshold p) c' = c'"
    by (simp_all add: signing_report_def signing_after_def signing_neq)
  with signing_start_Do[OF assms(1-5) c'_def] verdict show ?thesis
    by (intro exI[of _ c']) (simp add: c'_def signing_started_def signing_quorum_of_def signing_fresh_def)
qed

lemma sample_start_valid: "SigningBatchProposalStartRequest_Validate sample_start = None"
  by code_simp

theorem batch_start_outcome_witness:
  "\<exists>c' p'. FSM_Do EventSigningStart [ReqSigningStart sample_start]
      (in_state signing_fsm StateSigningIdle) (dump_Payload sample_idle) =
      Inr ((Some \<lparr>resp_State = StateSigningAwaitPartialSigns,
          resp_Data = Some (signing_invitations c')\<rparr>, None),
        in_state signing_fsm StateSigningAwaitPartialSigns, p') \<and>
    SigningProposalPayload p' = Some c' \<and> gc_BatchID c' = ''batch''"
proof -
  let ?p = "dump_Payload sample_idle"
  obtain c dc dq where c: "SigningProposalPayload ?p = Some c" "DKGProposalPayload ?p = Some dc"
    "dc_Quorum dc = Some dq" by (simp add: sample_defs)
  then have "distinct (map fst dq)" "0 < Threshold ?p" "Threshold ?p \<le> int (length dq)"
    "gc_UpdatedAt c \<le> gc_ExpiresAt c"
    by (auto simp: sample_defs signing_init_def config_defs hour_def)
  note h = batch_start_outcome[OF c this(1) sample_start_valid this(2-4)]
  have "bs_BatchID sample_start = ''batch''" by (simp add: sample_start_def)
  with h show ?thesis by (elim exE conjE) (intro exI conjI, assumption, assumption, simp)
qed

text \<open>
  The answer to the partial signatures of a participant: unknown participants and participants
  that are not awaited are refused; otherwise the signatures are stored and the batch is
  cancelled when fewer than \<open>Threshold\<close> participants have not failed, collected when \<open>Threshold\<close>
  participants have signed (the answer then lists those with signatures), and left waiting
  otherwise.  The identifier \<open>b\<close> of the batch in the request plays no role.
\<close>

theorem partial_sign_outcome:
  assumes "SigningProposalPayload p = Some c" and "gc_Quorum c = Some q"
    and "SignatureProposalPayload p = Some sc" and "gc_UpdatedAt c \<le> gc_ExpiresAt c"
    and "b \<noteq> ''''" and "0 \<le> i" and "t \<noteq> 0" and "ss \<noteq> []"
    and "list_all (\<lambda>s. PartialSign_Validate s = None) ss"
  shows "FSM_Do EventSigningPartialSignReceived [partial_signs b i ss t]
      (in_state signing_fsm StateSigningAwaitPartialSigns) p =
    (case map_of q i of
       None \<Rightarrow> Inr ((Some \<lparr>resp_State = '''', resp_Data = None\<rparr>,
           Some (errorsNew ''{ParticipantId} not exist in quorum'')),
         in_state signing_fsm StateSigningAwaitPartialSigns, p)
     | Some v \<Rightarrow>
         if gp_Status v \<noteq> SigningAwaitPartialSigns
         then Inr ((Some \<lparr>resp_State = '''', resp_Data = None\<rparr>,
             Some (Errorf ''cannot confirm response with {Status} = {\"%s\"}''
               [AStr (SigningParticipantStatus_String (gp_Status v))])),
           in_state signing_fsm StateSigningAwaitPartialSigns,
           p\<lparr>SigningProposalPayload := Some (signing_looked_up i v c)\<rparr>)
         else let c' = signing_signed i ss t v c;
                  w = (if int (signer_count c') - int (failed_count c') < Threshold p
                       then StateSigningPartialSignsAwaitCancelledByError
                       else if Threshold p \<le> int (signed_count c')
                       then StateSigningPartialSignsCollected else StateSigningAwaitPartialSigns)
           in Inr ((Some \<lparr>resp_State = w, resp_Data = signing_report (Threshold p) c'\<rparr>, None),
             in_state signing_fsm w,
             p\<lparr>SigningProposalPayload := Some (signing_after (Threshold p) c'),
               SignatureProposalPayload := Some (sc\<lparr>sc_UpdatedAt := t\<rparr>)\<rparr>))"
proof -
  have valid: "SigningProposalBatchPartialSignRequests_Validate
      \<lparr>bp_BatchID = b, bp_ParticipantId = i, bp_PartialSigns = ss, bp_CreatedAt = t\<rparr> = None"
    using assms(5-9)
    by (auto simp: SigningProposalBatchPartialSignRequests_Validate_def IsZero_def validateEach_ok)
  have "gc_ExpiresAt (signing_signed i ss t v c) < gc_UpdatedAt (signing_signed i ss t v c) \<longleftrightarrow> False"
    for v using assms(4) by (simp add: signing_signed_def)
  then show ?thesis
    unfolding partial_sign_eq[OF assms(1-3) valid]
    by (simp add: sign_result_def signing_verdict_def Let_def split: option.split)
qed

lemma sample_batch_payload:
  obtains c q sc v where "SigningProposalPayload (dump_Payload sample_batch) = Some c"
    "gc_Quorum c = Some q" "SignatureProposalPayload (dump_Payload sample_batch) = Some sc"
    "gc_UpdatedAt c \<le> gc_ExpiresAt c" "map_of q 1 = Some v" "gp_Status v = SigningAwaitPartialSigns"
    "Threshold (dump_Payload sample_batch) = 2" "signer_count c = 2" "failed_count c = 0"
    "signed_count c = 1"
  by (auto simp: sample_defs signer_count_def failed_count_def signed_count_def)

theorem partial_sign_outcome_witness:
  "\<exists>resp g p'. FSM_Do EventSigningPartialSignReceived
      [partial_signs ''another batch'' 1 [\<lparr>ps_MessageID = ''m'', ps_Sign = [6]\<rparr>] 16]
      (in_state signing_fsm StateSigningAwaitPartialSigns) (dump_Payload sample_batch) =
    Inr ((Some resp, None), g, p') \<and> resp_State resp = StateSigningPartialSignsCollected"
proof -
  obtain c q sc v where c: "SigningProposalPayload (dump_Payload sample_batch) = Some c"
    "gc_Quorum c = Some q" "SignatureProposalPayload (dump_Payload sample_batch) = Some sc"
    "gc_UpdatedAt c \<le> gc_ExpiresAt c" "map_of q 1 = Some v" "gp_Status v = SigningAwaitPartialSigns"
    "Threshold (dump_Payload sample_batch) = 2" "signer_count c = 2" "failed_count c = 0"
    "signed_count c = 1" by (rule sample_batch_payload)
  from partial_sign_outcome[OF c(1-4), of "''another batch''" 1 16
      "[\<lparr>ps_MessageID = ''m'', ps_Sign = [6]\<rparr>]"] c
  show ?thesis by (simp add: PartialSign_Validate_def signed_counts[OF c(2,5,6)] Let_def)
qed

text \<open>
  C33: The threshold suffices: as soon as partial signatures of so many awaited participants have
  arrived, in any order, that \<open>Threshold\<close> participants have signed, the batch is collected, without
  waiting for the others, provided the participants that reported errors leave enough signers.
\<close>

theorem threshold_signatures_suffice:
  assumes "SigningProposalPayload p = Some c" and "gc_Quorum c = Some q"
    and "SignatureProposalPayload p = Some sc"
    and "sign_due (Threshold p) c q xs" and "xs \<noteq> []" and "b \<noteq> ''''"
  shows "\<exists>p'. machine_run signing_fsm
      (map (\<lambda>(i, ss, t). (EventSigningPartialSignReceived, [partial_signs b i ss t])) xs)
      StateSigningAwaitPartialSigns p = Some (StateSigningPartialSignsCollected, p')"
  by (rule sign_completes[OF assms])

theorem threshold_signatures_suffice_witness:
  "\<exists>p'. machine_run signing_fsm
      (map (\<lambda>(i, ss, t). (EventSigningPartialSignReceived, [partial_signs ''batch'' i ss t]))
        [(1, [\<lparr>ps_MessageID = ''m'', ps_Sign = [6]\<rparr>], 16)])
      StateSigningAwaitPartialSigns (dump_Payload sample_batch) =
    Some (StateSigningPartialSignsCollected, p')"
proof -
  obtain c q sc v where c: "SigningProposalPayload (dump_Payload sample_batch) = Some c"
    "gc_Quorum c = Some q" "SignatureProposalPayload (dump_Payload sample_batch) = Some sc"
    "gc_UpdatedAt c \<le> gc_ExpiresAt c" "map_of q 1 = Some v" "gp_Status v = SigningAwaitPartialSigns"
    "Threshold (dump_Payload sample_batch) = 2" "signer_count c = 2" "failed_count c = 0"
    "signed_count c = 1" by (rule sample_batch_payload)
  then have "sign_due (Threshold (dump_Payload sample_batch)) c q
      [(1, [\<lparr>ps_MessageID = ''m'', ps_Sign = [6]\<rparr>], 16)]"
    by (simp add: sign_due_def PartialSign_Validate_def)
  from threshold_signatures_suffice[OF c(1-3) this] show ?thesis by simp
qed

text \<open>
  Whatever the iteration order of the quorum map, \<open>GetOrderedParticipants\<close> of the three quorums
  returns every participant exactly once, by increasing number, each with its number filled in.
\<close>

theorem ordered_participants_sorted:
  assumes "distinct (map fst sq)" and "distinct (map fst dq)" and "distinct (map fst gq)"
  shows "map sp_ParticipantID (fst (SignatureProposalQuorum_GetOrderedParticipants (Some sq))) =
      sort (map fst sq) \<and>
    mset (map (\<lambda>v. v\<lparr>sp_ParticipantID := 0\<rparr>)
        (fst (SignatureProposalQuorum_GetOrderedParticipants (Some sq)))) =
      mset (map (\<lambda>v. v\<lparr>sp_ParticipantID := 0\<rparr>) (map snd sq)) \<and>
    map dp_ParticipantID (fst (DKGProposalQuorum_GetOrderedParticipants (Some dq))) =
      sort (map fst dq) \<and>
    mset (map (\<lambda>v. v\<lparr>dp_ParticipantID := 0\<rparr>)
        (fst (DKGProposalQuorum_GetOrderedParticipants (Some dq)))) =
      mset (map (\<lambda>v. v\<lparr>dp_ParticipantID := 0\<rparr>) (map snd dq)) \<and>
    map gp_ParticipantID (fst (SigningProposalQuorum_GetOrderedParticipants (Some gq))) =
      sort (map fst gq) \<and>
    mset (map (\<lambda>v. v\<lparr>gp_ParticipantID := 0\<rparr>)
        (fst (SigningProposalQuorum_GetOrderedParticipants (Some gq)))) =
      mset (map (\<lambda>v. v\<lparr>gp_ParticipantID := 0\<rparr>) (map snd gq))"
  unfolding SignatureProposalQuorum_GetOrderedParticipants_def
    DKGProposalQuorum_GetOrderedParticipants_def SigningProposalQuorum_GetOrderedParticipants_def
    Let_def fst_conv entries_simps option.map
  by (intro conjI map_id_of_ordered mset_of_ordered assms) simp_all

theorem ordered_participants_sorted_witness:
  "map dp_ParticipantID (fst (DKGProposalQuorum_GetOrderedParticipants
      (Some [sample_part 4 ''eve'' 1 [] [] [] [] CommitConfirmed 1,
             sample_part 2 ''dan'' 2 [] [] [] [] CommitConfirmed 1]))) = [2, 4]"
  using ordered_participants_sorted[of "[]" "[sample_part 4 ''eve'' 1 [] [] [] [] CommitConfirmed 1,
      sample_part 2 ''dan'' 2 [] [] [] [] CommitConfirmed 1]" "[]"]
  by (simp add: sample_part_def)

end
