(* ===== verification/Airgapped_Properties.thy ===== *)
theory Airgapped_Properties
  imports Sample_Airgapped Event_Properties
begin

text \<open>
  The properties of the airgapped machine: what its answers are, what it checks of the other
  participants, what it keeps and how it comes back after a restart.
\<close>

section \<open>Restart\<close>

lemma air0_holds: "holds_log air_sample air0 (map_of [])"
  by (auto simp: holds_log_def air0_def memdb_def fsm_const)



section \<open>Answers\<close>

text \<open>The operations that a state machine asks for.\<close>

definition air_states :: "State list" where
  "air_states = [StateDkgCommitsAwaitConfirmations, StateDkgDealsAwaitConfirmations,
     StateDkgResponsesAwaitConfirmations, StateDkgMasterKeyAwaitConfirmations, StateSigningAwaitPartialSigns]"

lemma air_states_success: "state \<in> set air_states \<Longrightarrow> map_of successEvents state \<noteq> None"
  by (auto simp: air_states_def success_events)

text \<open>
  C26: The answer to an operation fits the machine that asked for it.  Whether the handler succeeds or
  its failure is reported, the result is the same operation with at least one new message; every new
  message is for the round of the operation and carries an event which the machine of that state
  accepts from outside in that state, and the event of the operation is that of its last message.
\<close>

theorem answers_fit_machine:
  assumes "GetOperationResult env oper am = Inr (Inr oper', am')" and "op_Type oper \<in> set air_states"
    and "op_ResultMsgs oper = []"
  shows "\<exists>f. machine_of (op_Type oper) = Some f \<and> op_ID oper' = op_ID oper \<and> op_Type oper' = op_Type oper \<and>
    op_DKGIdentifier oper' = op_DKGIdentifier oper \<and> op_ResultMsgs oper' \<noteq> [] \<and>
    op_Event oper' = msg_Event (last (op_ResultMsgs oper')) \<and>
    list_all (\<lambda>m. DkgRoundID m = op_DKGIdentifier oper \<and>
      (\<exists>tr. map_of (fsm_transitions f) (op_Type oper, msg_Event m) = Some tr \<and> \<not> tr_isInternal tr)) (op_ResultMsgs oper')"
proof -
  note type = air_states_success[OF assms(2)]
  from result_answers[OF assms(1)[unfolded GetOperationResult_def]] assms(3)
  have a: "answers oper oper'" "list_all (fitting oper) (op_ResultMsgs oper')" by (auto simp: answers_def)
  note e = result_event[OF assms(1)[unfolded GetOperationResult_def] type]
  then obtain m where "m \<in> set (op_ResultMsgs oper')" by (cases "op_ResultMsgs oper'") auto
  with a(2) have "answerable (op_Type oper) (msg_Event m)" by (auto simp: list_all_iff fitting_def)
  from answerable_event[OF type this] obtain f where f: "machine_of (op_Type oper) = Some f" by blast
  have "\<exists>tr. map_of (fsm_transitions f) (op_Type oper, msg_Event m) = Some tr \<and> \<not> tr_isInternal tr"
    if "m \<in> set (op_ResultMsgs oper')" for m
    using that a(2) answerable_event[OF type, of "msg_Event m"] f by (auto simp: list_all_iff fitting_def)
  with a e f show ?thesis by (auto simp: answers_def list_all_iff fitting_def)
qed

lemma air_commits_oper_simps:
  "op_Type air_commits_oper = StateDkgCommitsAwaitConfirmations" "op_DKGIdentifier air_commits_oper = ''round''"
  "op_ResultMsgs air_commits_oper = []" "op_To air_commits_oper = ''''" "op_CreatedAt air_commits_oper = 5"
  by (simp_all add: air_commits_oper_def air_oper_def)

theorem answers_fit_machine_witness:
  "map msg_Event (op_ResultMsgs air_commits_result) = [EventDKGCommitConfirmationReceived] \<and>
    (\<exists>tr. map_of (fsm_transitions dkg_fsm) (StateDkgCommitsAwaitConfirmations, EventDKGCommitConfirmationReceived) = Some tr \<and>
      \<not> tr_isInternal tr)"
proof -
  have "machine_of StateDkgCommitsAwaitConfirmations = Some dkg_fsm" by (simp add: machine_of_dkg dkg_lists)
  moreover have "StateDkgCommitsAwaitConfirmations \<in> set air_states" by (simp add: air_states_def)
  ultimately show ?thesis
    using answers_fit_machine[OF air_commits_answered[OF refl]]
    by (simp add: air_commits_oper_simps air_commits_result_def withAnswer_def Let_def air_createMessage_def)
qed



section \<open>What the machine checks and sends\<close>

text \<open>
  C7: A machine confirms only deals that match the commits.  When the responses of a round are sent,
  there is one for every stored deal that is not the own one, in order; for each of them the
  generator accepted the deal, and the commitments inside the decrypted deal are the ones that its
  dealer had broadcast before.
\<close>

theorem deals_match_commits:
  assumes "handleStateDkgResponsesAwaitConfirmations env (am, oper) = Inr (Inr (), (am', oper'))"
  shows "\<exists>d rs bz. map_of (am_dkgInstances am') (op_DKGIdentifier oper) = Some d \<and>
    list_all2 (deal_checked (ae_kyber env) (dkg_pubKeys d) (dkg_commits d))
      (filter (\<lambda>deal. ky_deal_Index (ae_kyber env) deal \<noteq> word_of_int (dkg_ParticipantID d)) (map snd (dkg_deals d))) rs \<and>
    ky_MarshalResponses (ae_kyber env) rs = Inr bz \<and>
    (\<exists>m. op_ResultMsgs oper' = op_ResultMsgs oper @ [m] \<and> msg_Event m = EventDKGResponseConfirmationReceived \<and>
      ae_Marshal_request env (ReqDkgResponse \<lparr>rr_ParticipantId = dkg_ParticipantID d, rr_Response = bz,
        rr_CreatedAt = op_CreatedAt oper\<rparr>) = Inr (Data m))"
  using assms
  by (rule responses_run) (fastforce simp: withAnswer_def Let_def air_createMessage_def)

theorem deals_match_commits_witness:
  "\<exists>rs. list_all2 (deal_checked air_kyber air_keys [(''bob'', [[1], [2]])]) [1] rs"
proof -
  from air_responses_run obtain oper' where
    "handleStateDkgResponsesAwaitConfirmations air_sample (air_deals, air_oper StateDkgResponsesAwaitConfirmations 3) =
      Inr (Inr (), (air_responses, oper'))" by blast
  from deals_match_commits[OF this] show ?thesis by (auto simp: air_responses_def air_dkg_def air_kyber_def)
qed

text \<open>
  C25: Deals go to their recipients only, encrypted.  In the answer to the commits of a round there is one
  message for every deal of the generator, addressed to the participant whose number the deal has
  and carrying the deal encrypted with that participant's key, and then one to the machine's own
  participant, which carries no deal.
\<close>

theorem deals_encrypted_for_recipient:
  assumes "handleStateDkgDealsAwaitConfirmations env (am, oper) = Inr (Inr (), (am', oper'))"
  shows "\<exists>d g g' deals ms m. map_of (am_dkgInstances am') (op_DKGIdentifier oper) = Some d \<and>
    ky_Deals (ae_kyber env) g = (Inr deals, g') \<and> op_ResultMsgs oper' = op_ResultMsgs oper @ ms @ [m] \<and>
    list_all2 (deal_message env d (am_baseSuite am) oper) deals ms \<and>
    DKG_GetParticipantByIndex d (dkg_ParticipantID d) = Inr (RecipientAddr m) \<and>
    ae_Marshal_request env (ReqDkgDeal \<lparr>dlr_ParticipantId = dkg_ParticipantID d,
      dlr_Deal = string_bytes ''self-confirm'', dlr_CreatedAt = op_CreatedAt oper\<rparr>) = Inr (Data m)"
  using assms by (rule deals_run) blast

theorem deals_encrypted_for_recipient_witness:
  "\<exists>oper' d ms m. handleStateDkgDealsAwaitConfirmations air_sample
      (air_started air0, air_oper StateDkgDealsAwaitConfirmations 2) = Inr (Inr (), (air_deals, oper')) \<and>
    op_ResultMsgs oper' = ms @ [m] \<and>
    list_all2 (deal_message air_sample d (sample_key 0) (air_oper StateDkgDealsAwaitConfirmations 2)) [(1, 0)] ms"
proof -
  from air_deals_run obtain oper' where
    r: "handleStateDkgDealsAwaitConfirmations air_sample (air_started air0, air_oper StateDkgDealsAwaitConfirmations 2) =
      Inr (Inr (), (air_deals, oper'))" by blast
  from deals_encrypted_for_recipient[OF r] obtain d deals g g' ms m where "ky_Deals air_kyber g = (Inr deals, g')"
    "op_ResultMsgs oper' = ms @ [m]" and a: "list_all2 (deal_message air_sample d (am_baseSuite (air_started air0))
      (air_oper StateDkgDealsAwaitConfirmations 2)) deals ms" by auto
  moreover from this have "deals = [(1, 0)]" by (simp add: air_kyber_def)
  ultimately show ?thesis using r by (auto simp: air_started_def air0_def)
qed

text \<open>
  C9: The machine and the round number the participants alike.  A machine that starts a DKG with the
  answer of the round's state machine to \<open>EventDKGInitProcess\<close> has as its own number the one under which
  the round has its key, names under every number the participant that the round has there, and
  uses the threshold of the round.
\<close>

theorem participant_numbers_agree:
  assumes "roster_ok p" and "DKGProposalPayload p = None" and "sig_quorum p = Some q"
    and "FSM_Do EventDKGInitProcess [ReqDefault r] (in_state dkg_fsm StateSignatureProposalCollected) p =
      Inr ((Some resp, None), f', p')"
    and "resp_Data resp = Some (RespPubKeys es)" and "ae_pubkeys env (op_Payload oper) = Inr (map Some es)"
    and "handleStateDkgCommitsAwaitConfirmations env (am, oper) = Inr (Inr (), (am', oper'))"
    and "(i, v) \<in> set q" and "am_pubKey am = Some k" and "ky_UnmarshalPoint (ae_kyber env) (sp_DkgPubKey v) = Inr k"
    and "\<And>j w. (j, w) \<in> set q \<Longrightarrow> ky_UnmarshalPoint (ae_kyber env) (sp_DkgPubKey w) = Inr k \<Longrightarrow> j = i"
  shows "\<exists>d. map_of (am_dkgInstances am') (op_DKGIdentifier oper) = Some d \<and> dkg_ParticipantID d = i \<and>
    dkg_Threshold d = Threshold p \<and> (\<forall>(j, w) \<in> set q. DKG_GetParticipantByIndex d j = Inr (sp_Username w))"
proof -
  from dkg_init_Do[OF assms(1-3) refl, of r] assms(4,5) pubkeys_of_roster[OF assms(1,3)]
  have es: "es = map (pubkey_entry (Threshold p)) q" by auto
  from assms(7,6) obtain d am1 where new: "newInstance env (op_DKGIdentifier oper) (map Some es) am = Inr (Inr d, am1)"
    and d: "map_of (am_dkgInstances am') (op_DKGIdentifier oper) = Some d" by (rule commits_run)
  note n = numbers_agree[OF assms(1,3) new[unfolded es]]
  have "dkg_ParticipantID d = i" by (rule n(3)[OF assms(8-11)])
  with d n(1,2) show ?thesis by auto
qed

theorem participant_numbers_agree_witness:
  "\<exists>d. map_of (am_dkgInstances (air_started air0)) ''round'' = Some d \<and> dkg_ParticipantID d = 0 \<and>
    DKG_GetParticipantByIndex d 1 = Inr ''bob''"
proof -
  let ?p = "dump_Payload sample_agreed" and ?t = "\<lparr>dr_CreatedAt = 4\<rparr>"
  obtain q where q: "sig_quorum ?p = Some q" using sample_agreed_roster(1) by (rule roster_ok_quorum)
  then have in_q: "set q = {(0, \<lparr>sp_ParticipantID = 0, sp_Username = ''alice'', sp_PubKey = sample_key 1, sp_DkgPubKey = sample_key 2,
        sp_InvitationSecret = '''', sp_Status = SigConfirmationConfirmed, sp_Threshold = 2, sp_UpdatedAt = 2\<rparr>),
      (1, \<lparr>sp_ParticipantID = 1, sp_Username = ''bob'', sp_PubKey = sample_key 3, sp_DkgPubKey = sample_key 4,
        sp_InvitationSecret = '''', sp_Status = SigConfirmationConfirmed, sp_Threshold = 2, sp_UpdatedAt = 3\<rparr>)}"
    by (auto simp: sample_defs sig_quorum_def)
  have es: "map (pubkey_entry (Threshold ?p)) q = air_entries"
    using q by (auto simp: sample_defs sig_quorum_def pubkey_entry_def air_entries_def)
  note init = dkg_init_Do[OF sample_agreed_roster q refl, of ?t, unfolded pubkeys_of_roster[OF sample_agreed_roster(1) q] es]
  have "ae_pubkeys air_sample (op_Payload air_commits_oper) = Inr (map Some air_entries)" by simp
  note agree = participant_numbers_agree[OF sample_agreed_roster q init _ this air_commits_run[OF refl]]
  obtain v where v: "(0, v) \<in> set q" "sp_DkgPubKey v = sample_key 2" using that in_q by fastforce
  have u: "j = 0" if "(j, w) \<in> set q" "ky_UnmarshalPoint (ae_kyber air_sample) (sp_DkgPubKey w) = Inr (sample_key 2)" for j w
    using that sample_keys_differ by (auto simp: in_q)
  have "\<exists>d. map_of (am_dkgInstances (air_started air0)) (op_DKGIdentifier air_commits_oper) = Some d \<and> dkg_ParticipantID d = 0 \<and>
      dkg_Threshold d = Threshold ?p \<and> (\<forall>(j, w) \<in> set q. DKG_GetParticipantByIndex d j = Inr (sp_Username w))"
    by (rule agree[OF _ v(1) _ _ u]) (simp_all add: v(2) air0_def)
  then show ?thesis by (auto simp: in_q air_commits_oper_simps)
qed

section \<open>Keyrings and signatures\<close>

text \<open>
  C24: The keyring of a finished DKG is what the machine signs with.  When the responses of a round have
  been processed, the keyring that the instance yields can be loaded under the round's identifier,
  the keyrings of other rounds are as they were, and the master key in the answer is the public key
  of the instance.
\<close>

theorem keyring_round_trip:
  assumes "leveldb_ok (ae_leveldb env)" and "cipher_ok env" and "keyring_codec_ok (ae_kyber env)"
    and "handleStateDkgMasterKeyAwaitConfirmations env (am, oper) = Inr (Inr (), (am', oper'))"
  shows "\<exists>d kr pub pubBz polyBz m. map_of (am_dkgInstances am') (op_DKGIdentifier oper) = Some d \<and>
    GetBLSKeyring (ae_kyber env) d = Inr kr \<and> loadBLSKeyring env (op_DKGIdentifier oper) am' = Inr (Inr kr, am') \<and>
    (\<forall>e kr'. e \<noteq> op_DKGIdentifier oper \<longrightarrow>
      (loadBLSKeyring env e am' = Inr (Inr kr', am') \<longleftrightarrow> loadBLSKeyring env e am = Inr (Inr kr', am))) \<and>
    GetDistributedPublicKey (ae_kyber env) d = Inr (Inr pub) \<and> ky_MarshalPoint (ae_kyber env) pub = Inr pubBz \<and>
    PubPolyBytes (ae_kyber env) kr = Inr polyBz \<and> op_ResultMsgs oper' = op_ResultMsgs oper @ [m] \<and>
    ae_Marshal_request env (ReqDkgMasterKey \<lparr>mk_ParticipantId = dkg_ParticipantID d, mk_MasterKey = pubBz,
      mk_CreatedAt = op_CreatedAt oper, mk_PubPolyBz = polyBz\<rparr>) = Inr (Data m)"
proof -
  from assms(4) obtain am1 d kr pub pubBz polyBz reqBz where d: "map_of (am_dkgInstances am1) (op_DKGIdentifier oper) = Some d"
    "GetBLSKeyring (ae_kyber env) d = Inr kr" "GetDistributedPublicKey (ae_kyber env) d = Inr (Inr pub)"
    "ky_MarshalPoint (ae_kyber env) pub = Inr pubBz" "PubPolyBytes (ae_kyber env) kr = Inr polyBz"
    and save: "saveBLSKeyring env (op_DKGIdentifier oper) kr am1 = Inr (Inr (), am')"
    and req: "ae_Marshal_request env (ReqDkgMasterKey \<lparr>mk_ParticipantId = dkg_ParticipantID d, mk_MasterKey = pubBz,
       mk_CreatedAt = op_CreatedAt oper, mk_PubPolyBz = polyBz\<rparr>) = Inr reqBz"
    "oper' = withAnswer EventDKGMasterKeyConfirmationReceived reqBz oper"
    and same: "am_db am1 = am_db am" "am_encryptionKey am1 = am_encryptionKey am"
    by (rule master_key_run)
  note s = saveBLSKeyring_stored[OF assms(1-3) save]
  have "map_of (am_dkgInstances am') (op_DKGIdentifier oper) = Some d" using d(1) by (subst s(1)) simp
  with d(2-5) s(2) req same show ?thesis
    by (auto simp: loadBLSKeyring_iff withAnswer_def Let_def air_createMessage_def)
qed

theorem keyring_round_trip_witness:
  "\<exists>kr. loadBLSKeyring air_sample ''round'' air_finished = Inr (Inr kr, air_finished) \<and> kr_PubPoly kr = [[9], [8]]"
proof -
  from air_master_key_run obtain oper' where
    r: "handleStateDkgMasterKeyAwaitConfirmations air_sample (air_responses, air_oper StateDkgMasterKeyAwaitConfirmations 4) =
      Inr (Inr (), (air_finished, oper'))" by blast
  have "leveldb_ok (ae_leveldb air_sample)" "keyring_codec_ok (ae_kyber air_sample)"
    using memdb_ok air_sample_ok(4) by simp_all
  from keyring_round_trip[OF this(1) air_sample_ok(3) this(2) r] obtain d kr where
    "map_of (am_dkgInstances air_finished) ''round'' = Some d" "GetBLSKeyring air_kyber d = Inr kr"
    "loadBLSKeyring air_sample ''round'' air_finished = Inr (Inr kr, air_finished)" by auto
  then show ?thesis by (auto simp: air_finished_def GetBLSKeyring_def air_kyber_def wrapE_def)
qed

text \<open>
  C23: A machine signs exactly the messages of the batch.  The answer to a signing operation has one
  signature for every message that the tasks of the batch stand for, in order and under the
  message's identifier, each made over the message's payload with the stored share of the round; the
  machine is left as it was.
\<close>

theorem partial_signs_of_batch:
  assumes "handleStateSigningAwaitPartialSigns env (am, oper) = Inr (Inr (), (am', oper'))"
  shows "\<exists>payload tasks msgs d signs m. am' = am \<and> ae_invitation env (op_Payload oper) = Inr payload \<and>
    ae_tasks env payload = Inr tasks \<and> TasksToMessages (ae_baked env) tasks = Inr (Inr msgs) \<and>
    map_of (am_dkgInstances am) (op_DKGIdentifier oper) = Some d \<and>
    map ps_MessageID signs = map mts_MessageID msgs \<and>
    list_all2 (\<lambda>msg s. \<exists>kr share. loadBLSKeyring env (op_DKGIdentifier oper) am = Inr (Inr kr, am) \<and>
      kr_Share kr = Some share \<and> ky_Sign (ae_kyber env) (am_baseSuite am) share (mts_Payload msg) = Inr (ps_Sign s)) msgs signs \<and>
    op_ResultMsgs oper' = op_ResultMsgs oper @ [m] \<and>
    ae_Marshal_request env (ReqPartialSigns \<lparr>bp_BatchID = pir_BatchID payload, bp_ParticipantId = dkg_ParticipantID d,
      bp_PartialSigns = signs, bp_CreatedAt = op_CreatedAt oper\<rparr>) = Inr (Data m)"
  using assms
proof (rule signing_run)
  fix payload tasks msgs d signs bz
  assume run: "signMessages env (op_DKGIdentifier oper) msgs [] am = Inr (Inr signs, am')"
    and rest: "ae_invitation env (op_Payload oper) = Inr payload" "ae_tasks env payload = Inr tasks"
      "TasksToMessages (ae_baked env) tasks = Inr (Inr msgs)" "map_of (am_dkgInstances am) (op_DKGIdentifier oper) = Some d"
      "ae_Marshal_request env (ReqPartialSigns \<lparr>bp_BatchID = pir_BatchID payload, bp_ParticipantId = dkg_ParticipantID d,
         bp_PartialSigns = signs, bp_CreatedAt = op_CreatedAt oper\<rparr>) = Inr bz"
    and oper': "oper' = withAnswer EventSigningPartialSignReceived bz oper"
  from signMessages_run[OF run] rest show ?thesis
    by (intro exI[of _ payload] exI[of _ tasks] exI[of _ msgs] exI[of _ d] exI[of _ signs]
        exI[of _ "last (op_ResultMsgs oper')"]) (auto simp: oper' withAnswer_def Let_def air_createMessage_def)
qed

lemma air_signing_run:
  "\<exists>oper'. handleStateSigningAwaitPartialSigns air_sample (air_finished, air_oper StateSigningAwaitPartialSigns 5) =
    Inr (Inr (), (air_finished, oper'))"
proof -
  let ?kr = "\<lparr>kr_PubPoly = [[9], [8]], kr_Share = Some [7 :: 8 word]\<rparr>"
  have "loadBLSKeyring air_sample ''round'' air_finished = Inr (Inr ?kr, air_finished)"
    by (simp add: loadBLSKeyring_def readSalt_def dbGet_def monad_defs decrypt_def deriveCipher_def NonceSize_def air_finished_def
        air_responses_def air_deals_def air0_def air_sample_def air_kyber_def memdb_def LoadBLSKeyringFromBytes_def
        sample_keyring_json_def wrapE_def unmarshalCommitments_def fsm_const makeBLSKeyKeyringDBKey_def)
  then have sign: "createPartialSign air_sample msg ''round'' air_finished = Inr (Inr (7 # msg), air_finished)" for msg
    by (simp add: createPartialSign_def monad_defs) (simp add: air_kyber_def)
  have pid: "getParticipantID ''round'' air_finished = Inr (Inr 0, air_finished)"
    by (simp add: getParticipantID_def getInstance_def monad_defs air_finished_def air_dkg_def)
  obtain payload tasks msgs where "ae_invitation air_sample [5, 0] = Inr payload" "ae_tasks air_sample payload = Inr tasks"
    "TasksToMessages (ae_baked air_sample) tasks = Inr (Inr msgs)"
    by (simp add: air_sample_def TasksToMessages_def)
  moreover have "\<exists>signs. signMessages air_sample ''round'' msgs acc air_finished = Inr (Inr signs, air_finished)" for acc
    by (induction msgs arbitrary: acc) (simp_all add: bindM_def wrapM_def sign retM_def)
  from this[of "[]"] obtain signs where "signMessages air_sample ''round'' msgs [] air_finished = Inr (Inr signs, air_finished)" ..
  ultimately show ?thesis
    by (simp add: handleStateSigningAwaitPartialSigns_def readOperation_def monad_defs onMachine_def pid answer_run)
qed

theorem partial_signs_of_batch_witness:
  "\<exists>oper' m. handleStateSigningAwaitPartialSigns air_sample (air_finished, air_oper StateSigningAwaitPartialSigns 5) =
    Inr (Inr (), (air_finished, oper')) \<and> op_ResultMsgs oper' = [m]"
proof -
  from air_signing_run obtain oper' where
    r: "handleStateSigningAwaitPartialSigns air_sample (air_finished, air_oper StateSigningAwaitPartialSigns 5) =
      Inr (Inr (), (air_finished, oper'))" by blast
  with partial_signs_of_batch[OF r] show ?thesis by auto
qed

section \<open>Nested reinitializations\<close>

text \<open>The payload of an operation that is inside another payload is shorter than that one.\<close>

definition payloads_shrink :: "('db, 'p, 's, 'g, 'd, 'r, 'h) air_env \<Rightarrow> bool" where
  "payloads_shrink env \<longleftrightarrow> (\<forall>bz ops oper. ae_operations env bz = Inr ops \<longrightarrow> oper \<in> set ops \<longrightarrow>
     length (op_Payload oper) < length bz)"

lemma payloads_shrinkD:
  "payloads_shrink env \<Longrightarrow> ae_operations env bz = Inr ops \<Longrightarrow> oper \<in> set ops \<Longrightarrow> length (op_Payload oper) < length bz"
  by (auto simp: payloads_shrink_def)

lemma handler_depends:
  assumes "\<And>ops oper. ae_operations env (op_Payload (snd s)) = Inr ops \<Longrightarrow> oper \<in> set ops \<Longrightarrow> rec oper = rec' oper"
  shows "handleOperation env rec s = handleOperation env rec' s"
proof (cases "ae_operations env (op_Payload (snd s))")
  case (Inr ops)
  have "forM (\<lambda>oper. if skippedOnReinit oper then retM ()
        else bindM (wrapM ''failed to process operation: %w'' [] (rec oper)) (\<lambda>_. retM ())) xs =
      forM (\<lambda>oper. if skippedOnReinit oper then retM ()
        else bindM (wrapM ''failed to process operation: %w'' [] (rec' oper)) (\<lambda>_. retM ())) xs"
    if "set xs \<subseteq> set ops" for xs
    using that assms[OF Inr] by (induction xs) auto
  from this[OF subset_refl] Inr show ?thesis
    by (simp add: handleOperation_eq handleReinitDKG_def readOperation_def bindM_def[of "readM _"] readM_def
        bindM_def[of "wrapM _ _ (liftE _)"] wrapM_def[of _ _ "liftE _"] liftE_def)
qed (simp add: handleOperation_eq handleReinitDKG_def readOperation_def bindM_def[of "readM _"] readM_def
    bindM_def[of "wrapM _ _ (liftE _)"] wrapM_def[of _ _ "liftE _"] liftE_def)

lemma result_depth:
  assumes "payloads_shrink env"
  shows "length (op_Payload oper) < n \<Longrightarrow> length (op_Payload oper) < m \<Longrightarrow>
    GetOperationResult_at env n oper = GetOperationResult_at env m oper"
proof (induction n arbitrary: m oper)
  case (Suc n)
  then obtain k where m: "m = Suc k" "length (op_Payload oper) \<le> n" "length (op_Payload oper) \<le> k" by (cases m) auto
  have "GetOperationResult_at env n oper1 = GetOperationResult_at env k oper1"
    if "ae_operations env (op_Payload oper) = Inr ops" "oper1 \<in> set ops" for ops oper1
    using payloads_shrinkD[OF assms that] m by (intro Suc.IH) simp_all
  then have "handleOperation env (GetOperationResult_at env n) (am, oper) = handleOperation env (GetOperationResult_at env k) (am, oper)"
    for am by (intro handler_depends) simp
  then show ?case by (intro ext) (simp add: m(1) resultOf_def bindM_def attemptM_def)
qed simp

text \<open>
  C39: The recursion through reinitializations ends, and its bound is not visible.  The bounded
  \<open>GetOperationResult\<close> satisfies the equation of the unbounded recursion: the result of an operation is
  computed with the results of the operations in its payload, to any depth, because those have
  shorter payloads.
\<close>

theorem result_recursion:
  assumes "payloads_shrink env"
  shows "GetOperationResult env oper = resultOf env (handleOperation env (GetOperationResult env)) oper"
proof (rule ext)
  fix am
  have "GetOperationResult_at env (length (op_Payload oper)) oper1 = GetOperationResult env oper1"
    if "ae_operations env (op_Payload oper) = Inr ops" "oper1 \<in> set ops" for ops oper1
    unfolding GetOperationResult_def by (rule result_depth[OF assms payloads_shrinkD[OF assms that]]) simp
  then have "handleOperation env (GetOperationResult_at env (length (op_Payload oper))) (am, oper) =
      handleOperation env (GetOperationResult env) (am, oper)" by (intro handler_depends) simp
  then show "GetOperationResult env oper am = resultOf env (handleOperation env (GetOperationResult env)) oper am"
    by (simp add: GetOperationResult_def[of env oper] resultOf_def bindM_def attemptM_def)
qed

theorem result_recursion_witness:
  "GetOperationResult air_sample (air_oper ReinitDKG 6) =
    resultOf air_sample (handleOperation air_sample (GetOperationResult air_sample)) (air_oper ReinitDKG 6)"
  by (rule result_recursion) (auto simp: payloads_shrink_def air_sample_def split: if_split_asm)

section \<open>Result files\<close>

interpretation files_kept: air_frame env "\<lambda>am. am_files am = files" for env files
proof unfold_locales
  fix d kr
  show "stays (\<lambda>am. am_files am = files) (saveBLSKeyring env d kr)"
    unfolding saveBLSKeyring_def readSalt_def encrypt_def
    by (intro stays_rules stays_dbGet TrueI) (auto simp: keeps_def dbPut_def nextRandom_def split: prod.split option.split)
qed simp_all

lemma store_keeps_files: "stays (\<lambda>am. am_files am = files) (storeOperation env oper)"
  unfolding storeOperation_def readLog_def writeLog_def getRoundOperationLog_def
  by (intro stays_rules stays_dbGet TrueI) (auto simp: keeps_def dbPut_def split: prod.split option.split)

text \<open>
  A result file that is already there is written over, not replaced.  After an operation has been
  processed, the file begins with the encoded result, but what an older, longer file had behind that
  is still there, because the file is opened without truncation.
\<close>

theorem result_file_overlay:
  assumes "air_ProcessOperation env oper store am = Inr (Inr path, am')"
    and "\<And>p bz. ae_Write env p bz = (length bz, None)"
  shows "\<exists>oper' am1 bz. GetOperationResult env oper am = Inr (Inr oper', am1) \<and> ae_Marshal_operation env oper' = Inr bz \<and>
    fst path = am_ResultFolder am' \<and>
    get_list (am_files am') path = bz @ drop (length bz) (get_list (am_files am) path)"
proof -
  from assms(1) obtain res am1 am2 bz where r: "GetOperationResult env oper am = Inr (Inr res, am1)"
    and st: "(if store \<and> \<not> IsSigningState (Some oper) then storeOperation env oper else retM ()) am1 = Inr (Inr (), am2)"
    and bz: "ae_Marshal_operation env res = Inr bz" and path: "fst path = am_ResultFolder am2"
    and w: "writeFile env path bz am2 = Inr (Inr (), am')" by (rule process_run)
  from keepsD[OF files_kept.result_keeps refl r[unfolded GetOperationResult_def]] have "am_files am1 = am_files am" .
  moreover from st keepsD[OF store_keeps_files refl] have "am_files am2 = am_files am1"
    by (auto simp: retM_def split: if_split_asm)
  moreover from w assms(2)[of path bz] have
    "am' = am2\<lparr>am_files := AList.update path (bz @ drop (length bz) (get_list (am_files am2) path)) (am_files am2)\<rparr>"
    by (auto simp: writeFile_def success_simps split: option.split_asm)
  ultimately show ?thesis using r bz path by (auto simp: get_list_def map_of_update)
qed

theorem result_file_overlay_witness:
  "\<exists>am'. air_ProcessOperation air_sample air_commits_oper False (air0\<lparr>am_files := [(air_path, [8, 9])]\<rparr>) = Inr (Inr air_path, am') \<and>
    get_list (am_files am') air_path = [6, 9]"
proof -
  let ?am = "air0\<lparr>am_files := [(air_path, [8, 9])]\<rparr>"
  have "core ?am = core air0" by (simp add: core_def)
  note run = air_process[of ?am _ False, simplified, OF air_commits_answered[OF this] refl]
  have "ae_Write air_sample p bz = (length bz, None)" for p bz by simp
  from result_file_overlay[OF run this] run show ?thesis
    by (auto simp: air_started_def air0_def get_list_def)
qed

end
