(* ===== verification/Prompt.thy ===== *)
theory Prompt
  imports Airgapped_Frame "HOL-Library.Char_ord" "HOL-Library.List_Lexorder"
begin

text \<open>
  The prompt of the airgapped machine (\<open>src/cmd/airgapped/main.go\<close>): its commands, the password that
  protects the keys in memory, and the loop that reads and executes commands.

  The input of the operator is a list of lines, one for every read.  What is printed is kept as the
  format string with its arguments; writing to the terminal is assumed to succeed.  Files, base64,
  JSON, the parsing of durations and the terminal driver are parameters, collected in \<open>prompt_env\<close>.
\<close>

section \<open>The prompt\<close>

record ('db, 'p, 's, 'g, 'd, 'r, 'h) prompt_env =
  pe_air :: "('db, 'p, 's, 'g, 'd, 'r, 'h) air_env"
  pe_ReadFile :: "string \<Rightarrow> error + bytes"
  pe_Unmarshal_operation :: "bytes \<Rightarrow> error + Operation"
  pe_EncodeBase64 :: "bytes \<Rightarrow> string"
  pe_DecodeBase64 :: "string \<Rightarrow> error + bytes"
  pe_Marshal_pubkey :: "string \<Rightarrow> error + bytes"
  pe_ParseDuration :: "string \<Rightarrow> error + int"
  pe_Error :: "error \<Rightarrow> string"
  pe_MakeRaw :: "error option"
  pe_Restore :: "error option"

text \<open>The handlers, which the code has as method values.\<close>

datatype handler =
    readOperation_handler | help_handler | showDKGPubKey_handler | showFinishedDKG_handler
  | replayOperationLog_handler | dropOperationLog_handler | exit_handler | verifySign_handler
  | changeConfiguration_handler | generateDKGPubKeyJSON_handler | setSeed_handler

record promptCommand =
  commandHandler :: handler
  description :: string

text \<open>
  \<open>pr_exit\<close> says whether the channel of capacity one holds a value; \<open>pr_expiration\<close> is the duration of
  the running ticker.
\<close>

record ('db, 'p, 's, 'g, 'd, 'r) prompt =
  pr_airgapped :: "('db, 'p, 's, 'g, 'd, 'r) air_machine"
  pr_commands :: "(string, promptCommand) gomap"
  pr_currentCommand :: string
  pr_exit :: bool
  pr_expiration :: int
  pr_input :: "string list"
  pr_output :: "(string \<times> fmtarg list) list"

type_synonym ('db, 'p, 's, 'g, 'd, 'r, 'a) prompt_op = "(('db, 'p, 's, 'g, 'd, 'r) prompt, 'a) op"

definition printf :: "string \<Rightarrow> fmtarg list \<Rightarrow> ('db, 'p, 's, 'g, 'd, 'r, unit) prompt_op" where
  "printf msg args = updateM (\<lambda>p. p\<lparr>pr_output := pr_output p @ [(msg, args)]\<rparr>)"

definition onAir :: "('db, 'p, 's, 'g, 'd, 'r, 'a) air_op \<Rightarrow> ('db, 'p, 's, 'g, 'd, 'r, 'a) prompt_op" where
  "onAir m p = bindR (m (pr_airgapped p)) (\<lambda>(r, am). Inr (r, p\<lparr>pr_airgapped := am\<rparr>))"

text \<open>One line of input, without its end.\<close>

definition readLine :: "('db, 'p, 's, 'g, 'd, 'r, string) prompt_op" where
  "readLine p = (case pr_input p of
     [] \<Rightarrow> Inr (Inl (errorsNew ''EOF''), p)
   | line # rest \<Rightarrow> Inr (Inr line, p\<lparr>pr_input := rest\<rparr>))"

definition newline :: string where "newline = [CHR 0x0A]"

definition ReadString :: "('db, 'p, 's, 'g, 'd, 'r, string) prompt_op" where
  "ReadString = bindM readLine (\<lambda>line. retM (line @ newline))"

text \<open>\<open>strings.Trim\<close>.\<close>

definition Trim :: "string \<Rightarrow> string \<Rightarrow> string" where
  "Trim s cutset = rev (dropWhile (\<lambda>c. c \<in> set cutset) (rev (dropWhile (\<lambda>c. c \<in> set cutset) s)))"

section \<open>Commands\<close>

definition exitCommand :: "('db, 'p, 's, 'g, 'd, 'r, unit) prompt_op" where
  "exitCommand = updateM (\<lambda>p. p\<lparr>pr_exit := True\<rparr>)"

definition readOperationCommand ::
  "('db, 'p, 's, 'g, 'd, 'r, 'h) prompt_env \<Rightarrow> ('db, 'p, 's, 'g, 'd, 'r, unit) prompt_op"
where
  "readOperationCommand env =
    bindM (printf ''> Enter the path to Operation JSON file: '' []) (\<lambda>_.
    bindM (wrapM ''failed to read base64Operation: %w'' [] ReadString) (\<lambda>operationPath.
    bindM (wrapM ''failed to read Operation file: %w'' []
      (liftE (pe_ReadFile env (Trim operationPath ('' '' @ newline))))) (\<lambda>operationBz.
    bindM (wrapM ''failed to unmarshal Operation: %w'' [] (liftE (pe_Unmarshal_operation env operationBz))) (\<lambda>operation.
    bindM (wrapM ''failed to ProcessOperation: %w'' [] (onAir (air_ProcessOperation (pe_air env) operation True))) (\<lambda>path.
    printf ''Operation JSON was handled successfully, the result Operation JSON was saved to: %s'' [AStr (fst path), AStr (snd path)])))))"

definition marshalPubKey ::
  "('db, 'p, 's, 'g, 'd, 'r, 'h) prompt_env \<Rightarrow> ('db, 'p, 's, 'g, 'd, 'r, string) prompt_op"
where
  "marshalPubKey env =
    bindM (readM (am_pubKey \<circ> pr_airgapped)) (\<lambda>pubkey.
    bindM (liftG (deref pubkey)) (\<lambda>pubkey.
    bindM (wrapM ''failed to marshal DKG pub key: %w'' [] (liftE (ky_MarshalPoint (ae_kyber (pe_air env)) pubkey))) (\<lambda>pubkeyBz.
    retM (pe_EncodeBase64 env pubkeyBz))))"

definition showDKGPubKeyCommand ::
  "('db, 'p, 's, 'g, 'd, 'r, 'h) prompt_env \<Rightarrow> ('db, 'p, 's, 'g, 'd, 'r, unit) prompt_op"
where
  "showDKGPubKeyCommand env = bindM (marshalPubKey env) (\<lambda>pubKeyBase64. printf ''%s'' [AStr pubKeyBase64])"


definition helpCommand :: "('db, 'p, 's, 'g, 'd, 'r, unit) prompt_op" where
  "helpCommand =
    bindM (readM pr_commands) (\<lambda>commands.
    bindM (printf ''Available commands:'' []) (\<lambda>_.
    forM (\<lambda>commandName.
      bindM (liftG (deref (map_of commands commandName))) (\<lambda>command.
      printf ''* %s - %s'' [AStr commandName, AStr (description command)])) (sort (keys commands))))"

definition showFinishedDKGCommand ::
  "('db, 'p, 's, 'g, 'd, 'r, 'h) prompt_env \<Rightarrow> ('db, 'p, 's, 'g, 'd, 'r, unit) prompt_op"
where
  "showFinishedDKGCommand env =
    bindM (wrapM ''failed to get a list of finished dkgs: %w'' [] (onAir (GetBLSKeyrings (pe_air env)))) (\<lambda>keyrings.
    forM (\<lambda>(dkgID, keyring).
      bindM (printf ''DKG identifier: %s'' [AStr dkgID]) (\<lambda>_.
      bindM (liftG (slice_at (kr_PubPoly keyring) 0)) (\<lambda>commit.
      case ky_MarshalPoint (ae_kyber (pe_air env)) commit of
        Inl e \<Rightarrow> printf ''failed to marshal pubkey: %w'' [AStr (pe_Error env e)]
      | Inr pubkeyBz \<Rightarrow>
          bindM (printf ''PubKey: %s'' [AStr (pe_EncodeBase64 env pubkeyBz)]) (\<lambda>_.
          printf ''-----------------------------------------------------'' [])))) keyrings)"

definition askRound :: "('db, 'p, 's, 'g, 'd, 'r, string) prompt_op" where
  "askRound =
    bindM (printf ''> Enter the DKGRoundIdentifier: '' []) (\<lambda>_.
    wrapM ''failed to read dkgRoundIdentifier: %w'' [] ReadString)"

definition replayOperationLogCommand ::
  "('db, 'p, 's, 'g, 'd, 'r, 'h) prompt_env \<Rightarrow> ('db, 'p, 's, 'g, 'd, 'r, unit) prompt_op"
where
  "replayOperationLogCommand env =
    bindM askRound (\<lambda>dkgRoundIdentifier.
    wrapM ''failed to ReplayOperationsLog: %w'' []
      (onAir (ReplayOperationsLog (pe_air env) (Trim dkgRoundIdentifier newline))))"

definition dropOperationLogCommand ::
  "('db, 'p, 's, 'g, 'd, 'r, 'h) prompt_env \<Rightarrow> ('db, 'p, 's, 'g, 'd, 'r, unit) prompt_op"
where
  "dropOperationLogCommand env =
    bindM askRound (\<lambda>dkgRoundIdentifier.
    wrapM ''failed to DropOperationsLog: %w'' []
      (onAir (DropOperationsLog (pe_air env) (Trim dkgRoundIdentifier ('' '' @ newline)))))"

text \<open>
  The first part of the command: it returns the new duration, if there is one.  The second part stops
  the running ticker, which has to receive from the channel, and starts the next one.
\<close>

definition readConfiguration ::
  "('db, 'p, 's, 'g, 'd, 'r, 'h) prompt_env \<Rightarrow> ('db, 'p, 's, 'g, 'd, 'r, int option) prompt_op"
where
  "readConfiguration env =
    bindM (printf ''> Enter a new path to save JSON files (leave empty to avoid changes): '' []) (\<lambda>_.
    bindM (wrapM ''failed to read input: %w'' [] readLine) (\<lambda>newresultfolder.
    bindM (if length newresultfolder > 0
           then bindM (onAir (updateM (SetResultFolder newresultfolder))) (\<lambda>_.
             printf ''Folder to save JSON files was changed to: %s'' [AStr newresultfolder])
           else retM ()) (\<lambda>_.
    bindM (printf ''> Enter a password expiration duration (leave empty to avoid changes): '' []) (\<lambda>_.
    bindM (wrapM ''failed to read input: %w'' [] readLine) (\<lambda>durationInput.
    if length durationInput > 0
    then bindM (wrapM ''failed to parse new duration: %w'' [] (liftE (pe_ParseDuration env durationInput)))
      (\<lambda>duration. retM (Some duration))
    else retM None)))))"

definition replaceTicker :: "int \<Rightarrow> ('db, 'p, 's, 'g, 'd, 'r, unit) prompt_op" where
  "replaceTicker duration =
    bindM (updateM (\<lambda>p. p\<lparr>pr_expiration := duration\<rparr>)) (\<lambda>_.
    printf ''Password expiration was changed to: %s'' [AInt duration])"

definition changeConfigurationCommand ::
  "('db, 'p, 's, 'g, 'd, 'r, 'h) prompt_env \<Rightarrow> ('db, 'p, 's, 'g, 'd, 'r, unit) prompt_op"
where
  "changeConfigurationCommand env =
    bindM (readConfiguration env) (\<lambda>duration. case duration of None \<Rightarrow> retM () | Some d \<Rightarrow> replaceTicker d)"

definition setSeedCommand ::
  "('db, 'p, 's, 'g, 'd, 'r, 'h) prompt_env \<Rightarrow> ('db, 'p, 's, 'g, 'd, 'r, unit) prompt_op"
where
  "setSeedCommand env =
    bindM (printf ''> WARNING! this will overwrite your old seed, which might make DKGs you've done with it unusable.'' []) (\<lambda>_.
    bindM (printf ''> Only do this on a fresh db_path. Type 'ok' to  continue: '' []) (\<lambda>_.
    bindM (wrapM ''failed to read confirmation: %w'' [] ReadString) (\<lambda>ok.
    if Trim ok ('' '' @ newline) \<noteq> ''ok'' then printf ''Seed setting canceled!'' []
    else
    bindM (printf ''> Enter the BIP39 mnemonic for a random seed: '' []) (\<lambda>_.
    bindM (wrapM ''failed to read BIP39 mnemonic: %w'' [] ReadString) (\<lambda>mnemonic.
    bindM (wrapM ''failed to set base seed: %w'' []
      (onAir (SetBaseSeed (pe_air env) (Trim mnemonic ('' '' @ newline))))) (\<lambda>_.
    wrapM ''failed to GenerateKeys: %w'' [] (onAir (GenerateKeys (pe_air env)))))))))"

definition verifySignCommand ::
  "('db, 'p, 's, 'g, 'd, 'r, 'h) prompt_env \<Rightarrow> ('db, 'p, 's, 'g, 'd, 'r, unit) prompt_op"
where
  "verifySignCommand env =
    bindM askRound (\<lambda>dkgRoundIdentifier.
    bindM (printf ''> Enter the BLS signature: '' []) (\<lambda>_.
    bindM (wrapM ''failed to read BLS signature (base64): %w'' [] ReadString) (\<lambda>signature.
    bindM (wrapM ''failed to decode BLS signature: %w'' [] (liftE (pe_DecodeBase64 env (Trim signature newline))))
      (\<lambda>signatureDecoded.
    bindM (printf ''> Enter the message which was signed (base64): '' []) (\<lambda>_.
    bindM (wrapM ''failed to read dkgRoundIdentifier: %w'' [] ReadString) (\<lambda>message.
    bindM (wrapM ''failed to decode message: %w'' [] (liftE (pe_DecodeBase64 env (Trim message newline))))
      (\<lambda>messageDecoded.
    bindM (attemptM (onAir (VerifySign (pe_air env) messageDecoded signatureDecoded (Trim dkgRoundIdentifier newline))))
      (\<lambda>r. case r of
        Inl e \<Rightarrow> printf ''Signature is invalid: %v'' [AStr (pe_Error env e)]
      | Inr _ \<Rightarrow> printf ''Signature is correct!'' []))))))))"

definition generateDKGPubKeyJSON ::
  "('db, 'p, 's, 'g, 'd, 'r, 'h) prompt_env \<Rightarrow> ('db, 'p, 's, 'g, 'd, 'r, unit) prompt_op"
where
  "generateDKGPubKeyJSON env =
    bindM (marshalPubKey env) (\<lambda>dkgPubKeyBase64.
    bindM (wrapM ''failed to marshal operation: %w'' [] (liftE (pe_Marshal_pubkey env dkgPubKeyBase64))) (\<lambda>dkgPubKeyJSON.
    bindM (readM (am_ResultFolder \<circ> pr_airgapped)) (\<lambda>resultFolder.
    bindM (onAir (writeFile (pe_air env) (resultFolder, ''dc4bc_dkg_pub_key.json'') dkgPubKeyJSON)) (\<lambda>_.
    printf ''A JSON file with DKG public key was saved to: %s'' [AStr resultFolder, AStr ''dc4bc_dkg_pub_key.json'']))))"

definition runHandler ::
  "('db, 'p, 's, 'g, 'd, 'r, 'h) prompt_env \<Rightarrow> handler \<Rightarrow> ('db, 'p, 's, 'g, 'd, 'r, unit) prompt_op"
where
  "runHandler env h = (case h of
     readOperation_handler \<Rightarrow> readOperationCommand env
   | help_handler \<Rightarrow> helpCommand
   | showDKGPubKey_handler \<Rightarrow> showDKGPubKeyCommand env
   | showFinishedDKG_handler \<Rightarrow> showFinishedDKGCommand env
   | replayOperationLog_handler \<Rightarrow> replayOperationLogCommand env
   | dropOperationLog_handler \<Rightarrow> dropOperationLogCommand env
   | exit_handler \<Rightarrow> exitCommand
   | verifySign_handler \<Rightarrow> verifySignCommand env
   | changeConfiguration_handler \<Rightarrow> changeConfigurationCommand env
   | generateDKGPubKeyJSON_handler \<Rightarrow> generateDKGPubKeyJSON env
   | setSeed_handler \<Rightarrow> setSeedCommand env)"

section \<open>The password\<close>

text \<open>A password is tried: it becomes the key of the machine, and the keys are loaded or generated.\<close>

definition tryPassword ::
  "('db, 'p, 's, 'g, 'd, 'r, 'h) prompt_env \<Rightarrow> string \<Rightarrow> ('db, 'p, 's, 'g, 'd, 'r, bool) prompt_op"
where
  "tryPassword env password =
    bindM (onAir (updateM (SetEncryptionKey (string_bytes password)))) (\<lambda>_.
    bindM (attemptM (onAir (InitKeys (pe_air env)))) (\<lambda>r. case r of
      Inl e \<Rightarrow> bindM (printf ''Failed to init keys: %v'' [AStr (pe_Error env e)]) (\<lambda>_. retM False)
    | Inr _ \<Rightarrow> retM True))"

text \<open>
  The operator is asked until the keys can be initialized with the password; the first time it has
  to be entered twice.  \<open>input\<close> are the lines not read yet.
\<close>

definition setInput :: "string list \<Rightarrow> ('db, 'p, 's, 'g, 'd, 'r, unit) prompt_op" where
  "setInput input = updateM (\<lambda>p. p\<lparr>pr_input := input\<rparr>)"

definition noPassword :: error where
  "noPassword = Wrapf ''failed to read password: %w'' [] (errorsNew ''EOF'')"

fun enterPassword ::
  "('db, 'p, 's, 'g, 'd, 'r, 'h) prompt_env \<Rightarrow> bool \<Rightarrow> string list \<Rightarrow> ('db, 'p, 's, 'g, 'd, 'r, unit) prompt_op"
where
  "enterPassword env repeatPassword [] =
    bindM (printf ''Enter encryption password: '' []) (\<lambda>_. failM noPassword)"
| "enterPassword env repeatPassword (password # input) =
    bindM (printf ''Enter encryption password: '' []) (\<lambda>_.
    bindM (setInput input) (\<lambda>_.
    bindM (printf '''' []) (\<lambda>_.
    if repeatPassword
    then bindM (printf ''Confirm encryption password: '' []) (\<lambda>_.
      case input of
        [] \<Rightarrow> failM noPassword
      | confirmedPassword # input \<Rightarrow>
          bindM (setInput input) (\<lambda>_.
          bindM (printf '''' []) (\<lambda>_.
          if password \<noteq> confirmedPassword
          then bindM (printf ''Passwords do not match! Try again!'' []) (\<lambda>_. enterPassword env repeatPassword input)
          else bindM (tryPassword env password) (\<lambda>ok.
            if ok then retM () else enterPassword env repeatPassword input))))
    else bindM (tryPassword env password) (\<lambda>ok.
      if ok then retM () else enterPassword env repeatPassword input))))"

definition enterEncryptionPasswordIfNeeded ::
  "('db, 'p, 's, 'g, 'd, 'r, 'h) prompt_env \<Rightarrow> ('db, 'p, 's, 'g, 'd, 'r, unit) prompt_op"
where
  "enterEncryptionPasswordIfNeeded env =
    bindM (readM (SensitiveDataRemoved \<circ> pr_airgapped)) (\<lambda>removed.
    if \<not> removed then retM ()
    else
    bindM (attemptM (onAir (LoadKeysFromDB (pe_air env)))) (\<lambda>r.
    let repeatPassword = (case r of Inl e \<Rightarrow> isNotFound e | Inr _ \<Rightarrow> False) in
    bindM (readM pr_input) (\<lambda>input. enterPassword env repeatPassword input)))"

section \<open>The loop\<close>

definition makeTerminal ::
  "('db, 'p, 's, 'g, 'd, 'r, 'h) prompt_env \<Rightarrow> ('db, 'p, 's, 'g, 'd, 'r, unit) prompt_op"
where
  "makeTerminal env = (case pe_MakeRaw env of
     Some e \<Rightarrow> failM (Wrapf ''failed to get current terminal state: %w'' [] e) | None \<Rightarrow> retM ())"

definition restoreTerminal ::
  "('db, 'p, 's, 'g, 'd, 'r, 'h) prompt_env \<Rightarrow> ('db, 'p, 's, 'g, 'd, 'r, unit) prompt_op"
where
  "restoreTerminal env = liftG (case pe_Restore env of
     Some e \<Rightarrow> Inl (PanicMsg (pe_Error env e) []) | None \<Rightarrow> Inr ())"

definition reloadTerminal ::
  "('db, 'p, 's, 'g, 'd, 'r, 'h) prompt_env \<Rightarrow> ('db, 'p, 's, 'g, 'd, 'r, unit) prompt_op"
where
  "reloadTerminal env =
    bindM (restoreTerminal env) (\<lambda>_.
    bindM (attemptM (makeTerminal env)) (\<lambda>r.
    liftG (case r of Inl e \<Rightarrow> Inl (PanicMsg (pe_Error env e) []) | Inr _ \<Rightarrow> Inr ())))"

text \<open>
  The execution of a command, under the lock of the machine.  Its failure is printed; the deferred
  function forgets the current command also when the terminal cannot be made raw again.
\<close>

definition clearCommand :: "('db, 'p, 's, 'g, 'd, 'r, 'a) prompt_op \<Rightarrow> ('db, 'p, 's, 'g, 'd, 'r, 'a) prompt_op" where
  "clearCommand m p = bindR (m p) (\<lambda>(r, p). Inr (r, p\<lparr>pr_currentCommand := ''''\<rparr>))"

definition terExe ::
  "('db, 'p, 's, 'g, 'd, 'r, 'h) prompt_env \<Rightarrow> string \<Rightarrow> ('db, 'p, 's, 'g, 'd, 'r, unit) prompt_op \<Rightarrow>
   ('db, 'p, 's, 'g, 'd, 'r, unit) prompt_op"
where
  "terExe env command body = clearCommand (
    bindM (updateM (\<lambda>p. p\<lparr>pr_currentCommand := command\<rparr>)) (\<lambda>_.
    bindM (restoreTerminal env) (\<lambda>_.
    bindM (attemptM body) (\<lambda>r.
    bindM (case r of Inl e \<Rightarrow> printf ''failed to execute command %s: %v'' [AStr command, AStr (pe_Error env e)] | Inr _ \<Rightarrow> retM ())
      (\<lambda>_. makeTerminal env)))))"

datatype outcome = Exited | AwaitingInput

text \<open>
  The loop, at most \<open>n\<close> times.  Every round that goes on consumes a line, so more rounds than there are
  lines are never needed; without input the loop waits for more, reloading the terminal.
\<close>

fun runLoop ::
  "('db, 'p, 's, 'g, 'd, 'r, 'h) prompt_env \<Rightarrow> nat \<Rightarrow> ('db, 'p, 's, 'g, 'd, 'r, outcome) prompt_op"
where
  "runLoop env 0 = liftG (Inl (PanicMsg ''not enough rounds'' []))"
| "runLoop env (Suc n) =
    bindM (readM pr_exit) (\<lambda>exit.
    if exit then bindM (updateM (\<lambda>p. p\<lparr>pr_exit := False\<rparr>)) (\<lambda>_. retM Exited)
    else
    bindM (attemptM readLine) (\<lambda>r. case r of
      Inl e \<Rightarrow> bindM (reloadTerminal env) (\<lambda>_. retM AwaitingInput)
    | Inr command \<Rightarrow>
        bindM (readM pr_commands) (\<lambda>commands.
        case map_of commands (Trim command newline) of
          None \<Rightarrow> bindM (printf ''unknown command: %s'' [AStr command]) (\<lambda>_. runLoop env n)
        | Some h \<Rightarrow>
            bindM (enterEncryptionPasswordIfNeeded env) (\<lambda>_.
            bindM (terExe env (Trim command newline) (runHandler env (commandHandler h))) (\<lambda>_.
            runLoop env n)))))"

definition run ::
  "('db, 'p, 's, 'g, 'd, 'r, 'h) prompt_env \<Rightarrow> nat \<Rightarrow> ('db, 'p, 's, 'g, 'd, 'r, outcome) prompt_op"
where
  "run env n =
    bindM (enterEncryptionPasswordIfNeeded env) (\<lambda>_.
    bindM helpCommand (\<lambda>_.
    bindM (printf ''Waiting for command...'' []) (\<lambda>_. runLoop env n)))"

section \<open>Set-up\<close>

definition addCommand :: "string \<Rightarrow> promptCommand \<Rightarrow> ('db, 'p, 's, 'g, 'd, 'r) prompt \<Rightarrow> ('db, 'p, 's, 'g, 'd, 'r) prompt" where
  "addCommand name command p = p\<lparr>pr_commands := AList.update name command (pr_commands p)\<rparr>"

definition prompt_commands :: "(string \<times> promptCommand) list" where
  "prompt_commands =
    [(''read_operation'', \<lparr>commandHandler = readOperation_handler, description = ''reads the json file with an operation, handles a decoded operation and returns the path to the JSON with operation's result''\<rparr>),
     (''help'', \<lparr>commandHandler = help_handler, description = ''shows available commands''\<rparr>),
     (''show_dkg_pubkey'', \<lparr>commandHandler = showDKGPubKey_handler, description = ''shows a dkg pub key''\<rparr>),
     (''show_finished_dkg'', \<lparr>commandHandler = showFinishedDKG_handler, description = ''shows a list of finished dkg rounds''\<rparr>),
     (''replay_operations_log'', \<lparr>commandHandler = replayOperationLog_handler, description = ''replays the operation log for a given dkg round''\<rparr>),
     (''drop_operations_log'', \<lparr>commandHandler = dropOperationLog_handler, description = ''drops the operation log for a given dkg round''\<rparr>),
     (''exit'', \<lparr>commandHandler = exit_handler, description = ''stops the machine''\<rparr>),
     (''verify_signature'', \<lparr>commandHandler = verifySign_handler, description = ''verifies a BLS signature of a message''\<rparr>),
     (''change_configuration'', \<lparr>commandHandler = changeConfiguration_handler, description = ''changes a configuration variables (frames delay, chunk size, etc...)''\<rparr>),
     (''generate_dkg_pubkey_json'', \<lparr>commandHandler = generateDKGPubKeyJSON_handler, description = ''generates and saves a JSON with DKG public key that can be read by the Client node''\<rparr>),
     (''set_seed'', \<lparr>commandHandler = setSeed_handler, description = ''resets a global random seed using BIP39 word list. WARNING! Only do that on a fresh database with no operation carried out.''\<rparr>)]"

definition NewPrompt ::
  "('db, 'p, 's, 'g, 'd, 'r, 'h) prompt_env \<Rightarrow> ('db, 'p, 's, 'g, 'd, 'r) air_machine \<Rightarrow> int \<Rightarrow> string list \<Rightarrow>
   error + ('db, 'p, 's, 'g, 'd, 'r) prompt"
where
  "NewPrompt env machine expiration input =
    (case pe_MakeRaw env of
       Some e \<Rightarrow> Inl (Wrapf ''failed to get current terminal state: %w'' [] e)
     | None \<Rightarrow> Inr (fold (\<lambda>(name, command). addCommand name command) prompt_commands
         \<lparr>pr_airgapped = machine, pr_commands = [], pr_currentCommand = '''', pr_exit = False,
          pr_expiration = expiration, pr_input = input, pr_output = []\<rparr>))"

definition commandAutoCompleteCallback ::
  "('db, 'p, 's, 'g, 'd, 'r) prompt \<Rightarrow> string \<Rightarrow> char \<Rightarrow> string \<times> int \<times> bool"
where
  "commandAutoCompleteCallback p line key =
    (if key \<noteq> CHR 0x09 then ('''', 0, False)
     else case find (\<lambda>command. HasPrefix command line) (keys (pr_commands p)) of
       Some command \<Rightarrow> (command, int (length command), True)
     | None \<Rightarrow> ('''', 0, False))"

text \<open>
  The program: the error is what \<open>log.Fatalf\<close> prints.  \<open>Close\<close> restores the terminal when the loop is left, and an
  error of the loop is printed.
\<close>

definition main_airgapped ::
  "('db, 'p, 's, 'g, 'd, 'r, 'h) prompt_env \<Rightarrow> string \<Rightarrow> string \<Rightarrow> string \<Rightarrow> nat \<Rightarrow> (string \<times> string, bytes) gomap \<Rightarrow>
   string list \<Rightarrow> nat \<Rightarrow> (error + ('db, 'p, 's, 'g, 'd, 'r) prompt) go"
where
  "main_airgapped env passwordExpiration dbPath resultFolder rand files input n =
    (case pe_ParseDuration env passwordExpiration of
       Inl e \<Rightarrow> Inr (Inl (Wrapf ''invalid password expiration syntax: %v'' [] e))
     | Inr passwordLifeDuration \<Rightarrow>
         bindR (NewMachine (pe_air env) dbPath rand files) (\<lambda>r. case r of
           Inl e \<Rightarrow> Inr (Inl (Wrapf ''failed to init airgapped machine %v'' [] e))
         | Inr air \<Rightarrow>
             (case NewPrompt env (SetResultFolder resultFolder air) passwordLifeDuration input of
                Inl e \<Rightarrow> Inr (Inl e)
              | Inr p \<Rightarrow>
                  bindR (bindM (attemptM (run env n)) (\<lambda>r.
                    bindM (case r of Inl e \<Rightarrow> printf ''Error occurred: %v'' [AStr (pe_Error env e)] | Inr _ \<Rightarrow> retM ())
                      (\<lambda>_. restoreTerminal env)) p)
                    (\<lambda>(r, p). Inr (case r of Inl e \<Rightarrow> Inl e | Inr _ \<Rightarrow> Inr p)))))"

end
