(* ===== verification/Prompt_Frame.thy ===== *)
theory Prompt_Frame
  imports Prompt
begin

text \<open>
  What the commands of the prompt keep.  The locale \<open>prompt_frame\<close> lists the changes that a command makes
  to the prompt and the calls of the machine; it is interpreted for the input, which only gets
  shorter, and for the keys of the machine, which no command removes.
\<close>

section \<open>Commands\<close>

locale prompt_frame =
  fixes env :: "('db, 'p, 's, 'g, 'd, 'r, 'h) prompt_env" and I :: "('db, 'p, 's, 'g, 'd, 'r) prompt \<Rightarrow> bool"
  assumes keeps_output: "I p \<Longrightarrow> I (p\<lparr>pr_output := out\<rparr>)"
    and keeps_input: "I p \<Longrightarrow> pr_input p = line # rest \<Longrightarrow> I (p\<lparr>pr_input := rest\<rparr>)"
    and keeps_exit: "I p \<Longrightarrow> I (p\<lparr>pr_exit := b\<rparr>)"
    and keeps_expiration: "I p \<Longrightarrow> I (p\<lparr>pr_expiration := d\<rparr>)"
    and keeps_current: "I p \<Longrightarrow> I (p\<lparr>pr_currentCommand := cmd\<rparr>)"
    and keeps_folder: "I p \<Longrightarrow> I (p\<lparr>pr_airgapped := SetResultFolder dir (pr_airgapped p)\<rparr>)"
    and process: "stays I (onAir (air_ProcessOperation (pe_air env) oper True))"
    and replay: "stays I (onAir (ReplayOperationsLog (pe_air env) e))"
    and drop_log: "stays I (onAir (DropOperationsLog (pe_air env) e))"
    and keyrings: "stays I (onAir (GetBLSKeyrings (pe_air env)))"
    and verify: "stays I (onAir (VerifySign (pe_air env) msg sig e))"
    and seed: "stays I (onAir (SetBaseSeed (pe_air env) mnemonic))"
    and generate: "stays I (onAir (GenerateKeys (pe_air env)))"
    and write_file: "stays I (onAir (writeFile (pe_air env) path bz))"
begin

lemma printf_stays: "stays I (printf msg args)"
  unfolding printf_def by (intro stays_update keeps_output)

lemma read_stays: "stays I readLine" "stays I ReadString"
proof -
  show "stays I readLine" by (auto simp: keeps_def readLine_def keeps_input split: list.split_asm)
  then show "stays I ReadString" unfolding ReadString_def by (intro stays_rules TrueI)
qed

lemmas command_rules = stays_rules printf_stays read_stays stays_forM process replay drop_log keyrings verify seed generate write_file TrueI

lemma folder_stays: "stays I (onAir (updateM (SetResultFolder dir)))"
  by (auto simp: keeps_def onAir_def updateM_def keeps_folder)

lemma configuration_stays: "stays I (readConfiguration env)" "stays I (replaceTicker d)"
  unfolding readConfiguration_def replaceTicker_def
  by (intro command_rules folder_stays stays_update keeps_expiration | assumption)+

lemma handler_stays: "stays I (runHandler env h)"
proof -
  have "stays I exitCommand" unfolding exitCommand_def by (intro stays_update keeps_exit)
  moreover have "stays I (readOperationCommand env)" unfolding readOperationCommand_def by (intro command_rules)
  moreover have "stays I (marshalPubKey env)" unfolding marshalPubKey_def by (intro command_rules)
  moreover have "stays I helpCommand" unfolding helpCommand_def by (intro command_rules)
  moreover have "stays I (showFinishedDKGCommand env)"
    unfolding showFinishedDKGCommand_def by (intro command_rules) (auto split: prod.split intro!: command_rules)
  moreover have "stays I askRound" unfolding askRound_def by (intro command_rules)
  moreover have "stays I (changeConfigurationCommand env)"
    unfolding changeConfigurationCommand_def by (intro command_rules configuration_stays)
  moreover have "stays I (setSeedCommand env)" unfolding setSeedCommand_def by (intro command_rules)
  ultimately show ?thesis
    unfolding runHandler_def showDKGPubKeyCommand_def replayOperationLogCommand_def dropOperationLogCommand_def
      verifySignCommand_def generateDKGPubKeyJSON_def
    by (cases h) (auto intro!: command_rules)
qed

lemma terminal_stays: "stays I (makeTerminal env)" "stays I (restoreTerminal env)"
  unfolding makeTerminal_def restoreTerminal_def by (intro stays_rules TrueI)+

lemma clear_stays: "stays I m \<Longrightarrow> stays I (clearCommand m)"
  by (fastforce simp: keeps_def clearCommand_def keeps_current)

lemma execution_stays: "stays I (terExe env cmd (runHandler env h))"
  unfolding terExe_def
  by (intro clear_stays command_rules handler_stays terminal_stays stays_update keeps_current)

end

lemma stays_onAir: "stays J m \<Longrightarrow> stays (\<lambda>p. J (pr_airgapped p)) (onAir m)"
  by (fastforce simp: keeps_def onAir_def)

section \<open>Input\<close>

lemma onAir_input: "stays (\<lambda>p. P (pr_input p)) (onAir m)"
  by (auto simp: keeps_def onAir_def)

interpretation input_shrinks: prompt_frame env "\<lambda>p. length (pr_input p) \<le> k" for env k
  by unfold_locales (auto intro: onAir_input)

lemma tryPassword_input: "stays (\<lambda>p. length (pr_input p) \<le> k) (tryPassword env password)"
  unfolding tryPassword_def by (intro input_shrinks.command_rules onAir_input)

lemma password_input:
  "length input \<le> k \<Longrightarrow> stays (\<lambda>p. length (pr_input p) \<le> k) (enterPassword env repeatPassword input)"
proof (induction env repeatPassword input rule: enterPassword.induct)
  case (2 env repeatPassword password input)
  have set: "stays (\<lambda>p. length (pr_input p) \<le> k) (setInput rest)" if "length rest \<le> k" for rest
    using that by (simp add: keeps_def setInput_def updateM_def)
  show ?case
  proof (cases input)
    case Nil
    with 2 set[of "[]"] show ?thesis by (auto intro!: input_shrinks.command_rules tryPassword_input)
  next
    case (Cons confirmed rest)
    with 2 set[of rest] set[of input] show ?thesis by (auto intro!: input_shrinks.command_rules tryPassword_input)
  qed
qed (auto intro: input_shrinks.command_rules)

lemma unlock_input: "stays (\<lambda>p. length (pr_input p) \<le> k) (enterEncryptionPasswordIfNeeded env)"
proof (rule keepsI)
  fix p r p'
  let ?I = "\<lambda>p. length (pr_input p) \<le> k"
  assume I: "?I p" and run: "enterEncryptionPasswordIfNeeded env p = Inr (r, p')"
  show "?I p' \<and> (\<forall>x. r = Inr x \<longrightarrow> True)"
  proof (cases "SensitiveDataRemoved (pr_airgapped p)")
    case False
    with I run show ?thesis by (simp add: enterEncryptionPasswordIfNeeded_def monad_defs)
  next
    case True
    with run obtain q x where q: "onAir (LoadKeysFromDB (pe_air env)) p = Inr (x, q)"
      and rest: "enterPassword env (case x of Inl e \<Rightarrow> isNotFound e | Inr _ \<Rightarrow> False) (pr_input q) q = Inr (r, p')"
      by (cases "onAir (LoadKeysFromDB (pe_air env)) p") (auto simp: enterEncryptionPasswordIfNeeded_def monad_defs Let_def)
    from keepsD[OF onAir_input[of "\<lambda>input. length input \<le> k"] I q] have "?I q" .
    with keepsD[OF password_input[of "pr_input q" k] _ rest] show ?thesis by simp
  qed
qed

text \<open>More rounds than there are lines make no difference.\<close>

lemma bindM_cong_run: "(\<And>x s'. m s = Inr (Inr x, s') \<Longrightarrow> k x s' = k' x s') \<Longrightarrow> bindM m k s = bindM m k' s"
  by (auto simp: bindM_def bindR_def split: sum.split prod.split)

lemma rounds_suffice:
  "length (pr_input p) < n \<Longrightarrow> length (pr_input p) < m \<Longrightarrow> runLoop env n p = runLoop env m p"
proof (induction n arbitrary: m p)
  case (Suc n)
  then obtain k where m: "m = Suc k" by (cases m) auto
  show ?case
  proof (cases "pr_exit p \<or> pr_input p = []")
    case True
    then show ?thesis by (auto simp: m bindM_def readM_def attemptM_def readLine_def)
  next
    case False
    then obtain line rest where input: "pr_input p = line # rest" by (cases "pr_input p") auto
    let ?p = "p\<lparr>pr_input := rest\<rparr>"
    have next_round: "runLoop env n q = runLoop env k q" if "length (pr_input q) \<le> length rest" for q
      using Suc.prems that by (intro Suc.IH) (simp_all add: input m)
    have start: "runLoop env (Suc j) p = (case map_of (pr_commands p) (Trim line newline) of
        None \<Rightarrow> bindM (printf ''unknown command: %s'' [AStr line]) (\<lambda>_. runLoop env j) ?p
      | Some h \<Rightarrow> bindM (enterEncryptionPasswordIfNeeded env) (\<lambda>_.
          bindM (terExe env (Trim line newline) (runHandler env (commandHandler h))) (\<lambda>_. runLoop env j)) ?p)" for j
      using False by (simp add: bindM_def[of "readM _"] bindM_def[of "attemptM _"] readM_def attemptM_def readLine_def input split: option.split)
    show ?thesis
    proof (cases "map_of (pr_commands p) (Trim line newline)")
      case None
      with start[of n] start[of k] next_round[of "?p\<lparr>pr_output := pr_output p @ [(''unknown command: %s'', [AStr line])]\<rparr>"]
      show ?thesis by (simp add: m bindM_def printf_def updateM_def)
    next
      case (Some h)
      have "bindM (enterEncryptionPasswordIfNeeded env) (\<lambda>_.
          bindM (terExe env (Trim line newline) (runHandler env (commandHandler h))) (\<lambda>_. runLoop env n)) ?p =
        bindM (enterEncryptionPasswordIfNeeded env) (\<lambda>_.
          bindM (terExe env (Trim line newline) (runHandler env (commandHandler h))) (\<lambda>_. runLoop env k)) ?p"
      proof (rule bindM_cong_run, rule bindM_cong_run)
        fix x q y q'
        assume q: "enterEncryptionPasswordIfNeeded env ?p = Inr (Inr x, q)"
          and q': "terExe env (Trim line newline) (runHandler env (commandHandler h)) q = Inr (Inr y, q')"
        from keepsD[OF unlock_input[of "length rest"] _ q] have "length (pr_input q) \<le> length rest" by simp
        from keepsD[OF input_shrinks.execution_stays this q'] show "runLoop env n q' = runLoop env k q'" by (rule next_round)
      qed
      with start[of n] start[of k] Some show ?thesis by (simp add: m)
    qed
  qed
qed simp

section \<open>Keys\<close>

text \<open>The machine has its keys in memory.\<close>

definition keyed :: "('db, 'p, 's, 'g, 'd, 'r) air_machine \<Rightarrow> bool" where
  "keyed am \<longleftrightarrow> am_pubKey am \<noteq> None \<and> am_secKey am \<noteq> None"

lemma keyed_rules:
  "stays keyed (dbGet env k)" "stays keyed (dbPut env k v)" "stays keyed nextRandom"
  "stays keyed (writeFile env path bz)" "stays keyed (useSeed s)"
proof -
  show "stays keyed (writeFile env path bz)"
    unfolding writeFile_def
    by (auto intro!: stays_rules stays_update simp: keyed_def split: option.split prod.split)
qed (auto simp: keeps_def dbGet_def dbPut_def nextRandom_def useSeed_def updateM_def keyed_def split: prod.split_asm)

lemma keyed_encrypt: "stays keyed (encrypt env key salt data)"
  unfolding encrypt_def by (intro stays_rules keyed_rules TrueI)

lemma keyed_database:
  "stays keyed (saveBLSKeyring env d kr)" "stays keyed (loadBLSKeyring env d)" "stays keyed (storeOperation env oper)"
  "stays keyed (getOperationsLog env d)" "stays keyed (dropRoundOperationLog env d)" "stays keyed (SetBaseSeed env mnemonic)"
  unfolding saveBLSKeyring_def loadBLSKeyring_def readSalt_def storeOperation_def readLog_def writeLog_def getRoundOperationLog_def
    getOperationsLog_def dropRoundOperationLog_def SetBaseSeed_def storeBaseSeed_def
  by (auto simp: Let_def intro!: stays_rules keyed_rules keyed_encrypt split: option.split)

interpretation keys_kept: air_frame env keyed for env
  by unfold_locales (use keyed_database(1) in \<open>auto simp: keyed_def\<close>)

lemma keyed_process: "stays keyed (air_ProcessOperation env oper store)"
  unfolding air_ProcessOperation_def GetOperationResult_def Let_def
  by (intro stays_rules keys_kept.result_keeps keyed_database keyed_rules TrueI)

lemma case_run:
  "(case r of Inl e \<Rightarrow> f e | Inr y \<Rightarrow> g y) s = z \<longleftrightarrow> (\<exists>e. r = Inl e \<and> f e s = z) \<or> (\<exists>y. r = Inr y \<and> g y s = z)"
  "attemptM m s = Inr (Inr x, s') \<longleftrightarrow> m s = Inr (x, s')"
  by (auto simp: attemptM_def split: sum.split)

lemma keyed_save: "stays keyed (SaveKeysToDB env)"
  unfolding SaveKeysToDB_def
  by (intro stays_rules keyed_rules keyed_encrypt TrueI)
     (auto simp: keyed_def split: prod.split option.split intro!: stays_rules stays_update)

lemma keyed_generate: "stays keyed (GenerateKeys env)"
  unfolding GenerateKeys_def Let_def
  by (intro stays_rules keyed_rules keyed_save stays_update TrueI) (simp add: keyed_def)

lemma keyed_more:
  "stays keyed (ReplayOperationsLog env d)" "stays keyed (DropOperationsLog env d)" "stays keyed (GetBLSKeyrings env)"
  "stays keyed (VerifySign env msg sig d)"
  unfolding ReplayOperationsLog_def DropOperationsLog_def GetBLSKeyrings_def VerifySign_def readSalt_def
  by (auto intro!: stays_rules stays_forM keyed_rules keyed_database keyed_process split: prod.split)

lemma keyed_folder: "keyed (SetResultFolder dir am) = keyed am"
  by (simp add: keyed_def SetResultFolder_def)

interpretation keys_stay: prompt_frame env "\<lambda>p. keyed (pr_airgapped p)" for env
  by unfold_locales
     (auto simp: keyed_folder intro!: stays_onAir keyed_process keyed_more keyed_database keyed_generate keyed_rules)

text \<open>Initializing the keys succeeds only with the keys in memory.\<close>

lemma generate_keyed:
  assumes "GenerateKeys env am = Inr (Inr u, am')"
  shows "keyed am'"
proof -
  let ?s = "ky_Pick (ae_kyber env) (am_baseSuite am) (am_rand am)"
  let ?am = "am\<lparr>am_rand := Suc (am_rand am), am_secKey := Some ?s, am_pubKey := Some (ky_Mul (ae_kyber env) ?s)\<rparr>"
  from assms have "SaveKeysToDB env ?am = Inr (Inr u, am')"
    by (simp add: GenerateKeys_def success_simps nextRandom_def Let_def)
  from keepsD[OF keyed_save _ this] show ?thesis by (simp add: keyed_def)
qed

lemma init_keyed:
  assumes "InitKeys env am = Inr (Inr u, am')"
  shows "keyed am'"
proof (cases "LoadKeysFromDB env am")
  case (Inr v)
  obtain r am1 where v: "v = (r, am1)" by (cases v)
  show ?thesis
  proof (cases r)
    case (Inr w)
    with assms v \<open>LoadKeysFromDB env am = _\<close> have "LoadKeysFromDB env am = Inr (Inr w, am')"
      by (auto simp: InitKeys_def bindM_def attemptM_def retM_def)
    then show ?thesis by (auto simp: LoadKeysFromDB_def success_simps case_run keyed_def)
  next
    case (Inl e)
    with assms v \<open>LoadKeysFromDB env am = _\<close> have "GenerateKeys env am1 = Inr (Inr u, am')"
      by (auto simp: InitKeys_def bindM_def attemptM_def failM_def split: if_split_asm)
    then show ?thesis by (rule generate_keyed)
  qed
qed (use assms in \<open>simp add: InitKeys_def bindM_def attemptM_def\<close>)

lemma tryPassword_keyed: "tryPassword env password p = Inr (Inr True, p') \<Longrightarrow> keyed (pr_airgapped p')"
  by (auto simp: tryPassword_def success_simps case_run onAir_def dest: init_keyed)

lemma password_keyed:
  "enterPassword env repeatPassword input p = Inr (Inr u, p') \<Longrightarrow> keyed (pr_airgapped p')"
proof (induction env repeatPassword input arbitrary: p rule: enterPassword.induct)
  case (2 env repeatPassword password input)
  from "2.prems"[unfolded enterPassword.simps(2)] "2.IH" show ?case
    by (auto simp: success_simps simp del: enterPassword.simps split: if_split_asm list.split_asm dest: tryPassword_keyed)
qed (simp add: success_simps)

lemma unlock_keyed:
  assumes "enterEncryptionPasswordIfNeeded env p = Inr (Inr u, p')"
    and "SensitiveDataRemoved (pr_airgapped p) \<or> keyed (pr_airgapped p)"
  shows "keyed (pr_airgapped p')"
  using assms
  by (auto simp: enterEncryptionPasswordIfNeeded_def success_simps Let_def split: if_split_asm dest: password_keyed)

end
