(* ===== verification/Prompt_Race.thy ===== *)
theory Prompt_Race
  imports Prompt
begin

text \<open>
  The prompt and its ticker as two goroutines.  The ticker drops the keys from memory when the
  password expires; the lock of the machine keeps it out while a command is executed.  The main
  goroutine checks the password under the lock, releases it, and takes it again for the command.
\<close>

section \<open>Steps\<close>

text \<open>
  Where the main goroutine is: reading a command, between the check of the password and the lock,
  executing, or sending on the unbuffered channel that stops the ticker.  The ticker waits for its
  timer or for the channel, or wants the lock to drop the keys.
\<close>

datatype main_goroutine = AtPrompt | Checked string handler | Executing string handler | Stopping string int
datatype ticker_goroutine = Waiting | WantsLock

type_synonym ('db, 'p, 's, 'g, 'd, 'r) goroutines =
  "main_goroutine \<times> ticker_goroutine \<times> ('db, 'p, 's, 'g, 'd, 'r) prompt"

fun holdsLock :: "main_goroutine \<Rightarrow> bool" where
  "holdsLock (Executing cmd h) = True"
| "holdsLock (Stopping cmd d) = True"
| "holdsLock m = False"

text \<open>\<open>dropSensitiveDataByTicker\<close>, one turn of its loop after the timer.\<close>

definition tickerDrops :: "('db, 'p, 's, 'g, 'd, 'r) prompt \<Rightarrow> ('db, 'p, 's, 'g, 'd, 'r) prompt" where
  "tickerDrops p = p\<lparr>pr_airgapped := DropSensitiveData (pr_airgapped p)\<rparr>"

text \<open>The execution of \<open>change_configuration\<close> up to the send and after it.\<close>

definition beforeSend ::
  "('db, 'p, 's, 'g, 'd, 'r, 'h) prompt_env \<Rightarrow> string \<Rightarrow> ('db, 'p, 's, 'g, 'd, 'r, int option) prompt_op"
where
  "beforeSend env cmd =
    bindM (updateM (\<lambda>p. p\<lparr>pr_currentCommand := cmd\<rparr>)) (\<lambda>_.
    bindM (restoreTerminal env) (\<lambda>_. readConfiguration env))"

definition afterSend ::
  "('db, 'p, 's, 'g, 'd, 'r, 'h) prompt_env \<Rightarrow> int \<Rightarrow> ('db, 'p, 's, 'g, 'd, 'r, unit) prompt_op"
where
  "afterSend env d = clearCommand (bindM (replaceTicker d) (\<lambda>_. makeTerminal env))"

lemma send_splits_execution:
  assumes "beforeSend env cmd p = Inr (Inr (Some d), p1)"
  shows "terExe env cmd (runHandler env changeConfiguration_handler) p = afterSend env d p1"
proof -
  from assms obtain p2 where "restoreTerminal env (p\<lparr>pr_currentCommand := cmd\<rparr>) = Inr (Inr (), p2)"
    "readConfiguration env p2 = Inr (Inr (Some d), p1)"
    by (auto simp: beforeSend_def success_simps)
  then show ?thesis
    by (simp add: terExe_def afterSend_def runHandler_def changeConfigurationCommand_def clearCommand_def bindM_def[of "updateM _"]
        updateM_def bindM_def[of "restoreTerminal env"] bindM_def[of "attemptM _"] attemptM_def bindM_def[of "readConfiguration env"])
      (simp add: replaceTicker_def printf_def monad_defs)
qed

definition stopsTicker ::
  "('db, 'p, 's, 'g, 'd, 'r, 'h) prompt_env \<Rightarrow> string \<Rightarrow> handler \<Rightarrow> ('db, 'p, 's, 'g, 'd, 'r) prompt \<Rightarrow>
   (int \<times> ('db, 'p, 's, 'g, 'd, 'r) prompt) option"
where
  "stopsTicker env cmd h p = (if h \<noteq> changeConfiguration_handler then None
     else case beforeSend env cmd p of Inr (Inr (Some d), p') \<Rightarrow> Some (d, p') | _ \<Rightarrow> None)"

inductive prompt_step ::
  "('db, 'p, 's, 'g, 'd, 'r, 'h) prompt_env \<Rightarrow> ('db, 'p, 's, 'g, 'd, 'r) goroutines \<Rightarrow>
   ('db, 'p, 's, 'g, 'd, 'r) goroutines \<Rightarrow> bool"
  for env
where
  choose: "\<lbrakk>\<not> pr_exit p; readLine p = Inr (Inr line, p1); map_of (pr_commands p1) (Trim line newline) = Some c;
     enterEncryptionPasswordIfNeeded env p1 = Inr (Inr (), p2)\<rbrakk> \<Longrightarrow>
     prompt_step env (AtPrompt, t, p) (Checked (Trim line newline) (commandHandler c), t, p2)"
| lock: "prompt_step env (Checked cmd h, t, p) (Executing cmd h, t, p)"
| execute: "\<lbrakk>stopsTicker env cmd h p = None; terExe env cmd (runHandler env h) p = Inr (Inr (), p')\<rbrakk> \<Longrightarrow>
     prompt_step env (Executing cmd h, t, p) (AtPrompt, t, p')"
| configure: "stopsTicker env cmd h p = Some (d, p') \<Longrightarrow> prompt_step env (Executing cmd h, t, p) (Stopping cmd d, t, p')"
| handover: "afterSend env d p = Inr (Inr (), p') \<Longrightarrow>
     prompt_step env (Stopping cmd d, Waiting, p) (AtPrompt, Waiting, p')"
| fire: "prompt_step env (m, Waiting, p) (m, WantsLock, p)"
| tick: "\<not> holdsLock m \<Longrightarrow> prompt_step env (m, WantsLock, p) (m, Waiting, tickerDrops p)"

inductive_cases prompt_step_elims:
  "prompt_step env (Stopping cmd d, t, p) s"
  "prompt_step env (Executing cmd h, t, p) s"

abbreviation prompt_steps ::
  "('db, 'p, 's, 'g, 'd, 'r, 'h) prompt_env \<Rightarrow> ('db, 'p, 's, 'g, 'd, 'r) goroutines \<Rightarrow>
   ('db, 'p, 's, 'g, 'd, 'r) goroutines \<Rightarrow> bool"
where
  "prompt_steps env \<equiv> (prompt_step env)\<^sup>*\<^sup>*"

section \<open>Interleavings\<close>

lemma choose_unlocked:
  assumes "\<not> pr_exit p" and "pr_input p = line # rest" and "map_of (pr_commands p) (Trim line newline) = Some c"
    and "\<not> SensitiveDataRemoved (pr_airgapped p)"
  shows "prompt_step env (AtPrompt, t, p) (Checked (Trim line newline) (commandHandler c), t, p\<lparr>pr_input := rest\<rparr>)"
proof (rule choose)
  show "readLine p = Inr (Inr line, p\<lparr>pr_input := rest\<rparr>)" by (simp add: readLine_def assms(2))
  show "enterEncryptionPasswordIfNeeded env (p\<lparr>pr_input := rest\<rparr>) = Inr (Inr (), p\<lparr>pr_input := rest\<rparr>)"
    using assms(4) by (simp add: enterEncryptionPasswordIfNeeded_def monad_defs)
qed (use assms in simp_all)

lemma dropped: "SensitiveDataRemoved (pr_airgapped (tickerDrops p))" "am_pubKey (pr_airgapped (tickerDrops p)) = None"
  by (simp_all add: tickerDrops_def DropSensitiveData_def SensitiveDataRemoved_def)

text \<open>The keys can be dropped after the password was checked and before the command runs.\<close>

lemma race_steps:
  assumes "\<not> pr_exit p" and "pr_input p = line # rest" and "map_of (pr_commands p) (Trim line newline) = Some c"
    and "\<not> SensitiveDataRemoved (pr_airgapped p)"
  shows "prompt_steps env (AtPrompt, Waiting, p)
    (Executing (Trim line newline) (commandHandler c), Waiting, tickerDrops (p\<lparr>pr_input := rest\<rparr>))"
proof -
  let ?c = "Checked (Trim line newline) (commandHandler c)" and ?p = "p\<lparr>pr_input := rest\<rparr>"
  have "prompt_step env (AtPrompt, Waiting, p) (?c, Waiting, ?p)" by (rule choose_unlocked[OF assms])
  moreover have "prompt_step env (?c, Waiting, ?p) (?c, WantsLock, ?p)" by (rule fire)
  moreover have "prompt_step env (?c, WantsLock, ?p) (?c, Waiting, tickerDrops ?p)" by (rule tick) simp
  moreover have "prompt_step env (?c, Waiting, tickerDrops ?p)
    (Executing (Trim line newline) (commandHandler c), Waiting, tickerDrops ?p)" by (rule lock)
  ultimately show ?thesis by (meson rtranclp.rtrancl_refl rtranclp.rtrancl_into_rtrancl)
qed

lemma deadlock_steps:
  assumes "\<not> pr_exit p" and "pr_input p = line # rest"
    and "map_of (pr_commands p) (Trim line newline) = Some c" and "\<not> SensitiveDataRemoved (pr_airgapped p)"
    and "stopsTicker env (Trim line newline) (commandHandler c) (p\<lparr>pr_input := rest\<rparr>) = Some (d, p')"
  shows "prompt_steps env (AtPrompt, Waiting, p) (Stopping (Trim line newline) d, WantsLock, p')"
proof -
  let ?h = "commandHandler c" and ?p = "p\<lparr>pr_input := rest\<rparr>" and ?n = "Trim line newline"
  have "prompt_step env (AtPrompt, Waiting, p) (Checked ?n ?h, Waiting, ?p)" by (rule choose_unlocked[OF assms(1-4)])
  moreover have "prompt_step env (Checked ?n ?h, Waiting, ?p) (Executing ?n ?h, Waiting, ?p)" by (rule lock)
  moreover have "prompt_step env (Executing ?n ?h, Waiting, ?p) (Executing ?n ?h, WantsLock, ?p)" by (rule fire)
  moreover have "prompt_step env (Executing ?n ?h, WantsLock, ?p) (Stopping ?n d, WantsLock, p')" by (rule configure[OF assms(5)])
  ultimately show ?thesis by (meson rtranclp.rtrancl_refl rtranclp.rtrancl_into_rtrancl)
qed

lemma deadlocked: "\<not> prompt_step env (Stopping cmd d, WantsLock, p) s"
  by (auto elim: prompt_step_elims)

text \<open>While a command is executed the ticker does not touch the machine.\<close>

lemma lock_excludes_ticker:
  assumes "prompt_step env (m, t, p) (m', t', p')" and "holdsLock m" and "t \<noteq> t'"
  shows "p' = p \<and> m' = m"
  using assms by cases auto

end
