(* ===== verification/Prompt_Properties.thy ===== *)
theory Prompt_Properties
  imports Prompt_Frame Prompt_Race Sample_Airgapped
begin

text \<open>The properties of the prompt, and a concrete prompt on which they are instantiated.\<close>

section \<open>A concrete prompt\<close>

definition sample_prompt_env ::
  "((string, bytes) gomap, bytes, bytes, nat, 32 word, 32 word \<times> bool, bytes) prompt_env"
where
  "sample_prompt_env = \<lparr>pe_air = air_sample, pe_ReadFile = (\<lambda>_. Inl (errorsNew ''file'')),
     pe_Unmarshal_operation = (\<lambda>_. Inl (errorsNew ''json'')), pe_EncodeBase64 = (\<lambda>_. ''key''),
     pe_DecodeBase64 = (\<lambda>_. Inl (errorsNew ''base64'')), pe_Marshal_pubkey = (\<lambda>_. Inr [1]),
     pe_ParseDuration = (\<lambda>_. Inr 300), pe_Error = (\<lambda>_. ''error''), pe_MakeRaw = None, pe_Restore = None\<rparr>"

definition sample_prompt :: "string list \<Rightarrow> ((string, bytes) gomap, bytes, bytes, nat, 32 word, 32 word \<times> bool) prompt" where
  "sample_prompt input = (case NewPrompt sample_prompt_env air0 600 input of Inr p \<Rightarrow> p)"

lemma sample_prompt_simps [simp]:
  "pr_airgapped (sample_prompt input) = air0" "pr_exit (sample_prompt input) = False"
  "pr_input (sample_prompt input) = input"
  "map_of (pr_commands (sample_prompt input)) ''show_dkg_pubkey'' =
     Some \<lparr>commandHandler = showDKGPubKey_handler, description = ''shows a dkg pub key''\<rparr>"
  "map_of (pr_commands (sample_prompt input)) ''change_configuration'' = Some \<lparr>commandHandler = changeConfiguration_handler,
     description = ''changes a configuration variables (frames delay, chunk size, etc...)''\<rparr>"
  by (simp_all add: sample_prompt_def NewPrompt_def sample_prompt_env_def prompt_commands_def addCommand_def)

lemma air0_present: "\<not> SensitiveDataRemoved air0" "keyed air0"
  by (simp_all add: SensitiveDataRemoved_def keyed_def air0_def)

section \<open>The properties\<close>

text \<open>
  C27: Commands find the keys in memory.  When the check of the password succeeds, on a machine whose keys
  are either in memory or dropped, the keys are in memory, however often wrong passwords were
  entered; and no command, successful or not, removes them.  This is the sequential behaviour,
  without the ticker.
\<close>

theorem commands_have_keys:
  assumes "SensitiveDataRemoved (pr_airgapped p) \<or> keyed (pr_airgapped p)"
    and "enterEncryptionPasswordIfNeeded env p = Inr (Inr (), p1)"
  shows "keyed (pr_airgapped p1) \<and>
    (\<forall>cmd h r p2. terExe env cmd (runHandler env h) p1 = Inr (r, p2) \<longrightarrow> keyed (pr_airgapped p2))"
proof -
  from unlock_keyed[OF assms(2,1)] have "keyed (pr_airgapped p1)" .
  with keepsD[OF keys_stay.execution_stays] show ?thesis by blast
qed

theorem commands_have_keys_witness:
  "\<exists>p1. enterEncryptionPasswordIfNeeded sample_prompt_env (sample_prompt []) = Inr (Inr (), p1) \<and> keyed (pr_airgapped p1)"
proof -
  have run: "enterEncryptionPasswordIfNeeded sample_prompt_env (sample_prompt []) = Inr (Inr (), sample_prompt [])"
    using air0_present(1) by (simp add: enterEncryptionPasswordIfNeeded_def monad_defs)
  from commands_have_keys[OF _ run] run show ?thesis by (simp add: air0_present)
qed

text \<open>
  The password can expire between its check and the command.  The lock is released in between: from
  a prompt whose keys are in memory, the ticker can drop them after the password was checked, and
  the command then runs without keys; \<open>show_dkg_pubkey\<close> dereferences a nil key and crashes the machine.
\<close>

theorem password_expires_before_command:
  assumes "\<not> pr_exit p" and "pr_input p = ''show_dkg_pubkey'' # rest"
    and "map_of (pr_commands p) ''show_dkg_pubkey'' = Some c" and "commandHandler c = showDKGPubKey_handler"
    and "\<not> SensitiveDataRemoved (pr_airgapped p)" and "pe_Restore env = None"
  shows "\<exists>p'. prompt_steps env (AtPrompt, Waiting, p) (Executing ''show_dkg_pubkey'' showDKGPubKey_handler, Waiting, p') \<and>
    SensitiveDataRemoved (pr_airgapped p') \<and>
    terExe env ''show_dkg_pubkey'' (runHandler env showDKGPubKey_handler) p' = Inl NilDeref"
proof -
  let ?p = "tickerDrops (p\<lparr>pr_input := rest\<rparr>)"
  have name: "Trim ''show_dkg_pubkey'' newline = ''show_dkg_pubkey''" by code_simp
  have "prompt_steps env (AtPrompt, Waiting, p) (Executing ''show_dkg_pubkey'' showDKGPubKey_handler, Waiting, ?p)"
    using race_steps[OF assms(1,2) _ assms(5), of c env] assms(3,4) by (simp add: name)
  moreover have "terExe env ''show_dkg_pubkey'' (runHandler env showDKGPubKey_handler) ?p = Inl NilDeref"
    using assms(6) dropped(2)[of "p\<lparr>pr_input := rest\<rparr>"]
    by (simp add: terExe_def clearCommand_def runHandler_def showDKGPubKeyCommand_def marshalPubKey_def restoreTerminal_def monad_defs)
  ultimately show ?thesis using dropped(1) by blast
qed

theorem password_expires_before_command_witness:
  "\<exists>p'. prompt_steps sample_prompt_env (AtPrompt, Waiting, sample_prompt [''show_dkg_pubkey''])
      (Executing ''show_dkg_pubkey'' showDKGPubKey_handler, Waiting, p') \<and> SensitiveDataRemoved (pr_airgapped p')"
proof -
  let ?p = "sample_prompt [''show_dkg_pubkey'']"
  have "pr_input ?p = ''show_dkg_pubkey'' # []" "\<not> pr_exit ?p" "\<not> SensitiveDataRemoved (pr_airgapped ?p)"
    "pe_Restore sample_prompt_env = None"
    by (simp_all add: air0_present sample_prompt_env_def)
  from password_expires_before_command[OF this(2,1) sample_prompt_simps(4) _ this(3,4)] show ?thesis by auto
qed



end
