(* ===== verification/Wc_Rotation.thy ===== *)
theory Wc_Rotation
  imports Signing_Tasks State_Db
begin

text \<open>
  The messages that rotate withdrawal credentials (\<open>src/pkg/wc_rotation\<close>): the objects
  \<open>BLSToExecutionChange\<close>, \<open>ForkData\<close> and \<open>SigningData\<close> with their SSZ encodings, and the signing root of a
  validator, which is what the participants sign for an index of the compiled-in list.

  A Go array of \<open>n\<close> bytes is a list of \<open>n\<close> bytes.  The package \<open>fastssz\<close> is the parameter \<open>ssz\<close>: the encoding of
  integers, the driver of \<open>MarshalSSZTo\<close>, and a hasher with the four calls that the encoders make.  What its
  documentation promises is \<open>ssz_ok\<close>, stated with the merkleization of the consensus specification.
\<close>

section \<open>Merkle trees of chunks\<close>

abbreviation zero_chunk :: bytes where
  "zero_chunk \<equiv> replicate 32 0"

definition pad32 :: "bytes \<Rightarrow> bytes" where
  "pad32 b = b @ replicate (32 - length b) 0"

fun chunks32 :: "nat \<Rightarrow> bytes \<Rightarrow> bytes list" where
  "chunks32 0 b = []"
| "chunks32 (Suc n) b = (if b = [] then [] else pad32 (take 32 b) # chunks32 n (drop 32 b))"

text \<open>One level of a tree; \<open>z\<close> is the root of an empty subtree, the missing right neighbour of the last node.\<close>

fun merkle_level :: "(bytes \<Rightarrow> bytes) \<Rightarrow> bytes \<Rightarrow> bytes list \<Rightarrow> bytes list" where
  "merkle_level sha z (a # b # cs) = sha (a @ b) # merkle_level sha z cs"
| "merkle_level sha z [a] = [sha (a @ z)]"
| "merkle_level sha z [] = []"

lemma length_merkle_level [simp]: "length (merkle_level sha z cs) = (length cs + 1) div 2"
  by (induction sha z cs rule: merkle_level.induct) auto

function merkle :: "(bytes \<Rightarrow> bytes) \<Rightarrow> bytes \<Rightarrow> bytes list \<Rightarrow> bytes" where
  "merkle sha z [] = z"
| "merkle sha z [c] = c"
| "merkle sha z (a # b # cs) = merkle sha (sha (z @ z)) (merkle_level sha z (a # b # cs))"
  by pat_completeness auto
termination
  by (relation "measure (\<lambda>(sha, z, cs). length cs)") auto

definition bytes_root :: "(bytes \<Rightarrow> bytes) \<Rightarrow> bytes \<Rightarrow> bytes" where
  "bytes_root sha b = merkle sha zero_chunk (chunks32 (length b) b)"

section \<open>The SSZ package\<close>

record 'h ssz =
  sz_MarshalUint64 :: "bytes \<Rightarrow> 64 word \<Rightarrow> bytes"
  sz_UnmarshallUint64 :: "bytes \<Rightarrow> 64 word"
  sz_MarshalSSZ :: "(bytes \<Rightarrow> error + bytes) \<Rightarrow> error + bytes"
  sz_ErrSize :: error
  sz_Index :: "'h \<Rightarrow> int"
  sz_PutUint64 :: "64 word \<Rightarrow> 'h \<Rightarrow> 'h"
  sz_PutBytes :: "bytes \<Rightarrow> 'h \<Rightarrow> 'h"
  sz_Merkleize :: "int \<Rightarrow> 'h \<Rightarrow> 'h"
  sz_HashWithDefaultHasher :: "('h \<Rightarrow> error + 'h) \<Rightarrow> error + bytes"

text \<open>
  \<open>held\<close> are the chunks a hasher holds.  A value that is put adds the root of its chunks; \<open>Merkleize\<close> replaces the
  chunks since an index by the root of their tree; the driver starts with no chunk and returns the only one
  that is left.
\<close>

definition ssz_ok :: "(bytes \<Rightarrow> bytes) \<Rightarrow> ('h \<Rightarrow> bytes list) \<Rightarrow> 'h ssz \<Rightarrow> bool" where
  "ssz_ok sha held S \<longleftrightarrow>
    (\<forall>b. length (sha b) = 32) \<and>
    (\<forall>dst w. sz_MarshalUint64 S dst w = dst @ PutUint64 w) \<and>
    (\<forall>w. sz_UnmarshallUint64 S (PutUint64 w) = w) \<and>
    (\<forall>f. sz_MarshalSSZ S f = f []) \<and>
    (\<forall>w h. held (sz_PutUint64 S w h) = held h @ [pad32 (PutUint64 w)]) \<and>
    (\<forall>b h. held (sz_PutBytes S b h) = held h @ [bytes_root sha b]) \<and>
    (\<forall>h h' cs. held h' = held h @ cs \<longrightarrow> held (sz_Merkleize S (sz_Index S h) h') = held h @ [merkle sha zero_chunk cs]) \<and>
    (\<forall>f. \<exists>h0. held h0 = [] \<and> (\<forall>h c. f h0 = Inr h \<longrightarrow> held h = [c] \<longrightarrow> sz_HashWithDefaultHasher S f = Inr c))"

section \<open>Objects\<close>

record BLSToExecutionChange =
  bec_ValidatorIndex :: "64 word"
  bec_FromBlsPubkey :: bytes
  bec_ToExecutionAddress :: bytes

record ForkData =
  fd_CurrentVersion :: bytes
  fd_GenesisValidatorsRoot :: bytes

record SigningData =
  sd_ObjectRoot :: bytes
  sd_Domain :: bytes

text \<open>The sizes of the arrays.\<close>

definition bec_sized :: "BLSToExecutionChange \<Rightarrow> bool" where
  "bec_sized b \<longleftrightarrow> length (bec_FromBlsPubkey b) = 48 \<and> length (bec_ToExecutionAddress b) = 20"

definition fd_sized :: "ForkData \<Rightarrow> bool" where
  "fd_sized f \<longleftrightarrow> length (fd_CurrentVersion f) = 4 \<and> length (fd_GenesisValidatorsRoot f) = 32"

definition sd_sized :: "SigningData \<Rightarrow> bool" where
  "sd_sized s \<longleftrightarrow> length (sd_ObjectRoot s) = 32 \<and> length (sd_Domain s) = 32"

definition bec_MarshalSSZTo :: "'h ssz \<Rightarrow> BLSToExecutionChange \<Rightarrow> bytes \<Rightarrow> error + bytes" where
  "bec_MarshalSSZTo S b buf =
    (let dst = sz_MarshalUint64 S buf (bec_ValidatorIndex b);
         dst = dst @ bec_FromBlsPubkey b;
         dst = dst @ bec_ToExecutionAddress b
     in Inr dst)"

definition bec_MarshalSSZ :: "'h ssz \<Rightarrow> BLSToExecutionChange \<Rightarrow> error + bytes" where
  "bec_MarshalSSZ S b = sz_MarshalSSZ S (bec_MarshalSSZTo S b)"

definition bec_UnmarshalSSZ :: "'h ssz \<Rightarrow> bytes \<Rightarrow> BLSToExecutionChange \<Rightarrow> error option \<times> BLSToExecutionChange" where
  "bec_UnmarshalSSZ S buf b =
    (if length buf \<noteq> 76 then (Some (sz_ErrSize S), b)
     else (None, b\<lparr>bec_ValidatorIndex := sz_UnmarshallUint64 S (take 8 buf),
       bec_FromBlsPubkey := take 48 (drop 8 buf), bec_ToExecutionAddress := take 20 (drop 56 buf)\<rparr>))"

definition bec_SizeSSZ :: "BLSToExecutionChange \<Rightarrow> nat" where "bec_SizeSSZ b = 76"

definition bec_HashTreeRootWith :: "'h ssz \<Rightarrow> BLSToExecutionChange \<Rightarrow> 'h \<Rightarrow> error + 'h" where
  "bec_HashTreeRootWith S b hh =
    (let indx = sz_Index S hh;
         hh = sz_PutUint64 S (bec_ValidatorIndex b) hh;
         hh = sz_PutBytes S (bec_FromBlsPubkey b) hh;
         hh = sz_PutBytes S (bec_ToExecutionAddress b) hh
     in Inr (sz_Merkleize S indx hh))"

definition bec_HashTreeRoot :: "'h ssz \<Rightarrow> BLSToExecutionChange \<Rightarrow> error + bytes" where
  "bec_HashTreeRoot S b = sz_HashWithDefaultHasher S (bec_HashTreeRootWith S b)"

definition fd_MarshalSSZTo :: "ForkData \<Rightarrow> bytes \<Rightarrow> error + bytes" where
  "fd_MarshalSSZTo f buf = Inr ((buf @ fd_CurrentVersion f) @ fd_GenesisValidatorsRoot f)"

definition fd_MarshalSSZ :: "'h ssz \<Rightarrow> ForkData \<Rightarrow> error + bytes" where
  "fd_MarshalSSZ S f = sz_MarshalSSZ S (fd_MarshalSSZTo f)"

definition fd_UnmarshalSSZ :: "'h ssz \<Rightarrow> bytes \<Rightarrow> ForkData \<Rightarrow> error option \<times> ForkData" where
  "fd_UnmarshalSSZ S buf f =
    (if length buf \<noteq> 36 then (Some (sz_ErrSize S), f)
     else (None, f\<lparr>fd_CurrentVersion := take 4 buf, fd_GenesisValidatorsRoot := take 32 (drop 4 buf)\<rparr>))"

definition fd_SizeSSZ :: "ForkData \<Rightarrow> nat" where "fd_SizeSSZ f = 36"

definition fd_HashTreeRootWith :: "'h ssz \<Rightarrow> ForkData \<Rightarrow> 'h \<Rightarrow> error + 'h" where
  "fd_HashTreeRootWith S f hh =
    (let indx = sz_Index S hh;
         hh = sz_PutBytes S (fd_CurrentVersion f) hh;
         hh = sz_PutBytes S (fd_GenesisValidatorsRoot f) hh
     in Inr (sz_Merkleize S indx hh))"

definition fd_HashTreeRoot :: "'h ssz \<Rightarrow> ForkData \<Rightarrow> error + bytes" where
  "fd_HashTreeRoot S f = sz_HashWithDefaultHasher S (fd_HashTreeRootWith S f)"

definition sd_MarshalSSZTo :: "SigningData \<Rightarrow> bytes \<Rightarrow> error + bytes" where
  "sd_MarshalSSZTo s buf = Inr ((buf @ sd_ObjectRoot s) @ sd_Domain s)"

definition sd_MarshalSSZ :: "'h ssz \<Rightarrow> SigningData \<Rightarrow> error + bytes" where
  "sd_MarshalSSZ S s = sz_MarshalSSZ S (sd_MarshalSSZTo s)"

definition sd_UnmarshalSSZ :: "'h ssz \<Rightarrow> bytes \<Rightarrow> SigningData \<Rightarrow> error option \<times> SigningData" where
  "sd_UnmarshalSSZ S buf s =
    (if length buf \<noteq> 64 then (Some (sz_ErrSize S), s)
     else (None, s\<lparr>sd_ObjectRoot := take 32 buf, sd_Domain := take 32 (drop 32 buf)\<rparr>))"

definition sd_SizeSSZ :: "SigningData \<Rightarrow> nat" where "sd_SizeSSZ s = 64"

definition sd_HashTreeRootWith :: "'h ssz \<Rightarrow> SigningData \<Rightarrow> 'h \<Rightarrow> error + 'h" where
  "sd_HashTreeRootWith S s hh =
    (let indx = sz_Index S hh;
         hh = sz_PutBytes S (sd_ObjectRoot s) hh;
         hh = sz_PutBytes S (sd_Domain s) hh
     in Inr (sz_Merkleize S indx hh))"

definition sd_HashTreeRoot :: "'h ssz \<Rightarrow> SigningData \<Rightarrow> error + bytes" where
  "sd_HashTreeRoot S s = sz_HashWithDefaultHasher S (sd_HashTreeRootWith S s)"

section \<open>The signing root of a validator\<close>

definition GenesisForkVersion :: bytes where "GenesisForkVersion = [0, 0, 0, 0]"

definition DomainBlsToExecutionChange :: bytes where "DomainBlsToExecutionChange = [10, 0, 0, 0]"

definition GenesisValidatorRoot :: bytes where
  "GenesisValidatorRoot = [75, 54, 61, 185, 78, 40, 97, 32, 215, 110, 185, 5, 52, 15, 221, 78, 84, 191, 233, 240, 107, 243, 63, 246, 207, 90, 210, 127, 81, 27, 254, 149]"

definition LidoBlsPubKeyBB :: bytes where
  "LidoBlsPubKeyBB = [182, 122, 202, 113, 240, 75, 103, 48, 55, 181, 64, 9, 183, 96, 241, 150, 31, 56, 54, 229, 113, 65, 65, 200, 146, 175, 219, 117, 236, 8, 52, 220, 230, 120, 77, 156, 114, 237, 138, 215, 219, 50, 140, 255, 143, 233, 241, 62]"

definition ToExecutionAddress :: bytes where
  "ToExecutionAddress = [185, 215, 147, 72, 120, 181, 251, 150, 16, 179, 254, 138, 94, 68, 30, 143, 173, 126, 41, 63]"

definition computeForkDataRoot :: "'h ssz \<Rightarrow> bytes \<Rightarrow> bytes \<Rightarrow> error + bytes" where
  "computeForkDataRoot S forkVersion genesisValidatorsRoot =
    fd_HashTreeRoot S \<lparr>fd_CurrentVersion = forkVersion, fd_GenesisValidatorsRoot = genesisValidatorsRoot\<rparr>"

text \<open>The lengths of Go arrays are never zero, so neither default is taken.  \<open>copy\<close> fills the 32 bytes of the domain.\<close>

definition computeDomain :: "'h ssz \<Rightarrow> bytes \<Rightarrow> bytes \<Rightarrow> bytes \<Rightarrow> error + bytes" where
  "computeDomain S domainType forkVersion genesisValidatorsRoot =
    (let forkVersion = (if length forkVersion = 0 then GenesisForkVersion else forkVersion);
         genesisValidatorsRoot = (if length genesisValidatorsRoot = 0 then replicate 32 0 else genesisValidatorsRoot)
     in bindR (computeForkDataRoot S forkVersion genesisValidatorsRoot) (\<lambda>forkDataRoot.
       let src = domainType @ take 28 forkDataRoot in
       Inr (take 32 src @ drop (length src) (replicate 32 0))))"

definition GetSigningRoot :: "'h ssz \<Rightarrow> 64 word \<Rightarrow> error + bytes" where
  "GetSigningRoot S validatorIndex =
    bindR (computeDomain S DomainBlsToExecutionChange GenesisForkVersion GenesisValidatorRoot) (\<lambda>domain.
    bindR (bec_HashTreeRoot S \<lparr>bec_ValidatorIndex = validatorIndex, bec_FromBlsPubkey = LidoBlsPubKeyBB,
        bec_ToExecutionAddress = ToExecutionAddress\<rparr>) (\<lambda>objRoot.
    sd_HashTreeRoot S \<lparr>sd_ObjectRoot = objRoot, sd_Domain = domain\<rparr>))"

section \<open>Encoding and decoding\<close>

lemma length_PutUint64 [simp]: "length (PutUint64 w) = 8"
  by (simp add: PutUint64_def)

lemma ssz_integers:
  assumes "ssz_ok sha held S"
  shows "sz_MarshalUint64 S dst w = dst @ PutUint64 w" "sz_UnmarshallUint64 S (PutUint64 w) = w" "sz_MarshalSSZ S f = f []"
    "length (sha b) = 32"
  using assms by (simp_all add: ssz_ok_def)

lemma bec_round_trip:
  assumes "ssz_ok sha held S" and "bec_sized b"
  shows "\<exists>buf. bec_MarshalSSZ S b = Inr buf \<and> length buf = bec_SizeSSZ b \<and> bec_UnmarshalSSZ S buf b0 = (None, b)"
  using assms(2) ssz_integers[OF assms(1)]
  by (cases b) (simp add: bec_MarshalSSZ_def bec_MarshalSSZTo_def bec_UnmarshalSSZ_def bec_SizeSSZ_def bec_sized_def)

lemma fd_round_trip:
  assumes "ssz_ok sha held S" and "fd_sized f"
  shows "\<exists>buf. fd_MarshalSSZ S f = Inr buf \<and> length buf = fd_SizeSSZ f \<and> fd_UnmarshalSSZ S buf f0 = (None, f)"
  using assms(2) ssz_integers[OF assms(1)]
  by (cases f) (simp add: fd_MarshalSSZ_def fd_MarshalSSZTo_def fd_UnmarshalSSZ_def fd_SizeSSZ_def fd_sized_def)

lemma sd_round_trip:
  assumes "ssz_ok sha held S" and "sd_sized s"
  shows "\<exists>buf. sd_MarshalSSZ S s = Inr buf \<and> length buf = sd_SizeSSZ s \<and> sd_UnmarshalSSZ S buf s0 = (None, s)"
  using assms(2) ssz_integers[OF assms(1)]
  by (cases s) (simp add: sd_MarshalSSZ_def sd_MarshalSSZTo_def sd_UnmarshalSSZ_def sd_SizeSSZ_def sd_sized_def)

section \<open>Hashing\<close>

lemma length_pad32: "length b \<le> 32 \<Longrightarrow> length (pad32 b) = 32"
  by (simp add: pad32_def)

lemma chunks32_Nil [simp]: "chunks32 n [] = []"
  by (cases n) simp_all

lemma chunks32_short: "b \<noteq> [] \<Longrightarrow> length b \<le> 32 \<Longrightarrow> chunks32 (Suc n) b = [pad32 b]"
  by simp

lemma bytes_root_short:
  assumes "b \<noteq> []" and "length b \<le> 32"
  shows "bytes_root sha b = pad32 b"
  using chunks32_short[OF assms, of "length b - 1"] assms(1) by (simp add: bytes_root_def del: chunks32.simps)

lemma bytes_root_two:
  assumes "32 < length b" and "length b \<le> 64"
  shows "bytes_root sha b = sha (take 32 b @ pad32 (drop 32 b))"
proof -
  have "chunks32 (Suc (Suc n)) b = [pad32 (take 32 b), pad32 (drop 32 b)]" for n
    using assms chunks32_short[of "drop 32 b" n] by (auto simp del: chunks32.simps simp add: chunks32.simps(2)[of "Suc n"])
  moreover have "length b = Suc (Suc (length b - 2))" using assms(1) by simp
  ultimately have "chunks32 (length b) b = [pad32 (take 32 b), pad32 (drop 32 b)]" by metis
  then show ?thesis using assms(1) by (simp add: bytes_root_def pad32_def del: chunks32.simps)
qed

text \<open>An object whose fields are put one by one has the root of the tree of their roots.\<close>

lemma object_root:
  assumes "ssz_ok sha held S" and "\<And>h. \<exists>h'. f h = Inr (sz_Merkleize S (sz_Index S h) h') \<and> held h' = held h @ cs"
  shows "sz_HashWithDefaultHasher S f = Inr (merkle sha zero_chunk cs)"
proof -
  from assms(1) have "\<exists>h0. held h0 = [] \<and> (\<forall>h c. f h0 = Inr h \<longrightarrow> held h = [c] \<longrightarrow> sz_HashWithDefaultHasher S f = Inr c)"
    unfolding ssz_ok_def by (elim conjE) (erule spec)
  then obtain h0 where h0: "held h0 = []"
    "\<And>h c. f h0 = Inr h \<Longrightarrow> held h = [c] \<Longrightarrow> sz_HashWithDefaultHasher S f = Inr c" by blast
  from assms(2)[of h0] obtain h' where h': "f h0 = Inr (sz_Merkleize S (sz_Index S h0) h')" "held h' = held h0 @ cs" by blast
  from assms(1) have "\<forall>h h' cs. held h' = held h @ cs \<longrightarrow>
      held (sz_Merkleize S (sz_Index S h) h') = held h @ [merkle sha zero_chunk cs]"
    unfolding ssz_ok_def by (elim conjE)
  with h'(2) have "held (sz_Merkleize S (sz_Index S h0) h') = held h0 @ [merkle sha zero_chunk cs]" by blast
  with h0 h'(1) show ?thesis by simp
qed

lemma held_put:
  assumes "ssz_ok sha held S"
  shows "held (sz_PutUint64 S w h) = held h @ [pad32 (PutUint64 w)]" "held (sz_PutBytes S b h) = held h @ [bytes_root sha b]"
  using assms by (simp_all add: ssz_ok_def)

lemma object_roots:
  assumes "ssz_ok sha held S"
  shows "bec_HashTreeRoot S b = Inr (merkle sha zero_chunk [pad32 (PutUint64 (bec_ValidatorIndex b)),
      bytes_root sha (bec_FromBlsPubkey b), bytes_root sha (bec_ToExecutionAddress b)])"
    and "fd_HashTreeRoot S f = Inr (merkle sha zero_chunk [bytes_root sha (fd_CurrentVersion f),
      bytes_root sha (fd_GenesisValidatorsRoot f)])"
    and "sd_HashTreeRoot S s = Inr (merkle sha zero_chunk [bytes_root sha (sd_ObjectRoot s), bytes_root sha (sd_Domain s)])"
  by (unfold bec_HashTreeRoot_def fd_HashTreeRoot_def sd_HashTreeRoot_def; rule object_root[OF assms];
      simp add: bec_HashTreeRootWith_def fd_HashTreeRootWith_def sd_HashTreeRootWith_def Let_def;
      rule exI; rule conjI[OF refl]; simp add: held_put[OF assms])+

section \<open>Properties\<close>

text \<open>
  The definitions of the consensus specification: the domain of the changes and the signing root of the change of
  one validator, as hashes of chunks.
\<close>

definition spec_domain :: "(bytes \<Rightarrow> bytes) \<Rightarrow> bytes" where
  "spec_domain sha = [10, 0, 0, 0] @ take 28 (sha ([0, 0, 0, 0] @ replicate 28 0 @ GenesisValidatorRoot))"

definition spec_fields :: "(bytes \<Rightarrow> bytes) \<Rightarrow> 64 word \<Rightarrow> bytes" where
  "spec_fields sha v = (PutUint64 v @ replicate 24 0) @
     sha (take 32 LidoBlsPubKeyBB @ drop 32 LidoBlsPubKeyBB @ replicate 16 0)"

definition spec_change :: "(bytes \<Rightarrow> bytes) \<Rightarrow> 64 word \<Rightarrow> bytes" where
  "spec_change sha v = sha (spec_fields sha v) @ sha ((ToExecutionAddress @ replicate 12 0) @ zero_chunk)"

definition spec_signing_data :: "(bytes \<Rightarrow> bytes) \<Rightarrow> 64 word \<Rightarrow> bytes" where
  "spec_signing_data sha v = sha (spec_change sha v) @ spec_domain sha"

definition spec_signing_root :: "(bytes \<Rightarrow> bytes) \<Rightarrow> 64 word \<Rightarrow> bytes" where
  "spec_signing_root sha v = sha (spec_signing_data sha v)"

lemmas wc_constants = GenesisForkVersion_def DomainBlsToExecutionChange_def LidoBlsPubKeyBB_def ToExecutionAddress_def
  GenesisValidatorRoot_def

lemma constant_roots:
  "bytes_root sha GenesisForkVersion = GenesisForkVersion @ replicate 28 0"
  "bytes_root sha GenesisValidatorRoot = GenesisValidatorRoot"
  "bytes_root sha ToExecutionAddress = ToExecutionAddress @ replicate 12 0"
  "bytes_root sha LidoBlsPubKeyBB = sha (take 32 LidoBlsPubKeyBB @ drop 32 LidoBlsPubKeyBB @ replicate 16 0)"
  by (simp_all add: bytes_root_short bytes_root_two pad32_def wc_constants)

lemma computeDomain_eq:
  assumes "ssz_ok sha held S"
  shows "computeDomain S DomainBlsToExecutionChange GenesisForkVersion GenesisValidatorRoot = Inr (spec_domain sha)"
  using ssz_integers(4)[OF assms]
  by (simp add: computeDomain_def computeForkDataRoot_def object_roots(2)[OF assms] constant_roots spec_domain_def)
    (simp add: wc_constants)

lemma GetSigningRoot_eq:
  assumes "ssz_ok sha held S"
  shows "GetSigningRoot S v = Inr (spec_signing_root sha v)"
proof -
  have len: "length (sha b) = 32" for b by (rule ssz_integers(4)[OF assms])
  have "bec_HashTreeRoot S \<lparr>bec_ValidatorIndex = v, bec_FromBlsPubkey = LidoBlsPubKeyBB,
      bec_ToExecutionAddress = ToExecutionAddress\<rparr> = Inr (sha (spec_change sha v))"
    by (simp add: object_roots(1)[OF assms] constant_roots spec_change_def spec_fields_def pad32_def)
  moreover have "bytes_root sha (sha b) = sha b" "bytes_root sha (spec_domain sha) = spec_domain sha" for b
    by (subst bytes_root_short; simp add: spec_domain_def len pad32_def flip: length_greater_0_conv)+
  ultimately show ?thesis
    by (simp add: GetSigningRoot_def computeDomain_eq[OF assms] object_roots(3)[OF assms] spec_signing_root_def
        spec_signing_data_def)
qed

definition collide :: "(bytes \<Rightarrow> bytes) \<Rightarrow> bytes \<Rightarrow> bytes \<Rightarrow> bool" where
  "collide sha a b \<longleftrightarrow> a \<noteq> b \<and> sha a = sha b"

lemma PutUint64_inj: "PutUint64 v = PutUint64 w \<longleftrightarrow> v = w"
  by (metis Uint64_PutUint64 Inr_inject)

lemma spec_root_inj:
  assumes "\<And>b. length (sha b) = 32" and "spec_signing_root sha v = spec_signing_root sha w" and "v \<noteq> w"
  shows "collide sha (spec_fields sha v) (spec_fields sha w) \<or> collide sha (spec_change sha v) (spec_change sha w) \<or>
    collide sha (spec_signing_data sha v) (spec_signing_data sha w)"
proof -
  have "spec_fields sha v \<noteq> spec_fields sha w" using assms(3) by (simp add: spec_fields_def PutUint64_inj)
  moreover have "spec_change sha v = spec_change sha w \<longleftrightarrow> sha (spec_fields sha v) = sha (spec_fields sha w)"
    "spec_signing_data sha v = spec_signing_data sha w \<longleftrightarrow> sha (spec_change sha v) = sha (spec_change sha w)"
    by (simp_all add: spec_change_def spec_signing_data_def assms(1))
  ultimately show ?thesis using assms(2) unfolding collide_def spec_signing_root_def by blast
qed

lemma baked_message_eq:
  assumes "ssz_ok sha held S" and "0 \<le> i" and "i < int (length idx)" and "ParseInt (idx ! nat i) = Inr vID"
  shows "ReconstructBakedMessage \<lparr>bk_ValidatorsIndexes = idx, bk_GetSigningRoot = GetSigningRoot S\<rparr> i =
    Inr (Inr \<lparr>mts_MessageID = idx ! nat i, mts_File = ''bakedrange'' @ int_digits i,
      mts_Payload = spec_signing_root sha (of_int vID), mts_BakedDataPayload = True\<rparr>)"
  using assms(2-4) by (simp add: ReconstructBakedMessage_def GetSigningRoot_eq[OF assms(1)])

text \<open>
  C15: What the participants sign for an entry of the compiled-in list is the signing root that the consensus
  specification defines for the change of this validator from the withdrawal key to the execution address.  Two
  entries with different validators are signed with different payloads unless the hash collides on inputs that
  the theorem names.
\<close>

theorem baked_payload_is_signing_root:
  assumes "ssz_ok sha held S" and "B = \<lparr>bk_ValidatorsIndexes = idx, bk_GetSigningRoot = GetSigningRoot S\<rparr>"
    and "0 \<le> i" and "i < int (length idx)" and "ParseInt (idx ! nat i) = Inr v"
    and "0 \<le> j" and "j < int (length idx)" and "ParseInt (idx ! nat j) = Inr w"
  shows "\<exists>m m'. ReconstructBakedMessage B i = Inr (Inr m) \<and> ReconstructBakedMessage B j = Inr (Inr m') \<and>
    mts_MessageID m = idx ! nat i \<and> mts_Payload m = spec_signing_root sha (of_int v) \<and>
    (mts_Payload m = mts_Payload m' \<longrightarrow> (of_int v :: 64 word) = of_int w \<or>
      collide sha (spec_fields sha (of_int v)) (spec_fields sha (of_int w)) \<or>
      collide sha (spec_change sha (of_int v)) (spec_change sha (of_int w)) \<or>
      collide sha (spec_signing_data sha (of_int v)) (spec_signing_data sha (of_int w)))"
proof -
  have "length (sha b) = 32" for b by (rule ssz_integers(4)[OF assms(1)])
  note inj = spec_root_inj[of sha "of_int v" "of_int w", OF this]
  let ?m = "\<lparr>mts_MessageID = idx ! nat i, mts_File = ''bakedrange'' @ int_digits i,
      mts_Payload = spec_signing_root sha (of_int v), mts_BakedDataPayload = True\<rparr>"
    and ?m' = "\<lparr>mts_MessageID = idx ! nat j, mts_File = ''bakedrange'' @ int_digits j,
      mts_Payload = spec_signing_root sha (of_int w), mts_BakedDataPayload = True\<rparr>"
  have "ReconstructBakedMessage B i = Inr (Inr ?m)" "ReconstructBakedMessage B j = Inr (Inr ?m')"
    unfolding assms(2) by (rule baked_message_eq[OF assms(1)]; fact)+
  with inj show ?thesis by (intro exI[of _ ?m] exI[of _ ?m']) auto
qed

text \<open>A hasher that holds the list of its chunks, on a hash that keeps the first 32 bytes.\<close>

definition sample_sha :: "bytes \<Rightarrow> bytes" where
  "sample_sha b = take 32 (b @ zero_chunk)"

definition sample_ssz :: "bytes list ssz" where
  "sample_ssz = \<lparr>sz_MarshalUint64 = (\<lambda>dst w. dst @ PutUint64 w),
     sz_UnmarshallUint64 = (\<lambda>b. case Uint64 b of Inl p \<Rightarrow> 0 | Inr w \<Rightarrow> w), sz_MarshalSSZ = (\<lambda>f. f []),
     sz_ErrSize = errorsNew ''incorrect size'', sz_Index = (\<lambda>h. int (length h)),
     sz_PutUint64 = (\<lambda>w h. h @ [pad32 (PutUint64 w)]), sz_PutBytes = (\<lambda>b h. h @ [bytes_root sample_sha b]),
     sz_Merkleize = (\<lambda>i h. take (nat i) h @ [merkle sample_sha zero_chunk (drop (nat i) h)]),
     sz_HashWithDefaultHasher = (\<lambda>f. bindR (f []) (\<lambda>h. if length h = 1 then Inr (hd h) else Inl (errorsNew ''incorrect size'')))\<rparr>"

lemma sample_ssz_ok: "ssz_ok sample_sha (\<lambda>h. h) sample_ssz"
  by (simp add: ssz_ok_def sample_ssz_def sample_sha_def Uint64_PutUint64) (auto intro!: exI[of _ "[]"])

theorem baked_payload_is_signing_root_witness:
  "\<exists>m m'. ReconstructBakedMessage \<lparr>bk_ValidatorsIndexes = [''7'', ''12''], bk_GetSigningRoot = GetSigningRoot sample_ssz\<rparr> 0 =
      Inr (Inr m) \<and>
    ReconstructBakedMessage \<lparr>bk_ValidatorsIndexes = [''7'', ''12''], bk_GetSigningRoot = GetSigningRoot sample_ssz\<rparr> 1 =
      Inr (Inr m') \<and> mts_Payload m = spec_signing_root sample_sha 7"
proof -
  let ?idx = "[''7'', ''12'']"
  have "ParseInt (?idx ! nat 0) = Inr 7" "ParseInt (?idx ! nat 1) = Inr 12"
    by (simp_all add: ParseInt_def HasPrefix_def decimal_def Let_def)
  from baked_payload_is_signing_root[OF sample_ssz_ok refl, of 0 ?idx, OF _ _ this(1), of 1, OF _ _ _ _ this(2)]
  show ?thesis by auto
qed

end
