(* ===== verification/Storage_Contract.thy ===== *)
theory Storage_Contract
  imports Storage
begin

text \<open>
  The contract of the ignore lists of a storage (\<open>IgnoreMessages\<close> and \<open>UnignoreMessages\<close> of the interface
  \<open>Storage\<close> in \<open>src/storage/types.go\<close>), and that the log in a file meets it.  A storage ignores by message
  identifier or by offset; the two lists are read by \<open>ids\<close> and \<open>offsets\<close> and a call of \<open>GetMessages\<close> may
  return the messages that \<open>delivers\<close> relates to the state.
\<close>

locale ignoring_storage =
  fixes Ignore :: "string list \<Rightarrow> bool \<Rightarrow> 's \<Rightarrow> error option \<times> 's"
    and Unignore :: "'s \<Rightarrow> 's"
    and ids :: "'s \<Rightarrow> (string, unit) gomap"
    and offsets :: "'s \<Rightarrow> (64 word, unit) gomap"
    and add_id :: "string \<Rightarrow> 's \<Rightarrow> 's"
    and add_offset :: "64 word \<Rightarrow> 's \<Rightarrow> 's"
    and bad_offset :: "error \<Rightarrow> error"
    and delivers :: "'s \<Rightarrow> Message list \<Rightarrow> bool"
  assumes Ignore_Nil: "Ignore [] b s = (None, s)"
    and Ignore_id: "Ignore (x # xs) False s = Ignore xs False (add_id x s)"
    and Ignore_offset: "Ignore (x # xs) True s =
      (case ParseUint x of Inl e \<Rightarrow> (Some (bad_offset e), s) | Inr w \<Rightarrow> Ignore xs True (add_offset w s))"
    and add_id: "ids (add_id x s) = AList.update x () (ids s)" "offsets (add_id x s) = offsets s"
    and add_offset: "ids (add_offset w s) = ids s" "offsets (add_offset w s) = AList.update w () (offsets s)"
    and Unignore: "ids (Unignore s) = []" "offsets (Unignore s) = []"
    and delivers: "delivers s ms \<Longrightarrow> m \<in> set ms \<Longrightarrow> \<not> has_key (ids s) (ID m) \<and> \<not> has_key (offsets s) (Offset m)"
begin

lemma ignore_ids:
  "fst (Ignore xs False s) = None \<and>
   (\<forall>i. has_key (ids (snd (Ignore xs False s))) i \<longleftrightarrow> i \<in> set xs \<or> has_key (ids s) i) \<and>
   offsets (snd (Ignore xs False s)) = offsets s"
  by (induction xs arbitrary: s) (auto simp: Ignore_Nil Ignore_id add_id update_conv')

lemma ignore_offsets:
  assumes "list_all (\<lambda>x. \<exists>w. ParseUint x = Inr w) xs"
  shows "fst (Ignore xs True s) = None \<and>
   (\<forall>w. has_key (offsets (snd (Ignore xs True s))) w \<longleftrightarrow> Inr w \<in> ParseUint ` set xs \<or> has_key (offsets s) w) \<and>
   ids (snd (Ignore xs True s)) = ids s"
  using assms
proof (induction xs arbitrary: s)
  case (Cons x xs)
  from Cons.prems obtain w where w: "ParseUint x = Inr w" and xs: "list_all (\<lambda>x. \<exists>w. ParseUint x = Inr w) xs"
    by auto
  show ?case using Cons.IH[OF xs, of "add_offset w s"] by (auto simp: Ignore_offset w add_offset update_conv')
qed (simp add: Ignore_Nil)

text \<open>The first offset that does not parse ends the call with an error.\<close>

lemma ignore_fails: "fst (Ignore xs b s) = None \<longleftrightarrow> (b \<longrightarrow> list_all (\<lambda>x. \<exists>w. ParseUint x = Inr w) xs)"
proof (cases b)
  case True
  have "fst (Ignore xs True s) = None \<longleftrightarrow> list_all (\<lambda>x. \<exists>w. ParseUint x = Inr w) xs" for s
    by (induction xs arbitrary: s) (auto simp: Ignore_Nil Ignore_offset split: sum.split)
  with True show ?thesis by simp
qed (simp add: ignore_ids)

lemma ignored_hidden:
  assumes "Ignore xs b s = (None, s')" and "\<not> has_key (ids s') (ID m)" and "\<not> has_key (offsets s') (Offset m)"
  shows "if b then Inr (Offset m) \<notin> ParseUint ` set xs else ID m \<notin> set xs"
proof (cases b)
  case True
  from assms(1) True have "list_all (\<lambda>x. \<exists>w. ParseUint x = Inr w) xs" using ignore_fails[of xs b s] by simp
  from ignore_offsets[OF this, of s] assms True show ?thesis by auto
next
  case False
  with ignore_ids[of xs s] assms show ?thesis by auto
qed

lemma ignored_not_delivered:
  assumes "Ignore xs b s = (None, s')" and "delivers s' ms" and "m \<in> set ms"
  shows "if b then Inr (Offset m) \<notin> ParseUint ` set xs else ID m \<notin> set xs"
  using ignored_hidden[OF assms(1)] delivers[OF assms(2,3)] by blast

lemma unignored: "\<not> has_key (ids (Unignore s)) i" "\<not> has_key (offsets (Unignore s)) w"
  by (simp_all add: Unignore)

end

section \<open>The log in a file\<close>

lemma getRows_visible:
  "getRows J fs w data rows msgs = Inr out \<Longrightarrow> list_all (visible fs) msgs \<Longrightarrow> list_all (visible fs) out"
proof (induction rows arbitrary: w data msgs)
  case (Cons row rows)
  show ?case
  proof (cases "w > 0")
    case True
    with Cons show ?thesis by simp
  next
    case False
    with Cons.prems(1) obtain m where "mj_Unmarshal J row data = Inr m"
      and "getRows J fs w m rows (if visible fs m then msgs @ [m] else msgs) = Inr out"
      by (auto simp: visible_def split: sum.split_asm if_split_asm)
    from Cons.IH[OF this(2)] Cons.prems(2) show ?thesis by (simp split: if_split_asm)
  qed
qed simp

interpretation file_ignores: ignoring_storage IgnoreMessages UnignoreMessages idIgnoreList offsetIgnoreList
  "\<lambda>x fs. fs\<lparr>idIgnoreList := AList.update x () (idIgnoreList fs)\<rparr>"
  "\<lambda>w fs. fs\<lparr>offsetIgnoreList := AList.update w () (offsetIgnoreList fs)\<rparr>"
  "Wrapf ''failed to parse message offset:  %w'' []"
  "\<lambda>fs ms. \<exists>J seek w. GetMessages J seek fs w = Inr ms"
proof unfold_locales
  fix fs ms and m :: Message
  assume "\<exists>J seek w. GetMessages J seek fs w = Inr ms" and m: "m \<in> set ms"
  then obtain J w where "getRows J fs w zero_Message (scanned (1024 * 1024) (dataFile fs)) [] = Inr ms"
    by (auto simp: GetMessages_def bindR_def split: option.splits sum.splits if_splits)
  from getRows_visible[OF this] m
  show "\<not> has_key (idIgnoreList fs) (ID m) \<and> \<not> has_key (offsetIgnoreList fs) (Offset m)"
    by (simp add: visible_def list_all_iff)
qed (auto simp: UnignoreMessages_def split: sum.split)

end
