(* ===== verification/Kafka_Storage.thy ===== *)
theory Kafka_Storage
  imports Storage_Contract Computations Encoding
begin

text \<open>
  The log of messages in a Kafka topic (\<open>src/storage/kafka_storage/kafka_storage.go\<close>), the start of the
  storage from the configuration (\<open>src/client/config\<close>, \<open>src/client/services/provider.go\<close>) and the contract of
  the ignore lists, which both storages meet.

  The client of the broker is a parameter: the readers and writers it makes, closing them, writing
  messages, and the reads that a reader performs until the deadline of one call.
\<close>

section \<open>Configuration\<close>

record KafkaStorageConfig =
  kc_DBDSN :: string
  kc_Topic :: string
  kc_ConsumerGroup :: string
  kc_TlsConfig :: string
  kc_ProducerCredentials :: string
  kc_ConsumerCredentials :: string
  kc_ReadDuration :: string
  kc_Timeout :: string
  kc_IgnoredMessages :: string
  kc_UseOffsetInsteadId :: bool

record Mechanism =
  mc_Username :: string
  mc_Password :: string

text \<open>\<open>strings.Split\<close> and \<open>strings.SplitN(_, _, 2)\<close> with a separator of one character.\<close>

fun Split :: "string \<Rightarrow> char \<Rightarrow> string list" where
  "Split [] sep = [[]]"
| "Split (c # s) sep =
    (if c = sep then [] # Split s sep
     else case Split s sep of [] \<Rightarrow> [[c]] | x # xs \<Rightarrow> (c # x) # xs)"

definition SplitN2 :: "string \<Rightarrow> char \<Rightarrow> string list" where
  "SplitN2 s sep =
    (if sep \<in> set s then [takeWhile (\<lambda>c. c \<noteq> sep) s, tl (dropWhile (\<lambda>c. c \<noteq> sep) s)] else [s])"

definition parseKafkaSaslPlain :: "string \<Rightarrow> error + Mechanism" where
  "parseKafkaSaslPlain creds =
    (let credsSplit = SplitN2 creds CHR '':'' in
     if length credsSplit = 1 then Inl (errorsNew ''failed to parse credentials'')
     else Inr \<lparr>mc_Username = credsSplit ! 0, mc_Password = credsSplit ! 1\<rparr>)"

section \<open>The broker\<close>

text \<open>A read ends with a message and its offset, or with an error; the deadline or the cancellation of the
  context is one.\<close>

datatype read_error = DeadlineExceeded | Canceled | ReadFailed error

record connection =
  cn_endpoint :: string
  cn_group :: string
  cn_topic :: string

text \<open>
  \<open>kf_Reads\<close> are the messages a reader delivers until a read fails, with their offsets, and that failure;
  it is told whether the context of the reader is cancelled and how long it may read.
  \<open>kf_Unmarshal\<close> decodes into a message that exists already: fields that are not in the text keep their
  values, and a failure may leave some of them changed.
\<close>

record ('rd, 'wr, 'tls) kafka =
  kf_NewReader :: "connection \<Rightarrow> Mechanism \<Rightarrow> 'tls \<Rightarrow> int \<Rightarrow> 'rd"
  kf_NewWriter :: "string \<Rightarrow> string \<Rightarrow> Mechanism \<Rightarrow> 'tls \<Rightarrow> int \<Rightarrow> 'wr"
  kf_CloseReader :: "'rd \<Rightarrow> error option \<times> 'rd"
  kf_CloseWriter :: "'wr \<Rightarrow> error option \<times> 'wr"
  kf_WriteMessages :: "'wr \<Rightarrow> (bytes \<times> bytes) list \<Rightarrow> error option \<times> 'wr"
  kf_Reads :: "'rd \<Rightarrow> bool \<Rightarrow> int \<Rightarrow> ((bytes \<times> int) list \<times> read_error) \<times> 'rd"
  kf_Marshal :: "Message \<Rightarrow> error + bytes"
  kf_Unmarshal :: "bytes \<Rightarrow> Message \<Rightarrow> error option \<times> Message"
  kf_ReadFile :: "string \<Rightarrow> error + bytes"
  kf_emptyTLS :: 'tls
  kf_rootCAs :: "bytes \<Rightarrow> 'tls"
  kf_ParseDuration :: "string \<Rightarrow> error + int"

definition GetTLSConfig :: "('rd, 'wr, 'tls) kafka \<Rightarrow> string \<Rightarrow> error + 'tls" where
  "GetTLSConfig K trustStorePath =
    (if trustStorePath = '''' then Inr (kf_emptyTLS K)
     else bindR (wrapE ''failed to read trustStorePath: %w'' [] (kf_ReadFile K trustStorePath)) (\<lambda>caCert.
       Inr (kf_rootCAs K caCert)))"

text \<open>\<open>ks_canceled\<close> tells whether \<open>readerCtxCancel\<close> was called on the current \<open>readerCtx\<close>.\<close>

record ('rd, 'wr, 'tls) KafkaStorage =
  ks_canceled :: bool
  ks_readDuration :: int
  ks_reader :: "'rd option"
  ks_writer :: "'wr option"
  ks_tlsConfig :: 'tls
  ks_producerCreds :: Mechanism
  ks_consumerCreds :: Mechanism
  ks_brokerEndpoint :: string
  ks_consumerGroup :: string
  ks_topic :: string
  ks_timeout :: int
  ks_idIgnoreList :: "(string, unit) gomap"
  ks_offsetIgnoreList :: "(64 word, unit) gomap"

type_synonym ('rd, 'wr, 'tls, 'a) kafka_op = "(('rd, 'wr, 'tls) KafkaStorage, 'a) op"

section \<open>Operations\<close>

definition kafka_Close :: "('rd, 'wr, 'tls) kafka \<Rightarrow> ('rd, 'wr, 'tls, unit) kafka_op" where
  "kafka_Close K =
    bindM (readM ks_reader) (\<lambda>reader.
    bindM (case reader of None \<Rightarrow> retM () | Some r \<Rightarrow>
      (case kf_CloseReader K r of (err, r) \<Rightarrow>
        bindM (updateM (\<lambda>ks. ks\<lparr>ks_canceled := True, ks_reader := Some r\<rparr>)) (\<lambda>_.
        case err of Some e \<Rightarrow> failM (Wrapf ''failed to Close reader: %w'' [] e) | None \<Rightarrow> retM ()))) (\<lambda>_.
    bindM (readM ks_writer) (\<lambda>writer.
    case writer of None \<Rightarrow> retM () | Some w \<Rightarrow>
      (case kf_CloseWriter K w of (err, w) \<Rightarrow>
        bindM (updateM (\<lambda>ks. ks\<lparr>ks_writer := Some w\<rparr>)) (\<lambda>_.
        case err of Some e \<Rightarrow> failM (Wrapf ''failed to Close writer: %w'' [] e) | None \<Rightarrow> retM ())))))"

definition kafka_reset :: "('rd, 'wr, 'tls) kafka \<Rightarrow> ('rd, 'wr, 'tls, unit) kafka_op" where
  "kafka_reset K =
    bindM (wrapM ''failed to Close connections: %w'' [] (kafka_Close K)) (\<lambda>_.
    updateM (\<lambda>ks. ks\<lparr>
      ks_reader := Some (kf_NewReader K
        \<lparr>cn_endpoint = ks_brokerEndpoint ks, cn_group = ks_consumerGroup ks, cn_topic = ks_topic ks\<rparr>
        (ks_consumerCreds ks) (ks_tlsConfig ks) (ks_timeout ks)),
      ks_canceled := False,
      ks_writer := Some (kf_NewWriter K (ks_brokerEndpoint ks) (ks_topic ks)
        (ks_producerCreds ks) (ks_tlsConfig ks) (ks_timeout ks))\<rparr>))"

definition NewKafkaStorage ::
  "('rd, 'wr, 'tls) kafka \<Rightarrow> KafkaStorageConfig option \<Rightarrow> (error + ('rd, 'wr, 'tls) KafkaStorage) go"
where
  "NewKafkaStorage K cfg =
    (case cfg of
       None \<Rightarrow> Inr (Inl (errorsNew ''kafka cfg should not be nil value''))
     | Some cfg \<Rightarrow>
         (case bindR (wrapE ''failed to parse producer credentials: %w'' [] (parseKafkaSaslPlain (kc_ProducerCredentials cfg))) (\<lambda>producerCreds.
            bindR (wrapE ''failed to parse consumer credentials: %w'' [] (parseKafkaSaslPlain (kc_ConsumerCredentials cfg))) (\<lambda>consumerCreds.
            bindR (wrapE ''failed to init tsl config: %w'' [] (GetTLSConfig K (kc_TlsConfig cfg))) (\<lambda>tlsConfig.
            bindR (wrapE ''failed to parse read duration: %w'' [] (kf_ParseDuration K (kc_ReadDuration cfg))) (\<lambda>readDuration.
            bindR (wrapE ''failed to parse timeout duration: %w'' [] (kf_ParseDuration K (kc_Timeout cfg))) (\<lambda>timeout.
            Inr \<lparr>ks_canceled = False, ks_readDuration = readDuration, ks_reader = None, ks_writer = None, ks_tlsConfig = tlsConfig,
                 ks_producerCreds = producerCreds, ks_consumerCreds = consumerCreds,
                 ks_brokerEndpoint = kc_DBDSN cfg, ks_consumerGroup = kc_ConsumerGroup cfg, ks_topic = kc_Topic cfg,
                 ks_timeout = timeout, ks_idIgnoreList = [], ks_offsetIgnoreList = []\<rparr>))))) of
            Inl e \<Rightarrow> Inr (Inl e)
          | Inr ks \<Rightarrow>
              bindR (wrapM ''failed to create a NewKafkaStorage: %w'' [] (kafka_reset K) ks)
                (\<lambda>(r, ks). Inr (case r of Inl e \<Rightarrow> Inl e | Inr _ \<Rightarrow> Inr ks))))"

definition storageToKafkaMessages :: "('rd, 'wr, 'tls) kafka \<Rightarrow> Message list \<Rightarrow> error + (bytes \<times> bytes) list" where
  "storageToKafkaMessages K messages = mapE (\<lambda>m.
     bindR (wrapE ''failed to marshal a message %v: %w'' [] (kf_Marshal K m)) (\<lambda>data.
     Inr (string_bytes (ID m), data))) messages"

definition kafka_Send :: "('rd, 'wr, 'tls) kafka \<Rightarrow> Message list \<Rightarrow> ('rd, 'wr, 'tls, unit) kafka_op" where
  "kafka_Send K messages =
    bindM (wrapM ''failed to storageToKafkaMessages: %w'' [] (liftE (storageToKafkaMessages K messages))) (\<lambda>kafkaMessages.
    bindM (readM ks_writer) (\<lambda>writer.
    bindM (liftG (deref writer)) (\<lambda>writer.
    case kf_WriteMessages K writer kafkaMessages of (err, writer) \<Rightarrow>
      bindM (updateM (\<lambda>ks. ks\<lparr>ks_writer := Some writer\<rparr>)) (\<lambda>_.
      case err of Some e \<Rightarrow> failM (Wrapf ''failed to WriteMessages: %w'' [] e) | None \<Rightarrow> retM ()))))"

definition kafka_visible :: "('rd, 'wr, 'tls) KafkaStorage \<Rightarrow> Message \<Rightarrow> bool" where
  "kafka_visible ks m \<longleftrightarrow> \<not> has_key (ks_idIgnoreList ks) (ID m) \<and> \<not> has_key (ks_offsetIgnoreList ks) (Offset m)"

text \<open>The loop of \<open>GetMessages\<close>; \<open>message\<close> is the one variable that every message is read into.\<close>

fun kafkaRows ::
  "('rd, 'wr, 'tls) kafka \<Rightarrow> ('rd, 'wr, 'tls) KafkaStorage \<Rightarrow> (bytes \<times> int) list \<Rightarrow> Message \<Rightarrow> Message list \<Rightarrow> Message list"
where
  "kafkaRows K ks [] message messages = messages"
| "kafkaRows K ks ((value, offset) # rows) message messages =
    (case kf_Unmarshal K value message of
       (Some e, message) \<Rightarrow> kafkaRows K ks rows message messages
     | (None, message) \<Rightarrow>
         let message = message\<lparr>Offset := of_int offset\<rparr> in
         kafkaRows K ks rows message (if kafka_visible ks message then messages @ [message] else messages))"

text \<open>The offset that the caller asks for is not used.\<close>

definition kafka_GetMessages :: "('rd, 'wr, 'tls) kafka \<Rightarrow> 64 word \<Rightarrow> ('rd, 'wr, 'tls, Message list) kafka_op" where
  "kafka_GetMessages K unused =
    bindM (readM ks_reader) (\<lambda>reader.
    bindM (liftG (deref reader)) (\<lambda>reader.
    bindM (readM (\<lambda>ks. (ks_canceled ks, ks_readDuration ks))) (\<lambda>(canceled, readDuration).
    case kf_Reads K reader canceled readDuration of ((rows, err), reader) \<Rightarrow>
      bindM (updateM (\<lambda>ks. ks\<lparr>ks_reader := Some reader\<rparr>)) (\<lambda>_.
      case err of
        ReadFailed e \<Rightarrow> failM (Wrapf ''failed to ReadMessage: %w'' [] e)
      | _ \<Rightarrow> readM (\<lambda>ks. kafkaRows K ks rows zero_Message [])))))"

fun kafka_IgnoreMessages ::
  "string list \<Rightarrow> bool \<Rightarrow> ('rd, 'wr, 'tls) KafkaStorage \<Rightarrow> error option \<times> ('rd, 'wr, 'tls) KafkaStorage"
where
  "kafka_IgnoreMessages [] useOffset ks = (None, ks)"
| "kafka_IgnoreMessages (msg # messages) useOffset ks =
    (if useOffset then
       case ParseUint msg of
         Inl e \<Rightarrow> (Some (Wrapf ''failed to parse message offset: %w'' [] e), ks)
       | Inr offset \<Rightarrow> kafka_IgnoreMessages messages useOffset
           (ks\<lparr>ks_offsetIgnoreList := AList.update offset () (ks_offsetIgnoreList ks)\<rparr>)
     else kafka_IgnoreMessages messages useOffset
       (ks\<lparr>ks_idIgnoreList := AList.update msg () (ks_idIgnoreList ks)\<rparr>))"

definition kafka_UnignoreMessages :: "('rd, 'wr, 'tls) KafkaStorage \<Rightarrow> ('rd, 'wr, 'tls) KafkaStorage" where
  "kafka_UnignoreMessages ks = ks\<lparr>ks_idIgnoreList := [], ks_offsetIgnoreList := []\<rparr>"

definition SetConsumerGroup :: "('rd, 'wr, 'tls) kafka \<Rightarrow> string \<Rightarrow> ('rd, 'wr, 'tls, unit) kafka_op" where
  "SetConsumerGroup K cg =
    bindM (updateM (\<lambda>ks. ks\<lparr>ks_consumerGroup := cg\<rparr>)) (\<lambda>_.
    wrapM ''failed to reset kafka storage after setting consumer group: %w'' [] (kafka_reset K))"

section \<open>The start of the storage\<close>

definition parseMessagesToIgnore :: "KafkaStorageConfig option \<Rightarrow> error + string list" where
  "parseMessagesToIgnore cfg =
    (case cfg of
       None \<Rightarrow> Inr []
     | Some cfg \<Rightarrow>
         if length (kc_IgnoredMessages cfg) = 0 then Inr []
         else let msgs = Split (kc_IgnoredMessages cfg) CHR '','' in
           if kc_UseOffsetInsteadId cfg
           then bindR (mapE (\<lambda>msg. wrapE ''when %s flag is specified, values provided in %s flag should be parsable into uint64. error: %w''
               [AStr ''storage_ignore_messages'', AStr ''offsets_to_ignore_messages''] (ParseUint msg)) msgs) (\<lambda>_. Inr msgs)
           else Inr msgs)"

text \<open>The part of \<open>CreateServiceProviderWithCfg\<close> that makes the storage.\<close>

definition startStorage ::
  "('rd, 'wr, 'tls) kafka \<Rightarrow> KafkaStorageConfig option \<Rightarrow> (error + ('rd, 'wr, 'tls) KafkaStorage) go"
where
  "startStorage K cfg =
    bindR (NewKafkaStorage K cfg) (\<lambda>r. case r of
      Inl e \<Rightarrow> Inr (Inl (Wrapf ''failed to initialize fafka storgae: %w'' [] e))
    | Inr ks \<Rightarrow>
        (case parseMessagesToIgnore cfg of
           Inl e \<Rightarrow> Inr (Inl (Wrapf ''failed to ignore messages in storage: %w'' [] e))
         | Inr ignoredMsgs \<Rightarrow>
             bindR (deref cfg) (\<lambda>cfg.
             case kafka_IgnoreMessages ignoredMsgs (kc_UseOffsetInsteadId cfg) ks of
               (Some e, ks) \<Rightarrow> Inr (Inl (Wrapf ''failed to ignore messages in storage: %w'' [] e))
             | (None, ks) \<Rightarrow> Inr (Inr ks))))"

section \<open>What a reader sees\<close>

text \<open>Every row that decodes, in order, with the offset the broker gave it.\<close>

fun kafkaDecoded :: "('rd, 'wr, 'tls) kafka \<Rightarrow> (bytes \<times> int) list \<Rightarrow> Message \<Rightarrow> Message list" where
  "kafkaDecoded K [] message = []"
| "kafkaDecoded K ((value, offset) # rows) message =
    (case kf_Unmarshal K value message of
       (Some e, message) \<Rightarrow> kafkaDecoded K rows message
     | (None, message) \<Rightarrow> let message = message\<lparr>Offset := of_int offset\<rparr> in
         message # kafkaDecoded K rows message)"

lemma kafkaRows_filter:
  "kafkaRows K ks rows message messages = messages @ filter (kafka_visible ks) (kafkaDecoded K rows message)"
  by (induction K ks rows message messages rule: kafkaRows.induct) (auto simp: Let_def split: prod.split option.split)

lemma kafka_visible_reader [simp]: "kafka_visible (ks\<lparr>ks_reader := r\<rparr>) = kafka_visible ks"
  by (simp add: kafka_visible_def fun_eq_iff)

lemma kafka_GetMessages_eq:
  "kafka_GetMessages K w ks = Inr (Inr ms, ks') \<longleftrightarrow>
    (\<exists>reader rows err reader'. ks_reader ks = Some reader \<and>
      kf_Reads K reader (ks_canceled ks) (ks_readDuration ks) = ((rows, err), reader') \<and>
      (\<forall>e. err \<noteq> ReadFailed e) \<and> ks' = ks\<lparr>ks_reader := Some reader'\<rparr> \<and>
      ms = filter (kafka_visible ks) (kafkaDecoded K rows zero_Message))"
  by (auto simp: kafka_GetMessages_def monad_defs deref_def kafkaRows_filter
      split: option.splits prod.splits read_error.splits)

interpretation kafka_ignores: ignoring_storage kafka_IgnoreMessages kafka_UnignoreMessages
  ks_idIgnoreList ks_offsetIgnoreList
  "\<lambda>x ks. ks\<lparr>ks_idIgnoreList := AList.update x () (ks_idIgnoreList ks)\<rparr>"
  "\<lambda>w ks. ks\<lparr>ks_offsetIgnoreList := AList.update w () (ks_offsetIgnoreList ks)\<rparr>"
  "Wrapf ''failed to parse message offset: %w'' []"
  "\<lambda>ks ms. \<exists>K w ks'. kafka_GetMessages K w ks = Inr (Inr ms, ks')"
  by unfold_locales (auto simp: kafka_UnignoreMessages_def kafka_GetMessages_eq kafka_visible_def split: sum.split)

section \<open>Properties\<close>

text \<open>Encoding and decoding agree: a message that was encoded mentions every field, so decoding gives it back
  whatever the variable held before.\<close>

definition kafka_json_ok :: "('rd, 'wr, 'tls) kafka \<Rightarrow> bool" where
  "kafka_json_ok K \<longleftrightarrow> (\<forall>m data prev. kf_Marshal K m = Inr data \<longrightarrow> kf_Unmarshal K data prev = (None, m))"

lemma kafkaDecoded_marshalled:
  assumes "kafka_json_ok K" and "list_all2 (\<lambda>m data. kf_Marshal K m = Inr data) ms datas"
    and "length offsets = length ms"
  shows "kafkaDecoded K (zip datas offsets) message = map (\<lambda>(m, w). m\<lparr>Offset := of_int w\<rparr>) (zip ms offsets)"
  using assms(2,3)
proof (induction arbitrary: offsets message rule: list_all2_induct)
  case (Cons m ms data datas)
  from Cons.prems obtain w ws where ws: "offsets = w # ws" "length ws = length ms" by (cases offsets) auto
  with Cons assms(1) show ?case by (simp add: kafka_json_ok_def)
qed simp

lemma storageToKafkaMessages_eq:
  "storageToKafkaMessages K ms = Inr kms \<longleftrightarrow>
    list_all2 (\<lambda>m km. \<exists>data. kf_Marshal K m = Inr data \<and> km = (string_bytes (ID m), data)) ms kms"
  unfolding storageToKafkaMessages_def mapE_list_all2
  by (rule arg_cong2[where f = "\<lambda>P xs. list_all2 P xs kms", OF _ refl])
    (auto simp: fun_eq_iff bindR_eq_Inr)

lemma kafka_Send_eq:
  "kafka_Send K ms ks = Inr (Inr (), ks') \<longleftrightarrow>
    (\<exists>kms writer writer'. storageToKafkaMessages K ms = Inr kms \<and> ks_writer ks = Some writer \<and>
      kf_WriteMessages K writer kms = (None, writer') \<and> ks' = ks\<lparr>ks_writer := Some writer'\<rparr>)"
  by (auto simp: kafka_Send_def monad_defs deref_def split: option.splits prod.splits sum.splits)

text \<open>
  C29: Messages written to the topic are read back: when the broker hands a reader the values of one call of
  \<open>Send\<close> in order until the deadline, \<open>GetMessages\<close> returns those messages in order, each with the offset the
  broker gave it, less the ignored ones, whatever offset was asked for.
\<close>

theorem kafka_send_read:
  assumes "kafka_json_ok K" and "kafka_Send K ms ks = Inr (Inr (), ks1)"
    and "storageToKafkaMessages K ms = Inr kms" and "length offsets = length ms"
    and "ks_reader ks = Some reader"
    and "kf_Reads K reader (ks_canceled ks) (ks_readDuration ks) = ((zip (map snd kms) offsets, DeadlineExceeded), reader')"
  shows "kafka_GetMessages K w ks1 = Inr (Inr (filter
      (\<lambda>m. \<not> has_key (ks_idIgnoreList ks) (ID m) \<and> \<not> has_key (ks_offsetIgnoreList ks) (Offset m))
      (map (\<lambda>(m, w). m\<lparr>Offset := of_int w\<rparr>) (zip ms offsets))), ks1\<lparr>ks_reader := Some reader'\<rparr>)"
proof -
  from assms(3) have "list_all2 (\<lambda>m data. kf_Marshal K m = Inr data) ms (map snd kms)"
    by (auto simp: storageToKafkaMessages_eq list_all2_conv_all_nth)
  from kafkaDecoded_marshalled[OF assms(1) this assms(4), of zero_Message] assms(2,5,6)
  show ?thesis unfolding kafka_GetMessages_eq by (auto simp: kafka_Send_eq kafka_visible_def[abs_def])
qed

lemma parsed_ignorable:
  assumes "parseMessagesToIgnore (Some cfg) = Inr xs"
  shows "kc_UseOffsetInsteadId cfg \<longrightarrow> list_all (\<lambda>x. \<exists>w. ParseUint x = Inr w) xs"
    and "xs = (if kc_IgnoredMessages cfg = '''' then [] else Split (kc_IgnoredMessages cfg) CHR '','')"
  using assms
  by (auto simp: parseMessagesToIgnore_def Let_def mapE_list_all2 list_all2_conv_all_nth list_all_length
      bindR_eq_Inr split: if_splits)

lemma NewKafkaStorage_None [simp]: "NewKafkaStorage K None = Inr (Inl (errorsNew ''kafka cfg should not be nil value''))"
  by (simp add: NewKafkaStorage_def)

lemma startStorage_ok:
  "startStorage K cfg = Inr (Inr ks) \<longleftrightarrow>
    (\<exists>c ks0 xs. cfg = Some c \<and> NewKafkaStorage K cfg = Inr (Inr ks0) \<and> parseMessagesToIgnore cfg = Inr xs \<and>
      kafka_IgnoreMessages xs (kc_UseOffsetInsteadId c) ks0 = (None, ks))"
  by (cases cfg; cases "NewKafkaStorage K cfg")
    (auto simp: startStorage_def deref_def split: sum.splits option.splits prod.splits)

text \<open>The calls a node makes; a call of \<open>Send\<close> that succeeds yields no messages.\<close>

datatype storage_call = CallSend "Message list" | CallGet "64 word"

fun kafka_call :: "('rd, 'wr, 'tls) kafka \<Rightarrow> storage_call \<Rightarrow> ('rd, 'wr, 'tls, Message list) kafka_op" where
  "kafka_call K (CallSend ms) = bindM (kafka_Send K ms) (\<lambda>_. retM [])"
| "kafka_call K (CallGet w) = kafka_GetMessages K w"

fun kafka_calls ::
  "('rd, 'wr, 'tls) kafka \<Rightarrow> storage_call list \<Rightarrow> ('rd, 'wr, 'tls) KafkaStorage \<Rightarrow>
    ((error + Message list) list \<times> ('rd, 'wr, 'tls) KafkaStorage) go"
where
  "kafka_calls K [] ks = Inr ([], ks)"
| "kafka_calls K (c # cs) ks =
    bindR (kafka_call K c ks) (\<lambda>(r, ks). bindR (kafka_calls K cs ks) (\<lambda>(rs, ks). Inr (r # rs, ks)))"

text \<open>An open storage has a reader and a writer: a storage that was started is open, calls keep it open and
  leave the ignore lists alone.\<close>

definition kafka_open :: "('rd, 'wr, 'tls) KafkaStorage \<Rightarrow> bool" where
  "kafka_open ks \<longleftrightarrow> ks_reader ks \<noteq> None \<and> ks_writer ks \<noteq> None"

abbreviation kafka_lists :: "('rd, 'wr, 'tls) KafkaStorage \<Rightarrow> (string, unit) gomap \<times> (64 word, unit) gomap" where
  "kafka_lists ks \<equiv> (ks_idIgnoreList ks, ks_offsetIgnoreList ks)"

lemma kafka_Ignore_open: "kafka_open (snd (kafka_IgnoreMessages xs b ks)) = kafka_open ks"
  by (induction xs b ks rule: kafka_IgnoreMessages.induct) (auto simp: kafka_open_def split: sum.split)

lemma kafka_reset_open: "kafka_reset K ks = Inr (Inr u, ks') \<Longrightarrow> kafka_open ks'"
  by (auto simp: kafka_reset_def success_simps updateM_def kafka_open_def)

lemma NewKafkaStorage_open: "NewKafkaStorage K cfg = Inr (Inr ks) \<Longrightarrow> kafka_open ks"
  by (auto simp: NewKafkaStorage_def success_simps dest: kafka_reset_open split: option.split_asm sum.split_asm)
    (metis old.sum.exhaust old.unit.exhaust)

lemma kafka_call_open:
  assumes "kafka_open ks"
  shows "\<exists>r ks'. kafka_call K c ks = Inr (r, ks') \<and> kafka_open ks' \<and> kafka_lists ks' = kafka_lists ks \<and>
    (\<forall>ms m. r = Inr ms \<longrightarrow> m \<in> set ms \<longrightarrow> kafka_visible ks m)"
proof (cases c)
  case (CallSend ms)
  from assms obtain writer where writer: "ks_writer ks = Some writer" by (auto simp: kafka_open_def)
  show ?thesis
  proof (cases "storageToKafkaMessages K ms")
    case (Inr kms)
    then show ?thesis using assms writer CallSend
      by (cases "kf_WriteMessages K writer kms"; cases "fst (kf_WriteMessages K writer kms)")
        (simp_all add: kafka_Send_def monad_defs kafka_open_def)
  qed (simp add: CallSend kafka_Send_def monad_defs assms)
next
  case (CallGet w)
  with assms show ?thesis
    by (auto simp: kafka_GetMessages_def monad_defs kafka_open_def kafkaRows_filter
        split: option.split prod.split read_error.split)
qed

lemma kafka_visible_lists: "kafka_lists ks' = kafka_lists ks \<Longrightarrow> kafka_visible ks' = kafka_visible ks"
  by (simp add: kafka_visible_def fun_eq_iff)

lemma kafka_calls_open:
  assumes "kafka_open ks"
  shows "\<exists>rs ks'. kafka_calls K cs ks = Inr (rs, ks') \<and> (\<forall>ms m. Inr ms \<in> set rs \<longrightarrow> m \<in> set ms \<longrightarrow> kafka_visible ks m)"
  using assms
proof (induction cs arbitrary: ks)
  case (Cons c cs)
  from kafka_call_open[OF Cons.prems, of K c] obtain r ks1 where r: "kafka_call K c ks = Inr (r, ks1)" "kafka_open ks1"
    "kafka_lists ks1 = kafka_lists ks" "\<And>ms m. r = Inr ms \<Longrightarrow> m \<in> set ms \<Longrightarrow> kafka_visible ks m" by auto
  from Cons.IH[OF r(2)] obtain rs ks2 where "kafka_calls K cs ks1 = Inr (rs, ks2)"
    "\<And>ms m. Inr ms \<in> set rs \<Longrightarrow> m \<in> set ms \<Longrightarrow> kafka_visible ks1 m" by blast
  with r kafka_visible_lists[OF r(3)] show ?case by auto
qed simp

text \<open>
  C28: A storage that was started from a configuration does not panic, whatever sequence of \<open>Send\<close> and
  \<open>GetMessages\<close> the node calls, and none of these calls ever delivers a message the configuration names: by its
  offset when offsets are configured, by its identifier otherwise, in the comma separated list.
\<close>

theorem configured_messages_ignored:
  assumes "startStorage K (Some cfg) = Inr (Inr ks)" and "kc_IgnoredMessages cfg \<noteq> ''''"
  shows "\<exists>rs ks'. kafka_calls K calls ks = Inr (rs, ks') \<and>
    (\<forall>ms m. Inr ms \<in> set rs \<longrightarrow> m \<in> set ms \<longrightarrow>
      (if kc_UseOffsetInsteadId cfg
       then Inr (Offset m) \<notin> ParseUint ` set (Split (kc_IgnoredMessages cfg) CHR '','')
       else ID m \<notin> set (Split (kc_IgnoredMessages cfg) CHR '','')))"
proof -
  from assms(1) obtain ks0 xs where new: "NewKafkaStorage K (Some cfg) = Inr (Inr ks0)"
    and xs: "parseMessagesToIgnore (Some cfg) = Inr xs"
    and ign: "kafka_IgnoreMessages xs (kc_UseOffsetInsteadId cfg) ks0 = (None, ks)"
    by (auto simp: startStorage_ok)
  have "kafka_open ks" using kafka_Ignore_open[of xs "kc_UseOffsetInsteadId cfg" ks0] NewKafkaStorage_open[OF new] ign by simp
  moreover have "if kc_UseOffsetInsteadId cfg then Inr (Offset m) \<notin> ParseUint ` set xs else ID m \<notin> set xs"
    if "kafka_visible ks m" for m
    using kafka_ignores.ignored_hidden[OF ign, of m] that by (simp add: kafka_visible_def)
  moreover have "xs = Split (kc_IgnoredMessages cfg) CHR '',''" using parsed_ignorable(2)[OF xs] assms(2) by simp
  ultimately show ?thesis using kafka_calls_open[of ks K calls] by metis
qed

text \<open>A broker that delivers two messages with the offsets 5 and 6.\<close>

definition sample_kafka :: "(unit, unit, unit) kafka" where
  "sample_kafka = \<lparr>kf_NewReader = (\<lambda>cn mc tls timeout. ()), kf_NewWriter = (\<lambda>endpoint topic mc tls timeout. ()),
     kf_CloseReader = (\<lambda>rd. (None, rd)), kf_CloseWriter = (\<lambda>wr. (None, wr)), kf_WriteMessages = (\<lambda>wr ms. (None, wr)),
     kf_Reads = (\<lambda>rd canceled d. (([([0], 5), ([1], 6)], DeadlineExceeded), rd)),
     kf_Marshal = mj_Marshal sample_json,
     kf_Unmarshal = (\<lambda>b prev. case mj_Unmarshal sample_json b prev of Inl e \<Rightarrow> (Some e, prev) | Inr m \<Rightarrow> (None, m)),
     kf_ReadFile = (\<lambda>path. Inr []), kf_emptyTLS = (), kf_rootCAs = (\<lambda>pem. ()), kf_ParseDuration = (\<lambda>s. Inr 10)\<rparr>"

definition sample_kafka_config :: KafkaStorageConfig where
  "sample_kafka_config = \<lparr>kc_DBDSN = ''localhost:9093'', kc_Topic = ''messages'', kc_ConsumerGroup = ''john'',
     kc_TlsConfig = '''', kc_ProducerCredentials = ''producer:secret'', kc_ConsumerCredentials = ''consumer:secret'',
     kc_ReadDuration = ''10s'', kc_Timeout = ''60s'', kc_IgnoredMessages = ''u7,u0'', kc_UseOffsetInsteadId = False\<rparr>"

definition sample_kafka_storage :: "string list \<Rightarrow> (unit, unit, unit) KafkaStorage" where
  "sample_kafka_storage ids = \<lparr>ks_canceled = False, ks_readDuration = 10, ks_reader = Some (), ks_writer = Some (),
     ks_tlsConfig = (), ks_producerCreds = \<lparr>mc_Username = ''producer'', mc_Password = ''secret''\<rparr>,
     ks_consumerCreds = \<lparr>mc_Username = ''consumer'', mc_Password = ''secret''\<rparr>, ks_brokerEndpoint = ''localhost:9093'',
     ks_consumerGroup = ''john'', ks_topic = ''messages'', ks_timeout = 10,
     ks_idIgnoreList = map (\<lambda>i. (i, ())) ids, ks_offsetIgnoreList = []\<rparr>"

lemma sample_kafka_json_ok: "kafka_json_ok sample_kafka"
  using sample_json_ok by (simp add: kafka_json_ok_def sample_kafka_def msg_json_ok_def)

theorem kafka_send_read_witness:
  "kafka_GetMessages sample_kafka 0 (sample_kafka_storage [''u0'']) =
    Inr (Inr [sample_msg ''u1'' 6], sample_kafka_storage [''u0''])"
proof -
  let ?ks = "sample_kafka_storage [''u0'']"
  have "kafka_Send sample_kafka [sample_msg ''u0'' 0, sample_msg ''u1'' 1] ?ks = Inr (Inr (), ?ks)"
    and kms: "storageToKafkaMessages sample_kafka [sample_msg ''u0'' 0, sample_msg ''u1'' 1] =
      Inr [(string_bytes ''u0'', [0]), (string_bytes ''u1'', [1])]"
    by (simp_all add: kafka_Send_eq storageToKafkaMessages_def sample_kafka_def sample_kafka_storage_def
        sample_json_def sample_msg_def)
  from kafka_send_read[OF sample_kafka_json_ok this, where offsets = "[5, 6]" and reader = "()" and reader' = "()" and w = 0]
  show ?thesis by (simp add: sample_kafka_def sample_kafka_storage_def sample_msg_def)
qed

theorem configured_messages_ignored_witness:
  "\<exists>ks ks'. startStorage sample_kafka (Some sample_kafka_config) = Inr (Inr ks) \<and>
    kafka_calls sample_kafka [CallSend [sample_msg ''u1'' 1], CallGet 0] ks =
      Inr ([Inr [], Inr [sample_msg ''u1'' 6]], ks') \<and> ''u1'' \<noteq> ''u0''"
proof -
  let ?ks = "sample_kafka_storage [''u7'', ''u0'']" and ?calls = "[CallSend [sample_msg ''u1'' 1], CallGet 0]"
  have start: "startStorage sample_kafka (Some sample_kafka_config) = Inr (Inr ?ks)"
    by (simp add: startStorage_ok NewKafkaStorage_def sample_kafka_config_def sample_kafka_def parseKafkaSaslPlain_def
        SplitN2_def GetTLSConfig_def kafka_reset_def kafka_Close_def monad_defs sample_kafka_storage_def
        parseMessagesToIgnore_def wrapE_def)
  have calls: "kafka_calls sample_kafka ?calls ?ks = Inr ([Inr [], Inr [sample_msg ''u1'' 6]], ?ks)"
    by (simp add: kafka_Send_def kafka_GetMessages_def monad_defs storageToKafkaMessages_def sample_kafka_def
        sample_kafka_storage_def sample_json_def sample_msg_def kafka_visible_def zero_Message_def wrapE_def)
  have "kc_IgnoredMessages sample_kafka_config \<noteq> ''''" by (simp add: sample_kafka_config_def)
  from configured_messages_ignored[OF start this, of ?calls] start calls
  show ?thesis by (auto simp: sample_kafka_config_def sample_msg_def)
qed

end
