(* ===== verification/Key_Store.thy ===== *)
theory Key_Store
  imports State_Db Encoding
begin

text \<open>
  The store of the keys with which a node signs its messages (\<open>src/client/modules/keystore/keystore.go\<close>): one
  JSON object, from user names to key pairs, in a LevelDB database of its own.

  A nil map is \<open>None\<close>, and so is a nil pointer to a key pair: JSON text holds \<open>null\<close> for both.
\<close>

section \<open>Key pairs\<close>

record KeyPair =
  kp_Pub :: bytes
  kp_Priv :: bytes

text \<open>The error of \<open>ed25519.GenerateKey\<close> is dropped; both keys are nil when it fails.\<close>

definition NewKeyPair :: "error + bytes \<times> bytes \<Rightarrow> KeyPair" where
  "NewKeyPair generated = (case generated of
     Inl e \<Rightarrow> \<lparr>kp_Pub = [], kp_Priv = []\<rparr> | Inr (pub, priv) \<Rightarrow> \<lparr>kp_Pub = pub, kp_Priv = priv\<rparr>)"

definition GetAddr :: "KeyPair \<Rightarrow> string" where
  "GetAddr p = hex_EncodeToString (kp_Pub p)"

section \<open>The store\<close>

type_synonym key_pairs = "(string, KeyPair option) gomap"

record keys_json =
  kj_Marshal :: "key_pairs \<Rightarrow> error + bytes"
  kj_Unmarshal :: "bytes \<Rightarrow> error + key_pairs option"

text \<open>What was encoded decodes to a map with the same entries.\<close>

definition keys_json_ok :: "keys_json \<Rightarrow> bool" where
  "keys_json_ok J \<longleftrightarrow> (\<forall>m b. kj_Marshal J m = Inr b \<longrightarrow> (\<exists>m'. kj_Unmarshal J b = Inr (Some m') \<and> map_of m' = map_of m))"

definition secretsKey :: string where "secretsKey = ''secrets''"

record 'db LevelDBKeyStore =
  keystoreDb :: 'db

definition keystore_initJsonKey ::
  "'db leveldb \<Rightarrow> keys_json \<Rightarrow> string \<Rightarrow> key_pairs \<Rightarrow> 'db LevelDBKeyStore \<Rightarrow> error option \<times> 'db LevelDBKeyStore"
where
  "keystore_initJsonKey L J key data s =
    (case ldb_Get L (keystoreDb s) key of
       Inr _ \<Rightarrow> (None, s)
     | Inl _ \<Rightarrow>
         (case kj_Marshal J data of
            Inl e \<Rightarrow> (Some (Wrapf ''failed to marshal storage structure: %w'' [] e), s)
          | Inr dataBz \<Rightarrow>
              (case ldb_Put L (keystoreDb s) key dataBz of
                 (Some e, db) \<Rightarrow> (Some (Wrapf ''failed to init state: %w'' [] e), s\<lparr>keystoreDb := db\<rparr>)
               | (None, db) \<Rightarrow> (None, s\<lparr>keystoreDb := db\<rparr>))))"

definition NewLevelDBKeyStore ::
  "'db leveldb \<Rightarrow> keys_json \<Rightarrow> string \<Rightarrow> string \<Rightarrow> error + 'db LevelDBKeyStore"
where
  "NewLevelDBKeyStore L J username keystorePath =
    (case ldb_OpenFile L keystorePath of
       Inl e \<Rightarrow> Inl (Wrapf ''failed to open keystore: %w'' [] e)
     | Inr db \<Rightarrow>
         let keystore = \<lparr>keystoreDb = db\<rparr> in
         (case ldb_Get L db secretsKey of
            Inr _ \<Rightarrow> Inr keystore
          | Inl _ \<Rightarrow>
              (case keystore_initJsonKey L J secretsKey [] keystore of
                 (Some e, keystore) \<Rightarrow> Inl (Wrapf ''failed to init %s storage: %w'' [AStr ''operations''] e)
               | (None, keystore) \<Rightarrow> Inr keystore)))"

text \<open>Writing into the nil map that \<open>null\<close> decodes to is a panic.\<close>

definition PutKeys ::
  "'db leveldb \<Rightarrow> keys_json \<Rightarrow> string \<Rightarrow> KeyPair option \<Rightarrow> 'db LevelDBKeyStore \<Rightarrow> (error option \<times> 'db LevelDBKeyStore) go"
where
  "PutKeys L J username keyPair s =
    (case ldb_Get L (keystoreDb s) secretsKey of
       Inl e \<Rightarrow> Inr (Some (Wrapf ''failed to read keystore: %w'' [] (ldb_error_value e)), s)
     | Inr bz \<Rightarrow>
         (case kj_Unmarshal J bz of
            Inl e \<Rightarrow> Inr (Some (Wrapf ''failed to unmarshak key pairs: %w'' [] e), s)
          | Inr None \<Rightarrow> Inl (PanicMsg ''assignment to entry in nil map'' [])
          | Inr (Some keyPairs) \<Rightarrow>
              (case kj_Marshal J (AList.update username keyPair keyPairs) of
                 Inl e \<Rightarrow> Inr (Some (Wrapf ''failed to marshal key pair: %w'' [] e), s)
               | Inr keyPairsBz \<Rightarrow>
                   (case ldb_Put L (keystoreDb s) secretsKey keyPairsBz of
                      (Some e, db) \<Rightarrow> Inr (Some (Wrapf ''failed to put key pairs: %w'' [] e), s\<lparr>keystoreDb := db\<rparr>)
                    | (None, db) \<Rightarrow> Inr (None, s\<lparr>keystoreDb := db\<rparr>)))))"

text \<open>The password is not used.\<close>

definition LoadKeys ::
  "'db leveldb \<Rightarrow> keys_json \<Rightarrow> 'db LevelDBKeyStore \<Rightarrow> string \<Rightarrow> string \<Rightarrow> error + KeyPair option"
where
  "LoadKeys L J s userName password =
    (case ldb_Get L (keystoreDb s) secretsKey of
       Inl e \<Rightarrow> Inl (Wrapf ''failed to read keystore: %w'' [] (ldb_error_value e))
     | Inr bz \<Rightarrow>
         (case kj_Unmarshal J bz of
            Inl e \<Rightarrow> Inl (Wrapf ''failed to unmarshal key pairs: %w'' [] e)
          | Inr keyPairs \<Rightarrow>
              (case map_of (case keyPairs of None \<Rightarrow> [] | Some m \<Rightarrow> m) userName of
                 None \<Rightarrow> Inl (Errorf ''no key pair found for user %s'' [AStr userName])
               | Some keyPair \<Rightarrow> Inr keyPair)))"

section \<open>Stores of entries by key\<close>

text \<open>
  The contract of a store: a successful \<open>put\<close> binds its key and leaves the other bindings alone.  What the
  store holds is a function of the puts that succeeded, whatever else a call reports.
\<close>

fun puts :: "('k \<Rightarrow> 'v \<Rightarrow> 's \<Rightarrow> (error option \<times> 's) go) \<Rightarrow> ('k \<times> 'v) list \<Rightarrow> 's \<Rightarrow> 's option" where
  "puts put [] s = Some s"
| "puts put ((k, v) # kvs) s = (case put k v s of Inr (None, s') \<Rightarrow> puts put kvs s' | _ \<Rightarrow> None)"

locale entry_store =
  fixes put :: "'k \<Rightarrow> 'v \<Rightarrow> 's \<Rightarrow> (error option \<times> 's) go"
    and load :: "'s \<Rightarrow> 'k \<Rightarrow> 'v option"
    and ok :: "'s \<Rightarrow> bool"
  assumes put_ok: "ok s \<Longrightarrow> put k v s = Inr (None, s') \<Longrightarrow> ok s'"
    and load_put: "ok s \<Longrightarrow> put k v s = Inr (None, s') \<Longrightarrow> load s' = (load s)(k \<mapsto> v)"
begin

lemma load_puts: "ok s \<Longrightarrow> puts put kvs s = Some s' \<Longrightarrow> ok s' \<and> load s' = load s ++ map_of (rev kvs)"
proof (induction kvs arbitrary: s)
  case (Cons kv kvs)
  obtain k v where kv: "kv = (k, v)" by fastforce
  from Cons.prems(2) obtain s1 where s1: "put k v s = Inr (None, s1)" "puts put kvs s1 = Some s'"
    by (auto simp: kv split: sum.splits option.splits prod.splits)
  from Cons.IH[OF put_ok[OF Cons.prems(1) s1(1)] s1(2)] load_put[OF Cons.prems(1) s1(1)]
  show ?case by (auto simp: kv fun_eq_iff map_add_def split: option.split)
qed simp

end

text \<open>The key store on a database whose object of keys is readable.\<close>

definition keys_readable :: "'db leveldb \<Rightarrow> keys_json \<Rightarrow> 'db LevelDBKeyStore \<Rightarrow> bool" where
  "keys_readable L J s \<longleftrightarrow> (case ldb_Get L (keystoreDb s) secretsKey of
     Inl e \<Rightarrow> False | Inr bz \<Rightarrow> (case kj_Unmarshal J bz of Inr (Some m) \<Rightarrow> True | _ \<Rightarrow> False))"

definition loaded :: "'db leveldb \<Rightarrow> keys_json \<Rightarrow> 'db LevelDBKeyStore \<Rightarrow> string \<Rightarrow> KeyPair option option" where
  "loaded L J s u = (case LoadKeys L J s u '''' of Inl e \<Rightarrow> None | Inr k \<Rightarrow> Some k)"

lemma readable_loaded:
  assumes "ldb_Get L (keystoreDb s) secretsKey = Inr bz" and "kj_Unmarshal J bz = Inr (Some m)"
  shows "keys_readable L J s" and "loaded L J s = map_of m"
    and "LoadKeys L J s u password =
      (case map_of m u of None \<Rightarrow> Inl (Errorf ''no key pair found for user %s'' [AStr u]) | Some k \<Rightarrow> Inr k)"
  using assms by (auto simp: keys_readable_def loaded_def LoadKeys_def fun_eq_iff split: option.split)

lemma PutKeys_loaded:
  assumes "leveldb_ok L" and "keys_json_ok J" and "PutKeys L J u k s = Inr (None, s')"
  shows "keys_readable L J s'" and "loaded L J s' = (loaded L J s)(u \<mapsto> k)"
proof -
  from assms(3) obtain bz m b where get: "ldb_Get L (keystoreDb s) secretsKey = Inr bz" "kj_Unmarshal J bz = Inr (Some m)"
    and b: "kj_Marshal J (AList.update u k m) = Inr b"
    and put: "ldb_Put L (keystoreDb s) secretsKey b = (None, keystoreDb s')"
    by (auto simp: PutKeys_def split: sum.split_asm option.split_asm prod.split_asm)
  from assms(2) b obtain m' where m': "kj_Unmarshal J b = Inr (Some m')" "map_of m' = map_of (AList.update u k m)"
    unfolding keys_json_ok_def by blast
  note new = readable_loaded[OF _ m'(1), where L = L and s = s'] and old = readable_loaded(2)[OF get]
  from leveldb_put[OF assms(1) put, of secretsKey] new(1) show "keys_readable L J s'" by simp
  from leveldb_put[OF assms(1) put, of secretsKey] new(2) old m'(2)
  show "loaded L J s' = (loaded L J s)(u \<mapsto> k)" by (simp add: update_conv')
qed

interpretation node_keys: entry_store "PutKeys L J" "loaded L J"
    "\<lambda>s. leveldb_ok L \<and> keys_json_ok J \<and> keys_readable L J s"
  for L :: "'db leveldb" and J :: keys_json
  by unfold_locales (auto dest: PutKeys_loaded)

text \<open>The state of a node meets the same contract.\<close>

interpretation node_entries: entry_store "\<lambda>k v s. Inr (LevelDBState_Set L k v s)"
    "\<lambda>s k. case LevelDBState_Get L s k of Inr (Some v) \<Rightarrow> Some v | _ \<Rightarrow> None" "\<lambda>s. leveldb_ok L"
  for L :: "'db leveldb"
proof unfold_locales
  fix s s' :: "'db LevelDBState" and k :: string and v :: bytes
  assume ok: "leveldb_ok L" and "Inr (LevelDBState_Set L k v s) = (Inr (None, s') :: (error option \<times> 'db LevelDBState) go)"
  then obtain db where "ldb_Put L (stateDb s) k v = (None, db)" and s': "s' = s\<lparr>stateDb := db\<rparr>"
    by (auto simp: LevelDBState_Set_def split: prod.split_asm option.split_asm)
  from leveldb_put[OF ok this(1)]
  show "(\<lambda>i. case LevelDBState_Get L s' i of Inr (Some v) \<Rightarrow> Some v | _ \<Rightarrow> None) =
      (\<lambda>i. case LevelDBState_Get L s i of Inr (Some v) \<Rightarrow> Some v | _ \<Rightarrow> None)(k \<mapsto> v)"
    by (auto simp: fun_eq_iff LevelDBState_Get_def s')
qed

section \<open>Properties\<close>

lemma NewLevelDBKeyStore_cases:
  assumes "NewLevelDBKeyStore L J u path = Inr s"
  obtains db where "ldb_OpenFile L path = Inr db"
    and "case ldb_Get L db secretsKey of
      Inr bz \<Rightarrow> s = \<lparr>keystoreDb = db\<rparr>
    | Inl e \<Rightarrow> (\<exists>b. kj_Marshal J [] = Inr b \<and> ldb_Put L db secretsKey b = (None, keystoreDb s))"
  using assms
  by (auto simp: NewLevelDBKeyStore_def keystore_initJsonKey_def Let_def
      split: sum.split_asm prod.split_asm option.split_asm)

lemma fresh_keys:
  assumes "leveldb_ok L" and "keys_json_ok J" and "kj_Marshal J [] = Inr b"
    and "ldb_Put L db secretsKey b = (None, keystoreDb s)"
  shows "keys_readable L J s" and "loaded L J s = Map.empty"
    and "LoadKeys L J s u password = Inl (Errorf ''no key pair found for user %s'' [AStr u])"
proof -
  from assms(2,3) obtain m where m: "kj_Unmarshal J b = Inr (Some m)" "map_of m = map_of []"
    unfolding keys_json_ok_def by blast
  with readable_loaded[OF _ m(1), where L = L and s = s] leveldb_put[OF assms(1,4), of secretsKey]
  show "keys_readable L J s" "loaded L J s = Map.empty"
    "LoadKeys L J s u password = Inl (Errorf ''no key pair found for user %s'' [AStr u])" by simp_all
qed

lemma loaded_LoadKeys:
  assumes "loaded L J s u = Some k"
  shows "LoadKeys L J s u password = Inr k"
proof -
  have "LoadKeys L J s u password = LoadKeys L J s u ''''" by (simp add: LoadKeys_def)
  with assms show ?thesis by (simp add: loaded_def split: sum.split_asm)
qed

text \<open>
  Keys come back as they were stored: in a store opened on a fresh database, after any sequence of calls of
  \<open>PutKeys\<close> that succeed, \<open>LoadKeys\<close> returns the last pair stored for a user, with any password, and fails for a
  user without one.
\<close>

theorem stored_keys_loaded:
  assumes "leveldb_ok L" and "keys_json_ok J" and "ldb_OpenFile L path = Inr db"
    and "ldb_Get L db secretsKey = Inl ErrNotFound" and "NewLevelDBKeyStore L J name path = Inr s"
    and "puts (PutKeys L J) kvs s = Some s'"
  shows "LoadKeys L J s' u password = (case map_of (rev kvs) u of
      None \<Rightarrow> Inl (Errorf ''no key pair found for user %s'' [AStr u]) | Some k \<Rightarrow> Inr k)"
proof -
  from assms(5) obtain b where b: "kj_Marshal J [] = Inr b" "ldb_Put L db secretsKey b = (None, keystoreDb s)"
    by (rule NewLevelDBKeyStore_cases) (auto simp: assms(3,4))
  note fresh = fresh_keys[OF assms(1,2) b]
  from node_keys.load_puts[OF _ assms(6)] assms(1,2) fresh
  have new: "keys_readable L J s'" "loaded L J s' = map_of (rev kvs)" by simp_all
  from new(1) obtain bz m where "ldb_Get L (keystoreDb s') secretsKey = Inr bz" "kj_Unmarshal J bz = Inr (Some m)"
    by (auto simp: keys_readable_def split: sum.split_asm option.split_asm)
  from readable_loaded(2,3)[OF this] new(2) show ?thesis by (simp split: option.split)
qed

text \<open>
  A store whose keys cannot be read is emptied: when reading the keys fails for any reason other than their
  absence and opening the store succeeds all the same, the keys were replaced by an empty object and no user has
  a key pair any more.
\<close>

theorem unreadable_keys_erased:
  assumes "leveldb_ok L" and "keys_json_ok J" and "ldb_OpenFile L path = Inr db"
    and "ldb_Get L db secretsKey = Inl (ErrOther e)" and "NewLevelDBKeyStore L J name path = Inr s"
  shows "LoadKeys L J s u password = Inl (Errorf ''no key pair found for user %s'' [AStr u])"
proof -
  from assms(5) obtain b where "kj_Marshal J [] = Inr b" "ldb_Put L db secretsKey b = (None, keystoreDb s)"
    by (rule NewLevelDBKeyStore_cases) (auto simp: assms(3,4))
  from fresh_keys(3)[OF assms(1,2) this] show ?thesis .
qed

definition sample_pair :: KeyPair where
  "sample_pair = \<lparr>kp_Pub = replicate 32 1, kp_Priv = replicate 64 1\<rparr>"

definition sample_keys_json :: keys_json where
  "sample_keys_json = \<lparr>kj_Marshal = (\<lambda>m. if m = [] then Inr [0] else if m = [(''alice'', Some sample_pair)] then Inr [1]
       else Inl (errorsNew ''json'')),
     kj_Unmarshal = (\<lambda>b. if b = [0] then Inr (Some []) else if b = [1] then Inr (Some [(''alice'', Some sample_pair)])
       else Inl (errorsNew ''json''))\<rparr>"

lemma sample_keys_json_ok: "keys_json_ok sample_keys_json"
  by (auto simp: keys_json_ok_def sample_keys_json_def split: if_splits)

theorem stored_keys_loaded_witness:
  "\<exists>s s'. NewLevelDBKeyStore memdb sample_keys_json ''alice'' ''keys'' = Inr s \<and>
    puts (PutKeys memdb sample_keys_json) [(''alice'', Some sample_pair)] s = Some s' \<and>
    LoadKeys memdb sample_keys_json s' ''alice'' ''secret'' = Inr (Some sample_pair)"
proof -
  let ?s = "\<lparr>keystoreDb = [(secretsKey, [0])]\<rparr> :: (string, bytes) gomap LevelDBKeyStore"
  have new: "NewLevelDBKeyStore memdb sample_keys_json ''alice'' ''keys'' = Inr ?s"
    by (simp add: NewLevelDBKeyStore_def keystore_initJsonKey_def memdb_def sample_keys_json_def)
  have put: "puts (PutKeys memdb sample_keys_json) [(''alice'', Some sample_pair)] ?s =
      Some \<lparr>keystoreDb = [(secretsKey, [1])]\<rparr>"
    by (simp add: PutKeys_def memdb_def sample_keys_json_def)
  have "ldb_OpenFile memdb ''keys'' = Inr []" "ldb_Get memdb [] secretsKey = Inl ErrNotFound"
    by (simp_all add: memdb_def)
  from stored_keys_loaded[OF memdb_ok sample_keys_json_ok this new put, of "''alice''" "''secret''"] new put
  show ?thesis by simp
qed

text \<open>A database in which the value of a key may be damaged.\<close>

definition damaged_db :: "(string, bytes option) gomap leveldb" where
  "damaged_db = \<lparr>ldb_OpenFile = (\<lambda>path. Inr [(secretsKey, None)]),
     ldb_Get = (\<lambda>db k. case map_of db k of None \<Rightarrow> Inl ErrNotFound
       | Some None \<Rightarrow> Inl (ErrOther (errorsNew ''leveldb: block checksum mismatch'')) | Some (Some v) \<Rightarrow> Inr v),
     ldb_Put = (\<lambda>db k v. (None, AList.update k (Some v) db)),
     ldb_Delete = (\<lambda>db k. (None, AList.delete k db))\<rparr>"

lemma damaged_db_ok: "leveldb_ok damaged_db"
  by (auto simp: leveldb_ok_def damaged_db_def map_of_eq_None_iff AList.delete_conv')

theorem unreadable_keys_erased_witness:
  "\<exists>s. NewLevelDBKeyStore damaged_db sample_keys_json ''alice'' ''keys'' = Inr s \<and>
    LoadKeys damaged_db sample_keys_json s ''alice'' '''' = Inl (Errorf ''no key pair found for user %s'' [AStr ''alice''])"
proof -
  let ?s = "\<lparr>keystoreDb = [(secretsKey, Some [0])]\<rparr> :: (string, bytes option) gomap LevelDBKeyStore"
  have new: "NewLevelDBKeyStore damaged_db sample_keys_json ''alice'' ''keys'' = Inr ?s"
    by (simp add: NewLevelDBKeyStore_def keystore_initJsonKey_def damaged_db_def sample_keys_json_def)
  have "ldb_OpenFile damaged_db ''keys'' = Inr [(secretsKey, None)]"
    "ldb_Get damaged_db [(secretsKey, None)] secretsKey = Inl (ErrOther (errorsNew ''leveldb: block checksum mismatch''))"
    by (simp_all add: damaged_db_def)
  from unreadable_keys_erased[OF damaged_db_ok sample_keys_json_ok this new, of "''alice''" "''''"] new
  show ?thesis by blast
qed

end
