(* ===== verification/Services.thy ===== *)
theory Services
  imports Node_Rounds Kafka_Storage Key_Store
begin

text \<open>
  How a node is put together from its configuration (\<open>src/client/services/provider.go\<close>, \<open>src/client/config\<close>,
  \<open>src/client/modules/logger\<close> and \<open>NewNode\<close> of \<open>src/client/services/node/node_service.go\<close>): the Kafka storage with
  its ignore list, the key store, the state and the services on it.  A node that starts this way is a node in
  the sense of \<open>node_reachable\<close>.
\<close>

section \<open>Configuration and logger\<close>

record HttpApiConfig =
  hc_ListenAddr :: string
  hc_Debug :: bool
  hc_EnableLogging :: bool

record Config =
  cf_HttpApiConfig :: "HttpApiConfig option"
  cf_KafkaStorageConfig :: "KafkaStorageConfig option"
  cf_Username :: string
  cf_StateDBSN :: string
  cf_KeyStoreDBDSN :: string

record logger =
  lg_userName :: string

definition NewLogger :: "string \<Rightarrow> logger" where
  "NewLogger username = \<lparr>lg_userName = username\<rparr>"

text \<open>What \<open>Log\<close> prints; \<open>msg\<close> is the formatted message.\<close>

definition Log :: "logger \<Rightarrow> string \<Rightarrow> string" where
  "Log l msg = ''['' @ lg_userName l @ ''] '' @ msg @ [CHR 0x0A]"

section \<open>The storage behind the node\<close>

text \<open>The Kafka storage as a \<open>storage.Storage\<close>.  Its methods panic only without a reader or a writer, which an open
  storage has (\<open>kafka_call_open\<close>); the messages handed to \<open>Send\<close> are not changed.\<close>

definition kafka_storage :: "('rd, 'wr, 'tls) kafka \<Rightarrow> ('rd, 'wr, 'tls) KafkaStorage storage" where
  "kafka_storage K =
    \<lparr>stg_Send = (\<lambda>messages ks. case kafka_Send K messages ks of
        Inl p \<Rightarrow> ((messages, Some (errorsNew ''storage is not open'')), ks)
      | Inr (Inl e, ks) \<Rightarrow> ((messages, Some e), ks)
      | Inr (Inr _, ks) \<Rightarrow> ((messages, None), ks)),
     stg_GetMessages = (\<lambda>offset ks. case kafka_GetMessages K offset ks of
        Inl p \<Rightarrow> (Inl (errorsNew ''storage is not open''), ks)
      | Inr (r, ks) \<Rightarrow> (r, ks))\<rparr>"

section \<open>Services\<close>

record ('db, 'rd, 'wr, 'tls) ServiceProvider =
  sp_storage :: "('rd, 'wr, 'tls) KafkaStorage"
  sp_ks :: "'db LevelDBKeyStore"
  sp_l :: logger
  sp_state :: "'db LevelDBState"
  sp_operationsKey :: string
  sp_deletedKey :: string
  sp_stateKey :: string

text \<open>The services share the state: the operation repository writes its keys into it when it is made.\<close>

definition CreateServiceProviderWithCfg ::
  "('rd, 'wr, 'tls) kafka \<Rightarrow> 'db leveldb \<Rightarrow> keys_json \<Rightarrow> Config \<Rightarrow>
    (error + ('db, 'rd, 'wr, 'tls) ServiceProvider) go"
where
  "CreateServiceProviderWithCfg K L J cfg =
    bindR (startStorage K (cf_KafkaStorageConfig cfg)) (\<lambda>r. case r of
      Inl e \<Rightarrow> Inr (Inl e)
    | Inr storage \<Rightarrow>
        (case NewLevelDBKeyStore L J (cf_Username cfg) (cf_KeyStoreDBDSN cfg) of
           Inl e \<Rightarrow> Inr (Inl (Wrapf ''failed to init key store: %w'' [] e))
         | Inr ks \<Rightarrow>
             bindR (deref (cf_KafkaStorageConfig cfg)) (\<lambda>kafka.
             case NewLevelDBState L (cf_StateDBSN cfg) (kc_Topic kafka) of
               Inl e \<Rightarrow> Inr (Inl (Wrapf ''failed to init state: %w'' [] e))
             | Inr state \<Rightarrow>
                 (case NewOperationRepo L state (kc_Topic kafka) of
                    Inl e \<Rightarrow> Inr (Inl (Wrapf ''failed to init operation repo: %w'' [] e))
                  | Inr repo \<Rightarrow>
                      Inr (Inr \<lparr>sp_storage = storage, sp_ks = ks, sp_l = NewLogger (cf_Username cfg),
                        sp_state = repo_state repo, sp_operationsKey = operationsCompositeKey repo,
                        sp_deletedKey = deleteOperationsCompositeKey repo,
                        sp_stateKey = fs_stateKey (NewFSMService (repo_state repo) (kc_Topic kafka))\<rparr>)))))"

definition NewNodeService ::
  "'db leveldb \<Rightarrow> keys_json \<Rightarrow> Config \<Rightarrow> ('db, 'rd, 'wr, 'tls) ServiceProvider \<Rightarrow>
    (error + ('db, ('rd, 'wr, 'tls) KafkaStorage) node) go"
where
  "NewNodeService L J cfg sp =
    (case LoadKeys L J (sp_ks sp) (cf_Username cfg) '''' of
       Inl e \<Rightarrow> Inr (Inl (Wrapf ''failed to LoadKeys: %w'' [] e))
     | Inr keyPair \<Rightarrow>
         bindR (deref keyPair) (\<lambda>keyPair.
         Inr (Inr \<lparr>nd_userName = cf_Username cfg, nd_pubKey = kp_Pub keyPair, nd_state = sp_state sp,
           nd_storage = sp_storage sp, nd_stateKey = sp_stateKey sp, nd_operationsKey = sp_operationsKey sp,
           nd_deletedKey = sp_deletedKey sp, nd_skip = False, nd_clock = 0\<rparr>)))"

text \<open>The environment of a node on these services: its database, its storage and the keys of its key store.  A
  nil pair in the store crashes a node that asks for it, \<open>NewNodeService\<close> included.\<close>

definition node_LoadKeys :: "'db leveldb \<Rightarrow> keys_json \<Rightarrow> 'db LevelDBKeyStore \<Rightarrow> string \<Rightarrow> error + bytes \<times> bytes" where
  "node_LoadKeys L J ks userName = bindR (LoadKeys L J ks userName '''') (\<lambda>keyPair. case keyPair of
     None \<Rightarrow> Inl (errorsNew ''nil key pair'') | Some keyPair \<Rightarrow> Inr (kp_Pub keyPair, kp_Priv keyPair))"

definition service_env ::
  "('rd, 'wr, 'tls) kafka \<Rightarrow> 'db leveldb \<Rightarrow> keys_json \<Rightarrow> ('db, 'rd, 'wr, 'tls) ServiceProvider \<Rightarrow>
    ('db, ('rd, 'wr, 'tls) KafkaStorage) node_env \<Rightarrow> ('db, ('rd, 'wr, 'tls) KafkaStorage) node_env"
where
  "service_env K L J sp env =
    env\<lparr>ne_leveldb := L, ne_storage := kafka_storage K, ne_LoadKeys := node_LoadKeys L J (sp_ks sp)\<rparr>"

section \<open>A configured node\<close>

lemma case_error_ok:
  "(case r of Inl e \<Rightarrow> Inr (Inl (g e)) | Inr x \<Rightarrow> f x) = Inr (Inr y) \<longleftrightarrow> (\<exists>x. r = Inr x \<and> f x = Inr (Inr y))"
  by (cases r) auto

lemma services_ok:
  assumes "CreateServiceProviderWithCfg K L J cfg = Inr (Inr sp)"
  obtains kafka s repo where "cf_KafkaStorageConfig cfg = Some kafka" "startStorage K (Some kafka) = Inr (Inr (sp_storage sp))"
    "NewLevelDBState L (cf_StateDBSN cfg) (kc_Topic kafka) = Inr s" "NewOperationRepo L s (kc_Topic kafka) = Inr repo"
    "sp_state sp = repo_state repo" "sp_operationsKey sp = operationsCompositeKey repo"
    "sp_deletedKey sp = deleteOperationsCompositeKey repo"
    "sp_stateKey sp = fs_stateKey (NewFSMService (repo_state repo) (kc_Topic kafka))"
  using assms by (auto simp: CreateServiceProviderWithCfg_def case_error_ok)

lemma started_storage_open:
  assumes "startStorage K cfg = Inr (Inr ks)"
  shows "kafka_open ks"
proof -
  from assms obtain b ks0 xs where "NewKafkaStorage K cfg = Inr (Inr ks0)"
    "kafka_IgnoreMessages xs b ks0 = (None, ks)"
    unfolding startStorage_ok by blast
  with kafka_Ignore_open[of xs b ks0] NewKafkaStorage_open show ?thesis by auto
qed

lemma service_node:
  assumes "CreateServiceProviderWithCfg K L J cfg = Inr (Inr sp)" and "NewNodeService L J cfg sp = Inr (Inr n)"
    and "cf_KafkaStorageConfig cfg = Some kafka"
  shows "\<exists>s. NewLevelDBState L (cf_StateDBSN cfg) (kc_Topic kafka) = Inr s \<and>
    NewNode (service_env K L J sp env) (cf_Username cfg) (kc_Topic kafka) s (sp_storage sp) = Inr n"
  using assms(1)
proof (rule services_ok)
  fix kafka' s repo
  assume "cf_KafkaStorageConfig cfg = Some kafka'" and s: "NewLevelDBState L (cf_StateDBSN cfg) (kc_Topic kafka') = Inr s"
    and repo: "NewOperationRepo L s (kc_Topic kafka') = Inr repo" "sp_state sp = repo_state repo"
    "sp_operationsKey sp = operationsCompositeKey repo" "sp_deletedKey sp = deleteOperationsCompositeKey repo"
    "sp_stateKey sp = fs_stateKey (NewFSMService (repo_state repo) (kc_Topic kafka'))"
  moreover have "kafka' = kafka" using calculation(1) assms(3) by simp
  ultimately show ?thesis
    using assms(2) by (auto simp: NewNodeService_def NewNode_def service_env_def node_LoadKeys_def split: sum.split_asm)
qed

lemma configured_reachable:
  assumes "CreateServiceProviderWithCfg K L J cfg = Inr (Inr sp)" and "NewNodeService L J cfg sp = Inr (Inr n)"
    and "cf_KafkaStorageConfig cfg = Some kafka" and "topic_ok (kc_Topic kafka)"
    and "\<And>s. NewLevelDBState L (cf_StateDBSN cfg) (kc_Topic kafka) = Inr s \<Longrightarrow>
      LevelDBState_Get L s (sp_stateKey sp) = Inr None"
  shows "node_reachable (service_env K L J sp env) n" and "kafka_open (nd_storage n)"
proof -
  from service_node[OF assms(1-3)] obtain s where s: "NewLevelDBState L (cf_StateDBSN cfg) (kc_Topic kafka) = Inr s"
    "NewNode (service_env K L J sp env) (cf_Username cfg) (kc_Topic kafka) s (sp_storage sp) = Inr n" by blast
  have n: "nd_stateKey n = sp_stateKey sp" "nd_storage n = sp_storage sp"
    using assms(2) by (auto simp: NewNodeService_def split: sum.split_asm)
  show "kafka_open (nd_storage n)" unfolding n(2) by (rule services_ok[OF assms(1)]) (rule started_storage_open)
  show "node_reachable (service_env K L J sp env) n"
    by (rule node_reachable.started[OF _ assms(4) s(2)]) (use s(1) assms(5) in \<open>simp_all add: service_env_def n\<close>)
qed


text \<open>A machine with the keys of one user on its disk.\<close>

definition sample_disk :: "(string, bytes) gomap leveldb" where
  "sample_disk = memdb\<lparr>ldb_OpenFile := (\<lambda>path. Inr (if path = ''keys'' then [(secretsKey, [1])] else []))\<rparr>"

definition sample_config :: Config where
  "sample_config = \<lparr>cf_HttpApiConfig = None, cf_KafkaStorageConfig = Some sample_kafka_config, cf_Username = ''alice'',
     cf_StateDBSN = ''state'', cf_KeyStoreDBDSN = ''keys''\<rparr>"

definition sample_services :: "((string, bytes) gomap, unit, unit, unit) ServiceProvider" where
  "sample_services = \<lparr>sp_storage = sample_kafka_storage [''u7'', ''u0''], sp_ks = \<lparr>keystoreDb = [(secretsKey, [1])]\<rparr>,
     sp_l = \<lparr>lg_userName = ''alice''\<rparr>,
     sp_state = \<lparr>stateDb = [(''messages_offset'', PutUint64 0), (''messages_operations'', empty_object),
         (''messages_deleted_operations'', empty_object)],
       topic = ''messages'', stateDbPath = ''state''\<rparr>,
     sp_operationsKey = ''messages_operations'', sp_deletedKey = ''messages_deleted_operations'',
     sp_stateKey = ''messages_fsm_state''\<rparr>"

lemmas sample_start_defs = sample_config_def sample_kafka_config_def sample_disk_def memdb_def

lemma sample_state_new:
  "NewLevelDBState sample_disk ''state'' ''messages'' =
    Inr \<lparr>stateDb = [(''messages_offset'', PutUint64 0)], topic = ''messages'', stateDbPath = ''state''\<rparr>"
  by (simp add: NewLevelDBState_def sample_disk_def memdb_def MakeCompositeKey_def OffsetKey_def)

lemma sample_services_new:
  "CreateServiceProviderWithCfg sample_kafka sample_disk sample_keys_json sample_config = Inr (Inr sample_services)"
proof -
  have "startStorage sample_kafka (Some sample_kafka_config) = Inr (Inr (sample_kafka_storage [''u7'', ''u0'']))"
    by (simp add: startStorage_ok NewKafkaStorage_def sample_kafka_config_def sample_kafka_def parseKafkaSaslPlain_def
        SplitN2_def GetTLSConfig_def kafka_reset_def kafka_Close_def monad_defs sample_kafka_storage_def
        parseMessagesToIgnore_def wrapE_def)
  moreover have "NewLevelDBKeyStore sample_disk sample_keys_json ''alice'' ''keys'' = Inr \<lparr>keystoreDb = [(secretsKey, [1])]\<rparr>"
    by (simp add: NewLevelDBKeyStore_def sample_disk_def memdb_def)
  ultimately show ?thesis
    using sample_state_new
    by (simp add: CreateServiceProviderWithCfg_def sample_services_def NewLogger_def sample_start_defs
        NewOperationRepo_def initJsonKey_def LevelDBState_Set_def MakeCompositeKeyString_def OperationsKey_def
        DeletedOperationsKey_def NewFSMService_def FSMStateKey_def Let_def)
qed

definition sample_started :: "((string, bytes) gomap, (unit, unit, unit) KafkaStorage) node" where
  "sample_started = \<lparr>nd_userName = ''alice'', nd_pubKey = replicate 32 1, nd_state = sp_state sample_services,
     nd_storage = sp_storage sample_services, nd_stateKey = ''messages_fsm_state'',
     nd_operationsKey = ''messages_operations'', nd_deletedKey = ''messages_deleted_operations'', nd_skip = False,
     nd_clock = 0\<rparr>"

lemma sample_config_facts:
  "NewNodeService sample_disk sample_keys_json sample_config sample_services = Inr (Inr sample_started)"
  "cf_KafkaStorageConfig sample_config = Some sample_kafka_config" "topic_ok (kc_Topic sample_kafka_config)"
  "NewLevelDBState sample_disk (cf_StateDBSN sample_config) (kc_Topic sample_kafka_config) = Inr s \<Longrightarrow>
    LevelDBState_Get sample_disk s (sp_stateKey sample_services) = Inr None"
proof -
  show "NewNodeService sample_disk sample_keys_json sample_config sample_services = Inr (Inr sample_started)"
    by (simp add: NewNodeService_def LoadKeys_def sample_services_def sample_start_defs sample_keys_json_def
        sample_started_def sample_pair_def)
  show "cf_KafkaStorageConfig sample_config = Some sample_kafka_config" by (simp add: sample_config_def)
  show "topic_ok (kc_Topic sample_kafka_config)" by (simp add: topic_ok_def HasPrefix_def sample_kafka_config_def)
  assume "NewLevelDBState sample_disk (cf_StateDBSN sample_config) (kc_Topic sample_kafka_config) = Inr s"
  with sample_state_new have "s = \<lparr>stateDb = [(''messages_offset'', PutUint64 0)], topic = ''messages'', stateDbPath = ''state''\<rparr>"
    by (simp add: sample_config_def sample_kafka_config_def)
  then show "LevelDBState_Get sample_disk s (sp_stateKey sample_services) = Inr None"
    by (simp add: LevelDBState_Get_def sample_disk_def memdb_def sample_services_def)
qed


end
