(* ===== verification/Http_Api.thy ===== *)
theory Http_Api
  imports Services
begin

text \<open>
  The HTTP interface of a node (\<open>src/client/api\<close>): the forms and transfer objects, binding and validation of a
  request, every handler, the routes and the error handler.

  The web framework is a parameter: how a request binds to a form, the validation by struct tags, the copying of a
  form into a transfer object by field names, and the encoding of the answer.  A handler that has bound its
  request calls one method of the node or of a service and answers with its result; \<open>'rq\<close> are the requests.
\<close>

section \<open>Forms and transfer objects\<close>

text \<open>Forms and objects of one field are that field; those with the fields of a message or of an operation are one.\<close>

type_synonym MessageForm = Message
type_synonym MessageDTO = Message
type_synonym OperationForm = Operation
type_synonym OperationDTO = Operation
type_synonym ReInitDKGForm = ReDKG

record SignatureByIDForm =
  sif_ID :: string
  sif_DkgID :: string

record SignatureByIdDTO =
  sid_ID :: string
  sid_DkgID :: string

record ProposeSignMessageForm =
  psf_DkgID :: bytes
  psf_Data :: "bytes option"

record ProposeSignMessageDTO =
  psd_DkgID :: bytes
  psd_Data :: "bytes option"

record ProposeSignBatchMessagesForm =
  pbf_DkgID :: bytes
  pbf_Data :: "(string, bytes option) gomap option"

record ProposeSignBakedMessagesForm =
  pkf_DkgID :: bytes
  pkf_RangeStart :: int
  pkf_RangeEnd :: int

record ProposeSignBakedMessagesDTO =
  pkd_DkgID :: bytes
  pkd_RangeStart :: int
  pkd_RangeEnd :: int

record ResetStateForm =
  rsf_NewStateDBDSN :: string
  rsf_UseOffset :: bool
  rsf_KafkaConsumerGroup :: string
  rsf_Messages :: "string list"

record ResetStateDTO =
  rst_NewStateDBDSN :: string
  rst_UseOffset :: bool
  rst_KafkaConsumerGroup :: string
  rst_Messages :: "string list"

section \<open>Requests and answers\<close>

record ('rq, 'form, 'dto) form_binding =
  bd_Bind :: "'rq \<Rightarrow> error + 'form"
  bd_Validate :: "'form \<Rightarrow> error option"
  bd_RequestToDTO :: "'form \<Rightarrow> error + 'dto"

record 'rq http_env =
  he_body :: "'rq \<Rightarrow> error + bytes"
  he_validateBody :: "bytes \<Rightarrow> error option"
  he_startDTO :: "bytes \<Rightarrow> error + bytes"
  he_reinit :: "('rq, ReInitDKGForm, unit) form_binding"
  he_message :: "('rq, MessageForm, MessageDTO) form_binding"
  he_operation :: "('rq, OperationForm, OperationDTO) form_binding"
  he_operationId :: "('rq, string, string) form_binding"
  he_dkgId :: "('rq, string, string) form_binding"
  he_signatureId :: "('rq, SignatureByIDForm, SignatureByIdDTO) form_binding"
  he_sign :: "('rq, ProposeSignMessageForm, ProposeSignMessageDTO) form_binding"
  he_batch :: "('rq, ProposeSignBatchMessagesForm, propose_dto) form_binding"
  he_baked :: "('rq, ProposeSignBakedMessagesForm, ProposeSignBakedMessagesDTO) form_binding"
  he_offset :: "('rq, 64 word, 64 word) form_binding"
  he_reset :: "('rq, ResetStateForm, ResetStateDTO) form_binding"
  he_Marshal_reinit :: "ReInitDKGForm \<Rightarrow> error + bytes"
  he_uuid :: "'rq \<Rightarrow> string"
  he_unix :: "'rq \<Rightarrow> string"

datatype api_result =
    RString string | RBytes bytes | ROffset "64 word" | ROperations operations | ROperation Operation
  | RSignatures "SignaturesStorage option" | RBatches "string list" | RSignatureList "ReconstructedSignature list"
  | RDump "FSMDump option" | RStates "(string, State) gomap"

datatype api_response = JsonResult nat api_result | JsonError nat error

definition StatusOK :: nat where "StatusOK = 200"
definition StatusBadRequest :: nat where "StatusBadRequest = 400"
definition StatusInternalServerError :: nat where "StatusInternalServerError = 500"

definition BindToRequest :: "('rq, 'form, 'dto) form_binding \<Rightarrow> 'rq \<Rightarrow> error + 'form" where
  "BindToRequest B rq =
    bindR (wrapE ''failed to read request body: %w'' [] (bd_Bind B rq)) (\<lambda>request.
    case bd_Validate B request of
      Some e \<Rightarrow> Inl (Wrapf ''invalid request: %w'' [] e)
    | None \<Rightarrow> Inr request)"

definition BindToDTO :: "('rq, 'form, 'dto) form_binding \<Rightarrow> 'rq \<Rightarrow> error + 'dto" where
  "BindToDTO B rq = bindR (BindToRequest B rq) (bd_RequestToDTO B)"

section \<open>Handlers\<close>

text \<open>\<open>respond\<close> is how every handler ends: with the result of its call or with its error.\<close>

definition respond :: "('a \<Rightarrow> api_result) \<Rightarrow> ('s, 'a) op \<Rightarrow> ('s, api_response) op" where
  "respond f m = bindM (attemptM m) (\<lambda>r. case r of
     Inl e \<Rightarrow> retM (JsonError StatusInternalServerError e)
   | Inr x \<Rightarrow> retM (JsonResult StatusOK (f x)))"

definition withRequest :: "error + 'a \<Rightarrow> ('a \<Rightarrow> ('s, api_response) op) \<Rightarrow> ('s, api_response) op" where
  "withRequest r k = (case r of Inl e \<Rightarrow> retM (JsonError StatusBadRequest e) | Inr x \<Rightarrow> k x)"

abbreviation ok :: "'a \<Rightarrow> api_result" where "ok x \<equiv> RString ''ok''"

type_synonym ('db, 'rd, 'wr, 'tls) http_op = "(('db, ('rd, 'wr, 'tls) KafkaStorage) node, api_response) op"
type_synonym ('db, 'rd, 'wr, 'tls) served_env = "('db, ('rd, 'wr, 'tls) KafkaStorage) node_env"

definition http_StartDKG :: "'rq http_env \<Rightarrow> ('db, 'rd, 'wr, 'tls) served_env \<Rightarrow> 'rq \<Rightarrow> ('db, 'rd, 'wr, 'tls) http_op" where
  "http_StartDKG H env rq =
    withRequest (wrapE ''failed to read request body: %w'' [] (he_body H rq)) (\<lambda>payload.
    withRequest (case he_validateBody H payload of Some e \<Rightarrow> Inl (Wrapf ''invalid request: %w'' [] e) | None \<Rightarrow> Inr ()) (\<lambda>_.
    withRequest (he_startDTO H payload) (\<lambda>dto.
    respond ok (StartDKG env dto))))"

definition http_ReInitDKG :: "'rq http_env \<Rightarrow> ('db, 'rd, 'wr, 'tls) served_env \<Rightarrow> 'rq \<Rightarrow> ('db, 'rd, 'wr, 'tls) http_op" where
  "http_ReInitDKG H env rq =
    withRequest (BindToRequest (he_reinit H) rq) (\<lambda>request.
    withRequest (wrapE ''failed to marshal request body: %w'' [] (he_Marshal_reinit H request)) (\<lambda>payload.
    respond ok (ReInitDKG env (rd_DKGID request) payload)))"

definition http_GetFSMDump :: "'rq http_env \<Rightarrow> ('db, 'rd, 'wr, 'tls) served_env \<Rightarrow> 'rq \<Rightarrow> ('db, 'rd, 'wr, 'tls) http_op" where
  "http_GetFSMDump H env rq =
    withRequest (BindToDTO (he_dkgId H) rq) (\<lambda>dkgID.
    respond RDump (\<lambda>n. bindR (GetFSMDump (ne_leveldb env) (ne_fsms env) dkgID (fsmService n)) (\<lambda>(r, f).
      Inr (r, n\<lparr>nd_state := fs_state f\<rparr>))))"

definition http_GetFSMList :: "('db, 'rd, 'wr, 'tls) served_env \<Rightarrow> ('db, 'rd, 'wr, 'tls) http_op" where
  "http_GetFSMList env =
    respond RStates (\<lambda>n. bindR (GetFSMList (ne_leveldb env) (ne_fsms env) (fsmService n)) (\<lambda>r. Inr (r, n)))"

definition http_GetPubKey :: "('db, 'rd, 'wr, 'tls) http_op" where
  "http_GetPubKey = respond RBytes (readM nd_pubKey)"

definition http_GetUsername :: "('db, 'rd, 'wr, 'tls) http_op" where
  "http_GetUsername = respond RString (readM nd_userName)"

definition http_SendMessage :: "'rq http_env \<Rightarrow> ('db, 'rd, 'wr, 'tls) served_env \<Rightarrow> 'rq \<Rightarrow> ('db, 'rd, 'wr, 'tls) http_op" where
  "http_SendMessage H env rq = withRequest (BindToDTO (he_message H) rq) (\<lambda>dto. respond ok (SendMessage env dto))"

definition http_GetOperations :: "('db, 'rd, 'wr, 'tls) served_env \<Rightarrow> ('db, 'rd, 'wr, 'tls) http_op" where
  "http_GetOperations env = respond ROperations (node_GetOperations env)"

definition http_ProcessOperation :: "'rq http_env \<Rightarrow> ('db, 'rd, 'wr, 'tls) served_env \<Rightarrow> 'rq \<Rightarrow> ('db, 'rd, 'wr, 'tls) http_op" where
  "http_ProcessOperation H env rq =
    withRequest (BindToDTO (he_operation H) rq) (\<lambda>dto. respond ok (ProcessOperation env dto))"

definition http_GetOperation :: "'rq http_env \<Rightarrow> ('db, 'rd, 'wr, 'tls) served_env \<Rightarrow> 'rq \<Rightarrow> ('db, 'rd, 'wr, 'tls) http_op" where
  "http_GetOperation H env rq =
    withRequest (BindToDTO (he_operationId H) rq) (\<lambda>operationID.
    respond ROperation (wrapM ''failed to get operations:  %w'' [] (node_GetOperationByID env operationID)))"

definition http_ApproveParticipation :: "'rq http_env \<Rightarrow> ('db, 'rd, 'wr, 'tls) served_env \<Rightarrow> 'rq \<Rightarrow> ('db, 'rd, 'wr, 'tls) http_op" where
  "http_ApproveParticipation H env rq =
    withRequest (BindToDTO (he_operationId H) rq) (\<lambda>operationID. respond ok (ApproveParticipation env operationID))"

definition http_GetSignatures :: "'rq http_env \<Rightarrow> ('db, 'rd, 'wr, 'tls) served_env \<Rightarrow> 'rq \<Rightarrow> ('db, 'rd, 'wr, 'tls) http_op" where
  "http_GetSignatures H env rq =
    withRequest (BindToDTO (he_dkgId H) rq) (\<lambda>dkgID.
    respond RSignatures (\<lambda>n. Inr (wrapE ''failed to get signatures: %w'' []
      (GetSignatures (ne_leveldb env) (ne_sigs env) (nd_state n) dkgID), n)))"

definition http_GetBatches :: "'rq http_env \<Rightarrow> ('db, 'rd, 'wr, 'tls) served_env \<Rightarrow> 'rq \<Rightarrow> ('db, 'rd, 'wr, 'tls) http_op" where
  "http_GetBatches H env rq =
    withRequest (BindToDTO (he_dkgId H) rq) (\<lambda>dkgID.
    respond RBatches (\<lambda>n. Inr (wrapE ''failed to get batches: %w'' []
      (GetBatches (ne_leveldb env) (ne_sigs env) (nd_state n) dkgID), n)))"

definition http_GetSignatureByID :: "'rq http_env \<Rightarrow> ('db, 'rd, 'wr, 'tls) served_env \<Rightarrow> 'rq \<Rightarrow> ('db, 'rd, 'wr, 'tls) http_op" where
  "http_GetSignatureByID H env rq =
    withRequest (BindToDTO (he_signatureId H) rq) (\<lambda>dto.
    respond RSignatureList (\<lambda>n. Inr (wrapE ''failed to get signatures: %w'' []
      (GetSignatureByID (ne_leveldb env) (ne_sigs env) (nd_state n) (sid_DkgID dto) (sid_ID dto)), n)))"

definition http_ProposeSignMessage :: "'rq http_env \<Rightarrow> ('db, 'rd, 'wr, 'tls) served_env \<Rightarrow> 'rq \<Rightarrow> ('db, 'rd, 'wr, 'tls) http_op" where
  "http_ProposeSignMessage H env rq =
    withRequest (BindToDTO (he_sign H) rq) (\<lambda>dto.
    let batch = \<lparr>pd_DkgID = psd_DkgID dto, pd_Data = Some [(he_uuid H rq, psd_Data dto)], pd_Range = None\<rparr> in
    respond ok (ProposeSignMessages env batch))"

definition http_ProposeSignBatchMessages :: "'rq http_env \<Rightarrow> ('db, 'rd, 'wr, 'tls) served_env \<Rightarrow> 'rq \<Rightarrow> ('db, 'rd, 'wr, 'tls) http_op" where
  "http_ProposeSignBatchMessages H env rq =
    withRequest (BindToDTO (he_batch H) rq) (\<lambda>dto. respond ok (ProposeSignMessages env dto))"

definition http_ProposeSignBakedMessages :: "'rq http_env \<Rightarrow> ('db, 'rd, 'wr, 'tls) served_env \<Rightarrow> 'rq \<Rightarrow> ('db, 'rd, 'wr, 'tls) http_op" where
  "http_ProposeSignBakedMessages H env rq =
    withRequest (BindToDTO (he_baked H) rq) (\<lambda>dto.
    let batch = \<lparr>pd_DkgID = pkd_DkgID dto, pd_Data = None, pd_Range = Some (pkd_RangeStart dto, pkd_RangeEnd dto)\<rparr> in
    respond ok (ProposeSignMessages env batch))"

definition http_SaveStateOffset :: "'rq http_env \<Rightarrow> ('db, 'rd, 'wr, 'tls) served_env \<Rightarrow> 'rq \<Rightarrow> ('db, 'rd, 'wr, 'tls) http_op" where
  "http_SaveStateOffset H env rq = withRequest (BindToDTO (he_offset H) rq) (\<lambda>offset. respond ok (SaveOffset env offset))"

definition http_GetStateOffset :: "('db, 'rd, 'wr, 'tls) served_env \<Rightarrow> ('db, 'rd, 'wr, 'tls) http_op" where
  "http_GetStateOffset env = respond ROffset (wrapM ''failed to load offset: %w'' [] (GetStateOffset env))"

text \<open>
  \<open>ResetFSMState\<close> of \<open>src/client/services/fsmservice/fsmservice.go\<close> on the Kafka storage: the consumer group is set
  also when the request names none.
\<close>

definition node_ResetFSMState ::
  "('rd, 'wr, 'tls) kafka \<Rightarrow> ('db, 'rd, 'wr, 'tls) served_env \<Rightarrow> string \<Rightarrow> ResetStateDTO \<Rightarrow>
    (('db, ('rd, 'wr, 'tls) KafkaStorage) node, string) op"
where
  "node_ResetFSMState K env now dto n =
    (case kafka_IgnoreMessages (rst_Messages dto) (rst_UseOffset dto) (nd_storage n) of
       (Some e, ks) \<Rightarrow> Inr (Inl (Wrapf ''failed to ignore messages while resetting state: %w'' [] e), n\<lparr>nd_storage := ks\<rparr>)
     | (None, ks) \<Rightarrow>
         bindR (SetConsumerGroup K (rst_KafkaConsumerGroup dto) ks) (\<lambda>(r, ks). case r of
           Inl e \<Rightarrow> Inr (Inl (Wrapf ''failed to set consumer group while reseting state: %w'' [] e), n\<lparr>nd_storage := ks\<rparr>)
         | Inr _ \<Rightarrow>
             (case LevelDBState_Reset (ne_leveldb env) now (rst_NewStateDBDSN dto) (nd_state n) of
                ((_, Some e), s) \<Rightarrow> Inr (Inl (Wrapf ''failed to create new state from old: %w'' [] e),
                  n\<lparr>nd_storage := ks, nd_state := s\<rparr>)
              | ((newstatepath, None), s) \<Rightarrow> Inr (Inr newstatepath, n\<lparr>nd_storage := ks, nd_state := s\<rparr>))))"

definition http_ResetState ::
  "('rd, 'wr, 'tls) kafka \<Rightarrow> 'rq http_env \<Rightarrow> ('db, 'rd, 'wr, 'tls) served_env \<Rightarrow> 'rq \<Rightarrow> ('db, 'rd, 'wr, 'tls) http_op"
where
  "http_ResetState K H env rq =
    withRequest (BindToDTO (he_reset H) rq) (\<lambda>dto. respond RString (node_ResetFSMState K env (he_unix H rq) dto))"

section \<open>Routes\<close>

datatype route =
    getUsername | getPubKey | sendMessage | getOperations | getSignatures | getBatches | getSignatureByID
  | handleProcessedOperationJSON | getOperation_route | startDKG | proposeSignMessage | proposeSignBatchMessages
  | proposeSignBakedMessages | approveDKGParticipation | reinitDKG_route | saveOffset | getOffset | getFSMDump
  | getFSMList | resetState

definition SetRouter :: "(string \<times> string, route) gomap" where
  "SetRouter =
    [((''GET'', ''/getUsername''), getUsername), ((''GET'', ''/getPubKey''), getPubKey),
     ((''POST'', ''/sendMessage''), sendMessage), ((''GET'', ''/getOperations''), getOperations),
     ((''GET'', ''/getSignatures''), getSignatures), ((''GET'', ''/getBatches''), getBatches),
     ((''GET'', ''/getSignatureByID''), getSignatureByID),
     ((''POST'', ''/handleProcessedOperationJSON''), handleProcessedOperationJSON),
     ((''GET'', ''/getOperation''), getOperation_route), ((''POST'', ''/startDKG''), startDKG),
     ((''POST'', ''/proposeSignMessage''), proposeSignMessage),
     ((''POST'', ''/proposeSignBatchMessages''), proposeSignBatchMessages),
     ((''POST'', ''/proposeSignBakedMessages''), proposeSignBakedMessages),
     ((''POST'', ''/approveDKGParticipation''), approveDKGParticipation), ((''POST'', ''/reinitDKG''), reinitDKG_route),
     ((''POST'', ''/saveOffset''), saveOffset), ((''GET'', ''/getOffset''), getOffset),
     ((''GET'', ''/getFSMDump''), getFSMDump), ((''GET'', ''/getFSMList''), getFSMList),
     ((''POST'', ''/resetState''), resetState)]"

definition serve ::
  "('rd, 'wr, 'tls) kafka \<Rightarrow> 'rq http_env \<Rightarrow> ('db, 'rd, 'wr, 'tls) served_env \<Rightarrow> route \<Rightarrow> 'rq \<Rightarrow> ('db, 'rd, 'wr, 'tls) http_op"
where
  "serve K H env r rq = (case r of
     getUsername \<Rightarrow> http_GetUsername
   | getPubKey \<Rightarrow> http_GetPubKey
   | sendMessage \<Rightarrow> http_SendMessage H env rq
   | getOperations \<Rightarrow> http_GetOperations env
   | getSignatures \<Rightarrow> http_GetSignatures H env rq
   | getBatches \<Rightarrow> http_GetBatches H env rq
   | getSignatureByID \<Rightarrow> http_GetSignatureByID H env rq
   | handleProcessedOperationJSON \<Rightarrow> http_ProcessOperation H env rq
   | getOperation_route \<Rightarrow> http_GetOperation H env rq
   | startDKG \<Rightarrow> http_StartDKG H env rq
   | proposeSignMessage \<Rightarrow> http_ProposeSignMessage H env rq
   | proposeSignBatchMessages \<Rightarrow> http_ProposeSignBatchMessages H env rq
   | proposeSignBakedMessages \<Rightarrow> http_ProposeSignBakedMessages H env rq
   | approveDKGParticipation \<Rightarrow> http_ApproveParticipation H env rq
   | reinitDKG_route \<Rightarrow> http_ReInitDKG H env rq
   | saveOffset \<Rightarrow> http_SaveStateOffset H env rq
   | getOffset \<Rightarrow> http_GetStateOffset env
   | getFSMDump \<Rightarrow> http_GetFSMDump H env rq
   | getFSMList \<Rightarrow> http_GetFSMList env
   | resetState \<Rightarrow> http_ResetState K H env rq)"

text \<open>What the framework sends when a handler returns an error, unless an answer was begun.\<close>

datatype handler_error = CSErrorResp string | HTTPError string | OtherHandlerError

datatype error_answer = NoContent nat | ErrorJSON nat string

definition customHTTPErrorHandler :: "handler_error \<Rightarrow> bool \<Rightarrow> string \<Rightarrow> error_answer option" where
  "customHTTPErrorHandler err committed meth =
    (let csError = (case err of CSErrorResp msg \<Rightarrow> msg | HTTPError msg \<Rightarrow> msg | OtherHandlerError \<Rightarrow> ''Internal Server Error'') in
     if committed then None
     else if meth = ''HEAD'' then Some (NoContent StatusInternalServerError)
     else Some (ErrorJSON StatusInternalServerError csError))"

section \<open>What a request does to the node\<close>

lemma respond_run:
  assumes "respond f m n = Inr (r, n')"
  shows "\<exists>v. m n = Inr (v, n') \<and> r = Inr (case v of Inl e \<Rightarrow> JsonError StatusInternalServerError e | Inr x \<Rightarrow> JsonResult StatusOK (f x))"
  using assms
  by (cases "m n"; cases "fst (projr (m n))") (auto simp: respond_def bindM_def attemptM_def retM_def)

lemma withRequest_run:
  assumes "withRequest q k n = Inr (r, n')"
  shows "(\<exists>e. q = Inl e \<and> r = Inr (JsonError StatusBadRequest e) \<and> n' = n) \<or> (\<exists>x. q = Inr x \<and> k x n = Inr (r, n'))"
  using assms by (auto simp: withRequest_def monad_defs split: sum.split_asm)

text \<open>A call that only reads leaves the node as it is.\<close>

lemma reads_only:
  "node_GetOperations env n = Inr (v, n') \<Longrightarrow> n' = n" "node_GetOperationByID env i n = Inr (v2, n') \<Longrightarrow> n' = n"
  "GetStateOffset env n = Inr (v3, n') \<Longrightarrow> n' = n" "readM f n = Inr (v4, n') \<Longrightarrow> n' = n"
  by (auto simp: node_GetOperations_def node_GetOperationByID_def GetStateOffset_def readM_def)

lemma wrapped_run: "wrapM msg args m n = Inr (v, n') \<Longrightarrow> \<exists>u. m n = Inr (u, n')"
  by (cases "m n"; cases "fst (projr (m n))") (auto simp: wrapM_def)

lemma GetFSMInstance_reads: "GetFSMInstance L J d False f = Inr (v, f') \<Longrightarrow> f' = f"
  by (cases "loadFSM L J d f") (auto simp: GetFSMInstance_def split: sum.split_asm option.split_asm)

lemma GetFSMDump_reads: "GetFSMDump L J d f = Inr (v, f') \<Longrightarrow> f' = f"
  by (cases "GetFSMInstance L J d False f"; cases "fst (projr (GetFSMInstance L J d False f))")
    (auto simp: GetFSMDump_def dest: GetFSMInstance_reads)

text \<open>
  The contract of a handler: it always answers; it leaves the node alone or does what \<open>R\<close> allows, and it leaves it
  alone when the request is rejected.
\<close>

fun status :: "api_response \<Rightarrow> nat" where
  "status (JsonResult code x) = code"
| "status (JsonError code e) = code"

definition serves :: "('s \<Rightarrow> 's \<Rightarrow> bool) \<Rightarrow> ('s, api_response) op \<Rightarrow> bool" where
  "serves R h \<longleftrightarrow> (\<forall>n x n'. h n = Inr (x, n') \<longrightarrow>
     (\<exists>resp. x = Inr resp \<and> (n' = n \<or> R n n') \<and> (status resp = StatusBadRequest \<longrightarrow> n' = n)))"

lemma servesD:
  "serves R h \<Longrightarrow> h n = Inr (x, n') \<Longrightarrow>
    \<exists>resp. x = Inr resp \<and> (n' = n \<or> R n n') \<and> (status resp = StatusBadRequest \<longrightarrow> n' = n)"
  by (simp add: serves_def)

lemma serves_respond:
  assumes "\<And>n v n'. m n = Inr (v, n') \<Longrightarrow> n' = n \<or> R n n'"
  shows "serves R (respond f m)"
  unfolding serves_def
proof (intro allI impI)
  fix n x n' assume "respond f m n = Inr (x, n')"
  from respond_run[OF this] obtain v where v: "m n = Inr (v, n')"
    and x: "x = Inr (case v of Inl e \<Rightarrow> JsonError StatusInternalServerError e | Inr y \<Rightarrow> JsonResult StatusOK (f y))"
    by (elim exE conjE)
  have "status (case v of Inl e \<Rightarrow> JsonError StatusInternalServerError e | Inr y \<Rightarrow> JsonResult StatusOK (f y)) \<noteq> StatusBadRequest"
    by (simp add: StatusInternalServerError_def StatusOK_def StatusBadRequest_def split: sum.split)
  with v x assms show "\<exists>resp. x = Inr resp \<and> (n' = n \<or> R n n') \<and> (status resp = StatusBadRequest \<longrightarrow> n' = n)" by blast
qed

lemma serves_withRequest: "(\<And>x. serves R (k x)) \<Longrightarrow> serves R (withRequest q k)"
  by (cases q) (auto simp: withRequest_def serves_def retM_def)

lemmas handler_defs = http_GetUsername_def http_GetPubKey_def http_SendMessage_def http_GetOperations_def
  http_GetSignatures_def http_GetBatches_def http_GetSignatureByID_def http_ProcessOperation_def http_GetOperation_def
  http_StartDKG_def http_ProposeSignMessage_def http_ProposeSignBatchMessages_def http_ProposeSignBakedMessages_def
  http_ApproveParticipation_def http_ReInitDKG_def http_SaveStateOffset_def http_GetStateOffset_def http_GetFSMDump_def
  http_GetFSMList_def

lemma GetFSMDump_node:
  assumes "bindR (GetFSMDump L J d (fsmService n)) (\<lambda>(r, f). Inr (r, n\<lparr>nd_state := fs_state f\<rparr>)) = Inr (v, n')"
  shows "n' = n"
  using assms by (auto dest!: GetFSMDump_reads simp: fsmService_def)

lemma serve_steps:
  assumes "r \<noteq> resetState"
  shows "serves (node_step env) (serve K H env r rq)"
  using assms
  by (cases r)
    (auto simp: serve_def handler_defs Let_def dest: reads_only wrapped_run GetFSMDump_node intro: node_step.intros
      intro!: serves_withRequest serves_respond)

text \<open>A sequence of requests.\<close>

fun serveAll ::
  "('rd, 'wr, 'tls) kafka \<Rightarrow> 'rq http_env \<Rightarrow> ('db, 'rd, 'wr, 'tls) served_env \<Rightarrow> (route \<times> 'rq) list \<Rightarrow>
    ('db, ('rd, 'wr, 'tls) KafkaStorage) node \<Rightarrow> (api_response list \<times> ('db, ('rd, 'wr, 'tls) KafkaStorage) node) go"
where
  "serveAll K H env [] n = Inr ([], n)"
| "serveAll K H env ((r, rq) # rest) n =
    bindR (serve K H env r rq n) (\<lambda>(x, n). case x of
      Inl e \<Rightarrow> serveAll K H env rest n
    | Inr resp \<Rightarrow> bindR (serveAll K H env rest n) (\<lambda>(resps, n). Inr (resp # resps, n)))"

lemma serveAll_reachable:
  assumes "node_reachable env n" and "resetState \<notin> fst ` set rqs" and "serveAll K H env rqs n = Inr (resps, n')"
  shows "node_reachable env n' \<and> length resps = length rqs"
  using assms
proof (induction rqs arbitrary: n resps)
  case (Cons q rqs)
  obtain r rq where q: "q = (r, rq)" by fastforce
  from Cons.prems(3) obtain x n1 where s: "serve K H env r rq n = Inr (x, n1)" by (auto simp: q)
  from servesD[OF serve_steps s] Cons.prems(2) q obtain resp where x: "x = Inr resp" "n1 = n \<or> node_step env n n1" by auto
  from Cons.prems(3) s x(1) obtain resps' where rest: "serveAll K H env rqs n1 = Inr (resps', n')" "resps = resp # resps'"
    by (auto simp: q)
  have "node_reachable env n1" using x(2) Cons.prems(1) node_reachable.stepped by blast
  from Cons.IH[OF this _ rest(1)] Cons.prems(2) rest(2) show ?case by simp
qed simp

section \<open>Starting over\<close>

lemma kafka_reset_keeps: "stays (\<lambda>ks. (kafka_lists ks, ks_consumerGroup ks) = x) (kafka_reset K)"
  unfolding kafka_reset_def kafka_Close_def
  by (intro stays_rules stays_update TrueI) (auto intro!: stays_rules stays_update split: prod.split option.split)

lemma SetConsumerGroup_ok:
  assumes "SetConsumerGroup K cg ks = Inr (Inr u, ks')"
  shows "kafka_lists ks' = kafka_lists ks" "ks_consumerGroup ks' = cg" "kafka_open ks'"
proof -
  from assms have r: "kafka_reset K (ks\<lparr>ks_consumerGroup := cg\<rparr>) = Inr (Inr u, ks')"
    by (auto simp: SetConsumerGroup_def success_simps)
  from keepsD[OF kafka_reset_keeps refl r] kafka_reset_open[OF r]
  show "kafka_lists ks' = kafka_lists ks" "ks_consumerGroup ks' = cg" "kafka_open ks'" by simp_all
qed

lemma reset_ok:
  assumes "node_ResetFSMState K env now dto n = Inr (Inr path, n')"
  obtains ks ks' s where "kafka_IgnoreMessages (rst_Messages dto) (rst_UseOffset dto) (nd_storage n) = (None, ks)"
    "SetConsumerGroup K (rst_KafkaConsumerGroup dto) ks = Inr (Inr (), ks')"
    "LevelDBState_Reset (ne_leveldb env) now (rst_NewStateDBDSN dto) (nd_state n) = ((path, None), s)"
    "n' = n\<lparr>nd_storage := ks', nd_state := s\<rparr>"
proof -
  obtain err ks where ign: "kafka_IgnoreMessages (rst_Messages dto) (rst_UseOffset dto) (nd_storage n) = (err, ks)" by fastforce
  with assms have err: "err = None" by (auto simp: node_ResetFSMState_def split: option.split_asm)
  from assms ign err obtain v ks' where set: "SetConsumerGroup K (rst_KafkaConsumerGroup dto) ks = Inr (v, ks')"
    by (auto simp: node_ResetFSMState_def)
  with assms ign err have v: "v = Inr ()" by (cases v) (auto simp: node_ResetFSMState_def)
  obtain p err' s where reset: "LevelDBState_Reset (ne_leveldb env) now (rst_NewStateDBDSN dto) (nd_state n) = ((p, err'), s)"
    by (metis surj_pair)
  with assms ign err set v have "err' = None" "p = path" "n' = n\<lparr>nd_storage := ks', nd_state := s\<rparr>"
    by (auto simp: node_ResetFSMState_def split: option.split_asm)
  with that ign err set v reset show thesis by blast
qed

lemma fresh_state:
  assumes "leveldb_ok L" and "LevelDBState_Reset L now dsn s = ((path, None), s')" and "ldb_OpenFile L path = Inr db"
    and "ldb_Get L db (MakeCompositeKey (topic s) OffsetKey) = Inl ErrNotFound"
  shows "LevelDBState_LoadOffset L s' = Inr (Inr 0)" "topic s' = topic s"
    "k \<noteq> MakeCompositeKey (topic s) OffsetKey \<Longrightarrow> ldb_Get L (stateDb s') k = ldb_Get L db k"
    "path = (if dsn = '''' then stateDbPath s @ ''_'' @ now else dsn)"
proof -
  from assms(2) have path: "path = freshPath now dsn s"
    by (cases "NewLevelDBState L (freshPath now dsn s) (topic s)") (simp_all add: LevelDBState_Reset_def Let_def)
  obtain err db' where p: "ldb_Put L db (MakeCompositeKey (topic s) OffsetKey) (PutUint64 0) = (err, db')" by fastforce
  with assms(2-4) have "err = None" by (cases err) (simp_all add: LevelDBState_Reset_def NewLevelDBState_def flip: path)
  with p have put: "ldb_Put L db (MakeCompositeKey (topic s) OffsetKey) (PutUint64 0) = (None, db')" by simp
  with assms(2-4) have s': "s' = s\<lparr>stateDb := db', stateDbPath := path\<rparr>"
    by (simp add: LevelDBState_Reset_def NewLevelDBState_def flip: path)
  note get = leveldb_put[OF assms(1) put]
  show "LevelDBState_LoadOffset L s' = Inr (Inr 0)" by (simp add: LevelDBState_LoadOffset_def s' get Uint64_PutUint64)
  show "topic s' = topic s" "k \<noteq> MakeCompositeKey (topic s) OffsetKey \<Longrightarrow> ldb_Get L (stateDb s') k = ldb_Get L db k"
    by (simp_all add: s' get)
  show "path = (if dsn = '''' then stateDbPath s @ ''_'' @ now else dsn)" by (simp add: path freshPath_def)
qed

section \<open>Properties\<close>


text \<open>
  A reset starts the node over: with a database that is new, the offset is zero and no round is left; the
  storage reads with the requested consumer group and never again delivers a message that the request named, by
  offset or by identifier, whatever the node calls.
\<close>

theorem reset_starts_over:
  assumes "leveldb_ok (ne_leveldb env)" and "node_ResetFSMState K env now dto n = Inr (Inr path, n')"
    and "ldb_OpenFile (ne_leveldb env) path = Inr db"
    and "ldb_Get (ne_leveldb env) db (MakeCompositeKey (topic (nd_state n)) OffsetKey) = Inl ErrNotFound"
    and "ldb_Get (ne_leveldb env) db (nd_stateKey n) = Inl ErrNotFound"
    and "nd_stateKey n \<noteq> MakeCompositeKey (topic (nd_state n)) OffsetKey"
  shows "LevelDBState_LoadOffset (ne_leveldb env) (nd_state n') = Inr (Inr 0) \<and>
    getAllFSMData (ne_leveldb env) (ne_fsms env) (fsmService n') = Inr (Some []) \<and>
    ks_consumerGroup (nd_storage n') = rst_KafkaConsumerGroup dto \<and>
    (\<exists>rs ks'. kafka_calls K calls (nd_storage n') = Inr (rs, ks') \<and>
      (\<forall>ms m. Inr ms \<in> set rs \<longrightarrow> m \<in> set ms \<longrightarrow>
        (if rst_UseOffset dto then Inr (Offset m) \<notin> ParseUint ` set (rst_Messages dto) else ID m \<notin> set (rst_Messages dto))))"
  using assms(2)
proof (rule reset_ok)
  fix ks ks' s
  assume ign: "kafka_IgnoreMessages (rst_Messages dto) (rst_UseOffset dto) (nd_storage n) = (None, ks)"
    and set: "SetConsumerGroup K (rst_KafkaConsumerGroup dto) ks = Inr (Inr (), ks')"
    and reset: "LevelDBState_Reset (ne_leveldb env) now (rst_NewStateDBDSN dto) (nd_state n) = ((path, None), s)"
    and n': "n' = n\<lparr>nd_storage := ks', nd_state := s\<rparr>"
  note s = fresh_state[OF assms(1) reset assms(3,4)] and ks' = SetConsumerGroup_ok[OF set]
  have "getAllFSMData (ne_leveldb env) (ne_fsms env) (fsmService n') = Inr (Some [])"
    using s(3)[OF assms(6)] assms(5)
    by (simp add: getAllFSMData_def getStateKey_def fsmService_def n' LevelDBState_Get_def byte_len_def)
  moreover have "if rst_UseOffset dto then Inr (Offset m) \<notin> ParseUint ` set (rst_Messages dto) else ID m \<notin> set (rst_Messages dto)"
    if "kafka_visible ks' m" for m
    using kafka_ignores.ignored_hidden[OF ign, of m] that ks'(1) by (simp add: kafka_visible_def)
  ultimately show ?thesis using s(1) ks'(2) kafka_calls_open[OF ks'(3), of K calls] by (simp add: n') metis
qed

text \<open>A web framework that refuses everything but the request to reset.\<close>

definition refuse :: "('rq, 'form, 'dto) form_binding" where
  "refuse = \<lparr>bd_Bind = (\<lambda>rq. Inl (errorsNew ''EOF'')), bd_Validate = (\<lambda>f. None), bd_RequestToDTO = (\<lambda>f. Inl (errorsNew ''dto''))\<rparr>"

definition sample_http :: "unit http_env" where
  "sample_http = \<lparr>he_body = (\<lambda>rq. Inl (errorsNew ''EOF'')), he_validateBody = (\<lambda>b. None), he_startDTO = Inr,
     he_reinit = refuse, he_message = refuse, he_operation = refuse, he_operationId = refuse, he_dkgId = refuse,
     he_signatureId = refuse, he_sign = refuse, he_batch = refuse, he_baked = refuse, he_offset = refuse, he_reset = refuse,
     he_Marshal_reinit = (\<lambda>r. Inr []), he_uuid = (\<lambda>rq. ''id''), he_unix = (\<lambda>rq. ''1700000000'')\<rparr>"

lemma sample_rejects:
  "serve K sample_http env sendMessage () n = Inr (Inr (JsonError 400 (Wrapf ''failed to read request body: %w'' [] (errorsNew ''EOF''))), n)"
  by (simp add: serve_def http_SendMessage_def sample_http_def refuse_def BindToDTO_def BindToRequest_def wrapE_def withRequest_def
      retM_def StatusBadRequest_def)

lemma sample_username:
  "serve K H env getUsername rq n = Inr (Inr (JsonResult 200 (RString (nd_userName n))), n)"
  by (simp add: serve_def http_GetUsername_def respond_def monad_defs StatusOK_def)


definition sample_reset :: ResetStateDTO where
  "sample_reset = \<lparr>rst_NewStateDBDSN = '''', rst_UseOffset = False, rst_KafkaConsumerGroup = ''alice2'', rst_Messages = [''u1'']\<rparr>"

theorem reset_starts_over_witness:
  "\<exists>n'. (\<forall>env. node_ResetFSMState sample_kafka (service_env sample_kafka sample_disk sample_keys_json sample_services env)
      ''1700000000'' sample_reset sample_started = Inr (Inr ''state_1700000000'', n')) \<and>
    LevelDBState_LoadOffset sample_disk (nd_state n') = Inr (Inr 0) \<and> ks_consumerGroup (nd_storage n') = ''alice2''"
proof -
  let ?env = "service_env sample_kafka sample_disk sample_keys_json sample_services"
  obtain n' where r: "node_ResetFSMState sample_kafka (?env env) ''1700000000'' sample_reset sample_started =
      Inr (Inr ''state_1700000000'', n')" for env
    by (simp add: node_ResetFSMState_def sample_reset_def sample_started_def sample_services_def sample_kafka_storage_def
        SetConsumerGroup_def kafka_reset_def kafka_Close_def monad_defs sample_kafka_def LevelDBState_Reset_def Let_def
        freshPath_def NewLevelDBState_def service_env_def sample_disk_def memdb_def MakeCompositeKey_def OffsetKey_def)
  have "leveldb_ok sample_disk" using memdb_ok by (simp add: leveldb_ok_def sample_disk_def)
  then have "LevelDBState_LoadOffset (ne_leveldb (?env env)) (nd_state n') = Inr (Inr 0) \<and> ks_consumerGroup (nd_storage n') = ''alice2''" for env
    using reset_starts_over[OF _ r, of env "[]" "[]"]
    by (simp add: service_env_def sample_disk_def memdb_def sample_started_def sample_services_def MakeCompositeKey_def OffsetKey_def
        sample_reset_def)
  with r show ?thesis by (auto simp: service_env_def)
qed

end
