(* ===== verification/Daemon.thy ===== *)
theory Daemon
  imports Http_Api
begin

text \<open>
  The daemon of a node (\<open>src/cmd/dc4bc_d/main.go\<close>): its two commands, which generate the keys of a user and start the
  node.  Flags and configuration files, read by the package \<open>viper\<close>, are the parameter \<open>flags\<close>; the HTTP server, which
  runs beside the polling loop, is in \<open>Http_Api\<close>.
\<close>

record flags =
  fl_Config :: "error + Config"
  fl_KafkaConfig :: "error + KafkaStorageConfig"
  fl_HttpConfig :: "error + HttpApiConfig"
  fl_UserName :: string
  fl_StoreDBDSN :: string
  fl_SkipCommKeysVerification :: bool

text \<open>The three structures are filled one after the other; the first two pointers of the result are set at the end.\<close>

definition prepareConfig :: "flags \<Rightarrow> error + Config" where
  "prepareConfig F =
    bindR (wrapE ''failed to parse cli arguments: %w'' [] (fl_Config F)) (\<lambda>cfg.
    bindR (wrapE ''failed to parse cli arguments: %w'' [] (fl_KafkaConfig F)) (\<lambda>kafkaCfg.
    bindR (wrapE ''failed to parse cli arguments: %w'' [] (fl_HttpConfig F)) (\<lambda>httpCfg.
    Inr (cfg\<lparr>cf_HttpApiConfig := Some httpCfg, cf_KafkaStorageConfig := Some kafkaCfg\<rparr>))))"

text \<open>\<open>gen_keys\<close>; it stores the pair also when the user has one already.\<close>

definition genKeyPairCommand ::
  "'db leveldb \<Rightarrow> keys_json \<Rightarrow> error + bytes \<times> bytes \<Rightarrow> flags \<Rightarrow> (error + 'db LevelDBKeyStore) go"
where
  "genKeyPairCommand L J generated F =
    (let username = fl_UserName F in
     if length username < UsernameMinLength
     then Inr (Inl (Errorf ''username minimum length is %d'' [AInt (int UsernameMinLength)]))
     else if length username > UsernameMaxLength
     then Inr (Inl (Errorf ''username maximum length is %d'' [AInt (int UsernameMaxLength)]))
     else let keyPair = NewKeyPair generated in
       (case NewLevelDBKeyStore L J username (fl_StoreDBDSN F) of
          Inl e \<Rightarrow> Inr (Inl (Wrapf ''failed to init key store: %w'' [] e))
        | Inr keyStore \<Rightarrow>
            bindR (PutKeys L J username (Some keyPair) keyStore) (\<lambda>(err, keyStore). Inr (case err of
              Some e \<Rightarrow> Inl (Wrapf ''failed to save keypair: %w'' [] e)
            | None \<Rightarrow> Inr keyStore))))"

text \<open>\<open>start\<close>, up to the loop, and the loop for \<open>k\<close> ticks; the error of the first part is what \<open>log.Fatalf\<close> prints.\<close>

definition startNode ::
  "('rd, 'wr, 'tls) kafka \<Rightarrow> 'db leveldb \<Rightarrow> keys_json \<Rightarrow> flags \<Rightarrow>
    (error + ('db, 'rd, 'wr, 'tls) ServiceProvider \<times> ('db, ('rd, 'wr, 'tls) KafkaStorage) node) go"
where
  "startNode K L J F =
    (case prepareConfig F of
       Inl e \<Rightarrow> Inr (Inl (Wrapf ''failed to prepare config: '' [] e))
     | Inr cfg \<Rightarrow>
         bindR (CreateServiceProviderWithCfg K L J cfg) (\<lambda>r. case r of
           Inl e \<Rightarrow> Inr (Inl (Wrapf ''failed to init service provider: %+v'' [] e))
         | Inr sp \<Rightarrow>
             bindR (NewNodeService L J cfg sp) (\<lambda>r. case r of
               Inl e \<Rightarrow> Inr (Inl (Wrapf ''failed to init node: %+v'' [] e))
             | Inr nodeInstance \<Rightarrow>
                 Inr (Inr (sp, nodeInstance\<lparr>nd_skip := fl_SkipCommKeysVerification F\<rparr>)))))"

definition startClientCommand ::
  "('rd, 'wr, 'tls) kafka \<Rightarrow> 'db leveldb \<Rightarrow> keys_json \<Rightarrow> flags \<Rightarrow> ('db, ('rd, 'wr, 'tls) KafkaStorage) node_env \<Rightarrow> nat \<Rightarrow>
    (error + ('db, ('rd, 'wr, 'tls) KafkaStorage) node) go"
where
  "startClientCommand K L J F env k =
    bindR (startNode K L J F) (\<lambda>r. case r of
      Inl e \<Rightarrow> Inr (Inl e)
    | Inr (sp, nodeInstance) \<Rightarrow>
        bindR (wrapM ''error while handling operations: %w'' [] (Poll (service_env K L J sp env) k) nodeInstance) (\<lambda>(r, n).
        Inr (case r of Inl e \<Rightarrow> Inl e | Inr _ \<Rightarrow> Inr n)))"

section \<open>Generated keys\<close>

lemma generated_keys_loaded:
  assumes "leveldb_ok L" and "keys_json_ok J" and "genKeyPairCommand L J generated F = Inr (Inr s)"
  shows "LoadKeys L J s (fl_UserName F) password = Inr (Some (NewKeyPair generated))"
    and "3 \<le> length (fl_UserName F)" and "length (fl_UserName F) \<le> 150"
proof -
  from assms(3) show bounds: "3 \<le> length (fl_UserName F)" "length (fl_UserName F) \<le> 150"
    by (auto simp: genKeyPairCommand_def Let_def config_defs split: if_split_asm)
  from assms(3) obtain s0 where "PutKeys L J (fl_UserName F) (Some (NewKeyPair generated)) s0 = Inr (None, s)"
    by (auto simp: genKeyPairCommand_def Let_def split: if_split_asm sum.split_asm option.split_asm prod.split_asm)
  from PutKeys_loaded(2)[OF assms(1,2) this] show "LoadKeys L J s (fl_UserName F) password = Inr (Some (NewKeyPair generated))"
    by (intro loaded_LoadKeys) simp
qed

text \<open>A started node verifies the messages of the log unless it was told not to.\<close>

lemma started_node_verifies:
  assumes "startNode K L J F = Inr (Inr (sp, n))"
  shows "nd_skip n = fl_SkipCommKeysVerification F"
  using assms by (auto simp: startNode_def case_error_ok)

end
