(* ===== verification/Decoding.thy ===== *)
theory Decoding
  imports Signing_Tasks
begin

text \<open>
  What the command line tools read back from text: hexadecimal and base64 (\<open>encoding/hex\<close>, \<open>encoding/base64\<close>), the
  integers of \<open>strconv.Atoi\<close>, and the numbers of a JSON answer, which Go holds as 64-bit floating point numbers when it
  is not told their type.
\<close>

section \<open>Hexadecimal\<close>

definition hex_value :: "char \<Rightarrow> nat option" where
  "hex_value c = (let n = of_char c :: nat in
     if 48 \<le> n \<and> n \<le> 57 then Some (n - 48)
     else if 97 \<le> n \<and> n \<le> 102 then Some (n - 87)
     else if 65 \<le> n \<and> n \<le> 70 then Some (n - 55)
     else None)"

fun hex_DecodeString :: "string \<Rightarrow> error + bytes" where
  "hex_DecodeString [] = Inr []"
| "hex_DecodeString [c] =
    (case hex_value c of
       None \<Rightarrow> Inl (Errorf ''encoding/hex: invalid byte: %#U'' [AStr [c]])
     | Some _ \<Rightarrow> Inl (errorsNew ''encoding/hex: odd length hex string''))"
| "hex_DecodeString (c # d # s) =
    (case hex_value c of
       None \<Rightarrow> Inl (Errorf ''encoding/hex: invalid byte: %#U'' [AStr [c]])
     | Some x \<Rightarrow>
         (case hex_value d of
            None \<Rightarrow> Inl (Errorf ''encoding/hex: invalid byte: %#U'' [AStr [d]])
          | Some y \<Rightarrow> bindR (hex_DecodeString s) (\<lambda>bs. Inr (of_nat (16 * x + y) # bs))))"

lemma hex_value_digit: "n < 16 \<Longrightarrow> hex_value (hex_digit n) = Some n"
proof -
  have "list_all (\<lambda>n. hex_value (hex_digit n) = Some n) [0..<16]" by code_simp
  then show "n < 16 \<Longrightarrow> hex_value (hex_digit n) = Some n" by (simp add: list_all_iff)
qed

lemma hex_roundtrip: "hex_DecodeString (hex_EncodeToString bs) = Inr bs"
proof (induction bs)
  case (Cons b bs)
  have "unat b div 16 < 16" "unat b mod 16 < 16" using byte_div(2)[of b] by simp_all
  moreover have "of_nat (16 * (unat b div 16) + unat b mod 16) = b" by simp
  ultimately show ?case using Cons by (simp add: hex_EncodeToString_def hex_value_digit del: of_nat_add of_nat_mult)
qed (simp add: hex_EncodeToString_def)

section \<open>Base64\<close>

text \<open>
  The standard alphabet with padding: line breaks are skipped, groups of four characters follow each other, the last
  one padded.  The bits that padding leaves over are not checked.
\<close>

definition base64_value :: "char \<Rightarrow> nat option" where
  "base64_value c = (let n = of_char c :: nat in
     if 65 \<le> n \<and> n \<le> 90 then Some (n - 65)
     else if 97 \<le> n \<and> n \<le> 122 then Some (n - 71)
     else if 48 \<le> n \<and> n \<le> 57 then Some (n + 4)
     else if c = CHR ''+'' then Some 62
     else if c = CHR ''/'' then Some 63
     else None)"

abbreviation corrupt :: error where "corrupt \<equiv> errorsNew ''illegal base64 data at input byte %d''"

definition sextet :: "char \<Rightarrow> error + nat" where
  "sextet c = (case base64_value c of None \<Rightarrow> Inl corrupt | Some n \<Rightarrow> Inr n)"

fun base64_groups :: "string \<Rightarrow> error + bytes" where
  "base64_groups [] = Inr []"
| "base64_groups (a # b # c # d # s) =
    bindR (sextet a) (\<lambda>w. bindR (sextet b) (\<lambda>x.
    if c = CHR ''='' then
      (if d = CHR ''='' \<and> s = [] then Inr [of_nat (4 * w + x div 16)] else Inl corrupt)
    else bindR (sextet c) (\<lambda>y.
    if d = CHR ''='' then
      (if s = [] then Inr [of_nat (4 * w + x div 16), of_nat (16 * (x mod 16) + y div 4)] else Inl corrupt)
    else bindR (sextet d) (\<lambda>z.
    bindR (base64_groups s) (\<lambda>bs.
    Inr (of_nat (4 * w + x div 16) # of_nat (16 * (x mod 16) + y div 4) # of_nat (64 * (y mod 4) + z) # bs))))))"
| "base64_groups s = Inl corrupt"

definition base64_DecodeString :: "string \<Rightarrow> error + bytes" where
  "base64_DecodeString s = base64_groups (filter (\<lambda>c. c \<noteq> CHR 0x0A \<and> c \<noteq> CHR 0x0D) s)"

lemma base64_values: "map base64_value base64_alphabet = map Some [0..<64]"
  by (simp add: base64_alphabet_def base64_value_def upt_rec)

lemma base64_value_char: "n < 64 \<Longrightarrow> base64_value (base64_char n) = Some n"
proof -
  assume n: "n < 64"
  then have "map base64_value base64_alphabet ! n = Some n" unfolding base64_values by simp
  with n show ?thesis by (simp add: base64_char_def base64_alphabet_distinct(2))
qed

lemma sextet_char: "n < 64 \<Longrightarrow> sextet (base64_char n) = Inr n"
  by (simp add: sextet_def base64_value_char)

lemma base64_char_printable: "n < 64 \<Longrightarrow> base64_char n \<noteq> CHR 0x0A" "n < 64 \<Longrightarrow> base64_char n \<noteq> CHR 0x0D"
proof -
  have "list_all (\<lambda>c. c \<noteq> CHR 0x0A \<and> c \<noteq> CHR 0x0D) base64_alphabet" by code_simp
  then show "n < 64 \<Longrightarrow> base64_char n \<noteq> CHR 0x0A" "n < 64 \<Longrightarrow> base64_char n \<noteq> CHR 0x0D"
    using base64_alphabet_distinct(2) by (auto simp: base64_char_def list_all_iff)
qed

lemma byte_parts:
  fixes a b c :: "8 word"
  shows "of_nat (4 * (unat a div 4) + (16 * (unat a mod 4)) div 16) = a"
    "of_nat (4 * (unat a div 4) + (16 * (unat a mod 4) + unat b div 16) div 16) = a"
    "of_nat (16 * ((16 * (unat a mod 4) + unat b div 16) mod 16) + (4 * (unat b mod 16)) div 4) = b"
    "of_nat (16 * ((16 * (unat a mod 4) + unat b div 16) mod 16) + (4 * (unat b mod 16) + unat c div 64) div 4) = b"
    "of_nat (64 * ((4 * (unat b mod 16) + unat c div 64) mod 4) + unat c mod 64) = c"
  using byte_div[of b] byte_div[of c] by (simp_all del: of_nat_add of_nat_mult)

lemma groups_encoded: "base64_groups (base64_EncodeToString bs) = Inr bs"
  by (induction bs rule: base64_EncodeToString.induct)
    (simp_all add: sextet_char base64_bounds byte_div base64_char_not(1) byte_parts del: of_nat_add of_nat_mult)

lemma base64_roundtrip: "base64_DecodeString (base64_EncodeToString bs) = Inr bs"
proof -
  have "filter (\<lambda>c. c \<noteq> CHR 0x0A \<and> c \<noteq> CHR 0x0D) (base64_EncodeToString bs) = base64_EncodeToString bs"
    by (induction bs rule: base64_EncodeToString.induct) (simp_all add: base64_char_printable base64_bounds byte_div)
  then show ?thesis by (simp add: base64_DecodeString_def groups_encoded)
qed

section \<open>Integers\<close>

text \<open>\<open>strconv.Atoi\<close>: out of range, the value beside the error is the nearest integer of 64 bits.\<close>

definition out_of_range :: error where "out_of_range = errorsNew ''strconv.ParseInt: value out of range''"

definition Atoi :: "string \<Rightarrow> int \<times> error option" where
  "Atoi s = (case ParseInt s of
     Inr n \<Rightarrow> (n, None)
   | Inl e \<Rightarrow> (if e = out_of_range then (if HasPrefix s ''-'' then - (2 ^ 63) else 2 ^ 63 - 1) else 0,
       Some (Wrapf ''strconv.Atoi: %w'' [] e)))"

text \<open>The number that a text of decimal digits stands for.\<close>

definition digits_value :: "string \<Rightarrow> nat" where
  "digits_value s = fold (\<lambda>c n. 10 * n + the (decimal c)) s 0"

lemma fold_digits: "fold (\<lambda>c n. 10 * n + the (decimal c)) s n = 10 ^ length s * n + digits_value s"
proof (induction s arbitrary: n)
  case (Cons c s)
  have "digits_value (c # s) = 10 ^ length s * the (decimal c) + digits_value s"
    unfolding digits_value_def using Cons[of "the (decimal c)"] by (simp add: digits_value_def)
  with Cons show ?case by (simp add: algebra_simps)
qed (simp add: digits_value_def)

lemma decimal_digit: "n < 10 \<Longrightarrow> decimal (char_of (48 + n)) = Some n"
  by (simp add: decimal_def)

lemma nat_digits_decimal: "list_all (\<lambda>c. decimal c \<noteq> None) (nat_digits n)"
proof (induction n rule: nat_digits.induct)
  case (1 n)
  then show ?case by (subst nat_digits.simps) (simp add: decimal_digit)
qed

lemma nat_digits_nonempty: "nat_digits n \<noteq> []"
  by (subst nat_digits.simps) simp

lemma digits_value_nat_digits: "digits_value (nat_digits n) = n"
proof (induction n rule: nat_digits.induct)
  case (1 n)
  show ?case
  proof (cases "n < 10")
    case True
    then show ?thesis by (subst nat_digits.simps) (simp add: digits_value_def decimal_digit)
  next
    case False
    with 1 show ?thesis by (subst nat_digits.simps) (simp add: digits_value_def decimal_digit)
  qed
qed

lemma ParseUint_digits:
  assumes "s \<noteq> []" and "list_all (\<lambda>c. decimal c \<noteq> None) s" and "digits_value s < 2 ^ 64"
  shows "ParseUint s = Inr (of_nat (digits_value s))"
  using assms by (simp add: ParseUint_def Let_def digits_value_def list_ex_iff list_all_iff)

lemma ParseUint_roundtrip: "n < 2 ^ 64 \<Longrightarrow> ParseUint (nat_digits n) = Inr (of_nat n)"
  using ParseUint_digits[OF nat_digits_nonempty nat_digits_decimal, of n] by (simp add: digits_value_nat_digits)

lemma decimal_sign: "decimal CHR ''-'' = None" "decimal CHR ''+'' = None"
  by code_simp+

lemma digits_unsigned:
  assumes "list_all (\<lambda>c. decimal c \<noteq> None) s"
  shows "\<not> HasPrefix s ''-''" "\<not> HasPrefix s ''+''"
  using assms decimal_sign by (cases s; auto simp: HasPrefix_def)+

lemma Atoi_digits:
  assumes "s \<noteq> []" and "list_all (\<lambda>c. decimal c \<noteq> None) s"
  shows "fst (Atoi s) = int (min (digits_value s) (2 ^ 63 - 1))" "snd (Atoi s) = None \<longleftrightarrow> digits_value s < 2 ^ 63"
proof -
  have "list_ex (\<lambda>c. decimal c = None) s = False" using assms(2) by (simp add: list_ex_iff list_all_iff)
  then have p: "ParseInt s = (if digits_value s \<ge> 2 ^ 63 then Inl out_of_range else Inr (int (digits_value s)))"
    using assms digits_unsigned[OF assms(2)] by (simp add: ParseInt_def Let_def digits_value_def out_of_range_def)
  show "fst (Atoi s) = int (min (digits_value s) (2 ^ 63 - 1))" "snd (Atoi s) = None \<longleftrightarrow> digits_value s < 2 ^ 63"
    using digits_unsigned[OF assms(2)] by (auto simp: Atoi_def p)
qed

section \<open>Floating point numbers\<close>

text \<open>
  A finite \<open>float64\<close> is \<open>m * 2 ^ x\<close> for an integer \<open>m\<close> of at most 53 bits.  The number of a JSON text becomes the nearest
  one, the even one of two that are equally near.
\<close>

datatype float64 = Float (mantissa: int) (exponent: int)

fun bit_length :: "nat \<Rightarrow> nat" where
  "bit_length n = (if n = 0 then 0 else Suc (bit_length (n div 2)))"

declare bit_length.simps [simp del]

definition round_even :: "nat \<Rightarrow> nat \<Rightarrow> nat" where
  "round_even n x = (let m = n div 2 ^ x; r = n mod 2 ^ x in
     if 2 * r > 2 ^ x \<or> 2 * r = 2 ^ x \<and> odd m then m + 1 else m)"

definition float64_of_nat :: "nat \<Rightarrow> float64" where
  "float64_of_nat n = (let x = bit_length n - 53 in Float (int (round_even n x)) (int x))"

text \<open>The conversion \<open>uint64(f)\<close> drops the fraction; out of range its result depends on the implementation.\<close>

definition float64_trunc :: "float64 \<Rightarrow> int" where
  "float64_trunc f = (if exponent f \<ge> 0 then mantissa f * 2 ^ nat (exponent f)
     else sgn (mantissa f) * (\<bar>mantissa f\<bar> div 2 ^ nat (- exponent f)))"

definition uint64_of_float64 :: "(float64 \<Rightarrow> 64 word) \<Rightarrow> float64 \<Rightarrow> 64 word" where
  "uint64_of_float64 other f =
    (if 0 \<le> float64_trunc f \<and> float64_trunc f < 2 ^ 64 then of_int (float64_trunc f) else other f)"

lemma bit_length_bound: "n < 2 ^ bit_length n"
proof (induction n rule: bit_length.induct)
  case (1 n)
  then show ?case by (cases "n = 0") (auto simp: bit_length.simps[of n])
qed

lemma bit_length_le: "bit_length n \<le> k \<longleftrightarrow> n < 2 ^ k"
proof (induction n arbitrary: k rule: bit_length.induct)
  case (1 n)
  show ?case
  proof (cases "n = 0")
    case False
    show ?thesis
    proof (cases k)
      case (Suc j)
      have "bit_length n \<le> k \<longleftrightarrow> bit_length (n div 2) \<le> j" using False Suc by (simp add: bit_length.simps[of n])
      also have "\<dots> \<longleftrightarrow> n div 2 < 2 ^ j" using 1[OF False] .
      also have "\<dots> \<longleftrightarrow> n < 2 ^ k" using Suc by auto
      finally show ?thesis .
    qed (use False in \<open>simp add: bit_length.simps[of n]\<close>)
  qed (simp add: bit_length.simps)
qed

lemma float64_trunc_of_nat: "float64_trunc (float64_of_nat n) = int (round_even n (bit_length n - 53) * 2 ^ (bit_length n - 53))"
  by (simp add: float64_trunc_def float64_of_nat_def Let_def)

text \<open>The distance to the nearest representable number.\<close>

lemma round_even_near: "2 * \<bar>int (round_even n x * 2 ^ x) - int n\<bar> \<le> 2 ^ x"
proof -
  define m where "m = n div 2 ^ x"
  define r where "r = n mod 2 ^ x"
  have n: "int n = int m * 2 ^ x + int r" using div_mult_mod_eq[of n "2 ^ x"]
    unfolding m_def r_def by (metis of_nat_add of_nat_mult of_nat_numeral of_nat_power)
  have r: "int r < 2 ^ x" by (simp add: r_def zmod_int)
  show ?thesis
  proof (cases "2 * r > 2 ^ x \<or> 2 * r = 2 ^ x \<and> odd m")
    case True
    then have "round_even n x = m + 1" by (simp add: round_even_def Let_def m_def r_def)
    moreover have "2 ^ x \<le> 2 * int r" using True by (metis nat_less_le of_nat_le_numeral_power_cancel_iff of_nat_mult
        of_nat_numeral numeral_power_le_of_nat_cancel_iff order.order_iff_strict)
    ultimately show ?thesis using n r by (simp add: algebra_simps)
  next
    case False
    then have "round_even n x = m" by (auto simp: round_even_def Let_def m_def r_def)
    moreover have "2 * int r \<le> 2 ^ x" using False by (metis linorder_not_less of_nat_le_numeral_power_cancel_iff of_nat_mult of_nat_numeral)
    ultimately show ?thesis using n by simp
  qed
qed

lemma float64_exact:
  assumes "n \<le> 2 ^ 53"
  shows "float64_trunc (float64_of_nat n) = int n"
proof (cases "n = 2 ^ 53")
  case True
  have "bit_length (2 ^ 53) \<le> 54" "\<not> bit_length (2 ^ 53) \<le> 53" by (subst bit_length_le, simp)+
  then have "bit_length n - 53 = 1" using True by simp
  then show ?thesis using True by (simp add: float64_trunc_of_nat round_even_def Let_def)
next
  case False
  with assms have "bit_length n \<le> 53" by (subst bit_length_le) simp
  then show ?thesis by (simp add: float64_trunc_of_nat round_even_def Let_def)
qed

lemma float64_error:
  assumes "n < 2 ^ 64"
  shows "\<bar>float64_trunc (float64_of_nat n) - int n\<bar> \<le> 1024"
proof -
  have "bit_length n \<le> 64" using assms by (subst bit_length_le)
  then have "(2::int) ^ (bit_length n - 53) \<le> 2 ^ 11" by (intro power_increasing) simp_all
  with round_even_near[of n "bit_length n - 53"] show ?thesis by (simp add: float64_trunc_of_nat)
qed

lemma uint64_exact:
  assumes "unat w \<le> 2 ^ 53"
  shows "uint64_of_float64 other (float64_of_nat (unat w)) = w"
proof -
  have "uint w < 2 ^ LENGTH(64)" by (rule uint_lt2p)
  then show ?thesis by (simp add: uint64_of_float64_def float64_exact[OF assms])
qed

end
