(* ===== verification/Tools.thy ===== *)
theory Tools
  imports Computations Decoding
begin

text \<open>
  What the command line tools share: the world they run in, which is the node at the other end of the connection (\<open>'n\<close>,
  trivial for a tool without one), the files, the lines still to be typed and what was printed; reading and writing of
  files.

  The failures of the operating system, the entries of a directory and the joining of paths are the parameter \<open>os_env\<close>.
  What is printed is kept as the format string with its arguments.
\<close>

record os_env =
  os_Read :: "string \<Rightarrow> error option"
  os_Open :: "string \<Rightarrow> error option"
  os_Write :: "string \<Rightarrow> bytes \<Rightarrow> nat \<times> error option"
  os_ReadDir :: "string \<Rightarrow> error + (string \<times> bool) list"
  os_Join :: "string \<Rightarrow> string \<Rightarrow> string"

record 'n tool_world =
  tw_node :: 'n
  tw_files :: "(string, bytes) gomap"
  tw_stdin :: "string list"
  tw_stdout :: "(string \<times> fmtarg list) list"

type_synonym ('n, 'a) tool = "('n tool_world, 'a) op"

definition tool_printf :: "string \<Rightarrow> fmtarg list \<Rightarrow> ('n, unit) tool" where
  "tool_printf msg args = updateM (\<lambda>w. w\<lparr>tw_stdout := tw_stdout w @ [(msg, args)]\<rparr>)"

definition onNode :: "('n, 'a) op \<Rightarrow> ('n, 'a) tool" where
  "onNode m w = bindR (m (tw_node w)) (\<lambda>(r, n). Inr (r, w\<lparr>tw_node := n\<rparr>))"

section \<open>Files\<close>

definition readAt :: "os_env \<Rightarrow> (string, bytes) gomap \<Rightarrow> string \<Rightarrow> error + bytes" where
  "readAt os files path = (case os_Read os path of
     Some e \<Rightarrow> Inl e
   | None \<Rightarrow> (case map_of files path of
       None \<Rightarrow> Inl (Errorf ''open %s: no such file or directory'' [AStr path]) | Some bz \<Rightarrow> Inr bz))"

definition ReadFile :: "os_env \<Rightarrow> string \<Rightarrow> ('n, bytes) tool" where
  "ReadFile os path w = Inr (readAt os (tw_files w) path, w)"

text \<open>
  \<open>os.OpenFile\<close> with \<open>O_WRONLY|O_CREATE\<close>: the file is created when there is none and not truncated when there is one, so
  a first write replaces a prefix.
\<close>

definition OpenFile :: "os_env \<Rightarrow> string \<Rightarrow> ('n, unit) tool" where
  "OpenFile os path = (case os_Open os path of
     Some e \<Rightarrow> failM e
   | None \<Rightarrow> updateM (\<lambda>w. if has_key (tw_files w) path then w else w\<lparr>tw_files := AList.update path [] (tw_files w)\<rparr>))"

definition overlay :: "bytes \<Rightarrow> bytes \<Rightarrow> bytes" where
  "overlay new old = new @ drop (length new) old"

definition Write :: "os_env \<Rightarrow> string \<Rightarrow> bytes \<Rightarrow> ('n, unit) tool" where
  "Write os path bz =
    (case os_Write os path bz of (n, err) \<Rightarrow>
     bindM (updateM (\<lambda>w. w\<lparr>tw_files := AList.update path
       (overlay (take n bz) (case map_of (tw_files w) path of None \<Rightarrow> [] | Some old \<Rightarrow> old)) (tw_files w)\<rparr>)) (\<lambda>_.
     case err of Some e \<Rightarrow> failM e | None \<Rightarrow> retM ()))"

text \<open>\<open>ioutil.WriteFile\<close> truncates.\<close>

definition WriteFile :: "os_env \<Rightarrow> string \<Rightarrow> bytes \<Rightarrow> ('n, unit) tool" where
  "WriteFile os path bz = (case os_Open os path of
     Some e \<Rightarrow> failM e
   | None \<Rightarrow> bindM (updateM (\<lambda>w. w\<lparr>tw_files := AList.update path [] (tw_files w)\<rparr>)) (\<lambda>_. Write os path bz))"

text \<open>A disk without failures: every call succeeds and writes everything.\<close>

definition os_ok :: "os_env \<Rightarrow> bool" where
  "os_ok os \<longleftrightarrow> (\<forall>path. os_Read os path = None \<and> os_Open os path = None \<and>
     (\<forall>bz. \<exists>n \<ge> length bz. os_Write os path bz = (n, None)))"

lemma readAt_ok: "os_ok os \<Longrightarrow> map_of files path = Some bz \<Longrightarrow> readAt os files path = Inr bz"
  by (simp add: readAt_def os_ok_def)

lemma overlay_longer: "length old \<le> length new \<Longrightarrow> overlay new old = new"
  by (simp add: overlay_def)

text \<open>What is written over a file that is not longer is read back.\<close>

lemma Write_ok:
  assumes "os_ok os"
  obtains w' where "Write os path bz w = Inr (Inr (), w')"
    "w' = w\<lparr>tw_files := AList.update path (overlay bz (case map_of (tw_files w) path of None \<Rightarrow> [] | Some old \<Rightarrow> old)) (tw_files w)\<rparr>"
proof -
  from assms obtain n where "os_Write os path bz = (n, None)" "length bz \<le> n" by (auto simp: os_ok_def)
  then show thesis using that by (simp add: Write_def bindM_def updateM_def retM_def)
qed

lemma OpenFile_ok:
  assumes "os_ok os"
  obtains w' where "OpenFile os path w = Inr (Inr (), w')" "tw_node w' = tw_node w" "tw_stdin w' = tw_stdin w"
    "tw_stdout w' = tw_stdout w" "tw_files w' = (if has_key (tw_files w) path then tw_files w else AList.update path [] (tw_files w))"
  using assms that[of "if has_key (tw_files w) path then w else w\<lparr>tw_files := AList.update path [] (tw_files w)\<rparr>"]
  by (simp add: OpenFile_def os_ok_def updateM_def)

section \<open>Frames\<close>

lemma stays_printf: "(\<And>w f. I (w\<lparr>tw_stdout := f\<rparr>) = I w) \<Longrightarrow> stays I (tool_printf msg args)"
  by (simp add: keeps_def tool_printf_def updateM_def)

text \<open>A property of the node is kept by everything a tool does with its files and its terminal.\<close>

definition of_node :: "('n \<Rightarrow> bool) \<Rightarrow> 'n tool_world \<Rightarrow> bool" where
  "of_node I w = I (tw_node w)"

lemma of_node_stays:
  "stays (of_node I) (tool_printf msg args)" "stays (of_node I) (ReadFile os path)" "stays (of_node I) (OpenFile os path)"
  "stays (of_node I) (Write os path bz)" "stays (of_node I) (WriteFile os path bz)"
proof -
  have upd: "stays (of_node I) (updateM (\<lambda>w. w\<lparr>tw_files := f w\<rparr>))" for f
    by (simp add: keeps_def of_node_def updateM_def)
  show "stays (of_node I) (tool_printf msg args)" by (simp add: keeps_def of_node_def tool_printf_def updateM_def)
  show "stays (of_node I) (ReadFile os path)" by (simp add: keeps_def ReadFile_def)
  show "stays (of_node I) (OpenFile os path)"
    by (simp add: keeps_def of_node_def OpenFile_def updateM_def failM_def split: option.split)
  have W: "stays (of_node I) (Write os path bz)" for path bz
    unfolding Write_def by (auto intro!: stays_bind upd keeps_ret keeps_fail split: prod.split option.split)
  then show "stays (of_node I) (Write os path bz)" .
  show "stays (of_node I) (WriteFile os path bz)"
    unfolding WriteFile_def by (auto intro!: stays_bind upd W keeps_fail split: option.split)
qed

lemma of_node_onNode: "stays I m \<Longrightarrow> stays (of_node I) (onNode m)"
  unfolding keeps_def of_node_def onNode_def by (fastforce split: prod.split_asm)

end
