(* ===== verification/Exported.thy ===== *)
theory Exported
  imports Tools Signature_Repo
begin

text \<open>
  The signatures that leave the system: the form in which they are exported (\<open>PrepareSignaturesToDump\<close> in
  \<open>src/pkg/utils/utils.go\<close> with the types of \<open>src/dkg/types.go\<close>), their verification with the library of the Prysm client
  (\<open>src/pkg/prysm/prysm.go\<close>) and the tool around it (\<open>src/cmd/prysm_compatibility_checker/main.go\<close>).

  The BLS library of Prysm is the parameter \<open>prysm\<close>; \<open>log.Fatal\<close> is the error of the tool.
\<close>

section \<open>Exported signatures\<close>

record ExportedSignatureEntity =
  xs_Payload :: bytes
  xs_Signature :: bytes
  xs_File :: string

type_synonym ExportedSignatures = "(string, ExportedSignatureEntity) gomap"

text \<open>The loop over the messages; of the signatures of a message only the first is exported.\<close>

fun prepareLoop :: "(string, ReconstructedSignature list) gomap \<Rightarrow> ExportedSignatures \<Rightarrow> error + ExportedSignatures" where
  "prepareLoop [] out = Inr out"
| "prepareLoop ((messageID, sigs) # orig) out =
    (case sigs of
       [] \<Rightarrow> Inl (Errorf ''no reconstructed signatures found for message %s'' [AStr messageID])
     | s # _ \<Rightarrow> prepareLoop orig (AList.update messageID
         \<lparr>xs_Payload = rs_SrcPayload s, xs_Signature = rs_Signature s, xs_File = rs_File s\<rparr> out))"

definition PrepareSignaturesToDump :: "(string, ReconstructedSignature list) gomap \<Rightarrow> error + ExportedSignatures" where
  "PrepareSignaturesToDump orig = prepareLoop orig []"

section \<open>Verification with Prysm\<close>

record ('k, 'g) prysm =
  py_PublicKeyFromBytes :: "bytes \<Rightarrow> error + 'k"
  py_SignatureFromBytes :: "bytes \<Rightarrow> error + 'g"
  py_Verify :: "'g \<Rightarrow> 'k \<Rightarrow> bytes \<Rightarrow> bool"

text \<open>One entry: the message is read from the file that the entry names, not from its payload.\<close>

definition verifyEntry ::
  "os_env \<Rightarrow> ('k, 'g) prysm \<Rightarrow> 'k \<Rightarrow> string \<Rightarrow> ExportedSignatureEntity \<Rightarrow> ('n, unit) tool"
where
  "verifyEntry os P prysmPubKey dataDir x =
    bindM (wrapM ''failed to get prysm sig from bytes(filename - %s): %w'' [AStr (xs_File x)]
      (liftE (py_SignatureFromBytes P (xs_Signature x)))) (\<lambda>prysmSig.
    bindM (wrapM ''failed to read file: %w'' [] (ReadFile os (os_Join os dataDir (xs_File x)))) (\<lambda>msg.
    if \<not> py_Verify P prysmSig prysmPubKey msg
    then failM (Errorf ''failed to verify prysm signature for file - %s'' [AStr (xs_File x)])
    else retM ()))"

definition BatchVerification ::
  "os_env \<Rightarrow> ('k, 'g) prysm \<Rightarrow> ExportedSignatures \<Rightarrow> string \<Rightarrow> string \<Rightarrow> ('n, unit) tool"
where
  "BatchVerification os P exportedSignatures pubkeyb64 dataDir =
    bindM (wrapM ''failed to decode pubkey bytes from string: %w'' [] (liftE (base64_DecodeString pubkeyb64))) (\<lambda>pubkey.
    bindM (wrapM ''failed to get prysm pubkey from bytes: %w'' [] (liftE (py_PublicKeyFromBytes P pubkey))) (\<lambda>prysmPubKey.
    forM (\<lambda>(_, x). verifyEntry os P prysmPubKey dataDir x) exportedSignatures))"

section \<open>The checker\<close>

definition prysmSignature :: "('k, 'g) prysm \<Rightarrow> string \<Rightarrow> ('n, 'g) tool" where
  "prysmSignature P text64 =
    bindM (wrapM ''failed to decode signature bytes from string: %v'' [] (liftE (base64_DecodeString text64))) (\<lambda>sig.
    wrapM ''failed to get prysm sig from bytes: %v'' [] (liftE (py_SignatureFromBytes P sig)))"

definition prysmPubKey :: "('k, 'g) prysm \<Rightarrow> string \<Rightarrow> ('n, 'k) tool" where
  "prysmPubKey P text64 =
    bindM (wrapM ''failed to decode pubkey bytes from string: %v'' [] (liftE (base64_DecodeString text64))) (\<lambda>pubkey.
    wrapM ''failed to get prysm pubkey from bytes: %v'' [] (liftE (py_PublicKeyFromBytes P pubkey)))"

definition checkSignature :: "('k, 'g) prysm \<Rightarrow> string \<Rightarrow> ('n, unit) tool" where
  "checkSignature P sig = bindM (prysmSignature P sig) (\<lambda>_. tool_printf ''Signature is correct'' [])"

definition checkPubKey :: "('k, 'g) prysm \<Rightarrow> string \<Rightarrow> ('n, unit) tool" where
  "checkPubKey P pubkey = bindM (prysmPubKey P pubkey) (\<lambda>_. tool_printf ''Public key is correct'' [])"

definition verify :: "os_env \<Rightarrow> ('k, 'g) prysm \<Rightarrow> string \<Rightarrow> string \<Rightarrow> string \<Rightarrow> ('n, unit) tool" where
  "verify os P sig pubkey path =
    bindM (prysmSignature P sig) (\<lambda>s.
    bindM (prysmPubKey P pubkey) (\<lambda>k.
    bindM (wrapM ''failed to read file: %v'' [] (ReadFile os path)) (\<lambda>msg.
    if \<not> py_Verify P s k msg then failM (errorsNew ''failed to verify prysm signature'')
    else tool_printf ''Signature is correct'' [])))"

definition verifyBatch ::
  "os_env \<Rightarrow> ('k, 'g) prysm \<Rightarrow> (bytes \<Rightarrow> error + ExportedSignatures) \<Rightarrow> string \<Rightarrow> string \<Rightarrow> string \<Rightarrow> ('n, unit) tool"
where
  "verifyBatch os P unmarshal exportedSignaturesFile pubkeyb64 dataDir =
    bindM (wrapM ''failed to read exported signatures file: %v'' [] (ReadFile os exportedSignaturesFile)) (\<lambda>data.
    bindM (wrapM ''failed to unmarshal exported signatures data: %v'' [] (liftE (unmarshal data))) (\<lambda>exportedSignatures.
    bindM (BatchVerification os P exportedSignatures pubkeyb64 dataDir) (\<lambda>_.
    tool_printf ''All batch signatures are correct'' [])))"

text \<open>\<open>cobra\<close> checks the number of arguments before it runs a command.\<close>

definition wrongArgs :: "nat \<Rightarrow> string list \<Rightarrow> ('n, 'a) tool" where
  "wrongArgs n args = failM (Errorf ''accepts %d arg(s), received %d'' [AInt (int n), AInt (int (length args))])"

definition exact1 :: "string list \<Rightarrow> (string \<Rightarrow> ('n, 'a) tool) \<Rightarrow> ('n, 'a) tool" where
  "exact1 args k = (case args of [x] \<Rightarrow> k x | _ \<Rightarrow> wrongArgs 1 args)"

definition exact2 :: "string list \<Rightarrow> (string \<Rightarrow> string \<Rightarrow> ('n, 'a) tool) \<Rightarrow> ('n, 'a) tool" where
  "exact2 args k = (case args of [x, y] \<Rightarrow> k x y | _ \<Rightarrow> wrongArgs 2 args)"

definition exact3 :: "string list \<Rightarrow> (string \<Rightarrow> string \<Rightarrow> string \<Rightarrow> ('n, 'a) tool) \<Rightarrow> ('n, 'a) tool" where
  "exact3 args k = (case args of [x, y, z] \<Rightarrow> k x y z | _ \<Rightarrow> wrongArgs 3 args)"

definition unknownCommand :: "string \<Rightarrow> string \<Rightarrow> ('n, 'a) tool" where
  "unknownCommand name tool = failM (Errorf ''unknown command %q for %q'' [AStr name, AStr tool])"

definition main_checker ::
  "os_env \<Rightarrow> ('k, 'g) prysm \<Rightarrow> (bytes \<Rightarrow> error + ExportedSignatures) \<Rightarrow> string \<Rightarrow> string list \<Rightarrow> ('n, unit) tool"
where
  "main_checker os P unmarshal name args =
    (if name = ''check_pubkey'' then exact1 args (checkPubKey P)
     else if name = ''check_signature'' then exact1 args (checkSignature P)
     else if name = ''verify'' then exact3 args (verify os P)
     else if name = ''verify_batch'' then exact3 args (verifyBatch os P unmarshal)
     else wrapM ''Failed to execute root command: %v'' [] (unknownCommand name ''./prysmCompatibilityChecker''))"

section \<open>What is exported and what is verified\<close>

lemma prepareLoop_ok:
  assumes "distinct (keys orig)" and "set (keys orig) \<inter> set (keys out) = {}" and "list_all (\<lambda>(_, sigs). sigs \<noteq> []) orig"
  shows "prepareLoop orig out = Inr (out @ map_vals (\<lambda>_ sigs.
    \<lparr>xs_Payload = rs_SrcPayload (hd sigs), xs_Signature = rs_Signature (hd sigs), xs_File = rs_File (hd sigs)\<rparr>) orig)"
  using assms
proof (induction orig arbitrary: out)
  case (Cons kv orig)
  obtain k s ss where kv: "kv = (k, s # ss)" using Cons.prems(3) by (cases kv; cases "snd kv") auto
  have "\<not> has_key out k" using Cons.prems(2) unfolding has_key_keys kv by auto
  then show ?case using Cons.IH[of "out @ [(k, \<lparr>xs_Payload = rs_SrcPayload s, xs_Signature = rs_Signature s, xs_File = rs_File s\<rparr>)]"] Cons.prems
    by (auto simp: kv update_fresh)
qed simp

lemma prepareLoop_fails: "\<not> list_all (\<lambda>(_, sigs). sigs \<noteq> []) orig \<Longrightarrow> \<exists>e. prepareLoop orig out = Inl e"
  by (induction orig arbitrary: out) (auto split: list.split)

lemma verifyEntry_run:
  "\<exists>r. verifyEntry os P k dir x w = Inr (r, w) \<and> (r = Inr () \<longleftrightarrow> (\<exists>g msg. py_SignatureFromBytes P (xs_Signature x) = Inr g \<and>
     readAt os (tw_files w) (os_Join os dir (xs_File x)) = Inr msg \<and> py_Verify P g k msg))"
  by (cases "py_SignatureFromBytes P (xs_Signature x)"; cases "readAt os (tw_files w) (os_Join os dir (xs_File x))")
    (simp_all add: verifyEntry_def ReadFile_def monad_defs)

lemma verify_all:
  "forM (\<lambda>(_, x). verifyEntry os P k dir x) xs w = Inr (Inr (), w') \<longleftrightarrow>
   w' = w \<and> list_all (\<lambda>(_, x). verifyEntry os P k dir x w = Inr (Inr (), w)) xs"
proof (induction xs)
  case (Cons ix xs)
  obtain i x where ix: "ix = (i, x)" by fastforce
  obtain r where "verifyEntry os P k dir x w = Inr (r, w)" using verifyEntry_run[of os P k dir x w] by blast
  with Cons ix show ?case by (cases r) (auto simp: bindM_def)
qed (auto simp: retM_def)

lemma verifyEntry_ok:
  "verifyEntry os P k dir x w = Inr (Inr (), w) \<longleftrightarrow> (\<exists>g msg. py_SignatureFromBytes P (xs_Signature x) = Inr g \<and>
     readAt os (tw_files w) (os_Join os dir (xs_File x)) = Inr msg \<and> py_Verify P g k msg)"
  using verifyEntry_run[of os P k dir x w] by auto

text \<open>The order in which the entries are visited does not matter.\<close>

lemma BatchVerification_ok:
  "BatchVerification os P xs pubkeyb64 dir w = Inr (Inr (), w') \<longleftrightarrow> w' = w \<and>
    (\<exists>pubkey k. base64_DecodeString pubkeyb64 = Inr pubkey \<and> py_PublicKeyFromBytes P pubkey = Inr k \<and>
      (\<forall>i x. (i, x) \<in> set xs \<longrightarrow> (\<exists>g msg. py_SignatureFromBytes P (xs_Signature x) = Inr g \<and>
        readAt os (tw_files w) (os_Join os dir (xs_File x)) = Inr msg \<and> py_Verify P g k msg)))"
proof -
  have step: "(\<exists>k. py_PublicKeyFromBytes P pubkey = Inr k \<and> forM (\<lambda>(_, x). verifyEntry os P k dir x) xs w = Inr (Inr (), w')) \<longleftrightarrow>
      w' = w \<and> (\<exists>k. py_PublicKeyFromBytes P pubkey = Inr k \<and> (\<forall>i x. (i, x) \<in> set xs \<longrightarrow> (\<exists>g msg. py_SignatureFromBytes P (xs_Signature x) = Inr g \<and>
        readAt os (tw_files w) (os_Join os dir (xs_File x)) = Inr msg \<and> py_Verify P g k msg)))" for pubkey
    by (auto simp: verify_all list_all_iff verifyEntry_ok)
  show ?thesis
  proof (cases "base64_DecodeString pubkeyb64")
    case (Inr pubkey)
    have "BatchVerification os P xs pubkeyb64 dir w = Inr (Inr (), w') \<longleftrightarrow>
        (\<exists>k. py_PublicKeyFromBytes P pubkey = Inr k \<and> forM (\<lambda>(_, x). verifyEntry os P k dir x) xs w = Inr (Inr (), w'))"
      by (cases "py_PublicKeyFromBytes P pubkey") (simp_all add: BatchVerification_def Inr monad_defs)
    with step Inr show ?thesis by auto
  qed (auto simp: BatchVerification_def monad_defs)
qed

end
