(* ===== verification/Cli_Text.thy ===== *)
theory Cli_Text
  imports Decoding Kafka_Storage
begin

text \<open>
  The argument of \<open>refresh_state\<close> that names messages to ignore (\<open>parseMessagesToIgnore\<close> in
  \<open>src/cmd/dc4bc_cli/main.go\<close>): three regular expressions tell a list, a single message and a span of offsets apart.

  The regular expressions are written as the source has them, over a matcher by derivatives that stands for the package
  \<open>regexp\<close>; all three are anchored at both ends, so matching is membership in the language.
\<close>

section \<open>Regular expressions\<close>

datatype rx =
    Nothing
  | Empty
  | Class "char \<Rightarrow> bool"
  | Or rx rx
  | Then rx rx
  | Many rx

definition Many1 :: "rx \<Rightarrow> rx" where "Many1 r = Then r (Many r)"

fun nullable :: "rx \<Rightarrow> bool" where
  "nullable Nothing = False"
| "nullable Empty = True"
| "nullable (Class P) = False"
| "nullable (Or r s) = (nullable r \<or> nullable s)"
| "nullable (Then r s) = (nullable r \<and> nullable s)"
| "nullable (Many r) = True"

fun derivative :: "char \<Rightarrow> rx \<Rightarrow> rx" where
  "derivative c Nothing = Nothing"
| "derivative c Empty = Nothing"
| "derivative c (Class P) = (if P c then Empty else Nothing)"
| "derivative c (Or r s) = Or (derivative c r) (derivative c s)"
| "derivative c (Then r s) =
    (if nullable r then Or (Then (derivative c r) s) (derivative c s) else Then (derivative c r) s)"
| "derivative c (Many r) = Then (derivative c r) (Many r)"

definition MatchString :: "rx \<Rightarrow> string \<Rightarrow> bool" where
  "MatchString r s = nullable (fold derivative s r)"

text \<open>The language of an expression.\<close>

inductive matched :: "rx \<Rightarrow> string \<Rightarrow> bool" where
  "matched Empty []"
| "P c \<Longrightarrow> matched (Class P) [c]"
| "matched r s \<Longrightarrow> matched (Or r q) s"
| "matched q s \<Longrightarrow> matched (Or r q) s"
| "matched r s \<Longrightarrow> matched q t \<Longrightarrow> matched (Then r q) (s @ t)"
| "matched (Many r) []"
| "matched r s \<Longrightarrow> matched (Many r) t \<Longrightarrow> matched (Many r) (s @ t)"

inductive_simps matched_simps [simp]:
  "matched Nothing s" "matched Empty s" "matched (Class P) s" "matched (Or r q) s"

inductive_simps matched_Then: "matched (Then r q) s"

inductive_cases matched_ThenE: "matched (Then r q) s"
inductive_cases matched_ManyE: "matched (Many r) s"

lemma nullable_matched: "nullable r \<longleftrightarrow> matched r []"
  by (induction r) (auto simp: matched_Then intro: matched.intros)

lemma many_Cons:
  assumes "matched (Many r) s" and "s = c # t"
  shows "\<exists>u v. t = u @ v \<and> matched r (c # u) \<and> matched (Many r) v"
  using assms
proof (induction "Many r" s arbitrary: r)
  case (7 r s t')
  then show ?case by (cases s) auto
qed simp_all

lemma matched_Cons: "matched r (c # s) \<longleftrightarrow> matched (derivative c r) s"
proof (induction r arbitrary: s)
  case (Then r q)
  show ?case
  proof
    assume "matched (Then r q) (c # s)"
    then obtain u v where "c # s = u @ v" "matched r u" "matched q v" by (auto simp: matched_Then)
    then show "matched (derivative c (Then r q)) s"
      by (cases u) (auto simp: nullable_matched Then.IH matched_Then)
  next
    assume "matched (derivative c (Then r q)) s"
    then consider (first) u v where "s = u @ v" "matched (derivative c r) u" "matched q v"
      | (second) "nullable r" "matched (derivative c q) s"
      by (auto simp: matched_Then split: if_split_asm)
    then show "matched (Then r q) (c # s)"
    proof cases
      case first
      then have "matched r (c # u)" by (simp add: Then.IH)
      from matched.intros(5)[OF this first(3)] first(1) show ?thesis by simp
    next
      case second
      then have "matched r []" "matched q (c # s)" by (simp_all add: nullable_matched Then.IH)
      from matched.intros(5)[OF this] show ?thesis by simp
    qed
  qed
next
  case (Many r)
  show ?case
  proof
    assume "matched (Many r) (c # s)"
    from many_Cons[OF this refl] obtain u v where "s = u @ v" "matched r (c # u)" "matched (Many r) v" by blast
    then show "matched (derivative c (Many r)) s" by (auto simp: matched_Then Many.IH)
  next
    assume "matched (derivative c (Many r)) s"
    then obtain u v where "s = u @ v" "matched r (c # u)" "matched (Many r) v" by (auto simp: matched_Then Many.IH)
    then show "matched (Many r) (c # s)" using matched.intros(7)[of r "c # u" v] by simp
  qed
qed auto

lemma MatchString_matched: "MatchString r s \<longleftrightarrow> matched r s"
  unfolding MatchString_def by (induction s arbitrary: r) (simp_all add: nullable_matched matched_Cons)

text \<open>Repetitions of a class of characters.\<close>

lemma matched_Many_Class: "matched (Many (Class P)) s \<longleftrightarrow> list_all P s"
proof (induction s)
  case (Cons c s)
  have "matched (Many (Class P)) (c # s) \<longleftrightarrow> P c \<and> matched (Many (Class P)) s"
    by (simp add: matched_Cons matched_Then)
  with Cons show ?case by simp
qed (simp add: matched.intros)

lemma matched_Many1_Class: "matched (Many1 (Class P)) s \<longleftrightarrow> s \<noteq> [] \<and> list_all P s"
proof (cases s)
  case (Cons c t)
  have "matched (Many1 (Class P)) (c # t) \<longleftrightarrow> P c \<and> matched (Many (Class P)) t"
    by (simp add: Many1_def matched_Cons matched_Then)
  with Cons show ?thesis by (simp add: matched_Many_Class)
qed (simp add: Many1_def matched_Then)

section \<open>The three forms\<close>

definition is_digit :: "char \<Rightarrow> bool" where "is_digit c \<longleftrightarrow> decimal c \<noteq> None"

definition is_word :: "char \<Rightarrow> bool" where
  "is_word c \<longleftrightarrow> (let n = of_char c :: nat in
     48 \<le> n \<and> n \<le> 57 \<or> 65 \<le> n \<and> n \<le> 90 \<or> 97 \<le> n \<and> n \<le> 122 \<or> c = CHR ''_'')"

definition Lit :: "char \<Rightarrow> rx" where "Lit c = Class (\<lambda>x. x = c)"

definition messagesToIgnoreSingleRx :: rx where
  "messagesToIgnoreSingleRx =
    (let w = Many1 (Class is_word); d = Lit CHR ''-'' in
     Or (Many1 (Class is_digit)) (Then w (Then d (Then w (Then d (Then w (Then d (Then w (Then d w)))))))))"

definition messagesToIgnoreListRx :: rx where
  "messagesToIgnoreListRx =
    Then (Many1 (Class (\<lambda>c. is_word c \<or> c = CHR ''-'')))
     (Then (Lit CHR '','') (Many1 (Class (\<lambda>c. is_word c \<or> c = CHR '','' \<or> c = CHR ''-''))))"

definition messagesToIgnoreSpanRx :: rx where
  "messagesToIgnoreSpanRx = Then (Many1 (Class is_digit)) (Then (Lit CHR ''-'') (Many1 (Class is_digit)))"

section \<open>Parsing\<close>

text \<open>
  The loop over a span.  It appends as long as the counter, a signed integer of 64 bits that wraps around, is at most
  \<open>to\<close>; \<open>None\<close> means that it never ends.
\<close>

partial_function (option) spanLoop :: "64 word \<Rightarrow> 64 word \<Rightarrow> string list \<Rightarrow> string list option" where
  "spanLoop i to offsets =
    (if sint i \<le> sint to then spanLoop (i + 1) to (offsets @ [int_digits (sint i)]) else Some offsets)"

text \<open>\<open>make\<close> refuses a negative capacity and one that no address space of 64 bits has room for.\<close>

definition maxStrings :: int where "maxStrings = 2 ^ 44"

definition makeStrings :: "int \<Rightarrow> string list go" where
  "makeStrings capacity =
    (if capacity < 0 \<or> capacity > maxStrings then Inl (PanicMsg ''runtime error: makeslice: cap out of range'' []) else Inr [])"

text \<open>A loop that appends without end runs out of memory, which ends the program.\<close>

definition cli_parseMessagesToIgnore :: "string \<Rightarrow> (error + string list) go" where
  "cli_parseMessagesToIgnore inp =
    (if MatchString messagesToIgnoreListRx inp then Inr (Inr (Split inp CHR '',''))
     else if MatchString messagesToIgnoreSingleRx inp then Inr (Inr [inp])
     else if MatchString messagesToIgnoreSpanRx inp then
       (let from = of_int (fst (Atoi (takeWhile (\<lambda>c. c \<noteq> CHR ''-'') inp))) :: 64 word;
            to = of_int (fst (Atoi (tl (dropWhile (\<lambda>c. c \<noteq> CHR ''-'') inp)))) :: 64 word
        in bindR (makeStrings (sint (to - from))) (\<lambda>offsets.
           case spanLoop from to offsets of
             None \<Rightarrow> Inl (PanicMsg ''runtime: out of memory'' [])
           | Some offsets \<Rightarrow> Inr (Inr offsets)))
     else Inr (Inl (Errorf ''invalid messages to ignore flag %s, please refer to the flag usage'' [AStr inp])))"

section \<open>What the forms accept\<close>

lemma matched_Lit: "matched (Lit c) s \<longleftrightarrow> s = [c]"
  by (simp add: Lit_def)

lemmas rx_simps = MatchString_matched matched_Then matched_Many1_Class matched_Lit

lemma dash_comma: "\<not> is_word CHR ''-''" "\<not> is_word CHR '',''" "\<not> is_digit CHR ''-''" "\<not> is_digit CHR '',''"
  by code_simp+

lemma digit_word: "is_digit c \<Longrightarrow> is_word c"
  by (auto simp: is_digit_def decimal_def is_word_def Let_def split: if_split_asm)

lemma list_form:
  "MatchString messagesToIgnoreListRx s \<longleftrightarrow> (\<exists>a b. s = a @ CHR '','' # b \<and> a \<noteq> [] \<and> b \<noteq> [] \<and>
     list_all (\<lambda>c. is_word c \<or> c = CHR ''-'') a \<and> list_all (\<lambda>c. is_word c \<or> c = CHR '','' \<or> c = CHR ''-'') b)"
  by (auto simp: messagesToIgnoreListRx_def rx_simps)

lemma span_form:
  "MatchString messagesToIgnoreSpanRx s \<longleftrightarrow> (\<exists>a b. s = a @ CHR ''-'' # b \<and> a \<noteq> [] \<and> b \<noteq> [] \<and>
     list_all is_digit a \<and> list_all is_digit b)"
  by (auto simp: messagesToIgnoreSpanRx_def rx_simps)

text \<open>A single message is a number or has exactly four dashes.\<close>

lemma count_dashes: "list_all is_word a \<Longrightarrow> count_list a CHR ''-'' = 0" "list_all is_digit a \<Longrightarrow> count_list a CHR ''-'' = 0"
  using dash_comma by (induction a) auto

lemma single_dashes:
  assumes "MatchString messagesToIgnoreSingleRx s"
  shows "list_all is_digit s \<or> count_list s CHR ''-'' = 4"
  using assms by (auto simp: messagesToIgnoreSingleRx_def Let_def rx_simps count_dashes)

lemma no_comma: "list_all is_digit a \<Longrightarrow> CHR '','' \<notin> set a" "list_all is_digit a \<Longrightarrow> CHR ''-'' \<notin> set a"
  using dash_comma by (auto simp: list_all_iff)

lemma span_only:
  assumes "list_all is_digit a" and "list_all is_digit b"
  shows "\<not> MatchString messagesToIgnoreListRx (a @ CHR ''-'' # b)" "\<not> MatchString messagesToIgnoreSingleRx (a @ CHR ''-'' # b)"
proof -
  have "CHR '','' \<notin> set (a @ CHR ''-'' # b)" using no_comma(1) assms by simp
  then show "\<not> MatchString messagesToIgnoreListRx (a @ CHR ''-'' # b)" unfolding list_form by (metis in_set_conv_decomp)
  have "count_list (a @ CHR ''-'' # b) CHR ''-'' = 1" using assms by (simp add: count_dashes)
  then show "\<not> MatchString messagesToIgnoreSingleRx (a @ CHR ''-'' # b)"
    using single_dashes[of "a @ CHR ''-'' # b"] dash_comma by auto
qed

section \<open>The loop\<close>

lemma sint_small: "n < 2 ^ 63 \<Longrightarrow> sint (of_nat n :: 64 word) = int n"
  by (simp add: signed_of_nat signed_take_bit_int_eq_self)

lemma spanLoop_run:
  assumes "t < 2 ^ 63 - 1" and "f \<le> Suc t"
  shows "spanLoop (of_nat f) (of_nat t) acc = Some (acc @ map nat_digits [f..<Suc t])"
  using assms(2)
proof (induction "Suc t - f" arbitrary: f acc)
  case 0
  then have "f = Suc t" by simp
  moreover have "sint (of_nat (Suc t) :: 64 word) = int (Suc t)" "sint (of_nat t :: 64 word) = int t"
    using assms(1) by (intro sint_small; simp)+
  ultimately show ?case by (subst spanLoop.simps) simp
next
  case (Suc k)
  then have ft: "f \<le> t" by simp
  have s: "sint (of_nat f :: 64 word) = int f" "sint (of_nat t :: 64 word) = int t"
    using assms(1) ft by (intro sint_small; simp)+
  have "spanLoop (of_nat f) (of_nat t) acc = spanLoop (of_nat (Suc f)) (of_nat t) (acc @ [nat_digits f])"
    using ft s by (subst spanLoop.simps) (simp add: int_digits_def add.commute)
  also have "\<dots> = Some (acc @ [nat_digits f] @ map nat_digits [Suc f..<Suc t])"
    using Suc.hyps(1)[of "Suc f" "acc @ [nat_digits f]"] Suc.hyps(2) ft by simp
  also have "\<dots> = Some (acc @ map nat_digits (f # [Suc f..<Suc t]))" by simp
  also have "f # [Suc f..<Suc t] = [f..<Suc t]" using ft by (simp add: upt_conv_Cons)
  finally show ?case .
qed

text \<open>With the greatest integer as its end the loop does not stop: the counter wraps around below it.\<close>

lemma sint_max: "sint (x :: 64 word) \<le> sint (of_nat (2 ^ 63 - 1) :: 64 word)"
proof -
  have "sint (of_nat (2 ^ 63 - 1) :: 64 word) = int (2 ^ 63 - 1)" by (rule sint_small) simp
  then show ?thesis using sint_lt[of x] by simp
qed

lemma spanLoop_result: "spanLoop i t acc = Some ys \<Longrightarrow> t \<noteq> of_nat (2 ^ 63 - 1)"
proof (rule spanLoop.raw_induct[where P = "\<lambda>i t acc ys. t \<noteq> of_nat (2 ^ 63 - 1)"])
  fix loop and i t :: "64 word" and acc ys
  assume loop: "\<And>i t acc ys. loop i t acc = Some ys \<Longrightarrow> t \<noteq> (of_nat (2 ^ 63 - 1) :: 64 word)"
    and run: "(if sint i \<le> sint t then loop (i + 1) t (acc @ [int_digits (sint i)]) else Some acc) = Some ys"
  show "t \<noteq> of_nat (2 ^ 63 - 1)"
  proof
    assume t: "t = of_nat (2 ^ 63 - 1)"
    then have "sint i \<le> sint t" using sint_max[of i] by simp
    with run loop t show False by auto
  qed
qed

lemma spanLoop_endless: "spanLoop i (of_nat (2 ^ 63 - 1)) acc = None"
  using spanLoop_result[of i "of_nat (2 ^ 63 - 1)" acc] by (cases "spanLoop i (of_nat (2 ^ 63 - 1)) acc") blast+

section \<open>Spans\<close>

lemma span_parts:
  assumes "list_all is_digit a"
  shows "takeWhile (\<lambda>c. c \<noteq> CHR ''-'') (a @ CHR ''-'' # b) = a" "tl (dropWhile (\<lambda>c. c \<noteq> CHR ''-'') (a @ CHR ''-'' # b)) = b"
  using no_comma(2)[OF assms] by (auto simp: takeWhile_tail dropWhile_append)

lemma Atoi_span:
  "a \<noteq> [] \<Longrightarrow> list_all is_digit a \<Longrightarrow> fst (Atoi a) = int (min (digits_value a) (2 ^ 63 - 1))"
  by (rule Atoi_digits) (simp_all add: is_digit_def list_all_iff)

text \<open>The ends of a span are cut at the greatest integer.\<close>

abbreviation clamped :: "string \<Rightarrow> nat" where "clamped s \<equiv> min (digits_value s) (2 ^ 63 - 1)"

lemma span_capacity:
  assumes "f < 2 ^ 63" and "t < 2 ^ 63"
  shows "sint (of_nat t - of_nat f :: 64 word) = int t - int f"
proof -
  have "int t - int f < 2 ^ 63" "- (2 ^ 63) \<le> int t - int f" using assms by simp_all
  then have "sint (of_int (int t - int f) :: 64 word) = int t - int f"
    by (simp add: signed_of_int signed_take_bit_int_eq_self del: of_int_diff)
  then show ?thesis by simp
qed

lemma parse_span:
  assumes "a \<noteq> []" "b \<noteq> []" "list_all is_digit a" "list_all is_digit b"
  shows "cli_parseMessagesToIgnore (a @ CHR ''-'' # b) =
    bindR (makeStrings (int (clamped b) - int (clamped a))) (\<lambda>offsets.
      case spanLoop (of_nat (clamped a)) (of_nat (clamped b)) offsets of
        None \<Rightarrow> Inl (PanicMsg ''runtime: out of memory'' []) | Some offsets \<Rightarrow> Inr (Inr offsets))"
proof -
  have "MatchString messagesToIgnoreSpanRx (a @ CHR ''-'' # b)" using assms span_form by blast
  moreover have "clamped a < 2 ^ 63" "clamped b < 2 ^ 63" by simp_all
  ultimately show ?thesis
    using span_only[OF assms(3,4)] span_capacity[of "clamped a" "clamped b"]
    by (simp add: cli_parseMessagesToIgnore_def Let_def span_parts[OF assms(3)] Atoi_span assms del: of_nat_min of_nat_diff)
qed

lemma span_run:
  assumes "f \<le> 2 ^ 63 - 1" and "t \<le> 2 ^ 63 - 1"
  shows "bindR (makeStrings (int t - int f)) (\<lambda>offsets. case spanLoop (of_nat f) (of_nat t) offsets of
      None \<Rightarrow> Inl (PanicMsg ''runtime: out of memory'' []) | Some offsets \<Rightarrow> Inr (Inr offsets)) =
    (if t < f \<or> t - f > 2 ^ 44 then Inl (PanicMsg ''runtime error: makeslice: cap out of range'' [])
     else if t = 2 ^ 63 - 1 then Inl (PanicMsg ''runtime: out of memory'' [])
     else Inr (Inr (map nat_digits [f..<Suc t])))"
proof (cases "t < f \<or> t - f > 2 ^ 44")
  case True
  then have "makeStrings (int t - int f) = Inl (PanicMsg ''runtime error: makeslice: cap out of range'' [])"
    by (auto simp: makeStrings_def maxStrings_def)
  with True show ?thesis by (simp only: bindR_simps if_True)
next
  case False
  then have make: "makeStrings (int t - int f) = Inr []" by (auto simp: makeStrings_def maxStrings_def)
  show ?thesis
  proof (cases "t = 2 ^ 63 - 1")
    case True
    with False make show ?thesis by (simp only: bindR_simps if_False if_True spanLoop_endless option.case simp_thms)
  next
    case t: False
    with assms(2) False have "spanLoop (of_nat f) (of_nat t) [] = Some (map nat_digits [f..<Suc t])"
      using spanLoop_run[of t f "[]"] by simp
    with False make t show ?thesis by (simp only: bindR_simps if_False option.case)
  qed
qed

lemma parse_span_cases:
  assumes "a \<noteq> []" "b \<noteq> []" "list_all is_digit a" "list_all is_digit b"
    and "f = clamped a" and "t = clamped b"
  shows "cli_parseMessagesToIgnore (a @ CHR ''-'' # b) =
    (if t < f \<or> t - f > 2 ^ 44 then Inl (PanicMsg ''runtime error: makeslice: cap out of range'' [])
     else if t = 2 ^ 63 - 1 then Inl (PanicMsg ''runtime: out of memory'' [])
     else Inr (Inr (map nat_digits [f..<Suc t])))"
  unfolding parse_span[OF assms(1-4)] assms(5,6) by (rule span_run) (rule min.cobounded2)+

lemma parse_span_ok:
  assumes "a \<noteq> []" "b \<noteq> []" "list_all is_digit a" "list_all is_digit b"
    and "digits_value a \<le> digits_value b" and "digits_value b < 2 ^ 63 - 1" and "digits_value b - digits_value a \<le> 2 ^ 44"
  shows "cli_parseMessagesToIgnore (a @ CHR ''-'' # b) = Inr (Inr (map nat_digits [digits_value a..<Suc (digits_value b)]))"
proof -
  have "clamped a = digits_value a" "clamped b = digits_value b" using assms(5,6) by simp_all
  moreover have "makeStrings (int (digits_value b) - int (digits_value a)) = Inr []"
    using assms(5,7) by (simp add: makeStrings_def maxStrings_def)
  ultimately show ?thesis
    using spanLoop_run[of "digits_value b" "digits_value a" "[]"] assms(5,6) by (simp add: parse_span[OF assms(1-4)])
qed

section \<open>Properties\<close>

text \<open>
  What the argument \<open>from-to\<close> means, for all texts of digits: with the ends cut at the greatest integer of 64 bits,
  it is every offset from the first to the last, in order and written in decimal, whenever the last is not less than
  the first, not the greatest integer and at most \<open>2 ^ 44\<close> away; the loop then ends.  A reversed or a longer span makes
  the tool crash instead of reporting a wrong argument, and with the greatest integer as its end the loop never stops.
\<close>

theorem span_argument:
  assumes "a \<noteq> []" "b \<noteq> []" "list_all is_digit a" "list_all is_digit b"
    and "f = min (digits_value a) (2 ^ 63 - 1)" "t = min (digits_value b) (2 ^ 63 - 1)"
  shows "cli_parseMessagesToIgnore (a @ ''-'' @ b) =
    (if t < f \<or> t - f > 2 ^ 44 then Inl (PanicMsg ''runtime error: makeslice: cap out of range'' [])
     else if t = 2 ^ 63 - 1 then Inl (PanicMsg ''runtime: out of memory'' [])
     else Inr (Inr (map nat_digits [f..<Suc t])))"
  using parse_span_cases[OF assms] by (simp only: append_Cons append_Nil)

theorem span_argument_witness:
  "cli_parseMessagesToIgnore ''9-11'' = Inr (Inr [''9'', ''10'', ''11'']) \<and>
   cli_parseMessagesToIgnore ''5-3'' = Inl (PanicMsg ''runtime error: makeslice: cap out of range'' [])"
proof -
  have d: "list_all is_digit ''9''" "list_all is_digit ''11''" "list_all is_digit ''5''" "list_all is_digit ''3''"
    "9 = min (digits_value ''9'') (2 ^ 63 - 1)" "11 = min (digits_value ''11'') (2 ^ 63 - 1)"
    "5 = min (digits_value ''5'') (2 ^ 63 - 1)" "3 = min (digits_value ''3'') (2 ^ 63 - 1)"
    by (simp_all add: is_digit_def decimal_def digits_value_def Let_def)
  have "[9..<Suc 11] = [9, 10, 11]" "nat_digits 9 = ''9''" "nat_digits 10 = ''10''" "nat_digits 11 = ''11''"
    by (simp add: upt_rec) code_simp+
  then show ?thesis
    using span_argument[OF _ _ d(1,2,5,6)] span_argument[OF _ _ d(3,4,7,8)] by (simp del: upt_Suc)
qed

end
