(* ===== verification/Cli.thy ===== *)
theory Cli
  imports Exported Cli_Text Http_Api Dkg_Keyring "HOL-Library.Char_ord" "HOL-Library.List_Lexorder"
begin

text \<open>
  The command line client of a node (\<open>src/cmd/dc4bc_cli\<close>): the answers it expects, its HTTP requests and all of its
  commands.

  The connection to the node, with the bodies \<open>'b\<close> of its answers, and the JSON encoding of requests and answers are
  the parameter \<open>cli_env\<close>; the hash functions and the clock are fields of it as well.  The flags, which the package
  \<open>cobra\<close> reads, are \<open>cli_flags\<close>.
\<close>

section \<open>Answers\<close>

text \<open>A JSON value of unknown type, as Go decodes it into \<open>interface{}\<close>.\<close>

datatype iface = INil | IBool bool | IString string | IFloat float64 | IList "iface list" | IMap "(string, iface) gomap"

record BaseResponse =
  br_ErrorMessage :: string
  br_Result :: iface

record OperationsResponse =
  or_ErrorMessage :: string
  or_Result :: "(string, Operation option) gomap"

record FSMDumpResponse =
  fd_ErrorMessage :: string
  fd_Result :: "FSMDump option"

record SignaturesResponse =
  sr_ErrorMessage :: string
  sr_Result :: "SignaturesStorage option"

record BatchesResponse =
  bs_ErrorMessage :: string
  bs_Result :: "(string, string list) gomap"

record SignatureResponse =
  sg_ErrorMessage :: string
  sg_Result :: "ReconstructedSignature list"

record OperationResponse =
  on_ErrorMessage :: string
  on_Result :: "Operation option"

section \<open>The environment\<close>

record ('n, 'b) cli_env =
  ce_os :: os_env
  ce_Get :: "string \<Rightarrow> ('n, error + 'b) op"
  ce_Post :: "string \<Rightarrow> string \<Rightarrow> bytes \<Rightarrow> ('n, error + 'b) op"
  ce_base :: "'b \<Rightarrow> error + BaseResponse"
  ce_operations :: "'b \<Rightarrow> error + OperationsResponse"
  ce_dump :: "'b \<Rightarrow> error + FSMDumpResponse"
  ce_signatures :: "'b \<Rightarrow> error + SignaturesResponse"
  ce_batches :: "'b \<Rightarrow> error + BatchesResponse"
  ce_signature :: "'b \<Rightarrow> error + SignatureResponse"
  ce_operation :: "'b \<Rightarrow> error + OperationResponse"
  ce_Unmarshal_invitation :: "bytes \<Rightarrow> error + SigningPartialSignsParticipantInvitationsResponse"
  ce_tasksJSON :: "SigningTask list \<Rightarrow> bytes"
  ce_Unmarshal_proposal :: "bytes \<Rightarrow> error + SignatureProposalParticipantsListRequest"
  ce_Unmarshal_reDKG :: "bytes \<Rightarrow> error + ReDKG"
  ce_Marshal_operation :: "Operation \<Rightarrow> error + bytes"
  ce_Marshal_exported :: "ExportedSignatures \<Rightarrow> error + bytes"
  ce_Marshal_proposal :: "SignatureProposalParticipantsListRequest \<Rightarrow> error + bytes"
  ce_Marshal_offset :: "64 word \<Rightarrow> error + bytes"
  ce_Marshal_operationID :: "string \<Rightarrow> error + bytes"
  ce_Marshal_sign :: "ProposeSignMessageForm \<Rightarrow> error + bytes"
  ce_Marshal_batch :: "ProposeSignBatchMessagesForm \<Rightarrow> error + bytes"
  ce_Marshal_baked :: "ProposeSignBakedMessagesForm \<Rightarrow> error + bytes"
  ce_Marshal_reset :: "ResetStateForm \<Rightarrow> error + bytes"
  ce_md5 :: "bytes \<Rightarrow> bytes"
  ce_sha1 :: "bytes \<Rightarrow> bytes"
  ce_sha256 :: "bytes \<Rightarrow> bytes"
  ce_now :: time
  ce_unix :: string
  ce_uint64 :: "float64 \<Rightarrow> 64 word"

record cli_flags =
  cl_listenAddr :: "error + string"
  cl_folder :: "error + string"
  cl_printOnly :: "error + bool"
  cl_useOffset :: bool
  cl_messagesToIgnore :: string
  cl_newStateDBDSN :: string
  cl_kafkaConsumerGroup :: string

section \<open>Requests\<close>

text \<open>The part that all requests share: the call, reading the body and decoding it.\<close>

definition fetch ::
  "string \<Rightarrow> string \<Rightarrow> ('b \<Rightarrow> error + 'a) \<Rightarrow> ('n, error + 'b) op \<Rightarrow> ('n, 'a) tool"
where
  "fetch failed unread unmarshal call =
    bindM (wrapM failed [] (onNode call)) (\<lambda>resp.
    bindM (wrapM unread [] (liftE resp)) (\<lambda>responseBody.
    wrapM ''failed to unmarshal response:  %w'' [] (liftE (unmarshal responseBody))))"

definition getOperationsRequest :: "('n, 'b) cli_env \<Rightarrow> string \<Rightarrow> ('n, OperationsResponse) tool" where
  "getOperationsRequest env host = fetch ''failed to get operations: %w'' ''failed to read body: %w'' (ce_operations env)
    (ce_Get env (''http://'' @ host @ ''/getOperations''))"

definition getBatchesRequest :: "('n, 'b) cli_env \<Rightarrow> string \<Rightarrow> string \<Rightarrow> ('n, BatchesResponse) tool" where
  "getBatchesRequest env host dkgID = fetch ''failed to get batches: %w'' ''failed to read body: %w'' (ce_batches env)
    (ce_Get env (''http://'' @ host @ ''/getBatches?dkgID='' @ dkgID))"

definition getSignatureRequest :: "('n, 'b) cli_env \<Rightarrow> string \<Rightarrow> string \<Rightarrow> string \<Rightarrow> ('n, SignatureResponse) tool" where
  "getSignatureRequest env host dkgID dataHash =
    fetch ''failed to get signatures: %w'' ''failed to read body: %w'' (ce_signature env)
      (ce_Get env (''http://'' @ host @ ''/getSignatureByID?dkgID='' @ dkgID @ ''&id='' @ dataHash))"

definition getOperationRequest :: "('n, 'b) cli_env \<Rightarrow> string \<Rightarrow> string \<Rightarrow> ('n, OperationResponse) tool" where
  "getOperationRequest env host operationID =
    fetch ''failed to get operation: %w'' ''failed to read body: %w'' (ce_operation env)
      (ce_Get env (''http://'' @ host @ ''/getOperation?operationID='' @ operationID))"

definition getFSMDumpRequest :: "('n, 'b) cli_env \<Rightarrow> string \<Rightarrow> string \<Rightarrow> ('n, FSMDumpResponse) tool" where
  "getFSMDumpRequest env host dkgID = fetch ''failed to get FSM dump: %w'' ''failed to read body: %w'' (ce_dump env)
    (ce_Get env (''http://'' @ host @ ''/getFSMDump?dkgID='' @ dkgID))"

definition rawGetRequest :: "('n, 'b) cli_env \<Rightarrow> string \<Rightarrow> ('n, BaseResponse) tool" where
  "rawGetRequest env url = fetch ''failed to get operations for node %w'' ''failed to read body %w'' (ce_base env) (ce_Get env url)"

definition rawPostRequest :: "('n, 'b) cli_env \<Rightarrow> string \<Rightarrow> string \<Rightarrow> bytes \<Rightarrow> ('n, BaseResponse) tool" where
  "rawPostRequest env url contentType data =
    fetch ''failed to send HTTP request: %w'' ''failed to read body %w'' (ce_base env) (ce_Post env url contentType data)"

text \<open>Later batches overwrite the messages of earlier ones.\<close>

definition flattenSignatures :: "SignaturesStorage \<Rightarrow> (string, ReconstructedSignature list) gomap" where
  "flattenSignatures result =
    fold (\<lambda>(_, batchSignatures) signatures. fold (\<lambda>(signID, s). AList.update signID s) (entries batchSignatures) signatures) result []"

definition getSignatures_cli ::
  "('n, 'b) cli_env \<Rightarrow> string \<Rightarrow> string \<Rightarrow> ('n, (string, ReconstructedSignature list) gomap) tool"
where
  "getSignatures_cli env host dkgID =
    bindM (fetch ''failed to get signatures: %w'' ''failed to read body: %w'' (ce_signatures env)
      (ce_Get env (''http://'' @ host @ ''/getSignatures?dkgID='' @ dkgID))) (\<lambda>response.
    if sr_ErrorMessage response \<noteq> ''''
    then failM (Errorf ''failed to get signatures: %s'' [AStr (sr_ErrorMessage response)])
    else retM (flattenSignatures (entries (sr_Result response))))"

text \<open>The test that follows a request: an answer with a message is an error.\<close>

definition checked :: "string \<Rightarrow> ('a \<Rightarrow> string) \<Rightarrow> ('n, 'a) tool \<Rightarrow> ('n, 'a) tool" where
  "checked msg field m =
    bindM m (\<lambda>resp. if field resp \<noteq> '''' then failM (Errorf msg [AStr (field resp)]) else retM resp)"

definition listenAddr :: "cli_flags \<Rightarrow> ('n, string) tool" where
  "listenAddr F = wrapM ''failed to read configuration:  %w'' [] (liftE (cl_listenAddr F))"

text \<open>The type assertions \<open>resp.Result.(T)\<close> panic on another type.\<close>

definition wrong_type :: panic where "wrong_type = PanicMsg ''interface conversion'' []"

definition as_string :: "iface \<Rightarrow> string go" where
  "as_string x = (case x of IString s \<Rightarrow> Inr s | _ \<Rightarrow> Inl wrong_type)"

definition as_float :: "iface \<Rightarrow> float64 go" where
  "as_float x = (case x of IFloat f \<Rightarrow> Inr f | _ \<Rightarrow> Inl wrong_type)"

definition as_map :: "iface \<Rightarrow> (string, iface) gomap go" where
  "as_map x = (case x of IMap m \<Rightarrow> Inr m | _ \<Rightarrow> Inl wrong_type)"

text \<open>\<open>strings.Trim\<close> with a space and a line break, and \<open>strings.Contains\<close>.\<close>

definition trimmed :: "string \<Rightarrow> string" where
  "trimmed s = (let blank = (\<lambda>c. c = CHR '' '' \<or> c = CHR 0x0A) in rev (dropWhile blank (rev (dropWhile blank s))))"

fun Contains :: "string \<Rightarrow> string \<Rightarrow> bool" where
  "Contains [] sub = (sub = [])"
| "Contains (c # s) sub = (HasPrefix (c # s) sub \<or> Contains s sub)"

section \<open>Operations\<close>

definition cli_getShortOperationDescription :: "string \<Rightarrow> string" where
  "cli_getShortOperationDescription operationType =
    (if operationType = StateAwaitParticipantsConfirmations then ''confirm participation in the new DKG round''
     else if operationType = StateDkgCommitsAwaitConfirmations then ''send commits for the DKG round''
     else if operationType = StateDkgDealsAwaitConfirmations then ''send deals for the DKG round''
     else if operationType = StateDkgResponsesAwaitConfirmations then ''send responses for the DKG round''
     else if operationType = StateDkgMasterKeyAwaitConfirmations then ''reconstruct the public key and broadcast it''
     else if operationType = StateSigningAwaitPartialSigns then ''send your partial sign for the message''
     else if operationType = StateSigningPartialSignsCollected then ''recover full signature for the message''
     else if operationType = ReinitDKG then ''reinit DKG''
     else ''unknown operation'')"

definition getOperationPathCommand :: "('n, 'b) cli_env \<Rightarrow> cli_flags \<Rightarrow> string \<Rightarrow> ('n, unit) tool" where
  "getOperationPathCommand env F operationID =
    bindM (listenAddr F) (\<lambda>host.
    bindM (wrapM ''failed to read configuration: %w'' [] (liftE (cl_folder F))) (\<lambda>folder.
    bindM (checked ''failed to get operations: %s'' on_ErrorMessage
      (wrapM ''failed to get operations: %w'' [] (getOperationRequest env host operationID))) (\<lambda>operationResponse.
    bindM (liftG (deref (on_Result operationResponse))) (\<lambda>operation.
    bindM (liftG (Operation_Filename (ce_Unmarshal_invitation env) operation)) (\<lambda>filename.
    let operationPath = os_Join (ce_os env) folder (filename @ ''_request.json'') in
    bindM (wrapM ''failed to open file: %w'' [] (OpenFile (ce_os env) operationPath)) (\<lambda>_.
    bindM (wrapM ''failed to get operations: %w'' [] (liftE (ce_Marshal_operation env operation))) (\<lambda>operationBytes.
    bindM (wrapM ''failed to write file: %w'' [] (Write (ce_os env) operationPath operationBytes)) (\<lambda>_.
    tool_printf ''json file was saved to: %s'' [AStr operationPath]))))))))"

definition approveDKGParticipationCommand :: "('n, 'b) cli_env \<Rightarrow> cli_flags \<Rightarrow> string \<Rightarrow> ('n, unit) tool" where
  "approveDKGParticipationCommand env F operationID =
    bindM (listenAddr F) (\<lambda>host.
    bindM (wrapM ''failed to marshal payload:  %w'' [] (liftE (ce_Marshal_operationID env operationID))) (\<lambda>payloadBz.
    bindM (checked ''failed to approve participation: %v'' br_ErrorMessage
      (wrapM ''failed to approve participation: %w'' []
        (rawPostRequest env (''http://'' @ host @ ''/approveDKGParticipation'') ''application/json'' payloadBz))) (\<lambda>_.
    retM ())))"

definition separator :: string where "separator = ''-----------------------------------------------------''"

text \<open>What is shown of an operation.\<close>

definition showOperation :: "('n, 'b) cli_env \<Rightarrow> nat \<Rightarrow> Operation \<Rightarrow> ('n, unit) tool" where
  "showOperation env actionId operation =
    bindM (tool_printf '' %d)'' [AInt (int actionId)]) (\<lambda>_.
    bindM (tool_printf ''DKG round ID: %s'' [AStr (op_DKGIdentifier operation)]) (\<lambda>_.
    bindM (tool_printf ''Operation ID: %s'' [AStr (op_ID operation)]) (\<lambda>_.
    bindM (tool_printf ''Description: %s'' [AStr (cli_getShortOperationDescription (op_Type operation))]) (\<lambda>_.
    bindM (if IsSigningState (Some operation)
           then (case ce_Unmarshal_invitation env (op_Payload operation) of
                   Inl e \<Rightarrow> failM (errorsNew ''failed to unmarshal operation payload'')
                 | Inr payload \<Rightarrow>
                     bindM (tool_printf ''Hash of the data to sign - %s''
                       [AStr (hex_EncodeToString (ce_sha256 env (ce_tasksJSON env (pir_SrcPayload payload))))]) (\<lambda>_.
                     tool_printf ''Signing ID: %s'' [AStr (pir_BatchID payload)]))
           else retM ()) (\<lambda>_.
    bindM (if op_Type operation = ReinitDKG
           then tool_printf ''Hash of the reinit DKG message - %s'' [AStr (hex_EncodeToString (op_ExtraData operation))]
           else retM ()) (\<lambda>_.
    tool_printf separator []))))))"

fun listOperations ::
  "('n, 'b) cli_env \<Rightarrow> nat \<Rightarrow> (string, Operation option) gomap \<Rightarrow> (string, string) gomap \<Rightarrow> ('n, (string, string) gomap) tool"
where
  "listOperations env actionId [] actionsMap = retM actionsMap"
| "listOperations env actionId ((operationId, operation) # result) actionsMap =
    bindM (liftG (deref operation)) (\<lambda>operation.
    bindM (showOperation env actionId operation) (\<lambda>_.
    listOperations env (actionId + 1) result (AList.update (nat_digits actionId) operationId actionsMap)))"

text \<open>
  The loop over the lines that are typed: unknown numbers are asked for again.  The error of the command that is run is
  printed by the package \<open>cobra\<close> and not returned.
\<close>

definition runSelected ::
  "('n, 'b) cli_env \<Rightarrow> cli_flags \<Rightarrow> (string, Operation option) gomap \<Rightarrow> string \<Rightarrow> ('n, unit) tool"
where
  "runSelected env F result operationId =
    bindM (tool_printf ''Processing operation %s'' [AStr operationId]) (\<lambda>_.
    bindM (liftG (deref (case map_of result operationId of None \<Rightarrow> None | Some x \<Rightarrow> x))) (\<lambda>operation.
    bindM (attemptM (if op_Type operation = StateAwaitParticipantsConfirmations
      then approveDKGParticipationCommand env F operationId
      else getOperationPathCommand env F operationId)) (\<lambda>_.
    retM ())))"

fun selectOperation ::
  "('n, 'b) cli_env \<Rightarrow> cli_flags \<Rightarrow> (string, Operation option) gomap \<Rightarrow> (string, string) gomap \<Rightarrow> string list \<Rightarrow> ('n, unit) tool"
where
  "selectOperation env F result actionsMap [] = updateM (\<lambda>w. w\<lparr>tw_stdin := []\<rparr>)"
| "selectOperation env F result actionsMap (line # lines) =
    (case map_of actionsMap line of
       Some operationId \<Rightarrow>
         bindM (updateM (\<lambda>w. w\<lparr>tw_stdin := lines\<rparr>)) (\<lambda>_. runSelected env F result operationId)
     | None \<Rightarrow>
         bindM (tool_printf ''Unknown operation action'' []) (\<lambda>_. selectOperation env F result actionsMap lines))"

definition getOperationsCommand :: "('n, 'b) cli_env \<Rightarrow> cli_flags \<Rightarrow> ('n, unit) tool" where
  "getOperationsCommand env F =
    bindM (listenAddr F) (\<lambda>host.
    bindM (checked ''failed to get operations: %s'' or_ErrorMessage
      (wrapM ''failed to get operations: %w'' [] (getOperationsRequest env host))) (\<lambda>operations.
    if or_Result operations = [] then tool_printf ''The are no available operations yet'' []
    else
    bindM (tool_printf ''Please, select operation:'' []) (\<lambda>_.
    bindM (tool_printf separator []) (\<lambda>_.
    bindM (listOperations env 1 (or_Result operations) []) (\<lambda>actionsMap.
    bindM (tool_printf ''Select operation and press Enter. Ctrl+C for cancel'' []) (\<lambda>_.
    bindM (readM tw_stdin) (\<lambda>input.
    selectOperation env F (or_Result operations) actionsMap input)))))))"

definition readOperationResultCommand :: "('n, 'b) cli_env \<Rightarrow> cli_flags \<Rightarrow> string \<Rightarrow> ('n, unit) tool" where
  "readOperationResultCommand env F path =
    bindM (listenAddr F) (\<lambda>host.
    bindM (wrapM ''failed to read Operation file: %w'' [] (ReadFile (ce_os env) (trimmed path))) (\<lambda>operationBz.
    bindM (checked ''failed to handle processed operation: %v'' br_ErrorMessage
      (wrapM ''failed to handle processed operation: %w'' []
        (rawPostRequest env (''http://'' @ host @ ''/handleProcessedOperationJSON'') ''application/json'' operationBz))) (\<lambda>_.
    retM ())))"

section \<open>Signatures\<close>

definition getBatchesCommand :: "('n, 'b) cli_env \<Rightarrow> cli_flags \<Rightarrow> string \<Rightarrow> ('n, unit) tool" where
  "getBatchesCommand env F dkgID =
    bindM (listenAddr F) (\<lambda>host.
    bindM (checked ''failed to get batches: %s'' bs_ErrorMessage
      (wrapM ''failed to get batches: %w'' [] (getBatchesRequest env host dkgID))) (\<lambda>batches.
    if bs_Result batches = [] then tool_printf ''No batches found for dkgID %s'' [AStr dkgID]
    else forM (\<lambda>(batchID, signatures).
      tool_printf ''Batch ID %s contains %d signatures'' [AStr batchID, AInt (int (length signatures))]) (bs_Result batches)))"

text \<open>Printing every signature of a message; the first one gives the name of the file.\<close>

definition printSignatures :: "string \<times> ReconstructedSignature list \<Rightarrow> ('n, unit) tool" where
  "printSignatures = (\<lambda>(sigID, signature).
    bindM (tool_printf ''Signing ID: %s'' [AStr sigID]) (\<lambda>_.
    bindM (liftG (slice_at signature 0)) (\<lambda>s.
    bindM (tool_printf ''%s'' [AStr (rs_File s)]) (\<lambda>_.
    forM (\<lambda>participantSig.
      bindM (tool_printf ''DKG round ID: %s'' [AStr (rs_DKGRoundID participantSig)]) (\<lambda>_.
      bindM (tool_printf ''Participant: %s'' [AStr (rs_Username participantSig)]) (\<lambda>_.
      tool_printf ''Reconstructed signature for the data: %s''
        [AStr (base64_EncodeToString (rs_Signature participantSig))]))) signature))))"

definition exportSignaturesCommand :: "('n, 'b) cli_env \<Rightarrow> cli_flags \<Rightarrow> string \<Rightarrow> ('n, unit) tool" where
  "exportSignaturesCommand env F dkgID =
    bindM (listenAddr F) (\<lambda>host.
    bindM (wrapM ''failed to read flagJSONFilesFolder:  %w'' [] (liftE (cl_folder F))) (\<lambda>jsonOutputFolder.
    bindM (wrapM ''failed to read flagPrintFullSignaturesInfo:  %w'' [] (liftE (cl_printOnly F))) (\<lambda>printOnly.
    bindM (wrapM ''failed to get signatures: %w'' [] (getSignatures_cli env host dkgID)) (\<lambda>signatures.
    if signatures = [] then tool_printf ''No signatures found for dkgID %s'' [AStr dkgID]
    else if printOnly then forM printSignatures signatures
    else
    bindM (liftG (slice5 dkgID)) (\<lambda>d.
    let filename = ''dkg_signatures_dump_'' @ d @ ''.json''; path = os_Join (ce_os env) jsonOutputFolder filename in
    bindM (wrapM ''failed to open file: %w'' [] (OpenFile (ce_os env) path)) (\<lambda>_.
    bindM (wrapM ''failed to prepare signatures for dump: %w'' [] (liftE (PrepareSignaturesToDump signatures))) (\<lambda>prepared.
    bindM (wrapM ''failed to marshal result: %w'' [] (liftE (ce_Marshal_exported env prepared))) (\<lambda>bz.
    bindM (wrapM ''failed to write file: %w'' [] (Write (ce_os env) path bz)) (\<lambda>_.
    tool_printf ''json file was saved to: %s'' [AStr path])))))))))"

definition requestSignatures :: "('n, 'b) cli_env \<Rightarrow> cli_flags \<Rightarrow> string \<Rightarrow> string \<Rightarrow> ('n, SignatureResponse) tool" where
  "requestSignatures env F dkgID batchID =
    bindM (listenAddr F) (\<lambda>host.
    checked ''failed to get signatures: %s'' sg_ErrorMessage
      (wrapM ''failed to get signatures: %w'' [] (getSignatureRequest env host dkgID batchID)))"

definition getSignatureCommand :: "('n, 'b) cli_env \<Rightarrow> cli_flags \<Rightarrow> string \<Rightarrow> string \<Rightarrow> ('n, unit) tool" where
  "getSignatureCommand env F dkgID batchID =
    bindM (requestSignatures env F dkgID batchID) (\<lambda>signatures.
    forM (\<lambda>participantSig.
      bindM (tool_printf ''Participant: %s'' [AStr (rs_Username participantSig)]) (\<lambda>_.
      tool_printf ''Reconstructed signature for the data: %s''
        [AStr (base64_EncodeToString (rs_Signature participantSig))])) (sg_Result signatures))"

definition getSignatureDataCommand :: "('n, 'b) cli_env \<Rightarrow> cli_flags \<Rightarrow> string \<Rightarrow> string \<Rightarrow> ('n, unit) tool" where
  "getSignatureDataCommand env F dkgID batchID =
    bindM (requestSignatures env F dkgID batchID) (\<lambda>signatures.
    case sg_Result signatures of
      [] \<Rightarrow> retM ()
    | s # _ \<Rightarrow> tool_printf ''%s'' [AStr (map (char_of \<circ> unat) (rs_SrcPayload s))])"

section \<open>The state of the node\<close>

definition getPubKeyCommand :: "('n, 'b) cli_env \<Rightarrow> cli_flags \<Rightarrow> ('n, unit) tool" where
  "getPubKeyCommand env F =
    bindM (listenAddr F) (\<lambda>host.
    bindM (checked ''failed to get node's pubkey: %v'' br_ErrorMessage
      (wrapM ''failed to get node's pubkey: %w'' [] (rawGetRequest env (''http://'' @ host @ ''/getPubKey'')))) (\<lambda>resp.
    bindM (liftG (as_string (br_Result resp))) (\<lambda>s. tool_printf ''%s'' [AStr s])))"

definition saveOffsetCommand :: "('n, 'b) cli_env \<Rightarrow> cli_flags \<Rightarrow> string \<Rightarrow> ('n, unit) tool" where
  "saveOffsetCommand env F arg =
    bindM (listenAddr F) (\<lambda>host.
    bindM (wrapM ''failed to parse uint: %w'' [] (liftE (ParseUint arg))) (\<lambda>offset.
    bindM (wrapM ''failed to create request: %w'' [] (liftE (ce_Marshal_offset env offset))) (\<lambda>data.
    bindM (checked ''failed to save offset: %v'' br_ErrorMessage
      (wrapM ''failed to save offset: %w'' []
        (rawPostRequest env (''http://'' @ host @ ''/saveOffset'') ''application/json'' data))) (\<lambda>resp.
    bindM (liftG (as_string (br_Result resp))) (\<lambda>s. tool_printf ''%s'' [AStr s])))))"

definition getOffsetCommand :: "('n, 'b) cli_env \<Rightarrow> cli_flags \<Rightarrow> ('n, unit) tool" where
  "getOffsetCommand env F =
    bindM (listenAddr F) (\<lambda>host.
    bindM (checked ''failed to get offset: %v'' br_ErrorMessage
      (wrapM ''failed to get offset: %w'' [] (rawGetRequest env (''http://'' @ host @ ''/getOffset'')))) (\<lambda>resp.
    bindM (liftG (as_float (br_Result resp))) (\<lambda>f.
    tool_printf ''%d'' [AInt (uint (uint64_of_float64 (ce_uint64 env) f))])))"

definition cli_getUsername :: "('n, 'b) cli_env \<Rightarrow> string \<Rightarrow> ('n, string) tool" where
  "cli_getUsername env host =
    bindM (checked ''failed to get node's username: %v'' br_ErrorMessage
      (wrapM ''failed to do HTTP request: %w'' [] (rawGetRequest env (''http://'' @ host @ ''/getUsername'')))) (\<lambda>resp.
    liftG (as_string (br_Result resp)))"

definition getUsernameCommand :: "('n, 'b) cli_env \<Rightarrow> cli_flags \<Rightarrow> ('n, unit) tool" where
  "getUsernameCommand env F =
    bindM (listenAddr F) (\<lambda>host.
    bindM (wrapM ''failed to get node's username: %w'' [] (cli_getUsername env host)) (\<lambda>username.
    tool_printf ''%s'' [AStr username]))"

definition getFSMListCommand :: "('n, 'b) cli_env \<Rightarrow> cli_flags \<Rightarrow> ('n, unit) tool" where
  "getFSMListCommand env F =
    bindM (listenAddr F) (\<lambda>host.
    bindM (checked ''failed to make HTTP request to get FSM list: %v'' br_ErrorMessage
      (wrapM ''failed to make HTTP request to get FSM list: %w'' []
        (rawGetRequest env (''http://'' @ host @ ''/getFSMList'')))) (\<lambda>resp.
    bindM (liftG (as_map (br_Result resp))) (\<lambda>fsms.
    if fsms = [] then tool_printf ''There are no FSMs yet'' []
    else forM (\<lambda>(dkgID, state).
      bindM (liftG (as_string state)) (\<lambda>state.
      tool_printf ''DKG ID: %s - FSM state: %s'' [AStr dkgID, AStr state])) fsms)))"

definition refreshState :: "('n, 'b) cli_env \<Rightarrow> cli_flags \<Rightarrow> ('n, unit) tool" where
  "refreshState env F =
    bindM (wrapM ''failed to read listen address:  %w'' [] (liftE (cl_listenAddr F))) (\<lambda>host.
    bindM (if length (cl_kafkaConsumerGroup F) < 1
           then bindM (wrapM ''failed to get node's username: %w'' [] (cli_getUsername env host)) (\<lambda>username.
             retM (username @ ''_'' @ ce_unix env))
           else retM (cl_kafkaConsumerGroup F)) (\<lambda>kafkaConsumerGroup.
    bindM (if cl_messagesToIgnore F \<noteq> '''' then liftGE (cli_parseMessagesToIgnore (cl_messagesToIgnore F)) else retM []) (\<lambda>msgsToIgnore.
    let req = \<lparr>rsf_NewStateDBDSN = cl_newStateDBDSN F, rsf_UseOffset = cl_useOffset F,
               rsf_KafkaConsumerGroup = kafkaConsumerGroup, rsf_Messages = msgsToIgnore\<rparr> in
    bindM (wrapM ''failed to marshal reset state request: %w'' [] (liftE (ce_Marshal_reset env req))) (\<lambda>reqBytes.
    bindM (checked ''failed to make HTTP request to reset state: %v'' br_ErrorMessage
      (wrapM ''failed to make HTTP request to reset state: %w'' []
        (rawPostRequest env (''http://'' @ host @ ''/resetState'') ''application/json'' reqBytes))) (\<lambda>resp.
    bindM (liftG (as_string (br_Result resp))) (\<lambda>dir.
    tool_printf ''New state was saved to %s directory'' [AStr dir]))))))"

text \<open>
  The participants whose status is shown: those of the machine that the name of the state belongs to.  A participant is
  the pair of its status, as text, and its name.
\<close>

definition shownQuorum :: "FSMDump \<Rightarrow> (int, string \<times> string) gomap go" where
  "shownQuorum dump =
    (let p = dump_Payload dump; state = dump_State dump in
     bindR (if HasPrefix state ''state_signing'' then bindR (deref (SigningProposalPayload p)) (\<lambda>c.
              Inr (map_vals (\<lambda>_ v. (SigningParticipantStatus_String (gp_Status v), gp_Username v)) (entries (gc_Quorum c))))
            else Inr []) (\<lambda>quorum.
     bindR (if HasPrefix state ''state_dkg'' then bindR (deref (DKGProposalPayload p)) (\<lambda>c.
              Inr (fold (\<lambda>(k, v). AList.update k (DKGParticipantStatus_String (dp_Status v), dp_Username v)) (entries (dc_Quorum c)) quorum))
            else Inr quorum) (\<lambda>quorum.
     if HasPrefix state ''state_sig_'' then bindR (deref (SignatureProposalPayload p)) (\<lambda>c.
       Inr (fold (\<lambda>(k, v). AList.update k (ConfirmationParticipantStatus_String (sp_Status v), sp_Username v)) (entries (sc_Quorum c)) quorum))
     else Inr quorum)))"

text \<open>One participant: waiting, confirmed and failed are three lists of names.\<close>

definition sortParticipant ::
  "string \<Rightarrow> string \<times> string \<Rightarrow> string list \<times> string list \<times> string list \<Rightarrow> string list \<times> string list \<times> string list"
where
  "sortParticipant username = (\<lambda>(status, name) (waiting, confirmed, failed).
    if Contains status ''Await'' \<and> status = ''DealAwaitConfirmation'' \<and> name = username then (waiting, confirmed, failed)
    else (if Contains status ''Await'' then waiting @ [name] else waiting,
          if Contains status ''Confirmed'' then confirmed @ [name] else confirmed,
          if Contains status ''Error'' then failed @ [name] else failed))"

text \<open>The third line prints the names that are waited for again.\<close>

definition printStatus :: "string list \<times> string list \<times> string list \<Rightarrow> ('n, unit) tool" where
  "printStatus = (\<lambda>(waiting, confirmed, failed).
    bindM (if waiting \<noteq> [] then tool_printf ''Waiting for data from: %s'' (map AStr waiting) else retM ()) (\<lambda>_.
    bindM (if confirmed \<noteq> [] then tool_printf ''Received data from: %s'' (map AStr confirmed) else retM ()) (\<lambda>_.
    if failed \<noteq> [] then tool_printf ''Participants who got some error during a process: %s'' (map AStr waiting) else retM ())))"

definition getFSMStatusCommand ::
  "('p, 's, 'g, 'd, 'r, 'h) kyber \<Rightarrow> ('n, 'b) cli_env \<Rightarrow> cli_flags \<Rightarrow> string \<Rightarrow> ('n, unit) tool"
where
  "getFSMStatusCommand K env F dkgID =
    bindM (listenAddr F) (\<lambda>host.
    bindM (checked ''failed to get FSM dump: %v'' fd_ErrorMessage
      (wrapM ''failed to get FSM dump: %w'' [] (getFSMDumpRequest env host dkgID))) (\<lambda>fsmDumpResponse.
    bindM (liftG (deref (fd_Result fsmDumpResponse))) (\<lambda>dump.
    bindM (tool_printf ''FSM current status is %s'' [AStr (dump_State dump)]) (\<lambda>_.
    bindM (liftG (shownQuorum dump)) (\<lambda>quorum.
    bindM (wrapM ''failed to get node's username: %w'' [] (cli_getUsername env host)) (\<lambda>username.
    bindM (printStatus (fold (sortParticipant username) (vals quorum) ([], [], []))) (\<lambda>_.
    bindM (liftG (deref (DKGProposalPayload (dump_Payload dump)))) (\<lambda>c.
    if dc_PubPolyBz c \<noteq> [] then
      bindM (wrapM ''failed to unmarshal BLSKeyring's PubPoly: %w'' [] (liftE (LoadPubPolyBLSKeyringFromBytes K (dc_PubPolyBz c)))) (\<lambda>blsKeyring.
      bindM (liftG (slice_at (kr_PubPoly blsKeyring) 0)) (\<lambda>commit.
      bindM (wrapM ''failed to marshal pubkey: %w'' [] (liftE (ky_MarshalPoint K commit))) (\<lambda>pubkeyBz.
      tool_printf ''PubKey: %s'' [AStr (base64_EncodeToString pubkeyBz)])))
    else retM ()))))))))"

section \<open>Starting a round\<close>

definition startDKGCommand :: "('n, 'b) cli_env \<Rightarrow> cli_flags \<Rightarrow> string \<Rightarrow> ('n, unit) tool" where
  "startDKGCommand env F path =
    bindM (listenAddr F) (\<lambda>host.
    bindM (wrapM ''failed to read file: %w'' [] (ReadFile (ce_os env) path)) (\<lambda>dkgProposeFileData.
    bindM (wrapM ''failed to unmarshal dkg proposing file: %w'' [] (liftE (ce_Unmarshal_proposal env dkgProposeFileData))) (\<lambda>req.
    if pl_Participants req = [] \<or> pl_SigningThreshold req > int (length (pl_Participants req))
    then failM (Errorf ''invalid threshold: %d'' [AInt (pl_SigningThreshold req)])
    else
    bindM (wrapM ''failed to marshal SignatureProposalParticipantsListRequest:  %w'' []
      (liftE (ce_Marshal_proposal env (req\<lparr>pl_CreatedAt := ce_now env\<rparr>)))) (\<lambda>messageDataBz.
    bindM (checked ''failed to make HTTP request to start DKG: %v'' br_ErrorMessage
      (wrapM ''failed to make HTTP request to start DKG: %w'' []
        (rawPostRequest env (''http://'' @ host @ ''/startDKG'') ''application/json'' messageDataBz))) (\<lambda>_.
    retM ())))))"

text \<open>
  \<open>sort.Sort\<close> by user name; comparing a nil pointer panics.  Sorting is not stable, which matters only for equal names.
\<close>

definition hashPayload :: "int \<Rightarrow> (bytes \<times> bytes \<times> string) list \<Rightarrow> bytes" where
  "hashPayload threshold ps = string_bytes (int_digits threshold) @
    concat (map (\<lambda>(pubKey, dkgPubKey, username). pubKey @ dkgPubKey @ string_bytes username) ps)"

definition byUsername :: "(bytes \<times> bytes \<times> string) list \<Rightarrow> (bytes \<times> bytes \<times> string) list" where
  "byUsername ps = sort_key (\<lambda>(_, _, username). username) ps"

fun derefs :: "'a option list \<Rightarrow> 'a list go" where
  "derefs [] = Inr []"
| "derefs (x # xs) = bindR (deref x) (\<lambda>y. bindR (derefs xs) (\<lambda>ys. Inr (y # ys)))"

definition getHashOfStartDKGCommand :: "('n, 'b) cli_env \<Rightarrow> string \<Rightarrow> ('n, unit) tool" where
  "getHashOfStartDKGCommand env path =
    bindM (wrapM ''failed to read file: %w'' [] (ReadFile (ce_os env) path)) (\<lambda>dkgProposeFileData.
    bindM (wrapM ''failed to unmarshal dkg proposing file: %w'' [] (liftE (ce_Unmarshal_proposal env dkgProposeFileData))) (\<lambda>req.
    bindM (liftG (derefs (pl_Participants req))) (\<lambda>participants.
    let hash = ce_md5 env (hashPayload (pl_SigningThreshold req)
      (byUsername (map (\<lambda>p. (pe_PubKey p, pe_DkgPubKey p, pe_Username p)) participants))) in
    tool_printf ''%s'' [AStr (hex_EncodeToString hash)])))"

definition calcStartDKGMessageHash ::
  "(bytes \<Rightarrow> bytes) \<Rightarrow> (bytes \<Rightarrow> error + SignatureProposalParticipantInvitationEntry option list) \<Rightarrow> bytes \<Rightarrow> (error + bytes) go"
where
  "calcStartDKGMessageHash md5_Sum unmarshal payload =
    (case unmarshal payload of
       Inl e \<Rightarrow> Inr (Inl (Wrapf ''failed to unmarshal payload: %w'' [] e))
     | Inr msg \<Rightarrow>
         bindR (derefs msg) (\<lambda>msg.
         let sorted_msg = sort_key ie_Username msg in
         bindR (slice_at sorted_msg 0) (\<lambda>first.
         Inr (Inr (md5_Sum (hashPayload (ie_Threshold first)
           (map (\<lambda>p. (ie_PubKey p, ie_DkgPubKey p, ie_Username p)) sorted_msg)))))))"

definition reinitDKGPathCommand :: "('n, 'b) cli_env \<Rightarrow> cli_flags \<Rightarrow> string \<Rightarrow> ('n, unit) tool" where
  "reinitDKGPathCommand env F reDKGFile =
    bindM (listenAddr F) (\<lambda>host.
    bindM (wrapM ''failed to read file %s: %w'' [AStr reDKGFile] (ReadFile (ce_os env) reDKGFile)) (\<lambda>reDKGDData.
    bindM (wrapM ''failed to reinit DKG: %w'' []
      (rawPostRequest env (''http://'' @ host @ ''/reinitDKG'') ''application/json'' reDKGDData)) (\<lambda>_.
    retM ())))"

definition getHashOfReinitDKGMessageCommand :: "('n, 'b) cli_env \<Rightarrow> string \<Rightarrow> ('n, unit) tool" where
  "getHashOfReinitDKGMessageCommand env path =
    bindM (wrapM ''failed to read file: %w'' [] (ReadFile (ce_os env) path)) (\<lambda>dkgReinitFileData.
    bindM (liftE (CalcStartReInitDKGMessageHash (ce_Unmarshal_reDKG env) (ce_sha1 env) dkgReinitFileData)) (\<lambda>hash.
    tool_printf ''%s'' [AStr (hex_EncodeToString hash)]))"

section \<open>Proposing messages to sign\<close>

text \<open>How the three commands begin and end.\<close>

definition decodeRound :: "string \<Rightarrow> ('n, bytes) tool" where
  "decodeRound arg = wrapM ''failed to decode dkgID: %w'' [] (liftE (hex_DecodeString arg))"

definition postProposal :: "('n, 'b) cli_env \<Rightarrow> string \<Rightarrow> bytes \<Rightarrow> ('n, unit) tool" where
  "postProposal env url messageDataBz =
    bindM (checked ''failed to make HTTP request to propose message to sign: %v'' br_ErrorMessage
      (wrapM ''failed to make HTTP request to propose message to sign: %w'' []
        (rawPostRequest env url ''application/json'' messageDataBz))) (\<lambda>_. retM ())"

definition proposeSignMessageCommand :: "('n, 'b) cli_env \<Rightarrow> cli_flags \<Rightarrow> string \<Rightarrow> string \<Rightarrow> ('n, unit) tool" where
  "proposeSignMessageCommand env F arg path =
    bindM (listenAddr F) (\<lambda>host.
    bindM (decodeRound arg) (\<lambda>dkgID.
    bindM (attemptM (ReadFile (ce_os env) path)) (\<lambda>r. case r of
      Inl e \<Rightarrow> failM (errorsNew ''failed to read the file'')
    | Inr data \<Rightarrow>
        bindM (wrapM ''failed to marshal SigningProposalStartRequest:  %w'' []
          (liftE (ce_Marshal_sign env \<lparr>psf_DkgID = dkgID, psf_Data = Some data\<rparr>))) (\<lambda>messageDataBz.
        postProposal env (''http://'' @ host @ ''/proposeSignMessage'') messageDataBz))))"

text \<open>The loop over a directory; subdirectories are skipped.\<close>

fun readBatch ::
  "os_env \<Rightarrow> string \<Rightarrow> (string \<times> bool) list \<Rightarrow> (string, bytes option) gomap \<Rightarrow> ('n, (string, bytes option) gomap) tool"
where
  "readBatch os dir [] data = retM data"
| "readBatch os dir ((name, isDir) # files) data =
    (if isDir then readBatch os dir files data
     else bindM (attemptM (ReadFile os (os_Join os dir name))) (\<lambda>r. case r of
       Inl e \<Rightarrow> failM (errorsNew ''failed to read the file'')
     | Inr bz \<Rightarrow> readBatch os dir files (AList.update name (Some bz) data)))"

definition proposeSignBatchMessagesCommand :: "('n, 'b) cli_env \<Rightarrow> cli_flags \<Rightarrow> string \<Rightarrow> string \<Rightarrow> ('n, unit) tool" where
  "proposeSignBatchMessagesCommand env F arg dir =
    bindM (listenAddr F) (\<lambda>host.
    bindM (decodeRound arg) (\<lambda>dkgID.
    bindM (wrapM ''failde to read dir {%s}: %w'' [AStr dir] (liftE (os_ReadDir (ce_os env) dir))) (\<lambda>files.
    bindM (readBatch (ce_os env) dir files []) (\<lambda>data.
    bindM (wrapM ''failed to marshal SigningBatchProposalStartRequest: %w'' []
      (liftE (ce_Marshal_batch env \<lparr>pbf_DkgID = dkgID, pbf_Data = Some data\<rparr>))) (\<lambda>messageDataBz.
    postProposal env (''http://'' @ host @ ''/proposeSignBatchMessages'') messageDataBz)))))"

definition parseRange :: "string \<Rightarrow> string \<Rightarrow> ('n, int) tool" where
  "parseRange msg arg = (case Atoi arg of (n, None) \<Rightarrow> retM n | (_, Some e) \<Rightarrow> failM (Wrapf msg [] e))"

definition proposeSignBakedMessagesCommand :: "('n, 'b) cli_env \<Rightarrow> cli_flags \<Rightarrow> string \<Rightarrow> string \<Rightarrow> string \<Rightarrow> ('n, unit) tool" where
  "proposeSignBakedMessagesCommand env F arg rangeStart rangeEnd =
    bindM (listenAddr F) (\<lambda>host.
    bindM (decodeRound arg) (\<lambda>dkgID.
    bindM (parseRange ''failed to parse range_start: %w'' rangeStart) (\<lambda>range_start.
    bindM (parseRange ''failed to parse range_end: %w'' rangeEnd) (\<lambda>range_end.
    bindM (wrapM ''failed to Marshal ProposeSignBakedMessagesForm request: %w'' []
      (liftE (ce_Marshal_baked env \<lparr>pkf_DkgID = dkgID, pkf_RangeStart = range_start, pkf_RangeEnd = range_end\<rparr>))) (\<lambda>messageDataBz.
    postProposal env (''http://'' @ host @ ''/proposeSignBakedMessages'') messageDataBz)))))"

section \<open>The program\<close>

definition main_cli ::
  "('p, 's, 'g, 'd, 'r, 'h) kyber \<Rightarrow> ('n, 'b) cli_env \<Rightarrow> cli_flags \<Rightarrow> string \<Rightarrow> string list \<Rightarrow> ('n, unit) tool"
where
  "main_cli K env F name args = wrapM ''Failed to execute root command:  %w'' []
    (if name = ''get_operations'' then getOperationsCommand env F
     else if name = ''reinit_dkg'' then exact1 args (reinitDKGPathCommand env F)
     else if name = ''read_operation_result'' then exact1 args (readOperationResultCommand env F)
     else if name = ''approve_participation'' then exact1 args (approveDKGParticipationCommand env F)
     else if name = ''start_dkg'' then exact1 args (startDKGCommand env F)
     else if name = ''sign_data'' then exact2 args (proposeSignMessageCommand env F)
     else if name = ''sign_batch_data'' then exact2 args (proposeSignBatchMessagesCommand env F)
     else if name = ''get_username'' then getUsernameCommand env F
     else if name = ''get_pubkey'' then getPubKeyCommand env F
     else if name = ''get_start_dkg_file_hash'' then exact1 args (getHashOfStartDKGCommand env)
     else if name = ''get_reinit_dkg_file_hash'' then exact1 args (getHashOfReinitDKGMessageCommand env)
     else if name = ''get_batches'' then exact1 args (getBatchesCommand env F)
     else if name = ''export_signatures'' then exact1 args (exportSignaturesCommand env F)
     else if name = ''get_signature'' then exact2 args (getSignatureCommand env F)
     else if name = ''save_offset'' then exact1 args (saveOffsetCommand env F)
     else if name = ''get_offset'' then getOffsetCommand env F
     else if name = ''show_fsm_status'' then exact1 args (getFSMStatusCommand K env F)
     else if name = ''get_fsm_list'' then getFSMListCommand env F
     else if name = ''get_signature_data'' then exact2 args (getSignatureDataCommand env F)
     else if name = ''refresh_state'' then refreshState env F
     else if name = ''sign_baked'' then exact3 args (proposeSignBakedMessagesCommand env F)
     else unknownCommand name ''dc4bc_cli'')"

end
