(* ===== verification/Cli_Frame.thy ===== *)
theory Cli_Frame
  imports Cli
begin

text \<open>
  What a run of the command line client can do to the node: nothing but what its HTTP requests do.  The locale states
  what a connection keeps, all commands are shown to keep it, and the connection to a node that serves the client is an
  instance.
\<close>

section \<open>Commands keep what requests keep\<close>

text \<open>
  \<open>I\<close> is a property of the node that every GET request keeps and every POST request that a command other than
  \<open>refresh_state\<close> makes.
\<close>

definition post_paths :: "string list" where
  "post_paths = [''/approveDKGParticipation'', ''/handleProcessedOperationJSON'', ''/saveOffset'', ''/startDKG'', ''/reinitDKG'',
     ''/proposeSignMessage'', ''/proposeSignBatchMessages'', ''/proposeSignBakedMessages'']"

locale cli_frame =
  fixes I :: "'n \<Rightarrow> bool" and env :: "('n, 'b) cli_env" and F :: cli_flags
  assumes get: "stays I (ce_Get env url)"
    and post: "cl_listenAddr F = Inr host \<Longrightarrow> path \<in> set post_paths \<Longrightarrow> stays I (ce_Post env (''http://'' @ host @ path) contentType data)"
begin

lemma fetched: "stays I call \<Longrightarrow> stays (of_node I) (fetch failed unread unmarshal call)"
  unfolding fetch_def by (intro stays_rules of_node_onNode TrueI) assumption

lemma requests:
  "stays (of_node I) (rawGetRequest env url)"
  "stays (of_node I) (getOperationsRequest env host)" "stays (of_node I) (getBatchesRequest env host dkgID)"
  "stays (of_node I) (getSignatureRequest env host dkgID x)" "stays (of_node I) (getOperationRequest env host x)"
  "stays (of_node I) (getFSMDumpRequest env host dkgID)" "stays (of_node I) (getSignatures_cli env host dkgID)"
  unfolding rawGetRequest_def getOperationsRequest_def getBatchesRequest_def getSignatureRequest_def getOperationRequest_def
    getFSMDumpRequest_def getSignatures_cli_def
  by (intro stays_rules fetched get TrueI)+

lemma posts:
  assumes "cl_listenAddr F = Inr host" and "path \<in> set post_paths"
  shows "stays (of_node I) (rawPostRequest env (''http://'' @ host @ path) contentType data)"
  unfolding rawPostRequest_def by (intro fetched post assms)

lemma pieces:
  "stays (of_node I) m \<Longrightarrow> stays (of_node I) (checked msg field m)" "stays (of_node I) (listenAddr F')"
  "stays (of_node I) (updateM (\<lambda>w. w\<lparr>tw_stdin := lines\<rparr>))"
  unfolding checked_def listenAddr_def by (intro stays_rules TrueI | assumption | simp add: keeps_def updateM_def of_node_def)+

lemmas frame = stays_rules stays_forM of_node_stays requests pieces TrueI

lemma address: "(\<And>host. cl_listenAddr F = Inr host \<Longrightarrow> stays (of_node I) (k host)) \<Longrightarrow> stays (of_node I) (bindM (listenAddr F) k)"
  unfolding listenAddr_def by (rule keeps_bind[where A = "\<lambda>host. cl_listenAddr F = Inr host"]) (intro keeps_wrap keeps_liftE)

lemma username: "stays (of_node I) (cli_getUsername env host)"
  unfolding cli_getUsername_def by (intro frame)

lemma reading_commands:
  "stays (of_node I) (getBatchesCommand env F a)" "stays (of_node I) (exportSignaturesCommand env F a)"
  "stays (of_node I) (getSignatureCommand env F a b)" "stays (of_node I) (getSignatureDataCommand env F a b)"
  "stays (of_node I) (getPubKeyCommand env F)" "stays (of_node I) (getOffsetCommand env F)"
  "stays (of_node I) (getUsernameCommand env F)" "stays (of_node I) (getFSMListCommand env F)"
  "stays (of_node I) (getHashOfStartDKGCommand env a)" "stays (of_node I) (getHashOfReinitDKGMessageCommand env a)"
  "stays (of_node I) (getOperationPathCommand env F a)" "stays (of_node I) (getFSMStatusCommand K env F a)"
  unfolding getBatchesCommand_def exportSignaturesCommand_def printSignatures_def getSignatureCommand_def
    getSignatureDataCommand_def requestSignatures_def getPubKeyCommand_def getOffsetCommand_def getUsernameCommand_def
    getFSMListCommand_def getHashOfStartDKGCommand_def getHashOfReinitDKGMessageCommand_def getOperationPathCommand_def
    getFSMStatusCommand_def printStatus_def Let_def
  by (auto intro!: frame username split: prod.split list.split)+

lemma changing_commands:
  "stays (of_node I) (approveDKGParticipationCommand env F a)" "stays (of_node I) (readOperationResultCommand env F a)"
  "stays (of_node I) (saveOffsetCommand env F a)" "stays (of_node I) (startDKGCommand env F a)"
  "stays (of_node I) (reinitDKGPathCommand env F a)" "stays (of_node I) (proposeSignMessageCommand env F a b)"
  "stays (of_node I) (proposeSignBakedMessagesCommand env F a b c)"
  unfolding approveDKGParticipationCommand_def readOperationResultCommand_def saveOffsetCommand_def startDKGCommand_def
    reinitDKGPathCommand_def proposeSignMessageCommand_def proposeSignBakedMessagesCommand_def postProposal_def decodeRound_def
    parseRange_def
  by (rule address; auto intro!: frame posts simp del: append_Cons append_Nil simp: post_paths_def split: prod.split option.split)+

lemma batch_read: "stays (of_node I) (readBatch os dir files data)"
  by (induction files arbitrary: data) (auto intro!: frame)

lemma batch_command: "stays (of_node I) (proposeSignBatchMessagesCommand env F a b)"
  unfolding proposeSignBatchMessagesCommand_def postProposal_def decodeRound_def
  by (rule address; auto intro!: frame posts batch_read simp del: append_Cons append_Nil simp: post_paths_def)

lemma listed: "stays (of_node I) (listOperations env i result acts)"
  by (induction result arbitrary: i acts) (auto intro!: frame simp: showOperation_def)

lemma selected: "stays (of_node I) (selectOperation env F result acts lines)"
proof (induction lines)
  case (Cons line lines)
  then show ?case
    by (auto intro!: frame reading_commands changing_commands simp: runSelected_def split: option.split)
qed (auto intro!: frame)

lemma operations_command: "stays (of_node I) (getOperationsCommand env F)"
  unfolding getOperationsCommand_def by (auto intro!: frame listed selected)

lemma exact_stays:
  "(\<And>x. stays (of_node I) (k x)) \<Longrightarrow> stays (of_node I) (exact1 args k)"
  "(\<And>x y. stays (of_node I) (k2 x y)) \<Longrightarrow> stays (of_node I) (exact2 args k2)"
  "(\<And>x y z. stays (of_node I) (k3 x y z)) \<Longrightarrow> stays (of_node I) (exact3 args k3)"
  unfolding exact1_def exact2_def exact3_def wrongArgs_def by (auto intro!: keeps_fail split: list.split)

theorem main_stays: "name \<noteq> ''refresh_state'' \<Longrightarrow> stays (of_node I) (main_cli K env F name args)"
  unfolding main_cli_def unknownCommand_def
  by (intro keeps_wrap keeps_cases(1) exact_stays reading_commands changing_commands batch_command operations_command keeps_fail)
    simp_all

end

section \<open>The connection to a node\<close>

text \<open>
  A node that serves requests at the address \<open>hl_host\<close>.  A request goes to the handler of the route that its method and
  path name; the object that the framework makes of it, the encoding of the answer, the answer for an unknown path and
  the requests that do not arrive at all are parameters.
\<close>

record ('rq, 'b) http_link =
  hl_host :: string
  hl_request :: "string \<Rightarrow> bytes \<Rightarrow> 'rq"
  hl_encode :: "api_response \<Rightarrow> 'b"
  hl_notFound :: 'b
  hl_lost :: "string \<Rightarrow> error option"

definition route_of :: "string \<Rightarrow> string \<Rightarrow> string \<Rightarrow> route option" where
  "route_of meth host url =
    (if HasPrefix url (''http://'' @ host)
     then map_of SetRouter (meth, takeWhile (\<lambda>c. c \<noteq> CHR ''?'') (drop (length (''http://'' @ host)) url))
     else None)"

definition call_node ::
  "('rd, 'wr, 'tls) kafka \<Rightarrow> 'rq http_env \<Rightarrow> ('db, 'rd, 'wr, 'tls) served_env \<Rightarrow> ('rq, 'b) http_link \<Rightarrow> string \<Rightarrow> string \<Rightarrow> bytes \<Rightarrow>
    (('db, ('rd, 'wr, 'tls) KafkaStorage) node, error + 'b) op"
where
  "call_node K H senv link meth url data n =
    (case hl_lost link url of
       Some e \<Rightarrow> Inr (Inl e, n)
     | None \<Rightarrow>
         (case route_of meth (hl_host link) url of
            None \<Rightarrow> Inr (Inr (Inr (hl_notFound link)), n)
          | Some r \<Rightarrow> bindR (serve K H senv r (hl_request link url data) n) (\<lambda>(x, n).
              Inr (map_sum id (Inr \<circ> hl_encode link) x, n))))"

definition connect ::
  "('rd, 'wr, 'tls) kafka \<Rightarrow> 'rq http_env \<Rightarrow> ('db, 'rd, 'wr, 'tls) served_env \<Rightarrow> ('rq, 'b) http_link \<Rightarrow>
    (('db, ('rd, 'wr, 'tls) KafkaStorage) node, 'b) cli_env \<Rightarrow> (('db, ('rd, 'wr, 'tls) KafkaStorage) node, 'b) cli_env"
where
  "connect K H senv link env = env\<lparr>ce_Get := (\<lambda>url. call_node K H senv link ''GET'' url []),
     ce_Post := (\<lambda>url contentType. call_node K H senv link ''POST'' url)\<rparr>"

lemma call_stays:
  assumes "\<And>r. route_of meth (hl_host link) url = Some r \<Longrightarrow> r \<noteq> resetState"
  shows "stays (node_reachable senv) (call_node K H senv link meth url data)"
proof (rule keepsI)
  fix n r n'
  assume n: "node_reachable senv n" and run: "call_node K H senv link meth url data n = Inr (r, n')"
  show "node_reachable senv n' \<and> (\<forall>x. r = Inr x \<longrightarrow> True)"
  proof (cases "n' = n")
    case False
    with run obtain rt x where rt: "route_of meth (hl_host link) url = Some rt"
      and x: "serve K H senv rt (hl_request link url data) n = Inr (x, n')"
      by (auto simp: call_node_def split: option.split_asm)
    from servesD[OF serve_steps[OF assms[OF rt]] x] False have "node_step senv n n'" by auto
    with n show ?thesis by (simp add: node_reachable.stepped)
  qed (use n in simp)
qed

lemma route_of_get: "route_of ''GET'' host url = Some r \<Longrightarrow> r \<noteq> resetState"
  by (auto simp: route_of_def SetRouter_def split: if_split_asm)

lemma route_of_path:
  assumes "CHR ''?'' \<notin> set path"
  shows "route_of meth host (''http://'' @ host @ path) = map_of SetRouter (meth, path)"
proof -
  have pre: "HasPrefix (x @ y) x" "drop (length x) (x @ y) = y" for x y :: string by (simp_all add: HasPrefix_def)
  have "takeWhile (\<lambda>c. c \<noteq> CHR ''?'') path = path" using assms by (simp add: takeWhile_eq_all_conv) metis
  with pre[of "''http://'' @ host" path] show ?thesis by (simp only: route_of_def if_True append_assoc)
qed

lemma route_of_post:
  assumes "path \<in> set post_paths" and "route_of ''POST'' host (''http://'' @ host @ path) = Some r"
  shows "r \<noteq> resetState"
proof -
  have "CHR ''?'' \<notin> set path" using assms(1) by (auto simp: post_paths_def)
  from route_of_path[OF this] assms(2) have "map_of SetRouter (''POST'', path) = Some r" by (rule subst)
  with assms(1) show ?thesis by (auto simp: post_paths_def SetRouter_def)
qed

interpretation served: cli_frame "node_reachable senv" "connect K H senv link env" "F\<lparr>cl_listenAddr := Inr (hl_host link)\<rparr>"
proof
  show "stays (node_reachable senv) (ce_Get (connect K H senv link env) url)" for url
    by (simp add: connect_def call_stays route_of_get)
  fix host path contentType data
  assume "cl_listenAddr (F\<lparr>cl_listenAddr := Inr (hl_host link)\<rparr>) = Inr host" "path \<in> set post_paths"
  then show "stays (node_reachable senv) (ce_Post (connect K H senv link env) (''http://'' @ host @ path) contentType data)"
    using call_stays[where url = "''http://'' @ hl_host link @ path" and meth = "''POST''" and link = link, OF route_of_post[of path "hl_host link"]]
    by (simp add: connect_def)
qed

text \<open>A sequence of runs of the client, whatever comes of each.\<close>

fun runAll ::
  "('p, 's, 'g, 'd, 'r, 'h) kyber \<Rightarrow> ('n, 'b) cli_env \<Rightarrow> cli_flags \<Rightarrow> (string \<times> string list) list \<Rightarrow> ('n, unit) tool"
where
  "runAll K env F [] = retM ()"
| "runAll K env F ((name, args) # cmds) = bindM (attemptM (main_cli K env F name args)) (\<lambda>_. runAll K env F cmds)"

lemma runAll_reachable:
  assumes "''refresh_state'' \<notin> fst ` set cmds"
  shows "stays (of_node (node_reachable senv)) (runAll Q (connect K H senv link env) (F\<lparr>cl_listenAddr := Inr (hl_host link)\<rparr>) cmds)"
  using assms
proof (induction cmds)
  case (Cons cmd cmds)
  then show ?case by (cases cmd) (auto intro!: stays_bind stays_attempt served.main_stays)
qed (simp add: keeps_ret)

end
