(* ===== verification/Cli_Answers.thy ===== *)
theory Cli_Answers
  imports Cli_Frame
begin

text \<open>
  The client against the node that it is connected to: the type of every answer, which the client asserts without a
  test, and the offset, which passes through a floating point number on its way back.
\<close>

section \<open>Panics of a run\<close>

lemma bindM_eq_Inl: "bindM m k s = Inl p \<longleftrightarrow> m s = Inl p \<or> (\<exists>x t. m s = Inr (Inr x, t) \<and> k x t = Inl p)"
  by (auto simp: bindM_def bindR_def split: sum.split prod.split)

lemma wrapM_eq_Inl: "wrapM msg args m s = Inl p \<longleftrightarrow> m s = Inl p"
  by (auto simp: wrapM_def bindR_def split: sum.split prod.split)

lemma lift_eq_Inl:
  "liftE r s \<noteq> Inl p" "liftG g s = Inl p \<longleftrightarrow> g = Inl p" "liftGE h s = Inl p \<longleftrightarrow> h = Inl p" "retM x s \<noteq> Inl p"
  "failM e s \<noteq> Inl p" "readM f s \<noteq> Inl p" "updateM u s \<noteq> Inl p"
  by (auto simp: monad_defs bindR_def split: sum.split)

lemmas panic_simps = bindM_eq_Inl wrapM_eq_Inl lift_eq_Inl

lemma printf_run: "tool_printf msg args w \<noteq> Inl p"
  "tool_printf msg args w = Inr (Inr u, w') \<longleftrightarrow> w' = w\<lparr>tw_stdout := tw_stdout w @ [(msg, args)]\<rparr>"
  by (auto simp: tool_printf_def updateM_def)

lemma checked_run:
  "checked msg f m w = Inl p \<longleftrightarrow> m w = Inl p"
  "checked msg f m w = Inr (Inr x, w') \<longleftrightarrow> m w = Inr (Inr x, w') \<and> f x = ''''"
  unfolding checked_def by (auto simp: panic_simps success_simps split: if_split_asm)

lemma onNode_run:
  "onNode m w = Inl p \<longleftrightarrow> m (tw_node w) = Inl p"
  "onNode m w = Inr (r, w') \<longleftrightarrow> (\<exists>n. m (tw_node w) = Inr (r, n) \<and> w' = w\<lparr>tw_node := n\<rparr>)"
  by (auto simp: onNode_def bindR_def split: sum.split prod.split)

lemma fetch_run:
  "fetch a b unm call w = Inl p \<longleftrightarrow> call (tw_node w) = Inl p"
  "fetch a b unm call w = Inr (Inr x, w') \<longleftrightarrow>
    (\<exists>body n. call (tw_node w) = Inr (Inr (Inr body), n) \<and> unm body = Inr x \<and> w' = w\<lparr>tw_node := n\<rparr>)"
  unfolding fetch_def by (auto simp: panic_simps success_simps onNode_run)

section \<open>What the node answers\<close>

text \<open>Every answer is an error or a result of the type that \<open>P\<close> describes.\<close>

definition answers_with :: "(api_result \<Rightarrow> bool) \<Rightarrow> ('s, api_response) op \<Rightarrow> bool" where
  "answers_with P h \<longleftrightarrow> (\<forall>n x n'. h n = Inr (x, n') \<longrightarrow>
     (\<exists>code y. x = Inr (JsonResult code y) \<and> P y) \<or> (\<exists>code e. x = Inr (JsonError code e)))"

lemma answers_withD:
  "answers_with P h \<Longrightarrow> h n = Inr (x, n') \<Longrightarrow>
    (\<exists>code y. x = Inr (JsonResult code y) \<and> P y) \<or> (\<exists>code e. x = Inr (JsonError code e))"
  unfolding answers_with_def by blast

lemma answers_respond: "(\<And>x. P (f x)) \<Longrightarrow> answers_with P (respond f m)"
proof -
  assume P: "\<And>x. P (f x)"
  have "(\<exists>code y. x = Inr (JsonResult code y) \<and> P y) \<or> (\<exists>code e. x = Inr (JsonError code e))"
    if "respond f m n = Inr (x, n')" for n x n'
  proof -
    from respond_run[OF that] obtain v where
      "x = Inr (case v of Inl e \<Rightarrow> JsonError StatusInternalServerError e | Inr x \<Rightarrow> JsonResult StatusOK (f x))" by blast
    with P show ?thesis by (cases v) simp_all
  qed
  then show ?thesis by (simp add: answers_with_def)
qed

lemma answers_withRequest: "(\<And>x. answers_with P (k x)) \<Longrightarrow> answers_with P (withRequest q k)"
  by (cases q) (simp_all add: answers_with_def withRequest_def retM_def)

fun result_type :: "route \<Rightarrow> api_result \<Rightarrow> bool" where
  "result_type getPubKey y = (\<exists>b. y = RBytes b)"
| "result_type getOffset y = (\<exists>w. y = ROffset w)"
| "result_type getFSMList y = (\<exists>m. y = RStates m)"
| "result_type getOperations y = (\<exists>ops. y = ROperations ops)"
| "result_type getOperation_route y = (\<exists>op. y = ROperation op)"
| "result_type getSignatures y = (\<exists>s. y = RSignatures s)"
| "result_type getBatches y = (\<exists>bs. y = RBatches bs)"
| "result_type getSignatureByID y = (\<exists>s. y = RSignatureList s)"
| "result_type getFSMDump y = (\<exists>d. y = RDump d)"
| "result_type r y = (\<exists>s. y = RString s)"

lemma serve_types: "answers_with (result_type r) (serve K H senv r rq)"
  by (cases r) (auto simp: serve_def handler_defs http_ResetState_def Let_def intro!: answers_withRequest answers_respond)

text \<open>
  How answers are decoded when the client does not know their type: \<open>encoding/json\<close> gives strings, also for byte slices,
  floating point numbers, maps; the fields of an error are its message and no result.
\<close>

definition answers_ok :: "('rq, 'b) http_link \<Rightarrow> ('n, 'b) cli_env \<Rightarrow> bool" where
  "answers_ok link env \<longleftrightarrow>
    (\<forall>code s. ce_base env (hl_encode link (JsonResult code (RString s))) = Inr \<lparr>br_ErrorMessage = '''', br_Result = IString s\<rparr>) \<and>
    (\<forall>code b. ce_base env (hl_encode link (JsonResult code (RBytes b))) =
       Inr \<lparr>br_ErrorMessage = '''', br_Result = IString (base64_EncodeToString b)\<rparr>) \<and>
    (\<forall>code x. ce_base env (hl_encode link (JsonResult code (ROffset x))) =
       Inr \<lparr>br_ErrorMessage = '''', br_Result = IFloat (float64_of_nat (unat x))\<rparr>) \<and>
    (\<forall>code m. \<exists>m'. mset m' = mset (map_vals (\<lambda>_. IString) m) \<and>
       ce_base env (hl_encode link (JsonResult code (RStates m))) = Inr \<lparr>br_ErrorMessage = '''', br_Result = IMap m'\<rparr>) \<and>
    (\<forall>code e. \<exists>msg. msg \<noteq> '''' \<and> ce_base env (hl_encode link (JsonError code e)) = Inr \<lparr>br_ErrorMessage = msg, br_Result = INil\<rparr>) \<and>
    (\<exists>msg. msg \<noteq> '''' \<and> ce_base env (hl_notFound link) = Inr \<lparr>br_ErrorMessage = msg, br_Result = INil\<rparr>)"

lemma encoded_eq: "map_sum id (Inr \<circ> f) x = Inr (Inr b) \<longleftrightarrow> (\<exists>y. x = Inr y \<and> b = f y)"
  by (cases x) auto

text \<open>What a successful request of the client knows about its answer.\<close>

lemma answered:
  assumes "answers_ok link env" and "call_node K H senv link meth url data n = Inr (Inr (Inr body), n')"
    and "ce_base env body = Inr resp" and "br_ErrorMessage resp = ''''"
  shows "\<exists>r code y. route_of meth (hl_host link) url = Some r \<and> body = hl_encode link (JsonResult code y) \<and> result_type r y \<and>
    serve K H senv r (hl_request link url data) n = Inr (Inr (JsonResult code y), n')"
proof -
  have lost: "hl_lost link url = None" using assms(2) by (cases "hl_lost link url") (simp_all add: call_node_def)
  have "body \<noteq> hl_notFound link" using assms(1,3,4) by (auto simp: answers_ok_def)
  with assms(2) lost obtain r where r: "route_of meth (hl_host link) url = Some r"
    by (cases "route_of meth (hl_host link) url") (auto simp: call_node_def)
  with assms(2) lost obtain x where x: "serve K H senv r (hl_request link url data) n = Inr (Inr x, n')" "body = hl_encode link x"
    by (auto simp: call_node_def encoded_eq)
  have "(\<exists>code y. x = JsonResult code y \<and> result_type r y) \<or> (\<exists>code e. x = JsonError code e)"
    using answers_withD[OF serve_types x(1)] by simp
  moreover have "x \<noteq> JsonError code e" for code e
  proof
    assume "x = JsonError code e"
    moreover obtain msg where "msg \<noteq> ''''" "ce_base env (hl_encode link (JsonError code e)) = Inr \<lparr>br_ErrorMessage = msg, br_Result = INil\<rparr>"
      using assms(1) unfolding answers_ok_def by blast
    ultimately show False using assms(3,4) x(2) by auto
  qed
  ultimately show ?thesis using r x by blast
qed

section \<open>Type assertions\<close>

lemma call_panics: "call_node K H senv link meth url data n = Inl p \<Longrightarrow> \<exists>r rq. serve K H senv r rq n = Inl p"
  by (auto simp: call_node_def bindR_def split: option.split_asm sum.split_asm)

lemma connect_simps [simp]:
  "ce_base (connect K H senv link env) = ce_base env" "ce_uint64 (connect K H senv link env) = ce_uint64 env"
  "ce_Marshal_offset (connect K H senv link env) = ce_Marshal_offset env"
  "ce_Marshal_reset (connect K H senv link env) = ce_Marshal_reset env" "ce_unix (connect K H senv link env) = ce_unix env"
  "ce_os (connect K H senv link env) = ce_os env" "ce_operation (connect K H senv link env) = ce_operation env"
  "ce_Marshal_operation (connect K H senv link env) = ce_Marshal_operation env"
  "ce_Unmarshal_invitation (connect K H senv link env) = ce_Unmarshal_invitation env" "ce_dump (connect K H senv link env) = ce_dump env"
  "ce_batches (connect K H senv link env) = ce_batches env"
  by (simp_all add: connect_def)

lemma raw_get:
  assumes "answers_ok link env" and "map_of SetRouter (''GET'', path) = Some r" and "CHR ''?'' \<notin> set path"
    and "rawGetRequest (connect K H senv link env) (''http://'' @ hl_host link @ path) w = Inr (Inr resp, w')" and "br_ErrorMessage resp = ''''"
  shows "\<exists>code y n'. result_type r y \<and> ce_base env (hl_encode link (JsonResult code y)) = Inr resp \<and> w' = w\<lparr>tw_node := n'\<rparr> \<and>
    serve K H senv r (hl_request link (''http://'' @ hl_host link @ path) []) (tw_node w) = Inr (Inr (JsonResult code y), n')"
proof -
  let ?url = "''http://'' @ hl_host link @ path"
  from assms(4) obtain body n' where call: "call_node K H senv link ''GET'' ?url [] (tw_node w) = Inr (Inr (Inr body), n')"
    and body: "ce_base env body = Inr resp" "w' = w\<lparr>tw_node := n'\<rparr>"
    unfolding rawGetRequest_def fetch_run by (auto simp: connect_def)
  from answered[OF assms(1) call body(1) assms(5)] obtain r' code y where "route_of ''GET'' (hl_host link) ?url = Some r'"
    "body = hl_encode link (JsonResult code y)" "result_type r' y"
    "serve K H senv r' (hl_request link ?url []) (tw_node w) = Inr (Inr (JsonResult code y), n')" by blast
  moreover have "r' = r" using calculation(1) route_of_path[OF assms(3), of "''GET''" "hl_host link"] assms(2) by (metis option.inject)
  ultimately show ?thesis using body by blast
qed

lemma raw_post:
  assumes "answers_ok link env" and "map_of SetRouter (''POST'', path) = Some r" and "CHR ''?'' \<notin> set path"
    and "rawPostRequest (connect K H senv link env) (''http://'' @ hl_host link @ path) ct data w = Inr (Inr resp, w')"
    and "br_ErrorMessage resp = ''''"
  shows "\<exists>code y n'. result_type r y \<and> ce_base env (hl_encode link (JsonResult code y)) = Inr resp \<and> w' = w\<lparr>tw_node := n'\<rparr> \<and>
    serve K H senv r (hl_request link (''http://'' @ hl_host link @ path) data) (tw_node w) = Inr (Inr (JsonResult code y), n')"
proof -
  let ?url = "''http://'' @ hl_host link @ path"
  from assms(4) obtain body n' where call: "call_node K H senv link ''POST'' ?url data (tw_node w) = Inr (Inr (Inr body), n')"
    and body: "ce_base env body = Inr resp" "w' = w\<lparr>tw_node := n'\<rparr>"
    unfolding rawPostRequest_def fetch_run by (auto simp: connect_def)
  from answered[OF assms(1) call body(1) assms(5)] obtain r' code y where "route_of ''POST'' (hl_host link) ?url = Some r'"
    "body = hl_encode link (JsonResult code y)" "result_type r' y"
    "serve K H senv r' (hl_request link ?url data) (tw_node w) = Inr (Inr (JsonResult code y), n')" by blast
  moreover have "r' = r" using calculation(1) route_of_path[OF assms(3), of "''POST''" "hl_host link"] assms(2) by (metis option.inject)
  ultimately show ?thesis using body by blast
qed

lemma raw_panics:
  "rawGetRequest (connect K H senv link env) url w = Inl p \<Longrightarrow> \<exists>r rq. serve K H senv r rq (tw_node w) = Inl p"
  "rawPostRequest (connect K H senv link env) url ct data w = Inl p \<Longrightarrow> \<exists>r rq. serve K H senv r rq (tw_node w) = Inl p"
  unfolding rawGetRequest_def rawPostRequest_def fetch_run by (auto simp: connect_def dest: call_panics)

text \<open>The decoded results of the types that the client asserts.\<close>

lemma decoded_string:
  assumes "answers_ok link env" and "result_type r y" and "r \<in> {getUsername, getPubKey, saveOffset, resetState}"
    and "ce_base env (hl_encode link (JsonResult code y)) = Inr resp"
  shows "\<exists>s. as_string (br_Result resp) = Inr s \<and> (y = RString s \<or> (\<exists>b. y = RBytes b))"
  using assms(3)
proof (elim insertE)
  assume "r = getPubKey"
  with assms(2) obtain b where y: "y = RBytes b" by auto
  have "ce_base env (hl_encode link (JsonResult code (RBytes b))) =
      Inr \<lparr>br_ErrorMessage = '''', br_Result = IString (base64_EncodeToString b)\<rparr>" using assms(1) unfolding answers_ok_def by blast
  with assms(4) y show ?thesis by (auto simp: as_string_def)
qed (use assms in \<open>auto simp: answers_ok_def as_string_def\<close>)

lemma decoded_offset:
  assumes "answers_ok link env" and "ce_base env (hl_encode link (JsonResult code (ROffset x))) = Inr resp"
  shows "as_float (br_Result resp) = Inr (float64_of_nat (unat x))"
  using assms unfolding answers_ok_def as_float_def by auto

lemma decoded_states:
  assumes "answers_ok link env" and "ce_base env (hl_encode link (JsonResult code (RStates m))) = Inr resp"
  shows "\<exists>m'. as_map (br_Result resp) = Inr m' \<and> (\<forall>k v. (k, v) \<in> set m' \<longrightarrow> (\<exists>s. as_string v = Inr s))"
proof -
  from assms(1) obtain m' where m': "mset m' = mset (map_vals (\<lambda>_. IString) m)"
    "ce_base env (hl_encode link (JsonResult code (RStates m))) = Inr \<lparr>br_ErrorMessage = '''', br_Result = IMap m'\<rparr>"
    unfolding answers_ok_def by blast
  from mset_eq_setD[OF m'(1)] have "set m' = (\<lambda>(k, v). (k, IString v)) ` set m" by (simp add: set_map_vals)
  with m'(2) assms(2) show ?thesis by (auto simp: as_map_def as_string_def)
qed

lemma forM_panics: "forM f xs w = Inl p \<Longrightarrow> \<exists>x\<in>set xs. \<exists>w. f x w = Inl p"
  by (induction xs arbitrary: w) (auto simp: panic_simps)

lemma listenAddr_run: "listenAddr F w = Inr (Inr host, w') \<longleftrightarrow> cl_listenAddr F = Inr host \<and> w' = w" "listenAddr F w \<noteq> Inl p"
  by (auto simp: listenAddr_def success_simps panic_simps)

lemmas run_simps = panic_simps success_simps checked_run listenAddr_run printf_run

lemma no_query:
  "CHR ''?'' \<notin> set ''/getPubKey''" "CHR ''?'' \<notin> set ''/getUsername''" "CHR ''?'' \<notin> set ''/getOffset''" "CHR ''?'' \<notin> set ''/getFSMList''"
  "CHR ''?'' \<notin> set ''/saveOffset''" "CHR ''?'' \<notin> set ''/resetState''"
  by simp_all

lemma routes:
  "map_of SetRouter (''GET'', ''/getPubKey'') = Some getPubKey" "map_of SetRouter (''GET'', ''/getUsername'') = Some getUsername"
  "map_of SetRouter (''GET'', ''/getOffset'') = Some getOffset" "map_of SetRouter (''GET'', ''/getFSMList'') = Some getFSMList"
  "map_of SetRouter (''POST'', ''/saveOffset'') = Some saveOffset" "map_of SetRouter (''POST'', ''/resetState'') = Some resetState"
  by (simp_all add: SetRouter_def)

text \<open>No request that the client decodes without knowing the type gives a result of another type.\<close>

lemma asserted_get:
  assumes "answers_ok link env" and "rawGetRequest (connect K H senv link env) (''http://'' @ hl_host link @ path) w = Inr (Inr resp, w')"
    and "br_ErrorMessage resp = ''''"
  shows "path = ''/getPubKey'' \<or> path = ''/getUsername'' \<Longrightarrow> \<exists>s. as_string (br_Result resp) = Inr s"
    and "path = ''/getOffset'' \<Longrightarrow> \<exists>f. as_float (br_Result resp) = Inr f"
    and "path = ''/getFSMList'' \<Longrightarrow> \<exists>m. as_map (br_Result resp) = Inr m \<and> (\<forall>k v. (k, v) \<in> set m \<longrightarrow> (\<exists>s. as_string v = Inr s))"
proof -
  have base: "\<exists>code y. result_type r y \<and> ce_base env (hl_encode link (JsonResult code y)) = Inr resp"
    if "map_of SetRouter (''GET'', path) = Some r" "CHR ''?'' \<notin> set path" for r
    using raw_get[OF assms(1) that assms(2,3)] by blast
  show "\<exists>s. as_string (br_Result resp) = Inr s" if "path = ''/getPubKey'' \<or> path = ''/getUsername''"
    using that
  proof
    assume "path = ''/getPubKey''"
    with base routes(1) no_query(1) obtain code y where "result_type getPubKey y" "ce_base env (hl_encode link (JsonResult code y)) = Inr resp" by blast
    from decoded_string[OF assms(1) this(1) _ this(2)] show ?thesis by blast
  next
    assume "path = ''/getUsername''"
    with base routes(2) no_query(2) obtain code y where "result_type getUsername y" "ce_base env (hl_encode link (JsonResult code y)) = Inr resp" by blast
    from decoded_string[OF assms(1) this(1) _ this(2)] show ?thesis by blast
  qed
  show "\<exists>f. as_float (br_Result resp) = Inr f" if "path = ''/getOffset''"
    using base[of getOffset] that routes(3) no_query(3) decoded_offset[OF assms(1)] by fastforce
  show "\<exists>m. as_map (br_Result resp) = Inr m \<and> (\<forall>k v. (k, v) \<in> set m \<longrightarrow> (\<exists>s. as_string v = Inr s))" if "path = ''/getFSMList''"
    using base[of getFSMList] that routes(4) no_query(4) decoded_states[OF assms(1)] by fastforce
qed

lemma asserted_post:
  assumes "answers_ok link env" and "rawPostRequest (connect K H senv link env) (''http://'' @ hl_host link @ path) ct data w = Inr (Inr resp, w')"
    and "br_ErrorMessage resp = ''''" and "path = ''/saveOffset'' \<and> r = saveOffset \<or> path = ''/resetState'' \<and> r = resetState"
  shows "\<exists>s code n'. as_string (br_Result resp) = Inr s \<and> w' = w\<lparr>tw_node := n'\<rparr> \<and>
    serve K H senv r (hl_request link (''http://'' @ hl_host link @ path) data) (tw_node w) = Inr (Inr (JsonResult code (RString s)), n')"
proof -
  from assms(4) have r: "map_of SetRouter (''POST'', path) = Some r" "CHR ''?'' \<notin> set path" "r \<in> {saveOffset, resetState}"
    using routes(5,6) no_query(5,6) by auto
  from raw_post[OF assms(1) r(1,2) assms(2,3)] obtain code y n' where y: "result_type r y"
    "ce_base env (hl_encode link (JsonResult code y)) = Inr resp" "w' = w\<lparr>tw_node := n'\<rparr>"
    "serve K H senv r (hl_request link (''http://'' @ hl_host link @ path) data) (tw_node w) = Inr (Inr (JsonResult code y), n')" by blast
  with r(3) decoded_string[OF assms(1) y(1) _ y(2)] show ?thesis by auto
qed

text \<open>The commands one by one: when one panics, the node did.\<close>

lemma username_panics:
  assumes "answers_ok link env" and "cli_getUsername (connect K H senv link env) (hl_host link) w = Inl p"
  shows "\<exists>r rq n. serve K H senv r rq n = Inl p"
  using assms(2) asserted_get(1)[OF assms(1), of K H senv "''/getUsername''" w]
  unfolding cli_getUsername_def by (auto simp: run_simps simp del: append_Cons append_Nil dest!: raw_panics)

lemma reading_panics:
  assumes "answers_ok link env" and "cl_listenAddr F = Inr (hl_host link)"
  shows "getPubKeyCommand (connect K H senv link env) F w = Inl p \<Longrightarrow> \<exists>r rq n. serve K H senv r rq n = Inl p"
    "getUsernameCommand (connect K H senv link env) F w = Inl p \<Longrightarrow> \<exists>r rq n. serve K H senv r rq n = Inl p"
    "getOffsetCommand (connect K H senv link env) F w = Inl p \<Longrightarrow> \<exists>r rq n. serve K H senv r rq n = Inl p"
    "getFSMListCommand (connect K H senv link env) F w = Inl p \<Longrightarrow> \<exists>r rq n. serve K H senv r rq n = Inl p"
proof -
  note got = asserted_get[OF assms(1), of K H senv _ w]
  show "getPubKeyCommand (connect K H senv link env) F w = Inl p \<Longrightarrow> \<exists>r rq n. serve K H senv r rq n = Inl p"
    using got(1)[of "''/getPubKey''"] assms(2) unfolding getPubKeyCommand_def
    by (auto simp: run_simps simp del: append_Cons append_Nil dest!: raw_panics)
  show "getUsernameCommand (connect K H senv link env) F w = Inl p \<Longrightarrow> \<exists>r rq n. serve K H senv r rq n = Inl p"
    using username_panics[OF assms(1), of K H senv w p] assms(2) unfolding getUsernameCommand_def by (auto simp: run_simps)
  show "getOffsetCommand (connect K H senv link env) F w = Inl p \<Longrightarrow> \<exists>r rq n. serve K H senv r rq n = Inl p"
    using got(2)[of "''/getOffset''"] assms(2) unfolding getOffsetCommand_def
    by (auto simp: run_simps simp del: append_Cons append_Nil dest!: raw_panics)
  assume "getFSMListCommand (connect K H senv link env) F w = Inl p"
  then consider (request) "rawGetRequest (connect K H senv link env) (''http://'' @ hl_host link @ ''/getFSMList'') w = Inl p"
    | (shown) resp w1 where "rawGetRequest (connect K H senv link env) (''http://'' @ hl_host link @ ''/getFSMList'') w = Inr (Inr resp, w1)"
      "br_ErrorMessage resp = ''''" "as_map (br_Result resp) = Inl p \<or> (\<exists>m k v. as_map (br_Result resp) = Inr m \<and> (k, v) \<in> set m \<and> as_string v = Inl p)"
    using assms(2) unfolding getFSMListCommand_def
    by (auto simp: run_simps simp del: append_Cons append_Nil split: if_split_asm dest!: forM_panics) blast
  then show "\<exists>r rq n. serve K H senv r rq n = Inl p"
  proof cases
    case request
    then show ?thesis using raw_panics(1) by blast
  next
    case shown
    with got(3)[OF shown(1,2)] show ?thesis by fastforce
  qed
qed

lemma saving_panics:
  assumes "answers_ok link env" and "cl_listenAddr F = Inr (hl_host link)" and "saveOffsetCommand (connect K H senv link env) F arg w = Inl p"
  shows "\<exists>r rq n. serve K H senv r rq n = Inl p"
  using assms(2,3) asserted_post[OF assms(1), of K H senv "''/saveOffset''" _ _ w _ _ saveOffset]
  unfolding saveOffsetCommand_def by (fastforce simp: run_simps simp del: append_Cons append_Nil dest!: raw_panics)

lemma refresh_panics:
  assumes "answers_ok link env" and "cl_listenAddr F = Inr (hl_host link)" and "refreshState (connect K H senv link env) F w = Inl p"
  shows "(\<exists>r rq n. serve K H senv r rq n = Inl p) \<or> cli_parseMessagesToIgnore (cl_messagesToIgnore F) = Inl p"
proof -
  from assms(2,3) consider (user) "cli_getUsername (connect K H senv link env) (hl_host link) w = Inl p"
    | (parse) "cli_parseMessagesToIgnore (cl_messagesToIgnore F) = Inl p"
    | (post) data w1 where "rawPostRequest (connect K H senv link env) (''http://'' @ hl_host link @ ''/resetState'') ''application/json'' data w1 = Inl p"
    | (shown) data w1 w2 resp where
      "rawPostRequest (connect K H senv link env) (''http://'' @ hl_host link @ ''/resetState'') ''application/json'' data w1 = Inr (Inr resp, w2)"
      "br_ErrorMessage resp = ''''" "as_string (br_Result resp) = Inl p"
    unfolding refreshState_def Let_def by (auto simp: run_simps simp del: append_Cons append_Nil split: if_split_asm)
  then show ?thesis
  proof cases
    case shown
    from asserted_post[OF assms(1) shown(1,2), of resetState] shown(3) show ?thesis by auto
  qed (use username_panics[OF assms(1)] in \<open>auto dest!: raw_panics\<close>)
qed

section \<open>The offset\<close>

text \<open>The forms of the client are decoded to what was encoded.\<close>

definition offset_form_ok :: "('rq, 'b) http_link \<Rightarrow> 'rq http_env \<Rightarrow> ('n, 'b) cli_env \<Rightarrow> bool" where
  "offset_form_ok link H env \<longleftrightarrow> (\<forall>url x bz. ce_Marshal_offset env x = Inr bz \<longrightarrow> BindToDTO (he_offset H) (hl_request link url bz) = Inr x)"

lemma respond_result: "respond f m n = Inr (Inr (JsonResult code y), n') \<Longrightarrow> \<exists>v. m n = Inr (Inr v, n') \<and> y = f v"
proof -
  assume "respond f m n = Inr (Inr (JsonResult code y), n')"
  from respond_run[OF this] obtain v where "m n = Inr (v, n')"
    "JsonResult code y = (case v of Inl e \<Rightarrow> JsonError StatusInternalServerError e | Inr x \<Rightarrow> JsonResult StatusOK (f x))" by auto
  then show ?thesis by (cases v) auto
qed

lemma saved_offset:
  assumes "leveldb_ok (ne_leveldb senv)" and "BindToDTO (he_offset H) rq = Inr x"
    and "serve K H senv saveOffset rq n = Inr (Inr (JsonResult code y), n')"
  shows "LevelDBState_LoadOffset (ne_leveldb senv) (nd_state n') = Inr (Inr x)"
proof -
  from assms(2,3) have "respond ok (SaveOffset senv x) n = Inr (Inr (JsonResult code y), n')"
    by (simp add: serve_def http_SaveStateOffset_def withRequest_def)
  from respond_result[OF this] have "SaveOffset senv x n = Inr (Inr (), n')" by auto
  then obtain s where "LevelDBState_SaveOffset (ne_leveldb senv) x (nd_state n) = (None, s)" "nd_state n' = s"
    by (auto simp: SaveOffset_def split: prod.split_asm option.split_asm)
  with offset_saved[OF assms(1)] show ?thesis by blast
qed

lemma read_offset:
  assumes "serve K H senv getOffset rq n = Inr (Inr (JsonResult code y), n')"
  shows "\<exists>x. y = ROffset x \<and> LevelDBState_LoadOffset (ne_leveldb senv) (nd_state n) = Inr (Inr x) \<and> n' = n"
  using respond_result[OF assms[unfolded serve_def http_GetStateOffset_def route.case]]
  by (auto simp: success_simps GetStateOffset_def)

lemma save_command:
  assumes "answers_ok link env" and "offset_form_ok link H env" and "leveldb_ok (ne_leveldb senv)" and "cl_listenAddr F = Inr (hl_host link)"
    and "saveOffsetCommand (connect K H senv link env) F arg w = Inr (Inr (), w')"
  shows "\<exists>x. ParseUint arg = Inr x \<and> LevelDBState_LoadOffset (ne_leveldb senv) (nd_state (tw_node w')) = Inr (Inr x)"
proof -
  from assms(4,5) obtain x data resp w1 s where x: "ParseUint arg = Inr x" "ce_Marshal_offset env x = Inr data"
    and post: "rawPostRequest (connect K H senv link env) (''http://'' @ hl_host link @ ''/saveOffset'') ''application/json'' data w = Inr (Inr resp, w1)"
    and resp: "br_ErrorMessage resp = ''''" "w' = w1\<lparr>tw_stdout := tw_stdout w1 @ [(''%s'', [AStr s])]\<rparr>"
    unfolding saveOffsetCommand_def by (auto simp: run_simps simp del: append_Cons append_Nil)
  from asserted_post[OF assms(1) post resp(1), of saveOffset] obtain s code n' where
    n': "w1 = w\<lparr>tw_node := n'\<rparr>"
    "serve K H senv saveOffset (hl_request link (''http://'' @ hl_host link @ ''/saveOffset'') data) (tw_node w) = Inr (Inr (JsonResult code (RString s)), n')"
    by blast
  have "BindToDTO (he_offset H) (hl_request link (''http://'' @ hl_host link @ ''/saveOffset'') data) = Inr x"
    using assms(2) x(2) unfolding offset_form_ok_def by blast
  from saved_offset[OF assms(3) this n'(2)] x(1) resp(2) n'(1) show ?thesis by simp
qed

lemma get_command:
  assumes "answers_ok link env" and "cl_listenAddr F = Inr (hl_host link)"
    and "getOffsetCommand (connect K H senv link env) F w = Inr (Inr (), w')"
  shows "\<exists>x. LevelDBState_LoadOffset (ne_leveldb senv) (nd_state (tw_node w)) = Inr (Inr x) \<and>
    w' = w\<lparr>tw_stdout := tw_stdout w @ [(''%d'', [AInt (uint (uint64_of_float64 (ce_uint64 env) (float64_of_nat (unat x))))])]\<rparr>"
proof -
  from assms(2,3) obtain resp w1 f where
    got: "rawGetRequest (connect K H senv link env) (''http://'' @ hl_host link @ ''/getOffset'') w = Inr (Inr resp, w1)"
    and resp: "br_ErrorMessage resp = ''''" "as_float (br_Result resp) = Inr f"
      "w' = w1\<lparr>tw_stdout := tw_stdout w1 @ [(''%d'', [AInt (uint (uint64_of_float64 (ce_uint64 env) f))])]\<rparr>"
    unfolding getOffsetCommand_def by (auto simp: run_simps simp del: append_Cons append_Nil)
  from raw_get[OF assms(1) routes(3) no_query(3) got resp(1)] obtain code y n' where
    y: "ce_base env (hl_encode link (JsonResult code y)) = Inr resp" "w1 = w\<lparr>tw_node := n'\<rparr>"
    "serve K H senv getOffset (hl_request link (''http://'' @ hl_host link @ ''/getOffset'') []) (tw_node w) = Inr (Inr (JsonResult code y), n')"
    by blast
  from read_offset[OF y(3)] obtain x where x: "y = ROffset x" "n' = tw_node w"
    "LevelDBState_LoadOffset (ne_leveldb senv) (nd_state (tw_node w)) = Inr (Inr x)" by blast
  with decoded_offset[OF assms(1), of code x resp] y(1,2) resp(2,3) show ?thesis by auto
qed

end
