(* ===== verification/Sample_Cli.thy ===== *)
theory Sample_Cli
  imports Cli_Answers
begin

text \<open>
  A concrete client: a disk that never fails, a connection over which nothing is lost and whose answers are decoded as
  \<open>encoding/json\<close> does, and a web framework that binds the requests for offsets, operations and resets.
\<close>

definition sample_os :: os_env where
  "sample_os = \<lparr>os_Read = (\<lambda>p. None), os_Open = (\<lambda>p. None), os_Write = (\<lambda>p bz. (length bz, None)), os_ReadDir = (\<lambda>d. Inr []),
     os_Join = (\<lambda>d f. d @ ''/'' @ f)\<rparr>"

lemma sample_os_ok: "os_ok sample_os"
  by (auto simp: os_ok_def sample_os_def)

definition sample_link :: "(string \<times> bytes, api_response) http_link" where
  "sample_link = \<lparr>hl_host = ''h'', hl_request = Pair, hl_encode = (\<lambda>x. x), hl_notFound = JsonError 404 (errorsNew ''Not Found''),
     hl_lost = (\<lambda>url. None)\<rparr>"

fun sample_base :: "api_response \<Rightarrow> error + BaseResponse" where
  "sample_base (JsonResult code (RString s)) = Inr \<lparr>br_ErrorMessage = '''', br_Result = IString s\<rparr>"
| "sample_base (JsonResult code (RBytes b)) = Inr \<lparr>br_ErrorMessage = '''', br_Result = IString (base64_EncodeToString b)\<rparr>"
| "sample_base (JsonResult code (ROffset x)) = Inr \<lparr>br_ErrorMessage = '''', br_Result = IFloat (float64_of_nat (unat x))\<rparr>"
| "sample_base (JsonResult code (RStates m)) = Inr \<lparr>br_ErrorMessage = '''', br_Result = IMap (map_vals (\<lambda>_. IString) m)\<rparr>"
| "sample_base (JsonResult code y) = Inr \<lparr>br_ErrorMessage = '''', br_Result = IMap []\<rparr>"
| "sample_base (JsonError code e) = Inr \<lparr>br_ErrorMessage = ''error'', br_Result = INil\<rparr>"

definition typed :: "(string \<Rightarrow> 'r \<Rightarrow> 'a) \<Rightarrow> 'r \<Rightarrow> (api_result \<Rightarrow> 'r option) \<Rightarrow> api_response \<Rightarrow> error + 'a" where
  "typed C zero f resp = (case resp of
     JsonError code e \<Rightarrow> Inr (C ''error'' zero)
   | JsonResult code y \<Rightarrow> (case f y of None \<Rightarrow> Inl (errorsNew ''json: cannot unmarshal'') | Some r \<Rightarrow> Inr (C '''' r)))"

definition sample_cli :: "('n, api_response) cli_env" where
  "sample_cli = \<lparr>ce_os = sample_os, ce_Get = (\<lambda>url n. Inr (Inl (errorsNew ''offline''), n)),
     ce_Post = (\<lambda>url ct bz n. Inr (Inl (errorsNew ''offline''), n)), ce_base = sample_base,
     ce_operations = typed (\<lambda>msg r. \<lparr>or_ErrorMessage = msg, or_Result = r\<rparr>) []
       (\<lambda>y. case y of ROperations ops \<Rightarrow> Some (map_vals (\<lambda>_. Some) ops) | _ \<Rightarrow> None),
     ce_dump = typed (\<lambda>msg r. \<lparr>fd_ErrorMessage = msg, fd_Result = r\<rparr>) None (\<lambda>y. case y of RDump d \<Rightarrow> Some d | _ \<Rightarrow> None),
     ce_signatures = typed (\<lambda>msg r. \<lparr>sr_ErrorMessage = msg, sr_Result = r\<rparr>) None (\<lambda>y. case y of RSignatures s \<Rightarrow> Some s | _ \<Rightarrow> None),
     ce_batches = typed (\<lambda>msg r. \<lparr>bs_ErrorMessage = msg, bs_Result = r\<rparr>) [] (\<lambda>y. None),
     ce_signature = typed (\<lambda>msg r. \<lparr>sg_ErrorMessage = msg, sg_Result = r\<rparr>) [] (\<lambda>y. case y of RSignatureList s \<Rightarrow> Some s | _ \<Rightarrow> None),
     ce_operation = typed (\<lambda>msg r. \<lparr>on_ErrorMessage = msg, on_Result = r\<rparr>) None (\<lambda>y. case y of ROperation op \<Rightarrow> Some (Some op) | _ \<Rightarrow> None),
     ce_Unmarshal_invitation = (\<lambda>b. Inl (errorsNew ''invitation'')), ce_tasksJSON = (\<lambda>ts. []),
     ce_Unmarshal_proposal = (\<lambda>b. Inl (errorsNew ''proposal'')), ce_Unmarshal_reDKG = (\<lambda>b. Inl (errorsNew ''reDKG'')),
     ce_Marshal_operation = (\<lambda>op. Inr (op_Payload op)), ce_Marshal_exported = (\<lambda>x. Inr []), ce_Marshal_proposal = (\<lambda>x. Inr []),
     ce_Marshal_offset = (\<lambda>x. Inr (PutUint64 x)), ce_Marshal_operationID = (\<lambda>i. Inr (string_bytes i)),
     ce_Marshal_sign = (\<lambda>x. Inr []), ce_Marshal_batch = (\<lambda>x. Inr []), ce_Marshal_baked = (\<lambda>x. Inr []),
     ce_Marshal_reset = (\<lambda>f. Inr (string_bytes (rsf_KafkaConsumerGroup f))),
     ce_md5 = (\<lambda>b. b), ce_sha1 = (\<lambda>b. b), ce_sha256 = (\<lambda>b. b), ce_now = 1, ce_unix = ''1700000000'', ce_uint64 = (\<lambda>f. 2 ^ 63)\<rparr>"

lemma sample_answers_ok: "answers_ok sample_link sample_cli"
  unfolding answers_ok_def sample_link_def sample_cli_def by (auto intro: exI[of _ "''error''"])

text \<open>The request is the address together with the body.\<close>

definition bind_by :: "(string \<times> bytes \<Rightarrow> error + 'form) \<Rightarrow> (string \<times> bytes, 'form, 'form) form_binding" where
  "bind_by f = \<lparr>bd_Bind = f, bd_Validate = (\<lambda>x. None), bd_RequestToDTO = Inr\<rparr>"

definition sample_cli_http :: "(string \<times> bytes) http_env" where
  "sample_cli_http = \<lparr>he_body = (\<lambda>rq. Inl (errorsNew ''EOF'')), he_validateBody = (\<lambda>b. None), he_startDTO = Inr,
     he_reinit = refuse, he_message = refuse, he_operation = refuse,
     he_operationId = bind_by (\<lambda>rq. Inr (drop (length ''http://h/getOperation?operationID='') (fst rq))), he_dkgId = refuse,
     he_signatureId = refuse, he_sign = refuse, he_batch = refuse, he_baked = refuse,
     he_offset = bind_by (\<lambda>rq. case Uint64 (snd rq) of Inl p \<Rightarrow> Inl (errorsNew ''offset'') | Inr x \<Rightarrow> Inr x),
     he_reset = \<lparr>bd_Bind = (\<lambda>rq. Inr \<lparr>rsf_NewStateDBDSN = '''', rsf_UseOffset = True, rsf_KafkaConsumerGroup = map (char_of \<circ> unat) (snd rq),
         rsf_Messages = [''1'', ''2'']\<rparr>), bd_Validate = (\<lambda>x. None),
       bd_RequestToDTO = (\<lambda>f. Inr \<lparr>rst_NewStateDBDSN = rsf_NewStateDBDSN f, rst_UseOffset = rsf_UseOffset f,
         rst_KafkaConsumerGroup = rsf_KafkaConsumerGroup f, rst_Messages = rsf_Messages f\<rparr>)\<rparr>,
     he_Marshal_reinit = (\<lambda>r. Inr []), he_uuid = (\<lambda>rq. ''id''), he_unix = (\<lambda>rq. ''1700000000'')\<rparr>"

lemma sample_offset_form: "offset_form_ok sample_link sample_cli_http sample_cli"
  by (auto simp: offset_form_ok_def sample_cli_http_def sample_cli_def sample_link_def bind_by_def BindToDTO_def BindToRequest_def
      wrapE_def Uint64_PutUint64)

definition sample_cli_flags :: cli_flags where
  "sample_cli_flags = \<lparr>cl_listenAddr = Inr ''h'', cl_folder = Inr ''/tmp'', cl_printOnly = Inr False, cl_useOffset = True,
     cl_messagesToIgnore = ''1-2'', cl_newStateDBDSN = '''', cl_kafkaConsumerGroup = ''g''\<rparr>"

abbreviation sample_senv ::
  "((string, bytes) gomap, (unit, unit, unit) KafkaStorage) node_env \<Rightarrow> ((string, bytes) gomap, (unit, unit, unit) KafkaStorage) node_env"
where "sample_senv env \<equiv> service_env sample_kafka sample_disk sample_keys_json sample_services env"

definition sample_world :: "((string, bytes) gomap, (unit, unit, unit) KafkaStorage) node tool_world" where
  "sample_world = \<lparr>tw_node = sample_started, tw_files = [], tw_stdin = [], tw_stdout = []\<rparr>"

abbreviation sample_connected ::
  "((string, bytes) gomap, (unit, unit, unit) KafkaStorage) node_env \<Rightarrow> (((string, bytes) gomap, (unit, unit, unit) KafkaStorage) node, api_response) cli_env"
where "sample_connected env \<equiv> connect sample_kafka sample_cli_http (sample_senv env) sample_link sample_cli"

lemma sample_disk_ok: "leveldb_ok (ne_leveldb (sample_senv env))"
  using memdb_ok by (simp add: leveldb_ok_def service_env_def sample_disk_def)

lemma sample_host [simp]: "hl_host sample_link = ''h''" "cl_listenAddr sample_cli_flags = Inr ''h''"
  by (simp_all add: sample_link_def sample_cli_flags_def)

end
