(* ===== verification/Cli_Properties.thy ===== *)
theory Cli_Properties
  imports Sample_Cli
begin

text \<open>The properties of the command line client, each with the node that serves it.\<close>

section \<open>Types\<close>



section \<open>Bounds\<close>

lemma ParseUint_value:
  assumes "ParseUint s = Inr x"
  shows "unat x = digits_value s" and "digits_value s < 2 ^ 64"
proof -
  from assms show b: "digits_value s < 2 ^ 64"
    by (simp add: ParseUint_def Let_def digits_value_def split: if_split_asm)
  from assms b have "x = of_nat (digits_value s)" by (simp add: ParseUint_def Let_def digits_value_def split: if_split_asm)
  with b show "unat x = digits_value s" by (simp add: unat_of_nat take_bit_nat_eq_self)
qed

lemma shown_offset:
  assumes "unat x < 2 ^ 64 - 1024"
  shows "\<bar>uint (uint64_of_float64 other (float64_of_nat (unat x))) - int (unat x)\<bar> \<le> 1024"
proof -
  let ?t = "float64_trunc (float64_of_nat (unat x))"
  have "unat x < 2 ^ 64" using assms by simp
  note t = float64_error[OF this]
  have "int (unat x) < int (2 ^ 64 - 1024)" using assms by (simp only: of_nat_less_iff)
  with t have "?t < 2 ^ 64" by simp
  have "0 \<le> ?t" by (simp only: float64_trunc_of_nat of_nat_0_le_iff)
  with t \<open>?t < 2 ^ 64\<close> show ?thesis by (simp add: uint64_of_float64_def uint_word_of_int)
qed

text \<open>
  C31: The offset that is saved is the offset that is shown, up to \<open>2 ^ 53\<close>: \<open>get_offset\<close> after \<open>save_offset n\<close> prints \<open>n\<close>.
  Beyond that the answer has passed through a 64-bit floating point number, and what is printed is off by at most 1024,
  below the last 1024 values of the range.
\<close>

theorem offset_roundtrip:
  assumes "answers_ok link env" and "offset_form_ok link H env" and "leveldb_ok (ne_leveldb senv)" and "cl_listenAddr F = Inr (hl_host link)"
    and "saveOffsetCommand (connect K H senv link env) F arg w = Inr (Inr (), w1)"
    and "getOffsetCommand (connect K H senv link env) F w1 = Inr (Inr (), w2)"
  shows "\<exists>v. tw_stdout w2 = tw_stdout w1 @ [(''%d'', [AInt v])] \<and>
    (digits_value arg \<le> 2 ^ 53 \<longrightarrow> v = int (digits_value arg)) \<and>
    (digits_value arg < 2 ^ 64 - 1024 \<longrightarrow> \<bar>v - int (digits_value arg)\<bar> \<le> 1024)"
proof -
  from save_command[OF assms(1-5)] obtain x where x: "ParseUint arg = Inr x"
    "LevelDBState_LoadOffset (ne_leveldb senv) (nd_state (tw_node w1)) = Inr (Inr x)" by blast
  from get_command[OF assms(1,4,6)] x(2) have
    w2: "tw_stdout w2 = tw_stdout w1 @ [(''%d'', [AInt (uint (uint64_of_float64 (ce_uint64 env) (float64_of_nat (unat x))))])]" by auto
  note n = ParseUint_value[OF x(1)]
  have "uint (uint64_of_float64 (ce_uint64 env) (float64_of_nat (unat x))) = int (digits_value arg)" if "digits_value arg \<le> 2 ^ 53"
  proof -
    have "uint64_of_float64 (ce_uint64 env) (float64_of_nat (unat x)) = x" using that by (intro uint64_exact) (simp only: n(1))
    then show ?thesis by (simp only: uint_nat n(1))
  qed
  moreover have "\<bar>uint (uint64_of_float64 (ce_uint64 env) (float64_of_nat (unat x))) - int (digits_value arg)\<bar> \<le> 1024"
    if "digits_value arg < 2 ^ 64 - 1024" using shown_offset[of x "ce_uint64 env"] that n(1) by simp
  ultimately show ?thesis using w2 by blast
qed

lemma offset_inexact: "uint64_of_float64 other (float64_of_nat (2 ^ 53 + 1)) = 2 ^ 53"
proof -
  have "bit_length (2 ^ 53 + 1) \<le> 54" "\<not> bit_length (2 ^ 53 + 1) \<le> 53" by (subst bit_length_le, simp)+
  then have "bit_length (2 ^ 53 + 1) - 53 = 1" by linarith
  then have "float64_trunc (float64_of_nat (2 ^ 53 + 1)) = 2 ^ 53" by (simp add: float64_trunc_of_nat round_even_def Let_def)
  then show ?thesis by (simp add: uint64_of_float64_def)
qed

lemmas sample_serving = monad_defs fetch_def onNode_def connect_def call_node_def sample_link_def sample_cli_def
  sample_cli_http_def serve_def respond_def withRequest_def BindToDTO_def BindToRequest_def bind_by_def wrapE_def checked_def
  listenAddr_def sample_cli_flags_def tool_printf_def sample_world_def

lemma sample_routes:
  "route_of ''POST'' ''h'' ''http://h/saveOffset'' = Some saveOffset" "route_of ''GET'' ''h'' ''http://h/getOffset'' = Some getOffset"
  "route_of ''POST'' ''h'' ''http://h/resetState'' = Some resetState"
  by (simp_all add: route_of_def HasPrefix_def SetRouter_def)

lemma sample_offset_saved:
  "\<exists>w1. \<forall>env. saveOffsetCommand (sample_connected env) sample_cli_flags ''5'' sample_world = Inr (Inr (), w1) \<and>
    (\<exists>w2. getOffsetCommand (sample_connected env) sample_cli_flags w1 = Inr (Inr (), w2))"
proof -
  have "ParseUint ''5'' = Inr 5" by (simp add: ParseUint_def decimal_def Let_def)
  then show ?thesis
    by (simp add: saveOffsetCommand_def getOffsetCommand_def rawPostRequest_def rawGetRequest_def sample_serving sample_routes
        http_SaveStateOffset_def http_GetStateOffset_def SaveOffset_def GetStateOffset_def Uint64_PutUint64 LevelDBState_SaveOffset_def
        LevelDBState_LoadOffset_def service_env_def sample_disk_def memdb_def sample_started_def sample_services_def MakeCompositeKey_def
        OffsetKey_def as_string_def as_float_def)
qed

theorem offset_roundtrip_witness:
  "\<exists>w1. (\<forall>env. saveOffsetCommand (sample_connected env) sample_cli_flags ''5'' sample_world = Inr (Inr (), w1)) \<and>
    (\<forall>env. \<exists>w2. getOffsetCommand (sample_connected env) sample_cli_flags w1 = Inr (Inr (), w2) \<and>
      tw_stdout w2 = tw_stdout w1 @ [(''%d'', [AInt 5])])"
proof -
  obtain w1 where save: "\<And>env. saveOffsetCommand (sample_connected env) sample_cli_flags ''5'' sample_world = Inr (Inr (), w1)"
    and got: "\<And>env. \<exists>w2. getOffsetCommand (sample_connected env) sample_cli_flags w1 = Inr (Inr (), w2)" using sample_offset_saved by blast
  have five: "digits_value ''5'' = 5" by (simp add: digits_value_def decimal_def)
  have "\<exists>w2. getOffsetCommand (sample_connected env) sample_cli_flags w1 = Inr (Inr (), w2) \<and> tw_stdout w2 = tw_stdout w1 @ [(''%d'', [AInt 5])]" for env
  proof -
    from got obtain w2 where w2: "getOffsetCommand (sample_connected env) sample_cli_flags w1 = Inr (Inr (), w2)" by blast
    from offset_roundtrip[OF sample_answers_ok sample_offset_form sample_disk_ok _ save w2] w2 show ?thesis by (auto simp: five)
  qed
  with save show ?thesis by blast
qed

section \<open>The node behind the client\<close>



section \<open>Replaying without a span of messages\<close>

lemma reset_hides:
  assumes "node_ResetFSMState K env now dto n = Inr (Inr path, n')"
  shows "\<exists>rs ks'. kafka_calls K calls (nd_storage n') = Inr (rs, ks') \<and>
    (\<forall>ms m. Inr ms \<in> set rs \<longrightarrow> m \<in> set ms \<longrightarrow>
      (if rst_UseOffset dto then Inr (Offset m) \<notin> ParseUint ` set (rst_Messages dto) else ID m \<notin> set (rst_Messages dto)))"
  using assms
proof (rule reset_ok)
  fix ks ks' s
  assume ign: "kafka_IgnoreMessages (rst_Messages dto) (rst_UseOffset dto) (nd_storage n) = (None, ks)"
    and set: "SetConsumerGroup K (rst_KafkaConsumerGroup dto) ks = Inr (Inr (), ks')" and n': "n' = n\<lparr>nd_storage := ks', nd_state := s\<rparr>"
  note ks' = SetConsumerGroup_ok[OF set]
  have "if rst_UseOffset dto then Inr (Offset m) \<notin> ParseUint ` set (rst_Messages dto) else ID m \<notin> set (rst_Messages dto)"
    if "kafka_visible ks' m" for m
    using kafka_ignores.ignored_hidden[OF ign, of m] that ks'(1) by (simp add: kafka_visible_def)
  with kafka_calls_open[OF ks'(3), of K calls] show ?thesis by (simp add: n') metis
qed

definition reset_form_ok :: "('rq, 'b) http_link \<Rightarrow> 'rq http_env \<Rightarrow> ('n, 'b) cli_env \<Rightarrow> string \<Rightarrow> bool \<Rightarrow> string list \<Rightarrow> bool" where
  "reset_form_ok link H env dsn useOffset msgs \<longleftrightarrow> (\<forall>group url bz.
     ce_Marshal_reset env \<lparr>rsf_NewStateDBDSN = dsn, rsf_UseOffset = useOffset, rsf_KafkaConsumerGroup = group, rsf_Messages = msgs\<rparr> = Inr bz \<longrightarrow>
     BindToDTO (he_reset H) (hl_request link url bz) =
       Inr \<lparr>rst_NewStateDBDSN = dsn, rst_UseOffset = useOffset, rst_KafkaConsumerGroup = group, rst_Messages = msgs\<rparr>)"

lemma refresh_command:
  assumes "answers_ok link env" and "cl_listenAddr F = Inr (hl_host link)" and "cl_messagesToIgnore F \<noteq> ''''"
    and "\<And>msgs. cli_parseMessagesToIgnore (cl_messagesToIgnore F) = Inr (Inr msgs) \<Longrightarrow> reset_form_ok link H env (cl_newStateDBDSN F) (cl_useOffset F) msgs"
    and "refreshState (connect K H senv link env) F w = Inr (Inr (), w')"
  shows "\<exists>msgs group now path n. cli_parseMessagesToIgnore (cl_messagesToIgnore F) = Inr (Inr msgs) \<and>
    node_ResetFSMState K senv now \<lparr>rst_NewStateDBDSN = cl_newStateDBDSN F, rst_UseOffset = cl_useOffset F, rst_KafkaConsumerGroup = group,
      rst_Messages = msgs\<rparr> n = Inr (Inr path, tw_node w')"
proof -
  from assms(2,3,5) obtain msgs group bz w0 w1 resp s where msgs: "cli_parseMessagesToIgnore (cl_messagesToIgnore F) = Inr (Inr msgs)"
    and bz: "ce_Marshal_reset env \<lparr>rsf_NewStateDBDSN = cl_newStateDBDSN F, rsf_UseOffset = cl_useOffset F, rsf_KafkaConsumerGroup = group,
      rsf_Messages = msgs\<rparr> = Inr bz"
    and post: "rawPostRequest (connect K H senv link env) (''http://'' @ hl_host link @ ''/resetState'') ''application/json'' bz w0 = Inr (Inr resp, w1)"
    and resp: "br_ErrorMessage resp = ''''" "tw_node w' = tw_node w1"
    unfolding refreshState_def Let_def by (auto simp: run_simps simp del: append_Cons append_Nil split: if_split_asm)
  let ?url = "''http://'' @ hl_host link @ ''/resetState''"
  let ?dto = "\<lparr>rst_NewStateDBDSN = cl_newStateDBDSN F, rst_UseOffset = cl_useOffset F, rst_KafkaConsumerGroup = group, rst_Messages = msgs\<rparr>"
  from asserted_post[OF assms(1) post resp(1), of resetState] obtain s code n' where w1: "w1 = w0\<lparr>tw_node := n'\<rparr>"
    and served: "serve K H senv resetState (hl_request link ?url bz) (tw_node w0) = Inr (Inr (JsonResult code (RString s)), n')"
    by blast
  have "BindToDTO (he_reset H) (hl_request link ?url bz) = Inr ?dto" using assms(4)[OF msgs] bz unfolding reset_form_ok_def by blast
  with served have "respond RString (node_ResetFSMState K senv (he_unix H (hl_request link ?url bz)) ?dto) (tw_node w0) =
      Inr (Inr (JsonResult code (RString s)), n')"
    by (simp add: serve_def http_ResetState_def withRequest_def)
  from respond_result[OF this] msgs w1 resp(2) show ?thesis by auto
qed

lemma span_success:
  assumes "a \<noteq> []" "b \<noteq> []" "list_all is_digit a" "list_all is_digit b" and "cli_parseMessagesToIgnore (a @ CHR ''-'' # b) = Inr (Inr msgs)"
  shows "msgs = map nat_digits [digits_value a..<Suc (digits_value b)]" and "digits_value b < 2 ^ 63"
proof -
  define f t where "f = min (digits_value a) (2 ^ 63 - 1)" and "t = min (digits_value b) (2 ^ 63 - 1)"
  note cases = assms(5)[unfolded parse_span_cases[OF assms(1-4) f_def t_def]]
  from cases have "\<not> (t < f \<or> t - f > 2 ^ 44)" "t \<noteq> 2 ^ 63 - 1" by (auto split: if_split_asm)
  with cases have msgs: "msgs = map nat_digits [f..<Suc t]" by (simp only: if_False sum.inject)
  have "f = digits_value a" "t = digits_value b" "digits_value b < 2 ^ 63"
    using \<open>\<not> (t < f \<or> t - f > 2 ^ 44)\<close> \<open>t \<noteq> 2 ^ 63 - 1\<close> unfolding f_def t_def min_def by (auto split: if_split_asm)
  with msgs show "msgs = map nat_digits [digits_value a..<Suc (digits_value b)]" "digits_value b < 2 ^ 63" by simp_all
qed

text \<open>
  C14: \<open>refresh_state -o -m from-to\<close> does what it says: when the client reports success, the storage of the node never again
  delivers a message whose offset lies between \<open>from\<close> and \<open>to\<close>, ends included, whatever the node calls.  The property
  spans the parsing of the argument, the request, the handler, the reset of the node and its Kafka storage.
\<close>

theorem refreshed_span_ignored:
  assumes "answers_ok link env" and "cl_listenAddr F = Inr (hl_host link)" and "cl_useOffset F"
    and "cl_messagesToIgnore F = a @ ''-'' @ b" and "a \<noteq> []" "b \<noteq> []" "list_all is_digit a" "list_all is_digit b"
    and "reset_form_ok link H env (cl_newStateDBDSN F) True (map nat_digits [digits_value a..<Suc (digits_value b)])"
    and "refreshState (connect K H senv link env) F w = Inr (Inr (), w')"
  shows "\<exists>rs ks'. kafka_calls K calls (nd_storage (tw_node w')) = Inr (rs, ks') \<and>
    (\<forall>ms m. Inr ms \<in> set rs \<longrightarrow> m \<in> set ms \<longrightarrow> \<not> (digits_value a \<le> unat (Offset m) \<and> unat (Offset m) \<le> digits_value b))"
proof -
  have arg: "cl_messagesToIgnore F = a @ CHR ''-'' # b" using assms(4) by simp
  note parsed = span_success[OF assms(5-8)]
  have "\<exists>msgs group now path n. cli_parseMessagesToIgnore (cl_messagesToIgnore F) = Inr (Inr msgs) \<and>
      node_ResetFSMState K senv now \<lparr>rst_NewStateDBDSN = cl_newStateDBDSN F, rst_UseOffset = cl_useOffset F, rst_KafkaConsumerGroup = group,
        rst_Messages = msgs\<rparr> n = Inr (Inr path, tw_node w')"
    using parsed(1) assms(3,9) arg by (intro refresh_command[OF assms(1,2) _ _ assms(10)]) simp_all
  then obtain msgs group now path n where msgs: "cli_parseMessagesToIgnore (a @ CHR ''-'' # b) = Inr (Inr msgs)"
    and reset: "node_ResetFSMState K senv now \<lparr>rst_NewStateDBDSN = cl_newStateDBDSN F, rst_UseOffset = True, rst_KafkaConsumerGroup = group,
        rst_Messages = msgs\<rparr> n = Inr (Inr path, tw_node w')" using assms(3) arg by auto
  have hidden: "Inr (Offset m) \<in> ParseUint ` set msgs" if "digits_value a \<le> unat (Offset m)" "unat (Offset m) \<le> digits_value b" for m :: Message
  proof -
    have "nat_digits (unat (Offset m)) \<in> set msgs" using that unfolding parsed(1)[OF msgs] by (simp del: upt_Suc)
    moreover have "ParseUint (nat_digits (unat (Offset m))) = Inr (Offset m)"
      using that(2) parsed(2)[OF msgs] by (subst ParseUint_roundtrip) simp_all
    ultimately show ?thesis by (metis imageI)
  qed
  from reset_hides[OF reset, of calls] hidden show ?thesis by simp blast
qed

lemma byte_char: "char_of (unat (of_char c :: 8 word)) = c"
proof -
  have "unat (of_nat (of_char c) :: 8 word) = of_char c" using nat_of_char_less_256[of c] by (simp add: unat_of_nat)
  then show ?thesis by (simp add: of_nat_of_char)
qed

lemma string_of_bytes: "map (char_of \<circ> unat) (string_bytes s) = s"
  by (induction s) (simp_all add: string_bytes_def byte_char)

lemma sample_span: "digits_value ''1'' = 1" "digits_value ''2'' = 2" "list_all is_digit ''1''" "list_all is_digit ''2''"
  "map nat_digits [1..<Suc 2] = [''1'', ''2'']"
proof -
  have "[1..<Suc 2] = [1, 2]" by (simp add: upt_rec)
  moreover have "nat_digits 1 = ''1''" "nat_digits 2 = ''2''" by code_simp+
  ultimately show "map nat_digits [1..<Suc 2] = [''1'', ''2'']" by (simp only: list.map)
qed (simp_all add: digits_value_def decimal_def is_digit_def)

lemma sample_refreshed: "\<exists>w'. \<forall>env. refreshState (sample_connected env) sample_cli_flags sample_world = Inr (Inr (), w')"
proof -
  have "cli_parseMessagesToIgnore (''1'' @ CHR ''-'' # ''2'') = Inr (Inr [''1'', ''2''])"
    using parse_span_ok[of "''1''" "''2''"] sample_span by simp
  moreover have "ParseUint ''1'' = Inr 1" "ParseUint ''2'' = Inr 2" by (simp_all add: ParseUint_def decimal_def Let_def)
  ultimately show ?thesis
    by (simp add: refreshState_def rawPostRequest_def sample_serving sample_routes http_ResetState_def string_of_bytes
        node_ResetFSMState_def sample_started_def sample_services_def sample_kafka_storage_def SetConsumerGroup_def kafka_reset_def
        kafka_Close_def sample_kafka_def LevelDBState_Reset_def Let_def freshPath_def NewLevelDBState_def service_env_def sample_disk_def
        memdb_def MakeCompositeKey_def OffsetKey_def as_string_def)
qed

theorem refreshed_span_ignored_witness:
  "\<exists>w'. (\<forall>env. refreshState (sample_connected env) sample_cli_flags sample_world = Inr (Inr (), w')) \<and>
    (\<exists>rs ks'. kafka_calls sample_kafka [CallGet 0] (nd_storage (tw_node w')) = Inr (rs, ks'))"
proof -
  have form: "reset_form_ok sample_link sample_cli_http sample_cli (cl_newStateDBDSN sample_cli_flags) True
      (map nat_digits [digits_value ''1''..<Suc (digits_value ''2'')])"
    unfolding sample_span
    by (simp add: reset_form_ok_def sample_cli_def sample_cli_http_def sample_cli_flags_def sample_link_def BindToDTO_def BindToRequest_def
        wrapE_def string_of_bytes)
  obtain w' where run: "\<And>env. refreshState (sample_connected env) sample_cli_flags sample_world = Inr (Inr (), w')" using sample_refreshed by blast
  have "cl_useOffset sample_cli_flags" "cl_messagesToIgnore sample_cli_flags = ''1'' @ ''-'' @ ''2''" by (simp_all add: sample_cli_flags_def)
  from refreshed_span_ignored[OF sample_answers_ok _ this _ _ sample_span(3,4) form run, of "[CallGet 0]"] run show ?thesis by auto
qed

end
