(* ===== verification/Cli_Hash.thy ===== *)
theory Cli_Hash
  imports Sample_Cli Event_Properties
begin

text \<open>
  The hash by which participants compare the proposal they agreed on with the one they are asked to confirm: the client
  computes it from the proposing file, and \<open>calcStartDKGMessageHash\<close> from the operation that the node made of the proposal.
\<close>

lemma insort_key_map: "insort_key f (g x) (map g ys) = map g (insort_key (\<lambda>x. f (g x)) x ys)"
  by (induction ys) simp_all

lemma sort_key_map: "sort_key f (map g xs) = map g (sort_key (f \<circ> g) xs)"
  by (induction xs) (simp_all add: insort_key_map comp_def)

text \<open>With different names every sorting of the participants is the same, so it does not matter that \<open>sort.Sort\<close> is not stable.\<close>

lemma byUsername_unique:
  assumes "mset ys = mset ps" and "sorted (map (snd \<circ> snd) ys)" and "distinct (map (snd \<circ> snd) ps)"
  shows "ys = byUsername ps"
proof -
  have key: "(\<lambda>(a :: bytes, b :: bytes, username). username) = snd \<circ> snd" by auto
  from assms(3) have "inj_on (snd \<circ> snd) (set ps)" by (simp add: distinct_map)
  from sort_key_inj_key_eq[OF assms(1)[symmetric] this assms(2)] show ?thesis unfolding byUsername_def key by simp
qed

lemma derefs_Some: "derefs (map Some xs) = Inr xs"
  by (induction xs) simp_all

section \<open>The invitations\<close>

definition invitation :: "SignatureProposalParticipant \<Rightarrow> SignatureProposalParticipantInvitationEntry" where
  "invitation participant = \<lparr>ie_ParticipantId = sp_ParticipantID participant, ie_Username = sp_Username participant,
     ie_Threshold = sp_Threshold participant, ie_DkgPubKey = sp_DkgPubKey participant, ie_PubKey = sp_PubKey participant\<rparr>"

lemma invited:
  "map (\<lambda>p. (ie_PubKey p, ie_DkgPubKey p, ie_Username p)) (map invitation (vals (sig_entries th t i ps))) =
     map (\<lambda>p. (pe_PubKey p, pe_DkgPubKey p, pe_Username p)) ps"
  "list_all (\<lambda>x. ie_Threshold x = th) (map invitation (vals (sig_entries th t i ps)))"
  by (induction ps arbitrary: i) (simp_all add: invitation_def)

lemma sig_invitations_eq: "sig_invitations r ps = RespInvitations (map invitation (vals (sig_entries (pl_SigningThreshold r) (pl_CreatedAt r) 0 ps)))"
  by (simp add: sig_invitations_def invitation_def[abs_def])

lemma sorted_invited:
  assumes "invs = map invitation (vals (sig_entries th t 0 ps))"
  shows "map (\<lambda>p. (ie_PubKey p, ie_DkgPubKey p, ie_Username p)) (sort_key ie_Username invs) =
    byUsername (map (\<lambda>p. (pe_PubKey p, pe_DkgPubKey p, pe_Username p)) ps)"
proof -
  let ?g = "\<lambda>p. (ie_PubKey p, ie_DkgPubKey p, ie_Username p)"
  have "map ?g (sort_key ie_Username invs) = byUsername (map ?g invs)"
    unfolding byUsername_def sort_key_map by (simp add: comp_def)
  then show ?thesis using invited(1)[of th t 0 ps] assms by simp
qed

section \<open>Properties\<close>


definition sample_proposer :: "(unit, api_response) cli_env" where
  "sample_proposer = sample_cli\<lparr>ce_Unmarshal_proposal := (\<lambda>b. Inr sample_init)\<rparr>"

definition sample_desk :: "unit tool_world" where
  "sample_desk = \<lparr>tw_node = (), tw_files = [(''start_dkg_propose.json'', [123, 125])], tw_stdin = [], tw_stdout = []\<rparr>"


end
