(* ===== verification/Csv.thy ===== *)
theory Csv
  imports Encoding "HOL-Library.Sublist"
begin

text \<open>
  The reader of \<open>encoding/csv\<close> as \<open>ReadLogMessages\<close> in \<open>src/pkg/utils/utils.go\<close> configures it: a separator of its own,
  \<open>LazyQuotes\<close>, no comments and leading space kept.  The separator is the first byte of an argument taken as a rune, so one
  above 127 is looked for as two bytes.  Of a parse error the kind is kept and not the position.

  The main lemma, \<open>ReadAll_text\<close>, is that rows written with or without quotes are read back.
\<close>

section \<open>Lines\<close>

definition encode_rune :: "8 word \<Rightarrow> bytes" where
  "encode_rune r = (if unat r < 128 then [r] else [of_nat (192 + unat r div 64), of_nat (128 + unat r mod 64)])"

definition validDelim :: "8 word \<Rightarrow> bool" where
  "validDelim r \<longleftrightarrow> r \<noteq> 0 \<and> r \<noteq> 34 \<and> r \<noteq> 13 \<and> r \<noteq> 10"

text \<open>The lines with their newline; the last one may have none.\<close>

fun split_lines :: "bytes \<Rightarrow> bytes list" where
  "split_lines [] = []"
| "split_lines (b # bs) =
    (if b = 10 then [10] # split_lines bs else (case split_lines bs of [] \<Rightarrow> [[b]] | l # ls \<Rightarrow> (b # l) # ls))"

text \<open>A carriage return before the newline, or at the end of the file, is dropped.\<close>

definition normal_line :: "bytes \<Rightarrow> bytes" where
  "normal_line line = (case rev line of
     [] \<Rightarrow> []
   | b # r \<Rightarrow> if b = 13 then rev r else if b = 10 \<and> prefix [13] r then rev (10 # drop 1 r) else line)"

definition readLines :: "bytes \<Rightarrow> bytes list" where
  "readLines bz = map normal_line (split_lines bz)"

definition lengthNL :: "bytes \<Rightarrow> nat" where
  "lengthNL b = (if suffix [10] b then 1 else 0)"

section \<open>Fields\<close>

text \<open>The text before the first occurrence of a separator, and the text after it.\<close>

fun cutAt :: "bytes \<Rightarrow> bytes \<Rightarrow> (bytes \<times> bytes) option" where
  "cutAt sep [] = None"
| "cutAt sep (b # bs) = (if prefix sep (b # bs) then Some ([], drop (length sep) (b # bs))
     else map_option (apfst (Cons b)) (cutAt sep bs))"

lemma cutAt_length: "cutAt sep line = Some (field, rest) \<Longrightarrow> length line = length field + length sep + length rest"
  by (induction line arbitrary: field) (auto dest: prefix_length_le split: if_splits)

lemma encode_rune_length: "0 < length (encode_rune r)"
  by (simp add: encode_rune_def)

text \<open>
  \<open>parseField\<close> reads the fields of a record from the rest of a line and, when a quoted field spans lines, from the lines
  after it; it returns the lines that are left.
\<close>

function (sequential) parseField :: "8 word \<Rightarrow> bytes \<Rightarrow> bytes list \<Rightarrow> bytes list \<Rightarrow> bytes list \<times> bytes list"
  and quotedField :: "8 word \<Rightarrow> bytes \<Rightarrow> bytes list \<Rightarrow> bytes \<Rightarrow> bytes list \<Rightarrow> bytes list \<times> bytes list"
where
  "parseField sep line lines fields =
    (if prefix [34] line then quotedField sep (drop 1 line) lines [] fields
     else (case cutAt (encode_rune sep) line of
       Some (field, rest) \<Rightarrow> parseField sep rest lines (fields @ [field])
     | None \<Rightarrow> (fields @ [take (length line - lengthNL line) line], lines)))"
| "quotedField sep line lines buf fields =
    (case cutAt [34] line of
       Some (field, rest) \<Rightarrow>
         if prefix [34] rest then quotedField sep (drop 1 rest) lines (buf @ field @ [34]) fields
         else if prefix (encode_rune sep) rest
         then parseField sep (drop (length (encode_rune sep)) rest) lines (fields @ [buf @ field])
         else if lengthNL rest = length rest then (fields @ [buf @ field], lines)
         else quotedField sep rest lines (buf @ field @ [34]) fields
     | None \<Rightarrow>
         if line = [] then (fields @ [buf], lines)
         else (case lines of
           [] \<Rightarrow> quotedField sep [] [] (buf @ line) fields
         | l # ls \<Rightarrow> quotedField sep l ls (buf @ line) fields))"
  by pat_completeness auto

termination
proof (relation "measure (case_sum (\<lambda>(sep, line, lines, fields). length line + sum_list (map Suc (map length lines)))
    (\<lambda>(sep, line, lines, buf, fields). length line + sum_list (map Suc (map length lines))))", goal_cases)
  case (3 sep line lines fields x field rest)
  then show ?case using cutAt_length[of "encode_rune sep" line field rest] encode_rune_length[of sep] by simp
qed (auto dest: cutAt_length simp: prefix_def)

declare parseField.simps [simp del] quotedField.simps [simp del]

lemma parse_lines:
  "length (snd (parseField sep line lines fields)) \<le> length lines"
  "length (snd (quotedField sep line lines buf fields)) \<le> length lines"
proof (induction sep line lines fields and sep line lines buf fields rule: parseField_quotedField.induct)
  case (1 sep line lines fields)
  then show ?case by (auto simp: parseField.simps[of sep line] split: option.split)
next
  case (2 sep line lines buf fields)
  then show ?case by (auto simp: quotedField.simps[of sep line] split: option.split list.split)
qed

section \<open>Records\<close>

text \<open>Empty lines are skipped, and every record has as many fields as the first.\<close>

function readRecords :: "8 word \<Rightarrow> nat \<Rightarrow> bytes list \<Rightarrow> error + bytes list list" where
  "readRecords sep fieldsPerRecord [] = Inr []"
| "readRecords sep fieldsPerRecord (line # lines) =
    (if length line = lengthNL line then readRecords sep fieldsPerRecord lines
     else (case parseField sep line lines [] of (rec, rest) \<Rightarrow>
       if 0 < fieldsPerRecord \<and> length rec \<noteq> fieldsPerRecord then Inl (errorsNew ''wrong number of fields'')
       else (case readRecords sep (if fieldsPerRecord = 0 then length rec else fieldsPerRecord) rest of
         Inl e \<Rightarrow> Inl e | Inr recs \<Rightarrow> Inr (rec # recs))))"
  by pat_completeness auto

termination
proof (relation "measure (\<lambda>(sep, n, lines). length lines)", goal_cases)
  case (3 sep n line lines x rest)
  then show ?case using parse_lines(1)[of sep line lines "[]"] by (simp flip: 3(2))
qed auto

definition ReadAll :: "8 word \<Rightarrow> bytes \<Rightarrow> error + bytes list list" where
  "ReadAll sep bz = (if \<not> validDelim sep then Inl (errorsNew ''csv: invalid field or comment delimiter'')
     else readRecords sep 0 (readLines bz))"

section \<open>Reading back what was written\<close>

text \<open>A field is written between quotes, its own quotes doubled, or as it is.\<close>

definition quoteField :: "bytes \<Rightarrow> bytes" where
  "quoteField f = 34 # concat (map (\<lambda>b. if b = 34 then [34, 34] else [b]) f) @ [34]"

definition csv_field :: "8 word \<Rightarrow> bytes \<Rightarrow> bytes \<Rightarrow> bool" where
  "csv_field sep f t \<longleftrightarrow> t = quoteField f \<or> t = f \<and> sep \<notin> set f \<and> \<not> prefix [34] f"

fun csvLine :: "8 word \<Rightarrow> bytes list \<Rightarrow> bytes" where
  "csvLine sep [] = [10]"
| "csvLine sep [t] = t @ [10]"
| "csvLine sep (t # ts) = t @ sep # csvLine sep ts"

definition one_line :: "bytes \<Rightarrow> bool" where
  "one_line f \<longleftrightarrow> 10 \<notin> set f \<and> 13 \<notin> set f"

lemma cutAt_byte: "c \<notin> set f \<Longrightarrow> cutAt [c] (f @ c # rest) = Some (f, rest)" "c \<notin> set f \<Longrightarrow> cutAt [c] f = None"
  by (induction f) auto

lemma parse_plain:
  assumes "\<not> prefix [34] f" and "sep \<notin> set f" and "unat sep < 128" and "sep \<noteq> 34" "sep \<noteq> 10"
  shows "parseField sep (f @ sep # rest) lines fields = parseField sep rest lines (fields @ [f])"
    and "parseField sep (f @ [10]) lines fields = (fields @ [f], lines)"
proof -
  have "\<not> prefix [34] (f @ sep # rest)" "\<not> prefix [34] (f @ [10])" using assms by (cases f; simp)+
  then show "parseField sep (f @ sep # rest) lines fields = parseField sep rest lines (fields @ [f])"
    "parseField sep (f @ [10]) lines fields = (fields @ [f], lines)"
    using assms cutAt_byte(1)[of sep f rest] cutAt_byte(2)[of sep "f @ [10]"]
    by (simp_all add: parseField.simps[of sep "f @ sep # rest"] parseField.simps[of sep "f @ [10]"] encode_rune_def lengthNL_def)
qed

text \<open>Inside quotes a quote is followed by another one exactly where the field has a quote.\<close>

lemma quoted_end:
  assumes "10 \<notin> set f" and "unat sep < 128" and "sep \<noteq> 34" "sep \<noteq> 10"
  shows "quotedField sep (concat (map (\<lambda>b. if b = 34 then [34, 34] else [b]) f) @ 34 # sep # rest) lines buf fields =
      parseField sep rest lines (fields @ [buf @ f])"
    and "quotedField sep (concat (map (\<lambda>b. if b = 34 then [34, 34] else [b]) f) @ [34, 10]) lines buf fields = (fields @ [buf @ f], lines)"
proof -
  let ?q = "\<lambda>f. concat (map (\<lambda>b. if b = 34 then [34, 34] else [b]) f) :: bytes"
  have step: "quotedField sep (?q f @ 34 # more) lines buf fields = quotedField sep (34 # more) lines (buf @ f) fields"
    if "\<not> prefix [34] more" for f more buf
    using that
  proof (induction "length f" arbitrary: f buf rule: less_induct)
    case less
    show ?case
    proof (cases "34 \<in> set f")
      case True
      then obtain a c where f: "f = a @ 34 # c" "34 \<notin> set a" by (meson split_list_first)
      have a: "?q a = a" using f(2) by (induction a) auto
      have "quotedField sep (?q f @ 34 # more) lines buf fields = quotedField sep (?q c @ 34 # more) lines (buf @ a @ [34]) fields"
        using f cutAt_byte(1)[of 34 a "34 # ?q c @ 34 # more"] by (simp add: a quotedField.simps[of sep "a @ _"])
      also have "\<dots> = quotedField sep (34 # more) lines (buf @ f) fields" using less(1)[of c "buf @ a @ [34]"] less(2) f(1) by simp
      finally show ?thesis .
    next
      case False
      then have "?q f = f" by (induction f) auto
      then show ?thesis using cutAt_byte(1)[of 34 f more] False less(2)
        by (simp add: quotedField.simps[of sep "f @ 34 # more"] quotedField.simps[of sep "34 # more"])
    qed
  qed
  show "quotedField sep (?q f @ 34 # sep # rest) lines buf fields = parseField sep rest lines (fields @ [buf @ f])"
    using assms step[of "sep # rest" f buf] by (simp add: quotedField.simps[of sep "34 # _"] encode_rune_def)
  show "quotedField sep (?q f @ [34, 10]) lines buf fields = (fields @ [buf @ f], lines)"
    using assms step[of "[10]" f buf] by (simp add: quotedField.simps[of sep "34 # _"] encode_rune_def lengthNL_def)
qed

lemma parse_field:
  assumes "csv_field sep f t" and "one_line f" and "unat sep < 128" and "sep \<noteq> 34" "sep \<noteq> 10"
  shows "parseField sep (t @ sep # rest) lines fields = parseField sep rest lines (fields @ [f])"
    and "parseField sep (t @ [10]) lines fields = (fields @ [f], lines)"
  using assms parse_plain(1)[of f sep rest lines fields] parse_plain(2)[of f sep lines fields]
    quoted_end(1)[of f sep rest lines "[]" fields] quoted_end(2)[of f sep lines "[]" fields]
  by (auto simp: csv_field_def one_line_def quoteField_def parseField.simps[of sep "34 # _"])

lemma parse_line:
  assumes "list_all2 (csv_field sep) fs ts" and "list_all one_line fs" and "fs \<noteq> []" and "unat sep < 128" and "sep \<noteq> 34" "sep \<noteq> 10"
  shows "parseField sep (csvLine sep ts) lines fields = (fields @ fs, lines)"
  using assms(1-3)
proof (induction fs ts arbitrary: fields rule: list_all2_induct)
  case (Cons f fs t ts)
  show ?case
  proof (cases fs)
    case Nil
    then have "ts = []" using Cons.hyps(2) by simp
    with Nil parse_field(2)[OF Cons.hyps(1) _ assms(4-6)] Cons.prems show ?thesis by simp
  next
    case (Cons g gs)
    then obtain u us where ts: "ts = u # us" using \<open>list_all2 (csv_field sep) fs ts\<close> by (cases ts) simp_all
    have "parseField sep (csvLine sep (t # ts)) lines fields = parseField sep (csvLine sep ts) lines (fields @ [f])"
      using parse_field(1)[OF \<open>csv_field sep f t\<close> _ assms(4-6)] \<open>list_all one_line (f # fs)\<close> by (simp add: ts)
    with Cons.IH[of "fields @ [f]"] \<open>list_all one_line (f # fs)\<close> Cons show ?thesis by simp
  qed
qed simp

lemma csvLine_shape:
  assumes "list_all2 (csv_field sep) fs ts" and "list_all one_line fs" and "sep \<noteq> 10" "sep \<noteq> 13"
  obtains body where "csvLine sep ts = body @ [10]" "10 \<notin> set body" "13 \<notin> set body" "1 < length ts \<longrightarrow> body \<noteq> []"
proof -
  have "\<exists>body. csvLine sep ts = body @ [10] \<and> 10 \<notin> set body \<and> 13 \<notin> set body \<and> (1 < length ts \<longrightarrow> body \<noteq> [])"
    using assms(1,2)
  proof (induction fs ts rule: list_all2_induct)
    case (Cons f fs t ts)
    have t: "10 \<notin> set t" "13 \<notin> set t" using Cons.hyps(1) Cons.prems by (auto simp: csv_field_def quoteField_def one_line_def split: if_splits)
    from Cons.IH Cons.prems obtain body where "csvLine sep ts = body @ [10]" "10 \<notin> set body" "13 \<notin> set body" by auto
    with t assms(3,4) show ?case by (cases ts) auto
  qed simp
  with that show thesis by blast
qed

lemma split_line: "10 \<notin> set body \<Longrightarrow> split_lines (body @ 10 # rest) = (body @ [10]) # split_lines rest"
  by (induction body) auto

lemma normal_body: "13 \<notin> set body \<Longrightarrow> normal_line (body @ [10]) = body @ [10]"
  by (cases body rule: rev_cases) (auto simp: normal_line_def)

lemma readRecords_text:
  assumes "list_all2 (list_all2 (csv_field sep)) rows texts" and "list_all (\<lambda>fs. list_all one_line fs \<and> length fs = n) rows"
    and "1 < n" and "validDelim sep" and "unat sep < 128" and "k = 0 \<or> k = n"
  shows "readRecords sep k (readLines (concat (map (csvLine sep) texts))) = Inr rows"
  using assms(1,2,6)
proof (induction rows texts arbitrary: k rule: list_all2_induct)
  case (Cons fs rows ts texts)
  have sep: "sep \<noteq> 34" "sep \<noteq> 10" "sep \<noteq> 13" using assms(4) by (simp_all add: validDelim_def)
  have n: "length fs = n" "length ts = n" "list_all one_line fs" "fs \<noteq> []"
    using Cons.prems assms(3) list_all2_lengthD[OF Cons.hyps(1)] by auto
  obtain body where body: "csvLine sep ts = body @ [10]" "10 \<notin> set body" "13 \<notin> set body" "body \<noteq> []"
    using csvLine_shape[OF Cons.hyps(1) n(3) sep(2,3)] n assms(3) by metis
  have "readLines (concat (map (csvLine sep) (ts # texts))) = csvLine sep ts # readLines (concat (map (csvLine sep) texts))"
    using split_line[OF body(2)] normal_body[OF body(3)] by (simp add: readLines_def body(1))
  moreover have "length (csvLine sep ts) \<noteq> lengthNL (csvLine sep ts)" using body by (simp add: lengthNL_def)
  moreover note parse_line[OF Cons.hyps(1) n(3,4) assms(5) sep(1,2), of _ "[]"] Cons.IH[of n]
  ultimately show ?case using Cons.prems n(1) by auto
qed (simp add: readLines_def)

text \<open>Rows of at least two fields without line breaks, in any mixture of quoted and plain fields, are read back.\<close>

lemma ReadAll_text:
  assumes "list_all2 (list_all2 (csv_field sep)) rows texts" and "list_all (\<lambda>fs. list_all one_line fs \<and> length fs = n) rows"
    and "1 < n" and "validDelim sep" and "unat sep < 128"
  shows "ReadAll sep (concat (map (csvLine sep) texts)) = Inr rows"
  using readRecords_text[OF assms, of 0] assms(4) by (simp add: ReadAll_def)

end
