(* ===== verification/Reinitializer.thy ===== *)
theory Reinitializer
  imports Csv Tools Dkg_Store Node_Types
begin

text \<open>
  The tool that makes a reinitialization message of the dump of an old log: \<open>src/cmd/dkg_reinitializer/main.go\<close> with
  \<open>ReadLogMessages\<close> of \<open>src/pkg/utils/utils.go\<close>.

  JSON is the parameter \<open>rz_env\<close>; a message is decoded into the variable that holds the one before, so fields that a line
  does not have keep their values.  \<open>rz_uuids\<close> are the random identifiers of the messages that are inserted.
\<close>

record rz_env =
  rz_os :: os_env
  rz_Unmarshal :: "bytes \<Rightarrow> Message \<Rightarrow> error + Message"
  rz_Decode_keys :: "bytes \<Rightarrow> error + (string, bytes) gomap"
  rz_reqs :: req_json
  rz_Marshal_deal :: "DKGProposalDealConfirmationRequest \<Rightarrow> error + bytes"
  rz_MarshalIndent :: "ReDKG \<Rightarrow> error + bytes"
  rz_uuids :: "nat \<Rightarrow> string"

record rz_flags =
  rf_input :: string
  rf_output :: string
  rf_keys :: string
  rf_separator :: string
  rf_column :: int
  rf_skipHeader :: bool
  rf_adapt014 :: bool

definition text_of :: "bytes \<Rightarrow> string" where
  "text_of bz = map (char_of \<circ> unat) bz"

section \<open>Reading the dump\<close>

fun readLogLoop ::
  "(bytes \<Rightarrow> Message \<Rightarrow> error + Message) \<Rightarrow> int \<Rightarrow> bytes list list \<Rightarrow> Message \<Rightarrow> Message list \<Rightarrow> (error + Message list) go"
where
  "readLogLoop unmarshal messageColumnIndex [] message messages = Inr (Inr messages)"
| "readLogLoop unmarshal messageColumnIndex (line # lines) message messages =
    bindR (slice_at line messageColumnIndex) (\<lambda>cell.
    case unmarshal cell message of
      Inl e \<Rightarrow> Inr (Inl (Wrapf ''failed to unmarshal line `%s`: %w'' [AStr (text_of cell)] e))
    | Inr message \<Rightarrow> readLogLoop unmarshal messageColumnIndex lines message (messages @ [message]))"

definition ReadLogMessages ::
  "os_env \<Rightarrow> (bytes \<Rightarrow> Message \<Rightarrow> error + Message) \<Rightarrow> string \<Rightarrow> 8 word \<Rightarrow> bool \<Rightarrow> int \<Rightarrow> ('n, Message list) tool"
where
  "ReadLogMessages os unmarshal inputFilePath sep skipHeader messageColumnIndex =
    bindM (wrapM ''failed to Open input file: %w'' [] (ReadFile os inputFilePath)) (\<lambda>bz.
    bindM (wrapM ''failed to read dump CSV): %w'' [] (liftE (ReadAll sep bz))) (\<lambda>lines.
    bindM (liftG (if skipHeader then (case lines of [] \<Rightarrow> Inl IndexOutOfRange | _ # lines \<Rightarrow> Inr lines) else Inr lines)) (\<lambda>lines.
    liftGE (readLogLoop unmarshal messageColumnIndex lines zero_Message []))))"

definition readMessages :: "rz_env \<Rightarrow> rz_flags \<Rightarrow> ('n, Message list) tool" where
  "readMessages E F = (case rf_separator F of
     [] \<Rightarrow> failM (errorsNew ''invalid (empty) separator'')
   | c # _ \<Rightarrow>
       if rf_column F < 0 then failM (errorsNew ''invalid (negative) column index'')
       else ReadLogMessages (rz_os E) (rz_Unmarshal E) (rf_input F) (of_char c) (rf_skipHeader F) (rf_column F))"

section \<open>The command\<close>

definition reinit :: "rz_env \<Rightarrow> rz_flags \<Rightarrow> ('n, unit) tool" where
  "reinit E F =
    bindM (wrapM ''failed to readMessages: %w'' [] (readMessages E F)) (\<lambda>messages.
    bindM (wrapM ''failed to Open keys file: %w'' [] (ReadFile (rz_os E) (rf_keys F))) (\<lambda>newKeysFile.
    bindM (wrapM ''failed to json.Decode keys: %w'' [] (liftE (rz_Decode_keys E newKeysFile))) (\<lambda>newCommPubKeys.
    bindM (wrapM ''failed to generate reDKG message:  %w'' []
      (liftGE (GenerateReDKGMessage (rz_reqs E) messages newCommPubKeys))) (\<lambda>reDKG.
    bindM (if rf_adapt014 F
           then wrapM ''failed to adapt reinit DKG message from 0.1.4:  %w'' []
             (liftE (GetAdaptedReDKG (rz_reqs E) (rz_Marshal_deal E) (rz_uuids E) reDKG))
           else retM reDKG) (\<lambda>reDKG.
    bindM (wrapM ''failed to encode reinit DKG message:  %w'' [] (liftE (rz_MarshalIndent E reDKG))) (\<lambda>reDKGBz.
    if rf_output F = '''' then tool_printf ''%s'' [AStr (text_of reDKGBz)]
    else wrapM ''failed to save reinit DKG JSON: %w'' [] (WriteFile (rz_os E) (rf_output F) reDKGBz)))))))"

definition main_reinitializer :: "rz_env \<Rightarrow> rz_flags \<Rightarrow> string \<Rightarrow> ('n, unit) tool" where
  "main_reinitializer E F name = wrapM ''Failed to execute root command:  %w'' []
    (if name = ''reinit'' then reinit E F
     else failM (Errorf ''unknown command %q for %q'' [AStr name, AStr ''dkg_reinitializer'']))"

section \<open>Logs\<close>

text \<open>A row whose cell decodes to a message, whatever the variable held before.\<close>

definition row_of :: "(bytes \<Rightarrow> Message \<Rightarrow> error + Message) \<Rightarrow> int \<Rightarrow> bytes list \<Rightarrow> Message \<Rightarrow> bool" where
  "row_of unmarshal col row m \<longleftrightarrow> 0 \<le> col \<and> col < int (length row) \<and> (\<forall>prev. unmarshal (row ! nat col) prev = Inr m)"

lemma readLogLoop_ok:
  "list_all2 (row_of unmarshal col) rows ms \<Longrightarrow> readLogLoop unmarshal col rows prev out = Inr (Inr (out @ ms))"
  by (induction rows ms arbitrary: prev out rule: list_all2_induct) (auto simp: row_of_def slice_at_def)

abbreviation ceremony :: "Message list \<Rightarrow> Message list" where
  "ceremony \<equiv> takeWhile (\<lambda>m. msg_Event m \<noteq> EventSigningStart)"

lemma reDKGLoop_messages:
  "reDKGLoop J ks ms d = Inr (Inr d') \<Longrightarrow> rd_Messages d' = rd_Messages d @ ceremony ms"
proof (induction ms arbitrary: d)
  case (Cons m ms)
  from Cons.prems obtain r where r: "(if msg_Event m = EventInitProposal then reDKGInit J ks m d else Inr (Inr d)) = Inr r"
    and k: "(case r of Inl e \<Rightarrow> Inr (Inl e) | Inr d1 \<Rightarrow> if msg_Event m = EventSigningStart then Inr (Inr d1)
      else reDKGLoop J ks ms (d1\<lparr>rd_Messages := rd_Messages d1 @ [m]\<rparr>)) = Inr (Inr d')"
    unfolding reDKGLoop.simps bindR_eq_Inr by blast
  then obtain d1 where d1: "r = Inr d1" by (cases r) simp_all
  from r d1 have "rd_Messages d1 = rd_Messages d" by (auto simp: reDKGInit_def split: if_splits sum.splits option.splits)
  with Cons.IH k d1 show ?case by (auto split: if_splits)
qed simp

section \<open>The adapted log\<close>

text \<open>The messages without their numbers, and the deals before which a deal to oneself is inserted.\<close>

definition unnumbered :: "Message \<Rightarrow> Message" where
  "unnumbered m = m\<lparr>Offset := 0\<rparr>"

definition deal_of :: "string \<Rightarrow> Message \<Rightarrow> bool" where
  "deal_of s m \<longleftrightarrow> msg_Event m = EventDKGDealConfirmationReceived \<and> SenderAddr m = s"

definition first_deal :: "Message list \<Rightarrow> nat \<Rightarrow> bool" where
  "first_deal ms i \<longleftrightarrow> deal_of (SenderAddr (ms ! i)) (ms ! i) \<and> \<not> list_ex (deal_of (SenderAddr (ms ! i))) (take i ms)"

definition adaptedAt :: "(nat \<Rightarrow> Message) \<Rightarrow> Message list \<Rightarrow> nat \<Rightarrow> Message list" where
  "adaptedAt self ms i = (if first_deal ms i then [self i] else []) @ [unnumbered (ms ! i)]"

definition adapted :: "req_json \<Rightarrow> (DKGProposalDealConfirmationRequest \<Rightarrow> error + bytes) \<Rightarrow> Message list \<Rightarrow> Message list \<Rightarrow> bool" where
  "adapted J marshal ms out \<longleftrightarrow> map Offset out = map of_nat [0..<length out] \<and>
    (\<exists>self. map unnumbered out = concat (map (adaptedAt self ms) [0..<length ms]) \<and>
      (\<forall>i < length ms. first_deal ms i \<longrightarrow> (\<exists>uuid. createMessage J marshal uuid (ms ! i) = Inr (self i))))"

lemma first_deal_append: "i < length pre \<Longrightarrow> first_deal (pre @ ms) i = first_deal pre i"
  by (simp add: first_deal_def nth_append)

lemma createMessage_offset: "createMessage J marshal uuid m = Inr w \<Longrightarrow> unnumbered w = w"
  by (auto simp: createMessage_def unnumbered_def Let_def split: sum.splits option.splits)

lemma unnumbered_offset [simp]: "unnumbered (m\<lparr>Offset := x\<rparr>) = unnumbered m"
  by (simp add: unnumbered_def)

lemma adaptedAt_append:
  "map (adaptedAt (self(length pre := w)) (pre @ [m])) [0..<length pre] = map (adaptedAt self pre) [0..<length pre]"
  by (intro map_cong) (simp_all add: adaptedAt_def first_deal_append nth_append)

lemma adapted_snoc:
  assumes "adapted J marshal pre out" and "map Offset (out @ added) = map of_nat [0..<length (out @ added)]"
    and "map unnumbered added = (if first_deal (pre @ [m]) (length pre) then [w] else []) @ [unnumbered m]"
    and "first_deal (pre @ [m]) (length pre) \<Longrightarrow> createMessage J marshal uuid m = Inr w"
  shows "adapted J marshal (pre @ [m]) (out @ added)"
proof -
  from assms(1) obtain self where out: "map unnumbered out = concat (map (adaptedAt self pre) [0..<length pre])"
    and self: "\<And>i. i < length pre \<Longrightarrow> first_deal pre i \<Longrightarrow> \<exists>uuid. createMessage J marshal uuid (pre ! i) = Inr (self i)"
    by (auto simp: adapted_def)
  let ?self = "self(length pre := w)"
  have "map unnumbered (out @ added) = concat (map (adaptedAt ?self (pre @ [m])) [0..<length (pre @ [m])])"
    using out assms(3) by (simp add: adaptedAt_append adaptedAt_def[of _ "pre @ [m]" "length pre"] del: map_eq_conv)
  moreover have "\<exists>uuid. createMessage J marshal uuid ((pre @ [m]) ! i) = Inr (?self i)"
    if "i < length (pre @ [m])" "first_deal (pre @ [m]) i" for i
  proof (cases "i = length pre")
    case True
    with that assms(4) show ?thesis by auto
  next
    case False
    with that self[of i] show ?thesis by (simp add: nth_append first_deal_append)
  qed
  ultimately show ?thesis using assms(2) unfolding adapted_def by blast
qed

lemma adaptLoop_adapted:
  assumes "adaptLoop J marshal uuids seen newOffset ms out = Inr out'" and "adapted J marshal pre out"
    and "\<And>s. has_key seen s \<longleftrightarrow> list_ex (deal_of s) pre" and "newOffset = of_nat (length out)"
  shows "adapted J marshal (pre @ ms) out'"
  using assms
proof (induction ms arbitrary: seen newOffset out pre)
  case (Cons m ms)
  have first: "first_deal (pre @ [m]) (length pre) \<longleftrightarrow> \<not> has_key seen (SenderAddr m) \<and> msg_Event m = EventDKGDealConfirmationReceived"
    unfolding Cons.prems(3)[of "SenderAddr m"] by (auto simp: first_deal_def deal_of_def)
  show ?case
  proof (cases "first_deal (pre @ [m]) (length pre)")
    case True
    with Cons.prems(1) first obtain w where w: "createMessage J marshal (uuids (length out)) m = Inr w"
      and rest: "adaptLoop J marshal uuids (AList.update (SenderAddr m) () seen) (newOffset + 2) ms
        (out @ [w\<lparr>Offset := newOffset\<rparr>, m\<lparr>Offset := newOffset + 1\<rparr>]) = Inr out'"
      by (auto split: sum.splits)
    have "has_key (AList.update (SenderAddr m) () seen) s \<longleftrightarrow> list_ex (deal_of s) (pre @ [m])" for s
      using Cons.prems(3)[of s] first True by (cases "s = SenderAddr m") (simp_all add: update_conv deal_of_def[of _ m])
    moreover have "adapted J marshal (pre @ [m]) (out @ [w\<lparr>Offset := newOffset\<rparr>, m\<lparr>Offset := newOffset + 1\<rparr>])"
      using Cons.prems(2,4) True w createMessage_offset[OF w]
      by (intro adapted_snoc[where w = w and uuid = "uuids (length out)"]) (simp_all add: adapted_def add.commute)
    ultimately have "adapted J marshal ((pre @ [m]) @ ms) out'" using Cons.prems(4) by (intro Cons.IH[OF rest]) simp_all
    then show ?thesis by simp
  next
    case False
    with Cons.prems(1) first have rest: "adaptLoop J marshal uuids seen (newOffset + 1) ms (out @ [m\<lparr>Offset := newOffset\<rparr>]) = Inr out'"
      by (auto split: if_splits)
    have "has_key seen s \<longleftrightarrow> list_ex (deal_of s) (pre @ [m])" for s
      using Cons.prems(3)[of s] False first by (cases "deal_of s m") (auto simp: deal_of_def[of _ m])
    moreover have "adapted J marshal (pre @ [m]) (out @ [m\<lparr>Offset := newOffset\<rparr>])"
      using Cons.prems(2,4) False by (intro adapted_snoc) (simp_all add: adapted_def)
    ultimately have "adapted J marshal ((pre @ [m]) @ ms) out'" using Cons.prems(4) by (intro Cons.IH[OF rest]) simp_all
    then show ?thesis by simp
  qed
qed simp

lemma adapted_log:
  "GetAdaptedReDKG J marshal uuids d = Inr d' \<Longrightarrow> adapted J marshal (rd_Messages d) (rd_Messages d')"
  using adaptLoop_adapted[of J marshal uuids "[]" 0 "rd_Messages d" "[]" "rd_Messages d'" "[]"]
  by (auto simp: GetAdaptedReDKG_def adapted_def split: sum.splits)

section \<open>The identifiers of the inserted messages\<close>

text \<open>Two logs that differ in identifiers only; what is hashed does not depend on them.\<close>

definition anonymous :: "Message \<Rightarrow> Message" where
  "anonymous m = m\<lparr>ID := ''''\<rparr>"

lemma anonymous_offset [simp]: "anonymous (m\<lparr>Offset := x\<rparr>) = (anonymous m)\<lparr>Offset := x\<rparr>"
  by (simp add: anonymous_def)

lemma createMessage_uuid:
  "map_sum (\<lambda>e. e) anonymous (createMessage J marshal uuid m) = map_sum (\<lambda>e. e) anonymous (createMessage J marshal uuid' m)"
  by (simp add: createMessage_def anonymous_def Let_def split: sum.split option.split)

lemma adaptLoop_uuids:
  "map anonymous out = map anonymous out' \<Longrightarrow>
   map_sum (\<lambda>e. e) (map anonymous) (adaptLoop J marshal uuids seen newOffset ms out) =
   map_sum (\<lambda>e. e) (map anonymous) (adaptLoop J marshal uuids' seen newOffset ms out')"
proof (induction ms arbitrary: seen newOffset out out')
  case (Cons m ms)
  show ?case
  proof (cases "\<not> has_key seen (SenderAddr m) \<and> msg_Event m = EventDKGDealConfirmationReceived")
    case True
    have "map_sum (\<lambda>e. e) anonymous (createMessage J marshal (uuids (length out)) m) =
        map_sum (\<lambda>e. e) anonymous (createMessage J marshal (uuids' (length out')) m)"
      by (rule createMessage_uuid)
    with True Cons show ?thesis
      by (cases "createMessage J marshal (uuids (length out)) m"; cases "createMessage J marshal (uuids' (length out')) m") auto
  next
    case False
    with Cons show ?thesis by auto
  qed
qed simp

lemma hash_anonymous:
  assumes "map anonymous (rd_Messages d) = map anonymous (rd_Messages d')" and "rd_DKGID d = rd_DKGID d'"
    and "rd_Threshold d = rd_Threshold d'" and "rd_Participants d = rd_Participants d'"
  shows "reDKGHashPayload d = reDKGHashPayload d'"
proof -
  have same: "map h (rd_Messages d) = map h (rd_Messages d')" if "\<And>m. h (anonymous m) = h m" for h :: "Message \<Rightarrow> bytes"
  proof -
    have "map h ms = map h (map anonymous ms)" for ms using that by simp
    from this[of "rd_Messages d"] this[of "rd_Messages d'"] assms(1) show ?thesis by (simp only:)
  qed
  have "map (\<lambda>m. Data m @ Signature m @ string_bytes (RecipientAddr m) @ string_bytes (msg_Event m) @ string_bytes (SenderAddr m) @
      string_bytes (DkgRoundID m) @ string_bytes (nat_digits (unat (Offset m)))) (rd_Messages d) =
    map (\<lambda>m. Data m @ Signature m @ string_bytes (RecipientAddr m) @ string_bytes (msg_Event m) @ string_bytes (SenderAddr m) @
      string_bytes (DkgRoundID m) @ string_bytes (nat_digits (unat (Offset m)))) (rd_Messages d')"
    by (rule same) (simp add: anonymous_def)
  with assms(2-4) show ?thesis unfolding reDKGHashPayload_def by (simp only:)
qed

lemma adapted_hash:
  assumes "GetAdaptedReDKG J marshal uuids d = Inr d1"
  obtains d2 where "GetAdaptedReDKG J marshal uuids' d = Inr d2" "reDKGHashPayload d2 = reDKGHashPayload d1"
proof -
  from assms obtain ms where ms: "adaptLoop J marshal uuids [] 0 (rd_Messages d) [] = Inr ms"
    and d1: "d1 = \<lparr>rd_DKGID = rd_DKGID d, rd_Threshold = rd_Threshold d, rd_Participants = rd_Participants d, rd_Messages = ms\<rparr>"
    by (auto simp: GetAdaptedReDKG_def split: sum.splits)
  from ms obtain ms' where ms': "adaptLoop J marshal uuids' [] 0 (rd_Messages d) [] = Inr ms'" "map anonymous ms' = map anonymous ms"
    using adaptLoop_uuids[of "[]" "[]" J marshal uuids "[]" 0 "rd_Messages d" uuids']
    by (cases "adaptLoop J marshal uuids' [] 0 (rd_Messages d) []") auto
  show thesis by (rule that[of "d1\<lparr>rd_Messages := ms'\<rparr>"])
      (auto simp: GetAdaptedReDKG_def ms' d1 intro!: hash_anonymous)
qed

section \<open>Logs for which the tool succeeds\<close>

text \<open>Initial proposals decode and name their participants, deals decode.\<close>

definition readable :: "req_json \<Rightarrow> Message \<Rightarrow> bool" where
  "readable J m \<longleftrightarrow>
    (msg_Event m = EventInitProposal \<longrightarrow> (\<exists>r ps. rq_SigInit J (Data m) = Inr r \<and> pl_Participants r = map Some ps)) \<and>
    (msg_Event m = EventDKGDealConfirmationReceived \<longrightarrow> (\<exists>r. rq_DkgDeal J (Data m) = Inr r))"

definition reDKG_participant :: "(string, bytes) gomap \<Rightarrow> SignatureProposalParticipantsEntry \<Rightarrow> Participant" where
  "reDKG_participant newCommPubKeys p = \<lparr>pt_DKGPubKey = pe_DkgPubKey p, pt_OldCommPubKey = pe_PubKey p,
     pt_NewCommPubKey = (case map_of newCommPubKeys (pe_Username p) of None \<Rightarrow> [] | Some k \<Rightarrow> k), pt_Name = pe_Username p\<rparr>"

lemma addReDKGParticipants:
  "foldR (addReDKGParticipant ks) (map Some ps) xs = Inr (xs @ map (reDKG_participant ks) ps)"
  by (induction ps arbitrary: xs) (simp_all add: addReDKGParticipant_def reDKG_participant_def)

lemma reDKGInit_ok:
  assumes "msg_Event m = EventInitProposal" and "rq_SigInit J (Data m) = Inr r" and "pl_Participants r = map Some ps"
  shows "reDKGInit J ks m d = Inr (Inr (d\<lparr>rd_DKGID := DkgRoundID m, rd_Threshold := pl_SigningThreshold r,
    rd_Participants := rd_Participants d @ map (reDKG_participant ks) ps\<rparr>))"
  using assms by (simp add: reDKGInit_def FSMRequestFromMessage_def resolved_def Let_def fsm_const addReDKGParticipants)

lemma reDKGLoop_ok: "list_all (readable J) (ceremony ms) \<Longrightarrow> \<exists>d'. reDKGLoop J ks ms d = Inr (Inr d')"
proof (induction ms arbitrary: d)
  case (Cons m ms)
  show ?case
  proof (cases "msg_Event m = EventInitProposal")
    case True
    then have "msg_Event m \<noteq> EventSigningStart" by (simp add: fsm_const)
    with Cons.prems True obtain r ps where "rq_SigInit J (Data m) = Inr r" "pl_Participants r = map Some ps" by (auto simp: readable_def)
    from reDKGInit_ok[OF True this] show ?thesis using Cons \<open>msg_Event m \<noteq> EventSigningStart\<close> True by simp
  qed (use Cons in \<open>auto split: if_splits\<close>)
qed simp

lemma reDKGLoop_no_init:
  assumes "list_all (\<lambda>m. msg_Event m \<noteq> EventInitProposal) (ceremony ms)"
  shows "reDKGLoop J ks ms d = Inr (Inr (d\<lparr>rd_Messages := rd_Messages d @ ceremony ms\<rparr>))"
  using assms by (induction ms arbitrary: d) (auto simp: fsm_const)

text \<open>A log with one initial proposal: the parameters of the round are those of the proposal.\<close>

lemma reDKGLoop_init:
  assumes "ceremony ms = pre @ m # post" and "list_all (\<lambda>m. msg_Event m \<noteq> EventInitProposal) (pre @ post)"
    and "msg_Event m = EventInitProposal" and "rq_SigInit J (Data m) = Inr r" and "pl_Participants r = map Some ps"
  shows "reDKGLoop J ks ms d = Inr (Inr \<lparr>rd_DKGID = DkgRoundID m, rd_Threshold = pl_SigningThreshold r,
    rd_Participants = rd_Participants d @ map (reDKG_participant ks) ps, rd_Messages = rd_Messages d @ ceremony ms\<rparr>)"
  using assms(1,2)
proof (induction ms arbitrary: pre d)
  case (Cons x ms)
  then have x: "msg_Event x \<noteq> EventSigningStart" by (auto split: if_splits)
  show ?case
  proof (cases pre)
    case Nil
    with Cons.prems x have "x = m" "ceremony ms = post" by simp_all
    with Cons.prems(2) reDKGInit_ok[OF assms(3-5)] x assms(3) Nil show ?thesis by (simp add: reDKGLoop_no_init)
  next
    case (Cons y pre')
    with Cons.prems x have "x = y" "ceremony ms = pre' @ m # post" by simp_all
    with Cons.prems(2) Cons.IH[of pre' "d\<lparr>rd_Messages := rd_Messages d @ [x]\<rparr>"] x Cons show ?thesis by simp
  qed
qed simp

lemma adaptLoop_ok:
  assumes "list_all (readable J) ms" and "\<And>r. \<exists>bz. marshal r = Inr bz"
  shows "\<exists>out'. adaptLoop J marshal uuids seen newOffset ms out = Inr out'"
  using assms(1)
proof (induction ms arbitrary: seen newOffset out)
  case (Cons m ms)
  have "\<exists>w. createMessage J marshal uuid m = Inr w" if "msg_Event m = EventDKGDealConfirmationReceived" for uuid
  proof -
    from that Cons.prems obtain r where "rq_DkgDeal J (Data m) = Inr r" by (auto simp: readable_def)
    moreover obtain bz where "marshal \<lparr>dlr_ParticipantId = dlr_ParticipantId r, dlr_Deal = self_confirm, dlr_CreatedAt = dlr_CreatedAt r\<rparr> = Inr bz"
      using assms(2) by blast
    ultimately show ?thesis using that by (simp add: createMessage_def FSMRequestFromMessage_def resolved_def Let_def fsm_const)
  qed
  then obtain w where "msg_Event m = EventDKGDealConfirmationReceived \<Longrightarrow> createMessage J marshal (uuids (length out)) m = Inr w" by blast
  with Cons show ?case by (auto split: sum.splits)
qed simp

section \<open>Running the tool\<close>

lemma WriteFile_ok:
  assumes "os_ok os"
  obtains w' where "WriteFile os path bz w = Inr (Inr (), w')" "map_of (tw_files w') path = Some bz"
proof -
  let ?w = "w\<lparr>tw_files := AList.update path [] (tw_files w)\<rparr>"
  obtain w' where w': "Write os path bz ?w = Inr (Inr (), w')"
    "w' = ?w\<lparr>tw_files := AList.update path (overlay bz (case map_of (tw_files ?w) path of None \<Rightarrow> [] | Some old \<Rightarrow> old)) (tw_files ?w)\<rparr>"
    using Write_ok[OF assms, of path bz ?w] .
  have "WriteFile os path bz w = Write os path bz ?w" using assms by (simp add: WriteFile_def os_ok_def bindM_def updateM_def)
  moreover have "map_of (tw_files w') path = Some bz" by (simp add: w'(2) update_conv' overlay_def)
  ultimately show thesis using that w'(1) by metis
qed

definition logOf :: "rz_env \<Rightarrow> rz_flags \<Rightarrow> error + bytes \<Rightarrow> (error + Message list) go" where
  "logOf E F r = (case rf_separator F of
     [] \<Rightarrow> Inr (Inl (errorsNew ''invalid (empty) separator''))
   | c # _ \<Rightarrow>
       if rf_column F < 0 then Inr (Inl (errorsNew ''invalid (negative) column index''))
       else (case r of Inl e \<Rightarrow> Inr (Inl (Wrapf ''failed to Open input file: %w'' [] e)) | Inr bz \<Rightarrow>
         (case ReadAll (of_char c) bz of Inl e \<Rightarrow> Inr (Inl (Wrapf ''failed to read dump CSV): %w'' [] e)) | Inr lines \<Rightarrow>
           bindR (if rf_skipHeader F then (case lines of [] \<Rightarrow> Inl IndexOutOfRange | _ # lines \<Rightarrow> Inr lines) else Inr lines)
             (\<lambda>lines. readLogLoop (rz_Unmarshal E) (rf_column F) lines zero_Message []))))"

text \<open>The dump is only read: what the tool makes of it depends on the contents of the file alone.\<close>

lemma readMessages_logOf:
  "readMessages E F w = bindR (logOf E F (readAt (rz_os E) (tw_files w) (rf_input F))) (\<lambda>r. Inr (r, w))"
proof (cases "readAt (rz_os E) (tw_files w) (rf_input F)")
  case (Inr bz)
  have lift: "bindM (liftG g) (\<lambda>lines. liftGE (f lines)) w = bindR (bindR g f) (\<lambda>r. Inr (r, w))"
    for g :: "bytes list list go" and f :: "bytes list list \<Rightarrow> (error + Message list) go"
    by (cases g) (simp_all add: monad_defs)
  show ?thesis
  proof (cases "rf_separator F")
    case (Cons c cs)
    then show ?thesis using Inr lift
      by (cases "ReadAll (of_char c) bz") (simp_all add: readMessages_def logOf_def ReadLogMessages_def ReadFile_def failM_def bindM_def wrapM_def liftE_def)
  qed (simp add: readMessages_def logOf_def failM_def)
qed (simp add: readMessages_def logOf_def ReadLogMessages_def ReadFile_def monad_defs split: list.split)

text \<open>What a successful run went through, and that going through it is enough.\<close>

definition reinit_makes :: "rz_env \<Rightarrow> rz_flags \<Rightarrow> (string, bytes) gomap \<Rightarrow> ReDKG \<Rightarrow> bytes \<Rightarrow> bool" where
  "reinit_makes E F files d bz \<longleftrightarrow> (\<exists>ms kf ks d0. logOf E F (readAt (rz_os E) files (rf_input F)) = Inr (Inr ms) \<and>
     readAt (rz_os E) files (rf_keys F) = Inr kf \<and> rz_Decode_keys E kf = Inr ks \<and>
     GenerateReDKGMessage (rz_reqs E) ms ks = Inr (Inr d0) \<and>
     (if rf_adapt014 F then GetAdaptedReDKG (rz_reqs E) (rz_Marshal_deal E) (rz_uuids E) d0 = Inr d else d = d0) \<and>
     rz_MarshalIndent E d = Inr bz)"

lemma bindM_iff: "bindM m k s = Inr (Inr x, s') \<longleftrightarrow> (\<exists>y t. m s = Inr (Inr y, t) \<and> k y t = Inr (Inr x, s'))"
proof (cases "m s")
  case (Inr rt)
  then show ?thesis by (cases rt; cases "fst rt") (auto simp: bindM_def)
qed (simp add: bindM_def)

lemma wrapM_iff: "wrapM msg args m s = Inr (Inr x, s') \<longleftrightarrow> m s = Inr (Inr x, s')"
proof (cases "m s")
  case (Inr rt)
  then show ?thesis by (cases rt; cases "fst rt") (auto simp: wrapM_def)
qed (simp add: wrapM_def)

lemma reinit_iff:
  assumes "rf_output F \<noteq> ''''"
  shows "reinit E F w = Inr (Inr (), w') \<longleftrightarrow>
    (\<exists>d bz. reinit_makes E F (tw_files w) d bz \<and> WriteFile (rz_os E) (rf_output F) bz w = Inr (Inr (), w'))"
  using assms
  by (cases "rf_adapt014 F") (auto simp: reinit_def reinit_makes_def bindM_iff wrapM_iff readMessages_logOf ReadFile_def liftE_def liftGE_def retM_def)

end
