(* ===== verification/Reinit_Properties.thy ===== *)
theory Reinit_Properties
  imports Reinitializer Sample_Cli Sample_Node Node_Frame
begin

text \<open>
  The way from an old log to a running round, as \<open>src/HowToReinit.md\<close> describes it: every participant makes the file of the
  reinitialization from the dump (\<open>Reinitializer\<close>) and compares its hash with \<open>get_reinit_dkg_file_hash\<close>, one of them sends
  it, and every node shows the hash of what it received with the operation (\<open>reinitDKG\<close> of the node, \<open>showOperation\<close> of the
  client).
\<close>

section \<open>The file of a reinitialization\<close>

text \<open>A decoder that reads back what the tool writes.\<close>

definition reinit_json_ok :: "rz_env \<Rightarrow> (bytes \<Rightarrow> error + ReDKG) \<Rightarrow> bool" where
  "reinit_json_ok E unmarshal \<longleftrightarrow> (\<forall>d bz. rz_MarshalIndent E d = Inr bz \<longrightarrow> unmarshal bz = Inr d)"

lemma file_hash:
  assumes "os_ok (ce_os env)" and "map_of (tw_files w) path = Some bz" and "ce_Unmarshal_reDKG env bz = Inr d"
  shows "getHashOfReinitDKGMessageCommand env path w =
    Inr (Inr (), w\<lparr>tw_stdout := tw_stdout w @ [(''%s'', [AStr (hex_EncodeToString (ce_sha1 env (reDKGHashPayload d)))])]\<rparr>)"
  using readAt_ok[OF assms(1,2)] assms(3)
  by (simp add: getHashOfReinitDKGMessageCommand_def CalcStartReInitDKGMessageHash_def ReadFile_def tool_printf_def monad_defs)

lemma reinit_written:
  assumes "os_ok (rz_os E)" and "rf_output F \<noteq> ''''"
  shows "reinit_makes E F (tw_files w) d bz \<Longrightarrow> \<exists>w'. reinit E F w = Inr (Inr (), w') \<and> map_of (tw_files w') (rf_output F) = Some bz"
    and "reinit E F w = Inr (Inr (), w') \<Longrightarrow>
      \<exists>d bz. reinit_makes E F (tw_files w) d bz \<and> map_of (tw_files w') (rf_output F) = Some bz"
proof -
  have saved: "\<exists>w'. WriteFile (rz_os E) (rf_output F) bz w = Inr (Inr (), w') \<and> map_of (tw_files w') (rf_output F) = Some bz" for bz
    using WriteFile_ok[OF assms(1), of "rf_output F" bz w] by metis
  show "reinit_makes E F (tw_files w) d bz \<Longrightarrow> \<exists>w'. reinit E F w = Inr (Inr (), w') \<and> map_of (tw_files w') (rf_output F) = Some bz"
    using reinit_iff[OF assms(2)] saved[of bz] by blast
  show "reinit E F w = Inr (Inr (), w') \<Longrightarrow> \<exists>d bz. reinit_makes E F (tw_files w) d bz \<and> map_of (tw_files w') (rf_output F) = Some bz"
    unfolding reinit_iff[OF assms(2)] using saved by (metis Inr_inject prod.inject)
qed

text \<open>Other identifiers for the inserted messages: the result has the same hash.\<close>

lemma reinit_makes_uuids:
  assumes "reinit_makes E F files d bz" and "reinit_makes (E\<lparr>rz_uuids := u\<rparr>) F files' d' bz'"
    and "readAt (rz_os E) files' (rf_input F) = readAt (rz_os E) files (rf_input F)"
    and "readAt (rz_os E) files' (rf_keys F) = readAt (rz_os E) files (rf_keys F)"
  shows "reDKGHashPayload d' = reDKGHashPayload d"
proof -
  have same: "rz_Unmarshal (E\<lparr>rz_uuids := u\<rparr>) = rz_Unmarshal E" by simp
  have "logOf (E\<lparr>rz_uuids := u\<rparr>) F = logOf E F" unfolding logOf_def same ..
  with assms obtain d0 where "if rf_adapt014 F then GetAdaptedReDKG (rz_reqs E) (rz_Marshal_deal E) (rz_uuids E) d0 = Inr d \<and>
      GetAdaptedReDKG (rz_reqs E) (rz_Marshal_deal E) u d0 = Inr d' else d = d0 \<and> d' = d0"
    by (cases "rf_adapt014 F") (auto simp: reinit_makes_def)
  then show ?thesis
    using adapted_hash[of "rz_reqs E" "rz_Marshal_deal E" "rz_uuids E" d0 d u] by (auto split: if_splits)
qed

section \<open>The operation of a reinitialization\<close>

lemma pool_of_put:
  assumes "PutOperation L J operation r = (None, r')" and "operationsCompositeKey r \<noteq> deleteOperationsCompositeKey r"
  shows "\<exists>live dead. pool_abs L J r live dead"
  using assms by (auto simp: pool_abs_def PutOperation_def GetOperations_def split: sum.splits)

lemma pool_abs_frame:
  assumes "pool_abs L J r live dead" and "operationsCompositeKey r' = operationsCompositeKey r"
    and "deleteOperationsCompositeKey r' = deleteOperationsCompositeKey r"
    and "\<And>k. k \<in> {operationsCompositeKey r, deleteOperationsCompositeKey r} \<Longrightarrow>
      LevelDBState_Get L (repo_state r') k = LevelDBState_Get L (repo_state r) k"
  shows "pool_abs L J r' live dead"
proof -
  have "getDeletedOperations L J r' = getDeletedOperations L J r" using assms(3,4) by (intro getDeleted_frame) simp_all
  moreover from this have "GetOperations L J r' = GetOperations L J r" using assms(4)[of "operationsCompositeKey r"]
    unfolding GetOperations_def assms(2,3) by (cases "getDeletedOperations L J r") simp_all
  ultimately show ?thesis using assms(1-3) by (simp add: pool_abs_def)
qed

lemma saved_elsewhere:
  assumes "leveldb_ok L" and "k \<noteq> fs_stateKey f"
  shows "SaveFSM L J d dump f = Inr (None, f') \<Longrightarrow> LevelDBState_Get L (fs_state f') k = LevelDBState_Get L (fs_state f) k"
    and "GetFSMInstance L J d c f = Inr (Inr i, f') \<Longrightarrow> LevelDBState_Get L (fs_state f') k = LevelDBState_Get L (fs_state f) k"
proof -
  show save: "LevelDBState_Get L (fs_state f') k = LevelDBState_Get L (fs_state f) k"
    if "SaveFSM L J d dump f = Inr (None, f')" for d dump f'
    using that assms(2) state_set_get(1)[OF assms(1)]
    by (auto simp: SaveFSM_def getStateKey_def split: sum.splits option.splits prod.splits)
  assume get: "GetFSMInstance L J d c f = Inr (Inr i, f')"
  then obtain r where r: "loadFSM L J d f = Inr (Inr r)"
    by (cases "loadFSM L J d f"; cases "projr (loadFSM L J d f)") (auto simp: GetFSMInstance_def)
  show "LevelDBState_Get L (fs_state f') k = LevelDBState_Get L (fs_state f) k"
  proof (cases r)
    case None
    with r get obtain i' bz where "Create d = Inr (Inr i')" and bz: "FSMInstance_Dump i' = Inr bz"
      by (cases "Create d"; cases "projr (Create d)"; cases "FSMInstance_Dump (projr (projr (Create d)))")
        (auto simp: GetFSMInstance_def split: if_splits)
    with r get None have "SaveFSM L J d bz f = Inr (None, f')"
      by (cases "SaveFSM L J d bz f") (auto simp: GetFSMInstance_def split: if_splits option.splits)
    then show ?thesis by (rule save)
  qed (use r get in \<open>simp add: GetFSMInstance_def\<close>)
qed

lemma put_then_saved:
  assumes ok: "leveldb_ok (ne_leveldb env)" "ops_json_ok (ne_ops env)"
    and keys: "nd_operationsKey n \<noteq> nd_deletedKey n" "nd_stateKey n \<notin> {nd_operationsKey n, nd_deletedKey n}"
    and put: "node_PutOperation env operation n = Inr (Inr (), n1)"
    and get: "node_GetFSMInstance env d c n1 = Inr (Inr i, n2)" and save: "node_SaveFSM env d' dump n2 = Inr (Inr (), n3)"
  shows "\<exists>live dead. pool_abs (ne_leveldb env) (ne_ops env) (opRepo n3) live dead \<and>
    (op_ID operation \<in> dead \<or> live (op_ID operation) = Some operation)"
proof -
  let ?L = "ne_leveldb env" and ?J = "ne_ops env"
  from put obtain r where r: "Service_PutOperation ?L ?J operation (opRepo n) = (None, r)" "n1 = n\<lparr>nd_state := repo_state r\<rparr>"
    by (auto simp: node_PutOperation_def split: prod.splits option.splits)
  from r(1) have p: "PutOperation ?L ?J operation (opRepo n) = (None, r)"
    by (auto simp: Service_PutOperation_def split: prod.splits option.splits)
  from pool_of_put[OF p] keys(1) obtain live dead where abs: "pool_abs ?L ?J (opRepo n) live dead" by (auto simp: opRepo_def)
  note putted = put_refines[OF ok abs p]
  have rk: "operationsCompositeKey r = nd_operationsKey n" "deleteOperationsCompositeKey r = nd_deletedKey n"
    using p by (auto simp: PutOperation_def storeOperations_def opRepo_def split: sum.splits if_splits prod.splits option.splits)
  from get obtain f where f: "GetFSMInstance ?L (ne_fsms env) d c (fsmService n1) = Inr (Inr i, f)" "n2 = n1\<lparr>nd_state := fs_state f\<rparr>"
    by (auto simp: node_GetFSMInstance_def)
  from save obtain g where g: "SaveFSM ?L (ne_fsms env) d' dump (fsmService n2) = Inr (None, g)" "n3 = n2\<lparr>nd_state := fs_state g\<rparr>"
    by (auto simp: node_SaveFSM_def split: option.splits prod.splits)
  have same: "LevelDBState_Get ?L (nd_state n3) k = LevelDBState_Get ?L (repo_state r) k" if "k \<in> {nd_operationsKey n, nd_deletedKey n}" for k
    using saved_elsewhere(2)[OF ok(1) _ f(1), of k] saved_elsewhere(1)[OF ok(1) _ g(1), of k] that keys(2)
    by (auto simp: fsmService_def f(2) g(2) r(2))
  have "pool_abs ?L ?J (opRepo n3) (fst (pool_put operation (live, dead))) (snd (pool_put operation (live, dead)))"
    by (rule pool_abs_frame[OF putted(2)]) (use same in \<open>simp_all add: rk opRepo_def f(2) g(2) r(2)\<close>)
  then show ?thesis by (intro exI conjI) (assumption, simp add: pool_put_def)
qed

lemma checked_iff:
  "(case r of Inl e \<Rightarrow> failM e' | Inr x \<Rightarrow> k x) s = Inr (Inr y, s') \<longleftrightarrow> (\<exists>x. r = Inr x \<and> k x s = Inr (Inr y, s'))"
  by (cases r) (simp_all add: failM_def)

lemma reinit_put:
  assumes "msg_Event m = ReinitDKG" and "ne_ReDKG env (Data m) = Inr d" and "node_IsExist env (rd_DKGID d) n = Inr (Inr False, n)"
    and "ProcessMessage env m n = Inr (Inr (), n')"
  obtains now bz n1 n2 n3 i dump operation where "node_id n1 = node_id n"
    and "operation = (NewOperation (ne_md5 env) now (rd_DKGID d) bz ReinitDKG)\<lparr>op_ExtraData := ne_sha1 env (reDKGHashPayload d)\<rparr>"
    and "node_PutOperation env operation n1 = Inr (Inr (), n2)" and "node_GetFSMInstance env (rd_DKGID d) True n2 = Inr (Inr i, n3)"
    and "node_SaveFSM env (DkgRoundID m) dump n3 = Inr (Inr (), n'\<lparr>nd_skip := True\<rparr>)"
proof -
  let ?n = "n\<lparr>nd_skip := True\<rparr>"
  from assms(1,4) have "reinitDKG env m n = Inr (Inr (), n')"
    by (cases "reinitDKG env m n"; cases "fst (projr (reinitDKG env m n))") (auto simp: ProcessMessage_def bind_attempt failM_def retM_def)
  with assms(2,3) obtain n4 where body: "reinitBody env m d ?n = Inr (Inr (), n4)" and n': "n' = n4\<lparr>nd_skip := nd_skip n'\<rparr>"
    by (auto simp: reinitDKG_def bindM_iff wrapM_iff bind_attempt liftE_def readM_def updateM_def)
  have "nd_skip n4" using keepsD[OF flag.reinit_body_keeps[where b = True] _ body] by simp
  then have n4: "n4 = n'\<lparr>nd_skip := True\<rparr>" using n' by (cases n4, cases n') simp
  from body obtain ops n1 now n0 hash n2 i n3 dump bz where replay: "replayMessages env (rd_Messages d) [] ?n = Inr (Inr ops, n1)"
    and now: "time_Now env n1 = Inr (Inr now, n0)" and hash: "CalcStartReInitDKGMessageHash (ne_ReDKG env) (ne_sha1 env) (Data m) = Inr hash"
    and put: "node_PutOperation env ((NewOperation (ne_md5 env) now (rd_DKGID d) bz ReinitDKG)\<lparr>op_ExtraData := hash\<rparr>) n0 = Inr (Inr (), n2)"
    and load: "node_GetFSMInstance env (rd_DKGID d) True n2 = Inr (Inr i, n3)" and save: "node_SaveFSM env (DkgRoundID m) dump n3 = Inr (Inr (), n4)"
    by (auto simp: reinitBody_def Let_def bindM_iff wrapM_iff attemptM_def liftE_def liftG_def checked_iff)
  have "node_id n1 = node_id n" using keepsD[OF ident.replay_keeps[where x = "node_id n"] _ replay] by simp
  moreover have "node_id n0 = node_id n1" using now by (auto simp: time_Now_def)
  moreover have "hash = ne_sha1 env (reDKGHashPayload d)" using hash assms(2) by (simp add: CalcStartReInitDKGMessageHash_def)
  ultimately show thesis using put load save n4 by (intro that[of n0]) auto
qed

section \<open>Properties\<close>

text \<open>
  C13: The checksum of a reinitialization can be compared: two participants who run \<open>reinit\<close> on the same dump and the same keys
  get the same hash from \<open>get_reinit_dkg_file_hash\<close>, although the messages that the tool inserts carry random identifiers and
  the two files differ.
\<close>

theorem reinit_checksum:
  assumes "os_ok (rz_os E)" and "ce_os env = rz_os E" and "reinit_json_ok E (ce_Unmarshal_reDKG env)" and "rf_output F \<noteq> ''''"
    and "map_of (tw_files w') (rf_input F) = map_of (tw_files w) (rf_input F)"
    and "map_of (tw_files w') (rf_keys F) = map_of (tw_files w) (rf_keys F)"
    and "reinit E F w = Inr (Inr (), w1)" and "reinit (E\<lparr>rz_uuids := u\<rparr>) F w' = Inr (Inr (), w2)"
  shows "\<exists>h. getHashOfReinitDKGMessageCommand env (rf_output F) w1 = Inr (Inr (), w1\<lparr>tw_stdout := tw_stdout w1 @ [(''%s'', [AStr h])]\<rparr>) \<and>
    getHashOfReinitDKGMessageCommand env (rf_output F) w2 = Inr (Inr (), w2\<lparr>tw_stdout := tw_stdout w2 @ [(''%s'', [AStr h])]\<rparr>)"
proof -
  from reinit_written(2)[OF assms(1,4,7)] obtain d bz where d: "reinit_makes E F (tw_files w) d bz"
    "map_of (tw_files w1) (rf_output F) = Some bz" by blast
  from reinit_written(2)[OF _ assms(4,8)] assms(1) obtain d' bz' where d': "reinit_makes (E\<lparr>rz_uuids := u\<rparr>) F (tw_files w') d' bz'"
    "map_of (tw_files w2) (rf_output F) = Some bz'" by auto
  have json: "ce_Unmarshal_reDKG env bz = Inr d" "ce_Unmarshal_reDKG env bz' = Inr d'"
    using d(1) d'(1) assms(3) by (auto simp: reinit_makes_def reinit_json_ok_def)
  have "reDKGHashPayload d' = reDKGHashPayload d" by (rule reinit_makes_uuids[OF d(1) d'(1)]) (simp_all add: readAt_def assms(5,6) split: option.split)
  with file_hash[OF _ d(2) json(1)] file_hash[OF _ d'(2) json(2)] assms(1,2) show ?thesis by auto
qed


section \<open>From the dump to the file\<close>

text \<open>A text in which rows of equal length are written, and a log with one initial proposal.\<close>

definition csv_dump :: "8 word \<Rightarrow> bytes list list \<Rightarrow> bytes \<Rightarrow> bool" where
  "csv_dump sep rows bz \<longleftrightarrow> (\<exists>texts n. bz = concat (map (csvLine sep) texts) \<and> list_all2 (list_all2 (csv_field sep)) rows texts \<and>
     list_all (\<lambda>fs. list_all one_line fs \<and> length fs = n) rows \<and> 1 < n \<and> validDelim sep \<and> unat sep < 128)"

definition round_log ::
  "req_json \<Rightarrow> Message list \<Rightarrow> Message \<Rightarrow> SignatureProposalParticipantsListRequest \<Rightarrow> SignatureProposalParticipantsEntry list \<Rightarrow> bool"
where
  "round_log J ms m r ps \<longleftrightarrow> list_all (readable J) ms \<and>
    (\<exists>pre post. ms = pre @ m # post \<and> list_all (\<lambda>m. msg_Event m \<noteq> EventInitProposal) (pre @ post)) \<and>
    msg_Event m = EventInitProposal \<and> rq_SigInit J (Data m) = Inr r \<and> pl_Participants r = map Some ps"

lemma logOf_dump:
  assumes "csv_dump (of_char c) rows bz" and "rf_separator F = c # cs" and "if rf_skipHeader F then rows = header # log else rows = log"
    and "list_all2 (row_of (rz_Unmarshal E) (rf_column F)) log ms" and "0 \<le> rf_column F"
  shows "logOf E F (Inr bz) = Inr (Inr ms)"
proof -
  from assms(1) have rows: "ReadAll (of_char c) bz = Inr rows" unfolding csv_dump_def using ReadAll_text by blast
  show ?thesis
    using assms(2,3,5) rows readLogLoop_ok[OF assms(4), of zero_Message "[]"] by (simp add: logOf_def split: if_splits)
qed

lemma makes_of_log:
  fixes E :: rz_env and F :: rz_flags
  assumes "round_log (rz_reqs E) (ceremony ms) m r ps" and "\<And>r. \<exists>bz. rz_Marshal_deal E r = Inr bz"
  obtains d0 d where "GenerateReDKGMessage (rz_reqs E) ms ks = Inr (Inr d0)"
    and "if rf_adapt014 F then GetAdaptedReDKG (rz_reqs E) (rz_Marshal_deal E) (rz_uuids E) d0 = Inr d else d = d0"
    and "rd_DKGID d = DkgRoundID m" and "rd_Threshold d = pl_SigningThreshold r" and "rd_Participants d = map (reDKG_participant ks) ps"
    and "if rf_adapt014 F then adapted (rz_reqs E) (rz_Marshal_deal E) (ceremony ms) (rd_Messages d) else rd_Messages d = ceremony ms"
proof -
  let ?d0 = "\<lparr>rd_DKGID = DkgRoundID m, rd_Threshold = pl_SigningThreshold r, rd_Participants = map (reDKG_participant ks) ps,
    rd_Messages = ceremony ms\<rparr>"
  from assms(1) obtain pre post where split: "ceremony ms = pre @ m # post" "list_all (\<lambda>m. msg_Event m \<noteq> EventInitProposal) (pre @ post)"
    and m: "msg_Event m = EventInitProposal" "rq_SigInit (rz_reqs E) (Data m) = Inr r" "pl_Participants r = map Some ps"
    by (auto simp: round_log_def)
  have d0: "GenerateReDKGMessage (rz_reqs E) ms ks = Inr (Inr ?d0)" unfolding GenerateReDKGMessage_def reDKGLoop_init[OF split m] by simp
  show thesis
  proof (cases "rf_adapt014 F")
    case True
    from adaptLoop_ok[of "rz_reqs E" "ceremony ms" "rz_Marshal_deal E" "rz_uuids E" "[]" 0 "[]"] assms obtain out
      where out: "adaptLoop (rz_reqs E) (rz_Marshal_deal E) (rz_uuids E) [] 0 (ceremony ms) [] = Inr out" by (auto simp: round_log_def)
    then have a: "GetAdaptedReDKG (rz_reqs E) (rz_Marshal_deal E) (rz_uuids E) ?d0 = Inr (?d0\<lparr>rd_Messages := out\<rparr>)"
      by (simp add: GetAdaptedReDKG_def)
    show thesis by (rule that[OF d0, of "?d0\<lparr>rd_Messages := out\<rparr>"]) (use True a adapted_log[OF a] in simp_all)
  next
    case False
    show thesis by (rule that[OF d0, of ?d0]) (use False in simp_all)
  qed
qed

text \<open>
  C20: The reinitialization restores the round of the dump: a dump in which the messages of a log with one initial proposal
  are written, one in a row and quoted or not, with or without a header, is turned into a file with the identifier and the
  threshold of the round, its participants with their new communication keys, and all messages up to the first proposal to
  sign.  With the adaption from 0.1.4 the messages are numbered from zero and a deal to oneself stands directly before the first
  deal of every sender, and nothing else is changed.
\<close>

theorem reinit_restores_log:
  assumes "os_ok (rz_os E)" and "rf_output F \<noteq> ''''" and "rf_separator F = c # cs" and "0 \<le> rf_column F"
    and "map_of (tw_files w) (rf_input F) = Some bz" and "csv_dump (of_char c) rows bz"
    and "if rf_skipHeader F then rows = header # log else rows = log"
    and "list_all2 (row_of (rz_Unmarshal E) (rf_column F)) log ms"
    and "map_of (tw_files w) (rf_keys F) = Some kf" and "rz_Decode_keys E kf = Inr ks"
    and "round_log (rz_reqs E) (ceremony ms) m r ps" and "\<And>x. \<exists>b. rz_Marshal_deal E x = Inr b"
  shows "\<exists>d. rd_DKGID d = DkgRoundID m \<and> rd_Threshold d = pl_SigningThreshold r \<and>
    rd_Participants d = map (reDKG_participant ks) ps \<and>
    (if rf_adapt014 F then adapted (rz_reqs E) (rz_Marshal_deal E) (ceremony ms) (rd_Messages d) else rd_Messages d = ceremony ms) \<and>
    (\<forall>b. rz_MarshalIndent E d = Inr b \<longrightarrow>
      (\<exists>w'. reinit E F w = Inr (Inr (), w') \<and> map_of (tw_files w') (rf_output F) = Some b))"
proof -
  obtain d0 d where d: "GenerateReDKGMessage (rz_reqs E) ms ks = Inr (Inr d0)"
    "if rf_adapt014 F then GetAdaptedReDKG (rz_reqs E) (rz_Marshal_deal E) (rz_uuids E) d0 = Inr d else d = d0"
    and spec: "rd_DKGID d = DkgRoundID m" "rd_Threshold d = pl_SigningThreshold r" "rd_Participants d = map (reDKG_participant ks) ps"
      "if rf_adapt014 F then adapted (rz_reqs E) (rz_Marshal_deal E) (ceremony ms) (rd_Messages d) else rd_Messages d = ceremony ms"
    using makes_of_log[OF assms(11,12), of ks F] .
  note log = logOf_dump[where E = E, OF assms(6,3,7,8,4)]
  note files = readAt_ok[OF assms(1,5)] readAt_ok[OF assms(1,9)]
  have "reinit_makes E F (tw_files w) d b" if "rz_MarshalIndent E d = Inr b" for b
    unfolding reinit_makes_def files using log assms(10) d that by blast
  then have "\<forall>b. rz_MarshalIndent E d = Inr b \<longrightarrow>
      (\<exists>w'. reinit E F w = Inr (Inr (), w') \<and> map_of (tw_files w') (rf_output F) = Some b)"
    using reinit_written(1)[OF assms(1,2), of w d] by simp
  with spec show ?thesis by (intro exI[of _ d]) simp
qed

section \<open>A sample\<close>

text \<open>A dump with a header, a proposal between quotes and the deal of Alice.\<close>

definition sample_log :: "Message list" where
  "sample_log = [sample_message EventInitProposal 0, sample_message EventDKGDealConfirmationReceived 5]"

definition sample_rows :: "bytes list list" where
  "sample_rows = [[[104], [101]], [[49], [105]], [[50], [100]]]"

definition sample_dump_csv :: bytes where
  "sample_dump_csv = [104, 59, 101, 10, 49, 59, 34, 105, 34, 10, 50, 59, 100, 10]"

definition sample_cell :: "bytes \<Rightarrow> Message \<Rightarrow> error + Message" where
  "sample_cell b prev = (if b = [105] then Inr (sample_message EventInitProposal 0)
     else if b = [100] then Inr (sample_message EventDKGDealConfirmationReceived 5) else Inl (errorsNew ''json''))"

definition sample_reDKG :: "string \<Rightarrow> ReDKG" where
  "sample_reDKG u = \<lparr>rd_DKGID = ''round'', rd_Threshold = 2, rd_Participants = map (reDKG_participant [(''alice'', [9])]) sample_entries,
     rd_Messages = [sample_message EventInitProposal 0, \<lparr>ID = u, DkgRoundID = ''round'', Offset = 1,
       msg_Event = EventDKGDealConfirmationReceived, Data = [7], Signature = [], SenderAddr = ''alice'', RecipientAddr = ''alice''\<rparr>,
       (sample_message EventDKGDealConfirmationReceived 5)\<lparr>Offset := 2\<rparr>]\<rparr>"

definition sample_rz :: rz_env where
  "sample_rz = \<lparr>rz_os = sample_os, rz_Unmarshal = sample_cell, rz_Decode_keys = (\<lambda>b. Inr [(''alice'', [9])]), rz_reqs = sample_requests,
     rz_Marshal_deal = (\<lambda>r. Inr [7]), rz_MarshalIndent = (\<lambda>d. if d = sample_reDKG ''u1'' then Inr [1] else if d = sample_reDKG ''u2'' then Inr [2]
       else Inl (errorsNew ''json'')), rz_uuids = (\<lambda>k. ''u1'')\<rparr>"

definition sample_rz_flags :: rz_flags where
  "sample_rz_flags = \<lparr>rf_input = ''dump.csv'', rf_output = ''reinit.json'', rf_keys = ''keys.json'', rf_separator = '';'', rf_column = 1,
     rf_skipHeader = True, rf_adapt014 = True\<rparr>"

definition sample_table_top :: "unit tool_world" where
  "sample_table_top = \<lparr>tw_node = (), tw_files = [(''dump.csv'', sample_dump_csv), (''keys.json'', [123, 125])], tw_stdin = [], tw_stdout = []\<rparr>"

lemma sample_csv: "csv_dump (of_char CHR '';'') sample_rows sample_dump_csv"
proof -
  let ?texts = "[[[104], [101]], [[49], [34, 105, 34]], [[50], [100]]] :: bytes list list" and ?sep = "of_char CHR '';'' :: 8 word"
  have "sample_dump_csv = concat (map (csvLine ?sep) ?texts)" by (simp add: sample_dump_csv_def)
  moreover have "list_all2 (list_all2 (csv_field ?sep)) sample_rows ?texts"
    by (simp add: sample_rows_def csv_field_def quoteField_def)
  moreover have "list_all (\<lambda>fs. list_all one_line fs \<and> length fs = 2) sample_rows" by (simp add: sample_rows_def one_line_def)
  moreover have "validDelim ?sep" "unat ?sep < 128" by (simp_all add: validDelim_def)
  ultimately show ?thesis unfolding csv_dump_def by fastforce
qed

lemma sample_log_rows: "list_all2 (row_of sample_cell 1) [[[49], [105]], [[50], [100]]] sample_log"
  by (simp add: row_of_def sample_cell_def sample_log_def)

lemma sample_round_log: "round_log sample_requests (ceremony sample_log) (sample_message EventInitProposal 0) sample_init sample_entries"
proof -
  have "ceremony sample_log = sample_log" by (simp add: sample_log_def sample_message_def Let_def fsm_const)
  then show ?thesis
    unfolding round_log_def sample_log_def
    by (intro conjI exI[of _ "[]"] exI[of _ "[sample_message EventDKGDealConfirmationReceived 5]"])
      (auto simp: readable_def sample_message_def Let_def fsm_const sample_requests_def sample_proposal_def sample_deal_req_def sample_init_def)
qed

theorem reinit_restores_log_witness:
  "\<exists>d :: ReDKG. rd_DKGID d = ''round'' \<and> rd_Threshold d = 2 \<and> map pt_Name (rd_Participants d) = [''alice'', ''bob''] \<and>
    map Offset (rd_Messages d) = [0, 1, 2] \<and>
    (\<exists>w'. reinit (sample_rz\<lparr>rz_MarshalIndent := (\<lambda>d. Inr [123, 125])\<rparr>) sample_rz_flags sample_table_top = Inr (Inr (), w') \<and>
      map_of (tw_files w') ''reinit.json'' = Some [123, 125])"
proof -
  let ?E = "sample_rz\<lparr>rz_MarshalIndent := (\<lambda>d. Inr [123, 125])\<rparr>" and ?F = sample_rz_flags
  have env: "os_ok (rz_os ?E)" "rz_Unmarshal ?E = sample_cell" "rz_reqs ?E = sample_requests" "rf_column ?F = 1" "rf_skipHeader ?F"
    "rf_adapt014 ?F" "rf_output ?F = ''reinit.json''" "rz_MarshalIndent ?E d = Inr [123, 125]" for d
    by (simp_all add: sample_rz_def sample_os_ok sample_rz_flags_def)
  have flags: "rf_output ?F \<noteq> ''''" "rf_separator ?F = CHR '';'' # []" "0 \<le> rf_column ?F"
    "if rf_skipHeader ?F then sample_rows = [[104], [101]] # [[[49], [105]], [[50], [100]]] else sample_rows = [[[49], [105]], [[50], [100]]]"
    "map_of (tw_files sample_table_top) (rf_input ?F) = Some sample_dump_csv" "map_of (tw_files sample_table_top) (rf_keys ?F) = Some [123, 125]"
    by (simp_all add: sample_rz_flags_def sample_rows_def sample_table_top_def)
  have log: "list_all2 (row_of (rz_Unmarshal ?E) (rf_column ?F)) [[[49], [105]], [[50], [100]]] sample_log"
    "round_log (rz_reqs ?E) (ceremony sample_log) (sample_message EventInitProposal 0) sample_init sample_entries"
    unfolding env(2-4) by (fact sample_log_rows sample_round_log)+
  have json: "rz_Decode_keys ?E [123, 125] = Inr [(''alice'', [9])]" "\<exists>b. rz_Marshal_deal ?E x = Inr b" for x by (simp_all add: sample_rz_def)
  have "\<exists>d :: ReDKG. rd_DKGID d = DkgRoundID (sample_message EventInitProposal 0) \<and> rd_Threshold d = pl_SigningThreshold sample_init \<and>
    rd_Participants d = map (reDKG_participant [(''alice'', [9])]) sample_entries \<and>
    adapted sample_requests (rz_Marshal_deal ?E) (ceremony sample_log) (rd_Messages d) \<and>
    (\<exists>w'. reinit ?E ?F sample_table_top = Inr (Inr (), w') \<and> map_of (tw_files w') (rf_output ?F) = Some [123, 125])"
    using reinit_restores_log[OF env(1) flags(1-3,5) sample_csv flags(4) log(1) flags(6) json(1) log(2) json(2)] env(3,6,8) by simp
  then obtain d :: ReDKG where d: "rd_DKGID d = DkgRoundID (sample_message EventInitProposal 0)" "rd_Threshold d = pl_SigningThreshold sample_init"
    "rd_Participants d = map (reDKG_participant [(''alice'', [9])]) sample_entries"
    "adapted sample_requests (rz_Marshal_deal ?E) (ceremony sample_log) (rd_Messages d)"
    and run: "\<exists>w'. reinit ?E ?F sample_table_top = Inr (Inr (), w') \<and> map_of (tw_files w') (rf_output ?F) = Some [123, 125]"
    by blast
  have "ceremony sample_log = sample_log" by (simp add: sample_log_def sample_message_def Let_def fsm_const)
  with d(4) obtain self where off: "map Offset (rd_Messages d) = map of_nat [0..<length (rd_Messages d)]"
    and "map unnumbered (rd_Messages d) = concat (map (adaptedAt self sample_log) [0..<length sample_log])"
    by (auto simp: adapted_def)
  then have "length (rd_Messages d) = length (concat (map (adaptedAt self sample_log) [0..<length sample_log]))" by (metis length_map)
  also have "\<dots> = 3"
    by (simp add: sample_log_def adaptedAt_def first_deal_def deal_of_def sample_message_def Let_def fsm_const)
  finally have "map Offset (rd_Messages d) = [0, 1, 2]" using off by (simp add: upt_rec)
  with d run show ?thesis
    by (intro exI[of _ d]) (simp add: env sample_message_def Let_def sample_init_def sample_entries_def reDKG_participant_def)
qed

text \<open>Two participants with different identifiers.\<close>

lemma sample_adapted: "GetAdaptedReDKG sample_requests (\<lambda>r. Inr [7]) (\<lambda>k. u)
    ((sample_reDKG u)\<lparr>rd_Messages := sample_log\<rparr>) = Inr (sample_reDKG u)"
  by (simp add: GetAdaptedReDKG_def sample_log_def sample_reDKG_def createMessage_def FSMRequestFromMessage_def resolved_def Let_def
      fsm_const sample_message_def sample_requests_def sample_deal_req_def)

lemma sample_generated: "GenerateReDKGMessage sample_requests sample_log [(''alice'', [9])] =
    Inr (Inr ((sample_reDKG u)\<lparr>rd_Messages := sample_log\<rparr>))"
proof -
  have "sample_log = [] @ sample_message EventInitProposal 0 # [sample_message EventDKGDealConfirmationReceived 5]"
    "ceremony sample_log = sample_log" by (simp_all add: sample_log_def sample_message_def Let_def fsm_const)
  then show ?thesis unfolding GenerateReDKGMessage_def
    by (subst reDKGLoop_init[where pre = "[]" and m = "sample_message EventInitProposal 0" and r = sample_init and ps = sample_entries
          and post = "[sample_message EventDKGDealConfirmationReceived 5]"])
      (simp_all add: sample_message_def Let_def fsm_const sample_requests_def sample_proposal_def sample_init_def sample_reDKG_def)
qed

lemma sample_made:
  assumes "u = ''u1'' \<and> b = 1 \<or> u = ''u2'' \<and> b = 2"
  shows "reinit_makes (sample_rz\<lparr>rz_uuids := (\<lambda>k. u)\<rparr>) sample_rz_flags (tw_files sample_table_top) (sample_reDKG u) [b]"
proof -
  have "sample_reDKG ''u2'' \<noteq> sample_reDKG ''u1''" by (simp add: sample_reDKG_def)
  then have json: "rz_MarshalIndent sample_rz (sample_reDKG u) = Inr [b]" using assms by (auto simp: sample_rz_def)
  have "logOf (sample_rz\<lparr>rz_uuids := (\<lambda>k. u)\<rparr>) sample_rz_flags (Inr sample_dump_csv) = Inr (Inr sample_log)"
    by (rule logOf_dump[OF sample_csv]) (use sample_log_rows in \<open>simp_all add: sample_rz_def sample_rz_flags_def sample_rows_def\<close>)
  moreover have "readAt sample_os (tw_files sample_table_top) (rf_input sample_rz_flags) = Inr sample_dump_csv"
    "readAt sample_os (tw_files sample_table_top) (rf_keys sample_rz_flags) = Inr [123, 125]"
    by (simp_all add: readAt_def sample_os_def sample_table_top_def sample_rz_flags_def)
  moreover have "rz_os sample_rz = sample_os" "rz_Decode_keys sample_rz b = Inr [(''alice'', [9])]" "rz_reqs sample_rz = sample_requests"
    "rz_Marshal_deal sample_rz = (\<lambda>r. Inr [7])" "rf_adapt014 sample_rz_flags" for b by (simp_all add: sample_rz_def sample_rz_flags_def)
  ultimately show ?thesis unfolding reinit_makes_def using json sample_generated[of u] sample_adapted[of u] by simp
qed

definition sample_reader :: "(unit, api_response) cli_env" where
  "sample_reader = sample_cli\<lparr>ce_Unmarshal_reDKG := (\<lambda>b. Inr (sample_reDKG (if b = [1] then ''u1'' else ''u2'')))\<rparr>"

theorem reinit_checksum_witness:
  "\<exists>w1 w2 h. reinit sample_rz sample_rz_flags sample_table_top = Inr (Inr (), w1) \<and>
    reinit (sample_rz\<lparr>rz_uuids := (\<lambda>k. ''u2'')\<rparr>) sample_rz_flags sample_table_top = Inr (Inr (), w2) \<and>
    map_of (tw_files w1) ''reinit.json'' \<noteq> map_of (tw_files w2) ''reinit.json'' \<and>
    getHashOfReinitDKGMessageCommand sample_reader ''reinit.json'' w1 =
      Inr (Inr (), w1\<lparr>tw_stdout := tw_stdout w1 @ [(''%s'', [AStr h])]\<rparr>) \<and>
    getHashOfReinitDKGMessageCommand sample_reader ''reinit.json'' w2 =
      Inr (Inr (), w2\<lparr>tw_stdout := tw_stdout w2 @ [(''%s'', [AStr h])]\<rparr>)"
proof -
  let ?F = sample_rz_flags and ?E2 = "sample_rz\<lparr>rz_uuids := (\<lambda>k. ''u2'')\<rparr>"
  have flags: "rf_output ?F = ''reinit.json''" "rf_output ?F \<noteq> ''''" by (simp_all add: sample_rz_flags_def)
  have os: "os_ok (rz_os sample_rz)" "os_ok (rz_os ?E2)" "ce_os sample_reader = rz_os sample_rz"
    by (simp_all add: sample_rz_def sample_os_ok sample_reader_def sample_cli_def)
  have json: "reinit_json_ok sample_rz (ce_Unmarshal_reDKG sample_reader)"
    by (simp add: reinit_json_ok_def sample_rz_def sample_reader_def)
  have "sample_rz\<lparr>rz_uuids := (\<lambda>k. ''u1'')\<rparr> = sample_rz" by (simp add: sample_rz_def)
  with reinit_written(1)[OF os(1) flags(2), of sample_table_top "sample_reDKG ''u1''" "[1]"] sample_made[of "''u1''" 1]
  obtain w1 where w1: "reinit sample_rz ?F sample_table_top = Inr (Inr (), w1)" "map_of (tw_files w1) (rf_output ?F) = Some [1]" by auto
  from reinit_written(1)[OF os(2) flags(2), of sample_table_top "sample_reDKG ''u2''" "[2]"] sample_made[of "''u2''" 2]
  obtain w2 where w2: "reinit ?E2 ?F sample_table_top = Inr (Inr (), w2)" "map_of (tw_files w2) (rf_output ?F) = Some [2]" by auto
  from reinit_checksum[OF os(1,3) json flags(2) refl refl w1(1) w2(1)] w1 w2 show ?thesis
    unfolding flags(1) by (intro exI[of _ w1] exI[of _ w2]) simp
qed

text \<open>A node that receives a reinitialization without messages.\<close>

definition sample_reinit_msg :: ReDKG where
  "sample_reinit_msg = \<lparr>rd_DKGID = ''round'', rd_Threshold = 2, rd_Participants = [], rd_Messages = []\<rparr>"

definition sample_reinit_op :: Operation where
  "sample_reinit_op = (NewOperation (\<lambda>b. b) 4 ''round'' [1] ReinitDKG)\<lparr>op_ExtraData := reDKGHashPayload sample_reinit_msg\<rparr>"

definition sample_reinit_ops :: ops_json where
  "sample_reinit_ops = \<lparr>oj_Marshal = (\<lambda>m. if m = [] then Inr empty_object
       else if m = [(op_ID sample_reinit_op, sample_reinit_op)] then Inr [1] else Inl (errorsNew ''json'')),
     oj_Unmarshal = (\<lambda>b. if b = empty_object then Inr []
       else if b = [1] then Inr [(op_ID sample_reinit_op, sample_reinit_op)] else Inl (errorsNew ''json''))\<rparr>"

definition sample_receiver :: "((string, bytes) gomap, Message list) node_env" where
  "sample_receiver = sample_env\<lparr>ne_ReDKG := (\<lambda>b. Inr sample_reinit_msg), ne_Marshal_operations := (\<lambda>ops. Inr [1]),
     ne_ops := sample_reinit_ops\<rparr>"

lemma sample_received:
  "\<exists>n'. ProcessMessage sample_receiver (sample_message ReinitDKG 1) sample_node = Inr (Inr (), n')"
proof -
  let ?env = sample_receiver and ?d = "fresh_dump ''round''"
  let ?n1 = "sample_node\<lparr>nd_skip := True, nd_clock := 1\<rparr>"
  have env: "ne_leveldb ?env = memdb" "ne_fsms ?env = ne_fsms sample_env" "ne_ops ?env = sample_reinit_ops" "ne_now ?env k = 4"
    "ne_ReDKG ?env b = Inr sample_reinit_msg" "ne_Marshal_operations ?env ops = Inr [1]" "ne_md5 ?env = (\<lambda>b. b)" "ne_sha1 ?env = (\<lambda>b. b)" for k b ops
    by (simp_all add: sample_receiver_def) (simp_all add: sample_env_def)
  have "fst (Service_PutOperation memdb sample_reinit_ops sample_reinit_op (opRepo ?n1)) = None" by code_simp
  then obtain r where r: "Service_PutOperation memdb sample_reinit_ops sample_reinit_op (opRepo ?n1) = (None, r)" by (metis prod.collapse)
  let ?n2 = "?n1\<lparr>nd_state := repo_state r\<rparr>"
  have put: "node_PutOperation ?env sample_reinit_op ?n1 = Inr (Inr (), ?n2)" using r by (simp add: node_PutOperation_def env)
  have "LevelDBState_Get memdb (repo_state (snd (Service_PutOperation memdb sample_reinit_ops sample_reinit_op (opRepo ?n1)))) ''t_fsm_state'' = Inr None"
    by code_simp
  then have none: "getAllFSMData memdb (ne_fsms sample_env) (fsmService ?n2) = Inr (Some [])"
    using r by (simp add: getAllFSMData_def getStateKey_def sample_node_def fsmService_def byte_len_def)
  have b: "?d \<in> set sample_dumps" by (simp add: sample_dumps_def)
  from sample_save[OF none _ b] obtain f1 where f1: "SaveFSM memdb (ne_fsms sample_env) ''round'' (DumpJSON ?d) (fsmService ?n2) = Inr (None, f1)"
    "fs_stateKey f1 = nd_stateKey ?n2" "getAllFSMData memdb (ne_fsms sample_env) f1 = Inr (Some [(''round'', DumpJSON ?d)])"
    by (auto simp: fsmService_def)
  let ?n3 = "?n2\<lparr>nd_state := fs_state f1\<rparr>"
  have n3: "fsmService ?n3 = f1" by (cases f1) (use f1(2) in \<open>simp add: fsmService_def\<close>)
  have load: "node_GetFSMInstance ?env ''round'' True ?n2 = Inr (Inr (fresh_instance ''round''), ?n3)"
    unfolding node_GetFSMInstance_def
    using GetFSMInstance_missing[of memdb "ne_fsms sample_env" "fsmService ?n2" Map.empty "''round''"] none f1(1) sample_trim
    by (simp add: stores_def env)
  from sample_save[OF f1(3) _ b] obtain f2 where f2: "SaveFSM memdb (ne_fsms sample_env) ''round'' (DumpJSON ?d) f1 = Inr (None, f2)" by auto
  have save: "node_SaveFSM ?env ''round'' (DumpJSON ?d) ?n3 = Inr (Inr (), ?n3\<lparr>nd_state := fs_state f2\<rparr>)"
    using f2 n3 by (simp add: node_SaveFSM_def env)
  have exist: "node_IsExist ?env ''round'' sample_node = Inr (Inr False, sample_node)"
    by (simp add: node_IsExist_def env IsExist_def LevelDBState_GetOrError_def fsmService_def sample_node_def memdb_def getStateKey_def sample_state_def)
  have dump: "(fresh_instance ''round'')\<lparr>fi_dump := Some ?d\<rparr> = fresh_instance ''round''" "fi_dump (fresh_instance ''round'') = Some ?d"
    by (simp_all add: fresh_instance_def)
  have clock: "time_Now ?env (sample_node\<lparr>nd_skip := True\<rparr>) = Inr (Inr 4, ?n1)" by (simp add: time_Now_def env sample_node_def)
  have msg: "rd_DKGID sample_reinit_msg = ''round''" "rd_Messages sample_reinit_msg = []" "rd_Participants sample_reinit_msg = []"
    by (simp_all add: sample_reinit_msg_def)
  have hash: "CalcStartReInitDKGMessageHash (ne_ReDKG ?env) (\<lambda>b. b) b = Inr (reDKGHashPayload sample_reinit_msg)" for b
    by (simp add: CalcStartReInitDKGMessageHash_def env)
  have "reinitBody ?env (sample_message ReinitDKG 1) sample_reinit_msg (sample_node\<lparr>nd_skip := True\<rparr>) = Inr (Inr (), ?n3\<lparr>nd_state := fs_state f2\<rparr>)"
    using put load save clock
    by (simp add: reinitBody_def msg bindM_def wrapM_def retM_def attemptM_def liftE_def liftG_def Let_def env hash dump fresh_instance_dump
        sample_message_def flip: sample_reinit_op_def)
  then show ?thesis using exist
    by (simp add: ProcessMessage_def reinitDKG_def bindM_def wrapM_def attemptM_def liftE_def readM_def updateM_def retM_def env
        sample_message_def Let_def msg)
qed


end
