(* ===== verification/Export_Properties.thy ===== *)
theory Export_Properties
  imports Sample_Cli
begin

text \<open>
  What a positive answer of the compatibility checker means for the signatures that a client exported.
\<close>

lemma main_verify_batch:
  "main_checker os P unmarshal ''verify_batch'' [path, pubkeyb64, dir] = verifyBatch os P unmarshal path pubkeyb64 dir"
  by (simp add: main_checker_def exact3_def)

lemma verifyBatch_ok:
  assumes "readAt os (tw_files w) path = Inr data" and "unmarshal data = Inr xs"
  shows "verifyBatch os P unmarshal path pubkeyb64 dir w =
      Inr (Inr (), w\<lparr>tw_stdout := tw_stdout w @ [(''All batch signatures are correct'', [])]\<rparr>) \<longleftrightarrow>
    BatchVerification os P xs pubkeyb64 dir w = Inr (Inr (), w)"
proof (cases "BatchVerification os P xs pubkeyb64 dir w")
  case (Inr rw)
  have "snd rw = w" if "fst rw = Inr ()" using Inr that BatchVerification_ok[of os P xs pubkeyb64 dir w "snd rw"] by (metis prod.collapse)
  with Inr show ?thesis
    by (cases rw; cases "fst rw") (auto simp: verifyBatch_def ReadFile_def bindM_def wrapM_def liftE_def assms tool_printf_def updateM_def)
qed (simp add: verifyBatch_def ReadFile_def bindM_def wrapM_def liftE_def assms)

text \<open>
  C30: The checker accepts exactly the correct exports: on the file that was made of a map of reconstructed signatures,
  \<open>verify_batch\<close> reports success if and only if the public key can be decoded and, for every message, its first signature can
  be decoded and verifies the contents of the file that the signature names in the given directory.
\<close>

theorem exported_batch_verified:
  assumes "distinct (keys orig)" and "PrepareSignaturesToDump orig = Inr xs"
    and "readAt os (tw_files w) path = Inr data" and "unmarshal data = Inr xs"
  shows "main_checker os P unmarshal ''verify_batch'' [path, pubkeyb64, dir] w =
      Inr (Inr (), w\<lparr>tw_stdout := tw_stdout w @ [(''All batch signatures are correct'', [])]\<rparr>) \<longleftrightarrow>
    (\<exists>pubkey k. base64_DecodeString pubkeyb64 = Inr pubkey \<and> py_PublicKeyFromBytes P pubkey = Inr k \<and>
      list_all (\<lambda>(messageID, sigs). \<exists>g msg. py_SignatureFromBytes P (rs_Signature (hd sigs)) = Inr g \<and>
        readAt os (tw_files w) (os_Join os dir (rs_File (hd sigs))) = Inr msg \<and> py_Verify P g k msg) orig)"
proof -
  have full: "list_all (\<lambda>(_, sigs). sigs \<noteq> []) orig"
    using assms(2) prepareLoop_fails[of orig "[]"] by (cases "list_all (\<lambda>(_, sigs). sigs \<noteq> []) orig") (auto simp: PrepareSignaturesToDump_def)
  have xs: "xs = map_vals (\<lambda>_ sigs. \<lparr>xs_Payload = rs_SrcPayload (hd sigs), xs_Signature = rs_Signature (hd sigs), xs_File = rs_File (hd sigs)\<rparr>) orig"
    using assms(2) prepareLoop_ok[OF assms(1) _ full, of "[]"] by (simp add: PrepareSignaturesToDump_def)
  show ?thesis
    unfolding main_verify_batch verifyBatch_ok[where unmarshal = unmarshal, OF assms(3,4)] BatchVerification_ok xs
    by (auto simp: list_all_iff map_vals_def) fastforce+
qed

text \<open>A signature of the message in a file, for a library in which the signature of a text is the text.\<close>

definition sample_prysm :: "(unit, bytes) prysm" where
  "sample_prysm = \<lparr>py_PublicKeyFromBytes = (\<lambda>b. Inr ()), py_SignatureFromBytes = Inr, py_Verify = (\<lambda>g k msg. g = msg)\<rparr>"

definition sample_reconstructed :: "(string, ReconstructedSignature list) gomap" where
  "sample_reconstructed = [(''m1'', [\<lparr>rs_File = ''a.txt'', rs_BatchID = ''b'', rs_MessageID = ''m1'', rs_SrcPayload = [1, 2], rs_Signature = [1, 2],
     rs_Username = ''alice'', rs_DKGRoundID = ''round'', rs_ValIdx = 0\<rparr>])]"

definition sample_exported :: ExportedSignatures where
  "sample_exported = [(''m1'', \<lparr>xs_Payload = [1, 2], xs_Signature = [1, 2], xs_File = ''a.txt''\<rparr>)]"

definition sample_folder :: "bytes \<Rightarrow> unit tool_world" where
  "sample_folder msg = \<lparr>tw_node = (), tw_files = [(''export.json'', [123, 125]), (''data/a.txt'', msg)], tw_stdin = [], tw_stdout = []\<rparr>"

theorem exported_batch_verified_witness:
  "main_checker sample_os sample_prysm (\<lambda>b. Inr sample_exported) ''verify_batch'' [''export.json'', ''AQI='', ''data''] (sample_folder [1, 2]) =
    Inr (Inr (), (sample_folder [1, 2])\<lparr>tw_stdout := [(''All batch signatures are correct'', [])]\<rparr>) \<and>
   main_checker sample_os sample_prysm (\<lambda>b. Inr sample_exported) ''verify_batch'' [''export.json'', ''AQI='', ''data''] (sample_folder [3]) \<noteq>
    Inr (Inr (), (sample_folder [3])\<lparr>tw_stdout := [(''All batch signatures are correct'', [])]\<rparr>)"
proof -
  have prep: "distinct (keys sample_reconstructed)" "PrepareSignaturesToDump sample_reconstructed = Inr sample_exported"
    by (simp_all add: sample_reconstructed_def PrepareSignaturesToDump_def sample_exported_def)
  have read: "readAt sample_os (tw_files (sample_folder msg)) ''export.json'' = Inr [123, 125]"
    "readAt sample_os (tw_files (sample_folder msg)) (os_Join sample_os ''data'' ''a.txt'') = Inr msg" for msg
    by (simp_all add: readAt_def sample_os_def sample_folder_def)
  have key: "base64_DecodeString ''AQI='' = Inr [1, 2]" by code_simp
  have "main_checker sample_os sample_prysm (\<lambda>b. Inr sample_exported) ''verify_batch'' [''export.json'', ''AQI='', ''data''] (sample_folder msg) =
      Inr (Inr (), (sample_folder msg)\<lparr>tw_stdout := tw_stdout (sample_folder msg) @ [(''All batch signatures are correct'', [])]\<rparr>) \<longleftrightarrow> msg = [1, 2]" for msg
    using exported_batch_verified[where unmarshal = "\<lambda>b. Inr sample_exported", OF prep read(1)[of msg] refl, of sample_prysm "''AQI=''" "''data''"] key read(2)[of msg]
    by (simp add: sample_prysm_def sample_reconstructed_def)
  from this[of "[1, 2]"] this[of "[3]"] show ?thesis by (simp add: sample_folder_def)
qed

end
