(* ===== verification/Drawing.thy ===== *)
theory Drawing
  imports Signature_Proposal Dkg_Proposal Signing_Proposal "HOL-Library.Multiset"
begin

text \<open>
  The drawing of a machine as a graph: \<open>Visualize\<close> of \<open>src/fsm/fsm/utils.go\<close> and the program
  \<open>src/fsm/cmd/state_machines/state_machines.go\<close> that draws the three machines.
\<close>

definition line_end :: string where "line_end = [CHR 0x0A]"

definition quoted :: "string \<Rightarrow> string" where "quoted s = CHR 0x22 # s @ [CHR 0x22]"

definition drawEdge :: "(State \<times> Event) \<times> trEvent \<Rightarrow> string" where
  "drawEdge = (\<lambda>((source, event), v). ''    '' @ quoted source @ '' -> '' @ quoted (tr_dstState v) @ '' [ label = '' @
     quoted event @ '' ];'' @ line_end)"

definition increment :: "string \<Rightarrow> (string, int) gomap \<Rightarrow> (string, int) gomap" where
  "increment k m = AList.update k ((case map_of m k of None \<Rightarrow> 0 | Some n \<Rightarrow> n) + 1) m"

definition countStates :: "((State \<times> Event) \<times> trEvent) list \<Rightarrow> (string, int) gomap \<Rightarrow> (string, int) gomap" where
  "countStates = fold (\<lambda>((source, event), v) states. increment (tr_dstState v) (increment source states))"

text \<open>The transitions of the current state come first.\<close>

definition drawnEdges :: "('a, 'r, 'p) FSM \<Rightarrow> ((State \<times> Event) \<times> trEvent) list" where
  "drawnEdges f = filter (\<lambda>((source, _), _). source = fsm_currentState f) (fsm_transitions f) @
     filter (\<lambda>((source, _), _). source \<noteq> fsm_currentState f) (fsm_transitions f)"

definition Visualize :: "('a, 'r, 'p) FSM \<Rightarrow> string" where
  "Visualize f = ''digraph fsm {'' @ line_end @ concat (map drawEdge (drawnEdges f)) @ line_end @
     concat (map (\<lambda>k. ''    '' @ quoted k @ '';'' @ line_end) (keys (countStates (drawnEdges f) []))) @ ''}'' @ line_end"

text \<open>The program prints the three drawings; the machines are constructed, which may panic.\<close>

definition main_state_machines :: "string list go" where
  "main_state_machines = bindR dkg_proposal_New (\<lambda>dkgFSM. bindR signature_proposal_New (\<lambda>sigFSM. bindR signing_proposal_New (\<lambda>signingFSM.
     Inr [Visualize dkgFSM, Visualize sigFSM, Visualize signingFSM])))"

section \<open>What is drawn\<close>

text \<open>Every transition is drawn once, and the states are exactly the ends of the transitions, each once.\<close>

lemma edges_drawn_once: "mset (drawnEdges f) = mset (fsm_transitions f)"
  unfolding drawnEdges_def mset_append
  by (induction "fsm_transitions f" rule: list.induct) (auto simp: mset_filter multiset_partition[symmetric] not_le split: prod.splits)

lemma keys_increment: "set (keys (increment k m)) = insert k (set (keys m))" "distinct (keys m) \<Longrightarrow> distinct (keys (increment k m))"
  by (simp_all add: increment_def dom_update distinct_update)

lemma states_drawn_once:
  "distinct (keys (countStates (drawnEdges f) []))"
  "set (keys (countStates (drawnEdges f) [])) = (fst \<circ> fst) ` set (fsm_transitions f) \<union> (tr_dstState \<circ> snd) ` set (fsm_transitions f)"
proof -
  have count: "distinct (keys m) \<Longrightarrow> distinct (keys (countStates es m))"
    "set (keys (countStates es m)) = set (keys m) \<union> (fst \<circ> fst) ` set es \<union> (tr_dstState \<circ> snd) ` set es" for es m
  proof (induction es arbitrary: m)
    case (Cons e es)
    obtain s ev v where e: "e = ((s, ev), v)" by (metis surj_pair)
    { case 1
      then show ?case using Cons(1)[of "increment (tr_dstState v) (increment s m)"] by (simp add: countStates_def e keys_increment)
    next
      case 2
      show ?case using Cons(2)[of "increment (tr_dstState v) (increment s m)"]
        by (simp add: countStates_def e keys_increment ac_simps insert_commute del: set_map) }
  qed (simp_all add: countStates_def)
  show "distinct (keys (countStates (drawnEdges f) []))" by (rule count(1)) simp
  have "set (drawnEdges f) = set (fsm_transitions f)" using edges_drawn_once by (metis set_mset_mset)
  then show "set (keys (countStates (drawnEdges f) [])) = (fst \<circ> fst) ` set (fsm_transitions f) \<union> (tr_dstState \<circ> snd) ` set (fsm_transitions f)"
    using count(2)[of "drawnEdges f" "[]"] by simp
qed

text \<open>The program ends with three drawings.\<close>

lemma three_drawings: "main_state_machines = Inr [Visualize dkg_fsm, Visualize sig_fsm, Visualize signing_fsm]"
  by (simp add: main_state_machines_def dkg_proposal_New_eq signature_proposal_New_eq signing_proposal_New_eq)

end
