(* ===== verification/Spec2Isabelle.thy ===== *)
theory Spec2Isabelle
  imports Node_Properties Node_Operations Airgapped_Properties Prompt_Properties Wc_Rotation Daemon
    Cli_Properties Cli_Hash Reinit_Properties Export_Properties Drawing
begin

text \<open>
  \<^bold>\<open>A verification development of dc4bc\<close>, the distributed key generation and threshold signing tool
  under \<open>src/\<close>.

  \<^bold>\<open>The program.\<close>  Every participant runs a \<^emph>\<open>hot node\<close> (\<open>src/client\<close>) and an \<^emph>\<open>airgapped machine\<close>
  (\<open>src/airgapped\<close>).  The nodes share an append-only log of signed messages (\<open>src/storage\<close>); each
  node reads the log in order and feeds the messages to a \<^emph>\<open>round\<close>, an instance of a pool of three
  finite state machines (\<open>src/fsm\<close>): the signature proposal collects the consent of all
  participants, the DKG machine collects commits, deals, responses and master keys, and the signing
  machine collects partial signatures of batches.  A round answers an event with a response, which
  becomes an \<^emph>\<open>operation\<close> for the airgapped machine, and with a dump of its whole state, which the
  node stores in its database and loads again for the next message.

  \<^bold>\<open>Theories and sources.\<close>
  \<^item> \<open>Prelude\<close>: Go values. Panics and errors are sums (\<open>'a go\<close>, \<open>error + 'a\<close>), maps are association
    lists with distinct keys, a nil pointer or map is \<open>None\<close>, an instant is an \<open>int\<close> (nanoseconds,
    0 the zero time); the loop combinator \<open>foldR\<close> and the shared lemmas.
  \<^item> \<open>Fsm\<close> (\<open>fsm/fsm/fsm.go\<close>): a machine is a record of its tables; \<open>MustNewFSM\<close>, the queries and
    \<open>FSM_Do\<close> with the auto transitions before and after an event; what a construction guarantees.
  \<^item> \<open>Requests\<close> (\<open>fsm/types\<close>, \<open>fsm/config\<close>): requests, their \<open>Validate\<close> methods, responses.
  \<^item> \<open>Payload\<close> (\<open>fsm/state_machines/internal\<close>): the payload of a round; the locale \<open>quorum_store\<close>
    states the contract of the quorum accessors and is interpreted for the three quorums.
  \<^item> \<open>Machine\<close>: what the three machines share (\<open>WithSetup\<close>, one dispatch as a single equation).
  \<^item> \<open>Signature_Proposal\<close>, \<open>Dkg_Proposal\<close>, \<open>Signing_Proposal\<close> (the three \<open>*_fsm\<close> packages): states,
    events, tables, callbacks, actions; each constructor is evaluated once to a machine.
  \<^item> \<open>Dkg_Stages\<close>, \<open>Signing_Rounds\<close>: the behaviour of the actions. The locale \<open>dkg_stage\<close> is the
    protocol of a DKG stage (receive, check, advance), interpreted for commits, deals, responses
    and master keys; \<open>dkg_simple_stage\<close> adds completion.
  \<^item> \<open>Fsm_Pool\<close> (\<open>fsm/fsm_pool\<close>), \<open>Provider\<close> (\<open>fsm/state_machines/provider.go\<close>): the pool and the
    round instance with its dump.
  \<^item> \<open>Round\<close>, \<open>Round_Signing\<close>, \<open>Round_Safety\<close>: the step relation of a dumped round, its invariant
    (locale \<open>round_invariant\<close>), absence of panics; \<open>Sample_Round\<close>: a complete concrete round.
  \<^item> \<open>Event_Properties\<close>: what each event of the three machines does, on every branch.
  \<^item> \<open>State_Db\<close> (\<open>client/modules/state\<close>), \<open>Storage\<close> (\<open>storage\<close>, \<open>storage/file_storage\<close>),
    \<open>Operation_Repo\<close> (\<open>client/repositories/operation\<close>, \<open>client/services/operation\<close>): the
    node's database, the shared log and the pool of operations.
  \<^item> \<open>Signing_Tasks\<close> (\<open>fsm/types/requests/signing_proposal.go\<close>): tasks of a batch expanded into
    messages, baked ranges included; \<open>Encoding\<close>: hexadecimal and decimal text.
  \<^item> \<open>Signature_Repo\<close> (\<open>client/repositories/signature\<close>, \<open>fsm/types/types.go\<close>), \<open>Fsm_Service\<close>
    (\<open>client/services/fsmservice\<close>): the reconstructed signatures and the dumps of the rounds in
    the node's database.
  \<^item> \<open>Computations\<close>: methods that change a state, may panic and may fail, as a state and error monad,
    with a logic of partial correctness (\<open>keeps\<close>); node and airgapped machine are written in it.
  \<^item> \<open>Node_Types\<close> (\<open>client/types/types.go\<close>, \<open>client/services/node/adapt_dkg.go\<close>): operations, request
    decoding, reinitialization messages and logs of old versions.
  \<^item> \<open>Node_State\<close>, \<open>Node\<close> (\<open>client/services/node/node_service.go\<close>): the state of a node and every
    method of the node service, as computations that may panic, fail with an error, or return,
    and that keep the state reached so far when they fail.
  \<^item> \<open>Node_Invariants\<close>: the locales \<open>node_invariant\<close>, \<open>node_frame\<close> and \<open>node_identity\<close>: a predicate that the primitive
    writes keep is kept by the whole of the node service.  \<open>Node_Frame\<close> interprets them for the
    flag and the identity of a node, \<open>Node_Rounds\<close> for the invariant of all stored rounds;
    \<open>Node_Rounds\<close> also has the step relation of a node (\<open>node_step\<close>, \<open>node_reachable\<close>).
  \<^item> \<open>Node_Progress\<close>: the exact effect of a message on a stored round; \<open>Sample_Node\<close>: a concrete node
    that reads eleven messages; \<open>Node_Properties\<close>, \<open>Node_Operations\<close>: the properties of nodes.
  \<^item> \<open>Dkg_Store\<close>, \<open>Dkg_Keyring\<close> (\<open>dkg/types.go\<close>), \<open>Dkg_Instance\<close> (\<open>dkg/dkg.go\<close>): the stores of keys and
    messages of a DKG, the keyring it leaves and its encoding, and the instance of a DKG.
  \<^item> \<open>Airgapped_Db\<close> (\<open>airgapped/storage.go\<close>, \<open>types.go\<close>, \<open>encryption.go\<close>), \<open>Airgapped\<close>
    (\<open>airgapped/airgapped.go\<close>, \<open>dkg.go\<close>, \<open>bls.go\<close>): the airgapped machine, its encrypted database and
    its handlers.  A handler is a computation on the machine and the operation it answers.
  \<^item> \<open>Airgapped_Store\<close>: keyrings and the log of operations, the latter as the locale
    \<open>operations_log\<close> with its interpretation; \<open>Airgapped_Frame\<close>: the locale \<open>air_handlers\<close>, which lists the
    changes a handler makes, so that what survives them survives every handler; it is interpreted
    in \<open>Airgapped_Answers\<close> (log, messages), \<open>Airgapped_Replay\<close> (instances) and
    \<open>Airgapped_Properties\<close> (files).  \<open>Airgapped_Replay\<close> compares two runs that differ in randomness,
    database and files only; \<open>Airgapped_Dkg\<close> has the runs of the handlers of a DKG;
    \<open>Sample_Airgapped\<close> a concrete machine and \<open>Airgapped_Properties\<close> the properties.
  \<^item> \<open>Prompt\<close> (\<open>cmd/airgapped\<close>): the commands of the airgapped machine, its password and its loop;
    \<open>Prompt_Frame\<close>: the locale \<open>prompt_frame\<close> of what every command keeps, interpreted for the input and
    for the keys; \<open>Prompt_Race\<close>: the prompt and the goroutine that drops the keys as a step relation with
    the lock; \<open>Prompt_Properties\<close>: the properties.
  \<^item> \<open>Storage_Contract\<close>: the locale \<open>ignoring_storage\<close>, the contract of the ignore lists, interpreted for the
    file; \<open>Kafka_Storage\<close> (\<open>storage/kafka_storage\<close>, \<open>client/config\<close>): the log in a Kafka topic, which meets
    it too, and its start from the configuration.
  \<^item> \<open>Key_Store\<close> (\<open>client/modules/keystore\<close>): the keys of a node; the locale \<open>entry_store\<close> is the contract of
    a store of entries, interpreted for the keys and for the node's state.
  \<^item> \<open>Services\<close> (\<open>client/services/provider.go\<close>, \<open>client/modules/logger\<close>): a node put together from its
    configuration, which is a node in the sense of \<open>node_reachable\<close>; \<open>Http_Api\<close> (\<open>client/api\<close>): the HTTP
    interface, with the contract \<open>serves\<close> of its handlers; \<open>Daemon\<close> (\<open>cmd/dc4bc_d\<close>): the daemon's commands.
  \<^item> \<open>Wc_Rotation\<close> (\<open>pkg/wc_rotation\<close>): SSZ objects and the signing root of a withdrawal credentials
    change, compared with the definitions of the consensus specification.
  \<^item> \<open>Decoding\<close>: the decoders of the standard library that the tools use (hexadecimal, base64, decimal, 64-bit
    floating point numbers); \<open>Csv\<close>: the reader of \<open>encoding/csv\<close>; \<open>Tools\<close>: the world of a command line tool,
    which is the node it talks to, files, input and output.
  \<^item> \<open>Exported\<close> (\<open>pkg/utils\<close>, \<open>pkg/prysm\<close>, \<open>cmd/prysm_compatibility_checker\<close>): exported signatures and their
    verification; \<open>Export_Properties\<close>: what a positive answer of the checker means.
  \<^item> \<open>Cli_Text\<close>, \<open>Cli\<close> (\<open>cmd/dc4bc_cli\<close>): the argument of the messages to ignore, with the regular expressions
    matched by derivatives, and all commands of the client.  \<open>Cli_Frame\<close>: the locale \<open>cli_frame\<close> of what every
    command keeps, and the connection of a client to a node (\<open>connect\<close>), for which it is interpreted;
    \<open>Cli_Answers\<close>: what each request is answered with; \<open>Sample_Cli\<close>: a concrete client; \<open>Cli_Properties\<close>,
    \<open>Cli_Hash\<close>: the properties.
  \<^item> \<open>Reinitializer\<close> (\<open>cmd/dkg_reinitializer\<close>, \<open>pkg/utils\<close>): the tool that makes a reinitialization of the dump of
    a log; \<open>Reinit_Properties\<close>: the way from the dump to the operations of the nodes.
  \<^item> \<open>Drawing\<close> (\<open>fsm/fsm/utils.go\<close>, \<open>fsm/cmd\<close>): the drawing of a machine as a graph.
  \<^item> This theory: the properties of whole rounds.

  \<^bold>\<open>What is shown.\<close>  For every sequence of events: agreement on one master key, the threshold behind
  every collected batch, unanimous consent before a DKG, fixed membership, stable master key,
  correct lookups by username, no panics, and which rounds survive a restart.  For each event: its
  exact outcome, refusals included, and that the stages complete when everybody contributes.  For
  the engine and the pool: construction, dispatch and routing.  For the node's storage: messages,
  operations, signatures and rounds that are stored are read back.  For a node: whatever it reads,
  all its stored rounds satisfy the invariant of rounds; an authentic message advances its round
  as the machine does and touches no other; a forged one changes nothing; a tick of the poll loop
  advances the offset behind everything it has read; an executed operation is signed, sent and
  removed; and signature checking is never left switched off.  For an airgapped machine: it confirms
  only deals that match their commits, encrypts every deal for its recipient, numbers the
  participants as the round does, signs exactly the messages of a batch with the stored keyring,
  answers with events that the asking machine accepts, and its instances after replaying the log
  are those of before the restart.  For the prompt: commands find the keys in memory, but only as
  long as the ticker does not run between the check and the command, and a change of the
  configuration can deadlock.  For a configured node: it is reachable, its storage never delivers a
  message that the configuration names, messages sent to the topic are read back, HTTP requests are
  steps of the node or change nothing, a reset starts the node over, and what it signs for the
  compiled-in list are the signing roots of the consensus specification.  For the client: whatever
  is typed, the node it talks to stays reachable; the types that it asserts of the answers are those that
  the node sends; a saved offset is shown again, exactly up to \<open>2 ^ 53\<close>; a refresh with a span of offsets
  makes the storage withhold such messages from then on; and the hash of a proposal is the hash of
  the invitations made of it.  For a reinitialization: the file restores the round of the dump, all
  participants get the same checksum, and the operation shows the checksum of what was received.  For
  exports: the checker accepts exactly those whose signatures verify.

  \<^bold>\<open>Parameters and hypotheses.\<close>  LevelDB is a record of functions with the laws \<open>leveldb_ok\<close> of a
  key-value store; JSON encoders of messages and operations are pairs of functions with the laws
  \<open>msg_json_ok\<close> and \<open>ops_json_ok\<close> (what is encoded is decoded again); the file system and the
  source of identifiers are arguments.  The
  external world of a node is the record \<open>node_env\<close>: the clock, random identifiers, ed25519, md5,
  threshold BLS, the JSON codecs and the storage interface; codecs of stored maps obey
  \<open>fsms_json_ok\<close> and \<open>sigs_json_ok\<close>, and a theorem on sent signatures assumes that ed25519 accepts
  what it has signed.  The external world of an airgapped machine is the record \<open>air_env\<close> with the
  package kyber in the record \<open>kyber\<close>; \<open>cipher_ok\<close>, \<open>keyring_codec_ok\<close>, \<open>log_ok\<close> and
  \<open>requests_encode\<close> state that what is sealed or encoded can be opened or decoded, \<open>payloads_shrink\<close> that
  the operations inside a payload have shorter payloads, and \<open>flat_reinit\<close> that a reinitialization
  does not contain another one.  The broker is the record \<open>kafka\<close> (\<open>kafka_json_ok\<close>: encoded messages are
  decoded again), the web framework the record \<open>http_env\<close>, the terminal and the files of the prompt
  the record \<open>prompt_env\<close>, the package fastssz the record \<open>ssz\<close>, whose documented effect on the chunks of
  a hasher is \<open>ssz_ok\<close>; the JSON of the key store obeys \<open>keys_json_ok\<close>.
  The operating system behind the tools is the record \<open>os_env\<close> (\<open>os_ok\<close>: a disk without failures), the client's
  connection and JSON the records \<open>cli_env\<close> and \<open>http_link\<close> (\<open>answers_ok\<close>, \<open>offset_form_ok\<close>, \<open>reset_form_ok\<close>: answers and
  forms are decoded as \<open>encoding/json\<close> does), the JSON of the reinitializer the record \<open>rz_env\<close> (\<open>reinit_json_ok\<close>) and
  Prysm's BLS library the record \<open>prysm\<close>.  \<open>node_reachable\<close> covers every message and every request of the operator
  except reinitializations, which replay unsigned logs by design.
  Every such law has a concrete instance in the witnesses.
  The JSON of a dump is modelled as the dump itself, with the one failure \<open>encoding/json\<close> has on
  it: instants outside the years 0 to 9999.  Strings stand for valid UTF-8 text.  Iteration over a
  Go map follows the order of the association list; where the order could matter a theorem shows
  that it does not.

  \<^bold>\<open>Bounds.\<close>  Every loop of the modelled code is a recursion over a list, except the span of offsets (\<open>spanLoop\<close>), which
  can run forever and is a partial function; \<open>span_argument\<close> says when it ends.  The one recursive method,
  \<open>GetOperationResult\<close>, has as its depth bound the length of the payload; \<open>result_recursion\<close> shows that
  it satisfies the equation of the unbounded recursion.  The loop of the prompt is bounded by the
  number of its rounds; each consumes a line, and \<open>rounds_suffice\<close> shows that one more than there are
  lines is enough.  The polling loop of a node runs for a given number of ticks.  Log
  offsets are 64-bit words; participant numbers and thresholds, which the code bounds by the number
  of participants, are unbounded integers.

  \<^bold>\<open>Not modelled.\<close>  Locks, except the one of the airgapped machine in \<open>Prompt_Race\<close> (a round is used by
  one goroutine at a time); the declaration of flags and the colours of what is printed; the getters and
  setters of the service provider, which are the fields of a record here; the handlers of signals; mocks; and the cryptography,
  the broker client and the web framework behind the parameter records, which are third-party code.
\<close>

section \<open>What a finished DKG guarantees\<close>

text \<open>
  C1: In every reachable round that has left the DKG behind (the master key was collected, or the
  round is in any state of the signing machine), all participants confirmed one and the same
  non-empty master key, after each of them had contributed a commit, a deal and a response, and
  the participants are numbered from 0 without gaps.
\<close>

theorem master_key_agreement:
  assumes "round_reachable d" and "finished (dump_State d)"
  shows "\<exists>q k. dkg_quorum (dump_Payload d) = Some q \<and> k \<noteq> [] \<and> 2 \<le> length q \<and>
    map fst q = map int [0..<length q] \<and>
    list_all (\<lambda>v. dp_Status v = MasterKeyConfirmed \<and> dp_DkgMasterKey v = k \<and>
      dp_DkgCommit v \<noteq> [] \<and> dp_DkgDeal v \<noteq> [] \<and> dp_DkgResponse v \<noteq> []) (map snd q)"
  by (rule finished_agreement[OF reachable_inv(1)[OF assms(1)] assms(2)])

theorem master_key_agreement_witness:
  "\<exists>q k. dkg_quorum (dump_Payload sample_master) = Some q \<and> k \<noteq> [] \<and> 2 \<le> length q \<and>
    map fst q = map int [0..<length q] \<and>
    list_all (\<lambda>v. dp_Status v = MasterKeyConfirmed \<and> dp_DkgMasterKey v = k \<and>
      dp_DkgCommit v \<noteq> [] \<and> dp_DkgDeal v \<noteq> [] \<and> dp_DkgResponse v \<noteq> []) (map snd q)"
  by (rule master_key_agreement[OF sample_master_reachable]) (simp add: finished_def sample_defs)

text \<open>
  C17: Once the DKG is finished no event changes its outcome: the round stays in the signing
  machine and the agreed master key is the same after every step.
\<close>

theorem master_key_stable:
  assumes "round_reachable d" and "finished (dump_State d)" and "round_step d e args d'"
  shows "agreed_key (dump_Payload d') = agreed_key (dump_Payload d) \<and> agreed_key (dump_Payload d) \<noteq> [] \<and>
    dump_State d' \<in> set [StateSigningIdle, StateSigningAwaitPartialSigns,
      StateSigningPartialSignsCollected, StateSigningPartialSignsAwaitCancelledByError,
      StateSigningPartialSignsAwaitCancelledByTimeout]"
proof -
  note inv = reachable_inv(1)[OF assms(1)]
  from assms(3) obtain m r g p' where m: "machine_of (dump_State d) = Some m"
    and res: "FSM_Do e args (in_state m (dump_State d)) (dump_Payload d) = Inr ((Some r, None), g, p')"
    and d': "dump_State d' = resp_State r" "dump_Payload d' = p'" by (rule round_step_obtain)
  have "m = signing_fsm" using m finished_machine[OF assms(2)] by simp
  with signing_key_kept[OF inv assms(2)] res d' finished_done(4)[OF inv assms(2)] show ?thesis
    unfolding signing_states_def dkg_done_def by simp
qed

lemma sample_idle_step:
  "round_step sample_master EventSigningInit [ReqDefault \<lparr>dr_CreatedAt = 13\<rparr>] sample_idle"
  using sample_idle_run by (simp add: round_next_step split: option.splits)

theorem master_key_stable_witness:
  "agreed_key (dump_Payload sample_idle) = agreed_key (dump_Payload sample_master) \<and>
    agreed_key (dump_Payload sample_master) \<noteq> [] \<and>
    dump_State sample_idle \<in> set [StateSigningIdle, StateSigningAwaitPartialSigns,
      StateSigningPartialSignsCollected, StateSigningPartialSignsAwaitCancelledByError,
      StateSigningPartialSignsAwaitCancelledByTimeout]"
  by (rule master_key_stable[OF sample_master_reachable _ sample_idle_step])
     (simp add: finished_def sample_defs)

section \<open>What a collected batch guarantees\<close>

text \<open>
  C2: Whenever a reachable round is in the state \<open>StateSigningPartialSignsCollected\<close>, at least
  \<open>Threshold\<close> of the participants have stored partial signatures, the signers are the participants
  of the DKG, and the threshold lies between 2 and their number.
\<close>

theorem collected_reached_threshold:
  assumes "round_reachable d" and "dump_State d = StateSigningPartialSignsCollected"
  shows "\<exists>q dq. signing_quorum (dump_Payload d) = Some q \<and> dkg_quorum (dump_Payload d) = Some dq \<and>
    map (\<lambda>(i, v). (i, gp_Username v)) q = map (\<lambda>(i, v). (i, dp_Username v)) dq \<and>
    2 \<le> Threshold (dump_Payload d) \<and> Threshold (dump_Payload d) \<le> int (length q) \<and>
    Threshold (dump_Payload d) \<le>
      int (length (filter (\<lambda>v. entries (gp_PartialSigns v) \<noteq> []) (map snd q)))"
proof -
  let ?p = "dump_Payload d"
  have S: "StateSigningPartialSignsCollected \<in> set signing_states" by (simp add: signing_states_def)
  note base = reachable_inv(1)[OF assms(1), unfolded assms(2) payload_inv_signing[OF S]]
  then have "signing_some (signing_complete ?p) ?p" "signing_matches ?p"
    by (simp_all add: signing_inv_simps)
  then obtain q dq where q: "signing_quorum ?p = Some q" "dkg_quorum ?p = Some dq"
      "map (\<lambda>(i, v). (i, gp_Username v)) q = map (\<lambda>(i, v). (i, dp_Username v)) dq"
      "Threshold ?p \<le> int (count_vals signed q)"
    by (auto simp: signing_some_def signing_complete_def signing_matches_def quorum_defs
        split: option.splits)
  from base obtain sq where sq: "sig_quorum ?p = Some sq" "keys dq = keys sq"
    using q(2) by (auto elim!: dkg_matches_quorum)
  have len: "length dq = length sq" "length q = length dq"
    using arg_cong[OF sq(2), of length] arg_cong[OF q(3), of length] by simp_all
  have "2 \<le> Threshold ?p" "Threshold ?p \<le> int (length sq)"
    using base sq(1) by (simp_all add: roster_ok_def)
  with q len show ?thesis by (auto simp: count_vals_def signed_def [abs_def])
qed

theorem collected_reached_threshold_witness:
  "\<exists>q dq. signing_quorum (dump_Payload sample_signed) = Some q \<and>
    dkg_quorum (dump_Payload sample_signed) = Some dq \<and>
    map (\<lambda>(i, v). (i, gp_Username v)) q = map (\<lambda>(i, v). (i, dp_Username v)) dq \<and>
    2 \<le> Threshold (dump_Payload sample_signed) \<and>
    Threshold (dump_Payload sample_signed) \<le> int (length q) \<and>
    Threshold (dump_Payload sample_signed) \<le>
      int (length (filter (\<lambda>v. entries (gp_PartialSigns v) \<noteq> []) (map snd q)))"
  by (rule collected_reached_threshold[OF sample_signed_reachable]) (simp add: sample_defs)

section \<open>Consent and membership\<close>

text \<open>
  C3: A DKG is only ever started with unanimous consent: in every reachable round that has a DKG
  payload, every participant of the proposal has confirmed it, and the participants of the DKG,
  with their numbers, usernames and DKG keys, are exactly those of the proposal.
\<close>

theorem dkg_by_consent:
  assumes "round_reachable d" and "DKGProposalPayload (dump_Payload d) \<noteq> None"
  shows "\<exists>q dq. sig_quorum (dump_Payload d) = Some q \<and> dkg_quorum (dump_Payload d) = Some dq \<and>
    list_all (\<lambda>v. sp_Status v = SigConfirmationConfirmed) (map snd q) \<and>
    map (\<lambda>(i, v). (i, dp_Username v, dp_DkgPubKey v)) dq =
      map (\<lambda>(i, v). (i, sp_Username v, sp_DkgPubKey v)) q"
  by (rule dkg_consent[OF reachable_inv(1)[OF assms(1)] assms(2)])

theorem dkg_by_consent_witness:
  "\<exists>q dq. sig_quorum (dump_Payload sample_commits) = Some q \<and>
    dkg_quorum (dump_Payload sample_commits) = Some dq \<and>
    list_all (\<lambda>v. sp_Status v = SigConfirmationConfirmed) (map snd q) \<and>
    map (\<lambda>(i, v). (i, dp_Username v, dp_DkgPubKey v)) dq =
      map (\<lambda>(i, v). (i, sp_Username v, sp_DkgPubKey v)) q"
  by (rule dkg_by_consent[OF sample_commits_reachable]) (simp add: sample_defs)

lemma round_step_kept:
  assumes "round_reachable d" and "round_step d e args d'" and "dump_State d \<noteq> StateGlobalIdle"
  shows "same_roster (dump_Payload d) (dump_Payload d') \<and> TransactionId d' = TransactionId d"
proof -
  note inv = reachable_inv(1)[OF assms(1)]
  from assms(2) obtain m r g p' where m: "machine_of (dump_State d) = Some m"
    and res: "FSM_Do e args (in_state m (dump_State d)) (dump_Payload d) = Inr ((Some r, None), g, p')"
    and d': "dump_Payload d' = p'" "TransactionId d' = TransactionId d" by (rule round_step_obtain)
  from m show ?thesis
  proof (cases rule: machine_of_cases)
    case 1
    with sig_kept[OF inv, of e args r g p'] res assms(3) d' show ?thesis by simp
  next
    case 2
    with dkg_kept[OF inv, of e args r g p'] res assms(3) d' show ?thesis by simp
  next
    case 3
    with signing_kept[OF inv, of e args r g p'] res d' show ?thesis by simp
  qed
qed

text \<open>
  C18: The initial proposal fixes the members for good: after it, no event of any of the three
  machines changes the identifier of the round, the threshold, the public keys by username or the
  participant numbers by username.
\<close>

theorem membership_fixed:
  assumes "round_reachable d" and "round_step d e args d'" and "dump_State d \<noteq> StateGlobalIdle"
  shows "TransactionId d' = TransactionId d \<and> DkgId (dump_Payload d') = DkgId (dump_Payload d) \<and>
    Threshold (dump_Payload d') = Threshold (dump_Payload d) \<and>
    PubKeys (dump_Payload d') = PubKeys (dump_Payload d) \<and>
    IDs (dump_Payload d') = IDs (dump_Payload d)"
  using round_step_kept[OF assms] by simp

theorem membership_fixed_witness:
  "TransactionId sample_idle = TransactionId sample_master \<and>
    DkgId (dump_Payload sample_idle) = DkgId (dump_Payload sample_master) \<and>
    Threshold (dump_Payload sample_idle) = Threshold (dump_Payload sample_master) \<and>
    PubKeys (dump_Payload sample_idle) = PubKeys (dump_Payload sample_master) \<and>
    IDs (dump_Payload sample_idle) = IDs (dump_Payload sample_master)"
  by (rule membership_fixed[OF sample_master_reachable sample_idle_step])
     (simp add: sample_defs names_neq)

text \<open>
  In every reachable round the two lookups by username that the node uses to authenticate
  messages agree with the quorum: for the participant stored under number \<open>i\<close> they return its
  public key and \<open>i\<close>.
\<close>

theorem lookups_agree:
  assumes "round_reachable d" and "sig_quorum (dump_Payload d) = Some q" and "map_of q i = Some v"
  shows "FSMInstance_GetPubKeyByUsername \<lparr>fi_machine = m, fi_dump = Some d\<rparr> (sp_Username v) =
      Inr (sp_PubKey v) \<and>
    FSMInstance_GetIDByUsername \<lparr>fi_machine = m, fi_dump = Some d\<rparr> (sp_Username v) = Inr i"
proof -
  have "dump_State d \<noteq> StateGlobalIdle"
    using reachable_inv(1)[OF assms(1)] assms(2)
    by (auto simp: payload_inv_def fresh_payload_def sig_quorum_def bind_eq_Some_conv)
       (metis DumpedMachineStatePayload.select_convs(3) option.distinct(1))
  then have "roster_ok (dump_Payload d)"
    using reachable_inv(1)[OF assms(1)] by (simp add: payload_inv_def)
  from roster_lookup[OF this assms(2,3)] show ?thesis
    by (simp add: FSMInstance_GetPubKeyByUsername_def FSMInstance_GetIDByUsername_def)
qed

theorem lookups_agree_witness:
  "FSMInstance_GetPubKeyByUsername \<lparr>fi_machine = None, fi_dump = Some sample_awaiting\<rparr> ''bob'' =
      Inr (sample_key 3) \<and>
    FSMInstance_GetIDByUsername \<lparr>fi_machine = None, fi_dump = Some sample_awaiting\<rparr> ''bob'' = Inr 1"
proof -
  obtain q where q: "sig_quorum (dump_Payload sample_awaiting) = Some q"
    by (simp add: sample_defs sig_quorum_def)
  then obtain v where "map_of q 1 = Some v" "sp_Username v = ''bob''" "sp_PubKey v = sample_key 3"
    by (auto simp: sample_defs sig_quorum_def)
  with lookups_agree[OF sample_awaiting_reachable q this(1), of None] show ?thesis by simp
qed

section \<open>Progress of a round\<close>

text \<open>
  C16: No event makes a reachable round panic: whatever event and arguments arrive, as long as no
  participant of an initial request is a nil pointer, the loaded instance answers with a response
  or an error.
\<close>

theorem round_never_panics:
  assumes "round_reachable d" and "no_nil_participant args"
    and "FromDump (DumpJSON d) = Inr (Inr i)"
  shows "\<exists>resp data err i'. FSMInstance_Do e args i = Inr ((resp, data, err), i')"
  using reachable_no_panic[OF assms, of e] by (metis surj_pair)

theorem round_never_panics_witness:
  "\<exists>i. FromDump (DumpJSON sample_batch) = Inr (Inr i) \<and>
    (\<exists>resp data err i'. FSMInstance_Do EventSigningPartialSignError [sign_error 7 None 0] i =
      Inr ((resp, data, err), i'))"
proof -
  have "machine_of StateSigningAwaitPartialSigns = Some signing_fsm"
    by (rule machine_of_signing) (simp add: signing_lists)
  then obtain i where i: "FromDump (DumpJSON sample_batch) = Inr (Inr i)"
    by (auto simp: FromDump_eq sample_defs)
  from round_never_panics[OF sample_batch_reachable _ i, of "[sign_error 7 None 0]"] i
  show ?thesis by (auto simp: no_nil_participant_def)
qed

text \<open>
  C19: A reachable round survives a restart of the node exactly when it is not in one of the six
  states below: its dump then loads into an instance in the same state that dumps to the same
  data.  In those six states (the proposal was declined or timed out, or a stage of the DKG timed
  out) loading fails with an error.
\<close>

theorem reload_iff_live:
  assumes "round_reachable d"
  shows "(if dump_State d \<in> set [StateValidationCanceledByParticipant,
        StateValidationCanceledByTimeout, StateDkgCommitsAwaitCanceledByTimeout,
        StateDkgDealsAwaitCanceledByTimeout, StateDkgResponsesAwaitCanceledByTimeout,
        StateDkgMasterKeyAwaitCanceledByTimeout]
      then FromDump (DumpJSON d) = Inr (Inl (errorsNew ''cannot init machine for state''))
      else \<exists>i. FromDump (DumpJSON d) = Inr (Inr i) \<and> FSMInstance_State i = Inr (dump_State d) \<and>
        FSMInstance_Id i = TransactionId d \<and> FSMInstance_Dump i = Inr (DumpJSON d))"
proof -
  note live = machine_of_live[OF reachable_inv(1)[OF assms], unfolded dead_states_def]
  show ?thesis
  proof (cases "machine_of (dump_State d)")
    case None
    then show ?thesis using live by (simp add: FromDump_eq)
  next
    case (Some m)
    then have "dump_State d \<notin> set [StateValidationCanceledByParticipant,
        StateValidationCanceledByTimeout, StateDkgCommitsAwaitCanceledByTimeout,
        StateDkgDealsAwaitCanceledByTimeout, StateDkgResponsesAwaitCanceledByTimeout,
        StateDkgMasterKeyAwaitCanceledByTimeout]" using live by simp
    with Some reachable_json[OF assms] show ?thesis
      by (simp add: FromDump_eq FSMInstance_State_def FSMInstance_Id_def FSMInstance_Dump_def
          currentState_def)
  qed
qed

lemma sample_declined_run:
  "map_option dump_State (round_exec sample_awaiting [(EventDeclineProposal, [sig_reply 1 3])]) =
     Some StateValidationCanceledByParticipant"
  by code_simp

theorem reload_iff_live_witness:
  "(\<exists>i. FromDump (DumpJSON sample_deals) = Inr (Inr i) \<and>
      FSMInstance_Dump i = Inr (DumpJSON sample_deals)) \<and>
   (\<exists>d. dump_State d = StateValidationCanceledByParticipant \<and> round_reachable d \<and>
      FromDump (DumpJSON d) = Inr (Inl (errorsNew ''cannot init machine for state'')))"
proof (rule conjI)
  show "\<exists>i. FromDump (DumpJSON sample_deals) = Inr (Inr i) \<and>
      FSMInstance_Dump i = Inr (DumpJSON sample_deals)"
    using reload_iff_live[OF sample_deals_reachable] by (auto simp: sample_defs names_neq)
next
  from sample_declined_run obtain d where
    d: "round_exec sample_awaiting [(EventDeclineProposal, [sig_reply 1 3])] = Some d"
      "dump_State d = StateValidationCanceledByParticipant" by (auto simp: map_option_case split: option.splits)
  have "round_reachable d" by (rule round_exec_reachable[OF sample_awaiting_reachable d(1)])
  with reload_iff_live[OF this] d(2)
  show "\<exists>d. dump_State d = StateValidationCanceledByParticipant \<and> round_reachable d \<and>
      FromDump (DumpJSON d) = Inr (Inl (errorsNew ''cannot init machine for state''))"
    by auto
qed

text \<open>
  A batch never times out: although the batch has a deadline, no event, however late, takes a
  reachable round from awaiting partial signatures to the timeout state (the reply handlers record
  the time of the reply with the signature proposal, not with the batch).
\<close>

theorem batch_never_times_out:
  assumes "round_reachable d" and "dump_State d = StateSigningAwaitPartialSigns"
    and "SigningProposalPayload (dump_Payload d) = Some c" and "0 \<le> gc_ExpiresAt c"
    and "round_step d e args d'"
  shows "dump_State d' \<noteq> StateSigningPartialSignsAwaitCancelledByTimeout"
proof -
  from assms(5) obtain m r g p' where m: "machine_of (dump_State d) = Some m"
    and res: "FSM_Do e args (in_state m (dump_State d)) (dump_Payload d) = Inr ((Some r, None), g, p')"
    and d': "dump_State d' = resp_State r" by (rule round_step_obtain)
  have "finished (dump_State d)" by (simp add: finished_def signing_states_def assms(2))
  then have "m = signing_fsm" using m finished_machine by simp
  with res have "FSM_Do e args (in_state signing_fsm StateSigningAwaitPartialSigns) (dump_Payload d) =
      Inr ((Some r, None), g, p')" by (simp add: assms(2))
  from signing_no_timeout[OF reachable_inv(1)[OF assms(1), unfolded assms(2)] assms(3,4) this] d'
  show ?thesis by simp
qed

lemma sample_late_run:
  "\<not> Option.is_none
     (round_next sample_batch EventSigningPartialSignReceived [sample_sign 1 6 31536000000000000])"
  by code_simp

theorem batch_never_times_out_witness:
  "\<exists>d. round_step sample_batch EventSigningPartialSignReceived
      [sample_sign 1 6 31536000000000000] d \<and>
    dump_State d \<noteq> StateSigningPartialSignsAwaitCancelledByTimeout"
proof -
  from sample_late_run obtain d where
    d: "round_step sample_batch EventSigningPartialSignReceived [sample_sign 1 6 31536000000000000] d"
    by (auto simp: round_next_step Option.is_none_def)
  obtain c where "SigningProposalPayload (dump_Payload sample_batch) = Some c" "0 \<le> gc_ExpiresAt c"
    by (simp add: sample_defs)
  from batch_never_times_out[OF sample_batch_reachable _ this d] d show ?thesis
    by (auto simp: sample_defs)
qed

text \<open>
  A proposal whose deadline falls after the year 9999 is lost: the event succeeds without an
  error, but the returned dump is empty because the deadline has no JSON form, and an empty dump
  cannot be loaded.
\<close>

theorem late_deadline_loses_dump:
  assumes "Create dkgID = Inr (Inr i)"
    and "SignatureProposalParticipantsListRequest_Validate r = Inr None"
    and "3652059 * day \<le> pl_CreatedAt r + SignatureProposalConfirmationDeadline"
  shows "\<exists>resp i'. FSMInstance_Do EventInitProposal [ReqSigInit r] i =
      Inr ((Some resp, DumpEmpty, None), i') \<and>
    resp_State resp = StateAwaitParticipantsConfirmations \<and>
    FromDump DumpEmpty = Inr (Inl (errorsNew ''machine dump is empty''))"
proof -
  from assms(2) obtain ps where ps: "pl_Participants r = map Some ps" by (auto simp: sig_init_valid_iff)
  from assms(1) obtain d where i: "i = \<lparr>fi_machine = Some (in_state sig_fsm StateGlobalIdle), fi_dump = Some d\<rparr>"
    and p: "dump_Payload d = fresh_payload (TrimSpace dkgID)"
    by (auto simp: Create_eq split: if_splits)
  let ?p = "sig_init_payload r ps (fresh_payload (TrimSpace dkgID))"
  have "PubKeys (dump_Payload d) = None" "IDs (dump_Payload d) = None"
    by (simp_all add: p fresh_payload_def)
  note run = sig_init_Do[OF assms(2) ps this refl, unfolded p]
  have t: "\<not> time_json (pl_CreatedAt r + SignatureProposalConfirmationDeadline)"
    "\<not> pl_CreatedAt r + SignatureProposalConfirmationDeadline < 0"
    using assms(3) by (auto simp: time_json_def day_def hour_def)
  then have "\<not> list_all time_json (payload_times ?p)"
    by (simp add: payload_times_def sig_init_payload_def sig_times_def)
  with run t(2) show ?thesis
    by (simp add: FSMInstance_Do_def i p Let_def Marshal_def FromDump_def)
qed

theorem late_deadline_loses_dump_witness:
  "\<exists>i resp i'. Create ''round'' = Inr (Inr i) \<and>
    FSMInstance_Do EventInitProposal
      [ReqSigInit (sample_init\<lparr>pl_CreatedAt := 3652058 * day\<rparr>)] i =
      Inr ((Some resp, DumpEmpty, None), i')"
proof -
  obtain i where i: "Create ''round'' = Inr (Inr i)" by (simp add: Create_eq sample_trim)
  have "SignatureProposalParticipantsListRequest_Validate
      (sample_init\<lparr>pl_CreatedAt := 3652058 * day\<rparr>) = Inr None" by code_simp
  from late_deadline_loses_dump[OF i this] i show ?thesis
    by (auto simp: config_defs day_def hour_def)
qed

end
